(* ===== verification/Prelude.thy ===== *)
theory Prelude
  imports Main "HOL-Library.Word" "HOL-Library.AList" "HOL-Library.Code_Target_Nat"
begin

text \<open>
  Shared vocabulary of the development. A Go \<open>string\<close> and a Go \<open>[]byte\<close> are both sequences of
  bytes, so both are HOL's \<open>string\<close>, a list of 8-bit \<open>char\<close>s; conversions between them are the
  identity, and \<open>len\<close> is \<open>length\<close>. A fallible operation returns \<open>'e + 'a\<close>, \<open>Inl\<close> the error.
  Instants and durations are \<open>int\<close> counts of nanoseconds, with Go's saturation and wrap-around
  written out where a computation can reach them.
\<close>

type_synonym bytes = "char list"
type_synonym ('e, 'a) result = "'e + 'a"

named_theorems go_defs \<open>definitions of the program's operations\<close>
named_theorems accepts \<open>what a successful run of an operation implies\<close>

section \<open>Sequencing of fallible operations\<close>

definition rbind :: "'e + 'a \<Rightarrow> ('a \<Rightarrow> 'e + 'b) \<Rightarrow> 'e + 'b" where
  "rbind m f = (case m of Inl e \<Rightarrow> Inl e | Inr x \<Rightarrow> f x)"

lemma rbind_Inl [simp]: "rbind (Inl e) f = Inl e"
  by (simp add: rbind_def)

lemma rbind_Inr [simp]: "rbind (Inr x) f = f x"
  by (simp add: rbind_def)

lemma rbind_eq_Inr_iff [simp]: "rbind m f = Inr y \<longleftrightarrow> (\<exists>x. m = Inr x \<and> f x = Inr y)"
  by (cases m) simp_all

lemma rbind_eq_Inl_iff: "rbind m f = Inl e \<longleftrightarrow> m = Inl e \<or> (\<exists>x. m = Inr x \<and> f x = Inl e)"
  by (cases m) simp_all

lemma rbind_cong [fundef_cong]:
  "m = m' \<Longrightarrow> (\<And>x. m' = Inr x \<Longrightarrow> f x = f' x) \<Longrightarrow> rbind m f = rbind m' f'"
  by (cases m') simp_all

definition map_error :: "('e \<Rightarrow> 'f) \<Rightarrow> 'e + 'a \<Rightarrow> 'f + 'a" where
  "map_error g m = (case m of Inl e \<Rightarrow> Inl (g e) | Inr x \<Rightarrow> Inr x)"

lemma map_error_simps [simp]:
  "map_error g (Inl e) = Inl (g e)"
  "map_error g (Inr x) = Inr x"
  by (simp_all add: map_error_def)

lemma map_error_eq_Inr_iff [simp]: "map_error g m = Inr y \<longleftrightarrow> m = Inr y"
  by (cases m) simp_all

definition from_option :: "'e \<Rightarrow> 'a option \<Rightarrow> 'e + 'a" where
  "from_option e m = (case m of None \<Rightarrow> Inl e | Some x \<Rightarrow> Inr x)"

lemma from_option_simps [simp]:
  "from_option e None = Inl e"
  "from_option e (Some x) = Inr x"
  by (simp_all add: from_option_def)

lemma from_option_eq_Inr_iff [simp]: "from_option e m = Inr y \<longleftrightarrow> m = Some y"
  by (cases m) simp_all

definition is_ok :: "'e + 'a \<Rightarrow> bool" where
  "is_ok m = (case m of Inl _ \<Rightarrow> False | Inr _ \<Rightarrow> True)"

lemma is_ok_simps [simp]:
  "\<not> is_ok (Inl e)"
  "is_ok (Inr x)"
  by (simp_all add: is_ok_def)

text \<open>A pipeline of guards and steps succeeds exactly when each of them does.\<close>

lemma guard_eq_Inr: "(case g of None \<Rightarrow> m | Some e \<Rightarrow> Inl (k e)) = Inr r \<longleftrightarrow> g = None \<and> m = Inr r"
  by (cases g) simp_all

lemma need_eq_Inr: "(case g of None \<Rightarrow> Inl e | Some x \<Rightarrow> f x) = Inr r \<longleftrightarrow> (\<exists>x. g = Some x \<and> f x = Inr r)"
  by (cases g) simp_all

lemma if_Inl_eq_Inr: "(if b then Inl e else m) = Inr r \<longleftrightarrow> \<not> b \<and> m = Inr r"
  by simp

lemma case_prod_eq_Inr: "(case x of (a, b) \<Rightarrow> f a b) = Inr r \<longleftrightarrow> (\<exists>a b. x = (a, b) \<and> f a b = Inr r)"
  by (cases x) simp

lemmas pipeline_Inr = guard_eq_Inr need_eq_Inr if_Inl_eq_Inr case_prod_eq_Inr rbind_eq_Inr_iff

section \<open>Lists\<close>

lemma list_all_filter: "list_all P xs \<Longrightarrow> filter P xs = xs"
  by (simp add: list_all_iff filter_id_conv)

lemma take_append_length [simp]: "take (length xs) (xs @ ys) = xs"
  by simp

lemma find_Some_iff_set: "find P xs = Some x \<Longrightarrow> x \<in> set xs \<and> P x"
  by (auto simp: find_Some_iff)

section \<open>Association lists\<close>

lemma length_update_le: "length (AList.update k e m) \<le> Suc (length m)"
  by (induction m) auto

lemma update_fresh: "map_of ks k = None \<Longrightarrow> AList.update k v ks = ks @ [(k, v)]"
  by (induction ks) (auto split: if_splits)

end
