(* ===== verification/Go_Strings.thy ===== *)
theory Go_Strings
  imports Prelude
begin

text \<open>
  The functions of Go's \<open>strings\<close>, \<open>strconv\<close> and \<open>fmt\<close> packages that the program uses, on byte
  strings. \<open>strings.ToLower\<close> and \<open>strings.EqualFold\<close> treat ASCII text byte by byte and hand
  anything else to the Unicode tables; the record \<open>unicode\<close> holds those two table-driven parts as
  parameters of the model, in the position where the standard library calls them. Every other
  function is written out in full.
\<close>

section \<open>Prefixes, suffixes, cutting\<close>

fun has_prefix :: "string \<Rightarrow> string \<Rightarrow> bool" where
  "has_prefix s [] = True"
| "has_prefix [] (p # ps) = False"
| "has_prefix (c # cs) (p # ps) = (c = p \<and> has_prefix cs ps)"

definition has_suffix :: "string \<Rightarrow> string \<Rightarrow> bool" where
  "has_suffix s p = has_prefix (rev s) (rev p)"

definition cut_prefix :: "string \<Rightarrow> string \<Rightarrow> string option" where
  "cut_prefix s p = (if has_prefix s p then Some (drop (length p) s) else None)"

definition trim_prefix :: "string \<Rightarrow> string \<Rightarrow> string" where
  "trim_prefix s p = (if has_prefix s p then drop (length p) s else s)"

definition trim_suffix :: "string \<Rightarrow> string \<Rightarrow> string" where
  "trim_suffix s p = (if has_suffix s p then take (length s - length p) s else s)"

lemma has_prefix_iff: "has_prefix s p \<longleftrightarrow> (\<exists>r. s = p @ r)"
  by (induction s p rule: has_prefix.induct) auto

lemma has_prefix_append [simp]: "has_prefix (p @ r) p"
  by (auto simp: has_prefix_iff)

lemma has_suffix_iff: "has_suffix s p \<longleftrightarrow> (\<exists>r. s = r @ p)"
proof
  assume "has_suffix s p"
  then obtain r where "rev s = rev p @ r"
    by (auto simp: has_suffix_def has_prefix_iff)
  then have "s = rev r @ p"
    by (metis rev_append rev_rev_ident)
  then show "\<exists>r. s = r @ p" ..
qed (auto simp: has_suffix_def has_prefix_iff)

lemma cut_prefix_append [simp]: "cut_prefix (p @ r) p = Some r"
  by (simp add: cut_prefix_def)

lemma cut_prefix_eq_Some_iff: "cut_prefix s p = Some r \<longleftrightarrow> s = p @ r"
  by (auto simp: cut_prefix_def has_prefix_iff)

lemma trim_prefix_append [simp]: "trim_prefix (p @ r) p = r"
  by (simp add: trim_prefix_def)

lemma trim_suffix_append [simp]: "trim_suffix (r @ p) p = r"
  by (auto simp: trim_suffix_def has_suffix_iff)

lemma trim_suffix_id: "\<not> has_suffix s p \<Longrightarrow> trim_suffix s p = s"
  by (simp add: trim_suffix_def)

section \<open>Splitting at a one-byte separator\<close>

text \<open>\<open>strings.Split\<close> and \<open>strings.SplitSeq\<close>: a non-empty list of the parts.\<close>

fun split_on :: "char \<Rightarrow> string \<Rightarrow> string list" where
  "split_on c [] = [[]]"
| "split_on c (x # xs) =
     (if x = c then [] # split_on c xs
      else (case split_on c xs of [] \<Rightarrow> [[x]] | p # ps \<Rightarrow> (x # p) # ps))"

text \<open>\<open>strings.Cut\<close> at a one-byte separator: the text before and after its first occurrence.\<close>

fun cut_at :: "char \<Rightarrow> string \<Rightarrow> (string \<times> string) option" where
  "cut_at c [] = None"
| "cut_at c (x # xs) =
     (if x = c then Some ([], xs)
      else (case cut_at c xs of None \<Rightarrow> None | Some (a, b) \<Rightarrow> Some (x # a, b)))"

text \<open>\<open>strings.SplitN\<close>: at most \<open>n\<close> parts, the last one unsplit.\<close>

fun split_n :: "nat \<Rightarrow> char \<Rightarrow> string \<Rightarrow> string list" where
  "split_n 0 c s = []"
| "split_n (Suc 0) c s = [s]"
| "split_n (Suc (Suc n)) c s =
     (case cut_at c s of None \<Rightarrow> [s] | Some (a, b) \<Rightarrow> a # split_n (Suc n) c b)"

fun join_with :: "string \<Rightarrow> string list \<Rightarrow> string" where
  "join_with sep [] = []"
| "join_with sep [p] = p"
| "join_with sep (p # q # ps) = p @ sep @ join_with sep (q # ps)"

lemma split_on_not_Nil [simp]: "split_on c s \<noteq> []"
  by (induction s) (auto split: list.splits)

lemma split_on_no_sep: "c \<notin> set s \<Longrightarrow> split_on c s = [s]"
  by (induction s) auto

lemma split_on_append: "c \<notin> set p \<Longrightarrow> split_on c (p @ c # r) = p # split_on c r"
  by (induction p) auto

lemma split_on_parts: "p \<in> set (split_on c s) \<Longrightarrow> c \<notin> set p"
proof (induction s arbitrary: p)
  case (Cons x xs)
  then show ?case
    by (cases "split_on c xs") (auto split: if_splits)
qed simp

lemma set_split_on: "p \<in> set (split_on c s) \<Longrightarrow> set p \<subseteq> set s"
proof (induction s arbitrary: p)
  case (Cons x xs)
  then show ?case
    by (cases "split_on c xs") (fastforce split: if_splits)+
qed simp

lemma join_with_Cons: "ps \<noteq> [] \<Longrightarrow> join_with sep (p # ps) = p @ sep @ join_with sep ps"
  by (cases ps) auto

lemma join_with_Cons_head: "join_with sep ((x # p) # ps) = x # join_with sep (p # ps)"
  by (cases ps) auto

lemma join_split_on [simp]: "join_with [c] (split_on c s) = s"
proof (induction s)
  case (Cons x xs)
  show ?case
  proof (cases "x = c")
    case True
    with Cons show ?thesis by (simp add: join_with_Cons)
  next
    case False
    obtain p ps where ps: "split_on c xs = p # ps"
      by (cases "split_on c xs") auto
    with Cons False show ?thesis by (simp add: join_with_Cons_head)
  qed
qed simp

lemma cut_at_append [simp]: "c \<notin> set p \<Longrightarrow> cut_at c (p @ c # r) = Some (p, r)"
  by (induction p) auto

lemma cut_at_None_iff: "cut_at c s = None \<longleftrightarrow> c \<notin> set s"
  by (induction s) (auto split: option.splits)

lemma cut_at_SomeD: "cut_at c s = Some (a, b) \<Longrightarrow> s = a @ c # b \<and> c \<notin> set a"
  by (induction s arbitrary: a b) (auto split: if_splits option.splits)

lemma split_n_step: "c \<notin> set p \<Longrightarrow> split_n (Suc (Suc n)) c (p @ c # r) = p # split_n (Suc n) c r"
  by simp

lemma split_n_length: "length (split_n n c s) \<le> n"
  by (induction n c s rule: split_n.induct) (auto split: option.splits)

section \<open>Substrings\<close>

text \<open>\<open>bytes.Index\<close>/\<open>strings.Cut\<close> with a separator of any length.\<close>

fun cut_sub :: "string \<Rightarrow> string \<Rightarrow> (string \<times> string) option" where
  "cut_sub sep [] = (if sep = [] then Some ([], []) else None)"
| "cut_sub sep (x # xs) =
     (if has_prefix (x # xs) sep then Some ([], drop (length sep) (x # xs))
      else (case cut_sub sep xs of None \<Rightarrow> None | Some (a, b) \<Rightarrow> Some (x # a, b)))"

fun contains_sub :: "string \<Rightarrow> string \<Rightarrow> bool" where
  "contains_sub [] p = (p = [])"
| "contains_sub (x # xs) p = (has_prefix (x # xs) p \<or> contains_sub xs p)"

lemma cut_sub_SomeD: "cut_sub sep s = Some (a, b) \<Longrightarrow> s = a @ sep @ b"
proof (induction s arbitrary: a b)
  case Nil
  then show ?case by (auto split: if_splits)
next
  case (Cons x xs)
  show ?case
  proof (cases "has_prefix (x # xs) sep")
    case True
    with Cons.prems show ?thesis by (auto simp: has_prefix_iff)
  next
    case False
    with Cons show ?thesis by (auto split: option.splits)
  qed
qed

section \<open>White space\<close>

text \<open>
  \<open>strings.TrimSpace\<close> removes the code points with Unicode's White Space property, listed here as
  their UTF-8 encodings. Trimming works on whole encodings from either end, as the decoder of the
  first or of the last rune does.
\<close>

definition space_encodings :: "string list" where
  "space_encodings =
     [[CHR 0x09], [CHR 0x0A], [CHR 0x0B], [CHR 0x0C], [CHR 0x0D], [CHR 0x20],
      [CHR 0xC2, CHR 0x85], [CHR 0xC2, CHR 0xA0], [CHR 0xE1, CHR 0x9A, CHR 0x80],
      [CHR 0xE2, CHR 0x80, CHR 0x80], [CHR 0xE2, CHR 0x80, CHR 0x81],
      [CHR 0xE2, CHR 0x80, CHR 0x82], [CHR 0xE2, CHR 0x80, CHR 0x83],
      [CHR 0xE2, CHR 0x80, CHR 0x84], [CHR 0xE2, CHR 0x80, CHR 0x85],
      [CHR 0xE2, CHR 0x80, CHR 0x86], [CHR 0xE2, CHR 0x80, CHR 0x87],
      [CHR 0xE2, CHR 0x80, CHR 0x88], [CHR 0xE2, CHR 0x80, CHR 0x89],
      [CHR 0xE2, CHR 0x80, CHR 0x8A], [CHR 0xE2, CHR 0x80, CHR 0xA8],
      [CHR 0xE2, CHR 0x80, CHR 0xA9], [CHR 0xE2, CHR 0x80, CHR 0xAF],
      [CHR 0xE2, CHR 0x81, CHR 0x9F], [CHR 0xE3, CHR 0x80, CHR 0x80]]"

fun trim_left_fuel :: "string list \<Rightarrow> nat \<Rightarrow> string \<Rightarrow> string" where
  "trim_left_fuel encs 0 s = s"
| "trim_left_fuel encs (Suc n) s =
     (case find (has_prefix s) encs of None \<Rightarrow> s | Some e \<Rightarrow> trim_left_fuel encs n (drop (length e) s))"

text \<open>Every step drops at least one byte, so the length of the string is enough fuel.\<close>

definition trim_left :: "string list \<Rightarrow> string \<Rightarrow> string" where
  "trim_left encs s = trim_left_fuel encs (length s) s"

definition trim_space :: "string \<Rightarrow> string" where
  "trim_space s = rev (trim_left (map rev space_encodings) (rev (trim_left space_encodings s)))"

lemma trim_left_fuel_done:
  "length s \<le> n \<Longrightarrow> [] \<notin> set encs \<Longrightarrow> find (has_prefix (trim_left_fuel encs n s)) encs = None"
proof (induction n arbitrary: s)
  case 0
  have "\<And>e. e \<in> set encs \<Longrightarrow> \<not> has_prefix [] e"
    using 0 by (metis has_prefix.simps(2) list.exhaust)
  with 0 show ?case by (simp add: find_None_iff)
next
  case (Suc n)
  show ?case
  proof (cases "find (has_prefix s) encs")
    case (Some e)
    then have e: "e \<in> set encs" "has_prefix s e"
      by (auto simp: find_Some_iff)
    with Suc.prems(2) have "e \<noteq> []" by auto
    then have "length (drop (length e) s) \<le> n"
      using Suc.prems(1) by (cases e) auto
    with Suc.IH Suc.prems(2) Some show ?thesis by simp
  qed simp
qed

lemma trim_left_done: "[] \<notin> set encs \<Longrightarrow> find (has_prefix (trim_left encs s)) encs = None"
  by (simp add: trim_left_def trim_left_fuel_done)

section \<open>Letter case\<close>

record unicode =
  uni_lower :: "string \<Rightarrow> string"
    \<comment> \<open>\<open>strings.Map(unicode.ToLower, s)\<close>, reached for a string with a byte above 0x7F\<close>
  uni_fold :: "string \<Rightarrow> string \<Rightarrow> bool"
    \<comment> \<open>the \<open>hasUnicode\<close> part of \<open>strings.EqualFold\<close>, reached at the first byte above 0x7F\<close>

definition byte_val :: "char \<Rightarrow> nat" where
  "byte_val c = of_char c"

definition is_ascii :: "string \<Rightarrow> bool" where
  "is_ascii s = list_all (\<lambda>c. byte_val c < 128) s"

definition is_upper :: "char \<Rightarrow> bool" where
  "is_upper c = (65 \<le> byte_val c \<and> byte_val c \<le> 90)"

definition ascii_lower :: "char \<Rightarrow> char" where
  "ascii_lower c = (if is_upper c then char_of (byte_val c + 32) else c)"

definition to_lower :: "unicode \<Rightarrow> string \<Rightarrow> string" where
  "to_lower u s = (if is_ascii s then map ascii_lower s else uni_lower u s)"

text \<open>
  The loop of \<open>strings.EqualFold\<close>: bytes must be equal, or the upper and lower case of one ASCII
  letter; at the end of the shorter string the lengths must agree.
\<close>

fun equal_fold :: "unicode \<Rightarrow> string \<Rightarrow> string \<Rightarrow> bool" where
  "equal_fold u [] t = (t = [])"
| "equal_fold u (x # xs) [] = False"
| "equal_fold u (x # xs) (y # ys) =
     (if 128 \<le> byte_val x \<or> 128 \<le> byte_val y then uni_fold u (x # xs) (y # ys)
      else if x = y then equal_fold u xs ys
      else if is_upper x \<and> byte_val y = byte_val x + 32 then equal_fold u xs ys
      else if is_upper y \<and> byte_val x = byte_val y + 32 then equal_fold u xs ys
      else False)"

lemma byte_val_char_of [simp]: "n < 256 \<Longrightarrow> byte_val (char_of n) = n"
  by (simp add: byte_val_def)

lemma char_of_byte_val [simp]: "char_of (byte_val c) = c"
  by (simp add: byte_val_def)

lemma byte_val_less [simp]: "byte_val c < 256"
proof -
  have "byte_val c = of_char c mod 256"
    by (simp add: byte_val_def)
  also have "\<dots> < 256" by simp
  finally show ?thesis .
qed

lemma byte_val_eq_iff: "byte_val a = byte_val b \<longleftrightarrow> a = b"
  by (metis char_of_byte_val)

lemma byte_val_ascii_lower:
  "byte_val (ascii_lower c) = (if is_upper c then byte_val c + 32 else byte_val c)"
  by (simp add: ascii_lower_def is_upper_def)

lemma ascii_lower_idem [simp]: "ascii_lower (ascii_lower c) = ascii_lower c"
  by (simp add: ascii_lower_def is_upper_def)

lemma is_ascii_lower [simp]: "is_ascii (map ascii_lower s) \<longleftrightarrow> is_ascii s"
proof -
  have "byte_val (ascii_lower c) < 128 \<longleftrightarrow> byte_val c < 128" for c
    by (simp add: byte_val_ascii_lower is_upper_def)
  then show ?thesis
    by (simp add: is_ascii_def list_all_iff)
qed

lemma to_lower_idem: "is_ascii s \<Longrightarrow> to_lower u (to_lower u s) = to_lower u s"
  by (simp add: to_lower_def comp_def)

lemma ascii_lower_eq_iff:
  "ascii_lower x = ascii_lower y \<longleftrightarrow>
     x = y \<or> (is_upper x \<and> byte_val y = byte_val x + 32) \<or> (is_upper y \<and> byte_val x = byte_val y + 32)"
proof -
  have "ascii_lower x = ascii_lower y \<longleftrightarrow> byte_val (ascii_lower x) = byte_val (ascii_lower y)"
    by (simp add: byte_val_eq_iff)
  also have "\<dots> \<longleftrightarrow> byte_val x = byte_val y \<or> (is_upper x \<and> byte_val y = byte_val x + 32)
      \<or> (is_upper y \<and> byte_val x = byte_val y + 32)"
    unfolding byte_val_ascii_lower is_upper_def by auto
  finally show ?thesis by (simp add: byte_val_eq_iff)
qed

text \<open>On ASCII text case folding is equality of the lowered strings, whatever the Unicode tables.\<close>

lemma equal_fold_ascii:
  "is_ascii s \<Longrightarrow> is_ascii t \<Longrightarrow> equal_fold u s t \<longleftrightarrow> map ascii_lower s = map ascii_lower t"
proof (induction u s t rule: equal_fold.induct)
  case (3 u x xs y ys)
  then have "byte_val x < 128" "byte_val y < 128" "is_ascii xs" "is_ascii ys"
    by (simp_all add: is_ascii_def)
  with 3 show ?case
    by (simp add: ascii_lower_eq_iff[of x y])
qed auto

lemma equal_fold_refl: "is_ascii s \<Longrightarrow> equal_fold u s s"
  by (simp add: equal_fold_ascii)

section \<open>Decimal numbers\<close>

definition is_digit :: "char \<Rightarrow> bool" where
  "is_digit c = (48 \<le> byte_val c \<and> byte_val c \<le> 57)"

definition digit_char :: "nat \<Rightarrow> char" where
  "digit_char d = char_of (48 + d)"

text \<open>\<open>strconv.Itoa\<close> and \<open>%d\<close> for a non-negative number.\<close>

fun show_nat :: "nat \<Rightarrow> string" where
  "show_nat n = (if n < 10 then [digit_char n] else show_nat (n div 10) @ [digit_char (n mod 10)])"

declare show_nat.simps [simp del]

definition dec_val :: "string \<Rightarrow> nat" where
  "dec_val s = foldl (\<lambda>n c. n * 10 + (byte_val c - 48)) 0 s"

text \<open>
  \<open>strconv.ParseUint(s, 10, bits)\<close>: base 10 accepts digits only (no sign, no underscore), at
  least one, and reports a range error for a value that does not fit.
\<close>

definition parse_uint :: "nat \<Rightarrow> string \<Rightarrow> nat option" where
  "parse_uint bits s =
     (if s \<noteq> [] \<and> list_all is_digit s \<and> dec_val s < 2 ^ bits then Some (dec_val s) else None)"

lemma is_digit_digit_char [simp]: "d < 10 \<Longrightarrow> is_digit (digit_char d)"
  by (simp add: is_digit_def digit_char_def)

lemma byte_val_digit_char [simp]: "d < 10 \<Longrightarrow> byte_val (digit_char d) = 48 + d"
  by (simp add: digit_char_def)

lemma dec_val_snoc: "dec_val (s @ [c]) = dec_val s * 10 + (byte_val c - 48)"
  by (simp add: dec_val_def)

lemma show_nat_not_Nil [simp]: "show_nat n \<noteq> []"
  by (subst show_nat.simps) simp

lemma show_nat_digits [simp]: "list_all is_digit (show_nat n)"
proof (induction n rule: show_nat.induct)
  case (1 n)
  then show ?case by (subst show_nat.simps) simp
qed

lemma dec_val_show_nat [simp]: "dec_val (show_nat n) = n"
proof (induction n rule: show_nat.induct)
  case (1 n)
  show ?case
  proof (cases "n < 10")
    case True
    then show ?thesis by (subst show_nat.simps) (simp add: dec_val_def)
  next
    case False
    with 1 show ?thesis by (subst show_nat.simps) (simp add: dec_val_snoc)
  qed
qed

lemma parse_uint_show_nat: "n < 2 ^ bits \<Longrightarrow> parse_uint bits (show_nat n) = Some n"
  by (simp add: parse_uint_def)

lemma parse_uint_bound: "parse_uint bits s = Some n \<Longrightarrow> n < 2 ^ bits"
  by (auto simp: parse_uint_def split: if_splits)

lemma show_nat_inject: "show_nat m = show_nat n \<longleftrightarrow> m = n"
  by (metis dec_val_show_nat)

lemma show_nat_no_sep: "\<not> is_digit c \<Longrightarrow> c \<notin> set (show_nat n)"
  using show_nat_digits [of n] by (auto simp: list_all_iff)

lemma is_digit_ascii: "is_digit c \<Longrightarrow> byte_val c < 128"
  by (simp add: is_digit_def)

end
