(* ===== verification/Models.thy ===== *)
theory Models
  imports Go_Strings
begin

text \<open>
  The data model: package \<open>models\<close> (\<open>models/version.go\<close>, \<open>models/fqdn.go\<close>, \<open>models/badge.go\<close>).
  Versions are triples of \<open>uint32\<close> kept at their width and made an instance of \<open>linorder\<close> by the
  code's own \<open>Compare\<close>; an FQDN is a datatype whose only constructor wraps the validated text;
  badges are records with the JSON structure of the transparency log's answer.
\<close>

section \<open>Semantic versions\<close>

datatype version = Version (v_major: "32 word") (v_minor: "32 word") (v_patch: "32 word")

datatype version_error =
    VersionEmpty
  | VersionParts nat string
  | VersionMajor string
  | VersionMinor string
  | VersionPatch string

definition parse_u32 :: "version_error \<Rightarrow> string \<Rightarrow> version_error + 32 word" where
  "parse_u32 e s = (case parse_uint 32 s of None \<Rightarrow> Inl e | Some n \<Rightarrow> Inr (of_nat n))"

definition parse_version :: "string \<Rightarrow> version_error + version" where
  "parse_version s =
     (if s = [] then Inl VersionEmpty
      else let s' = trim_prefix s ''v'' in
        (case split_on CHR ''.'' s' of
           [a, b, c] \<Rightarrow>
             rbind (parse_u32 (VersionMajor a) a) (\<lambda>major.
             rbind (parse_u32 (VersionMinor b) b) (\<lambda>minor.
             rbind (parse_u32 (VersionPatch c) c) (\<lambda>patch.
               Inr (Version major minor patch))))
         | ps \<Rightarrow> Inl (VersionParts (length ps) s')))"

definition version_string :: "version \<Rightarrow> string" where
  "version_string v =
     ''v'' @ show_nat (unat (v_major v)) @ ''.'' @ show_nat (unat (v_minor v)) @ ''.''
       @ show_nat (unat (v_patch v))"

definition compare_version :: "version \<Rightarrow> version \<Rightarrow> int" where
  "compare_version v w =
     (if v_major v \<noteq> v_major w then (if v_major v < v_major w then -1 else 1)
      else if v_minor v \<noteq> v_minor w then (if v_minor v < v_minor w then -1 else 1)
      else if v_patch v \<noteq> v_patch w then (if v_patch v < v_patch w then -1 else 1)
      else 0)"

definition version_is_zero :: "version \<Rightarrow> bool" where
  "version_is_zero v = (v_major v = 0 \<and> v_minor v = 0 \<and> v_patch v = 0)"

definition version_equal :: "version \<Rightarrow> version \<Rightarrow> bool" where
  "version_equal v w = (compare_version v w = 0)"

definition version_less :: "version \<Rightarrow> version \<Rightarrow> bool" where
  "version_less v w = (compare_version v w < 0)"

lemma compare_version_lex:
  "compare_version v w =
     (if v = w then 0
      else if v_major v < v_major w \<or> v_major v = v_major w \<and>
         (v_minor v < v_minor w \<or> v_minor v = v_minor w \<and> v_patch v < v_patch w) then -1
      else 1)"
  by (auto simp: compare_version_def intro: version.expand)

lemma compare_version_antisym: "compare_version v w = - compare_version w v"
  by (auto simp: compare_version_lex intro: version.expand)

lemma compare_version_range: "compare_version v w \<in> {-1, 0, 1}"
  by (simp add: compare_version_lex)

lemma compare_version_0_iff [simp]: "compare_version v w = 0 \<longleftrightarrow> v = w"
  by (simp add: compare_version_lex)

lemma version_equal_iff [simp]: "version_equal v w \<longleftrightarrow> v = w"
  by (simp add: version_equal_def)

instantiation version :: linorder
begin

definition less_eq_version :: "version \<Rightarrow> version \<Rightarrow> bool" where
  "less_eq_version v w = (compare_version v w \<le> 0)"

definition less_version :: "version \<Rightarrow> version \<Rightarrow> bool" where
  "less_version v w = version_less v w"

instance
proof
  fix u v w :: version
  show "v < w \<longleftrightarrow> v \<le> w \<and> \<not> w \<le> v"
    by (auto simp: less_version_def version_less_def less_eq_version_def compare_version_lex
        split: if_splits)
  show "v \<le> v"
    by (simp add: less_eq_version_def compare_version_lex)
  show "u \<le> v \<Longrightarrow> v \<le> w \<Longrightarrow> u \<le> w"
    by (auto simp: less_eq_version_def compare_version_lex split: if_splits)
  show "v \<le> w \<Longrightarrow> w \<le> v \<Longrightarrow> v = w"
    by (auto simp: less_eq_version_def compare_version_lex split: if_splits)
  show "v \<le> w \<or> w \<le> v"
    by (auto simp: less_eq_version_def compare_version_lex intro: version.expand)
qed

end

lemma dot_not_digit [simp]: "\<not> is_digit (CHR ''.'')"
  by (simp add: is_digit_def byte_val_def)

lemma v_not_digit [simp]: "\<not> is_digit (CHR ''v'')"
  by (simp add: is_digit_def byte_val_def)

lemma parse_u32_show [simp]: "parse_u32 e (show_nat (unat w)) = Inr w"
proof -
  have "unat w < 2 ^ 32"
    using unsigned_less [of w] by simp
  then show ?thesis
    by (simp add: parse_u32_def parse_uint_show_nat)
qed

lemma split_version_digits:
  "split_on CHR ''.'' (show_nat a @ CHR ''.'' # show_nat b @ CHR ''.'' # show_nat c)
     = [show_nat a, show_nat b, show_nat c]"
  by (simp add: split_on_append split_on_no_sep show_nat_no_sep)

text \<open>
  The dotted digits with the leading \<open>v\<close> and without it are both read back as the version they
  print.
\<close>

lemma parse_version_plain:
  "parse_version (show_nat (unat a) @ ''.'' @ show_nat (unat b) @ ''.'' @ show_nat (unat c))
     = Inr (Version a b c)"
proof -
  let ?s = "show_nat (unat a) @ ''.'' @ show_nat (unat b) @ ''.'' @ show_nat (unat c)"
  have "\<not> has_prefix ?s ''v''"
  proof
    assume "has_prefix ?s ''v''"
    then obtain r where r: "show_nat (unat a) @ ''.'' @ show_nat (unat b) @ ''.'' @ show_nat (unat c)
        = CHR ''v'' # r"
      by (auto simp: has_prefix_iff)
    then have "hd (show_nat (unat a)) = CHR ''v''"
      by (cases "show_nat (unat a)") auto
    then have "CHR ''v'' \<in> set (show_nat (unat a))"
      by (metis hd_in_set show_nat_not_Nil)
    then show False by (simp add: show_nat_no_sep)
  qed
  then show ?thesis
    by (simp add: parse_version_def trim_prefix_def split_version_digits)
qed

lemma parse_version_string [simp]: "parse_version (version_string v) = Inr v"
proof -
  have "trim_prefix (version_string v) ''v'' =
      show_nat (unat (v_major v)) @ CHR ''.'' # show_nat (unat (v_minor v)) @ CHR ''.''
        # show_nat (unat (v_patch v))"
    by (simp add: version_string_def trim_prefix_def)
  moreover have "version_string v \<noteq> []"
    by (simp add: version_string_def)
  ultimately show ?thesis
    by (simp add: parse_version_def split_version_digits)
qed

lemma version_string_inject [simp]: "version_string v = version_string w \<longleftrightarrow> v = w"
  by (metis parse_version_string sum.inject(2))

section \<open>Fully qualified domain names\<close>

datatype fqdn = Fqdn (fqdn_value: string)

definition max_label_length :: nat where
  "max_label_length = 63"

datatype fqdn_error =
    FqdnEmpty
  | FqdnEmptyLabel
  | FqdnLabelTooLong
  | FqdnBadChar string
  | FqdnHyphen

definition is_valid_label_char :: "char \<Rightarrow> bool" where
  "is_valid_label_char c =
     ((97 \<le> byte_val c \<and> byte_val c \<le> 122) \<or> (65 \<le> byte_val c \<and> byte_val c \<le> 90)
      \<or> (48 \<le> byte_val c \<and> byte_val c \<le> 57) \<or> c = CHR ''-'')"

text \<open>
  The body of the loop over the labels. The code ranges over the runes of a label; a byte above
  0x7F always belongs to a rune outside the accepted ranges, so checking bytes is the same check.
\<close>

definition check_label :: "string \<Rightarrow> fqdn_error option" where
  "check_label l =
     (if l = [] then Some FqdnEmptyLabel
      else if max_label_length < length l then Some FqdnLabelTooLong
      else if \<not> list_all is_valid_label_char l then Some (FqdnBadChar l)
      else if has_prefix l ''-'' \<or> has_suffix l ''-'' then Some FqdnHyphen
      else None)"

fun check_labels :: "string list \<Rightarrow> fqdn_error option" where
  "check_labels [] = None"
| "check_labels (l # ls) = (case check_label l of Some e \<Rightarrow> Some e | None \<Rightarrow> check_labels ls)"

text \<open>A domain that passed the checks is ASCII, so \<open>strings.ToLower\<close> is the ASCII one here.\<close>

definition new_fqdn :: "string \<Rightarrow> fqdn_error + fqdn" where
  "new_fqdn domain =
     (if domain = [] then Inl FqdnEmpty
      else let d = trim_suffix domain ''.'' in
        (case check_labels (split_on CHR ''.'' d) of
           Some e \<Rightarrow> Inl e
         | None \<Rightarrow> Inr (Fqdn (map ascii_lower d))))"

definition ans_badge_name :: "fqdn \<Rightarrow> string" where
  "ans_badge_name f = ''_ans-badge.'' @ fqdn_value f"

definition ra_badge_name :: "fqdn \<Rightarrow> string" where
  "ra_badge_name f = ''_ra-badge.'' @ fqdn_value f"

definition tlsa_name :: "fqdn \<Rightarrow> 16 word \<Rightarrow> string" where
  "tlsa_name f port = ''_'' @ show_nat (unat port) @ ''._tcp.'' @ fqdn_value f"

definition fqdn_is_zero :: "fqdn \<Rightarrow> bool" where
  "fqdn_is_zero f = (fqdn_value f = [])"

text \<open>What the text of a validated name looks like.\<close>

definition lower_label :: "string \<Rightarrow> bool" where
  "lower_label l = (check_label l = None \<and> map ascii_lower l = l)"

definition wf_fqdn :: "fqdn \<Rightarrow> bool" where
  "wf_fqdn f = list_all lower_label (split_on CHR ''.'' (fqdn_value f))"

lemma check_labels_None_iff: "check_labels ls = None \<longleftrightarrow> list_all (\<lambda>l. check_label l = None) ls"
  by (induction ls) (auto split: option.splits)

lemma is_valid_label_char_lower [simp]:
  "is_valid_label_char (ascii_lower c) \<longleftrightarrow> is_valid_label_char c"
proof (cases "is_upper c")
  case True
  then have "65 \<le> byte_val c" "byte_val c \<le> 90" by (simp_all add: is_upper_def)
  with True show ?thesis
    by (simp add: is_valid_label_char_def byte_val_ascii_lower)
next
  case False
  then show ?thesis by (simp add: ascii_lower_def)
qed

lemma ascii_lower_special_iff:
  "ascii_lower c = CHR ''-'' \<longleftrightarrow> c = CHR ''-''" "ascii_lower c = CHR ''.'' \<longleftrightarrow> c = CHR ''.''"
proof -
  have "byte_val (CHR ''-'') = 45" "byte_val (CHR ''.'') = 46"
    by (simp_all add: byte_val_def)
  then show "ascii_lower c = CHR ''-'' \<longleftrightarrow> c = CHR ''-''" "ascii_lower c = CHR ''.'' \<longleftrightarrow> c = CHR ''.''"
    by (simp_all add: byte_val_eq_iff [symmetric] byte_val_ascii_lower is_upper_def)
qed

lemma has_prefix_hyphen_lower [simp]:
  "has_prefix (map ascii_lower l) ''-'' \<longleftrightarrow> has_prefix l ''-''"
  by (cases l) (auto simp: ascii_lower_special_iff)

lemma has_suffix_hyphen_lower [simp]:
  "has_suffix (map ascii_lower l) ''-'' \<longleftrightarrow> has_suffix l ''-''"
  using has_prefix_hyphen_lower [of "rev l"] by (simp add: has_suffix_def rev_map del: has_prefix_hyphen_lower)

lemma check_label_lower_None [simp]:
  "check_label (map ascii_lower l) = None \<longleftrightarrow> check_label l = None"
  by (simp add: check_label_def list_all_iff)

lemma split_dot_lower:
  "split_on CHR ''.'' (map ascii_lower s) = map (map ascii_lower) (split_on CHR ''.'' s)"
  by (induction s) (auto simp: ascii_lower_special_iff split: list.splits)

lemma valid_label_ascii: "check_label l = None \<Longrightarrow> is_ascii l"
proof -
  assume "check_label l = None"
  then have "list_all is_valid_label_char l"
    by (auto simp: check_label_def split: if_splits)
  moreover have "is_valid_label_char c \<Longrightarrow> byte_val c < 128" for c
    by (auto simp: is_valid_label_char_def byte_val_def)
  ultimately show ?thesis
    by (auto simp: is_ascii_def list_all_iff)
qed

lemma new_fqdn_wf [accepts]: "new_fqdn d = Inr f \<Longrightarrow> wf_fqdn f"
  by (auto simp: new_fqdn_def wf_fqdn_def lower_label_def check_labels_None_iff split_dot_lower
      list_all_iff Let_def split: if_splits option.splits)

lemma set_join_split: "set s \<subseteq> insert c (\<Union>p\<in>set (split_on c s). set p)"
proof (induction s)
  case (Cons x xs)
  then show ?case
    by (cases "split_on c xs") auto
qed simp

lemma wf_fqdn_ascii: "wf_fqdn f \<Longrightarrow> is_ascii (fqdn_value f)"
proof -
  assume wf: "wf_fqdn f"
  have "byte_val c < 128" if c: "c \<in> set (fqdn_value f)" for c
  proof (cases "c = CHR ''.''")
    case False
    with c set_join_split [of "fqdn_value f" "CHR ''.''"]
    obtain l where "l \<in> set (split_on CHR ''.'' (fqdn_value f))" "c \<in> set l" by auto
    with wf have "is_ascii l"
      by (auto simp: wf_fqdn_def lower_label_def list_all_iff intro: valid_label_ascii)
    with \<open>c \<in> set l\<close> show ?thesis by (auto simp: is_ascii_def list_all_iff)
  qed (simp add: byte_val_def)
  then show ?thesis by (auto simp: is_ascii_def list_all_iff)
qed

lemma wf_fqdn_label:
  "wf_fqdn f \<Longrightarrow> l \<in> set (split_on CHR ''.'' (fqdn_value f)) \<Longrightarrow> check_label l = None"
  by (auto simp: wf_fqdn_def lower_label_def list_all_iff)

lemma wf_fqdn_not_Nil: "wf_fqdn f \<Longrightarrow> fqdn_value f \<noteq> []"
  by (auto simp: wf_fqdn_def lower_label_def check_label_def)

lemma wf_fqdn_lower: "wf_fqdn f \<Longrightarrow> map ascii_lower (fqdn_value f) = fqdn_value f"
proof -
  assume "wf_fqdn f"
  then have "map (map ascii_lower) (split_on CHR ''.'' (fqdn_value f)) = split_on CHR ''.'' (fqdn_value f)"
    by (auto simp: wf_fqdn_def lower_label_def list_all_iff intro: map_idI)
  then have "join_with ''.'' (split_on CHR ''.'' (map ascii_lower (fqdn_value f))) = fqdn_value f"
    by (simp add: split_dot_lower)
  then show ?thesis by simp
qed

lemma split_on_snoc_sep: "split_on c (s @ [c]) = split_on c s @ [[]]"
proof (induction s)
  case (Cons x xs)
  then show ?case by (cases "split_on c xs") auto
qed simp

lemma wf_fqdn_no_trailing_dot: "wf_fqdn f \<Longrightarrow> \<not> has_suffix (fqdn_value f) ''.''"
proof
  assume wf: "wf_fqdn f" and "has_suffix (fqdn_value f) ''.''"
  then obtain r where "fqdn_value f = r @ ''.''" by (auto simp: has_suffix_iff)
  then have "[] \<in> set (split_on CHR ''.'' (fqdn_value f))"
    by (simp add: split_on_snoc_sep)
  then have "check_label [] = None" using wf by (rule wf_fqdn_label [rotated])
  then show False by (simp add: check_label_def)
qed

lemma wf_fqdn_chars:
  "wf_fqdn f \<Longrightarrow> c \<in> set (fqdn_value f) \<Longrightarrow> is_valid_label_char c \<or> c = CHR ''.''"
proof -
  assume wf: "wf_fqdn f" and c: "c \<in> set (fqdn_value f)"
  show ?thesis
  proof (cases "c = CHR ''.''")
    case False
    with c set_join_split [of "fqdn_value f" "CHR ''.''"]
    obtain l where l: "l \<in> set (split_on CHR ''.'' (fqdn_value f))" "c \<in> set l" by auto
    with wf have "list_all is_valid_label_char l"
      by (auto simp: check_label_def dest!: wf_fqdn_label split: if_splits)
    with l show ?thesis by (auto simp: list_all_iff)
  qed simp
qed

text \<open>A validated name is a fixed point of the parser: parsing its text gives it back.\<close>

lemma new_fqdn_fixed: "wf_fqdn f \<Longrightarrow> new_fqdn (fqdn_value f) = Inr f"
proof -
  assume wf: "wf_fqdn f"
  have "check_labels (split_on CHR ''.'' (fqdn_value f)) = None"
    using wf by (auto simp: check_labels_None_iff list_all_iff dest: wf_fqdn_label)
  then show ?thesis
    using wf_fqdn_no_trailing_dot [OF wf] wf_fqdn_not_Nil [OF wf] wf_fqdn_lower [OF wf]
    by (simp add: new_fqdn_def trim_suffix_id Let_def)
qed

section \<open>Badges\<close>

type_synonym badge_status = string

definition BadgeStatusActive :: badge_status where "BadgeStatusActive = ''ACTIVE''"
definition BadgeStatusWarning :: badge_status where "BadgeStatusWarning = ''WARNING''"
definition BadgeStatusDeprecated :: badge_status where "BadgeStatusDeprecated = ''DEPRECATED''"
definition BadgeStatusExpired :: badge_status where "BadgeStatusExpired = ''EXPIRED''"
definition BadgeStatusRevoked :: badge_status where "BadgeStatusRevoked = ''REVOKED''"

lemmas badge_status_defs =
  BadgeStatusActive_def BadgeStatusWarning_def BadgeStatusDeprecated_def
  BadgeStatusExpired_def BadgeStatusRevoked_def

definition badge_status_valid :: "badge_status \<Rightarrow> bool" where
  "badge_status_valid s =
     (if s = BadgeStatusActive \<or> s = BadgeStatusWarning \<or> s = BadgeStatusDeprecated then True
      else if s = BadgeStatusExpired \<or> s = BadgeStatusRevoked then False
      else False)"

definition badge_status_active :: "badge_status \<Rightarrow> bool" where
  "badge_status_active s =
     (if s = BadgeStatusActive \<or> s = BadgeStatusWarning then True
      else if s = BadgeStatusDeprecated \<or> s = BadgeStatusExpired \<or> s = BadgeStatusRevoked then False
      else False)"

definition badge_status_reject :: "badge_status \<Rightarrow> bool" where
  "badge_status_reject s =
     (if s = BadgeStatusExpired \<or> s = BadgeStatusRevoked then True
      else if s = BadgeStatusActive \<or> s = BadgeStatusWarning \<or> s = BadgeStatusDeprecated then False
      else False)"

record cert_attestation =
  att_fingerprint :: string
  att_type :: string

record attestations =
  domain_validation :: string
  att_identity_cert :: "cert_attestation option"
  att_server_cert :: "cert_attestation option"

record agent_info =
  ai_host :: string
  ai_name :: string
  ai_version :: string

record agent_event =
  ev_ans_id :: string
  ev_ans_name :: string
  ev_type :: string
  ev_agent :: agent_info
  ev_attestations :: attestations
  ev_expires_at :: "int option"
  ev_issued_at :: int
  ev_ra_id :: string
  ev_timestamp :: int

record producer =
  pr_event :: agent_event
  pr_key_id :: string
  pr_signature :: string

record badge_payload =
  bp_log_id :: string
  bp_producer :: producer

text \<open>\<open>MerkleProof\<close> is carried through from the JSON and read by no verification code.\<close>

record badge =
  badge_state :: badge_status
  badge_payload_of :: badge_payload
  badge_schema :: string
  badge_signature :: "string option"

definition badge_event :: "badge \<Rightarrow> agent_event" where
  "badge_event b = pr_event (bp_producer (badge_payload_of b))"

definition agent_name :: "badge \<Rightarrow> string" where
  "agent_name b = ev_ans_name (badge_event b)"

definition agent_host :: "badge \<Rightarrow> string" where
  "agent_host b = ai_host (ev_agent (badge_event b))"

definition agent_version :: "badge \<Rightarrow> string" where
  "agent_version b = ai_version (ev_agent (badge_event b))"

definition server_cert_fingerprint :: "badge \<Rightarrow> string" where
  "server_cert_fingerprint b =
     (case att_server_cert (ev_attestations (badge_event b)) of
        None \<Rightarrow> [] | Some c \<Rightarrow> att_fingerprint c)"

definition identity_cert_fingerprint :: "badge \<Rightarrow> string" where
  "identity_cert_fingerprint b =
     (case att_identity_cert (ev_attestations (badge_event b)) of
        None \<Rightarrow> [] | Some c \<Rightarrow> att_fingerprint c)"

definition agent_id :: "badge \<Rightarrow> string" where
  "agent_id b = ev_ans_id (badge_event b)"

definition event_type :: "badge \<Rightarrow> string" where
  "event_type b = ev_type (badge_event b)"

definition badge_is_valid :: "badge \<Rightarrow> bool" where
  "badge_is_valid b = badge_status_valid (badge_state b)"

lemma badge_status_trichotomy:
  "badge_status_valid s \<Longrightarrow> \<not> badge_status_reject s"
  "badge_status_active s \<Longrightarrow> badge_status_valid s"
  by (auto simp: badge_status_valid_def badge_status_reject_def badge_status_active_def
      badge_status_defs split: if_splits)

end
