(* ===== verification/Go_Encoding.thy ===== *)
theory Go_Encoding
  imports Go_Strings
begin

text \<open>
  Go's \<open>encoding/hex\<close> and \<open>encoding/base64\<close> as the program uses them: \<open>hex.DecodeString\<close> (both
  letter cases), \<open>hex.EncodeToString\<close> (lower case), \<open>base64.StdEncoding\<close> (padded) and
  \<open>base64.RawURLEncoding\<close> (unpadded, URL alphabet). The decoders are Go's: they skip carriage
  returns and newlines wherever they stand and, not being in strict mode, ignore the unused low
  bits of the last character.
\<close>

section \<open>Hexadecimal\<close>

definition hex_char :: "nat \<Rightarrow> char" where
  "hex_char n = (if n < 10 then char_of (48 + n) else char_of (87 + n))"

definition hex_val :: "char \<Rightarrow> nat option" where
  "hex_val c =
     (let n = byte_val c in
      if 48 \<le> n \<and> n \<le> 57 then Some (n - 48)
      else if 97 \<le> n \<and> n \<le> 102 then Some (n - 87)
      else if 65 \<le> n \<and> n \<le> 70 then Some (n - 55)
      else None)"

fun hex_encode :: "bytes \<Rightarrow> string" where
  "hex_encode [] = []"
| "hex_encode (b # bs) = hex_char (byte_val b div 16) # hex_char (byte_val b mod 16) # hex_encode bs"

fun hex_decode :: "string \<Rightarrow> bytes option" where
  "hex_decode [] = Some []"
| "hex_decode [c] = None"
| "hex_decode (c # d # cs) =
     (case (hex_val c, hex_val d) of
        (Some x, Some y) \<Rightarrow> map_option (\<lambda>bs. char_of (16 * x + y) # bs) (hex_decode cs)
      | _ \<Rightarrow> None)"

lemma hex_val_hex_char [simp]: "n < 16 \<Longrightarrow> hex_val (hex_char n) = Some n"
  by (auto simp: hex_val_def hex_char_def Let_def)

lemma hex_decode_encode [simp]: "hex_decode (hex_encode bs) = Some bs"
proof (induction bs)
  case (Cons b bs)
  have "byte_val b div 16 < 16" "byte_val b mod 16 < 16"
    by (simp_all add: less_mult_imp_div_less)
  then have "hex_val (hex_char (byte_val b div 16)) = Some (byte_val b div 16)"
    "hex_val (hex_char (byte_val b mod 16)) = Some (byte_val b mod 16)"
    by (simp_all only: hex_val_hex_char)
  moreover have "16 * (byte_val b div 16) + byte_val b mod 16 = byte_val b"
    by simp
  ultimately show ?case
    using Cons by simp
qed simp

lemma length_hex_encode [simp]: "length (hex_encode bs) = 2 * length bs"
  by (induction bs) auto

lemma hex_decode_length: "hex_decode s = Some bs \<Longrightarrow> length s = 2 * length bs"
proof (induction s arbitrary: bs rule: hex_decode.induct)
  case (3 c d cs)
  then show ?case by (auto split: option.splits)
qed auto

lemma hex_val_ascii_lower [simp]: "hex_val (ascii_lower c) = hex_val c"
  by (auto simp: hex_val_def Let_def byte_val_ascii_lower is_upper_def)

lemma hex_decode_lower [simp]: "hex_decode (map ascii_lower s) = hex_decode s"
  by (induction s rule: hex_decode.induct) (auto split: option.splits)

lemma hex_char_lower: "n < 16 \<Longrightarrow> ascii_lower (hex_char n) = hex_char n"
  by (simp add: ascii_lower_def is_upper_def hex_char_def)

lemma hex_encode_lower [simp]: "map ascii_lower (hex_encode bs) = hex_encode bs"
proof (induction bs)
  case (Cons b bs)
  have "byte_val b div 16 < 16" "byte_val b mod 16 < 16"
    by (simp_all add: less_mult_imp_div_less)
  with Cons show ?case by (simp add: hex_char_lower)
qed simp

lemma hex_char_ascii: "n < 16 \<Longrightarrow> byte_val (hex_char n) < 128"
  by (simp add: hex_char_def)

lemma is_ascii_hex_encode [simp]: "is_ascii (hex_encode bs)"
proof (induction bs)
  case (Cons b bs)
  have "byte_val b div 16 < 16" "byte_val b mod 16 < 16"
    by (simp_all add: less_mult_imp_div_less)
  with Cons show ?case by (simp add: is_ascii_def hex_char_ascii)
qed (simp add: is_ascii_def)

lemma hex_encode_inject: "hex_encode a = hex_encode b \<longleftrightarrow> a = b"
  by (metis hex_decode_encode option.inject)

section \<open>Base 64\<close>

definition b64_std :: "nat \<Rightarrow> char" where
  "b64_std n =
     (if n < 26 then char_of (65 + n) else if n < 52 then char_of (71 + n)
      else if n < 62 then char_of (n - 4) else if n = 62 then CHR ''+'' else CHR ''/'')"

definition b64_url :: "nat \<Rightarrow> char" where
  "b64_url n = (if n = 62 then CHR ''-'' else if n = 63 then CHR ''_'' else b64_std n)"

definition b64_alnum_val :: "char \<Rightarrow> nat option" where
  "b64_alnum_val c =
     (let n = byte_val c in
      if 65 \<le> n \<and> n \<le> 90 then Some (n - 65)
      else if 97 \<le> n \<and> n \<le> 122 then Some (n - 71)
      else if 48 \<le> n \<and> n \<le> 57 then Some (n + 4)
      else None)"

definition b64_std_val :: "char \<Rightarrow> nat option" where
  "b64_std_val c = (if c = CHR ''+'' then Some 62 else if c = CHR ''/'' then Some 63 else b64_alnum_val c)"

definition b64_url_val :: "char \<Rightarrow> nat option" where
  "b64_url_val c = (if c = CHR ''-'' then Some 62 else if c = CHR ''_'' then Some 63 else b64_alnum_val c)"

text \<open>The three bytes that four 6-bit values carry.\<close>

definition quad1 :: "nat \<Rightarrow> nat \<Rightarrow> char" where
  "quad1 x y = char_of (4 * x + y div 16)"

definition quad2 :: "nat \<Rightarrow> nat \<Rightarrow> char" where
  "quad2 y z = char_of (16 * (y mod 16) + z div 4)"

definition quad3 :: "nat \<Rightarrow> nat \<Rightarrow> char" where
  "quad3 z w = char_of (64 * (z mod 4) + w)"

fun b64_encode :: "bool \<Rightarrow> (nat \<Rightarrow> char) \<Rightarrow> bytes \<Rightarrow> string" where
  "b64_encode pad em [] = []"
| "b64_encode pad em [a] =
     em (byte_val a div 4) # em (16 * (byte_val a mod 4)) # (if pad then ''=='' else [])"
| "b64_encode pad em [a, b] =
     em (byte_val a div 4) # em (16 * (byte_val a mod 4) + byte_val b div 16)
       # em (4 * (byte_val b mod 16)) # (if pad then ''='' else [])"
| "b64_encode pad em (a # b # c # rest) =
     em (byte_val a div 4) # em (16 * (byte_val a mod 4) + byte_val b div 16)
       # em (4 * (byte_val b mod 16) + byte_val c div 64) # em (byte_val c mod 64)
       # b64_encode pad em rest"

text \<open>
  \<open>decodeQuantum\<close> of \<open>encoding/base64\<close> over text whose newlines are gone: \<open>pad\<close> tells whether the
  encoding pads, \<open>dm\<close> is the decode map.
\<close>

fun b64_quanta :: "bool \<Rightarrow> (char \<Rightarrow> nat option) \<Rightarrow> string \<Rightarrow> bytes option" where
  "b64_quanta pad dm [] = Some []"
| "b64_quanta pad dm [a] = None"
| "b64_quanta pad dm [a, b] =
     (if pad then None
      else case (dm a, dm b) of (Some x, Some y) \<Rightarrow> Some [quad1 x y] | _ \<Rightarrow> None)"
| "b64_quanta pad dm [a, b, c] =
     (if pad then None
      else case (dm a, dm b, dm c) of
          (Some x, Some y, Some z) \<Rightarrow> Some [quad1 x y, quad2 y z] | _ \<Rightarrow> None)"
| "b64_quanta pad dm (a # b # c # d # rest) =
     (case (dm a, dm b) of
        (Some x, Some y) \<Rightarrow>
          (if pad \<and> c = CHR ''='' then (if d = CHR ''='' \<and> rest = [] then Some [quad1 x y] else None)
           else case dm c of
               None \<Rightarrow> None
             | Some z \<Rightarrow>
                 (if pad \<and> d = CHR ''='' then (if rest = [] then Some [quad1 x y, quad2 y z] else None)
                  else case dm d of
                      None \<Rightarrow> None
                    | Some w \<Rightarrow>
                        map_option (\<lambda>bs. quad1 x y # quad2 y z # quad3 z w # bs) (b64_quanta pad dm rest)))
      | _ \<Rightarrow> None)"

definition is_newline :: "char \<Rightarrow> bool" where
  "is_newline c = (c = CHR 0x0A \<or> c = CHR 0x0D)"

definition b64_decode :: "bool \<Rightarrow> (char \<Rightarrow> nat option) \<Rightarrow> string \<Rightarrow> bytes option" where
  "b64_decode pad dm s = b64_quanta pad dm (filter (\<lambda>c. \<not> is_newline c) s)"

definition std_encode :: "bytes \<Rightarrow> string" where
  "std_encode = b64_encode True b64_std"

definition std_decode :: "string \<Rightarrow> bytes option" where
  "std_decode = b64_decode True b64_std_val"

definition url_encode :: "bytes \<Rightarrow> string" where
  "url_encode = b64_encode False b64_url"

definition url_decode :: "string \<Rightarrow> bytes option" where
  "url_decode = b64_decode False b64_url_val"

lemma triple_induct:
  fixes bs :: bytes
  shows "P [] \<Longrightarrow> (\<And>a. P [a]) \<Longrightarrow> (\<And>a b. P [a, b]) \<Longrightarrow> (\<And>a b c r. P r \<Longrightarrow> P (a # b # c # r)) \<Longrightarrow> P bs"
  by (rule b64_encode.induct [of "\<lambda>_ _. P"])

text \<open>An alphabet is sound when its decode map inverts it and it avoids padding and newlines.\<close>

locale b64_alphabet =
  fixes em :: "nat \<Rightarrow> char" and dm :: "char \<Rightarrow> nat option"
  assumes inverse: "n < 64 \<Longrightarrow> dm (em n) = Some n"
    and not_special: "n < 64 \<Longrightarrow> em n \<noteq> CHR ''='' \<and> \<not> is_newline (em n)"
begin

lemma sextets:
  "byte_val a div 4 < 64" "16 * (byte_val a mod 4) < 64" "4 * (byte_val b mod 16) < 64"
  "16 * (byte_val a mod 4) + byte_val b div 16 < 64"
  "4 * (byte_val b mod 16) + byte_val c div 64 < 64" "byte_val c mod 64 < 64"
proof -
  note less = byte_val_less [of a] byte_val_less [of b] byte_val_less [of c]
  show "byte_val a div 4 < 64" "16 * (byte_val a mod 4) < 64" "4 * (byte_val b mod 16) < 64"
    "16 * (byte_val a mod 4) + byte_val b div 16 < 64"
    "4 * (byte_val b mod 16) + byte_val c div 64 < 64" "byte_val c mod 64 < 64"
    using less by arith+
qed

lemma quads:
  "quad1 (byte_val a div 4) (16 * (byte_val a mod 4)) = a"
  "quad1 (byte_val a div 4) (16 * (byte_val a mod 4) + byte_val b div 16) = a"
  "quad2 (16 * (byte_val a mod 4) + byte_val b div 16) (4 * (byte_val b mod 16)) = b"
  "quad2 (16 * (byte_val a mod 4) + byte_val b div 16) (4 * (byte_val b mod 16) + byte_val c div 64) = b"
  "quad3 (4 * (byte_val b mod 16) + byte_val c div 64) (byte_val c mod 64) = c"
proof -
  note less = byte_val_less [of a] byte_val_less [of b] byte_val_less [of c]
  have join: "(16 * q + r) div 16 = q" "(16 * q + r) mod 16 = r" if "r < 16" for q r :: nat
    using that by simp_all
  have join4: "(4 * q + r) div 4 = q" "(4 * q + r) mod 4 = r" if "r < 4" for q r :: nat
    using that by simp_all
  have r: "byte_val b div 16 < 16" "byte_val c div 64 < 4"
    using less by (simp_all add: less_mult_imp_div_less)
  have "4 * (byte_val a div 4) + 16 * (byte_val a mod 4) div 16 = byte_val a"
    "4 * (byte_val a div 4) + (16 * (byte_val a mod 4) + byte_val b div 16) div 16 = byte_val a"
    "16 * ((16 * (byte_val a mod 4) + byte_val b div 16) mod 16) + 4 * (byte_val b mod 16) div 4 = byte_val b"
    "16 * ((16 * (byte_val a mod 4) + byte_val b div 16) mod 16)
       + (4 * (byte_val b mod 16) + byte_val c div 64) div 4 = byte_val b"
    "64 * ((4 * (byte_val b mod 16) + byte_val c div 64) mod 4) + byte_val c mod 64 = byte_val c"
    by (simp_all only: join(1)[OF r(1)] join(2)[OF r(1)] join4(1)[OF r(2)] join4(2)[OF r(2)]) simp_all
  then show "quad1 (byte_val a div 4) (16 * (byte_val a mod 4)) = a"
    "quad1 (byte_val a div 4) (16 * (byte_val a mod 4) + byte_val b div 16) = a"
    "quad2 (16 * (byte_val a mod 4) + byte_val b div 16) (4 * (byte_val b mod 16)) = b"
    "quad2 (16 * (byte_val a mod 4) + byte_val b div 16) (4 * (byte_val b mod 16) + byte_val c div 64) = b"
    "quad3 (4 * (byte_val b mod 16) + byte_val c div 64) (byte_val c mod 64) = c"
    by (simp_all only: quad1_def quad2_def quad3_def char_of_byte_val)
qed

lemmas inverse_sextets = sextets [THEN inverse]
lemmas plain_sextets = sextets [THEN not_special, THEN conjunct1] sextets [THEN not_special, THEN conjunct2]

lemma no_newlines: "filter (\<lambda>c. \<not> is_newline c) (b64_encode pad em bs) = b64_encode pad em bs"
  by (induction bs rule: triple_induct)
    (simp_all add: plain_sextets is_newline_def [of "CHR ''=''"])

lemma quanta_encode: "b64_quanta pad dm (b64_encode pad em bs) = Some bs"
  by (induction bs rule: triple_induct)
    (simp_all add: plain_sextets inverse_sextets quads)

lemma decode_encode: "b64_decode pad dm (b64_encode pad em bs) = Some bs"
  by (simp add: b64_decode_def no_newlines quanta_encode)

text \<open>Only letters of the alphabet and the padding are written.\<close>

lemma letter: "n < 64 \<Longrightarrow> em n \<in> em ` {..<64}"
  by simp

lemma encode_letters: "set (b64_encode pad em bs) \<subseteq> em ` {..<64} \<union> (if pad then {CHR ''=''} else {})"
  by (induction bs rule: triple_induct) (simp_all only: b64_encode.simps list.set insert_subset empty_subsetI
      Un_iff sextets [THEN letter] if_True if_False split: if_splits, auto)

lemma encode_letter: "c \<in> set (b64_encode pad em bs) \<Longrightarrow> (\<exists>n<64. c = em n) \<or> pad \<and> c = CHR ''=''"
  using encode_letters [of pad bs] by (auto split: if_splits)

end

lemma b64_std_alnum: "n < 62 \<Longrightarrow> b64_alnum_val (b64_std n) = Some n \<and> byte_val (b64_std n) \<in> {48..57} \<union> {65..90} \<union> {97..122}"
  by (auto simp: b64_alnum_val_def b64_std_def Let_def)

lemma b64_specials:
  "byte_val (CHR ''+'') = 43" "byte_val (CHR ''/'') = 47" "byte_val (CHR ''-'') = 45"
  "byte_val (CHR ''_'') = 95" "byte_val (CHR ''='') = 61" "byte_val (CHR 0x0A) = 10"
  "byte_val (CHR 0x0D) = 13"
  by (simp_all add: byte_val_def)

interpretation std64: b64_alphabet b64_std b64_std_val
proof
  fix n :: nat
  assume n: "n < 64"
  consider "n < 62" | "n = 62" | "n = 63" using n by linarith
  then show "b64_std_val (b64_std n) = Some n"
  proof cases
    case 1
    then have "b64_std n \<noteq> CHR ''+''" "b64_std n \<noteq> CHR ''/''"
      using b64_std_alnum [OF 1] b64_specials by auto
    with b64_std_alnum [OF 1] show ?thesis by (simp add: b64_std_val_def)
  qed (simp_all add: b64_std_val_def b64_std_def)
  from n show "b64_std n \<noteq> CHR ''='' \<and> \<not> is_newline (b64_std n)"
    using b64_std_alnum [of n] b64_specials
    by (cases "n < 62") (auto simp: is_newline_def b64_std_def)
qed

interpretation url64: b64_alphabet b64_url b64_url_val
proof
  fix n :: nat
  assume n: "n < 64"
  consider "n < 62" | "n = 62" | "n = 63" using n by linarith
  then show "b64_url_val (b64_url n) = Some n"
  proof cases
    case 1
    then have "b64_std n \<noteq> CHR ''-''" "b64_std n \<noteq> CHR ''_''"
      using b64_std_alnum [OF 1] b64_specials by auto
    with 1 b64_std_alnum [OF 1] show ?thesis by (simp add: b64_url_val_def b64_url_def)
  qed (simp_all add: b64_url_val_def b64_url_def)
  from n show "b64_url n \<noteq> CHR ''='' \<and> \<not> is_newline (b64_url n)"
    using b64_std_alnum [of n] b64_specials
    by (cases "n < 62") (auto simp: is_newline_def b64_url_def b64_std_def)
qed

lemma std_decode_encode [simp]: "std_decode (std_encode bs) = Some bs"
  by (simp add: std_decode_def std_encode_def std64.decode_encode)

lemma url_decode_encode [simp]: "url_decode (url_encode bs) = Some bs"
  by (simp add: url_decode_def url_encode_def url64.decode_encode)

lemma b64_url_letter: "n < 64 \<Longrightarrow> byte_val (b64_url n) < 128 \<and> b64_url n \<noteq> CHR ''.''"
  using b64_std_alnum [of n] b64_specials
  by (cases "n < 62") (auto simp: b64_url_def b64_std_def byte_val_def)

lemma url_encode_letter: "c \<in> set (url_encode bs) \<Longrightarrow> byte_val c < 128 \<and> c \<noteq> CHR ''.''"
proof -
  assume "c \<in> set (url_encode bs)"
  then obtain n where "n < 64" "c = b64_url n"
    using url64.encode_letter [of c False bs] by (auto simp: url_encode_def)
  then show ?thesis using b64_url_letter [of n] by simp
qed

lemma is_ascii_url_encode [simp]: "is_ascii (url_encode bs)"
  by (auto simp: is_ascii_def list_all_iff dest: url_encode_letter)

lemma url_encode_no_dot [simp]: "CHR ''.'' \<notin> set (url_encode bs)"
  by (auto dest: url_encode_letter)

lemma b64_std_letter: "n < 64 \<Longrightarrow> byte_val (b64_std n) < 128"
  using b64_std_alnum [of n] by (cases "n < 62") (auto simp: b64_std_def byte_val_def)

lemma is_ascii_std_encode [simp]: "is_ascii (std_encode bs)"
proof -
  have "byte_val c < 128" if c: "c \<in> set (std_encode bs)" for c
  proof -
    consider n where "n < 64" "c = b64_std n" | "c = CHR ''=''"
      using c std64.encode_letter [of c True bs] by (auto simp: std_encode_def)
    then show ?thesis using b64_std_letter b64_specials(5) by cases auto
  qed
  then show ?thesis unfolding is_ascii_def list_all_iff by blast
qed

lemma url_encode_eq_Nil_iff [simp]: "url_encode bs = [] \<longleftrightarrow> bs = []"
  by (cases "(False, b64_url, bs)" rule: b64_encode.cases) (auto simp: url_encode_def)

lemma url_encode_inject: "url_encode a = url_encode b \<longleftrightarrow> a = b"
  by (metis url_decode_encode option.inject)

lemma length_std_encode: "length (std_encode bs) = (length bs + 2) div 3 * 4"
proof -
  have "length (b64_encode True em bs) = (length bs + 2) div 3 * 4" for em
  proof (induction bs rule: triple_induct)
    case (4 a b c r)
    have "(5 + length r) div 3 = Suc ((2 + length r) div 3)"
      by linarith
    with 4 show ?case by simp
  qed simp_all
  then show ?thesis by (simp add: std_encode_def)
qed

lemma std_encode_eq_Nil_iff [simp]: "std_encode bs = [] \<longleftrightarrow> bs = []"
  by (cases "(True, b64_std, bs)" rule: b64_encode.cases) (auto simp: std_encode_def)

end
