(* ===== verification/Cert_Identity.thy ===== *)
theory Cert_Identity
  imports Models Go_Encoding
begin

text \<open>
  Certificate identities: \<open>verify/cert.go\<close>. A \<open>[32]byte\<close> fingerprint is a datatype around its
  bytes. SHA-256 and the X.509 parser are parameters: a digest function \<open>sha\<close>, and the record
  \<open>x509_cert\<close> of the fields of a parsed certificate that the program reads, with its URI SANs
  already rendered by \<open>URL.String\<close>.
\<close>

section \<open>Fingerprints\<close>

datatype cert_fingerprint = Cert_Fingerprint (fp_bytes: bytes)

datatype fingerprint_error = FpPrefix | FpHex | FpLength nat

definition fp_from_der :: "(bytes \<Rightarrow> bytes) \<Rightarrow> bytes \<Rightarrow> cert_fingerprint" where
  "fp_from_der sha der = Cert_Fingerprint (sha der)"

definition fp_from_bytes :: "bytes \<Rightarrow> cert_fingerprint" where
  "fp_from_bytes b = Cert_Fingerprint b"

definition parse_fp_hex :: "string \<Rightarrow> fingerprint_error + cert_fingerprint" where
  "parse_fp_hex hex_str =
     (case hex_decode hex_str of
        None \<Rightarrow> Inl FpHex
      | Some decoded \<Rightarrow>
          (if length decoded \<noteq> 32 then Inl (FpLength (length decoded))
           else Inr (Cert_Fingerprint decoded)))"

definition parse_cert_fingerprint :: "string \<Rightarrow> fingerprint_error + cert_fingerprint" where
  "parse_cert_fingerprint s =
     (if has_prefix s ''SHA256:'' then parse_fp_hex (drop 7 s)
      else if has_prefix s ''sha256:'' then parse_fp_hex (drop 7 s)
      else Inl FpPrefix)"

definition fp_string :: "cert_fingerprint \<Rightarrow> string" where
  "fp_string f = ''SHA256:'' @ hex_encode (fp_bytes f)"

definition fp_to_hex :: "cert_fingerprint \<Rightarrow> string" where
  "fp_to_hex f = hex_encode (fp_bytes f)"

definition fp_matches :: "cert_fingerprint \<Rightarrow> string \<Rightarrow> bool" where
  "fp_matches f other =
     (case parse_cert_fingerprint other of Inl _ \<Rightarrow> False | Inr p \<Rightarrow> fp_bytes f = fp_bytes p)"

definition fp_equal :: "cert_fingerprint \<Rightarrow> cert_fingerprint \<Rightarrow> bool" where
  "fp_equal f g = (fp_bytes f = fp_bytes g)"

definition fp_is_zero :: "cert_fingerprint \<Rightarrow> bool" where
  "fp_is_zero f = (fp_bytes f = replicate 32 (CHR 0x00))"

definition fp_wf :: "cert_fingerprint \<Rightarrow> bool" where
  "fp_wf f = (length (fp_bytes f) = 32)"

lemma parse_fp_wf [accepts]: "parse_cert_fingerprint s = Inr f \<Longrightarrow> fp_wf f"
  by (auto simp: parse_cert_fingerprint_def parse_fp_hex_def fp_wf_def split: if_splits option.splits)

lemma parse_fp_string [simp]: "fp_wf f \<Longrightarrow> parse_cert_fingerprint (fp_string f) = Inr f"
  by (simp add: parse_cert_fingerprint_def parse_fp_hex_def fp_string_def fp_wf_def)

lemma fp_matches_iff: "fp_matches f s \<longleftrightarrow> parse_cert_fingerprint s = Inr f"
  by (cases f) (auto simp: fp_matches_def split: sum.splits intro: cert_fingerprint.expand)

lemma fp_matches_unique: "fp_matches f s \<Longrightarrow> fp_matches g s \<Longrightarrow> f = g"
  by (simp add: fp_matches_iff)

lemma fp_matches_empty [simp]: "\<not> fp_matches f []"
  by (simp add: fp_matches_iff parse_cert_fingerprint_def)

section \<open>ANS names\<close>

record ans_name =
  an_version :: version
  an_host :: string
  an_raw :: string

datatype ans_name_error =
    AnsEmpty
  | AnsScheme string
  | AnsNoV string
  | AnsParts string
  | AnsVersion version_error

definition parse_ans_name :: "unicode \<Rightarrow> string \<Rightarrow> ans_name_error + ans_name" where
  "parse_ans_name u uri =
     (if uri = [] then Inl AnsEmpty
      else if \<not> has_prefix uri ''ans://'' then Inl (AnsScheme uri)
      else let rest = drop (length ''ans://'') uri in
        if \<not> has_prefix rest ''v'' then Inl (AnsNoV uri)
        else (case split_n 4 CHR ''.'' rest of
           [a, b, c, host] \<Rightarrow>
             (case parse_version (a @ ''.'' @ b @ ''.'' @ c) of
                Inl e \<Rightarrow> Inl (AnsVersion e)
              | Inr v \<Rightarrow> Inr \<lparr>an_version = v, an_host = to_lower u host, an_raw = uri\<rparr>)
         | _ \<Rightarrow> Inl (AnsParts uri)))"

text \<open>The text \<open>ans://v<major>.<minor>.<patch>.<host>\<close> that names version \<open>v\<close> on \<open>host\<close>.\<close>

definition ans_uri :: "version \<Rightarrow> string \<Rightarrow> string" where
  "ans_uri v host = ''ans://'' @ version_string v @ ''.'' @ host"

lemma split_ans_rest:
  "split_n 4 CHR ''.'' (version_string v @ CHR ''.'' # host) =
     [''v'' @ show_nat (unat (v_major v)), show_nat (unat (v_minor v)), show_nat (unat (v_patch v)), host]"
proof -
  have nd: "CHR ''.'' \<notin> set (CHR ''v'' # show_nat (unat (v_major v)))"
    "CHR ''.'' \<notin> set (show_nat (unat (v_minor v)))" "CHR ''.'' \<notin> set (show_nat (unat (v_patch v)))"
    by (simp_all add: show_nat_no_sep)
  have "version_string v @ CHR ''.'' # host =
      (CHR ''v'' # show_nat (unat (v_major v))) @ CHR ''.'' # show_nat (unat (v_minor v)) @ CHR ''.''
        # show_nat (unat (v_patch v)) @ CHR ''.'' # host"
    by (simp add: version_string_def)
  moreover have "(4::nat) = Suc (Suc (Suc (Suc 0)))" by simp
  ultimately show ?thesis
    by (simp only: split_n_step [OF nd(1)] split_n_step [OF nd(2)] split_n_step [OF nd(3)]
        split_n.simps(2)) simp
qed

lemma parse_ans_uri:
  "parse_ans_name u (ans_uri v host) =
     Inr \<lparr>an_version = v, an_host = to_lower u host, an_raw = ans_uri v host\<rparr>"
proof -
  have "has_prefix (version_string v @ CHR ''.'' # host) ''v''"
    by (simp add: version_string_def)
  moreover have "parse_version ((''v'' @ show_nat (unat (v_major v))) @ ''.'' @
      show_nat (unat (v_minor v)) @ ''.'' @ show_nat (unat (v_patch v))) = Inr v"
    using parse_version_string [of v] by (simp add: version_string_def)
  ultimately show ?thesis
    by (simp add: parse_ans_name_def ans_uri_def split_ans_rest Let_def)
qed

lemma parse_ans_name_raw [accepts]: "parse_ans_name u s = Inr a \<Longrightarrow> an_raw a = s"
  by (auto simp: parse_ans_name_def Let_def split: if_splits list.splits sum.splits)

lemma parse_ans_name_prefix: "parse_ans_name u s = Inr a \<Longrightarrow> has_prefix s ''ans://''"
  by (auto simp: parse_ans_name_def split: if_splits)

section \<open>Certificate identities\<close>

record x509_cert =
  x_subject_cn :: string
  x_dns_names :: "string list"
  x_uris :: "string list"
  x_raw :: bytes
  x_raw_spki :: bytes
  x_not_before :: int
  x_not_after :: int

record cert_identity =
  ci_common_name :: "string option"
  ci_dns_sans :: "string list"
  ci_uri_sans :: "string list"
  ci_fingerprint :: cert_fingerprint
  ci_raw :: bytes
  ci_spki_raw :: bytes

definition new_cert_identity ::
  "string option \<Rightarrow> string list \<Rightarrow> string list \<Rightarrow> cert_fingerprint \<Rightarrow> cert_identity" where
  "new_cert_identity cn dns uris fp =
     \<lparr>ci_common_name = cn, ci_dns_sans = dns, ci_uri_sans = uris, ci_fingerprint = fp,
      ci_raw = [], ci_spki_raw = []\<rparr>"

definition cert_identity_from_x509 :: "(bytes \<Rightarrow> bytes) \<Rightarrow> x509_cert \<Rightarrow> cert_identity" where
  "cert_identity_from_x509 sha cert =
     \<lparr>ci_common_name = (if x_subject_cn cert \<noteq> [] then Some (x_subject_cn cert) else None),
      ci_dns_sans = x_dns_names cert,
      ci_uri_sans = x_uris cert,
      ci_fingerprint = fp_from_der sha (x_raw cert),
      ci_raw = x_raw cert,
      ci_spki_raw = x_raw_spki cert\<rparr>"

definition cert_identity_from_der ::
  "(bytes \<Rightarrow> bytes) \<Rightarrow> (bytes \<Rightarrow> 'e + x509_cert) \<Rightarrow> bytes \<Rightarrow> 'e + cert_identity" where
  "cert_identity_from_der sha parse der =
     rbind (parse der) (\<lambda>cert. Inr (cert_identity_from_x509 sha cert))"

definition cert_identity_from_fp_cn :: "cert_fingerprint \<Rightarrow> string \<Rightarrow> cert_identity" where
  "cert_identity_from_fp_cn fp cn =
     \<lparr>ci_common_name = Some cn, ci_dns_sans = [cn], ci_uri_sans = [], ci_fingerprint = fp,
      ci_raw = [], ci_spki_raw = []\<rparr>"

definition cert_fqdn :: "cert_identity \<Rightarrow> string option" where
  "cert_fqdn c = (case ci_dns_sans c of d # _ \<Rightarrow> Some d | [] \<Rightarrow> ci_common_name c)"

fun first_ans_name :: "unicode \<Rightarrow> string list \<Rightarrow> ans_name option" where
  "first_ans_name u [] = None"
| "first_ans_name u (uri # uris) =
     (if has_prefix uri ''ans://'' then
        (case parse_ans_name u uri of Inr a \<Rightarrow> Some a | Inl _ \<Rightarrow> first_ans_name u uris)
      else first_ans_name u uris)"

definition cert_ans_name :: "unicode \<Rightarrow> cert_identity \<Rightarrow> ans_name option" where
  "cert_ans_name u c = first_ans_name u (ci_uri_sans c)"

definition cert_version :: "unicode \<Rightarrow> cert_identity \<Rightarrow> version option" where
  "cert_version u c = map_option an_version (cert_ans_name u c)"

lemma first_ans_name_SomeD:
  "first_ans_name u uris = Some a \<Longrightarrow> an_raw a \<in> set uris \<and> parse_ans_name u (an_raw a) = Inr a"
  by (induction u uris rule: first_ans_name.induct)
    (auto split: if_splits sum.splits dest: parse_ans_name_raw)

lemma first_ans_name_None_iff:
  "first_ans_name u uris = None \<longleftrightarrow> (\<forall>s\<in>set uris. \<not> is_ok (parse_ans_name u s))"
  by (induction u uris rule: first_ans_name.induct)
    (auto split: if_splits sum.splits dest: parse_ans_name_prefix simp: is_ok_def)

lemma cert_ans_name_SomeD [accepts]:
  "cert_ans_name u c = Some a \<Longrightarrow> an_raw a \<in> set (ci_uri_sans c) \<and> parse_ans_name u (an_raw a) = Inr a"
  by (simp add: cert_ans_name_def first_ans_name_SomeD)

end
