(* ===== verification/Go_Url.thy ===== *)
theory Go_Url
  imports Go_Encoding
begin

text \<open>
  \<open>url.Parse\<close> of Go's \<open>net/url\<close> and the accessors the program calls: \<open>Scheme\<close>, \<open>User\<close> (only its
  presence is read), \<open>Host\<close>, \<open>Hostname\<close>, \<open>Port\<close>, \<open>Path\<close>, \<open>EscapedPath\<close>, \<open>RawQuery\<close>, \<open>Fragment\<close>.
  A failed parse is \<open>None\<close>: the program only reports that it failed. Releases of Go differ in
  which text they accept between the brackets of an IP literal, so that check is the parameter
  \<open>bracket_ok\<close>.
\<close>

record url =
  url_scheme :: string
  url_opaque :: string
  url_has_user :: bool
  url_host :: string
  url_path :: string
  url_raw_path :: string
  url_raw_query :: string
  url_fragment :: string

definition empty_url :: url where
  "empty_url = \<lparr>url_scheme = [], url_opaque = [], url_has_user = False, url_host = [],
     url_path = [], url_raw_path = [], url_raw_query = [], url_fragment = []\<rparr>"

section \<open>Percent encoding\<close>

datatype url_mode = EncodePath | EncodeHost | EncodeZone | EncodeUserPassword | EncodeFragment

definition is_alnum :: "char \<Rightarrow> bool" where
  "is_alnum c =
     ((97 \<le> byte_val c \<and> byte_val c \<le> 122) \<or> (65 \<le> byte_val c \<and> byte_val c \<le> 90) \<or> is_digit c)"

definition should_escape :: "url_mode \<Rightarrow> char \<Rightarrow> bool" where
  "should_escape m c =
     (if is_alnum c then False
      else if (m = EncodeHost \<or> m = EncodeZone) \<and> c \<in> set ''!$&()*+,;=:[]<>'' \<union> {CHR 0x22, CHR 0x27} then False
      else if c \<in> set ''-_.~'' then False
      else if c \<in> set ''$&+,/:;=?@'' then
        (case m of
           EncodePath \<Rightarrow> c = CHR ''?''
         | EncodeUserPassword \<Rightarrow> c \<in> set ''@/?:''
         | EncodeFragment \<Rightarrow> False
         | _ \<Rightarrow> True)
      else if m = EncodeFragment \<and> c \<in> set ''!()*'' then False
      else True)"

fun unescape :: "url_mode \<Rightarrow> string \<Rightarrow> string option" where
  "unescape m [] = Some []"
| "unescape m (c # cs) =
     (if c = CHR ''%'' then
        (case cs of
           a # b # rest \<Rightarrow>
             (case (hex_val a, hex_val b) of
                (Some x, Some y) \<Rightarrow>
                  (if m = EncodeHost \<and> x < 8 \<and> \<not> (a = CHR ''2'' \<and> b = CHR ''5'') then None
                   else if m = EncodeZone \<and> \<not> (a = CHR ''2'' \<and> b = CHR ''5'') \<and> 16 * x + y \<noteq> 32
                      \<and> should_escape EncodeHost (char_of (16 * x + y)) then None
                   else map_option (\<lambda>r. char_of (16 * x + y) # r) (unescape m rest))
              | _ \<Rightarrow> None)
         | _ \<Rightarrow> None)
      else if (m = EncodeHost \<or> m = EncodeZone) \<and> byte_val c < 128 \<and> should_escape m c then None
      else map_option (\<lambda>r. c # r) (unescape m cs))"

text \<open>\<open>escape\<close> writes upper-case hexadecimal digits.\<close>

definition upper_hex_char :: "nat \<Rightarrow> char" where
  "upper_hex_char n = (if n < 10 then char_of (48 + n) else char_of (55 + n))"

fun escape_path :: "string \<Rightarrow> string" where
  "escape_path [] = []"
| "escape_path (c # cs) =
     (if should_escape EncodePath c
      then CHR ''%'' # upper_hex_char (byte_val c div 16) # upper_hex_char (byte_val c mod 16) # escape_path cs
      else c # escape_path cs)"

definition valid_encoded_path :: "string \<Rightarrow> bool" where
  "valid_encoded_path s =
     list_all (\<lambda>c. c \<in> set ''!$&()*+,;=:@[]%'' \<union> {CHR 0x27} \<or> \<not> should_escape EncodePath c) s"

section \<open>Authorities\<close>

text \<open>The text before and after the last occurrence of a byte (\<open>strings.LastIndex\<close>).\<close>

definition cut_last :: "char \<Rightarrow> string \<Rightarrow> (string \<times> string) option" where
  "cut_last c s = map_option (\<lambda>(a, b). (rev b, rev a)) (cut_at c (rev s))"

definition valid_optional_port :: "string \<Rightarrow> bool" where
  "valid_optional_port p =
     (case p of [] \<Rightarrow> True | c # ds \<Rightarrow> c = CHR '':'' \<and> list_all is_digit ds)"

definition valid_userinfo :: "string \<Rightarrow> bool" where
  "valid_userinfo s = list_all (\<lambda>c. is_alnum c \<or> c \<in> set ''-._:~!$&()*+,;=%@'' \<union> {CHR 0x27}) s"

definition parse_url_host :: "(string \<Rightarrow> bool) \<Rightarrow> string \<Rightarrow> string option" where
  "parse_url_host bracket_ok host =
     (if has_prefix host ''['' then
        (case cut_last (CHR '']'') host of
           None \<Rightarrow> None
         | Some (inner, port) \<Rightarrow>
             if \<not> valid_optional_port port \<or> \<not> bracket_ok (drop 1 inner) then None
             else (case cut_sub ''%25'' inner of
                 Some (host1, zone) \<Rightarrow>
                   (case (unescape EncodeHost host1, unescape EncodeZone (''%25'' @ zone),
                          unescape EncodeHost ('']'' @ port)) of
                      (Some a, Some b, Some c) \<Rightarrow> Some (a @ b @ c)
                    | _ \<Rightarrow> None)
               | None \<Rightarrow> unescape EncodeHost host))
      else (case cut_last (CHR '':'') host of
          Some (_, port) \<Rightarrow>
            if valid_optional_port (CHR '':'' # port) then unescape EncodeHost host else None
        | None \<Rightarrow> unescape EncodeHost host))"

text \<open>The host, and whether the authority carries userinfo.\<close>

definition parse_authority :: "(string \<Rightarrow> bool) \<Rightarrow> string \<Rightarrow> (bool \<times> string) option" where
  "parse_authority bracket_ok authority =
     (case cut_last (CHR ''@'') authority of
        None \<Rightarrow> map_option (\<lambda>h. (False, h)) (parse_url_host bracket_ok authority)
      | Some (userinfo, host) \<Rightarrow>
          (case parse_url_host bracket_ok host of
             None \<Rightarrow> None
           | Some h \<Rightarrow>
               if \<not> valid_userinfo userinfo then None
               else (case cut_at (CHR '':'') userinfo of
                   None \<Rightarrow> map_option (\<lambda>_. (True, h)) (unescape EncodeUserPassword userinfo)
                 | Some (name, password) \<Rightarrow>
                     (case (unescape EncodeUserPassword name, unescape EncodeUserPassword password) of
                        (Some _, Some _) \<Rightarrow> Some (True, h)
                      | _ \<Rightarrow> None))))"

section \<open>Parsing\<close>

text \<open>\<open>getScheme\<close>: \<open>None\<close> for a missing scheme before a colon, otherwise the scheme and the rest.\<close>

fun scan_scheme :: "string \<Rightarrow> string \<Rightarrow> string \<Rightarrow> (string \<times> string) option" where
  "scan_scheme raw acc [] = Some ([], raw)"
| "scan_scheme raw acc (c # cs) =
     (if (97 \<le> byte_val c \<and> byte_val c \<le> 122) \<or> (65 \<le> byte_val c \<and> byte_val c \<le> 90)
      then scan_scheme raw (acc @ [c]) cs
      else if is_digit c \<or> c \<in> set ''+-.'' then
        (if acc = [] then Some ([], raw) else scan_scheme raw (acc @ [c]) cs)
      else if c = CHR '':'' then (if acc = [] then None else Some (acc, cs))
      else Some ([], raw))"

definition get_scheme :: "string \<Rightarrow> (string \<times> string) option" where
  "get_scheme raw = scan_scheme raw [] raw"

definition has_ctl_byte :: "string \<Rightarrow> bool" where
  "has_ctl_byte s = list_ex (\<lambda>c. byte_val c < 32 \<or> byte_val c = 127) s"

definition cut_query :: "string \<Rightarrow> string \<times> string" where
  "cut_query rest = (case cut_at (CHR ''?'') rest of None \<Rightarrow> (rest, []) | Some (a, b) \<Rightarrow> (a, b))"

definition set_path :: "string \<Rightarrow> url \<Rightarrow> url option" where
  "set_path p u =
     (case unescape EncodePath p of
        None \<Rightarrow> None
      | Some path \<Rightarrow>
          Some (u\<lparr>url_path := path, url_raw_path := (if p = escape_path path then [] else p)\<rparr>))"

definition parse_no_fragment :: "(string \<Rightarrow> bool) \<Rightarrow> string \<Rightarrow> url option" where
  "parse_no_fragment bracket_ok raw =
     (if has_ctl_byte raw then None
      else if raw = ''*'' then Some (empty_url\<lparr>url_path := ''*''\<rparr>)
      else (case get_scheme raw of
          None \<Rightarrow> None
        | Some (scheme0, rest0) \<Rightarrow>
            let scheme = map ascii_lower scheme0;
                (rest, query) = cut_query rest0;
                u = empty_url\<lparr>url_scheme := scheme, url_raw_query := query\<rparr>
            in
            if \<not> has_prefix rest ''/'' \<and> scheme \<noteq> [] then Some (u\<lparr>url_opaque := rest\<rparr>)
            else if \<not> has_prefix rest ''/'' \<and>
                CHR '':'' \<in> set (case cut_at (CHR ''/'') rest of None \<Rightarrow> rest | Some (a, _) \<Rightarrow> a) then None
            else if (scheme \<noteq> [] \<or> \<not> has_prefix rest ''///'') \<and> has_prefix rest ''//'' then
              (let auth_rest = drop 2 rest;
                   (authority, path) =
                     (case cut_at (CHR ''/'') auth_rest of
                        None \<Rightarrow> (auth_rest, []) | Some (a, b) \<Rightarrow> (a, CHR ''/'' # b))
               in (case parse_authority bracket_ok authority of
                     None \<Rightarrow> None
                   | Some (has_user, host) \<Rightarrow>
                       set_path path (u\<lparr>url_has_user := has_user, url_host := host\<rparr>)))
            else set_path rest u))"

definition url_parse :: "(string \<Rightarrow> bool) \<Rightarrow> string \<Rightarrow> url option" where
  "url_parse bracket_ok raw =
     (case cut_at (CHR ''#'') raw of
        None \<Rightarrow> parse_no_fragment bracket_ok raw
      | Some (u, frag) \<Rightarrow>
          (case parse_no_fragment bracket_ok u of
             None \<Rightarrow> None
           | Some url \<Rightarrow>
               if frag = [] then Some url
               else map_option (\<lambda>f. url\<lparr>url_fragment := f\<rparr>) (unescape EncodeFragment frag)))"

section \<open>Accessors\<close>

definition split_host_port :: "string \<Rightarrow> string \<times> string" where
  "split_host_port hp =
     (let (host, port) =
        (case cut_last (CHR '':'') hp of
           Some (h, p) \<Rightarrow> (if valid_optional_port (CHR '':'' # p) then (h, p) else (hp, []))
         | None \<Rightarrow> (hp, []))
      in (if has_prefix host ''['' \<and> has_suffix host '']'' then take (length host - 2) (drop 1 host) else host,
          port))"

definition url_hostname :: "url \<Rightarrow> string" where
  "url_hostname u = fst (split_host_port (url_host u))"

definition url_port :: "url \<Rightarrow> string" where
  "url_port u = snd (split_host_port (url_host u))"

definition escaped_path :: "url \<Rightarrow> string" where
  "escaped_path u =
     (if url_raw_path u \<noteq> [] \<and> valid_encoded_path (url_raw_path u)
         \<and> unescape EncodePath (url_raw_path u) = Some (url_path u)
      then url_raw_path u
      else if url_path u = ''*'' then ''*''
      else escape_path (url_path u))"

lemma cut_last_None_iff: "cut_last c s = None \<longleftrightarrow> c \<notin> set s"
  by (simp add: cut_last_def cut_at_None_iff)

lemma cut_last_append [simp]: "c \<notin> set q \<Longrightarrow> cut_last c (p @ c # q) = Some (p, q)"
  by (simp add: cut_last_def)

lemma cut_last_SomeD: "cut_last c s = Some (a, b) \<Longrightarrow> s = a @ c # b \<and> c \<notin> set b"
proof -
  assume "cut_last c s = Some (a, b)"
  then obtain x y where xy: "cut_at c (rev s) = Some (x, y)" "a = rev y" "b = rev x"
    by (auto simp: cut_last_def)
  from cut_at_SomeD [OF xy(1)] have "rev s = x @ c # y" "c \<notin> set x" by auto
  then show ?thesis
    using xy by (metis append.assoc append_Cons append_Nil rev.simps(2) rev_append rev_rev_ident set_rev)
qed

lemma unescape_not_Nil: "unescape m s = Some r \<Longrightarrow> s \<noteq> [] \<Longrightarrow> r \<noteq> []"
  by (cases s) (auto split: if_splits list.splits option.splits)

lemma hex_val_upper_hex [simp]: "n < 16 \<Longrightarrow> hex_val (upper_hex_char n) = Some n"
  by (auto simp: hex_val_def upper_hex_char_def Let_def)

lemma percent_escaped: "should_escape EncodePath (CHR ''%'')"
  by (simp add: should_escape_def is_alnum_def is_digit_def byte_val_def)

text \<open>Escaping a path and reading it back gives the path.\<close>

lemma unescape_escape_path [simp]: "unescape EncodePath (escape_path p) = Some p"
proof (induction p)
  case (Cons c cs)
  have less: "byte_val c div 16 < 16" "byte_val c mod 16 < 16"
    by (simp_all add: less_mult_imp_div_less)
  show ?case
  proof (cases "should_escape EncodePath c")
    case True
    have "hex_val (upper_hex_char (byte_val c div 16)) = Some (byte_val c div 16)"
      "hex_val (upper_hex_char (byte_val c mod 16)) = Some (byte_val c mod 16)"
      using less by (simp_all only: hex_val_upper_hex)
    with True Cons show ?thesis by simp
  next
    case False
    then have "c \<noteq> CHR ''%''" using percent_escaped by auto
    with False Cons show ?thesis by simp
  qed
qed simp

end
