(* ===== verification/Merkle.thy ===== *)
theory Merkle
  imports Prelude
begin

unbundle bit_operations_syntax

text \<open>
  RFC 9162 Merkle inclusion proofs: \<open>verify/scitt/merkle.go\<close>. The code walks a proof with two
  \<open>uint64\<close> registers, kept here as 64-bit words; \<open>sha\<close> is SHA-256, a parameter. The second
  half restates the loop on natural numbers, with the inner loop unfolded one level at a time.
\<close>

datatype merkle_error_type = MerkleErrInvalidProof | MerkleErrRootMismatch

definition max_hash_path_len :: nat where
  "max_hash_path_len = 63"

definition leaf_input :: "bytes \<Rightarrow> bytes" where
  "leaf_input d = CHR 0x00 # d"

definition node_input :: "bytes \<Rightarrow> bytes \<Rightarrow> bytes" where
  "node_input l r = CHR 0x01 # l @ r"

definition compute_leaf_hash :: "(bytes \<Rightarrow> bytes) \<Rightarrow> bytes \<Rightarrow> bytes" where
  "compute_leaf_hash sha d = sha (leaf_input d)"

definition compute_node_hash :: "(bytes \<Rightarrow> bytes) \<Rightarrow> bytes \<Rightarrow> bytes \<Rightarrow> bytes" where
  "compute_node_hash sha l r = sha (node_input l r)"

lemma unat_half: "unat (drop_bit (Suc 0) (w :: 64 word)) = unat w div 2"
  by (simp add: drop_bit_Suc unat_div_distrib)

lemma low_bit_zero_iff: "(w :: 64 word) AND 1 = 0 \<longleftrightarrow> even (unat w)"
proof -
  have "w AND 1 = 0 \<longleftrightarrow> even w"
    by (simp add: and_one_eq odd_iff_mod_2_eq_one even_iff_mod_2_eq_zero)
  also have "\<dots> \<longleftrightarrow> even (unat w)"
    by transfer (simp add: even_nat_iff)
  finally show ?thesis .
qed

lemma low_bit_one_iff: "(w :: 64 word) AND 1 = 1 \<longleftrightarrow> odd (unat w)"
proof -
  have "w AND 1 = 1 \<longleftrightarrow> \<not> w AND 1 = 0"
    by (cases "even w") (simp_all add: and_one_eq odd_iff_mod_2_eq_one even_iff_mod_2_eq_zero)
  then show ?thesis by (simp add: low_bit_zero_iff)
qed

text \<open>The inner loop \<open>for fn&1 == 0 && fn != 0\<close>.\<close>

function skip_even :: "64 word \<Rightarrow> 64 word \<Rightarrow> 64 word \<times> 64 word" where
  "skip_even f s =
     (if f AND 1 = 0 \<and> f \<noteq> 0 then skip_even (drop_bit 1 f) (drop_bit 1 s) else (f, s))"
  by pat_completeness auto
termination
proof (relation "measure (\<lambda>(f, s). unat f)")
  fix f s :: "64 word"
  assume "f AND 1 = 0 \<and> f \<noteq> 0"
  then have "unat f \<noteq> 0" by (simp add: unat_eq_zero)
  then show "((drop_bit 1 f, drop_bit 1 s), f, s) \<in> measure (\<lambda>(f, s). unat f)"
    by (simp add: unat_half)
qed simp

declare skip_even.simps [simp del]

fun walk_loop ::
  "(bytes \<Rightarrow> bytes) \<Rightarrow> 64 word \<Rightarrow> 64 word \<Rightarrow> bytes \<Rightarrow> bytes list \<Rightarrow> merkle_error_type + bytes" where
  "walk_loop sha f s r [] = (if s \<noteq> 0 then Inl MerkleErrInvalidProof else Inr r)"
| "walk_loop sha f s r (p # ps) =
     (if s = 0 then Inl MerkleErrInvalidProof
      else if f AND 1 = 1 \<or> f = s then
        (case skip_even f s of
           (f', s') \<Rightarrow> walk_loop sha (drop_bit 1 f') (drop_bit 1 s') (compute_node_hash sha p r) ps)
      else walk_loop sha (drop_bit 1 f) (drop_bit 1 s) (compute_node_hash sha r p) ps)"

definition walk_inclusion_path ::
  "(bytes \<Rightarrow> bytes) \<Rightarrow> bytes \<Rightarrow> 64 word \<Rightarrow> 64 word \<Rightarrow> bytes list \<Rightarrow> merkle_error_type + bytes" where
  "walk_inclusion_path sha event leaf_index tree_size path =
     (if tree_size = 0 then Inl MerkleErrInvalidProof
      else if leaf_index \<ge> tree_size then Inl MerkleErrInvalidProof
      else if length path > max_hash_path_len then Inl MerkleErrInvalidProof
      else walk_loop sha leaf_index (tree_size - 1) (compute_leaf_hash sha event) path)"

definition verify_merkle_inclusion ::
  "(bytes \<Rightarrow> bytes) \<Rightarrow> bytes \<Rightarrow> 64 word \<Rightarrow> 64 word \<Rightarrow> bytes list \<Rightarrow> bytes \<Rightarrow> merkle_error_type option" where
  "verify_merkle_inclusion sha event leaf_index tree_size path expected =
     (case walk_inclusion_path sha event leaf_index tree_size path of
        Inl e \<Rightarrow> Some e
      | Inr computed \<Rightarrow> if computed \<noteq> expected then Some MerkleErrRootMismatch else None)"

section \<open>The loop on natural numbers\<close>

fun skip_even_nat :: "nat \<Rightarrow> nat \<Rightarrow> nat \<times> nat" where
  "skip_even_nat f s = (if even f \<and> f \<noteq> 0 then skip_even_nat (f div 2) (s div 2) else (f, s))"

declare skip_even_nat.simps [simp del]

fun walk_nat :: "(bytes \<Rightarrow> bytes) \<Rightarrow> nat \<Rightarrow> nat \<Rightarrow> bytes \<Rightarrow> bytes list \<Rightarrow> merkle_error_type + bytes" where
  "walk_nat sha f s r [] = (if s \<noteq> 0 then Inl MerkleErrInvalidProof else Inr r)"
| "walk_nat sha f s r (p # ps) =
     (if s = 0 then Inl MerkleErrInvalidProof
      else if odd f \<or> f = s then
        (case skip_even_nat f s of
           (f', s') \<Rightarrow> walk_nat sha (f' div 2) (s' div 2) (compute_node_hash sha p r) ps)
      else walk_nat sha (f div 2) (s div 2) (compute_node_hash sha r p) ps)"

lemma skip_even_step:
  "skip_even f s =
     (if even (unat f) \<and> unat f \<noteq> 0 then skip_even (drop_bit (Suc 0) f) (drop_bit (Suc 0) s) else (f, s))"
proof -
  have "(f AND 1 = 0 \<and> f \<noteq> 0) = (even (unat f) \<and> unat f \<noteq> 0)"
    by (simp only: low_bit_zero_iff unat_eq_zero)
  then show ?thesis by (subst skip_even.simps) simp
qed

lemma skip_even_refines:
  "map_prod unat unat (skip_even f s) = skip_even_nat (unat f) (unat s)"
proof (induction f s rule: skip_even.induct)
  case (1 f s)
  show ?case
  proof (cases "even (unat f) \<and> unat f \<noteq> 0")
    case True
    then have "f AND 1 = 0 \<and> f \<noteq> 0"
      by (metis low_bit_zero_iff unat_eq_zero)
    from "1.IH" [OF this] True show ?thesis
      by (subst skip_even_step, subst skip_even_nat.simps) (simp add: unat_half)
  next
    case False
    then show ?thesis
      by (subst skip_even_step, subst skip_even_nat.simps) auto
  qed
qed

lemma walk_loop_refines: "walk_loop sha f s r ps = walk_nat sha (unat f) (unat s) r ps"
proof (induction sha f s r ps rule: walk_loop.induct)
  case (2 sha f s r p ps)
  obtain f' s' where sk: "skip_even f s = (f', s')" by fastforce
  then have "skip_even_nat (unat f) (unat s) = (unat f', unat s')"
    using skip_even_refines [of f s] by simp
  moreover have "f = s \<longleftrightarrow> unat f = unat s" by (simp add: word_unat_eq_iff)
  ultimately show ?case
    using 2 sk by (simp add: low_bit_one_iff unat_eq_zero unat_half)
qed (simp add: unat_eq_zero)

text \<open>
  The same walk one tree level per step: a last node without a sibling is promoted unchanged.
\<close>

function walk_levels :: "(bytes \<Rightarrow> bytes) \<Rightarrow> nat \<Rightarrow> nat \<Rightarrow> bytes \<Rightarrow> bytes list \<Rightarrow> merkle_error_type + bytes"
where
  "walk_levels sha f s r ps =
     (if s = 0 then (if ps = [] then Inr r else Inl MerkleErrInvalidProof)
      else if even f \<and> f = s then walk_levels sha (f div 2) (s div 2) r ps
      else if ps = [] then Inl MerkleErrInvalidProof
      else walk_levels sha (f div 2) (s div 2)
             (if odd f then compute_node_hash sha (hd ps) r else compute_node_hash sha r (hd ps)) (tl ps))"
  by pat_completeness auto
termination by (relation "measure (\<lambda>(sha, f, s, r, ps). s)") auto

declare walk_levels.simps [simp del]

lemma walk_promote:
  assumes "even s" "s \<noteq> 0"
  shows "walk_nat sha s s r ps = walk_nat sha (s div 2) (s div 2) r ps"
proof -
  have h: "s div 2 \<noteq> 0" using assms by auto
  have "skip_even_nat s s = skip_even_nat (s div 2) (s div 2)"
    using assms by (subst skip_even_nat.simps) simp
  with assms h show ?thesis by (cases ps) auto
qed

lemma walk_nat_levels: "f \<le> s \<Longrightarrow> walk_nat sha f s r ps = walk_levels sha f s r ps"
proof (induction sha f s r ps rule: walk_levels.induct)
  case (1 sha f s r ps)
  have le: "f div 2 \<le> s div 2" using 1 by (simp add: div_le_mono)
  consider "s = 0" | "s \<noteq> 0" "even f" "f = s" | "s \<noteq> 0" "\<not> (even f \<and> f = s)" by blast
  then show ?case
  proof cases
    case 1
    then show ?thesis by (cases ps) (simp_all add: walk_levels.simps)
  next
    case 2
    with "1.IH"(1) le show ?thesis
      by (simp add: walk_promote walk_levels.simps [of sha s s])
  next
    case 3
    then have "odd f \<Longrightarrow> skip_even_nat f s = (f, s)"
      by (subst skip_even_nat.simps) simp
    with 3 "1.IH"(2) le show ?thesis
      by (cases ps) (auto simp: walk_levels.simps [of sha f s])
  qed
qed

lemma walk_loop_levels:
  "f \<le> s \<Longrightarrow> walk_loop sha f s r ps = walk_levels sha (unat f) (unat s) r ps"
  by (simp add: walk_loop_refines walk_nat_levels word_le_nat_alt)

lemma verify_inclusion_iff [accepts]:
  "verify_merkle_inclusion sha event i n path expected = None \<longleftrightarrow>
     i < n \<and> length path \<le> max_hash_path_len
     \<and> walk_levels sha (unat i) (unat n - 1) (compute_leaf_hash sha event) path = Inr expected"
proof (cases "i < n")
  case True
  then have n0: "n \<noteq> 0" by (metis word_not_simps(1))
  then have u: "unat (n - 1) = unat n - 1" by (simp add: unat_minus_one)
  have "i \<le> n - 1" using True n0 u by (simp add: word_le_nat_alt word_less_nat_alt)
  with True n0 u show ?thesis
    by (auto simp: verify_merkle_inclusion_def walk_inclusion_path_def walk_loop_levels
        split: sum.splits if_splits)
next
  case False
  then show ?thesis
    by (auto simp: verify_merkle_inclusion_def walk_inclusion_path_def)
qed

end
