(* ===== verification/Scitt_Types.thy ===== *)
theory Scitt_Types
  imports Go_Strings Merkle
begin

text \<open>
  Types shared by package \<open>verify/scitt\<close>: the error structs of \<open>errors.go\<close>, with the fields code
  reads and without the message texts, the statuses and payload of \<open>types.go\<close>, and the third-party
  code the package calls. The CBOR library \<open>fxamacker/cbor\<close> is the record \<open>cbor_lib\<close> of its decoding
  functions at the types the code decodes to; the standard library's ECDSA and X.509 are the
  record \<open>crypto\<close>.
\<close>

type_synonym int64 = "64 word"
type_synonym uint64 = "64 word"
type_synonym kid = bytes

section \<open>Errors\<close>

datatype cose_error_type = CoseErrOversizedInput | CoseErrNotACoseSign1 | CoseErrCborDecode
  | CoseErrInvalidArrayLength | CoseErrInvalidSignatureLength | CoseErrInvalidProtectedHeader
  | CoseErrInvalidUnprotectedHeader | CoseErrUnsupportedAlgorithm | CoseErrMissingKid

datatype signature_error_type = SigErrSignatureInvalid | SigErrUnknownKeyID | SigErrIssuerMismatch
  | SigErrInvalidKeyFormat | SigErrKeyHashMismatch | SigErrInvalidPublicKey | SigErrUntrustedKeyDomain

datatype token_error_type = TokenErrExpired | TokenErrMissingField | TokenErrPayloadInvalid
  | TokenErrTerminalStatus | TokenErrPayloadEmpty

datatype transport_error_type = TransportErrNotFound | TransportErrAgentTerminal | TransportErrNotSupported
  | TransportErrHTTPError | TransportErrBase64Decode

record transport_error =
  te_type :: transport_error_type
  te_status_code :: nat
  te_retry_after :: int

datatype checkpoint_error_type = CheckpointErrOversizedInput | CheckpointErrMalformed
  | CheckpointErrInvalidSize | CheckpointErrInvalidRootHash | CheckpointErrSizeMismatch
  | CheckpointErrRootMismatch

type_synonym agent_status = string

datatype scitt_error =
    ErrCose cose_error_type
  | ErrSignature signature_error_type kid
  | ErrMerkle merkle_error_type
  | ErrToken token_error_type agent_status int64 int64
  | ErrTransport transport_error
  | ErrCheckpoint checkpoint_error_type
  | ErrDecMode
  | ErrCertArray

definition zero_kid :: kid where
  "zero_kid = replicate 4 (CHR 0x00)"

definition should_fallback_to_badge :: "transport_error \<Rightarrow> bool" where
  "should_fallback_to_badge e =
     (case te_type e of
        TransportErrNotFound \<Rightarrow> True
      | TransportErrNotSupported \<Rightarrow> True
      | TransportErrHTTPError \<Rightarrow> True
      | _ \<Rightarrow> False)"

section \<open>Agent status and token payload\<close>

definition StatusActive :: agent_status where "StatusActive = ''ACTIVE''"
definition StatusWarning :: agent_status where "StatusWarning = ''WARNING''"
definition StatusDeprecated :: agent_status where "StatusDeprecated = ''DEPRECATED''"
definition StatusExpired :: agent_status where "StatusExpired = ''EXPIRED''"
definition StatusRevoked :: agent_status where "StatusRevoked = ''REVOKED''"

lemmas agent_status_defs = StatusActive_def StatusWarning_def StatusDeprecated_def StatusExpired_def
  StatusRevoked_def

definition status_valid_for_connection :: "agent_status \<Rightarrow> bool" where
  "status_valid_for_connection s = (s = StatusActive \<or> s = StatusWarning \<or> s = StatusDeprecated)"

definition status_is_terminal :: "agent_status \<Rightarrow> bool" where
  "status_is_terminal s = (s = StatusExpired \<or> s = StatusRevoked)"

lemma status_disjoint: "\<not> (status_valid_for_connection s \<and> status_is_terminal s)"
  by (auto simp: status_valid_for_connection_def status_is_terminal_def agent_status_defs)

record cert_entry =
  cert_fp :: bytes
  cert_type :: string

record status_payload =
  sp_agent_id :: string
  sp_ans_name :: string
  sp_status :: agent_status
  sp_iat :: int64
  sp_exp :: int64
  sp_identity_certs :: "cert_entry list"
  sp_server_certs :: "cert_entry list"
  sp_metadata_hashes :: "string \<rightharpoonup> string"

definition empty_payload :: status_payload where
  "empty_payload = \<lparr>sp_agent_id = [], sp_ans_name = [], sp_status = [], sp_iat = 0, sp_exp = 0,
     sp_identity_certs = [], sp_server_certs = [], sp_metadata_hashes = Map.empty\<rparr>"

section \<open>The code outside the repository\<close>

text \<open>
  A key of a map decoded to \<open>map[interface{}]RawMessage\<close>: the library yields \<open>uint64\<close> for a CBOR
  unsigned integer, \<open>int64\<close> for a negative one, \<open>string\<close> for text; the code asks for no other.
\<close>

datatype cbor_key = KUint uint64 | KInt int64 | KStr string | KOther nat

datatype cbor_item = CText string | CBytes bytes

text \<open>
  \<open>cb_raw\<close> is decoding to \<open>RawMessage\<close>, \<open>cb_tag\<close> is \<open>RawTag.UnmarshalCBOR\<close> (number and content); a
  decoded CBOR null is Go's nil, the empty byte string or map. \<open>cb_mode\<close> tells whether
  \<open>DecOptions.DecMode\<close> accepts the code's limits (nesting 16, arrays 1024, maps 256).
\<close>

record cbor_lib =
  cb_mode :: bool
  cb_raw :: "bytes \<Rightarrow> bytes option"
  cb_tag :: "bytes \<Rightarrow> (nat \<times> bytes) option"
  cb_array :: "bytes \<Rightarrow> bytes list option"
  cb_bytes :: "bytes \<Rightarrow> bytes option"
  cb_string :: "bytes \<Rightarrow> string option"
  cb_int64 :: "bytes \<Rightarrow> int64 option"
  cb_uint64 :: "bytes \<Rightarrow> uint64 option"
  cb_int_map :: "bytes \<Rightarrow> (int64 \<rightharpoonup> bytes) option"
  cb_any_map :: "bytes \<Rightarrow> (cbor_key \<rightharpoonup> bytes) option"
  cb_str_map :: "bytes \<Rightarrow> (string \<rightharpoonup> string) option"
  cb_marshal :: "cbor_item list \<Rightarrow> bytes option"

datatype 'k pkix_key = PK_P256 'k | PK_OtherCurve | PK_NotEC

record 'k crypto =
  cr_sha256 :: "bytes \<Rightarrow> bytes"
  cr_verify_asn1 :: "'k \<Rightarrow> bytes \<Rightarrow> bytes \<Rightarrow> bool"
  cr_verify_rs :: "'k \<Rightarrow> bytes \<Rightarrow> nat \<Rightarrow> nat \<Rightarrow> bool"
  cr_parse_pkix :: "bytes \<Rightarrow> 'k pkix_key option"

record 'k trusted_key =
  tk_name :: string
  tk_kid :: kid
  tk_key :: 'k

type_synonym 'k key_lookup = "kid \<Rightarrow> scitt_error + 'k trusted_key"

section \<open>Big-endian integers and DER\<close>

text \<open>\<open>big.Int.SetBytes\<close>, and \<open>asn1.Marshal\<close> of a sequence of two non-negative integers.\<close>

definition be_nat :: "bytes \<Rightarrow> nat" where
  "be_nat bs = foldl (\<lambda>n b. n * 256 + byte_val b) 0 bs"

fun nat_be :: "nat \<Rightarrow> bytes" where
  "nat_be n = (if n < 256 then [char_of n] else nat_be (n div 256) @ [char_of (n mod 256)])"

declare nat_be.simps [simp del]

definition der_integer :: "nat \<Rightarrow> bytes" where
  "der_integer n =
     (let body = nat_be n; body = (if 128 \<le> byte_val (hd body) then CHR 0x00 # body else body)
      in CHR 0x02 # char_of (length body) # body)"

text \<open>The length octet is the short form: two integers of at most 32 bytes need at most 70.\<close>

definition der_signature :: "nat \<Rightarrow> nat \<Rightarrow> bytes" where
  "der_signature r s =
     (let body = der_integer r @ der_integer s in CHR 0x30 # char_of (length body) # body)"

lemma nat_be_not_Nil [simp]: "nat_be n \<noteq> []"
  by (subst nat_be.simps) simp

lemma be_nat_snoc: "be_nat (bs @ [b]) = be_nat bs * 256 + byte_val b"
  by (simp add: be_nat_def)

lemma be_nat_nat_be [simp]: "be_nat (nat_be n) = n"
proof (induction n rule: nat_be.induct)
  case (1 n)
  show ?case
  proof (cases "n < 256")
    case True
    then show ?thesis by (subst nat_be.simps) (simp add: be_nat_def)
  next
    case False
    with 1 have "be_nat (nat_be n) = n div 256 * 256 + byte_val (char_of (n mod 256))"
      by (subst nat_be.simps) (simp add: be_nat_snoc del: char_of_mod_256)
    then show ?thesis by (simp del: char_of_mod_256)
  qed
qed

lemma be_nat_bound: "be_nat bs < 256 ^ length bs"
proof (induction bs rule: rev_induct)
  case (snoc b bs)
  have step: "b' < 256 \<Longrightarrow> x < P \<Longrightarrow> x * 256 + b' < 256 * P" for b' x P :: nat by linarith
  show ?case using step [OF byte_val_less snoc, of b] by (simp add: be_nat_snoc)
qed (simp add: be_nat_def)

lemma be_nat_zero_prefix: "be_nat (CHR 0x00 # bs) = be_nat bs"
  by (simp add: be_nat_def byte_val_def)

lemma length_nat_be: "n < 256 ^ k \<Longrightarrow> 0 < k \<Longrightarrow> length (nat_be n) \<le> k"
proof (induction n arbitrary: k rule: nat_be.induct)
  case (1 n)
  show ?case
  proof (cases "n < 256")
    case True
    with 1 show ?thesis by (subst nat_be.simps) simp
  next
    case False
    then obtain k' where k: "k = Suc k'" "0 < k'"
      using "1.prems" by (cases k; cases "k - 1") auto
    then have "n div 256 < 256 ^ k'" using "1.prems" by (simp add: less_mult_imp_div_less mult.commute)
    with 1 False k show ?thesis by (subst nat_be.simps) simp
  qed
qed

end
