(* ===== verification/Replay.thy ===== *)
theory Replay
  imports Prelude "HOL-Library.AList" "HOL-Library.Signed_Division"
begin

text \<open>
  The replay cache of proof identifiers: \<open>pop/replay.go\<close>. The index maps a key to its expiry, the
  buckets group the keys by generations of five seconds, and eviction drops whole generations. Times
  are nanoseconds (\<open>UnixNano\<close>); the ticker of the janitor is a sequence of evictions. \<open>iter\<close> stands
  for the order in which Go ranges over the bucket map.
\<close>

datatype replay_error = Replay_Full

definition bucket_width :: int where
  "bucket_width = 5 * 1000000000"

definition default_replay_max_entries :: nat where
  "default_replay_max_entries = 100000"

record replay_cache =
  rp_index :: "(string \<times> int) list"
  rp_buckets :: "(int \<times> string list) list"
  rp_max :: nat

text \<open>A non-positive limit selects the default.\<close>

definition new_replay_cache :: "int \<Rightarrow> replay_cache" where
  "new_replay_cache n =
     \<lparr>rp_index = [], rp_buckets = [], rp_max = (if n \<le> 0 then default_replay_max_entries else nat n)\<rparr>"

definition replay_len :: "replay_cache \<Rightarrow> nat" where
  "replay_len c = length (rp_index c)"

definition replay_cap :: "replay_cache \<Rightarrow> nat" where
  "replay_cap c = rp_max c"

text \<open>Go's integer division truncates towards zero.\<close>

definition bucket_of :: "int \<Rightarrow> int" where
  "bucket_of t = t sdiv bucket_width"

definition bucket_keys :: "replay_cache \<Rightarrow> int \<Rightarrow> string list" where
  "bucket_keys c i = (case map_of (rp_buckets c) i of Some ks \<Rightarrow> ks | None \<Rightarrow> [])"

definition add_locked :: "string \<Rightarrow> int \<Rightarrow> replay_cache \<Rightarrow> replay_cache" where
  "add_locked k e c =
     c\<lparr>rp_index := AList.update k e (rp_index c),
       rp_buckets := AList.update (bucket_of e) (List.insert k (bucket_keys c (bucket_of e))) (rp_buckets c)\<rparr>"

definition remove_locked :: "string \<Rightarrow> int \<Rightarrow> replay_cache \<Rightarrow> replay_cache" where
  "remove_locked k e c =
     (let c = c\<lparr>rp_index := AList.delete k (rp_index c)\<rparr>; i = bucket_of e in
      case map_of (rp_buckets c) i of
        None \<Rightarrow> c
      | Some ks \<Rightarrow>
          let ks = filter (\<lambda>x. x \<noteq> k) ks in
          if ks = [] then c\<lparr>rp_buckets := AList.delete i (rp_buckets c)\<rparr>
          else c\<lparr>rp_buckets := AList.update i ks (rp_buckets c)\<rparr>)"

text \<open>The inner loop of the eviction: entries the generation still owns leave the index.\<close>

fun drop_owned :: "int \<Rightarrow> string list \<Rightarrow> (string \<times> int) list \<Rightarrow> (string \<times> int) list" where
  "drop_owned i [] m = m"
| "drop_owned i (k # ks) m =
     drop_owned i ks
       (case map_of m k of
          Some e \<Rightarrow> if bucket_of e = i then AList.delete k m else m
        | None \<Rightarrow> m)"

definition drop_generation :: "int \<Rightarrow> replay_cache \<Rightarrow> replay_cache" where
  "drop_generation i c =
     c\<lparr>rp_index := drop_owned i (bucket_keys c i) (rp_index c), rp_buckets := AList.delete i (rp_buckets c)\<rparr>"

fun evict_ids :: "int \<Rightarrow> int list \<Rightarrow> replay_cache \<Rightarrow> replay_cache" where
  "evict_ids now [] c = c"
| "evict_ids now (i # is) c =
     evict_ids now is
       (if (i + 1) * bucket_width > now then c
        else drop_generation i c)"

definition evict_expired :: "(int list \<Rightarrow> int list) \<Rightarrow> int \<Rightarrow> replay_cache \<Rightarrow> replay_cache" where
  "evict_expired iter now c = evict_ids now (iter (map fst (rp_buckets c))) c"

definition check_and_store ::
  "(int list \<Rightarrow> int list) \<Rightarrow> int \<Rightarrow> string \<Rightarrow> int \<Rightarrow> replay_cache \<Rightarrow> (replay_error + bool) \<times> replay_cache" where
  "check_and_store iter now k e c =
     (let c = evict_expired iter now c in
      case map_of (rp_index c) k of
        Some old \<Rightarrow>
          if old > now then (Inr True, c)
          else let c = remove_locked k old c in
            if length (rp_index c) \<ge> rp_max c then (Inl Replay_Full, c) else (Inr False, add_locked k e c)
      | None \<Rightarrow>
          if length (rp_index c) \<ge> rp_max c then (Inl Replay_Full, c) else (Inr False, add_locked k e c))"

text \<open>One tick of the janitor.\<close>

definition janitor_tick :: "(int list \<Rightarrow> int list) \<Rightarrow> int \<Rightarrow> replay_cache \<Rightarrow> replay_cache" where
  "janitor_tick iter now c = evict_expired iter now c"

section \<open>Consistency of index and buckets\<close>

text \<open>A key is in exactly the bucket its indexed expiry maps to, and no bucket is empty.\<close>

definition replay_ok :: "replay_cache \<Rightarrow> bool" where
  "replay_ok c \<longleftrightarrow>
     distinct (map fst (rp_index c)) \<and> distinct (map fst (rp_buckets c))
     \<and> (\<forall>i ks. map_of (rp_buckets c) i = Some ks \<longrightarrow> ks \<noteq> [])
     \<and> (\<forall>i k. k \<in> set (bucket_keys c i) \<longleftrightarrow> (\<exists>e. map_of (rp_index c) k = Some e \<and> bucket_of e = i))"

lemma replay_okD:
  assumes "replay_ok c"
  shows "distinct (map fst (rp_index c))" "distinct (map fst (rp_buckets c))"
    "map_of (rp_buckets c) i \<noteq> Some []"
    "k \<in> set (bucket_keys c i) \<longleftrightarrow> (\<exists>e. map_of (rp_index c) k = Some e \<and> bucket_of e = i)"
  using assms unfolding replay_ok_def by blast+

lemma replay_okI:
  assumes "distinct (map fst (rp_index c))" "distinct (map fst (rp_buckets c))"
    and "\<And>i. map_of (rp_buckets c) i \<noteq> Some []"
    and "\<And>i k. k \<in> set (bucket_keys c i) \<longleftrightarrow> (\<exists>e. map_of (rp_index c) k = Some e \<and> bucket_of e = i)"
  shows "replay_ok c"
  using assms by (auto simp: replay_ok_def)

lemma new_replay_ok [simp]: "replay_ok (new_replay_cache n)"
  by (simp add: replay_ok_def new_replay_cache_def bucket_keys_def)

text \<open>The latest expiry a generation can hold lies before its end.\<close>

lemma bucket_of_bound: "t < (bucket_of t + 1) * bucket_width"
proof (cases "0 \<le> t")
  case True
  then have "bucket_of t = t div bucket_width"
    by (cases "t = 0") (simp_all add: bucket_of_def bucket_width_def signed_divide_int_def)
  moreover have "t mod bucket_width < bucket_width" by (simp add: bucket_width_def)
  ultimately show ?thesis
    using div_mult_mod_eq [of t bucket_width] by (simp only: distrib_right)
next
  case False
  then have "bucket_of t = - (- t div bucket_width)"
    by (simp add: bucket_of_def bucket_width_def signed_divide_int_def)
  moreover have "- t div bucket_width * bucket_width \<le> - t"
    using mult_div_mod_eq [of bucket_width "- t"] by (simp add: mult.commute bucket_width_def)
  moreover have "0 < bucket_width" by (simp add: bucket_width_def)
  ultimately show ?thesis by (simp add: algebra_simps)
qed

lemma bucket_of_lower: "0 \<le> t \<Longrightarrow> bucket_of t * bucket_width \<le> t"
  using div_mult_mod_eq [of t bucket_width] pos_mod_sign [of bucket_width t]
  by (cases "t = 0") (simp_all add: bucket_of_def bucket_width_def signed_divide_int_def)

lemma map_of_drop_owned:
  "map_of (drop_owned i ks m) k =
     (if k \<in> set ks \<and> (\<exists>e. map_of m k = Some e \<and> bucket_of e = i) then None else map_of m k)"
  by (induction i ks m rule: drop_owned.induct)
    (auto simp: AList.delete_conv split: option.split)

lemma distinct_drop_owned: "distinct (map fst m) \<Longrightarrow> distinct (map fst (drop_owned i ks m))"
  by (induction i ks m rule: drop_owned.induct) (auto simp: AList.distinct_delete split: option.split)

section \<open>Eviction\<close>

lemma bucket_keys_simps [simp]:
  "bucket_keys (c\<lparr>rp_index := m\<rparr>) i = bucket_keys c i"
  "bucket_keys (c\<lparr>rp_buckets := AList.delete j (rp_buckets c)\<rparr>) i = (if i = j then [] else bucket_keys c i)"
  "bucket_keys (c\<lparr>rp_buckets := AList.update j ks (rp_buckets c)\<rparr>) i = (if i = j then ks else bucket_keys c i)"
  by (simp_all add: bucket_keys_def AList.delete_conv AList.update_conv)

lemma drop_generation_index:
  "replay_ok c \<Longrightarrow> map_of (rp_index (drop_generation i c)) k =
     (case map_of (rp_index c) k of
        Some e \<Rightarrow> if bucket_of e = i then None else Some e | None \<Rightarrow> None)"
  by (auto simp: drop_generation_def map_of_drop_owned replay_okD(4) split: option.split)

lemma drop_generation_keys:
  "bucket_keys (drop_generation i c) j = (if j = i then [] else bucket_keys c j)"
  by (simp add: drop_generation_def bucket_keys_def AList.delete_conv)

lemma drop_generation_ok: "replay_ok c \<Longrightarrow> replay_ok (drop_generation i c)"
proof (rule replay_okI)
  assume ok: "replay_ok c"
  show "distinct (map fst (rp_index (drop_generation i c)))"
    using replay_okD(1) [OF ok] by (simp add: drop_generation_def distinct_drop_owned)
  show "distinct (map fst (rp_buckets (drop_generation i c)))"
    using replay_okD(2) [OF ok] by (simp add: drop_generation_def AList.distinct_delete)
  show "map_of (rp_buckets (drop_generation i c)) j \<noteq> Some []" for j
    using replay_okD(3) [OF ok, of j] by (simp add: drop_generation_def AList.delete_conv)
  show "k \<in> set (bucket_keys (drop_generation i c) j) \<longleftrightarrow>
      (\<exists>e. map_of (rp_index (drop_generation i c)) k = Some e \<and> bucket_of e = j)" for j k
    by (auto simp: drop_generation_keys drop_generation_index [OF ok] replay_okD(4) [OF ok] split: option.splits)
qed

definition generation_over :: "int \<Rightarrow> int \<Rightarrow> bool" where
  "generation_over now e = ((bucket_of e + 1) * bucket_width \<le> now)"

lemma evict_ids_ok:
  "replay_ok c \<Longrightarrow> replay_ok (evict_ids now is c)
   \<and> map_of (rp_index (evict_ids now is c)) k =
       (case map_of (rp_index c) k of
          Some e \<Rightarrow> if bucket_of e \<in> set is \<and> generation_over now e then None else Some e | None \<Rightarrow> None)"
proof (induction "is" arbitrary: c)
  case Nil
  then show ?case by (simp split: option.split)
next
  case (Cons i "is")
  show ?case
  proof (cases "(i + 1) * bucket_width > now")
    case True
    with Cons.IH [OF Cons.prems] show ?thesis by (auto simp: generation_over_def split: option.split)
  next
    case False
    with Cons.IH [OF drop_generation_ok [OF Cons.prems]] show ?thesis
      by (auto simp: generation_over_def drop_generation_index [OF Cons.prems] split: option.splits)
  qed
qed

text \<open>The order in which the map of buckets is visited makes no difference to what is kept.\<close>

lemma evict_expired_ok: "replay_ok c \<Longrightarrow> replay_ok (evict_expired iter now c)"
  by (simp add: evict_expired_def evict_ids_ok)

lemma evict_expired_index:
  assumes "replay_ok c" "\<And>xs. set (iter xs) = set xs"
  shows "map_of (rp_index (evict_expired iter now c)) k =
     (case map_of (rp_index c) k of Some e \<Rightarrow> if generation_over now e then None else Some e | None \<Rightarrow> None)"
proof -
  have "bucket_of e \<in> set (map fst (rp_buckets c))" if "map_of (rp_index c) k = Some e" for e
  proof -
    have "k \<in> set (bucket_keys c (bucket_of e))" using that replay_okD(4) [OF assms(1)] by blast
    then have "map_of (rp_buckets c) (bucket_of e) \<noteq> None"
      by (cases "map_of (rp_buckets c) (bucket_of e)") (simp_all add: bucket_keys_def)
    then show ?thesis unfolding map_of_eq_None_iff by simp
  qed
  then show ?thesis
    using assms(2) by (auto simp: evict_expired_def evict_ids_ok [OF assms(1)] split: option.split)
qed

lemma generation_over_expired: "generation_over now e \<Longrightarrow> e < now"
  using bucket_of_bound [of e] by (simp add: generation_over_def)

lemma evict_ids_max [simp]: "rp_max (evict_ids now is c) = rp_max c"
  by (induction now "is" c rule: evict_ids.induct) (simp_all add: drop_generation_def)

lemma evict_expired_max [simp]: "rp_max (evict_expired iter now c) = rp_max c"
  by (simp add: evict_expired_def)

lemma length_drop_owned: "length (drop_owned i ks m) \<le> length m"
proof (induction i ks m rule: drop_owned.induct)
  case (2 i k ks m)
  have "length (AList.delete k m) \<le> length m" by (simp add: AList.length_delete_le)
  with 2 show ?case by (auto split: option.split intro: order_trans)
qed simp

lemma evict_ids_len: "length (rp_index (evict_ids now is c)) \<le> length (rp_index c)"
proof (induction now "is" c rule: evict_ids.induct)
  case (2 now i "is" c)
  have "length (rp_index (drop_generation i c)) \<le> length (rp_index c)"
    by (simp add: drop_generation_def length_drop_owned)
  with 2 show ?case by (auto intro: order_trans)
qed simp

section \<open>Recording\<close>

lemma remove_locked_index [simp]: "rp_index (remove_locked k e c) = AList.delete k (rp_index c)"
  by (simp add: remove_locked_def Let_def split: option.split)

lemma remove_locked_max [simp]: "rp_max (remove_locked k e c) = rp_max c"
  by (simp add: remove_locked_def Let_def split: option.split)

lemma remove_locked_keys:
  "bucket_keys (remove_locked k e c) i =
     (if i = bucket_of e then filter (\<lambda>x. x \<noteq> k) (bucket_keys c i) else bucket_keys c i)"
  by (auto simp: remove_locked_def Let_def bucket_keys_def AList.delete_conv AList.update_conv split: option.split)

lemma remove_locked_ok:
  assumes ok: "replay_ok c" and k: "map_of (rp_index c) k = Some e"
  shows "replay_ok (remove_locked k e c)"
proof (rule replay_okI)
  show "distinct (map fst (rp_index (remove_locked k e c)))"
    using replay_okD(1) [OF ok] by (simp add: AList.distinct_delete)
  show "distinct (map fst (rp_buckets (remove_locked k e c)))"
    using replay_okD(2) [OF ok]
    by (simp add: remove_locked_def Let_def AList.distinct_delete AList.distinct_update split: option.split)
  show "map_of (rp_buckets (remove_locked k e c)) i \<noteq> Some []" for i
    using replay_okD(3) [OF ok, of i]
    by (auto simp: remove_locked_def Let_def AList.delete_conv AList.update_conv split: option.splits)
  show "x \<in> set (bucket_keys (remove_locked k e c) i) \<longleftrightarrow>
      (\<exists>e'. map_of (rp_index (remove_locked k e c)) x = Some e' \<and> bucket_of e' = i)" for i x
    using k by (auto simp: remove_locked_keys replay_okD(4) [OF ok] AList.delete_conv)
qed

lemma add_locked_keys:
  "bucket_keys (add_locked k e c) i =
     (if i = bucket_of e then List.insert k (bucket_keys c i) else bucket_keys c i)"
  by (simp add: add_locked_def bucket_keys_def AList.update_conv)

lemma add_locked_ok:
  assumes ok: "replay_ok c" and k: "map_of (rp_index c) k = None"
  shows "replay_ok (add_locked k e c)"
proof (rule replay_okI)
  show "distinct (map fst (rp_index (add_locked k e c)))" "distinct (map fst (rp_buckets (add_locked k e c)))"
    using replay_okD(1,2) [OF ok] by (simp_all add: add_locked_def AList.distinct_update)
  show "map_of (rp_buckets (add_locked k e c)) i \<noteq> Some []" for i
    using replay_okD(3) [OF ok, of i] by (auto simp: add_locked_def AList.update_conv List.insert_def)
  show "x \<in> set (bucket_keys (add_locked k e c) i) \<longleftrightarrow>
      (\<exists>e'. map_of (rp_index (add_locked k e c)) x = Some e' \<and> bucket_of e' = i)" for i x
    using k replay_okD(4) [OF ok, of x i]
    by (auto simp: add_locked_keys) (auto simp: add_locked_def AList.update_conv split: if_splits)
qed

section \<open>What a check decides and keeps\<close>

definition live :: "int \<Rightarrow> replay_cache \<Rightarrow> string \<Rightarrow> bool" where
  "live t c k = (\<exists>e. map_of (rp_index c) k = Some e \<and> t < e)"

definition visits_all :: "(int list \<Rightarrow> int list) \<Rightarrow> bool" where
  "visits_all iter = (\<forall>xs. set (iter xs) = set xs)"

lemma visits_allD: "visits_all iter \<Longrightarrow> set (iter xs) = set xs"
  by (simp add: visits_all_def)

lemma evict_keeps_live:
  assumes "replay_ok c" "visits_all iter" "now \<le> t"
  shows "live t (evict_expired iter now c) k \<longleftrightarrow> live t c k"
proof (cases "map_of (rp_index c) k")
  case None
  then show ?thesis using evict_expired_index [OF assms(1) visits_allD [OF assms(2)], of now k] by (simp add: live_def)
next
  case (Some e)
  have "\<not> generation_over now e" if "t < e" using that generation_over_expired [of now e] assms(3) by auto
  with Some show ?thesis
    using evict_expired_index [OF assms(1) visits_allD [OF assms(2)], of now k] by (auto simp: live_def)
qed

definition stored :: "int \<Rightarrow> string \<Rightarrow> replay_cache \<Rightarrow> replay_cache" where
  "stored now k c =
     (case map_of (rp_index c) k of
        Some old \<Rightarrow> if old > now then c else remove_locked k old c | None \<Rightarrow> c)"

lemma check_and_store_eq:
  "check_and_store iter now k e c =
     (let c1 = evict_expired iter now c; c2 = stored now k c1 in
      if live now c1 k then (Inr True, c1)
      else if length (rp_index c2) \<ge> rp_max c2 then (Inl Replay_Full, c2)
      else (Inr False, add_locked k e c2))"
  by (auto simp: check_and_store_def stored_def live_def Let_def split: option.splits)

lemma stored_ok: "replay_ok c \<Longrightarrow> replay_ok (stored now k c)"
  by (auto simp: stored_def remove_locked_ok split: option.split)

lemma stored_free: "\<not> live now c k \<Longrightarrow> map_of (rp_index (stored now k c)) k = None"
  by (auto simp: stored_def live_def AList.delete_conv split: option.splits)

lemma stored_other: "k' \<noteq> k \<Longrightarrow> map_of (rp_index (stored now k c)) k' = map_of (rp_index c) k'"
  by (auto simp: stored_def AList.delete_conv split: option.splits)

lemma stored_max [simp]: "rp_max (stored now k c) = rp_max c"
  by (simp add: stored_def split: option.split)

lemma stored_len: "length (rp_index (stored now k c)) \<le> length (rp_index c)"
  by (auto simp: stored_def AList.length_delete_le split: option.split)

lemma add_locked_index: "map_of (rp_index (add_locked k e c)) k' = (if k' = k then Some e else map_of (rp_index c) k')"
  by (simp add: add_locked_def AList.update_conv)

lemma check_ok:
  assumes "replay_ok c"
  shows "replay_ok (snd (check_and_store iter now k e c))"
  using evict_expired_ok [OF assms, of iter now]
  by (simp add: check_and_store_eq Let_def stored_ok stored_free add_locked_ok)

lemma check_seen:
  assumes "replay_ok c" "visits_all iter"
  shows "fst (check_and_store iter now k e c) = Inr True \<longleftrightarrow> live now c k"
  using evict_keeps_live [OF assms, of now now k] by (auto simp: check_and_store_eq Let_def)

lemma check_records:
  "fst (check_and_store iter now k e c) = Inr False \<Longrightarrow>
     map_of (rp_index (snd (check_and_store iter now k e c))) k = Some e"
  by (auto simp: check_and_store_eq Let_def add_locked_index split: if_splits)

lemma check_keeps:
  assumes "replay_ok c" "visits_all iter" "now \<le> t" "live t c k'"
  shows "live t (snd (check_and_store iter now k e c)) k'"
proof -
  let ?c1 = "evict_expired iter now c"
  have l: "live t ?c1 k'" using evict_keeps_live [OF assms(1,2,3)] assms(4) by blast
  show ?thesis
  proof (cases "live now ?c1 k")
    case True
    with l show ?thesis by (simp add: check_and_store_eq Let_def)
  next
    case False
    then have "k' \<noteq> k" using l assms(3) by (auto simp: live_def)
    with l have "live t (stored now k ?c1) k'" by (simp add: live_def stored_other)
    with False \<open>k' \<noteq> k\<close> show ?thesis by (auto simp: check_and_store_eq Let_def live_def add_locked_index)
  qed
qed

lemma check_max [simp]: "rp_max (snd (check_and_store iter now k e c)) = rp_max c"
  by (simp add: check_and_store_eq Let_def add_locked_def)

lemma check_bounded:
  assumes "length (rp_index c) \<le> rp_max c" "replay_ok c"
  shows "length (rp_index (snd (check_and_store iter now k e c))) \<le> rp_max c"
proof -
  let ?c1 = "evict_expired iter now c"
  have l: "length (rp_index ?c1) \<le> rp_max c" "length (rp_index (stored now k ?c1)) \<le> rp_max c"
    using evict_ids_len [of now "iter (map fst (rp_buckets c))" c] stored_len [of now k ?c1] assms(1)
    by (simp_all add: evict_expired_def)
  have "length (rp_index (add_locked k e (stored now k ?c1))) \<le> Suc (length (rp_index (stored now k ?c1)))"
    by (simp add: add_locked_def length_update_le)
  with l show ?thesis by (auto simp: check_and_store_eq Let_def)
qed

text \<open>At capacity the check fails closed: it records nothing and gives up no live entry.\<close>

lemma check_full:
  assumes "fst (check_and_store iter now k e c) = Inl Replay_Full"
  shows "rp_max c \<le> length (rp_index (snd (check_and_store iter now k e c)))
       \<and> map_of (rp_index (snd (check_and_store iter now k e c))) k = None"
  using assms by (auto simp: check_and_store_eq Let_def stored_free split: if_splits)

section \<open>The interface\<close>

text \<open>
  \<open>ReplayCache\<close> as its users rely on it: a check reports a live key as seen, a recorded key is live
  until its expiry, and neither a check nor a sweep forgets a live key. \<open>good\<close> restricts what an
  implementation may choose freely.
\<close>

datatype 'i replay_op = Replay_Check 'i int string int | Replay_Tick 'i int

locale replay_guard =
  fixes ok :: "'s \<Rightarrow> bool"
    and good :: "'i \<Rightarrow> bool"
    and alive :: "int \<Rightarrow> 's \<Rightarrow> string \<Rightarrow> bool"
    and check :: "'i \<Rightarrow> int \<Rightarrow> string \<Rightarrow> int \<Rightarrow> 's \<Rightarrow> (replay_error + bool) \<times> 's"
    and tick :: "'i \<Rightarrow> int \<Rightarrow> 's \<Rightarrow> 's"
  assumes ok_check: "ok s \<Longrightarrow> ok (snd (check i now k e s))"
    and ok_tick: "ok s \<Longrightarrow> ok (tick i now s)"
    and seen_iff: "ok s \<Longrightarrow> good i \<Longrightarrow> fst (check i now k e s) = Inr True \<longleftrightarrow> alive now s k"
    and recorded: "ok s \<Longrightarrow> fst (check i now k e s) = Inr False \<Longrightarrow> t < e \<Longrightarrow> alive t (snd (check i now k e s)) k"
    and kept: "ok s \<Longrightarrow> good i \<Longrightarrow> now \<le> t \<Longrightarrow> alive t s k' \<Longrightarrow> alive t (snd (check i now k e s)) k'"
    and tick_kept: "ok s \<Longrightarrow> good i \<Longrightarrow> now \<le> t \<Longrightarrow> alive t s k' \<Longrightarrow> alive t (tick i now s) k'"
begin

fun run :: "'i replay_op list \<Rightarrow> 's \<Rightarrow> 's" where
  "run [] s = s"
| "run (Replay_Check i now k e # ops) s = run ops (snd (check i now k e s))"
| "run (Replay_Tick i now # ops) s = run ops (tick i now s)"

definition before :: "int \<Rightarrow> 'i replay_op list \<Rightarrow> bool" where
  "before t ops =
     list_all (\<lambda>op. case op of Replay_Check i now k e \<Rightarrow> good i \<and> now \<le> t | Replay_Tick i now \<Rightarrow> good i \<and> now \<le> t) ops"

lemma run_ok: "ok s \<Longrightarrow> ok (run ops s)"
  by (induction ops s rule: run.induct) (auto intro: ok_check ok_tick)

lemma run_keeps: "ok s \<Longrightarrow> before t ops \<Longrightarrow> alive t s k \<Longrightarrow> alive t (run ops s) k"
  by (induction ops s rule: run.induct) (auto simp: before_def ok_check ok_tick kept tick_kept)

text \<open>Single use: a recorded key is reported as seen by every later check until its expiry.\<close>

lemma single_use:
  assumes "ok s" "fst (check i now k e s) = Inr False" "before t ops" "t < e" "good j"
  shows "fst (check j t k e' (run ops (snd (check i now k e s)))) = Inr True"
  using run_keeps [OF ok_check [OF assms(1)] assms(3) recorded [OF assms(1,2,4)]]
    seen_iff [OF run_ok [OF ok_check [OF assms(1)]] assms(5)] by blast

end

interpretation memory_replay: replay_guard replay_ok visits_all live check_and_store janitor_tick
proof unfold_locales
  show "replay_ok c \<Longrightarrow> replay_ok (snd (check_and_store i now k e c))" for c i now k e
    by (rule check_ok)
  show "replay_ok c \<Longrightarrow> replay_ok (janitor_tick i now c)" for c i now
    by (simp add: janitor_tick_def evict_expired_ok)
  show "replay_ok c \<Longrightarrow> visits_all i \<Longrightarrow> fst (check_and_store i now k e c) = Inr True \<longleftrightarrow> live now c k" for c i now k e
    by (rule check_seen)
  show "replay_ok c \<Longrightarrow> fst (check_and_store i now k e c) = Inr False \<Longrightarrow> t < e \<Longrightarrow>
      live t (snd (check_and_store i now k e c)) k" for c i now k e t
    using check_records [of i now k e c] by (simp add: live_def)
  show "replay_ok c \<Longrightarrow> visits_all i \<Longrightarrow> now \<le> t \<Longrightarrow> live t c k' \<Longrightarrow>
      live t (snd (check_and_store i now k e c)) k'" for c i now t k' k e
    by (rule check_keeps)
  show "replay_ok c \<Longrightarrow> visits_all i \<Longrightarrow> now \<le> t \<Longrightarrow> live t c k' \<Longrightarrow> live t (janitor_tick i now c) k'" for c i now t k'
    by (simp add: janitor_tick_def evict_keeps_live)
qed

lemma tick_bounded: "length (rp_index (janitor_tick i now c)) \<le> length (rp_index c)" "rp_max (janitor_tick i now c) = rp_max c"
  by (simp_all add: janitor_tick_def evict_expired_def evict_ids_len)

lemma memory_run_bounded:
  "replay_ok c \<Longrightarrow> length (rp_index c) \<le> rp_max c \<Longrightarrow>
     length (rp_index (memory_replay.run ops c)) \<le> rp_max c \<and> rp_max (memory_replay.run ops c) = rp_max c"
proof (induction ops c rule: memory_replay.run.induct)
  case (2 i now k e ops s)
  from "2.IH" [OF check_ok [OF "2.prems"(1)]] check_bounded [OF "2.prems"(2,1), of i now k e]
  show ?case by simp
next
  case (3 i now ops s)
  have "length (rp_index (janitor_tick i now s)) \<le> rp_max (janitor_tick i now s)"
    using tick_bounded [of i now s] "3.prems"(2) by simp
  from "3.IH" [OF memory_replay.ok_tick [OF "3.prems"(1)] this] tick_bounded(2) [of i now s] show ?case by simp
qed simp

text \<open>Once every expiry and its generation have passed, an eviction empties the cache.\<close>

lemma evict_drains:
  assumes "replay_ok c" "visits_all iter" "\<And>k e. map_of (rp_index c) k = Some e \<Longrightarrow> 0 \<le> e \<and> e + bucket_width \<le> now"
  shows "rp_index (evict_expired iter now c) = []"
proof -
  have "map_of (rp_index (evict_expired iter now c)) k = None" for k
  proof (cases "map_of (rp_index c) k")
    case None
    then show ?thesis using evict_expired_index [OF assms(1) visits_allD [OF assms(2)], of now k] by simp
  next
    case (Some e)
    have "(bucket_of e + 1) * bucket_width \<le> now"
      using bucket_of_lower [of e] assms(3) [OF Some] by (simp add: algebra_simps)
    with Some show ?thesis
      using evict_expired_index [OF assms(1) visits_allD [OF assms(2)], of now k] by (simp add: generation_over_def)
  qed
  then have "set (rp_index (evict_expired iter now c)) = {}" by (metis map_of_eq_empty_iff set_empty ext)
  then show ?thesis by simp
qed

end
