(* ===== verification/Pop_Proof.thy ===== *)
theory Pop_Proof
  imports Cert_Identity Go_Url Scitt_Types Replay
begin

text \<open>
  DPoP proofs: \<open>pop/errors.go\<close>, \<open>pop/jws.go\<close>, \<open>pop/proof.go\<close> and \<open>pop/verify.go\<close>. JSON, X.509,
  SHA-256 and ECDSA are parameters; an error is its category, the message being dropped, with the
  one cause the middleware looks at. Times are nanoseconds, the \<open>iat\<close> claim an \<open>int64\<close>.
\<close>

section \<open>Errors\<close>

datatype pop_error_type =
    ErrMalformedProof | ErrUnsupportedAlg | ErrUnsupportedProfile | ErrHTTPBindingMismatch | ErrProofStale
  | ErrReplay | ErrReplayCacheFull | ErrSignatureInvalid | ErrCertInvalid | ErrKeyMismatch
  | ErrTokenBindingMismatch | ErrContentBindingMismatch | ErrContentUnreadable | ErrBindingFailed
  | ErrStatusInvalid | ErrReceiptInvalid | ErrMissingHeaders | ErrScittHeaderInvalid | ErrMisconfigured
  | ErrClientGone | ErrExpectedPeerMismatch

text \<open>Why a body could not be read: \<open>*http.MaxBytesError\<close> or anything else.\<close>

datatype content_failure = Content_Too_Large | Content_Read_Failed

record proof_error =
  pe_type :: pop_error_type
  pe_cause :: "content_failure option"

definition new_err :: "pop_error_type \<Rightarrow> proof_error" where
  "new_err t = \<lparr>pe_type = t, pe_cause = None\<rparr>"

section \<open>Parameters\<close>

record proof_jwk =
  jwk_kty :: string
  jwk_crv :: string
  jwk_x :: string
  jwk_y :: string

record proof_header =
  dh_typ :: string
  dh_alg :: string
  dh_jwk :: "proof_jwk option"
  dh_x5c :: "string list"

record proof_payload =
  dp_htm :: string
  dp_htu :: string
  dp_iat :: int64
  dp_jti :: string
  dp_ath :: string
  dp_profile :: bytes
  dp_content_digest :: string

text \<open>
  \<open>jl_header\<close> is the strict JSON decoding of a header, \<open>jl_payload\<close> the lenient one of a payload,
  \<open>jl_x509\<close> is \<open>x509.ParseCertificate\<close> with the kind of its public key, and \<open>jl_coords\<close> the
  coordinates of a P-256 key; \<open>jl_bracket\<close> is the parameter of the URL parser.
\<close>

record 'k jose_lib =
  jl_header :: "bytes \<Rightarrow> proof_header option"
  jl_payload :: "bytes \<Rightarrow> proof_payload option"
  jl_x509 :: "bytes \<Rightarrow> (x509_cert \<times> 'k pkix_key) option"
  jl_coords :: "'k \<Rightarrow> nat \<times> nat"
  jl_bracket :: "string \<Rightarrow> bool"
  jl_unicode :: unicode
  jl_crypto :: "'k crypto"

abbreviation sha_of :: "'k jose_lib \<Rightarrow> bytes \<Rightarrow> bytes" where
  "sha_of J \<equiv> cr_sha256 (jl_crypto J)"

section \<open>Compact JWS\<close>

definition p256_sig_len :: nat where
  "p256_sig_len = 64"

definition coord_len :: nat where
  "coord_len = 32"

definition split_compact_jws :: "string \<Rightarrow> proof_error + (string \<times> string \<times> string)" where
  "split_compact_jws token =
     (case split_on CHR ''.'' token of
        [h, p, s] \<Rightarrow>
          if h = [] \<or> p = [] \<or> s = [] then Inl (new_err ErrMalformedProof) else Inr (h, p, s)
      | _ \<Rightarrow> Inl (new_err ErrMalformedProof))"

definition jws_signing_input :: "string \<Rightarrow> string \<Rightarrow> bytes" where
  "jws_signing_input h p = h @ ''.'' @ p"

definition verify_es256 :: "'k jose_lib \<Rightarrow> 'k \<Rightarrow> bytes \<Rightarrow> string \<Rightarrow> proof_error option" where
  "verify_es256 J pub input sig64 =
     (case url_decode sig64 of
        None \<Rightarrow> Some (new_err ErrMalformedProof)
      | Some sig \<Rightarrow>
          if length sig \<noteq> p256_sig_len then Some (new_err ErrSignatureInvalid)
          else if \<not> cr_verify_rs (jl_crypto J) pub (sha_of J input)
                    (be_nat (take coord_len sig)) (be_nat (drop coord_len sig))
          then Some (new_err ErrSignatureInvalid) else None)"

text \<open>\<open>big.Int.FillBytes\<close> into a buffer of \<open>n\<close> bytes; it panics on a larger number.\<close>

definition fill_bytes :: "nat \<Rightarrow> nat \<Rightarrow> bytes" where
  "fill_bytes n x = (let b = nat_be x in replicate (n - length b) (CHR 0x00) @ b)"

section \<open>Header checks\<close>

definition accept_es256_dpop :: "proof_header \<Rightarrow> proof_error option" where
  "accept_es256_dpop h =
     (if dh_typ h \<noteq> ''dpop+jwt'' then Some (new_err ErrUnsupportedAlg)
      else if dh_alg h \<noteq> ''ES256'' then Some (new_err ErrUnsupportedAlg)
      else if dh_jwk h = None then Some (new_err ErrMalformedProof)
      else if length (dh_x5c h) \<noteq> 1 then Some (new_err ErrCertInvalid)
      else None)"

definition public_jwk :: "'k jose_lib \<Rightarrow> 'k \<Rightarrow> proof_jwk" where
  "public_jwk J pub =
     \<lparr>jwk_kty = ''EC'', jwk_crv = ''P-256'',
      jwk_x = url_encode (fill_bytes coord_len (fst (jl_coords J pub))),
      jwk_y = url_encode (fill_bytes coord_len (snd (jl_coords J pub)))\<rparr>"

definition jwk_coords :: "proof_jwk \<Rightarrow> proof_error + (bytes \<times> bytes)" where
  "jwk_coords j =
     (if jwk_kty j \<noteq> ''EC'' \<or> jwk_crv j \<noteq> ''P-256'' then Inl (new_err ErrUnsupportedAlg)
      else rbind (from_option (new_err ErrMalformedProof) (url_decode (jwk_x j))) (\<lambda>x.
           rbind (from_option (new_err ErrMalformedProof) (url_decode (jwk_y j))) (\<lambda>y.
             if length x \<noteq> coord_len \<or> length y \<noteq> coord_len then Inl (new_err ErrMalformedProof)
             else Inr (x, y))))"

definition match_jwk_to_cert :: "'k jose_lib \<Rightarrow> proof_jwk \<Rightarrow> 'k \<Rightarrow> proof_error option" where
  "match_jwk_to_cert J j pub =
     (case jwk_coords j of
        Inl e \<Rightarrow> Some e
      | Inr (jx, jy) \<Rightarrow>
          if jx \<noteq> fill_bytes coord_len (fst (jl_coords J pub)) \<or> jy \<noteq> fill_bytes coord_len (snd (jl_coords J pub))
          then Some (new_err ErrKeyMismatch) else None)"

definition access_token_hash :: "'k jose_lib \<Rightarrow> string \<Rightarrow> string" where
  "access_token_hash J token = url_encode (sha_of J token)"

definition jwk_thumbprint :: "'k jose_lib \<Rightarrow> 'k \<Rightarrow> string" where
  "jwk_thumbprint J pub =
     (let j = public_jwk J pub;
          q = [CHR 0x22];
          canonical = ''{'' @ q @ ''crv'' @ q @ '':'' @ q @ jwk_crv j @ q @ '','' @ q @ ''kty'' @ q @ '':'' @ q @ jwk_kty j @ q
            @ '','' @ q @ ''x'' @ q @ '':'' @ q @ jwk_x j @ q @ '','' @ q @ ''y'' @ q @ '':'' @ q @ jwk_y j @ q @ ''}''
      in url_encode (sha_of J canonical))"

text \<open>The caller has checked that there is exactly one entry.\<close>

definition leaf_cert :: "'k jose_lib \<Rightarrow> proof_header \<Rightarrow> proof_error + (x509_cert \<times> 'k)" where
  "leaf_cert J h =
     (case std_decode (hd (dh_x5c h)) of
        None \<Rightarrow> Inl (new_err ErrCertInvalid)
      | Some der \<Rightarrow>
          (case jl_x509 J der of
             None \<Rightarrow> Inl (new_err ErrCertInvalid)
           | Some (cert, key) \<Rightarrow>
               (case key of
                  PK_P256 pub \<Rightarrow> Inr (cert, pub)
                | _ \<Rightarrow> Inl (new_err ErrCertInvalid))))"

section \<open>Payload checks\<close>

definition is_positive_json_integer :: "bytes \<Rightarrow> bool" where
  "is_positive_json_integer raw =
     (case raw of
        [] \<Rightarrow> False
      | c # cs \<Rightarrow> 49 \<le> byte_val c \<and> byte_val c \<le> 57 \<and> list_all is_digit cs)"

definition check_profile :: "bytes \<Rightarrow> proof_error option" where
  "check_profile raw =
     (if length raw = 0 then None
      else if \<not> is_positive_json_integer raw then Some (new_err ErrMalformedProof)
      else if raw \<noteq> ''1'' then Some (new_err ErrUnsupportedProfile)
      else None)"

definition decode_content_digest :: "string \<Rightarrow> proof_error + bytes" where
  "decode_content_digest claim =
     (if claim = [] then Inl (new_err ErrMalformedProof)
      else (case url_decode claim of
              None \<Rightarrow> Inl (new_err ErrMalformedProof)
            | Some raw \<Rightarrow> if length raw \<noteq> 32 then Inl (new_err ErrMalformedProof) else Inr raw))"

definition normalize_htu :: "'k jose_lib \<Rightarrow> string \<Rightarrow> proof_error + string" where
  "normalize_htu J raw =
     (case url_parse (jl_bracket J) raw of
        None \<Rightarrow> Inl (new_err ErrMalformedProof)
      | Some p \<Rightarrow>
          let scheme = to_lower (jl_unicode J) (url_scheme p);
              host = to_lower (jl_unicode J) (url_hostname p)
          in if scheme = [] \<or> host = [] then Inl (new_err ErrMalformedProof)
             else let port = url_port p;
                      port = (if scheme = ''https'' \<and> port = ''443'' \<or> scheme = ''http'' \<and> port = ''80'' then [] else port);
                      hostport = (if port \<noteq> [] then host @ '':'' @ port else host);
                      path = escaped_path p;
                      path = (if path = [] then ''/'' else path)
                  in Inr (scheme @ ''://'' @ hostport @ path))"

definition decode_proof_header :: "'k jose_lib \<Rightarrow> string \<Rightarrow> proof_error + proof_header" where
  "decode_proof_header J h64 =
     rbind (from_option (new_err ErrMalformedProof) (url_decode h64)) (\<lambda>raw.
       from_option (new_err ErrMalformedProof) (jl_header J raw))"

definition decode_proof_payload :: "'k jose_lib \<Rightarrow> string \<Rightarrow> proof_error + proof_payload" where
  "decode_proof_payload J p64 =
     rbind (from_option (new_err ErrMalformedProof) (url_decode p64)) (\<lambda>raw.
       from_option (new_err ErrMalformedProof) (jl_payload J raw))"

section \<open>Verification\<close>

definition max_proof_size :: nat where
  "max_proof_size = 8192"

definition default_pop_skew :: int where
  "default_pop_skew = 120 * 1000000000"

definition max_jti_size :: nat where
  "max_jti_size = 128"

definition replay_grace :: int where
  "replay_grace = 5 * 1000000000"

record 'k proof_result =
  pr_cert :: x509_cert
  pr_key :: 'k
  pr_fingerprint :: bytes
  pr_jkt :: string
  pr_digest :: bytes
  pr_jti :: string
  pr_htu :: string
  pr_issued_at :: int
  pr_replay_exp :: int

text \<open>The lazily read content is the result its reader would have; \<open>None\<close> is a nil reader.\<close>

record verify_opts =
  vo_access_token :: string
  vo_token_presented :: bool
  vo_content :: "(content_failure + bytes) option"

definition empty_opts :: verify_opts where
  "empty_opts = \<lparr>vo_access_token = [], vo_token_presented = False, vo_content = None\<rparr>"

definition with_bound_access_token :: "string \<Rightarrow> verify_opts \<Rightarrow> verify_opts" where
  "with_bound_access_token tok c = c\<lparr>vo_access_token := tok, vo_token_presented := True\<rparr>"

definition with_received_content :: "content_failure + bytes \<Rightarrow> verify_opts \<Rightarrow> verify_opts" where
  "with_received_content r c = c\<lparr>vo_content := Some r\<rparr>"

definition resolve_verify_options :: "(verify_opts \<Rightarrow> verify_opts) list \<Rightarrow> verify_opts" where
  "resolve_verify_options opts = foldl (\<lambda>c opt. opt c) empty_opts opts"

definition check_http_binding :: "'k jose_lib \<Rightarrow> proof_payload \<Rightarrow> string \<Rightarrow> string \<Rightarrow> proof_error option" where
  "check_http_binding J p method raw_url =
     (if dp_htm p \<noteq> method then Some (new_err ErrHTTPBindingMismatch)
      else case normalize_htu J raw_url of
          Inl e \<Rightarrow> Some e
        | Inr want \<Rightarrow> if dp_htu p \<noteq> want then Some (new_err ErrHTTPBindingMismatch) else None)"

definition check_token_binding :: "'k jose_lib \<Rightarrow> proof_payload \<Rightarrow> verify_opts \<Rightarrow> proof_error option" where
  "check_token_binding J p cfg =
     (if \<not> vo_token_presented cfg
      then (if dp_ath p \<noteq> [] then Some (new_err ErrTokenBindingMismatch) else None)
      else if dp_ath p = [] then Some (new_err ErrTokenBindingMismatch)
      else if dp_ath p \<noteq> access_token_hash J (vo_access_token cfg) then Some (new_err ErrTokenBindingMismatch)
      else None)"

text \<open>
  \<open>Time.Sub\<close> saturates at the bounds of \<open>time.Duration\<close>; the sum of two durations wraps. A \<open>Time\<close> keeps its
  seconds since year 1 in an \<open>int64\<close>, so \<open>time.Unix\<close> wraps for seconds far in the future.
\<close>

definition sub_time :: "int \<Rightarrow> int \<Rightarrow> int" where
  "sub_time a b = max (- (2 ^ 63)) (min (2 ^ 63 - 1) (a - b))"

definition unix_time :: "int64 \<Rightarrow> int" where
  "unix_time s = (sint (s + 62135596800) - 62135596800) * 1000000000"

definition dur_add :: "int \<Rightarrow> int \<Rightarrow> int" where
  "dur_add a b = sint (word_of_int (a + b) :: int64)"

definition check_freshness :: "proof_payload \<Rightarrow> int \<Rightarrow> int \<Rightarrow> proof_error + int" where
  "check_freshness p now skew =
     (if dp_iat p = 0 then Inl (new_err ErrMalformedProof)
      else let iat = unix_time (dp_iat p); delta = sub_time now iat in
        if delta > skew then Inl (new_err ErrProofStale)
        else if delta < - skew then Inl (new_err ErrProofStale)
        else Inr iat)"

definition check_content :: "'k jose_lib \<Rightarrow> 'k proof_result \<Rightarrow> (content_failure + bytes) option \<Rightarrow> proof_error option" where
  "check_content J r read =
     (case (case read of None \<Rightarrow> Inr [] | Some m \<Rightarrow> m) of
        Inl f \<Rightarrow> Some \<lparr>pe_type = ErrContentUnreadable, pe_cause = Some f\<rparr>
      | Inr content \<Rightarrow>
          if sha_of J content \<noteq> pr_digest r then Some (new_err ErrContentBindingMismatch) else None)"

definition verify_proof_unrecorded ::
  "'k jose_lib \<Rightarrow> bool \<Rightarrow> string \<Rightarrow> string \<Rightarrow> string \<Rightarrow> int \<Rightarrow> int \<Rightarrow> verify_opts \<Rightarrow> proof_error + 'k proof_result" where
  "verify_proof_unrecorded J gone jws method raw_url now skew cfg =
     (if gone then Inl (new_err ErrClientGone)
      else if length jws > max_proof_size then Inl (new_err ErrMalformedProof)
      else let skew = (if skew \<le> 0 then default_pop_skew else skew) in
        rbind (split_compact_jws jws) (\<lambda>(h64, p64, s64).
        rbind (decode_proof_header J h64) (\<lambda>hdr.
        case accept_es256_dpop hdr of Some e \<Rightarrow> Inl e | None \<Rightarrow>
        rbind (leaf_cert J hdr) (\<lambda>(cert, pub).
        if now < x_not_before cert then Inl (new_err ErrCertInvalid)
        else if now > x_not_after cert then Inl (new_err ErrCertInvalid)
        else case match_jwk_to_cert J (the (dh_jwk hdr)) pub of Some e \<Rightarrow> Inl e | None \<Rightarrow>
        case verify_es256 J pub (jws_signing_input h64 p64) s64 of Some e \<Rightarrow> Inl e | None \<Rightarrow>
        rbind (decode_proof_payload J p64) (\<lambda>pl.
        case check_profile (dp_profile pl) of Some e \<Rightarrow> Inl e | None \<Rightarrow>
        rbind (decode_content_digest (dp_content_digest pl)) (\<lambda>digest.
        case check_http_binding J pl method raw_url of Some e \<Rightarrow> Inl e | None \<Rightarrow>
        case check_token_binding J pl cfg of Some e \<Rightarrow> Inl e | None \<Rightarrow>
        rbind (check_freshness pl now skew) (\<lambda>iat.
        if dp_jti pl = [] then Inl (new_err ErrMalformedProof)
        else if length (dp_jti pl) > max_jti_size then Inl (new_err ErrMalformedProof)
        else Inr \<lparr>pr_cert = cert, pr_key = pub, pr_fingerprint = sha_of J (x_raw cert),
                  pr_jkt = jwk_thumbprint J pub, pr_digest = digest, pr_jti = dp_jti pl, pr_htu = dp_htu pl,
                  pr_issued_at = iat, pr_replay_exp = iat + dur_add skew replay_grace\<rparr>)))))))"

text \<open>
  A replay cache is a \<open>CheckAndStore\<close> on a state of its own; its clock is part of it.
\<close>

type_synonym 's replay_port = "string \<Rightarrow> int \<Rightarrow> 's \<Rightarrow> (replay_error + bool) \<times> 's"

definition commit_replay ::
  "'k jose_lib \<Rightarrow> 's replay_port \<Rightarrow> 'k proof_result \<Rightarrow> 's \<Rightarrow> proof_error option \<times> 's" where
  "commit_replay J store r s =
     (case store (url_encode (sha_of J (pr_jti r))) (pr_replay_exp r) s of
        (Inl Replay_Full, s') \<Rightarrow> (Some (new_err ErrReplayCacheFull), s')
      | (Inr seen, s') \<Rightarrow> (if seen then Some (new_err ErrReplay) else None, s'))"

text \<open>\<open>VerifyProof\<close> with a replay cache; a nil one is \<open>None\<close>.\<close>

definition verify_proof ::
  "'k jose_lib \<Rightarrow> 's replay_port option \<Rightarrow> bool \<Rightarrow> string \<Rightarrow> string \<Rightarrow> string \<Rightarrow> int \<Rightarrow> int \<Rightarrow> verify_opts \<Rightarrow> 's
     \<Rightarrow> (proof_error + 'k proof_result) \<times> 's" where
  "verify_proof J replay gone jws method raw_url now skew cfg s =
     (case replay of
        None \<Rightarrow> (Inl (new_err ErrMisconfigured), s)
      | Some store \<Rightarrow>
          (case verify_proof_unrecorded J gone jws method raw_url now skew cfg of
             Inl e \<Rightarrow> (Inl e, s)
           | Inr r \<Rightarrow>
               (case check_content J r (vo_content cfg) of
                  Some e \<Rightarrow> (Inl e, s)
                | None \<Rightarrow>
                    (case commit_replay J store r s of
                       (Some e, s') \<Rightarrow> (Inl e, s')
                     | (None, s') \<Rightarrow> (Inr r, s')))))"

section \<open>What each check establishes\<close>

lemma split_compact_jws_Inr:
  "split_compact_jws t = Inr (h, p, s) \<longleftrightarrow> split_on CHR ''.'' t = [h, p, s] \<and> h \<noteq> [] \<and> p \<noteq> [] \<and> s \<noteq> []"
  by (auto simp: split_compact_jws_def split: list.splits if_splits)

lemma split_compact_join:
  assumes "CHR ''.'' \<notin> set h" "CHR ''.'' \<notin> set p" "CHR ''.'' \<notin> set s" "h \<noteq> []" "p \<noteq> []" "s \<noteq> []"
  shows "split_compact_jws (h @ ''.'' @ p @ ''.'' @ s) = Inr (h, p, s)"
  using assms by (simp add: split_compact_jws_Inr split_on_append split_on_no_sep)

lemma accept_es256_dpop_None:
  "accept_es256_dpop h = None \<longleftrightarrow>
     dh_typ h = ''dpop+jwt'' \<and> dh_alg h = ''ES256'' \<and> (\<exists>j. dh_jwk h = Some j) \<and> (\<exists>x. dh_x5c h = [x])"
  by (cases "dh_x5c h") (auto simp: accept_es256_dpop_def)

lemma verify_es256_None:
  "verify_es256 J pub input s64 = None \<longleftrightarrow>
     (\<exists>sig. url_decode s64 = Some sig \<and> length sig = 64
        \<and> cr_verify_rs (jl_crypto J) pub (sha_of J input) (be_nat (take 32 sig)) (be_nat (drop 32 sig)))"
  by (auto simp: verify_es256_def p256_sig_len_def coord_len_def split: option.split)

lemma match_jwk_to_cert_None:
  "match_jwk_to_cert J j pub = None \<longleftrightarrow>
     jwk_coords j = Inr (fill_bytes 32 (fst (jl_coords J pub)), fill_bytes 32 (snd (jl_coords J pub)))"
  by (auto simp: match_jwk_to_cert_def coord_len_def split: sum.split)

lemma check_profile_None: "check_profile raw = None \<longleftrightarrow> raw = [] \<or> raw = ''1''"
  by (auto simp: check_profile_def is_positive_json_integer_def byte_val_def)

lemma decode_content_digest_Inr:
  "decode_content_digest c = Inr d \<longleftrightarrow> c \<noteq> [] \<and> url_decode c = Some d \<and> length d = 32"
  by (auto simp: decode_content_digest_def split: option.splits if_splits)

lemma check_http_binding_None:
  "check_http_binding J p m u = None \<longleftrightarrow> dp_htm p = m \<and> normalize_htu J u = Inr (dp_htu p)"
  by (auto simp: check_http_binding_def split: sum.split)

text \<open>The \<open>ath\<close> claim a request calls for: none without a token, the token's hash with one.\<close>

definition expected_ath :: "'k jose_lib \<Rightarrow> verify_opts \<Rightarrow> string" where
  "expected_ath J cfg = (if vo_token_presented cfg then access_token_hash J (vo_access_token cfg) else [])"

lemma check_token_binding_None:
  "check_token_binding J p cfg = None \<longleftrightarrow>
     dp_ath p = expected_ath J cfg \<and> (vo_token_presented cfg \<longrightarrow> dp_ath p \<noteq> [])"
  by (auto simp: check_token_binding_def expected_ath_def)

definition fresh_iat :: "int64 \<Rightarrow> int \<Rightarrow> int \<Rightarrow> bool" where
  "fresh_iat iat now skew = (iat \<noteq> 0 \<and> \<bar>sub_time now (unix_time iat)\<bar> \<le> skew)"

lemma check_freshness_Inr:
  "check_freshness p now skew = Inr t \<longleftrightarrow> fresh_iat (dp_iat p) now skew \<and> t = unix_time (dp_iat p)"
  by (auto simp: check_freshness_def fresh_iat_def Let_def)

lemma sub_time_abs: "skew < 2 ^ 63 - 1 \<Longrightarrow> \<bar>sub_time a b\<bar> \<le> skew \<longleftrightarrow> \<bar>a - b\<bar> \<le> skew"
  by (auto simp: sub_time_def)

lemma dur_add_small: "0 \<le> a \<Longrightarrow> 0 \<le> b \<Longrightarrow> a + b < 2 ^ 63 \<Longrightarrow> dur_add a b = a + b"
  by (simp add: dur_add_def signed_of_int signed_take_bit_int_eq_self del: of_int_add)

lemma leaf_cert_Inr:
  assumes "dh_x5c h = [x]"
  shows "leaf_cert J h = Inr (cert, pub) \<longleftrightarrow>
     (\<exists>der. std_decode x = Some der \<and> jl_x509 J der = Some (cert, PK_P256 pub))"
  using assms by (auto simp: leaf_cert_def split: option.splits pkix_key.splits)

section \<open>Accepted proofs\<close>

definition effective_skew :: "int \<Rightarrow> int" where
  "effective_skew skew = (if skew \<le> 0 then default_pop_skew else skew)"

text \<open>
  \<open>proof_parts\<close> is what the segments of a proof decode to; \<open>proof_accepted\<close> what the verifier demands of
  them, for the request it has at hand.
\<close>

record proof_parts =
  pp_h64 :: string
  pp_p64 :: string
  pp_s64 :: string
  pp_jwk :: proof_jwk
  pp_x5c :: string
  pp_der :: bytes
  pp_sig :: bytes
  pp_payload :: proof_payload

definition parts_of :: "'k jose_lib \<Rightarrow> string \<Rightarrow> proof_parts \<Rightarrow> bool" where
  "parts_of J jws q \<longleftrightarrow>
     split_on CHR ''.'' jws = [pp_h64 q, pp_p64 q, pp_s64 q]
     \<and> decode_proof_header J (pp_h64 q) =
         Inr \<lparr>dh_typ = ''dpop+jwt'', dh_alg = ''ES256'', dh_jwk = Some (pp_jwk q), dh_x5c = [pp_x5c q]\<rparr>
     \<and> std_decode (pp_x5c q) = Some (pp_der q)
     \<and> url_decode (pp_s64 q) = Some (pp_sig q) \<and> length (pp_sig q) = 64
     \<and> decode_proof_payload J (pp_p64 q) = Inr (pp_payload q)"

lemma parts_of_unique: "parts_of J jws q \<Longrightarrow> parts_of J jws q' \<Longrightarrow> q = q'"
  by (cases q; cases q') (auto simp: parts_of_def)

definition signed_proof :: "'k jose_lib \<Rightarrow> 'k \<Rightarrow> proof_parts \<Rightarrow> bool" where
  "signed_proof J pub q =
     cr_verify_rs (jl_crypto J) pub (sha_of J (jws_signing_input (pp_h64 q) (pp_p64 q)))
       (be_nat (take 32 (pp_sig q))) (be_nat (drop 32 (pp_sig q)))"

definition proof_accepted ::
  "'k jose_lib \<Rightarrow> string \<Rightarrow> string \<Rightarrow> string \<Rightarrow> int \<Rightarrow> int \<Rightarrow> verify_opts \<Rightarrow> 'k proof_result \<Rightarrow> proof_parts \<Rightarrow> bool" where
  "proof_accepted J jws method raw_url now skew cfg r q \<longleftrightarrow>
     length jws \<le> max_proof_size \<and> parts_of J jws q
     \<and> pp_h64 q \<noteq> [] \<and> pp_p64 q \<noteq> [] \<and> pp_s64 q \<noteq> []
     \<and> jl_x509 J (pp_der q) = Some (pr_cert r, PK_P256 (pr_key r))
     \<and> x_not_before (pr_cert r) \<le> now \<and> now \<le> x_not_after (pr_cert r)
     \<and> match_jwk_to_cert J (pp_jwk q) (pr_key r) = None
     \<and> signed_proof J (pr_key r) q
     \<and> (dp_profile (pp_payload q) = [] \<or> dp_profile (pp_payload q) = ''1'')
     \<and> decode_content_digest (dp_content_digest (pp_payload q)) = Inr (pr_digest r)
     \<and> dp_htm (pp_payload q) = method \<and> normalize_htu J raw_url = Inr (dp_htu (pp_payload q))
     \<and> check_token_binding J (pp_payload q) cfg = None
     \<and> fresh_iat (dp_iat (pp_payload q)) now skew
     \<and> dp_jti (pp_payload q) \<noteq> [] \<and> length (dp_jti (pp_payload q)) \<le> max_jti_size
     \<and> pr_fingerprint r = sha_of J (x_raw (pr_cert r)) \<and> pr_jkt r = jwk_thumbprint J (pr_key r)
     \<and> pr_jti r = dp_jti (pp_payload q) \<and> pr_htu r = dp_htu (pp_payload q)
     \<and> pr_issued_at r = unix_time (dp_iat (pp_payload q))
     \<and> pr_replay_exp r = pr_issued_at r + dur_add skew replay_grace"


lemma verify_proof_unrecorded_Inr:
  "verify_proof_unrecorded J gone jws method raw_url now skew cfg = Inr r \<longleftrightarrow>
     \<not> gone \<and> (\<exists>q. proof_accepted J jws method raw_url now (effective_skew skew) cfg r q)"
  (is "?v \<longleftrightarrow> \<not> gone \<and> (\<exists>q. ?s q)")
proof
  assume ?v
  then obtain h p s hdr cert pub pl digest iat where
    "\<not> gone" "length jws \<le> max_proof_size" and sp: "split_compact_jws jws = Inr (h, p, s)"
    and hdr: "decode_proof_header J h = Inr hdr" "accept_es256_dpop hdr = None"
    and leaf: "leaf_cert J hdr = Inr (cert, pub)" "x_not_before cert \<le> now" "now \<le> x_not_after cert"
    and key: "match_jwk_to_cert J (the (dh_jwk hdr)) pub = None" "verify_es256 J pub (jws_signing_input h p) s = None"
    and pl: "decode_proof_payload J p = Inr pl" "check_profile (dp_profile pl) = None"
      "decode_content_digest (dp_content_digest pl) = Inr digest" "check_http_binding J pl method raw_url = None"
      "check_token_binding J pl cfg = None" "check_freshness pl now (effective_skew skew) = Inr iat"
      "dp_jti pl \<noteq> []" "length (dp_jti pl) \<le> max_jti_size"
    and r: "r = \<lparr>pr_cert = cert, pr_key = pub, pr_fingerprint = sha_of J (x_raw cert),
                  pr_jkt = jwk_thumbprint J pub, pr_digest = digest, pr_jti = dp_jti pl, pr_htu = dp_htu pl,
                  pr_issued_at = iat, pr_replay_exp = iat + dur_add (effective_skew skew) replay_grace\<rparr>"
    unfolding verify_proof_unrecorded_def Let_def pipeline_Inr effective_skew_def [symmetric] not_less
    by auto
  from hdr(2) obtain j x where h: "hdr = \<lparr>dh_typ = ''dpop+jwt'', dh_alg = ''ES256'', dh_jwk = Some j, dh_x5c = [x]\<rparr>"
    by (cases hdr) (auto simp: accept_es256_dpop_None)
  obtain der where der: "std_decode x = Some der" "jl_x509 J der = Some (cert, PK_P256 pub)"
    using leaf(1) h leaf_cert_Inr [of hdr x J cert pub] by auto
  obtain sig where sig: "url_decode s = Some sig" "length sig = 64"
      "cr_verify_rs (jl_crypto J) pub (sha_of J (jws_signing_input h p)) (be_nat (take 32 sig)) (be_nat (drop 32 sig))"
    using key(2) by (auto simp: verify_es256_None)
  have "?s \<lparr>pp_h64 = h, pp_p64 = p, pp_s64 = s, pp_jwk = j, pp_x5c = x, pp_der = der, pp_sig = sig, pp_payload = pl\<rparr>"
    using \<open>length jws \<le> max_proof_size\<close> sp hdr(1) h leaf key(1) pl r der sig
    by (simp add: proof_accepted_def parts_of_def signed_proof_def split_compact_jws_Inr check_profile_None
        check_http_binding_None check_freshness_Inr)
  with \<open>\<not> gone\<close> show "\<not> gone \<and> (\<exists>q. ?s q)" by blast
next
  assume "\<not> gone \<and> (\<exists>q. ?s q)"
  then obtain q where "\<not> gone" and q: "?s q" by blast
  have leaf: "leaf_cert J \<lparr>dh_typ = ''dpop+jwt'', dh_alg = ''ES256'', dh_jwk = Some (pp_jwk q), dh_x5c = [pp_x5c q]\<rparr>
      = Inr (pr_cert r, pr_key r)"
    using q by (simp add: leaf_cert_Inr proof_accepted_def parts_of_def)
  have "split_compact_jws jws = Inr (pp_h64 q, pp_p64 q, pp_s64 q)"
    using q by (simp add: split_compact_jws_Inr proof_accepted_def parts_of_def)
  moreover have "verify_es256 J (pr_key r) (jws_signing_input (pp_h64 q) (pp_p64 q)) (pp_s64 q) = None"
    using q by (auto simp: verify_es256_None proof_accepted_def parts_of_def signed_proof_def)
  moreover have "check_freshness (pp_payload q) now (effective_skew skew) = Inr (pr_issued_at r)"
    using q by (simp add: check_freshness_Inr proof_accepted_def)
  moreover have "accept_es256_dpop
      \<lparr>dh_typ = ''dpop+jwt'', dh_alg = ''ES256'', dh_jwk = Some (pp_jwk q), dh_x5c = [pp_x5c q]\<rparr> = None"
    by (simp add: accept_es256_dpop_None)
  moreover have "check_profile (dp_profile (pp_payload q)) = None"
      "check_http_binding J (pp_payload q) method raw_url = None"
    using q by (auto simp: check_profile_None check_http_binding_None proof_accepted_def)
  ultimately show ?v
    using \<open>\<not> gone\<close> q leaf
    by (simp add: verify_proof_unrecorded_def Let_def effective_skew_def [symmetric] proof_accepted_def parts_of_def
        not_less)
qed


section \<open>Recording\<close>

definition replay_key :: "'k jose_lib \<Rightarrow> 'k proof_result \<Rightarrow> string" where
  "replay_key J r = url_encode (sha_of J (pr_jti r))"

lemma commit_replay_eq:
  "commit_replay J store r s =
     (case store (replay_key J r) (pr_replay_exp r) s of
        (Inl Replay_Full, s') \<Rightarrow> (Some (new_err ErrReplayCacheFull), s')
      | (Inr seen, s') \<Rightarrow> (if seen then Some (new_err ErrReplay) else None, s'))"
  by (simp add: commit_replay_def replay_key_def)

lemma commit_replay_None:
  "commit_replay J store r s = (None, s') \<longleftrightarrow> store (replay_key J r) (pr_replay_exp r) s = (Inr False, s')"
  by (cases "store (replay_key J r) (pr_replay_exp r) s")
    (auto simp: commit_replay_eq split: sum.splits replay_error.splits if_splits)

lemma commit_replay_seen:
  "fst (store (replay_key J r) (pr_replay_exp r) s) = Inr True \<Longrightarrow>
     fst (commit_replay J store r s) = Some (new_err ErrReplay)"
  by (cases "store (replay_key J r) (pr_replay_exp r) s") (simp add: commit_replay_eq)

lemma commit_replay_state:
  "snd (commit_replay J store r s) = snd (store (replay_key J r) (pr_replay_exp r) s)"
  by (cases "store (replay_key J r) (pr_replay_exp r) s")
    (auto simp: commit_replay_eq split: sum.splits replay_error.splits)

lemma check_content_None:
  "check_content J r read = None \<longleftrightarrow>
     (\<exists>content. (read = None \<and> content = [] \<or> read = Some (Inr content)) \<and> sha_of J content = pr_digest r)"
  by (cases read) (auto simp: check_content_def split: sum.splits)

lemma verify_proof_Inr:
  "verify_proof J replay gone jws method raw_url now skew cfg s = (Inr r, s') \<longleftrightarrow>
     (\<exists>store. replay = Some store
        \<and> verify_proof_unrecorded J gone jws method raw_url now skew cfg = Inr r
        \<and> check_content J r (vo_content cfg) = None
        \<and> store (replay_key J r) (pr_replay_exp r) s = (Inr False, s'))"
  unfolding commit_replay_None [symmetric]
  by (auto simp: verify_proof_def split: option.splits sum.splits prod.splits)

text \<open>
  One JWS always names one jti and one expiry, and while the freshness check still admits it the
  recorded entry has not expired, as long as the cache's clock is less than the grace period ahead.
\<close>

lemma replayed_proof:
  assumes "verify_proof_unrecorded J g jws m u now skew cfg = Inr r"
    and "verify_proof_unrecorded J g' jws m' u' now' skew cfg' = Inr r'"
    and "effective_skew skew + replay_grace < 2 ^ 63" "t < now' + replay_grace"
  shows "replay_key J r' = replay_key J r" "t < pr_replay_exp r"
proof -
  from assms(1,2) obtain q q' where q: "proof_accepted J jws m u now (effective_skew skew) cfg r q"
    and q': "proof_accepted J jws m' u' now' (effective_skew skew) cfg' r' q'"
    by (auto simp: verify_proof_unrecorded_Inr)
  have eq: "q' = q" using q q' parts_of_unique by (simp add: proof_accepted_def) blast
  then show "replay_key J r' = replay_key J r"
    using q q' by (simp add: proof_accepted_def replay_key_def)
  have pos: "0 \<le> effective_skew skew" "0 \<le> replay_grace"
    by (simp_all add: effective_skew_def default_pop_skew_def replay_grace_def)
  have "now' - unix_time (dp_iat (pp_payload q)) \<le> effective_skew skew"
    using q' eq assms(3) sub_time_abs [of "effective_skew skew" now' "unix_time (dp_iat (pp_payload q))"]
    by (auto simp: proof_accepted_def fresh_iat_def replay_grace_def)
  then show "t < pr_replay_exp r"
    using q assms(3,4) pos by (simp add: proof_accepted_def dur_add_small)
qed

lemma memory_replay_rejects:
  assumes c: "replay_ok c" and i: "visits_all iter'"
    and first: "verify_proof_unrecorded J g jws m u now skew cfg = Inr r"
      "check_and_store iter tc (replay_key J r) (pr_replay_exp r) c = (Inr False, c1)"
    and skew: "effective_skew skew + replay_grace < 2 ^ 63"
    and later: "memory_replay.before tc' ops" "tc' < now' + replay_grace"
    and second: "verify_proof_unrecorded J g' jws m' u' now' skew cfg' = Inr r'"
  shows "fst (commit_replay J (check_and_store iter' tc') r' (memory_replay.run ops c1)) = Some (new_err ErrReplay)"
proof (rule commit_replay_seen)
  note rep = replayed_proof [OF first(1) second skew later(2)]
  have rec: "fst (check_and_store iter tc (replay_key J r) (pr_replay_exp r) c) = Inr False" using first(2) by simp
  show "fst (check_and_store iter' tc' (replay_key J r') (pr_replay_exp r') (memory_replay.run ops c1)) = Inr True"
    using memory_replay.single_use [OF c rec later(1) rep(2) i] first(2) by (simp add: rep(1))
qed

end
