(* ===== verification/Pop_Sign.thy ===== *)
theory Pop_Sign
  imports Pop_Proof
begin

text \<open>
  Minting of DPoP proofs: \<open>pop/sign.go\<close>, \<open>encodeProofParts\<close> of \<open>pop/proof.go\<close> and \<open>signES256\<close> of
  \<open>pop/jws.go\<close>, with the round trip through the verifier. JSON encoding and ECDSA signing are
  parameters; what the round trip relies on of them is named by predicates.
\<close>

text \<open>
  \<open>sl_public\<close> is the public half of a private key, with the kind of its curve; \<open>sl_sign\<close> is
  \<open>ecdsa.Sign\<close> of a digest.
\<close>

record ('s, 'k) sign_lib =
  sl_public :: "'s \<Rightarrow> 'k pkix_key"
  sl_sign :: "'s \<Rightarrow> bytes \<Rightarrow> (nat \<times> nat) option"
  sl_header :: "proof_header \<Rightarrow> bytes option"
  sl_payload :: "proof_payload \<Rightarrow> bytes option"

record 's signer =
  sg_key :: 's
  sg_cert_der :: bytes
  sg_jwk :: proof_jwk

definition new_signer ::
  "'k jose_lib \<Rightarrow> ('s, 'k) sign_lib \<Rightarrow> 's option \<Rightarrow> bytes \<Rightarrow> proof_error + 's signer" where
  "new_signer J S key der =
     (case key of
        None \<Rightarrow> Inl (new_err ErrCertInvalid)
      | Some sk \<Rightarrow>
          (case sl_public S sk of
             PK_P256 pub \<Rightarrow>
               (case jl_x509 J der of
                  None \<Rightarrow> Inl (new_err ErrCertInvalid)
                | Some (_, certkey) \<Rightarrow>
                    if certkey \<noteq> PK_P256 pub then Inl (new_err ErrCertInvalid)
                    else Inr \<lparr>sg_key = sk, sg_cert_der = der, sg_jwk = public_jwk J pub\<rparr>)
           | _ \<Rightarrow> Inl (new_err ErrCertInvalid)))"

record proof_options =
  po_ath :: string
  po_digest :: bytes

definition with_access_token :: "'k jose_lib \<Rightarrow> string \<Rightarrow> proof_options \<Rightarrow> proof_options" where
  "with_access_token J token o1 = o1\<lparr>po_ath := access_token_hash J token\<rparr>"

definition with_content :: "'k jose_lib \<Rightarrow> bytes \<Rightarrow> proof_options \<Rightarrow> proof_options" where
  "with_content J content o1 = o1\<lparr>po_digest := sha_of J content\<rparr>"

definition with_content_digest :: "bytes \<Rightarrow> proof_options \<Rightarrow> proof_options" where
  "with_content_digest d o1 = o1\<lparr>po_digest := d\<rparr>"

definition signer_jkt :: "'k jose_lib \<Rightarrow> ('s, 'k) sign_lib \<Rightarrow> 's signer \<Rightarrow> string option" where
  "signer_jkt J S sg = (case sl_public S (sg_key sg) of PK_P256 pub \<Rightarrow> Some (jwk_thumbprint J pub) | _ \<Rightarrow> None)"

text \<open>\<open>ctx.Err\<close> is returned as it is, not as a \<open>ProofError\<close>.\<close>

datatype sign_error = Sign_Gone | Sign_Proof proof_error

definition new_jti :: "bytes option \<Rightarrow> proof_error + string" where
  "new_jti rand = (case rand of None \<Rightarrow> Inl (new_err ErrMalformedProof) | Some b \<Rightarrow> Inr (hex_encode b))"

definition encode_proof_parts ::
  "('s, 'k) sign_lib \<Rightarrow> proof_header \<Rightarrow> proof_payload \<Rightarrow> proof_error + (string \<times> string)" where
  "encode_proof_parts S h p =
     (case sl_header S h of
        None \<Rightarrow> Inl (new_err ErrMalformedProof)
      | Some hb \<Rightarrow>
          (case sl_payload S p of
             None \<Rightarrow> Inl (new_err ErrMalformedProof)
           | Some pb \<Rightarrow> Inr (url_encode hb, url_encode pb)))"

definition sign_es256 :: "'k jose_lib \<Rightarrow> ('s, 'k) sign_lib \<Rightarrow> 's \<Rightarrow> bytes \<Rightarrow> proof_error + string" where
  "sign_es256 J S sk input =
     (case sl_sign S sk (sha_of J input) of
        None \<Rightarrow> Inl (new_err ErrSignatureInvalid)
      | Some (r, s) \<Rightarrow> Inr (url_encode (fill_bytes coord_len r @ fill_bytes (p256_sig_len - coord_len) s)))"

text \<open>
  \<open>Sign\<close> with the clock's Unix seconds \<open>now\<close> and the 16 random bytes, \<open>None\<close> when the system's source
  fails.
\<close>

definition sign ::
  "'k jose_lib \<Rightarrow> ('s, 'k) sign_lib \<Rightarrow> 's signer \<Rightarrow> bool \<Rightarrow> string \<Rightarrow> string \<Rightarrow> int64 \<Rightarrow> bytes option
     \<Rightarrow> (proof_options \<Rightarrow> proof_options) list \<Rightarrow> sign_error + string" where
  "sign J S sg gone method raw_url now rand opts =
     (if gone then Inl Sign_Gone
      else let po = foldl (\<lambda>p opt. opt p) \<lparr>po_ath = [], po_digest = sha_of J []\<rparr> opts in
        map_error Sign_Proof
          (rbind (normalize_htu J raw_url) (\<lambda>htu.
           rbind (new_jti rand) (\<lambda>jti.
           rbind (encode_proof_parts S
              \<lparr>dh_typ = ''dpop+jwt'', dh_alg = ''ES256'', dh_jwk = Some (sg_jwk sg), dh_x5c = [std_encode (sg_cert_der sg)]\<rparr>
              \<lparr>dp_htm = method, dp_htu = htu, dp_iat = now, dp_jti = jti, dp_ath = po_ath po, dp_profile = ''1'',
               dp_content_digest = url_encode (po_digest po)\<rparr>) (\<lambda>(h64, p64).
           rbind (sign_es256 J S (sg_key sg) (jws_signing_input h64 p64)) (\<lambda>s64.
             Inr (h64 @ ''.'' @ p64 @ ''.'' @ s64)))))))"

section \<open>The laws of the libraries\<close>

text \<open>
  JSON: decoding undoes encoding on the values a signer builds, whose text is ASCII
  (\<open>encoding/json\<close> replaces invalid UTF-8, so the law needs a restriction). ECDSA: a signature made
  with a key verifies under its public half, and its two numbers are below the group order.
\<close>

definition ascii_header :: "proof_header \<Rightarrow> bool" where
  "ascii_header h \<longleftrightarrow>
     is_ascii (dh_typ h) \<and> is_ascii (dh_alg h) \<and> list_all is_ascii (dh_x5c h)
     \<and> (case dh_jwk h of None \<Rightarrow> True
        | Some j \<Rightarrow> is_ascii (jwk_kty j) \<and> is_ascii (jwk_crv j) \<and> is_ascii (jwk_x j) \<and> is_ascii (jwk_y j))"

definition ascii_payload :: "proof_payload \<Rightarrow> bool" where
  "ascii_payload p \<longleftrightarrow>
     is_ascii (dp_htm p) \<and> is_ascii (dp_htu p) \<and> is_ascii (dp_jti p) \<and> is_ascii (dp_ath p)
     \<and> dp_profile p = ''1'' \<and> is_ascii (dp_content_digest p)"

definition json_inverse :: "'k jose_lib \<Rightarrow> ('s, 'k) sign_lib \<Rightarrow> bool" where
  "json_inverse J S \<longleftrightarrow>
     (\<forall>h b. ascii_header h \<longrightarrow> sl_header S h = Some b \<longrightarrow> b \<noteq> [] \<and> jl_header J b = Some h)
     \<and> (\<forall>p b. ascii_payload p \<longrightarrow> sl_payload S p = Some b \<longrightarrow> b \<noteq> [] \<and> jl_payload J b = Some p)"

definition ecdsa_correct :: "'k jose_lib \<Rightarrow> ('s, 'k) sign_lib \<Rightarrow> bool" where
  "ecdsa_correct J S \<longleftrightarrow>
     (\<forall>sk pub d r s. sl_public S sk = PK_P256 pub \<longrightarrow> sl_sign S sk d = Some (r, s) \<longrightarrow>
        cr_verify_rs (jl_crypto J) pub d r s \<and> r < 2 ^ 256 \<and> s < 2 ^ 256)"

definition coords_fit :: "'k jose_lib \<Rightarrow> bool" where
  "coords_fit J \<longleftrightarrow> (\<forall>pub. fst (jl_coords J pub) < 2 ^ 256 \<and> snd (jl_coords J pub) < 2 ^ 256)"

definition sha_fits :: "'k jose_lib \<Rightarrow> bool" where
  "sha_fits J \<longleftrightarrow> (\<forall>b. length (sha_of J b) = 32)"

section \<open>What signing produces\<close>

lemma fill_bytes_32:
  assumes "n < 2 ^ 256"
  shows "length (fill_bytes 32 n) = 32" "be_nat (fill_bytes 32 n) = n"
proof -
  have "length (nat_be n) \<le> 32" using assms by (intro length_nat_be) simp_all
  then show "length (fill_bytes 32 n) = 32" by (simp add: fill_bytes_def Let_def)
  have "be_nat (replicate k (CHR 0x00) @ b) = be_nat b" for k b
    by (induction k) (simp_all add: be_nat_zero_prefix)
  then show "be_nat (fill_bytes 32 n) = n" by (simp add: fill_bytes_def Let_def)
qed

lemma new_signer_Inr:
  "new_signer J S key der = Inr sg \<longleftrightarrow>
     (\<exists>sk pub cert. key = Some sk \<and> sl_public S sk = PK_P256 pub \<and> jl_x509 J der = Some (cert, PK_P256 pub)
        \<and> sg = \<lparr>sg_key = sk, sg_cert_der = der, sg_jwk = public_jwk J pub\<rparr>)"
  by (auto simp: new_signer_def split: option.splits pkix_key.splits if_splits)

text \<open>A signer's key, its certificate's key and its JWK are one key.\<close>

definition signer_ok :: "'k jose_lib \<Rightarrow> ('s, 'k) sign_lib \<Rightarrow> x509_cert \<Rightarrow> 'k \<Rightarrow> 's signer \<Rightarrow> bool" where
  "signer_ok J S cert pub sg \<longleftrightarrow>
     sl_public S (sg_key sg) = PK_P256 pub \<and> jl_x509 J (sg_cert_der sg) = Some (cert, PK_P256 pub)
     \<and> sg_jwk sg = public_jwk J pub"

lemma new_signer_ok: "new_signer J S key der = Inr sg \<Longrightarrow> \<exists>cert pub. signer_ok J S cert pub sg \<and> sg_cert_der sg = der"
  by (auto simp: new_signer_Inr signer_ok_def)

lemma match_own_jwk: "coords_fit J \<Longrightarrow> match_jwk_to_cert J (public_jwk J pub) pub = None"
  by (simp add: match_jwk_to_cert_None jwk_coords_def public_jwk_def coord_len_def coords_fit_def fill_bytes_32)

lemma sign_es256_verifies:
  assumes "ecdsa_correct J S" "sl_public S sk = PK_P256 pub" "sign_es256 J S sk input = Inr s64"
  shows "\<exists>sig. s64 = url_encode sig \<and> length sig = 64
    \<and> cr_verify_rs (jl_crypto J) pub (sha_of J input) (be_nat (take 32 sig)) (be_nat (drop 32 sig))"
proof -
  obtain r s where rs: "sl_sign S sk (sha_of J input) = Some (r, s)"
    and s64: "s64 = url_encode (fill_bytes 32 r @ fill_bytes 32 s)"
    using assms(3) by (auto simp: sign_es256_def p256_sig_len_def coord_len_def split: option.splits prod.splits)
  have "cr_verify_rs (jl_crypto J) pub (sha_of J input) r s" "r < 2 ^ 256" "s < 2 ^ 256"
    using assms(1,2) rs by (auto simp: ecdsa_correct_def)
  with s64 show ?thesis by (intro exI [of _ "fill_bytes 32 r @ fill_bytes 32 s"]) (simp add: fill_bytes_32)
qed

definition signed_payload :: "string \<Rightarrow> string \<Rightarrow> int64 \<Rightarrow> bytes \<Rightarrow> proof_options \<Rightarrow> proof_payload" where
  "signed_payload method htu now b po =
     \<lparr>dp_htm = method, dp_htu = htu, dp_iat = now, dp_jti = hex_encode b, dp_ath = po_ath po, dp_profile = ''1'',
      dp_content_digest = url_encode (po_digest po)\<rparr>"

definition signed_options :: "'k jose_lib \<Rightarrow> (proof_options \<Rightarrow> proof_options) list \<Rightarrow> proof_options" where
  "signed_options J opts = foldl (\<lambda>p opt. opt p) \<lparr>po_ath = [], po_digest = sha_of J []\<rparr> opts"

lemma encode_proof_parts_Inr:
  "encode_proof_parts S h p = Inr x \<longleftrightarrow>
     (\<exists>hb pb. sl_header S h = Some hb \<and> sl_payload S p = Some pb \<and> x = (url_encode hb, url_encode pb))"
  by (auto simp: encode_proof_parts_def split: option.splits)

lemma new_jti_Inr: "new_jti rand = Inr j \<longleftrightarrow> (\<exists>b. rand = Some b \<and> j = hex_encode b)"
  by (auto simp: new_jti_def split: option.splits)

lemma sign_Inr:
  "sign J S sg gone method raw_url now rand opts = Inr jws \<longleftrightarrow>
     \<not> gone \<and> (\<exists>htu b hb pb s64. normalize_htu J raw_url = Inr htu \<and> rand = Some b
       \<and> sl_header S \<lparr>dh_typ = ''dpop+jwt'', dh_alg = ''ES256'', dh_jwk = Some (sg_jwk sg),
            dh_x5c = [std_encode (sg_cert_der sg)]\<rparr> = Some hb
       \<and> sl_payload S (signed_payload method htu now b (signed_options J opts)) = Some pb
       \<and> sign_es256 J S (sg_key sg) (jws_signing_input (url_encode hb) (url_encode pb)) = Inr s64
       \<and> jws = url_encode hb @ ''.'' @ url_encode pb @ ''.'' @ s64)"
  unfolding sign_def Let_def signed_options_def [symmetric] signed_payload_def if_Inl_eq_Inr map_error_eq_Inr_iff
    rbind_eq_Inr_iff case_prod_eq_Inr
  by (auto simp: encode_proof_parts_Inr new_jti_Inr)

text \<open>The segments of a minted proof are what the verifier reads back.\<close>

lemma sign_parts:
  assumes laws: "json_inverse J S" "ecdsa_correct J S"
    and sg: "signer_ok J S cert pub sg"
    and sign: "sign J S sg gone method raw_url now rand opts = Inr jws"
    and ascii: "is_ascii method" "\<And>htu. normalize_htu J raw_url = Inr htu \<Longrightarrow> is_ascii htu"
      "is_ascii (po_ath (signed_options J opts))"
  shows "\<exists>q htu b. parts_of J jws q \<and> signed_proof J pub q \<and> normalize_htu J raw_url = Inr htu \<and> rand = Some b
    \<and> pp_payload q = signed_payload method htu now b (signed_options J opts)
    \<and> pp_jwk q = public_jwk J pub \<and> pp_der q = sg_cert_der sg
    \<and> pp_h64 q \<noteq> [] \<and> pp_p64 q \<noteq> [] \<and> pp_s64 q \<noteq> []"
proof -
  obtain htu b hb pb s64 where htu: "normalize_htu J raw_url = Inr htu" "rand = Some b"
    and hb: "sl_header S \<lparr>dh_typ = ''dpop+jwt'', dh_alg = ''ES256'', dh_jwk = Some (sg_jwk sg),
            dh_x5c = [std_encode (sg_cert_der sg)]\<rparr> = Some hb" (is "sl_header S ?h = _")
    and pb: "sl_payload S (signed_payload method htu now b (signed_options J opts)) = Some pb"
      (is "sl_payload S ?p = _")
    and s64: "sign_es256 J S (sg_key sg) (jws_signing_input (url_encode hb) (url_encode pb)) = Inr s64"
    and jws: "jws = url_encode hb @ ''.'' @ url_encode pb @ ''.'' @ s64"
    using sign by (auto simp: sign_Inr)
  obtain sig where sig: "s64 = url_encode sig" "length sig = 64"
      "cr_verify_rs (jl_crypto J) pub (sha_of J (jws_signing_input (url_encode hb) (url_encode pb)))
         (be_nat (take 32 sig)) (be_nat (drop 32 sig))"
    using sign_es256_verifies [OF laws(2) _ s64] sg by (auto simp: signer_ok_def)
  have "ascii_header ?h" using sg
    by (simp add: ascii_header_def signer_ok_def public_jwk_def) (simp add: is_ascii_def byte_val_def)
  then have h: "hb \<noteq> []" "jl_header J hb = Some ?h" using laws(1) hb by (auto simp: json_inverse_def)
  have "ascii_payload ?p" using ascii htu by (simp add: ascii_payload_def signed_payload_def)
  then have p: "pb \<noteq> []" "jl_payload J pb = Some ?p" using laws(1) pb by (auto simp: json_inverse_def)
  have "sig \<noteq> []" using sig(2) by auto
  with jws sig(1) h(1) p(1) have "split_compact_jws jws = Inr (url_encode hb, url_encode pb, url_encode sig)"
    using split_compact_join [of "url_encode hb" "url_encode pb" "url_encode sig"] by simp
  then have split: "split_on CHR ''.'' jws = [url_encode hb, url_encode pb, url_encode sig]"
    by (simp add: split_compact_jws_Inr)
  show ?thesis
    using htu h p sig split sg \<open>sig \<noteq> []\<close>
    by (intro exI [of _ "\<lparr>pp_h64 = url_encode hb, pp_p64 = url_encode pb, pp_s64 = url_encode sig,
          pp_jwk = public_jwk J pub, pp_x5c = std_encode (sg_cert_der sg), pp_der = sg_cert_der sg, pp_sig = sig,
          pp_payload = ?p\<rparr>"] exI [of _ htu] exI [of _ b])
      (simp add: parts_of_def signed_proof_def decode_proof_header_def decode_proof_payload_def signer_ok_def)
qed

text \<open>
  A proof minted for a request is accepted for that request: at any instant within the skew of its
  \<open>iat\<close> at which the certificate is valid, with the token it was bound to, if any.
\<close>

lemma sign_then_verify:
  assumes laws: "json_inverse J S" "ecdsa_correct J S" "coords_fit J"
    and sg: "signer_ok J S cert pub sg"
    and sign: "sign J S sg False method raw_url iat (Some b) opts = Inr jws"
    and ascii: "is_ascii method" "\<And>htu. normalize_htu J raw_url = Inr htu \<Longrightarrow> is_ascii htu"
      "is_ascii (po_ath (signed_options J opts))"
    and digest: "length (po_digest (signed_options J opts)) = 32"
    and ath: "po_ath (signed_options J opts) = expected_ath J cfg"
      "vo_token_presented cfg \<Longrightarrow> po_ath (signed_options J opts) \<noteq> []"
    and same: "normalize_htu J raw_url' = normalize_htu J raw_url"
    and size: "length jws \<le> max_proof_size" "length b = 16"
    and time: "x_not_before cert \<le> now" "now \<le> x_not_after cert" "fresh_iat iat now (effective_skew skew)"
  shows "\<exists>r. verify_proof_unrecorded J False jws method raw_url' now skew cfg = Inr r
    \<and> pr_cert r = cert \<and> pr_key r = pub \<and> pr_digest r = po_digest (signed_options J opts) \<and> pr_jti r = hex_encode b
    \<and> pr_fingerprint r = sha_of J (x_raw cert) \<and> pr_jkt r = jwk_thumbprint J pub"
proof -
  obtain q htu where q: "parts_of J jws q" "signed_proof J pub q" "normalize_htu J raw_url = Inr htu"
    "pp_payload q = signed_payload method htu iat b (signed_options J opts)"
    "pp_jwk q = public_jwk J pub" "pp_der q = sg_cert_der sg" "pp_h64 q \<noteq> []" "pp_p64 q \<noteq> []" "pp_s64 q \<noteq> []"
    using sign_parts [OF laws(1,2) sg sign ascii] by auto
  have b: "b \<noteq> []" using size(2) by auto
  have d: "po_digest (signed_options J opts) \<noteq> []" using digest by auto
  let ?r = "\<lparr>pr_cert = cert, pr_key = pub, pr_fingerprint = sha_of J (x_raw cert),
      pr_jkt = jwk_thumbprint J pub, pr_digest = po_digest (signed_options J opts), pr_jti = hex_encode b, pr_htu = htu,
      pr_issued_at = unix_time iat, pr_replay_exp = unix_time iat + dur_add (effective_skew skew) replay_grace\<rparr>"
  have "hex_encode b \<noteq> []" using size(2) by (cases b) simp_all
  then have "proof_accepted J jws method raw_url' now (effective_skew skew) cfg ?r q"
    using q same sg size b d time digest ath match_own_jwk [OF laws(3)]
    by (simp add: proof_accepted_def signed_payload_def signer_ok_def decode_content_digest_Inr
        check_token_binding_None max_jti_size_def)
  then show ?thesis by (auto simp: verify_proof_unrecorded_Inr)
qed

end
