(* ===== verification/Cose.thy ===== *)
theory Cose
  imports Scitt_Types
begin

text \<open>
  COSE_Sign1: \<open>verify/scitt/cose.go\<close>, and the signature check \<open>verifyECDSA\<close> of
  \<open>status_token.go\<close> that receipts and status tokens share. The CBOR library is the parameter \<open>L\<close>,
  the cryptography the parameter \<open>C\<close>.
\<close>

definition max_cose_input_size :: nat where
  "max_cose_input_size = 1048576"

definition cose_alg_es256 :: int64 where
  "cose_alg_es256 = -7"

definition p1363_signature_len :: nat where
  "p1363_signature_len = 64"

definition hash_len :: nat where
  "hash_len = 32"

record protected_header =
  ph_alg :: int64
  ph_kid :: kid
  ph_vds :: "int64 option"
  ph_content_type :: "string option"
  ph_cwt_iss :: "string option"
  ph_cwt_iat :: "int64 option"

record parsed_cose =
  pc_protected_bytes :: bytes
  pc_protected :: protected_header
  pc_unprotected :: bytes
  pc_payload :: bytes
  pc_signature :: bytes

definition unwrap_tag18 :: "cbor_lib \<Rightarrow> bytes \<Rightarrow> bytes" where
  "unwrap_tag18 L raw =
     (case cb_tag L raw of
        Some (n, content) \<Rightarrow> if n = 18 then content else raw
      | None \<Rightarrow> raw)"

definition parse_cwt_claims :: "cbor_lib \<Rightarrow> bytes \<Rightarrow> string option \<times> int64 option" where
  "parse_cwt_claims L raw =
     (case cb_int_map L raw of
        None \<Rightarrow> (None, None)
      | Some m \<Rightarrow>
          (case m 1 of None \<Rightarrow> None | Some r \<Rightarrow> cb_string L r,
           case m 6 of None \<Rightarrow> None | Some r \<Rightarrow> cb_int64 L r))"

definition decode_alg :: "cbor_lib \<Rightarrow> (int64 \<rightharpoonup> bytes) \<Rightarrow> scitt_error + int64" where
  "decode_alg L m =
     (case m 1 of
        None \<Rightarrow> Inl (ErrCose CoseErrUnsupportedAlgorithm)
      | Some r \<Rightarrow>
          (case cb_int64 L r of
             None \<Rightarrow> Inl (ErrCose CoseErrUnsupportedAlgorithm)
           | Some alg \<Rightarrow> if alg \<noteq> cose_alg_es256 then Inl (ErrCose CoseErrUnsupportedAlgorithm) else Inr alg))"

definition decode_kid :: "cbor_lib \<Rightarrow> (int64 \<rightharpoonup> bytes) \<Rightarrow> scitt_error + kid" where
  "decode_kid L m =
     (case m 4 of
        None \<Rightarrow> Inl (ErrCose CoseErrMissingKid)
      | Some r \<Rightarrow>
          (case cb_bytes L r of
             None \<Rightarrow> Inl (ErrCose CoseErrMissingKid)
           | Some bs \<Rightarrow> if length bs \<noteq> 4 then Inl (ErrCose CoseErrMissingKid) else Inr bs))"

definition parse_protected_header :: "cbor_lib \<Rightarrow> bytes \<Rightarrow> scitt_error + protected_header" where
  "parse_protected_header L bs =
     (case cb_int_map L bs of
        None \<Rightarrow> Inl (ErrCose CoseErrInvalidProtectedHeader)
      | Some m \<Rightarrow>
          rbind (decode_alg L m) (\<lambda>alg.
          rbind (decode_kid L m) (\<lambda>kid.
          let cwt = (case m 15 of None \<Rightarrow> (None, None) | Some r \<Rightarrow> parse_cwt_claims L r) in
          Inr \<lparr>ph_alg = alg, ph_kid = kid,
            ph_vds = (case m 395 of None \<Rightarrow> None | Some r \<Rightarrow> cb_int64 L r),
            ph_content_type = (case m 3 of None \<Rightarrow> None | Some r \<Rightarrow> cb_string L r),
            ph_cwt_iss = fst cwt, ph_cwt_iat = snd cwt\<rparr>)))"

text \<open>The four elements in the order the code decodes them.\<close>

definition parse_cose_elements :: "cbor_lib \<Rightarrow> bytes list \<Rightarrow> scitt_error + parsed_cose" where
  "parse_cose_elements L elements =
     (case elements of
        [e0, e1, e2, e3] \<Rightarrow>
          rbind (from_option (ErrCose CoseErrInvalidProtectedHeader) (cb_bytes L e0)) (\<lambda>pb.
          rbind (parse_protected_header L pb) (\<lambda>header.
          rbind (from_option (ErrCose CoseErrNotACoseSign1) (cb_bytes L e2)) (\<lambda>payload.
          if length payload = 0 then Inl (ErrCose CoseErrNotACoseSign1) else
          rbind (from_option (ErrCose CoseErrInvalidSignatureLength) (cb_bytes L e3)) (\<lambda>sig.
          if length sig \<noteq> p1363_signature_len then Inl (ErrCose CoseErrInvalidSignatureLength) else
          Inr \<lparr>pc_protected_bytes = pb, pc_protected = header, pc_unprotected = e1, pc_payload = payload,
               pc_signature = sig\<rparr>))))
      | _ \<Rightarrow> Inl (ErrCose CoseErrInvalidArrayLength))"

definition parse_cose_sign1 :: "cbor_lib \<Rightarrow> bytes \<Rightarrow> scitt_error + parsed_cose" where
  "parse_cose_sign1 L data =
     (if length data > max_cose_input_size then Inl (ErrCose CoseErrOversizedInput)
      else if \<not> cb_mode L then Inl (ErrCose CoseErrCborDecode)
      else case cb_raw L data of
          None \<Rightarrow> Inl (ErrCose CoseErrCborDecode)
        | Some raw \<Rightarrow>
            (case cb_array L (unwrap_tag18 L raw) of
               None \<Rightarrow> Inl (ErrCose CoseErrNotACoseSign1)
             | Some elements \<Rightarrow> parse_cose_elements L elements))"

definition build_sig_structure :: "cbor_lib \<Rightarrow> bytes \<Rightarrow> bytes \<Rightarrow> bytes option" where
  "build_sig_structure L pb payload = cb_marshal L [CText ''Signature1'', CBytes pb, CBytes [], CBytes payload]"

definition sig_structure_digest :: "cbor_lib \<Rightarrow> 'k crypto \<Rightarrow> bytes \<Rightarrow> bytes \<Rightarrow> bytes option" where
  "sig_structure_digest L C pb payload =
     (case build_sig_structure L pb payload of
        None \<Rightarrow> None | Some bs \<Rightarrow> Some (cr_sha256 C bs))"

text \<open>\<open>verifyECDSA\<close>: the fixed-width signature is split, written as DER and verified.\<close>

definition verify_ecdsa ::
  "cbor_lib \<Rightarrow> 'k crypto \<Rightarrow> 'k \<Rightarrow> bytes \<Rightarrow> bytes \<Rightarrow> bytes \<Rightarrow> kid \<Rightarrow> scitt_error option" where
  "verify_ecdsa L C key pb payload sig kid =
     (case sig_structure_digest L C pb payload of
        None \<Rightarrow> Some (ErrSignature SigErrSignatureInvalid kid)
      | Some digest \<Rightarrow>
          let r = be_nat (take hash_len sig);
              s = be_nat (take (p1363_signature_len - hash_len) (drop hash_len sig))
          in if \<not> cr_verify_asn1 C key digest (der_signature r s)
             then Some (ErrSignature SigErrSignatureInvalid kid) else None)"

section \<open>What a parse establishes\<close>

lemma decode_alg_Inr [simp]: "decode_alg L m = Inr a \<longleftrightarrow> (\<exists>r. m 1 = Some r \<and> cb_int64 L r = Some a \<and> a = cose_alg_es256)"
  by (auto simp: decode_alg_def split: option.splits)

lemma decode_kid_Inr [simp]: "decode_kid L m = Inr k \<longleftrightarrow> (\<exists>r. m 4 = Some r \<and> cb_bytes L r = Some k \<and> length k = 4)"
  by (auto simp: decode_kid_def split: option.splits)

lemma parse_protected_header_Inr [accepts]:
  "parse_protected_header L bs = Inr h \<Longrightarrow> ph_alg h = cose_alg_es256 \<and> length (ph_kid h) = 4"
  by (auto simp: parse_protected_header_def Let_def split: option.splits)

lemma parse_cose_elements_Inr:
  "parse_cose_elements L es = Inr p \<longleftrightarrow>
     (\<exists>e0 e2 e3. es = [e0, pc_unprotected p, e2, e3] \<and> cb_bytes L e0 = Some (pc_protected_bytes p)
        \<and> parse_protected_header L (pc_protected_bytes p) = Inr (pc_protected p)
        \<and> cb_bytes L e2 = Some (pc_payload p) \<and> pc_payload p \<noteq> []
        \<and> cb_bytes L e3 = Some (pc_signature p) \<and> length (pc_signature p) = p1363_signature_len)"
  by (cases p) (auto simp: parse_cose_elements_def split: list.splits)

lemma parse_cose_sign1_Inr:
  "parse_cose_sign1 L data = Inr p \<longleftrightarrow>
     length data \<le> max_cose_input_size \<and> cb_mode L
     \<and> (\<exists>raw es. cb_raw L data = Some raw \<and> cb_array L (unwrap_tag18 L raw) = Some es
          \<and> parse_cose_elements L es = Inr p)"
  by (auto simp: parse_cose_sign1_def split: option.splits)

text \<open>A parsed structure names ES256 and a 4-byte key, and carries a payload and a 64-byte signature.\<close>

definition wf_cose :: "parsed_cose \<Rightarrow> bool" where
  "wf_cose p = (ph_alg (pc_protected p) = cose_alg_es256 \<and> length (ph_kid (pc_protected p)) = 4
     \<and> pc_payload p \<noteq> [] \<and> length (pc_signature p) = p1363_signature_len)"

lemma parse_cose_wf [accepts]: "parse_cose_sign1 L data = Inr p \<Longrightarrow> wf_cose p"
  by (auto simp: parse_cose_sign1_Inr parse_cose_elements_Inr wf_cose_def dest: parse_protected_header_Inr)

lemma parse_cose_tag18:
  assumes "cb_raw L data = Some data" "cb_tag L data = Some (18, inner)"
    and "cb_raw L inner = Some inner" "cb_tag L inner = None"
    and "length data \<le> max_cose_input_size" "length inner \<le> max_cose_input_size"
  shows "parse_cose_sign1 L data = parse_cose_sign1 L inner"
  using assms by (simp add: parse_cose_sign1_def unwrap_tag18_def)

section \<open>Signatures\<close>

definition signed_by :: "cbor_lib \<Rightarrow> 'k crypto \<Rightarrow> 'k \<Rightarrow> parsed_cose \<Rightarrow> bool" where
  "signed_by L C key p =
     (\<exists>bs. cb_marshal L [CText ''Signature1'', CBytes (pc_protected_bytes p), CBytes [], CBytes (pc_payload p)] = Some bs
        \<and> cr_verify_asn1 C key (cr_sha256 C bs)
            (der_signature (be_nat (take 32 (pc_signature p))) (be_nat (take 32 (drop 32 (pc_signature p))))))"

lemma verify_ecdsa_None_iff:
  "verify_ecdsa L C key (pc_protected_bytes p) (pc_payload p) (pc_signature p) kid = None \<longleftrightarrow> signed_by L C key p"
  by (auto simp: verify_ecdsa_def signed_by_def sig_structure_digest_def build_sig_structure_def Let_def
      hash_len_def p1363_signature_len_def split: option.splits)

lemma verify_ecdsa_cases:
  "verify_ecdsa L C key pb payload sig kid = None
   \<or> verify_ecdsa L C key pb payload sig kid = Some (ErrSignature SigErrSignatureInvalid kid)"
  by (auto simp: verify_ecdsa_def Let_def split: option.splits)

lemma verify_ecdsa_eq:
  "verify_ecdsa L C key (pc_protected_bytes p) (pc_payload p) (pc_signature p) kid =
     (if signed_by L C key p then None else Some (ErrSignature SigErrSignatureInvalid kid))"
  using verify_ecdsa_None_iff [of L C key p kid]
    verify_ecdsa_cases [of L C key "pc_protected_bytes p" "pc_payload p" "pc_signature p" kid] by auto

text \<open>
  The signed bytes determine the protected header and the payload when the encoder does: a valid
  signature cannot be moved to another header or payload without another digest.
\<close>

lemma build_sig_structure_inject:
  assumes "inj_on (cb_marshal L) {xs. cb_marshal L xs \<noteq> None}"
    and "build_sig_structure L pb payload = Some bs" "build_sig_structure L pb' payload' = Some bs"
  shows "pb = pb' \<and> payload = payload'"
proof -
  have "[CText ''Signature1'', CBytes pb, CBytes [], CBytes payload]
      = [CText ''Signature1'', CBytes pb', CBytes [], CBytes payload']"
    by (rule inj_onD [OF assms(1)]) (use assms(2,3) in \<open>simp_all add: build_sig_structure_def\<close>)
  then show ?thesis by simp
qed

end
