(* ===== verification/Key_Store.thy ===== *)
theory Key_Store
  imports Scitt_Types Go_Encoding "HOL-Library.AList"
begin

text \<open>
  Trusted root keys: \<open>verify/scitt/root_keys.go\<close> (C2SP key strings, the immutable \<open>KeyStore\<close>,
  merging) and \<open>verify/scitt/refreshable_key_store.go\<close> (the snapshot a refresh replaces). A store is
  an association list from key IDs with distinct keys, so that its size has a meaning. The locale
  \<open>key_lookup\<close> is the Go interface \<open>KeyLookup\<close> with the laws its users rely on; both stores
  provide it.
\<close>

section \<open>C2SP key strings\<close>

definition strip_type_byte :: "bytes \<Rightarrow> bytes" where
  "strip_type_byte raw = (case raw of b # bs \<Rightarrow> if b = CHR 0x02 then bs else raw | [] \<Rightarrow> raw)"

definition check_spki :: "'k crypto \<Rightarrow> string \<Rightarrow> kid \<Rightarrow> bytes \<Rightarrow> scitt_error + 'k trusted_key" where
  "check_spki C name kid spki =
     (case cr_parse_pkix C spki of
        None \<Rightarrow> Inl (ErrSignature SigErrInvalidPublicKey zero_kid)
      | Some PK_NotEC \<Rightarrow> Inl (ErrSignature SigErrInvalidPublicKey zero_kid)
      | Some PK_OtherCurve \<Rightarrow> Inl (ErrSignature SigErrInvalidPublicKey zero_kid)
      | Some (PK_P256 key) \<Rightarrow>
          if take 4 (cr_sha256 C spki) \<noteq> kid then Inl (ErrSignature SigErrKeyHashMismatch kid)
          else Inr \<lparr>tk_name = name, tk_kid = kid, tk_key = key\<rparr>)"

definition parse_c2sp_key :: "'k crypto \<Rightarrow> string \<Rightarrow> scitt_error + 'k trusted_key" where
  "parse_c2sp_key C s =
     (case split_n 3 (CHR ''+'') s of
        [name, hex, b64] \<Rightarrow>
          if name = [] then Inl (ErrSignature SigErrInvalidKeyFormat zero_kid) else
          (case hex_decode hex of
             None \<Rightarrow> Inl (ErrSignature SigErrInvalidKeyFormat zero_kid)
           | Some kid \<Rightarrow>
               if length kid \<noteq> 4 then Inl (ErrSignature SigErrInvalidKeyFormat zero_kid) else
               (case std_decode b64 of
                  None \<Rightarrow> Inl (ErrSignature SigErrInvalidKeyFormat zero_kid)
                | Some raw \<Rightarrow> check_spki C name kid (strip_type_byte raw)))
      | _ \<Rightarrow> Inl (ErrSignature SigErrInvalidKeyFormat zero_kid))"

definition c2sp_string :: "string \<Rightarrow> kid \<Rightarrow> bytes \<Rightarrow> string" where
  "c2sp_string name kid spki = name @ ''+'' @ hex_encode kid @ ''+'' @ std_encode (CHR 0x02 # spki)"

lemma check_spki_Inr:
  "check_spki C name kid spki = Inr tk \<longleftrightarrow>
     (\<exists>key. cr_parse_pkix C spki = Some (PK_P256 key) \<and> take 4 (cr_sha256 C spki) = kid
        \<and> tk = \<lparr>tk_name = name, tk_kid = kid, tk_key = key\<rparr>)"
  by (auto simp: check_spki_def split: option.splits pkix_key.splits)

lemma parse_c2sp_accepts [accepts]:
  "parse_c2sp_key C s = Inr tk \<Longrightarrow>
     tk_name tk \<noteq> [] \<and> length (tk_kid tk) = 4
     \<and> (\<exists>spki. cr_parse_pkix C spki = Some (PK_P256 (tk_key tk)) \<and> tk_kid tk = take 4 (cr_sha256 C spki))"
  by (auto simp: parse_c2sp_key_def check_spki_Inr split: list.splits option.splits if_splits)

section \<open>The key store\<close>

type_synonym 'k key_store = "(kid \<times> 'k trusted_key) list"

fun add_keys :: "'k crypto \<Rightarrow> string list \<Rightarrow> 'k key_store \<Rightarrow> scitt_error + 'k key_store" where
  "add_keys C [] ks = Inr ks"
| "add_keys C (s # ss) ks =
     (case parse_c2sp_key C s of
        Inl e \<Rightarrow> Inl e
      | Inr tk \<Rightarrow>
          if map_of ks (tk_kid tk) \<noteq> None then Inl (ErrSignature SigErrInvalidKeyFormat (tk_kid tk))
          else add_keys C ss (AList.update (tk_kid tk) tk ks))"

definition new_key_store :: "'k crypto \<Rightarrow> string list \<Rightarrow> scitt_error + 'k key_store" where
  "new_key_store C ss = add_keys C ss []"

definition key_store_get :: "'k key_store \<Rightarrow> 'k key_lookup" where
  "key_store_get ks kid =
     (case map_of ks kid of
        None \<Rightarrow> Inl (ErrSignature SigErrUnknownKeyID kid) | Some tk \<Rightarrow> Inr tk)"

definition key_store_len :: "'k key_store \<Rightarrow> nat" where
  "key_store_len ks = length ks"

definition key_store_is_empty :: "'k key_store \<Rightarrow> bool" where
  "key_store_is_empty ks = (length ks = 0)"

record merge_result =
  mr_added :: nat
  mr_skipped :: nat
  mr_unparseable :: nat
  mr_duplicate :: nat
  mr_collisions :: "string list"

definition empty_merge :: merge_result where
  "empty_merge = \<lparr>mr_added = 0, mr_skipped = 0, mr_unparseable = 0, mr_duplicate = 0, mr_collisions = []\<rparr>"

definition count_unparseable :: "merge_result \<Rightarrow> merge_result" where
  "count_unparseable r = r\<lparr>mr_unparseable := mr_unparseable r + 1, mr_skipped := mr_skipped r + 1\<rparr>"

definition count_duplicate :: "'k trusted_key \<Rightarrow> 'k trusted_key \<Rightarrow> merge_result \<Rightarrow> merge_result" where
  "count_duplicate existing tk r =
     (let r = (if tk_name existing \<noteq> tk_name tk
               then r\<lparr>mr_collisions := mr_collisions r @ [hex_encode (tk_kid tk)]\<rparr> else r)
      in r\<lparr>mr_duplicate := mr_duplicate r + 1, mr_skipped := mr_skipped r + 1\<rparr>)"

definition count_added :: "merge_result \<Rightarrow> merge_result" where
  "count_added r = r\<lparr>mr_added := mr_added r + 1\<rparr>"

text \<open>One turn of the loop, and the loop.\<close>

definition merge_one ::
  "'k crypto \<Rightarrow> string \<Rightarrow> 'k key_store \<times> merge_result \<Rightarrow> 'k key_store \<times> merge_result" where
  "merge_one C s st =
     (case parse_c2sp_key C s of
        Inl _ \<Rightarrow> (fst st, count_unparseable (snd st))
      | Inr tk \<Rightarrow>
          (case map_of (fst st) (tk_kid tk) of
             Some existing \<Rightarrow> (fst st, count_duplicate existing tk (snd st))
           | None \<Rightarrow> (AList.update (tk_kid tk) tk (fst st), count_added (snd st))))"

fun merge_keys ::
  "'k crypto \<Rightarrow> string list \<Rightarrow> 'k key_store \<times> merge_result \<Rightarrow> 'k key_store \<times> merge_result" where
  "merge_keys C [] st = st"
| "merge_keys C (s # ss) st = merge_keys C ss (merge_one C s st)"

definition merge_from :: "'k crypto \<Rightarrow> 'k key_store \<Rightarrow> string list \<Rightarrow> 'k key_store \<times> merge_result" where
  "merge_from C ks ss = merge_keys C ss (ks, empty_merge)"

section \<open>The invariant and what merging does\<close>

definition ks_ok :: "'k key_store \<Rightarrow> bool" where
  "ks_ok ks = (distinct (map fst ks) \<and> list_all (\<lambda>(k, tk). tk_kid tk = k \<and> length k = 4) ks)"

lemma ks_ok_add:
  "ks_ok ks \<Longrightarrow> map_of ks (tk_kid tk) = None \<Longrightarrow> length (tk_kid tk) = 4 \<Longrightarrow>
   ks_ok (AList.update (tk_kid tk) tk ks)"
  by (auto simp: ks_ok_def update_fresh map_of_eq_None_iff image_iff)

lemma ks_ok_Nil [simp]: "ks_ok []"
  by (simp add: ks_ok_def)

lemma ks_ok_get: "ks_ok ks \<Longrightarrow> map_of ks k = Some tk \<Longrightarrow> tk_kid tk = k"
  by (auto simp: ks_ok_def list_all_iff dest: map_of_SomeD)

lemma add_keys_ok: "ks_ok ks \<Longrightarrow> add_keys C ss ks = Inr ks' \<Longrightarrow> ks_ok ks'"
  by (induction C ss ks arbitrary: ks' rule: add_keys.induct)
    (auto split: sum.splits if_splits dest: parse_c2sp_accepts intro: ks_ok_add)

lemma new_key_store_ok [accepts]: "new_key_store C ss = Inr ks \<Longrightarrow> ks_ok ks"
  unfolding new_key_store_def by (rule add_keys_ok [OF ks_ok_Nil])

lemma merge_one_cases:
  obtains (unparseable) e where "parse_c2sp_key C s = Inl e"
      "merge_one C s st = (fst st, count_unparseable (snd st))"
    | (duplicate) tk old where "parse_c2sp_key C s = Inr tk" "map_of (fst st) (tk_kid tk) = Some old"
      "merge_one C s st = (fst st, count_duplicate old tk (snd st))"
    | (added) tk where "parse_c2sp_key C s = Inr tk" "map_of (fst st) (tk_kid tk) = None"
      "merge_one C s st = (fst st @ [(tk_kid tk, tk)], count_added (snd st))"
  by (cases "parse_c2sp_key C s"; cases "map_of (fst st) (tk_kid (projr (parse_c2sp_key C s)))")
    (auto simp: merge_one_def update_fresh)

lemma merge_keys_ok: "ks_ok (fst st) \<Longrightarrow> ks_ok (fst (merge_keys C ss st))"
proof (induction ss arbitrary: st)
  case (Cons s ss)
  have "ks_ok (fst (merge_one C s st))"
    by (cases s st rule: merge_one_cases [of C])
      (use Cons.prems in \<open>auto dest: parse_c2sp_accepts ks_ok_add simp: update_fresh\<close>)
  with Cons.IH show ?case by simp
qed simp

text \<open>The keys a list of strings defines: for each key ID the first string that parses to it.\<close>

fun first_key :: "'k crypto \<Rightarrow> string list \<Rightarrow> kid \<Rightarrow> 'k trusted_key option" where
  "first_key C [] k = None"
| "first_key C (s # ss) k =
     (case parse_c2sp_key C s of
        Inl _ \<Rightarrow> first_key C ss k
      | Inr tk \<Rightarrow> if tk_kid tk = k then Some tk else first_key C ss k)"

lemma merge_keys_lookup:
  "map_of (fst (merge_keys C ss st)) k =
     (case map_of (fst st) k of Some tk \<Rightarrow> Some tk | None \<Rightarrow> first_key C ss k)"
proof (induction ss arbitrary: st)
  case (Cons s ss)
  show ?case
    by (cases s st rule: merge_one_cases [of C])
      (use Cons.IH [of "merge_one C s st"] in \<open>auto simp: map_add_def split: option.splits\<close>)
qed (simp split: option.split)

definition merge_balance :: "nat \<Rightarrow> nat \<Rightarrow> nat \<times> merge_result \<Rightarrow> bool" where
  "merge_balance len0 n st = (mr_added (snd st) + mr_skipped (snd st) = n
     \<and> mr_skipped (snd st) = mr_unparseable (snd st) + mr_duplicate (snd st)
     \<and> fst st = len0 + mr_added (snd st))"

lemma merge_one_balance:
  "merge_balance len0 n (length (fst st), snd st) \<Longrightarrow>
   merge_balance len0 (Suc n) (length (fst (merge_one C s st)), snd (merge_one C s st))"
  by (cases s st rule: merge_one_cases [of C])
    (auto simp: merge_balance_def count_unparseable_def count_duplicate_def count_added_def Let_def)

lemma merge_keys_balance:
  "merge_balance len0 n (length (fst st), snd st) \<Longrightarrow>
   merge_balance len0 (n + length ss) (length (fst (merge_keys C ss st)), snd (merge_keys C ss st))"
proof (induction ss arbitrary: st n)
  case (Cons s ss)
  from Cons.IH [OF merge_one_balance [OF Cons.prems]] show ?case by simp
qed simp

lemma split_n_three:
  "c \<notin> set a \<Longrightarrow> c \<notin> set b \<Longrightarrow> split_n 3 c (a @ c # b @ c # d) = [a, b, d]"
  by (simp add: numeral_3_eq_3 split_n_step)

lemma plus_not_hex: "CHR ''+'' \<notin> set (hex_encode bs)"
proof (induction bs)
  case (Cons b bs)
  have "hex_char n \<noteq> CHR ''+''" if "n < 16" for n
  proof
    assume "hex_char n = CHR ''+''"
    then have "hex_val (CHR ''+'') = Some n" using hex_val_hex_char [OF that] by simp
    then show False by (simp add: hex_val_def byte_val_def)
  qed
  from this [of "byte_val b div 16"] this [of "byte_val b mod 16"] Cons show ?case
    by (simp add: div_less_iff_less_mult eq_commute [of _ "CHR ''+''"])
qed simp

text \<open>A printed key is read back, whatever \<open>+\<close> the base64 of the key contains.\<close>

lemma parse_c2sp_string:
  assumes "name \<noteq> []" "CHR ''+'' \<notin> set name" "length kid = 4"
    and "cr_parse_pkix C spki = Some (PK_P256 key)" "take 4 (cr_sha256 C spki) = kid"
  shows "parse_c2sp_key C (c2sp_string name kid spki) = Inr \<lparr>tk_name = name, tk_kid = kid, tk_key = key\<rparr>"
  using assms
  by (simp add: parse_c2sp_key_def c2sp_string_def split_n_three plus_not_hex check_spki_def strip_type_byte_def)

section \<open>The interface \<open>KeyLookup\<close>\<close>

text \<open>
  What the verification code relies on: an answer carries the key ID that was asked for, and the
  only failure is an unknown key.
\<close>

locale key_lookup =
  fixes ok :: "'s \<Rightarrow> bool"
    and get :: "'s \<Rightarrow> 'k key_lookup"
  assumes get_kid: "ok s \<Longrightarrow> get s kid = Inr tk \<Longrightarrow> tk_kid tk = kid"
    and get_error: "ok s \<Longrightarrow> get s kid = Inl e \<Longrightarrow> e = ErrSignature SigErrUnknownKeyID kid"
begin

lemma get_not_transport: "ok s \<Longrightarrow> get s kid \<noteq> Inl (ErrTransport te)"
  using get_error by blast

end

interpretation static_keys: key_lookup ks_ok key_store_get
  by unfold_locales (auto simp: key_store_get_def split: option.splits dest: ks_ok_get)

section \<open>The refreshable store\<close>

text \<open>
  The fields a refresh changes, and whether a client is configured (a nil client is static mode).
  The clock's readings and the outcome of \<open>FetchRootKeys\<close> are arguments.
\<close>

record 'k refreshable =
  rk_has_client :: bool
  rk_cooldown :: int
  rk_snapshot :: "'k key_store"
  rk_last_refreshed :: "int option"

definition default_on_demand_cooldown :: int where
  "default_on_demand_cooldown = 5 * 60 * 1000000000"

definition new_refreshable :: "'k key_store \<Rightarrow> bool \<Rightarrow> 'k refreshable" where
  "new_refreshable ks has_client =
     \<lparr>rk_has_client = has_client, rk_cooldown = default_on_demand_cooldown, rk_snapshot = ks,
      rk_last_refreshed = None\<rparr>"

definition with_cooldown :: "int \<Rightarrow> 'k refreshable \<Rightarrow> 'k refreshable" where
  "with_cooldown d r = r\<lparr>rk_cooldown := d\<rparr>"

definition current_snapshot :: "'k refreshable \<Rightarrow> 'k key_store" where
  "current_snapshot r = rk_snapshot r"

definition rks_get :: "'k refreshable \<Rightarrow> 'k key_lookup" where
  "rks_get r = key_store_get (rk_snapshot r)"

definition rks_len :: "'k refreshable \<Rightarrow> nat" where
  "rks_len r = key_store_len (rk_snapshot r)"

definition rks_is_empty :: "'k refreshable \<Rightarrow> bool" where
  "rks_is_empty r = key_store_is_empty (rk_snapshot r)"

definition last_refreshed :: "'k refreshable \<Rightarrow> int option" where
  "last_refreshed r = rk_last_refreshed r"

definition do_refresh ::
  "'k crypto \<Rightarrow> scitt_error + string list \<Rightarrow> int \<Rightarrow> 'k refreshable \<Rightarrow> 'k refreshable \<times> scitt_error option" where
  "do_refresh C fetched now r =
     (if \<not> rk_has_client r then (r, None)
      else case fetched of
          Inl e \<Rightarrow> (r, Some e)
        | Inr keys \<Rightarrow>
            (r\<lparr>rk_snapshot := fst (merge_from C (rk_snapshot r) keys), rk_last_refreshed := Some now\<rparr>, None))"

definition within_cooldown :: "int \<Rightarrow> 'k refreshable \<Rightarrow> bool" where
  "within_cooldown now r =
     (case rk_last_refreshed r of None \<Rightarrow> False | Some t \<Rightarrow> now - t < rk_cooldown r)"

text \<open>
  \<open>RefreshIfCooldownElapsed\<close>: \<open>r\<close> is the state at the quick check and \<open>r'\<close> the state once the gate is
  acquired, when other goroutines may have refreshed; \<open>now1\<close>, \<open>now2\<close> and \<open>now3\<close> are the readings of
  the two checks and of the refresh.
\<close>

definition refresh_if_cooldown_elapsed ::
  "'k crypto \<Rightarrow> scitt_error + string list \<Rightarrow> int \<Rightarrow> int \<Rightarrow> int \<Rightarrow> 'k refreshable \<Rightarrow> 'k refreshable
     \<Rightarrow> 'k refreshable \<times> (scitt_error + bool)" where
  "refresh_if_cooldown_elapsed C fetched now1 now2 now3 r r' =
     (if \<not> rk_has_client r then (r', Inr False)
      else if within_cooldown now1 r then (r', Inr False)
      else if within_cooldown now2 r' then (r', Inr False)
      else case do_refresh C fetched now3 r' of
          (r'', Some e) \<Rightarrow> (r'', Inl e)
        | (r'', None) \<Rightarrow> (r'', Inr True))"

definition rks_ok :: "'k refreshable \<Rightarrow> bool" where
  "rks_ok r = ks_ok (rk_snapshot r)"

interpretation refreshable_keys: key_lookup rks_ok rks_get
  by unfold_locales (auto simp: rks_ok_def rks_get_def dest: static_keys.get_kid static_keys.get_error)

lemma do_refresh_ok: "rks_ok r \<Longrightarrow> rks_ok (fst (do_refresh C fetched now r))"
  by (auto simp: do_refresh_def rks_ok_def merge_from_def split: sum.split intro: merge_keys_ok)

lemma do_refresh_keeps: "rks_get r k = Inr tk \<Longrightarrow> rks_get (fst (do_refresh C fetched now r)) k = Inr tk"
  by (auto simp: do_refresh_def rks_get_def key_store_get_def merge_from_def merge_keys_lookup
      split: sum.split option.splits)

lemma do_refresh_simps [simp]:
  "rk_has_client (fst (do_refresh C fetched now r)) = rk_has_client r"
  "rk_cooldown (fst (do_refresh C fetched now r)) = rk_cooldown r"
  by (auto simp: do_refresh_def split: sum.split)

text \<open>Any run of refreshes, on demand or in the background, with any outcomes of the fetches.\<close>

inductive rks_run :: "'k crypto \<Rightarrow> 'k refreshable \<Rightarrow> 'k refreshable \<Rightarrow> bool" for C where
  rks_refl: "rks_run C r r"
| rks_step: "rks_run C r r' \<Longrightarrow> rks_run C r (fst (do_refresh C fetched now r'))"

lemma rks_run_trans: "rks_run C b c \<Longrightarrow> rks_run C a b \<Longrightarrow> rks_run C a c"
  by (induction rule: rks_run.induct) (auto intro: rks_run.intros)

lemma rks_run_on_demand:
  "rks_run C r r' \<Longrightarrow> rks_run C r (fst (refresh_if_cooldown_elapsed C fetched n1 n2 n3 r r'))"
  using rks_step [of C r r' fetched n3]
  by (auto simp: refresh_if_cooldown_elapsed_def split: prod.split option.split)

lemma rks_run_ok: "rks_run C r r' \<Longrightarrow> rks_ok r \<Longrightarrow> rks_ok r'"
  by (induction rule: rks_run.induct) (auto intro: do_refresh_ok)

lemma rks_run_pins: "rks_run C r r' \<Longrightarrow> rks_get r k = Inr tk \<Longrightarrow> rks_get r' k = Inr tk"
  by (induction rule: rks_run.induct) (auto intro: do_refresh_keeps)

end
