(* ===== verification/Status_Token.thy ===== *)
theory Status_Token
  imports Cose Key_Store
begin

text \<open>
  Status tokens: \<open>verify/scitt/status_token.go\<close>. Times are Unix seconds at their Go width, so the
  addition of the clock skew to the expiry wraps as it does in the code.
\<close>

definition nanos_per_second :: int where
  "nanos_per_second = 1000000000"

definition max_clock_skew :: int where
  "max_clock_skew = 10 * 60 * nanos_per_second"

definition max_cert_array_len :: nat where
  "max_cert_array_len = 128"

definition zero_hash :: bytes where
  "zero_hash = replicate 32 (CHR 0x00)"

record verified_token =
  vt_payload :: status_payload
  vt_key_id :: kid

section \<open>Decoding the payload\<close>

definition payload_field :: "(cbor_key \<rightharpoonup> bytes) \<Rightarrow> nat \<Rightarrow> string \<Rightarrow> bytes option" where
  "payload_field m k s =
     (case m (KUint (of_nat k)) of
        Some r \<Rightarrow> Some r
      | None \<Rightarrow> (case m (KInt (of_nat k)) of Some r \<Rightarrow> Some r | None \<Rightarrow> m (KStr s)))"

definition decode_string_field :: "cbor_lib \<Rightarrow> bytes \<Rightarrow> string" where
  "decode_string_field L r = (case cb_string L r of Some v \<Rightarrow> v | None \<Rightarrow> [])"

definition decode_int64_field :: "cbor_lib \<Rightarrow> bytes \<Rightarrow> int64" where
  "decode_int64_field L r = (case cb_int64 L r of Some v \<Rightarrow> v | None \<Rightarrow> 0)"

definition parse_hex_fingerprint :: "unicode \<Rightarrow> string \<Rightarrow> bytes option" where
  "parse_hex_fingerprint u s =
     (let hex = (if has_prefix (to_lower u s) ''sha256:'' then drop 7 s else s) in
      case hex_decode hex of
        None \<Rightarrow> None
      | Some d \<Rightarrow> if length d \<noteq> 32 then None else Some d)"

definition decode_fingerprint_field :: "unicode \<Rightarrow> cbor_lib \<Rightarrow> bytes \<Rightarrow> bytes" where
  "decode_fingerprint_field u L r =
     (case cb_bytes L r of
        Some fp \<Rightarrow> if length fp = 32 then fp
                   else (case cb_string L r of
                           Some s \<Rightarrow> (case parse_hex_fingerprint u s of Some p \<Rightarrow> p | None \<Rightarrow> zero_hash)
                         | None \<Rightarrow> zero_hash)
      | None \<Rightarrow> (case cb_string L r of
                   Some s \<Rightarrow> (case parse_hex_fingerprint u s of Some p \<Rightarrow> p | None \<Rightarrow> zero_hash)
                 | None \<Rightarrow> zero_hash))"

text \<open>One item of the array: a non-map, and a zero or undecodable fingerprint, are skipped.\<close>

definition decode_cert_entry :: "unicode \<Rightarrow> cbor_lib \<Rightarrow> bytes \<Rightarrow> cert_entry option" where
  "decode_cert_entry u L item =
     (case cb_any_map L item of
        None \<Rightarrow> None
      | Some m \<Rightarrow>
          let fp = (case payload_field m 1 ''fingerprint'' of
                      Some r \<Rightarrow> decode_fingerprint_field u L r | None \<Rightarrow> zero_hash);
              ct = (case payload_field m 2 ''cert_type'' of
                      Some r \<Rightarrow> decode_string_field L r | None \<Rightarrow> [])
          in if fp \<noteq> zero_hash then Some \<lparr>cert_fp = fp, cert_type = ct\<rparr> else None)"

definition decode_cert_array :: "unicode \<Rightarrow> cbor_lib \<Rightarrow> bytes \<Rightarrow> scitt_error + cert_entry list" where
  "decode_cert_array u L r =
     (case cb_array L r of
        None \<Rightarrow> Inl ErrCertArray
      | Some arr \<Rightarrow>
          if length arr > max_cert_array_len then Inl (ErrToken TokenErrPayloadInvalid [] 0 0)
          else Inr (List.map_filter (decode_cert_entry u L) arr))"

definition optional_certs ::
  "unicode \<Rightarrow> cbor_lib \<Rightarrow> bytes option \<Rightarrow> scitt_error + cert_entry list" where
  "optional_certs u L f = (case f of None \<Rightarrow> Inr [] | Some r \<Rightarrow> decode_cert_array u L r)"

definition decode_payload_fields ::
  "unicode \<Rightarrow> cbor_lib \<Rightarrow> (cbor_key \<rightharpoonup> bytes) \<Rightarrow> scitt_error + status_payload" where
  "decode_payload_fields u L m =
     (let text = (\<lambda>k s. case payload_field m k s of Some r \<Rightarrow> decode_string_field L r | None \<Rightarrow> []);
          num = (\<lambda>k s. case payload_field m k s of Some r \<Rightarrow> decode_int64_field L r | None \<Rightarrow> 0)
      in rbind (optional_certs u L (payload_field m 6 ''valid_identity_certs'')) (\<lambda>identity.
         rbind (optional_certs u L (payload_field m 7 ''valid_server_certs'')) (\<lambda>server.
           Inr \<lparr>sp_agent_id = text 1 ''agent_id'', sp_ans_name = text 5 ''ans_name'',
                sp_status = text 2 ''status'', sp_iat = num 3 ''iat'', sp_exp = num 4 ''exp'',
                sp_identity_certs = identity, sp_server_certs = server,
                sp_metadata_hashes =
                  (case payload_field m 8 ''metadata_hashes'' of
                     None \<Rightarrow> Map.empty
                   | Some r \<Rightarrow> (case cb_str_map L r of None \<Rightarrow> Map.empty | Some v \<Rightarrow> v))\<rparr>)))"

definition decode_status_payload :: "unicode \<Rightarrow> cbor_lib \<Rightarrow> bytes \<Rightarrow> scitt_error + status_payload" where
  "decode_status_payload u L data =
     (if length data = 0 then Inl (ErrToken TokenErrPayloadEmpty [] 0 0)
      else if \<not> cb_mode L then Inl ErrDecMode
      else case cb_any_map L data of
          None \<Rightarrow> Inl (ErrToken TokenErrPayloadEmpty [] 0 0)
        | Some m \<Rightarrow>
            rbind (decode_payload_fields u L m) (\<lambda>p.
              if sp_agent_id p = [] then Inl (ErrToken TokenErrMissingField [] 0 0)
              else if sp_status p = [] then Inl (ErrToken TokenErrMissingField [] 0 0)
              else if sp_exp p = 0 then Inl (ErrToken TokenErrMissingField [] 0 0)
              else if sp_ans_name p = [] then Inl (ErrToken TokenErrMissingField [] 0 0)
              else Inr p))"

section \<open>Verification\<close>

definition clamp_skew :: "int \<Rightarrow> int" where
  "clamp_skew d = (let d = (if d < 0 then 0 else d) in if d > max_clock_skew then max_clock_skew else d)"

definition skew_seconds :: "int \<Rightarrow> int64" where
  "skew_seconds d = word_of_int (clamp_skew d div nanos_per_second)"

definition token_expired :: "int64 \<Rightarrow> int64 \<Rightarrow> int \<Rightarrow> bool" where
  "token_expired now expiry skew = (sint now > sint (expiry + skew_seconds skew))"

text \<open>\<open>verifyIssuerBinding\<close> of \<open>receipt.go\<close>; the token's step 4 is the same check.\<close>

definition issuer_mismatch :: "string option \<Rightarrow> 'k trusted_key \<Rightarrow> bool" where
  "issuer_mismatch iss key = (case iss of None \<Rightarrow> False | Some i \<Rightarrow> i \<noteq> tk_name key)"

definition verify_status_token_at ::
  "unicode \<Rightarrow> cbor_lib \<Rightarrow> 'k crypto \<Rightarrow> 'k key_lookup \<Rightarrow> bytes \<Rightarrow> int \<Rightarrow> int64 \<Rightarrow> scitt_error + verified_token"
where
  "verify_status_token_at u L C keys data clock_skew now =
     (case parse_cose_sign1 L data of
        Inl e \<Rightarrow> Inl e
      | Inr cose \<Rightarrow>
     let kid = ph_kid (pc_protected cose) in
     case keys kid of
        Inl e \<Rightarrow> Inl e
      | Inr tk \<Rightarrow>
     case verify_ecdsa L C (tk_key tk) (pc_protected_bytes cose) (pc_payload cose) (pc_signature cose) kid of
        Some e \<Rightarrow> Inl e
      | None \<Rightarrow>
     if issuer_mismatch (ph_cwt_iss (pc_protected cose)) tk then Inl (ErrSignature SigErrIssuerMismatch kid)
     else case decode_status_payload u L (pc_payload cose) of
        Inl e \<Rightarrow> Inl e
      | Inr payload \<Rightarrow>
     if token_expired now (sp_exp payload) clock_skew
     then Inl (ErrToken TokenErrExpired [] (sp_exp payload) now)
     else if status_is_terminal (sp_status payload)
     then Inl (ErrToken TokenErrTerminalStatus (sp_status payload) 0 0)
     else Inr \<lparr>vt_payload = payload, vt_key_id = kid\<rparr>)"

definition matches_server_cert :: "status_payload \<Rightarrow> bytes \<Rightarrow> bool" where
  "matches_server_cert p fp = list_ex (\<lambda>c. cert_fp c = fp) (sp_server_certs p)"

definition matches_identity_cert :: "status_payload \<Rightarrow> bytes \<Rightarrow> bool" where
  "matches_identity_cert p fp = list_ex (\<lambda>c. cert_fp c = fp) (sp_identity_certs p)"

section \<open>What a verified token is\<close>

definition complete_payload :: "status_payload \<Rightarrow> bool" where
  "complete_payload p = (sp_agent_id p \<noteq> [] \<and> sp_status p \<noteq> [] \<and> sp_exp p \<noteq> 0 \<and> sp_ans_name p \<noteq> [])"

definition certs_ok :: "cert_entry list \<Rightarrow> bool" where
  "certs_ok cs = (length cs \<le> max_cert_array_len
     \<and> list_all (\<lambda>c. length (cert_fp c) = 32 \<and> cert_fp c \<noteq> zero_hash) cs)"

lemma decode_fingerprint_length: "length (decode_fingerprint_field u L r) = 32"
  by (auto simp: decode_fingerprint_field_def zero_hash_def parse_hex_fingerprint_def Let_def
      split: option.splits if_splits)

lemma decode_cert_entry_ok:
  "decode_cert_entry u L item = Some c \<Longrightarrow> length (cert_fp c) = 32 \<and> cert_fp c \<noteq> zero_hash"
  by (auto simp: decode_cert_entry_def Let_def decode_fingerprint_length split: option.splits if_splits)

lemma length_map_filter_le: "length (List.map_filter f xs) \<le> length xs"
  by (induction xs) (auto simp: List.map_filter_simps split: option.split)

lemma set_map_filter_iff: "y \<in> set (List.map_filter f xs) \<longleftrightarrow> (\<exists>x\<in>set xs. f x = Some y)"
  by (force simp: List.map_filter_def)

lemma decode_cert_array_ok: "decode_cert_array u L r = Inr cs \<Longrightarrow> certs_ok cs"
  by (auto simp: decode_cert_array_def certs_ok_def list_all_iff set_map_filter_iff decode_cert_entry_ok
      intro: order_trans [OF length_map_filter_le] split: option.splits if_splits)

lemma optional_certs_ok: "optional_certs u L f = Inr cs \<Longrightarrow> certs_ok cs"
  by (auto simp: optional_certs_def decode_cert_array_ok split: option.splits)
    (simp add: certs_ok_def)

lemma decode_payload_fields_ok:
  "decode_payload_fields u L m = Inr p \<Longrightarrow> certs_ok (sp_identity_certs p) \<and> certs_ok (sp_server_certs p)"
  unfolding decode_payload_fields_def Let_def pipeline_Inr
  by (elim exE conjE) (drule optional_certs_ok, drule optional_certs_ok, simp, erule subst, simp)

lemma decode_status_payload_ok [accepts]:
  "decode_status_payload u L data = Inr p \<Longrightarrow>
     complete_payload p \<and> certs_ok (sp_identity_certs p) \<and> certs_ok (sp_server_certs p)"
  unfolding decode_status_payload_def pipeline_Inr complete_payload_def
  by (auto dest: decode_payload_fields_ok)

lemma verify_status_token_Inr:
  "verify_status_token_at u L C keys data skew now = Inr vt \<longleftrightarrow>
     (\<exists>cose tk. parse_cose_sign1 L data = Inr cose
        \<and> keys (ph_kid (pc_protected cose)) = Inr tk
        \<and> signed_by L C (tk_key tk) cose
        \<and> \<not> issuer_mismatch (ph_cwt_iss (pc_protected cose)) tk
        \<and> decode_status_payload u L (pc_payload cose) = Inr (vt_payload vt)
        \<and> \<not> token_expired now (sp_exp (vt_payload vt)) skew
        \<and> \<not> status_is_terminal (sp_status (vt_payload vt))
        \<and> vt_key_id vt = ph_kid (pc_protected cose))"
proof -
  have vt: "vt = \<lparr>vt_payload = p, vt_key_id = k\<rparr> \<longleftrightarrow> vt_payload vt = p \<and> vt_key_id vt = k" for p k
    by (cases vt) auto
  show ?thesis
    by (auto simp: verify_status_token_at_def Let_def vt eq_commute [of _ vt] verify_ecdsa_eq
        split: sum.splits option.splits if_splits)
qed

lemma clamp_skew_range: "0 \<le> clamp_skew d \<and> clamp_skew d \<le> max_clock_skew"
  by (simp add: clamp_skew_def Let_def max_clock_skew_def nanos_per_second_def)

lemma clamp_skew_idem [simp]: "clamp_skew (clamp_skew d) = clamp_skew d"
  by (simp add: clamp_skew_def Let_def max_clock_skew_def nanos_per_second_def)

lemma skew_seconds_clamp [simp]: "skew_seconds (clamp_skew d) = skew_seconds d"
  by (simp add: skew_seconds_def)

section \<open>Expiry\<close>

lemma skew_seconds_range: "0 \<le> clamp_skew d div nanos_per_second" "clamp_skew d div nanos_per_second \<le> 600"
proof -
  have c: "0 \<le> clamp_skew d" "clamp_skew d \<le> max_clock_skew"
    using clamp_skew_range [of d] by simp_all
  show "0 \<le> clamp_skew d div nanos_per_second" "clamp_skew d div nanos_per_second \<le> 600"
    using c(1) zdiv_mono1 [OF c(2), of nanos_per_second]
    by (simp_all add: max_clock_skew_def nanos_per_second_def pos_imp_zdiv_nonneg_iff)
qed

text \<open>The sum of expiry and skew wraps at the end of \<open>int64\<close>.\<close>

lemma token_expired_iff:
  "token_expired now expiry skew \<longleftrightarrow>
     (let d = sint expiry + clamp_skew skew div nanos_per_second
      in (if d < 2 ^ 63 then d else d - 2 ^ 64) < sint now)"
proof -
  define s where "s = clamp_skew skew div nanos_per_second"
  have s: "0 \<le> s" "s \<le> 600" using skew_seconds_range by (simp_all add: s_def)
  have w: "sint (word_of_int s :: int64) = s"
    using s by (subst sint_sbintrunc') (simp add: signed_take_bit_int_eq_self)
  have r: "- (2 ^ 63) \<le> sint expiry" "sint expiry < 2 ^ 63"
    using sint_range_size [of expiry] by (simp_all add: word_size)
  have wrap: "signed_take_bit 63 x = (if x < 2 ^ 63 then x else x - 2 ^ 64)"
    if "- (2 ^ 63) \<le> x" "x < 2 ^ 63 + 1000" for x :: int
  proof (cases "x < 2 ^ 63")
    case True
    with that(1) show ?thesis by (simp add: signed_take_bit_int_eq_self)
  next
    case False
    then have "(x + 2 ^ 63) mod 2 ^ 64 = x + 2 ^ 63 - 2 ^ 64"
      using that(2) minus_mod_self2 [of "x + 2 ^ 63" "2 ^ 64"] by (simp add: mod_pos_pos_trivial)
    with False show ?thesis by (simp add: signed_take_bit_eq_take_bit_shift take_bit_eq_mod)
  qed
  have "sint (expiry + word_of_int s) = signed_take_bit 63 (sint expiry + s)"
    using sint_word_ariths(1) [of expiry "word_of_int s"] w by simp
  then have "sint (expiry + word_of_int s) = (if sint expiry + s < 2 ^ 63 then sint expiry + s else sint expiry + s - 2 ^ 64)"
    using wrap [of "sint expiry + s"] r s by simp
  then show "token_expired now expiry skew \<longleftrightarrow>
     (let d = sint expiry + clamp_skew skew div nanos_per_second
      in (if d < 2 ^ 63 then d else d - 2 ^ 64) < sint now)"
    by (simp add: token_expired_def skew_seconds_def Let_def s_def)
qed

lemma token_not_expired:
  "sint now < sint expiry \<Longrightarrow> sint expiry + 600 < 2 ^ 63 \<Longrightarrow> \<not> token_expired now expiry skew"
  using skew_seconds_range [of skew] by (simp add: token_expired_iff Let_def)

end
