(* ===== verification/Receipt.thy ===== *)
theory Receipt
  imports Status_Token
begin

text \<open>
  SCITT receipts: \<open>verify/scitt/receipt.go\<close>, and \<open>Checkpoint.Covers\<close> of \<open>checkpoint.go\<close>, which
  binds a receipt's computed root to a signed tree head.
\<close>

record verified_receipt =
  vr_tree_size :: uint64
  vr_leaf_index :: uint64
  vr_root_hash :: bytes
  vr_event_bytes :: bytes
  vr_key_id :: kid
  vr_iss :: "string option"
  vr_iat :: "int64 option"

definition validate_vds :: "int64 option \<Rightarrow> scitt_error option" where
  "validate_vds vds =
     (case vds of
        None \<Rightarrow> Some (ErrCose CoseErrInvalidProtectedHeader)
      | Some v \<Rightarrow> if v \<noteq> 1 then Some (ErrCose CoseErrInvalidProtectedHeader) else None)"

definition verify_issuer_binding :: "string option \<Rightarrow> 'k trusted_key \<Rightarrow> scitt_error option" where
  "verify_issuer_binding iss key =
     (case iss of
        None \<Rightarrow> None
      | Some i \<Rightarrow> if i \<noteq> tk_name key then Some (ErrSignature SigErrIssuerMismatch (tk_kid key)) else None)"

fun decode_hashes :: "cbor_lib \<Rightarrow> bytes list \<Rightarrow> scitt_error + bytes list" where
  "decode_hashes L [] = Inr []"
| "decode_hashes L (r # rs) =
     (case cb_bytes L r of
        None \<Rightarrow> Inl (ErrCose CoseErrInvalidUnprotectedHeader)
      | Some h \<Rightarrow>
          if length h \<noteq> hash_len then Inl (ErrCose CoseErrInvalidUnprotectedHeader)
          else rbind (decode_hashes L rs) (\<lambda>hs. Inr (h # hs)))"

definition vdp_uint :: "cbor_lib \<Rightarrow> (int64 \<rightharpoonup> bytes) \<Rightarrow> int64 \<Rightarrow> scitt_error + uint64" where
  "vdp_uint L m k =
     (case m k of
        None \<Rightarrow> Inl (ErrCose CoseErrInvalidUnprotectedHeader)
      | Some r \<Rightarrow> from_option (ErrCose CoseErrInvalidUnprotectedHeader) (cb_uint64 L r))"

definition extract_vdp :: "cbor_lib \<Rightarrow> bytes \<Rightarrow> scitt_error + (uint64 \<times> uint64 \<times> bytes list)" where
  "extract_vdp L unprotected =
     rbind (from_option (ErrCose CoseErrInvalidUnprotectedHeader) (cb_int_map L unprotected)) (\<lambda>um.
     rbind (from_option (ErrCose CoseErrInvalidUnprotectedHeader) (um 396)) (\<lambda>raw.
     rbind (from_option (ErrCose CoseErrInvalidUnprotectedHeader) (cb_int_map L raw)) (\<lambda>vdp.
     rbind (vdp_uint L vdp (-1)) (\<lambda>tree_size.
     rbind (vdp_uint L vdp (-2)) (\<lambda>leaf_index.
       case vdp (-3) of
         None \<Rightarrow> Inr (tree_size, leaf_index, [])
       | Some path_raw \<Rightarrow>
           rbind (from_option (ErrCose CoseErrInvalidUnprotectedHeader) (cb_array L path_raw)) (\<lambda>raws.
           rbind (decode_hashes L raws) (\<lambda>path. Inr (tree_size, leaf_index, path))))))))"

definition verify_inclusion_proof ::
  "cbor_lib \<Rightarrow> 'k crypto \<Rightarrow> parsed_cose \<Rightarrow> scitt_error + (uint64 \<times> uint64 \<times> bytes)" where
  "verify_inclusion_proof L C parsed =
     (if \<not> cb_mode L then Inl ErrDecMode
      else case extract_vdp L (pc_unprotected parsed) of
          Inl e \<Rightarrow> Inl e
        | Inr (tree_size, leaf_index, path) \<Rightarrow>
            (case walk_inclusion_path (cr_sha256 C) (pc_payload parsed) leaf_index tree_size path of
               Inl e \<Rightarrow> Inl (ErrMerkle e)
             | Inr root \<Rightarrow> Inr (tree_size, leaf_index, root)))"

definition verify_receipt ::
  "cbor_lib \<Rightarrow> 'k crypto \<Rightarrow> 'k key_lookup \<Rightarrow> bytes \<Rightarrow> scitt_error + verified_receipt" where
  "verify_receipt L C keys data =
     (case parse_cose_sign1 L data of
        Inl e \<Rightarrow> Inl e
      | Inr parsed \<Rightarrow>
     case validate_vds (ph_vds (pc_protected parsed)) of
        Some e \<Rightarrow> Inl e
      | None \<Rightarrow>
     case keys (ph_kid (pc_protected parsed)) of
        Inl e \<Rightarrow> Inl e
      | Inr tk \<Rightarrow>
     case verify_ecdsa L C (tk_key tk) (pc_protected_bytes parsed) (pc_payload parsed) (pc_signature parsed)
            (ph_kid (pc_protected parsed)) of
        Some e \<Rightarrow> Inl e
      | None \<Rightarrow>
     case verify_issuer_binding (ph_cwt_iss (pc_protected parsed)) tk of
        Some e \<Rightarrow> Inl e
      | None \<Rightarrow>
     case verify_inclusion_proof L C parsed of
        Inl e \<Rightarrow> Inl e
      | Inr (tree_size, leaf_index, root) \<Rightarrow>
          Inr \<lparr>vr_tree_size = tree_size, vr_leaf_index = leaf_index, vr_root_hash = root,
               vr_event_bytes = pc_payload parsed, vr_key_id = ph_kid (pc_protected parsed),
               vr_iss = ph_cwt_iss (pc_protected parsed), vr_iat = ph_cwt_iat (pc_protected parsed)\<rparr>)"

section \<open>Checkpoints as tree heads\<close>

record checkpoint =
  cp_origin :: string
  cp_size :: uint64
  cp_root_hash :: bytes
  cp_key_id :: kid

definition covers :: "checkpoint \<Rightarrow> verified_receipt \<Rightarrow> scitt_error option" where
  "covers c r =
     (if vr_tree_size r \<noteq> cp_size c then Some (ErrCheckpoint CheckpointErrSizeMismatch)
      else if vr_root_hash r \<noteq> cp_root_hash c then Some (ErrCheckpoint CheckpointErrRootMismatch)
      else None)"

lemma covers_None_iff [simp]:
  "covers c r = None \<longleftrightarrow> vr_tree_size r = cp_size c \<and> vr_root_hash r = cp_root_hash c"
  by (simp add: covers_def)

section \<open>What a verified receipt is\<close>

lemma decode_hashes_length: "decode_hashes L rs = Inr hs \<Longrightarrow> list_all (\<lambda>h. length h = 32) hs \<and> length hs = length rs"
  by (induction rs arbitrary: hs) (auto simp: hash_len_def split: option.splits if_splits)

lemma extract_vdp_hashes: "extract_vdp L un = Inr (n, i, ps) \<Longrightarrow> list_all (\<lambda>h. length h = 32) ps"
  by (auto simp: extract_vdp_def dest: decode_hashes_length split: option.splits)

lemma validate_vds_eq:
  "validate_vds v = (if v = Some 1 then None else Some (ErrCose CoseErrInvalidProtectedHeader))"
  by (auto simp: validate_vds_def split: option.splits)

lemma issuer_binding_eq:
  "verify_issuer_binding iss tk =
     (if issuer_mismatch iss tk then Some (ErrSignature SigErrIssuerMismatch (tk_kid tk)) else None)"
  by (auto simp: verify_issuer_binding_def issuer_mismatch_def split: option.splits)

lemma verify_inclusion_proof_Inr:
  "verify_inclusion_proof L C p = Inr (n, i, root) \<longleftrightarrow>
     cb_mode L \<and> (\<exists>ps. extract_vdp L (pc_unprotected p) = Inr (n, i, ps)
        \<and> walk_inclusion_path (cr_sha256 C) (pc_payload p) i n ps = Inr root)"
  by (auto simp: verify_inclusion_proof_def split: sum.splits)

lemma verify_receipt_Inr:
  "verify_receipt L C keys data = Inr r \<longleftrightarrow>
     (\<exists>cose tk. parse_cose_sign1 L data = Inr cose
        \<and> ph_vds (pc_protected cose) = Some 1
        \<and> keys (ph_kid (pc_protected cose)) = Inr tk
        \<and> signed_by L C (tk_key tk) cose
        \<and> \<not> issuer_mismatch (ph_cwt_iss (pc_protected cose)) tk
        \<and> verify_inclusion_proof L C cose = Inr (vr_tree_size r, vr_leaf_index r, vr_root_hash r)
        \<and> vr_event_bytes r = pc_payload cose \<and> vr_key_id r = ph_kid (pc_protected cose)
        \<and> vr_iss r = ph_cwt_iss (pc_protected cose) \<and> vr_iat r = ph_cwt_iat (pc_protected cose))"
proof -
  have vr: "r = \<lparr>vr_tree_size = n, vr_leaf_index = i, vr_root_hash = h, vr_event_bytes = e, vr_key_id = k,
      vr_iss = iss, vr_iat = iat\<rparr> \<longleftrightarrow> vr_tree_size r = n \<and> vr_leaf_index r = i \<and> vr_root_hash r = h
        \<and> vr_event_bytes r = e \<and> vr_key_id r = k \<and> vr_iss r = iss \<and> vr_iat r = iat" for n i h e k iss iat
    by (cases r) auto
  show ?thesis
    by (auto simp: verify_receipt_def Let_def vr eq_commute [of _ r] verify_ecdsa_eq validate_vds_eq
        issuer_binding_eq split: sum.splits option.splits if_splits)
qed

section \<open>Errors\<close>

text \<open>
  With a lookup that fails only on unknown keys, neither verification ever reports a transport
  error, the only kind that lets the verifiers fall back to a badge.
\<close>

definition is_transport :: "scitt_error \<Rightarrow> bool" where
  "is_transport e = (case e of ErrTransport _ \<Rightarrow> True | _ \<Rightarrow> False)"

lemma is_transport_simps [simp]:
  "\<not> is_transport (ErrCose ce)" "\<not> is_transport (ErrSignature se k)" "\<not> is_transport (ErrMerkle me)"
  "\<not> is_transport (ErrToken tt st a b)" "\<not> is_transport ErrDecMode" "\<not> is_transport ErrCertArray"
  "\<not> is_transport (ErrCheckpoint pe)" "is_transport (ErrTransport te)"
  by (simp_all add: is_transport_def)

definition no_transport :: "scitt_error + 'a \<Rightarrow> bool" where
  "no_transport m = (case m of Inl e \<Rightarrow> \<not> is_transport e | Inr _ \<Rightarrow> True)"

lemma no_transport_simps [simp]:
  "no_transport (Inr x)"
  "no_transport (Inl e) \<longleftrightarrow> \<not> is_transport e"
  by (simp_all add: no_transport_def)

lemma no_transport_rbind [intro!]:
  "no_transport m \<Longrightarrow> (\<And>x. no_transport (f x)) \<Longrightarrow> no_transport (rbind m f)"
  by (cases m) simp_all

lemma no_transport_from_option [simp]: "\<not> is_transport e \<Longrightarrow> no_transport (from_option e m)"
  by (cases m) simp_all

lemma no_transportD: "no_transport m \<Longrightarrow> m = Inl e \<Longrightarrow> \<not> is_transport e"
  by simp

lemma cose_no_transport: "no_transport (parse_cose_sign1 L data)"
  by (auto simp: parse_cose_sign1_def parse_cose_elements_def parse_protected_header_def decode_alg_def
      decode_kid_def Let_def split: option.split list.split)

lemma decode_hashes_no_transport [simp]: "no_transport (decode_hashes L rs)"
  by (induction rs) (auto split: option.split)

lemma extract_vdp_no_transport: "no_transport (extract_vdp L un)"
  by (auto simp: extract_vdp_def vdp_uint_def split: option.split)

lemma inclusion_no_transport: "no_transport (verify_inclusion_proof L C p)"
  using extract_vdp_no_transport [of L "pc_unprotected p"]
  by (auto simp: verify_inclusion_proof_def split: sum.split)

lemma optional_certs_no_transport: "no_transport (optional_certs u L f)"
  by (auto simp: optional_certs_def decode_cert_array_def split: option.split)

lemma payload_fields_no_transport: "no_transport (decode_payload_fields u L m)"
  unfolding decode_payload_fields_def Let_def
  by (intro no_transport_rbind optional_certs_no_transport no_transport_simps(1))

lemma payload_no_transport: "no_transport (decode_status_payload u L d)"
  by (auto simp: decode_status_payload_def payload_fields_no_transport split: option.split)

lemmas no_transport_errors =
  cose_no_transport [THEN no_transportD] inclusion_no_transport [THEN no_transportD]
  payload_no_transport [THEN no_transportD]

context key_lookup
begin

lemma get_no_transport: "ok s \<Longrightarrow> get s kid = Inl e \<Longrightarrow> \<not> is_transport e"
  by (auto dest: get_error)

lemma receipt_no_transport: "ok s \<Longrightarrow> no_transport (verify_receipt L C (get s) data)"
  by (simp add: verify_receipt_def verify_ecdsa_eq validate_vds_eq issuer_binding_eq split: sum.split)
    (blast dest: no_transport_errors get_no_transport)

lemma token_no_transport: "ok s \<Longrightarrow> no_transport (verify_status_token_at u L C (get s) data skew now)"
  by (simp add: verify_status_token_at_def verify_ecdsa_eq Let_def split: sum.split)
    (blast dest: no_transport_errors get_no_transport)

text \<open>The key that verified is the one the structure names.\<close>

lemma receipt_key:
  "ok s \<Longrightarrow> verify_receipt L C (get s) data = Inr r \<Longrightarrow>
     \<exists>tk cose. get s (vr_key_id r) = Inr tk \<and> tk_kid tk = vr_key_id r
       \<and> parse_cose_sign1 L data = Inr cose \<and> signed_by L C (tk_key tk) cose
       \<and> vr_event_bytes r = pc_payload cose"
  by (auto simp: verify_receipt_Inr dest: get_kid)

end

end
