(* ===== verification/Headers.thy ===== *)
theory Headers
  imports Scitt_Types Go_Encoding
begin

text \<open>
  SCITT artifacts as HTTP headers: \<open>verify/scitt/headers.go\<close>, \<open>outgoing.go\<close> and the
  \<open>OutgoingHeaders\<close> of \<open>supplier.go\<close>. An \<open>http.Header\<close> is a map from canonical names to lists of
  values, as \<open>net/http\<close> keeps it.
\<close>

type_synonym http_header = "string \<rightharpoonup> string list"

definition to_upper_char :: "char \<Rightarrow> char" where
  "to_upper_char c = (if 97 \<le> byte_val c \<and> byte_val c \<le> 122 then char_of (byte_val c - 32) else c)"

text \<open>\<open>textproto.CanonicalMIMEHeaderKey\<close> of a name made of token characters.\<close>

fun canonical_from :: "bool \<Rightarrow> string \<Rightarrow> string" where
  "canonical_from up [] = []"
| "canonical_from up (c # cs) =
     (if up then to_upper_char c else ascii_lower c) # canonical_from (c = CHR ''-'') cs"

definition canonical_key :: "string \<Rightarrow> string" where
  "canonical_key k = canonical_from True k"

definition header_get :: "http_header \<Rightarrow> string \<Rightarrow> string" where
  "header_get h k = (case h (canonical_key k) of Some (v # _) \<Rightarrow> v | _ \<Rightarrow> [])"

definition header_set :: "http_header \<Rightarrow> string \<Rightarrow> string \<Rightarrow> http_header" where
  "header_set h k v = h(canonical_key k \<mapsto> [v])"

definition header_add :: "http_header \<Rightarrow> string \<Rightarrow> string \<Rightarrow> http_header" where
  "header_add h k v = h(canonical_key k \<mapsto> (case h (canonical_key k) of Some vs \<Rightarrow> vs | None \<Rightarrow> []) @ [v])"

definition header_receipt :: string where
  "header_receipt = ''X-SCITT-Receipt''"

definition header_status_token :: string where
  "header_status_token = ''X-ANS-Status-Token''"

definition max_base64_header_size :: nat where
  "max_base64_header_size = (1048576 + 2) div 3 * 4"

record scitt_headers =
  sh_receipt :: bytes
  sh_status_token :: bytes

definition base64_error :: scitt_error where
  "base64_error = ErrTransport \<lparr>te_type = TransportErrBase64Decode, te_status_code = 0, te_retry_after = 0\<rparr>"

definition decode_header_value :: "string \<Rightarrow> scitt_error + bytes" where
  "decode_header_value encoded =
     (if length encoded > max_base64_header_size then Inl base64_error
      else case std_decode encoded of None \<Rightarrow> Inl base64_error | Some d \<Rightarrow> Inr d)"

definition extract_headers :: "http_header \<Rightarrow> scitt_error + scitt_headers" where
  "extract_headers h =
     (let raw_receipt = header_get h header_receipt;
          raw_token = header_get h header_status_token
      in if raw_receipt = [] \<and> raw_token = [] then Inr \<lparr>sh_receipt = [], sh_status_token = []\<rparr>
         else rbind (if raw_receipt \<noteq> [] then decode_header_value raw_receipt else Inr []) (\<lambda>receipt.
              rbind (if raw_token \<noteq> [] then decode_header_value raw_token else Inr []) (\<lambda>token.
                Inr \<lparr>sh_receipt = receipt, sh_status_token = token\<rparr>)))"

definition headers_is_empty :: "scitt_headers \<Rightarrow> bool" where
  "headers_is_empty s = (length (sh_receipt s) = 0 \<and> length (sh_status_token s) = 0)"

definition headers_has_both :: "scitt_headers \<Rightarrow> bool" where
  "headers_has_both s = (length (sh_receipt s) > 0 \<and> length (sh_status_token s) > 0)"

definition generate_headers :: "bytes \<Rightarrow> bytes \<Rightarrow> http_header" where
  "generate_headers receipt token =
     (let h = (Map.empty :: http_header);
          h = (if length receipt > 0 then header_set h header_receipt (std_encode receipt) else h)
      in if length token > 0 then header_set h header_status_token (std_encode token) else h)"

record outgoing_headers =
  oh_receipt :: string
  oh_token :: string

definition outgoing_is_empty :: "outgoing_headers \<Rightarrow> bool" where
  "outgoing_is_empty h = (oh_receipt h = [] \<and> oh_token h = [])"

definition to_http_headers :: "outgoing_headers \<Rightarrow> unit + http_header" where
  "to_http_headers h =
     rbind (if oh_receipt h \<noteq> [] then from_option () (std_decode (oh_receipt h)) else Inr []) (\<lambda>receipt.
     rbind (if oh_token h \<noteq> [] then from_option () (std_decode (oh_token h)) else Inr []) (\<lambda>token.
       Inr (generate_headers receipt token)))"

definition encode_if_non_empty :: "bytes \<Rightarrow> string" where
  "encode_if_non_empty d = (if length d = 0 then [] else std_encode d)"

section \<open>The round trip\<close>

lemma canonical_receipt: "canonical_key header_receipt = ''X-Scitt-Receipt''"
  by code_simp

lemma canonical_token: "canonical_key header_status_token = ''X-Ans-Status-Token''"
  by code_simp

lemma header_get_generate:
  "header_get (generate_headers r t) header_receipt = encode_if_non_empty r"
  "header_get (generate_headers r t) header_status_token = encode_if_non_empty t"
  by (simp_all add: generate_headers_def header_get_def header_set_def Let_def encode_if_non_empty_def
      canonical_receipt canonical_token)

lemma decode_header_encode:
  "length d \<le> 1048576 \<Longrightarrow> decode_header_value (std_encode d) = Inr d"
proof -
  assume "length d \<le> 1048576"
  then have "(length d + 2) div 3 * 4 \<le> (1048576 + 2) div 3 * 4"
    by (intro mult_le_mono1 div_le_mono) simp
  then show ?thesis by (simp add: decode_header_value_def length_std_encode max_base64_header_size_def)
qed

lemma extract_generate:
  "length r \<le> 1048576 \<Longrightarrow> length t \<le> 1048576 \<Longrightarrow>
   extract_headers (generate_headers r t) = Inr \<lparr>sh_receipt = r, sh_status_token = t\<rparr>"
  by (simp add: extract_headers_def header_get_generate Let_def encode_if_non_empty_def decode_header_encode)

lemma to_http_outgoing:
  "to_http_headers \<lparr>oh_receipt = encode_if_non_empty r, oh_token = encode_if_non_empty t\<rparr>
     = Inr (generate_headers r t)"
  by (simp add: to_http_headers_def encode_if_non_empty_def)

end
