(* ===== verification/Caller.thy ===== *)
theory Caller
  imports Pop_Sign Status_Token Receipt Headers
begin

text \<open>
  Authentication of a caller: \<open>pop/caller.go\<close>. Three proofs are composed - possession (a DPoP proof),
  liveness (a status token) and identity (a receipt) - and bound to one certificate. Logging is left
  out but for the level of a rejection. An option is a function on the configuration.
\<close>

record caller_identity =
  id_ans_name :: string
  id_agent_id :: string
  id_fingerprint :: bytes
  id_jkt :: string

definition fingerprint_hex :: "caller_identity \<Rightarrow> string" where
  "fingerprint_hex c = hex_encode (id_fingerprint c)"

datatype pin_error = Pin_No_Names | Pin_Bad_Name ans_name_error

record caller_config =
  cc_require_receipt :: bool
  cc_allowed :: "string list"
  cc_pin_err :: "pin_error option"
  cc_pop_skew :: int
  cc_status_skew :: int
  cc_verify_opts :: "(verify_opts \<Rightarrow> verify_opts) list"

type_synonym caller_option = "caller_config \<Rightarrow> caller_config"

definition default_caller_config :: caller_config where
  "default_caller_config =
     \<lparr>cc_require_receipt = True, cc_allowed = [], cc_pin_err = None, cc_pop_skew = default_pop_skew,
      cc_status_skew = max_clock_skew, cc_verify_opts = []\<rparr>"

section \<open>Options\<close>

definition canonical_ans_name :: "ans_name \<Rightarrow> string" where
  "canonical_ans_name a = ''ans://'' @ version_string (an_version a) @ ''.'' @ an_host a"

definition add_allowed :: "unicode \<Rightarrow> string \<Rightarrow> caller_option" where
  "add_allowed u name c =
     (case parse_ans_name u name of
        Inl e \<Rightarrow> (if cc_pin_err c = None then c\<lparr>cc_pin_err := Some (Pin_Bad_Name e)\<rparr> else c)
      | Inr a \<Rightarrow> c\<lparr>cc_allowed := List.insert (canonical_ans_name a) (cc_allowed c)\<rparr>)"

definition with_expected_ans_name :: "unicode \<Rightarrow> string \<Rightarrow> caller_option" where
  "with_expected_ans_name u name c = add_allowed u name c"

definition with_allowed_ans_names :: "unicode \<Rightarrow> string list \<Rightarrow> caller_option" where
  "with_allowed_ans_names u names c =
     (let c = (if length names = 0 \<and> cc_pin_err c = None then c\<lparr>cc_pin_err := Some Pin_No_Names\<rparr> else c)
      in foldl (\<lambda>c n. add_allowed u n c) c names)"

definition misconfiguration :: "caller_config \<Rightarrow> proof_error option" where
  "misconfiguration c = (case cc_pin_err c of None \<Rightarrow> None | Some _ \<Rightarrow> Some (new_err ErrMisconfigured))"

definition with_require_receipt :: "bool \<Rightarrow> caller_option" where
  "with_require_receipt r c = c\<lparr>cc_require_receipt := r\<rparr>"

definition with_pop_skew :: "int \<Rightarrow> caller_option" where
  "with_pop_skew d c = (if d > 0 then c\<lparr>cc_pop_skew := d\<rparr> else c)"

definition with_verify_options :: "(verify_opts \<Rightarrow> verify_opts) list \<Rightarrow> caller_option" where
  "with_verify_options vopts c = c\<lparr>cc_verify_opts := cc_verify_opts c @ vopts\<rparr>"

definition resolve_caller_options :: "caller_option list \<Rightarrow> caller_config" where
  "resolve_caller_options opts = foldl (\<lambda>c opt. opt c) default_caller_config opts"

definition check_caller_options :: "caller_option list \<Rightarrow> proof_error option" where
  "check_caller_options opts = misconfiguration (resolve_caller_options opts)"

section \<open>Binding\<close>

record leaf_event =
  le_ans_id :: string
  le_agent_id :: string
  le_ans_name :: string

definition leaf_agent_id :: "leaf_event \<Rightarrow> string" where
  "leaf_agent_id e = (if le_ans_id e \<noteq> [] then le_ans_id e else le_agent_id e)"

text \<open>\<open>cl_leaf\<close> is the JSON decoding of a leaf to the event at \<open>payload.producer.event\<close>.\<close>

record 'k caller_lib =
  cl_jose :: "'k jose_lib"
  cl_cbor :: cbor_lib
  cl_leaf :: "bytes \<Rightarrow> leaf_event option"

abbreviation cl_unicode :: "'k caller_lib \<Rightarrow> unicode" where
  "cl_unicode L \<equiv> jl_unicode (cl_jose L)"

abbreviation cl_crypto :: "'k caller_lib \<Rightarrow> 'k crypto" where
  "cl_crypto L \<equiv> jl_crypto (cl_jose L)"

definition receipt_names_agent ::
  "'k caller_lib \<Rightarrow> verified_receipt \<Rightarrow> status_payload \<Rightarrow> ans_name \<Rightarrow> proof_error option" where
  "receipt_names_agent L rcpt st st_ans =
     (case cl_leaf L (vr_event_bytes rcpt) of
        None \<Rightarrow> Some (new_err ErrReceiptInvalid)
      | Some ev \<Rightarrow>
          if leaf_agent_id ev = [] \<or> le_ans_name ev = [] then Some (new_err ErrReceiptInvalid)
          else if le_ans_id ev \<noteq> [] \<and> le_agent_id ev \<noteq> [] \<and> le_ans_id ev \<noteq> le_agent_id ev
          then Some (new_err ErrReceiptInvalid)
          else (case parse_ans_name (cl_unicode L) (le_ans_name ev) of
              Inl _ \<Rightarrow> Some (new_err ErrReceiptInvalid)
            | Inr leaf_ans \<Rightarrow>
                if leaf_agent_id ev \<noteq> sp_agent_id st then Some (new_err ErrBindingFailed)
                else if canonical_ans_name leaf_ans \<noteq> canonical_ans_name st_ans then Some (new_err ErrBindingFailed)
                else None))"

definition verify_binding ::
  "'k caller_lib \<Rightarrow> 'k proof_result \<Rightarrow> verified_token \<Rightarrow> verified_receipt option \<Rightarrow> caller_config
     \<Rightarrow> proof_error + caller_identity" where
  "verify_binding L pr st rcpt cfg =
     (if \<not> matches_identity_cert (vt_payload st) (pr_fingerprint pr) then Inl (new_err ErrBindingFailed)
      else case cert_ans_name (cl_unicode L) (cert_identity_from_x509 (sha_of (cl_jose L)) (pr_cert pr)) of
          None \<Rightarrow> Inl (new_err ErrBindingFailed)
        | Some cert_ans \<Rightarrow>
            (case parse_ans_name (cl_unicode L) (sp_ans_name (vt_payload st)) of
               Inl _ \<Rightarrow> Inl (new_err ErrBindingFailed)
             | Inr st_ans \<Rightarrow>
                 if canonical_ans_name cert_ans \<noteq> canonical_ans_name st_ans then Inl (new_err ErrBindingFailed)
                 else (case (case rcpt of
                               None \<Rightarrow> None
                             | Some r \<Rightarrow> receipt_names_agent L r (vt_payload st) st_ans) of
                     Some e \<Rightarrow> Inl e
                   | None \<Rightarrow>
                       if length (cc_allowed cfg) > 0 \<and> canonical_ans_name st_ans \<notin> set (cc_allowed cfg)
                       then Inl (new_err ErrExpectedPeerMismatch)
                       else Inr \<lparr>id_ans_name = sp_ans_name (vt_payload st), id_agent_id = sp_agent_id (vt_payload st),
                                 id_fingerprint = pr_fingerprint pr, id_jkt = pr_jkt pr\<rparr>)))"

section \<open>The pipeline\<close>

text \<open>\<open>Time.Unix\<close>: whole seconds, rounded down.\<close>

definition unix_seconds :: "int \<Rightarrow> int64" where
  "unix_seconds now = word_of_int (now div nanos_per_second)"

definition caller_receipt ::
  "'k caller_lib \<Rightarrow> caller_config \<Rightarrow> 'k key_lookup \<Rightarrow> scitt_headers \<Rightarrow> proof_error + verified_receipt option" where
  "caller_receipt L cfg keys h =
     (if cc_require_receipt cfg then
        (case verify_receipt (cl_cbor L) (cl_crypto L) keys (sh_receipt h) of
           Inl _ \<Rightarrow> Inl (new_err ErrReceiptInvalid)
         | Inr r \<Rightarrow> Inr (Some r))
      else Inr None)"

definition caller_preconditions ::
  "caller_config \<Rightarrow> bool \<Rightarrow> string \<Rightarrow> scitt_headers option \<Rightarrow> 'k key_lookup option \<Rightarrow> 's replay_port option
     \<Rightarrow> proof_error option" where
  "caller_preconditions cfg gone jws h keys replay =
     (if gone then Some (new_err ErrClientGone)
      else if keys = None then Some (new_err ErrMisconfigured)
      else if replay = None then Some (new_err ErrMisconfigured)
      else case misconfiguration cfg of Some e \<Rightarrow> Some e | None \<Rightarrow>
        if jws = [] then Some (new_err ErrMissingHeaders)
        else case h of
            None \<Rightarrow> Some (new_err ErrMissingHeaders)
          | Some hs \<Rightarrow>
              if length (sh_status_token hs) = 0 then Some (new_err ErrMissingHeaders)
              else if cc_require_receipt cfg \<and> length (sh_receipt hs) = 0 then Some (new_err ErrMissingHeaders)
              else None)"

definition verify_evidence ::
  "'k caller_lib \<Rightarrow> caller_config \<Rightarrow> bool \<Rightarrow> string \<Rightarrow> scitt_headers \<Rightarrow> string \<Rightarrow> string \<Rightarrow> 'k key_lookup \<Rightarrow> int
     \<Rightarrow> proof_error + ('k proof_result \<times> caller_identity)" where
  "verify_evidence L cfg gone jws h method raw_url keys now =
     rbind (verify_proof_unrecorded (cl_jose L) gone jws method raw_url now (cc_pop_skew cfg)
              (resolve_verify_options (cc_verify_opts cfg))) (\<lambda>pr.
     rbind (map_error (\<lambda>_. new_err ErrStatusInvalid)
              (verify_status_token_at (cl_unicode L) (cl_cbor L) (cl_crypto L) keys (sh_status_token h)
                 (cc_status_skew cfg) (unix_seconds now))) (\<lambda>st.
     rbind (caller_receipt L cfg keys h) (\<lambda>rcpt.
     rbind (verify_binding L pr st rcpt cfg) (\<lambda>ident. Inr (pr, ident)))))"

definition verify_caller_with ::
  "'k caller_lib \<Rightarrow> caller_config \<Rightarrow> bool \<Rightarrow> string \<Rightarrow> scitt_headers option \<Rightarrow> string \<Rightarrow> string \<Rightarrow> 'k key_lookup option
     \<Rightarrow> 's replay_port option \<Rightarrow> int \<Rightarrow> 's \<Rightarrow> (proof_error + caller_identity) \<times> 's" where
  "verify_caller_with L cfg gone jws h method raw_url keys replay now s =
     (case caller_preconditions cfg gone jws h keys replay of
        Some e \<Rightarrow> (Inl e, s)
      | None \<Rightarrow>
          (case verify_evidence L cfg gone jws (the h) method raw_url (the keys) now of
             Inl e \<Rightarrow> (Inl e, s)
           | Inr (pr, ident) \<Rightarrow>
               (case check_content (cl_jose L) pr (vo_content (resolve_verify_options (cc_verify_opts cfg))) of
                  Some e \<Rightarrow> (Inl e, s)
                | None \<Rightarrow>
                    (case commit_replay (cl_jose L) (the replay) pr s of
                       (Some e, s') \<Rightarrow> (Inl e, s')
                     | (None, s') \<Rightarrow> (Inr ident, s')))))"

definition verify_caller ::
  "'k caller_lib \<Rightarrow> bool \<Rightarrow> string \<Rightarrow> scitt_headers option \<Rightarrow> string \<Rightarrow> string \<Rightarrow> 'k key_lookup option
     \<Rightarrow> 's replay_port option \<Rightarrow> caller_option list \<Rightarrow> int \<Rightarrow> 's \<Rightarrow> (proof_error + caller_identity) \<times> 's" where
  "verify_caller L gone jws h method raw_url keys replay opts now s =
     verify_caller_with L (resolve_caller_options opts) gone jws h method raw_url keys replay now s"

section \<open>How a rejection is logged\<close>

datatype go_error = Go_Proof proof_error | Go_Context | Go_Other

datatype log_level = Level_Debug | Level_Info | Level_Error

text \<open>\<open>None\<close> is the category \<open>UNKNOWN\<close>.\<close>

definition error_category :: "go_error \<Rightarrow> pop_error_type option" where
  "error_category e =
     (case e of Go_Proof p \<Rightarrow> Some (pe_type p) | Go_Context \<Rightarrow> Some ErrClientGone | Go_Other \<Rightarrow> None)"

definition rejection_level :: "go_error \<Rightarrow> log_level" where
  "rejection_level e =
     (case error_category e of
        Some ErrClientGone \<Rightarrow> Level_Debug
      | Some ErrReplayCacheFull \<Rightarrow> Level_Error
      | Some ErrMisconfigured \<Rightarrow> Level_Error
      | None \<Rightarrow> Level_Error
      | _ \<Rightarrow> Level_Info)"

section \<open>Canonical names\<close>

lemma canonical_is_uri: "canonical_ans_name a = ans_uri (an_version a) (an_host a)"
  by (simp add: canonical_ans_name_def ans_uri_def)

text \<open>Two canonical names coincide only for the same version of the same host.\<close>

lemma ans_uri_inject: "ans_uri v h = ans_uri v' h' \<longleftrightarrow> v = v' \<and> h = h'"
proof
  assume eq: "ans_uri v h = ans_uri v' h'"
  then have "parse_ans_name u (ans_uri v h) = parse_ans_name u (ans_uri v' h')" for u by simp
  then have "v = v'" by (simp add: parse_ans_uri)
  moreover from this have "h = h'" using eq by (simp add: ans_uri_def)
  ultimately show "v = v' \<and> h = h'" ..
qed simp

lemma canonical_inject:
  "canonical_ans_name a = canonical_ans_name b \<longleftrightarrow> an_version a = an_version b \<and> an_host a = an_host b"
  by (simp add: canonical_is_uri ans_uri_inject)

section \<open>What each step establishes\<close>

lemma misconfiguration_None: "misconfiguration c = None \<longleftrightarrow> cc_pin_err c = None"
  by (simp add: misconfiguration_def split: option.split)

lemma caller_preconditions_None:
  "caller_preconditions cfg gone jws h keys replay = None \<longleftrightarrow>
     \<not> gone \<and> (\<exists>ks. keys = Some ks) \<and> (\<exists>st. replay = Some st) \<and> cc_pin_err cfg = None \<and> jws \<noteq> []
     \<and> (\<exists>hs. h = Some hs \<and> sh_status_token hs \<noteq> [] \<and> (cc_require_receipt cfg \<longrightarrow> sh_receipt hs \<noteq> []))"
  by (auto simp: caller_preconditions_def misconfiguration_def split: option.split)

definition leaf_names :: "'k caller_lib \<Rightarrow> bytes \<Rightarrow> string \<Rightarrow> version \<Rightarrow> string \<Rightarrow> bool" where
  "leaf_names L leaf agent v host \<longleftrightarrow>
     (\<exists>ev a. cl_leaf L leaf = Some ev \<and> leaf_agent_id ev = agent \<and> agent \<noteq> []
        \<and> (le_ans_id ev = [] \<or> le_agent_id ev = [] \<or> le_ans_id ev = le_agent_id ev)
        \<and> parse_ans_name (cl_unicode L) (le_ans_name ev) = Inr a \<and> an_version a = v \<and> an_host a = host)"

lemma parse_ans_name_Nil: "parse_ans_name u [] = Inl AnsEmpty"
  by (simp add: parse_ans_name_def)

lemma receipt_names_agent_None:
  "receipt_names_agent L r st a = None \<longleftrightarrow>
     leaf_names L (vr_event_bytes r) (sp_agent_id st) (an_version a) (an_host a)"
  by (cases "cl_leaf L (vr_event_bytes r)")
    (auto simp: receipt_names_agent_def leaf_names_def canonical_inject parse_ans_name_Nil split: sum.splits)

text \<open>
  One agent: the certificate is among the token's identity certificates, its ANS name is the token's,
  and so is the one in the receipt's leaf.
\<close>

definition bound_to ::
  "'k caller_lib \<Rightarrow> x509_cert \<Rightarrow> bytes \<Rightarrow> status_payload \<Rightarrow> verified_receipt option \<Rightarrow> bool" where
  "bound_to L cert fp st rcpt \<longleftrightarrow>
     fp \<in> cert_fp ` set (sp_identity_certs st)
     \<and> (\<exists>a b. cert_ans_name (cl_unicode L) (cert_identity_from_x509 (sha_of (cl_jose L)) cert) = Some a
         \<and> parse_ans_name (cl_unicode L) (sp_ans_name st) = Inr b
         \<and> an_version a = an_version b \<and> an_host a = an_host b
         \<and> (case rcpt of None \<Rightarrow> True
            | Some r \<Rightarrow> leaf_names L (vr_event_bytes r) (sp_agent_id st) (an_version b) (an_host b)))"

definition pin_allows :: "'k caller_lib \<Rightarrow> caller_config \<Rightarrow> string \<Rightarrow> bool" where
  "pin_allows L cfg name \<longleftrightarrow>
     cc_allowed cfg = [] \<or> (\<exists>b. parse_ans_name (cl_unicode L) name = Inr b \<and> canonical_ans_name b \<in> set (cc_allowed cfg))"

definition identity_of :: "'k proof_result \<Rightarrow> status_payload \<Rightarrow> caller_identity" where
  "identity_of pr st =
     \<lparr>id_ans_name = sp_ans_name st, id_agent_id = sp_agent_id st, id_fingerprint = pr_fingerprint pr, id_jkt = pr_jkt pr\<rparr>"

lemma matches_identity_cert_iff: "matches_identity_cert p fp \<longleftrightarrow> fp \<in> cert_fp ` set (sp_identity_certs p)"
  by (auto simp: matches_identity_cert_def list_ex_iff)

lemma verify_binding_Inr:
  "verify_binding L pr st rcpt cfg = Inr ident \<longleftrightarrow>
     bound_to L (pr_cert pr) (pr_fingerprint pr) (vt_payload st) rcpt \<and> pin_allows L cfg (sp_ans_name (vt_payload st))
     \<and> ident = identity_of pr (vt_payload st)"
  by (cases "cert_ans_name (cl_unicode L) (cert_identity_from_x509 (sha_of (cl_jose L)) (pr_cert pr))")
    (auto simp: verify_binding_def bound_to_def pin_allows_def identity_of_def matches_identity_cert_iff
      canonical_inject receipt_names_agent_None [symmetric] split: sum.splits option.splits)

section \<open>Accepted callers\<close>

definition caller_opts :: "caller_config \<Rightarrow> verify_opts" where
  "caller_opts cfg = resolve_verify_options (cc_verify_opts cfg)"

text \<open>The three proofs, each verified on its own terms, and their binding.\<close>

definition caller_evidence ::
  "'k caller_lib \<Rightarrow> caller_config \<Rightarrow> string \<Rightarrow> scitt_headers \<Rightarrow> string \<Rightarrow> string \<Rightarrow> 'k key_lookup \<Rightarrow> int
     \<Rightarrow> 'k proof_result \<Rightarrow> status_payload \<Rightarrow> verified_receipt option \<Rightarrow> bool" where
  "caller_evidence L cfg jws h method raw_url keys now pr st rcpt \<longleftrightarrow>
     verify_proof_unrecorded (cl_jose L) False jws method raw_url now (cc_pop_skew cfg) (caller_opts cfg) = Inr pr
     \<and> (\<exists>vt. verify_status_token_at (cl_unicode L) (cl_cbor L) (cl_crypto L) keys (sh_status_token h)
           (cc_status_skew cfg) (unix_seconds now) = Inr vt \<and> vt_payload vt = st)
     \<and> (if cc_require_receipt cfg
        then \<exists>r. rcpt = Some r \<and> verify_receipt (cl_cbor L) (cl_crypto L) keys (sh_receipt h) = Inr r
        else rcpt = None)
     \<and> bound_to L (pr_cert pr) (pr_fingerprint pr) st rcpt \<and> pin_allows L cfg (sp_ans_name st)"

lemma caller_receipt_Inr:
  "caller_receipt L cfg keys h = Inr rcpt \<longleftrightarrow>
     (if cc_require_receipt cfg
      then \<exists>r. rcpt = Some r \<and> verify_receipt (cl_cbor L) (cl_crypto L) keys (sh_receipt h) = Inr r
      else rcpt = None)"
  by (auto simp: caller_receipt_def split: sum.splits)

lemma verify_evidence_Inr:
  "verify_evidence L cfg False jws h method raw_url keys now = Inr (pr, ident) \<longleftrightarrow>
     (\<exists>st rcpt. caller_evidence L cfg jws h method raw_url keys now pr st rcpt \<and> ident = identity_of pr st)"
  by (auto simp: verify_evidence_def caller_evidence_def caller_opts_def verify_binding_Inr caller_receipt_Inr)

lemma verify_caller_with_Inr:
  "verify_caller_with L cfg gone jws h method raw_url keys replay now s = (Inr ident, s') \<longleftrightarrow>
     (\<exists>hs ks store pr st rcpt.
        caller_preconditions cfg gone jws h keys replay = None \<and> h = Some hs \<and> keys = Some ks \<and> replay = Some store
        \<and> caller_evidence L cfg jws hs method raw_url ks now pr st rcpt \<and> ident = identity_of pr st
        \<and> check_content (cl_jose L) pr (vo_content (caller_opts cfg)) = None
        \<and> store (replay_key (cl_jose L) pr) (pr_replay_exp pr) s = (Inr False, s'))"
  (is "?v \<longleftrightarrow> ?s")
proof
  assume ?v
  then have pre: "caller_preconditions cfg gone jws h keys replay = None"
    by (auto simp: verify_caller_with_def split: option.splits)
  then obtain hs ks store where some: "h = Some hs" "keys = Some ks" "replay = Some store" "gone = False"
    by (auto simp: caller_preconditions_None)
  with \<open>?v\<close> pre obtain pr where ev: "verify_evidence L cfg False jws hs method raw_url ks now = Inr (pr, ident)"
    "check_content (cl_jose L) pr (vo_content (caller_opts cfg)) = None"
    "commit_replay (cl_jose L) store pr s = (None, s')"
    by (auto simp: verify_caller_with_def caller_opts_def split: option.splits sum.splits prod.splits)
  then show ?s using pre some by (auto simp: verify_evidence_Inr commit_replay_None)
next
  assume ?s
  then obtain hs ks store pr st rcpt where some: "h = Some hs" "keys = Some ks" "replay = Some store"
    and pre: "caller_preconditions cfg gone jws h keys replay = None"
    and ev: "caller_evidence L cfg jws hs method raw_url ks now pr st rcpt" "ident = identity_of pr st"
    and c: "check_content (cl_jose L) pr (vo_content (caller_opts cfg)) = None"
    "store (replay_key (cl_jose L) pr) (pr_replay_exp pr) s = (Inr False, s')" by blast
  have "gone = False" using pre by (simp add: caller_preconditions_None)
  moreover have "verify_evidence L cfg False jws hs method raw_url ks now = Inr (pr, ident)"
    using ev unfolding verify_evidence_Inr by blast
  moreover have "commit_replay (cl_jose L) store pr s = (None, s')" using c(2) by (simp only: commit_replay_None)
  ultimately show ?v using pre some c(1) by (simp add: verify_caller_with_def caller_opts_def)
qed

text \<open>
  The replay cache is touched last: only a request that passes every other check changes it, and then
  the outcome is a success, a replay or a full cache.
\<close>

lemma verify_caller_with_state:
  assumes "verify_caller_with L cfg gone jws h method raw_url keys replay now s = (Inl e, s')"
    "pe_type e \<noteq> ErrReplay" "pe_type e \<noteq> ErrReplayCacheFull"
  shows "s' = s"
  using assms
  by (auto simp: verify_caller_with_def commit_replay_eq new_err_def
      split: option.splits sum.splits prod.splits if_splits replay_error.splits)

lemma verify_caller_with_rejected:
  fixes L :: "'k caller_lib"
  assumes "verify_caller_with L cfg gone jws h method raw_url keys replay now s = (Inl e, s')"
    and "\<not> (\<exists>hs ks (pr :: 'k proof_result) st rcpt. h = Some hs \<and> keys = Some ks
          \<and> caller_evidence L cfg jws hs method raw_url ks now pr st rcpt
          \<and> check_content (cl_jose L) pr (vo_content (caller_opts cfg)) = None)
        \<or> pe_type e \<notin> {ErrReplay, ErrReplayCacheFull}"
  shows "s' = s"
proof (cases "pe_type e \<in> {ErrReplay, ErrReplayCacheFull}")
  case False
  then show ?thesis using verify_caller_with_state [OF assms(1)] by simp
next
  case True
  show ?thesis
  proof (cases "caller_preconditions cfg gone jws h keys replay")
    case None
    then obtain hs ks where hk: "h = Some hs" "keys = Some ks" "\<not> gone" by (auto simp: caller_preconditions_None)
    have "check_content (cl_jose L) pr (vo_content (caller_opts cfg)) \<noteq> None"
      if "verify_evidence L cfg False jws hs method raw_url ks now = Inr (pr, ident)" for pr ident
    proof -
      obtain st rcpt where "caller_evidence L cfg jws hs method raw_url ks now pr st rcpt"
        using \<open>verify_evidence L cfg False jws hs method raw_url ks now = Inr (pr, ident)\<close>
        unfolding verify_evidence_Inr by blast
      with assms(2) True hk(1,2) show ?thesis by auto
    qed
    then show ?thesis
      using assms(1) None hk
      by (auto simp: verify_caller_with_def caller_opts_def split: option.splits sum.splits prod.splits)
  qed (use assms(1) in \<open>simp add: verify_caller_with_def\<close>)
qed

lemma verify_caller_with_replayed:
  assumes c: "replay_ok c" and i: "visits_all iter'"
    and first: "verify_caller_with L cfg g jws h m u keys (Some (check_and_store iter tc)) now c = (Inr ident, c1)"
    and skew: "effective_skew (cc_pop_skew cfg) + replay_grace < 2 ^ 63"
    and later: "memory_replay.before tc' ops" "tc' < now' + replay_grace" "cc_pop_skew cfg' = cc_pop_skew cfg"
  shows "\<exists>e. fst (verify_caller_with L cfg' g' jws h' m' u' keys' (Some (check_and_store iter' tc')) now'
    (memory_replay.run ops c1)) = Inl e"
proof (rule ccontr)
  assume "\<not> ?thesis"
  then obtain ident' c2 where second: "verify_caller_with L cfg' g' jws h' m' u' keys'
      (Some (check_and_store iter' tc')) now' (memory_replay.run ops c1) = (Inr ident', c2)"
    by (cases "verify_caller_with L cfg' g' jws h' m' u' keys' (Some (check_and_store iter' tc')) now'
        (memory_replay.run ops c1)") (auto, metis sum.exhaust)
  obtain pr where 1: "verify_proof_unrecorded (cl_jose L) False jws m u now (cc_pop_skew cfg) (caller_opts cfg) = Inr pr"
    "check_and_store iter tc (replay_key (cl_jose L) pr) (pr_replay_exp pr) c = (Inr False, c1)"
    using first by (auto simp: verify_caller_with_Inr caller_evidence_def)
  obtain pr' where 2: "verify_proof_unrecorded (cl_jose L) False jws m' u' now' (cc_pop_skew cfg) (caller_opts cfg') = Inr pr'"
    "check_and_store iter' tc' (replay_key (cl_jose L) pr') (pr_replay_exp pr') (memory_replay.run ops c1) = (Inr False, c2)"
    using second later(3) by (auto simp: verify_caller_with_Inr caller_evidence_def)
  have "fst (commit_replay (cl_jose L) (check_and_store iter' tc') pr' (memory_replay.run ops c1)) = Some (new_err ErrReplay)"
    by (rule memory_replay_rejects [OF c i 1 skew later(1,2) 2(1)])
  moreover have "commit_replay (cl_jose L) (check_and_store iter' tc') pr' (memory_replay.run ops c1) = (None, c2)"
    using 2(2) by (simp only: commit_replay_None)
  ultimately show False by simp
qed

end
