(* ===== verification/Pop_Http.thy ===== *)
theory Pop_Http
  imports Caller
begin

text \<open>
  HTTP bindings of DPoP authentication: \<open>pop/http.go\<close>. A server-side request has the fields the code
  reads; its body is the bytes it would deliver and whether the stream then breaks. A construction
  panic is a value.
\<close>

section \<open>Requests\<close>

record http_body =
  hb_bytes :: bytes
  hb_broken :: bool

record http_request =
  rq_method :: string
  rq_host :: string
  rq_tls :: bool
  rq_url :: url
  rq_force_query :: bool
  rq_header :: http_header
  rq_body :: http_body
  rq_gone :: bool
  rq_caller :: "caller_identity option"

definition header_values :: "http_header \<Rightarrow> string \<Rightarrow> string list" where
  "header_values h k = (case h (canonical_key k) of Some vs \<Rightarrow> vs | None \<Rightarrow> [])"

text \<open>\<open>URL.RequestURI\<close>.\<close>

definition request_uri :: "http_request \<Rightarrow> string" where
  "request_uri r =
     (let u = rq_url r;
          result = (if url_opaque u = []
                    then (let p = escaped_path u in if p = [] then ''/'' else p)
                    else if has_prefix (url_opaque u) ''//'' then url_scheme u @ '':'' @ url_opaque u
                    else url_opaque u)
      in if rq_force_query r \<or> url_raw_query u \<noteq> [] then result @ ''?'' @ url_raw_query u else result)"

text \<open>\<open>io.ReadAll\<close> over \<open>http.MaxBytesReader\<close>: more than \<open>n\<close> bytes is an error, seen before any other.\<close>

definition read_limited :: "int \<Rightarrow> http_body \<Rightarrow> content_failure + bytes" where
  "read_limited n b =
     (if int (length (hb_bytes b)) > n then Inl Content_Too_Large
      else if hb_broken b then Inl Content_Read_Failed
      else Inr (hb_bytes b))"

section \<open>Access tokens\<close>

definition trim_blank :: "string \<Rightarrow> string" where
  "trim_blank s =
     (let blank = (\<lambda>c. c = CHR '' '' \<or> c = CHR 0x09) in rev (dropWhile blank (rev (dropWhile blank s))))"

definition access_token_from_authorization :: "unicode \<Rightarrow> string \<Rightarrow> string option" where
  "access_token_from_authorization u v =
     (if length v \<le> length ''DPoP'' \<or> \<not> equal_fold u (take (length ''DPoP'') v) ''DPoP'' then None
      else let rest = drop (length ''DPoP'') v in
        if hd rest \<noteq> CHR '' '' \<and> hd rest \<noteq> CHR 0x09 then None
        else let tok = trim_blank rest in if tok = [] then None else Some tok)"

definition caller_from_context :: "http_request \<Rightarrow> caller_identity option" where
  "caller_from_context r = rq_caller r"

definition context_with_caller :: "http_request \<Rightarrow> caller_identity \<Rightarrow> http_request" where
  "context_with_caller r ident = r\<lparr>rq_caller := Some ident\<rparr>"

section \<open>Configuration of the middleware\<close>

datatype mw_panic =
  Panic_Keys | Panic_Replay | Panic_Hosts | Panic_Options proof_error | Panic_Probe | Panic_Authority

record middleware_config =
  mc_external :: "http_request \<Rightarrow> string"
  mc_external_set :: bool
  mc_trusted :: "string list"
  mc_caller_opts :: "caller_option list"
  mc_max_content :: int

type_synonym middleware_option = "middleware_config \<Rightarrow> mw_panic + middleware_config"

definition default_max_content_bytes :: int where
  "default_max_content_bytes = 1048576"

definition trusted_authority_key :: "unicode \<Rightarrow> string \<Rightarrow> string \<Rightarrow> string" where
  "trusted_authority_key u scheme authority =
     (let a = to_lower u (trim_space authority);
          a = (if scheme = ''https'' then trim_suffix a '':443''
               else if scheme = ''http'' then trim_suffix a '':80'' else a)
      in scheme @ ''://'' @ a)"

definition request_scheme :: "http_request \<Rightarrow> string" where
  "request_scheme r = (if rq_tls r then ''https'' else ''http'')"

definition default_request_url :: "http_request \<Rightarrow> string" where
  "default_request_url r = request_scheme r @ ''://'' @ rq_host r @ request_uri r"

definition with_external_url :: "(http_request \<Rightarrow> string) option \<Rightarrow> middleware_option" where
  "with_external_url fn c =
     Inr (case fn of None \<Rightarrow> c | Some f \<Rightarrow> c\<lparr>mc_external := f, mc_external_set := True\<rparr>)"

definition add_trusted :: "unicode \<Rightarrow> string \<Rightarrow> string list \<Rightarrow> string list" where
  "add_trusted u h ts =
     (if trim_space h = [] then ts
      else List.insert (trusted_authority_key u ''http'' h) (List.insert (trusted_authority_key u ''https'' h) ts))"

definition with_trusted_hosts :: "unicode \<Rightarrow> string list \<Rightarrow> middleware_option" where
  "with_trusted_hosts u hosts c =
     (let ts = foldl (\<lambda>ts h. add_trusted u h ts) (mc_trusted c) hosts in
      if length hosts > 0 \<and> length ts = 0 then Inl Panic_Hosts else Inr (c\<lparr>mc_trusted := ts\<rparr>))"

definition with_max_content_bytes :: "int \<Rightarrow> middleware_option" where
  "with_max_content_bytes n c = Inr (if n > 0 then c\<lparr>mc_max_content := n\<rparr> else c)"

definition with_middleware_caller_options :: "caller_option list \<Rightarrow> middleware_option" where
  "with_middleware_caller_options opts c = Inr (c\<lparr>mc_caller_opts := mc_caller_opts c @ opts\<rparr>)"

definition probe_request :: "string \<Rightarrow> http_request" where
  "probe_request path =
     \<lparr>rq_method = ''GET'', rq_host = ''probe.invalid'', rq_tls = False, rq_url = empty_url\<lparr>url_path := path\<rparr>,
      rq_force_query = False, rq_header = Map.empty, rq_body = \<lparr>hb_bytes = [], hb_broken = False\<rparr>,
      rq_gone = False, rq_caller = None\<rparr>"

definition probe_external_url :: "(http_request \<Rightarrow> string) \<Rightarrow> mw_panic option" where
  "probe_external_url f =
     (if f (probe_request ''/pop-probe-a'') = f (probe_request ''/pop-probe-b'') then Some Panic_Probe else None)"

record ('k, 's) middleware =
  mw_cfg :: middleware_config
  mw_keys :: "'k key_lookup"
  mw_replay :: "'s replay_port"

definition default_middleware_config :: middleware_config where
  "default_middleware_config =
     \<lparr>mc_external = default_request_url, mc_external_set = False, mc_trusted = [], mc_caller_opts = [],
      mc_max_content = default_max_content_bytes\<rparr>"

fun apply_middleware_options :: "middleware_option list \<Rightarrow> middleware_config \<Rightarrow> mw_panic + middleware_config" where
  "apply_middleware_options [] c = Inr c"
| "apply_middleware_options (f # fs) c = rbind (f c) (apply_middleware_options fs)"

text \<open>The logger the construction adds to the caller options is not modelled.\<close>

definition new_middleware ::
  "'k key_lookup option \<Rightarrow> 's replay_port option \<Rightarrow> middleware_option list \<Rightarrow> mw_panic + ('k, 's) middleware" where
  "new_middleware keys replay opts =
     (case keys of None \<Rightarrow> Inl Panic_Keys | Some ks \<Rightarrow>
      case replay of None \<Rightarrow> Inl Panic_Replay | Some store \<Rightarrow>
        rbind (apply_middleware_options opts default_middleware_config) (\<lambda>cfg.
          case check_caller_options (mc_caller_opts cfg) of Some e \<Rightarrow> Inl (Panic_Options e) | None \<Rightarrow>
          case (if mc_external_set cfg then probe_external_url (mc_external cfg) else None) of Some p \<Rightarrow> Inl p | None \<Rightarrow>
          if \<not> mc_external_set cfg \<and> length (mc_trusted cfg) = 0 then Inl Panic_Authority
          else Inr \<lparr>mw_cfg = cfg, mw_keys = ks, mw_replay = store\<rparr>))"

section \<open>Requests through the middleware\<close>

definition dpop_header :: string where
  "dpop_header = ''DPoP''"

definition security_headers :: "string list" where
  "security_headers = [dpop_header, ''Authorization'', header_receipt, header_status_token]"

definition check_authority :: "'k caller_lib \<Rightarrow> middleware_config \<Rightarrow> http_request \<Rightarrow> proof_error option" where
  "check_authority L c r =
     (if length (mc_trusted c) = 0 then None
      else let u = cl_unicode L; reject = Some (new_err ErrHTTPBindingMismatch);
               verdict = (\<lambda>scheme host. if trusted_authority_key u scheme host \<notin> set (mc_trusted c) then reject else None)
        in if mc_external_set c then
             (case url_parse (jl_bracket (cl_jose L)) (mc_external c r) of
                None \<Rightarrow> reject
              | Some p \<Rightarrow> verdict (to_lower u (url_scheme p)) (url_host p))
           else verdict (request_scheme r) (rq_host r))"

definition preflight :: "'k caller_lib \<Rightarrow> middleware_config \<Rightarrow> http_request \<Rightarrow> proof_error option" where
  "preflight L c r =
     (if list_ex (\<lambda>h. length (header_values (rq_header r) h) > 1) security_headers
      then Some (new_err ErrMalformedProof)
      else check_authority L c r)"

datatype rejection = Unauthorized | Request_Too_Large

definition request_options :: "'k caller_lib \<Rightarrow> middleware_config \<Rightarrow> http_request \<Rightarrow> caller_option list" where
  "request_options L c r =
     mc_caller_opts c
     @ (case access_token_from_authorization (cl_unicode L) (header_get (rq_header r) ''Authorization'') of
          Some tok \<Rightarrow> [with_verify_options [with_bound_access_token tok]] | None \<Rightarrow> [])
     @ [with_verify_options [with_received_content (read_limited (mc_max_content c) (rq_body r))]]"

definition authenticate ::
  "'k caller_lib \<Rightarrow> ('k, 's) middleware \<Rightarrow> http_request \<Rightarrow> int \<Rightarrow> 's \<Rightarrow> (rejection + caller_identity \<times> bytes) \<times> 's" where
  "authenticate L m r now s =
     (case extract_headers (rq_header r) of
        Inl _ \<Rightarrow> (Inl Unauthorized, s)
      | Inr hdrs \<Rightarrow>
          (case preflight L (mw_cfg m) r of
             Some _ \<Rightarrow> (Inl Unauthorized, s)
           | None \<Rightarrow>
               (case verify_caller L (rq_gone r) (header_get (rq_header r) dpop_header) (Some hdrs) (rq_method r)
                       (mc_external (mw_cfg m) r) (Some (mw_keys m)) (Some (mw_replay m))
                       (request_options L (mw_cfg m) r) now s of
                  (Inl e, s') \<Rightarrow>
                    (Inl (if pe_cause e = Some Content_Too_Large then Request_Too_Large else Unauthorized), s')
                | (Inr ident, s') \<Rightarrow> (Inr (ident, hb_bytes (rq_body r)), s'))))"

text \<open>The wrapped handler runs only on success, on the verified content and with the identity in the context.\<close>

definition serve ::
  "'k caller_lib \<Rightarrow> ('k, 's) middleware \<Rightarrow> (http_request \<Rightarrow> 'r) \<Rightarrow> http_request \<Rightarrow> int \<Rightarrow> 's \<Rightarrow> (rejection + 'r) \<times> 's" where
  "serve L m handler r now s =
     (case authenticate L m r now s of
        (Inl e, s') \<Rightarrow> (Inl e, s')
      | (Inr (ident, content), s') \<Rightarrow>
          (Inr (handler (context_with_caller (r\<lparr>rq_body := \<lparr>hb_bytes = content, hb_broken = False\<rparr>\<rparr>) ident)), s'))"

section \<open>Outbound requests\<close>

text \<open>\<open>oq_url\<close> is the text of the request's URL; a nil body or \<open>http.NoBody\<close> is \<open>None\<close>.\<close>

record out_request =
  oq_method :: string
  oq_url :: string
  oq_header :: http_header
  oq_body :: "http_body option"
  oq_length :: int
  oq_gone :: bool

definition bind_request_content :: "'k jose_lib \<Rightarrow> out_request \<Rightarrow> (proof_error + bytes) \<times> out_request" where
  "bind_request_content J req =
     (case oq_body req of
        None \<Rightarrow> (Inr (sha_of J []), req)
      | Some b \<Rightarrow>
          if hb_broken b
          then (Inl \<lparr>pe_type = ErrContentUnreadable, pe_cause = Some Content_Read_Failed\<rparr>, req)
          else (Inr (sha_of J (hb_bytes b)),
                req\<lparr>oq_body := Some \<lparr>hb_bytes = hb_bytes b, hb_broken = False\<rparr>, oq_length := int (length (hb_bytes b))\<rparr>))"

text \<open>\<open>scitt\<close> lists the caller's SCITT headers in the order Go ranges over them.\<close>

definition add_headers :: "(string \<times> string list) list \<Rightarrow> http_header \<Rightarrow> http_header" where
  "add_headers scitt h = foldl (\<lambda>h (k, vals). foldl (\<lambda>h v. header_add h k v) h vals) h scitt"

definition attach_identity ::
  "'k jose_lib \<Rightarrow> unicode \<Rightarrow> ('s, 'k) sign_lib \<Rightarrow> out_request \<Rightarrow> 's signer option \<Rightarrow> (string \<times> string list) list \<Rightarrow> int64
     \<Rightarrow> bytes option \<Rightarrow> sign_error option \<times> out_request" where
  "attach_identity J u S req signer scitt now rand =
     (case signer of
        None \<Rightarrow> (Some (Sign_Proof (new_err ErrMisconfigured)), req)
      | Some sg \<Rightarrow>
          (case bind_request_content J req of
             (Inl e, req') \<Rightarrow> (Some (Sign_Proof e), req')
           | (Inr digest, req') \<Rightarrow>
               let popts = with_content_digest digest
                     # (case access_token_from_authorization u (header_get (oq_header req') ''Authorization'') of
                          Some tok \<Rightarrow> [with_access_token J tok] | None \<Rightarrow> [])
               in (case sign J S sg (oq_gone req') (oq_method req') (oq_url req') now rand popts of
                     Inl e \<Rightarrow> (Some e, req')
                   | Inr proof \<Rightarrow>
                       (None, req'\<lparr>oq_header := add_headers scitt (header_set (oq_header req') dpop_header proof)\<rparr>))))"

section \<open>Construction\<close>

text \<open>
  A middleware that was constructed has satisfiable caller options and a trusted authority, and its URL
  function, when one is set, depends on the path.
\<close>

definition mw_ok :: "('k, 's) middleware \<Rightarrow> bool" where
  "mw_ok m \<longleftrightarrow>
     cc_pin_err (resolve_caller_options (mc_caller_opts (mw_cfg m))) = None
     \<and> (if mc_external_set (mw_cfg m) then probe_external_url (mc_external (mw_cfg m)) = None
        else mc_trusted (mw_cfg m) \<noteq> [])"

lemma new_middleware_Inr:
  "new_middleware keys replay opts = Inr m \<longleftrightarrow>
     keys = Some (mw_keys m) \<and> replay = Some (mw_replay m)
     \<and> apply_middleware_options opts default_middleware_config = Inr (mw_cfg m) \<and> mw_ok m"
  unfolding new_middleware_def pipeline_Inr mw_ok_def check_caller_options_def misconfiguration_None
  by (cases m) auto

section \<open>The options of one request\<close>

definition request_config :: "'k caller_lib \<Rightarrow> middleware_config \<Rightarrow> http_request \<Rightarrow> caller_config" where
  "request_config L c r = resolve_caller_options (request_options L c r)"

definition presented_token :: "'k caller_lib \<Rightarrow> http_request \<Rightarrow> string option" where
  "presented_token L r = access_token_from_authorization (cl_unicode L) (header_get (rq_header r) ''Authorization'')"

lemma request_config_fields:
  "cc_require_receipt (request_config L c r) = cc_require_receipt (resolve_caller_options (mc_caller_opts c))"
  "cc_allowed (request_config L c r) = cc_allowed (resolve_caller_options (mc_caller_opts c))"
  "cc_pin_err (request_config L c r) = cc_pin_err (resolve_caller_options (mc_caller_opts c))"
  "cc_pop_skew (request_config L c r) = cc_pop_skew (resolve_caller_options (mc_caller_opts c))"
  "cc_status_skew (request_config L c r) = cc_status_skew (resolve_caller_options (mc_caller_opts c))"
  by (simp_all add: request_config_def request_options_def resolve_caller_options_def with_verify_options_def
      split: option.split)

lemma request_opts:
  "caller_opts (request_config L c r) =
     (let base = caller_opts (resolve_caller_options (mc_caller_opts c))
      in (case presented_token L r of Some tok \<Rightarrow> with_bound_access_token tok base | None \<Rightarrow> base)
         \<lparr>vo_content := Some (read_limited (mc_max_content c) (rq_body r))\<rparr>)"
  by (simp add: caller_opts_def resolve_verify_options_def request_config_def request_options_def presented_token_def
      resolve_caller_options_def with_verify_options_def with_received_content_def Let_def split: option.split)

lemma request_ath:
  assumes "cc_verify_opts (resolve_caller_options (mc_caller_opts c)) = []"
  shows "expected_ath (cl_jose L) (caller_opts (request_config L c r)) =
    (case presented_token L r of Some tok \<Rightarrow> access_token_hash (cl_jose L) tok | None \<Rightarrow> [])"
proof -
  have "caller_opts (resolve_caller_options (mc_caller_opts c)) = empty_opts"
    using assms by (simp add: caller_opts_def resolve_verify_options_def)
  then show ?thesis
    by (simp add: request_opts Let_def expected_ath_def with_bound_access_token_def empty_opts_def split: option.split)
qed

lemma verify_caller_request:
  "verify_caller L gone jws h method raw_url keys replay (request_options L c r) now s =
     verify_caller_with L (request_config L c r) gone jws h method raw_url keys replay now s"
  by (simp add: verify_caller_def request_config_def)

section \<open>Authenticated requests\<close>

lemma preflight_None:
  "preflight L c r = None \<longleftrightarrow>
     (\<forall>h\<in>set security_headers. length (header_values (rq_header r) h) \<le> 1) \<and> check_authority L c r = None"
  by (auto simp: preflight_def list_ex_iff linorder_not_less [symmetric] split: if_splits)

text \<open>The authority a request is taken to be for, and whether the allowlist admits it.\<close>

definition authority_trusted :: "'k caller_lib \<Rightarrow> middleware_config \<Rightarrow> http_request \<Rightarrow> bool" where
  "authority_trusted L c r \<longleftrightarrow>
     (if mc_external_set c
      then \<exists>p. url_parse (jl_bracket (cl_jose L)) (mc_external c r) = Some p
        \<and> trusted_authority_key (cl_unicode L) (to_lower (cl_unicode L) (url_scheme p)) (url_host p) \<in> set (mc_trusted c)
      else trusted_authority_key (cl_unicode L) (request_scheme r) (rq_host r) \<in> set (mc_trusted c))"

lemma check_authority_None:
  "check_authority L c r = None \<longleftrightarrow> mc_trusted c = [] \<or> authority_trusted L c r"
  by (auto simp: check_authority_def authority_trusted_def Let_def split: option.splits)

lemma authenticate_Inr:
  "authenticate L m r now s = (Inr (ident, content), s') \<longleftrightarrow>
     (\<exists>hdrs. extract_headers (rq_header r) = Inr hdrs \<and> preflight L (mw_cfg m) r = None
        \<and> content = hb_bytes (rq_body r)
        \<and> verify_caller_with L (request_config L (mw_cfg m) r) (rq_gone r) (header_get (rq_header r) dpop_header)
            (Some hdrs) (rq_method r) (mc_external (mw_cfg m) r) (Some (mw_keys m)) (Some (mw_replay m)) now s
          = (Inr ident, s'))"
  by (auto simp: authenticate_def verify_caller_request split: sum.splits option.splits prod.splits)

lemma serve_Inr:
  "serve L m handler r now s = (Inr x, s') \<longleftrightarrow>
     (\<exists>ident content. authenticate L m r now s = (Inr (ident, content), s')
        \<and> x = handler (context_with_caller (r\<lparr>rq_body := \<lparr>hb_bytes = content, hb_broken = False\<rparr>\<rparr>) ident))"
  by (auto simp: serve_def split: prod.splits sum.splits)

text \<open>What a handler that runs can rely on.\<close>

lemma authenticate_evidence:
  assumes "authenticate L m r now s = (Inr (ident, content), s')"
  shows "\<exists>hdrs pr st rcpt.
    extract_headers (rq_header r) = Inr hdrs \<and> preflight L (mw_cfg m) r = None
    \<and> caller_evidence L (request_config L (mw_cfg m) r) (header_get (rq_header r) dpop_header) hdrs (rq_method r)
        (mc_external (mw_cfg m) r) (mw_keys m) now pr st rcpt
    \<and> ident = identity_of pr st \<and> \<not> rq_gone r
    \<and> read_limited (mc_max_content (mw_cfg m)) (rq_body r) = Inr content \<and> sha_of (cl_jose L) content = pr_digest pr
    \<and> mw_replay m (replay_key (cl_jose L) pr) (pr_replay_exp pr) s = (Inr False, s')"
proof -
  obtain hdrs pr st rcpt where h: "extract_headers (rq_header r) = Inr hdrs" "preflight L (mw_cfg m) r = None"
    and content: "content = hb_bytes (rq_body r)"
    and ev: "caller_evidence L (request_config L (mw_cfg m) r) (header_get (rq_header r) dpop_header) hdrs (rq_method r)
        (mc_external (mw_cfg m) r) (mw_keys m) now pr st rcpt" "ident = identity_of pr st" "\<not> rq_gone r"
    and c: "check_content (cl_jose L) pr (vo_content (caller_opts (request_config L (mw_cfg m) r))) = None"
    and store: "mw_replay m (replay_key (cl_jose L) pr) (pr_replay_exp pr) s = (Inr False, s')"
    using assms by (auto simp: authenticate_Inr verify_caller_with_Inr caller_preconditions_None)
  have vc: "vo_content (caller_opts (request_config L (mw_cfg m) r)) =
      Some (read_limited (mc_max_content (mw_cfg m)) (rq_body r))"
    by (simp add: request_opts Let_def)
  have "read_limited (mc_max_content (mw_cfg m)) (rq_body r) = Inr content \<and> sha_of (cl_jose L) content = pr_digest pr"
    using c content unfolding vc check_content_None by (auto simp: read_limited_def split: if_splits)
  with h ev store show ?thesis by blast
qed

text \<open>
  Everything behind one run of the handler: the accepted proof and its parts, the verified token, the
  bound receipt, and what the handler was given.
\<close>

lemma serve_evidence:
  assumes "serve L m handler r now s = (Inr x, s')"
    and "cfg = resolve_caller_options (mc_caller_opts (mw_cfg m))" "cc_verify_opts cfg = []"
  obtains hdrs pr q vt where
    "extract_headers (rq_header r) = Inr hdrs" "preflight L (mw_cfg m) r = None"
    "proof_accepted (cl_jose L) (header_get (rq_header r) dpop_header) (rq_method r) (mc_external (mw_cfg m) r) now
       (effective_skew (cc_pop_skew cfg)) (caller_opts (request_config L (mw_cfg m) r)) pr q"
    "dp_ath (pp_payload q) = (case presented_token L r of Some tok \<Rightarrow> access_token_hash (cl_jose L) tok | None \<Rightarrow> [])"
    "url_decode (dp_content_digest (pp_payload q)) = Some (sha_of (cl_jose L) (hb_bytes (rq_body r)))"
    "int (length (hb_bytes (rq_body r))) \<le> mc_max_content (mw_cfg m)"
    "verify_status_token_at (cl_unicode L) (cl_cbor L) (cl_crypto L) (mw_keys m) (sh_status_token hdrs)
       (cc_status_skew cfg) (unix_seconds now) = Inr vt"
    "if cc_require_receipt cfg
     then \<exists>rcpt. verify_receipt (cl_cbor L) (cl_crypto L) (mw_keys m) (sh_receipt hdrs) = Inr rcpt
        \<and> bound_to L (pr_cert pr) (sha_of (cl_jose L) (x_raw (pr_cert pr))) (vt_payload vt) (Some rcpt)
     else bound_to L (pr_cert pr) (sha_of (cl_jose L) (x_raw (pr_cert pr))) (vt_payload vt) None"
    "pin_allows L cfg (sp_ans_name (vt_payload vt))"
    "x = handler (r\<lparr>rq_body := \<lparr>hb_bytes = hb_bytes (rq_body r), hb_broken = False\<rparr>,
        rq_caller := Some \<lparr>id_ans_name = sp_ans_name (vt_payload vt), id_agent_id = sp_agent_id (vt_payload vt),
          id_fingerprint = sha_of (cl_jose L) (x_raw (pr_cert pr)), id_jkt = jwk_thumbprint (cl_jose L) (pr_key pr)\<rparr>\<rparr>)"
proof -
  obtain ident content where a: "authenticate L m r now s = (Inr (ident, content), s')"
    and x: "x = handler (context_with_caller (r\<lparr>rq_body := \<lparr>hb_bytes = content, hb_broken = False\<rparr>\<rparr>) ident)"
    using assms(1) by (auto simp: serve_Inr)
  let ?c = "request_config L (mw_cfg m) r"
  obtain hdrs pr st rcpt where h: "extract_headers (rq_header r) = Inr hdrs" "preflight L (mw_cfg m) r = None"
    and ev: "caller_evidence L ?c (header_get (rq_header r) dpop_header) hdrs (rq_method r)
        (mc_external (mw_cfg m) r) (mw_keys m) now pr st rcpt" "ident = identity_of pr st"
    and body: "read_limited (mc_max_content (mw_cfg m)) (rq_body r) = Inr content" "sha_of (cl_jose L) content = pr_digest pr"
    using authenticate_evidence [OF a] by auto
  note cfg = request_config_fields [of L "mw_cfg m" r, folded assms(2)]
  obtain q where q: "proof_accepted (cl_jose L) (header_get (rq_header r) dpop_header) (rq_method r)
      (mc_external (mw_cfg m) r) now (effective_skew (cc_pop_skew cfg)) (caller_opts ?c) pr q"
    using ev(1) cfg by (auto simp: caller_evidence_def verify_proof_unrecorded_Inr)
  obtain vt where vt: "verify_status_token_at (cl_unicode L) (cl_cbor L) (cl_crypto L) (mw_keys m) (sh_status_token hdrs)
      (cc_status_skew cfg) (unix_seconds now) = Inr vt" "vt_payload vt = st"
    using ev(1) cfg by (auto simp: caller_evidence_def)
  have fp: "pr_fingerprint pr = sha_of (cl_jose L) (x_raw (pr_cert pr))" "pr_jkt pr = jwk_thumbprint (cl_jose L) (pr_key pr)"
    using q by (auto simp: proof_accepted_def)
  have content: "content = hb_bytes (rq_body r)" "int (length (hb_bytes (rq_body r))) \<le> mc_max_content (mw_cfg m)"
    using body(1) by (auto simp: read_limited_def split: if_splits)
  show thesis
  proof (rule that [OF h q _ _ content(2) vt(1)])
    show "dp_ath (pp_payload q) = (case presented_token L r of Some tok \<Rightarrow> access_token_hash (cl_jose L) tok | None \<Rightarrow> [])"
      using q request_ath [OF assms(3) [unfolded assms(2)]] by (auto simp: proof_accepted_def check_token_binding_None)
    show "url_decode (dp_content_digest (pp_payload q)) = Some (sha_of (cl_jose L) (hb_bytes (rq_body r)))"
      using q body(2) content(1) by (auto simp: proof_accepted_def decode_content_digest_Inr)
  qed (use ev cfg fp x content(1) vt(2) in
    \<open>auto simp: caller_evidence_def pin_allows_def identity_of_def context_with_caller_def split: if_splits\<close>)
qed

text \<open>A rejected request reaches no handler, and leaves the replay cache alone unless the cache itself refused.\<close>

lemma authenticate_replayed:
  assumes ok: "replay_ok c" and i: "visits_all iter'"
    and m: "mw_replay m = check_and_store iter tc" "mw_replay m' = check_and_store iter' tc'" "mw_cfg m' = mw_cfg m"
    and first: "authenticate L m r now c = (Inr x, c1)"
    and skew: "effective_skew (cc_pop_skew (resolve_caller_options (mc_caller_opts (mw_cfg m)))) + replay_grace < 2 ^ 63"
    and later: "memory_replay.before tc' ops" "tc' < now' + replay_grace"
    and same: "header_get (rq_header r') dpop_header = header_get (rq_header r) dpop_header"
  shows "\<exists>e. fst (authenticate L m' r' now' (memory_replay.run ops c1)) = Inl e"
proof (cases x)
  case (Pair ident content)
  from first obtain hdrs where f: "verify_caller_with L (request_config L (mw_cfg m) r) (rq_gone r)
      (header_get (rq_header r) dpop_header) (Some hdrs) (rq_method r) (mc_external (mw_cfg m) r) (Some (mw_keys m))
      (Some (check_and_store iter tc)) now c = (Inr ident, c1)"
    unfolding Pair authenticate_Inr m(1) by blast
  have "fst (authenticate L m' r' now' (memory_replay.run ops c1)) \<noteq> Inr (ident', content')" for ident' content'
  proof
    assume "fst (authenticate L m' r' now' (memory_replay.run ops c1)) = Inr (ident', content')"
    then obtain c2 where "authenticate L m' r' now' (memory_replay.run ops c1) = (Inr (ident', content'), c2)"
      by (metis prod.collapse)
    then obtain hdrs' where g: "verify_caller_with L (request_config L (mw_cfg m) r') (rq_gone r')
        (header_get (rq_header r) dpop_header) (Some hdrs') (rq_method r') (mc_external (mw_cfg m) r')
        (Some (mw_keys m')) (Some (check_and_store iter' tc')) now' (memory_replay.run ops c1) = (Inr ident', c2)"
      unfolding authenticate_Inr m(2,3) same by blast
    have "\<exists>e. fst (verify_caller_with L (request_config L (mw_cfg m) r') (rq_gone r')
        (header_get (rq_header r) dpop_header) (Some hdrs') (rq_method r') (mc_external (mw_cfg m) r')
        (Some (mw_keys m')) (Some (check_and_store iter' tc')) now' (memory_replay.run ops c1)) = Inl e"
      by (rule verify_caller_with_replayed [OF ok i f _ later]) (use skew in \<open>simp_all add: request_config_fields\<close>)
    with g show False by simp
  qed
  then show ?thesis by (metis old.sum.exhaust surj_pair)
qed

section \<open>From an outbound request to an authenticated caller\<close>

lemma canonical_pop_keys:
  "canonical_key dpop_header = ''Dpop''" "canonical_key ''Authorization'' = ''Authorization''"
  by code_simp+

lemmas canonical_keys = canonical_pop_keys canonical_receipt canonical_token

definition scitt_pairs :: "bytes \<Rightarrow> bytes \<Rightarrow> (string \<times> string list) list" where
  "scitt_pairs receipt token =
     [(header_receipt, [std_encode receipt]), (header_status_token, [std_encode token])]"

text \<open>An outbound request that carries none of the three headers yet.\<close>

definition undecorated :: "http_header \<Rightarrow> bool" where
  "undecorated h \<longleftrightarrow>
     header_values h dpop_header = [] \<and> header_values h header_receipt = []
     \<and> header_values h header_status_token = [] \<and> length (header_values h ''Authorization'') \<le> 1"

lemma add_scitt_pairs:
  "add_headers (scitt_pairs receipt token) h =
     header_add (header_add h header_receipt (std_encode receipt)) header_status_token (std_encode token)"
  by (simp add: add_headers_def scitt_pairs_def)

lemma header_get_values: "header_get h k = (case header_values h k of v # _ \<Rightarrow> v | [] \<Rightarrow> [])"
  by (auto simp: header_get_def header_values_def split: option.split list.split)

lemma header_values_add:
  "header_values (header_add h k v) k' =
     (if canonical_key k = canonical_key k' then header_values h k' @ [v] else header_values h k')"
  "header_values (header_set h k v) k' = (if canonical_key k = canonical_key k' then [v] else header_values h k')"
  by (auto simp: header_values_def header_add_def header_set_def)

lemma decorated_values:
  assumes "undecorated h"
  shows "header_values (add_headers (scitt_pairs receipt token) (header_set h dpop_header jws)) dpop_header = [jws]"
    "header_values (add_headers (scitt_pairs receipt token) (header_set h dpop_header jws)) header_receipt = [std_encode receipt]"
    "header_values (add_headers (scitt_pairs receipt token) (header_set h dpop_header jws)) header_status_token = [std_encode token]"
    "header_values (add_headers (scitt_pairs receipt token) (header_set h dpop_header jws)) ''Authorization''
       = header_values h ''Authorization''"
  using assms by (simp_all add: add_scitt_pairs header_values_add canonical_keys undecorated_def)

lemma extract_decorated:
  assumes "undecorated h" "receipt \<noteq> []" "token \<noteq> []" "length receipt \<le> 1048576" "length token \<le> 1048576"
  shows "extract_headers (add_headers (scitt_pairs receipt token) (header_set h dpop_header jws))
    = Inr \<lparr>sh_receipt = receipt, sh_status_token = token\<rparr>"
  using assms decorated_values(2,3) [OF assms(1)]
  by (simp add: extract_headers_def header_get_values Let_def decode_header_encode)

definition body_of :: "http_body option \<Rightarrow> http_body" where
  "body_of b = (case b of None \<Rightarrow> \<lparr>hb_bytes = [], hb_broken = False\<rparr> | Some x \<Rightarrow> x)"

definition outbound_token :: "unicode \<Rightarrow> out_request \<Rightarrow> string option" where
  "outbound_token u req = access_token_from_authorization u (header_get (oq_header req) ''Authorization'')"

definition outbound_options ::
  "'k jose_lib \<Rightarrow> unicode \<Rightarrow> out_request \<Rightarrow> proof_options" where
  "outbound_options J u req =
     \<lparr>po_ath = (case outbound_token u req of Some tok \<Rightarrow> access_token_hash J tok | None \<Rightarrow> []),
      po_digest = sha_of J (hb_bytes (body_of (oq_body req)))\<rparr>"

lemma bind_request_content_Inr:
  "bind_request_content J req = (Inr d, req') \<Longrightarrow>
     d = sha_of J (hb_bytes (body_of (oq_body req))) \<and> body_of (oq_body req') = body_of (oq_body req)
     \<and> oq_method req' = oq_method req \<and> oq_url req' = oq_url req \<and> oq_header req' = oq_header req
     \<and> oq_gone req' = oq_gone req \<and> \<not> hb_broken (body_of (oq_body req))"
  by (auto simp: bind_request_content_def body_of_def split: option.splits if_splits)

lemma attach_identity_None:
  assumes "attach_identity J u S req (Some sg) scitt iat rand = (None, req')"
  shows "\<exists>jws opts. sign J S sg (oq_gone req) (oq_method req) (oq_url req) iat rand opts = Inr jws
    \<and> signed_options J opts = outbound_options J u req
    \<and> oq_header req' = add_headers scitt (header_set (oq_header req) dpop_header jws)
    \<and> body_of (oq_body req') = body_of (oq_body req) \<and> \<not> hb_broken (body_of (oq_body req))"
proof -
  obtain d req1 where b: "bind_request_content J req = (Inr d, req1)"
    using assms by (cases "bind_request_content J req") (auto simp: attach_identity_def split: sum.splits)
  let ?opts = "with_content_digest d
      # (case access_token_from_authorization u (header_get (oq_header req1) ''Authorization'') of
           Some tok \<Rightarrow> [with_access_token J tok] | None \<Rightarrow> [])"
  from assms b obtain jws where jws: "sign J S sg (oq_gone req1) (oq_method req1) (oq_url req1) iat rand ?opts = Inr jws"
    "req' = req1\<lparr>oq_header := add_headers scitt (header_set (oq_header req1) dpop_header jws)\<rparr>"
    by (auto simp: attach_identity_def Let_def split: sum.splits)
  have "signed_options J ?opts = outbound_options J u req"
    using bind_request_content_Inr [OF b]
    by (simp add: signed_options_def outbound_options_def outbound_token_def with_content_digest_def
        with_access_token_def split: option.split)
  then show ?thesis
    using jws bind_request_content_Inr [OF b]
    by (intro exI [of _ jws] exI [of _ ?opts] conjI) simp_all
qed

lemma is_ascii_Nil: "is_ascii []"
  by (simp add: is_ascii_def)

lemma outbound_ath:
  assumes "sha_fits J"
  shows "is_ascii (po_ath (outbound_options J u req))"
    "length (po_digest (outbound_options J u req)) = 32"
    "outbound_token u req = Some tok \<Longrightarrow> po_ath (outbound_options J u req) \<noteq> []"
proof -
  have "sha_of J b \<noteq> []" for b using assms by (auto simp: sha_fits_def simp del: length_0_conv) (metis length_0_conv zero_neq_numeral)
  then show "is_ascii (po_ath (outbound_options J u req))" "length (po_digest (outbound_options J u req)) = 32"
    "outbound_token u req = Some tok \<Longrightarrow> po_ath (outbound_options J u req) \<noteq> []"
    using assms by (simp_all add: outbound_options_def access_token_hash_def sha_fits_def is_ascii_Nil split: option.split)
qed

text \<open>
  What the wire keeps of a request's headers. \<open>net/http\<close> adds headers of its own (\<open>User-Agent\<close>, \<open>Accept-Encoding\<close>,
  \<open>Content-Length\<close>), so the two header maps are not the same; the values of the names the callee reads are.
\<close>

definition same_evidence :: "http_header \<Rightarrow> http_header \<Rightarrow> bool" where
  "same_evidence h h' \<longleftrightarrow> list_all (\<lambda>k. header_values h k = header_values h' k) security_headers"

lemma same_evidenceD:
  assumes "same_evidence h h'"
  shows "header_values h dpop_header = header_values h' dpop_header"
    "header_values h header_receipt = header_values h' header_receipt"
    "header_values h header_status_token = header_values h' header_status_token"
    "header_values h ''Authorization'' = header_values h' ''Authorization''"
  using assms by (simp_all add: same_evidence_def security_headers_def)

lemma same_evidence_get:
  assumes "same_evidence h h'"
  shows "header_get h dpop_header = header_get h' dpop_header"
    "header_get h ''Authorization'' = header_get h' ''Authorization''"
    "extract_headers h = extract_headers h'"
  using same_evidenceD [OF assms] by (simp_all add: header_get_values extract_headers_def)

text \<open>
  The callee's side of a request that \<open>attach_identity\<close> decorated: same method, evidence and body, a URL
  with the same \<open>htu\<close>, and a middleware that trusts its authority.
\<close>

definition delivered :: "'k caller_lib \<Rightarrow> middleware_config \<Rightarrow> out_request \<Rightarrow> http_request \<Rightarrow> bool" where
  "delivered L c req r \<longleftrightarrow>
     rq_method r = oq_method req \<and> same_evidence (rq_header r) (oq_header req) \<and> rq_body r = body_of (oq_body req)
     \<and> \<not> rq_gone r
     \<and> normalize_htu (cl_jose L) (mc_external c r) = normalize_htu (cl_jose L) (oq_url req)
     \<and> int (length (hb_bytes (rq_body r))) \<le> mc_max_content c \<and> check_authority L c r = None"

lemma delivered_evidence: "delivered L c req r \<Longrightarrow> same_evidence (rq_header r) (oq_header req)"
  by (simp add: delivered_def)

text \<open>What the transparency log says of the caller: a live token and a receipt for the certificate's agent.\<close>

definition log_vouches ::
  "'k caller_lib \<Rightarrow> 'k key_lookup \<Rightarrow> caller_config \<Rightarrow> scitt_headers \<Rightarrow> int \<Rightarrow> x509_cert \<Rightarrow> status_payload \<Rightarrow> bool" where
  "log_vouches L keys cfg h now cert st \<longleftrightarrow>
     (\<exists>vt r. verify_status_token_at (cl_unicode L) (cl_cbor L) (cl_crypto L) keys (sh_status_token h)
           (cc_status_skew cfg) (unix_seconds now) = Inr vt \<and> vt_payload vt = st
        \<and> verify_receipt (cl_cbor L) (cl_crypto L) keys (sh_receipt h) = Inr r
        \<and> bound_to L cert (sha_of (cl_jose L) (x_raw cert)) st (Some r))"

lemma bound_without_receipt: "bound_to L cert fp st (Some r) \<Longrightarrow> bound_to L cert fp st None"
  by (auto simp: bound_to_def)

lemma vouched_evidence:
  assumes "log_vouches L keys cfg h now cert st" "pr_cert pr = cert" "pr_fingerprint pr = sha_of (cl_jose L) (x_raw cert)"
    and "pin_allows L cfg (sp_ans_name st)"
    and "verify_proof_unrecorded (cl_jose L) False jws method raw_url now (cc_pop_skew cfg) (caller_opts cfg) = Inr pr"
  shows "\<exists>rcpt. caller_evidence L cfg jws h method raw_url keys now pr st rcpt"
proof -
  obtain vt r where v: "verify_status_token_at (cl_unicode L) (cl_cbor L) (cl_crypto L) keys (sh_status_token h)
           (cc_status_skew cfg) (unix_seconds now) = Inr vt" "vt_payload vt = st"
      "verify_receipt (cl_cbor L) (cl_crypto L) keys (sh_receipt h) = Inr r"
      "bound_to L cert (sha_of (cl_jose L) (x_raw cert)) st (Some r)"
    using assms(1) by (auto simp: log_vouches_def)
  show ?thesis
    using v assms(2-5) bound_without_receipt [OF v(4)]
    by (intro exI [of _ "if cc_require_receipt cfg then Some r else None"]) (auto simp: caller_evidence_def)
qed

lemma attach_then_authenticate_lemma:
  fixes L :: "'k caller_lib" and S :: "('s, 'k) sign_lib" and m :: "('k, 'r) middleware"
  defines "J \<equiv> cl_jose L" and "u \<equiv> cl_unicode L"
  assumes laws: "json_inverse J S" "ecdsa_correct J S" "coords_fit J" "sha_fits J"
    and sg: "signer_ok J S cert pub sg"
    and out: "undecorated (oq_header req)" "is_ascii (oq_method req)"
      "\<And>htu. normalize_htu J (oq_url req) = Inr htu \<Longrightarrow> is_ascii htu" "\<not> oq_gone req"
    and art: "receipt \<noteq> []" "token \<noteq> []" "length receipt \<le> 1048576" "length token \<le> 1048576"
    and attach: "attach_identity J u S req (Some sg) (scitt_pairs receipt token) iat (Some b) = (None, req')" "length b = 16"
    and size: "length (header_get (oq_header req') dpop_header) \<le> max_proof_size"
    and r: "delivered L (mw_cfg m) req' r"
    and cfg: "mw_ok m" "cfg = resolve_caller_options (mc_caller_opts (mw_cfg m))" "cc_verify_opts cfg = []"
    and time: "x_not_before cert \<le> now" "now \<le> x_not_after cert" "fresh_iat iat now (effective_skew (cc_pop_skew cfg))"
    and log: "log_vouches L (mw_keys m) cfg \<lparr>sh_receipt = receipt, sh_status_token = token\<rparr> now cert st"
      "pin_allows L cfg (sp_ans_name st)"
    and fresh: "\<And>e. fst (mw_replay m (url_encode (sha_of J (hex_encode b))) e s) = Inr False"
  shows "\<exists>s'. authenticate L m r now s =
    (Inr (\<lparr>id_ans_name = sp_ans_name st, id_agent_id = sp_agent_id st, id_fingerprint = sha_of J (x_raw cert),
           id_jkt = jwk_thumbprint J pub\<rparr>, hb_bytes (body_of (oq_body req))), s')"
proof -
  obtain jws opts where sign: "sign J S sg False (oq_method req) (oq_url req) iat (Some b) opts = Inr jws"
    and opts: "signed_options J opts = outbound_options J u req"
    and hdr: "oq_header req' = add_headers (scitt_pairs receipt token) (header_set (oq_header req) dpop_header jws)"
    and body: "body_of (oq_body req') = body_of (oq_body req)" "\<not> hb_broken (body_of (oq_body req))"
    using attach_identity_None [OF attach(1)] out(4) by auto
  note vals = decorated_values [OF out(1), of receipt token jws, folded hdr]
  have jws: "header_get (rq_header r) dpop_header = jws" using same_evidence_get(1) [OF delivered_evidence [OF r]] vals(1) by (simp add: header_get_values)
  have ext: "extract_headers (rq_header r) = Inr \<lparr>sh_receipt = receipt, sh_status_token = token\<rparr>"
    using same_evidence_get(3) [OF delivered_evidence [OF r]] extract_decorated [OF out(1) art] hdr by simp
  have pre: "preflight L (mw_cfg m) r = None"
    using r same_evidenceD [OF delivered_evidence [OF r]] vals out(1)
    by (simp add: preflight_None security_headers_def delivered_def undecorated_def)
  let ?cfg = "request_config L (mw_cfg m) r"
  have no_opts: "caller_opts (resolve_caller_options (mc_caller_opts (mw_cfg m))) = empty_opts"
    using cfg(2,3) by (simp add: caller_opts_def resolve_verify_options_def)
  have tok: "presented_token L r = outbound_token u req"
    using same_evidence_get(2) [OF delivered_evidence [OF r]] vals(4)
    by (simp add: presented_token_def outbound_token_def header_get_values u_def)
  have co: "caller_opts ?cfg = (case outbound_token u req of Some t \<Rightarrow> with_bound_access_token t empty_opts
      | None \<Rightarrow> empty_opts)\<lparr>vo_content := Some (read_limited (mc_max_content (mw_cfg m)) (rq_body r))\<rparr>"
    using cfg(2,3) tok by (simp add: request_opts Let_def no_opts split: option.split)
  have ath: "po_ath (outbound_options J u req) = expected_ath J (caller_opts ?cfg)"
    "vo_token_presented (caller_opts ?cfg) \<Longrightarrow> po_ath (outbound_options J u req) \<noteq> []"
    using outbound_ath(3) [OF laws(4)]
    by (auto simp: co outbound_options_def expected_ath_def with_bound_access_token_def empty_opts_def split: option.splits)
  have htu: "normalize_htu J (mc_external (mw_cfg m) r) = normalize_htu J (oq_url req')"
    "oq_url req' = oq_url req" "oq_method req' = oq_method req"
    using r attach(1) by (auto simp: delivered_def J_def attach_identity_def Let_def bind_request_content_def
        split: prod.splits sum.splits option.splits if_splits)
  have skew: "cc_pop_skew ?cfg = cc_pop_skew cfg" "cc_pin_err ?cfg = None" "cc_status_skew ?cfg = cc_status_skew cfg"
    "pin_allows L ?cfg = pin_allows L cfg"
    using cfg(1,2) by (auto simp: request_config_fields mw_ok_def pin_allows_def)
  have len: "length jws \<le> max_proof_size" "jws \<noteq> []"
    using size vals(1) sign by (auto simp: header_get_values sign_Inr)
  obtain pr where pr: "verify_proof_unrecorded J False jws (oq_method req) (mc_external (mw_cfg m) r) now
      (cc_pop_skew ?cfg) (caller_opts ?cfg) = Inr pr"
    and prs: "pr_cert pr = cert" "pr_digest pr = po_digest (outbound_options J u req)" "pr_jti pr = hex_encode b"
      "pr_fingerprint pr = sha_of J (x_raw cert)" "pr_jkt pr = jwk_thumbprint J pub"
    using sign_then_verify [OF laws(1,2,3) sg sign out(2,3), unfolded opts, OF _ outbound_ath(1,2) [OF laws(4)] ath
        htu(1) [unfolded htu(2)] len(1) attach(2) time(1,2)] time(3) skew(1) by auto
  have "log_vouches L (mw_keys m) ?cfg \<lparr>sh_receipt = receipt, sh_status_token = token\<rparr> now cert st"
    using log(1) skew(3) by (simp add: log_vouches_def)
  then obtain rcpt where ev: "caller_evidence L ?cfg jws \<lparr>sh_receipt = receipt, sh_status_token = token\<rparr>
      (oq_method req) (mc_external (mw_cfg m) r) (mw_keys m) now pr st rcpt"
    using vouched_evidence [OF _ prs(1) _ _ pr [unfolded J_def]] prs(4) log(2) skew(4) unfolding J_def by auto blast
  obtain s' where store: "mw_replay m (replay_key J pr) (pr_replay_exp pr) s = (Inr False, s')"
    using fresh [of "pr_replay_exp pr"] prs(3) by (auto simp: replay_key_def prod_eq_iff)
  have content: "check_content J pr (vo_content (caller_opts ?cfg)) = None"
    using r body prs(2) by (auto simp: co check_content_None delivered_def read_limited_def outbound_options_def)
  have prec: "caller_preconditions ?cfg False jws (Some \<lparr>sh_receipt = receipt, sh_status_token = token\<rparr>)
      (Some (mw_keys m)) (Some (mw_replay m)) = None"
    using len(2) art skew(2) by (simp add: caller_preconditions_None)
  have "verify_caller_with L ?cfg False jws (Some \<lparr>sh_receipt = receipt, sh_status_token = token\<rparr>) (oq_method req)
      (mc_external (mw_cfg m) r) (Some (mw_keys m)) (Some (mw_replay m)) now s = (Inr (identity_of pr st), s')"
    unfolding verify_caller_with_Inr using prec ev content store unfolding J_def by blast
  then have "authenticate L m r now s = (Inr (identity_of pr st, hb_bytes (rq_body r)), s')"
    using ext pre r jws htu(3) by (simp add: authenticate_Inr delivered_def)
  then show ?thesis using r body(1) prs(4,5) by (simp add: identity_of_def delivered_def)
qed

end
