(* ===== verification/Go_Utf8.thy ===== *)
theory Go_Utf8
  imports Go_Encoding
begin

text \<open>
  UTF-8 as Go's \<open>unicode/utf8\<close> decodes and encodes it: the length of the well-formed sequence a string
  starts with, the encoding of a code point, \<open>utf8.RuneCountInString\<close>, and well-formed strings.
\<close>

definition continuation :: "char \<Rightarrow> bool" where
  "continuation c = (128 \<le> byte_val c \<and> byte_val c \<le> 191)"

text \<open>
  The range the second byte must lie in, by the first byte (\<open>acceptRanges\<close>): it excludes overlong
  sequences, surrogates and code points above U+10FFFF.
\<close>

definition second_ok :: "char \<Rightarrow> char \<Rightarrow> bool" where
  "second_ok c d =
     (let lo = (if byte_val c = 224 then 160 else if byte_val c = 240 then 144 else 128);
          hi = (if byte_val c = 237 then 159 else if byte_val c = 244 then 143 else 191)
      in lo \<le> byte_val d \<and> byte_val d \<le> hi)"

text \<open>How many bytes follow the first byte, 0 for a byte that starts no longer sequence.\<close>

definition followers :: "char \<Rightarrow> nat" where
  "followers c =
     (let b = byte_val c in
      if 194 \<le> b \<and> b \<le> 223 then 1 else if 224 \<le> b \<and> b \<le> 239 then 2 else if 240 \<le> b \<and> b \<le> 244 then 3 else 0)"

text \<open>The bytes of the rune at the head of a string, 0 where the decoder reports an error.\<close>

fun rune_len :: "string \<Rightarrow> nat" where
  "rune_len [] = 0"
| "rune_len (c # cs) =
     (if byte_val c < 128 then 1
      else let k = followers c in
        if k \<noteq> 0 \<and> k \<le> length cs \<and> second_ok c (hd cs) \<and> list_all continuation (take k cs) then Suc k else 0)"

definition encode_rune :: "nat \<Rightarrow> string" where
  "encode_rune v =
     (if v < 128 then [char_of v]
      else if v < 2048 then [char_of (192 + v div 64), char_of (128 + v mod 64)]
      else if v < 65536 then
        [char_of (224 + v div 4096), char_of (128 + v div 64 mod 64), char_of (128 + v mod 64)]
      else [char_of (240 + v div 262144), char_of (128 + v div 4096 mod 64), char_of (128 + v div 64 mod 64),
            char_of (128 + v mod 64)])"

text \<open>U+FFFD, which stands for every byte that starts no rune.\<close>

definition replacement :: string where
  "replacement = [CHR 0xEF, CHR 0xBF, CHR 0xBD]"

fun rune_count :: "string \<Rightarrow> nat" where
  "rune_count [] = 0"
| "rune_count (c # cs) = Suc (rune_count (drop (rune_len (c # cs) - 1) cs))"

fun utf8_valid :: "string \<Rightarrow> bool" where
  "utf8_valid [] = True"
| "utf8_valid (c # cs) = (rune_len (c # cs) \<noteq> 0 \<and> utf8_valid (drop (rune_len (c # cs) - 1) cs))"

section \<open>Lemmas\<close>

lemma rune_len_le: "rune_len s \<le> length s"
  by (cases s) (auto simp: Let_def)

lemma rune_len_append: "rune_len s \<noteq> 0 \<Longrightarrow> rune_len (s @ r) = rune_len s"
  by (cases s) (auto simp: Let_def hd_append split: if_splits)

lemma rune_len_take:
  assumes "rune_len s \<noteq> 0"
  shows "rune_len (take (rune_len s) s) = rune_len s"
proof (cases s)
  case (Cons c cs)
  then show ?thesis using assms by (cases cs) (auto simp: Let_def split: if_splits)
qed simp

lemma rune_len_ascii [simp]: "byte_val c < 128 \<Longrightarrow> rune_len (c # cs) = 1"
  by simp

lemma rune_len_high: "128 \<le> byte_val c \<Longrightarrow> rune_len (c # cs) \<noteq> 1"
  by (auto simp: Let_def)

declare rune_len.simps(2) [simp del]

lemma utf8_valid_ascii: "is_ascii s \<Longrightarrow> utf8_valid s"
  by (induction s) (auto simp: is_ascii_def)

lemma rune_count_ascii: "is_ascii s \<Longrightarrow> rune_count s = length s"
  by (induction s) (auto simp: is_ascii_def)

lemma rune_count_le: "rune_count s \<le> length s"
proof (induction s rule: rune_count.induct)
  case (2 c cs)
  then show ?case by (simp add: le_diff_conv)
qed simp

lemma utf8_valid_append: "utf8_valid s \<Longrightarrow> utf8_valid t \<Longrightarrow> utf8_valid (s @ t)"
proof (induction s rule: utf8_valid.induct)
  case (2 c cs)
  then have n: "rune_len (c # cs) \<noteq> 0" by simp
  have l: "rune_len (c # cs) - 1 \<le> length cs" using rune_len_le [of "c # cs"] by simp
  have "utf8_valid (drop (rune_len (c # cs) - 1) cs @ t)" using 2 by simp
  with n l rune_len_append [OF n, of t] show ?case by simp
qed simp

end
