(* ===== verification/Csr_Validation.thy ===== *)
theory Csr_Validation
  imports Go_Encoding Go_Utf8
begin

text \<open>
  The intake rules for certificate signing requests, \<open>csrvalidation/csrvalidation.go\<close>. Finding a PEM block
  (\<open>pem.Decode\<close>) and parsing its DER (\<open>x509.ParseCertificateRequest\<close>) are parameters, the latter with the
  check of the request's own signature; printing a block is not, for the code compares with it. An error
  is its sentinel with the text that follows it.
\<close>

section \<open>Rules\<close>

text \<open>The signature algorithms of \<open>crypto/x509\<close> with their names.\<close>

datatype signature_algorithm =
  UnknownSignatureAlgorithm | MD2WithRSA | MD5WithRSA | SHA1WithRSA | SHA256WithRSA | SHA384WithRSA | SHA512WithRSA
  | DSAWithSHA1 | DSAWithSHA256 | ECDSAWithSHA1 | ECDSAWithSHA256 | ECDSAWithSHA384 | ECDSAWithSHA512
  | SHA256WithRSAPSS | SHA384WithRSAPSS | SHA512WithRSAPSS | PureEd25519

fun signature_algorithm_string :: "signature_algorithm \<Rightarrow> string" where
  "signature_algorithm_string UnknownSignatureAlgorithm = ''0''"
| "signature_algorithm_string MD2WithRSA = ''MD2-RSA''"
| "signature_algorithm_string MD5WithRSA = ''MD5-RSA''"
| "signature_algorithm_string SHA1WithRSA = ''SHA1-RSA''"
| "signature_algorithm_string SHA256WithRSA = ''SHA256-RSA''"
| "signature_algorithm_string SHA384WithRSA = ''SHA384-RSA''"
| "signature_algorithm_string SHA512WithRSA = ''SHA512-RSA''"
| "signature_algorithm_string DSAWithSHA1 = ''DSA-SHA1''"
| "signature_algorithm_string DSAWithSHA256 = ''DSA-SHA256''"
| "signature_algorithm_string ECDSAWithSHA1 = ''ECDSA-SHA1''"
| "signature_algorithm_string ECDSAWithSHA256 = ''ECDSA-SHA256''"
| "signature_algorithm_string ECDSAWithSHA384 = ''ECDSA-SHA384''"
| "signature_algorithm_string ECDSAWithSHA512 = ''ECDSA-SHA512''"
| "signature_algorithm_string SHA256WithRSAPSS = ''SHA256-RSAPSS''"
| "signature_algorithm_string SHA384WithRSAPSS = ''SHA384-RSAPSS''"
| "signature_algorithm_string SHA512WithRSAPSS = ''SHA512-RSAPSS''"
| "signature_algorithm_string PureEd25519 = ''Ed25519''"

text \<open>A public key as the rules see it: the length of an RSA modulus, the name of a curve.\<close>

datatype csr_public_key = Rsa_Public nat | Ec_Public string | Other_Public

record certificate_request =
  crq_public_key :: csr_public_key
  crq_key_algorithm :: string
  crq_signature_algorithm :: signature_algorithm
  crq_signature_error :: "string option"

record csr_rules =
  ru_rsa_key_sizes :: "nat list"
  ru_ec_curves :: "string list"
  ru_signature_algorithms :: "signature_algorithm list"

datatype csr_sentinel =
  ErrInvalidCSR | ErrCsrSignature | ErrCsrKeyAlgorithm | ErrCsrKeySize | ErrCsrCurve | ErrCsrSignatureAlgorithm

type_synonym csr_error = "csr_sentinel \<times> string"

definition CurveP256 :: string where
  "CurveP256 = ''P-256''"

definition pem_type_csr :: string where
  "pem_type_csr = ''CERTIFICATE REQUEST''"

definition identity_rules :: csr_rules where
  "identity_rules =
     \<lparr>ru_rsa_key_sizes = [2048, 3072, 4096], ru_ec_curves = [CurveP256],
      ru_signature_algorithms =
        [SHA256WithRSA, SHA384WithRSA, SHA512WithRSA, ECDSAWithSHA256, ECDSAWithSHA384, ECDSAWithSHA512]\<rparr>"

definition server_rules :: csr_rules where
  "server_rules =
     \<lparr>ru_rsa_key_sizes = [2048, 4096], ru_ec_curves = [], ru_signature_algorithms = [SHA256WithRSA]\<rparr>"

definition join_ints :: "nat list \<Rightarrow> string" where
  "join_ints vs = join_with '' or '' (map show_nat vs)"

definition allows_rsa_key_size :: "csr_rules \<Rightarrow> nat \<Rightarrow> bool" where
  "allows_rsa_key_size r bits = (bits \<in> set (ru_rsa_key_sizes r))"

definition allows_curve :: "csr_rules \<Rightarrow> string \<Rightarrow> bool" where
  "allows_curve r name = (name \<in> set (ru_ec_curves r))"

definition describe :: "csr_rules \<Rightarrow> string" where
  "describe r =
     join_with '' or ''
       ((if ru_rsa_key_sizes r \<noteq> [] then [''RSA '' @ join_ints (ru_rsa_key_sizes r) @ '' bit keys''] else [])
        @ (if ru_ec_curves r \<noteq> [] then [''EC '' @ join_with '' or '' (ru_ec_curves r) @ '' keys''] else []))"

definition key_type_error :: "csr_rules \<Rightarrow> string \<Rightarrow> csr_error" where
  "key_type_error r actual =
     (let types = (if ru_rsa_key_sizes r \<noteq> [] then [''RSA''] else []) @ (if ru_ec_curves r \<noteq> [] then [''EC''] else [])
      in (ErrCsrKeyAlgorithm, ''CSR public key must use '' @ join_with '' or '' types @ '', but was '' @ [CHR 0x27] @ actual
            @ [CHR 0x27] @ ''. PKI only accepts '' @ describe r))"

definition check_public_key :: "csr_rules \<Rightarrow> csr_public_key \<Rightarrow> string \<Rightarrow> csr_error option" where
  "check_public_key r pub alg =
     (case pub of
        Rsa_Public bits \<Rightarrow>
          if ru_rsa_key_sizes r = [] then Some (key_type_error r ''RSA'')
          else if allows_rsa_key_size r bits then None
          else Some (ErrCsrKeySize, ''RSA key size must be '' @ join_ints (ru_rsa_key_sizes r) @ '' bits, but was ''
                 @ show_nat bits @ '' bits'')
      | Ec_Public curve \<Rightarrow>
          if ru_ec_curves r = [] then Some (key_type_error r ''EC'')
          else if allows_curve r curve then None
          else Some (ErrCsrCurve, ''EC key curve must be '' @ join_with '' or '' (ru_ec_curves r) @ '', but was ''
                 @ [CHR 0x27] @ curve @ [CHR 0x27])
      | Other_Public \<Rightarrow> Some (key_type_error r alg))"

definition registry_signature_name :: "signature_algorithm \<Rightarrow> string" where
  "registry_signature_name alg =
     (let name = signature_algorithm_string alg in
      case cut_prefix name ''ECDSA-'' of
        Some hash \<Rightarrow> hash @ ''WITHECDSA''
      | None \<Rightarrow>
          if has_suffix name ''-RSA'' then trim_suffix name ''-RSA'' @ ''WITHRSA''
          else name)"

definition check_signature_algorithm :: "csr_rules \<Rightarrow> signature_algorithm \<Rightarrow> csr_error option" where
  "check_signature_algorithm r alg =
     (if alg \<in> set (ru_signature_algorithms r) then None
      else Some (ErrCsrSignatureAlgorithm, ''CSR signature algorithm must be ''
             @ join_with '' or '' (map registry_signature_name (ru_signature_algorithms r)) @ '', but was ''
             @ [CHR 0x27] @ registry_signature_name alg @ [CHR 0x27]))"

definition check_csr :: "csr_rules \<Rightarrow> certificate_request \<Rightarrow> csr_error option" where
  "check_csr r csr =
     (case check_public_key r (crq_public_key csr) (crq_key_algorithm csr) of
        Some e \<Rightarrow> Some e
      | None \<Rightarrow>
     case check_signature_algorithm r (crq_signature_algorithm csr) of
        Some e \<Rightarrow> Some e
      | None \<Rightarrow> map_option (\<lambda>text. (ErrCsrSignature, text)) (crq_signature_error csr))"

section \<open>PEM text\<close>

record pem_block =
  pb_type :: string
  pb_headers :: "(string \<times> string) list"
  pb_bytes :: bytes

record csr_lib =
  cl_pem_decode :: "bytes \<Rightarrow> pem_block option"
  cl_parse :: "bytes \<Rightarrow> string + certificate_request"

text \<open>The whitespace \<open>bytes.Fields\<close> splits on, and the bytes that remain when the fields are joined.\<close>

function without_whitespace :: "bytes \<Rightarrow> bytes" where
  "without_whitespace s =
     (if s = [] then []
      else let n = max 1 (rune_len s) in
        (if take n s \<in> set space_encodings then [] else take n s) @ without_whitespace (drop n s))"
  by pat_completeness auto

termination
  by (relation "measure length") auto

declare without_whitespace.simps [simp del]

text \<open>\<open>pem.EncodeToMemory\<close> of a block without headers: base 64 in lines of 64 characters.\<close>

function pem_lines :: "string \<Rightarrow> string" where
  "pem_lines s = (if s = [] then [] else take 64 s @ [CHR 0x0A] @ pem_lines (drop 64 s))"
  by pat_completeness auto

termination
  by (relation "measure length") auto

declare pem_lines.simps [simp del]

definition pem_encode :: "string \<Rightarrow> bytes \<Rightarrow> bytes" where
  "pem_encode type_name bs =
     ''-----BEGIN '' @ type_name @ ''-----'' @ [CHR 0x0A] @ pem_lines (std_encode bs)
       @ ''-----END '' @ type_name @ ''-----'' @ [CHR 0x0A]"

definition single_block_text :: string where
  "single_block_text =
     ''expected exactly one PEM '' @ [CHR 0x22] @ pem_type_csr @ [CHR 0x22] @ '' block with nothing before or after it''"

definition decode_single_csr_block :: "csr_lib \<Rightarrow> bytes \<Rightarrow> csr_error + pem_block" where
  "decode_single_csr_block L pem =
     (case cl_pem_decode L pem of
        Some block \<Rightarrow>
          if pb_type block \<noteq> pem_type_csr \<or> length (pb_headers block) \<noteq> 0
            \<or> without_whitespace pem \<noteq> without_whitespace (pem_encode (pb_type block) (pb_bytes block))
          then Inl (ErrInvalidCSR, single_block_text)
          else Inr block
      | None \<Rightarrow> Inl (ErrInvalidCSR, single_block_text))"

definition validate_csr :: "csr_lib \<Rightarrow> bytes \<Rightarrow> csr_rules \<Rightarrow> csr_error + certificate_request" where
  "validate_csr L pem rules =
     (case decode_single_csr_block L pem of
        Inl e \<Rightarrow> Inl e
      | Inr block \<Rightarrow>
     case cl_parse L (pb_bytes block) of
        Inl text \<Rightarrow> Inl (ErrInvalidCSR, text)
      | Inr csr \<Rightarrow>
     case check_csr rules csr of
        Some e \<Rightarrow> Inl e
      | None \<Rightarrow> Inr csr)"

section \<open>What is accepted\<close>

lemma check_public_key_None:
  "check_public_key r pub alg = None \<longleftrightarrow>
     (\<exists>bits. pub = Rsa_Public bits \<and> bits \<in> set (ru_rsa_key_sizes r))
     \<or> (\<exists>curve. pub = Ec_Public curve \<and> curve \<in> set (ru_ec_curves r))"
  by (auto simp: check_public_key_def allows_rsa_key_size_def allows_curve_def split: csr_public_key.split)

lemma check_csr_None:
  "check_csr r csr = None \<longleftrightarrow>
     ((\<exists>bits. crq_public_key csr = Rsa_Public bits \<and> bits \<in> set (ru_rsa_key_sizes r))
      \<or> (\<exists>curve. crq_public_key csr = Ec_Public curve \<and> curve \<in> set (ru_ec_curves r)))
     \<and> crq_signature_algorithm csr \<in> set (ru_signature_algorithms r) \<and> crq_signature_error csr = None"
  unfolding check_csr_def check_public_key_None [symmetric, where alg = "crq_key_algorithm csr"]
  by (simp add: check_signature_algorithm_def split: option.split)

lemma server_rules_identity: "check_csr server_rules csr = None \<Longrightarrow> check_csr identity_rules csr = None"
  by (auto simp: check_csr_None server_rules_def identity_rules_def)

lemma validate_csr_Inr:
  "validate_csr L pem r = Inr csr \<longleftrightarrow>
     (\<exists>block. cl_pem_decode L pem = Some block \<and> pb_type block = pem_type_csr \<and> pb_headers block = []
        \<and> without_whitespace pem = without_whitespace (pem_encode pem_type_csr (pb_bytes block))
        \<and> cl_parse L (pb_bytes block) = Inr csr \<and> check_csr r csr = None)"
  by (auto simp: validate_csr_def decode_single_csr_block_def split: option.splits sum.splits)

section \<open>Whitespace\<close>

definition ascii_space :: "char \<Rightarrow> bool" where
  "ascii_space c = (byte_val c = 32 \<or> 9 \<le> byte_val c \<and> byte_val c \<le> 13)"

lemma space_encoding_single: "[c] \<in> set space_encodings \<longleftrightarrow> ascii_space c"
proof -
  have "[c] \<in> set space_encodings \<longleftrightarrow> byte_val c \<in> {9, 10, 11, 12, 13, 32}"
    by (simp add: space_encodings_def byte_val_eq_iff [symmetric] byte_val_def)
  then show ?thesis by (auto simp: ascii_space_def)
qed

lemma without_whitespace_ascii: "is_ascii s \<Longrightarrow> without_whitespace s = filter (\<lambda>c. \<not> ascii_space c) s"
proof (induction s)
  case (Cons c cs)
  then have "rune_len (c # cs) = 1" "is_ascii cs" by (simp_all add: is_ascii_def)
  with Cons show ?case
    by (subst without_whitespace.simps) (simp add: Let_def space_encoding_single)
qed (simp add: without_whitespace.simps)

lemma filter_pem_lines:
  "filter (\<lambda>c. \<not> ascii_space c) (pem_lines s) = filter (\<lambda>c. \<not> ascii_space c) s"
proof (induction s rule: pem_lines.induct)
  case (1 s)
  show ?case
  proof (cases "s = []")
    case False
    have "filter (\<lambda>c. \<not> ascii_space c) (take 64 s) @ filter (\<lambda>c. \<not> ascii_space c) (drop 64 s)
        = filter (\<lambda>c. \<not> ascii_space c) s"
      by (simp flip: filter_append)
    then show ?thesis
      using 1 False by (subst pem_lines.simps) (simp add: ascii_space_def byte_val_def)
  qed (simp add: pem_lines.simps)
qed

lemma std_encode_no_space: "filter (\<lambda>c. \<not> ascii_space c) (std_encode bs) = std_encode bs"
proof -
  have "\<not> ascii_space (b64_std n)" if "n < 64" for n
    using b64_std_alnum [of n] that b64_specials by (cases "n < 62") (auto simp: ascii_space_def b64_std_def)
  then have "\<not> ascii_space c" if "c \<in> set (std_encode bs)" for c
    using that std64.encode_letter [of c True bs] b64_specials by (auto simp: std_encode_def ascii_space_def)
  then show ?thesis by (simp add: filter_id_conv)
qed

lemma is_ascii_pem_lines: "is_ascii s \<Longrightarrow> is_ascii (pem_lines s)"
proof (induction s rule: pem_lines.induct)
  case (1 s)
  then have "is_ascii (take 64 s)" "is_ascii (drop 64 s)"
    by (auto simp: is_ascii_def list_all_iff dest: in_set_takeD in_set_dropD)
  with 1 show ?case
    by (subst pem_lines.simps) (auto simp: is_ascii_def byte_val_def)
qed

text \<open>An accepted text is, whitespace aside, the armour of the request's DER in base 64 and nothing else.\<close>

lemma without_whitespace_pem:
  "without_whitespace (pem_encode pem_type_csr bs) =
     ''-----BEGINCERTIFICATEREQUEST-----'' @ std_encode bs @ ''-----ENDCERTIFICATEREQUEST-----''"
proof -
  have "is_ascii (pem_encode pem_type_csr bs)"
    using is_ascii_pem_lines [OF is_ascii_std_encode [of bs]]
    by (simp add: pem_encode_def pem_type_csr_def is_ascii_def byte_val_def)
  from without_whitespace_ascii [OF this] show ?thesis
    by (simp add: pem_encode_def pem_type_csr_def filter_pem_lines std_encode_no_space)
      (simp add: ascii_space_def byte_val_def)
qed

lemma without_whitespace_pem_inject:
  "without_whitespace (pem_encode pem_type_csr a) = without_whitespace (pem_encode pem_type_csr b) \<longleftrightarrow> a = b"
  by (metis without_whitespace_pem append_same_eq append_eq_append_conv same_append_eq std_decode_encode option.inject)

end
