(* ===== verification/Keygen.thy ===== *)
theory Keygen
  imports Csr_Validation
begin

text \<open>
  Key generation and key files, \<open>keygen/keygen.go\<close>. The mathematics of keys, their DER encodings, PEM
  encryption and the PEM text are parameters. Files are a map from paths to contents and permissions;
  opening, writing and closing may each fail, a failed write leaving the bytes written so far.
\<close>

section \<open>Files\<close>

record stored_file =
  fi_mode :: nat
  fi_content :: bytes

type_synonym files = "string \<rightharpoonup> stored_file"

record file_io =
  io_open :: "string \<Rightarrow> bool"
  io_written :: "string \<Rightarrow> nat option"
    \<comment> \<open>\<open>None\<close> when a write to the file succeeds, else how many bytes went out before it failed\<close>
  io_close :: "string \<Rightarrow> bool"
  io_read :: "string \<Rightarrow> bool"
  io_mkdir :: "string \<Rightarrow> bool"

datatype file_error = Create_Failed | Write_Failed | Close_Failed | Read_Failed

text \<open>
  \<open>OpenFile\<close> with \<open>O_CREATE|O_TRUNC\<close>, one write and a close: the permissions are those of the file where
  it existed, else the ones asked for.
\<close>

definition write_file :: "file_io \<Rightarrow> string \<Rightarrow> nat \<Rightarrow> bytes \<Rightarrow> files \<Rightarrow> file_error option \<times> files" where
  "write_file io path mode data fs =
     (if \<not> io_open io path then (Some Create_Failed, fs)
      else let m = (case fs path of None \<Rightarrow> mode | Some f \<Rightarrow> fi_mode f) in
        (case io_written io path of
           Some n \<Rightarrow> (Some Write_Failed, fs(path \<mapsto> \<lparr>fi_mode = m, fi_content = take n data\<rparr>))
         | None \<Rightarrow> (if io_close io path then None else Some Close_Failed, fs(path \<mapsto> \<lparr>fi_mode = m, fi_content = data\<rparr>))))"

definition read_file :: "file_io \<Rightarrow> string \<Rightarrow> files \<Rightarrow> bytes option" where
  "read_file io path fs = (if io_read io path then map_option fi_content (fs path) else None)"

section \<open>Keys\<close>

datatype ('r, 'e) private_key = Rsa_Private 'r | Ecdsa_Private 'e | Other_Private

datatype ('p, 'q) public_key = Rsa_Key 'p | Ecdsa_Key 'q | Other_Key

datatype key_curve = P256 | P384 | P521

record ('r, 'e, 'p, 'q) key_lib =
  kl_generate_rsa :: "int \<Rightarrow> 'r option"
  kl_generate_ec :: "key_curve \<Rightarrow> 'e option"
  kl_rsa_public :: "'r \<Rightarrow> 'p"
  kl_ec_public :: "'e \<Rightarrow> 'q"
  kl_marshal_pkcs1 :: "'r \<Rightarrow> bytes"
  kl_marshal_ec :: "'e \<Rightarrow> bytes option"
  kl_parse_pkcs1 :: "bytes \<Rightarrow> 'r option"
  kl_parse_pkcs8 :: "bytes \<Rightarrow> ('r, 'e) private_key option"
  kl_parse_ec :: "bytes \<Rightarrow> 'e option"
  kl_marshal_pkix :: "('p, 'q) public_key \<Rightarrow> bytes option"
  kl_parse_pkix :: "bytes \<Rightarrow> ('p, 'q) public_key option"
  kl_encrypt :: "string \<Rightarrow> bytes \<Rightarrow> bytes \<Rightarrow> pem_block option"
  kl_decrypt :: "pem_block \<Rightarrow> bytes \<Rightarrow> bytes option"
  kl_pem_encode :: "pem_block \<Rightarrow> bytes"
  kl_pem_decode :: "bytes \<Rightarrow> pem_block option"

datatype key_error =
  Key_Size_Too_Small int
  | Key_Nil_Curve
  | Key_Generation_Failed
  | Key_Marshal_Failed
  | Key_Unsupported
  | Key_Encrypt_Failed
  | Key_No_Pem
  | Key_Decrypt_Failed
  | Key_Unknown_Format
  | Key_File file_error

definition min_rsa_key_size :: int where
  "min_rsa_key_size = 2048"

definition generate_rsa_key_pair :: "('r, 'e, 'p, 'q) key_lib \<Rightarrow> int \<Rightarrow> key_error + 'r" where
  "generate_rsa_key_pair L bits =
     (if bits < min_rsa_key_size then Inl (Key_Size_Too_Small bits)
      else from_option Key_Generation_Failed (kl_generate_rsa L bits))"

definition generate_ec_key_pair :: "('r, 'e, 'p, 'q) key_lib \<Rightarrow> key_curve option \<Rightarrow> key_error + 'e" where
  "generate_ec_key_pair L curve =
     (case curve of None \<Rightarrow> Inl Key_Nil_Curve | Some c \<Rightarrow> from_option Key_Generation_Failed (kl_generate_ec L c))"

section \<open>PEM\<close>

definition plain_block :: "string \<Rightarrow> bytes \<Rightarrow> pem_block" where
  "plain_block t bs = \<lparr>pb_type = t, pb_headers = [], pb_bytes = bs\<rparr>"

text \<open>A nil password is an empty one.\<close>

definition private_key_to_pem :: "('r, 'e, 'p, 'q) key_lib \<Rightarrow> ('r, 'e) private_key \<Rightarrow> bytes \<Rightarrow> key_error + bytes" where
  "private_key_to_pem L key password =
     (case (case key of
              Rsa_Private k \<Rightarrow> Inr (plain_block ''RSA PRIVATE KEY'' (kl_marshal_pkcs1 L k))
            | Ecdsa_Private k \<Rightarrow>
                (case kl_marshal_ec L k of
                   None \<Rightarrow> Inl Key_Marshal_Failed
                 | Some der \<Rightarrow> Inr (plain_block ''EC PRIVATE KEY'' der))
            | Other_Private \<Rightarrow> Inl Key_Unsupported) of
        Inl e \<Rightarrow> Inl e
      | Inr block \<Rightarrow>
          if length password > 0 then
            (case kl_encrypt L (pb_type block) (pb_bytes block) password of
               None \<Rightarrow> Inl Key_Encrypt_Failed
             | Some encrypted \<Rightarrow> Inr (kl_pem_encode L encrypted))
          else Inr (kl_pem_encode L block))"

definition public_key_to_pem :: "('r, 'e, 'p, 'q) key_lib \<Rightarrow> ('p, 'q) public_key \<Rightarrow> key_error + bytes" where
  "public_key_to_pem L key =
     (case kl_marshal_pkix L key of
        None \<Rightarrow> Inl Key_Marshal_Failed
      | Some der \<Rightarrow> Inr (kl_pem_encode L (plain_block ''PUBLIC KEY'' der)))"

text \<open>\<open>x509.IsEncryptedPEMBlock\<close> looks for the header \<open>DEK-Info\<close>.\<close>

definition is_encrypted_block :: "pem_block \<Rightarrow> bool" where
  "is_encrypted_block b = (''DEK-Info'' \<in> fst ` set (pb_headers b))"

definition parse_private_key_pem :: "('r, 'e, 'p, 'q) key_lib \<Rightarrow> bytes \<Rightarrow> bytes \<Rightarrow> key_error + ('r, 'e) private_key" where
  "parse_private_key_pem L pem password =
     (case kl_pem_decode L pem of
        None \<Rightarrow> Inl Key_No_Pem
      | Some block \<Rightarrow>
     case (if is_encrypted_block block then kl_decrypt L block password else Some (pb_bytes block)) of
        None \<Rightarrow> Inl Key_Decrypt_Failed
      | Some der \<Rightarrow>
     case kl_parse_pkcs1 L der of
        Some k \<Rightarrow> Inr (Rsa_Private k)
      | None \<Rightarrow>
     case kl_parse_pkcs8 L der of
        Some k \<Rightarrow> Inr k
      | None \<Rightarrow>
     case kl_parse_ec L der of
        Some k \<Rightarrow> Inr (Ecdsa_Private k)
      | None \<Rightarrow> Inl Key_Unknown_Format)"

definition get_public_key :: "('r, 'e, 'p, 'q) key_lib \<Rightarrow> ('r, 'e) private_key \<Rightarrow> key_error + ('p, 'q) public_key" where
  "get_public_key L key =
     (case key of
        Rsa_Private k \<Rightarrow> Inr (Rsa_Key (kl_rsa_public L k))
      | Ecdsa_Private k \<Rightarrow> Inr (Ecdsa_Key (kl_ec_public L k))
      | Other_Private \<Rightarrow> Inl Key_Unsupported)"

section \<open>Key files\<close>

definition mode_0600 :: nat where "mode_0600 = 384"
definition mode_0644 :: nat where "mode_0644 = 420"

definition save_private_key_pem ::
  "file_io \<Rightarrow> ('r, 'e, 'p, 'q) key_lib \<Rightarrow> ('r, 'e) private_key \<Rightarrow> string \<Rightarrow> bytes \<Rightarrow> files \<Rightarrow> key_error option \<times> files" where
  "save_private_key_pem io L key path password fs =
     (case private_key_to_pem L key password of
        Inl e \<Rightarrow> (Some e, fs)
      | Inr pem \<Rightarrow> (case write_file io path mode_0600 pem fs of (e, fs') \<Rightarrow> (map_option Key_File e, fs')))"

definition load_private_key_pem ::
  "file_io \<Rightarrow> ('r, 'e, 'p, 'q) key_lib \<Rightarrow> string \<Rightarrow> bytes \<Rightarrow> files \<Rightarrow> key_error + ('r, 'e) private_key" where
  "load_private_key_pem io L path password fs =
     (case read_file io path fs of
        None \<Rightarrow> Inl (Key_File Read_Failed)
      | Some data \<Rightarrow> parse_private_key_pem L data password)"

definition save_public_key_pem ::
  "file_io \<Rightarrow> ('r, 'e, 'p, 'q) key_lib \<Rightarrow> ('p, 'q) public_key \<Rightarrow> string \<Rightarrow> files \<Rightarrow> key_error option \<times> files" where
  "save_public_key_pem io L key path fs =
     (case public_key_to_pem L key of
        Inl e \<Rightarrow> (Some e, fs)
      | Inr pem \<Rightarrow> (case write_file io path mode_0644 pem fs of (e, fs') \<Rightarrow> (map_option Key_File e, fs')))"

definition load_public_key_pem ::
  "file_io \<Rightarrow> ('r, 'e, 'p, 'q) key_lib \<Rightarrow> string \<Rightarrow> files \<Rightarrow> key_error + ('p, 'q) public_key" where
  "load_public_key_pem io L path fs =
     (case read_file io path fs of
        None \<Rightarrow> Inl (Key_File Read_Failed)
      | Some data \<Rightarrow>
     case kl_pem_decode L data of
        None \<Rightarrow> Inl Key_No_Pem
      | Some block \<Rightarrow> from_option Key_Unknown_Format (kl_parse_pkix L (pb_bytes block)))"

section \<open>Key pairs\<close>

record ('r, 'e, 'p, 'q) key_pair =
  kp_private :: "('r, 'e) private_key"
  kp_public :: "('p, 'q) public_key"
  kp_private_pem :: bytes
  kp_public_pem :: bytes

definition generate_rsa_key_pair_with_pem ::
  "('r, 'e, 'p, 'q) key_lib \<Rightarrow> int \<Rightarrow> bytes \<Rightarrow> key_error + ('r, 'e, 'p, 'q) key_pair" where
  "generate_rsa_key_pair_with_pem L bits password =
     rbind (generate_rsa_key_pair L bits) (\<lambda>k.
     rbind (private_key_to_pem L (Rsa_Private k) password) (\<lambda>priv_pem.
     rbind (public_key_to_pem L (Rsa_Key (kl_rsa_public L k))) (\<lambda>pub_pem.
       Inr \<lparr>kp_private = Rsa_Private k, kp_public = Rsa_Key (kl_rsa_public L k), kp_private_pem = priv_pem,
            kp_public_pem = pub_pem\<rparr>)))"

definition generate_ec_key_pair_with_pem ::
  "('r, 'e, 'p, 'q) key_lib \<Rightarrow> key_curve option \<Rightarrow> bytes \<Rightarrow> key_error + ('r, 'e, 'p, 'q) key_pair" where
  "generate_ec_key_pair_with_pem L curve password =
     rbind (generate_ec_key_pair L curve) (\<lambda>k.
     rbind (private_key_to_pem L (Ecdsa_Private k) password) (\<lambda>priv_pem.
     rbind (public_key_to_pem L (Ecdsa_Key (kl_ec_public L k))) (\<lambda>pub_pem.
       Inr \<lparr>kp_private = Ecdsa_Private k, kp_public = Ecdsa_Key (kl_ec_public L k), kp_private_pem = priv_pem,
            kp_public_pem = pub_pem\<rparr>)))"

definition write_key_pair_to_files ::
  "file_io \<Rightarrow> ('r, 'e, 'p, 'q) key_lib \<Rightarrow> ('r, 'e, 'p, 'q) key_pair \<Rightarrow> string \<Rightarrow> string \<Rightarrow> files \<Rightarrow> key_error option \<times> files" where
  "write_key_pair_to_files io L kp private_path public_path fs =
     (case write_file io private_path mode_0600 (kp_private_pem kp) fs of
        (Some e, fs') \<Rightarrow> (Some (Key_File e), fs')
      | (None, fs') \<Rightarrow> save_public_key_pem io L (kp_public kp) public_path fs')"

section \<open>Keys survive their files\<close>

text \<open>
  What the encodings promise: DER and PEM are read back, the parsers of one kind of key refuse the other's
  encoding, and what was encrypted with a password is decrypted with it and is marked as encrypted.
\<close>

definition key_lib_ok :: "('r, 'e, 'p, 'q) key_lib \<Rightarrow> bool" where
  "key_lib_ok L \<longleftrightarrow>
     (\<forall>k. kl_parse_pkcs1 L (kl_marshal_pkcs1 L k) = Some k)
     \<and> (\<forall>k der. kl_marshal_ec L k = Some der \<longrightarrow>
          kl_parse_pkcs1 L der = None \<and> kl_parse_pkcs8 L der = None \<and> kl_parse_ec L der = Some k)
     \<and> (\<forall>k der. kl_marshal_pkix L k = Some der \<longrightarrow> kl_parse_pkix L der = Some k)
     \<and> (\<forall>t der password b. kl_encrypt L t der password = Some b \<longrightarrow>
          is_encrypted_block b \<and> kl_decrypt L b password = Some der \<and> kl_pem_decode L (kl_pem_encode L b) = Some b)
     \<and> (\<forall>t der. kl_pem_decode L (kl_pem_encode L (plain_block t der)) = Some (plain_block t der))"

lemma plain_not_encrypted [simp]: "\<not> is_encrypted_block (plain_block t der)"
  by (simp add: is_encrypted_block_def plain_block_def)

lemma plain_block_simps [simp]: "pb_type (plain_block t der) = t" "pb_bytes (plain_block t der) = der"
  by (simp_all add: plain_block_def)

lemma key_lib_okD:
  assumes "key_lib_ok L"
  shows "kl_parse_pkcs1 L (kl_marshal_pkcs1 L k) = Some k"
    "kl_marshal_ec L e = Some der \<Longrightarrow>
       kl_parse_pkcs1 L der = None \<and> kl_parse_pkcs8 L der = None \<and> kl_parse_ec L der = Some e"
    "kl_marshal_pkix L p = Some der \<Longrightarrow> kl_parse_pkix L der = Some p"
    "kl_encrypt L t der password = Some b \<Longrightarrow>
       is_encrypted_block b \<and> kl_decrypt L b password = Some der \<and> kl_pem_decode L (kl_pem_encode L b) = Some b"
    "kl_pem_decode L (kl_pem_encode L (plain_block t der)) = Some (plain_block t der)"
  using assms unfolding key_lib_ok_def by blast+

text \<open>The PEM of a key's DER, encrypted or not, leads back to the DER.\<close>

lemma pem_der:
  assumes "key_lib_ok L"
    "(if length password > 0 then map_option (kl_pem_encode L) (kl_encrypt L t der password)
      else Some (kl_pem_encode L (plain_block t der))) = Some pem"
  shows "\<exists>b. kl_pem_decode L pem = Some b
     \<and> (if is_encrypted_block b then kl_decrypt L b password else Some (pb_bytes b)) = Some der"
proof (cases "length password > 0")
  case True
  then obtain b where b: "kl_encrypt L t der password = Some b" "pem = kl_pem_encode L b" using assms(2) by auto
  then show ?thesis using key_lib_okD(4) [OF assms(1) b(1)] by simp
next
  case False
  then have "pem = kl_pem_encode L (plain_block t der)" using assms(2) by simp
  then show ?thesis using key_lib_okD(5) [OF assms(1), of t der] by simp
qed

lemma private_key_pem_roundtrip:
  assumes L: "key_lib_ok L" and pem: "private_key_to_pem L key password = Inr pem"
  shows "parse_private_key_pem L pem password = Inr key"
proof (cases key)
  case (Rsa_Private k)
  have "(if length password > 0 then map_option (kl_pem_encode L) (kl_encrypt L ''RSA PRIVATE KEY'' (kl_marshal_pkcs1 L k) password)
      else Some (kl_pem_encode L (plain_block ''RSA PRIVATE KEY'' (kl_marshal_pkcs1 L k)))) = Some pem"
    using pem unfolding private_key_to_pem_def Rsa_Private by (simp split: option.splits if_splits)
  from pem_der [OF L this] show ?thesis
    using key_lib_okD(1) [OF L, of k] by (auto simp: parse_private_key_pem_def Rsa_Private)
next
  case (Ecdsa_Private k)
  obtain der where der: "kl_marshal_ec L k = Some der"
    using pem unfolding private_key_to_pem_def Ecdsa_Private by (cases "kl_marshal_ec L k") simp_all
  have "(if length password > 0 then map_option (kl_pem_encode L) (kl_encrypt L ''EC PRIVATE KEY'' der password)
      else Some (kl_pem_encode L (plain_block ''EC PRIVATE KEY'' der))) = Some pem"
    using pem der unfolding private_key_to_pem_def Ecdsa_Private by (simp split: option.splits if_splits)
  from pem_der [OF L this] show ?thesis
    using key_lib_okD(2) [OF L der] by (auto simp: parse_private_key_pem_def Ecdsa_Private)
next
  case Other_Private
  with pem show ?thesis by (simp add: private_key_to_pem_def)
qed

lemma write_file_None:
  "write_file io path mode data fs = (None, fs') \<Longrightarrow>
     fs' = fs(path \<mapsto> \<lparr>fi_mode = (case fs path of None \<Rightarrow> mode | Some f \<Rightarrow> fi_mode f), fi_content = data\<rparr>)"
  by (auto simp: write_file_def Let_def split: if_splits option.splits)

lemma write_file_other: "q \<noteq> path \<Longrightarrow> snd (write_file io path mode data fs) q = fs q"
  by (auto simp: write_file_def Let_def split: option.split)

lemma save_load_private_key:
  assumes "key_lib_ok L" "save_private_key_pem io L key path password fs = (None, fs')" "io_read io path"
  shows "load_private_key_pem io L path password fs' = Inr key"
proof -
  obtain pem where pem: "private_key_to_pem L key password = Inr pem"
    and w: "write_file io path mode_0600 pem fs = (None, fs')"
    using assms(2) by (auto simp: save_private_key_pem_def split: sum.splits prod.splits)
  show ?thesis
    using private_key_pem_roundtrip [OF assms(1) pem] assms(3)
    by (simp add: write_file_None [OF w] load_private_key_pem_def read_file_def)
qed

lemma save_load_public_key:
  assumes "key_lib_ok L" "save_public_key_pem io L key path fs = (None, fs')" "io_read io path"
  shows "load_public_key_pem io L path fs' = Inr key"
proof -
  obtain pem where pem: "public_key_to_pem L key = Inr pem"
    and w: "write_file io path mode_0644 pem fs = (None, fs')"
    using assms(2) by (auto simp: save_public_key_pem_def split: sum.splits prod.splits)
  have "\<exists>der. kl_marshal_pkix L key = Some der \<and> pem = kl_pem_encode L (plain_block ''PUBLIC KEY'' der)"
    using pem by (auto simp: public_key_to_pem_def split: option.splits)
  then show ?thesis
    using assms(3) key_lib_okD(3,5) [OF assms(1)]
    by (auto simp: write_file_None [OF w] load_public_key_pem_def read_file_def)
qed

text \<open>Whatever happens, a private key only reaches its own path, and a new file is the owner's alone.\<close>

lemma save_private_key_confined:
  assumes "save_private_key_pem io L key path password fs = (e, fs')"
  shows "(\<forall>q. q \<noteq> path \<longrightarrow> fs' q = fs q) \<and> (fs path = None \<longrightarrow> (\<forall>f. fs' path = Some f \<longrightarrow> fi_mode f = mode_0600))"
  using assms by (auto simp: save_private_key_pem_def write_file_def Let_def split: sum.splits if_splits option.splits)

end
