(* ===== verification/Csr_Generation.thy ===== *)
theory Csr_Generation
  imports Keygen Go_Url
begin

text \<open>
  The command that generates keys and certificate signing requests, \<open>cmd/ans-cli/cmd/generate_csr.go\<close>.
  Creating a request from a template and a key (\<open>x509.CreateCertificateRequest\<close>) and joining paths are
  parameters beside those of \<open>Keygen\<close>; what the command prints is in \<open>Cli_Print\<close>.
\<close>

section \<open>Planning\<close>

definition key_type_rsa :: string where "key_type_rsa = ''rsa''"
definition key_type_ec :: string where "key_type_ec = ''ec''"
definition csr_type_identity :: string where "csr_type_identity = ''identity''"
definition csr_type_server :: string where "csr_type_server = ''server''"
definition csr_type_both :: string where "csr_type_both = ''both''"

record generate_csr_params =
  gp_host :: string
  gp_org :: string
  gp_country :: string
  gp_version :: string
  gp_out_dir :: string
  gp_key_type :: string
  gp_key_size :: int
  gp_csr_type :: string

text \<open>A resolved generator: the key it makes is determined by its algorithm and size.\<close>

datatype key_generator = Generate_RSA int | Generate_EC key_curve

record csr_job =
  cj_name :: string
  cj_new_key :: key_generator
  cj_key_label :: string

datatype generate_error =
  Generate_Csr_Type string
  | Generate_Key_Type string
  | Generate_Key_Size int
  | Generate_Registry_Rejects string string
  | Generate_Mkdir
  | Generate_Key string key_error
  | Generate_Uri string
  | Generate_Create string
  | Generate_Write_Key string key_error
  | Generate_Write_Csr string file_error

definition csr_names :: "unicode \<Rightarrow> string \<Rightarrow> generate_error + string list" where
  "csr_names u csr_type =
     (let t = to_lower u csr_type in
      if t = csr_type_both then Inr [csr_type_identity, csr_type_server]
      else if t = csr_type_identity then Inr [csr_type_identity]
      else if t = csr_type_server then Inr [csr_type_server]
      else Inl (Generate_Csr_Type csr_type))"

definition default_key_type :: "string \<Rightarrow> string" where
  "default_key_type name = (if name = csr_type_server then key_type_rsa else key_type_ec)"

definition registry_rules :: "string \<Rightarrow> csr_rules" where
  "registry_rules name = (if name = csr_type_server then server_rules else identity_rules)"

definition check_registry_rules :: "unicode \<Rightarrow> string \<Rightarrow> string \<Rightarrow> int \<Rightarrow> generate_error option" where
  "check_registry_rules u name key_type rsa_bits =
     (let rules = registry_rules name;
          accepted = allows_curve rules CurveP256;
          accepted = (if to_lower u key_type = key_type_rsa
                      then rsa_bits \<ge> 0 \<and> allows_rsa_key_size rules (nat rsa_bits) else accepted)
      in if accepted then None else Some (Generate_Registry_Rejects name (describe rules)))"

definition new_key_generator :: "unicode \<Rightarrow> string \<Rightarrow> int \<Rightarrow> generate_error + key_generator \<times> string" where
  "new_key_generator u key_type rsa_bits =
     (let t = to_lower u key_type in
      if t = key_type_rsa then
        (if rsa_bits < min_rsa_key_size then Inl (Generate_Key_Size rsa_bits)
         else Inr (Generate_RSA rsa_bits, ''RSA '' @ show_nat (nat rsa_bits) @ '' bits''))
      else if t = key_type_ec then Inr (Generate_EC P256, ''EC '' @ CurveP256)
      else Inl (Generate_Key_Type key_type))"

fun plan_jobs :: "unicode \<Rightarrow> generate_csr_params \<Rightarrow> string list \<Rightarrow> generate_error + csr_job list" where
  "plan_jobs u p [] = Inr []"
| "plan_jobs u p (name # names) =
     (let key_type = (if gp_key_type p = [] then default_key_type name else gp_key_type p) in
      case new_key_generator u key_type (gp_key_size p) of
        Inl e \<Rightarrow> Inl e
      | Inr (new_key, label) \<Rightarrow>
      case check_registry_rules u name key_type (gp_key_size p) of
        Some e \<Rightarrow> Inl e
      | None \<Rightarrow>
      case plan_jobs u p names of
        Inl e \<Rightarrow> Inl e
      | Inr jobs \<Rightarrow> Inr (\<lparr>cj_name = name, cj_new_key = new_key, cj_key_label = label\<rparr> # jobs))"

definition plan_csr_jobs :: "unicode \<Rightarrow> generate_csr_params \<Rightarrow> generate_error + csr_job list" where
  "plan_csr_jobs u p = (case csr_names u (gp_csr_type p) of Inl e \<Rightarrow> Inl e | Inr names \<Rightarrow> plan_jobs u p names)"

section \<open>Writing\<close>

record csr_template =
  ct_common_name :: string
  ct_organization :: "string list"
  ct_country :: "string list"
  ct_dns_names :: "string list"
  ct_uris :: "url list"

record ('r, 'e, 'p, 'q) csr_env =
  ge_unicode :: unicode
  ge_io :: file_io
  ge_keys :: "('r, 'e, 'p, 'q) key_lib"
  ge_create :: "csr_template \<Rightarrow> ('r, 'e) private_key \<Rightarrow> bytes option"
  ge_join :: "string \<Rightarrow> string \<Rightarrow> string"
  ge_bracket_ok :: "string \<Rightarrow> bool"

definition run_generator :: "('r, 'e, 'p, 'q) key_lib \<Rightarrow> key_generator \<Rightarrow> key_error + ('r, 'e) private_key" where
  "run_generator L g =
     (case g of
        Generate_RSA bits \<Rightarrow> rbind (generate_rsa_key_pair L bits) (\<lambda>k. Inr (Rsa_Private k))
      | Generate_EC curve \<Rightarrow> rbind (generate_ec_key_pair L (Some curve)) (\<lambda>k. Inr (Ecdsa_Private k)))"

definition csr_template_of :: "generate_csr_params \<Rightarrow> url \<Rightarrow> csr_template" where
  "csr_template_of p uri =
     \<lparr>ct_common_name = gp_host p, ct_organization = [gp_org p], ct_country = [gp_country p],
      ct_dns_names = [gp_host p], ct_uris = [uri]\<rparr>"

definition generate_csr ::
  "('r, 'e, 'p, 'q) csr_env \<Rightarrow> generate_csr_params \<Rightarrow> string \<Rightarrow> csr_job \<Rightarrow> files \<Rightarrow> generate_error option \<times> files" where
  "generate_csr env p ans_uri job fs =
     (let name = cj_name job in
      case run_generator (ge_keys env) (cj_new_key job) of
        Inl e \<Rightarrow> (Some (Generate_Key name e), fs)
      | Inr key \<Rightarrow>
      case url_parse (ge_bracket_ok env) ans_uri of
        None \<Rightarrow> (Some (Generate_Uri name), fs)
      | Some uri \<Rightarrow>
      case ge_create env (csr_template_of p uri) key of
        None \<Rightarrow> (Some (Generate_Create name), fs)
      | Some der \<Rightarrow>
      case save_private_key_pem (ge_io env) (ge_keys env) key (ge_join env (gp_out_dir p) (name @ ''.key'')) [] fs of
        (Some e, fs1) \<Rightarrow> (Some (Generate_Write_Key name e), fs1)
      | (None, fs1) \<Rightarrow>
      case write_file (ge_io env) (ge_join env (gp_out_dir p) (name @ ''.csr'')) mode_0600
             (pem_encode pem_type_csr der) fs1 of
        (e, fs2) \<Rightarrow> (map_option (Generate_Write_Csr name) e, fs2))"

fun generate_jobs ::
  "('r, 'e, 'p, 'q) csr_env \<Rightarrow> generate_csr_params \<Rightarrow> string \<Rightarrow> csr_job list \<Rightarrow> files \<Rightarrow> generate_error option \<times> files" where
  "generate_jobs env p ans_uri [] fs = (None, fs)"
| "generate_jobs env p ans_uri (job # jobs) fs =
     (case generate_csr env p ans_uri job fs of
        (Some e, fs') \<Rightarrow> (Some e, fs')
      | (None, fs') \<Rightarrow> generate_jobs env p ans_uri jobs fs')"

definition run_generate_csr ::
  "('r, 'e, 'p, 'q) csr_env \<Rightarrow> generate_csr_params \<Rightarrow> files \<Rightarrow> generate_error option \<times> files" where
  "run_generate_csr env p fs =
     (case plan_csr_jobs (ge_unicode env) p of
        Inl e \<Rightarrow> (Some e, fs)
      | Inr jobs \<Rightarrow>
          if \<not> io_mkdir (ge_io env) (gp_out_dir p) then (Some Generate_Mkdir, fs)
          else generate_jobs env p (''ans://v'' @ gp_version p @ ''.'' @ gp_host p) jobs fs)"

section \<open>What is planned is accepted\<close>

text \<open>The public key of what a generator makes, as the intake rules see it.\<close>

definition planned_key :: "key_generator \<Rightarrow> csr_public_key" where
  "planned_key g =
     (case g of
        Generate_RSA bits \<Rightarrow> Rsa_Public (nat bits)
      | Generate_EC curve \<Rightarrow> Ec_Public (case curve of P256 \<Rightarrow> ''P-256'' | P384 \<Rightarrow> ''P-384'' | P521 \<Rightarrow> ''P-521''))"

text \<open>A job the registry would take: its key passes the rules of its certificate type.\<close>

definition job_ok :: "csr_job \<Rightarrow> bool" where
  "job_ok j \<longleftrightarrow>
     cj_name j \<in> {csr_type_identity, csr_type_server}
     \<and> check_public_key (registry_rules (cj_name j)) (planned_key (cj_new_key j)) [] = None
     \<and> (case cj_new_key j of Generate_RSA bits \<Rightarrow> min_rsa_key_size \<le> bits | Generate_EC c \<Rightarrow> c = P256)"

lemma planned_key_accepted:
  assumes "new_key_generator u t bits = Inr (g, label)" "check_registry_rules u name t bits = None"
    "name \<in> {csr_type_identity, csr_type_server}"
  shows "job_ok \<lparr>cj_name = name, cj_new_key = g, cj_key_label = label\<rparr>"
proof -
  have ne: "key_type_ec \<noteq> key_type_rsa" by (simp add: key_type_ec_def key_type_rsa_def)
  show ?thesis
    using assms ne
    by (auto simp: new_key_generator_def check_registry_rules_def job_ok_def planned_key_def check_public_key_None
        allows_rsa_key_size_def allows_curve_def CurveP256_def Let_def split: if_splits)
qed

lemma plan_jobs_ok:
  "plan_jobs u p names = Inr jobs \<Longrightarrow> set names \<subseteq> {csr_type_identity, csr_type_server} \<Longrightarrow>
     list_all job_ok jobs \<and> map cj_name jobs = names"
proof (induction names arbitrary: jobs)
  case (Cons name names)
  let ?t = "if gp_key_type p = [] then default_key_type name else gp_key_type p"
  obtain g label rest where j: "new_key_generator u ?t (gp_key_size p) = Inr (g, label)"
    "check_registry_rules u name ?t (gp_key_size p) = None" "plan_jobs u p names = Inr rest"
    "jobs = \<lparr>cj_name = name, cj_new_key = g, cj_key_label = label\<rparr> # rest"
    using Cons.prems(1)
    by (simp only: plan_jobs.simps Let_def) (auto split: sum.splits prod.splits option.splits)
  then show ?case using Cons.IH [OF j(3)] planned_key_accepted [OF j(1,2)] Cons.prems(2) by auto
qed auto

lemma plan_csr_jobs_ok:
  assumes "plan_csr_jobs u p = Inr jobs"
  shows "list_all job_ok jobs \<and> distinct (map cj_name jobs) \<and> jobs \<noteq> []"
proof -
  obtain names where n: "csr_names u (gp_csr_type p) = Inr names" "plan_jobs u p names = Inr jobs"
    using assms by (auto simp: plan_csr_jobs_def split: sum.splits)
  have "set names \<subseteq> {csr_type_identity, csr_type_server} \<and> distinct names \<and> names \<noteq> []"
    using n(1) by (auto simp: csr_names_def Let_def csr_type_identity_def csr_type_server_def split: if_splits)
  then show ?thesis using plan_jobs_ok [OF n(2)] by auto
qed

section \<open>What is written passes the preflight\<close>

text \<open>
  What \<open>crypto/x509\<close>, \<open>encoding/pem\<close> and the key generators promise: a generated key has the size or the
  curve asked for; a PEM block is found again; and a created request whose URIs have hosts of proper labels parses
  to one with the key's public half, the default signature algorithm of the key and a valid signature. Creating a
  request does not look at the labels, parsing does: a URI whose host has an empty one, such as a host name with a dot
  at its end, makes a request that cannot be parsed. Releases of Go differ in the length they allow, so nothing is
  said of hosts and labels longer than those of the DNS.
\<close>

definition parseable_host :: "string \<Rightarrow> bool" where
  "parseable_host host \<longleftrightarrow>
     host = [] \<or> list_all (\<lambda>label. label \<noteq> [] \<and> list_all (\<lambda>c. 33 \<le> byte_val c \<and> byte_val c \<le> 126) label) (split_on CHR ''.'' host)"

definition default_signature :: "csr_public_key \<Rightarrow> signature_algorithm" where
  "default_signature pk =
     (case pk of
        Rsa_Public n \<Rightarrow> SHA256WithRSA
      | Ec_Public c \<Rightarrow> if c = ''P-256'' then ECDSAWithSHA256 else if c = ''P-384'' then ECDSAWithSHA384 else ECDSAWithSHA512
      | Other_Public \<Rightarrow> UnknownSignatureAlgorithm)"

definition short_host :: "string \<Rightarrow> bool" where
  "short_host host \<longleftrightarrow> length host \<le> 253 \<and> list_all (\<lambda>label. length label \<le> 63) (split_on CHR ''.'' host)"

definition csr_creation_ok ::
  "('r, 'e, 'p, 'q) csr_env \<Rightarrow> csr_lib \<Rightarrow> (('r, 'e) private_key \<Rightarrow> csr_public_key) \<Rightarrow> bool" where
  "csr_creation_ok env C pub \<longleftrightarrow>
     (\<forall>n k. kl_generate_rsa (ge_keys env) n = Some k \<longrightarrow> pub (Rsa_Private k) = planned_key (Generate_RSA n))
     \<and> (\<forall>c k. kl_generate_ec (ge_keys env) c = Some k \<longrightarrow> pub (Ecdsa_Private k) = planned_key (Generate_EC c))
     \<and> (\<forall>tmpl k der. ge_create env tmpl k = Some der \<longrightarrow> \<not> list_all (parseable_host \<circ> url_host) (ct_uris tmpl) \<longrightarrow>
          (\<exists>e. cl_parse C der = Inl e))
     \<and> (\<forall>tmpl k der. ge_create env tmpl k = Some der \<longrightarrow>
          list_all (\<lambda>u. parseable_host (url_host u) \<and> short_host (url_host u)) (ct_uris tmpl) \<longrightarrow>
          (\<exists>csr. cl_parse C der = Inr csr \<and> crq_public_key csr = pub k
               \<and> crq_signature_algorithm csr = default_signature (pub k) \<and> crq_signature_error csr = None))
     \<and> (\<forall>der. cl_pem_decode C (pem_encode pem_type_csr der) = Some (plain_block pem_type_csr der))"

lemma csr_creation_okD:
  assumes "csr_creation_ok env C pub"
  shows "cl_pem_decode C (pem_encode pem_type_csr der) = Some (plain_block pem_type_csr der)"
    "ge_create env tmpl k = Some der \<Longrightarrow> \<not> list_all (parseable_host \<circ> url_host) (ct_uris tmpl) \<Longrightarrow> \<exists>e. cl_parse C der = Inl e"
    "ge_create env tmpl k = Some der \<Longrightarrow>
       list_all (\<lambda>u. parseable_host (url_host u) \<and> short_host (url_host u)) (ct_uris tmpl) \<Longrightarrow>
       \<exists>csr. cl_parse C der = Inr csr \<and> crq_public_key csr = pub k
         \<and> crq_signature_algorithm csr = default_signature (pub k) \<and> crq_signature_error csr = None"
  using assms unfolding csr_creation_ok_def by simp_all

lemma run_generator_key:
  "csr_creation_ok env C pub \<Longrightarrow> run_generator (ge_keys env) g = Inr key \<Longrightarrow> pub key = planned_key g"
  by (cases g) (auto simp: run_generator_def generate_rsa_key_pair_def generate_ec_key_pair_def csr_creation_ok_def
      split: if_splits)

lemma default_signature_accepted:
  "check_public_key (registry_rules name) pk alg = None \<Longrightarrow> (\<exists>n. pk = Rsa_Public n) \<or> pk = Ec_Public CurveP256 \<Longrightarrow>
     default_signature pk \<in> set (ru_signature_algorithms (registry_rules name))"
  by (auto simp: check_public_key_None registry_rules_def default_signature_def identity_rules_def server_rules_def
      CurveP256_def split: if_splits)

text \<open>One job: its request is accepted by the very rules of the commands that submit it, if it can be parsed at all.\<close>

lemma created_csr_valid:
  assumes C: "csr_creation_ok env C pub" and j: "job_ok job"
    and key: "run_generator (ge_keys env) (cj_new_key job) = Inr key"
    and der: "ge_create env (csr_template_of p u) key = Some der"
  shows "parseable_host (url_host u) \<Longrightarrow> short_host (url_host u) \<Longrightarrow>
      \<exists>csr. validate_csr C (pem_encode pem_type_csr der) (registry_rules (cj_name job)) = Inr csr"
    and "\<not> parseable_host (url_host u) \<Longrightarrow>
      validate_csr C (pem_encode pem_type_csr der) (registry_rules (cj_name job)) \<noteq> Inr csr'"
proof -
  have dec: "cl_pem_decode C (pem_encode pem_type_csr der) = Some (plain_block pem_type_csr der)"
    using C by (rule csr_creation_okD(1))
  show "validate_csr C (pem_encode pem_type_csr der) (registry_rules (cj_name job)) \<noteq> Inr csr'"
    if "\<not> parseable_host (url_host u)"
  proof -
    have "\<not> list_all (parseable_host \<circ> url_host) (ct_uris (csr_template_of p u))"
      using that by (simp add: csr_template_of_def)
    then obtain e where "cl_parse C der = Inl e" using csr_creation_okD(2) [OF C der] by blast
    then show ?thesis using dec by (simp add: validate_csr_Inr plain_block_def)
  qed
  assume "parseable_host (url_host u)" "short_host (url_host u)"
  then have uris: "list_all (\<lambda>u. parseable_host (url_host u) \<and> short_host (url_host u)) (ct_uris (csr_template_of p u))"
    by (simp add: csr_template_of_def)
  obtain csr where csr: "cl_parse C der = Inr csr" "crq_public_key csr = planned_key (cj_new_key job)"
    "crq_signature_algorithm csr = default_signature (planned_key (cj_new_key job))" "crq_signature_error csr = None"
    using csr_creation_okD(3) [OF C der uris] run_generator_key [OF C key] by auto
  have k: "check_public_key (registry_rules (cj_name job)) (planned_key (cj_new_key job)) [] = None"
    "(\<exists>n. planned_key (cj_new_key job) = Rsa_Public n) \<or> planned_key (cj_new_key job) = Ec_Public CurveP256"
    using j by (auto simp: job_ok_def planned_key_def CurveP256_def split: key_generator.splits)
  have "check_csr (registry_rules (cj_name job)) csr = None"
    using k(1) default_signature_accepted [OF k] csr(2-4) by (simp add: check_csr_None check_public_key_None)
  then have "validate_csr C (pem_encode pem_type_csr der) (registry_rules (cj_name job)) = Inr csr"
    using dec csr(1) by (simp add: validate_csr_Inr plain_block_def)
  then show "\<exists>csr. validate_csr C (pem_encode pem_type_csr der) (registry_rules (cj_name job)) = Inr csr" by blast
qed

text \<open>What one file holds: a request that passes or, for a host that cannot be parsed, one that does not.\<close>

definition csr_file_passes :: "csr_lib \<Rightarrow> files \<Rightarrow> string \<Rightarrow> csr_rules \<Rightarrow> string \<Rightarrow> bool" where
  "csr_file_passes C fs path rules host \<longleftrightarrow>
     (\<exists>f. fs path = Some f
        \<and> (parseable_host host \<longrightarrow> short_host host \<longrightarrow> (\<exists>csr. validate_csr C (fi_content f) rules = Inr csr))
        \<and> (\<not> parseable_host host \<longrightarrow> (\<nexists>csr. validate_csr C (fi_content f) rules = Inr csr)))"

lemma generate_csr_valid:
  assumes C: "csr_creation_ok env C pub" and j: "job_ok job"
    and g: "generate_csr env p uri job fs = (None, fs')"
  shows "\<exists>u. url_parse (ge_bracket_ok env) uri = Some u
     \<and> csr_file_passes C fs' (ge_join env (gp_out_dir p) (cj_name job @ ''.csr'')) (registry_rules (cj_name job))
         (url_host u)"
    and "q \<notin> {ge_join env (gp_out_dir p) (cj_name job @ ''.csr''), ge_join env (gp_out_dir p) (cj_name job @ ''.key'')} \<Longrightarrow>
       fs' q = fs q"
proof -
  obtain key u der fs1 where s: "run_generator (ge_keys env) (cj_new_key job) = Inr key" "url_parse (ge_bracket_ok env) uri = Some u"
    "ge_create env (csr_template_of p u) key = Some der"
    "save_private_key_pem (ge_io env) (ge_keys env) key (ge_join env (gp_out_dir p) (cj_name job @ ''.key'')) [] fs = (None, fs1)"
    "write_file (ge_io env) (ge_join env (gp_out_dir p) (cj_name job @ ''.csr'')) mode_0600 (pem_encode pem_type_csr der) fs1
       = (None, fs')"
    using g by (auto simp: generate_csr_def Let_def split: sum.splits option.splits prod.splits)
  show "\<exists>u. url_parse (ge_bracket_ok env) uri = Some u
     \<and> csr_file_passes C fs' (ge_join env (gp_out_dir p) (cj_name job @ ''.csr'')) (registry_rules (cj_name job))
         (url_host u)"
    using s(2) created_csr_valid [OF C j s(1,3)] by (simp add: csr_file_passes_def write_file_None [OF s(5)])
  show "fs' q = fs q"
    if "q \<notin> {ge_join env (gp_out_dir p) (cj_name job @ ''.csr''), ge_join env (gp_out_dir p) (cj_name job @ ''.key'')}"
    using that save_private_key_confined [OF s(4)] by (simp add: write_file_None [OF s(5)])
qed

text \<open>The file names of the two certificate types stay apart in the output directory.\<close>

definition join_apart :: "(string \<Rightarrow> string \<Rightarrow> string) \<Rightarrow> string \<Rightarrow> bool" where
  "join_apart join dir \<longleftrightarrow>
     inj_on (join dir) {''identity.key'', ''identity.csr'', ''server.key'', ''server.csr''}"

lemma join_apart_names:
  assumes "join_apart join dir" "a \<in> {csr_type_identity, csr_type_server}" "b \<in> {csr_type_identity, csr_type_server}" "a \<noteq> b"
  shows "join dir (a @ ''.csr'') \<notin> {join dir (b @ ''.csr''), join dir (b @ ''.key'')}"
proof -
  define S where "S = {''identity.key'', ''identity.csr'', ''server.key'', ''server.csr''}"
  have "inj_on (join dir) S" using assms(1) by (simp only: join_apart_def S_def)
  then have i: "x = y" if "join dir x = join dir y" "x \<in> S" "y \<in> S" for x y
    using that by (rule inj_onD)
  have m: "a @ ''.csr'' \<in> S" "b @ ''.csr'' \<in> S" "b @ ''.key'' \<in> S"
    using assms(2,3) by (auto simp: csr_type_identity_def csr_type_server_def S_def)
  have "a @ ''.csr'' \<noteq> b @ ''.csr''" "a @ ''.csr'' \<noteq> b @ ''.key''"
    using assms(2-4) by (auto simp: csr_type_identity_def csr_type_server_def)
  then have "join dir (a @ ''.csr'') \<noteq> join dir (b @ ''.csr'')" "join dir (a @ ''.csr'') \<noteq> join dir (b @ ''.key'')"
    using i [OF _ m(1,2)] i [OF _ m(1,3)] by blast+
  then show ?thesis by simp
qed

lemma generate_jobs_valid:
  assumes "csr_creation_ok env C pub" "join_apart (ge_join env) (gp_out_dir p)" "url_parse (ge_bracket_ok env) uri = Some u"
  shows "generate_jobs env p uri jobs fs = (None, fs') \<Longrightarrow> list_all job_ok jobs \<Longrightarrow> distinct (map cj_name jobs) \<Longrightarrow>
     (\<forall>job\<in>set jobs. csr_file_passes C fs' (ge_join env (gp_out_dir p) (cj_name job @ ''.csr''))
        (registry_rules (cj_name job)) (url_host u))
     \<and> (\<forall>name \<in> {csr_type_identity, csr_type_server}. name \<notin> cj_name ` set jobs \<longrightarrow>
          fs' (ge_join env (gp_out_dir p) (name @ ''.csr'')) = fs (ge_join env (gp_out_dir p) (name @ ''.csr'')))"
proof (induction jobs arbitrary: fs)
  case (Cons job jobs)
  obtain fs1 where g: "generate_csr env p uri job fs = (None, fs1)" "generate_jobs env p uri jobs fs1 = (None, fs')"
    using Cons.prems(1) by (auto split: prod.splits option.splits)
  have job: "job_ok job" using Cons.prems(2) by simp
  then have n: "cj_name job \<in> {csr_type_identity, csr_type_server}" by (simp add: job_ok_def)
  have rest: "list_all job_ok jobs" "distinct (map cj_name jobs)" "cj_name job \<notin> cj_name ` set jobs"
    using Cons.prems(2,3) by simp_all
  note IH = Cons.IH [OF g(2) rest(1,2)]
  have "fs' (ge_join env (gp_out_dir p) (cj_name job @ ''.csr'')) = fs1 (ge_join env (gp_out_dir p) (cj_name job @ ''.csr''))"
    using IH n rest(3) by blast
  then have "csr_file_passes C fs' (ge_join env (gp_out_dir p) (cj_name job @ ''.csr''))
        (registry_rules (cj_name job)) (url_host u)"
    using generate_csr_valid(1) [OF assms(1) job g(1)] assms(3) by (simp add: csr_file_passes_def)
  moreover have "fs' (ge_join env (gp_out_dir p) (name @ ''.csr'')) = fs (ge_join env (gp_out_dir p) (name @ ''.csr''))"
    if "name \<in> {csr_type_identity, csr_type_server}" "name \<notin> cj_name ` set (job # jobs)" for name
  proof -
    have "name \<noteq> cj_name job" "name \<notin> cj_name ` set jobs" using that(2) by auto
    with IH that(1) have "fs' (ge_join env (gp_out_dir p) (name @ ''.csr'')) = fs1 (ge_join env (gp_out_dir p) (name @ ''.csr''))"
      by blast
    also have "\<dots> = fs (ge_join env (gp_out_dir p) (name @ ''.csr''))"
      using \<open>name \<noteq> cj_name job\<close>
      by (intro generate_csr_valid(2) [OF assms(1) job g(1)] join_apart_names [OF assms(2) that(1) n])
    finally show ?thesis .
  qed
  ultimately show ?case using IH by simp
qed auto

lemma run_generate_csr_valid:
  assumes "csr_creation_ok env C pub" "join_apart (ge_join env) (gp_out_dir p)"
    and "run_generate_csr env p fs = (None, fs')"
  shows "\<exists>jobs u. plan_csr_jobs (ge_unicode env) p = Inr jobs \<and> jobs \<noteq> []
     \<and> url_parse (ge_bracket_ok env) (''ans://v'' @ gp_version p @ ''.'' @ gp_host p) = Some u
     \<and> (\<forall>job\<in>set jobs. csr_file_passes C fs' (ge_join env (gp_out_dir p) (cj_name job @ ''.csr''))
          (registry_rules (cj_name job)) (url_host u))"
proof -
  obtain jobs where j: "plan_csr_jobs (ge_unicode env) p = Inr jobs"
    "generate_jobs env p (''ans://v'' @ gp_version p @ ''.'' @ gp_host p) jobs fs = (None, fs')"
    using assms(3) unfolding run_generate_csr_def by (auto split: sum.splits if_splits)
  note ok = plan_csr_jobs_ok [OF j(1)]
  then obtain job rest where "jobs = job # rest" by (cases jobs) auto
  then obtain fs1 where "generate_csr env p (''ans://v'' @ gp_version p @ ''.'' @ gp_host p) job fs = (None, fs1)"
    using j(2) by (auto split: prod.splits option.splits)
  then obtain u where "url_parse (ge_bracket_ok env) (''ans://v'' @ gp_version p @ ''.'' @ gp_host p) = Some u"
    using ok \<open>jobs = job # rest\<close> generate_csr_valid(1) [OF assms(1)] by fastforce
  with generate_jobs_valid [OF assms(1,2) _ j(2)] ok j(1) show ?thesis by blast
qed

end
