(* ===== verification/Go_Json.thy ===== *)
theory Go_Json
  imports Go_Utf8 "HOL-Library.AList"
begin

text \<open>
  JSON text as Go's \<open>encoding/json\<close> reads and writes it: values, the scanner and the decoder of
  \<open>json.Unmarshal\<close> (which checks the whole text first), the compact printer of \<open>json.Marshal\<close>, and the
  matching of object members to the fields of a struct. Numbers keep their literal. Member order and
  duplicate members are kept, since decoding into a struct lets a later member overwrite an earlier one.
\<close>

datatype json =
  JNull | JBool bool | JNum string | JStr string | JArr "json list" | JObj "(string \<times> json) list"

abbreviation quote_char :: char where "quote_char \<equiv> CHR 0x22"
abbreviation backslash :: char where "backslash \<equiv> CHR 0x5C"

section \<open>Strings\<close>

text \<open>Four hexadecimal digits.\<close>

definition take_u4 :: "string \<Rightarrow> (nat \<times> string) option" where
  "take_u4 s =
     (case hex_decode (take 4 s) of
        Some [a, b] \<Rightarrow> Some (256 * byte_val a + byte_val b, drop 4 s)
      | _ \<Rightarrow> None)"

text \<open>A low surrogate escape that completes the high surrogate \<open>v\<close>.\<close>

definition surrogate_pair :: "nat \<Rightarrow> string \<Rightarrow> (nat \<times> string) option" where
  "surrogate_pair v s =
     (if 55296 \<le> v \<and> v < 56320 \<and> has_prefix s [backslash, CHR ''u''] then
        (case take_u4 (drop 2 s) of
           None \<Rightarrow> None
         | Some (w, r) \<Rightarrow>
             if 56320 \<le> w \<and> w < 57344 then Some ((v - 55296) * 1024 + (w - 56320) + 65536, r) else None)
      else None)"

text \<open>The bytes of an escaped code unit and the text after it; a lone surrogate reads as U+FFFD.\<close>

definition escape_rune :: "nat \<Rightarrow> string \<Rightarrow> string \<times> string" where
  "escape_rune v s =
     (if 55296 \<le> v \<and> v < 57344 then
        (case surrogate_pair v s of Some (x, r) \<Rightarrow> (encode_rune x, r) | None \<Rightarrow> (replacement, s))
      else (encode_rune v, s))"

definition escapes :: "(char \<times> char) list" where
  "escapes =
     [(quote_char, quote_char), (backslash, backslash), (CHR ''/'', CHR ''/''), (CHR ''b'', CHR 0x08),
      (CHR ''f'', CHR 0x0C), (CHR ''n'', CHR 0x0A), (CHR ''r'', CHR 0x0D), (CHR ''t'', CHR 0x09)]"

text \<open>One element of a string literal: an escape, a rune, or a byte that starts none.\<close>

definition unquote_escape :: "string \<Rightarrow> (string \<times> string) option" where
  "unquote_escape s =
     (case s of
        [] \<Rightarrow> None
      | e # r \<Rightarrow>
          if e = CHR ''u'' then (case take_u4 r of None \<Rightarrow> None | Some (v, r') \<Rightarrow> Some (escape_rune v r'))
          else map_option (\<lambda>b. ([b], r)) (map_of escapes e))"

definition unquote_step :: "char \<Rightarrow> string \<Rightarrow> (string \<times> string) option" where
  "unquote_step c cs =
     (if c = backslash then unquote_escape cs
      else if byte_val c < 32 then None
      else let n = rune_len (c # cs) in
        if n = 0 then Some (replacement, cs) else Some (take n (c # cs), drop n (c # cs)))"

lemma take_u4_less: "take_u4 s = Some (v, r) \<Longrightarrow> length r \<le> length s"
  by (auto simp: take_u4_def split: option.splits list.splits)

lemma escape_rune_le: "escape_rune v s = (e, r) \<Longrightarrow> length r \<le> length s"
  by (auto simp: escape_rune_def surrogate_pair_def dest!: take_u4_less split: if_splits option.splits)

lemma unquote_step_le:
  assumes "unquote_step c cs = Some (e, r)"
  shows "length r \<le> length cs"
proof (cases "c = backslash")
  case True
  with assms have *: "unquote_escape cs = Some (e, r)" by (simp add: unquote_step_def)
  then obtain x xs where cs: "cs = x # xs" by (cases cs) (auto simp: unquote_escape_def)
  show ?thesis
  proof (cases "x = CHR ''u''")
    case True
    with * cs obtain v r' where "take_u4 xs = Some (v, r')" "escape_rune v r' = (e, r)"
      by (auto simp: unquote_escape_def split: option.splits)
    then show ?thesis using take_u4_less escape_rune_le cs by fastforce
  next
    case False
    with * cs show ?thesis by (auto simp: unquote_escape_def)
  qed
next
  case False
  with assms show ?thesis by (auto simp: unquote_step_def Let_def split: if_splits)
qed

text \<open>The decoded string and the text behind the closing quote; the opening one has been read.\<close>

function unquote :: "string \<Rightarrow> (string \<times> string) option" where
  "unquote [] = None"
| "unquote (c # cs) =
     (if c = quote_char then Some ([], cs)
      else case unquote_step c cs of
          None \<Rightarrow> None
        | Some (e, r) \<Rightarrow> map_option (\<lambda>(s, rest). (e @ s, rest)) (unquote r))"
  by pat_completeness auto

termination unquote
  by (relation "measure length") (auto dest: unquote_step_le intro: le_imp_less_Suc)

definition hex4 :: "nat \<Rightarrow> string" where
  "hex4 v = hex_encode [char_of (v div 256), char_of (v mod 256)]"

text \<open>Bytes below 0x80 that are written as they are; \<open>&\<close>, \<open><\<close> and \<open>>\<close> are escaped for HTML.\<close>

definition safe_byte :: "char \<Rightarrow> bool" where
  "safe_byte c = (32 \<le> byte_val c \<and> c \<notin> {quote_char, backslash, CHR ''<'', CHR ''>'', CHR ''&''})"

definition quote_ascii :: "char \<Rightarrow> string" where
  "quote_ascii c =
     (if safe_byte c then [c]
      else if c = quote_char \<or> c = backslash then [backslash, c]
      else if c = CHR 0x08 then [backslash, CHR ''b'']
      else if c = CHR 0x0C then [backslash, CHR ''f'']
      else if c = CHR 0x0A then [backslash, CHR ''n'']
      else if c = CHR 0x0D then [backslash, CHR ''r'']
      else if c = CHR 0x09 then [backslash, CHR ''t'']
      else backslash # CHR ''u'' # hex4 (byte_val c))"

text \<open>A rune above 0x7F: the line and paragraph separators U+2028 and U+2029 are escaped.\<close>

definition quote_rune :: "string \<Rightarrow> string" where
  "quote_rune r =
     (if r = encode_rune 8232 then backslash # CHR ''u'' # hex4 8232
      else if r = encode_rune 8233 then backslash # CHR ''u'' # hex4 8233
      else r)"

fun quote_body :: "string \<Rightarrow> string" where
  "quote_body [] = []"
| "quote_body (c # cs) =
     (if byte_val c < 128 then quote_ascii c @ quote_body cs
      else let n = rune_len (c # cs) in
        if n = 0 then backslash # ''ufffd'' @ quote_body cs
        else quote_rune (take n (c # cs)) @ quote_body (drop (n - 1) cs))"

definition quote :: "string \<Rightarrow> string" where
  "quote s = quote_char # quote_body s @ [quote_char]"

section \<open>Numbers\<close>

definition scan_fraction :: "string \<Rightarrow> (string \<times> string) option" where
  "scan_fraction s =
     (if has_prefix s ''.'' then
        let ds = takeWhile is_digit (tl s) in
        if ds = [] then None else Some (CHR ''.'' # ds, dropWhile is_digit (tl s))
      else Some ([], s))"

definition scan_exponent :: "string \<Rightarrow> (string \<times> string) option" where
  "scan_exponent s =
     (case s of
        [] \<Rightarrow> Some ([], s)
      | e # r \<Rightarrow>
          if e = CHR ''e'' \<or> e = CHR ''E'' then
            let sign = (if has_prefix r ''+'' \<or> has_prefix r ''-'' then take 1 r else []);
                r' = drop (length sign) r; ds = takeWhile is_digit r'
            in if ds = [] then None else Some (e # sign @ ds, dropWhile is_digit r')
          else Some ([], s))"

definition scan_integer :: "string \<Rightarrow> (string \<times> string) option" where
  "scan_integer s =
     (let ds = takeWhile is_digit s in
      if ds = [] then None
      else if hd ds = CHR ''0'' then Some ([hd ds], tl s)
      else Some (ds, dropWhile is_digit s))"

definition scan_number :: "string \<Rightarrow> (string \<times> string) option" where
  "scan_number s =
     (let sign = (if has_prefix s ''-'' then ''-'' else []) in
      case scan_integer (drop (length sign) s) of
        None \<Rightarrow> None
      | Some (i, r1) \<Rightarrow>
     case scan_fraction r1 of
        None \<Rightarrow> None
      | Some (f, r2) \<Rightarrow>
     case scan_exponent r2 of
        None \<Rightarrow> None
      | Some (x, r3) \<Rightarrow> Some (sign @ i @ f @ x, r3))"

section \<open>Values\<close>

definition json_space :: "char \<Rightarrow> bool" where
  "json_space c = (c \<in> {CHR '' '', CHR 0x09, CHR 0x0A, CHR 0x0D})"

definition skip_ws :: "string \<Rightarrow> string" where
  "skip_ws s = dropWhile json_space s"

definition parse_literal :: "string \<Rightarrow> (json \<times> string) option" where
  "parse_literal s =
     (if has_prefix s ''null'' then Some (JNull, drop 4 s)
      else if has_prefix s ''true'' then Some (JBool True, drop 4 s)
      else if has_prefix s ''false'' then Some (JBool False, drop 5 s)
      else map_option (\<lambda>(l, r). (JNum l, r)) (scan_number s))"

text \<open>
  The first argument is fuel, the second how much deeper arrays and objects may nest
  (\<open>maxNestingDepth\<close>). A call for a list of elements spends fuel without consuming text once per
  element, so twice the length of the text and two more is enough: see \<open>parse_value_fuel\<close>.
\<close>

fun parse_value :: "nat \<Rightarrow> nat \<Rightarrow> string \<Rightarrow> (json \<times> string) option"
  and parse_elems :: "nat \<Rightarrow> nat \<Rightarrow> string \<Rightarrow> (json list \<times> string) option"
  and parse_members :: "nat \<Rightarrow> nat \<Rightarrow> string \<Rightarrow> ((string \<times> json) list \<times> string) option" where
  "parse_value 0 d s = None"
| "parse_value (Suc n) d s =
     (let t = skip_ws s in
      if has_prefix t [quote_char] then map_option (\<lambda>(x, r). (JStr x, r)) (unquote (tl t))
      else if has_prefix t ''['' then
        (if d = 0 then None
         else if has_prefix (skip_ws (tl t)) '']'' then Some (JArr [], tl (skip_ws (tl t)))
         else map_option (\<lambda>(xs, r). (JArr xs, r)) (parse_elems n (d - 1) (tl t)))
      else if has_prefix t ''{'' then
        (if d = 0 then None
         else if has_prefix (skip_ws (tl t)) ''}'' then Some (JObj [], tl (skip_ws (tl t)))
         else map_option (\<lambda>(xs, r). (JObj xs, r)) (parse_members n (d - 1) (tl t)))
      else parse_literal t)"
| "parse_elems 0 d s = None"
| "parse_elems (Suc n) d s =
     (case parse_value n d s of
        None \<Rightarrow> None
      | Some (v, r) \<Rightarrow>
          let t = skip_ws r in
          if has_prefix t '','' then map_option (\<lambda>(xs, r'). (v # xs, r')) (parse_elems n d (tl t))
          else if has_prefix t '']'' then Some ([v], tl t) else None)"
| "parse_members 0 d s = None"
| "parse_members (Suc n) d s =
     (let t = skip_ws s in
      if \<not> has_prefix t [quote_char] then None
      else case unquote (tl t) of
          None \<Rightarrow> None
        | Some (k, r0) \<Rightarrow>
            let r1 = skip_ws r0 in
            if \<not> has_prefix r1 '':'' then None
            else case parse_value n d (tl r1) of
                None \<Rightarrow> None
              | Some (v, r) \<Rightarrow>
                  let t' = skip_ws r in
                  if has_prefix t' '','' then map_option (\<lambda>(xs, r'). ((k, v) # xs, r')) (parse_members n d (tl t'))
                  else if has_prefix t' ''}'' then Some ([(k, v)], tl t') else None)"

definition max_nesting_depth :: nat where
  "max_nesting_depth = 10000"

definition json_parse :: "string \<Rightarrow> json option" where
  "json_parse s =
     (case parse_value (2 * length s + 2) max_nesting_depth s of
        Some (v, r) \<Rightarrow> if skip_ws r = [] then Some v else None
      | None \<Rightarrow> None)"

text \<open>The first value of a text, which is what one call of \<open>Decoder.Decode\<close> reads.\<close>

definition json_parse_first :: "string \<Rightarrow> json option" where
  "json_parse_first s = map_option fst (parse_value (2 * length s + 2) max_nesting_depth s)"

fun json_print :: "json \<Rightarrow> string" where
  "json_print JNull = ''null''"
| "json_print (JBool b) = (if b then ''true'' else ''false'')"
| "json_print (JNum l) = l"
| "json_print (JStr s) = quote s"
| "json_print (JArr xs) = ''['' @ join_with '','' (map json_print xs) @ '']''"
| "json_print (JObj kvs) = ''{'' @ join_with '','' (map (\<lambda>(k, v). quote k @ '':'' @ json_print v) kvs) @ ''}''"

declare parse_value.simps(2) [simp del] parse_elems.simps(2) [simp del] parse_members.simps(2) [simp del]


section \<open>Decoding into Go values\<close>

text \<open>
  A decoder gets the value the variable holds and returns the one it holds afterwards; \<open>null\<close> leaves
  strings, numbers and structs alone and clears pointers, slices and maps. \<open>None\<close> is a type error:
  \<open>json.Unmarshal\<close> goes on after one but reports it, and the program looks at the report first.
\<close>

type_synonym 'a jdec = "'a \<Rightarrow> json \<Rightarrow> 'a option"

fun all_some :: "'a option list \<Rightarrow> 'a list option" where
  "all_some [] = Some []"
| "all_some (None # xs) = None"
| "all_some (Some x # xs) = map_option (\<lambda>ys. x # ys) (all_some xs)"

fun dec_string :: "string jdec" where
  "dec_string old (JStr s) = Some s"
| "dec_string old JNull = Some old"
| "dec_string old _ = None"

fun dec_bool :: "bool jdec" where
  "dec_bool old (JBool b) = Some b"
| "dec_bool old JNull = Some old"
| "dec_bool old _ = None"

definition parse_int64 :: "string \<Rightarrow> int option" where
  "parse_int64 l =
     (if has_prefix l ''-'' then
        (case parse_uint 64 (tl l) of Some n \<Rightarrow> if n \<le> 2 ^ 63 then Some (- int n) else None | None \<Rightarrow> None)
      else (case parse_uint 63 l of Some n \<Rightarrow> Some (int n) | None \<Rightarrow> None))"

fun dec_int :: "int jdec" where
  "dec_int old (JNum l) = parse_int64 l"
| "dec_int old JNull = Some old"
| "dec_int old _ = None"

fun dec_list :: "'a \<Rightarrow> 'a jdec \<Rightarrow> 'a list jdec" where
  "dec_list zero d old (JArr xs) = all_some (map (d zero) xs)"
| "dec_list zero d old JNull = Some []"
| "dec_list zero d old _ = None"

fun dec_opt :: "'a \<Rightarrow> 'a jdec \<Rightarrow> 'a option jdec" where
  "dec_opt zero d old JNull = Some None"
| "dec_opt zero d old v = map_option Some (d (case old of Some x \<Rightarrow> x | None \<Rightarrow> zero) v)"

text \<open>
  A number that is decoded into an interface becomes a \<open>float64\<close> and must be in its range: its value
  rounds to a finite number when it is below $2^{1024} - 2^{970}$.
\<close>

definition exponent_value :: "string \<Rightarrow> int" where
  "exponent_value s =
     (if has_prefix s ''-'' then - int (dec_val (tl s)) else if has_prefix s ''+'' then int (dec_val (tl s))
      else int (dec_val s))"

definition float_fits :: "string \<Rightarrow> bool" where
  "float_fits l =
     (let s = (if has_prefix l ''-'' then tl l else l);
          i = takeWhile is_digit s; r = dropWhile is_digit s;
          f = (if has_prefix r ''.'' then takeWhile is_digit (tl r) else []);
          k = exponent_value (tl (dropWhile (\<lambda>c. c \<noteq> CHR ''e'' \<and> c \<noteq> CHR ''E'') r)) - int (length f);
          m = dec_val (i @ f); bound = 2 ^ 1024 - 2 ^ 970
      in if k \<ge> 0 then m * 10 ^ nat k < bound else m < bound * 10 ^ nat (- k))"

fun any_ok :: "json \<Rightarrow> bool" where
  "any_ok (JNum l) = float_fits l"
| "any_ok (JArr xs) = list_all any_ok xs"
| "any_ok (JObj kvs) = list_all (\<lambda>kv. any_ok (snd kv)) kvs"
| "any_ok _ = True"

text \<open>\<open>map[string]any\<close>: \<open>None\<close> is a nil map; a later member replaces an earlier one of the same name.\<close>

fun dec_any_map :: "(string \<times> json) list option jdec" where
  "dec_any_map old (JObj kvs) =
     (if list_all (\<lambda>kv. any_ok (snd kv)) kvs
      then Some (Some (foldl (\<lambda>m (k, v). AList.update k v m) (case old of Some m \<Rightarrow> m | None \<Rightarrow> []) kvs))
      else None)"
| "dec_any_map old JNull = Some None"
| "dec_any_map old _ = None"

text \<open>
  Member names match field names up to letter case; the Kelvin sign and the long s fold to the ASCII
  letters k and s, and no other character outside ASCII folds to a letter of a field name.
\<close>

fun fold_name :: "string \<Rightarrow> string" where
  "fold_name [] = []"
| "fold_name (c # cs) =
     (if has_prefix (c # cs) [CHR 0xE2, CHR 0x84, CHR 0xAA] then CHR ''k'' # fold_name (drop 2 cs)
      else if has_prefix (c # cs) [CHR 0xC5, CHR 0xBF] then CHR ''s'' # fold_name (drop 1 cs)
      else ascii_lower c # fold_name cs)"

definition members_of :: "string \<Rightarrow> (string \<times> json) list \<Rightarrow> json list" where
  "members_of f kvs = map snd (filter (\<lambda>kv. fold_name (fst kv) = fold_name f) kvs)"

text \<open>One field of a struct: its members in the order of the text.\<close>

definition field :: "string \<Rightarrow> 'a jdec \<Rightarrow> 'a \<Rightarrow> (string \<times> json) list \<Rightarrow> 'a option" where
  "field f d old kvs =
     foldl (\<lambda>acc v. case acc of None \<Rightarrow> None | Some x \<Rightarrow> d x v) (Some old) (members_of f kvs)"

text \<open>
  A struct decoder is a list of such fields: \<open>into\<close> reads one through the accessors of the record.
\<close>

definition into ::
  "string \<Rightarrow> 'a jdec \<Rightarrow> ('s \<Rightarrow> 'a) \<Rightarrow> ('a \<Rightarrow> 's \<Rightarrow> 's) \<Rightarrow> (string \<times> json) list \<Rightarrow> 's \<Rightarrow> 's option" where
  "into f d getter setter kvs s = map_option (\<lambda>x. setter x s) (field f d (getter s) kvs)"

declare fold_name.simps [simp del]

fun dec_struct :: "((string \<times> json) list \<Rightarrow> 's \<Rightarrow> 's option) list \<Rightarrow> 's jdec" where
  "dec_struct fs old (JObj kvs) = foldl (\<lambda>acc f. case acc of None \<Rightarrow> None | Some s \<Rightarrow> f kvs s) (Some old) fs"
| "dec_struct fs old JNull = Some old"
| "dec_struct fs old _ = None"

text \<open>\<open>json.Unmarshal\<close> into a variable that holds \<open>old\<close>.\<close>

definition unmarshal :: "'a jdec \<Rightarrow> 'a \<Rightarrow> string \<Rightarrow> 'a option" where
  "unmarshal d old text = (case json_parse text of None \<Rightarrow> None | Some v \<Rightarrow> d old v)"

section \<open>Encoding Go values\<close>

definition enc_int :: "int \<Rightarrow> json" where
  "enc_int i = JNum (if i < 0 then CHR ''-'' # show_nat (nat (- i)) else show_nat (nat i))"

text \<open>Fields with \<open>omitempty\<close> are left out when they hold the zero value.\<close>

definition omit_if :: "bool \<Rightarrow> string \<Rightarrow> json \<Rightarrow> (string \<times> json) list" where
  "omit_if b k v = (if b then [] else [(k, v)])"

definition enc_strings :: "string list \<Rightarrow> json" where
  "enc_strings xs = JArr (map JStr xs)"

end
