(* ===== verification/Demo_Kit.thy ===== *)
theory Demo_Kit
  imports Pop_Http Csr_Generation Go_Json
begin

text \<open>
  The stand-in for the registration authority and the transparency log that the agent-to-agent example
  brings along, \<open>examples/a2a-no-mtls/demokit/demokit.go\<close>: it mints the receipt and the status token of an
  agent, keeps the agent's credentials in four files, and makes access tokens bound to a key. What it mints is
  read by the verifiers of \<open>verify/scitt\<close> and \<open>pop\<close>; CBOR encoding, X.509 and PEM are parameters. The leaf of
  a receipt is decoded as \<open>pop/caller.go\<close> does it, on JSON text.
\<close>

section \<open>CBOR values\<close>

text \<open>
  What the kit passes to \<open>cbor.Marshal\<close>; the members of a map in some order. \<open>read_key\<close> is how a key of a
  \<open>map[any]any\<close> comes back: a non-negative integer as an unsigned one.
\<close>

datatype cbor_value =
  VInt int64
  | VUint uint64
  | VText string
  | VBytes bytes
  | VList "cbor_value list"
  | VIntMap "(int64 \<times> cbor_value) list"
  | VAnyMap "(cbor_key \<times> cbor_value) list"
  | VTag nat cbor_value

definition read_key :: "cbor_key \<Rightarrow> cbor_key" where
  "read_key k = (case k of KInt i \<Rightarrow> if 0 \<le> sint i then KUint i else KInt i | _ \<Rightarrow> k)"

text \<open>The limits of the verifiers' decoder: depth, elements of an array, pairs of a map.\<close>

fun within_limits :: "nat \<Rightarrow> cbor_value \<Rightarrow> bool" where
  "within_limits d (VList vs) = (0 < d \<and> length vs \<le> 1024 \<and> list_all (within_limits (d - 1)) vs)"
| "within_limits d (VIntMap kvs) =
     (0 < d \<and> length kvs \<le> 256 \<and> list_all (\<lambda>kv. within_limits (d - 1) (snd kv)) kvs)"
| "within_limits d (VAnyMap kvs) =
     (0 < d \<and> length kvs \<le> 256 \<and> list_all (\<lambda>kv. within_limits (d - 1) (snd kv)) kvs)"
| "within_limits d (VTag n v) = (0 < d \<and> within_limits (d - 1) v)"
| "within_limits d _ = True"

section \<open>The library\<close>

record cert_template =
  ct_serial :: int
  ct_common_name :: string
  ct_not_before :: int
  ct_not_after :: int
  ct_key_usage :: string
  ct_ext_key_usage :: "string list"
  ct_uris :: "url list"

text \<open>
  \<open>dl_generate\<close> is \<open>ecdsa.GenerateKey(elliptic.P256(), \<dots>)\<close> on the random bytes it is given,
  \<open>dl_spki\<close> is \<open>x509.MarshalPKIXPublicKey\<close>, \<open>dl_create_cert\<close> a self-signed \<open>x509.CreateCertificate\<close>,
  \<open>dl_url_text\<close> is \<open>URL.String\<close>, \<open>dl_join\<close> is \<open>filepath.Join\<close>.
\<close>

record ('s, 'k) demo_lib =
  dl_generate :: "bytes \<Rightarrow> 's option"
  dl_public :: "'s \<Rightarrow> 'k"
  dl_spki :: "'k \<Rightarrow> bytes option"
  dl_create_cert :: "cert_template \<Rightarrow> 's \<Rightarrow> bytes option"
  dl_marshal :: "cbor_value \<Rightarrow> bytes option"
  dl_url_text :: "url \<Rightarrow> string"
  dl_pkcs8 :: "'s \<Rightarrow> bytes option"
  dl_parse_pkcs8 :: "bytes \<Rightarrow> (unit, 's) private_key option"
  dl_pem_encode :: "pem_block \<Rightarrow> bytes"
  dl_pem_decode :: "bytes \<Rightarrow> pem_block option"
  dl_join :: "string \<Rightarrow> string \<Rightarrow> string"

text \<open>\<open>Demo_Library\<close> is an error some library call returned.\<close>

datatype demo_error =
  Demo_Library
  | Demo_Write string file_error
  | Demo_Read string
  | Demo_Not_Pem string
  | Demo_Not_Ecdsa string
  | Token_Not_Base64
  | Token_Not_Json
  | Token_Not_Bound

section \<open>Constants\<close>

definition alg_es256 :: int64 where "alg_es256 = -7"
definition status_backdate_sec :: int64 where "status_backdate_sec = 60"
definition status_ttl_sec :: int64 where "status_ttl_sec = 3600"
definition cert_ttl :: int where "cert_ttl = 3600 * nanos_per_second"

definition demo_ans_name :: string where
  "demo_ans_name = ''ans://v1.0.0.payments.acme.example''"

definition demo_agent_id :: string where
  "demo_agent_id = ''agent-demo-1''"

definition file_agent_key :: string where "file_agent_key = ''agent.key''"
definition file_agent_crt :: string where "file_agent_crt = ''agent.crt''"
definition file_receipt :: string where "file_receipt = ''receipt.cose''"
definition file_status :: string where "file_status = ''status.cose''"

record 's agent_bundle =
  bn_agent_key :: 's
  bn_cert_der :: bytes
  bn_receipt :: bytes
  bn_status_token :: bytes

section \<open>Minting\<close>

definition key_id :: "'k caller_lib \<Rightarrow> ('s, 'k) demo_lib \<Rightarrow> 'k \<Rightarrow> demo_error + kid" where
  "key_id L D pub =
     (case dl_spki D pub of
        None \<Rightarrow> Inl Demo_Library
      | Some spki \<Rightarrow> Inr (take 4 (sha_of (cl_jose L) spki)))"

definition identity_cert ::
  "'k caller_lib \<Rightarrow> ('s, 'k) demo_lib \<Rightarrow> 's \<Rightarrow> string \<Rightarrow> int \<Rightarrow> int \<Rightarrow> demo_error + bytes" where
  "identity_cert L D key name now1 now2 =
     (case url_parse (jl_bracket (cl_jose L)) name of
        None \<Rightarrow> Inl Demo_Library
      | Some u \<Rightarrow>
          from_option Demo_Library (dl_create_cert D
            \<lparr>ct_serial = 1, ct_common_name = ''demo-agent'', ct_not_before = now1 - cert_ttl,
             ct_not_after = now2 + cert_ttl, ct_key_usage = ''DigitalSignature'', ct_ext_key_usage = [''ClientAuth''],
             ct_uris = [u]\<rparr> key))"

definition sign_p1363 :: "('s, 'k) sign_lib \<Rightarrow> 's \<Rightarrow> bytes \<Rightarrow> demo_error + bytes" where
  "sign_p1363 S key digest =
     (case sl_sign S key digest of
        None \<Rightarrow> Inl Demo_Library
      | Some (r, s) \<Rightarrow> Inr (fill_bytes 32 r @ fill_bytes 32 s))"

definition cose_sign1 ::
  "'k caller_lib \<Rightarrow> ('s, 'k) sign_lib \<Rightarrow> ('s, 'k) demo_lib \<Rightarrow> 's \<Rightarrow> bytes \<Rightarrow> cbor_value \<Rightarrow> bytes \<Rightarrow> demo_error + bytes" where
  "cose_sign1 L S D key protected unprotected payload =
     (case sig_structure_digest (cl_cbor L) (cl_crypto L) protected payload of
        None \<Rightarrow> Inl Demo_Library
      | Some digest \<Rightarrow>
          rbind (sign_p1363 S key digest) (\<lambda>sig.
            from_option Demo_Library
              (dl_marshal D (VTag 18 (VList [VBytes protected, unprotected, VBytes payload, VBytes sig])))))"

definition status_payload_value :: "string \<Rightarrow> string \<Rightarrow> bytes \<Rightarrow> int64 \<Rightarrow> cbor_value" where
  "status_payload_value agent name fp now =
     VAnyMap
       [(KInt 1, VText agent),
        (KInt 2, VText StatusActive),
        (KInt 3, VInt (now - status_backdate_sec)),
        (KInt 4, VInt (now + status_ttl_sec)),
        (KInt 5, VText name),
        (KInt 6, VList [VAnyMap [(KStr ''fingerprint'', VBytes fp), (KStr ''cert_type'', VText ''x509-ov-client'')]])]"

definition mint_status_token ::
  "'k caller_lib \<Rightarrow> ('s, 'k) sign_lib \<Rightarrow> ('s, 'k) demo_lib \<Rightarrow> 's \<Rightarrow> string \<Rightarrow> string \<Rightarrow> bytes \<Rightarrow> int \<Rightarrow> demo_error + bytes" where
  "mint_status_token L S D tl_key agent name fp now =
     rbind (key_id L D (dl_public D tl_key)) (\<lambda>kid.
     rbind (from_option Demo_Library (dl_marshal D (VIntMap [(1, VInt alg_es256), (4, VBytes kid)]))) (\<lambda>protected.
     rbind (from_option Demo_Library (dl_marshal D (status_payload_value agent name fp (unix_seconds now)))) (\<lambda>payload.
       cose_sign1 L S D tl_key protected (VIntMap []) payload)))"

definition leaf_json :: "string \<Rightarrow> string \<Rightarrow> json" where
  "leaf_json agent name =
     JObj [(''payload'', JObj [(''producer'', JObj [(''event'',
       JObj [(''ansId'', JStr agent), (''ansName'', JStr name)])])])]"

definition mint_receipt ::
  "'k caller_lib \<Rightarrow> ('s, 'k) sign_lib \<Rightarrow> ('s, 'k) demo_lib \<Rightarrow> 's \<Rightarrow> string \<Rightarrow> string \<Rightarrow> demo_error + bytes" where
  "mint_receipt L S D tl_key agent name =
     rbind (key_id L D (dl_public D tl_key)) (\<lambda>kid.
     rbind (from_option Demo_Library
              (dl_marshal D (VIntMap [(1, VInt alg_es256), (4, VBytes kid), (395, VInt 1)]))) (\<lambda>protected.
       cose_sign1 L S D tl_key protected (VIntMap [(396, VIntMap [(-1, VUint 1), (-2, VUint 0)])])
         (json_print (leaf_json agent name))))"

text \<open>
  \<open>Provision\<close>: the keys come from the random bytes \<open>r1\<close> and \<open>r2\<close>; the clock is read twice for the certificate
  and once for the token.
\<close>

definition provision ::
  "'k caller_lib \<Rightarrow> ('s, 'k) sign_lib \<Rightarrow> ('s, 'k) demo_lib \<Rightarrow> bytes \<times> bytes \<Rightarrow> int \<times> int \<times> int \<Rightarrow> string \<Rightarrow> string
     \<Rightarrow> demo_error + 's \<times> 's agent_bundle" where
  "provision L S D rand clock name agent =
     rbind (from_option Demo_Library (dl_generate D (fst rand))) (\<lambda>tl_key.
     rbind (from_option Demo_Library (dl_generate D (snd rand))) (\<lambda>agent_key.
     rbind (identity_cert L D agent_key name (fst clock) (fst (snd clock))) (\<lambda>der.
     rbind (mint_status_token L S D tl_key agent name (sha_of (cl_jose L) der) (snd (snd clock))) (\<lambda>status.
     rbind (mint_receipt L S D tl_key agent name) (\<lambda>rcpt.
       Inr (tl_key, \<lparr>bn_agent_key = agent_key, bn_cert_der = der, bn_receipt = rcpt, bn_status_token = status\<rparr>))))))"

section \<open>The trust store\<close>

text \<open>
  The error for an unknown key is no error of \<open>verify/scitt\<close>; \<open>unknown\<close> is the value it has among them.
\<close>

definition demo_lookup_get :: "(kid \<Rightarrow> scitt_error) \<Rightarrow> kid \<Rightarrow> 'k \<Rightarrow> 'k key_lookup" where
  "demo_lookup_get unknown k pub kid =
     (if kid \<noteq> k then Inl (unknown kid) else Inr \<lparr>tk_name = ''demo-tl'', tk_kid = k, tk_key = pub\<rparr>)"

definition demo_key_lookup ::
  "'k caller_lib \<Rightarrow> ('s, 'k) demo_lib \<Rightarrow> (kid \<Rightarrow> scitt_error) \<Rightarrow> 'k \<Rightarrow> demo_error + 'k key_lookup" where
  "demo_key_lookup L D unknown pub = rbind (key_id L D pub) (\<lambda>kid. Inr (demo_lookup_get unknown kid pub))"

section \<open>The bundle on disk\<close>

text \<open>\<open>os.WriteFile\<close> of each file in turn; the first failure ends it.\<close>

fun write_files ::
  "file_io \<Rightarrow> ('s, 'k) demo_lib \<Rightarrow> string \<Rightarrow> (string \<times> bytes) list \<Rightarrow> files \<Rightarrow> demo_error option \<times> files" where
  "write_files io D dir [] fs = (None, fs)"
| "write_files io D dir ((name, data) # rest) fs =
     (case write_file io (dl_join D dir name) mode_0600 data fs of
        (Some e, fs') \<Rightarrow> (Some (Demo_Write name e), fs')
      | (None, fs') \<Rightarrow> write_files io D dir rest fs')"

definition save_bundle ::
  "file_io \<Rightarrow> ('s, 'k) demo_lib \<Rightarrow> 's agent_bundle \<Rightarrow> string \<Rightarrow> files \<Rightarrow> demo_error option \<times> files" where
  "save_bundle io D b dir fs =
     (case dl_pkcs8 D (bn_agent_key b) of
        None \<Rightarrow> (Some Demo_Library, fs)
      | Some key_der \<Rightarrow>
          write_files io D dir
            [(file_agent_key, dl_pem_encode D (plain_block ''PRIVATE KEY'' key_der)),
             (file_agent_crt, dl_pem_encode D (plain_block ''CERTIFICATE'' (bn_cert_der b))),
             (file_receipt, bn_receipt b),
             (file_status, bn_status_token b)] fs)"

definition load_key :: "file_io \<Rightarrow> ('s, 'k) demo_lib \<Rightarrow> string \<Rightarrow> files \<Rightarrow> demo_error + 's" where
  "load_key io D path fs =
     (case read_file io path fs of
        None \<Rightarrow> Inl (Demo_Read path)
      | Some key_pem \<Rightarrow>
     case dl_pem_decode D key_pem of
        None \<Rightarrow> Inl (Demo_Not_Pem path)
      | Some blk \<Rightarrow>
     case dl_parse_pkcs8 D (pb_bytes blk) of
        None \<Rightarrow> Inl Demo_Library
      | Some key \<Rightarrow> (case key of Ecdsa_Private k \<Rightarrow> Inr k | _ \<Rightarrow> Inl (Demo_Not_Ecdsa path)))"

definition load_cert_der :: "file_io \<Rightarrow> ('s, 'k) demo_lib \<Rightarrow> string \<Rightarrow> files \<Rightarrow> demo_error + bytes" where
  "load_cert_der io D path fs =
     (case read_file io path fs of
        None \<Rightarrow> Inl (Demo_Read path)
      | Some crt_pem \<Rightarrow>
     case dl_pem_decode D crt_pem of
        None \<Rightarrow> Inl (Demo_Not_Pem path)
      | Some blk \<Rightarrow> Inr (pb_bytes blk))"

definition read_demo_file :: "file_io \<Rightarrow> string \<Rightarrow> files \<Rightarrow> demo_error + bytes" where
  "read_demo_file io path fs = from_option (Demo_Read path) (read_file io path fs)"

definition load_bundle :: "file_io \<Rightarrow> ('s, 'k) demo_lib \<Rightarrow> string \<Rightarrow> files \<Rightarrow> demo_error + 's agent_bundle" where
  "load_bundle io D dir fs =
     rbind (load_key io D (dl_join D dir file_agent_key) fs) (\<lambda>key.
     rbind (load_cert_der io D (dl_join D dir file_agent_crt) fs) (\<lambda>der.
     rbind (read_demo_file io (dl_join D dir file_receipt) fs) (\<lambda>rcpt.
     rbind (read_demo_file io (dl_join D dir file_status) fs) (\<lambda>status.
       Inr \<lparr>bn_agent_key = key, bn_cert_der = der, bn_receipt = rcpt, bn_status_token = status\<rparr>))))"

section \<open>Access tokens\<close>

record demo_token =
  dt_sub :: string
  dt_jkt :: string
  dt_scope :: string

definition empty_demo_token :: demo_token where
  "empty_demo_token = \<lparr>dt_sub = [], dt_jkt = [], dt_scope = []\<rparr>"

definition enc_demo_token :: "demo_token \<Rightarrow> json" where
  "enc_demo_token t =
     JObj [(''sub'', JStr (dt_sub t)), (''cnf'', JObj [(''jkt'', JStr (dt_jkt t))]), (''scope'', JStr (dt_scope t))]"

definition dec_demo_token :: "demo_token jdec" where
  "dec_demo_token = dec_struct
     [into ''sub'' dec_string dt_sub (\<lambda>x s. s\<lparr>dt_sub := x\<rparr>),
      into ''cnf'' (dec_struct [into ''jkt'' dec_string (\<lambda>j. j) (\<lambda>x j. x)]) dt_jkt (\<lambda>x s. s\<lparr>dt_jkt := x\<rparr>),
      into ''scope'' dec_string dt_scope (\<lambda>x s. s\<lparr>dt_scope := x\<rparr>)]"

definition mint_unsigned_demo_token :: "string \<Rightarrow> string \<Rightarrow> string \<Rightarrow> string" where
  "mint_unsigned_demo_token sub scope jkt =
     url_encode (json_print (enc_demo_token \<lparr>dt_sub = sub, dt_jkt = jkt, dt_scope = scope\<rparr>))"

definition parse_unsigned_demo_token :: "string \<Rightarrow> demo_error + demo_token" where
  "parse_unsigned_demo_token tok =
     (case url_decode tok of
        None \<Rightarrow> Inl Token_Not_Base64
      | Some raw \<Rightarrow>
     case unmarshal dec_demo_token empty_demo_token raw of
        None \<Rightarrow> Inl Token_Not_Json
      | Some t \<Rightarrow> if dt_jkt t = [] then Inl Token_Not_Bound else Inr t)"

section \<open>The leaf of a receipt\<close>

text \<open>\<open>leafEnvelope\<close> and the structs in it; only the event is kept, the schema version is read for its type.\<close>

definition dec_leaf_event :: "leaf_event jdec" where
  "dec_leaf_event = dec_struct
     [into ''ansId'' dec_string le_ans_id (\<lambda>x s. s\<lparr>le_ans_id := x\<rparr>),
      into ''agentId'' dec_string le_agent_id (\<lambda>x s. s\<lparr>le_agent_id := x\<rparr>),
      into ''ansName'' dec_string le_ans_name (\<lambda>x s. s\<lparr>le_ans_name := x\<rparr>)]"

definition dec_leaf_envelope :: "(string \<times> leaf_event) jdec" where
  "dec_leaf_envelope = dec_struct
     [into ''payload''
        (dec_struct [into ''producer'' (dec_struct [into ''event'' dec_leaf_event (\<lambda>e. e) (\<lambda>x e. x)]) (\<lambda>e. e) (\<lambda>x e. x)])
        snd (\<lambda>x s. (fst s, x)),
      into ''schemaVersion'' dec_string fst (\<lambda>x s. (x, snd s))]"

definition decode_leaf :: "bytes \<Rightarrow> leaf_event option" where
  "decode_leaf raw =
     map_option snd (unmarshal dec_leaf_envelope ([], \<lparr>le_ans_id = [], le_agent_id = [], le_ans_name = []\<rparr>) raw)"

end
