(* ===== verification/Go_Json_Lemmas.thy ===== *)
theory Go_Json_Lemmas
  imports Go_Json
begin

text \<open>
  Facts about the JSON reader and printer: what is printed is read back (strings, numbers, values),
  parsing consumes text, and the fuel of \<open>json_parse\<close> is enough for every text.
\<close>

section \<open>Strings round trip\<close>

definition emit :: "string \<Rightarrow> (string \<times> string) option \<Rightarrow> (string \<times> string) option" where
  "emit e m = map_option (\<lambda>(s, rest). (e @ s, rest)) m"

lemma emit_simps [simp]: "emit e (Some (s, r)) = Some (e @ s, r)" "emit e None = None"
  by (simp_all add: emit_def)

lemma unquote_stepI:
  "c \<noteq> quote_char \<Longrightarrow> unquote_step c cs = Some (e, r) \<Longrightarrow> unquote (c # cs) = emit e (unquote r)"
  by (simp add: emit_def)

lemma byte_val_char_of_mod: "byte_val (char_of n) = n mod 256"
  by (simp add: byte_val_def)

lemma take_u4_hex4: "v < 65536 \<Longrightarrow> take_u4 (hex4 v @ r) = Some (v, r)"
proof -
  assume v: "v < 65536"
  have l: "length (hex4 v) = 4" by (simp add: hex4_def)
  have t: "take 4 (hex4 v @ r) = hex4 v" "drop 4 (hex4 v @ r) = r" using l by simp_all
  have d: "hex_decode (hex4 v) = Some [char_of (v div 256), char_of (v mod 256)]"
    unfolding hex4_def by (rule hex_decode_encode)
  have "v div 256 mod 256 = v div 256" using v by simp
  then show ?thesis
    unfolding take_u4_def t d by (simp add: byte_val_char_of_mod)
qed

lemma unquote_u:
  assumes "v < 65536" "\<not> (55296 \<le> v \<and> v < 57344)"
  shows "unquote (backslash # CHR ''u'' # hex4 v @ r) = emit (encode_rune v) (unquote r)"
proof (rule unquote_stepI)
  have "escape_rune v r = (encode_rune v, r)" using assms(2) unfolding escape_rune_def by (simp only: if_False)
  then show "unquote_step backslash (CHR ''u'' # hex4 v @ r) = Some (encode_rune v, r)"
    using assms(1) by (simp add: unquote_step_def unquote_escape_def take_u4_hex4)
qed simp

lemma unquote_escaped:
  "map_of escapes e = Some b \<Longrightarrow> e \<noteq> CHR ''u'' \<Longrightarrow> unquote (backslash # e # r) = emit [b] (unquote r)"
  by (rule unquote_stepI) (simp_all add: unquote_step_def unquote_escape_def)

lemma unquote_ascii:
  assumes "byte_val c < 128"
  shows "unquote (quote_ascii c @ r) = emit [c] (unquote r)"
proof -
  have u: "unquote (backslash # CHR ''u'' # hex4 (byte_val c) @ r) = emit [c] (unquote r)"
    using assms by (subst unquote_u) (simp_all add: encode_rune_def)
  have s: "unquote (c # r) = emit [c] (unquote r)" if "safe_byte c"
    using that assms by (intro unquote_stepI) (simp_all add: safe_byte_def unquote_step_def)
  have e: "unquote (backslash # CHR ''b'' # r) = emit [CHR 0x08] (unquote r)"
    "unquote (backslash # CHR ''f'' # r) = emit [CHR 0x0C] (unquote r)"
    "unquote (backslash # CHR ''n'' # r) = emit [CHR 0x0A] (unquote r)"
    "unquote (backslash # CHR ''r'' # r) = emit [CHR 0x0D] (unquote r)"
    "unquote (backslash # CHR ''t'' # r) = emit [CHR 0x09] (unquote r)"
    "unquote (backslash # quote_char # r) = emit [quote_char] (unquote r)"
    "unquote (backslash # backslash # r) = emit [backslash] (unquote r)"
    by (rule unquote_escaped; simp add: escapes_def)+
  show ?thesis
    unfolding quote_ascii_def
    using u s by (auto simp del: unquote.simps simp add: e)
qed

lemma unquote_high:
  assumes "128 \<le> byte_val c" "rune_len (c # cs) = n" "n \<noteq> 0"
  shows "unquote (take n (c # cs) @ r) = emit (take n (c # cs)) (unquote r)"
proof -
  let ?t = "take n (c # cs)"
  have c: "c \<noteq> quote_char" "c \<noteq> backslash" "\<not> byte_val c < 32" using assms(1) by (auto simp: byte_val_def)
  have t: "?t = c # take (n - 1) cs" using assms(3) by (cases n) simp_all
  have len: "length ?t = n" using rune_len_le [of "c # cs"] assms(2) by (simp only: length_take min_absorb2)
  have "rune_len ?t = n" using rune_len_take [of "c # cs"] assms(2,3) by simp
  then have "rune_len (?t @ r) = n" using rune_len_append [of ?t r] assms(3) by simp
  then have n': "rune_len (c # take (n - 1) cs @ r) = n" unfolding t by simp
  have "unquote_step c (take (n - 1) cs @ r) = Some (take n (?t @ r), drop n (?t @ r))"
    using assms(3) n' c unfolding t by (simp add: unquote_step_def Let_def)
  then have "unquote_step c (take (n - 1) cs @ r) = Some (?t, r)" using len by simp
  then show ?thesis unfolding t append_Cons by (rule unquote_stepI [OF c(1)])
qed

lemma unquote_rune:
  assumes "128 \<le> byte_val c" "rune_len (c # cs) = n" "n \<noteq> 0"
  shows "unquote (quote_rune (take n (c # cs)) @ r) = emit (take n (c # cs)) (unquote r)"
  using unquote_high [OF assms] unquote_u [of 8232 r] unquote_u [of 8233 r]
  by (simp add: quote_rune_def del: unquote.simps)

lemma emit_emit: "emit a (emit b m) = emit (a @ b) m"
  by (cases m) auto

lemma unquote_body:
  "utf8_valid s \<Longrightarrow> unquote (quote_body s @ r) = emit s (unquote r)"
proof (induction s rule: quote_body.induct)
  case 1
  show ?case by (cases "unquote r") auto
next
  case (2 c cs)
  show ?case
  proof (cases "byte_val c < 128")
    case True
    then have "utf8_valid cs" using 2 by simp
    then show ?thesis using 2(1) True by (simp add: unquote_ascii emit_emit del: unquote.simps)
  next
    case False
    define n where "n = rune_len (c # cs)"
    have n: "n \<noteq> 0" "utf8_valid (drop (n - 1) cs)" using 2 by (simp_all add: n_def)
    have ih: "unquote (quote_body (drop (n - 1) cs) @ r) = emit (drop (n - 1) cs) (unquote r)"
      using 2(3) False n unfolding n_def by simp
    have "take n (c # cs) @ drop (n - 1) cs = c # cs" using n(1) by (cases n) simp_all
    then show ?thesis
      using False n(1) ih unquote_rune [OF _ n_def [symmetric]] n_def
      by (simp add: Let_def emit_emit del: unquote.simps)
  qed
qed

lemma unquote_quote [simp]: "utf8_valid s \<Longrightarrow> unquote (quote_body s @ quote_char # r) = Some (s, r)"
  by (subst unquote_body) simp_all

section \<open>Numbers\<close>

text \<open>A literal the scanner reads completely, and text that does not continue a number.\<close>

definition number_ok :: "string \<Rightarrow> bool" where
  "number_ok l = (scan_number l = Some (l, []))"

definition number_stop :: "string \<Rightarrow> bool" where
  "number_stop r = (r = [] \<or> (\<not> is_digit (hd r) \<and> hd r \<notin> set ''.eE''))"

lemma takeWhile_stop: "number_stop r \<Longrightarrow> takeWhile is_digit (s @ r) = takeWhile is_digit s"
proof (induction s)
  case Nil
  then show ?case by (cases r) (auto simp: number_stop_def)
qed auto

lemma dropWhile_stop: "number_stop r \<Longrightarrow> dropWhile is_digit (s @ r) = dropWhile is_digit s @ r"
proof (induction s)
  case Nil
  then show ?case by (cases r) (auto simp: number_stop_def)
qed auto

lemma has_prefix_1: "has_prefix s [c] \<longleftrightarrow> s \<noteq> [] \<and> hd s = c"
  by (cases s) auto

lemma scan_integer_append:
  assumes "scan_integer s = Some (i, s')" "number_stop r"
  shows "scan_integer (s @ r) = Some (i, s' @ r)"
proof -
  have "s \<noteq> []" using assms(1) by (auto simp: scan_integer_def)
  then show ?thesis
    using assms by (auto simp: scan_integer_def Let_def takeWhile_stop dropWhile_stop split: if_splits)
qed

lemma scan_fraction_append:
  assumes "scan_fraction s = Some (i, s')" "number_stop r"
  shows "scan_fraction (s @ r) = Some (i, s' @ r)"
proof (cases s)
  case Nil
  with assms show ?thesis by (auto simp: scan_fraction_def has_prefix_1 number_stop_def)
next
  case (Cons a list)
  with assms show ?thesis
    by (auto simp: scan_fraction_def Let_def has_prefix_1 takeWhile_stop dropWhile_stop split: if_splits)
qed

lemma scan_exponent_append:
  assumes "scan_exponent s = Some (i, s')" "number_stop r"
  shows "scan_exponent (s @ r) = Some (i, s' @ r)"
proof (cases s)
  case Nil
  with assms show ?thesis by (cases r) (auto simp: scan_exponent_def number_stop_def)
next
  case (Cons a list)
  show ?thesis
  proof (cases list)
    case Nil
    with assms Cons show ?thesis
      by (auto simp: scan_exponent_def Let_def split: if_splits)
  next
    case (Cons b bs)
    have "takeWhile is_digit (bs @ r) = takeWhile is_digit bs" "dropWhile is_digit (bs @ r) = dropWhile is_digit bs @ r"
      "takeWhile is_digit (b # bs @ r) = takeWhile is_digit (b # bs)"
      "dropWhile is_digit (b # bs @ r) = dropWhile is_digit (b # bs) @ r"
      using takeWhile_stop [OF assms(2)] dropWhile_stop [OF assms(2)] by (simp_all only: append_Cons [symmetric])
    then show ?thesis
      using assms \<open>s = a # list\<close> Cons
      by (auto simp: scan_exponent_def Let_def has_prefix_1 simp del: takeWhile.simps dropWhile.simps split: if_splits)
  qed
qed

lemma scan_number_append:
  assumes "scan_number s = Some (l, s')" "number_stop r"
  shows "scan_number (s @ r) = Some (l, s' @ r)"
proof -
  define k where "k = (if has_prefix s ''-'' then 1 else 0 :: nat)"
  obtain i s1 f s2 x where p: "scan_integer (drop k s) = Some (i, s1)" "scan_fraction s1 = Some (f, s2)"
    "scan_exponent s2 = Some (x, s')" "l = take k s @ i @ f @ x"
    using assms(1) by (auto simp: scan_number_def Let_def k_def has_prefix_1 take_Suc split: option.splits if_splits)
  have s: "s \<noteq> []" using p(1) by (auto simp: scan_integer_def)
  then have h: "has_prefix (s @ r) ''-'' = has_prefix s ''-''" by (simp add: has_prefix_1)
  have "drop k (s @ r) = drop k s @ r" using s by (cases s) (simp_all add: k_def)
  then have "scan_integer (drop k (s @ r)) = Some (i, s1 @ r)"
    using scan_integer_append [OF p(1) assms(2)] by simp
  then show ?thesis
    using scan_fraction_append [OF p(2) assms(2)] scan_exponent_append [OF p(3) assms(2)] p(4) s
    by (simp add: scan_number_def Let_def h k_def has_prefix_1 take_Suc split: if_splits)
qed

lemma number_ok_append: "number_ok l \<Longrightarrow> number_stop r \<Longrightarrow> scan_number (l @ r) = Some (l, r)"
  unfolding number_ok_def using scan_number_append [of l l "[]" r] by simp

lemma scan_integer_first: "scan_integer s = Some x \<Longrightarrow> s \<noteq> [] \<and> is_digit (hd s)"
  by (cases s) (auto simp: scan_integer_def split: if_splits)

lemma scan_number_first: "scan_number s = Some x \<Longrightarrow> s \<noteq> [] \<and> (is_digit (hd s) \<or> hd s = CHR ''-'')"
  by (cases "has_prefix s ''-''") (auto simp: scan_number_def has_prefix_1 Let_def dest!: scan_integer_first split: option.splits)

definition show_int :: "int \<Rightarrow> string" where
  "show_int i = (if i < 0 then CHR ''-'' # show_nat (nat (- i)) else show_nat (nat i))"

lemma enc_int_show: "enc_int i = JNum (show_int i)"
  by (simp add: enc_int_def show_int_def)

lemma show_nat_first: "n \<noteq> 0 \<Longrightarrow> hd (show_nat n) \<noteq> CHR ''0''"
proof (induction n rule: show_nat.induct)
  case (1 n)
  show ?case
  proof (cases "n < 10")
    case True
    have "byte_val (CHR ''0'') = 48" by (simp add: byte_val_def)
    then have "digit_char n \<noteq> CHR ''0''"
      using True 1(2) byte_val_digit_char [OF True] by force
    then show ?thesis using True by (subst show_nat.simps) auto
  next
    case False
    then show ?thesis using 1 by (subst show_nat.simps) (simp add: hd_append)
  qed
qed

lemma scan_integer_show: "scan_integer (show_nat n) = Some (show_nat n, [])"
proof -
  have t: "takeWhile is_digit (show_nat n) = show_nat n" "dropWhile is_digit (show_nat n) = []"
    using show_nat_digits [of n] by (simp_all add: list_all_iff)
  have "byte_val (CHR ''0'') = 48" by (simp add: byte_val_def)
  then have "byte_val (digit_char 0) = byte_val (CHR ''0'')" by (simp add: byte_val_digit_char)
  then have "digit_char 0 = CHR ''0''" by (simp only: byte_val_eq_iff)
  then have z: "show_nat 0 = ''0''" by (subst show_nat.simps) simp
  show ?thesis
  proof (cases "n = 0")
    case True
    then show ?thesis by (simp add: z scan_integer_def is_digit_def byte_val_def)
  next
    case False
    then show ?thesis using show_nat_first [of n] unfolding scan_integer_def t by (simp add: Let_def)
  qed
qed

lemma number_ok_show_int: "number_ok (show_int i)"
proof -
  have d: "is_digit (hd (show_nat n))" for n
    using scan_integer_first [OF scan_integer_show] by simp
  have "\<not> is_digit (CHR ''-'')" by (simp add: is_digit_def byte_val_def)
  then have m: "\<not> has_prefix (show_nat n) ''-''" for n
    unfolding has_prefix_1 using d [of n] by auto
  show ?thesis
    unfolding number_ok_def scan_number_def show_int_def
    by (simp add: m scan_integer_show scan_fraction_def scan_exponent_def Let_def)
qed

section \<open>Values round trip\<close>

text \<open>Values a program can print and read back: well-formed numbers and strings, nested at most \<open>d\<close> deep.\<close>

fun json_ok :: "nat \<Rightarrow> json \<Rightarrow> bool" where
  "json_ok d JNull = True"
| "json_ok d (JBool b) = True"
| "json_ok d (JNum l) = number_ok l"
| "json_ok d (JStr s) = utf8_valid s"
| "json_ok d (JArr xs) = (d \<noteq> 0 \<and> (\<forall>x\<in>set xs. json_ok (d - 1) x))"
| "json_ok d (JObj kvs) = (d \<noteq> 0 \<and> (\<forall>x\<in>set kvs. utf8_valid (fst x) \<and> json_ok (d - 1) (snd x)))"

lemma skip_ws_solid: "s \<noteq> [] \<Longrightarrow> \<not> json_space (hd s) \<Longrightarrow> skip_ws s = s"
  by (cases s) (simp_all add: skip_ws_def)

definition value_start :: "char \<Rightarrow> bool" where
  "value_start c = (is_digit c \<or> c \<in> set ''-ntf[{'' \<or> c = quote_char)"

lemma json_print_start: "json_ok d j \<Longrightarrow> json_print j \<noteq> [] \<and> value_start (hd (json_print j))"
  by (cases j) (auto simp: value_start_def quote_def number_ok_def dest: scan_number_first)

lemma value_start_not: "value_start c \<Longrightarrow> \<not> json_space c \<and> c \<noteq> CHR '']'' \<and> c \<noteq> CHR '','' \<and> c \<noteq> CHR ''}''"
  by (auto simp: value_start_def json_space_def is_digit_def byte_val_def)

lemma skip_ws_print: "json_ok d j \<Longrightarrow> skip_ws (json_print j @ r) = json_print j @ r"
  using json_print_start [of d j] value_start_not by (intro skip_ws_solid) (auto simp: hd_append)

lemma parse_literal_num:
  assumes "number_ok l" "number_stop r"
  shows "parse_literal (l @ r) = Some (JNum l, r)"
proof -
  have h: "l \<noteq> []" "is_digit (hd l) \<or> hd l = CHR ''-''"
    using assms(1) scan_number_first unfolding number_ok_def by blast+
  have "\<not> is_digit (CHR ''n'')" "\<not> is_digit (CHR ''t'')" "\<not> is_digit (CHR ''f'')"
    by (simp_all add: is_digit_def byte_val_def)
  then have "\<not> has_prefix (l @ r) ''null''" "\<not> has_prefix (l @ r) ''true''" "\<not> has_prefix (l @ r) ''false''"
    using h by (cases l; auto)+
  then show ?thesis by (simp add: parse_literal_def number_ok_append [OF assms])
qed

lemma parse_value_num:
  assumes "number_ok l" "number_stop r"
  shows "parse_value (Suc n) d (l @ r) = Some (JNum l, r)"
proof -
  have h: "l \<noteq> []" "is_digit (hd l) \<or> hd l = CHR ''-''"
    using assms(1) scan_number_first unfolding number_ok_def by blast+
  have "\<not> is_digit quote_char" "\<not> is_digit (CHR ''['')" "\<not> is_digit (CHR ''{'')"
    by (simp_all add: is_digit_def byte_val_def)
  then have p: "\<not> has_prefix (l @ r) [quote_char]" "\<not> has_prefix (l @ r) ''[''" "\<not> has_prefix (l @ r) ''{''"
    unfolding has_prefix_1 using h by (auto simp: hd_append)
  have "skip_ws (l @ r) = l @ r" using skip_ws_print [of d "JNum l" r] assms(1) by simp
  then show ?thesis using p parse_literal_num [OF assms] by (simp add: parse_value.simps(2) Let_def)
qed

lemma number_stop_sep: "number_stop (CHR '','' # r)" "number_stop (CHR '']'' # r)" "number_stop (CHR ''}'' # r)"
  "number_stop []"
  by (simp_all add: number_stop_def is_digit_def byte_val_def)

text \<open>The elements of an array, given that each of them round-trips.\<close>

lemma parse_elems_print:
  assumes "\<And>x n r. x \<in> set xs \<Longrightarrow> 2 * length (json_print x) < n \<Longrightarrow> number_stop r \<Longrightarrow>
             parse_value n d (json_print x @ r) = Some (x, r)"
    and "xs \<noteq> []" "2 * length (join_with '','' (map json_print xs)) + 1 < n"
  shows "parse_elems n d (join_with '','' (map json_print xs) @ CHR '']'' # r) = Some (xs, r)"
  using assms
proof (induction xs arbitrary: n)
  case (Cons x xs)
  obtain m where m: "n = Suc m" using Cons.prems(3) by (cases n) auto
  have ws: "skip_ws (CHR '']'' # r) = CHR '']'' # r" "skip_ws (CHR '','' # s) = CHR '','' # s" for s
    by (simp_all add: skip_ws_def json_space_def)
  show ?case
  proof (cases "xs = []")
    case True
    then have "parse_value m d (json_print x @ CHR '']'' # r) = Some (x, CHR '']'' # r)"
      using Cons.prems(1) [of x m] Cons.prems(3) m number_stop_sep by simp
    then show ?thesis using True m ws by (simp add: parse_elems.simps(2))
  next
    case False
    let ?rest = "join_with '','' (map json_print xs)"
    have j: "join_with '','' (map json_print (x # xs)) = json_print x @ CHR '','' # ?rest"
      using False by (simp add: join_with_Cons)
    have "parse_value m d (json_print x @ CHR '','' # ?rest @ CHR '']'' # r) = Some (x, CHR '','' # ?rest @ CHR '']'' # r)"
      using Cons.prems(1) [of x m] Cons.prems(3) m number_stop_sep unfolding j by simp
    moreover have "parse_elems m d (?rest @ CHR '']'' # r) = Some (xs, r)"
      using Cons.prems(3) m unfolding j by (intro Cons.IH Cons.prems(1) False) auto
    ultimately show ?thesis using m ws unfolding j by (simp add: parse_elems.simps(2) Let_def)
  qed
qed simp

abbreviation print_member :: "string \<times> json \<Rightarrow> string" where
  "print_member kv \<equiv> (case kv of (k, v) \<Rightarrow> quote k @ '':'' @ json_print v)"

lemma parse_members_print:
  assumes "\<And>x n r. x \<in> set kvs \<Longrightarrow> 2 * length (json_print (snd x)) < n \<Longrightarrow> number_stop r \<Longrightarrow>
             parse_value n d (json_print (snd x) @ r) = Some (snd x, r)"
    and "\<And>x. x \<in> set kvs \<Longrightarrow> utf8_valid (fst x)"
    and "kvs \<noteq> []" "2 * length (join_with '','' (map print_member kvs)) + 1 < n"
  shows "parse_members n d (join_with '','' (map print_member kvs) @ CHR ''}'' # r) = Some (kvs, r)"
  using assms
proof (induction kvs arbitrary: n)
  case (Cons x kvs)
  obtain k v where x: "x = (k, v)" by (cases x)
  obtain m where m: "n = Suc m" using Cons.prems(4) by (cases n) auto
  have k: "utf8_valid k" using Cons.prems(2) [of x] x by simp
  have ws: "skip_ws (CHR ''}'' # s) = CHR ''}'' # s" "skip_ws (CHR '','' # s) = CHR '','' # s"
    "skip_ws (CHR '':'' # s) = CHR '':'' # s" "skip_ws (quote_char # s) = quote_char # s" for s
    by (simp_all add: skip_ws_def json_space_def)
  show ?case
  proof (cases "kvs = []")
    case True
    then have "parse_value m d (json_print v @ CHR ''}'' # r) = Some (v, CHR ''}'' # r)"
      using Cons.prems(1) [of x m] Cons.prems(4) m x number_stop_sep by simp
    then show ?thesis
      using True m k by (simp add: x parse_members.simps(2) quote_def ws del: unquote.simps)
  next
    case False
    let ?rest = "join_with '','' (map print_member kvs)"
    have j: "join_with '','' (map print_member (x # kvs)) = quote k @ CHR '':'' # json_print v @ CHR '','' # ?rest"
      using False by (simp add: join_with_Cons x)
    have "parse_value m d (json_print v @ CHR '','' # ?rest @ CHR ''}'' # r) = Some (v, CHR '','' # ?rest @ CHR ''}'' # r)"
      using Cons.prems(1) [of x m] Cons.prems(4) m x number_stop_sep unfolding j by simp
    moreover have "parse_members m d (?rest @ CHR ''}'' # r) = Some (kvs, r)"
      using Cons.prems(4) m unfolding j by (intro Cons.IH Cons.prems(1,2) False) auto
    ultimately show ?thesis
      using m k ws unfolding j by (simp add: parse_members.simps(2) quote_def ws x del: unquote.simps)
  qed
qed simp

text \<open>Printing a value and parsing the text back, whatever follows it.\<close>

lemma parse_value_print:
  "json_ok d j \<Longrightarrow> 2 * length (json_print j) < n \<Longrightarrow> number_stop r \<Longrightarrow>
     parse_value n d (json_print j @ r) = Some (j, r)"
proof (induction j arbitrary: n d r)
  case JNull
  then obtain m where "n = Suc m" by (cases n) auto
  then show ?case
    by (simp add: parse_value.simps(2) skip_ws_def json_space_def parse_literal_def)
next
  case (JBool b)
  then obtain m where "n = Suc m" by (cases n) auto
  then show ?case
    by (simp add: parse_value.simps(2) skip_ws_def json_space_def parse_literal_def)
next
  case (JNum l)
  then obtain m where "n = Suc m" by (cases n) auto
  then show ?case using JNum parse_value_num by simp
next
  case (JStr s)
  then obtain m where "n = Suc m" by (cases n) auto
  then show ?case
    using JStr by (simp add: parse_value.simps(2) skip_ws_def json_space_def quote_def del: unquote.simps)
next
  case (JArr xs)
  then obtain m where n: "n = Suc m" by (cases n) auto
  have ws: "skip_ws (CHR ''['' # s) = CHR ''['' # s" "skip_ws (CHR '']'' # s) = CHR '']'' # s" for s
    by (simp_all add: skip_ws_def json_space_def)
  show ?case
  proof (cases "xs = []")
    case True
    then show ?thesis using JArr.prems n by (simp add: parse_value.simps(2) ws)
  next
    case False
    let ?t = "join_with '','' (map json_print xs) @ CHR '']'' # r"
    have e: "parse_elems m (d - 1) ?t = Some (xs, r)"
      using JArr False n by (intro parse_elems_print) auto
    obtain y ys where xs: "xs = y # ys" using False by (cases xs) auto
    have y: "json_ok (d - 1) y" using JArr.prems xs by simp
    have "?t = json_print y @ (if ys = [] then [] else CHR '','' # join_with '','' (map json_print ys)) @ CHR '']'' # r"
      unfolding xs by (simp add: join_with_Cons)
    then have "skip_ws ?t = ?t" "\<not> has_prefix ?t '']''"
      using skip_ws_print [OF y] json_print_start [OF y] value_start_not [of "hd (json_print y)"]
      by (simp_all add: has_prefix_1 hd_append)
    then show ?thesis
      using JArr.prems n e by (simp add: parse_value.simps(2) ws)
  qed
next
  case (JObj kvs)
  then obtain m where n: "n = Suc m" by (cases n) auto
  have ws: "skip_ws (CHR ''{'' # s) = CHR ''{'' # s" "skip_ws (CHR ''}'' # s) = CHR ''}'' # s"
    "skip_ws (quote_char # s) = quote_char # s" for s
    by (simp_all add: skip_ws_def json_space_def)
  show ?case
  proof (cases "kvs = []")
    case True
    then show ?thesis using JObj.prems n by (simp add: parse_value.simps(2) ws)
  next
    case False
    let ?t = "join_with '','' (map print_member kvs) @ CHR ''}'' # r"
    have e: "parse_members m (d - 1) ?t = Some (kvs, r)"
    proof (rule parse_members_print)
      fix x n' r' assume x: "x \<in> set kvs" "2 * length (json_print (snd x)) < n'" "number_stop r'"
      then have "json_ok (d - 1) (snd x)" using JObj.prems(1) by simp
      moreover have "snd x \<in> Basic_BNFs.snds x" by (cases x) simp
      ultimately show "parse_value n' (d - 1) (json_print (snd x) @ r') = Some (snd x, r')"
        using x by (intro JObj.IH)
    qed (use JObj.prems False n in auto)
    obtain k v ys where "kvs = (k, v) # ys" using False by (cases kvs) auto
    then have "\<exists>s. ?t = quote_char # s" by (cases ys) (simp_all add: quote_def)
    then have "skip_ws ?t = ?t" "\<not> has_prefix ?t ''}''" using ws(3) by auto
    then show ?thesis
      using JObj.prems n e by (simp add: parse_value.simps(2) ws)
  qed
qed

theorem json_parse_print: "json_ok max_nesting_depth j \<Longrightarrow> json_parse (json_print j) = Some j"
  using parse_value_print [of max_nesting_depth j "2 * length (json_print j) + 2" "[]"]
  by (simp add: json_parse_def number_stop_sep skip_ws_def)

section \<open>Enough fuel\<close>

lemma unquote_less: "unquote s = Some (x, r) \<Longrightarrow> length r < length s"
proof (induction s arbitrary: x rule: unquote.induct)
  case (2 c cs)
  show ?case
  proof (cases "c = quote_char")
    case False
    with 2 obtain e r' x' where "unquote_step c cs = Some (e, r')" "unquote r' = Some (x', r)"
      by (auto split: option.splits)
    then show ?thesis using 2(1) [OF False] unquote_step_le by fastforce
  qed (use 2 in auto)
qed simp

lemma skip_ws_le: "length (skip_ws s) \<le> length s"
  by (simp add: skip_ws_def length_dropWhile_le)

lemma scan_integer_less: "scan_integer s = Some (i, r) \<Longrightarrow> length r < length s"
proof -
  assume s: "scan_integer s = Some (i, r)"
  then obtain c cs where c: "s = c # cs" "is_digit c" using scan_integer_first [OF s] by (cases s) auto
  have "length (dropWhile is_digit cs) \<le> length cs" by (rule length_dropWhile_le)
  then show ?thesis using s c by (auto simp: scan_integer_def Let_def split: if_splits)
qed

lemma scan_fraction_le: "scan_fraction s = Some (i, r) \<Longrightarrow> length r \<le> length s"
proof -
  have "length (dropWhile is_digit (tl s)) \<le> length (tl s)" by (rule length_dropWhile_le)
  then show "scan_fraction s = Some (i, r) \<Longrightarrow> length r \<le> length s"
    by (auto simp: scan_fraction_def Let_def split: if_splits)
qed

lemma scan_exponent_le: "scan_exponent s = Some (i, r) \<Longrightarrow> length r \<le> length s"
proof -
  have "length (dropWhile is_digit (drop k u)) \<le> length u" for k and u :: string
    using length_dropWhile_le [of is_digit "drop k u"] by simp
  note this [simp] this [of 0, simplified, simp]
  show "scan_exponent s = Some (i, r) \<Longrightarrow> length r \<le> length s"
    by (cases s) (auto simp: scan_exponent_def Let_def split: if_splits intro: order_trans le_SucI)
qed

lemma scan_number_less: "scan_number s = Some (l, r) \<Longrightarrow> length r < length s"
proof -
  assume "scan_number s = Some (l, r)"
  then obtain k i r1 f r2 x where "scan_integer (drop k s) = Some (i, r1)" "scan_fraction r1 = Some (f, r2)"
    "scan_exponent r2 = Some (x, r)"
    unfolding scan_number_def Let_def by (auto split: option.splits)
  then show ?thesis using scan_integer_less scan_fraction_le scan_exponent_le by fastforce
qed

lemma parse_literal_less: "s \<noteq> [] \<Longrightarrow> parse_literal s = Some (v, r) \<Longrightarrow> length r < length s"
  by (auto simp: parse_literal_def split: if_splits dest: scan_number_less)

lemma parse_literal_Nil: "parse_literal [] = None"
  by (simp add: parse_literal_def scan_number_def scan_integer_def)

lemma parse_less:
  "parse_value n d s = Some (v, r) \<Longrightarrow> length r < length s"
  "parse_elems n d s = Some (vs, r) \<Longrightarrow> length r < length s"
  "parse_members n d s = Some (kvs, r) \<Longrightarrow> length r < length s"
proof (induction n arbitrary: d s v vs kvs r)
  case (Suc n)
  {
    case 1
    let ?t = "skip_ws s"
    have l: "length (skip_ws (tl ?t)) \<le> length (tl ?t)" by (rule skip_ws_le)
    have t: "?t \<noteq> []" using 1 by (auto simp: parse_value.simps(2) parse_literal_Nil)
    then have tl: "length (tl ?t) < length ?t" by (cases ?t) simp_all
    consider (str) x where "unquote (tl ?t) = Some (x, r)"
      | (empty) "r = tl (skip_ws (tl ?t))"
      | (arr) xs where "parse_elems n (d - 1) (tl ?t) = Some (xs, r)"
      | (obj) xs where "parse_members n (d - 1) (tl ?t) = Some (xs, r)"
      | (lit) "parse_literal ?t = Some (v, r)"
      using 1 unfolding parse_value.simps(2) Let_def by (auto split: if_splits)
    then have "length r < length ?t"
    proof cases
      case str
      then show ?thesis using unquote_less tl by fastforce
    next
      case empty
      then show ?thesis using l tl by simp
    next
      case arr
      then show ?thesis using Suc.IH(2) tl by fastforce
    next
      case obj
      then show ?thesis using Suc.IH(3) tl by fastforce
    next
      case lit
      then show ?thesis using parse_literal_less t by blast
    qed
    then show ?case using skip_ws_le [of s] by (rule less_le_trans)
  next
    case 2
    then obtain v r1 where v: "parse_value n d s = Some (v, r1)" by (auto simp: parse_elems.simps(2) split: option.splits)
    let ?t = "skip_ws r1"
    have t: "?t \<noteq> []" using 2 v by (auto simp: parse_elems.simps(2))
    consider xs where "parse_elems n d (tl ?t) = Some (xs, r)" | "r = tl ?t"
      using 2 v by (auto simp: parse_elems.simps(2) Let_def split: if_splits)
    then have "length r < length ?t"
      using t Suc.IH(2) [of d "tl ?t"] by cases (fastforce simp: Nitpick.size_list_simp(2))+
    then show ?case using Suc.IH(1) [OF v] skip_ws_le [of r1] by simp
  next
    case 3
    let ?t = "skip_ws s"
    obtain k r0 v r1 where p: "unquote (tl ?t) = Some (k, r0)" "has_prefix (skip_ws r0) '':''"
      "parse_value n d (tl (skip_ws r0)) = Some (v, r1)"
      using 3 by (auto simp: parse_members.simps(2) Let_def split: option.splits if_splits)
    let ?u = "skip_ws r1"
    have u: "?u \<noteq> []" using 3 p by (auto simp: parse_members.simps(2) Let_def split: if_splits)
    consider xs where "parse_members n d (tl ?u) = Some (xs, r)" | "r = tl ?u"
      using 3 p by (auto simp: parse_members.simps(2) Let_def split: if_splits)
    then have "length r < length ?u"
      using u Suc.IH(3) [of d "tl ?u"] by cases (fastforce simp: Nitpick.size_list_simp(2))+
    moreover have "length r0 < length (tl ?t)" using unquote_less [OF p(1)] .
    moreover have "length r1 < length (tl (skip_ws r0))" using Suc.IH(1) [OF p(3)] .
    ultimately show ?case using skip_ws_le [of r0] skip_ws_le [of r1] skip_ws_le [of s] by simp
  }
qed simp_all

theorem parse_value_fuel:
  "2 * length s < n \<Longrightarrow> 2 * length s < m \<Longrightarrow> parse_value n d s = parse_value m d s"
  "2 * length s + 1 < n \<Longrightarrow> 2 * length s + 1 < m \<Longrightarrow> parse_elems n d s = parse_elems m d s"
  "2 * length s + 1 < n \<Longrightarrow> 2 * length s + 1 < m \<Longrightarrow> parse_members n d s = parse_members m d s"
proof (induction n arbitrary: d s m)
  case (Suc n)
  {
    case 1
    then obtain k where k: "m = Suc k" by (cases m) auto
    let ?t = "skip_ws s"
    have "length (tl ?t) < length s \<or> ?t = []" using skip_ws_le [of s] by (cases ?t) auto
    moreover have "\<not> has_prefix [] [c]" for c by simp
    ultimately have "?t \<noteq> [] \<Longrightarrow> parse_elems n (d - 1) (tl ?t) = parse_elems k (d - 1) (tl ?t)"
      "?t \<noteq> [] \<Longrightarrow> parse_members n (d - 1) (tl ?t) = parse_members k (d - 1) (tl ?t)"
      using 1 k by (auto intro!: Suc.IH)
    then show ?case unfolding k parse_value.simps(2) by (cases ?t) (auto simp: Let_def)
  next
    case 2
    then obtain k where k: "m = Suc k" by (cases m) auto
    have v: "parse_value n d s = parse_value k d s" using 2 k by (intro Suc.IH) auto
    have "parse_elems n d (tl (skip_ws r)) = parse_elems k d (tl (skip_ws r))" if "parse_value k d s = Some (x, r)" for x r
      using parse_less(1) [OF that] 2 k skip_ws_le [of r] by (intro Suc.IH) auto
    then show ?case unfolding k parse_elems.simps(2) v by (auto simp: Let_def split: option.splits)
  next
    case 3
    then obtain k where k: "m = Suc k" by (cases m) auto
    let ?t = "skip_ws s"
    have l: "length (tl (skip_ws r0)) < length s" if "unquote (tl ?t) = Some (x, r0)" for x r0
      using unquote_less [OF that] skip_ws_le [of r0] skip_ws_le [of s] by simp
    have v: "parse_value n d (tl (skip_ws r0)) = parse_value k d (tl (skip_ws r0))"
      if "unquote (tl ?t) = Some (x, r0)" for x r0
      using l [OF that] 3 k by (intro Suc.IH) auto
    have "parse_members n d (tl (skip_ws r)) = parse_members k d (tl (skip_ws r))"
      if "unquote (tl ?t) = Some (x, r0)" "parse_value k d (tl (skip_ws r0)) = Some (y, r)" for x y r0 r
      using l [OF that(1)] parse_less(1) [OF that(2)] 3 k skip_ws_le [of r] by (intro Suc.IH) auto
    then show ?case unfolding k parse_members.simps(2) using v by (auto simp: Let_def split: option.splits)
  }
qed simp_all

section \<open>Fields\<close>

lemma foldl_None [simp]: "foldl (\<lambda>acc v. case acc of None \<Rightarrow> None | Some x \<Rightarrow> f x v) None vs = None"
  by (induction vs) simp_all

lemma field_Nil [simp]: "field f d old [] = Some old"
  by (simp add: field_def members_of_def)

lemma field_Cons [simp]:
  "field f d old ((k, v) # kvs) =
     (if fold_name k = fold_name f then (case d old v of None \<Rightarrow> None | Some x \<Rightarrow> field f d x kvs)
      else field f d old kvs)"
  by (auto simp: field_def members_of_def split: option.splits)

lemma field_append:
  "field f d old (a @ b) = (case field f d old a of None \<Rightarrow> None | Some x \<Rightarrow> field f d x b)"
  by (simp add: field_def members_of_def split: option.split)

lemma field_omit_if:
  "field f d old (omit_if b k v) =
     (if b \<or> fold_name k \<noteq> fold_name f then Some old else d old v)"
  by (auto simp: omit_if_def split: option.splits)

text \<open>A part of a record no field of the decoder writes stays as it was.\<close>

lemma dec_struct_keeps:
  assumes "\<And>f kvs s s'. f \<in> set fs \<Longrightarrow> f kvs s = Some s' \<Longrightarrow> g s' = g s" "dec_struct fs old v = Some x"
  shows "g x = g old"
proof -
  have "foldl (\<lambda>acc f. case acc of None \<Rightarrow> None | Some s \<Rightarrow> f kvs s) (Some s) fs = Some x \<Longrightarrow> g x = g s" for kvs s
    using assms(1)
  proof (induction fs arbitrary: s)
    case (Cons f fs)
    show ?case
    proof (cases "f kvs s")
      case None
      then show ?thesis using Cons.prems(1) by simp
    next
      case (Some s')
      have "g x = g s'"
      proof (rule Cons.IH)
        show "foldl (\<lambda>acc f. case acc of None \<Rightarrow> None | Some s \<Rightarrow> f kvs s) (Some s') fs = Some x"
          using Cons.prems(1) Some by simp
      qed (use Cons.prems(2) in auto)
      then show ?thesis using Cons.prems(2) [of f kvs s s'] Some by simp
    qed
  qed simp
  then show ?thesis using assms(2) by (cases v) auto
qed

lemma all_some_map: "(\<And>x. x \<in> set xs \<Longrightarrow> d (e x) = Some x) \<Longrightarrow> all_some (map (d \<circ> e) xs) = Some xs"
  by (induction xs) auto

lemma dec_enc_strings [simp]: "dec_list [] dec_string old (enc_strings xs) = Some xs"
  by (simp add: enc_strings_def all_some_map)

lemma has_prefix_ascii: "byte_val c < 128 \<Longrightarrow> 128 \<le> byte_val d \<Longrightarrow> \<not> has_prefix (c # cs) (d # ds)"
  by auto

lemma fold_name_ascii: "is_ascii s \<Longrightarrow> fold_name s = map ascii_lower s"
  by (induction s rule: fold_name.induct) (auto simp: fold_name.simps is_ascii_def byte_val_def)

lemma parse_int64_show: "- (2 ^ 63) \<le> i \<Longrightarrow> i < 2 ^ 63 \<Longrightarrow> parse_int64 (show_int i) = Some i"
proof -
  assume i: "- (2 ^ 63) \<le> i" "i < 2 ^ 63"
  have "is_digit (hd (show_nat n))" for n using scan_integer_first [OF scan_integer_show] by simp
  moreover have "\<not> is_digit (CHR ''-'')" by (simp add: is_digit_def byte_val_def)
  ultimately have m: "\<not> has_prefix (show_nat n) ''-''" for n unfolding has_prefix_1 by metis
  show ?thesis
    using i by (auto simp: parse_int64_def show_int_def m parse_uint_show_nat nat_less_iff)
qed

lemma unmarshal_print: "json_ok max_nesting_depth j \<Longrightarrow> unmarshal d old (json_print j) = d old j"
  by (simp add: unmarshal_def json_parse_print)

end
