(* ===== verification/Demo_Credentials.thy ===== *)
theory Demo_Credentials
  imports Demo_Kit Go_Json_Lemmas
begin

text \<open>
  What the demo kit mints is what the verifiers accept: the laws of the libraries it calls, the token and the
  receipt it makes seen by \<open>verify/scitt\<close>, the credentials of a provisioned agent seen by \<open>pop\<close>, and the round
  trips of the bundle through its files and of the access token through its text.
\<close>

section \<open>The laws of the library\<close>

text \<open>
  CBOR: what \<open>Marshal\<close> wrote within the decoder's limits is read back, a part of it as the encoding of that
  part; text must be valid UTF-8, and a map has no two keys that are read alike.
\<close>

definition cbor_laws :: "cbor_lib \<Rightarrow> (cbor_value \<Rightarrow> bytes option) \<Rightarrow> bool" where
  "cbor_laws B M \<longleftrightarrow>
     cb_mode B
     \<and> (\<forall>v b. M v = Some b \<longrightarrow> within_limits 16 v \<longrightarrow> b \<noteq> [] \<and> cb_raw B b = Some b)
     \<and> (\<forall>n v b. M (VTag n v) = Some b \<longrightarrow> (\<exists>c. M v = Some c \<and> cb_tag B b = Some (n, c)))
     \<and> (\<forall>vs b. M (VList vs) = Some b \<longrightarrow> within_limits 16 (VList vs) \<longrightarrow>
          (\<exists>cs. cb_array B b = Some cs \<and> list_all2 (\<lambda>v c. M v = Some c) vs cs))
     \<and> (\<forall>kvs b. M (VIntMap kvs) = Some b \<longrightarrow> within_limits 16 (VIntMap kvs) \<longrightarrow> distinct (map fst kvs) \<longrightarrow>
          (\<exists>m. cb_int_map B b = Some m \<and> (\<forall>k. rel_option (\<lambda>v c. M v = Some c) (map_of kvs k) (m k))))
     \<and> (\<forall>kvs b. M (VAnyMap kvs) = Some b \<longrightarrow> within_limits 16 (VAnyMap kvs) \<longrightarrow>
          distinct (map (read_key \<circ> fst) kvs) \<longrightarrow>
          (\<exists>m. cb_any_map B b = Some m
             \<and> (\<forall>k. rel_option (\<lambda>v c. M v = Some c) (map_of (map (apfst read_key) kvs) k) (m k))))
     \<and> (\<forall>s b. M (VBytes s) = Some b \<longrightarrow> cb_bytes B b = Some s)
     \<and> (\<forall>s b. M (VText s) = Some b \<longrightarrow> utf8_valid s \<longrightarrow> cb_string B b = Some s)
     \<and> (\<forall>i b. M (VInt i) = Some b \<longrightarrow> cb_int64 B b = Some i)
     \<and> (\<forall>i b. M (VUint i) = Some b \<longrightarrow> cb_uint64 B b = Some i)"

lemma cbor_lawsD:
  assumes "cbor_laws B M"
  shows "cb_mode B"
    "M v = Some b \<Longrightarrow> within_limits 16 v \<Longrightarrow> b \<noteq> [] \<and> cb_raw B b = Some b"
    "M (VTag n v) = Some b \<Longrightarrow> \<exists>c. M v = Some c \<and> cb_tag B b = Some (n, c)"
    "M (VList vs) = Some b \<Longrightarrow> within_limits 16 (VList vs) \<Longrightarrow>
       \<exists>cs. cb_array B b = Some cs \<and> list_all2 (\<lambda>v c. M v = Some c) vs cs"
    "M (VIntMap kvs) = Some b \<Longrightarrow> within_limits 16 (VIntMap kvs) \<Longrightarrow> distinct (map fst kvs) \<Longrightarrow>
       \<exists>m. cb_int_map B b = Some m \<and> (\<forall>k. rel_option (\<lambda>v c. M v = Some c) (map_of kvs k) (m k))"
    "M (VAnyMap members) = Some b \<Longrightarrow> within_limits 16 (VAnyMap members) \<Longrightarrow> distinct (map (read_key \<circ> fst) members) \<Longrightarrow>
       \<exists>m. cb_any_map B b = Some m
         \<and> (\<forall>k. rel_option (\<lambda>v c. M v = Some c) (map_of (map (apfst read_key) members) k) (m k))"
    "M (VBytes s) = Some b \<Longrightarrow> cb_bytes B b = Some s"
    "M (VText s) = Some b \<Longrightarrow> utf8_valid s \<Longrightarrow> cb_string B b = Some s"
    "M (VInt i) = Some b \<Longrightarrow> cb_int64 B b = Some i"
    "M (VUint w) = Some b \<Longrightarrow> cb_uint64 B b = Some w"
proof -
  note l = assms [unfolded cbor_laws_def]
  show "cb_mode B" by (rule l [THEN conjunct1])
  show "M v = Some b \<Longrightarrow> within_limits 16 v \<Longrightarrow> b \<noteq> [] \<and> cb_raw B b = Some b" by (rule l [THEN conjunct2, THEN conjunct1, rule_format])
  show "M (VTag n v) = Some b \<Longrightarrow> \<exists>c. M v = Some c \<and> cb_tag B b = Some (n, c)" by (rule l [THEN conjunct2, THEN conjunct2, THEN conjunct1, rule_format])
  show "M (VList vs) = Some b \<Longrightarrow> within_limits 16 (VList vs) \<Longrightarrow>
       \<exists>cs. cb_array B b = Some cs \<and> list_all2 (\<lambda>v c. M v = Some c) vs cs" by (rule l [THEN conjunct2, THEN conjunct2, THEN conjunct2, THEN conjunct1, rule_format])
  show "M (VIntMap kvs) = Some b \<Longrightarrow> within_limits 16 (VIntMap kvs) \<Longrightarrow> distinct (map fst kvs) \<Longrightarrow>
       \<exists>m. cb_int_map B b = Some m \<and> (\<forall>k. rel_option (\<lambda>v c. M v = Some c) (map_of kvs k) (m k))" by (rule l [THEN conjunct2, THEN conjunct2, THEN conjunct2, THEN conjunct2, THEN conjunct1, rule_format])
  show "M (VAnyMap members) = Some b \<Longrightarrow> within_limits 16 (VAnyMap members) \<Longrightarrow> distinct (map (read_key \<circ> fst) members) \<Longrightarrow>
       \<exists>m. cb_any_map B b = Some m
         \<and> (\<forall>k. rel_option (\<lambda>v c. M v = Some c) (map_of (map (apfst read_key) members) k) (m k))" by (rule l [THEN conjunct2, THEN conjunct2, THEN conjunct2, THEN conjunct2, THEN conjunct2, THEN conjunct1, rule_format])
  show "M (VBytes s) = Some b \<Longrightarrow> cb_bytes B b = Some s" by (rule l [THEN conjunct2, THEN conjunct2, THEN conjunct2, THEN conjunct2, THEN conjunct2, THEN conjunct2, THEN conjunct1, rule_format])
  show "M (VText s) = Some b \<Longrightarrow> utf8_valid s \<Longrightarrow> cb_string B b = Some s" by (rule l [THEN conjunct2, THEN conjunct2, THEN conjunct2, THEN conjunct2, THEN conjunct2, THEN conjunct2, THEN conjunct2, THEN conjunct1, rule_format])
  show "M (VInt i) = Some b \<Longrightarrow> cb_int64 B b = Some i" by (rule l [THEN conjunct2, THEN conjunct2, THEN conjunct2, THEN conjunct2, THEN conjunct2, THEN conjunct2, THEN conjunct2, THEN conjunct2, THEN conjunct1, rule_format])
  show "M (VUint w) = Some b \<Longrightarrow> cb_uint64 B b = Some w" by (rule l [THEN conjunct2, THEN conjunct2, THEN conjunct2, THEN conjunct2, THEN conjunct2, THEN conjunct2, THEN conjunct2, THEN conjunct2, THEN conjunct2, rule_format])
qed

text \<open>A member of a decoded map: the encoding of the member of that key, and nothing else.\<close>

lemma int_map_get:
  assumes "\<forall>k. rel_option (\<lambda>v c. M v = Some c) (map_of kvs k) (m k)"
  shows "map_of kvs k = Some v \<Longrightarrow> \<exists>c. m k = Some c \<and> M v = Some c"
    "map_of kvs k = None \<Longrightarrow> m k = None"
  using assms [rule_format, of k] by (auto simp: option_rel_Some1)

definition whole_second :: "int \<Rightarrow> int" where
  "whole_second t = t div nanos_per_second * nanos_per_second"

text \<open>
  Keys and certificates: \<open>GenerateKey\<close> makes a P-256 key, a signature made with a key verifies in its DER form
  too, and the certificate made for a template is parsed with its key, names and, to the second, its dates.
\<close>

definition p256_keys :: "('s, 'k) sign_lib \<Rightarrow> ('s, 'k) demo_lib \<Rightarrow> bool" where
  "p256_keys S D \<longleftrightarrow> (\<forall>r sk. dl_generate D r = Some sk \<longrightarrow> sl_public S sk = PK_P256 (dl_public D sk))"

definition der_signatures_verify :: "'k crypto \<Rightarrow> ('s, 'k) sign_lib \<Rightarrow> bool" where
  "der_signatures_verify C S \<longleftrightarrow>
     (\<forall>sk pub d r s. sl_public S sk = PK_P256 pub \<longrightarrow> sl_sign S sk d = Some (r, s) \<longrightarrow>
        cr_verify_asn1 C pub d (der_signature r s))"

definition cert_of_template :: "('s, 'k) demo_lib \<Rightarrow> cert_template \<Rightarrow> bytes \<Rightarrow> x509_cert \<Rightarrow> bool" where
  "cert_of_template D t der cert \<longleftrightarrow>
     x_raw cert = der \<and> x_subject_cn cert = ct_common_name t \<and> x_uris cert = map (dl_url_text D) (ct_uris t)
     \<and> x_not_before cert = whole_second (ct_not_before t) \<and> x_not_after cert = whole_second (ct_not_after t)"

definition cert_creation_ok :: "'k jose_lib \<Rightarrow> ('s, 'k) sign_lib \<Rightarrow> ('s, 'k) demo_lib \<Rightarrow> bool" where
  "cert_creation_ok J S D \<longleftrightarrow>
     (\<forall>t sk pub der. dl_create_cert D t sk = Some der \<longrightarrow> sl_public S sk = PK_P256 pub \<longrightarrow>
        (\<exists>cert. jl_x509 J der = Some (cert, PK_P256 pub) \<and> cert_of_template D t der cert))"

definition bundle_codec_ok :: "('s, 'k) demo_lib \<Rightarrow> bool" where
  "bundle_codec_ok D \<longleftrightarrow>
     (\<forall>sk der. dl_pkcs8 D sk = Some der \<longrightarrow> dl_parse_pkcs8 D der = Some (Ecdsa_Private sk))
     \<and> (\<forall>t der. dl_pem_decode D (dl_pem_encode D (plain_block t der)) = Some (plain_block t der))"

section \<open>Minted structures verify\<close>

lemma within_limits_mono: "within_limits d v \<Longrightarrow> d \<le> e \<Longrightarrow> within_limits e v"
  by (induction d v arbitrary: e rule: within_limits.induct) (auto simp: list_all_iff)

lemma key_id_Inr:
  "key_id L D pub = Inr kid \<longleftrightarrow> (\<exists>spki. dl_spki D pub = Some spki \<and> kid = take 4 (sha_of (cl_jose L) spki))"
  by (auto simp: key_id_def split: option.splits)

lemma cose_sign1_Inr:
  "cose_sign1 L S D key protected un payload = Inr data \<longleftrightarrow>
     (\<exists>bs r s. cb_marshal (cl_cbor L) [CText ''Signature1'', CBytes protected, CBytes [], CBytes payload] = Some bs
        \<and> sl_sign S key (sha_of (cl_jose L) bs) = Some (r, s)
        \<and> dl_marshal D (VTag 18 (VList [VBytes protected, un, VBytes payload, VBytes (fill_bytes 32 r @ fill_bytes 32 s)]))
            = Some data)"
  by (auto simp: cose_sign1_def sig_structure_digest_def build_sig_structure_def sign_p1363_def split: option.splits)

text \<open>
  A minted structure is parsed as what went into it: the two header entries, and the third where there is
  one.
\<close>

lemma cose_sign1_parses:
  assumes laws: "cbor_laws (cl_cbor L) (dl_marshal D)" "ecdsa_correct (cl_jose L) S"
      "der_signatures_verify (cl_crypto L) S"
    and key: "sl_public S key = PK_P256 pub"
    and hdr: "dl_marshal D (VIntMap ([(1, VInt alg_es256), (4, VBytes kid)] @ rest)) = Some protected"
      "rest \<in> {[], [(395, VInt vds)]}" "length kid = 4"
    and un: "within_limits 14 un"
    and mint: "cose_sign1 L S D key protected un payload = Inr data"
    and size: "payload \<noteq> []" "length data \<le> 1048576"
  shows "\<exists>cose. parse_cose_sign1 (cl_cbor L) data = Inr cose
    \<and> pc_protected cose = \<lparr>ph_alg = alg_es256, ph_kid = kid, ph_vds = (if rest = [] then None else Some vds),
         ph_content_type = None, ph_cwt_iss = None, ph_cwt_iat = None\<rparr>
    \<and> pc_payload cose = payload \<and> dl_marshal D un = Some (pc_unprotected cose)
    \<and> signed_by (cl_cbor L) (cl_crypto L) pub cose"
proof -
  let ?B = "cl_cbor L" and ?M = "dl_marshal D"
  note law = cbor_lawsD [OF laws(1)]
  obtain bs r s where sig: "cb_marshal ?B [CText ''Signature1'', CBytes protected, CBytes [], CBytes payload] = Some bs"
    "sl_sign S key (sha_of (cl_jose L) bs) = Some (r, s)"
    and data: "?M (VTag 18 (VList [VBytes protected, un, VBytes payload, VBytes (fill_bytes 32 r @ fill_bytes 32 s)]))
      = Some data" (is "?M (VTag 18 (VList ?vs)) = _")
    using mint unfolding cose_sign1_Inr by blast
  have fits: "r < 2 ^ 256" "s < 2 ^ 256" using laws(2) key sig(2) by (auto simp: ecdsa_correct_def)
  have w: "within_limits 16 (VTag 18 (VList ?vs))" "within_limits 16 (VList ?vs)"
    using un within_limits_mono [OF un, of 15] by simp_all
  obtain c where c: "?M (VList ?vs) = Some c" "cb_tag ?B data = Some (18, c)" using law(3) [OF data] by blast
  obtain es where es: "cb_array ?B c = Some es" "list_all2 (\<lambda>v e. ?M v = Some e) ?vs es" using law(4) [OF c(1) w(2)] by blast
  obtain e0 e1 e2 e3 where e: "es = [e0, e1, e2, e3]" "?M (VBytes protected) = Some e0" "?M un = Some e1"
    "?M (VBytes payload) = Some e2" "?M (VBytes (fill_bytes 32 r @ fill_bytes 32 s)) = Some e3"
    using es(2) by (auto simp: list_all2_Cons1)
  obtain m where m: "cb_int_map ?B protected = Some m"
    "\<forall>k. rel_option (\<lambda>v c. ?M v = Some c) (map_of ([(1, VInt alg_es256), (4, VBytes kid)] @ rest) k) (m k)"
    using law(5) [OF hdr(1)] hdr(2) by auto
  obtain a k where ak: "m 1 = Some a" "?M (VInt alg_es256) = Some a" "m 4 = Some k" "?M (VBytes kid) = Some k"
    using int_map_get(1) [OF m(2), of 1] int_map_get(1) [OF m(2), of 4] by auto
  have none: "m 15 = None" "m 3 = None" using int_map_get(2) [OF m(2)] hdr(2) by auto
  have vds: "(case m 395 of None \<Rightarrow> None | Some x \<Rightarrow> cb_int64 ?B x) = (if rest = [] then None else Some vds)"
    using int_map_get [OF m(2), of 395] hdr(2) law(9) by fastforce
  let ?h = "\<lparr>ph_alg = alg_es256, ph_kid = kid, ph_vds = (if rest = [] then None else Some vds),
         ph_content_type = None, ph_cwt_iss = None, ph_cwt_iat = None\<rparr>"
  have h: "parse_protected_header ?B protected = Inr ?h"
    using m(1) ak none vds law(9) [OF ak(2)] law(7) [OF ak(4)] hdr(3)
    by (simp add: parse_protected_header_def decode_alg_def decode_kid_def alg_es256_def cose_alg_es256_def)
  let ?c = "\<lparr>pc_protected_bytes = protected, pc_protected = ?h, pc_unprotected = e1, pc_payload = payload,
      pc_signature = fill_bytes 32 r @ fill_bytes 32 s\<rparr>"
  have "parse_cose_elements ?B es = Inr ?c"
    unfolding parse_cose_elements_Inr
    using e law(7) [OF e(2)] law(7) [OF e(4)] law(7) [OF e(5)] h size(1) fits
    by (simp add: p1363_signature_len_def fill_bytes_32)
  then have p: "parse_cose_sign1 ?B data = Inr ?c"
    using law(1) law(2) [OF data w(1)] c(2) es(1) size(2)
    by (simp add: parse_cose_sign1_Inr unwrap_tag18_def max_cose_input_size_def)
  have "signed_by ?B (cl_crypto L) pub ?c"
    using sig key laws(3) fits by (auto simp: signed_by_def der_signatures_verify_def fill_bytes_32)
  with p e(3) show ?thesis by (intro exI [of _ ?c]) simp
qed

definition minted_status :: "string \<Rightarrow> string \<Rightarrow> bytes \<Rightarrow> int64 \<Rightarrow> status_payload" where
  "minted_status agent name fp now =
     \<lparr>sp_agent_id = agent, sp_ans_name = name, sp_status = StatusActive, sp_iat = now - status_backdate_sec,
      sp_exp = now + status_ttl_sec, sp_identity_certs = [\<lparr>cert_fp = fp, cert_type = ''x509-ov-client''\<rparr>],
      sp_server_certs = [], sp_metadata_hashes = Map.empty\<rparr>"

lemma read_key_small: "k \<le> 8 \<Longrightarrow> read_key (KInt (of_nat k)) = KUint (of_nat k)"
proof -
  assume "k \<le> 8"
  then have "k \<in> {0, 1, 2, 3, 4, 5, 6, 7, 8}" by auto
  then show ?thesis by (auto simp: read_key_def)
qed

text \<open>Reading a member of a decoded map by its number, as the code does.\<close>

lemma payload_field_Some:
  assumes "\<forall>k. rel_option (\<lambda>v c. M v = Some c) (map_of kvs k) (m k)"
  shows "map_of kvs (KUint (of_nat k)) = Some v \<Longrightarrow> \<exists>c. payload_field m k s = Some c \<and> M v = Some c"
    "map_of kvs (KUint (of_nat k)) = None \<Longrightarrow> map_of kvs (KInt (of_nat k)) = None \<Longrightarrow> map_of kvs (KStr s) = None \<Longrightarrow>
       payload_field m k s = None"
    "map_of kvs (KUint (of_nat k)) = None \<Longrightarrow> map_of kvs (KInt (of_nat k)) = None \<Longrightarrow> map_of kvs (KStr s) = Some v \<Longrightarrow>
       \<exists>c. payload_field m k s = Some c \<and> M v = Some c"
  using assms [rule_format, of "KUint (of_nat k)"] assms [rule_format, of "KInt (of_nat k)"]
    assms [rule_format, of "KStr s"]
  by (auto simp: payload_field_def option_rel_Some1)

lemma minted_cert_entry:
  assumes laws: "cbor_laws B M" and fp: "length fp = 32" "fp \<noteq> zero_hash"
    and enc: "M (VAnyMap [(KStr ''fingerprint'', VBytes fp), (KStr ''cert_type'', VText ''x509-ov-client'')]) = Some c"
  shows "decode_cert_entry u B c = Some \<lparr>cert_fp = fp, cert_type = ''x509-ov-client''\<rparr>"
proof -
  note law = cbor_lawsD [OF laws]
  let ?kvs = "[(KStr ''fingerprint'', VBytes fp), (KStr ''cert_type'', VText ''x509-ov-client'')]"
  have k: "map (apfst read_key) ?kvs = ?kvs" by (simp add: read_key_def)
  obtain m where m: "cb_any_map B c = Some m"
    "\<forall>k. rel_option (\<lambda>v c. M v = Some c) (map_of (map (apfst read_key) ?kvs) k) (m k)"
    using law(6) [OF enc] by (auto simp: read_key_def)
  note get = payload_field_Some [OF m(2) [unfolded k]]
  obtain f where f: "payload_field m 1 ''fingerprint'' = Some f" "M (VBytes fp) = Some f" using get(3) [of 1 "''fingerprint''"] by auto
  obtain t where t: "payload_field m 2 ''cert_type'' = Some t" "M (VText ''x509-ov-client'') = Some t"
    using get(3) [of 2 "''cert_type''"] by auto
  have "utf8_valid ''x509-ov-client''" by code_simp
  then show ?thesis
    using m(1) f(1) t(1) law(7) [OF f(2)] law(8) [OF t(2)] fp
    by (simp add: decode_cert_entry_def decode_fingerprint_field_def decode_string_field_def)
qed

text \<open>The claims of a minted token are decoded as they were minted.\<close>

lemma minted_payload_decoded:
  assumes laws: "cbor_laws B M" and fp: "length fp = 32" "fp \<noteq> zero_hash"
    and names: "agent \<noteq> []" "utf8_valid agent" "name \<noteq> []" "utf8_valid name" "now + status_ttl_sec \<noteq> 0"
    and enc: "M (status_payload_value agent name fp now) = Some b"
  shows "decode_status_payload u B b = Inr (minted_status agent name fp now)"
proof -
  note law = cbor_lawsD [OF laws]
  let ?cert = "VAnyMap [(KStr ''fingerprint'', VBytes fp), (KStr ''cert_type'', VText ''x509-ov-client'')]"
  let ?vs = "[VText agent, VText StatusActive, VInt (now - status_backdate_sec), VInt (now + status_ttl_sec),
      VText name, VList [?cert]]"
  define kvs where "kvs = zip (map KInt [1, 2, 3, 4, 5, 6]) ?vs"
  have v: "status_payload_value agent name fp now = VAnyMap kvs" by (simp add: status_payload_value_def kvs_def)
  define got where "got = zip (map KUint [1, 2, 3, 4, 5, 6]) ?vs"
  have k: "map (apfst read_key) kvs = got" "distinct (map (read_key \<circ> fst) kvs)"
    by (simp_all add: kvs_def got_def read_key_def)
  have w: "within_limits 16 (VAnyMap kvs)" by (simp add: kvs_def)
  obtain m where m: "cb_any_map B b = Some m" "\<forall>k. rel_option (\<lambda>v c. M v = Some c) (map_of got k) (m k)"
    using law(6) [OF enc [unfolded v] w k(2)] k(1) by auto
  note get = payload_field_Some [OF m(2)]
  obtain c1 where c1: "payload_field m 1 ''agent_id'' = Some c1" "M (VText agent) = Some c1"
    using get(1) [of 1] by (auto simp: got_def)
  obtain c2 where c2: "payload_field m 2 ''status'' = Some c2" "M (VText StatusActive) = Some c2"
    using get(1) [of 2] by (auto simp: got_def)
  obtain c3 where c3: "payload_field m 3 ''iat'' = Some c3" "M (VInt (now - status_backdate_sec)) = Some c3"
    using get(1) [of 3] by (auto simp: got_def)
  obtain c4 where c4: "payload_field m 4 ''exp'' = Some c4" "M (VInt (now + status_ttl_sec)) = Some c4"
    using get(1) [of 4] by (auto simp: got_def)
  obtain c5 where c5: "payload_field m 5 ''ans_name'' = Some c5" "M (VText name) = Some c5"
    using get(1) [of 5] by (auto simp: got_def)
  obtain c6 where c6: "payload_field m 6 ''valid_identity_certs'' = Some c6" "M (VList [?cert]) = Some c6"
    using get(1) [of 6] by (auto simp: got_def)
  have none: "payload_field m 7 ''valid_server_certs'' = None" "payload_field m 8 ''metadata_hashes'' = None"
    by (rule get(2); simp add: got_def)+
  obtain c where c: "cb_array B c6 = Some [c]" "M ?cert = Some c"
    using law(4) [OF c6(2)] by (auto simp: list_all2_Cons1)
  have arr: "decode_cert_array u B c6 = Inr [\<lparr>cert_fp = fp, cert_type = ''x509-ov-client''\<rparr>]"
    using c(1) minted_cert_entry [OF laws fp c(2)]
    by (simp add: decode_cert_array_def max_cert_array_len_def List.map_filter_simps)
  have ne: "b \<noteq> []" using law(2) [OF enc [unfolded v] w] by simp
  have active: "utf8_valid StatusActive" by code_simp
  have "decode_payload_fields u B m = Inr (minted_status agent name fp now)"
    using c1(1) c2(1) c3(1) c4(1) c5(1) c6(1) none arr law(8) [OF c1(2) names(2)] law(8) [OF c2(2) active]
      law(9) [OF c3(2)] law(9) [OF c4(2)] law(8) [OF c5(2) names(4)]
    by (simp add: decode_payload_fields_def optional_certs_def decode_string_field_def decode_int64_field_def
        minted_status_def)
  then show ?thesis
    using m(1) law(1) ne names by (simp add: decode_status_payload_def minted_status_def StatusActive_def)
qed

text \<open>What the library promises the kit, in one word.\<close>

definition kit_laws :: "'k caller_lib \<Rightarrow> ('s, 'k) sign_lib \<Rightarrow> ('s, 'k) demo_lib \<Rightarrow> bool" where
  "kit_laws L S D \<longleftrightarrow>
     cbor_laws (cl_cbor L) (dl_marshal D) \<and> ecdsa_correct (cl_jose L) S \<and> der_signatures_verify (cl_crypto L) S
     \<and> p256_keys S D \<and> sha_fits (cl_jose L)"

lemma kit_lawsD:
  assumes "kit_laws L S D"
  shows "cbor_laws (cl_cbor L) (dl_marshal D)" "ecdsa_correct (cl_jose L) S" "der_signatures_verify (cl_crypto L) S"
    "p256_keys S D" "length (sha_of (cl_jose L) b) = 32"
  using assms by (simp_all add: kit_laws_def sha_fits_def)

lemma kit_key_length: "kit_laws L S D \<Longrightarrow> key_id L D pub = Inr kid \<Longrightarrow> length kid = 4"
  by (auto simp: key_id_Inr kit_lawsD(5))

lemma demo_key_lookup_Inr:
  "demo_key_lookup L D unknown pub = Inr keys \<longleftrightarrow>
     (\<exists>kid. key_id L D pub = Inr kid \<and> keys = demo_lookup_get unknown kid pub)"
  by (auto simp: demo_key_lookup_def)

lemma demo_lookup_own [simp]:
  "demo_lookup_get unknown kid pub kid = Inr \<lparr>tk_name = ''demo-tl'', tk_kid = kid, tk_key = pub\<rparr>"
  by (simp add: demo_lookup_get_def)

lemma minted_token_verifies:
  assumes laws: "kit_laws L S D" and key: "sl_public S tlk = PK_P256 (dl_public D tlk)"
    and keys: "demo_key_lookup L D unknown (dl_public D tlk) = Inr keys"
    and mint: "mint_status_token L S D tlk agent name fp now = Inr tok" "length tok \<le> 1048576"
    and fp: "length fp = 32" "fp \<noteq> zero_hash"
    and names: "agent \<noteq> []" "utf8_valid agent" "name \<noteq> []" "utf8_valid name"
    and live: "unix_seconds now + status_ttl_sec \<noteq> 0" "\<not> token_expired t (unix_seconds now + status_ttl_sec) skew"
  shows "\<exists>kid. key_id L D (dl_public D tlk) = Inr kid
    \<and> verify_status_token_at u (cl_cbor L) (cl_crypto L) keys tok skew t =
        Inr \<lparr>vt_payload = minted_status agent name fp (unix_seconds now), vt_key_id = kid\<rparr>"
proof -
  note law = kit_lawsD [OF laws]
  obtain kid protected payload where m: "key_id L D (dl_public D tlk) = Inr kid"
    "dl_marshal D (VIntMap [(1, VInt alg_es256), (4, VBytes kid)]) = Some protected"
    "dl_marshal D (status_payload_value agent name fp (unix_seconds now)) = Some payload"
    "cose_sign1 L S D tlk protected (VIntMap []) payload = Inr tok"
    using mint(1) by (auto simp: mint_status_token_def)
  have p: "payload \<noteq> []" using cbor_lawsD(2) [OF law(1) m(3)] by (simp add: status_payload_value_def)
  obtain cose where c: "parse_cose_sign1 (cl_cbor L) tok = Inr cose"
    "ph_kid (pc_protected cose) = kid" "ph_cwt_iss (pc_protected cose) = None" "pc_payload cose = payload"
    "signed_by (cl_cbor L) (cl_crypto L) (dl_public D tlk) cose"
    using cose_sign1_parses [OF law(1-3) key, of kid "[]" protected 0 "VIntMap []" payload tok] m(2,4) mint(2) p
      kit_key_length [OF laws m(1)] by auto
  have k: "keys kid = Inr \<lparr>tk_name = ''demo-tl'', tk_kid = kid, tk_key = dl_public D tlk\<rparr>"
    using keys m(1) by (auto simp: demo_key_lookup_Inr)
  have "decode_status_payload u (cl_cbor L) payload = Inr (minted_status agent name fp (unix_seconds now))"
    by (rule minted_payload_decoded [OF law(1) fp names live(1) m(3)])
  then have "verify_status_token_at u (cl_cbor L) (cl_crypto L) keys tok skew t =
      Inr \<lparr>vt_payload = minted_status agent name fp (unix_seconds now), vt_key_id = kid\<rparr>"
    using c k live(2)
    by (simp add: verify_status_token_Inr issuer_mismatch_def minted_status_def status_is_terminal_def agent_status_defs)
  with m(1) show ?thesis by blast
qed

lemma alone_in_the_log: "walk_inclusion_path sha event 0 1 [] = Inr (compute_leaf_hash sha event)"
  by (simp add: walk_inclusion_path_def walk_loop.simps max_hash_path_len_def)

lemma minted_vdp:
  assumes laws: "cbor_laws B M" and enc: "M (VIntMap [(396, VIntMap [(-1, VUint 1), (-2, VUint 0)])]) = Some un"
  shows "extract_vdp B un = Inr (1, 0, [])"
proof -
  note law = cbor_lawsD [OF laws]
  let ?vdp = "[(-1, VUint 1), (-2, VUint 0)] :: (int64 \<times> cbor_value) list"
  obtain m where m: "cb_int_map B un = Some m" "\<forall>k. rel_option (\<lambda>v c. M v = Some c) (map_of [(396, VIntMap ?vdp)] k) (m k)"
    using law(5) [OF enc] by auto
  obtain raw where raw: "m 396 = Some raw" "M (VIntMap ?vdp) = Some raw" using int_map_get(1) [OF m(2), of 396] by auto
  obtain d where d: "cb_int_map B raw = Some d" "\<forall>k. rel_option (\<lambda>v c. M v = Some c) (map_of ?vdp k) (d k)"
    using law(5) [OF raw(2)] by auto
  obtain a b where ab: "d (-1) = Some a" "M (VUint 1) = Some a" "d (-2) = Some b" "M (VUint 0) = Some b"
    using int_map_get(1) [OF d(2), of "-1"] int_map_get(1) [OF d(2), of "-2"] by auto
  have "d (-3) = None" using int_map_get(2) [OF d(2)] by simp
  then show ?thesis
    using m(1) raw(1) d(1) ab law(10) [OF ab(2)] law(10) [OF ab(4)] by (simp add: extract_vdp_def vdp_uint_def)
qed

text \<open>A minted receipt puts its leaf alone into a log, whose root is then the hash of the leaf.\<close>

definition minted_receipt :: "'k caller_lib \<Rightarrow> kid \<Rightarrow> bytes \<Rightarrow> verified_receipt" where
  "minted_receipt L kid event =
     \<lparr>vr_tree_size = 1, vr_leaf_index = 0, vr_root_hash = compute_leaf_hash (sha_of (cl_jose L)) event,
      vr_event_bytes = event, vr_key_id = kid, vr_iss = None, vr_iat = None\<rparr>"

lemma minted_receipt_verifies:
  assumes laws: "kit_laws L S D" and key: "sl_public S tlk = PK_P256 (dl_public D tlk)"
    and keys: "demo_key_lookup L D unknown (dl_public D tlk) = Inr keys"
    and mint: "mint_receipt L S D tlk agent name = Inr rcpt" "length rcpt \<le> 1048576"
  shows "\<exists>kid. key_id L D (dl_public D tlk) = Inr kid
    \<and> verify_receipt (cl_cbor L) (cl_crypto L) keys rcpt =
        Inr (minted_receipt L kid (json_print (leaf_json agent name)))"
proof -
  note law = kit_lawsD [OF laws]
  let ?un = "VIntMap [(396, VIntMap [(-1, VUint 1), (-2, VUint 0)])]"
  let ?event = "json_print (leaf_json agent name)"
  obtain kid protected where m: "key_id L D (dl_public D tlk) = Inr kid"
    "dl_marshal D (VIntMap ([(1, VInt alg_es256), (4, VBytes kid)] @ [(395, VInt 1)])) = Some protected"
    "cose_sign1 L S D tlk protected ?un ?event = Inr rcpt"
    using mint(1) by (auto simp: mint_receipt_def)
  have e: "?event \<noteq> []" by (simp add: leaf_json_def)
  obtain cose where c: "parse_cose_sign1 (cl_cbor L) rcpt = Inr cose"
    "ph_kid (pc_protected cose) = kid" "ph_vds (pc_protected cose) = Some 1" "ph_cwt_iss (pc_protected cose) = None"
    "ph_cwt_iat (pc_protected cose) = None" "pc_payload cose = ?event" "dl_marshal D ?un = Some (pc_unprotected cose)"
    "signed_by (cl_cbor L) (cl_crypto L) (dl_public D tlk) cose"
    using cose_sign1_parses [OF law(1-3) key m(2) _ kit_key_length [OF laws m(1)] _ m(3) e mint(2)] by auto
  have k: "keys kid = Inr \<lparr>tk_name = ''demo-tl'', tk_kid = kid, tk_key = dl_public D tlk\<rparr>"
    using keys m(1) by (auto simp: demo_key_lookup_Inr)
  have "verify_inclusion_proof (cl_cbor L) (cl_crypto L) cose = Inr (1, 0, compute_leaf_hash (sha_of (cl_jose L)) ?event)"
    using cbor_lawsD(1) [OF law(1)] minted_vdp [OF law(1) c(7)] c(6) alone_in_the_log
    by (simp add: verify_inclusion_proof_Inr)
  then have "verify_receipt (cl_cbor L) (cl_crypto L) keys rcpt = Inr (minted_receipt L kid ?event)"
    unfolding verify_receipt_Inr using c k
    by (intro exI [of _ cose] exI [of _ "\<lparr>tk_name = ''demo-tl'', tk_kid = kid, tk_key = dl_public D tlk\<rparr>"])
      (simp add: minted_receipt_def issuer_mismatch_def)
  with m(1) show ?thesis by blast
qed

section \<open>What a minted leaf says\<close>

lemma demo_field_names:
  "fold_name ''payload'' = ''payload''" "fold_name ''schemaVersion'' = ''schemaversion''"
  "fold_name ''producer'' = ''producer''" "fold_name ''event'' = ''event''" "fold_name ''ansId'' = ''ansid''"
  "fold_name ''agentId'' = ''agentid''" "fold_name ''ansName'' = ''ansname''" "fold_name ''sub'' = ''sub''"
  "fold_name ''cnf'' = ''cnf''" "fold_name ''jkt'' = ''jkt''" "fold_name ''scope'' = ''scope''"
  by code_simp+

lemma leaf_json_ok: "utf8_valid agent \<Longrightarrow> utf8_valid name \<Longrightarrow> json_ok max_nesting_depth (leaf_json agent name)"
  by (simp add: leaf_json_def max_nesting_depth_def utf8_valid_ascii is_ascii_def byte_val_def)

lemma decode_minted_leaf:
  assumes "utf8_valid agent" "utf8_valid name"
  shows "decode_leaf (json_print (leaf_json agent name)) = Some \<lparr>le_ans_id = agent, le_agent_id = [], le_ans_name = name\<rparr>"
  unfolding decode_leaf_def unmarshal_print [OF leaf_json_ok [OF assms]]
  by (simp add: dec_leaf_envelope_def dec_leaf_event_def leaf_json_def into_def demo_field_names)

section \<open>Provisioned credentials\<close>

text \<open>
  An agent that can be provisioned: its name is an ANS name which is a URL that prints as itself, and
  name and id are text.
\<close>

definition nameable :: "'k caller_lib \<Rightarrow> ('s, 'k) demo_lib \<Rightarrow> string \<Rightarrow> string \<Rightarrow> bool" where
  "nameable L D name agent \<longleftrightarrow>
     (\<exists>a. parse_ans_name (cl_unicode L) name = Inr a)
     \<and> (\<forall>u. url_parse (jl_bracket (cl_jose L)) name = Some u \<longrightarrow> dl_url_text D u = name)
     \<and> name \<noteq> [] \<and> utf8_valid name \<and> agent \<noteq> [] \<and> utf8_valid agent"

lemma cert_names_agent:
  assumes "parse_ans_name u name = Inr a" "x_uris cert = [name]"
  shows "cert_ans_name u (cert_identity_from_x509 sha cert) = Some a"
proof -
  have "has_prefix name ''ans://''" using assms(1) by (auto simp: parse_ans_name_def split: if_splits)
  with assms show ?thesis by (simp add: cert_ans_name_def cert_identity_from_x509_def)
qed

definition provisioned_cert :: "('s, 'k) demo_lib \<Rightarrow> string \<Rightarrow> int \<times> int \<times> int \<Rightarrow> 's agent_bundle \<Rightarrow> x509_cert \<Rightarrow> bool" where
  "provisioned_cert D name clock b cert \<longleftrightarrow>
     x_raw cert = bn_cert_der b \<and> x_uris cert = [name]
     \<and> x_not_before cert = whole_second (fst clock - cert_ttl)
     \<and> x_not_after cert = whole_second (fst (snd clock) + cert_ttl)"

lemma provisioned_bundle:
  assumes laws: "kit_laws L S D" "cert_creation_ok (cl_jose L) S D" and names: "nameable L D name agent"
    and p: "provision L S D rand clock name agent = Inr (tlk, b)"
  shows "\<exists>cert. provisioned_cert D name clock b cert
      \<and> sl_public S (bn_agent_key b) = PK_P256 (dl_public D (bn_agent_key b))
      \<and> jl_x509 (cl_jose L) (bn_cert_der b) = Some (cert, PK_P256 (dl_public D (bn_agent_key b)))
      \<and> sl_public S tlk = PK_P256 (dl_public D tlk)
      \<and> mint_status_token L S D tlk agent name (sha_of (cl_jose L) (bn_cert_der b)) (snd (snd clock)) = Inr (bn_status_token b)
      \<and> mint_receipt L S D tlk agent name = Inr (bn_receipt b)"
proof -
  obtain key der status rcpt where d: "dl_generate D (fst rand) = Some tlk" "dl_generate D (snd rand) = Some key"
    "identity_cert L D key name (fst clock) (fst (snd clock)) = Inr der"
    "mint_status_token L S D tlk agent name (sha_of (cl_jose L) der) (snd (snd clock)) = Inr status"
    "mint_receipt L S D tlk agent name = Inr rcpt"
    "b = \<lparr>bn_agent_key = key, bn_cert_der = der, bn_receipt = rcpt, bn_status_token = status\<rparr>"
    using p by (auto simp: provision_def)
  have pub: "sl_public S tlk = PK_P256 (dl_public D tlk)" "sl_public S key = PK_P256 (dl_public D key)"
    using kit_lawsD(4) [OF laws(1)] d(1,2) by (auto simp: p256_keys_def)
  obtain u where u: "url_parse (jl_bracket (cl_jose L)) name = Some u"
    "dl_create_cert D \<lparr>ct_serial = 1, ct_common_name = ''demo-agent'', ct_not_before = fst clock - cert_ttl,
             ct_not_after = fst (snd clock) + cert_ttl, ct_key_usage = ''DigitalSignature'', ct_ext_key_usage = [''ClientAuth''],
             ct_uris = [u]\<rparr> key = Some der"
    using d(3) by (auto simp: identity_cert_def split: option.splits)
  obtain cert where "jl_x509 (cl_jose L) der = Some (cert, PK_P256 (dl_public D key))"
    "cert_of_template D \<lparr>ct_serial = 1, ct_common_name = ''demo-agent'', ct_not_before = fst clock - cert_ttl,
             ct_not_after = fst (snd clock) + cert_ttl, ct_key_usage = ''DigitalSignature'', ct_ext_key_usage = [''ClientAuth''],
             ct_uris = [u]\<rparr> der cert"
    using laws(2) u(2) pub(2) unfolding cert_creation_ok_def by blast
  then show ?thesis
    using d(4-6) pub u(1) names
    by (intro exI [of _ cert]) (simp add: cert_of_template_def provisioned_cert_def nameable_def)
qed

lemma provisioned_signer:
  assumes "kit_laws L S D" "cert_creation_ok (cl_jose L) S D" "nameable L D name agent"
    and p: "provision L S D rand clock name agent = Inr (tlk, b)"
  shows "\<exists>cert sg. provisioned_cert D name clock b cert
    \<and> new_signer (cl_jose L) S (Some (bn_agent_key b)) (bn_cert_der b) = Inr sg
    \<and> signer_ok (cl_jose L) S cert (dl_public D (bn_agent_key b)) sg"
proof -
  obtain cert where "provisioned_cert D name clock b cert"
    "sl_public S (bn_agent_key b) = PK_P256 (dl_public D (bn_agent_key b))"
    "jl_x509 (cl_jose L) (bn_cert_der b) = Some (cert, PK_P256 (dl_public D (bn_agent_key b)))"
    using provisioned_bundle [OF assms] by blast
  then show ?thesis
    by (intro exI [of _ cert] exI [of _ "\<lparr>sg_key = bn_agent_key b, sg_cert_der = bn_cert_der b,
        sg_jwk = public_jwk (cl_jose L) (dl_public D (bn_agent_key b))\<rparr>"]) (simp add: new_signer_Inr signer_ok_def)
qed

text \<open>The log vouches for a provisioned agent for as long as its token lives.\<close>

lemma provisioned_vouched:
  assumes laws: "kit_laws L S D" "cert_creation_ok (cl_jose L) S D" "cl_leaf L = decode_leaf"
    and names: "nameable L D name agent"
    and p: "provision L S D rand clock name agent = Inr (tlk, b)"
    and keys: "demo_key_lookup L D unknown (dl_public D tlk) = Inr keys"
    and size: "length (bn_receipt b) \<le> 1048576" "length (bn_status_token b) \<le> 1048576"
    and fp: "sha_of (cl_jose L) (bn_cert_der b) \<noteq> zero_hash"
    and live: "unix_seconds (snd (snd clock)) + status_ttl_sec \<noteq> 0"
      "\<not> token_expired (unix_seconds now) (unix_seconds (snd (snd clock)) + status_ttl_sec) (cc_status_skew cfg)"
    and cert: "provisioned_cert D name clock b cert"
  shows "log_vouches L keys cfg \<lparr>sh_receipt = bn_receipt b, sh_status_token = bn_status_token b\<rparr> now cert
    (minted_status agent name (sha_of (cl_jose L) (bn_cert_der b)) (unix_seconds (snd (snd clock))))"
proof -
  let ?fp = "sha_of (cl_jose L) (bn_cert_der b)" and ?event = "json_print (leaf_json agent name)"
  obtain a where a: "parse_ans_name (cl_unicode L) name = Inr a" using names by (auto simp: nameable_def)
  have n: "agent \<noteq> []" "utf8_valid agent" "name \<noteq> []" "utf8_valid name" using names by (simp_all add: nameable_def)
  obtain c where c: "provisioned_cert D name clock b c"
    "sl_public S tlk = PK_P256 (dl_public D tlk)"
    "mint_status_token L S D tlk agent name ?fp (snd (snd clock)) = Inr (bn_status_token b)"
    "mint_receipt L S D tlk agent name = Inr (bn_receipt b)"
    using provisioned_bundle [OF laws(1,2) names p] by blast
  obtain kid where t: "verify_status_token_at (cl_unicode L) (cl_cbor L) (cl_crypto L) keys (bn_status_token b)
      (cc_status_skew cfg) (unix_seconds now)
      = Inr \<lparr>vt_payload = minted_status agent name ?fp (unix_seconds (snd (snd clock))), vt_key_id = kid\<rparr>"
    using minted_token_verifies [OF laws(1) c(2) keys c(3) size(2) kit_lawsD(5) [OF laws(1)] fp n live] by blast
  obtain kid' where r: "verify_receipt (cl_cbor L) (cl_crypto L) keys (bn_receipt b) = Inr (minted_receipt L kid' ?event)"
    using minted_receipt_verifies [OF laws(1) c(2) keys c(4) size(1)] by blast
  have "leaf_names L ?event agent (an_version a) (an_host a)"
    using decode_minted_leaf [OF n(2,4)] a n(1) by (simp add: leaf_names_def laws(3) leaf_agent_id_def)
  then have "bound_to L cert ?fp (minted_status agent name ?fp (unix_seconds (snd (snd clock))))
      (Some (minted_receipt L kid' ?event))"
    using cert_names_agent [OF a] cert a
    by (simp add: bound_to_def minted_status_def minted_receipt_def provisioned_cert_def)
  then show ?thesis
    using t r cert by (auto simp: log_vouches_def provisioned_cert_def)
qed

section \<open>The bundle survives its files\<close>

lemma write_files_other:
  "q \<notin> (\<lambda>f. dl_join D dir (fst f)) ` set fls \<Longrightarrow> snd (write_files io D dir fls fs) q = fs q"
proof (induction fls arbitrary: fs)
  case (Cons f fls)
  obtain name data where f: "f = (name, data)" by (cases f)
  with Cons.prems have "q \<noteq> dl_join D dir name" by auto
  then have "snd (write_file io (dl_join D dir name) mode_0600 data fs) q = fs q" by (rule write_file_other)
  then show ?case using Cons f by (auto split: prod.split option.split)
qed simp

lemma write_files_content:
  assumes "write_files io D dir fls fs = (None, fs')" "distinct (map (\<lambda>f. dl_join D dir (fst f)) fls)" "(name, data) \<in> set fls"
  shows "\<exists>f. fs' (dl_join D dir name) = Some f \<and> fi_content f = data
    \<and> fi_mode f = (case fs (dl_join D dir name) of None \<Rightarrow> mode_0600 | Some g \<Rightarrow> fi_mode g)"
  using assms
proof (induction fls arbitrary: fs)
  case (Cons f fls)
  obtain n d where f: "f = (n, d)" by (cases f)
  obtain fs1 where w: "write_file io (dl_join D dir n) mode_0600 d fs = (None, fs1)" "write_files io D dir fls fs1 = (None, fs')"
    using Cons.prems(1) f by (auto split: prod.splits option.splits)
  note fs1 = write_file_None [OF w(1)]
  show ?case
  proof (cases "(name, data) = (n, d)")
    case True
    have "dl_join D dir n \<notin> (\<lambda>f. dl_join D dir (fst f)) ` set fls" using Cons.prems(2) f by simp
    then have "fs' (dl_join D dir n) = fs1 (dl_join D dir n)" using write_files_other w(2) by (metis snd_conv)
    then show ?thesis using True fs1 by simp
  next
    case False
    then have m: "(name, data) \<in> set fls" using Cons.prems(3) f by auto
    then have "dl_join D dir name \<noteq> dl_join D dir n" using Cons.prems(2) f by force
    then show ?thesis using Cons.IH [OF w(2) _ m] Cons.prems(2) fs1 by simp
  qed
qed simp

definition bundle_names :: "string set" where
  "bundle_names = {file_agent_key, file_agent_crt, file_receipt, file_status}"

lemma save_then_load:
  assumes codec: "bundle_codec_ok D" and apart: "inj_on (dl_join D dir) bundle_names"
    and save: "save_bundle io D b dir fs = (None, fs')"
    and r: "\<And>f. f \<in> bundle_names \<Longrightarrow> io_read io (dl_join D dir f)"
  shows "load_bundle io D dir fs' = Inr b"
    "f \<in> bundle_names \<Longrightarrow> fs (dl_join D dir f) = None \<Longrightarrow> \<exists>g. fs' (dl_join D dir f) = Some g \<and> fi_mode g = mode_0600"
proof -
  obtain der where der: "dl_pkcs8 D (bn_agent_key b) = Some der"
    using save by (auto simp: save_bundle_def split: option.splits)
  let ?files = "[(file_agent_key, dl_pem_encode D (plain_block ''PRIVATE KEY'' der)),
             (file_agent_crt, dl_pem_encode D (plain_block ''CERTIFICATE'' (bn_cert_der b))),
             (file_receipt, bn_receipt b), (file_status, bn_status_token b)]"
  have w: "write_files io D dir ?files fs = (None, fs')" using save der by (simp add: save_bundle_def)
  have "distinct (map fst ?files)" by (simp add: file_agent_key_def file_agent_crt_def file_receipt_def file_status_def)
  then have "distinct (map (dl_join D dir) (map fst ?files))"
    using apart by (subst distinct_map) (simp add: bundle_names_def insert_commute)
  then have d: "distinct (map (\<lambda>f. dl_join D dir (fst f)) ?files)" by (simp add: comp_def)
  note got = write_files_content [OF w d]
  have read: "read_file io (dl_join D dir n) fs' = Some data" if "(n, data) \<in> set ?files" for n data
    using got [OF that] r [of n] that by (auto simp: read_file_def bundle_names_def)
  have "load_key io D (dl_join D dir file_agent_key) fs' = Inr (bn_agent_key b)"
    using read [of file_agent_key "dl_pem_encode D (plain_block ''PRIVATE KEY'' der)"] codec der
    by (simp add: load_key_def bundle_codec_ok_def)
  moreover have "load_cert_der io D (dl_join D dir file_agent_crt) fs' = Inr (bn_cert_der b)"
    using read [of file_agent_crt "dl_pem_encode D (plain_block ''CERTIFICATE'' (bn_cert_der b))"] codec
    by (simp add: load_cert_der_def bundle_codec_ok_def)
  moreover have "read_demo_file io (dl_join D dir file_receipt) fs' = Inr (bn_receipt b)"
    "read_demo_file io (dl_join D dir file_status) fs' = Inr (bn_status_token b)"
    using read [of file_receipt "bn_receipt b"] read [of file_status "bn_status_token b"] by (simp_all add: read_demo_file_def)
  ultimately show "load_bundle io D dir fs' = Inr b" by (simp add: load_bundle_def)
  show "\<exists>g. fs' (dl_join D dir f) = Some g \<and> fi_mode g = mode_0600"
    if "f \<in> bundle_names" "fs (dl_join D dir f) = None"
  proof -
    have "f \<in> fst ` set ?files" using that(1) by (simp add: bundle_names_def)
    then obtain x where "x \<in> set ?files" "f = fst x" by (rule imageE)
    then have "(f, snd x) \<in> set ?files" by (simp only: prod.collapse)
    from got [OF this] that(2) show ?thesis by auto
  qed
qed

section \<open>Access tokens\<close>

lemma demo_token_ok:
  "utf8_valid (dt_sub t) \<Longrightarrow> utf8_valid (dt_jkt t) \<Longrightarrow> utf8_valid (dt_scope t) \<Longrightarrow> json_ok max_nesting_depth (enc_demo_token t)"
  by (simp add: enc_demo_token_def max_nesting_depth_def utf8_valid_ascii is_ascii_def byte_val_def)

lemma dec_enc_demo_token: "dec_demo_token empty_demo_token (enc_demo_token t) = Some t"
  by (cases t) (simp add: dec_demo_token_def enc_demo_token_def empty_demo_token_def into_def demo_field_names)

lemma parse_minted_token:
  assumes "utf8_valid sub" "utf8_valid scope" "utf8_valid jkt"
  shows "parse_unsigned_demo_token (mint_unsigned_demo_token sub scope jkt) =
    (if jkt = [] then Inl Token_Not_Bound else Inr \<lparr>dt_sub = sub, dt_jkt = jkt, dt_scope = scope\<rparr>)"
  using unmarshal_print [OF demo_token_ok, of "\<lparr>dt_sub = sub, dt_jkt = jkt, dt_scope = scope\<rparr>" dec_demo_token empty_demo_token] assms
  by (simp add: parse_unsigned_demo_token_def mint_unsigned_demo_token_def dec_enc_demo_token)

end
