(* ===== verification/Demo_Agents.thy ===== *)
theory Demo_Agents
  imports Demo_Credentials
begin

text \<open>
  The programs of the agent-to-agent example, \<open>examples/a2a-no-mtls\<close>: the callee (\<open>server/main.go\<close>), the
  caller (\<open>client/main.go\<close>) and the single-process version of both (\<open>main.go\<close>). An HTTP exchange is a parameter
  on a world; logging and what is printed are left out.
\<close>

section \<open>The callee\<close>

record http_answer =
  an_status :: nat
  an_header :: "(string \<times> string) list"
  an_body :: string

text \<open>\<open>http.Error\<close>.\<close>

definition plain_text :: "string \<times> string" where
  "plain_text = (''Content-Type'', ''text/plain; charset=utf-8'')"

definition error_answer :: "nat \<Rightarrow> string \<Rightarrow> http_answer" where
  "error_answer code msg =
     \<lparr>an_status = code, an_header = [plain_text, (''X-Content-Type-Options'', ''nosniff'')], an_body = msg @ [CHR 0x0A]\<rparr>"

text \<open>How the middleware of \<open>pop/http.go\<close> answers a request it rejects.\<close>

definition write_unauthorized :: http_answer where
  "write_unauthorized =
     (let a = error_answer 401 ''unauthorized'' in a\<lparr>an_header := (''WWW-Authenticate'', dpop_header) # an_header a\<rparr>)"

definition rejection_answer :: "rejection \<Rightarrow> http_answer" where
  "rejection_answer e =
     (case e of
        Unauthorized \<Rightarrow> write_unauthorized
      | Request_Too_Large \<Rightarrow> error_answer 413 ''request content too large'')"

datatype authorize_error = Auth_Token demo_error | Auth_Other_Key string string

definition authorize :: "unicode \<Rightarrow> http_request \<Rightarrow> caller_identity \<Rightarrow> authorize_error + string" where
  "authorize u r ident =
     (case access_token_from_authorization u (header_get (rq_header r) ''Authorization'') of
        None \<Rightarrow> Inr []
      | Some tok \<Rightarrow>
     case parse_unsigned_demo_token tok of
        Inl e \<Rightarrow> Inl (Auth_Token e)
      | Inr at \<Rightarrow>
          if dt_jkt at \<noteq> id_jkt ident then Inl (Auth_Other_Key (dt_jkt at) (id_jkt ident))
          else Inr ('' with scope '' @ dt_scope at))"

definition em_dash :: string where
  "em_dash = [CHR 0xE2, CHR 0x80, CHR 0x94]"

definition callee_app :: "unicode \<Rightarrow> http_request \<Rightarrow> http_answer" where
  "callee_app u r =
     (case caller_from_context r of
        None \<Rightarrow> error_answer 500 ''no caller in context''
      | Some ident \<Rightarrow>
     case authorize u r ident of
        Inl _ \<Rightarrow> error_answer 403 ''forbidden''
      | Inr scope \<Rightarrow>
          \<lparr>an_status = 200, an_header = [plain_text],
           an_body = ''hello from callee '' @ em_dash @ '' authenticated caller: '' @ id_ans_name ident @ scope\<rparr>)"

text \<open>
  \<open>http.ServeMux\<close> with the patterns \<open>/healthz\<close> and \<open>/\<close>: a path that is not clean is redirected to the clean
  one, except for \<open>CONNECT\<close>; a literal pattern matches the unescaped segment. Of the answers the mux gives itself
  only the status is kept.
\<close>

definition clean_segment :: "string list \<Rightarrow> string \<Rightarrow> string list" where
  "clean_segment segs s =
     (if s = [] \<or> s = ''.'' then segs else if s = ''..'' then butlast segs else segs @ [s])"

definition clean_path :: "string \<Rightarrow> string" where
  "clean_path p =
     (if p = [] then ''/''
      else let p = (if has_prefix p ''/'' then p else ''/'' @ p);
               np = ''/'' @ join_with ''/'' (foldl clean_segment [] (split_on CHR ''/'' p))
        in if has_suffix p ''/'' \<and> np \<noteq> ''/'' then np @ ''/'' else np)"

datatype route = Route_Bad_Request | Route_Redirect string | Route_Not_Found | Route_Health | Route_App

definition match_route :: "string \<Rightarrow> route" where
  "match_route p =
     (if \<not> has_prefix p ''/'' then Route_Not_Found
      else if CHR ''/'' \<notin> set (tl p)
         \<and> (case unescape EncodePath (tl p) of Some s \<Rightarrow> s | None \<Rightarrow> tl p) = ''healthz''
      then Route_Health else Route_App)"

definition route_of :: "http_request \<Rightarrow> route" where
  "route_of r =
     (let esc = escaped_path (rq_url r) in
      if request_uri r = ''*'' then Route_Bad_Request
      else if rq_method r = ''CONNECT'' then match_route esc
      else let path = clean_path esc in if path \<noteq> esc then Route_Redirect path else match_route path)"

definition mux_answer :: "nat \<Rightarrow> http_answer" where
  "mux_answer code = \<lparr>an_status = code, an_header = [], an_body = []\<rparr>"

definition through_middleware ::
  "'k caller_lib \<Rightarrow> ('k, 's) middleware \<Rightarrow> (http_request \<Rightarrow> http_answer) \<Rightarrow> http_request \<Rightarrow> int \<Rightarrow> 's \<Rightarrow> http_answer \<times> 's" where
  "through_middleware L m app r now s =
     (case serve L m app r now s of
        (Inl e, s') \<Rightarrow> (rejection_answer e, s')
      | (Inr a, s') \<Rightarrow> (a, s'))"

definition callee_serve ::
  "'k caller_lib \<Rightarrow> ('k, 's) middleware \<Rightarrow> http_request \<Rightarrow> int \<Rightarrow> 's \<Rightarrow> http_answer \<times> 's" where
  "callee_serve L m r now s =
     (case route_of r of
        Route_Bad_Request \<Rightarrow> (mux_answer 400, s)
      | Route_Redirect _ \<Rightarrow> (mux_answer 301, s)
      | Route_Not_Found \<Rightarrow> (mux_answer 404, s)
      | Route_Health \<Rightarrow> (mux_answer 200, s)
      | Route_App \<Rightarrow> through_middleware L m (callee_app (cl_unicode L)) r now s)"

datatype callee_error = Callee_Demo demo_error | Callee_Panic mw_panic | Callee_Listen

text \<open>
  \<open>run\<close> of the server up to the loop of \<open>srv.Serve\<close>: the middleware and the replay cache it serves with; \<open>port\<close>
  is how the cache is called, \<open>listens\<close> whether the address can be bound.
\<close>

definition start_server ::
  "'k caller_lib \<Rightarrow> ('s, 'k) sign_lib \<Rightarrow> ('s, 'k) demo_lib \<Rightarrow> file_io \<Rightarrow> (kid \<Rightarrow> scitt_error) \<Rightarrow> bytes \<times> bytes
     \<Rightarrow> int \<times> int \<times> int \<Rightarrow> replay_cache replay_port \<Rightarrow> bool \<Rightarrow> string \<Rightarrow> string \<Rightarrow> files
     \<Rightarrow> (callee_error + ('k, replay_cache) middleware \<times> replay_cache) \<times> files" where
  "start_server L S D io unknown rand clock port listens dir external_host fs =
     (case provision L S D rand clock demo_ans_name demo_agent_id of
        Inl e \<Rightarrow> (Inl (Callee_Demo e), fs)
      | Inr (tl_key, b) \<Rightarrow>
     case save_bundle io D b dir fs of
        (Some e, fs') \<Rightarrow> (Inl (Callee_Demo e), fs')
      | (None, fs') \<Rightarrow>
     case demo_key_lookup L D unknown (dl_public D tl_key) of
        Inl e \<Rightarrow> (Inl (Callee_Demo e), fs')
      | Inr keys \<Rightarrow>
     case new_middleware (Some keys) (Some port) [with_trusted_hosts (cl_unicode L) [external_host]] of
        Inl p \<Rightarrow> (Inl (Callee_Panic p), fs')
      | Inr m \<Rightarrow> (if \<not> listens then Inl Callee_Listen else Inr (m, new_replay_cache 10000), fs'))"

text \<open>The exit code of a binary that requires \<open>--dir\<close>; the server's \<open>run\<close> returns only with an error.\<close>

definition exit_code :: "string \<Rightarrow> bool \<Rightarrow> nat" where
  "exit_code dir failed = (if dir = [] then 2 else if failed then 1 else 0)"

section \<open>The caller\<close>

record 's demo_caller =
  ca_signer :: "'s signer"
  ca_scitt :: "(string \<times> string list) list"
  ca_jkt :: string

datatype demo_client_error =
  Client_Bundle "demo_error option"
  | Client_Signer proof_error
  | Client_Request
  | Client_Attach sign_error
  | Client_Transport
  | Client_Unexpected "nat list"
  | Client_Unknown_Mode string

text \<open>The members of the map \<open>GenerateHeaders\<close> returns; its keys are distinct, so their order is immaterial.\<close>

definition header_entries :: "bytes \<Rightarrow> bytes \<Rightarrow> (string \<times> string list) list" where
  "header_entries receipt token =
     (if length receipt > 0 then [(header_receipt, [std_encode receipt])] else [])
     @ (if length token > 0 then [(header_status_token, [std_encode token])] else [])"

text \<open>
  \<open>http.NewRequestWithContext\<close> without a body, for the methods the programs use; a colon with no port behind it is
  cut from the host.
\<close>

definition bare_request :: "'k jose_lib \<Rightarrow> ('s, 'k) demo_lib \<Rightarrow> string \<Rightarrow> string \<Rightarrow> demo_client_error + out_request" where
  "bare_request J D method raw_url =
     (case url_parse (jl_bracket J) raw_url of
        None \<Rightarrow> Inl Client_Request
      | Some u \<Rightarrow>
          Inr \<lparr>oq_method = method, oq_url = dl_url_text D (u\<lparr>url_host := trim_suffix (url_host u) '':''\<rparr>),
               oq_header = Map.empty, oq_body = None, oq_length = 0, oq_gone = False\<rparr>)"

text \<open>\<open>signedWithToken\<close>; \<open>iat\<close> and \<open>rand\<close> are what \<open>AttachIdentity\<close> takes from clock and random source.\<close>

definition signed_with_token ::
  "'k jose_lib \<Rightarrow> unicode \<Rightarrow> ('s, 'k) sign_lib \<Rightarrow> ('s, 'k) demo_lib \<Rightarrow> 's demo_caller \<Rightarrow> int64 \<Rightarrow> bytes option
     \<Rightarrow> string \<Rightarrow> string \<Rightarrow> string \<Rightarrow> demo_client_error + out_request" where
  "signed_with_token J u S D c iat rand method raw_url token =
     rbind (bare_request J D method raw_url) (\<lambda>req.
       let req = (if token \<noteq> [] then req\<lparr>oq_header := header_set (oq_header req) ''Authorization'' (''DPoP '' @ token)\<rparr>
                  else req)
       in (case attach_identity J u S req (Some (ca_signer c)) (ca_scitt c) iat rand of
             (Some e, _) \<Rightarrow> Inl (Client_Attach e)
           | (None, req') \<Rightarrow> Inr req'))"

definition signed ::
  "'k jose_lib \<Rightarrow> unicode \<Rightarrow> ('s, 'k) sign_lib \<Rightarrow> ('s, 'k) demo_lib \<Rightarrow> 's demo_caller \<Rightarrow> int64 \<Rightarrow> bytes option
     \<Rightarrow> string \<Rightarrow> string \<Rightarrow> demo_client_error + out_request" where
  "signed J u S D c iat rand method raw_url = signed_with_token J u S D c iat rand method raw_url []"

text \<open>
  \<open>client.Do\<close> and the reading of the body: the first argument overrides the \<open>Host\<close> header unless it is empty;
  \<open>None\<close> when either fails.
\<close>

type_synonym 'w http_do = "string \<Rightarrow> out_request \<Rightarrow> 'w \<Rightarrow> (nat \<times> string) option \<times> 'w"

definition caller_send :: "'w http_do \<Rightarrow> out_request \<Rightarrow> 'w \<Rightarrow> (demo_client_error + nat \<times> string) \<times> 'w" where
  "caller_send do req w =
     (case do [] req w of (None, w') \<Rightarrow> (Inl Client_Transport, w') | (Some a, w') \<Rightarrow> (Inr a, w'))"

text \<open>One request whose answer must have the status \<open>want\<close>.\<close>

definition send_expecting :: "'w http_do \<Rightarrow> nat \<Rightarrow> demo_client_error + out_request \<Rightarrow> 'w \<Rightarrow> demo_client_error option \<times> 'w" where
  "send_expecting do want m w =
     (case m of
        Inl e \<Rightarrow> (Some e, w)
      | Inr req \<Rightarrow>
          (case caller_send do req w of
             (Inl e, w') \<Rightarrow> (Some e, w')
           | (Inr (status, body), w') \<Rightarrow> (if status \<noteq> want then Some (Client_Unexpected [status]) else None, w')))"

definition victim_jkt :: string where
  "victim_jkt = replicate 43 (CHR ''0'')"

definition own_token :: "'s demo_caller \<Rightarrow> string" where
  "own_token c = mint_unsigned_demo_token ''agent-demo-1'' ''payments:read'' (ca_jkt c)"

definition stolen_token :: string where
  "stolen_token = mint_unsigned_demo_token ''agent-victim'' ''payments:write'' victim_jkt"

text \<open>A clone of a request has its method, URL and headers; without a body there is nothing else to it.\<close>

definition clone_req :: "out_request \<Rightarrow> http_header \<Rightarrow> out_request" where
  "clone_req base headers = base\<lparr>oq_header := headers\<rparr>"

definition run_replay :: "'w http_do \<Rightarrow> demo_client_error + out_request \<Rightarrow> 'w \<Rightarrow> demo_client_error option \<times> 'w" where
  "run_replay do m w =
     (case m of
        Inl e \<Rightarrow> (Some e, w)
      | Inr req \<Rightarrow>
     case caller_send do (clone_req req (oq_header req)) w of
        (Inl e, w1) \<Rightarrow> (Some e, w1)
      | (Inr (s1, _), w1) \<Rightarrow>
     case caller_send do (clone_req req (oq_header req)) w1 of
        (Inl e, w2) \<Rightarrow> (Some e, w2)
      | (Inr (s2, _), w2) \<Rightarrow> (if s1 \<noteq> 200 \<or> s2 \<noteq> 401 then Some (Client_Unexpected [s1, s2]) else None, w2))"

definition run_auth ::
  "'k jose_lib \<Rightarrow> unicode \<Rightarrow> ('s, 'k) sign_lib \<Rightarrow> ('s, 'k) demo_lib \<Rightarrow> 'w http_do \<Rightarrow> 's demo_caller \<Rightarrow> int64 \<Rightarrow> bytes option
     \<Rightarrow> string \<Rightarrow> 'w \<Rightarrow> demo_client_error option \<times> 'w" where
  "run_auth J u S D do c iat rand raw_url w = send_expecting do 200 (signed J u S D c iat rand ''GET'' raw_url) w"

definition run_noident :: "'k jose_lib \<Rightarrow> ('s, 'k) demo_lib \<Rightarrow> 'w http_do \<Rightarrow> string \<Rightarrow> 'w \<Rightarrow> demo_client_error option \<times> 'w" where
  "run_noident J D do raw_url w = send_expecting do 401 (bare_request J D ''GET'' raw_url) w"

definition run_oauth ::
  "'k jose_lib \<Rightarrow> unicode \<Rightarrow> ('s, 'k) sign_lib \<Rightarrow> ('s, 'k) demo_lib \<Rightarrow> 'w http_do \<Rightarrow> 's demo_caller \<Rightarrow> int64 \<Rightarrow> bytes option
     \<Rightarrow> string \<Rightarrow> 'w \<Rightarrow> demo_client_error option \<times> 'w" where
  "run_oauth J u S D do c iat rand raw_url w =
     send_expecting do 200 (signed_with_token J u S D c iat rand ''GET'' raw_url (own_token c)) w"

definition run_stolen_token ::
  "'k jose_lib \<Rightarrow> unicode \<Rightarrow> ('s, 'k) sign_lib \<Rightarrow> ('s, 'k) demo_lib \<Rightarrow> 'w http_do \<Rightarrow> 's demo_caller \<Rightarrow> int64 \<Rightarrow> bytes option
     \<Rightarrow> string \<Rightarrow> 'w \<Rightarrow> demo_client_error option \<times> 'w" where
  "run_stolen_token J u S D do c iat rand raw_url w =
     send_expecting do 403 (signed_with_token J u S D c iat rand ''GET'' raw_url stolen_token) w"

definition client_mode ::
  "'k jose_lib \<Rightarrow> unicode \<Rightarrow> ('s, 'k) sign_lib \<Rightarrow> ('s, 'k) demo_lib \<Rightarrow> 'w http_do \<Rightarrow> 's demo_caller \<Rightarrow> int64 \<Rightarrow> bytes option
     \<Rightarrow> string \<Rightarrow> string \<Rightarrow> 'w \<Rightarrow> demo_client_error option \<times> 'w" where
  "client_mode J u S D do c iat rand raw_url mode w =
     (if mode = ''auth'' then run_auth J u S D do c iat rand raw_url w
      else if mode = ''replay'' then run_replay do (signed J u S D c iat rand ''GET'' raw_url) w
      else if mode = ''noident'' then run_noident J D do raw_url w
      else if mode = ''oauth'' then run_oauth J u S D do c iat rand raw_url w
      else if mode = ''stolentoken'' then run_stolen_token J u S D do c iat rand raw_url w
      else (Some (Client_Unknown_Mode mode), w))"

text \<open>\<open>loadWithRetry\<close>: \<open>fs\<close> is the file system at each of the attempts that are left.\<close>

fun load_with_retry ::
  "file_io \<Rightarrow> ('s, 'k) demo_lib \<Rightarrow> string \<Rightarrow> files list \<Rightarrow> demo_error option \<Rightarrow> demo_error option + 's agent_bundle" where
  "load_with_retry io D dir [] prev = Inl prev"
| "load_with_retry io D dir (fs # later) prev =
     (case load_bundle io D dir fs of
        Inr b \<Rightarrow> Inr b
      | Inl e \<Rightarrow> load_with_retry io D dir later (Some e))"

definition load_attempts :: nat where
  "load_attempts = 50"

text \<open>\<open>waitForServer\<close>: at most 50 probes, until one is answered, whatever the answer.\<close>

definition health_url :: "'k jose_lib \<Rightarrow> ('s, 'k) demo_lib \<Rightarrow> string \<Rightarrow> string" where
  "health_url J D raw_url =
     (case url_parse (jl_bracket J) raw_url of
        None \<Rightarrow> raw_url
      | Some u \<Rightarrow> dl_url_text D (u\<lparr>url_path := ''/healthz'', url_raw_query := []\<rparr>))"

fun probe_server :: "(out_request \<Rightarrow> 'w \<Rightarrow> bool \<times> 'w) \<Rightarrow> demo_client_error + out_request \<Rightarrow> nat \<Rightarrow> 'w \<Rightarrow> 'w" where
  "probe_server do m 0 w = w"
| "probe_server do m (Suc n) w =
     (case m of
        Inl _ \<Rightarrow> w
      | Inr req \<Rightarrow> (case do req w of (True, w') \<Rightarrow> w' | (False, w') \<Rightarrow> probe_server do m n w'))"

definition wait_for_server ::
  "'k jose_lib \<Rightarrow> ('s, 'k) demo_lib \<Rightarrow> (out_request \<Rightarrow> 'w \<Rightarrow> bool \<times> 'w) \<Rightarrow> string \<Rightarrow> 'w \<Rightarrow> 'w" where
  "wait_for_server J D do raw_url w = probe_server do (bare_request J D ''GET'' (health_url J D raw_url)) 50 w"

definition demo_caller_of ::
  "'k jose_lib \<Rightarrow> ('s, 'k) sign_lib \<Rightarrow> 's agent_bundle \<Rightarrow> demo_client_error + 's demo_caller" where
  "demo_caller_of J S b =
     (case new_signer J S (Some (bn_agent_key b)) (bn_cert_der b) of
        Inl e \<Rightarrow> Inl (Client_Signer e)
      | Inr sg \<Rightarrow>
          Inr \<lparr>ca_signer = sg, ca_scitt = header_entries (bn_receipt b) (bn_status_token b),
               ca_jkt = (case signer_jkt J S sg of Some t \<Rightarrow> t | None \<Rightarrow> [])\<rparr>)"

text \<open>\<open>run\<close> of the client; the file system at the attempts to load the bundle is \<open>attempts\<close>.\<close>

definition client_run ::
  "'k jose_lib \<Rightarrow> unicode \<Rightarrow> ('s, 'k) sign_lib \<Rightarrow> ('s, 'k) demo_lib \<Rightarrow> file_io \<Rightarrow> 'w http_do \<Rightarrow> (out_request \<Rightarrow> 'w \<Rightarrow> bool \<times> 'w)
     \<Rightarrow> files list \<Rightarrow> int64 \<Rightarrow> bytes option \<Rightarrow> string \<Rightarrow> string \<Rightarrow> string \<Rightarrow> 'w \<Rightarrow> demo_client_error option \<times> 'w" where
  "client_run J u S D io do reach attempts iat rand dir raw_url mode w =
     (case load_with_retry io D dir (take load_attempts attempts) None of
        Inl e \<Rightarrow> (Some (Client_Bundle e), w)
      | Inr b \<Rightarrow>
     case demo_caller_of J S b of
        Inl e \<Rightarrow> (Some e, w)
      | Inr c \<Rightarrow> client_mode J u S D do c iat rand raw_url mode (wait_for_server J D reach raw_url w))"

end
