(* ===== verification/Demo_Outcomes.thy ===== *)
theory Demo_Outcomes
  imports Demo_Agents
begin

text \<open>
  What the agent-to-agent example shows when it runs: the caller of \<open>Demo_Agents\<close> against its callee. A request
  signed with provisioned credentials is authenticated, the same request again is not, a request without
  identity is not, and an access token is honoured only from the holder of the key it names.
\<close>

section \<open>Errors of the pipeline\<close>

text \<open>
  The one error with a cause is that of unreadable content; every other rejection is a 401.
\<close>

definition plain_errors :: "proof_error + 'a \<Rightarrow> bool" where
  "plain_errors m = (case m of Inl e \<Rightarrow> pe_cause e = None | Inr _ \<Rightarrow> True)"

lemma plain_errors_simps [simp]:
  "plain_errors (Inr x)" "plain_errors (Inl (new_err t))" "plain_errors (Inl e) \<longleftrightarrow> pe_cause e = None"
  by (simp_all add: plain_errors_def new_err_def)

lemma pe_cause_new [simp]: "pe_cause (new_err t) = None"
  by (simp add: new_err_def)

lemma plain_errors_rbind [intro!]:
  "plain_errors m \<Longrightarrow> (\<And>x. plain_errors (f x)) \<Longrightarrow> plain_errors (rbind m f)"
  by (cases m) simp_all

lemma plain_errors_from_option [simp]: "plain_errors (from_option (new_err t) m)"
  by (cases m) simp_all

definition plain_check :: "proof_error option \<Rightarrow> bool" where
  "plain_check c = (case c of None \<Rightarrow> True | Some e \<Rightarrow> pe_cause e = None)"

lemma plain_errors_check [intro!]:
  "plain_check c \<Longrightarrow> plain_errors m \<Longrightarrow> plain_errors (case c of None \<Rightarrow> m | Some e \<Rightarrow> Inl e)"
  by (cases c) (simp_all add: plain_check_def)

lemma normalize_plain [intro!]: "plain_errors (normalize_htu J raw)"
  by (simp add: normalize_htu_def Let_def split: option.split)

lemma jwk_plain [intro!]: "plain_errors (jwk_coords j)"
  by (auto simp: jwk_coords_def)

lemma plain_checks [intro!]:
  "plain_check (accept_es256_dpop h)" "plain_check (match_jwk_to_cert J j pub)" "plain_check (verify_es256 J pub i sig)"
  "plain_check (check_profile raw)" "plain_check (check_http_binding J p method url)"
  "plain_check (check_token_binding J p cfg)"
  using jwk_plain [of j] normalize_plain [of J url]
  by (auto simp: plain_check_def accept_es256_dpop_def match_jwk_to_cert_def verify_es256_def check_profile_def
      check_http_binding_def check_token_binding_def plain_errors_def split: option.split sum.splits prod.split)

lemma plain_steps [intro!]:
  "plain_errors (split_compact_jws jws)" "plain_errors (decode_proof_header J h)" "plain_errors (decode_proof_payload J h)"
  "plain_errors (leaf_cert J hdr)" "plain_errors (decode_content_digest claim)" "plain_errors (check_freshness p now skew)"
  by (auto simp: split_compact_jws_def decode_proof_header_def decode_proof_payload_def leaf_cert_def
      decode_content_digest_def check_freshness_def Let_def split: list.split option.split pkix_key.split)

lemma proof_plain: "plain_errors (verify_proof_unrecorded J gone jws method url now skew cfg)"
  unfolding verify_proof_unrecorded_def Let_def
  by (auto split: prod.split)

lemma binding_plain: "plain_errors (verify_binding L pr st rcpt cfg)"
  by (auto simp: verify_binding_def receipt_names_agent_def split: option.split sum.split)

lemma evidence_plain: "plain_errors (verify_evidence L cfg gone jws h method url keys now)"
  unfolding verify_evidence_def
  by (auto simp: proof_plain binding_plain caller_receipt_def map_error_def split: sum.split)

lemma verify_caller_plain:
  assumes "verify_caller_with L cfg gone jws h method url keys replay now s = (Inl e, s')"
    and "vo_content (caller_opts cfg) = Some (Inr content)"
  shows "pe_cause e = None"
  using assms evidence_plain [of L cfg gone jws "the h" "method" url "the keys" now]
  by (auto simp: verify_caller_with_def caller_preconditions_def misconfiguration_def check_content_def commit_replay_eq
      caller_opts_def plain_errors_def split: option.splits sum.splits prod.splits if_splits replay_error.splits)

text \<open>A request whose body fits is answered with 401 whenever it is not let through.\<close>

lemma authenticate_unauthorized:
  assumes "fst (authenticate L m r now s) = Inl e"
    and "int (length (hb_bytes (rq_body r))) \<le> mc_max_content (mw_cfg m)" "\<not> hb_broken (rq_body r)"
  shows "e = Unauthorized"
proof -
  have c: "vo_content (caller_opts (request_config L (mw_cfg m) r)) = Some (Inr (hb_bytes (rq_body r)))"
    using assms(2,3) by (simp add: request_opts Let_def read_limited_def)
  show ?thesis
    using assms(1)
    by (auto simp: authenticate_def verify_caller_request dest: verify_caller_plain [OF _ c] split: sum.splits option.splits prod.splits if_splits)
qed

section \<open>Access tokens\<close>

lemma equal_fold_dpop: "equal_fold u ''DPoP'' ''DPoP''"
  by (simp add: byte_val_def)

lemma b64_visible:
  assumes "n < 64"
  shows "32 < byte_val (b64_url n) \<and> byte_val (b64_url n) < 127" "32 < byte_val (b64_std n) \<and> byte_val (b64_std n) < 127"
  using assms b64_std_alnum [of n] b64_specials
  by (cases "n < 62"; auto simp: b64_url_def b64_std_def byte_val_def)+

lemma encoded_visible:
  "c \<in> set (url_encode b) \<Longrightarrow> 32 < byte_val c \<and> byte_val c < 127"
  "c \<in> set (std_encode b) \<Longrightarrow> 32 < byte_val c \<and> byte_val c < 127"
  using url64.encode_letter [of c False b] std64.encode_letter [of c True b] b64_visible
  by (auto simp: url_encode_def std_encode_def byte_val_def)

lemma url_letter_not_blank: "c \<in> set (url_encode b) \<Longrightarrow> c \<noteq> CHR '' '' \<and> c \<noteq> CHR 0x09"
  using encoded_visible(1) [of c b] by (auto simp: byte_val_def)

lemma dropWhile_all: "(\<And>c. c \<in> set s \<Longrightarrow> \<not> P c) \<Longrightarrow> dropWhile P s = s"
  by (cases s) auto

text \<open>A base64url token comes out of the header as it went in.\<close>

lemma token_presented:
  assumes "tok = url_encode b" "tok \<noteq> []"
  shows "access_token_from_authorization u (''DPoP '' @ tok) = Some tok"
proof -
  have "trim_blank (CHR '' '' # tok) = tok"
    using url_letter_not_blank [of _ b] assms(1) dropWhile_all [of tok "\<lambda>c. c = CHR '' '' \<or> c = CHR 0x09"]
      dropWhile_all [of "rev tok" "\<lambda>c. c = CHR '' '' \<or> c = CHR 0x09"]
    by (simp add: trim_blank_def Let_def)
  then show ?thesis
    using assms(2) equal_fold_dpop [of u] by (simp add: access_token_from_authorization_def Let_def)
qed

lemma no_token_presented: "access_token_from_authorization u [] = None"
  by (simp add: access_token_from_authorization_def)

text \<open>What the callee decides about a caller: the token must be bound to the key of the proof.\<close>

lemma authorize_Inr:
  "authorize u r ident = Inr scope \<longleftrightarrow>
     (case access_token_from_authorization u (header_get (rq_header r) ''Authorization'') of
        None \<Rightarrow> scope = []
      | Some tok \<Rightarrow> (\<exists>at. parse_unsigned_demo_token tok = Inr at \<and> dt_jkt at = id_jkt ident \<and> scope = '' with scope '' @ dt_scope at))"
  by (auto simp: authorize_def split: option.split sum.split)

lemma parsed_token_bound: "parse_unsigned_demo_token tok = Inr at \<Longrightarrow> dt_jkt at \<noteq> []"
  by (auto simp: parse_unsigned_demo_token_def split: option.splits if_splits)

section \<open>One call\<close>

lemma header_entries_pairs:
  "receipt \<noteq> [] \<Longrightarrow> token \<noteq> [] \<Longrightarrow> header_entries receipt token = scitt_pairs receipt token"
  by (simp add: header_entries_def scitt_pairs_def)

definition token_header :: "string \<Rightarrow> http_header" where
  "token_header tok = (if tok \<noteq> [] then header_set Map.empty ''Authorization'' (''DPoP '' @ tok) else Map.empty)"

lemma token_header_values:
  "undecorated (token_header tok)"
  "header_values (token_header tok) ''Authorization'' = (if tok \<noteq> [] then [''DPoP '' @ tok] else [])"
  by (simp_all add: token_header_def undecorated_def header_values_add canonical_keys)
    (simp_all add: header_values_def)

lemma bare_request_Inr:
  "bare_request J D method raw_url = Inr req \<longleftrightarrow>
     (\<exists>u. url_parse (jl_bracket J) raw_url = Some u
       \<and> req = \<lparr>oq_method = method, oq_url = dl_url_text D (u\<lparr>url_host := trim_suffix (url_host u) '':''\<rparr>),
               oq_header = Map.empty, oq_body = None, oq_length = 0, oq_gone = False\<rparr>)"
  by (auto simp: bare_request_def split: option.split)

lemma signed_with_token_Inr:
  "signed_with_token J u S D c iat rand method raw_url tok = Inr req' \<longleftrightarrow>
     (\<exists>req. bare_request J D method raw_url = Inr req
       \<and> attach_identity J u S (req\<lparr>oq_header := token_header tok\<rparr>) (Some (ca_signer c)) (ca_scitt c) iat rand = (None, req'))"
proof -
  have h: "req\<lparr>oq_header := token_header tok\<rparr> =
      (if tok \<noteq> [] then req\<lparr>oq_header := header_set (oq_header req) ''Authorization'' (''DPoP '' @ tok)\<rparr> else req)"
    if "bare_request J D method raw_url = Inr req" for req
    using that by (auto simp: bare_request_Inr token_header_def)
  show ?thesis
  proof (cases "bare_request J D method raw_url")
    case (Inr req)
    show ?thesis
      by (simp add: signed_with_token_def Inr h [OF Inr, symmetric] split: option.split prod.split)
  qed (simp add: signed_with_token_def)
qed

section \<open>What the wire can carry\<close>

text \<open>
  \<open>net/http\<close> delivers a header value as it was set when it is printable ASCII with no blank at either end (it trims
  the others, or refuses to write them); a request of the example sets no header besides those the callee reads.
\<close>

definition plain_value :: "string \<Rightarrow> bool" where
  "plain_value v \<longleftrightarrow>
     list_all (\<lambda>c. 32 \<le> byte_val c \<and> byte_val c < 127) v \<and> (v = [] \<or> hd v \<noteq> CHR '' '' \<and> last v \<noteq> CHR '' '')"

definition sendable :: "http_header \<Rightarrow> bool" where
  "sendable h \<longleftrightarrow>
     dom h \<subseteq> canonical_key ` set security_headers
     \<and> list_all (\<lambda>k. list_all plain_value (header_values h k)) security_headers"

lemma visible_plain: "(\<And>c. c \<in> set v \<Longrightarrow> 32 < byte_val c \<and> byte_val c < 127) \<Longrightarrow> plain_value v"
  using last_in_set [of v] hd_in_set [of v]
  by (fastforce simp: plain_value_def list_all_iff byte_val_def)

lemma plain_encoded: "plain_value (std_encode b)" "plain_value (''DPoP '' @ url_encode b)" if "b \<noteq> []" for b
proof -
  show "plain_value (std_encode b)" using encoded_visible(2) by (rule visible_plain)
  have "url_encode b \<noteq> []" using that by (induction b rule: triple_induct) (simp_all add: url_encode_def)
  then have "last (url_encode b) \<noteq> CHR '' ''" using url_letter_not_blank [of "last (url_encode b)" b] by simp
  moreover have "list_all (\<lambda>c. 32 \<le> byte_val c \<and> byte_val c < 127) (url_encode b)"
    using encoded_visible(1) [of _ b] by (auto simp: list_all_iff less_imp_le)
  moreover have "list_all (\<lambda>c. 32 \<le> byte_val c \<and> byte_val c < 127) ''DPoP ''" by (simp add: byte_val_def)
  ultimately show "plain_value (''DPoP '' @ url_encode b)"
    using \<open>url_encode b \<noteq> []\<close> by (simp add: plain_value_def)
qed

lemma sendable_token:
  assumes "tok = [] \<or> (\<exists>b. b \<noteq> [] \<and> tok = url_encode b)"
  shows "sendable (token_header tok)"
  using assms plain_encoded(2)
  by (auto simp: sendable_def token_header_def security_headers_def header_values_add canonical_keys header_set_def dom_def)
    (simp_all add: header_values_def)

lemma sendable_decorated:
  assumes "undecorated h" "sendable h" "plain_value jws" "receipt \<noteq> []" "token \<noteq> []"
  shows "sendable (add_headers (scitt_pairs receipt token) (header_set h dpop_header jws))"
proof -
  have "list_all (\<lambda>k. list_all plain_value (header_values
      (add_headers (scitt_pairs receipt token) (header_set h dpop_header jws)) k)) security_headers"
    using assms plain_encoded(1) decorated_values [OF assms(1)] by (simp add: security_headers_def sendable_def)
  moreover have "dom (add_headers (scitt_pairs receipt token) (header_set h dpop_header jws))
      \<subseteq> canonical_key ` set security_headers"
    using assms(2) by (auto simp: sendable_def add_scitt_pairs header_add_def header_set_def security_headers_def)
  ultimately show ?thesis by (simp add: sendable_def)
qed

lemma plain_proof:
  assumes "sign J S sg gone meth url iat rand opts = Inr jws"
  shows "plain_value jws"
proof -
  obtain a b sig where "jws = url_encode a @ ''.'' @ url_encode b @ ''.'' @ url_encode sig"
    using assms by (auto simp: sign_Inr sign_es256_def split: option.splits prod.splits)
  then show ?thesis
    using encoded_visible(1) by (intro visible_plain) (auto simp: byte_val_def)
qed

lemma sendable_signed:
  assumes "signed_with_token J u S D c iat rand meth url tok = Inr req"
    and "tok = [] \<or> (\<exists>b. b \<noteq> [] \<and> tok = url_encode b)"
    and "ca_scitt c = scitt_pairs receipt token" "receipt \<noteq> []" "token \<noteq> []"
  shows "sendable (oq_header req)"
proof -
  obtain bare where a: "attach_identity J u S (bare\<lparr>oq_header := token_header tok\<rparr>) (Some (ca_signer c))
      (scitt_pairs receipt token) iat rand = (None, req)"
    using assms(1,3) by (auto simp: signed_with_token_Inr)
  then show ?thesis
    using attach_identity_None [OF a] sendable_decorated [OF token_header_values(1) sendable_token [OF assms(2)] _ assms(4,5)]
      plain_proof by fastforce
qed

section \<open>Time\<close>

text \<open>
  An instant within the hour for which certificate and token were made; the clock of the program is that of a
  machine, years away from the end of \<open>int64\<close>.
\<close>

definition within_hour :: "int \<times> int \<times> int \<Rightarrow> int \<Rightarrow> bool" where
  "within_hour clock now \<longleftrightarrow>
     0 \<le> fst clock \<and> fst clock \<le> fst (snd clock) \<and> fst (snd clock) \<le> snd (snd clock) \<and> snd (snd clock) \<le> now
     \<and> now \<le> whole_second (fst (snd clock) + cert_ttl) \<and> now < 2 ^ 62 * nanos_per_second"

lemma sint_small: "0 \<le> x \<Longrightarrow> x < 2 ^ 63 \<Longrightarrow> sint (word_of_int x :: int64) = x"
  by (subst sint_sbintrunc') (simp add: signed_take_bit_int_eq_self)

lemma nanos_pos: "0 < nanos_per_second"
  by (simp add: nanos_per_second_def)

lemma whole_second_le: "whole_second t \<le> t"
  unfolding whole_second_def nanos_per_second_def by presburger

lemma within_hour_alive:
  assumes "within_hour clock now"
  shows "unix_seconds (snd (snd clock)) + status_ttl_sec \<noteq> 0"
    "\<not> token_expired (unix_seconds now) (unix_seconds (snd (snd clock)) + status_ttl_sec) skew"
    "whole_second (fst clock - cert_ttl) \<le> now" "now \<le> whole_second (fst (snd clock) + cert_ttl)"
proof -
  define t where "t = snd (snd clock) div nanos_per_second"
  have h: "0 \<le> snd (snd clock)" "snd (snd clock) \<le> now" "now < 2 ^ 62 * nanos_per_second"
    "now \<le> snd (snd clock) + 3600 * nanos_per_second"
    using assms whole_second_le [of "fst (snd clock) + cert_ttl"] by (auto simp: within_hour_def cert_ttl_def)
  have n: "now div nanos_per_second \<le> t + 3600"
    using zdiv_mono1 [OF h(4) nanos_pos] nanos_pos by (simp add: t_def)
  have b: "0 \<le> t" "t \<le> now div nanos_per_second"
    using h(1) zdiv_mono1 [OF h(2) nanos_pos] nanos_pos by (simp_all add: t_def pos_imp_zdiv_nonneg_iff)
  have m: "now div nanos_per_second < 2 ^ 62"
    using zdiv_mono1 [OF _ nanos_pos, of now "2 ^ 62 * nanos_per_second - 1"] h(3) by (simp add: nanos_per_second_def)
  have e: "unix_seconds (snd (snd clock)) + status_ttl_sec = word_of_int (t + 3600)"
    by (simp add: unix_seconds_def status_ttl_sec_def t_def)
  have s: "sint (unix_seconds (snd (snd clock)) + status_ttl_sec) = t + 3600"
    "sint (unix_seconds now) = now div nanos_per_second"
    using b m unfolding e unfolding unix_seconds_def by (intro sint_small; simp)+
  show "unix_seconds (snd (snd clock)) + status_ttl_sec \<noteq> 0" using s(1) b(1) by (metis add_nonneg_pos sint_0 less_irrefl zero_less_numeral)
  have c: "0 \<le> clamp_skew skew div nanos_per_second" "clamp_skew skew div nanos_per_second \<le> 600"
    by (rule skew_seconds_range)+
  show "\<not> token_expired (unix_seconds now) (unix_seconds (snd (snd clock)) + status_ttl_sec) skew"
    using b m n c unfolding token_expired_iff s by (simp add: Let_def)
  show "whole_second (fst clock - cert_ttl) \<le> now"
    using assms whole_second_le [of "fst clock - cert_ttl"] by (auto simp: within_hour_def cert_ttl_def nanos_per_second_def)
  show "now \<le> whole_second (fst (snd clock) + cert_ttl)" using assms by (simp add: within_hour_def)
qed

section \<open>A signed call\<close>

text \<open>The laws of all the libraries two agents share.\<close>

definition agent_laws :: "'k caller_lib \<Rightarrow> ('s, 'k) sign_lib \<Rightarrow> ('s, 'k) demo_lib \<Rightarrow> bool" where
  "agent_laws L S D \<longleftrightarrow>
     kit_laws L S D \<and> cert_creation_ok (cl_jose L) S D \<and> json_inverse (cl_jose L) S \<and> coords_fit (cl_jose L)
     \<and> cl_leaf L = decode_leaf"

lemma agent_lawsD:
  assumes "agent_laws L S D"
  shows "kit_laws L S D" "cert_creation_ok (cl_jose L) S D" "json_inverse (cl_jose L) S" "coords_fit (cl_jose L)"
    "cl_leaf L = decode_leaf" "ecdsa_correct (cl_jose L) S" "sha_fits (cl_jose L)"
  using assms by (simp_all add: agent_laws_def kit_laws_def)

text \<open>Credentials the kit provisioned, and the trust store made of the log's key; the artifacts fit their headers.\<close>

definition provisioned ::
  "'k caller_lib \<Rightarrow> ('s, 'k) sign_lib \<Rightarrow> ('s, 'k) demo_lib \<Rightarrow> string \<Rightarrow> string \<Rightarrow> int \<times> int \<times> int \<Rightarrow> 's agent_bundle \<Rightarrow> 'k key_lookup \<Rightarrow> bool"
where
  "provisioned L S D name agent clock b keys \<longleftrightarrow>
     (\<exists>rand tlk unknown. provision L S D rand clock name agent = Inr (tlk, b)
        \<and> demo_key_lookup L D unknown (dl_public D tlk) = Inr keys)
     \<and> nameable L D name agent \<and> length (bn_receipt b) \<le> 1048576 \<and> length (bn_status_token b) \<le> 1048576
     \<and> sha_of (cl_jose L) (bn_cert_der b) \<noteq> zero_hash"

lemma cose_sign1_not_Nil:
  assumes "cbor_laws (cl_cbor L) (dl_marshal D)" "cose_sign1 L S D key protected un payload = Inr data" "within_limits 14 un"
  shows "data \<noteq> []"
proof -
  obtain sig where s: "dl_marshal D (VTag 18 (VList [VBytes protected, un, VBytes payload, VBytes sig])) = Some data"
    using assms(2) by (auto simp: cose_sign1_Inr)
  show ?thesis using cbor_lawsD(2) [OF assms(1) s] within_limits_mono [OF assms(3)] by simp
qed

lemma provisioned_not_Nil:
  assumes "agent_laws L S D" "provision L S D rand clock name agent = Inr (tlk, b)"
  shows "bn_receipt b \<noteq> []" "bn_status_token b \<noteq> []"
proof -
  have c: "cbor_laws (cl_cbor L) (dl_marshal D)" using agent_lawsD(1) [OF assms(1)] by (rule kit_lawsD(1))
  show "bn_receipt b \<noteq> []" "bn_status_token b \<noteq> []"
    using assms(2) cose_sign1_not_Nil [OF c]
    by (auto simp: provision_def mint_receipt_def mint_status_token_def)
qed

lemma provisioned_caller:
  assumes laws: "agent_laws L S D" and p: "provisioned L S D name agent clock b keys"
    and c: "demo_caller_of (cl_jose L) S b = Inr c"
  shows "\<exists>cert. provisioned_cert D name clock b cert
    \<and> signer_ok (cl_jose L) S cert (dl_public D (bn_agent_key b)) (ca_signer c)
    \<and> ca_scitt c = scitt_pairs (bn_receipt b) (bn_status_token b) \<and> bn_receipt b \<noteq> [] \<and> bn_status_token b \<noteq> []
    \<and> ca_jkt c = jwk_thumbprint (cl_jose L) (dl_public D (bn_agent_key b))"
proof -
  obtain rand tlk where pr: "provision L S D rand clock name agent = Inr (tlk, b)" "nameable L D name agent"
    using p by (auto simp: provisioned_def)
  obtain cert sg where s: "provisioned_cert D name clock b cert"
    "new_signer (cl_jose L) S (Some (bn_agent_key b)) (bn_cert_der b) = Inr sg"
    "signer_ok (cl_jose L) S cert (dl_public D (bn_agent_key b)) sg"
    using provisioned_signer [OF agent_lawsD(1,2) [OF laws] pr(2,1)] by blast
  have "signer_jkt (cl_jose L) S sg = Some (jwk_thumbprint (cl_jose L) (dl_public D (bn_agent_key b)))"
    using s(3) by (simp add: signer_jkt_def signer_ok_def)
  then show ?thesis
    using s(1,2,3) c header_entries_pairs provisioned_not_Nil [OF laws pr(1)]
    by (intro exI [of _ cert]) (auto simp: demo_caller_of_def)
qed

text \<open>
  A request signed with provisioned credentials, with or without an access token, is authenticated by a
  middleware that trusts the log's key, within the hour: as the agent, with the thumbprint of its key.
\<close>

lemma signed_call:
  fixes L :: "'k caller_lib" and m :: "('k, 'r) middleware"
  assumes laws: "agent_laws L S D" and p: "provisioned L S D name agent clock b keys"
    and c: "demo_caller_of (cl_jose L) S b = Inr c"
    and req: "signed_with_token (cl_jose L) (cl_unicode L) S D c iat (Some rnd) ''GET'' url tok = Inr req'" "length rnd = 16"
      "length (header_get (oq_header req') dpop_header) \<le> max_proof_size"
      "\<And>htu. normalize_htu (cl_jose L) (oq_url req') = Inr htu \<Longrightarrow> is_ascii htu"
    and m: "mw_ok m" "mw_keys m = keys" "cfg = resolve_caller_options (mc_caller_opts (mw_cfg m))" "cc_verify_opts cfg = []"
      "pin_allows L cfg name"
    and r: "delivered L (mw_cfg m) req' r"
    and time: "within_hour clock now" "fresh_iat iat now (effective_skew (cc_pop_skew cfg))"
    and fresh: "\<And>e. fst (mw_replay m (url_encode (sha_of (cl_jose L) (hex_encode rnd))) e s) = Inr False"
  shows "\<exists>s'. authenticate L m r now s =
    (Inr (\<lparr>id_ans_name = name, id_agent_id = agent, id_fingerprint = sha_of (cl_jose L) (bn_cert_der b),
           id_jkt = ca_jkt c\<rparr>, []), s')"
    and "header_get (rq_header r) ''Authorization'' = (if tok \<noteq> [] then ''DPoP '' @ tok else [])"
proof -
  let ?J = "cl_jose L"
  obtain cert where cert: "provisioned_cert D name clock b cert"
    "signer_ok ?J S cert (dl_public D (bn_agent_key b)) (ca_signer c)"
    "ca_scitt c = scitt_pairs (bn_receipt b) (bn_status_token b)" "bn_receipt b \<noteq> []" "bn_status_token b \<noteq> []"
    "ca_jkt c = jwk_thumbprint ?J (dl_public D (bn_agent_key b))"
    using provisioned_caller [OF laws p c] by blast
  have size: "length (bn_receipt b) \<le> 1048576" "length (bn_status_token b) \<le> 1048576"
    using p by (simp_all add: provisioned_def)
  obtain req where a: "attach_identity ?J (cl_unicode L) S req (Some (ca_signer c))
      (scitt_pairs (bn_receipt b) (bn_status_token b)) iat (Some rnd) = (None, req')"
    and q: "oq_method req = ''GET''" "oq_header req = token_header tok" "oq_body req = None" "\<not> oq_gone req"
    using req(1) cert(3) by (auto simp: signed_with_token_Inr bare_request_Inr)
  have url: "oq_url req' = oq_url req"
    using a by (auto simp: attach_identity_def Let_def bind_request_content_def split: prod.splits sum.splits option.splits if_splits)
  have out: "undecorated (oq_header req)" "is_ascii (oq_method req)"
    "\<And>htu. normalize_htu ?J (oq_url req) = Inr htu \<Longrightarrow> is_ascii htu"
    using token_header_values(1) q(1,2) req(4) url by (auto simp: is_ascii_def byte_val_def)
  let ?st = "minted_status agent name (sha_of ?J (bn_cert_der b)) (unix_seconds (snd (snd clock)))"
  have vouch: "log_vouches L (mw_keys m) cfg \<lparr>sh_receipt = bn_receipt b, sh_status_token = bn_status_token b\<rparr> now cert ?st"
    using p provisioned_vouched [OF agent_lawsD(1,2,5) [OF laws] _ _ _ size _ within_hour_alive(1) [OF time(1)]
        within_hour_alive(2) [OF time(1)] cert(1)]
    unfolding m(2) provisioned_def by blast
  have window: "x_not_before cert \<le> now" "now \<le> x_not_after cert"
    using cert(1) within_hour_alive(3,4) [OF time(1)] by (simp_all add: provisioned_cert_def)
  have pin: "pin_allows L cfg (sp_ans_name ?st)" using m(5) by (simp add: minted_status_def)
  have raw: "x_raw cert = bn_cert_der b" using cert(1) by (simp add: provisioned_cert_def)
  show "\<exists>s'. authenticate L m r now s =
    (Inr (\<lparr>id_ans_name = name, id_agent_id = agent, id_fingerprint = sha_of (cl_jose L) (bn_cert_der b),
           id_jkt = ca_jkt c\<rparr>, []), s')"
    using attach_then_authenticate_lemma [OF agent_lawsD(3,6,4,7) [OF laws] cert(2) out q(4) cert(4,5) size a req(2,3) r
        m(1,3,4) window time(2) vouch pin, of s] fresh raw cert(6)
    by (simp add: minted_status_def q(3) body_of_def)
  obtain jws where "oq_header req' = add_headers (scitt_pairs (bn_receipt b) (bn_status_token b))
      (header_set (oq_header req) dpop_header jws)"
    using attach_identity_None [OF a] by auto
  then show "header_get (rq_header r) ''Authorization'' = (if tok \<noteq> [] then ''DPoP '' @ tok else [])"
    using same_evidence_get(2) [OF delivered_evidence [OF r]] decorated_values(4) [OF out(1), of "bn_receipt b" "bn_status_token b" jws]
      token_header_values(2) [of tok] q(2)
    by (simp add: header_get_values)
qed

section \<open>The callee's answers\<close>

definition callee_at :: "('k, 's) middleware \<Rightarrow> (int list \<Rightarrow> int list) \<Rightarrow> int \<Rightarrow> ('k, replay_cache) middleware" where
  "callee_at m iter tc = \<lparr>mw_cfg = mw_cfg m, mw_keys = mw_keys m, mw_replay = check_and_store iter tc\<rparr>"

lemma callee_at_simps [simp]:
  "mw_cfg (callee_at m iter tc) = mw_cfg m" "mw_keys (callee_at m iter tc) = mw_keys m"
  "mw_replay (callee_at m iter tc) = check_and_store iter tc" "mw_ok (callee_at m iter tc) \<longleftrightarrow> mw_ok m"
  by (simp_all add: callee_at_def mw_ok_def)

lemma app_answer:
  assumes "route_of r = Route_App" "authenticate L m r now s = (Inr (ident, []), s')"
  shows "callee_serve L m r now s =
    ((case authorize (cl_unicode L) r ident of
        Inl _ \<Rightarrow> error_answer 403 ''forbidden''
      | Inr scope \<Rightarrow> \<lparr>an_status = 200, an_header = [plain_text],
           an_body = ''hello from callee '' @ em_dash @ '' authenticated caller: '' @ id_ans_name ident @ scope\<rparr>), s')"
proof -
  have a: "authorize (cl_unicode L) (r\<lparr>rq_body := \<lparr>hb_bytes = [], hb_broken = False\<rparr>, rq_caller := Some ident\<rparr>) ident
      = authorize (cl_unicode L) r ident"
    by (simp add: authorize_def)
  show ?thesis
    using assms a
    by (simp add: callee_serve_def through_middleware_def serve_def callee_app_def caller_from_context_def
        context_with_caller_def)
qed

lemma app_refused:
  assumes "route_of r = Route_App" "fst (authenticate L m r now s) = Inl e"
    and "int (length (hb_bytes (rq_body r))) \<le> mc_max_content (mw_cfg m)" "\<not> hb_broken (rq_body r)"
  shows "an_status (fst (callee_serve L m r now s)) = 401"
proof -
  have "e = Unauthorized" using assms(2-4) by (rule authenticate_unauthorized)
  then obtain s' where "authenticate L m r now s = (Inl Unauthorized, s')" using assms(2) by (metis prod.collapse)
  then show ?thesis
    using assms(1)
    by (simp add: callee_serve_def through_middleware_def serve_def rejection_answer_def write_unauthorized_def
        error_answer_def Let_def)
qed

text \<open>The caller's exchange with a callee: what crosses the wire, and the moments the callee answers at.\<close>

definition dial ::
  "(int \<times> int \<Rightarrow> http_request \<Rightarrow> 's \<Rightarrow> http_answer \<times> 's) \<Rightarrow> (string \<Rightarrow> out_request \<Rightarrow> http_request)
     \<Rightarrow> ((int \<times> int) list \<times> 's) http_do" where
  "dial handle wire host req w =
     (case w of
        ([], s) \<Rightarrow> (None, w)
      | (t # ts, s) \<Rightarrow>
          (case handle t (wire host req) s of (a, s') \<Rightarrow> (Some (an_status a, an_body a), (ts, s'))))"

definition demo_callee ::
  "'k caller_lib \<Rightarrow> ('k, 's) middleware \<Rightarrow> (int list \<Rightarrow> int list) \<Rightarrow> int \<times> int \<Rightarrow> http_request \<Rightarrow> replay_cache \<Rightarrow> http_answer \<times> replay_cache" where
  "demo_callee L m iter t r s = callee_serve L (callee_at m iter (snd t)) r (fst t) s"

text \<open>
  A connection: a GET for the URL reaches the callee's application, with the values of the headers the callee reads,
  under a URL that means the same and an authority that is trusted.
\<close>

definition connected ::
  "'k caller_lib \<Rightarrow> ('k, 's) middleware \<Rightarrow> (string \<Rightarrow> out_request \<Rightarrow> http_request) \<Rightarrow> string \<Rightarrow> bool" where
  "connected L m wire url \<longleftrightarrow>
     (\<forall>req. oq_method req = ''GET'' \<longrightarrow> oq_url req = url \<longrightarrow> oq_body req = None \<longrightarrow> sendable (oq_header req) \<longrightarrow>
        delivered L (mw_cfg m) req (wire [] req) \<and> route_of (wire [] req) = Route_App)"

lemma new_cache_fresh:
  assumes "visits_all iter"
  shows "fst (check_and_store iter tc k e (new_replay_cache n)) = Inr False"
proof -
  have "iter [] = []" using visits_allD [OF assms, of "[]"] by simp
  then show ?thesis
    by (simp add: check_and_store_def evict_expired_def new_replay_cache_def default_replay_max_entries_def)
qed

lemma attach_bare_fields:
  assumes "attach_identity J u S req sg scitt iat rand = (None, req')" "oq_body req = None"
  shows "oq_method req' = oq_method req \<and> oq_url req' = oq_url req \<and> oq_body req' = None"
  using assms by (auto simp: attach_identity_def Let_def bind_request_content_def split: prod.splits sum.splits option.splits)

lemma signed_fields:
  assumes "signed_with_token J u S D c iat rand method raw_url tok = Inr req'" "bare_request J D method raw_url = Inr bare"
  shows "oq_method req' = method" "oq_url req' = oq_url bare" "oq_body req' = None"
proof -
  have b: "oq_body bare = None" "oq_method bare = method" using assms(2) by (auto simp: bare_request_Inr)
  have "attach_identity J u S (bare\<lparr>oq_header := token_header tok\<rparr>) (Some (ca_signer c)) (ca_scitt c) iat rand = (None, req')"
    using assms unfolding signed_with_token_Inr by auto
  from attach_bare_fields [OF this] b
  show "oq_method req' = method" "oq_url req' = oq_url bare" "oq_body req' = None" by simp_all
qed

section \<open>The modes of the caller\<close>

text \<open>
  A caller that can reach its callee: provisioned credentials, a middleware with the default options that trusts the
  log, a connection, and a proof that fits its header.
\<close>

definition call_ready ::
  "'k caller_lib \<Rightarrow> ('s, 'k) sign_lib \<Rightarrow> ('s, 'k) demo_lib \<Rightarrow> string \<Rightarrow> string \<Rightarrow> int \<times> int \<times> int \<Rightarrow> 's demo_caller
     \<Rightarrow> ('k, replay_cache) middleware \<Rightarrow> (string \<Rightarrow> out_request \<Rightarrow> http_request) \<Rightarrow> string \<Rightarrow> bool" where
  "call_ready L S D name agent clock c m wire raw_url \<longleftrightarrow>
     agent_laws L S D
     \<and> (\<exists>b. provisioned L S D name agent clock b (mw_keys m) \<and> demo_caller_of (cl_jose L) S b = Inr c)
     \<and> mw_ok m \<and> mc_caller_opts (mw_cfg m) = []
     \<and> (\<exists>bare. bare_request (cl_jose L) D ''GET'' raw_url = Inr bare \<and> connected L m wire (oq_url bare)
          \<and> (\<forall>htu. normalize_htu (cl_jose L) (oq_url bare) = Inr htu \<longrightarrow> is_ascii htu))"

lemma default_options:
  "resolve_caller_options [] = default_caller_config" "cc_verify_opts default_caller_config = []"
  "cc_allowed default_caller_config = []" "cc_pop_skew default_caller_config = default_pop_skew"
  by (simp_all add: resolve_caller_options_def default_caller_config_def)

lemma ready_call:
  assumes ready: "call_ready L S D name agent clock c m wire raw_url" and i: "visits_all iter"
    and req: "signed_with_token (cl_jose L) (cl_unicode L) S D c iat (Some rnd) ''GET'' raw_url tok = Inr req" "length rnd = 16"
      "length (header_get (oq_header req) dpop_header) \<le> max_proof_size"
    and time: "within_hour clock now" "fresh_iat iat now (effective_skew default_pop_skew)"
    and tok: "tok = [] \<or> (\<exists>b. b \<noteq> [] \<and> tok = url_encode b)"
  shows "\<exists>ident s'. authenticate L (callee_at m iter tc) (wire [] req) now (new_replay_cache n) = (Inr (ident, []), s')
      \<and> id_ans_name ident = name \<and> id_agent_id ident = agent \<and> id_jkt ident = ca_jkt c"
    and "header_get (rq_header (wire [] req)) ''Authorization'' = (if tok \<noteq> [] then ''DPoP '' @ tok else [])"
    and "route_of (wire [] req) = Route_App"
    and "delivered L (mw_cfg m) req (wire [] req)"
proof -
  obtain b where b: "agent_laws L S D" "provisioned L S D name agent clock b (mw_keys m)" "demo_caller_of (cl_jose L) S b = Inr c"
    and m: "mw_ok m" "mc_caller_opts (mw_cfg m) = []"
    using ready unfolding call_ready_def by blast
  obtain bare where bare: "bare_request (cl_jose L) D ''GET'' raw_url = Inr bare" "connected L m wire (oq_url bare)"
    "\<forall>htu. normalize_htu (cl_jose L) (oq_url bare) = Inr htu \<longrightarrow> is_ascii htu"
    using ready unfolding call_ready_def by blast
  note f = signed_fields [OF req(1) bare(1)]
  have h: "sendable (oq_header req)"
    using provisioned_caller [OF b] sendable_signed [OF req(1) tok] by blast
  have r: "delivered L (mw_cfg (callee_at m iter tc)) req (wire [] req)" "route_of (wire [] req) = Route_App"
    using bare(2) f h by (simp_all add: connected_def)
  have cfg: "default_caller_config = resolve_caller_options (mc_caller_opts (mw_cfg (callee_at m iter tc)))"
    using m(2) by (simp add: default_options)
  have pin: "pin_allows L default_caller_config name" by (simp add: pin_allows_def default_options)
  have ascii: "\<And>htu. normalize_htu (cl_jose L) (oq_url req) = Inr htu \<Longrightarrow> is_ascii htu" using bare(3) f(2) by simp
  have t: "fresh_iat iat now (effective_skew (cc_pop_skew default_caller_config))" using time(2) by (simp add: default_options)
  have n: "fst (mw_replay (callee_at m iter tc) k e (new_replay_cache n)) = Inr False" for k e
    using new_cache_fresh [OF i] by simp
  note call = signed_call [OF b req ascii _ _ cfg default_options(2) pin r(1) time(1) t n]
  show "\<exists>ident s'. authenticate L (callee_at m iter tc) (wire [] req) now (new_replay_cache n) = (Inr (ident, []), s')
      \<and> id_ans_name ident = name \<and> id_agent_id ident = agent \<and> id_jkt ident = ca_jkt c"
    using call(1) m(1) by fastforce
  show "header_get (rq_header (wire [] req)) ''Authorization'' = (if tok \<noteq> [] then ''DPoP '' @ tok else [])"
    using call(2) m(1) by simp
  show "route_of (wire [] req) = Route_App" "delivered L (mw_cfg m) req (wire [] req)" using r by simp_all
qed

lemma authorize_without_token:
  "header_get (rq_header r) ''Authorization'' = [] \<Longrightarrow> authorize u r ident = Inr []"
  by (simp add: authorize_def no_token_presented)

lemma authorize_minted:
  assumes "header_get (rq_header r) ''Authorization'' = ''DPoP '' @ mint_unsigned_demo_token sub scope jkt"
    and "utf8_valid sub" "utf8_valid scope" "utf8_valid jkt" "jkt \<noteq> []"
  shows "authorize u r ident = (if jkt \<noteq> id_jkt ident then Inl (Auth_Other_Key jkt (id_jkt ident)) else Inr ('' with scope '' @ scope))"
proof -
  have ne: "mint_unsigned_demo_token sub scope jkt \<noteq> []"
    by (simp add: mint_unsigned_demo_token_def enc_demo_token_def)
  have "access_token_from_authorization u (header_get (rq_header r) ''Authorization'') = Some (mint_unsigned_demo_token sub scope jkt)"
    unfolding assms(1) by (rule token_presented [OF mint_unsigned_demo_token_def ne])
  then show ?thesis
    using parse_minted_token [OF assms(2,3,4)] assms(5) by (simp add: authorize_def)
qed

lemma send_expecting_dial:
  assumes "an_status (fst (handle t (wire [] req) s)) = want"
  shows "fst (send_expecting (dial handle wire) want (Inr req) (t # ts, s)) = None"
  using assms by (cases "handle t (wire [] req) s") (simp add: send_expecting_def caller_send_def dial_def)

text \<open>A plain call is answered with 200, and the identical request again with 401.\<close>

lemma auth_outcome:
  assumes "call_ready L S D name agent clock c m wire raw_url" "visits_all iter"
    and "signed_with_token (cl_jose L) (cl_unicode L) S D c iat (Some rnd) ''GET'' raw_url [] = Inr req" "length rnd = 16"
      "length (header_get (oq_header req) dpop_header) \<le> max_proof_size"
    and "within_hour clock now" "fresh_iat iat now (effective_skew default_pop_skew)"
  shows "an_status (fst (demo_callee L m iter (now, tc) (wire [] req) (new_replay_cache n))) = 200"
    "an_body (fst (demo_callee L m iter (now, tc) (wire [] req) (new_replay_cache n))) =
       ''hello from callee '' @ em_dash @ '' authenticated caller: '' @ name"
proof -
  note ready = assms disjI1 [OF refl]
  note call = ready_call(1) [OF ready, of tc n] ready_call(2,3) [OF ready]
  obtain ident s' where a: "authenticate L (callee_at m iter tc) (wire [] req) now (new_replay_cache n) = (Inr (ident, []), s')"
    "id_ans_name ident = name" using call(1) by blast
  have "authorize (cl_unicode L) (wire [] req) ident = Inr []" using call(2) by (intro authorize_without_token) simp
  then show "an_status (fst (demo_callee L m iter (now, tc) (wire [] req) (new_replay_cache n))) = 200"
    "an_body (fst (demo_callee L m iter (now, tc) (wire [] req) (new_replay_cache n))) =
       ''hello from callee '' @ em_dash @ '' authenticated caller: '' @ name"
    using app_answer [OF call(3) a(1)] a(2) by (simp_all add: demo_callee_def)
qed

lemma no_body_small:
  assumes "delivered L c req r" "oq_body req = None"
  shows "int (length (hb_bytes (rq_body r))) \<le> mc_max_content c" "\<not> hb_broken (rq_body r)"
  using assms by (auto simp: delivered_def body_of_def)

lemma replay_outcome:
  assumes "call_ready L S D name agent clock c m wire raw_url" "visits_all iter"
    and "signed_with_token (cl_jose L) (cl_unicode L) S D c iat (Some rnd) ''GET'' raw_url [] = Inr req" "length rnd = 16"
      "length (header_get (oq_header req) dpop_header) \<le> max_proof_size"
    and "within_hour clock now" "fresh_iat iat now (effective_skew default_pop_skew)"
    and later: "tc' < now' + replay_grace"
  shows "an_status (fst (demo_callee L m iter (now', tc') (wire [] req)
    (snd (demo_callee L m iter (now, tc) (wire [] req) (new_replay_cache n))))) = 401"
proof -
  note ready = assms(1-7) disjI1 [OF refl]
  note call = ready_call(1) [OF ready, of tc n] ready_call(3,4) [OF ready]
  obtain ident s' where a: "authenticate L (callee_at m iter tc) (wire [] req) now (new_replay_cache n) = (Inr (ident, []), s')"
    using call(1) by blast
  have s': "snd (demo_callee L m iter (now, tc) (wire [] req) (new_replay_cache n)) = s'"
    using app_answer [OF call(2) a] by (simp add: demo_callee_def)
  have opts: "mc_caller_opts (mw_cfg (callee_at m iter tc)) = []" using assms(1) by (auto simp: call_ready_def)
  have skew: "effective_skew (cc_pop_skew (resolve_caller_options (mc_caller_opts (mw_cfg (callee_at m iter tc))))) + replay_grace < 2 ^ 63"
    unfolding opts by (simp add: default_options effective_skew_def default_pop_skew_def replay_grace_def)
  have "\<exists>e. fst (authenticate L (callee_at m iter tc') (wire [] req) now' (memory_replay.run [] s')) = Inl e"
    by (rule authenticate_replayed [OF new_replay_ok assms(2) callee_at_simps(3) callee_at_simps(3) _ a skew _ later])
      (simp_all add: memory_replay.before_def)
  then obtain e where e: "fst (authenticate L (callee_at m iter tc') (wire [] req) now' s') = Inl e" by auto
  have body: "oq_body req = None" using assms(1,3) signed_fields(3) by (auto simp: call_ready_def)
  have "an_status (fst (callee_serve L (callee_at m iter tc') (wire [] req) now' s')) = 401"
    using app_refused [OF call(2) e] no_body_small [OF call(3) body] by simp
  then show ?thesis unfolding s' by (simp add: demo_callee_def)
qed

lemma no_proof_rejected:
  assumes "header_get (rq_header r) dpop_header = []"
  shows "\<exists>e. fst (authenticate L m r now s) = Inl e"
proof (rule ccontr)
  assume "\<not> ?thesis"
  then obtain ident content s' where "authenticate L m r now s = (Inr (ident, content), s')"
    by (metis old.sum.exhaust prod.collapse)
  then have "header_get (rq_header r) dpop_header \<noteq> []"
    by (auto simp: authenticate_Inr verify_caller_with_Inr caller_preconditions_None)
  with assms show False by simp
qed

lemma noident_outcome:
  assumes "call_ready L S D name agent clock c m wire raw_url" "bare_request (cl_jose L) D ''GET'' raw_url = Inr bare"
  shows "an_status (fst (demo_callee L m iter t (wire [] bare) s)) = 401"
proof -
  have b: "oq_method bare = ''GET''" "oq_body bare = None" "oq_header bare = Map.empty" using assms(2) by (auto simp: bare_request_Inr)
  have r: "delivered L (mw_cfg m) bare (wire [] bare)" "route_of (wire [] bare) = Route_App"
    using assms b sendable_token [of "[]"] by (auto simp: call_ready_def connected_def token_header_def)
  have "header_get (rq_header (wire [] bare)) dpop_header = []"
    using same_evidence_get(1) [OF delivered_evidence [OF r(1)]] b(3) by (simp add: header_get_def)
  then obtain e where e: "fst (authenticate L (callee_at m iter (snd t)) (wire [] bare) (fst t) s) = Inl e"
    using no_proof_rejected [of "wire [] bare" L "callee_at m iter (snd t)" "fst t" s] by blast
  show ?thesis using app_refused [OF r(2) e] no_body_small [OF r(1) b(2)] by (simp add: demo_callee_def)
qed

lemma demo_texts_utf8:
  "utf8_valid ''agent-demo-1''" "utf8_valid ''payments:read''" "utf8_valid ''agent-victim''" "utf8_valid ''payments:write''"
  "utf8_valid victim_jkt" "victim_jkt \<noteq> []"
  by (code_simp+)

lemma caller_jkt_text:
  assumes "call_ready L S D name agent clock c m wire raw_url"
  shows "utf8_valid (ca_jkt c)" "ca_jkt c \<noteq> []"
proof -
  obtain b where b: "agent_laws L S D" "provisioned L S D name agent clock b (mw_keys m)" "demo_caller_of (cl_jose L) S b = Inr c"
    using assms unfolding call_ready_def by blast
  then obtain pub where "ca_jkt c = jwk_thumbprint (cl_jose L) pub" using provisioned_caller by blast
  then obtain x where x: "ca_jkt c = url_encode (sha_of (cl_jose L) x)" by (auto simp: jwk_thumbprint_def Let_def)
  have "length (sha_of (cl_jose L) x) = 32" using agent_lawsD(7) [OF b(1)] by (simp add: sha_fits_def)
  then show "utf8_valid (ca_jkt c)" "ca_jkt c \<noteq> []" using x by (auto simp: utf8_valid_ascii)
qed

text \<open>A token of one's own is honoured; a token bound to another key is refused.\<close>

lemma token_outcome:
  assumes ready: "call_ready L S D name agent clock c m wire raw_url" and i: "visits_all iter"
    and req: "signed_with_token (cl_jose L) (cl_unicode L) S D c iat (Some rnd) ''GET'' raw_url
        (mint_unsigned_demo_token sub scope jkt) = Inr req" "length rnd = 16"
      "length (header_get (oq_header req) dpop_header) \<le> max_proof_size"
    and time: "within_hour clock now" "fresh_iat iat now (effective_skew default_pop_skew)"
    and words: "utf8_valid sub" "utf8_valid scope" "utf8_valid jkt" "jkt \<noteq> []"
  shows "an_status (fst (demo_callee L m iter (now, tc) (wire [] req) (new_replay_cache n))) = (if jkt = ca_jkt c then 200 else 403)"
proof -
  have tok: "mint_unsigned_demo_token sub scope jkt = [] \<or> (\<exists>b. b \<noteq> [] \<and> mint_unsigned_demo_token sub scope jkt = url_encode b)"
    by (intro disjI2 exI conjI; (rule mint_unsigned_demo_token_def)?) (simp add: enc_demo_token_def)
  note call = ready_call(1) [OF ready i req time tok, of tc n] ready_call(2,3) [OF ready i req time tok]
  obtain ident s' where a: "authenticate L (callee_at m iter tc) (wire [] req) now (new_replay_cache n) = (Inr (ident, []), s')"
    "id_jkt ident = ca_jkt c" using call(1) by blast
  have h: "header_get (rq_header (wire [] req)) ''Authorization'' = ''DPoP '' @ mint_unsigned_demo_token sub scope jkt"
    using call(2) by (simp add: mint_unsigned_demo_token_def enc_demo_token_def)
  show ?thesis
    using app_answer [OF call(3) a(1)] authorize_minted [OF h words, of "cl_unicode L" ident] a(2)
    by (simp add: demo_callee_def error_answer_def)
qed

definition mode_token :: "'s demo_caller \<Rightarrow> string \<Rightarrow> string" where
  "mode_token c mode =
     (if mode = ''oauth'' then own_token c else if mode = ''stolentoken'' then stolen_token else [])"

lemmas mode_defs = client_mode_def run_auth_def run_noident_def run_oauth_def run_stolen_token_def

lemma mode_outcome:
  assumes ready: "call_ready L S D name agent clock c m wire raw_url" and i: "visits_all iter"
    and mode: "mode \<in> {''auth'', ''replay'', ''noident'', ''oauth'', ''stolentoken''}"
    and req: "signed_with_token (cl_jose L) (cl_unicode L) S D c iat (Some rnd) ''GET'' raw_url (mode_token c mode) = Inr req"
      "length rnd = 16" "length (header_get (oq_header req) dpop_header) \<le> max_proof_size"
    and time: "within_hour clock now" "fresh_iat iat now (effective_skew default_pop_skew)" "tc' < now' + replay_grace"
    and other: "ca_jkt c \<noteq> victim_jkt"
  shows "fst (client_mode (cl_jose L) (cl_unicode L) S D (dial (demo_callee L m iter) wire) c iat (Some rnd) raw_url mode
    ((now, tc) # (now', tc') # ts, new_replay_cache n)) = None"
proof -
  let ?do = "dial (demo_callee L m iter) wire" and ?w = "((now, tc) # (now', tc') # ts, new_replay_cache n)"
  obtain bare where bare: "bare_request (cl_jose L) D ''GET'' raw_url = Inr bare" using ready unfolding call_ready_def by blast
  consider "mode = ''auth''" | "mode = ''replay''" | "mode = ''noident''" | "mode = ''oauth''" | "mode = ''stolentoken''"
    using mode by blast
  then show ?thesis
  proof cases
    case 1
    then have s: "signed_with_token (cl_jose L) (cl_unicode L) S D c iat (Some rnd) ''GET'' raw_url [] = Inr req"
      using req(1) by (simp add: mode_token_def)
    show ?thesis
      using send_expecting_dial [where handle = "demo_callee L m iter" and wire = wire, OF auth_outcome(1) [OF ready i s req(2,3) time(1,2)]] s 1
      by (simp add: mode_defs signed_def)
  next
    case 2
    then have s: "signed_with_token (cl_jose L) (cl_unicode L) S D c iat (Some rnd) ''GET'' raw_url [] = Inr req"
      using req(1) by (simp add: mode_token_def)
    obtain a1 c1 where 1: "demo_callee L m iter (now, tc) (wire [] req) (new_replay_cache n) = (a1, c1)" by fastforce
    obtain a2 c2 where 2: "demo_callee L m iter (now', tc') (wire [] req) c1 = (a2, c2)" by fastforce
    have "an_status a1 = 200" "an_status a2 = 401"
      using auth_outcome(1) [OF ready i s req(2,3) time(1,2), of tc n] replay_outcome [OF ready i s req(2,3) time, of tc n] 1 2
      by simp_all
    then show ?thesis
      using s \<open>mode = ''replay''\<close> 1 2
      by (simp add: mode_defs signed_def run_replay_def caller_send_def dial_def clone_req_def)
  next
    case 3
    then show ?thesis
      using send_expecting_dial [where handle = "demo_callee L m iter" and wire = wire, OF noident_outcome [OF ready bare]] bare by (simp add: mode_defs)
  next
    case 4
    then have s: "signed_with_token (cl_jose L) (cl_unicode L) S D c iat (Some rnd) ''GET'' raw_url (own_token c) = Inr req"
      using req(1) by (simp add: mode_token_def)
    have "an_status (fst (demo_callee L m iter (now, tc) (wire [] req) (new_replay_cache n))) = 200"
      using token_outcome [OF ready i s [unfolded own_token_def] req(2,3) time(1,2) demo_texts_utf8(1,2) caller_jkt_text [OF ready]]
      by simp
    from send_expecting_dial [where handle = "demo_callee L m iter" and wire = wire, OF this] show ?thesis using s 4 by (simp add: mode_defs)
  next
    case 5
    then have s: "signed_with_token (cl_jose L) (cl_unicode L) S D c iat (Some rnd) ''GET'' raw_url stolen_token = Inr req"
      using req(1) by (simp add: mode_token_def)
    have "an_status (fst (demo_callee L m iter (now, tc) (wire [] req) (new_replay_cache n))) = 403"
      using token_outcome [OF ready i s [unfolded stolen_token_def] req(2,3) time(1,2) demo_texts_utf8(3-6)] other by simp
    from send_expecting_dial [where handle = "demo_callee L m iter" and wire = wire, OF this] show ?thesis using s 5 by (simp add: mode_defs)
  qed
qed

section \<open>From the start of the server to the end of the client\<close>

lemma with_trusted_hosts_opts: "with_trusted_hosts u hosts c = Inr c' \<Longrightarrow> mc_caller_opts c' = mc_caller_opts c"
  by (auto simp: with_trusted_hosts_def Let_def split: if_splits)

lemma start_server_Inr:
  assumes "start_server L S D io unknown rand clock port listens dir host fs = (Inr (m, cache), fs')"
  shows "\<exists>tlk b. provision L S D rand clock demo_ans_name demo_agent_id = Inr (tlk, b)
    \<and> save_bundle io D b dir fs = (None, fs') \<and> demo_key_lookup L D unknown (dl_public D tlk) = Inr (mw_keys m)
    \<and> mw_ok m \<and> mc_caller_opts (mw_cfg m) = [] \<and> cache = new_replay_cache 10000"
proof -
  obtain tlk b where p: "provision L S D rand clock demo_ans_name demo_agent_id = Inr (tlk, b)"
    using assms by (auto simp: start_server_def split: sum.splits)
  obtain fs1 where w: "save_bundle io D b dir fs = (None, fs1)"
    using assms p by (auto simp: start_server_def split: prod.splits option.splits)
  obtain keys where k: "demo_key_lookup L D unknown (dl_public D tlk) = Inr keys"
    using assms p w by (auto simp: start_server_def split: sum.splits)
  obtain m' where n: "new_middleware (Some keys) (Some port) [with_trusted_hosts (cl_unicode L) [host]] = Inr m'"
    using assms p w k by (auto simp: start_server_def split: sum.splits)
  have r: "m' = m" "cache = new_replay_cache 10000" "fs1 = fs'"
    using assms p w k n by (auto simp: start_server_def split: if_splits)
  have m: "mw_keys m = keys" "mw_ok m"
    "with_trusted_hosts (cl_unicode L) [host] default_middleware_config = Inr (mw_cfg m)"
    using n unfolding r(1) new_middleware_Inr by auto
  have "mc_caller_opts (mw_cfg m) = []"
    using with_trusted_hosts_opts [OF m(3)] by (simp add: default_middleware_config_def)
  then show ?thesis using p w k m r by blast
qed

lemma load_with_retry_later:
  "(\<forall>f\<in>set early. \<exists>e. load_bundle io D dir f = Inl e) \<Longrightarrow> load_bundle io D dir fs = Inr b \<Longrightarrow>
     load_with_retry io D dir (early @ fs # later) prev = Inr b"
  by (induction early arbitrary: prev) auto

text \<open>The client waits for the bundle: it has one exactly when one of its fifty attempts reads one.\<close>

lemma load_with_retry_Inr:
  "(\<exists>b. load_with_retry io D dir fss prev = Inr b) \<longleftrightarrow> (\<exists>fs\<in>set fss. \<exists>b. load_bundle io D dir fs = Inr b)"
proof (induction fss arbitrary: prev)
  case (Cons fs fss)
  then show ?case by (cases "load_bundle io D dir fs") auto
qed simp

lemma probe_server_keeps: "(\<forall>req w. snd (do req w) = w) \<Longrightarrow> probe_server do m n w = w"
proof (induction n arbitrary: w)
  case (Suc n)
  show ?case
  proof (cases m)
    case (Inr req)
    obtain ok w' where d: "do req w = (ok, w')" by (cases "do req w")
    moreover have "w' = w" using Suc.prems d by (metis snd_conv)
    ultimately show ?thesis using Suc Inr by (cases ok) auto
  qed simp
qed simp

lemma demo_names:
  assumes "\<forall>u. url_parse (jl_bracket (cl_jose L)) demo_ans_name = Some u \<longrightarrow> dl_url_text D u = demo_ans_name"
  shows "nameable L D demo_ans_name demo_agent_id"
proof -
  have "demo_ans_name = ans_uri (Version 1 0 0) ''payments.acme.example''" by code_simp
  then have p: "parse_ans_name (cl_unicode L) demo_ans_name =
      parse_ans_name (cl_unicode L) (ans_uri (Version 1 0 0) ''payments.acme.example'')" by (rule arg_cong)
  have "\<exists>a. parse_ans_name (cl_unicode L) demo_ans_name = Inr a" unfolding p parse_ans_uri by blast
  moreover have "utf8_valid demo_ans_name" "utf8_valid demo_agent_id" "demo_ans_name \<noteq> []" "demo_agent_id \<noteq> []" by code_simp+
  ultimately show ?thesis using assms by (simp add: nameable_def)
qed

section \<open>Libraries that do not fail\<close>

text \<open>
  Conditions under which no library call of the example returns an error: keys are generated and encoded, the
  certificate of the example is created, values within the limits are encoded, and signing works.
\<close>

definition kit_works ::
  "'k caller_lib \<Rightarrow> ('s, 'k) sign_lib \<Rightarrow> ('s, 'k) demo_lib \<Rightarrow> bytes \<times> bytes \<Rightarrow> int \<times> int \<times> int \<Rightarrow> bool" where
  "kit_works L S D rand clock \<longleftrightarrow>
     dl_generate D (fst rand) \<noteq> None
     \<and> (\<exists>key. dl_generate D (snd rand) = Some key
          \<and> is_ok (identity_cert L D key demo_ans_name (fst clock) (fst (snd clock))))
     \<and> (\<forall>pub. dl_spki D pub \<noteq> None) \<and> (\<forall>key. dl_pkcs8 D key \<noteq> None)
     \<and> (\<forall>v. within_limits 16 v \<longrightarrow> dl_marshal D v \<noteq> None) \<and> (\<forall>is. cb_marshal (cl_cbor L) is \<noteq> None)
     \<and> (\<forall>key d. sl_sign S key d \<noteq> None) \<and> (\<forall>h. sl_header S h \<noteq> None) \<and> (\<forall>q. sl_payload S q \<noteq> None)"

lemma ok_value: "is_ok m \<Longrightarrow> \<exists>x. m = Inr x"
  by (cases m) simp_all

lemma kit_worksD:
  assumes "kit_works L S D rand clock"
  shows "\<exists>sk. dl_generate D (fst rand) = Some sk"
    "\<exists>key der. dl_generate D (snd rand) = Some key
       \<and> identity_cert L D key demo_ans_name (fst clock) (fst (snd clock)) = Inr der"
    "\<exists>kid. key_id L D pub = Inr kid" "\<exists>der. dl_pkcs8 D k = Some der" "within_limits 16 v \<Longrightarrow> \<exists>data. dl_marshal D v = Some data"
    "\<exists>bs. cb_marshal (cl_cbor L) is = Some bs" "\<exists>r t. sl_sign S k d = Some (r, t)" "\<exists>hb. sl_header S h = Some hb"
    "\<exists>pb. sl_payload S q = Some pb"
  using assms by (auto simp: kit_works_def key_id_def dest: ok_value split: option.split)

lemma cose_works:
  assumes "kit_works L S D rand clock" "within_limits 14 un"
  shows "\<exists>data. cose_sign1 L S D key protected un payload = Inr data"
proof -
  obtain bs r t where "cb_marshal (cl_cbor L) [CText ''Signature1'', CBytes protected, CBytes [], CBytes payload] = Some bs"
    "sl_sign S key (sha_of (cl_jose L) bs) = Some (r, t)"
    using kit_worksD(6,7) [OF assms(1)] by blast
  moreover obtain data where
    "dl_marshal D (VTag 18 (VList [VBytes protected, un, VBytes payload, VBytes (fill_bytes 32 r @ fill_bytes 32 t)])) = Some data"
    using kit_worksD(5) [OF assms(1), of "VTag 18 (VList [VBytes protected, un, VBytes payload, VBytes (fill_bytes 32 r @ fill_bytes 32 t)])"]
      assms(2) by auto
  ultimately show ?thesis unfolding cose_sign1_Inr by blast
qed

lemma mint_works:
  assumes w: "kit_works L S D rand clock"
  shows "\<exists>tok. mint_status_token L S D tlk agent name fp now = Inr tok" "\<exists>rcpt. mint_receipt L S D tlk agent name = Inr rcpt"
proof -
  obtain kid where k: "key_id L D (dl_public D tlk) = Inr kid" using kit_worksD(3) [OF w] by blast
  have m: "\<exists>b. dl_marshal D (VIntMap [(1, VInt alg_es256), (4, VBytes kid)]) = Some b"
    "\<exists>b. dl_marshal D (VIntMap [(1, VInt alg_es256), (4, VBytes kid), (395, VInt 1)]) = Some b"
    "\<exists>b. dl_marshal D (status_payload_value agent name fp (unix_seconds now)) = Some b"
    by (intro kit_worksD(5) [OF w]; simp add: status_payload_value_def)+
  have un: "within_limits 14 (VIntMap [])" "within_limits 14 (VIntMap [(396, VIntMap [(-1, VUint 1), (-2, VUint 0)])])"
    by simp_all
  show "\<exists>tok. mint_status_token L S D tlk agent name fp now = Inr tok"
    using k m(1,3) cose_works [OF w un(1)] by (auto simp: mint_status_token_def)
  show "\<exists>rcpt. mint_receipt L S D tlk agent name = Inr rcpt"
    using k m(2) cose_works [OF w un(2)] by (auto simp: mint_receipt_def)
qed

lemma provision_works:
  assumes w: "kit_works L S D rand clock"
  shows "\<exists>tlk b. provision L S D rand clock demo_ans_name demo_agent_id = Inr (tlk, b)"
proof -
  obtain tlk key der where g: "dl_generate D (fst rand) = Some tlk" "dl_generate D (snd rand) = Some key"
    "identity_cert L D key demo_ans_name (fst clock) (fst (snd clock)) = Inr der"
    using kit_worksD(1,2) [OF w] by blast
  obtain tok rcpt where "mint_status_token L S D tlk demo_agent_id demo_ans_name (sha_of (cl_jose L) der) (snd (snd clock)) = Inr tok"
    "mint_receipt L S D tlk demo_agent_id demo_ans_name = Inr rcpt"
    using mint_works [OF w] by blast
  with g show ?thesis by (simp add: provision_def)
qed

text \<open>A file that can be created, written and closed.\<close>

definition file_works :: "file_io \<Rightarrow> string \<Rightarrow> bool" where
  "file_works io path \<longleftrightarrow> io_open io path \<and> io_written io path = None \<and> io_close io path"

lemma write_files_work:
  "\<forall>f\<in>set files. file_works io (dl_join D dir (fst f)) \<Longrightarrow> fst (write_files io D dir files fs) = None"
  by (induction io D dir files fs rule: write_files.induct)
    (auto simp: write_file_def file_works_def Let_def split: prod.splits)

lemma save_works:
  assumes "kit_works L S D rand clock" "\<forall>f\<in>bundle_names. file_works io (dl_join D dir f)"
  shows "\<exists>fs'. save_bundle io D b dir fs = (None, fs')"
proof -
  obtain der where der: "dl_pkcs8 D (bn_agent_key b) = Some der" using kit_worksD(4) [OF assms(1)] by blast
  have "fst (save_bundle io D b dir fs) = None"
    unfolding save_bundle_def der option.case
    by (rule write_files_work) (use assms(2) in \<open>simp add: bundle_names_def\<close>)
  then show ?thesis by (metis prod.collapse)
qed

lemma trusted_hosts_work:
  assumes "trim_space host \<noteq> []"
  shows "\<exists>c. with_trusted_hosts u [host] default_middleware_config = Inr c \<and> mc_trusted c \<noteq> []
    \<and> mc_caller_opts c = [] \<and> \<not> mc_external_set c"
  using assms by (auto simp: with_trusted_hosts_def add_trusted_def default_middleware_config_def List.insert_def)

lemma server_works:
  assumes w: "kit_works L S D rand clock" and io: "\<forall>f\<in>bundle_names. file_works io (dl_join D dir f)"
    and host: "trim_space host \<noteq> []"
  shows "\<exists>m fs'. start_server L S D io unknown rand clock port True dir host fs = (Inr (m, new_replay_cache 10000), fs')"
proof -
  obtain tlk b where p: "provision L S D rand clock demo_ans_name demo_agent_id = Inr (tlk, b)"
    using provision_works [OF w] by blast
  obtain fs' where s: "save_bundle io D b dir fs = (None, fs')" using save_works [OF w io] by blast
  obtain keys where k: "demo_key_lookup L D unknown (dl_public D tlk) = Inr keys"
    using kit_worksD(3) [OF w, of "dl_public D tlk"] by (auto simp: demo_key_lookup_def)
  obtain c where c: "with_trusted_hosts (cl_unicode L) [host] default_middleware_config = Inr c" "mc_trusted c \<noteq> []"
    "mc_caller_opts c = []" "\<not> mc_external_set c"
    using trusted_hosts_work [OF host] by blast
  have "new_middleware (Some keys) (Some port) [with_trusted_hosts (cl_unicode L) [host]]
      = Inr \<lparr>mw_cfg = c, mw_keys = keys, mw_replay = port\<rparr>"
    using c by (simp add: new_middleware_Inr mw_ok_def default_options) (simp add: default_caller_config_def)
  then show ?thesis using p s k by (simp add: start_server_def)
qed

lemma caller_works:
  assumes laws: "agent_laws L S D" and n: "nameable L D name agent"
    and p: "provision L S D rand clock name agent = Inr (tlk, b)"
  shows "\<exists>c. demo_caller_of (cl_jose L) S b = Inr c"
  using provisioned_signer [OF agent_lawsD(1,2) [OF laws] n p] by (auto simp: demo_caller_of_def)

lemma sign_works:
  assumes w: "kit_works L S D rand clock" and htu: "normalize_htu J url = Inr htu"
  shows "\<exists>jws. sign J S sg False meth url iat (Some rnd) opts = Inr jws"
proof -
  obtain hb pb r t where "sl_header S \<lparr>dh_typ = ''dpop+jwt'', dh_alg = ''ES256'', dh_jwk = Some (sg_jwk sg),
      dh_x5c = [std_encode (sg_cert_der sg)]\<rparr> = Some hb"
    "sl_payload S (signed_payload meth htu iat rnd (signed_options J opts)) = Some pb"
    "sl_sign S (sg_key sg) (sha_of J (jws_signing_input (url_encode hb) (url_encode pb))) = Some (r, t)"
    using kit_worksD(7-9) [OF w] by metis
  then show ?thesis using htu by (simp add: sign_Inr sign_es256_def)
qed

lemma attach_works:
  assumes w: "kit_works L S D rand clock" and htu: "normalize_htu J (oq_url req) = Inr htu"
    and r: "oq_body req = None" "\<not> oq_gone req"
  shows "\<exists>req'. attach_identity J u S req (Some sg) scitt iat (Some rnd) = (None, req')"
proof -
  define os where "os = with_content_digest (sha_of J []) # (case access_token_from_authorization u
      (header_get (oq_header req) ''Authorization'') of Some t \<Rightarrow> [with_access_token J t] | None \<Rightarrow> [])"
  obtain jws where "sign J S sg False (oq_method req) (oq_url req) iat (Some rnd) os = Inr jws"
    using sign_works [OF w htu] by blast
  then show ?thesis using r by (simp add: attach_identity_def bind_request_content_def os_def)
qed

lemma signed_works:
  assumes w: "kit_works L S D rand clock" and bare: "bare_request J D meth raw_url = Inr bare"
    and htu: "normalize_htu J (oq_url bare) = Inr htu"
  shows "\<exists>req. signed_with_token J u S D c iat (Some rnd) meth raw_url tok = Inr req"
  using attach_works [OF w, of J "bare\<lparr>oq_header := token_header tok\<rparr>" htu] bare htu
  by (fastforce simp: signed_with_token_Inr bare_request_Inr)

lemma demo_run_lemma:
  assumes laws: "agent_laws L S D" "bundle_codec_ok D"
    and names: "\<forall>u. url_parse (jl_bracket (cl_jose L)) demo_ans_name = Some u \<longrightarrow> dl_url_text D u = demo_ans_name"
    and files: "inj_on (dl_join D dir) bundle_names" "\<And>f. f \<in> bundle_names \<Longrightarrow> io_read io (dl_join D dir f)"
    and start: "start_server L S D io unknown rand clock port listens dir host fs = (Inr (m, cache), fs')"
    and b: "provision L S D rand clock demo_ans_name demo_agent_id = Inr (tlk, b)"
      "length (bn_receipt b) \<le> 1048576" "length (bn_status_token b) \<le> 1048576" "sha_of (cl_jose L) (bn_cert_der b) \<noteq> zero_hash"
    and c: "demo_caller_of (cl_jose L) S b = Inr c" "ca_jkt c \<noteq> victim_jkt"
    and link: "bare_request (cl_jose L) D ''GET'' raw_url = Inr bare" "connected L m wire (oq_url bare)"
      "\<forall>htu. normalize_htu (cl_jose L) (oq_url bare) = Inr htu \<longrightarrow> is_ascii htu"
    and load: "\<forall>f\<in>set early. \<exists>e. load_bundle io D dir f = Inl e" "length early < load_attempts"
    and reach: "\<forall>req w. snd (reach req w) = w" and i: "visits_all iter"
    and mode: "mode \<in> {''auth'', ''replay'', ''noident'', ''oauth'', ''stolentoken''}"
    and req: "signed_with_token (cl_jose L) (cl_unicode L) S D c iat (Some rnd) ''GET'' raw_url (mode_token c mode) = Inr req"
      "length rnd = 16" "length (header_get (oq_header req) dpop_header) \<le> max_proof_size"
    and time: "within_hour clock now" "fresh_iat iat now (effective_skew default_pop_skew)" "tc' < now' + replay_grace"
  shows "fst (client_run (cl_jose L) (cl_unicode L) S D io (dial (demo_callee L m iter) wire) reach (early @ fs' # later)
    iat (Some rnd) dir raw_url mode ((now, tc) # (now', tc') # ts, cache)) = None"
proof -
  obtain tlk' b' where s: "provision L S D rand clock demo_ans_name demo_agent_id = Inr (tlk', b')"
    "save_bundle io D b' dir fs = (None, fs')" "demo_key_lookup L D unknown (dl_public D tlk') = Inr (mw_keys m)"
    "mw_ok m" "mc_caller_opts (mw_cfg m) = []" "cache = new_replay_cache 10000"
    using start_server_Inr [OF start] by blast
  have eq: "tlk' = tlk" "b' = b" using s(1) b(1) by simp_all
  have load': "load_bundle io D dir fs' = Inr b"
    by (rule save_then_load(1) [OF laws(2) files(1) s(2) [unfolded eq] files(2)])
  obtain k where k: "load_attempts - length early = Suc k" using load(2) by (cases "load_attempts - length early") auto
  have loaded: "load_with_retry io D dir (take load_attempts (early @ fs' # later)) None = Inr b"
    using load_with_retry_later [OF load(1) load'] load(2) k by simp
  have "provisioned L S D demo_ans_name demo_agent_id clock b (mw_keys m)"
    using b s(3) demo_names [OF names] unfolding provisioned_def eq by blast
  then have ready: "call_ready L S D demo_ans_name demo_agent_id clock c m wire raw_url"
    unfolding call_ready_def using laws(1) c(1) s(4,5) link by blast
  show ?thesis
    using mode_outcome [OF ready i mode req time c(2), of tc ts 10000] loaded c(1)
    by (simp add: client_run_def wait_for_server_def probe_server_keeps [OF reach] s(6))
qed

text \<open>Both programs, with libraries that do not fail and files that can be written.\<close>

lemma demo_succeeds_lemma:
  assumes laws: "agent_laws L S D" "bundle_codec_ok D" "kit_works L S D rand clock"
    and names: "\<forall>u. url_parse (jl_bracket (cl_jose L)) demo_ans_name = Some u \<longrightarrow> dl_url_text D u = demo_ans_name"
    and files: "inj_on (dl_join D dir) bundle_names"
      "\<forall>f\<in>bundle_names. file_works io (dl_join D dir f) \<and> io_read io (dl_join D dir f)"
    and host: "trim_space host \<noteq> []"
    and url: "bare_request (cl_jose L) D ''GET'' raw_url = Inr bare"
      "normalize_htu (cl_jose L) (oq_url bare) = Inr htu" "is_ascii htu"
    and load: "\<forall>f\<in>set early. \<exists>e. load_bundle io D dir f = Inl e" "length early < load_attempts"
    and reach: "\<forall>req w. snd (reach req w) = w" and i: "visits_all iter"
    and mode: "mode \<in> {''auth'', ''replay'', ''noident'', ''oauth'', ''stolentoken''}"
    and time: "length rnd = 16" "within_hour clock now" "fresh_iat iat now (effective_skew default_pop_skew)" "tc' < now' + replay_grace"
  shows "\<exists>m fs' tlk b c req.
      start_server L S D io unknown rand clock port True dir host fs = (Inr (m, new_replay_cache 10000), fs')
    \<and> provision L S D rand clock demo_ans_name demo_agent_id = Inr (tlk, b)
    \<and> demo_caller_of (cl_jose L) S b = Inr c
    \<and> signed_with_token (cl_jose L) (cl_unicode L) S D c iat (Some rnd) ''GET'' raw_url (mode_token c mode) = Inr req
    \<and> (length (bn_receipt b) \<le> 1048576 \<longrightarrow> length (bn_status_token b) \<le> 1048576
        \<longrightarrow> length (header_get (oq_header req) dpop_header) \<le> max_proof_size
        \<longrightarrow> sha_of (cl_jose L) (bn_cert_der b) \<noteq> zero_hash \<longrightarrow> ca_jkt c \<noteq> victim_jkt
        \<longrightarrow> connected L m wire (oq_url bare)
        \<longrightarrow> fst (client_run (cl_jose L) (cl_unicode L) S D io (dial (demo_callee L m iter) wire) reach (early @ fs' # later)
              iat (Some rnd) dir raw_url mode ((now, tc) # (now', tc') # ts, new_replay_cache 10000)) = None)"
proof -
  have w: "\<forall>f\<in>bundle_names. file_works io (dl_join D dir f)" and r: "\<And>f. f \<in> bundle_names \<Longrightarrow> io_read io (dl_join D dir f)"
    using files(2) by simp_all
  obtain m fs' where start: "start_server L S D io unknown rand clock port True dir host fs = (Inr (m, new_replay_cache 10000), fs')"
    using server_works [OF laws(3) w host] by blast
  obtain tlk b where p: "provision L S D rand clock demo_ans_name demo_agent_id = Inr (tlk, b)"
    using provision_works [OF laws(3)] by blast
  obtain c where c: "demo_caller_of (cl_jose L) S b = Inr c" using caller_works [OF laws(1) demo_names [OF names] p] by blast
  obtain req where req: "signed_with_token (cl_jose L) (cl_unicode L) S D c iat (Some rnd) ''GET'' raw_url (mode_token c mode) = Inr req"
    using signed_works [OF laws(3) url(1,2)] by blast
  have a: "\<forall>h. normalize_htu (cl_jose L) (oq_url bare) = Inr h \<longrightarrow> is_ascii h" using url(2,3) by simp
  show ?thesis
    using start p c req demo_run_lemma [OF laws(1,2) names files(1) r start p _ _ _ c _ url(1) _ a load reach i mode req time(1) _ time(2-4)]
    by blast
qed

section \<open>Whose tokens are honoured\<close>

text \<open>
  An answer with status 200 to a request with an access token: the proof of the request hashes that token, and the
  token names the key the proof is signed with.
\<close>

lemma token_holder_lemma:
  assumes r: "route_of r = Route_App" "callee_serve L m r now s = (a, s')" "an_status a = 200"
    and tok: "presented_token L r = Some tok"
    and cfg: "cfg = resolve_caller_options (mc_caller_opts (mw_cfg m))" "cc_verify_opts cfg = []"
  shows "\<exists>pr q at. proof_accepted (cl_jose L) (header_get (rq_header r) dpop_header) (rq_method r) (mc_external (mw_cfg m) r) now
      (effective_skew (cc_pop_skew cfg)) (caller_opts (request_config L (mw_cfg m) r)) pr q
    \<and> dp_ath (pp_payload q) = access_token_hash (cl_jose L) tok
    \<and> parse_unsigned_demo_token tok = Inr at \<and> dt_jkt at = jwk_thumbprint (cl_jose L) (pr_key pr)"
proof -
  obtain x where x: "serve L m (callee_app (cl_unicode L)) r now s = (Inr x, s')" "an_status x = 200"
    using r by (auto simp: callee_serve_def through_middleware_def rejection_answer_def write_unauthorized_def error_answer_def
        Let_def split: prod.splits sum.splits rejection.splits)
  show ?thesis
  proof (rule serve_evidence [OF x(1) cfg])
    fix hdrs and pr and q and vt :: verified_token
    assume acc: "proof_accepted (cl_jose L) (header_get (rq_header r) dpop_header) (rq_method r) (mc_external (mw_cfg m) r) now
        (effective_skew (cc_pop_skew cfg)) (caller_opts (request_config L (mw_cfg m) r)) pr q"
      and ath: "dp_ath (pp_payload q) = (case presented_token L r of Some tok \<Rightarrow> access_token_hash (cl_jose L) tok | None \<Rightarrow> [])"
      and app: "x = callee_app (cl_unicode L) (r\<lparr>rq_body := \<lparr>hb_bytes = hb_bytes (rq_body r), hb_broken = False\<rparr>,
        rq_caller := Some \<lparr>id_ans_name = sp_ans_name (vt_payload vt), id_agent_id = sp_agent_id (vt_payload vt),
          id_fingerprint = sha_of (cl_jose L) (x_raw (pr_cert pr)), id_jkt = jwk_thumbprint (cl_jose L) (pr_key pr)\<rparr>\<rparr>)"
    have "access_token_from_authorization (cl_unicode L) (header_get (rq_header r) ''Authorization'') = Some tok"
      using tok by (simp add: presented_token_def)
    then obtain at where "parse_unsigned_demo_token tok = Inr at" "dt_jkt at = jwk_thumbprint (cl_jose L) (pr_key pr)"
      using x(2) unfolding app
      by (auto simp: callee_app_def caller_from_context_def authorize_def error_answer_def split: sum.splits if_splits)
    then show ?thesis using acc ath tok by auto
  qed
qed

text \<open>The health check is the one other answer with status 200: it is the same for every request and reads no token.\<close>

lemma token_answer_lemma:
  assumes r: "callee_serve L m r now s = (a, s')" "an_status a = 200"
    and tok: "presented_token L r = Some tok"
    and cfg: "cfg = resolve_caller_options (mc_caller_opts (mw_cfg m))" "cc_verify_opts cfg = []"
  shows "route_of r = Route_Health \<and> a = mux_answer 200 \<and> s' = s
    \<or> route_of r = Route_App
      \<and> (\<exists>pr q at. proof_accepted (cl_jose L) (header_get (rq_header r) dpop_header) (rq_method r) (mc_external (mw_cfg m) r) now
            (effective_skew (cc_pop_skew cfg)) (caller_opts (request_config L (mw_cfg m) r)) pr q
          \<and> dp_ath (pp_payload q) = access_token_hash (cl_jose L) tok
          \<and> parse_unsigned_demo_token tok = Inr at \<and> dt_jkt at = jwk_thumbprint (cl_jose L) (pr_key pr))"
proof (cases "route_of r")
  case Route_App
  then show ?thesis using token_holder_lemma [OF Route_App r tok cfg] by blast
qed (use r in \<open>auto simp: callee_serve_def mux_answer_def\<close>)

end
