(* ===== verification/Demo_Scenarios.thy ===== *)
theory Demo_Scenarios
  imports Demo_Outcomes
begin

text \<open>
  The single-process agent-to-agent example, \<open>examples/a2a-no-mtls/main.go\<close>: five outcomes against a callee of its
  own - an accepted call and four attacks that are rejected. What it prints is left out.
\<close>

section \<open>The program\<close>

record ('s, 'k) demo_agent =
  da_keys :: "'k key_lookup"
  da_signer :: "'s signer"
  da_scitt :: "(string \<times> string list) list"

definition provision_agent ::
  "'k caller_lib \<Rightarrow> ('s, 'k) sign_lib \<Rightarrow> ('s, 'k) demo_lib \<Rightarrow> (kid \<Rightarrow> scitt_error) \<Rightarrow> bytes \<times> bytes \<Rightarrow> int \<times> int \<times> int
     \<Rightarrow> demo_client_error + ('s, 'k) demo_agent" where
  "provision_agent L S D unknown rand clock =
     (case provision L S D rand clock demo_ans_name demo_agent_id of
        Inl e \<Rightarrow> Inl (Client_Bundle (Some e))
      | Inr (tl_key, b) \<Rightarrow>
     case demo_key_lookup L D unknown (dl_public D tl_key) of
        Inl e \<Rightarrow> Inl (Client_Bundle (Some e))
      | Inr keys \<Rightarrow>
     case new_signer (cl_jose L) S (Some (bn_agent_key b)) (bn_cert_der b) of
        Inl e \<Rightarrow> Inl (Client_Signer e)
      | Inr sg \<Rightarrow>
          Inr \<lparr>da_keys = keys, da_signer = sg, da_scitt = header_entries (bn_receipt b) (bn_status_token b)\<rparr>)"

definition in_process_app :: "http_request \<Rightarrow> http_answer" where
  "in_process_app r =
     (case caller_from_context r of
        None \<Rightarrow> error_answer 500 ''no caller in context''
      | Some ident \<Rightarrow>
          \<lparr>an_status = 200, an_header = [plain_text], an_body = ''authenticated caller: '' @ id_ans_name ident\<rparr>)"

definition start_callee ::
  "unicode \<Rightarrow> 'k key_lookup \<Rightarrow> 's replay_port \<Rightarrow> string \<Rightarrow> middleware_option list \<Rightarrow> mw_panic + ('k, 's) middleware" where
  "start_callee u keys port authority opts =
     new_middleware (Some keys) (Some port) (with_trusted_hosts u [authority] # opts)"

definition signed_get_headers ::
  "'k jose_lib \<Rightarrow> unicode \<Rightarrow> ('s, 'k) sign_lib \<Rightarrow> ('s, 'k) demo_lib \<Rightarrow> ('s, 'k) demo_agent \<Rightarrow> int64 \<times> bytes option \<Rightarrow> string
     \<Rightarrow> demo_client_error + http_header" where
  "signed_get_headers J u S D a draw raw_url =
     rbind (bare_request J D ''GET'' raw_url) (\<lambda>req.
       (case attach_identity J u S req (Some (da_signer a)) (da_scitt a) (fst draw) (snd draw) of
          (Some e, _) \<Rightarrow> Inl (Client_Attach e)
        | (None, req') \<Rightarrow> Inr (oq_header req')))"

definition expect_with_host ::
  "'k jose_lib \<Rightarrow> ('s, 'k) demo_lib \<Rightarrow> 'w http_do \<Rightarrow> string \<Rightarrow> string \<Rightarrow> string \<Rightarrow> http_header \<Rightarrow> nat \<Rightarrow> 'w
     \<Rightarrow> demo_client_error option \<times> 'w" where
  "expect_with_host J D do method raw_url host headers want w =
     (case bare_request J D method raw_url of
        Inl e \<Rightarrow> (Some e, w)
      | Inr req \<Rightarrow>
     case do host (req\<lparr>oq_header := headers\<rparr>) w of
        (None, w') \<Rightarrow> (Some Client_Transport, w')
      | (Some (status, body), w') \<Rightarrow> (if status \<noteq> want then Some (Client_Unexpected [status]) else None, w'))"

definition expect ::
  "'k jose_lib \<Rightarrow> ('s, 'k) demo_lib \<Rightarrow> 'w http_do \<Rightarrow> string \<Rightarrow> string \<Rightarrow> http_header \<Rightarrow> nat \<Rightarrow> 'w \<Rightarrow> demo_client_error option \<times> 'w" where
  "expect J D do method raw_url headers want w = expect_with_host J D do method raw_url [] headers want w"

text \<open>A step that runs only when there was no error before it.\<close>

definition and_then :: "demo_client_error option \<times> 'w \<Rightarrow> ('w \<Rightarrow> demo_client_error option \<times> 'w) \<Rightarrow> demo_client_error option \<times> 'w" where
  "and_then r f = (case r of (Some e, w) \<Rightarrow> (Some e, w) | (None, w) \<Rightarrow> f w)"

definition with_signed_headers ::
  "demo_client_error + http_header \<Rightarrow> (http_header \<Rightarrow> 'w \<Rightarrow> demo_client_error option \<times> 'w) \<Rightarrow> 'w \<Rightarrow> demo_client_error option \<times> 'w" where
  "with_signed_headers m f w = (case m of Inl e \<Rightarrow> (Some e, w) | Inr h \<Rightarrow> f h w)"

definition auth_and_replay ::
  "'k jose_lib \<Rightarrow> unicode \<Rightarrow> ('s, 'k) sign_lib \<Rightarrow> ('s, 'k) demo_lib \<Rightarrow> ('s, 'k) demo_agent \<Rightarrow> int64 \<times> bytes option \<Rightarrow> 'w http_do
     \<Rightarrow> string \<Rightarrow> 'w \<Rightarrow> demo_client_error option \<times> 'w" where
  "auth_and_replay J u S D a draw do srv_url =
     (let target = srv_url @ ''/v1/do'' in
      with_signed_headers (signed_get_headers J u S D a draw target) (\<lambda>headers w.
        and_then (expect J D do ''GET'' target headers 200 w) (expect J D do ''GET'' target headers 401)))"

definition method_tamper ::
  "'k jose_lib \<Rightarrow> unicode \<Rightarrow> ('s, 'k) sign_lib \<Rightarrow> ('s, 'k) demo_lib \<Rightarrow> ('s, 'k) demo_agent \<Rightarrow> int64 \<times> bytes option \<Rightarrow> 'w http_do
     \<Rightarrow> string \<Rightarrow> 'w \<Rightarrow> demo_client_error option \<times> 'w" where
  "method_tamper J u S D a draw do srv_url =
     (let target = srv_url @ ''/v1/do'' in
      with_signed_headers (signed_get_headers J u S D a draw target) (\<lambda>headers. expect J D do ''POST'' target headers 401))"

definition other_ans_name :: string where
  "other_ans_name = ''ans://v1.0.0.other.example''"

definition wrong_peer_options :: "unicode \<Rightarrow> middleware_option list" where
  "wrong_peer_options u = [with_middleware_caller_options [with_expected_ans_name u other_ans_name]]"

text \<open>The callee of this scenario is a second one, started with \<open>wrong_peer_options\<close>.\<close>

definition wrong_peer ::
  "'k jose_lib \<Rightarrow> unicode \<Rightarrow> ('s, 'k) sign_lib \<Rightarrow> ('s, 'k) demo_lib \<Rightarrow> ('s, 'k) demo_agent \<Rightarrow> int64 \<times> bytes option \<Rightarrow> 'w http_do
     \<Rightarrow> string \<Rightarrow> 'w \<Rightarrow> demo_client_error option \<times> 'w" where
  "wrong_peer J u S D a draw do srv_url =
     (let target = srv_url @ ''/v1/do'' in
      with_signed_headers (signed_get_headers J u S D a draw target) (\<lambda>headers. expect J D do ''GET'' target headers 401))"

definition victim_host :: string where
  "victim_host = ''victim.example''"

definition spoofed_authority ::
  "'k jose_lib \<Rightarrow> unicode \<Rightarrow> ('s, 'k) sign_lib \<Rightarrow> ('s, 'k) demo_lib \<Rightarrow> ('s, 'k) demo_agent \<Rightarrow> int64 \<times> bytes option \<Rightarrow> 'w http_do
     \<Rightarrow> string \<Rightarrow> 'w \<Rightarrow> demo_client_error option \<times> 'w" where
  "spoofed_authority J u S D a draw do srv_url =
     with_signed_headers (signed_get_headers J u S D a draw (''https://'' @ victim_host @ ''/v1/do'')) (\<lambda>headers.
       expect_with_host J D do ''GET'' (srv_url @ ''/v1/do'') victim_host headers 401)"

text \<open>
  The scenarios in order; \<open>draw i\<close> is what the clock and the random source give to the \<open>i\<close>-th proof, \<open>do2\<close> the
  exchange with the second callee.
\<close>

definition run_scenarios ::
  "'k jose_lib \<Rightarrow> unicode \<Rightarrow> ('s, 'k) sign_lib \<Rightarrow> ('s, 'k) demo_lib \<Rightarrow> ('s, 'k) demo_agent \<Rightarrow> (nat \<Rightarrow> int64 \<times> bytes option)
     \<Rightarrow> 'w http_do \<Rightarrow> string \<Rightarrow> 'w http_do \<Rightarrow> string \<Rightarrow> 'w \<Rightarrow> demo_client_error option \<times> 'w" where
  "run_scenarios J u S D a draw do srv_url do2 srv_url2 w =
     and_then (and_then (and_then (auth_and_replay J u S D a (draw 0) do srv_url w)
       (method_tamper J u S D a (draw 1) do srv_url))
       (wrong_peer J u S D a (draw 2) do2 srv_url2))
       (spoofed_authority J u S D a (draw 3) do srv_url)"

section \<open>Rejections\<close>

definition in_process_callee ::
  "'k caller_lib \<Rightarrow> ('k, 's) middleware \<Rightarrow> (int list \<Rightarrow> int list) \<Rightarrow> int \<times> int \<Rightarrow> http_request \<Rightarrow> replay_cache \<Rightarrow> http_answer \<times> replay_cache" where
  "in_process_callee L m iter t r s = through_middleware L (callee_at m iter (snd t)) in_process_app r (fst t) s"

text \<open>
  What a connection preserves of any request without a body: its method, and the values of the headers the callee
  reads, whatever headers the transport adds; a spoofed host arrives as such.
\<close>

definition carries :: "(string \<Rightarrow> out_request \<Rightarrow> http_request) \<Rightarrow> bool" where
  "carries wire \<longleftrightarrow>
     (\<forall>host req. oq_body req = None \<longrightarrow> sendable (oq_header req) \<longrightarrow>
        rq_method (wire host req) = oq_method req \<and> same_evidence (rq_header (wire host req)) (oq_header req)
        \<and> rq_body (wire host req) = \<lparr>hb_bytes = [], hb_broken = False\<rparr> \<and> (host \<noteq> [] \<longrightarrow> rq_host (wire host req) = host))"

lemma refused_answer:
  assumes "fst (authenticate L (callee_at m iter (snd t)) r (fst t) s) = Inl e"
    and "rq_body r = \<lparr>hb_bytes = [], hb_broken = False\<rparr>" "0 \<le> mc_max_content (mw_cfg m)"
  shows "an_status (fst (in_process_callee L m iter t r s)) = 401"
proof -
  have "e = Unauthorized" using assms by (intro authenticate_unauthorized [OF assms(1)]) simp_all
  then obtain s' where "authenticate L (callee_at m iter (snd t)) r (fst t) s = (Inl Unauthorized, s')"
    using assms(1) by (metis prod.collapse)
  then show ?thesis
    by (simp add: in_process_callee_def through_middleware_def serve_def rejection_answer_def write_unauthorized_def
        error_answer_def Let_def)
qed

lemma accepted_or_refused:
  assumes "rq_body r = \<lparr>hb_bytes = [], hb_broken = False\<rparr>" "0 \<le> mc_max_content (mw_cfg m)"
    and "\<And>ident content s'. authenticate L (callee_at m iter (snd t)) r (fst t) s \<noteq> (Inr (ident, content), s')"
  shows "an_status (fst (in_process_callee L m iter t r s)) = 401"
proof -
  obtain e where "fst (authenticate L (callee_at m iter (snd t)) r (fst t) s) = Inl e"
    using assms(3) by (metis old.sum.exhaust prod.collapse)
  then show ?thesis using refused_answer assms(1,2) by blast
qed

text \<open>A proof is for one method: presented with another one it is rejected.\<close>

text \<open>What the headers of a signed GET are: those of the request \<open>AttachIdentity\<close> made.\<close>

definition caller_of_agent :: "('s, 'k) demo_agent \<Rightarrow> string \<Rightarrow> 's demo_caller" where
  "caller_of_agent a jkt = \<lparr>ca_signer = da_signer a, ca_scitt = da_scitt a, ca_jkt = jkt\<rparr>"

lemma signed_get_headers_Inr:
  assumes "signed_get_headers J u S D a draw raw = Inr h"
  shows "\<exists>req bare. bare_request J D ''GET'' raw = Inr bare \<and> req = bare\<lparr>oq_header := h\<rparr>
    \<and> attach_identity J u S bare (Some (da_signer a)) (da_scitt a) (fst draw) (snd draw) = (None, req)
    \<and> signed_with_token J u S D (caller_of_agent a jkt) (fst draw) (snd draw) ''GET'' raw [] = Inr req"
proof -
  obtain bare req where b: "bare_request J D ''GET'' raw = Inr bare"
    and r: "attach_identity J u S bare (Some (da_signer a)) (da_scitt a) (fst draw) (snd draw) = (None, req)" "h = oq_header req"
    using assms by (cases "bare_request J D ''GET'' raw")
      (auto simp: signed_get_headers_def split: prod.splits option.splits)
  have n: "oq_body bare = None" "oq_header bare = Map.empty" using b by (auto simp: bare_request_Inr)
  have "req = bare\<lparr>oq_header := oq_header req\<rparr>"
    using r(1) n(1) by (auto simp: attach_identity_def Let_def bind_request_content_def split: prod.splits sum.splits option.splits)
  moreover have "bare\<lparr>oq_header := token_header []\<rparr> = bare" using n(2) by (simp add: token_header_def)
  ultimately show ?thesis
    using b r by (intro exI [of _ req] exI [of _ bare]) (simp add: signed_with_token_Inr caller_of_agent_def)
qed

text \<open>A proof is for one method: presented with another one it is rejected.\<close>

lemma proof_method:
  assumes laws: "agent_laws L S D" and sg: "signer_ok (cl_jose L) S cert pub sg"
    and a: "attach_identity (cl_jose L) u S req (Some sg) (scitt_pairs receipt token) iat rand = (None, req')"
    and ascii: "is_ascii (oq_method req)" "\<And>htu. normalize_htu (cl_jose L) (oq_url req) = Inr htu \<Longrightarrow> is_ascii htu"
    and out: "undecorated (oq_header req)"
    and auth: "authenticate L m r now s = (Inr (ident, content), s')" "same_evidence (rq_header r) (oq_header req')"
  shows "rq_method r = oq_method req"
proof -
  obtain jws opts where j: "sign (cl_jose L) S sg (oq_gone req) (oq_method req) (oq_url req) iat rand opts = Inr jws"
    "signed_options (cl_jose L) opts = outbound_options (cl_jose L) u req"
    "oq_header req' = add_headers (scitt_pairs receipt token) (header_set (oq_header req) dpop_header jws)"
    using attach_identity_None [OF a] by auto
  have "is_ascii (po_ath (signed_options (cl_jose L) opts))"
    using outbound_ath(1) [OF agent_lawsD(7) [OF laws]] j(2) by simp
  then obtain q htu b where q: "parts_of (cl_jose L) jws q"
    "pp_payload q = signed_payload (oq_method req) htu iat b (signed_options (cl_jose L) opts)"
    using sign_parts [OF agent_lawsD(3,6) [OF laws] sg j(1) ascii] by blast
  have jws: "header_get (rq_header r) dpop_header = jws"
    using decorated_values(1) [OF out, of receipt token jws] j(3) same_evidence_get(1) [OF auth(2)] by (simp add: header_get_values)
  obtain hdrs pr st rcpt where "caller_evidence L (request_config L (mw_cfg m) r) (header_get (rq_header r) dpop_header) hdrs
      (rq_method r) (mc_external (mw_cfg m) r) (mw_keys m) now pr st rcpt"
    using authenticate_evidence [OF auth(1)] by blast
  then obtain q' where "parts_of (cl_jose L) jws q'" "dp_htm (pp_payload q') = rq_method r"
    unfolding caller_evidence_def verify_proof_unrecorded_Inr proof_accepted_def jws by blast
  then show ?thesis using parts_of_unique [OF q(1)] q(2) by (auto simp: signed_payload_def)
qed

text \<open>A middleware that expects another name rejects the agent, whatever its evidence.\<close>

lemma canonical_other:
  assumes "parse_ans_name u demo_ans_name = Inr a" "parse_ans_name u other_ans_name = Inr b"
  shows "canonical_ans_name a \<noteq> canonical_ans_name b"
proof -
  have d: "demo_ans_name = ans_uri (Version 1 0 0) ''payments.acme.example''" "other_ans_name = ans_uri (Version 1 0 0) ''other.example''"
    by code_simp+
  have l: "to_lower u ''payments.acme.example'' = ''payments.acme.example''" "to_lower u ''other.example'' = ''other.example''"
    by (simp_all add: to_lower_def is_ascii_def byte_val_def ascii_lower_def is_upper_def)
  have "an_host a = ''payments.acme.example''" "an_host b = ''other.example''"
    using assms unfolding d parse_ans_uri l by auto
  then show ?thesis by (auto simp: canonical_inject)
qed

lemma start_callee_Inr:
  assumes "start_callee u keys port authority opts = Inr m"
  shows "mw_keys m = keys \<and> mw_ok m
    \<and> apply_middleware_options (with_trusted_hosts u [authority] # opts) default_middleware_config = Inr (mw_cfg m)"
  using assms by (auto simp: start_callee_def new_middleware_Inr)

lemma trusted_hosts_fields:
  "with_trusted_hosts u hosts c = Inr c' \<Longrightarrow>
     mc_caller_opts c' = mc_caller_opts c \<and> mc_external_set c' = mc_external_set c \<and> mc_max_content c' = mc_max_content c"
  by (auto simp: with_trusted_hosts_def Let_def split: if_splits)

lemma start_callee_config:
  "start_callee u keys port authority [] = Inr m \<Longrightarrow>
     mc_caller_opts (mw_cfg m) = [] \<and> \<not> mc_external_set (mw_cfg m) \<and> 0 \<le> mc_max_content (mw_cfg m)"
  "start_callee u keys port authority (wrong_peer_options u) = Inr m \<Longrightarrow>
     mc_caller_opts (mw_cfg m) = [with_expected_ans_name u other_ans_name] \<and> 0 \<le> mc_max_content (mw_cfg m)"
proof -
  assume "start_callee u keys port authority [] = Inr m"
  then have "with_trusted_hosts u [authority] default_middleware_config = Inr (mw_cfg m)"
    by (auto dest!: start_callee_Inr)
  from trusted_hosts_fields [OF this]
  show "mc_caller_opts (mw_cfg m) = [] \<and> \<not> mc_external_set (mw_cfg m) \<and> 0 \<le> mc_max_content (mw_cfg m)"
    by (simp add: default_middleware_config_def default_max_content_bytes_def)
next
  assume "start_callee u keys port authority (wrong_peer_options u) = Inr m"
  then obtain c where "with_trusted_hosts u [authority] default_middleware_config = Inr c"
    "mw_cfg m = c\<lparr>mc_caller_opts := mc_caller_opts c @ [with_expected_ans_name u other_ans_name]\<rparr>"
    by (auto dest!: start_callee_Inr simp: wrong_peer_options_def with_middleware_caller_options_def)
  then show "mc_caller_opts (mw_cfg m) = [with_expected_ans_name u other_ans_name] \<and> 0 \<le> mc_max_content (mw_cfg m)"
    using trusted_hosts_fields [of u "[authority]" default_middleware_config c]
    by (simp add: default_middleware_config_def default_max_content_bytes_def)
qed

text \<open>What a provisioned agent of the program is, told as the caller of \<open>Demo_Agents\<close>.\<close>

lemma provision_agent_Inr:
  assumes "provision_agent L S D unknown rand clock = Inr a"
    and "provision L S D rand clock demo_ans_name demo_agent_id = Inr (tlk, b)"
  shows "demo_key_lookup L D unknown (dl_public D tlk) = Inr (da_keys a)
    \<and> (\<exists>jkt. demo_caller_of (cl_jose L) S b = Inr (caller_of_agent a jkt))"
  using assms by (auto simp: provision_agent_def demo_caller_of_def caller_of_agent_def split: sum.splits)

lemma extract_signed:
  assumes laws: "agent_laws L S D" and p: "provisioned L S D name agent clock b keys"
    and c: "demo_caller_of (cl_jose L) S b = Inr (caller_of_agent a jkt)"
    and h: "signed_get_headers (cl_jose L) u S D a draw raw = Inr h"
  shows "extract_headers h = Inr \<lparr>sh_receipt = bn_receipt b, sh_status_token = bn_status_token b\<rparr>"
proof -
  have sc: "da_scitt a = scitt_pairs (bn_receipt b) (bn_status_token b)" "bn_receipt b \<noteq> []" "bn_status_token b \<noteq> []"
    using provisioned_caller [OF laws p c] by (auto simp: caller_of_agent_def)
  have size: "length (bn_receipt b) \<le> 1048576" "length (bn_status_token b) \<le> 1048576"
    using p by (simp_all add: provisioned_def)
  obtain req bare where b: "bare_request (cl_jose L) D ''GET'' raw = Inr bare" "req = bare\<lparr>oq_header := h\<rparr>"
    "attach_identity (cl_jose L) u S bare (Some (da_signer a)) (da_scitt a) (fst draw) (snd draw) = (None, req)"
    using signed_get_headers_Inr [OF h] by blast
  obtain jws where "h = add_headers (scitt_pairs (bn_receipt b) (bn_status_token b)) (header_set (oq_header bare) dpop_header jws)"
    using attach_identity_None [OF b(3)] b(2) sc(1) by auto
  moreover have "undecorated (oq_header bare)"
    using b(1) token_header_values(1) [of "[]"] by (auto simp: bare_request_Inr token_header_def)
  ultimately show ?thesis using extract_decorated sc(2,3) size by simp
qed

text \<open>The headers of a signed GET can be sent.\<close>

lemma sendable_get:
  assumes laws: "agent_laws L S D" and p: "provisioned L S D name agent clock b keys"
    and c: "demo_caller_of (cl_jose L) S b = Inr (caller_of_agent a jkt)"
    and h: "signed_get_headers (cl_jose L) u S D a draw raw = Inr h"
  shows "sendable h"
proof -
  have sc: "ca_scitt (caller_of_agent a jkt) = scitt_pairs (bn_receipt b) (bn_status_token b)"
    "bn_receipt b \<noteq> []" "bn_status_token b \<noteq> []"
    using provisioned_caller [OF laws p c] by auto
  obtain req where "signed_with_token (cl_jose L) u S D (caller_of_agent a jkt) (fst draw) (snd draw) ''GET'' raw [] = Inr req"
    "oq_header req = h"
    using signed_get_headers_Inr [OF h, of jkt] by force
  then show ?thesis using sendable_signed [OF _ disjI1 [OF refl] sc] by blast
qed

lemma wrong_peer_rejected:
  assumes laws: "agent_laws L S D" and p: "provisioned L S D demo_ans_name agent clock b (mw_keys m)"
    and c: "demo_caller_of (cl_jose L) S b = Inr (caller_of_agent a jkt)"
    and h: "signed_get_headers (cl_jose L) u S D a draw raw = Inr h" "same_evidence (rq_header r) h"
    and opts: "mc_caller_opts (mw_cfg m) = [with_expected_ans_name (cl_unicode L) other_ans_name]"
    and time: "within_hour clock now"
  shows "authenticate L m r now s \<noteq> (Inr (ident, content), s')"
proof
  assume auth: "authenticate L m r now s = (Inr (ident, content), s')"
  let ?cfg = "request_config L (mw_cfg m) r"
  obtain hdrs pr st rcpt where e: "extract_headers (rq_header r) = Inr hdrs"
    "caller_evidence L ?cfg (header_get (rq_header r) dpop_header) hdrs (rq_method r) (mc_external (mw_cfg m) r)
       (mw_keys m) now pr st rcpt"
    using authenticate_evidence [OF auth] by blast
  have hd: "hdrs = \<lparr>sh_receipt = bn_receipt b, sh_status_token = bn_status_token b\<rparr>"
    using e(1) extract_signed [OF laws p c h(1)] same_evidence_get(3) [OF h(2)] by simp
  obtain rand tlk unknown where pr: "provision L S D rand clock demo_ans_name agent = Inr (tlk, b)"
    "demo_key_lookup L D unknown (dl_public D tlk) = Inr (mw_keys m)" "nameable L D demo_ans_name agent"
    and size: "length (bn_status_token b) \<le> 1048576" and fp: "sha_of (cl_jose L) (bn_cert_der b) \<noteq> zero_hash"
    using p unfolding provisioned_def by blast
  obtain cert where k: "sl_public S tlk = PK_P256 (dl_public D tlk)"
    "mint_status_token L S D tlk agent demo_ans_name (sha_of (cl_jose L) (bn_cert_der b)) (snd (snd clock)) = Inr (bn_status_token b)"
    using provisioned_bundle [OF agent_lawsD(1,2) [OF laws] pr(3,1)] by blast
  have n: "agent \<noteq> []" "utf8_valid agent" "demo_ans_name \<noteq> []" "utf8_valid demo_ans_name"
    using pr(3) by (simp_all add: nameable_def)
  obtain kid where tok: "verify_status_token_at (cl_unicode L) (cl_cbor L) (cl_crypto L) (mw_keys m) (bn_status_token b)
      (cc_status_skew ?cfg) (unix_seconds now)
      = Inr \<lparr>vt_payload = minted_status agent demo_ans_name (sha_of (cl_jose L) (bn_cert_der b)) (unix_seconds (snd (snd clock))),
             vt_key_id = kid\<rparr>"
    using minted_token_verifies [OF agent_lawsD(1) [OF laws] k(1) pr(2) k(2) size kit_lawsD(5) [OF agent_lawsD(1) [OF laws]]
        fp n within_hour_alive(1) [OF time] within_hour_alive(2) [OF time]] by blast
  have "sp_ans_name st = demo_ans_name"
    using e(2) tok unfolding caller_evidence_def hd by (auto simp: minted_status_def)
  then have pin: "pin_allows L ?cfg demo_ans_name" using e(2) by (simp add: caller_evidence_def)
  have other: "other_ans_name = ans_uri (Version 1 0 0) ''other.example''" by code_simp
  obtain bn where bn: "parse_ans_name (cl_unicode L) other_ans_name = Inr bn"
    unfolding other parse_ans_uri by blast
  have "cc_allowed ?cfg = [canonical_ans_name bn]"
    by (simp add: request_config_fields opts resolve_caller_options_def with_expected_ans_name_def add_allowed_def bn
        default_caller_config_def)
  then obtain an where "parse_ans_name (cl_unicode L) demo_ans_name = Inr an" "canonical_ans_name an = canonical_ans_name bn"
    using pin by (auto simp: pin_allows_def)
  then show False using canonical_other bn by blast
qed

text \<open>A request for another authority than the callee's own is rejected, whatever its evidence.\<close>

lemma other_scheme: "trusted_authority_key u ''http'' a \<noteq> trusted_authority_key u ''https'' b"
  by (simp add: trusted_authority_key_def Let_def)

lemma start_callee_trusts:
  assumes "start_callee u keys port authority [] = Inr m"
  shows "mc_trusted (mw_cfg m) \<noteq> []"
    "set (mc_trusted (mw_cfg m)) \<subseteq> {trusted_authority_key u ''http'' authority, trusted_authority_key u ''https'' authority}"
proof -
  have "with_trusted_hosts u [authority] default_middleware_config = Inr (mw_cfg m)"
    using assms by (auto dest!: start_callee_Inr)
  then show "set (mc_trusted (mw_cfg m)) \<subseteq> {trusted_authority_key u ''http'' authority, trusted_authority_key u ''https'' authority}"
    "mc_trusted (mw_cfg m) \<noteq> []"
    by (auto simp: with_trusted_hosts_def Let_def default_middleware_config_def add_trusted_def split: if_splits
        dest!: arg_cong [where f = mc_trusted] sym [of _ "mw_cfg m"])
qed

definition elsewhere :: "unicode \<Rightarrow> string \<Rightarrow> bool" where
  "elsewhere u authority \<longleftrightarrow>
     trusted_authority_key u ''http'' victim_host \<noteq> trusted_authority_key u ''http'' authority
     \<and> trusted_authority_key u ''https'' victim_host \<noteq> trusted_authority_key u ''https'' authority"

lemma spoofed_rejected:
  assumes m: "start_callee (cl_unicode L) keys port authority [] = Inr m" and other: "elsewhere (cl_unicode L) authority"
    and host: "rq_host r = victim_host"
  shows "authenticate L (callee_at m iter tc) r now s \<noteq> (Inr (ident, content), s')"
proof
  assume auth: "authenticate L (callee_at m iter tc) r now s = (Inr (ident, content), s')"
  have "check_authority L (mw_cfg m) r = None"
    using authenticate_evidence [OF auth] preflight_None by auto
  then have "trusted_authority_key (cl_unicode L) (request_scheme r) victim_host \<in> set (mc_trusted (mw_cfg m))"
    using start_callee_trusts(1) [OF m] start_callee_config(1) [OF m] host
    by (simp add: check_authority_def Let_def split: if_splits)
  then show False
    using start_callee_trusts(2) [OF m] other other_scheme [of "cl_unicode L"] other_scheme [of "cl_unicode L", THEN not_sym]
    by (auto simp: elsewhere_def request_scheme_def split: if_splits)
qed

section \<open>The scenarios against two callees\<close>

text \<open>A world made of one for each callee.\<close>

definition on_first :: "'v http_do \<Rightarrow> ('v \<times> 'w) http_do" where
  "on_first do host req w = apsnd (\<lambda>v. (v, snd w)) (do host req (fst w))"

definition on_second :: "'w http_do \<Rightarrow> ('v \<times> 'w) http_do" where
  "on_second do host req w = apsnd (\<lambda>v. (fst w, v)) (do host req (snd w))"

lemma dial_answer:
  "dial handle wire host req (t # ts, s) =
     (Some (an_status (fst (handle t (wire host req) s)), an_body (fst (handle t (wire host req) s))),
      ts, snd (handle t (wire host req) s))"
  by (simp add: dial_def split: prod.split)

text \<open>What a request of a scenario is answered, when its URL is one.\<close>

lemma expect_first:
  assumes "bare_request J D method raw = Inr req"
    and "an_status (fst (handle t (wire host (req\<lparr>oq_header := h\<rparr>)) s)) = want"
  shows "expect_with_host J D (on_first (dial handle wire)) method raw host h want ((t # ts, s), v) =
    (None, ((ts, snd (handle t (wire host (req\<lparr>oq_header := h\<rparr>)) s)), v))"
  using assms by (simp add: expect_with_host_def on_first_def dial_answer)

lemma expect_second:
  assumes "bare_request J D method raw = Inr req"
    and "an_status (fst (handle t (wire host (req\<lparr>oq_header := h\<rparr>)) s)) = want"
  shows "expect_with_host J D (on_second (dial handle wire)) method raw host h want (v, (t # ts, s)) =
    (None, (v, (ts, snd (handle t (wire host (req\<lparr>oq_header := h\<rparr>)) s))))"
  using assms by (simp add: expect_with_host_def on_second_def dial_answer)

lemma carriesD:
  assumes "carries wire" "sendable h" "bare_request J D method raw = Inr req"
  shows "rq_method (wire host (req\<lparr>oq_header := h\<rparr>)) = method" "same_evidence (rq_header (wire host (req\<lparr>oq_header := h\<rparr>))) h"
    "rq_body (wire host (req\<lparr>oq_header := h\<rparr>)) = \<lparr>hb_bytes = [], hb_broken = False\<rparr>"
    "host \<noteq> [] \<Longrightarrow> rq_host (wire host (req\<lparr>oq_header := h\<rparr>)) = host"
proof -
  have b: "oq_body (req\<lparr>oq_header := h\<rparr>) = None" "sendable (oq_header (req\<lparr>oq_header := h\<rparr>))" "oq_method (req\<lparr>oq_header := h\<rparr>) = method"
    using assms(2,3) by (auto simp: bare_request_Inr)
  note c = assms(1) [unfolded carries_def, rule_format, OF b(1,2), of host]
  show "rq_method (wire host (req\<lparr>oq_header := h\<rparr>)) = method" "same_evidence (rq_header (wire host (req\<lparr>oq_header := h\<rparr>))) h"
    "rq_body (wire host (req\<lparr>oq_header := h\<rparr>)) = \<lparr>hb_bytes = [], hb_broken = False\<rparr>"
    "host \<noteq> [] \<Longrightarrow> rq_host (wire host (req\<lparr>oq_header := h\<rparr>)) = host"
    using c b(3) by simp_all
qed

text \<open>A request that is never authenticated is answered with 401.\<close>

lemma never_authenticated:
  assumes "carries wire" "sendable h" "bare_request J D method raw = Inr req" "0 \<le> mc_max_content (mw_cfg m)"
    and "\<And>s' ident content. authenticate L (callee_at m iter (snd t)) (wire host (req\<lparr>oq_header := h\<rparr>)) (fst t) s
      \<noteq> (Inr (ident, content), s')"
  shows "an_status (fst (in_process_callee L m iter t (wire host (req\<lparr>oq_header := h\<rparr>)) s)) = 401"
  using accepted_or_refused [OF carriesD(3) [OF assms(1-3)] assms(4)] assms(5) by blast

text \<open>The first two outcomes: a signed call is accepted, and rejected when it comes again.\<close>

lemma in_process_answer:
  assumes "authenticate L (callee_at m iter tc) r now s = (Inr (ident, []), s')"
  shows "in_process_callee L m iter (now, tc) r s =
    (\<lparr>an_status = 200, an_header = [plain_text], an_body = ''authenticated caller: '' @ id_ans_name ident\<rparr>, s')"
  using assms
  by (simp add: in_process_callee_def through_middleware_def serve_def in_process_app_def caller_from_context_def
      context_with_caller_def)

lemma in_process_replayed:
  assumes opts: "mc_caller_opts (mw_cfg m) = []" "0 \<le> mc_max_content (mw_cfg m)" and i: "visits_all iter"
    and first: "authenticate L (callee_at m iter tc) r now (new_replay_cache n) = (Inr (ident, content), s')"
    and body: "rq_body r = \<lparr>hb_bytes = [], hb_broken = False\<rparr>" and later: "tc' < now' + replay_grace"
  shows "an_status (fst (in_process_callee L m iter (now', tc') r s')) = 401"
proof -
  have skew: "effective_skew (cc_pop_skew (resolve_caller_options (mc_caller_opts (mw_cfg (callee_at m iter tc))))) + replay_grace < 2 ^ 63"
    by (simp add: opts default_options effective_skew_def default_pop_skew_def replay_grace_def)
  have "\<exists>e. fst (authenticate L (callee_at m iter tc') r now' (memory_replay.run [] s')) = Inl e"
    by (rule authenticate_replayed [OF new_replay_ok i callee_at_simps(3) callee_at_simps(3) _ first skew _ later])
      (simp_all add: memory_replay.before_def)
  then obtain e where "fst (authenticate L (callee_at m iter (snd (now', tc'))) r (fst (now', tc')) s') = Inl e" by auto
  then show ?thesis using refused_answer [OF _ body opts(2)] by simp
qed

lemma auth_and_replay_runs:
  assumes ready: "call_ready L S D name agent clock (caller_of_agent a jkt) m wire (srv @ ''/v1/do'')" and i: "visits_all iter"
    and h: "signed_get_headers (cl_jose L) (cl_unicode L) S D a (iat, Some rnd) (srv @ ''/v1/do'') = Inr h" "length rnd = 16"
      "length (header_get h dpop_header) \<le> max_proof_size"
    and time: "within_hour clock now" "fresh_iat iat now (effective_skew default_pop_skew)" "tc' < now' + replay_grace"
    and wire: "carries wire" "0 \<le> mc_max_content (mw_cfg m)"
  shows "\<exists>s'. auth_and_replay (cl_jose L) (cl_unicode L) S D a (iat, Some rnd) (on_first (dial (in_process_callee L m iter) wire)) srv
    (((now, tc) # (now', tc') # ts, new_replay_cache n), v) = (None, ((ts, s'), v))"
proof -
  let ?handle = "in_process_callee L m iter" and ?target = "srv @ ''/v1/do''"
  obtain req bare where q: "bare_request (cl_jose L) D ''GET'' ?target = Inr bare" "req = bare\<lparr>oq_header := h\<rparr>"
    "signed_with_token (cl_jose L) (cl_unicode L) S D (caller_of_agent a jkt) iat (Some rnd) ''GET'' ?target [] = Inr req"
    using signed_get_headers_Inr [OF h(1), of jkt] by auto
  have size: "length (header_get (oq_header req) dpop_header) \<le> max_proof_size" using h(3) q(2) by simp
  obtain ident s1 where auth: "authenticate L (callee_at m iter tc) (wire [] req) now (new_replay_cache n) = (Inr (ident, []), s1)"
    using ready_call(1) [OF ready i q(3) h(2) size time(1,2)] by blast
  have opts: "mc_caller_opts (mw_cfg m) = []" using ready by (simp add: call_ready_def)
  have sh: "sendable h" using ready sendable_get [OF _ _ _ h(1)] unfolding call_ready_def by blast
  have 1: "an_status (fst (?handle (now, tc) (wire [] (bare\<lparr>oq_header := h\<rparr>)) (new_replay_cache n))) = 200"
    "snd (?handle (now, tc) (wire [] (bare\<lparr>oq_header := h\<rparr>)) (new_replay_cache n)) = s1"
    using in_process_answer [OF auth] q(2) by simp_all
  have 2: "an_status (fst (?handle (now', tc') (wire [] (bare\<lparr>oq_header := h\<rparr>)) s1)) = 401"
    using in_process_replayed [OF opts wire(2) i auth _ time(3)] carriesD(3) [OF wire(1) sh q(1)] q(2) by simp
  show ?thesis
    using h(1) expect_first [where handle = ?handle and wire = wire and ts = "(now', tc') # ts" and v = v, OF q(1) 1(1)]
      expect_first [where handle = ?handle and wire = wire and ts = ts and v = v, OF q(1) 2]
    by (simp add: auth_and_replay_def with_signed_headers_def Let_def and_then_def expect_def 1(2))
qed

text \<open>The rejected ones.\<close>

lemma method_tamper_runs:
  assumes laws: "agent_laws L S D" and p: "provisioned L S D name agent clock b keys"
    and c: "demo_caller_of (cl_jose L) S b = Inr (caller_of_agent a jkt)"
    and h: "signed_get_headers (cl_jose L) (cl_unicode L) S D a draw (srv @ ''/v1/do'') = Inr h"
    and bare: "bare_request (cl_jose L) D ''GET'' (srv @ ''/v1/do'') = Inr bare"
      "\<forall>htu. normalize_htu (cl_jose L) (oq_url bare) = Inr htu \<longrightarrow> is_ascii htu"
    and wire: "carries wire" "0 \<le> mc_max_content (mw_cfg m)"
  shows "\<exists>s'. method_tamper (cl_jose L) (cl_unicode L) S D a draw (on_first (dial (in_process_callee L m iter) wire)) srv
    ((t # ts, s), v) = (None, ((ts, s'), v))"
proof -
  have post: "bare_request (cl_jose L) D ''POST'' (srv @ ''/v1/do'') = Inr (bare\<lparr>oq_method := ''POST''\<rparr>)"
    using bare(1) by (auto simp: bare_request_Inr)
  obtain req where att: "attach_identity (cl_jose L) (cl_unicode L) S bare (Some (da_signer a)) (da_scitt a) (fst draw) (snd draw)
      = (None, req)" "req = bare\<lparr>oq_header := h\<rparr>"
    using signed_get_headers_Inr [OF h] bare(1) by auto
  obtain cert where k: "signer_ok (cl_jose L) S cert (dl_public D (bn_agent_key b)) (da_signer a)"
    "da_scitt a = scitt_pairs (bn_receipt b) (bn_status_token b)"
    using provisioned_caller [OF laws p c] by (auto simp: caller_of_agent_def)
  have f: "oq_method bare = ''GET''" "undecorated (oq_header bare)" "is_ascii (oq_method bare)"
    using bare(1) token_header_values(1) [of "[]"]
    by (auto simp: bare_request_Inr token_header_def is_ascii_def byte_val_def)
  have sh: "sendable h" by (rule sendable_get [OF laws p c h])
  have no: "authenticate L (callee_at m iter (snd t)) (wire [] (bare\<lparr>oq_method := ''POST'', oq_header := h\<rparr>)) (fst t) s
      \<noteq> (Inr (ident, content), s')" for ident content s'
  proof
    assume auth: "authenticate L (callee_at m iter (snd t)) (wire [] (bare\<lparr>oq_method := ''POST'', oq_header := h\<rparr>)) (fst t) s
      = (Inr (ident, content), s')"
    have "same_evidence (rq_header (wire [] (bare\<lparr>oq_method := ''POST'', oq_header := h\<rparr>))) (oq_header req)"
      "rq_method (wire [] (bare\<lparr>oq_method := ''POST'', oq_header := h\<rparr>)) = ''POST''"
      using carriesD(1,2) [OF wire(1) sh post] att(2) by simp_all
    moreover from this(1) have "rq_method (wire [] (bare\<lparr>oq_method := ''POST'', oq_header := h\<rparr>)) = oq_method bare"
      using proof_method [OF laws k(1) att(1) [unfolded k(2)] f(3) _ f(2) auth] bare(2) by blast
    ultimately show False using f(1) by simp
  qed
  have "an_status (fst (in_process_callee L m iter t (wire [] (bare\<lparr>oq_method := ''POST'', oq_header := h\<rparr>)) s)) = 401"
    using never_authenticated [OF wire(1) sh post wire(2)] no by simp
  then show ?thesis
    using h expect_first [OF post, of "in_process_callee L m iter" t wire "[]" h s 401 ts v]
    by (simp add: method_tamper_def with_signed_headers_def Let_def expect_def)
qed

lemma wrong_peer_runs:
  assumes laws: "agent_laws L S D" and p: "provisioned L S D demo_ans_name agent clock b (mw_keys m)"
    and c: "demo_caller_of (cl_jose L) S b = Inr (caller_of_agent a jkt)"
    and h: "signed_get_headers (cl_jose L) (cl_unicode L) S D a draw (srv @ ''/v1/do'') = Inr h"
    and m: "mc_caller_opts (mw_cfg m) = [with_expected_ans_name (cl_unicode L) other_ans_name]" "0 \<le> mc_max_content (mw_cfg m)"
    and wire: "carries wire" and time: "within_hour clock (fst t)"
  shows "\<exists>s'. wrong_peer (cl_jose L) (cl_unicode L) S D a draw (on_second (dial (in_process_callee L m iter) wire)) srv
    (v, (t # ts, s)) = (None, (v, (ts, s')))"
proof -
  obtain bare where bare: "bare_request (cl_jose L) D ''GET'' (srv @ ''/v1/do'') = Inr bare"
    using signed_get_headers_Inr [OF h] by blast
  have sh: "sendable h" by (rule sendable_get [OF laws p c h])
  have "an_status (fst (in_process_callee L m iter t (wire [] (bare\<lparr>oq_header := h\<rparr>)) s)) = 401"
    using wrong_peer_rejected [where m = "callee_at m iter (snd t)", OF laws _ c h _ _ time] p m(1) carriesD(2) [OF wire sh bare]
    by (intro never_authenticated [OF wire sh bare m(2)]) simp
  then show ?thesis
    using h expect_second [OF bare, of "in_process_callee L m iter" t wire "[]" h s 401 v ts]
    by (simp add: wrong_peer_def with_signed_headers_def Let_def expect_def)
qed

lemma spoofed_authority_runs:
  assumes laws: "agent_laws L S D" and p: "provisioned L S D name agent clock b keys"
    and c: "demo_caller_of (cl_jose L) S b = Inr (caller_of_agent a jkt)"
    and h: "signed_get_headers (cl_jose L) (cl_unicode L) S D a draw (''https://'' @ victim_host @ ''/v1/do'') = Inr h"
    and bare: "bare_request (cl_jose L) D ''GET'' (srv @ ''/v1/do'') = Inr bare"
    and m: "start_callee (cl_unicode L) keys' port authority [] = Inr m" "elsewhere (cl_unicode L) authority"
    and wire: "carries wire"
  shows "\<exists>s'. spoofed_authority (cl_jose L) (cl_unicode L) S D a draw (on_first (dial (in_process_callee L m iter) wire)) srv
    ((t # ts, s), v) = (None, ((ts, s'), v))"
proof -
  have ne: "victim_host \<noteq> []" by (simp add: victim_host_def)
  have sh: "sendable h" by (rule sendable_get [OF laws p c h])
  have max: "0 \<le> mc_max_content (mw_cfg m)" using start_callee_config(1) [OF m(1)] by simp
  have "an_status (fst (in_process_callee L m iter t (wire victim_host (bare\<lparr>oq_header := h\<rparr>)) s)) = 401"
    using spoofed_rejected [OF m carriesD(4) [OF wire sh bare ne]] by (intro never_authenticated [OF wire sh bare max]) simp
  then show ?thesis
    using h expect_first [OF bare, of "in_process_callee L m iter" t wire victim_host h s 401 ts v]
    by (simp add: spoofed_authority_def with_signed_headers_def)
qed

text \<open>The whole program, from the provisioning of the agent to the last scenario.\<close>

lemma scenarios_lemma:
  fixes m m2 :: "('k, replay_cache) middleware"
  assumes laws: "agent_laws L S D"
    and names: "\<forall>u. url_parse (jl_bracket (cl_jose L)) demo_ans_name = Some u \<longrightarrow> dl_url_text D u = demo_ans_name"
    and agent: "provision_agent L S D unknown rand clock = Inr a" "provision L S D rand clock demo_ans_name demo_agent_id = Inr (tlk, b)"
      "length (bn_receipt b) \<le> 1048576" "length (bn_status_token b) \<le> 1048576" "sha_of (cl_jose L) (bn_cert_der b) \<noteq> zero_hash"
    and callees: "start_callee (cl_unicode L) (da_keys a) port authority [] = Inr m" "elsewhere (cl_unicode L) authority"
      "start_callee (cl_unicode L) (da_keys a) port2 authority2 (wrong_peer_options (cl_unicode L)) = Inr m2"
    and link: "bare_request (cl_jose L) D ''GET'' (srv @ ''/v1/do'') = Inr bare" "connected L m wire (oq_url bare)"
      "\<forall>htu. normalize_htu (cl_jose L) (oq_url bare) = Inr htu \<longrightarrow> is_ascii htu" "carries wire" "carries wire2"
    and i: "visits_all iter"
    and signed: "draw 0 = (iat, Some rnd)" "length rnd = 16"
      "signed_get_headers (cl_jose L) (cl_unicode L) S D a (draw 0) (srv @ ''/v1/do'') = Inr h0"
      "length (header_get h0 dpop_header) \<le> max_proof_size"
      "signed_get_headers (cl_jose L) (cl_unicode L) S D a (draw 1) (srv @ ''/v1/do'') = Inr h1"
      "signed_get_headers (cl_jose L) (cl_unicode L) S D a (draw 2) (srv2 @ ''/v1/do'') = Inr h2"
      "signed_get_headers (cl_jose L) (cl_unicode L) S D a (draw 3) (''https://'' @ victim_host @ ''/v1/do'') = Inr h3"
    and time: "within_hour clock now" "fresh_iat iat now (effective_skew default_pop_skew)" "tc' < now' + replay_grace"
      "within_hour clock (fst t5)"
  shows "fst (run_scenarios (cl_jose L) (cl_unicode L) S D a draw
    (on_first (dial (in_process_callee L m iter) wire)) srv (on_second (dial (in_process_callee L m2 iter) wire2)) srv2
    (((now, tc) # (now', tc') # t3 # t4 # ts, new_replay_cache n), (t5 # ts2, s2))) = None"
proof -
  obtain jkt where keys: "demo_key_lookup L D unknown (dl_public D tlk) = Inr (da_keys a)"
    and c: "demo_caller_of (cl_jose L) S b = Inr (caller_of_agent a jkt)"
    using provision_agent_Inr [OF agent(1,2)] by blast
  have p: "provisioned L S D demo_ans_name demo_agent_id clock b (da_keys a)"
    using agent(2-5) keys demo_names [OF names] unfolding provisioned_def by blast
  note m = start_callee_Inr [OF callees(1)] start_callee_Inr [OF callees(3)]
    start_callee_config(1) [OF callees(1)] start_callee_config(2) [OF callees(3)]
  have p1: "provisioned L S D demo_ans_name demo_agent_id clock b (mw_keys m)"
    and p2: "provisioned L S D demo_ans_name demo_agent_id clock b (mw_keys m2)" using p m(1,2) by simp_all
  have ready: "call_ready L S D demo_ans_name demo_agent_id clock (caller_of_agent a jkt) m wire (srv @ ''/v1/do'')"
    unfolding call_ready_def using laws p1 c m(1,3) link(1-3) by blast
  have max: "0 \<le> mc_max_content (mw_cfg m)" using m(3) by simp
  obtain s1 where 1: "auth_and_replay (cl_jose L) (cl_unicode L) S D a (draw 0) (on_first (dial (in_process_callee L m iter) wire)) srv
      (((now, tc) # (now', tc') # t3 # t4 # ts, new_replay_cache n), (t5 # ts2, s2)) = (None, ((t3 # t4 # ts, s1), (t5 # ts2, s2)))"
    using auth_and_replay_runs [where v = "(t5 # ts2, s2)", OF ready i _ signed(2,4) time(1-3) link(4) max] signed(1,3) by fastforce
  obtain s3 where 2: "method_tamper (cl_jose L) (cl_unicode L) S D a (draw 1) (on_first (dial (in_process_callee L m iter) wire)) srv
      ((t3 # t4 # ts, s1), (t5 # ts2, s2)) = (None, ((t4 # ts, s3), (t5 # ts2, s2)))"
    using method_tamper_runs [where v = "(t5 # ts2, s2)", OF laws p c signed(5) link(1,3,4) max] by blast
  obtain s4 where 3: "wrong_peer (cl_jose L) (cl_unicode L) S D a (draw 2) (on_second (dial (in_process_callee L m2 iter) wire2)) srv2
      ((t4 # ts, s3), (t5 # ts2, s2)) = (None, ((t4 # ts, s3), (ts2, s4)))"
    using wrong_peer_runs [where v = "(t4 # ts, s3)", OF laws p2 c signed(6) _ _ link(5) time(4)] m(4) by blast
  obtain s5 where 4: "spoofed_authority (cl_jose L) (cl_unicode L) S D a (draw 3) (on_first (dial (in_process_callee L m iter) wire)) srv
      ((t4 # ts, s3), (ts2, s4)) = (None, ((ts, s5), (ts2, s4)))"
    using spoofed_authority_runs [where v = "(ts2, s4)", OF laws p c signed(7) link(1) callees(1,2) link(4)] by blast
  show ?thesis by (simp add: run_scenarios_def 1 2 [simplified] 3 4 and_then_def)
qed

section \<open>With libraries that do not fail\<close>

lemma callee_works:
  assumes "trim_space authority \<noteq> []"
  shows "\<exists>m. start_callee u keys port authority [] = Inr m"
    "\<exists>m. start_callee u keys port authority (wrong_peer_options u) = Inr m"
proof -
  obtain c where c: "with_trusted_hosts u [authority] default_middleware_config = Inr c" "mc_trusted c \<noteq> []"
    "mc_caller_opts c = []" "\<not> mc_external_set c"
    using trusted_hosts_work [OF assms] by blast
  have "start_callee u keys port authority [] = Inr \<lparr>mw_cfg = c, mw_keys = keys, mw_replay = port\<rparr>"
    using c by (simp add: start_callee_def new_middleware_Inr mw_ok_def default_options) (simp add: default_caller_config_def)
  then show "\<exists>m. start_callee u keys port authority [] = Inr m" by blast
  have o: "other_ans_name = ans_uri (Version 1 0 0) ''other.example''" by code_simp
  obtain n where n: "parse_ans_name u other_ans_name = Inr n" unfolding o parse_ans_uri by blast
  let ?c = "c\<lparr>mc_caller_opts := [with_expected_ans_name u other_ans_name]\<rparr>"
  have "apply_middleware_options (with_trusted_hosts u [authority] # wrong_peer_options u) default_middleware_config = Inr ?c"
    using c by (simp add: wrong_peer_options_def with_middleware_caller_options_def)
  moreover have "mw_ok \<lparr>mw_cfg = ?c, mw_keys = keys, mw_replay = port\<rparr>"
    using c n by (simp add: mw_ok_def resolve_caller_options_def default_caller_config_def with_expected_ans_name_def add_allowed_def)
  ultimately have "start_callee u keys port authority (wrong_peer_options u) = Inr \<lparr>mw_cfg = ?c, mw_keys = keys, mw_replay = port\<rparr>"
    by (simp add: start_callee_def new_middleware_Inr)
  then show "\<exists>m. start_callee u keys port authority (wrong_peer_options u) = Inr m" by blast
qed

lemma agent_works:
  assumes w: "kit_works L S D rand clock" and laws: "agent_laws L S D"
    and names: "\<forall>u. url_parse (jl_bracket (cl_jose L)) demo_ans_name = Some u \<longrightarrow> dl_url_text D u = demo_ans_name"
  shows "\<exists>a tlk b. provision_agent L S D unknown rand clock = Inr a
    \<and> provision L S D rand clock demo_ans_name demo_agent_id = Inr (tlk, b)"
proof -
  obtain tlk b where p: "provision L S D rand clock demo_ans_name demo_agent_id = Inr (tlk, b)"
    using provision_works [OF w] by blast
  obtain keys where k: "demo_key_lookup L D unknown (dl_public D tlk) = Inr keys"
    using kit_worksD(3) [OF w, of "dl_public D tlk"] by (auto simp: demo_key_lookup_def)
  obtain sg where "new_signer (cl_jose L) S (Some (bn_agent_key b)) (bn_cert_der b) = Inr sg"
    using provisioned_signer [OF agent_lawsD(1,2) [OF laws] demo_names [OF names] p] by blast
  with p k show ?thesis by (simp add: provision_agent_def)
qed

lemma get_works:
  assumes w: "kit_works L S D rand clock" and bare: "bare_request J D ''GET'' raw = Inr bare"
    and htu: "normalize_htu J (oq_url bare) = Inr htu" and draw: "snd draw \<noteq> None"
  shows "\<exists>h. signed_get_headers J u S D a draw raw = Inr h"
proof -
  have b: "oq_body bare = None" "\<not> oq_gone bare" using bare by (auto simp: bare_request_Inr)
  obtain rnd where r: "snd draw = Some rnd" using draw by blast
  obtain req where "attach_identity J u S bare (Some (da_signer a)) (da_scitt a) (fst draw) (Some rnd) = (None, req)"
    using attach_works [OF w htu b] by blast
  with bare r show ?thesis by (simp add: signed_get_headers_def)
qed

lemma scenarios_succeed_lemma:
  fixes port port2 :: "replay_cache replay_port"
  assumes laws: "agent_laws L S D" "kit_works L S D rand clock"
    and names: "\<forall>u. url_parse (jl_bracket (cl_jose L)) demo_ans_name = Some u \<longrightarrow> dl_url_text D u = demo_ans_name"
    and auth: "trim_space authority \<noteq> []" "elsewhere (cl_unicode L) authority" "trim_space authority2 \<noteq> []"
    and url: "bare_request (cl_jose L) D ''GET'' (srv @ ''/v1/do'') = Inr bare" "normalize_htu (cl_jose L) (oq_url bare) = Inr htu"
      "is_ascii htu"
      "bare_request (cl_jose L) D ''GET'' (srv2 @ ''/v1/do'') = Inr bare2" "normalize_htu (cl_jose L) (oq_url bare2) = Inr htu2"
      "bare_request (cl_jose L) D ''GET'' (''https://'' @ victim_host @ ''/v1/do'') = Inr bare3"
      "normalize_htu (cl_jose L) (oq_url bare3) = Inr htu3"
    and wire: "carries wire" "carries wire2" and i: "visits_all iter"
    and draw: "draw 0 = (iat, Some rnd)" "length rnd = 16" "\<forall>k. snd (draw k) \<noteq> None"
    and time: "within_hour clock now" "fresh_iat iat now (effective_skew default_pop_skew)" "tc' < now' + replay_grace"
      "within_hour clock (fst t5)"
  shows "\<exists>a tlk b m m2 h0. provision_agent L S D unknown rand clock = Inr a
    \<and> provision L S D rand clock demo_ans_name demo_agent_id = Inr (tlk, b)
    \<and> start_callee (cl_unicode L) (da_keys a) port authority [] = Inr m
    \<and> start_callee (cl_unicode L) (da_keys a) port2 authority2 (wrong_peer_options (cl_unicode L)) = Inr m2
    \<and> signed_get_headers (cl_jose L) (cl_unicode L) S D a (draw 0) (srv @ ''/v1/do'') = Inr h0
    \<and> (length (bn_receipt b) \<le> 1048576 \<longrightarrow> length (bn_status_token b) \<le> 1048576
        \<longrightarrow> length (header_get h0 dpop_header) \<le> max_proof_size \<longrightarrow> sha_of (cl_jose L) (bn_cert_der b) \<noteq> zero_hash
        \<longrightarrow> connected L m wire (oq_url bare)
        \<longrightarrow> fst (run_scenarios (cl_jose L) (cl_unicode L) S D a draw
              (on_first (dial (in_process_callee L m iter) wire)) srv (on_second (dial (in_process_callee L m2 iter) wire2)) srv2
              (((now, tc) # (now', tc') # t3 # t4 # ts, new_replay_cache n), (t5 # ts2, s2))) = None)"
proof -
  obtain a tlk b where a: "provision_agent L S D unknown rand clock = Inr a"
    "provision L S D rand clock demo_ans_name demo_agent_id = Inr (tlk, b)"
    using agent_works [OF laws(2,1) names] by blast
  obtain m where m: "start_callee (cl_unicode L) (da_keys a) port authority [] = Inr m" using callee_works(1) [OF auth(1)] by blast
  obtain m2 where m2: "start_callee (cl_unicode L) (da_keys a) port2 authority2 (wrong_peer_options (cl_unicode L)) = Inr m2"
    using callee_works(2) [OF auth(3)] by blast
  have d: "snd (draw k) \<noteq> None" for k using draw(3) by blast
  obtain h0 h1 h2 h3 where h: "signed_get_headers (cl_jose L) (cl_unicode L) S D a (draw 0) (srv @ ''/v1/do'') = Inr h0"
    "signed_get_headers (cl_jose L) (cl_unicode L) S D a (draw 1) (srv @ ''/v1/do'') = Inr h1"
    "signed_get_headers (cl_jose L) (cl_unicode L) S D a (draw 2) (srv2 @ ''/v1/do'') = Inr h2"
    "signed_get_headers (cl_jose L) (cl_unicode L) S D a (draw 3) (''https://'' @ victim_host @ ''/v1/do'') = Inr h3"
    using get_works [OF laws(2) url(1,2) d] get_works [OF laws(2) url(4,5) d] get_works [OF laws(2) url(6,7) d] by metis
  have u: "\<forall>x. normalize_htu (cl_jose L) (oq_url bare) = Inr x \<longrightarrow> is_ascii x" using url(2,3) by simp
  show ?thesis
    using a m m2 h(1) scenarios_lemma [OF laws(1) names a _ _ _ m auth(2) m2 url(1) _ u wire i draw(1,2) h(1) _ h(2,3,4) time] by blast
qed

end
