(* ===== verification/Badge_Record.thy ===== *)
theory Badge_Record
  imports Models Go_Url
begin

text \<open>
  Badge records and badge URLs: \<open>verify/badge_record.go\<close> (the TXT record parser) and
  \<open>verify/url_validator.go\<close> (the allow-list of transparency log hosts). Both rest on \<open>url.Parse\<close>
  of \<open>Go_Url\<close>; \<open>bk\<close> is that parser's bracket check.
\<close>

section \<open>TXT records\<close>

datatype badge_source = SourceAnsBadge | SourceRaBadge

record badge_record =
  br_format :: string
  br_version :: "version option"
  br_url :: string
  br_source :: badge_source

definition valid_format_versions :: "string list" where
  "valid_format_versions = [''ans-badge1'', ''ra-badge1'']"

definition is_valid_format_version :: "string \<Rightarrow> bool" where
  "is_valid_format_version v = (v \<in> set valid_format_versions)"

datatype record_error =
    RecEmpty | RecNoFormat | RecFormat string | RecNoUrl | RecUrlParse | RecUrlScheme | RecUrlHost
  | RecUrlUser | RecUrlFragment

record record_fields =
  rf_format :: string
  rf_version :: "version option"
  rf_url :: string

text \<open>One iteration of the loop over the parts between semicolons; an invalid version is ignored.\<close>

definition scan_part :: "record_fields \<Rightarrow> string \<Rightarrow> record_fields" where
  "scan_part st raw =
     (let part = trim_space raw in
      case cut_prefix part ''v='' of
        Some v \<Rightarrow> st\<lparr>rf_format := v\<rparr>
      | None \<Rightarrow>
          (case cut_prefix part ''version='' of
             Some v \<Rightarrow>
               (case parse_version v of Inr parsed \<Rightarrow> st\<lparr>rf_version := Some parsed\<rparr> | Inl _ \<Rightarrow> st)
           | None \<Rightarrow>
               (case cut_prefix part ''url='' of Some w \<Rightarrow> st\<lparr>rf_url := w\<rparr> | None \<Rightarrow> st)))"

definition scan_record :: "string \<Rightarrow> record_fields" where
  "scan_record txt =
     foldl scan_part \<lparr>rf_format = [], rf_version = None, rf_url = []\<rparr> (split_on CHR '';'' txt)"

definition check_record_url :: "(string \<Rightarrow> bool) \<Rightarrow> string \<Rightarrow> record_error option" where
  "check_record_url bk s =
     (case url_parse bk s of
        None \<Rightarrow> Some RecUrlParse
      | Some p \<Rightarrow>
          if url_scheme p \<noteq> ''https'' then Some RecUrlScheme
          else if url_host p = [] then Some RecUrlHost
          else if url_has_user p then Some RecUrlUser
          else if url_fragment p \<noteq> [] then Some RecUrlFragment
          else None)"

text \<open>The parser leaves the source at its zero value; the resolver sets it afterwards.\<close>

definition parse_badge_record :: "(string \<Rightarrow> bool) \<Rightarrow> string \<Rightarrow> record_error + badge_record" where
  "parse_badge_record bk txt =
     (if txt = [] then Inl RecEmpty
      else let st = scan_record txt in
        if rf_format st = [] then Inl RecNoFormat
        else if \<not> is_valid_format_version (rf_format st) then Inl (RecFormat (rf_format st))
        else if rf_url st = [] then Inl RecNoUrl
        else (case check_record_url bk (rf_url st) of
            Some e \<Rightarrow> Inl e
          | None \<Rightarrow> Inr \<lparr>br_format = rf_format st, br_version = rf_version st,
                        br_url = rf_url st, br_source = SourceAnsBadge\<rparr>))"

definition safe_record_url :: "(string \<Rightarrow> bool) \<Rightarrow> string \<Rightarrow> bool" where
  "safe_record_url bk s =
     (case url_parse bk s of
        None \<Rightarrow> False
      | Some p \<Rightarrow> url_scheme p = ''https'' \<and> url_host p \<noteq> [] \<and> \<not> url_has_user p \<and> url_fragment p = [])"

lemma check_record_url_None_iff: "check_record_url bk s = None \<longleftrightarrow> safe_record_url bk s"
  by (auto simp: check_record_url_def safe_record_url_def split: option.splits)

lemma parse_badge_record_accepts [accepts]:
  "parse_badge_record bk txt = Inr r \<Longrightarrow>
     is_valid_format_version (br_format r) \<and> safe_record_url bk (br_url r) \<and> br_source r = SourceAnsBadge"
  by (auto simp: parse_badge_record_def Let_def check_record_url_None_iff split: if_splits option.splits)

text \<open>The order of the parts does not matter as long as each field appears once.\<close>

lemma scan_part_commute_format:
  "cut_prefix (trim_space p) ''v='' = Some x \<Longrightarrow> cut_prefix (trim_space q) ''v='' = None \<Longrightarrow>
     scan_part (scan_part st p) q = scan_part (scan_part st q) p"
  by (cases st) (auto simp: scan_part_def Let_def split: option.splits sum.splits)

section \<open>The URL validator\<close>

definition default_trusted_ra_domains :: "string list" where
  "default_trusted_ra_domains = [''transparency.ans.godaddy.com'', ''transparency.ans.ote-godaddy.com'']"

datatype url_error_type = URLErrorHTTPScheme | URLErrorUntrustedDomain | URLErrorNonStandardPort
  | URLErrorPathTraversal

record url_validation_error =
  uve_type :: url_error_type
  uve_url :: string

datatype url_validator = Url_Validator (trusted_domains: "string list")

definition new_url_validator :: "unicode \<Rightarrow> string list \<Rightarrow> url_validator" where
  "new_url_validator u ds = Url_Validator (map (to_lower u) ds)"

definition new_default_url_validator :: "unicode \<Rightarrow> url_validator" where
  "new_default_url_validator u = new_url_validator u default_trusted_ra_domains"

definition is_domain_trusted :: "url_validator \<Rightarrow> string \<Rightarrow> bool" where
  "is_domain_trusted v hostname = (hostname \<in> set (trusted_domains v))"

definition validate_url ::
  "unicode \<Rightarrow> (string \<Rightarrow> bool) \<Rightarrow> url_validator \<Rightarrow> string \<Rightarrow> url_validation_error option" where
  "validate_url u bk v raw =
     (case url_parse bk raw of
        None \<Rightarrow> Some \<lparr>uve_type = URLErrorHTTPScheme, uve_url = raw\<rparr>
      | Some p \<Rightarrow>
          if url_scheme p \<noteq> ''https'' then Some \<lparr>uve_type = URLErrorHTTPScheme, uve_url = raw\<rparr>
          else if \<not> is_domain_trusted v (to_lower u (url_hostname p))
            then Some \<lparr>uve_type = URLErrorUntrustedDomain, uve_url = raw\<rparr>
          else if url_port p \<noteq> [] \<and> url_port p \<noteq> ''443''
            then Some \<lparr>uve_type = URLErrorNonStandardPort, uve_url = raw\<rparr>
          else if contains_sub (url_path p) ''..'' then Some \<lparr>uve_type = URLErrorPathTraversal, uve_url = raw\<rparr>
          else if url_raw_query p \<noteq> [] then Some \<lparr>uve_type = URLErrorPathTraversal, uve_url = raw\<rparr>
          else None)"

lemma validate_url_None_iff [accepts]:
  "validate_url u bk v raw = None \<longleftrightarrow>
     (\<exists>p. url_parse bk raw = Some p \<and> url_scheme p = ''https''
        \<and> to_lower u (url_hostname p) \<in> set (trusted_domains v)
        \<and> (url_port p = [] \<or> url_port p = ''443'') \<and> \<not> contains_sub (url_path p) ''..''
        \<and> url_raw_query p = [])"
  by (auto simp: validate_url_def is_domain_trusted_def split: option.splits)

text \<open>
  A domain in any ASCII letter case puts the same name on the allow-list, since both the list and
  the host name of the URL are lowered.
\<close>

lemma new_url_validator_case:
  "list_all is_ascii ds \<Longrightarrow>
     trusted_domains (new_url_validator u (map (map ascii_lower) ds)) = trusted_domains (new_url_validator u ds)"
  by (induction ds) (auto simp: new_url_validator_def to_lower_def)

end
