(* ===== verification/Dns_Resolver.thy ===== *)
theory Dns_Resolver
  imports Badge_Record "HOL-Library.Multiset"
begin

text \<open>
  Badge discovery over DNS: \<open>verify/dns.go\<close> (the resolver interface), \<open>verify/dns_resolver.go\<close> (the
  standard resolver) and \<open>verify/dns_mock.go\<close> (the in-memory one). A DNS query is a parameter: the
  answer of \<open>net.Resolver.LookupTXT\<close> is a list of TXT strings or a failure, which is a
  \<open>net.DNSError\<close> with its two flags or some other error.
\<close>

datatype dns_error_type = DNSErrorNotFound | DNSErrorLookupFailed | DNSErrorTimeout

record dns_error =
  dns_err_type :: dns_error_type
  dns_err_fqdn :: string

text \<open>Errors a resolver returns: its own, the sentinel \<open>ErrRecordNotFound\<close>, or one of another kind.\<close>

datatype resolve_error = ErrDNS dns_error | ErrRecordNotFound | ErrOther string

record dns_lookup_result =
  dlr_found :: bool
  dlr_records :: "badge_record list"

datatype txt_failure = Net_DNS_Error (is_not_found: bool) (is_timeout: bool) | Other_Error

type_synonym txt_lookup = "string \<Rightarrow> txt_failure + string list"

definition not_found_result :: dns_lookup_result where
  "not_found_result = \<lparr>dlr_found = False, dlr_records = []\<rparr>"

section \<open>The standard resolver\<close>

fun handle_lookup_error :: "txt_failure \<Rightarrow> string \<Rightarrow> resolve_error + dns_lookup_result" where
  "handle_lookup_error Other_Error q =
     Inl (ErrDNS \<lparr>dns_err_type = DNSErrorLookupFailed, dns_err_fqdn = q\<rparr>)"
| "handle_lookup_error (Net_DNS_Error nf tmo) q =
     (if nf then Inr not_found_result
      else if tmo then Inl (ErrDNS \<lparr>dns_err_type = DNSErrorTimeout, dns_err_fqdn = q\<rparr>)
      else Inl (ErrDNS \<lparr>dns_err_type = DNSErrorLookupFailed, dns_err_fqdn = q\<rparr>))"

fun collect_records :: "(string \<Rightarrow> bool) \<Rightarrow> badge_source \<Rightarrow> string list \<Rightarrow> badge_record list" where
  "collect_records bk src [] = []"
| "collect_records bk src (t # ts) =
     (case parse_badge_record bk t of
        Inr r \<Rightarrow> r\<lparr>br_source := src\<rparr> # collect_records bk src ts
      | Inl _ \<Rightarrow> collect_records bk src ts)"

definition lookup_badge_records ::
  "(string \<Rightarrow> bool) \<Rightarrow> txt_lookup \<Rightarrow> string \<Rightarrow> badge_source \<Rightarrow> resolve_error + dns_lookup_result" where
  "lookup_badge_records bk txt q src =
     (case txt q of
        Inl e \<Rightarrow>
          (case e of
             Net_DNS_Error nf _ \<Rightarrow> if nf then Inr not_found_result else handle_lookup_error e q
           | Other_Error \<Rightarrow> handle_lookup_error e q)
      | Inr txts \<Rightarrow>
          (let records = collect_records bk src txts in
           if records = [] then Inr not_found_result
           else Inr \<lparr>dlr_found = True, dlr_records = records\<rparr>))"

definition lookup_ans_badge ::
  "(string \<Rightarrow> bool) \<Rightarrow> txt_lookup \<Rightarrow> fqdn \<Rightarrow> resolve_error + dns_lookup_result" where
  "lookup_ans_badge bk txt f =
     (case lookup_badge_records bk txt (ans_badge_name f) SourceAnsBadge of
        Inl e \<Rightarrow> Inl e
      | Inr r \<Rightarrow> if dlr_found r then Inr r
                 else lookup_badge_records bk txt (ra_badge_name f) SourceRaBadge)"

definition get_ans_badge_records ::
  "(fqdn \<Rightarrow> resolve_error + dns_lookup_result) \<Rightarrow> fqdn \<Rightarrow> resolve_error + badge_record list" where
  "get_ans_badge_records lookup f =
     (case lookup f of
        Inl e \<Rightarrow> Inl e
      | Inr r \<Rightarrow>
          if \<not> dlr_found r then Inl (ErrDNS \<lparr>dns_err_type = DNSErrorNotFound, dns_err_fqdn = fqdn_value f\<rparr>)
          else Inr (dlr_records r))"

fun is_not_found_error :: "resolve_error \<Rightarrow> bool" where
  "is_not_found_error (ErrDNS e) = (dns_err_type e = DNSErrorNotFound)"
| "is_not_found_error _ = False"

section \<open>Choosing a record\<close>

text \<open>Two passes: an exact version match first, then a record without a version.\<close>

definition select_for_version :: "version \<Rightarrow> badge_record list \<Rightarrow> resolve_error + badge_record" where
  "select_for_version v records =
     (case find (\<lambda>r. case br_version r of None \<Rightarrow> False | Some w \<Rightarrow> version_equal w v) records of
        Some r \<Rightarrow> Inr r
      | None \<Rightarrow>
          (case find (\<lambda>r. br_version r = None) records of
             Some r \<Rightarrow> Inr r
           | None \<Rightarrow> Inl ErrRecordNotFound))"

text \<open>
  The comparison passed to \<open>sort.Slice\<close>: newest version first, records without a version last.
  \<open>sort.Slice\<close> is not stable and may place records that compare equal in any order, so the sorted
  slice is whatever the parameter \<open>sorter\<close> returns; \<open>sorts_by\<close> is what the library documents of it.
\<close>

definition record_before :: "badge_record \<Rightarrow> badge_record \<Rightarrow> bool" where
  "record_before a b =
     (case (br_version a, br_version b) of
        (None, None) \<Rightarrow> False
      | (None, Some _) \<Rightarrow> False
      | (Some _, None) \<Rightarrow> True
      | (Some v, Some w) \<Rightarrow> compare_version v w > 0)"

definition sorts_by :: "('a \<Rightarrow> 'a \<Rightarrow> bool) \<Rightarrow> ('a list \<Rightarrow> 'a list) \<Rightarrow> bool" where
  "sorts_by before sorter \<longleftrightarrow>
     (\<forall>xs. mset (sorter xs) = mset xs \<and> sorted_wrt (\<lambda>a b. \<not> before b a) (sorter xs))"

definition select_preferred ::
  "(badge_record list \<Rightarrow> badge_record list) \<Rightarrow> badge_record list \<Rightarrow> resolve_error + badge_record" where
  "select_preferred sorter records =
     (if records = [] then Inl ErrRecordNotFound
      else (case sorter records of r # _ \<Rightarrow> Inr r | [] \<Rightarrow> Inl ErrRecordNotFound))"

definition find_badge_for_version ::
  "(string \<Rightarrow> bool) \<Rightarrow> txt_lookup \<Rightarrow> fqdn \<Rightarrow> version \<Rightarrow> resolve_error + badge_record" where
  "find_badge_for_version bk txt f v =
     (case get_ans_badge_records (lookup_ans_badge bk txt) f of
        Inl e \<Rightarrow> if is_not_found_error e then Inl ErrRecordNotFound else Inl e
      | Inr records \<Rightarrow> select_for_version v records)"

definition find_preferred_badge ::
  "(string \<Rightarrow> bool) \<Rightarrow> (badge_record list \<Rightarrow> badge_record list) \<Rightarrow> txt_lookup \<Rightarrow> fqdn
     \<Rightarrow> resolve_error + badge_record" where
  "find_preferred_badge bk sorter txt f =
     (case get_ans_badge_records (lookup_ans_badge bk txt) f of
        Inl e \<Rightarrow> if is_not_found_error e then Inl ErrRecordNotFound else Inl e
      | Inr records \<Rightarrow> select_preferred sorter records)"

section \<open>The mock resolver\<close>

record mock_dns =
  mock_records :: "string \<rightharpoonup> badge_record list"
  mock_ra_records :: "string \<rightharpoonup> badge_record list"
  mock_errors :: "string \<rightharpoonup> resolve_error"

definition new_mock_dns :: mock_dns where
  "new_mock_dns = \<lparr>mock_records = Map.empty, mock_ra_records = Map.empty, mock_errors = Map.empty\<rparr>"

definition mock_with_records :: "unicode \<Rightarrow> mock_dns \<Rightarrow> string \<Rightarrow> badge_record list \<Rightarrow> mock_dns" where
  "mock_with_records u m f rs = m\<lparr>mock_records := (mock_records m)(to_lower u f \<mapsto> rs)\<rparr>"

definition mock_with_ra_records :: "unicode \<Rightarrow> mock_dns \<Rightarrow> string \<Rightarrow> badge_record list \<Rightarrow> mock_dns" where
  "mock_with_ra_records u m f rs = m\<lparr>mock_ra_records := (mock_ra_records m)(to_lower u f \<mapsto> rs)\<rparr>"

definition mock_with_error :: "unicode \<Rightarrow> mock_dns \<Rightarrow> string \<Rightarrow> resolve_error \<Rightarrow> mock_dns" where
  "mock_with_error u m f e = m\<lparr>mock_errors := (mock_errors m)(to_lower u f \<mapsto> e)\<rparr>"

definition tag_source :: "badge_source \<Rightarrow> badge_record list \<Rightarrow> badge_record list" where
  "tag_source src = map (\<lambda>r. r\<lparr>br_source := src\<rparr>)"

definition mock_lookup :: "unicode \<Rightarrow> mock_dns \<Rightarrow> fqdn \<Rightarrow> resolve_error + dns_lookup_result" where
  "mock_lookup u m f =
     (let key = to_lower u (fqdn_value f) in
      case mock_errors m key of
        Some e \<Rightarrow> Inl e
      | None \<Rightarrow>
          (case mock_records m key of
             Some (r # rs) \<Rightarrow> Inr \<lparr>dlr_found = True, dlr_records = tag_source SourceAnsBadge (r # rs)\<rparr>
           | _ \<Rightarrow>
               (case mock_ra_records m key of
                  Some (r # rs) \<Rightarrow> Inr \<lparr>dlr_found = True, dlr_records = tag_source SourceRaBadge (r # rs)\<rparr>
                | _ \<Rightarrow> Inr not_found_result)))"

definition mock_find_for_version ::
  "unicode \<Rightarrow> mock_dns \<Rightarrow> fqdn \<Rightarrow> version \<Rightarrow> resolve_error + badge_record" where
  "mock_find_for_version u m f v =
     (case mock_lookup u m f of
        Inl e \<Rightarrow> Inl e
      | Inr r \<Rightarrow> if \<not> dlr_found r then Inl ErrRecordNotFound else select_for_version v (dlr_records r))"

definition mock_find_preferred ::
  "unicode \<Rightarrow> (badge_record list \<Rightarrow> badge_record list) \<Rightarrow> mock_dns \<Rightarrow> fqdn \<Rightarrow> resolve_error + badge_record" where
  "mock_find_preferred u sorter m f =
     (case mock_lookup u m f of
        Inl e \<Rightarrow> Inl e
      | Inr r \<Rightarrow> if \<not> dlr_found r \<or> dlr_records r = [] then Inl ErrRecordNotFound
                 else select_preferred sorter (dlr_records r))"

section \<open>What the choices guarantee\<close>

lemma select_for_version_exact:
  "select_for_version v rs = Inr r \<Longrightarrow> r \<in> set rs \<and> (br_version r = Some v \<or>
     br_version r = None \<and> (\<forall>x\<in>set rs. br_version x \<noteq> Some v))"
  by (auto simp: select_for_version_def find_Some_iff find_None_iff split: option.splits)

lemma select_for_version_None:
  "select_for_version v rs = Inl e \<longleftrightarrow>
     e = ErrRecordNotFound \<and> (\<forall>x\<in>set rs. br_version x \<noteq> None \<and> br_version x \<noteq> Some v)"
  by (auto simp: select_for_version_def find_None_iff find_Some_iff split: option.splits)

definition record_rank :: "badge_record \<Rightarrow> version option" where
  "record_rank r = br_version r"

lemma record_before_iff:
  "record_before a b \<longleftrightarrow>
     (case br_version a of None \<Rightarrow> False | Some v \<Rightarrow> (case br_version b of None \<Rightarrow> True | Some w \<Rightarrow> w < v))"
proof -
  have "compare_version v w > 0 \<longleftrightarrow> w < v" for v w
    by (auto simp: less_version_def version_less_def compare_version_lex intro: version.expand)
  then show ?thesis
    by (auto simp: record_before_def split: option.splits)
qed

lemma record_before_irrefl [simp]: "\<not> record_before a a"
  by (simp add: record_before_iff split: option.splits)

lemma sorts_by_set: "sorts_by before sorter \<Longrightarrow> set (sorter xs) = set xs"
  by (metis sorts_by_def set_mset_mset)

lemma sorts_by_hd:
  assumes "sorts_by before sorter" "sorter xs = r # rs" "x \<in> set xs"
  shows "\<not> before x r \<or> x = r"
proof -
  have "x \<in> set (r # rs)"
    using assms by (metis sorts_by_set)
  moreover have "sorted_wrt (\<lambda>a b. \<not> before b a) (r # rs)"
    using assms(1,2) by (metis sorts_by_def)
  ultimately show ?thesis by auto
qed

text \<open>The preferred record is one of the records, and none of them is strictly newer.\<close>

lemma select_preferred_max:
  assumes "sorts_by record_before sorter" "select_preferred sorter rs = Inr r"
  shows "r \<in> set rs" "\<forall>x\<in>set rs. \<not> record_before x r"
proof -
  from assms(2) obtain rest where rest: "sorter rs = r # rest"
    by (auto simp: select_preferred_def split: if_splits list.splits)
  with assms(1) show "r \<in> set rs"
    by (metis list.set_intros(1) sorts_by_set)
  show "\<forall>x\<in>set rs. \<not> record_before x r"
    using sorts_by_hd [OF assms(1) rest] record_before_irrefl by blast
qed

lemma select_preferred_total:
  "sorts_by before sorter \<Longrightarrow> rs \<noteq> [] \<Longrightarrow> \<exists>r. select_preferred sorter rs = Inr r"
proof -
  assume s: "sorts_by before sorter" and "rs \<noteq> []"
  then have "sorter rs \<noteq> []"
    by (metis mset_zero_iff sorts_by_def)
  with \<open>rs \<noteq> []\<close> show ?thesis
    by (auto simp: select_preferred_def split: list.splits)
qed

section \<open>The resolver interface\<close>

text \<open>
  What the verifiers rely on, whichever resolver they were given: a chosen record is one that the
  lookup returned and has the promised version, a name without records is reported by the sentinel,
  and a failed lookup is passed on.
\<close>

locale badge_resolver =
  fixes lookup :: "fqdn \<Rightarrow> resolve_error + dns_lookup_result"
    and for_version :: "fqdn \<Rightarrow> version \<Rightarrow> resolve_error + badge_record"
    and preferred :: "(badge_record list \<Rightarrow> badge_record list) \<Rightarrow> fqdn \<Rightarrow> resolve_error + badge_record"
  assumes lookup_found: "lookup f = Inr r \<Longrightarrow> dlr_found r \<Longrightarrow> dlr_records r \<noteq> []"
    and for_version_found:
      "lookup f = Inr r \<Longrightarrow> dlr_found r \<Longrightarrow> for_version f v = select_for_version v (dlr_records r)"
    and for_version_missing:
      "lookup f = Inr r \<Longrightarrow> \<not> dlr_found r \<Longrightarrow> for_version f v = Inl ErrRecordNotFound"
    and for_version_error:
      "lookup f = Inl e \<Longrightarrow> \<not> is_not_found_error e \<Longrightarrow> for_version f v = Inl e"
    and preferred_found:
      "lookup f = Inr r \<Longrightarrow> dlr_found r \<Longrightarrow> preferred sorter f = select_preferred sorter (dlr_records r)"
    and preferred_missing:
      "lookup f = Inr r \<Longrightarrow> \<not> dlr_found r \<Longrightarrow> preferred sorter f = Inl ErrRecordNotFound"
    and preferred_error:
      "lookup f = Inl e \<Longrightarrow> \<not> is_not_found_error e \<Longrightarrow> preferred sorter f = Inl e"
    and error_fails: "lookup f = Inl e \<Longrightarrow> \<not> is_ok (preferred sorter f) \<and> \<not> is_ok (for_version f v)"
begin

lemma for_version_sound:
  assumes "for_version f v = Inr rec"
  shows "\<exists>r. lookup f = Inr r \<and> rec \<in> set (dlr_records r) \<and>
    (br_version rec = Some v \<or> br_version rec = None \<and> (\<forall>x\<in>set (dlr_records r). br_version x \<noteq> Some v))"
proof (cases "lookup f")
  case (Inl e)
  with error_fails [of f e undefined v] assms show ?thesis by simp
next
  case (Inr r)
  with assms for_version_missing have "dlr_found r" by (cases "dlr_found r") auto
  with Inr assms for_version_found [of f r v] show ?thesis
    using select_for_version_exact by fastforce
qed

lemma preferred_sound:
  assumes "sorts_by record_before sorter" "preferred sorter f = Inr rec"
  shows "\<exists>r. lookup f = Inr r \<and> rec \<in> set (dlr_records r) \<and> (\<forall>x\<in>set (dlr_records r). \<not> record_before x rec)"
proof (cases "lookup f")
  case (Inl e)
  with error_fails [of f e sorter] assms show ?thesis by simp
next
  case (Inr r)
  with assms preferred_missing have "dlr_found r" by (cases "dlr_found r") auto
  with Inr assms preferred_found [of f r sorter] show ?thesis
    using select_preferred_max by fastforce
qed

lemma preferred_not_older:
  assumes "sorts_by record_before sorter" "preferred sorter f = Inr p" "for_version f v = Inr r"
  shows "\<not> record_before r p"
  using preferred_sound [OF assms(1,2)] for_version_sound [OF assms(3)] by auto

end

lemma get_ans_badge_records_simps:
  "lookup f = Inl e \<Longrightarrow> get_ans_badge_records lookup f = Inl e"
  "lookup f = Inr r \<Longrightarrow> dlr_found r \<Longrightarrow> get_ans_badge_records lookup f = Inr (dlr_records r)"
  "lookup f = Inr r \<Longrightarrow> \<not> dlr_found r \<Longrightarrow>
     get_ans_badge_records lookup f = Inl (ErrDNS \<lparr>dns_err_type = DNSErrorNotFound, dns_err_fqdn = fqdn_value f\<rparr>)"
  by (simp_all add: get_ans_badge_records_def)

lemma lookup_badge_records_found:
  "lookup_badge_records bk txt q src = Inr r \<Longrightarrow> dlr_found r \<Longrightarrow> dlr_records r \<noteq> []"
  by (auto simp: lookup_badge_records_def not_found_result_def Let_def
      split: sum.splits txt_failure.splits if_splits)

lemma lookup_ans_badge_found:
  "lookup_ans_badge bk txt f = Inr r \<Longrightarrow> dlr_found r \<Longrightarrow> dlr_records r \<noteq> []"
  by (auto simp: lookup_ans_badge_def lookup_badge_records_found split: sum.splits if_splits)

interpretation std_resolver: badge_resolver
  "lookup_ans_badge bk query" "find_badge_for_version bk query"
  "\<lambda>sorter. find_preferred_badge bk sorter query"
  for bk query
  by unfold_locales
    (auto simp: lookup_ans_badge_found find_badge_for_version_def find_preferred_badge_def
      get_ans_badge_records_simps)

interpretation mock_resolver: badge_resolver
  "mock_lookup u m" "mock_find_for_version u m" "\<lambda>sorter. mock_find_preferred u sorter m"
  for u m
  by unfold_locales
    (auto simp: mock_lookup_def mock_find_for_version_def mock_find_preferred_def not_found_result_def
      tag_source_def select_preferred_def Let_def split: option.splits list.splits)

text \<open>Every record the standard resolver returns parsed, and carries the name it was found under.\<close>

lemma collect_records_safe:
  "r \<in> set (collect_records bk src ts) \<Longrightarrow>
     br_source r = src \<and> is_valid_format_version (br_format r) \<and> safe_record_url bk (br_url r)"
  by (induction bk src ts rule: collect_records.induct)
    (auto split: sum.splits dest: parse_badge_record_accepts)

lemma lookup_badge_records_safe:
  "lookup_badge_records bk txt q src = Inr res \<Longrightarrow> r \<in> set (dlr_records res) \<Longrightarrow>
     br_source r = src \<and> safe_record_url bk (br_url r)"
  by (auto simp: lookup_badge_records_def not_found_result_def Let_def
      split: sum.splits txt_failure.splits if_splits dest: collect_records_safe)

lemma lookup_ans_badge_safe:
  "lookup_ans_badge bk txt f = Inr res \<Longrightarrow> r \<in> set (dlr_records res) \<Longrightarrow> safe_record_url bk (br_url r)"
  by (auto simp: lookup_ans_badge_def split: sum.splits if_splits dest: lookup_badge_records_safe)

end
