(* ===== verification/Dane.thy ===== *)
theory Dane
  imports Cert_Identity
begin

text \<open>
  DANE/TLSA verification: \<open>verify/dane.go\<close> and \<open>verify/dane_mock.go\<close>. The DNS exchange of
  \<open>miekg/dns\<close> is a parameter whose answer carries the response code, the records and the
  authenticated-data flag; SHA-256 and SHA-512 are the parameters \<open>sha\<close> and \<open>sha5\<close>.
\<close>

record tlsa_record =
  tlsa_usage :: "8 word"
  tlsa_selector :: "8 word"
  tlsa_matching :: "8 word"
  tlsa_cert_hash :: string

record tlsa_lookup_result =
  tlr_found :: bool
  tlr_records :: "tlsa_record list"
  tlr_dnssec_valid :: bool

datatype dane_outcome_type = DANEVerified | DANEMismatch | DANESkipped | DANEDNSSECFailed
  | DANENoRecords | DANELookupError

datatype dane_error_type = DANEErrorDNSSECFailed | DANEErrorLookupFailed

record dane_error =
  dane_err_type :: dane_error_type
  dane_err_fqdn :: string

datatype dane_failure = ErrDANE dane_error | ErrDANEOther string | ErrNilCert

record dane_outcome =
  do_type :: dane_outcome_type
  do_records :: "tlsa_record list"
  do_matched :: "tlsa_record option"
  do_error :: "dane_failure option"

fun dane_type_string :: "dane_outcome_type \<Rightarrow> string" where
  "dane_type_string DANEVerified = ''DANEVerified''"
| "dane_type_string DANEMismatch = ''DANEMismatch''"
| "dane_type_string DANESkipped = ''DANESkipped''"
| "dane_type_string DANEDNSSECFailed = ''DANEDNSSECFailed''"
| "dane_type_string DANENoRecords = ''DANENoRecords''"
| "dane_type_string DANELookupError = ''DANELookupError''"

definition dane_is_pass :: "dane_outcome \<Rightarrow> bool" where
  "dane_is_pass o1 = (do_type o1 = DANEVerified \<or> do_type o1 = DANESkipped \<or> do_type o1 = DANENoRecords)"

definition dane_is_reject :: "dane_outcome \<Rightarrow> bool" where
  "dane_is_reject o1 = (do_type o1 = DANEMismatch \<or> do_type o1 = DANEDNSSECFailed)"

definition dane_is_error :: "dane_outcome \<Rightarrow> bool" where
  "dane_is_error o1 = (do_type o1 = DANELookupError)"

text \<open>Exactly one of the three classifications holds of any outcome.\<close>

lemma dane_classes:
  "(dane_is_pass o1 \<and> \<not> dane_is_reject o1 \<and> \<not> dane_is_error o1)
   \<or> (\<not> dane_is_pass o1 \<and> dane_is_reject o1 \<and> \<not> dane_is_error o1)
   \<or> (\<not> dane_is_pass o1 \<and> \<not> dane_is_reject o1 \<and> dane_is_error o1)"
  by (cases "do_type o1") (simp_all add: dane_is_pass_def dane_is_reject_def dane_is_error_def)

type_synonym dane_resolver = "fqdn \<Rightarrow> 16 word \<Rightarrow> dane_failure + tlsa_lookup_result"

section \<open>Matching a certificate against TLSA records\<close>

definition tlsa_association ::
  "(bytes \<Rightarrow> bytes) \<Rightarrow> (bytes \<Rightarrow> bytes) \<Rightarrow> cert_identity \<Rightarrow> 8 word \<Rightarrow> 8 word \<Rightarrow> string option" where
  "tlsa_association sha sha5 cert selector matching =
     (case (if selector = 0 then Some (ci_raw cert)
            else if selector = 1 then Some (ci_spki_raw cert) else None) of
        None \<Rightarrow> None
      | Some data \<Rightarrow>
          if length data = 0 then None
          else if matching = 0 then Some (hex_encode data)
          else if matching = 1 then Some (hex_encode (sha data))
          else if matching = 2 then Some (hex_encode (sha5 data))
          else None)"

text \<open>
  The loop over the records: the first one that matches, \<open>None\<close> when it runs through all of them.
\<close>

fun match_tlsa ::
  "(bytes \<Rightarrow> bytes) \<Rightarrow> (bytes \<Rightarrow> bytes) \<Rightarrow> unicode \<Rightarrow> cert_identity \<Rightarrow> tlsa_record list \<Rightarrow> tlsa_record option"
where
  "match_tlsa sha sha5 u cert [] = None"
| "match_tlsa sha sha5 u cert (rec # recs) =
     (if tlsa_usage rec \<noteq> 3 then match_tlsa sha sha5 u cert recs
      else let rec_hash = to_lower u (tlsa_cert_hash rec) in
        if length (ci_raw cert) > 0 then
          (case tlsa_association sha sha5 cert (tlsa_selector rec) (tlsa_matching rec) of
             Some want \<Rightarrow> if want = rec_hash then Some rec else match_tlsa sha sha5 u cert recs
           | None \<Rightarrow> match_tlsa sha sha5 u cert recs)
        else if tlsa_selector rec \<noteq> 0 \<or> tlsa_matching rec \<noteq> 1 then match_tlsa sha sha5 u cert recs
        else if rec_hash = to_lower u (fp_to_hex (ci_fingerprint cert)) then Some rec
        else match_tlsa sha sha5 u cert recs)"

text \<open>A nil certificate pointer is \<open>None\<close>.\<close>

definition dane_verify ::
  "(bytes \<Rightarrow> bytes) \<Rightarrow> (bytes \<Rightarrow> bytes) \<Rightarrow> unicode \<Rightarrow> dane_resolver \<Rightarrow> fqdn \<Rightarrow> 16 word
     \<Rightarrow> cert_identity option \<Rightarrow> dane_outcome" where
  "dane_verify sha sha5 u resolver f port cert_opt =
     (case cert_opt of
        None \<Rightarrow> \<lparr>do_type = DANELookupError, do_records = [], do_matched = None, do_error = Some ErrNilCert\<rparr>
      | Some cert \<Rightarrow>
          (case resolver f port of
             Inl e \<Rightarrow>
               (case e of
                  ErrDANE d \<Rightarrow>
                    if dane_err_type d = DANEErrorDNSSECFailed
                    then \<lparr>do_type = DANEDNSSECFailed, do_records = [], do_matched = None, do_error = Some e\<rparr>
                    else \<lparr>do_type = DANELookupError, do_records = [], do_matched = None, do_error = Some e\<rparr>
                | _ \<Rightarrow> \<lparr>do_type = DANELookupError, do_records = [], do_matched = None, do_error = Some e\<rparr>)
           | Inr result \<Rightarrow>
               if \<not> tlr_found result
               then \<lparr>do_type = DANENoRecords, do_records = [], do_matched = None, do_error = None\<rparr>
               else if \<not> tlr_dnssec_valid result
               then \<lparr>do_type = DANESkipped, do_records = tlr_records result, do_matched = None, do_error = None\<rparr>
               else (case match_tlsa sha sha5 u cert (tlr_records result) of
                   Some m \<Rightarrow> \<lparr>do_type = DANEVerified, do_records = tlr_records result, do_matched = Some m,
                              do_error = None\<rparr>
                 | None \<Rightarrow> \<lparr>do_type = DANEMismatch, do_records = tlr_records result, do_matched = None,
                            do_error = None\<rparr>)))"

section \<open>The standard resolver\<close>

datatype dns_rr = RR_TLSA tlsa_record | RR_Other

record dns_response =
  resp_rcode :: nat
  resp_answer :: "dns_rr list"
  resp_ad :: bool

fun collect_tlsa :: "unicode \<Rightarrow> dns_rr list \<Rightarrow> tlsa_record list" where
  "collect_tlsa u [] = []"
| "collect_tlsa u (RR_TLSA t # rrs) = t\<lparr>tlsa_cert_hash := to_lower u (tlsa_cert_hash t)\<rparr> # collect_tlsa u rrs"
| "collect_tlsa u (RR_Other # rrs) = collect_tlsa u rrs"

definition lookup_tlsa ::
  "unicode \<Rightarrow> (string \<Rightarrow> string + dns_response) \<Rightarrow> dane_resolver" where
  "lookup_tlsa u exchange f port =
     (let name = tlsa_name f port @ ''.'' in
      case exchange name of
        Inl e \<Rightarrow> Inl (ErrDANE \<lparr>dane_err_type = DANEErrorLookupFailed, dane_err_fqdn = fqdn_value f\<rparr>)
      | Inr resp \<Rightarrow>
          if resp_rcode resp = 2
          then Inl (ErrDANE \<lparr>dane_err_type = DANEErrorDNSSECFailed, dane_err_fqdn = fqdn_value f\<rparr>)
          else if resp_rcode resp = 3 \<or> length (resp_answer resp) = 0
          then Inr \<lparr>tlr_found = False, tlr_records = [], tlr_dnssec_valid = False\<rparr>
          else let records = collect_tlsa u (resp_answer resp) in
            if length records = 0
            then Inr \<lparr>tlr_found = False, tlr_records = [], tlr_dnssec_valid = False\<rparr>
            else Inr \<lparr>tlr_found = True, tlr_records = records, tlr_dnssec_valid = resp_ad resp\<rparr>)"

section \<open>The mock resolver\<close>

record mock_dane =
  md_results :: "string \<rightharpoonup> tlsa_lookup_result"
  md_errors :: "string \<rightharpoonup> dane_failure"

definition dane_key :: "unicode \<Rightarrow> string \<Rightarrow> 16 word \<Rightarrow> string" where
  "dane_key u f port = ''_'' @ show_nat (unat port) @ ''._tcp.'' @ to_lower u f"

definition mock_dane_with_tlsa ::
  "unicode \<Rightarrow> mock_dane \<Rightarrow> string \<Rightarrow> 16 word \<Rightarrow> tlsa_lookup_result \<Rightarrow> mock_dane" where
  "mock_dane_with_tlsa u m f port r = m\<lparr>md_results := (md_results m)(dane_key u f port \<mapsto> r)\<rparr>"

definition mock_dane_with_error ::
  "unicode \<Rightarrow> mock_dane \<Rightarrow> string \<Rightarrow> 16 word \<Rightarrow> dane_failure \<Rightarrow> mock_dane" where
  "mock_dane_with_error u m f port e = m\<lparr>md_errors := (md_errors m)(dane_key u f port \<mapsto> e)\<rparr>"

definition mock_dane_lookup :: "unicode \<Rightarrow> mock_dane \<Rightarrow> dane_resolver" where
  "mock_dane_lookup u m f port =
     (let key = dane_key u (fqdn_value f) port in
      case md_errors m key of
        Some e \<Rightarrow> Inl e
      | None \<Rightarrow>
          (case md_results m key of
             Some r \<Rightarrow> Inr r
           | None \<Rightarrow> Inr \<lparr>tlr_found = False, tlr_records = [], tlr_dnssec_valid = False\<rparr>))"

section \<open>What a match means\<close>

text \<open>
  RFC 6698, section 2.1, in one predicate, without the code's \<open>tlsaAssociation\<close>: a DANE-EE record whose data is
  what its own selector (0 the certificate, 1 its public key) and matching type (0 the bytes, 1 their SHA-256, 2
  their SHA-512) ask for. A certificate without its DER only has a fingerprint, which is the SHA-256 of the whole
  certificate.
\<close>

definition tlsa_matches ::
  "(bytes \<Rightarrow> bytes) \<Rightarrow> (bytes \<Rightarrow> bytes) \<Rightarrow> unicode \<Rightarrow> cert_identity \<Rightarrow> tlsa_record \<Rightarrow> bool" where
  "tlsa_matches sha sha5 u cert rec =
     (let der = ci_raw cert; spki = ci_spki_raw cert; data = to_lower u (tlsa_cert_hash rec) in
      tlsa_usage rec = 3 \<and>
      (if der \<noteq> []
       then tlsa_selector rec = 0 \<and> tlsa_matching rec = 0 \<and> data = hex_encode der
          \<or> tlsa_selector rec = 0 \<and> tlsa_matching rec = 1 \<and> data = hex_encode (sha der)
          \<or> tlsa_selector rec = 0 \<and> tlsa_matching rec = 2 \<and> data = hex_encode (sha5 der)
          \<or> tlsa_selector rec = 1 \<and> spki \<noteq> [] \<and> tlsa_matching rec = 0 \<and> data = hex_encode spki
          \<or> tlsa_selector rec = 1 \<and> spki \<noteq> [] \<and> tlsa_matching rec = 1 \<and> data = hex_encode (sha spki)
          \<or> tlsa_selector rec = 1 \<and> spki \<noteq> [] \<and> tlsa_matching rec = 2 \<and> data = hex_encode (sha5 spki)
       else tlsa_selector rec = 0 \<and> tlsa_matching rec = 1 \<and> data = fp_to_hex (ci_fingerprint cert)))"

text \<open>The code's association data is the one the record asks for.\<close>

lemma tlsa_matches_association:
  "ci_raw cert \<noteq> [] \<Longrightarrow> tlsa_matches sha sha5 u cert rec \<longleftrightarrow> tlsa_usage rec = 3
     \<and> tlsa_association sha sha5 cert (tlsa_selector rec) (tlsa_matching rec) = Some (to_lower u (tlsa_cert_hash rec))"
  by (auto simp: tlsa_matches_def tlsa_association_def Let_def)

lemma tlsa_matches_fingerprint:
  "ci_raw cert = [] \<Longrightarrow> tlsa_matches sha sha5 u cert rec \<longleftrightarrow> tlsa_usage rec = 3 \<and> tlsa_selector rec = 0
     \<and> tlsa_matching rec = 1 \<and> to_lower u (tlsa_cert_hash rec) = fp_to_hex (ci_fingerprint cert)"
  by (simp add: tlsa_matches_def Let_def)

lemma to_lower_hex [simp]: "to_lower u (fp_to_hex f) = fp_to_hex f"
  by (simp add: to_lower_def fp_to_hex_def)

lemma match_tlsa_find: "match_tlsa sha sha5 u cert recs = find (tlsa_matches sha sha5 u cert) recs"
proof (induction recs)
  case (Cons rec recs)
  then show ?case
    by (cases "ci_raw cert = []") (auto simp: tlsa_matches_association tlsa_matches_fingerprint Let_def split: option.splits)
qed simp

lemma dane_verified_iff [accepts]:
  "do_type (dane_verify sha sha5 u resolver f port (Some cert)) = DANEVerified \<longleftrightarrow>
     (\<exists>r. resolver f port = Inr r \<and> tlr_found r \<and> tlr_dnssec_valid r
        \<and> (\<exists>rec\<in>set (tlr_records r). tlsa_matches sha sha5 u cert rec))"
  by (auto simp: dane_verify_def match_tlsa_find find_None_iff find_Some_iff
      split: sum.splits option.splits dane_failure.splits)

lemma dane_mismatch_iff:
  "do_type (dane_verify sha sha5 u resolver f port (Some cert)) = DANEMismatch \<longleftrightarrow>
     (\<exists>r. resolver f port = Inr r \<and> tlr_found r \<and> tlr_dnssec_valid r
        \<and> (\<forall>rec\<in>set (tlr_records r). \<not> tlsa_matches sha sha5 u cert rec))"
  by (auto simp: dane_verify_def match_tlsa_find find_None_iff find_Some_iff
      split: sum.splits option.splits dane_failure.splits)

lemma dane_verified_matched:
  "do_type (dane_verify sha sha5 u resolver f port (Some cert)) = DANEVerified \<Longrightarrow>
     \<exists>m. do_matched (dane_verify sha sha5 u resolver f port (Some cert)) = Some m
         \<and> tlsa_matches sha sha5 u cert m"
  by (auto simp: dane_verify_def match_tlsa_find split: sum.splits option.splits dane_failure.splits if_splits
      dest: find_Some_iff_set)

text \<open>The matched record is set exactly on the verified outcome.\<close>

lemma dane_matched_iff:
  "do_matched (dane_verify sha sha5 u resolver f port c) \<noteq> None \<longleftrightarrow>
     do_type (dane_verify sha sha5 u resolver f port c) = DANEVerified"
  by (auto simp: dane_verify_def split: sum.splits option.splits dane_failure.splits)

end
