(* ===== verification/Outcome.thy ===== *)
theory Outcome
  imports Dns_Resolver Dane Receipt
begin

text \<open>
  Outcomes of a verification: \<open>verify/outcome.go\<close>, with the error kinds of \<open>verify/errors.go\<close> that
  outcomes carry, the transparency log's error of \<open>verify/tlog.go\<close> included. Message texts are left
  out; the fields that code reads are kept.
\<close>

datatype outcome_type = OutcomeVerified | OutcomeNotAnsAgent | OutcomeInvalidStatus
  | OutcomeFingerprintMismatch | OutcomeHostnameMismatch | OutcomeAnsNameMismatch | OutcomeDNSError
  | OutcomeTlogError | OutcomeCertError | OutcomeFailOpen | OutcomeURLValidationError
  | OutcomeDANERejection | OutcomeScittError

datatype verification_tier = TierBadgeOnly | TierFullScitt

fun tier_string :: "verification_tier \<Rightarrow> string" where
  "tier_string TierBadgeOnly = ''BadgeOnly''"
| "tier_string TierFullScitt = ''FullScitt''"

datatype tlog_error_type = TlogErrorNotFound | TlogErrorServiceUnavailable | TlogErrorInvalidResponse

record tlog_error =
  tl_type :: tlog_error_type
  tl_url :: string
  tl_http_code :: nat

datatype verification_error_type = VerificationErrorInvalidStatus | VerificationErrorFingerprintMismatch
  | VerificationErrorHostnameMismatch | VerificationErrorAnsNameMismatch | VerificationErrorNoCN
  | VerificationErrorNoURISAN

text \<open>The refusals of the SCITT path that are plain \<open>errors.New\<close> or \<open>fmt.Errorf\<close> values.\<close>

datatype scitt_refusal = Headers_Incomplete | No_Key_Lookup | Status_Not_Allowed agent_status
  | Fingerprint_Not_Listed | Token_Ans_Name_Invalid | Token_Host_Mismatch string string

datatype verify_error =
    VE_Resolve resolve_error
  | VE_Tlog tlog_error
  | VE_Url url_validation_error
  | VE_Dane dane_failure
  | VE_Fqdn fqdn_error
  | VE_Verification verification_error_type string string
  | VE_Scitt scitt_error
  | VE_Refused scitt_refusal

record verification_outcome =
  vo_type :: outcome_type
  vo_tier :: verification_tier
  vo_badge :: "badge option"
  vo_fingerprint :: "cert_fingerprint option"
  vo_expected :: string
  vo_actual :: string
  vo_status :: badge_status
  vo_host :: string
  vo_error :: "verify_error option"
  vo_warnings :: "string list"
  vo_dane :: "dane_outcome option"

definition outcome_of :: "outcome_type \<Rightarrow> verification_outcome" where
  "outcome_of t = \<lparr>vo_type = t, vo_tier = TierBadgeOnly, vo_badge = None, vo_fingerprint = None,
     vo_expected = [], vo_actual = [], vo_status = [], vo_host = [], vo_error = None, vo_warnings = [],
     vo_dane = None\<rparr>"

definition new_verified_outcome :: "badge \<Rightarrow> cert_fingerprint \<Rightarrow> verification_outcome" where
  "new_verified_outcome b fp = (outcome_of OutcomeVerified)\<lparr>vo_badge := Some b, vo_fingerprint := Some fp\<rparr>"

definition new_not_ans_agent_outcome :: "string \<Rightarrow> verification_outcome" where
  "new_not_ans_agent_outcome host = (outcome_of OutcomeNotAnsAgent)\<lparr>vo_host := host\<rparr>"

definition new_invalid_status_outcome :: "badge \<Rightarrow> badge_status \<Rightarrow> verification_outcome" where
  "new_invalid_status_outcome b s = (outcome_of OutcomeInvalidStatus)\<lparr>vo_badge := Some b, vo_status := s\<rparr>"

definition new_fingerprint_mismatch_outcome :: "badge \<Rightarrow> string \<Rightarrow> string \<Rightarrow> verification_outcome" where
  "new_fingerprint_mismatch_outcome b e a =
     (outcome_of OutcomeFingerprintMismatch)\<lparr>vo_badge := Some b, vo_expected := e, vo_actual := a\<rparr>"

definition new_hostname_mismatch_outcome :: "badge \<Rightarrow> string \<Rightarrow> string \<Rightarrow> verification_outcome" where
  "new_hostname_mismatch_outcome b e a =
     (outcome_of OutcomeHostnameMismatch)\<lparr>vo_badge := Some b, vo_expected := e, vo_actual := a\<rparr>"

definition new_ans_name_mismatch_outcome :: "badge \<Rightarrow> string \<Rightarrow> string \<Rightarrow> verification_outcome" where
  "new_ans_name_mismatch_outcome b e a =
     (outcome_of OutcomeAnsNameMismatch)\<lparr>vo_badge := Some b, vo_expected := e, vo_actual := a\<rparr>"

definition new_dns_error_outcome :: "verify_error \<Rightarrow> verification_outcome" where
  "new_dns_error_outcome e = (outcome_of OutcomeDNSError)\<lparr>vo_error := Some e\<rparr>"

definition new_tlog_error_outcome :: "verify_error \<Rightarrow> verification_outcome" where
  "new_tlog_error_outcome e = (outcome_of OutcomeTlogError)\<lparr>vo_error := Some e\<rparr>"

definition new_url_validation_error_outcome :: "verify_error \<Rightarrow> verification_outcome" where
  "new_url_validation_error_outcome e = (outcome_of OutcomeURLValidationError)\<lparr>vo_error := Some e\<rparr>"

definition new_fail_open_outcome :: "verify_error option \<Rightarrow> verification_outcome" where
  "new_fail_open_outcome e = (outcome_of OutcomeFailOpen)\<lparr>vo_error := e\<rparr>"

definition new_dane_rejection_outcome :: "badge option \<Rightarrow> dane_outcome \<Rightarrow> verification_outcome" where
  "new_dane_rejection_outcome b d =
     (outcome_of OutcomeDANERejection)
       \<lparr>vo_badge := b, vo_error := map_option VE_Dane (do_error d), vo_dane := Some d\<rparr>"

definition new_cert_error_outcome :: "verify_error \<Rightarrow> verification_outcome" where
  "new_cert_error_outcome e = (outcome_of OutcomeCertError)\<lparr>vo_error := Some e\<rparr>"

definition new_scitt_error_outcome :: "verify_error \<Rightarrow> verification_outcome" where
  "new_scitt_error_outcome e = (outcome_of OutcomeScittError)\<lparr>vo_error := Some e\<rparr>"

definition outcome_is_success :: "verification_outcome \<Rightarrow> bool" where
  "outcome_is_success o1 = (vo_type o1 = OutcomeVerified \<or> vo_type o1 = OutcomeFailOpen)"

definition outcome_is_fail_open :: "verification_outcome \<Rightarrow> bool" where
  "outcome_is_fail_open o1 = (vo_type o1 = OutcomeFailOpen)"

definition outcome_is_not_ans_agent :: "verification_outcome \<Rightarrow> bool" where
  "outcome_is_not_ans_agent o1 = (vo_type o1 = OutcomeNotAnsAgent)"

definition outcome_to_error :: "verification_outcome \<Rightarrow> verify_error option" where
  "outcome_to_error o1 =
     (case vo_type o1 of
        OutcomeVerified \<Rightarrow> None
      | OutcomeFailOpen \<Rightarrow> None
      | OutcomeNotAnsAgent \<Rightarrow>
          (case vo_error o1 of
             Some e \<Rightarrow> Some e
           | None \<Rightarrow>
               let host = (if vo_host o1 = [] then ''unknown'' else vo_host o1)
               in Some (VE_Resolve (ErrDNS \<lparr>dns_err_type = DNSErrorNotFound, dns_err_fqdn = host\<rparr>)))
      | OutcomeInvalidStatus \<Rightarrow> Some (VE_Verification VerificationErrorInvalidStatus [] (vo_status o1))
      | OutcomeFingerprintMismatch \<Rightarrow>
          Some (VE_Verification VerificationErrorFingerprintMismatch (vo_expected o1) (vo_actual o1))
      | OutcomeHostnameMismatch \<Rightarrow>
          Some (VE_Verification VerificationErrorHostnameMismatch (vo_expected o1) (vo_actual o1))
      | OutcomeAnsNameMismatch \<Rightarrow>
          Some (VE_Verification VerificationErrorAnsNameMismatch (vo_expected o1) (vo_actual o1))
      | OutcomeDANERejection \<Rightarrow> vo_error o1
      | _ \<Rightarrow> vo_error o1)"

lemmas outcome_ctors =
  new_verified_outcome_def new_not_ans_agent_outcome_def new_invalid_status_outcome_def
  new_fingerprint_mismatch_outcome_def new_hostname_mismatch_outcome_def new_ans_name_mismatch_outcome_def
  new_dns_error_outcome_def new_tlog_error_outcome_def new_url_validation_error_outcome_def
  new_fail_open_outcome_def new_dane_rejection_outcome_def new_cert_error_outcome_def
  new_scitt_error_outcome_def outcome_of_def

lemma success_no_error: "outcome_is_success o1 \<Longrightarrow> outcome_to_error o1 = None"
  by (auto simp: outcome_is_success_def outcome_to_error_def)

text \<open>An outcome that is no success converts to an error, except for those that carry none.\<close>

lemma to_error_None_iff:
  "outcome_to_error o1 = None \<longleftrightarrow>
     outcome_is_success o1
     \<or> vo_error o1 = None \<and> vo_type o1 \<in> {OutcomeDANERejection, OutcomeDNSError, OutcomeTlogError,
          OutcomeCertError, OutcomeURLValidationError, OutcomeScittError}"
  by (cases "vo_type o1") (auto simp: outcome_is_success_def outcome_to_error_def Let_def split: option.splits)

section \<open>The transparency log client\<close>

text \<open>
  \<open>verify/tlog.go\<close>. The transport is a parameter: a request fails to be built, fails to be sent, or
  is answered with a status and a body, the first megabyte of which is decoded as JSON.
\<close>

datatype http_answer = Http_Bad_Request_Url | Http_No_Answer | Http_Answer nat bytes

definition max_badge_response_bytes :: nat where
  "max_badge_response_bytes = 1048576"

definition fetch_badge_http ::
  "(string \<Rightarrow> http_answer) \<Rightarrow> (bytes \<Rightarrow> badge option) \<Rightarrow> string \<Rightarrow> tlog_error + badge" where
  "fetch_badge_http http decode url =
     (case http url of
        Http_Bad_Request_Url \<Rightarrow> Inl \<lparr>tl_type = TlogErrorInvalidResponse, tl_url = url, tl_http_code = 0\<rparr>
      | Http_No_Answer \<Rightarrow> Inl \<lparr>tl_type = TlogErrorServiceUnavailable, tl_url = url, tl_http_code = 0\<rparr>
      | Http_Answer code body \<Rightarrow>
          if code = 404 then Inl \<lparr>tl_type = TlogErrorNotFound, tl_url = url, tl_http_code = code\<rparr>
          else if code \<ge> 500 then Inl \<lparr>tl_type = TlogErrorServiceUnavailable, tl_url = url, tl_http_code = code\<rparr>
          else if code \<noteq> 200 then Inl \<lparr>tl_type = TlogErrorInvalidResponse, tl_url = url, tl_http_code = code\<rparr>
          else (case decode (take max_badge_response_bytes body) of
                  None \<Rightarrow> Inl \<lparr>tl_type = TlogErrorInvalidResponse, tl_url = url, tl_http_code = 0\<rparr>
                | Some b \<Rightarrow> Inr b))"

record mock_tlog =
  mt_badges :: "string \<rightharpoonup> badge"
  mt_errors :: "string \<rightharpoonup> tlog_error"

definition new_mock_tlog :: mock_tlog where
  "new_mock_tlog = \<lparr>mt_badges = Map.empty, mt_errors = Map.empty\<rparr>"

definition mock_with_badge :: "mock_tlog \<Rightarrow> string \<Rightarrow> badge \<Rightarrow> mock_tlog" where
  "mock_with_badge m url b = m\<lparr>mt_badges := (mt_badges m)(url \<mapsto> b)\<rparr>"

definition mock_tlog_with_error :: "mock_tlog \<Rightarrow> string \<Rightarrow> tlog_error \<Rightarrow> mock_tlog" where
  "mock_tlog_with_error m url e = m\<lparr>mt_errors := (mt_errors m)(url \<mapsto> e)\<rparr>"

definition mock_fetch_badge :: "mock_tlog \<Rightarrow> string \<Rightarrow> tlog_error + badge" where
  "mock_fetch_badge m url =
     (case mt_errors m url of
        Some e \<Rightarrow> Inl e
      | None \<Rightarrow>
          (case mt_badges m url of
             Some b \<Rightarrow> Inr b
           | None \<Rightarrow> Inl \<lparr>tl_type = TlogErrorNotFound, tl_url = url, tl_http_code = 0\<rparr>))"

lemma fetch_badge_http_Inr:
  "fetch_badge_http http decode url = Inr b \<longleftrightarrow>
     (\<exists>body. http url = Http_Answer 200 body \<and> decode (take max_badge_response_bytes body) = Some b)"
  by (auto simp: fetch_badge_http_def split: http_answer.splits option.splits if_splits)

end
