(* ===== verification/Badge_Cache.thy ===== *)
theory Badge_Cache
  imports Models "HOL-Library.AList" "HOL-Library.Multiset"
begin

text \<open>
  The badge cache: \<open>verify/cache.go\<close>. A Go map is an association list with distinct keys, so that its
  size and an iteration over it have a meaning; the order of such an iteration is the parameter
  \<open>iter\<close>, a permutation of the keys. Every reading of the clock is an argument. The methods hold
  the cache's mutex from beginning to end, so each is one atomic step; \<open>refresh_expiring\<close>, which
  releases it between its steps, is composed of such steps.
\<close>

section \<open>Configuration and entries\<close>

definition nanos_per_minute :: int where
  "nanos_per_minute = 60 * 1000000000"

record cache_config =
  cc_max_entries :: int
  cc_default_ttl :: int
  cc_refresh_threshold :: int
  cc_stale_retention :: int

definition default_cache_config :: cache_config where
  "default_cache_config =
     \<lparr>cc_max_entries = 1000, cc_default_ttl = 5 * nanos_per_minute,
      cc_refresh_threshold = 1 * nanos_per_minute, cc_stale_retention = 10 * nanos_per_minute\<rparr>"

record cached_badge =
  cb_badge :: badge
  cb_fetched_at :: int
  cb_expires_at :: int

definition is_expired :: "int \<Rightarrow> cached_badge \<Rightarrow> bool" where
  "is_expired now c = (now > cb_expires_at c)"

definition should_refresh :: "int \<Rightarrow> int \<Rightarrow> cached_badge \<Rightarrow> bool" where
  "should_refresh now threshold c = (now + threshold > cb_expires_at c)"

record cache_entry =
  ce_badge :: cached_badge
  ce_expires_at :: int

type_synonym entry_map = "(string \<times> cache_entry) list"

record badge_cache =
  bc_config :: cache_config
  bc_by_fqdn :: entry_map
  bc_by_fqdn_ver :: entry_map

definition new_badge_cache :: "cache_config \<Rightarrow> badge_cache" where
  "new_badge_cache cfg = \<lparr>bc_config = cfg, bc_by_fqdn = [], bc_by_fqdn_ver = []\<rparr>"

definition new_badge_cache_with_defaults :: badge_cache where
  "new_badge_cache_with_defaults = new_badge_cache default_cache_config"

definition fqdn_key :: "fqdn \<Rightarrow> string" where
  "fqdn_key f = fqdn_value f"

definition fqdn_version_key :: "fqdn \<Rightarrow> version \<Rightarrow> string" where
  "fqdn_version_key f v = fqdn_value f @ '':'' @ version_string v"

section \<open>Lookups\<close>

definition get_by_fqdn :: "int \<Rightarrow> badge_cache \<Rightarrow> fqdn \<Rightarrow> cached_badge option" where
  "get_by_fqdn now c f =
     (case map_of (bc_by_fqdn c) (fqdn_key f) of
        None \<Rightarrow> None
      | Some e \<Rightarrow> if now > ce_expires_at e then None else Some (ce_badge e))"

definition get_by_fqdn_version :: "int \<Rightarrow> badge_cache \<Rightarrow> fqdn \<Rightarrow> version \<Rightarrow> cached_badge option" where
  "get_by_fqdn_version now c f v =
     (case map_of (bc_by_fqdn_ver c) (fqdn_version_key f v) of
        None \<Rightarrow> None
      | Some e \<Rightarrow> if now > ce_expires_at e then None else Some (ce_badge e))"

definition get_stale_by_fqdn :: "int \<Rightarrow> badge_cache \<Rightarrow> fqdn \<Rightarrow> int \<Rightarrow> cached_badge option" where
  "get_stale_by_fqdn now c f max_staleness =
     (case map_of (bc_by_fqdn c) (fqdn_key f) of
        None \<Rightarrow> None
      | Some e \<Rightarrow> if now - ce_expires_at e > max_staleness then None else Some (ce_badge e))"

definition get_stale_by_fqdn_version ::
  "int \<Rightarrow> badge_cache \<Rightarrow> fqdn \<Rightarrow> version \<Rightarrow> int \<Rightarrow> cached_badge option" where
  "get_stale_by_fqdn_version now c f v max_staleness =
     (case map_of (bc_by_fqdn_ver c) (fqdn_version_key f v) of
        None \<Rightarrow> None
      | Some e \<Rightarrow> if now - ce_expires_at e > max_staleness then None else Some (ce_badge e))"

section \<open>Eviction\<close>

text \<open>The first two loops delete what expired beyond the retention window, in any order.\<close>

definition drop_stale :: "int \<Rightarrow> entry_map \<Rightarrow> entry_map" where
  "drop_stale deadline m = filter (\<lambda>(k, e). \<not> deadline > ce_expires_at e) m"

text \<open>The last two loops delete whatever the iteration meets until enough is removed.\<close>

fun evict_keys :: "int \<Rightarrow> int \<Rightarrow> string list \<Rightarrow> entry_map \<Rightarrow> entry_map \<times> int" where
  "evict_keys to_remove removed [] m = (m, removed)"
| "evict_keys to_remove removed (k # ks) m =
     (if removed \<ge> to_remove then (m, removed)
      else evict_keys to_remove (removed + 1) ks (AList.delete k m))"

definition cleanup_locked :: "(string list \<Rightarrow> string list) \<Rightarrow> int \<Rightarrow> badge_cache \<Rightarrow> badge_cache" where
  "cleanup_locked iter now c =
     (let deadline = now - cc_stale_retention (bc_config c);
          m = drop_stale deadline (bc_by_fqdn c);
          mv = drop_stale deadline (bc_by_fqdn_ver c);
          total = int (length m) + int (length mv)
      in if total > cc_max_entries (bc_config c) then
           let to_remove = total - cc_max_entries (bc_config c);
               (m', removed) = evict_keys to_remove 0 (iter (map fst m)) m;
               (mv', _) = evict_keys to_remove removed (iter (map fst mv)) mv
           in c\<lparr>bc_by_fqdn := m', bc_by_fqdn_ver := mv'\<rparr>
         else c\<lparr>bc_by_fqdn := m, bc_by_fqdn_ver := mv\<rparr>)"

section \<open>Updates\<close>

definition make_entry :: "int \<Rightarrow> badge_cache \<Rightarrow> badge \<Rightarrow> cache_entry" where
  "make_entry now c b =
     (let expires_at = now + cc_default_ttl (bc_config c) in
      \<lparr>ce_badge = \<lparr>cb_badge = b, cb_fetched_at = now, cb_expires_at = expires_at\<rparr>,
       ce_expires_at = expires_at\<rparr>)"

text \<open>\<open>now\<close> is the reading of the insertion, \<open>now'\<close> the one of the clean-up that follows it.\<close>

definition insert_badge ::
  "(string list \<Rightarrow> string list) \<Rightarrow> int \<Rightarrow> int \<Rightarrow> badge_cache \<Rightarrow> fqdn \<Rightarrow> badge \<Rightarrow> badge_cache" where
  "insert_badge iter now now' c f b =
     cleanup_locked iter now' (c\<lparr>bc_by_fqdn := AList.update (fqdn_key f) (make_entry now c b) (bc_by_fqdn c)\<rparr>)"

definition insert_for_version ::
  "(string list \<Rightarrow> string list) \<Rightarrow> int \<Rightarrow> int \<Rightarrow> badge_cache \<Rightarrow> fqdn \<Rightarrow> version \<Rightarrow> badge \<Rightarrow> badge_cache" where
  "insert_for_version iter now now' c f v b =
     cleanup_locked iter now'
       (c\<lparr>bc_by_fqdn_ver := AList.update (fqdn_version_key f v) (make_entry now c b) (bc_by_fqdn_ver c)\<rparr>)"

definition clear_cache :: "badge_cache \<Rightarrow> badge_cache" where
  "clear_cache c = c\<lparr>bc_by_fqdn := [], bc_by_fqdn_ver := []\<rparr>"

text \<open>
  The background refresh: the keys that are due, in iteration order, then one fetch and one
  insertion for each. \<open>now_of\<close> gives the three clock readings made for a key.
\<close>

definition keys_to_refresh :: "(string list \<Rightarrow> string list) \<Rightarrow> (string \<Rightarrow> int) \<Rightarrow> badge_cache \<Rightarrow> string list" where
  "keys_to_refresh iter now_of c =
     filter (\<lambda>k. case map_of (bc_by_fqdn c) k of
                   None \<Rightarrow> False
                 | Some e \<Rightarrow> should_refresh (now_of k) (cc_refresh_threshold (bc_config c)) (ce_badge e))
       (iter (map fst (bc_by_fqdn c)))"

fun refresh_keys ::
  "(string list \<Rightarrow> string list) \<Rightarrow> (string \<Rightarrow> int \<times> int) \<Rightarrow> (string \<Rightarrow> 'e + badge) \<Rightarrow> string list
     \<Rightarrow> badge_cache \<Rightarrow> badge_cache" where
  "refresh_keys iter nows refresh [] c = c"
| "refresh_keys iter nows refresh (k # ks) c =
     (case refresh k of
        Inl _ \<Rightarrow> refresh_keys iter nows refresh ks c
      | Inr b \<Rightarrow>
          (case new_fqdn k of
             Inl _ \<Rightarrow> refresh_keys iter nows refresh ks c
           | Inr f \<Rightarrow> refresh_keys iter nows refresh ks
                        (insert_badge iter (fst (nows k)) (snd (nows k)) c f b)))"

definition refresh_expiring ::
  "(string list \<Rightarrow> string list) \<Rightarrow> (string \<Rightarrow> int) \<Rightarrow> (string \<Rightarrow> int \<times> int) \<Rightarrow> (string \<Rightarrow> 'e + badge)
     \<Rightarrow> badge_cache \<Rightarrow> badge_cache" where
  "refresh_expiring iter now_of nows refresh c =
     refresh_keys iter nows refresh (keys_to_refresh iter now_of c) c"

section \<open>The invariant\<close>

text \<open>Keys are distinct, and the two expiry times an entry stores agree.\<close>

definition entry_ok :: "cache_entry \<Rightarrow> bool" where
  "entry_ok e = (ce_expires_at e = cb_expires_at (ce_badge e))"

definition map_ok :: "entry_map \<Rightarrow> bool" where
  "map_ok m = (distinct (map fst m) \<and> list_all (\<lambda>(k, e). entry_ok e) m)"

definition cache_ok :: "badge_cache \<Rightarrow> bool" where
  "cache_ok c = (map_ok (bc_by_fqdn c) \<and> map_ok (bc_by_fqdn_ver c))"

definition cache_size :: "badge_cache \<Rightarrow> int" where
  "cache_size c = int (length (bc_by_fqdn c)) + int (length (bc_by_fqdn_ver c))"

definition permutes_keys :: "(string list \<Rightarrow> string list) \<Rightarrow> bool" where
  "permutes_keys iter = (\<forall>ks. mset (iter ks) = mset ks)"

lemma map_ok_distinct: "map_ok m \<Longrightarrow> distinct (map fst m)"
  by (simp add: map_ok_def)

lemma map_ok_filter: "map_ok m \<Longrightarrow> map_ok (filter P m)"
  by (auto simp: map_ok_def list_all_iff distinct_map inj_on_def)

lemma map_ok_drop_stale [simp]: "map_ok m \<Longrightarrow> map_ok (drop_stale d m)"
  by (simp add: drop_stale_def map_ok_filter)

lemma map_ok_delete [simp]: "map_ok m \<Longrightarrow> map_ok (AList.delete k m)"
  by (simp add: AList.delete_eq map_ok_filter)

lemma map_ok_update [simp]: "map_ok m \<Longrightarrow> entry_ok e \<Longrightarrow> map_ok (AList.update k e m)"
  by (induction m) (auto simp: map_ok_def AList.dom_update dom_update split: if_splits)

lemma entry_ok_make [simp]: "entry_ok (make_entry now c b)"
  by (simp add: entry_ok_def make_entry_def Let_def)

lemma evict_keys_ok [simp]: "map_ok m \<Longrightarrow> map_ok (fst (evict_keys t r ks m))"
  by (induction t r ks m rule: evict_keys.induct) auto

text \<open>\<open>shrinks m' m\<close>: every entry of \<open>m'\<close> is an entry of \<open>m\<close>.\<close>

definition shrinks :: "entry_map \<Rightarrow> entry_map \<Rightarrow> bool" where
  "shrinks m' m = (map_of m' \<subseteq>\<^sub>m map_of m)"

lemma shrinks_iff: "shrinks m' m \<longleftrightarrow> (\<forall>k e. map_of m' k = Some e \<longrightarrow> map_of m k = Some e)"
  unfolding shrinks_def map_le_def dom_def by force

lemma shrinksD: "shrinks m' m \<Longrightarrow> map_of m' k = Some e \<Longrightarrow> map_of m k = Some e"
  by (auto simp: shrinks_def map_le_def dom_def)

lemma shrinks_refl [simp]: "shrinks m m"
  by (simp add: shrinks_def)

lemma shrinks_trans: "shrinks a b \<Longrightarrow> shrinks b c \<Longrightarrow> shrinks a c"
  unfolding shrinks_def by (rule map_le_trans)

lemma map_of_drop_stale:
  "distinct (map fst m) \<Longrightarrow>
   map_of (drop_stale d m) k = Some e \<longleftrightarrow> map_of m k = Some e \<and> \<not> d > ce_expires_at e"
  by (simp add: drop_stale_def distinct_map_filter map_of_eq_Some_iff)

lemma shrinks_drop_stale: "map_ok m \<Longrightarrow> shrinks (drop_stale d m) m"
  by (simp only: shrinks_iff map_of_drop_stale [OF map_ok_distinct]) simp

lemma shrinks_delete: "shrinks (AList.delete k m) m"
  by (auto simp: shrinks_def AList.delete_conv map_le_def)

lemma shrinks_evict: "shrinks (fst (evict_keys t r ks m)) m"
proof (induction t r ks m rule: evict_keys.induct)
  case (2 t r k ks m)
  then show ?case by (auto intro: shrinks_trans shrinks_delete)
qed simp

lemma length_delete_key:
  "distinct (map fst m) \<Longrightarrow> k \<in> fst ` set m \<Longrightarrow> length (AList.delete k m) = length m - 1"
proof (induction m)
  case (Cons p m)
  obtain k' e where p: "p = (k', e)" by (cases p)
  show ?case
  proof (cases "k' = k")
    case True
    with Cons.prems p have "k \<notin> fst ` set m" by auto
    then have "AList.delete k m = m" by (force simp: AList.delete_eq filter_id_conv)
    with True p show ?thesis by simp
  next
    case False
    with Cons p have "k \<in> fst ` set m" by auto
    with Cons p False show ?thesis by (cases m) auto
  qed
qed simp

lemma evict_keys_size:
  "distinct (map fst m) \<Longrightarrow> distinct ks \<Longrightarrow> set ks \<subseteq> fst ` set m \<Longrightarrow>
   snd (evict_keys t r ks m) = (if t \<le> r then r else min t (r + int (length ks)))
   \<and> int (length (fst (evict_keys t r ks m))) + (snd (evict_keys t r ks m) - r) = int (length m)"
proof (induction t r ks m rule: evict_keys.induct)
  case (2 t r k ks m)
  then have l: "length (AList.delete k m) = length m - 1" "0 < length m"
    by (auto simp: length_delete_key)
  have "distinct (map fst (AList.delete k m))" "set ks \<subseteq> fst ` set (AList.delete k m)"
    using "2.prems" by (simp add: AList.distinct_delete) (use "2.prems" in \<open>force simp: AList.delete_eq\<close>)
  with 2 l show ?case by auto
qed simp

lemma cleanup_fields:
  "\<exists>ks t r ks' t' r'.
     bc_by_fqdn (cleanup_locked iter now c)
       = fst (evict_keys t r ks (drop_stale (now - cc_stale_retention (bc_config c)) (bc_by_fqdn c)))
   \<and> bc_by_fqdn_ver (cleanup_locked iter now c)
       = fst (evict_keys t' r' ks' (drop_stale (now - cc_stale_retention (bc_config c)) (bc_by_fqdn_ver c)))"
proof -
  have none: "m = fst (evict_keys 0 0 [] m)" for m by simp
  let ?d = "now - cc_stale_retention (bc_config c)"
  let ?m = "drop_stale ?d (bc_by_fqdn c)" and ?mv = "drop_stale ?d (bc_by_fqdn_ver c)"
  let ?t = "int (length ?m) + int (length ?mv) - cc_max_entries (bc_config c)"
  obtain m1 r1 where e1: "evict_keys ?t 0 (iter (map fst ?m)) ?m = (m1, r1)" by fastforce
  obtain m2 r2 where e2: "evict_keys ?t r1 (iter (map fst ?mv)) ?mv = (m2, r2)" by fastforce
  show ?thesis
  proof (cases "?t > 0")
    case True
    then have "cleanup_locked iter now c = c\<lparr>bc_by_fqdn := m1, bc_by_fqdn_ver := m2\<rparr>"
      using e1 e2 by (simp add: cleanup_locked_def Let_def)
    then have f: "bc_by_fqdn (cleanup_locked iter now c) = m1" "bc_by_fqdn_ver (cleanup_locked iter now c) = m2"
      by simp_all
    from e1 have m1: "m1 = fst (evict_keys ?t 0 (iter (map fst ?m)) ?m)" by simp
    from e2 have m2: "m2 = fst (evict_keys ?t r1 (iter (map fst ?mv)) ?mv)" by simp
    show ?thesis unfolding f by (subst m1, subst m2) blast
  next
    case False
    then have "cleanup_locked iter now c = c\<lparr>bc_by_fqdn := ?m, bc_by_fqdn_ver := ?mv\<rparr>"
      by (simp add: cleanup_locked_def Let_def)
    then have f: "bc_by_fqdn (cleanup_locked iter now c) = ?m" "bc_by_fqdn_ver (cleanup_locked iter now c) = ?mv"
      by simp_all
    show ?thesis unfolding f using none [of ?m] none [of ?mv] by blast
  qed
qed

lemma cleanup_ok [simp]: "cache_ok c \<Longrightarrow> cache_ok (cleanup_locked iter now c)"
  using cleanup_fields [of iter now c] by (auto simp: cache_ok_def)

lemma cleanup_config [simp]: "bc_config (cleanup_locked iter now c) = bc_config c"
  by (simp add: cleanup_locked_def Let_def split: prod.split)

lemma cleanup_shrinks:
  assumes "cache_ok c"
  shows "shrinks (bc_by_fqdn (cleanup_locked iter now c)) (bc_by_fqdn c)"
    and "shrinks (bc_by_fqdn_ver (cleanup_locked iter now c)) (bc_by_fqdn_ver c)"
  using cleanup_fields [of iter now c] assms shrinks_trans [OF shrinks_evict shrinks_drop_stale]
  by (auto simp: cache_ok_def)

lemma permutes_keysD:
  assumes "permutes_keys iter"
  shows "set (iter ks) = set ks" "distinct (iter ks) = distinct ks" "length (iter ks) = length ks"
  using assms unfolding permutes_keys_def
  by (metis set_mset_mset, metis mset_eq_imp_distinct_iff, metis size_mset)

lemma cleanup_size:
  assumes "cache_ok c" "permutes_keys iter"
  shows "cache_size (cleanup_locked iter now c) \<le> max 0 (cc_max_entries (bc_config c))"
proof -
  let ?m = "drop_stale (now - cc_stale_retention (bc_config c)) (bc_by_fqdn c)"
  let ?mv = "drop_stale (now - cc_stale_retention (bc_config c)) (bc_by_fqdn_ver c)"
  let ?max = "cc_max_entries (bc_config c)"
  let ?t = "int (length ?m) + int (length ?mv) - ?max"
  have d: "distinct (map fst ?m)" "distinct (map fst ?mv)"
    using assms(1) by (auto simp: cache_ok_def intro: map_ok_distinct)
  note it = permutes_keysD [OF assms(2)]
  obtain m1 r1 where e1: "evict_keys ?t 0 (iter (map fst ?m)) ?m = (m1, r1)" by fastforce
  obtain m2 r2 where e2: "evict_keys ?t r1 (iter (map fst ?mv)) ?mv = (m2, r2)" by fastforce
  have s1: "r1 = (if ?t \<le> 0 then 0 else min ?t (int (length ?m)))" "int (length m1) + r1 = int (length ?m)"
    using evict_keys_size [of ?m "iter (map fst ?m)" ?t 0] d it e1 by auto
  have s2: "r2 = (if ?t \<le> r1 then r1 else min ?t (r1 + int (length ?mv)))"
    "int (length m2) + (r2 - r1) = int (length ?mv)"
    using evict_keys_size [of ?mv "iter (map fst ?mv)" ?t r1] d it e2 by auto
  show ?thesis
    using s1 s2 e1 e2 by (auto simp: cache_size_def cleanup_locked_def Let_def split: if_splits)
qed

section \<open>What a store of badges promises its clients\<close>

text \<open>
  The verifiers see the cache through a lookup and an insertion. The contract: an insertion can
  only add its own badge under its own key; every other key keeps its entry or loses it. A client
  that starts from an empty store can then only ever be handed badges it has put in under that key.
\<close>

locale badge_store =
  fixes ok :: "'s \<Rightarrow> bool"
    and look :: "'s \<Rightarrow> 'k \<Rightarrow> cache_entry option"
    and ins :: "'m \<Rightarrow> 's \<Rightarrow> 'k \<Rightarrow> badge \<Rightarrow> 's"
  assumes ok_ins: "ok s \<Longrightarrow> ok (ins e s k b)"
    and look_ins_same: "ok s \<Longrightarrow> look (ins e s k b) k = Some x \<Longrightarrow> cb_badge (ce_badge x) = b"
    and look_ins_other: "ok s \<Longrightarrow> k' \<noteq> k \<Longrightarrow> look (ins e s k b) k' = Some x \<Longrightarrow> look s k' = Some x"
begin

definition inserts :: "('m \<times> 'k \<times> badge) list \<Rightarrow> 's \<Rightarrow> 's" where
  "inserts ops s = foldl (\<lambda>s (e, k, b). ins e s k b) s ops"

lemma inserts_snoc: "inserts (ops @ [(e, k, b)]) s = ins e (inserts ops s) k b"
  by (simp add: inserts_def)

lemma inserts_ok: "ok s \<Longrightarrow> ok (inserts ops s)"
  by (induction ops rule: rev_induct) (auto simp: inserts_def ok_ins)

lemma provenance:
  "ok s \<Longrightarrow> look (inserts ops s) k = Some x \<Longrightarrow>
   look s k = Some x \<or> (\<exists>e. (e, k, cb_badge (ce_badge x)) \<in> set ops)"
proof (induction ops rule: rev_induct)
  case Nil
  then show ?case by (simp add: inserts_def)
next
  case (snoc op ops)
  obtain e k' b where op: "op = (e, k', b)" by (cases op)
  note s = inserts_ok [OF snoc.prems(1)]
  show ?case
  proof (cases "k = k'")
    case True
    then show ?thesis
      using snoc.prems look_ins_same [OF s] op by (auto simp: inserts_snoc)
  next
    case False
    then have "look (inserts ops s) k = Some x"
      using snoc.prems look_ins_other [OF s False] op by (simp add: inserts_snoc)
    with snoc show ?thesis by auto
  qed
qed

end

type_synonym cache_moment = "(string list \<Rightarrow> string list) \<times> int \<times> int"

definition look_fqdn :: "badge_cache \<Rightarrow> fqdn \<Rightarrow> cache_entry option" where
  "look_fqdn c f = map_of (bc_by_fqdn c) (fqdn_key f)"

definition look_version :: "badge_cache \<Rightarrow> fqdn \<times> version \<Rightarrow> cache_entry option" where
  "look_version c k = map_of (bc_by_fqdn_ver c) (fqdn_version_key (fst k) (snd k))"

definition insert_at :: "cache_moment \<Rightarrow> badge_cache \<Rightarrow> fqdn \<Rightarrow> badge \<Rightarrow> badge_cache" where
  "insert_at e c f b = insert_badge (fst e) (fst (snd e)) (snd (snd e)) c f b"

definition insert_version_at :: "cache_moment \<Rightarrow> badge_cache \<Rightarrow> fqdn \<times> version \<Rightarrow> badge \<Rightarrow> badge_cache" where
  "insert_version_at e c k b = insert_for_version (fst e) (fst (snd e)) (snd (snd e)) c (fst k) (snd k) b"

lemma fqdn_key_inject [simp]: "fqdn_key f = fqdn_key g \<longleftrightarrow> f = g"
  by (cases f; cases g) (simp add: fqdn_key_def)

lemma colon_not_in_version: "CHR '':'' \<notin> set (version_string v)"
proof -
  have "\<not> is_digit (CHR '':'')" by (simp add: is_digit_def byte_val_def)
  then show ?thesis by (simp add: version_string_def show_nat_no_sep)
qed

lemma snoc_sep_inject:
  "c \<notin> set q \<Longrightarrow> c \<notin> set q' \<Longrightarrow> p @ c # q = p' @ c # q' \<longleftrightarrow> p = p' \<and> q = q'"
  by (auto simp: append_eq_append_conv2 append_eq_Cons_conv Cons_eq_append_conv)

text \<open>Two distinct pairs of name and version never share a key of the second map.\<close>

lemma fqdn_version_key_inject [simp]:
  "fqdn_version_key f v = fqdn_version_key g w \<longleftrightarrow> f = g \<and> v = w"
  by (cases f; cases g) (simp add: fqdn_version_key_def snoc_sep_inject colon_not_in_version)

lemma insert_badge_ok: "cache_ok c \<Longrightarrow> cache_ok (insert_badge iter now now' c f b)"
  unfolding insert_badge_def by (rule cleanup_ok) (simp add: cache_ok_def)

lemma insert_version_ok: "cache_ok c \<Longrightarrow> cache_ok (insert_for_version iter now now' c f v b)"
  unfolding insert_for_version_def by (rule cleanup_ok) (simp add: cache_ok_def)

lemma insert_config [simp]:
  "bc_config (insert_badge iter now now' c f b) = bc_config c"
  "bc_config (insert_for_version iter now now' c f v b) = bc_config c"
  by (simp_all add: insert_badge_def insert_for_version_def)

lemma insert_badge_entries:
  assumes "cache_ok c"
  shows "map_of (bc_by_fqdn (insert_badge iter now now' c f b)) k = Some x \<Longrightarrow>
           ((map_of (bc_by_fqdn c))(fqdn_key f \<mapsto> make_entry now c b)) k = Some x"
    and "map_of (bc_by_fqdn_ver (insert_badge iter now now' c f b)) k = Some x \<Longrightarrow>
           map_of (bc_by_fqdn_ver c) k = Some x"
proof -
  let ?c = "c\<lparr>bc_by_fqdn := AList.update (fqdn_key f) (make_entry now c b) (bc_by_fqdn c)\<rparr>"
  have ok: "cache_ok ?c" using assms by (simp add: cache_ok_def)
  note sh = cleanup_shrinks [OF ok, of iter now', folded insert_badge_def]
  show "map_of (bc_by_fqdn (insert_badge iter now now' c f b)) k = Some x \<Longrightarrow>
      ((map_of (bc_by_fqdn c))(fqdn_key f \<mapsto> make_entry now c b)) k = Some x"
    by (drule shrinksD [OF sh(1)]) (simp add: AList.update_conv)
  show "map_of (bc_by_fqdn_ver (insert_badge iter now now' c f b)) k = Some x \<Longrightarrow>
      map_of (bc_by_fqdn_ver c) k = Some x"
    by (drule shrinksD [OF sh(2)]) simp
qed

lemma insert_version_entries:
  assumes "cache_ok c"
  shows "map_of (bc_by_fqdn_ver (insert_for_version iter now now' c f v b)) k = Some x \<Longrightarrow>
           ((map_of (bc_by_fqdn_ver c))(fqdn_version_key f v \<mapsto> make_entry now c b)) k = Some x"
    and "map_of (bc_by_fqdn (insert_for_version iter now now' c f v b)) k = Some x \<Longrightarrow>
           map_of (bc_by_fqdn c) k = Some x"
proof -
  let ?c = "c\<lparr>bc_by_fqdn_ver := AList.update (fqdn_version_key f v) (make_entry now c b) (bc_by_fqdn_ver c)\<rparr>"
  have ok: "cache_ok ?c" using assms by (simp add: cache_ok_def)
  note sh = cleanup_shrinks [OF ok, of iter now', folded insert_for_version_def]
  show "map_of (bc_by_fqdn_ver (insert_for_version iter now now' c f v b)) k = Some x \<Longrightarrow>
      ((map_of (bc_by_fqdn_ver c))(fqdn_version_key f v \<mapsto> make_entry now c b)) k = Some x"
    by (drule shrinksD [OF sh(2)]) (simp add: AList.update_conv)
  show "map_of (bc_by_fqdn (insert_for_version iter now now' c f v b)) k = Some x \<Longrightarrow>
      map_of (bc_by_fqdn c) k = Some x"
    by (drule shrinksD [OF sh(1)]) simp
qed

lemma make_entry_badge [simp]: "cb_badge (ce_badge (make_entry now c b)) = b"
  by (simp add: make_entry_def Let_def)

interpretation by_fqdn: badge_store cache_ok look_fqdn insert_at
  by unfold_locales
    (auto simp: look_fqdn_def insert_at_def insert_badge_ok dest!: insert_badge_entries(1))

interpretation by_version: badge_store cache_ok look_version insert_version_at
  by unfold_locales
    (auto simp: look_version_def insert_version_at_def insert_version_ok
      split: if_splits dest!: insert_version_entries(1))

section \<open>Reachable caches\<close>

text \<open>
  Any interleaving of the cache's methods, with any clock readings and any iteration order.
  \<open>H\<close> is the history of insertions, the key's version absent for the map by name.
\<close>

inductive cache_reach ::
  "cache_config \<Rightarrow> (fqdn \<times> version option \<times> badge) set \<Rightarrow> badge_cache \<Rightarrow> bool" for cfg where
  init: "cache_reach cfg {} (new_badge_cache cfg)"
| step_insert: "cache_reach cfg H c \<Longrightarrow> permutes_keys iter \<Longrightarrow>
    cache_reach cfg (insert (f, None, b) H) (insert_badge iter now now' c f b)"
| step_version: "cache_reach cfg H c \<Longrightarrow> permutes_keys iter \<Longrightarrow>
    cache_reach cfg (insert (f, Some v, b) H) (insert_for_version iter now now' c f v b)"
| step_clear: "cache_reach cfg H c \<Longrightarrow> cache_reach cfg H (clear_cache c)"

lemma reach_config: "cache_reach cfg H c \<Longrightarrow> bc_config c = cfg"
  by (induction rule: cache_reach.induct) (simp_all add: new_badge_cache_def clear_cache_def)

lemma reach_ok: "cache_reach cfg H c \<Longrightarrow> cache_ok c"
  by (induction rule: cache_reach.induct)
    (simp_all add: insert_badge_ok insert_version_ok,
     simp_all add: new_badge_cache_def clear_cache_def cache_ok_def map_ok_def)

lemma insert_size:
  assumes "cache_ok c" "permutes_keys iter"
  shows "cache_size (insert_badge iter now now' c f b) \<le> max 0 (cc_max_entries (bc_config c))"
    and "cache_size (insert_for_version iter now now' c f v b) \<le> max 0 (cc_max_entries (bc_config c))"
proof -
  have ok: "cache_ok (c\<lparr>bc_by_fqdn := AList.update (fqdn_key f) (make_entry now c b) (bc_by_fqdn c)\<rparr>)"
    "cache_ok (c\<lparr>bc_by_fqdn_ver := AList.update (fqdn_version_key f v) (make_entry now c b) (bc_by_fqdn_ver c)\<rparr>)"
    using assms(1) by (simp_all add: cache_ok_def)
  show "cache_size (insert_badge iter now now' c f b) \<le> max 0 (cc_max_entries (bc_config c))"
    using cleanup_size [OF ok(1) assms(2), of now'] by (simp add: insert_badge_def)
  show "cache_size (insert_for_version iter now now' c f v b) \<le> max 0 (cc_max_entries (bc_config c))"
    using cleanup_size [OF ok(2) assms(2), of now'] by (simp add: insert_for_version_def)
qed

lemma reach_size: "cache_reach cfg H c \<Longrightarrow> cache_size c \<le> max 0 (cc_max_entries cfg)"
proof (induction rule: cache_reach.induct)
  case (step_insert H c iter f b now now')
  then show ?case using insert_size(1) reach_ok reach_config by metis
next
  case (step_version H c iter f v b now now')
  then show ?case using insert_size(2) reach_ok reach_config by metis
qed (simp_all add: new_badge_cache_def clear_cache_def cache_size_def)

definition entry_from :: "cache_config \<Rightarrow> cache_entry \<Rightarrow> bool" where
  "entry_from cfg e = (ce_expires_at e = cb_fetched_at (ce_badge e) + cc_default_ttl cfg
     \<and> cb_expires_at (ce_badge e) = ce_expires_at e)"

lemma entry_from_make: "bc_config c = cfg \<Longrightarrow> entry_from cfg (make_entry now c b)"
  by (simp add: entry_from_def make_entry_def Let_def)

text \<open>Every entry of a reachable cache was put there under its key, with the configured lifetime.\<close>

definition from_history :: "cache_config \<Rightarrow> (fqdn \<times> version option \<times> badge) set \<Rightarrow> badge_cache \<Rightarrow> bool" where
  "from_history cfg H c =
     ((\<forall>f e. look_fqdn c f = Some e \<longrightarrow> (f, None, cb_badge (ce_badge e)) \<in> H \<and> entry_from cfg e)
    \<and> (\<forall>f v e. look_version c (f, v) = Some e \<longrightarrow> (f, Some v, cb_badge (ce_badge e)) \<in> H \<and> entry_from cfg e))"

lemma reach_history: "cache_reach cfg H c \<Longrightarrow> from_history cfg H c"
proof (induction rule: cache_reach.induct)
  case (step_insert H c iter f b now now')
  note e = insert_badge_entries [OF reach_ok [OF step_insert.hyps(1)], of iter now now' f b]
  from step_insert show ?case
    by (fastforce simp: from_history_def look_fqdn_def look_version_def entry_from_make reach_config
        split: if_splits dest!: e)
next
  case (step_version H c iter f v b now now')
  note e = insert_version_entries [OF reach_ok [OF step_version.hyps(1)], of iter now now' f v b]
  from step_version show ?case
    by (fastforce simp: from_history_def look_fqdn_def look_version_def entry_from_make reach_config
        split: if_splits dest!: e)
qed (simp_all add: from_history_def look_fqdn_def look_version_def new_badge_cache_def clear_cache_def)

lemma get_by_fqdn_look:
  "get_by_fqdn now c f = Some x \<longleftrightarrow> (\<exists>e. look_fqdn c f = Some e \<and> now \<le> ce_expires_at e \<and> x = ce_badge e)"
  "get_by_fqdn_version now c f v = Some x \<longleftrightarrow>
     (\<exists>e. look_version c (f, v) = Some e \<and> now \<le> ce_expires_at e \<and> x = ce_badge e)"
  "get_stale_by_fqdn now c f s = Some x \<longleftrightarrow>
     (\<exists>e. look_fqdn c f = Some e \<and> now \<le> ce_expires_at e + s \<and> x = ce_badge e)"
  "get_stale_by_fqdn_version now c f v s = Some x \<longleftrightarrow>
     (\<exists>e. look_version c (f, v) = Some e \<and> now \<le> ce_expires_at e + s \<and> x = ce_badge e)"
  by (auto simp: get_by_fqdn_def get_by_fqdn_version_def get_stale_by_fqdn_def get_stale_by_fqdn_version_def
      look_fqdn_def look_version_def split: option.splits)

section \<open>A badge that fits is found again\<close>

lemma cleanup_keeps:
  assumes "cache_size c \<le> cc_max_entries (bc_config c)" "map_of (bc_by_fqdn c) k = Some e" "cache_ok c"
    and "now \<le> ce_expires_at e + cc_stale_retention (bc_config c)"
  shows "map_of (bc_by_fqdn (cleanup_locked iter now c)) k = Some e"
proof -
  have "length (drop_stale d m) \<le> length m" for d m by (simp add: drop_stale_def)
  then have "cleanup_locked iter now c =
      c\<lparr>bc_by_fqdn := drop_stale (now - cc_stale_retention (bc_config c)) (bc_by_fqdn c),
        bc_by_fqdn_ver := drop_stale (now - cc_stale_retention (bc_config c)) (bc_by_fqdn_ver c)\<rparr>"
    using assms(1) unfolding cleanup_locked_def Let_def cache_size_def
    by (smt (verit, ccfv_threshold) of_nat_mono)
  moreover have "map_of (drop_stale (now - cc_stale_retention (bc_config c)) (bc_by_fqdn c)) k = Some e"
    using assms by (subst map_of_drop_stale) (auto simp: cache_ok_def map_ok_def)
  ultimately show ?thesis by simp
qed

lemma insert_then_look:
  assumes "cache_ok c" "cache_size c < cc_max_entries (bc_config c)"
    and "now' \<le> now + cc_default_ttl (bc_config c) + cc_stale_retention (bc_config c)"
  shows "look_fqdn (insert_badge iter now now' c f b) f = Some (make_entry now c b)"
  unfolding look_fqdn_def insert_badge_def
  using assms length_update_le [of "fqdn_key f" "make_entry now c b" "bc_by_fqdn c"]
  by (intro cleanup_keeps)
    (auto simp: cache_size_def cache_ok_def AList.update_conv make_entry_def Let_def entry_ok_def
      intro!: map_ok_update)

section \<open>The refresh is a composition of insertions\<close>

definition refreshed :: "(string \<Rightarrow> 'e + badge) \<Rightarrow> string list \<Rightarrow> (fqdn \<times> version option \<times> badge) set" where
  "refreshed refresh ks = {(f, None, b) |f b. \<exists>k\<in>set ks. refresh k = Inr b \<and> new_fqdn k = Inr f}"

lemma refresh_keys_reach:
  "cache_reach cfg H c \<Longrightarrow> permutes_keys iter \<Longrightarrow>
   cache_reach cfg (H \<union> refreshed refresh ks) (refresh_keys iter nows refresh ks c)"
proof (induction ks arbitrary: H c)
  case Nil
  then show ?case by (simp add: refreshed_def)
next
  case (Cons k ks)
  show ?case
  proof (cases "\<exists>b f. refresh k = Inr b \<and> new_fqdn k = Inr f")
    case True
    then obtain b f where k: "refresh k = Inr b" "new_fqdn k = Inr f" by blast
    have "refreshed refresh (k # ks) = insert (f, None, b) (refreshed refresh ks)"
      using k by (auto simp: refreshed_def)
    with Cons.IH [OF step_insert [OF Cons.prems, of f b "fst (nows k)" "snd (nows k)"] Cons.prems(2)] k
    show ?thesis by simp
  next
    case False
    then have "refresh_keys iter nows refresh (k # ks) c = refresh_keys iter nows refresh ks c"
      by (auto split: sum.split)
    moreover have "refreshed refresh (k # ks) = refreshed refresh ks"
      using False by (auto simp: refreshed_def)
    ultimately show ?thesis using Cons by simp
  qed
qed

lemma refresh_keys_failing:
  "(\<And>k b. k \<in> set ks \<Longrightarrow> refresh k \<noteq> Inr b) \<Longrightarrow> refresh_keys iter nows refresh ks c = c"
proof (induction ks)
  case (Cons k ks)
  then have "\<exists>e. refresh k = Inl e" by (cases "refresh k") auto
  with Cons show ?case by auto
qed simp

lemma set_keys_to_refresh: "permutes_keys iter \<Longrightarrow> set (keys_to_refresh iter now_of c) =
   {k. \<exists>e. k \<in> fst ` set (bc_by_fqdn c) \<and> map_of (bc_by_fqdn c) k = Some e
         \<and> should_refresh (now_of k) (cc_refresh_threshold (bc_config c)) (ce_badge e)}"
  by (auto simp: keys_to_refresh_def permutes_keysD split: option.splits)

section \<open>Properties\<close>

text \<open>C26: In every cache the methods can produce, in any order and with any clock and any map
  iteration order, keys are distinct, the two expiry times of an entry agree, and the number of
  entries of the two maps together does not exceed \<open>MaxEntries\<close>.\<close>

theorem badge_cache_bounded:
  assumes "cache_reach cfg H c"
  shows "cache_ok c \<and> cache_size c \<le> max 0 (cc_max_entries cfg)"
  using reach_ok [OF assms] reach_size [OF assms] by simp

definition sample_badge :: badge where
  "sample_badge = \<lparr>badge_state = ''ACTIVE'',
     badge_payload_of = \<lparr>bp_log_id = [], bp_producer =
       \<lparr>pr_event = \<lparr>ev_ans_id = [], ev_ans_name = ''ans://v1.0.0.a.io'', ev_type = [],
          ev_agent = \<lparr>ai_host = ''a.io'', ai_name = ''a'', ai_version = ''1.0.0''\<rparr>,
          ev_attestations = \<lparr>domain_validation = [], att_identity_cert = None, att_server_cert = None\<rparr>,
          ev_expires_at = None, ev_issued_at = 0, ev_ra_id = [], ev_timestamp = 0\<rparr>,
        pr_key_id = [], pr_signature = []\<rparr>\<rparr>,
     badge_schema = [], badge_signature = None\<rparr>"

lemma permutes_id [simp]: "permutes_keys (\<lambda>ks. ks)"
  by (simp add: permutes_keys_def)

lemma permutes_rev [simp]: "permutes_keys rev"
  by (simp add: permutes_keys_def)

lemma sample_reach:
  "cache_reach cfg {(Fqdn ''a.io'', None, sample_badge)}
     (insert_badge (\<lambda>ks. ks) 10 11 (new_badge_cache cfg) (Fqdn ''a.io'') sample_badge)"
  by (rule cache_reach.intros(2) [OF cache_reach.init permutes_id])

theorem badge_cache_bounded_witness:
  "cache_size (insert_badge (\<lambda>ks. ks) 10 11 (new_badge_cache default_cache_config) (Fqdn ''a.io'') sample_badge)
     \<le> 1000"
  using badge_cache_bounded [OF sample_reach [of default_cache_config]]
  by (simp add: default_cache_config_def)

text \<open>C27: A lookup answers only with a badge that was inserted under exactly that name, or that
  name and version, whose expiry is its fetch time plus the configured lifetime; a fresh lookup
  only until that expiry, a stale one only within the given staleness of it.\<close>

theorem badge_cache_provenance:
  assumes "cache_reach cfg H c"
  shows "(get_by_fqdn now c f = Some x \<longrightarrow>
           (f, None, cb_badge x) \<in> H \<and> now \<le> cb_fetched_at x + cc_default_ttl cfg)
       \<and> (get_by_fqdn_version now c f v = Some x \<longrightarrow>
           (f, Some v, cb_badge x) \<in> H \<and> now \<le> cb_fetched_at x + cc_default_ttl cfg)
       \<and> (get_stale_by_fqdn now c f s = Some x \<longrightarrow>
           (f, None, cb_badge x) \<in> H \<and> now \<le> cb_fetched_at x + cc_default_ttl cfg + s)
       \<and> (get_stale_by_fqdn_version now c f v s = Some x \<longrightarrow>
           (f, Some v, cb_badge x) \<in> H \<and> now \<le> cb_fetched_at x + cc_default_ttl cfg + s)"
  using reach_history [OF assms]
  by (auto simp: get_by_fqdn_look from_history_def entry_from_def)

theorem badge_cache_provenance_witness:
  "let x = \<lparr>cb_badge = sample_badge, cb_fetched_at = 10, cb_expires_at = 10 + 5 * nanos_per_minute\<rparr>
   in (Fqdn ''a.io'', None, cb_badge x) \<in> {(Fqdn ''a.io'', None, sample_badge)}
      \<and> 12 \<le> cb_fetched_at x + cc_default_ttl default_cache_config"
proof -
  have "get_by_fqdn 12 (insert_badge (\<lambda>ks. ks) 10 11 (new_badge_cache default_cache_config)
      (Fqdn ''a.io'') sample_badge) (Fqdn ''a.io'') =
    Some \<lparr>cb_badge = sample_badge, cb_fetched_at = 10, cb_expires_at = 10 + 5 * nanos_per_minute\<rparr>"
    by (simp add: insert_badge_def cleanup_locked_def drop_stale_def make_entry_def Let_def new_badge_cache_def
        default_cache_config_def fqdn_key_def get_by_fqdn_def nanos_per_minute_def)
  with badge_cache_provenance [OF sample_reach [of default_cache_config]] show ?thesis
    unfolding Let_def by blast
qed

text \<open>Below the size limit a badge that was just inserted is found until it expires, provided
  the clock did not run past the retention window during the insertion.\<close>

theorem badge_insert_then_get:
  assumes "cache_ok c" "cache_size c < cc_max_entries (bc_config c)"
    and "now' \<le> now + cc_default_ttl (bc_config c) + cc_stale_retention (bc_config c)"
    and "t \<le> now + cc_default_ttl (bc_config c)"
  shows "map_option cb_badge (get_by_fqdn t (insert_badge iter now now' c f b) f) = Some b"
  using insert_then_look [OF assms(1-3), of iter f b] assms(4)
  by (simp add: get_by_fqdn_def look_fqdn_def) (simp add: make_entry_def Let_def)

theorem badge_insert_then_get_witness:
  "map_option cb_badge (get_by_fqdn 12
     (insert_badge rev 10 11 (new_badge_cache default_cache_config) (Fqdn ''a.io'') sample_badge)
     (Fqdn ''a.io'')) = Some sample_badge"
  by (rule badge_insert_then_get)
    (simp_all add: new_badge_cache_def default_cache_config_def cache_ok_def map_ok_def cache_size_def
      nanos_per_minute_def)

text \<open>The background refresh is a run of insertions, one for each due key whose fetch
  succeeded, so it stays within the reachable caches; when every fetch fails it changes nothing.\<close>

theorem refresh_expiring_reach:
  assumes "cache_reach cfg H c" "permutes_keys iter"
  shows "cache_reach cfg (H \<union> refreshed refresh (keys_to_refresh iter now_of c))
           (refresh_expiring iter now_of nows refresh c)
       \<and> ((\<forall>k\<in>set (keys_to_refresh iter now_of c). \<not> is_ok (refresh k)) \<longrightarrow>
           refresh_expiring iter now_of nows refresh c = c)"
proof (intro conjI impI)
  show "cache_reach cfg (H \<union> refreshed refresh (keys_to_refresh iter now_of c))
      (refresh_expiring iter now_of nows refresh c)"
    unfolding refresh_expiring_def by (rule refresh_keys_reach [OF assms])
  assume "\<forall>k\<in>set (keys_to_refresh iter now_of c). \<not> is_ok (refresh k)"
  then show "refresh_expiring iter now_of nows refresh c = c"
    unfolding refresh_expiring_def by (intro refresh_keys_failing) fastforce
qed

theorem refresh_expiring_reach_witness:
  "cache_reach default_cache_config
     ({(Fqdn ''a.io'', None, sample_badge)} \<union> refreshed (\<lambda>k. Inl ()) (keys_to_refresh rev (\<lambda>k. 0)
        (insert_badge (\<lambda>ks. ks) 10 11 (new_badge_cache default_cache_config) (Fqdn ''a.io'') sample_badge)))
     (refresh_expiring rev (\<lambda>k. 0) (\<lambda>k. (0, 0)) (\<lambda>k. Inl ())
        (insert_badge (\<lambda>ks. ks) 10 11 (new_badge_cache default_cache_config) (Fqdn ''a.io'') sample_badge))"
  using refresh_expiring_reach [OF sample_reach permutes_rev] by blast

text \<open>The size clean-up does not prefer old entries: with room for one entry and an older
  unexpired entry present, an insertion can evict the badge it has just inserted and keep the
  older one.\<close>

theorem eviction_ignores_age:
  "let c = insert_badge (\<lambda>ks. ks) 10 11 (new_badge_cache (default_cache_config\<lparr>cc_max_entries := 1\<rparr>))
             (Fqdn ''a.io'') sample_badge;
       c' = insert_badge rev 20 21 c (Fqdn ''b.io'') sample_badge
   in get_by_fqdn 22 c' (Fqdn ''b.io'') = None
      \<and> map_option cb_fetched_at (get_by_fqdn 22 c' (Fqdn ''a.io'')) = Some 10"
  by (simp add: insert_badge_def cleanup_locked_def drop_stale_def make_entry_def Let_def new_badge_cache_def
      default_cache_config_def fqdn_key_def get_by_fqdn_def nanos_per_minute_def)

end
