(* ===== verification/Verifier.thy ===== *)
theory Verifier
  imports Outcome Badge_Cache Headers
begin

text \<open>
  The verifiers: \<open>verify/verify.go\<close> with its options (\<open>verify/options.go\<close>) and failure policy
  (\<open>verify/policy.go\<close>). The configuration is a record; the badge cache it points to is part of it
  and returned updated. What a call reads from outside is the record \<open>verify_env\<close>: the DNS
  resolver, the transparency log client, the clock readings in the order they are made, and the
  library parameters. Logging is not modelled.
\<close>

section \<open>Configuration\<close>

datatype failure_policy = FailClosed | FailOpenWithCache | FailOpen

definition default_max_staleness :: int where
  "default_max_staleness = 10 * nanos_per_minute"

definition default_clock_skew_tolerance :: int where
  "default_clock_skew_tolerance = 120 * nanos_per_second"

record 'k verifier_config =
  vc_cache :: "badge_cache option"
  vc_policy :: failure_policy
  vc_max_staleness :: int
  vc_url_validator :: "url_validator option"
  vc_dane :: "dane_resolver option"
  vc_scitt_keys :: "'k key_lookup option"
  vc_clock_skew :: int

definition default_config :: "unicode \<Rightarrow> 'k verifier_config" where
  "default_config u =
     \<lparr>vc_cache = None, vc_policy = FailClosed, vc_max_staleness = default_max_staleness,
      vc_url_validator = Some (new_default_url_validator u), vc_dane = None, vc_scitt_keys = None,
      vc_clock_skew = default_clock_skew_tolerance\<rparr>"

definition with_cache :: "badge_cache \<Rightarrow> 'k verifier_config \<Rightarrow> 'k verifier_config" where
  "with_cache c cfg = cfg\<lparr>vc_cache := Some c\<rparr>"

definition with_cache_config :: "cache_config \<Rightarrow> 'k verifier_config \<Rightarrow> 'k verifier_config" where
  "with_cache_config cc cfg = cfg\<lparr>vc_cache := Some (new_badge_cache cc)\<rparr>"

definition with_failure_policy :: "failure_policy \<Rightarrow> 'k verifier_config \<Rightarrow> 'k verifier_config" where
  "with_failure_policy p cfg = cfg\<lparr>vc_policy := p\<rparr>"

definition with_failure_policy_config :: "int \<Rightarrow> 'k verifier_config \<Rightarrow> 'k verifier_config" where
  "with_failure_policy_config max_stale cfg = cfg\<lparr>vc_max_staleness := max_stale\<rparr>"

definition with_trusted_ra_domains :: "unicode \<Rightarrow> string list \<Rightarrow> 'k verifier_config \<Rightarrow> 'k verifier_config" where
  "with_trusted_ra_domains u ds cfg = cfg\<lparr>vc_url_validator := Some (new_url_validator u ds)\<rparr>"

definition without_url_validation :: "'k verifier_config \<Rightarrow> 'k verifier_config" where
  "without_url_validation cfg = cfg\<lparr>vc_url_validator := None\<rparr>"

definition with_dane_resolver :: "dane_resolver \<Rightarrow> 'k verifier_config \<Rightarrow> 'k verifier_config" where
  "with_dane_resolver d cfg = cfg\<lparr>vc_dane := Some d\<rparr>"

definition with_scitt_key_lookup :: "'k key_lookup \<Rightarrow> 'k verifier_config \<Rightarrow> 'k verifier_config" where
  "with_scitt_key_lookup kl cfg = cfg\<lparr>vc_scitt_keys := Some kl\<rparr>"

definition with_clock_skew_tolerance :: "int \<Rightarrow> 'k verifier_config \<Rightarrow> 'k verifier_config" where
  "with_clock_skew_tolerance d cfg =
     (let d = (if d < 0 then 0 else d);
          max_skew = 10 * nanos_per_minute;
          d = (if d > max_skew then max_skew else d)
      in cfg\<lparr>vc_clock_skew := d\<rparr>)"

definition new_verifier :: "unicode \<Rightarrow> ('k verifier_config \<Rightarrow> 'k verifier_config) list \<Rightarrow> 'k verifier_config" where
  "new_verifier u opts = foldl (\<lambda>cfg opt. opt cfg) (default_config u) opts"

text \<open>
  \<open>en_preferred\<close> and \<open>en_for_version\<close> are the resolver's two methods, a nil record being \<open>Inr None\<close>;
  \<open>en_fetch\<close> is \<open>FetchBadge\<close>. \<open>en_now_get\<close>, \<open>en_insert\<close>, \<open>en_now_stale\<close> and \<open>en_now_token\<close> are what
  the lookup, the insertion, the stale lookup and the token check read of the clock.
\<close>

record 'k verify_env =
  en_preferred :: "fqdn \<Rightarrow> resolve_error + badge_record option"
  en_for_version :: "fqdn \<Rightarrow> version \<Rightarrow> resolve_error + badge_record option"
  en_fetch :: "string \<Rightarrow> tlog_error + badge"
  en_now_get :: int
  en_insert :: cache_moment
  en_now_stale :: int
  en_now_token :: int64
  en_unicode :: unicode
  en_bracket_ok :: "string \<Rightarrow> bool"
  en_sha256 :: "bytes \<Rightarrow> bytes"
  en_sha512 :: "bytes \<Rightarrow> bytes"
  en_cbor :: cbor_lib
  en_crypto :: "'k crypto"

section \<open>The failure policy\<close>

definition apply_fail_open_with_cache ::
  "'k verify_env \<Rightarrow> 'k verifier_config \<Rightarrow> fqdn \<Rightarrow> version option \<Rightarrow> verification_outcome \<Rightarrow> verification_outcome"
where
  "apply_fail_open_with_cache env cfg f ver err =
     (case vc_cache cfg of
        None \<Rightarrow> err
      | Some c \<Rightarrow>
          (case (case ver of
                   Some v \<Rightarrow> get_stale_by_fqdn_version (en_now_stale env) c f v (vc_max_staleness cfg)
                 | None \<Rightarrow> get_stale_by_fqdn (en_now_stale env) c f (vc_max_staleness cfg)) of
             Some cached \<Rightarrow> (outcome_of OutcomeFailOpen)\<lparr>vo_badge := Some (cb_badge cached)\<rparr>
           | None \<Rightarrow> err))"

definition apply_failure_policy ::
  "'k verify_env \<Rightarrow> 'k verifier_config \<Rightarrow> fqdn \<Rightarrow> version option \<Rightarrow> verification_outcome \<Rightarrow> verification_outcome"
where
  "apply_failure_policy env cfg f ver err =
     (case vc_policy cfg of
        FailClosed \<Rightarrow> err
      | FailOpenWithCache \<Rightarrow> apply_fail_open_with_cache env cfg f ver err
      | FailOpen \<Rightarrow> new_fail_open_outcome (vo_error err))"

section \<open>The optional DANE check\<close>

definition default_dane_port :: "16 word" where
  "default_dane_port = 443"

text \<open>The rejection, if any, and the outcome with the DANE result recorded in it.\<close>

definition verify_dane ::
  "'k verify_env \<Rightarrow> 'k verifier_config \<Rightarrow> fqdn \<Rightarrow> cert_identity \<Rightarrow> verification_outcome
     \<Rightarrow> verification_outcome option \<times> verification_outcome" where
  "verify_dane env cfg f cert out =
     (case vc_dane cfg of
        None \<Rightarrow> (None, out)
      | Some resolver \<Rightarrow>
          let d = dane_verify (en_sha256 env) (en_sha512 env) (en_unicode env) resolver f default_dane_port (Some cert)
          in if dane_is_reject d then (Some (new_dane_rejection_outcome (vo_badge out) d), out)
             else if dane_is_pass d \<and> do_type d = DANEVerified then (None, out\<lparr>vo_dane := Some d\<rparr>)
             else (None, out))"

definition finish_with_dane ::
  "'k verify_env \<Rightarrow> 'k verifier_config \<Rightarrow> fqdn \<Rightarrow> cert_identity \<Rightarrow> verification_outcome \<Rightarrow> verification_outcome" where
  "finish_with_dane env cfg f cert out =
     (case verify_dane env cfg f cert out of (Some rejection, _) \<Rightarrow> rejection | (None, out') \<Rightarrow> out')"

definition validate_badge_url ::
  "'k verify_env \<Rightarrow> 'k verifier_config \<Rightarrow> string \<Rightarrow> verification_outcome option" where
  "validate_badge_url env cfg url =
     (case vc_url_validator cfg of
        None \<Rightarrow> None
      | Some v \<Rightarrow>
          (case validate_url (en_unicode env) (en_bracket_ok env) v url of
             Some e \<Rightarrow> Some (new_url_validation_error_outcome (VE_Url e))
           | None \<Rightarrow> None))"

section \<open>Fetching a badge\<close>

text \<open>
  \<open>fetchBadge\<close> of the two verifiers: they differ in the resolver's method and in the cache key the
  failure policy looks under. Beside its result it returns the URLs it calls \<open>FetchBadge\<close> of the
  transparency log client with, in order; so do the operations of the badge path that call it.
\<close>

definition fetch_badge_calls ::
  "'k verify_env \<Rightarrow> 'k verifier_config \<Rightarrow> fqdn \<Rightarrow> version option \<Rightarrow> (verification_outcome + badge) \<times> string list"
where
  "fetch_badge_calls env cfg f ver =
     (case (case ver of None \<Rightarrow> en_preferred env f | Some v \<Rightarrow> en_for_version env f v) of
        Inl e \<Rightarrow>
          if e = ErrRecordNotFound then (Inl (new_not_ans_agent_outcome (fqdn_value f)), [])
          else (Inl (apply_failure_policy env cfg f ver (new_dns_error_outcome (VE_Resolve e))), [])
      | Inr None \<Rightarrow> (Inl (new_not_ans_agent_outcome (fqdn_value f)), [])
      | Inr (Some rec) \<Rightarrow>
          (case validate_badge_url env cfg (br_url rec) of
             Some out \<Rightarrow> (Inl out, [])
           | None \<Rightarrow>
               (case en_fetch env (br_url rec) of
                  Inl e \<Rightarrow>
                    (Inl (apply_failure_policy env cfg f ver (new_tlog_error_outcome (VE_Tlog e))), [br_url rec])
                | Inr b \<Rightarrow> (Inr b, [br_url rec]))))"

definition fetch_badge ::
  "'k verify_env \<Rightarrow> 'k verifier_config \<Rightarrow> fqdn \<Rightarrow> version option \<Rightarrow> verification_outcome + badge" where
  "fetch_badge env cfg f ver = fst (fetch_badge_calls env cfg f ver)"

lemma fetch_badge_eq:
  "fetch_badge env cfg f ver =
     (case (case ver of None \<Rightarrow> en_preferred env f | Some v \<Rightarrow> en_for_version env f v) of
        Inl e \<Rightarrow>
          if e = ErrRecordNotFound then Inl (new_not_ans_agent_outcome (fqdn_value f))
          else Inl (apply_failure_policy env cfg f ver (new_dns_error_outcome (VE_Resolve e)))
      | Inr None \<Rightarrow> Inl (new_not_ans_agent_outcome (fqdn_value f))
      | Inr (Some rec) \<Rightarrow>
          (case validate_badge_url env cfg (br_url rec) of
             Some out \<Rightarrow> Inl out
           | None \<Rightarrow>
               (case en_fetch env (br_url rec) of
                  Inl e \<Rightarrow> Inl (apply_failure_policy env cfg f ver (new_tlog_error_outcome (VE_Tlog e)))
                | Inr b \<Rightarrow> Inr b)))"
  by (simp add: fetch_badge_def fetch_badge_calls_def split: sum.split option.split)

definition server_fetch_badge :: "'k verify_env \<Rightarrow> 'k verifier_config \<Rightarrow> fqdn \<Rightarrow> verification_outcome + badge" where
  "server_fetch_badge env cfg f = fetch_badge env cfg f None"

definition client_fetch_badge ::
  "'k verify_env \<Rightarrow> 'k verifier_config \<Rightarrow> fqdn \<Rightarrow> version \<Rightarrow> verification_outcome + badge" where
  "client_fetch_badge env cfg f v = fetch_badge env cfg f (Some v)"

section \<open>Comparing a certificate with a badge\<close>

definition deprecated_warning :: string where
  "deprecated_warning = ''badge status is DEPRECATED''"

definition verified_with_warning :: "badge \<Rightarrow> cert_fingerprint \<Rightarrow> verification_outcome" where
  "verified_with_warning b fp =
     (let out = new_verified_outcome b fp in
      if badge_state b = BadgeStatusDeprecated
      then out\<lparr>vo_warnings := vo_warnings out @ [deprecated_warning]\<rparr> else out)"

definition server_verify_with_badge :: "unicode \<Rightarrow> badge \<Rightarrow> cert_identity \<Rightarrow> fqdn \<Rightarrow> verification_outcome" where
  "server_verify_with_badge u b cert f =
     (if \<not> badge_status_valid (badge_state b) then new_invalid_status_outcome b (badge_state b)
      else let expected = server_cert_fingerprint b in
      if \<not> fp_matches (ci_fingerprint cert) expected
      then new_fingerprint_mismatch_outcome b expected (fp_string (ci_fingerprint cert))
      else if \<not> equal_fold u (agent_host b) (fqdn_value f)
      then new_hostname_mismatch_outcome b (fqdn_value f) (agent_host b)
      else case cert_fqdn cert of
          Some cf \<Rightarrow>
            if \<not> equal_fold u cf (agent_host b) then new_hostname_mismatch_outcome b (agent_host b) cf
            else verified_with_warning b (ci_fingerprint cert)
        | None \<Rightarrow> verified_with_warning b (ci_fingerprint cert))"

definition client_verify_with_badge ::
  "unicode \<Rightarrow> badge \<Rightarrow> cert_identity \<Rightarrow> fqdn \<Rightarrow> ans_name \<Rightarrow> verification_outcome" where
  "client_verify_with_badge u b cert f name =
     (if \<not> badge_status_valid (badge_state b) then new_invalid_status_outcome b (badge_state b)
      else let expected = identity_cert_fingerprint b in
      if \<not> fp_matches (ci_fingerprint cert) expected
      then new_fingerprint_mismatch_outcome b expected (fp_string (ci_fingerprint cert))
      else if \<not> equal_fold u (agent_host b) (fqdn_value f)
      then new_hostname_mismatch_outcome b (fqdn_value f) (agent_host b)
      else if \<not> equal_fold u (agent_name b) (an_raw name)
      then new_ans_name_mismatch_outcome b (agent_name b) (an_raw name)
      else verified_with_warning b (ci_fingerprint cert))"

section \<open>The badge path\<close>

text \<open>Every operation returns its outcome and the configuration with the cache it leaves.\<close>

definition cache_insert ::
  "'k verify_env \<Rightarrow> fqdn \<Rightarrow> version option \<Rightarrow> badge \<Rightarrow> 'k verifier_config \<Rightarrow> 'k verifier_config" where
  "cache_insert env f ver b cfg =
     (case vc_cache cfg of
        None \<Rightarrow> cfg
      | Some c \<Rightarrow>
          (case ver of
             None \<Rightarrow> cfg\<lparr>vc_cache := Some (insert_at (en_insert env) c f b)\<rparr>
           | Some v \<Rightarrow> cfg\<lparr>vc_cache := Some (insert_version_at (en_insert env) c (f, v) b)\<rparr>))"

definition server_fresh_calls ::
  "'k verify_env \<Rightarrow> 'k verifier_config \<Rightarrow> fqdn \<Rightarrow> cert_identity
     \<Rightarrow> (verification_outcome \<times> 'k verifier_config) \<times> string list" where
  "server_fresh_calls env cfg f cert =
     (case fetch_badge_calls env cfg f None of
        (Inl out, urls) \<Rightarrow> ((out, cfg), urls)
      | (Inr b, urls) \<Rightarrow>
          let cfg' = cache_insert env f None b cfg;
              out = server_verify_with_badge (en_unicode env) b cert f
          in if \<not> outcome_is_success out then ((out, cfg'), urls)
             else ((finish_with_dane env cfg' f cert out, cfg'), urls))"

definition server_verify_calls ::
  "'k verify_env \<Rightarrow> 'k verifier_config \<Rightarrow> fqdn \<Rightarrow> cert_identity
     \<Rightarrow> (verification_outcome \<times> 'k verifier_config) \<times> string list" where
  "server_verify_calls env cfg f cert =
     (case (case vc_cache cfg of None \<Rightarrow> None | Some c \<Rightarrow> get_by_fqdn (en_now_get env) c f) of
        Some cached \<Rightarrow>
          let result = server_verify_with_badge (en_unicode env) (cb_badge cached) cert f in
          if vo_type result \<noteq> OutcomeFingerprintMismatch then ((result, cfg), [])
          else server_fresh_calls env cfg f cert
      | None \<Rightarrow> server_fresh_calls env cfg f cert)"

definition server_prefetch_calls ::
  "'k verify_env \<Rightarrow> 'k verifier_config \<Rightarrow> fqdn
     \<Rightarrow> ((badge option \<times> verify_error option) \<times> 'k verifier_config) \<times> string list" where
  "server_prefetch_calls env cfg f =
     (case (case vc_cache cfg of None \<Rightarrow> None | Some c \<Rightarrow> get_by_fqdn (en_now_get env) c f) of
        Some cached \<Rightarrow> (((Some (cb_badge cached), None), cfg), [])
      | None \<Rightarrow>
          (case fetch_badge_calls env cfg f None of
             (Inl out, urls) \<Rightarrow> (((None, outcome_to_error out), cfg), urls)
           | (Inr b, urls) \<Rightarrow> (((Some b, None), cache_insert env f None b cfg), urls)))"

definition client_verify_calls ::
  "'k verify_env \<Rightarrow> 'k verifier_config \<Rightarrow> cert_identity
     \<Rightarrow> (verification_outcome \<times> 'k verifier_config) \<times> string list" where
  "client_verify_calls env cfg cert =
     (case cert_fqdn cert of
        None \<Rightarrow> ((new_cert_error_outcome (VE_Verification VerificationErrorNoCN [] []), cfg), [])
      | Some d \<Rightarrow>
     case new_fqdn d of
        Inl e \<Rightarrow> ((new_cert_error_outcome (VE_Fqdn e), cfg), [])
      | Inr f \<Rightarrow>
     case cert_ans_name (en_unicode env) cert of
        None \<Rightarrow> ((new_cert_error_outcome (VE_Verification VerificationErrorNoURISAN [] []), cfg), [])
      | Some name \<Rightarrow>
     let v = an_version name in
     case (case vc_cache cfg of None \<Rightarrow> None | Some c \<Rightarrow> get_by_fqdn_version (en_now_get env) c f v) of
        Some cached \<Rightarrow> ((client_verify_with_badge (en_unicode env) (cb_badge cached) cert f name, cfg), [])
      | None \<Rightarrow>
     case fetch_badge_calls env cfg f (Some v) of
        (Inl out, urls) \<Rightarrow> ((out, cfg), urls)
      | (Inr b, urls) \<Rightarrow>
          let cfg' = cache_insert env f (Some v) b cfg;
              out = client_verify_with_badge (en_unicode env) b cert f name
          in if \<not> outcome_is_success out then ((out, cfg'), urls)
             else ((finish_with_dane env cfg' f cert out, cfg'), urls))"

text \<open>The results alone, which is what the rest of the development is about.\<close>

definition server_fresh ::
  "'k verify_env \<Rightarrow> 'k verifier_config \<Rightarrow> fqdn \<Rightarrow> cert_identity \<Rightarrow> verification_outcome \<times> 'k verifier_config"
where
  "server_fresh env cfg f cert = fst (server_fresh_calls env cfg f cert)"

definition server_verify ::
  "'k verify_env \<Rightarrow> 'k verifier_config \<Rightarrow> fqdn \<Rightarrow> cert_identity \<Rightarrow> verification_outcome \<times> 'k verifier_config"
where
  "server_verify env cfg f cert = fst (server_verify_calls env cfg f cert)"

definition server_prefetch ::
  "'k verify_env \<Rightarrow> 'k verifier_config \<Rightarrow> fqdn \<Rightarrow> (badge option \<times> verify_error option) \<times> 'k verifier_config"
where
  "server_prefetch env cfg f = fst (server_prefetch_calls env cfg f)"

definition client_verify ::
  "'k verify_env \<Rightarrow> 'k verifier_config \<Rightarrow> cert_identity \<Rightarrow> verification_outcome \<times> 'k verifier_config" where
  "client_verify env cfg cert = fst (client_verify_calls env cfg cert)"

lemma server_fresh_eq:
  "server_fresh env cfg f cert =
     (case server_fetch_badge env cfg f of
        Inl out \<Rightarrow> (out, cfg)
      | Inr b \<Rightarrow>
          let cfg' = cache_insert env f None b cfg;
              out = server_verify_with_badge (en_unicode env) b cert f
          in if \<not> outcome_is_success out then (out, cfg')
             else (finish_with_dane env cfg' f cert out, cfg'))"
  by (simp add: server_fresh_def server_fresh_calls_def server_fetch_badge_def fetch_badge_def Let_def
      split: prod.split sum.split)

lemma server_verify_eq:
  "server_verify env cfg f cert =
     (case (case vc_cache cfg of None \<Rightarrow> None | Some c \<Rightarrow> get_by_fqdn (en_now_get env) c f) of
        Some cached \<Rightarrow>
          let result = server_verify_with_badge (en_unicode env) (cb_badge cached) cert f in
          if vo_type result \<noteq> OutcomeFingerprintMismatch then (result, cfg)
          else server_fresh env cfg f cert
      | None \<Rightarrow> server_fresh env cfg f cert)"
  by (simp add: server_verify_def server_verify_calls_def server_fresh_def Let_def split: option.split)

lemma server_prefetch_eq:
  "server_prefetch env cfg f =
     (case (case vc_cache cfg of None \<Rightarrow> None | Some c \<Rightarrow> get_by_fqdn (en_now_get env) c f) of
        Some cached \<Rightarrow> ((Some (cb_badge cached), None), cfg)
      | None \<Rightarrow>
          (case server_fetch_badge env cfg f of
             Inl out \<Rightarrow> ((None, outcome_to_error out), cfg)
           | Inr b \<Rightarrow> ((Some b, None), cache_insert env f None b cfg)))"
  by (simp add: server_prefetch_def server_prefetch_calls_def server_fetch_badge_def fetch_badge_def
      split: option.split prod.split sum.split)

lemma client_verify_eq:
  "client_verify env cfg cert =
     (case cert_fqdn cert of
        None \<Rightarrow> (new_cert_error_outcome (VE_Verification VerificationErrorNoCN [] []), cfg)
      | Some d \<Rightarrow>
     case new_fqdn d of
        Inl e \<Rightarrow> (new_cert_error_outcome (VE_Fqdn e), cfg)
      | Inr f \<Rightarrow>
     case cert_ans_name (en_unicode env) cert of
        None \<Rightarrow> (new_cert_error_outcome (VE_Verification VerificationErrorNoURISAN [] []), cfg)
      | Some name \<Rightarrow>
     let v = an_version name in
     case (case vc_cache cfg of None \<Rightarrow> None | Some c \<Rightarrow> get_by_fqdn_version (en_now_get env) c f v) of
        Some cached \<Rightarrow> (client_verify_with_badge (en_unicode env) (cb_badge cached) cert f name, cfg)
      | None \<Rightarrow>
     case client_fetch_badge env cfg f v of
        Inl out \<Rightarrow> (out, cfg)
      | Inr b \<Rightarrow>
          let cfg' = cache_insert env f (Some v) b cfg;
              out = client_verify_with_badge (en_unicode env) b cert f name
          in if \<not> outcome_is_success out then (out, cfg')
             else (finish_with_dane env cfg' f cert out, cfg'))"
  by (simp add: client_verify_def client_verify_calls_def client_fetch_badge_def fetch_badge_def Let_def
      split: option.split prod.split sum.split)

section \<open>The SCITT path\<close>

datatype cert_role = Role_Server | Role_Identity

definition agent_deprecated_warning :: string where
  "agent_deprecated_warning = ''agent status is DEPRECATED''"

definition scitt_fallback :: "scitt_error \<Rightarrow> bool" where
  "scitt_fallback e = (case e of ErrTransport te \<Rightarrow> should_fallback_to_badge te | _ \<Rightarrow> False)"

text \<open>The checks on a token whose signature, expiry and status class have been verified.\<close>

definition check_token ::
  "unicode \<Rightarrow> status_payload \<Rightarrow> cert_role \<Rightarrow> bytes \<Rightarrow> fqdn \<Rightarrow> scitt_refusal option" where
  "check_token u p role fp f =
     (if \<not> status_valid_for_connection (sp_status p) then Some (Status_Not_Allowed (sp_status p))
      else if \<not> (case role of Role_Server \<Rightarrow> matches_server_cert p fp | Role_Identity \<Rightarrow> matches_identity_cert p fp)
      then Some Fingerprint_Not_Listed
      else case parse_ans_name u (sp_ans_name p) of
          Inl _ \<Rightarrow> Some Token_Ans_Name_Invalid
        | Inr name \<Rightarrow>
            if \<not> equal_fold u (an_host name) (fqdn_value f)
            then Some (Token_Host_Mismatch (an_host name) (fqdn_value f)) else None)"

definition scitt_verified_outcome :: "cert_identity \<Rightarrow> status_payload \<Rightarrow> verification_outcome" where
  "scitt_verified_outcome cert p =
     (outcome_of OutcomeVerified)
       \<lparr>vo_tier := TierFullScitt, vo_fingerprint := Some (ci_fingerprint cert),
        vo_warnings := (if sp_status p = StatusDeprecated then [agent_deprecated_warning] else [])\<rparr>"

definition verify_with_headers ::
  "'k verify_env \<Rightarrow> 'k verifier_config \<Rightarrow> fqdn \<Rightarrow> cert_identity \<Rightarrow> scitt_headers \<Rightarrow> cert_role
     \<Rightarrow> verification_outcome \<times> 'k verifier_config \<Rightarrow> verification_outcome \<times> 'k verifier_config" where
  "verify_with_headers env cfg f cert h role badge_fallback =
     (case vc_scitt_keys cfg of
        None \<Rightarrow> (new_scitt_error_outcome (VE_Refused No_Key_Lookup), cfg)
      | Some keys \<Rightarrow>
     case verify_receipt (en_cbor env) (en_crypto env) keys (sh_receipt h) of
        Inl e \<Rightarrow> if scitt_fallback e then badge_fallback else (new_scitt_error_outcome (VE_Scitt e), cfg)
      | Inr receipt \<Rightarrow>
     case verify_status_token_at (en_unicode env) (en_cbor env) (en_crypto env) keys (sh_status_token h)
            (vc_clock_skew cfg) (en_now_token env) of
        Inl e \<Rightarrow> if scitt_fallback e then badge_fallback else (new_scitt_error_outcome (VE_Scitt e), cfg)
      | Inr vt \<Rightarrow>
     case check_token (en_unicode env) (vt_payload vt) role (fp_bytes (ci_fingerprint cert)) f of
        Some r \<Rightarrow> (new_scitt_error_outcome (VE_Refused r), cfg)
      | None \<Rightarrow>
          (finish_with_dane env cfg f cert (scitt_verified_outcome cert (vt_payload vt)), cfg))"

text \<open>A nil \<open>*scitt.Headers\<close> is \<open>None\<close>.\<close>

definition server_verify_with_scitt ::
  "'k verify_env \<Rightarrow> 'k verifier_config \<Rightarrow> fqdn \<Rightarrow> cert_identity \<Rightarrow> scitt_headers option
     \<Rightarrow> verification_outcome \<times> 'k verifier_config" where
  "server_verify_with_scitt env cfg f cert headers =
     (case headers of
        None \<Rightarrow> server_verify env cfg f cert
      | Some h \<Rightarrow>
          if headers_is_empty h then server_verify env cfg f cert
          else if \<not> headers_has_both h then (new_scitt_error_outcome (VE_Refused Headers_Incomplete), cfg)
          else verify_with_headers env cfg f cert h Role_Server (server_verify env cfg f cert))"

definition client_verify_with_scitt ::
  "'k verify_env \<Rightarrow> 'k verifier_config \<Rightarrow> cert_identity \<Rightarrow> scitt_headers option
     \<Rightarrow> verification_outcome \<times> 'k verifier_config" where
  "client_verify_with_scitt env cfg cert headers =
     (case headers of
        None \<Rightarrow> client_verify env cfg cert
      | Some h \<Rightarrow>
          if headers_is_empty h then client_verify env cfg cert
          else if \<not> headers_has_both h then (new_scitt_error_outcome (VE_Refused Headers_Incomplete), cfg)
          else case cert_fqdn cert of
              None \<Rightarrow> (new_cert_error_outcome (VE_Verification VerificationErrorNoCN [] []), cfg)
            | Some d \<Rightarrow>
          case new_fqdn d of
              Inl e \<Rightarrow> (new_cert_error_outcome (VE_Fqdn e), cfg)
            | Inr f \<Rightarrow>
          if cert_ans_name (en_unicode env) cert = None
          then (new_cert_error_outcome (VE_Verification VerificationErrorNoURISAN [] []), cfg)
          else verify_with_headers env cfg f cert h Role_Identity (client_verify env cfg cert))"

section \<open>The facade\<close>

definition ans_verify_server ::
  "'k verify_env \<Rightarrow> 'k verifier_config \<Rightarrow> string \<Rightarrow> cert_identity \<Rightarrow> verification_outcome \<times> 'k verifier_config"
where
  "ans_verify_server env cfg d cert =
     (case new_fqdn d of
        Inl e \<Rightarrow> (new_cert_error_outcome (VE_Fqdn e), cfg)
      | Inr f \<Rightarrow> server_verify env cfg f cert)"

definition ans_verify_client ::
  "'k verify_env \<Rightarrow> 'k verifier_config \<Rightarrow> cert_identity \<Rightarrow> verification_outcome \<times> 'k verifier_config" where
  "ans_verify_client env cfg cert = client_verify env cfg cert"

definition ans_verify_server_with_scitt ::
  "'k verify_env \<Rightarrow> 'k verifier_config \<Rightarrow> string \<Rightarrow> cert_identity \<Rightarrow> scitt_headers option
     \<Rightarrow> verification_outcome \<times> 'k verifier_config" where
  "ans_verify_server_with_scitt env cfg d cert headers =
     (case new_fqdn d of
        Inl e \<Rightarrow> (new_cert_error_outcome (VE_Fqdn e), cfg)
      | Inr f \<Rightarrow> server_verify_with_scitt env cfg f cert headers)"

definition ans_verify_client_with_scitt ::
  "'k verify_env \<Rightarrow> 'k verifier_config \<Rightarrow> cert_identity \<Rightarrow> scitt_headers option
     \<Rightarrow> verification_outcome \<times> 'k verifier_config" where
  "ans_verify_client_with_scitt env cfg cert headers = client_verify_with_scitt env cfg cert headers"

definition ans_prefetch ::
  "'k verify_env \<Rightarrow> 'k verifier_config \<Rightarrow> string \<Rightarrow> (badge option \<times> verify_error option) \<times> 'k verifier_config"
where
  "ans_prefetch env cfg d =
     (case new_fqdn d of
        Inl e \<Rightarrow> ((None, Some (VE_Fqdn e)), cfg)
      | Inr f \<Rightarrow> server_prefetch env cfg f)"

section \<open>What the comparisons establish\<close>

definition vouches_server :: "unicode \<Rightarrow> badge \<Rightarrow> cert_identity \<Rightarrow> fqdn \<Rightarrow> bool" where
  "vouches_server u b cert f =
     (badge_status_valid (badge_state b)
      \<and> fp_matches (ci_fingerprint cert) (server_cert_fingerprint b)
      \<and> equal_fold u (agent_host b) (fqdn_value f)
      \<and> (\<forall>cf. cert_fqdn cert = Some cf \<longrightarrow> equal_fold u cf (agent_host b)))"

definition vouches_client :: "unicode \<Rightarrow> badge \<Rightarrow> cert_identity \<Rightarrow> fqdn \<Rightarrow> ans_name \<Rightarrow> bool" where
  "vouches_client u b cert f name =
     (badge_status_valid (badge_state b)
      \<and> fp_matches (ci_fingerprint cert) (identity_cert_fingerprint b)
      \<and> equal_fold u (agent_host b) (fqdn_value f)
      \<and> equal_fold u (agent_name b) (an_raw name))"

lemma verified_with_warning_simps [simp]:
  "vo_type (verified_with_warning b fp) = OutcomeVerified"
  "vo_tier (verified_with_warning b fp) = TierBadgeOnly"
  "vo_badge (verified_with_warning b fp) = Some b"
  "vo_fingerprint (verified_with_warning b fp) = Some fp"
  "vo_dane (verified_with_warning b fp) = None"
  by (simp_all add: verified_with_warning_def Let_def outcome_ctors)

lemma verified_with_warning_success [simp]: "outcome_is_success (verified_with_warning b fp)"
  by (simp add: outcome_is_success_def)

lemma server_verify_with_badge_ok:
  "vouches_server u b cert f \<Longrightarrow> server_verify_with_badge u b cert f = verified_with_warning b (ci_fingerprint cert)"
  by (auto simp: server_verify_with_badge_def vouches_server_def Let_def split: option.split)

lemma server_verify_with_badge_type:
  "vo_type (server_verify_with_badge u b cert f) = OutcomeVerified \<longleftrightarrow> vouches_server u b cert f"
  "outcome_is_success (server_verify_with_badge u b cert f) \<longleftrightarrow> vouches_server u b cert f"
  by (auto simp: server_verify_with_badge_def vouches_server_def Let_def outcome_ctors outcome_is_success_def
      split: option.split)

lemma client_verify_with_badge_ok:
  "vouches_client u b cert f name \<Longrightarrow>
     client_verify_with_badge u b cert f name = verified_with_warning b (ci_fingerprint cert)"
  by (auto simp: client_verify_with_badge_def vouches_client_def Let_def)

lemma client_verify_with_badge_type:
  "vo_type (client_verify_with_badge u b cert f name) = OutcomeVerified \<longleftrightarrow> vouches_client u b cert f name"
  "outcome_is_success (client_verify_with_badge u b cert f name) \<longleftrightarrow> vouches_client u b cert f name"
  by (auto simp: client_verify_with_badge_def vouches_client_def Let_def outcome_ctors outcome_is_success_def)

section \<open>Where a verified outcome comes from\<close>

text \<open>
  \<open>fetched\<close>: the resolver named a record for the query, its URL passed the validator, and the log
  answered with the badge.
\<close>

definition resolve_record :: "'k verify_env \<Rightarrow> fqdn \<Rightarrow> version option \<Rightarrow> resolve_error + badge_record option" where
  "resolve_record env f ver = (case ver of None \<Rightarrow> en_preferred env f | Some v \<Rightarrow> en_for_version env f v)"

definition fetched :: "'k verify_env \<Rightarrow> 'k verifier_config \<Rightarrow> fqdn \<Rightarrow> version option \<Rightarrow> badge \<Rightarrow> bool" where
  "fetched env cfg f ver b =
     (\<exists>rec. resolve_record env f ver = Inr (Some rec)
        \<and> (\<forall>v. vc_url_validator cfg = Some v \<longrightarrow>
              validate_url (en_unicode env) (en_bracket_ok env) v (br_url rec) = None)
        \<and> en_fetch env (br_url rec) = Inr b)"

lemma validate_badge_url_None_iff:
  "validate_badge_url env cfg url = None \<longleftrightarrow>
     (\<forall>v. vc_url_validator cfg = Some v \<longrightarrow> validate_url (en_unicode env) (en_bracket_ok env) v url = None)"
  by (auto simp: validate_badge_url_def split: option.splits)

lemma fetch_badge_Inr [accepts]: "fetch_badge env cfg f ver = Inr b \<Longrightarrow> fetched env cfg f ver b"
  by (auto simp: fetch_badge_eq fetched_def resolve_record_def validate_badge_url_None_iff
      split: sum.splits option.splits if_splits)

definition infrastructure_failure :: "'k verify_env \<Rightarrow> fqdn \<Rightarrow> version option \<Rightarrow> bool" where
  "infrastructure_failure env f ver =
     ((\<exists>e. resolve_record env f ver = Inl e \<and> e \<noteq> ErrRecordNotFound)
      \<or> (\<exists>rec e. resolve_record env f ver = Inr (Some rec) \<and> en_fetch env (br_url rec) = Inl e))"

lemma policy_success:
  "outcome_is_success (apply_failure_policy env cfg f ver err) \<Longrightarrow> \<not> outcome_is_success err \<Longrightarrow>
     vo_type (apply_failure_policy env cfg f ver err) = OutcomeFailOpen \<and> vc_policy cfg \<noteq> FailClosed"
  by (auto simp: apply_failure_policy_def apply_fail_open_with_cache_def outcome_ctors outcome_is_success_def
      split: failure_policy.splits option.splits)

lemma not_success_ctors [simp]:
  "\<not> outcome_is_success (new_not_ans_agent_outcome h)"
  "\<not> outcome_is_success (new_dns_error_outcome e)"
  "\<not> outcome_is_success (new_tlog_error_outcome e)"
  "\<not> outcome_is_success (new_cert_error_outcome e)"
  "\<not> outcome_is_success (new_scitt_error_outcome e)"
  "\<not> outcome_is_success (new_url_validation_error_outcome e)"
  "\<not> outcome_is_success (new_dane_rejection_outcome b d)"
  by (simp_all add: outcome_is_success_def outcome_ctors)

lemma fetch_badge_success:
  "fetch_badge env cfg f ver = Inl out \<Longrightarrow> outcome_is_success out \<Longrightarrow>
     vo_type out = OutcomeFailOpen \<and> vc_policy cfg \<noteq> FailClosed \<and> infrastructure_failure env f ver"
  by (auto simp: fetch_badge_eq infrastructure_failure_def resolve_record_def validate_badge_url_def
      dest!: policy_success split: sum.splits option.splits if_splits)

lemma fetch_badge_not_Verified: "fetch_badge env cfg f ver = Inl out \<Longrightarrow> vo_type out \<noteq> OutcomeVerified"
proof
  assume a: "fetch_badge env cfg f ver = Inl out" and v: "vo_type out = OutcomeVerified"
  from v have "outcome_is_success out" by (simp add: outcome_is_success_def)
  from fetch_badge_success [OF a this] v show False by simp
qed

definition dane_allows :: "'k verify_env \<Rightarrow> 'k verifier_config \<Rightarrow> fqdn \<Rightarrow> cert_identity \<Rightarrow> bool" where
  "dane_allows env cfg f cert =
     (\<forall>d. vc_dane cfg = Some d \<longrightarrow>
        \<not> dane_is_reject (dane_verify (en_sha256 env) (en_sha512 env) (en_unicode env) d f default_dane_port (Some cert)))"

lemma finish_with_dane_type:
  "vo_type out = OutcomeVerified \<Longrightarrow>
     vo_type (finish_with_dane env cfg f cert out) = (if dane_allows env cfg f cert then OutcomeVerified else OutcomeDANERejection)"
  by (auto simp: finish_with_dane_def verify_dane_def dane_allows_def Let_def outcome_ctors split: option.splits)

lemma finish_with_dane_allowed:
  "dane_allows env cfg f cert \<Longrightarrow>
     vo_badge (finish_with_dane env cfg f cert out) = vo_badge out
   \<and> vo_tier (finish_with_dane env cfg f cert out) = vo_tier out
   \<and> vo_fingerprint (finish_with_dane env cfg f cert out) = vo_fingerprint out"
  by (auto simp: finish_with_dane_def verify_dane_def dane_allows_def Let_def split: option.splits)

lemma cache_insert_fields [simp]:
  "vc_dane (cache_insert env f ver b cfg) = vc_dane cfg"
  "vc_policy (cache_insert env f ver b cfg) = vc_policy cfg"
  "vc_url_validator (cache_insert env f ver b cfg) = vc_url_validator cfg"
  by (auto simp: cache_insert_def split: option.split)

lemma dane_allows_insert [simp]: "dane_allows env (cache_insert env f' ver b cfg) f cert = dane_allows env cfg f cert"
  by (simp add: dane_allows_def)

definition cached_badge_of :: "'k verify_env \<Rightarrow> 'k verifier_config \<Rightarrow> fqdn \<Rightarrow> version option \<Rightarrow> badge option" where
  "cached_badge_of env cfg f ver =
     (case vc_cache cfg of
        None \<Rightarrow> None
      | Some c \<Rightarrow>
          map_option cb_badge
            (case ver of None \<Rightarrow> get_by_fqdn (en_now_get env) c f
             | Some v \<Rightarrow> get_by_fqdn_version (en_now_get env) c f v))"

text \<open>A badge that vouches, from the cache or fresh from the log and past DANE.\<close>

definition badge_evidence ::
  "'k verify_env \<Rightarrow> 'k verifier_config \<Rightarrow> fqdn \<Rightarrow> version option \<Rightarrow> cert_identity \<Rightarrow> badge \<Rightarrow> bool" where
  "badge_evidence env cfg f ver cert b =
     (cached_badge_of env cfg f ver = Some b \<or> fetched env cfg f ver b \<and> dane_allows env cfg f cert)"

lemma finish_verified:
  assumes "vo_type (finish_with_dane env cfg f cert (verified_with_warning b fp)) = OutcomeVerified"
  shows "dane_allows env cfg f cert"
    and "vo_badge (finish_with_dane env cfg f cert (verified_with_warning b fp)) = Some b"
    and "vo_tier (finish_with_dane env cfg f cert (verified_with_warning b fp)) = TierBadgeOnly"
proof -
  show d: "dane_allows env cfg f cert"
    using assms finish_with_dane_type [of "verified_with_warning b fp" env cfg f cert] by (simp split: if_splits)
  show "vo_badge (finish_with_dane env cfg f cert (verified_with_warning b fp)) = Some b"
    "vo_tier (finish_with_dane env cfg f cert (verified_with_warning b fp)) = TierBadgeOnly"
    using finish_with_dane_allowed [OF d, of "verified_with_warning b fp"] by simp_all
qed

lemma server_fresh_Verified:
  assumes "server_fresh env cfg f cert = (out, cfg')" "vo_type out = OutcomeVerified"
  shows "\<exists>b. vo_badge out = Some b \<and> vo_tier out = TierBadgeOnly \<and> vouches_server (en_unicode env) b cert f
     \<and> fetched env cfg f None b \<and> dane_allows env cfg f cert"
proof (cases "server_fetch_badge env cfg f")
  case (Inl o1)
  then have "out = o1" using assms(1) by (simp add: server_fresh_eq)
  with assms(2) fetch_badge_not_Verified [OF Inl [unfolded server_fetch_badge_def]] show ?thesis by simp
next
  case (Inr b)
  have f: "fetched env cfg f None b" using Inr by (simp add: server_fetch_badge_def fetch_badge_Inr)
  have v: "vouches_server (en_unicode env) b cert f"
    using assms Inr server_verify_with_badge_type
    by (auto simp: server_fresh_eq Let_def split: if_splits)
  then have o1: "out = finish_with_dane env (cache_insert env f None b cfg) f cert (verified_with_warning b (ci_fingerprint cert))"
    using assms(1) Inr
    by (auto simp: server_fresh_eq Let_def server_verify_with_badge_type server_verify_with_badge_ok)
  show ?thesis
    using finish_verified [OF assms(2) [unfolded o1]] f v unfolding o1 by simp
qed

lemma server_verify_Verified:
  assumes "server_verify env cfg f cert = (out, cfg')" "vo_type out = OutcomeVerified"
  shows "\<exists>b. vo_badge out = Some b \<and> vo_tier out = TierBadgeOnly \<and> vouches_server (en_unicode env) b cert f
     \<and> badge_evidence env cfg f None cert b"
proof (cases "\<exists>b. cached_badge_of env cfg f None = Some b
    \<and> vo_type (server_verify_with_badge (en_unicode env) b cert f) \<noteq> OutcomeFingerprintMismatch")
  case True
  then obtain b where b: "cached_badge_of env cfg f None = Some b"
    "vo_type (server_verify_with_badge (en_unicode env) b cert f) \<noteq> OutcomeFingerprintMismatch" by blast
  then have "out = server_verify_with_badge (en_unicode env) b cert f"
    using assms(1) by (auto simp: server_verify_eq cached_badge_of_def Let_def split: option.splits)
  then have "vouches_server (en_unicode env) b cert f"
    using assms(2) server_verify_with_badge_type(1) by blast
  then show ?thesis
    using \<open>out = _\<close> b by (simp add: server_verify_with_badge_ok badge_evidence_def)
next
  case False
  then have "server_fresh env cfg f cert = (out, cfg')"
    using assms(1) by (auto simp: server_verify_eq cached_badge_of_def Let_def split: option.splits)
  from server_fresh_Verified [OF this assms(2)] show ?thesis by (auto simp: badge_evidence_def)
qed

definition client_subject :: "unicode \<Rightarrow> cert_identity \<Rightarrow> fqdn \<Rightarrow> ans_name \<Rightarrow> bool" where
  "client_subject u cert f name =
     (\<exists>d. cert_fqdn cert = Some d \<and> new_fqdn d = Inr f \<and> cert_ans_name u cert = Some name)"

lemma client_verify_subject:
  assumes "client_subject (en_unicode env) cert f name"
  shows "client_verify env cfg cert =
     (case cached_badge_of env cfg f (Some (an_version name)) of
        Some b \<Rightarrow> (client_verify_with_badge (en_unicode env) b cert f name, cfg)
      | None \<Rightarrow>
          (case fetch_badge env cfg f (Some (an_version name)) of
             Inl out \<Rightarrow> (out, cfg)
           | Inr b \<Rightarrow>
               (if \<not> vouches_client (en_unicode env) b cert f name
                then client_verify_with_badge (en_unicode env) b cert f name
                else finish_with_dane env (cache_insert env f (Some (an_version name)) b cfg) f cert
                       (verified_with_warning b (ci_fingerprint cert)),
                cache_insert env f (Some (an_version name)) b cfg)))"
  using assms
  by (auto simp: client_subject_def client_verify_eq Let_def cached_badge_of_def client_fetch_badge_def
      client_verify_with_badge_type client_verify_with_badge_ok split: option.split sum.split)

text \<open>What the operations call the log client with: at most what the one fetch of theirs calls it with.\<close>

lemma fetch_badge_calls_url:
  "url \<in> set (snd (fetch_badge_calls env cfg f ver)) \<Longrightarrow>
     \<exists>rec. resolve_record env f ver = Inr (Some rec) \<and> url = br_url rec
       \<and> (\<forall>v. vc_url_validator cfg = Some v \<longrightarrow> validate_url (en_unicode env) (en_bracket_ok env) v url = None)"
  by (auto simp: fetch_badge_calls_def resolve_record_def validate_badge_url_None_iff
      split: sum.splits option.splits if_splits)

lemma server_calls_fetch:
  "set (snd (server_verify_calls env cfg f cert)) \<subseteq> set (snd (fetch_badge_calls env cfg f None))"
  "set (snd (server_prefetch_calls env cfg f)) \<subseteq> set (snd (fetch_badge_calls env cfg f None))"
  by (auto simp: server_verify_calls_def server_fresh_calls_def server_prefetch_calls_def Let_def
      split: option.splits prod.splits sum.splits if_splits)

lemma client_calls_fetch:
  "url \<in> set (snd (client_verify_calls env cfg cert)) \<Longrightarrow>
     \<exists>f name. client_subject (en_unicode env) cert f name
       \<and> url \<in> set (snd (fetch_badge_calls env cfg f (Some (an_version name))))"
  by (auto simp: client_verify_calls_def client_subject_def Let_def
      split: option.splits prod.splits sum.splits if_splits)

lemma client_verify_no_subject:
  assumes "\<nexists>f name. client_subject (en_unicode env) cert f name"
  shows "\<not> outcome_is_success (fst (client_verify env cfg cert)) \<and> snd (client_verify env cfg cert) = cfg"
  using assms by (auto simp: client_subject_def client_verify_eq split: option.split sum.split)

lemma client_verify_Verified:
  assumes "client_verify env cfg cert = (out, cfg')" "vo_type out = OutcomeVerified"
  shows "\<exists>f name b. client_subject (en_unicode env) cert f name \<and> vo_badge out = Some b \<and> vo_tier out = TierBadgeOnly
     \<and> vouches_client (en_unicode env) b cert f name \<and> badge_evidence env cfg f (Some (an_version name)) cert b"
proof -
  obtain f name where s: "client_subject (en_unicode env) cert f name"
    using client_verify_no_subject [of env cert cfg] assms by (auto simp: outcome_is_success_def)
  note eq = client_verify_subject [OF s, of cfg]
  show ?thesis
  proof (cases "cached_badge_of env cfg f (Some (an_version name))")
    case (Some b)
    then have o1: "out = client_verify_with_badge (en_unicode env) b cert f name" using eq assms(1) by simp
    then have "vouches_client (en_unicode env) b cert f name"
      using assms(2) client_verify_with_badge_type(1) by blast
    with Some o1 s show ?thesis
      by (intro exI [of _ f] exI [of _ name] exI [of _ b]) (simp add: client_verify_with_badge_ok badge_evidence_def)
  next
    case None
    show ?thesis
    proof (cases "fetch_badge env cfg f (Some (an_version name))")
      case (Inl o1)
      then have "out = o1" using None eq assms(1) by simp
      with assms(2) fetch_badge_not_Verified [OF Inl] show ?thesis by simp
    next
      case (Inr b)
      have v: "vouches_client (en_unicode env) b cert f name"
        using None Inr eq assms client_verify_with_badge_type(1) by (auto split: if_splits)
      then have o1: "out = finish_with_dane env (cache_insert env f (Some (an_version name)) b cfg) f cert
          (verified_with_warning b (ci_fingerprint cert))"
        using None Inr eq assms(1) by simp
      show ?thesis
        using finish_verified [OF assms(2) [unfolded o1]] fetch_badge_Inr [OF Inr] v s unfolding o1
        by (auto simp: badge_evidence_def)
    qed
  qed
qed

section \<open>Success under the failure policy\<close>

lemma finish_with_dane_success:
  "outcome_is_success (finish_with_dane env cfg f cert (verified_with_warning b fp)) \<Longrightarrow>
     vo_type (finish_with_dane env cfg f cert (verified_with_warning b fp)) = OutcomeVerified"
  using finish_with_dane_type [of "verified_with_warning b fp" env cfg f cert]
  by (auto simp: outcome_is_success_def split: if_splits)

text \<open>
  A rejection without an error: \<open>ToError\<close> has one for every failure but a DANE mismatch, whose outcome carries none.
\<close>

definition dane_mismatch_at :: "'k verify_env \<Rightarrow> 'k verifier_config \<Rightarrow> fqdn \<Rightarrow> cert_identity \<Rightarrow> bool" where
  "dane_mismatch_at env cfg f cert \<longleftrightarrow>
     (\<exists>d r. vc_dane cfg = Some d \<and> d f default_dane_port = Inr r \<and> tlr_found r \<and> tlr_dnssec_valid r
        \<and> \<not> (\<exists>rec\<in>set (tlr_records r). tlsa_matches (en_sha256 env) (en_sha512 env) (en_unicode env) cert rec))"

definition silent :: "verification_outcome \<Rightarrow> bool" where
  "silent out \<longleftrightarrow> \<not> outcome_is_success out \<and> outcome_to_error out = None"

lemma finish_with_dane_silent:
  "silent (finish_with_dane env cfg f cert (verified_with_warning b fp)) \<longleftrightarrow> dane_mismatch_at env cfg f cert"
proof -
  have n: "dane_verify sha sha5 u d f port (Some cert) = o1 \<Longrightarrow> dane_is_reject o1 \<Longrightarrow>
      do_error o1 = None \<longleftrightarrow> do_type o1 = DANEMismatch" for sha sha5 u d f port o1
    by (auto simp: dane_verify_def dane_is_reject_def split: sum.splits option.splits dane_failure.splits if_splits)
  show ?thesis
  proof (cases "vc_dane cfg")
    case None
    then show ?thesis by (simp add: silent_def finish_with_dane_def verify_dane_def dane_mismatch_at_def)
  next
    case (Some d)
    let ?o = "dane_verify (en_sha256 env) (en_sha512 env) (en_unicode env) d f default_dane_port (Some cert)"
    have m: "dane_mismatch_at env cfg f cert \<longleftrightarrow> do_type ?o = DANEMismatch"
      by (simp add: dane_mismatch_iff dane_mismatch_at_def Some)
    have "silent (finish_with_dane env cfg f cert (verified_with_warning b fp)) \<longleftrightarrow> dane_is_reject ?o \<and> do_error ?o = None"
      by (auto simp: silent_def finish_with_dane_def verify_dane_def Some Let_def to_error_None_iff outcome_ctors
          outcome_is_success_def)
    also have "\<dots> \<longleftrightarrow> do_type ?o = DANEMismatch" using n [of _ _ _ d f _ ?o] by (auto simp: dane_is_reject_def)
    finally show ?thesis unfolding m .
  qed
qed

lemma policy_not_silent:
  "vo_error err \<noteq> None \<Longrightarrow> \<not> silent (apply_failure_policy env cfg f ver err)"
  by (auto simp: apply_failure_policy_def apply_fail_open_with_cache_def silent_def to_error_None_iff outcome_ctors
      outcome_is_success_def split: failure_policy.splits option.splits)

lemma fetch_badge_not_silent: "fetch_badge env cfg f ver = Inl out \<Longrightarrow> \<not> silent out"
proof -
  assume a: "fetch_badge env cfg f ver = Inl out"
  have n: "\<not> silent (new_not_ans_agent_outcome h)" "\<not> silent (new_url_validation_error_outcome e)"
    "vo_error (new_dns_error_outcome e) = Some e" "vo_error (new_tlog_error_outcome e) = Some e" for h e
    by (simp_all add: silent_def to_error_None_iff outcome_ctors outcome_is_success_def)
  have p: "\<not> silent (apply_failure_policy env cfg f ver (new_dns_error_outcome e))"
    "\<not> silent (apply_failure_policy env cfg f ver (new_tlog_error_outcome e))" for e
    by (simp_all add: policy_not_silent n)
  show ?thesis
    using a n(1,2) p
    by (auto simp: fetch_badge_eq validate_badge_url_def split: sum.splits option.splits if_splits)
qed

lemma badge_comparison_not_silent:
  "\<not> silent (server_verify_with_badge u b cert f)" "\<not> silent (client_verify_with_badge u b cert f name)"
  by (auto simp: silent_def server_verify_with_badge_def client_verify_with_badge_def Let_def to_error_None_iff
      outcome_ctors outcome_is_success_def split: option.split)

lemma fetch_badge_Inr_iff: "fetch_badge env cfg f ver = Inr b \<longleftrightarrow> fetched env cfg f ver b"
proof
  assume "fetched env cfg f ver b"
  then obtain rec where "resolve_record env f ver = Inr (Some rec)" "validate_badge_url env cfg (br_url rec) = None"
    "en_fetch env (br_url rec) = Inr b"
    by (auto simp: fetched_def validate_badge_url_None_iff)
  then show "fetch_badge env cfg f ver = Inr b" by (simp add: fetch_badge_eq resolve_record_def)
qed (rule fetch_badge_Inr)

text \<open>A cached badge is passed over only for a fingerprint that is not the certificate's.\<close>

definition cache_undecided :: "'k verify_env \<Rightarrow> 'k verifier_config \<Rightarrow> fqdn \<Rightarrow> cert_identity \<Rightarrow> bool" where
  "cache_undecided env cfg f cert \<longleftrightarrow>
     (case cached_badge_of env cfg f None of
        None \<Rightarrow> True
      | Some b \<Rightarrow> badge_status_valid (badge_state b) \<and> \<not> fp_matches (ci_fingerprint cert) (server_cert_fingerprint b))"

lemma server_verify_silent:
  "silent (fst (server_verify env cfg f cert)) \<longleftrightarrow>
     cache_undecided env cfg f cert
     \<and> (\<exists>b. fetched env cfg f None b \<and> vouches_server (en_unicode env) b cert f) \<and> dane_mismatch_at env cfg f cert"
proof -
  have c: "vo_type (server_verify_with_badge u b cert f) = OutcomeFingerprintMismatch \<longleftrightarrow>
      badge_status_valid (badge_state b) \<and> \<not> fp_matches (ci_fingerprint cert) (server_cert_fingerprint b)" for u b
    by (auto simp: server_verify_with_badge_def Let_def outcome_ctors split: option.split)
  have fresh: "silent (fst (server_fresh env cfg f cert)) \<longleftrightarrow>
      (\<exists>b. fetched env cfg f None b \<and> vouches_server (en_unicode env) b cert f) \<and> dane_mismatch_at env cfg f cert"
  proof (cases "server_fetch_badge env cfg f")
    case (Inl o1)
    then show ?thesis
      using fetch_badge_not_silent [of env cfg f None o1] fetch_badge_Inr_iff [of env cfg f None, symmetric]
      by (simp add: server_fresh_eq server_fetch_badge_def)
  next
    case (Inr b)
    have "fetched env cfg f None b' \<longleftrightarrow> b' = b" for b'
      using Inr fetch_badge_Inr_iff [of env cfg f None b', symmetric] by (auto simp: server_fetch_badge_def)
    moreover have "dane_mismatch_at env (cache_insert env f None b cfg) f cert = dane_mismatch_at env cfg f cert"
      by (simp add: dane_mismatch_at_def)
    ultimately show ?thesis
      using Inr badge_comparison_not_silent(1) [of "en_unicode env" b cert f]
      by (cases "vouches_server (en_unicode env) b cert f")
        (simp_all add: server_fresh_eq Let_def server_verify_with_badge_type server_verify_with_badge_ok finish_with_dane_silent)
  qed
  show ?thesis
    using fresh badge_comparison_not_silent(1)
    by (auto simp: server_verify_eq cache_undecided_def cached_badge_of_def Let_def c split: option.split)
qed

lemma client_verify_silent:
  "silent (fst (client_verify env cfg cert)) \<longleftrightarrow>
     (\<exists>f name b. client_subject (en_unicode env) cert f name \<and> cached_badge_of env cfg f (Some (an_version name)) = None
        \<and> fetched env cfg f (Some (an_version name)) b \<and> vouches_client (en_unicode env) b cert f name
        \<and> dane_mismatch_at env cfg f cert)"
proof (cases "\<exists>f name. client_subject (en_unicode env) cert f name")
  case False
  then have "\<not> silent (fst (client_verify env cfg cert))"
    by (auto simp: client_subject_def client_verify_eq silent_def to_error_None_iff outcome_ctors
        split: option.split sum.split)
  with False show ?thesis by blast
next
  case True
  then obtain f name where s: "client_subject (en_unicode env) cert f name" by blast
  then have u: "client_subject (en_unicode env) cert g n \<longleftrightarrow> g = f \<and> n = name" for g n
    by (auto simp: client_subject_def)
  have k: "dane_mismatch_at env (cache_insert env f ver b cfg) f cert = dane_mismatch_at env cfg f cert" for ver b
    by (simp add: dane_mismatch_at_def)
  note eq = client_verify_subject [OF s, of cfg]
  show ?thesis
  proof (cases "cached_badge_of env cfg f (Some (an_version name))")
    case (Some b)
    then show ?thesis using eq badge_comparison_not_silent(2) by (simp add: u)
  next
    case None
    show ?thesis
    proof (cases "fetch_badge env cfg f (Some (an_version name))")
      case (Inl o1)
      then show ?thesis
        using eq None fetch_badge_not_silent [OF Inl] fetch_badge_Inr_iff [of env cfg f "Some (an_version name)", symmetric]
        by (simp add: u)
    next
      case (Inr b)
      then show ?thesis
        using eq None badge_comparison_not_silent(2) [of "en_unicode env" b cert f name]
        by (auto simp: u fetch_badge_Inr_iff [symmetric] finish_with_dane_silent k)
    qed
  qed
qed

definition justified_fail_open :: "'k verify_env \<Rightarrow> 'k verifier_config \<Rightarrow> fqdn \<Rightarrow> version option \<Rightarrow> bool" where
  "justified_fail_open env cfg f ver = (vc_policy cfg \<noteq> FailClosed \<and> infrastructure_failure env f ver)"

lemma server_verify_success:
  assumes "server_verify env cfg f cert = (out, cfg')" "outcome_is_success out"
  shows "vo_type out = OutcomeVerified \<or> justified_fail_open env cfg f None"
proof -
  have fresh: "outcome_is_success (fst (server_fresh env cfg f cert)) \<Longrightarrow>
      vo_type (fst (server_fresh env cfg f cert)) = OutcomeVerified \<or> justified_fail_open env cfg f None"
  proof (cases "server_fetch_badge env cfg f")
    case (Inl o1)
    assume "outcome_is_success (fst (server_fresh env cfg f cert))"
    with Inl have "outcome_is_success o1" by (simp add: server_fresh_eq)
    from fetch_badge_success [OF Inl [unfolded server_fetch_badge_def] this] show ?thesis
      by (simp add: justified_fail_open_def)
  next
    case (Inr b)
    assume "outcome_is_success (fst (server_fresh env cfg f cert))"
    with Inr finish_with_dane_success [of env "cache_insert env f None b cfg" f cert b "ci_fingerprint cert"]
    show ?thesis
      by (cases "vouches_server (en_unicode env) b cert f")
        (simp_all add: server_fresh_eq Let_def server_verify_with_badge_type server_verify_with_badge_ok)
  qed
  show ?thesis
  proof (cases "\<exists>b. cached_badge_of env cfg f None = Some b
      \<and> vo_type (server_verify_with_badge (en_unicode env) b cert f) \<noteq> OutcomeFingerprintMismatch")
    case True
    then obtain b where "out = server_verify_with_badge (en_unicode env) b cert f"
      using assms(1) by (auto simp: server_verify_eq cached_badge_of_def Let_def split: option.splits)
    then show ?thesis using assms(2) server_verify_with_badge_type by simp
  next
    case False
    then have "server_fresh env cfg f cert = (out, cfg')"
      using assms(1) by (auto simp: server_verify_eq cached_badge_of_def Let_def split: option.splits)
    with fresh assms(2) show ?thesis by simp
  qed
qed

lemma client_verify_success:
  assumes "client_verify env cfg cert = (out, cfg')" "outcome_is_success out"
  shows "vo_type out = OutcomeVerified \<or>
    (\<exists>f name. client_subject (en_unicode env) cert f name \<and> justified_fail_open env cfg f (Some (an_version name)))"
proof -
  obtain f name where s: "client_subject (en_unicode env) cert f name"
    using client_verify_no_subject [of env cert cfg] assms by auto
  note eq = client_verify_subject [OF s, of cfg]
  show ?thesis
  proof (cases "cached_badge_of env cfg f (Some (an_version name))")
    case (Some b)
    then show ?thesis using eq assms by (auto simp: client_verify_with_badge_type)
  next
    case None
    show ?thesis
    proof (cases "fetch_badge env cfg f (Some (an_version name))")
      case (Inl o1)
      then have "out = o1" using None eq assms(1) by simp
      with fetch_badge_success [OF Inl] assms(2) s show ?thesis by (auto simp: justified_fail_open_def)
    next
      case (Inr b)
      then show ?thesis
        using None eq assms
          finish_with_dane_success [of env "cache_insert env f (Some (an_version name)) b cfg" f cert b "ci_fingerprint cert"]
        by (cases "vouches_client (en_unicode env) b cert f name") (auto simp: client_verify_with_badge_type)
    qed
  qed
qed

section \<open>The SCITT path\<close>

definition role_certs :: "cert_role \<Rightarrow> status_payload \<Rightarrow> cert_entry list" where
  "role_certs role p = (case role of Role_Server \<Rightarrow> sp_server_certs p | Role_Identity \<Rightarrow> sp_identity_certs p)"

lemma check_token_None_iff:
  "check_token u p role fp f = None \<longleftrightarrow>
     status_valid_for_connection (sp_status p) \<and> (\<exists>c\<in>set (role_certs role p). cert_fp c = fp)
     \<and> (\<exists>name. parse_ans_name u (sp_ans_name p) = Inr name \<and> equal_fold u (an_host name) (fqdn_value f))"
  by (auto simp: check_token_def role_certs_def matches_server_cert_def matches_identity_cert_def list_ex_iff
      split: cert_role.splits sum.splits)

text \<open>The two artifacts, the receipt first; only the token's content is used afterwards.\<close>

definition scitt_artifacts ::
  "'k verify_env \<Rightarrow> 'k key_lookup \<Rightarrow> int \<Rightarrow> scitt_headers \<Rightarrow> scitt_error + verified_token" where
  "scitt_artifacts env keys skew h =
     rbind (verify_receipt (en_cbor env) (en_crypto env) keys (sh_receipt h)) (\<lambda>_.
       verify_status_token_at (en_unicode env) (en_cbor env) (en_crypto env) keys (sh_status_token h) skew
         (en_now_token env))"

lemma verify_with_headers_eq:
  "vc_scitt_keys cfg = Some keys \<Longrightarrow>
   verify_with_headers env cfg f cert h role fb =
     (case scitt_artifacts env keys (vc_clock_skew cfg) h of
        Inl e \<Rightarrow> if scitt_fallback e then fb else (new_scitt_error_outcome (VE_Scitt e), cfg)
      | Inr vt \<Rightarrow>
          (case check_token (en_unicode env) (vt_payload vt) role (fp_bytes (ci_fingerprint cert)) f of
             Some r \<Rightarrow> (new_scitt_error_outcome (VE_Refused r), cfg)
           | None \<Rightarrow> (finish_with_dane env cfg f cert (scitt_verified_outcome cert (vt_payload vt)), cfg)))"
  by (simp add: verify_with_headers_def scitt_artifacts_def rbind_def split: sum.split)

text \<open>What a \<open>TierFullScitt\<close> success rests on.\<close>

definition scitt_evidence ::
  "'k verify_env \<Rightarrow> 'k verifier_config \<Rightarrow> fqdn \<Rightarrow> cert_identity \<Rightarrow> scitt_headers \<Rightarrow> cert_role \<Rightarrow> bool" where
  "scitt_evidence env cfg f cert h role =
     (\<exists>keys vt. vc_scitt_keys cfg = Some keys
        \<and> scitt_artifacts env keys (vc_clock_skew cfg) h = Inr vt
        \<and> check_token (en_unicode env) (vt_payload vt) role (fp_bytes (ci_fingerprint cert)) f = None
        \<and> dane_allows env cfg f cert)"

definition takes_fallback :: "'k verify_env \<Rightarrow> 'k verifier_config \<Rightarrow> scitt_headers \<Rightarrow> bool" where
  "takes_fallback env cfg h =
     (\<exists>keys e. vc_scitt_keys cfg = Some keys \<and> scitt_artifacts env keys (vc_clock_skew cfg) h = Inl e
        \<and> scitt_fallback e)"

lemma scitt_verified_outcome_simps [simp]:
  "vo_type (scitt_verified_outcome cert p) = OutcomeVerified"
  "vo_tier (scitt_verified_outcome cert p) = TierFullScitt"
  by (simp_all add: scitt_verified_outcome_def outcome_of_def)

lemma verify_with_headers_fallback:
  "takes_fallback env cfg h \<Longrightarrow> verify_with_headers env cfg f cert h role fb = fb"
  by (auto simp: takes_fallback_def verify_with_headers_eq)

lemma finish_scitt:
  "outcome_is_success (finish_with_dane env cfg f cert (scitt_verified_outcome cert p)) \<longleftrightarrow> dane_allows env cfg f cert"
  "dane_allows env cfg f cert \<Longrightarrow>
     vo_type (finish_with_dane env cfg f cert (scitt_verified_outcome cert p)) = OutcomeVerified
   \<and> vo_tier (finish_with_dane env cfg f cert (scitt_verified_outcome cert p)) = TierFullScitt"
  using finish_with_dane_type [of "scitt_verified_outcome cert p" env cfg f cert]
    finish_with_dane_allowed [of env cfg f cert "scitt_verified_outcome cert p"]
  by (auto simp: outcome_is_success_def)

lemma verify_with_headers_success:
  assumes "\<not> takes_fallback env cfg h"
  shows "outcome_is_success (fst (verify_with_headers env cfg f cert h role fb)) \<longleftrightarrow>
           scitt_evidence env cfg f cert h role"
    and "snd (verify_with_headers env cfg f cert h role fb) = cfg"
    and "outcome_is_success (fst (verify_with_headers env cfg f cert h role fb)) \<Longrightarrow>
           vo_type (fst (verify_with_headers env cfg f cert h role fb)) = OutcomeVerified
         \<and> vo_tier (fst (verify_with_headers env cfg f cert h role fb)) = TierFullScitt"
proof -
  have "outcome_is_success (fst (verify_with_headers env cfg f cert h role fb)) = scitt_evidence env cfg f cert h role
      \<and> snd (verify_with_headers env cfg f cert h role fb) = cfg
      \<and> (outcome_is_success (fst (verify_with_headers env cfg f cert h role fb)) \<longrightarrow>
           vo_type (fst (verify_with_headers env cfg f cert h role fb)) = OutcomeVerified
         \<and> vo_tier (fst (verify_with_headers env cfg f cert h role fb)) = TierFullScitt)"
  proof (cases "vc_scitt_keys cfg")
    case None
    then show ?thesis by (simp add: verify_with_headers_def scitt_evidence_def)
  next
    case (Some keys)
    then show ?thesis
      using assms
      by (auto simp: verify_with_headers_eq scitt_evidence_def takes_fallback_def finish_scitt
          split: sum.splits option.splits)
  qed
  then show "outcome_is_success (fst (verify_with_headers env cfg f cert h role fb)) \<longleftrightarrow>
      scitt_evidence env cfg f cert h role"
    "snd (verify_with_headers env cfg f cert h role fb) = cfg"
    "outcome_is_success (fst (verify_with_headers env cfg f cert h role fb)) \<Longrightarrow>
      vo_type (fst (verify_with_headers env cfg f cert h role fb)) = OutcomeVerified
    \<and> vo_tier (fst (verify_with_headers env cfg f cert h role fb)) = TierFullScitt"
    by blast+
qed

text \<open>
  With either key store of the repository the fallback is never taken: no transport error can
  come out of the verification of bytes at hand.
\<close>

lemma fallback_transport: "scitt_fallback e \<Longrightarrow> is_transport e"
  by (cases e) (simp_all add: scitt_fallback_def)

lemma artifacts_no_fallback:
  "(\<And>L C d. no_transport (verify_receipt L C keys d)) \<Longrightarrow>
   (\<And>u L C d s n. no_transport (verify_status_token_at u L C keys d s n)) \<Longrightarrow>
   vc_scitt_keys cfg = Some keys \<Longrightarrow> \<not> takes_fallback env cfg h"
proof
  assume r: "\<And>L C d. no_transport (verify_receipt L C keys d)"
    and t: "\<And>u L C d s n. no_transport (verify_status_token_at u L C keys d s n)"
    and k: "vc_scitt_keys cfg = Some keys" and fb: "takes_fallback env cfg h"
  have "no_transport (scitt_artifacts env keys (vc_clock_skew cfg) h)"
    unfolding scitt_artifacts_def by (intro no_transport_rbind r t)
  moreover obtain e where "scitt_artifacts env keys (vc_clock_skew cfg) h = Inl e" "scitt_fallback e"
    using fb k by (auto simp: takes_fallback_def)
  ultimately show False using fallback_transport by auto
qed

lemma static_no_fallback:
  "ks_ok ks \<Longrightarrow> vc_scitt_keys cfg = Some (key_store_get ks) \<Longrightarrow> \<not> takes_fallback env cfg h"
  by (rule artifacts_no_fallback [OF static_keys.receipt_no_transport static_keys.token_no_transport])

lemma refreshable_no_fallback:
  "rks_ok r \<Longrightarrow> vc_scitt_keys cfg = Some (rks_get r) \<Longrightarrow> \<not> takes_fallback env cfg h"
  by (rule artifacts_no_fallback [OF refreshable_keys.receipt_no_transport refreshable_keys.token_no_transport])

section \<open>The entry points with both headers\<close>

lemma scitt_artifacts_Inr:
  "scitt_artifacts env keys skew h = Inr vt \<longleftrightarrow>
     (\<exists>r. verify_receipt (en_cbor env) (en_crypto env) keys (sh_receipt h) = Inr r)
     \<and> verify_status_token_at (en_unicode env) (en_cbor env) (en_crypto env) keys (sh_status_token h) skew
         (en_now_token env) = Inr vt"
  by (cases "verify_receipt (en_cbor env) (en_crypto env) keys (sh_receipt h)") (simp_all add: scitt_artifacts_def)

lemma scitt_evidence_iff:
  "vc_scitt_keys cfg = Some keys \<Longrightarrow>
   scitt_evidence env cfg f cert h role \<longleftrightarrow>
      (\<exists>r vt. verify_receipt (en_cbor env) (en_crypto env) keys (sh_receipt h) = Inr r
         \<and> verify_status_token_at (en_unicode env) (en_cbor env) (en_crypto env) keys
              (sh_status_token h) (vc_clock_skew cfg) (en_now_token env) = Inr vt
         \<and> status_valid_for_connection (sp_status (vt_payload vt))
         \<and> fp_bytes (ci_fingerprint cert) \<in> cert_fp ` set (role_certs role (vt_payload vt))
         \<and> (\<exists>name. parse_ans_name (en_unicode env) (sp_ans_name (vt_payload vt)) = Inr name
              \<and> equal_fold (en_unicode env) (an_host name) (fqdn_value f))
         \<and> dane_allows env cfg f cert)"
  by (auto simp: scitt_evidence_def scitt_artifacts_Inr check_token_None_iff image_iff; metis)

lemma server_verify_with_scitt_both:
  "headers_has_both h \<Longrightarrow> server_verify_with_scitt env cfg f cert (Some h) =
     verify_with_headers env cfg f cert h Role_Server (server_verify env cfg f cert)"
  by (auto simp: server_verify_with_scitt_def headers_has_both_def headers_is_empty_def)

lemma client_verify_with_scitt_subject:
  "client_subject (en_unicode env) cert f name \<Longrightarrow> headers_has_both h \<Longrightarrow>
   client_verify_with_scitt env cfg cert (Some h) =
     verify_with_headers env cfg f cert h Role_Identity (client_verify env cfg cert)"
  by (auto simp: client_verify_with_scitt_def client_subject_def headers_has_both_def headers_is_empty_def)

lemma client_verify_with_scitt_no_subject:
  "\<nexists>f name. client_subject (en_unicode env) cert f name \<Longrightarrow> headers_has_both h \<Longrightarrow>
   \<not> outcome_is_success (fst (client_verify_with_scitt env cfg cert (Some h)))"
  by (auto simp: client_verify_with_scitt_def client_subject_def headers_has_both_def headers_is_empty_def
      split: option.split sum.split)

end
