(* ===== verification/Checkpoint.thy ===== *)
theory Checkpoint
  imports Receipt
begin

text \<open>
  Signed checkpoints: \<open>verify/scitt/checkpoint.go\<close> (\<open>Checkpoint.Covers\<close> is in \<open>Receipt\<close>). A note is a
  body of at least three lines, a blank line and signature lines; every line is examined, so
  that acceptance is a property of the set of signature lines.
\<close>

definition max_checkpoint_note_size :: nat where
  "max_checkpoint_note_size = 65536"

definition newline :: char where
  "newline = CHR 0x0A"

text \<open>U+2014 in UTF-8, and a space.\<close>

definition signature_prefix :: string where
  "signature_prefix = [CHR 0xE2, CHR 0x80, CHR 0x94, CHR '' '']"

definition jws_header_marker :: string where
  "jws_header_marker = ''eyJhbGciOi''"

record checkpoint_signature =
  cs_name :: string
  cs_kid :: kid
  cs_sig :: bytes

section \<open>Text\<close>

definition cont_byte :: "char \<Rightarrow> bool" where
  "cont_byte c = (128 \<le> byte_val c \<and> byte_val c \<le> 191)"

text \<open>The bytes a first byte accepts as the second, and the length of the encoding.\<close>

definition rune_class :: "nat \<Rightarrow> (nat \<times> nat \<times> nat) option" where
  "rune_class b =
     (if 194 \<le> b \<and> b \<le> 223 then Some (2, 128, 191)
      else if b = 224 then Some (3, 160, 191)
      else if b = 237 then Some (3, 128, 159)
      else if 225 \<le> b \<and> b \<le> 239 then Some (3, 128, 191)
      else if b = 240 then Some (4, 144, 191)
      else if b = 244 then Some (4, 128, 143)
      else if 241 \<le> b \<and> b \<le> 243 then Some (4, 128, 191)
      else None)"

text \<open>
  \<open>utf8.DecodeRune\<close> as far as the caller looks at it: the size of the rune at the head, \<open>None\<close> for
  \<open>RuneError\<close> of size 1.
\<close>

definition rune_size :: "bytes \<Rightarrow> nat option" where
  "rune_size bs =
     (case bs of
        [] \<Rightarrow> None
      | b # rest \<Rightarrow>
          if byte_val b < 128 then Some 1
          else (case rune_class (byte_val b) of
                  None \<Rightarrow> None
                | Some (n, lo, hi) \<Rightarrow>
                    (case rest of
                       [] \<Rightarrow> None
                     | b1 # rest' \<Rightarrow>
                         if lo \<le> byte_val b1 \<and> byte_val b1 \<le> hi
                            \<and> n - 2 \<le> length rest' \<and> list_all cont_byte (take (n - 2) rest')
                         then Some n else None)))"

text \<open>A control character is a one-byte rune below the space; the newline is allowed.\<close>

lemma rune_size_pos: "rune_size bs = Some n \<Longrightarrow> 0 < n \<and> bs \<noteq> []"
  by (auto simp: rune_size_def rune_class_def split: list.splits if_splits option.splits)

function note_text_ok :: "bytes \<Rightarrow> bool" where
  "note_text_ok bs =
     (case bs of
        [] \<Rightarrow> True
      | b # _ \<Rightarrow>
          (case rune_size bs of
             None \<Rightarrow> False
           | Some n \<Rightarrow> \<not> (byte_val b < 32 \<and> b \<noteq> newline) \<and> note_text_ok (drop n bs)))"
  by pat_completeness auto
termination
  by (relation "measure length") (auto dest: rune_size_pos)

declare note_text_ok.simps [simp del]

section \<open>Parsing\<close>

definition parse_signature_line :: "string \<Rightarrow> scitt_error + checkpoint_signature" where
  "parse_signature_line line =
     (case cut_prefix line signature_prefix of
        None \<Rightarrow> Inl (ErrCheckpoint CheckpointErrMalformed)
      | Some rest \<Rightarrow>
          (case cut_at (CHR '' '') rest of
             None \<Rightarrow> Inl (ErrCheckpoint CheckpointErrMalformed)
           | Some (name, b64) \<Rightarrow>
               if name = [] then Inl (ErrCheckpoint CheckpointErrMalformed) else
               (case std_decode b64 of
                  None \<Rightarrow> Inl (ErrCheckpoint CheckpointErrMalformed)
                | Some blob \<Rightarrow>
                    if length blob \<le> 4 then Inl (ErrCheckpoint CheckpointErrMalformed)
                    else Inr \<lparr>cs_name = name, cs_kid = take 4 blob, cs_sig = drop 4 blob\<rparr>)))"

fun parse_signature_lines :: "string list \<Rightarrow> scitt_error + checkpoint_signature list" where
  "parse_signature_lines [] = Inr []"
| "parse_signature_lines (l # ls) =
     rbind (parse_signature_line l) (\<lambda>s. rbind (parse_signature_lines ls) (\<lambda>ss. Inr (s # ss)))"

definition split_checkpoint_note :: "bytes \<Rightarrow> scitt_error + (bytes \<times> checkpoint_signature list)" where
  "split_checkpoint_note note =
     (case cut_sub [newline, newline] note of
        None \<Rightarrow> Inl (ErrCheckpoint CheckpointErrMalformed)
      | Some (pre, block) \<Rightarrow>
          if block = [] \<or> \<not> has_suffix block [newline] then Inl (ErrCheckpoint CheckpointErrMalformed)
          else rbind (parse_signature_lines (split_on newline (trim_suffix block [newline])))
                 (\<lambda>sigs. Inr (pre @ [newline], sigs)))"

text \<open>The key ID is filled in by the signature check.\<close>

definition parse_checkpoint_body :: "bytes \<Rightarrow> scitt_error + checkpoint" where
  "parse_checkpoint_body body =
     (case split_on newline (trim_suffix body [newline]) of
        origin # size_line # root64 # _ \<Rightarrow>
          if origin = [] then Inl (ErrCheckpoint CheckpointErrMalformed) else
          (case parse_uint 64 size_line of
             None \<Rightarrow> Inl (ErrCheckpoint CheckpointErrInvalidSize)
           | Some n \<Rightarrow>
               (case std_decode root64 of
                  None \<Rightarrow> Inl (ErrCheckpoint CheckpointErrInvalidRootHash)
                | Some root \<Rightarrow>
                    if length root \<noteq> hash_len then Inl (ErrCheckpoint CheckpointErrInvalidRootHash)
                    else Inr \<lparr>cp_origin = origin, cp_size = of_nat n, cp_root_hash = root,
                              cp_key_id = zero_kid\<rparr>))
      | _ \<Rightarrow> Inl (ErrCheckpoint CheckpointErrMalformed))"

section \<open>Signatures\<close>

definition verify_checkpoint_signature :: "'k crypto \<Rightarrow> 'k \<Rightarrow> bytes \<Rightarrow> bytes \<Rightarrow> bool" where
  "verify_checkpoint_signature C pub body sig =
     (let digest = cr_sha256 C body in
      if cr_verify_asn1 C pub digest sig then True
      else if length sig \<noteq> p1363_signature_len then False
      else cr_verify_rs C pub digest (be_nat (take hash_len sig)) (be_nat (drop hash_len sig)))"

definition bind_checkpoint_signer :: "string \<Rightarrow> string \<Rightarrow> 'k trusted_key \<Rightarrow> scitt_error option" where
  "bind_checkpoint_signer origin signer key =
     (if signer \<noteq> tk_name key then Some (ErrSignature SigErrIssuerMismatch (tk_kid key))
      else if origin \<noteq> tk_name key then Some (ErrSignature SigErrIssuerMismatch (tk_kid key))
      else None)"

definition first_some :: "'a option \<Rightarrow> 'a \<Rightarrow> 'a option" where
  "first_some current candidate = (case current of Some c \<Rightarrow> Some c | None \<Rightarrow> Some candidate)"

text \<open>
  The loop over the signature lines. \<open>ver\<close> is the first key that verified, \<open>unk\<close> the first unknown
  key ID, \<open>env\<close> the error of the first JWS envelope.
\<close>

fun check_signatures ::
  "'k crypto \<Rightarrow> 'k key_lookup \<Rightarrow> string \<Rightarrow> bytes \<Rightarrow> checkpoint_signature list \<Rightarrow> kid option \<Rightarrow> kid option
     \<Rightarrow> scitt_error option \<Rightarrow> scitt_error + kid option" where
  "check_signatures C keys origin body [] ver unk env =
     (case ver of
        Some k \<Rightarrow> Inr (Some k)
      | None \<Rightarrow>
          (case unk of
             Some k \<Rightarrow> Inl (ErrSignature SigErrUnknownKeyID k)
           | None \<Rightarrow> (case env of Some e \<Rightarrow> Inl e | None \<Rightarrow> Inr None)))"
| "check_signatures C keys origin body (s # ss) ver unk env =
     (case keys (cs_kid s) of
        Inl _ \<Rightarrow> check_signatures C keys origin body ss ver (first_some unk (cs_kid s)) env
      | Inr key \<Rightarrow>
          if \<not> verify_checkpoint_signature C (tk_key key) body (cs_sig s) then
            if \<not> has_prefix (cs_sig s) jws_header_marker
            then Inl (ErrSignature SigErrSignatureInvalid (cs_kid s))
            else check_signatures C keys origin body ss ver unk
                   (first_some env (ErrSignature SigErrSignatureInvalid (cs_kid s)))
          else (case bind_checkpoint_signer origin (cs_name s) key of
                  Some e \<Rightarrow> Inl e
                | None \<Rightarrow> check_signatures C keys origin body ss (first_some ver (tk_kid key)) unk env))"

definition verify_checkpoint_signatures ::
  "'k crypto \<Rightarrow> 'k key_lookup \<Rightarrow> checkpoint \<Rightarrow> bytes \<Rightarrow> checkpoint_signature list \<Rightarrow> scitt_error + checkpoint"
where
  "verify_checkpoint_signatures C keys cp body sigs =
     rbind (check_signatures C keys (cp_origin cp) body sigs None None None)
       (\<lambda>k. Inr (case k of Some k \<Rightarrow> cp\<lparr>cp_key_id := k\<rparr> | None \<Rightarrow> cp))"

definition verify_checkpoint :: "'k crypto \<Rightarrow> 'k key_lookup \<Rightarrow> bytes \<Rightarrow> scitt_error + checkpoint" where
  "verify_checkpoint C keys note =
     (if length note > max_checkpoint_note_size then Inl (ErrCheckpoint CheckpointErrOversizedInput)
      else if \<not> note_text_ok note then Inl (ErrCheckpoint CheckpointErrMalformed)
      else rbind (split_checkpoint_note note) (\<lambda>(body, sigs).
           rbind (parse_checkpoint_body body) (\<lambda>cp.
             verify_checkpoint_signatures C keys cp body sigs)))"

section \<open>Acceptance is a property of the set of lines\<close>

datatype line_verdict = Line_Unknown | Line_Envelope | Line_Verified kid | Line_Rejects

definition judge_line ::
  "'k crypto \<Rightarrow> 'k key_lookup \<Rightarrow> string \<Rightarrow> bytes \<Rightarrow> checkpoint_signature \<Rightarrow> line_verdict" where
  "judge_line C keys origin body s =
     (case keys (cs_kid s) of
        Inl _ \<Rightarrow> Line_Unknown
      | Inr key \<Rightarrow>
          if \<not> verify_checkpoint_signature C (tk_key key) body (cs_sig s)
          then (if has_prefix (cs_sig s) jws_header_marker then Line_Envelope else Line_Rejects)
          else if cs_name s = tk_name key \<and> origin = tk_name key then Line_Verified (tk_kid key)
          else Line_Rejects)"

definition is_verified :: "line_verdict \<Rightarrow> bool" where
  "is_verified v = (case v of Line_Verified _ \<Rightarrow> True | _ \<Rightarrow> False)"

lemma bind_signer_eq:
  "bind_checkpoint_signer origin signer key =
     (if signer = tk_name key \<and> origin = tk_name key then None
      else Some (ErrSignature SigErrIssuerMismatch (tk_kid key)))"
  by (simp add: bind_checkpoint_signer_def)

lemma is_verified_simps [simp]:
  "is_verified (Line_Verified k)" "\<not> is_verified Line_Unknown" "\<not> is_verified Line_Envelope"
  "\<not> is_verified Line_Rejects"
  by (simp_all add: is_verified_def)

lemma first_some_not_None [simp]: "first_some c x \<noteq> None"
  by (simp add: first_some_def split: option.split)

text \<open>The first line that verified names the key.\<close>

fun first_verified :: "line_verdict list \<Rightarrow> kid option" where
  "first_verified [] = None"
| "first_verified (Line_Verified k # vs) = Some k"
| "first_verified (v # vs) = first_verified vs"

lemma first_verified_None_iff: "first_verified vs = None \<longleftrightarrow> \<not> list_ex is_verified vs"
  by (induction vs rule: first_verified.induct) simp_all

lemma check_signatures_step:
  "check_signatures C keys origin body (s # ss) ver unk env =
     (case judge_line C keys origin body s of
        Line_Unknown \<Rightarrow> check_signatures C keys origin body ss ver (first_some unk (cs_kid s)) env
      | Line_Envelope \<Rightarrow> check_signatures C keys origin body ss ver unk
                   (first_some env (ErrSignature SigErrSignatureInvalid (cs_kid s)))
      | Line_Verified k \<Rightarrow> check_signatures C keys origin body ss (first_some ver k) unk env
      | Line_Rejects \<Rightarrow> check_signatures C keys origin body (s # ss) ver unk env)"
  by (auto simp: judge_line_def bind_signer_eq split: sum.split)

lemma check_signatures_rejects:
  "judge_line C keys origin body s = Line_Rejects \<Longrightarrow>
   \<not> is_ok (check_signatures C keys origin body (s # ss) ver unk env)"
  by (auto simp: judge_line_def bind_signer_eq split: sum.splits if_splits)

declare check_signatures.simps(2) [simp del]

lemma check_signatures_Inr:
  "check_signatures C keys origin body ss ver unk env = Inr r \<longleftrightarrow>
     Line_Rejects \<notin> judge_line C keys origin body ` set ss
     \<and> (case ver of Some k \<Rightarrow> r = Some k
        | None \<Rightarrow> r = first_verified (map (judge_line C keys origin body) ss)
                  \<and> (r \<noteq> None \<or> ss = [] \<and> unk = None \<and> env = None))"
proof (induction ss arbitrary: ver unk env)
  case Nil
  then show ?case by (auto split: option.splits)
next
  case (Cons s ss)
  show ?case
  proof (cases "judge_line C keys origin body s")
    case Line_Rejects
    then show ?thesis
      using check_signatures_rejects [OF Line_Rejects, of ss ver unk env] by auto
  next
    case (Line_Verified k)
    then show ?thesis
      by (subst check_signatures_step) (auto simp: Cons.IH first_some_def split: option.splits)
  next
    case Line_Unknown
    then show ?thesis
      by (subst check_signatures_step) (auto simp: Cons.IH first_some_def split: option.splits)
  next
    case Line_Envelope
    then show ?thesis
      by (subst check_signatures_step) (auto simp: Cons.IH first_some_def split: option.splits)
  qed
qed

lemma parse_lines_length: "parse_signature_lines ls = Inr ss \<Longrightarrow> length ss = length ls"
  by (induction ls arbitrary: ss) auto

lemma split_note_sigs: "split_checkpoint_note note = Inr (body, sigs) \<Longrightarrow> sigs \<noteq> []"
  by (auto simp: split_checkpoint_note_def dest!: parse_lines_length split: option.splits if_splits)

lemma first_verified_mem: "first_verified (map f xs) = Some k \<Longrightarrow> \<exists>x\<in>set xs. f x = Line_Verified k"
proof (induction xs)
  case (Cons x xs)
  then show ?case by (cases "f x") auto
qed simp

lemma parse_checkpoint_body_kid: "parse_checkpoint_body body = Inr cp \<Longrightarrow> cp\<lparr>cp_key_id := zero_kid\<rparr> = cp"
  by (auto simp: parse_checkpoint_body_def split: list.splits option.splits if_splits)

lemma checkpoint_signatures_ok:
  "is_ok (verify_checkpoint_signatures C keys cp body sigs) \<longleftrightarrow>
     sigs = [] \<or> Line_Rejects \<notin> judge_line C keys (cp_origin cp) body ` set sigs
       \<and> (\<exists>s\<in>set sigs. is_verified (judge_line C keys (cp_origin cp) body s))"
proof -
  have ok: "is_ok m \<longleftrightarrow> (\<exists>r. m = Inr r)" for m :: "scitt_error + 'z" by (cases m) simp_all
  have "is_ok (verify_checkpoint_signatures C keys cp body sigs) \<longleftrightarrow>
      (\<exists>r. check_signatures C keys (cp_origin cp) body sigs None None None = Inr r)"
    by (cases "check_signatures C keys (cp_origin cp) body sigs None None None")
      (simp_all add: verify_checkpoint_signatures_def)
  then show ?thesis
    using first_verified_None_iff [of "map (judge_line C keys (cp_origin cp) body) sigs"]
    by (auto simp: check_signatures_Inr list_ex_iff)
qed

text \<open>What acceptance means: no line rejects, one verifies, and the first such line names the key.\<close>

lemma verify_checkpoint_Inr:
  "verify_checkpoint C keys note = Inr cp \<longleftrightarrow>
     length note \<le> max_checkpoint_note_size \<and> note_text_ok note
     \<and> (\<exists>body sigs cp0 k. split_checkpoint_note note = Inr (body, sigs) \<and> parse_checkpoint_body body = Inr cp0
          \<and> Line_Rejects \<notin> judge_line C keys (cp_origin cp0) body ` set sigs
          \<and> first_verified (map (judge_line C keys (cp_origin cp0) body) sigs) = Some k
          \<and> cp = cp0\<lparr>cp_key_id := k\<rparr>)"
proof -
  have "verify_checkpoint_signatures C keys cp0 body sigs = Inr cp \<longleftrightarrow>
      Line_Rejects \<notin> judge_line C keys (cp_origin cp0) body ` set sigs
      \<and> (\<exists>k. first_verified (map (judge_line C keys (cp_origin cp0) body) sigs) = Some k
            \<and> cp = cp0\<lparr>cp_key_id := k\<rparr>)" if "sigs \<noteq> []" for cp0 body sigs
    using that by (auto simp: verify_checkpoint_signatures_def check_signatures_Inr)
  then show ?thesis
    unfolding verify_checkpoint_def
    by (simp add: split_beta) (metis fst_conv snd_conv split_note_sigs surj_pair)
qed

end
