(* ===== verification/Merkle_Tree.thy ===== *)
theory Merkle_Tree
  imports Merkle
begin

text \<open>
  The specification of Merkle inclusion: the tree hash \<open>mth\<close> and the audit path \<open>audit_path\<close> of
  RFC 9162, both defined top down by splitting at the largest power of two, and a bottom-up path
  \<open>bpath\<close> that mediates between that recursion and the loop of \<open>verify/scitt/merkle.go\<close>. The code's
  verifier accepts exactly what the specification promises.
\<close>

section \<open>The tree of RFC 9162\<close>

text \<open>\<open>split_point n\<close> is the largest power of two smaller than \<open>n\<close>, for \<open>n > 1\<close>.\<close>

function pow2_below :: "nat \<Rightarrow> nat \<Rightarrow> nat" where
  "pow2_below k n = (if 0 < k \<and> 2 * k < n then pow2_below (2 * k) n else k)"
  by pat_completeness auto
termination by (relation "measure (\<lambda>(k, n). n - k)") auto

declare pow2_below.simps [simp del]

definition split_point :: "nat \<Rightarrow> nat" where
  "split_point n = pow2_below 1 n"

lemma pow2_below_props:
  "k = 2 ^ h \<Longrightarrow> k < n \<Longrightarrow> \<exists>h'. pow2_below k n = 2 ^ h' \<and> 2 ^ h' < n \<and> n \<le> 2 * 2 ^ h'"
proof (induction k n arbitrary: h rule: pow2_below.induct)
  case (1 k n)
  show ?case
  proof (cases "2 * k < n")
    case True
    with 1 have "\<exists>h'. pow2_below (2 * k) n = 2 ^ h' \<and> 2 ^ h' < n \<and> n \<le> 2 * 2 ^ h'"
      using "1.IH" [of "Suc h"] by auto
    with True 1 show ?thesis by (subst (1) pow2_below.simps) simp
  next
    case False
    with 1 show ?thesis by (subst (1) pow2_below.simps) auto
  qed
qed

lemma split_pointE:
  assumes "1 < n"
  obtains h where "split_point n = 2 ^ h" "2 ^ h < n" "n \<le> 2 * 2 ^ h"
  using pow2_below_props [of 1 0 n] assms by (auto simp: split_point_def)

lemma split_point_bounds: "1 < n \<Longrightarrow> 0 < split_point n \<and> split_point n < n"
  by (metis split_pointE zero_less_numeral zero_less_power)

function mth :: "(bytes \<Rightarrow> bytes) \<Rightarrow> bytes list \<Rightarrow> bytes" where
  "mth sha D =
     (if D = [] then sha []
      else if length D = 1 then compute_leaf_hash sha (hd D)
      else compute_node_hash sha (mth sha (take (split_point (length D)) D))
                                 (mth sha (drop (split_point (length D)) D)))"
  by pat_completeness auto
termination
proof (relation "measure (\<lambda>(sha, D). length D)")
  fix D :: "bytes list" and sha :: "bytes \<Rightarrow> bytes"
  assume "D \<noteq> []" "length D \<noteq> 1"
  then have "1 < length D" by (cases D) auto
  then have b: "0 < split_point (length D)" "split_point (length D) < length D"
    using split_point_bounds by auto
  from b show "((sha, take (split_point (length D)) D), sha, D) \<in> measure (\<lambda>(sha, D). length D)"
    by simp
  from b show "((sha, drop (split_point (length D)) D), sha, D) \<in> measure (\<lambda>(sha, D). length D)"
    by simp
qed simp

declare mth.simps [simp del]

function audit_path :: "(bytes \<Rightarrow> bytes) \<Rightarrow> nat \<Rightarrow> bytes list \<Rightarrow> bytes list" where
  "audit_path sha m D =
     (if length D \<le> 1 then []
      else let k = split_point (length D) in
        if m < k then audit_path sha m (take k D) @ [mth sha (drop k D)]
        else audit_path sha (m - k) (drop k D) @ [mth sha (take k D)])"
  by pat_completeness auto
termination
proof (relation "measure (\<lambda>(sha, m, D). length D)")
  fix D :: "bytes list" and sha :: "bytes \<Rightarrow> bytes" and m k :: nat
  assume D: "\<not> length D \<le> 1" and k: "k = split_point (length D)"
  then have b: "0 < k" "k < length D"
    using split_point_bounds [of "length D"] by auto
  from b show "((sha, m, take k D), sha, m, D) \<in> measure (\<lambda>(sha, m, D). length D)"
    by simp
  from b show "((sha, m - k, drop k D), sha, m, D) \<in> measure (\<lambda>(sha, m, D). length D)"
    by simp
qed simp

declare audit_path.simps [simp del]

lemma mth_single [simp]: "mth sha [d] = compute_leaf_hash sha d"
  by (simp add: mth.simps)

lemma split_point_eq:
  assumes "2 ^ h < n" "n \<le> 2 * 2 ^ h"
  shows "split_point n = 2 ^ h"
proof -
  have "0 < (2::nat) ^ h" by simp
  then have "1 < n" using assms(1) by linarith
  then obtain g where g: "split_point n = 2 ^ g" "2 ^ g < n" "n \<le> 2 * 2 ^ g"
    by (rule split_pointE)
  have "g = h"
  proof (rule ccontr)
    assume "g \<noteq> h"
    then consider "Suc g \<le> h" | "Suc h \<le> g" by linarith
    then show False
    proof cases
      case 1
      then have "(2::nat) ^ Suc g \<le> 2 ^ h" by (rule power_increasing) simp
      with g assms show False by simp
    next
      case 2
      then have "(2::nat) ^ Suc h \<le> 2 ^ g" by (rule power_increasing) simp
      with g assms show False by simp
    qed
  qed
  with g show ?thesis by simp
qed

lemma pow_less_one: "2 ^ h < (n::nat) \<Longrightarrow> 1 < n"
proof -
  assume "2 ^ h < n"
  moreover have "0 < (2::nat) ^ h" by simp
  ultimately show "1 < n" by linarith
qed

lemma mth_split:
  assumes "2 ^ h < length D" "length D \<le> 2 * 2 ^ h"
  shows "mth sha D = compute_node_hash sha (mth sha (take (2 ^ h) D)) (mth sha (drop (2 ^ h) D))"
  using split_point_eq [OF assms] pow_less_one [OF assms(1)]
  by (subst mth.simps) auto

lemma audit_path_split:
  assumes "2 ^ h < length D" "length D \<le> 2 * 2 ^ h"
  shows "audit_path sha m D =
    (if m < 2 ^ h then audit_path sha m (take (2 ^ h) D) @ [mth sha (drop (2 ^ h) D)]
     else audit_path sha (m - 2 ^ h) (drop (2 ^ h) D) @ [mth sha (take (2 ^ h) D)])"
  using split_point_eq [OF assms] pow_less_one [OF assms(1)]
  by (subst audit_path.simps) (simp add: Let_def)

section \<open>The tree level by level\<close>

definition seg :: "bytes list \<Rightarrow> nat \<Rightarrow> nat \<Rightarrow> bytes list" where
  "seg D j i = take (2 ^ j) (drop (i * 2 ^ j) D)"

definition node_at :: "(bytes \<Rightarrow> bytes) \<Rightarrow> bytes list \<Rightarrow> nat \<Rightarrow> nat \<Rightarrow> bytes" where
  "node_at sha D j i = mth sha (seg D j i)"

function bpath :: "(bytes \<Rightarrow> bytes) \<Rightarrow> bytes list \<Rightarrow> nat \<Rightarrow> nat \<Rightarrow> nat \<Rightarrow> bytes list" where
  "bpath sha D j f s =
     (if s = 0 then []
      else if odd f then node_at sha D j (f - 1) # bpath sha D (Suc j) (f div 2) (s div 2)
      else if f = s then bpath sha D (Suc j) (f div 2) (s div 2)
      else node_at sha D j (f + 1) # bpath sha D (Suc j) (f div 2) (s div 2))"
  by pat_completeness auto
termination by (relation "measure (\<lambda>(sha, D, j, f, s). s)") auto

declare bpath.simps [simp del]

text \<open>\<open>last_at D j s\<close>: \<open>s\<close> is the index of the last node of level \<open>j\<close>.\<close>

definition last_at :: "bytes list \<Rightarrow> nat \<Rightarrow> nat \<Rightarrow> bool" where
  "last_at D j s = (D \<noteq> [] \<and> s = (length D - 1) div 2 ^ j)"

lemma last_at_Suc: "last_at D j s \<Longrightarrow> last_at D (Suc j) (s div 2)"
  by (simp add: last_at_def power_Suc2 div_mult2_eq [of _ "2 ^ j" 2] del: power_Suc)

lemma last_at_bound: "last_at D j s \<Longrightarrow> s * 2 ^ j < length D \<and> length D \<le> (s + 1) * 2 ^ j"
proof -
  assume a: "last_at D j s"
  then have n: "0 < length D" and s: "s = (length D - 1) div 2 ^ j" by (auto simp: last_at_def)
  have "s * 2 ^ j \<le> length D - 1" using s by simp
  moreover have "length D - 1 < (s + 1) * 2 ^ j"
    using s by (metis add.commute div_less_iff_less_mult less_add_one zero_less_numeral zero_less_power)
  ultimately show ?thesis using n by linarith
qed

lemma node_at_pair:
  assumes "last_at D j s" "even i" "i < s"
  shows "node_at sha D (Suc j) (i div 2) = compute_node_hash sha (node_at sha D j i) (node_at sha D j (i + 1))"
proof -
  let ?E = "seg D (Suc j) (i div 2)"
  have i: "i div 2 * 2 ^ Suc j = i * 2 ^ j" using assms(2) by auto
  have "(i + 1) * 2 ^ j \<le> s * 2 ^ j" using assms(3) by (intro mult_le_mono1) simp
  with last_at_bound [OF assms(1)] have b: "(i + 1) * 2 ^ j < length D" by linarith
  have l: "2 ^ j < length ?E" "length ?E \<le> 2 * 2 ^ j"
    unfolding seg_def i using b by (simp_all add: algebra_simps)
  have t: "take (2 ^ j) ?E = seg D j i" unfolding seg_def i by (simp add: min_def)
  have d: "drop (2 ^ j) ?E = seg D j (i + 1)"
    unfolding seg_def i by (simp add: drop_take algebra_simps)
  show ?thesis
    unfolding node_at_def by (subst mth_split [OF l]) (simp only: t d)
qed

lemma node_at_promote:
  assumes "last_at D j s" "even s"
  shows "node_at sha D (Suc j) (s div 2) = node_at sha D j s"
proof -
  have i: "s div 2 * 2 ^ Suc j = s * 2 ^ j" using assms(2) by auto
  have "length (drop (s * 2 ^ j) D) \<le> 2 ^ j"
    using last_at_bound [OF assms(1)] by (simp add: add_mult_distrib) linarith
  then show ?thesis by (simp add: node_at_def seg_def i del: power_Suc) (simp add: i)
qed

lemma node_at_root:
  "last_at D j 0 \<Longrightarrow> node_at sha D j 0 = mth sha D"
  using last_at_bound [of D j 0] by (simp add: node_at_def seg_def)

lemma node_at_step:
  assumes "last_at D j s" "f \<le> s" "\<not> (even f \<and> f = s)"
  shows "node_at sha D (Suc j) (f div 2) =
    (if odd f then compute_node_hash sha (node_at sha D j (f - 1)) (node_at sha D j f)
     else compute_node_hash sha (node_at sha D j f) (node_at sha D j (f + 1)))"
proof (cases "odd f")
  case True
  then have "(f - 1) div 2 = f div 2" "even (f - 1)" "f - 1 + 1 = f" "f - 1 < s"
    using assms(2) by (auto elim!: oddE)
  with node_at_pair [OF assms(1), of "f - 1" sha] True show ?thesis by simp
next
  case False
  with assms node_at_pair [OF assms(1), of f sha] show ?thesis by simp
qed

section \<open>Completeness\<close>

lemma walk_bpath:
  "last_at D j s \<Longrightarrow> f \<le> s \<Longrightarrow> walk_levels sha f s (node_at sha D j f) (bpath sha D j f s) = Inr (mth sha D)"
proof (induction sha D j f s rule: bpath.induct)
  case (1 sha D j f s)
  have le: "f div 2 \<le> s div 2" using 1 by (simp add: div_le_mono)
  note L = last_at_Suc [OF "1.prems"(1)]
  consider "s = 0" | "s \<noteq> 0" "even f" "f = s" | "s \<noteq> 0" "odd f" | "s \<noteq> 0" "even f" "f \<noteq> s" by blast
  then show ?case
  proof cases
    case 1
    with "1.prems" show ?thesis by (simp add: bpath.simps walk_levels.simps node_at_root)
  next
    case 2
    with "1.IH"(2) [OF _ _ _ L le] node_at_promote [OF "1.prems"(1), of sha] show ?thesis
      by (simp add: bpath.simps [of sha D j s s] walk_levels.simps [of sha s s])
  next
    case 3
    with "1.IH"(1) [OF _ _ L le] node_at_step [OF "1.prems", of sha] show ?thesis
      by (simp add: bpath.simps [of sha D j f s] walk_levels.simps [of sha f s])
  next
    case 4
    with "1.IH"(3) [OF _ _ _ L le] node_at_step [OF "1.prems", of sha] show ?thesis
      by (simp add: bpath.simps [of sha D j f s] walk_levels.simps [of sha f s])
  qed
qed

section \<open>The level-by-level path is the audit path\<close>

lemma seg_take: "(i + 1) * 2 ^ j \<le> k \<Longrightarrow> seg (take k D) j i = seg D j i"
  by (simp add: seg_def drop_take min_absorb1 add_mult_distrib)

lemma seg_drop: "seg (drop (q * 2 ^ j) D) j i = seg D j (i + q)"
  by (simp add: seg_def add_mult_distrib)

lemma node_at_take: "(i + 1) * 2 ^ j \<le> k \<Longrightarrow> node_at sha (take k D) j i = node_at sha D j i"
  by (simp add: node_at_def seg_take)

lemma node_at_drop: "node_at sha (drop (q * 2 ^ j) D) j i = node_at sha D j (i + q)"
  by (simp add: node_at_def seg_drop)

lemma pow_level: "j \<le> h \<Longrightarrow> (2::nat) ^ (h - j) * 2 ^ j = 2 ^ h"
  by (simp flip: power_add)

lemma last_at_split:
  assumes "last_at D h s" "2 ^ h < length D" "length D \<le> 2 * 2 ^ h"
  shows "s = 1"
proof -
  have b: "s * 2 ^ h < length D" "length D \<le> (s + 1) * 2 ^ h"
    using last_at_bound [OF assms(1)] by auto
  have "s * 2 ^ h < 2 * 2 ^ h" using b(1) assms(3) by linarith
  then have "s < 2" by simp
  have "1 * 2 ^ h < (s + 1) * 2 ^ h" using b(2) assms(2) by linarith
  then have "1 < s + 1" by (metis mult_less_cancel2)
  with \<open>s < 2\<close> show ?thesis by linarith
qed

lemma bpath_left:
  "j + d = h \<Longrightarrow> last_at D j s \<Longrightarrow> 2 ^ h < length D \<Longrightarrow> length D \<le> 2 * 2 ^ h \<Longrightarrow> f < 2 ^ d \<Longrightarrow>
   2 ^ d \<le> s \<Longrightarrow>
   bpath sha D j f s = bpath sha (take (2 ^ h) D) j f (2 ^ d - 1) @ [mth sha (drop (2 ^ h) D)]"
proof (induction d arbitrary: j f s)
  case 0
  then have s: "s = 1" using last_at_split [of D h s] by simp
  have "length (drop (2 ^ h) D) \<le> 2 ^ h" using 0 by simp
  then have "node_at sha D h 1 = mth sha (drop (2 ^ h) D)"
    by (simp add: node_at_def seg_def)
  with 0 s show ?case by (simp add: bpath.simps)
next
  case (Suc d)
  have sp: "0 < s" using Suc.prems(6) by (metis gr0I le_zero_eq power_not_zero zero_neq_numeral)
  have L: "last_at D (Suc j) (s div 2)" using Suc.prems(2) by (rule last_at_Suc)
  have half: "f div 2 < 2 ^ d" "2 ^ d \<le> s div 2" using Suc.prems(5,6) by auto
  have last: "(2 * 2 ^ d - Suc 0) div 2 = 2 ^ d - (1::nat)" by linarith
  have IH: "bpath sha D (Suc j) (f div 2) (s div 2) =
      bpath sha (take (2 ^ h) D) (Suc j) (f div 2) (2 ^ d - 1) @ [mth sha (drop (2 ^ h) D)]"
    using Suc.prems half by (intro Suc.IH L) auto
  have pl: "(2::nat) ^ Suc d * 2 ^ j = 2 ^ h" using Suc.prems(1) pow_level [of j h] by (metis add_diff_cancel_left' le_add1)
  have fit: "i < 2 ^ Suc d \<Longrightarrow> node_at sha (take (2 ^ h) D) j i = node_at sha D j i" for i
  proof (rule node_at_take)
    assume "i < 2 ^ Suc d"
    then have "(i + 1) * 2 ^ j \<le> 2 ^ Suc d * 2 ^ j" by (intro mult_le_mono1) simp
    then show "(i + 1) * 2 ^ j \<le> 2 ^ h" by (simp only: pl)
  qed
  have ps: "(0::nat) < 2 * 2 ^ d - Suc 0" by (simp add: Suc_lessI)
  show ?case
  proof (cases "odd f")
    case True
    with Suc.prems(5) sp ps IH last fit [of "f - 1"] show ?thesis
      by (subst (1 2) bpath.simps) simp
  next
    case False
    have f: "f + 1 < 2 ^ Suc d" using False Suc.prems(5) by (metis Suc_eq_plus1 Suc_lessI dvd_power even_Suc zero_less_Suc)
    then have "f \<noteq> s" "f \<noteq> 2 * 2 ^ d - Suc 0" using Suc.prems(6) by auto
    with False f sp ps IH last fit [of "f + 1"] show ?thesis
      by (subst (1 2) bpath.simps) simp
  qed
qed

lemma bpath_right:
  "j + d = h \<Longrightarrow> last_at D j s \<Longrightarrow> 2 ^ h < length D \<Longrightarrow> length D \<le> 2 * 2 ^ h \<Longrightarrow> f \<le> s \<Longrightarrow>
   2 ^ d \<le> f \<Longrightarrow>
   bpath sha D j f s = bpath sha (drop (2 ^ h) D) j (f - 2 ^ d) (s - 2 ^ d) @ [mth sha (take (2 ^ h) D)]"
proof (induction d arbitrary: j f s)
  case 0
  then have s: "s = 1" using last_at_split [of D h s] by simp
  then have f: "f = 1" using 0 by simp
  have "node_at sha D h 0 = mth sha (take (2 ^ h) D)" by (simp add: node_at_def seg_def)
  with 0 s f show ?case by (simp add: bpath.simps)
next
  case (Suc d)
  have sp: "0 < s" using Suc.prems(5,6) by (metis gr0I le_zero_eq power_not_zero zero_neq_numeral)
  have L: "last_at D (Suc j) (s div 2)" using Suc.prems(2) by (rule last_at_Suc)
  have half: "f div 2 \<le> s div 2" "2 ^ d \<le> f div 2" using Suc.prems(5,6) by auto
  have IH: "bpath sha D (Suc j) (f div 2) (s div 2) =
      bpath sha (drop (2 ^ h) D) (Suc j) (f div 2 - 2 ^ d) (s div 2 - 2 ^ d) @ [mth sha (take (2 ^ h) D)]"
    using Suc.prems half by (intro Suc.IH L) auto
  have pl: "(2::nat) ^ Suc d * 2 ^ j = 2 ^ h" using Suc.prems(1) pow_level [of j h] by (metis add_diff_cancel_left' le_add1)
  have shift: "node_at sha (drop (2 ^ h) D) j i = node_at sha D j (i + 2 * 2 ^ d)" for i
    using node_at_drop [of sha "2 ^ Suc d" j D i] unfolding pl by simp
  have hd: "(f - 2 * 2 ^ d) div 2 = f div 2 - 2 ^ d" "(s - 2 * 2 ^ d) div 2 = s div 2 - 2 ^ d"
    using Suc.prems(5,6) by auto
  have par: "odd (f - 2 * 2 ^ d) = odd f" using Suc.prems(6) by simp
  have le: "2 * 2 ^ d \<le> f" "2 * 2 ^ d \<le> s" using Suc.prems(5,6) by simp_all
  consider "odd f" | "even f" "f = s" | "even f" "f \<noteq> s" by blast
  then show ?case
  proof cases
    case 1
    then have "f \<noteq> 2 * 2 ^ d" by auto
    with le have "2 * 2 ^ d < f" by simp
    then have "s \<noteq> 2 * 2 ^ d" "f - Suc (2 * 2 ^ d) + 2 * 2 ^ d = f - 1" using Suc.prems(5) by auto
    with 1 sp IH hd par le shift [of "f - 2 * 2 ^ d - 1"] show ?thesis
      by (subst (1 2) bpath.simps) simp
  next
    case 2
    show ?thesis
    proof (cases "s = 2 * 2 ^ d")
      case True
      with 2 sp IH hd par show ?thesis
        by (subst (1 2) bpath.simps) (simp add: bpath.simps [of sha _ _ 0 0])
    next
      case False
      with 2 sp IH hd par le show ?thesis
        by (subst (1 2) bpath.simps) simp
    qed
  next
    case 3
    then have "s \<noteq> 2 * 2 ^ d" "f - 2 * 2 ^ d \<noteq> s - 2 * 2 ^ d" using le Suc.prems(5) by auto
    with 3 sp IH hd par le shift [of "f - 2 * 2 ^ d + 1"] show ?thesis
      by (subst (1 2) bpath.simps) simp
  qed
qed

lemma last_at_zero: "D \<noteq> [] \<Longrightarrow> last_at D 0 (length D - 1)"
  by (simp add: last_at_def)

lemma bpath_audit: "m < length D \<Longrightarrow> bpath sha D 0 m (length D - 1) = audit_path sha m D"
proof (induction sha m D rule: audit_path.induct)
  case (1 sha m D)
  show ?case
  proof (cases "length D \<le> 1")
    case True
    then show ?thesis by (simp add: bpath.simps audit_path.simps)
  next
    case False
    then obtain h where h: "split_point (length D) = 2 ^ h" "2 ^ h < length D" "length D \<le> 2 * 2 ^ h"
      by (metis not_le split_pointE)
    from False have L: "last_at D 0 (length D - 1)" by (intro last_at_zero) auto
    show ?thesis
    proof (cases "m < 2 ^ h")
      case True
      have "bpath sha (take (2 ^ h) D) 0 m (2 ^ h - 1) = audit_path sha m (take (2 ^ h) D)"
        using "1.IH"(1) [OF False refl] True h by (simp add: min_def split: if_splits)
      moreover have "bpath sha D 0 m (length D - 1) =
          bpath sha (take (2 ^ h) D) 0 m (2 ^ h - 1) @ [mth sha (drop (2 ^ h) D)]"
        using True h by (intro bpath_left [OF _ L]) auto
      ultimately show ?thesis using True audit_path_split [OF h(2,3)] by simp
    next
      case F: False
      have "bpath sha (drop (2 ^ h) D) 0 (m - 2 ^ h) (length D - 1 - 2 ^ h) = audit_path sha (m - 2 ^ h) (drop (2 ^ h) D)"
        using "1.IH"(2) [OF False refl] F h "1.prems" by simp
      moreover have "bpath sha D 0 m (length D - 1) =
          bpath sha (drop (2 ^ h) D) 0 (m - 2 ^ h) (length D - 1 - 2 ^ h) @ [mth sha (take (2 ^ h) D)]"
        using F h "1.prems" by (intro bpath_right [OF _ L]) auto
      ultimately show ?thesis using F audit_path_split [OF h(2,3)] by simp
    qed
  qed
qed

lemma length_bpath: "s < 2 ^ e \<Longrightarrow> length (bpath sha D j f s) \<le> e"
proof (induction sha D j f s arbitrary: e rule: bpath.induct)
  case (1 sha D j f s)
  show ?case
  proof (cases "s = 0")
    case False
    with 1 obtain e' where e: "e = Suc e'" by (cases e) auto
    with "1.prems" have "s div 2 < 2 ^ e'" by auto
    with "1.IH" False have "length (bpath sha D (Suc j) (f div 2) (s div 2)) \<le> e'" by metis
    with False e show ?thesis by (subst bpath.simps) auto
  qed (simp add: bpath.simps)
qed

lemma length_audit_path:
  "m < length D \<Longrightarrow> length D \<le> 2 ^ e \<Longrightarrow> length (audit_path sha m D) \<le> e"
  using length_bpath [of "length D - 1" e sha D 0 m] bpath_audit [of m D sha] by (cases "length D") auto

lemma node_at_leaf: "m < length D \<Longrightarrow> node_at sha D 0 m = compute_leaf_hash sha (D ! m)"
  by (simp add: node_at_def seg_def take_Suc_conv_app_nth [of 0] flip: Cons_nth_drop_Suc)

lemma walk_audit_path:
  assumes "m < length D"
  shows "walk_levels sha m (length D - 1) (compute_leaf_hash sha (D ! m)) (audit_path sha m D) = Inr (mth sha D)"
proof -
  from assms have "D \<noteq> []" "m \<le> length D - 1" by auto
  with walk_bpath [OF last_at_zero] assms show ?thesis
    by (metis bpath_audit node_at_leaf)
qed

section \<open>Soundness\<close>

text \<open>
  The inputs a walk hashes. Collision freeness is asked of \<open>sha\<close> on the finitely many inputs the
  two walks at hand really hash, the one being verified and the one of the specification.
\<close>

function walk_inputs :: "(bytes \<Rightarrow> bytes) \<Rightarrow> nat \<Rightarrow> nat \<Rightarrow> bytes \<Rightarrow> bytes list \<Rightarrow> bytes list" where
  "walk_inputs sha f s r ps =
     (if s = 0 \<or> ps = [] \<and> \<not> (even f \<and> f = s) then []
      else if even f \<and> f = s then walk_inputs sha (f div 2) (s div 2) r ps
      else let x = (if odd f then node_input (hd ps) r else node_input r (hd ps)) in
        x # walk_inputs sha (f div 2) (s div 2) (sha x) (tl ps))"
  by pat_completeness auto
termination by (relation "measure (\<lambda>(sha, f, s, r, ps). s)") auto

declare walk_inputs.simps [simp del]

definition inclusion_inputs :: "(bytes \<Rightarrow> bytes) \<Rightarrow> bytes \<Rightarrow> nat \<Rightarrow> nat \<Rightarrow> bytes list \<Rightarrow> bytes list" where
  "inclusion_inputs sha event m n ps =
     leaf_input event # walk_inputs sha m (n - 1) (compute_leaf_hash sha event) ps"

definition hash32 :: "bytes \<Rightarrow> bool" where
  "hash32 h = (length h = 32)"

lemma node_input_eq:
  "length l = length l' \<Longrightarrow> node_input l r = node_input l' r' \<longleftrightarrow> l = l' \<and> r = r'"
  by (simp add: node_input_def)

lemma walk_levels_unique:
  "walk_levels sha f s r ps = Inr t \<Longrightarrow> walk_levels sha f s r' ps' = Inr t \<Longrightarrow>
    inj_on sha (set (walk_inputs sha f s r ps) \<union> set (walk_inputs sha f s r' ps')) \<Longrightarrow>
    hash32 r \<Longrightarrow> hash32 r' \<Longrightarrow> list_all hash32 ps \<Longrightarrow> list_all hash32 ps' \<Longrightarrow>
    (\<And>x. hash32 (sha x)) \<Longrightarrow> r = r' \<and> ps = ps'"
proof (induction sha f s r ps arbitrary: r' ps' rule: walk_levels.induct)
  case (1 sha f s r ps)
  consider "s = 0" | "s \<noteq> 0" "even f" "f = s" | "s \<noteq> 0" "\<not> (even f \<and> f = s)" by blast
  then show ?case
  proof cases
    case 1
    with "1.prems" show ?thesis by (simp add: walk_levels.simps split: if_splits)
  next
    case 2
    with "1.prems" have "walk_levels sha (s div 2) (s div 2) r ps = Inr t"
      "walk_levels sha (s div 2) (s div 2) r' ps' = Inr t"
      "inj_on sha (set (walk_inputs sha (s div 2) (s div 2) r ps) \<union> set (walk_inputs sha (s div 2) (s div 2) r' ps'))"
      by (simp_all add: walk_levels.simps [of sha s s] walk_inputs.simps [of sha s s])
    with "1.IH"(1) 2 "1.prems"(4-8) show ?thesis by blast
  next
    case 3
    from 3 "1.prems"(1,2) have ne: "ps \<noteq> []" "ps' \<noteq> []"
      by (auto simp: walk_levels.simps [of sha f s])
    define x where "x = (if odd f then node_input (hd ps) r else node_input r (hd ps))"
    define x' where "x' = (if odd f then node_input (hd ps') r' else node_input r' (hd ps'))"
    have c: "(if odd f then compute_node_hash sha (hd ps) r else compute_node_hash sha r (hd ps)) = sha x"
      "(if odd f then compute_node_hash sha (hd ps') r' else compute_node_hash sha r' (hd ps')) = sha x'"
      by (simp_all add: x_def x'_def compute_node_hash_def)
    have w: "walk_levels sha (f div 2) (s div 2) (sha x) (tl ps) = Inr t"
      "walk_levels sha (f div 2) (s div 2) (sha x') (tl ps') = Inr t"
      using 3 ne "1.prems"(1,2) by (simp_all add: walk_levels.simps [of sha f s] c split: if_splits)
    have i: "walk_inputs sha f s r ps = x # walk_inputs sha (f div 2) (s div 2) (sha x) (tl ps)"
      "walk_inputs sha f s r' ps' = x' # walk_inputs sha (f div 2) (s div 2) (sha x') (tl ps')"
      using 3 ne by (auto simp: walk_inputs.simps [of sha f s] x_def x'_def Let_def)
    have inj: "inj_on sha (insert x (insert x' (set (walk_inputs sha (f div 2) (s div 2) (sha x) (tl ps))
        \<union> set (walk_inputs sha (f div 2) (s div 2) (sha x') (tl ps')))))"
      using "1.prems"(3) unfolding i by (simp add: insert_commute)
    have h: "hash32 (hd ps)" "hash32 (hd ps')" "list_all hash32 (tl ps)" "list_all hash32 (tl ps')"
      using ne "1.prems"(6,7) by (cases ps; cases ps'; simp)+
    have "sha x = sha x' \<and> tl ps = tl ps'"
    proof (rule "1.IH"(2) [OF 3 ne(1), unfolded c, OF w])
      show "inj_on sha (set (walk_inputs sha (f div 2) (s div 2) (sha x) (tl ps))
          \<union> set (walk_inputs sha (f div 2) (s div 2) (sha x') (tl ps')))"
        using inj by (rule inj_on_subset) auto
    qed (use h "1.prems"(8) in simp_all)
    moreover from this inj have "x = x'" by (metis inj_on_eq_iff insertI1 insertI2)
    moreover from this have "r = r' \<and> hd ps = hd ps'"
      using h "1.prems"(4,5) by (auto simp: x_def x'_def node_input_eq hash32_def split: if_splits)
    ultimately show ?thesis using ne by (metis list.collapse)
  qed
qed

lemma inclusion_unique:
  assumes "\<And>x. hash32 (sha x)" "m < length D"
    and "inj_on sha (set (inclusion_inputs sha event m (length D) ps)
                       \<union> set (inclusion_inputs sha (D ! m) m (length D) (audit_path sha m D)))"
    and "list_all hash32 ps"
    and "list_all hash32 (audit_path sha m D)"
    and "walk_levels sha m (length D - 1) (compute_leaf_hash sha event) ps = Inr (mth sha D)"
  shows "event = D ! m \<and> ps = audit_path sha m D"
proof -
  have inj: "inj_on sha (set (walk_inputs sha m (length D - 1) (compute_leaf_hash sha event) ps)
      \<union> set (walk_inputs sha m (length D - 1) (compute_leaf_hash sha (D ! m)) (audit_path sha m D)))"
    using assms(3) by (rule inj_on_subset) (auto simp: inclusion_inputs_def)
  have "compute_leaf_hash sha event = compute_leaf_hash sha (D ! m) \<and> ps = audit_path sha m D"
    by (rule walk_levels_unique [OF assms(6) walk_audit_path [OF assms(2)] inj _ _ assms(4,5,1)])
      (simp_all add: compute_leaf_hash_def assms(1))
  moreover from this have "sha (leaf_input event) = sha (leaf_input (D ! m))"
    by (simp add: compute_leaf_hash_def)
  then have "leaf_input event = leaf_input (D ! m)"
    by (rule inj_onD [OF assms(3)]) (simp_all add: inclusion_inputs_def)
  ultimately show ?thesis by (simp add: leaf_input_def)
qed

lemma hash32_mth: "(\<And>x. hash32 (sha x)) \<Longrightarrow> hash32 (mth sha D)"
  by (subst mth.simps) (simp add: compute_leaf_hash_def compute_node_hash_def)

lemma hash32_audit_path: "(\<And>x. hash32 (sha x)) \<Longrightarrow> list_all hash32 (audit_path sha m D)"
  by (induction sha m D rule: audit_path.induct)
    (subst audit_path.simps, simp add: Let_def hash32_mth)

section \<open>What the verifier decides\<close>

lemma verify_complete [accepts]:
  assumes "m < length D" "length D \<le> 2 ^ 63"
  shows "verify_merkle_inclusion sha (D ! m) (of_nat m) (of_nat (length D)) (audit_path sha m D) (mth sha D) = None"
proof -
  have u: "unat (of_nat (length D) :: 64 word) = length D" "unat (of_nat m :: 64 word) = m"
    using assms by (simp_all add: unat_of_nat)
  with assms length_audit_path [OF assms] walk_audit_path [OF assms(1), of sha] show ?thesis
    by (simp add: verify_inclusion_iff max_hash_path_len_def word_less_nat_alt)
qed

lemma verify_sound [accepts]:
  assumes "\<And>x. hash32 (sha x)" "unat n = length D" "list_all hash32 ps"
    and "verify_merkle_inclusion sha event i n ps (mth sha D) = None"
    and "inj_on sha (set (inclusion_inputs sha event (unat i) (length D) ps)
           \<union> set (inclusion_inputs sha (D ! unat i) (unat i) (length D) (audit_path sha (unat i) D)))"
  shows "unat i < length D \<and> event = D ! unat i \<and> ps = audit_path sha (unat i) D"
proof -
  have "unat i < length D"
    using assms(2,4) by (simp add: verify_inclusion_iff word_less_nat_alt)
  moreover have "event = D ! unat i \<and> ps = audit_path sha (unat i) D"
    using assms calculation by (intro inclusion_unique) (auto simp: verify_inclusion_iff hash32_audit_path)
  ultimately show ?thesis by blast
qed

end
