(* ===== verification/Transparency.thy ===== *)
theory Transparency
  imports Receipt Checkpoint Merkle_Tree
begin

text \<open>
  A receipt, a signed tree head and the log's tree together: the audit path a receipt carries, the
  collision-freeness its verification relies on, and what \<open>VerifyReceipt\<close> followed by
  \<open>Checkpoint.Covers\<close> says about the list of entries behind the tree head.
\<close>

definition receipt_path :: "cbor_lib \<Rightarrow> bytes \<Rightarrow> bytes list" where
  "receipt_path L data =
     (case rbind (parse_cose_sign1 L data) (\<lambda>p. extract_vdp L (pc_unprotected p)) of
        Inl _ \<Rightarrow> [] | Inr (_, _, ps) \<Rightarrow> ps)"

text \<open>
  No two of the finitely many strings hashed by the walk at hand and by the honest walk of entry
  \<open>i\<close> of the log \<open>D\<close> collide.
\<close>

definition collision_free_at ::
  "(bytes \<Rightarrow> bytes) \<Rightarrow> bytes list \<Rightarrow> nat \<Rightarrow> bytes \<Rightarrow> bytes list \<Rightarrow> bool" where
  "collision_free_at sha D i event ps =
     inj_on sha (set (inclusion_inputs sha event i (length D) ps)
               \<union> set (inclusion_inputs sha (D ! i) i (length D) (audit_path sha i D)))"

lemma receipt_walk:
  assumes "verify_receipt L C keys data = Inr r"
  shows "walk_inclusion_path (cr_sha256 C) (vr_event_bytes r) (vr_leaf_index r) (vr_tree_size r)
           (receipt_path L data) = Inr (vr_root_hash r)"
    and "list_all hash32 (receipt_path L data)"
proof -
  obtain cose ps where c: "parse_cose_sign1 L data = Inr cose" "vr_event_bytes r = pc_payload cose"
    "extract_vdp L (pc_unprotected cose) = Inr (vr_tree_size r, vr_leaf_index r, ps)"
    "walk_inclusion_path (cr_sha256 C) (pc_payload cose) (vr_leaf_index r) (vr_tree_size r) ps = Inr (vr_root_hash r)"
    using assms unfolding verify_receipt_Inr verify_inclusion_proof_Inr by blast
  have p: "receipt_path L data = ps" using c(1,3) by (simp add: receipt_path_def)
  show "walk_inclusion_path (cr_sha256 C) (vr_event_bytes r) (vr_leaf_index r) (vr_tree_size r)
      (receipt_path L data) = Inr (vr_root_hash r)"
    using c p by simp
  show "list_all hash32 (receipt_path L data)"
    using extract_vdp_hashes [OF c(3)] p by (simp add: hash32_def list_all_iff)
qed

lemma receipt_inclusion:
  assumes "verify_receipt L C keys data = Inr r"
  shows "verify_merkle_inclusion (cr_sha256 C) (vr_event_bytes r) (vr_leaf_index r) (vr_tree_size r)
           (receipt_path L data) (vr_root_hash r) = None"
  using receipt_walk(1) [OF assms] by (simp add: verify_merkle_inclusion_def)

lemma receipt_member:
  assumes "verify_receipt L C keys data = Inr r" "covers cp r = None"
    and "cp_root_hash cp = mth (cr_sha256 C) D" "unat (cp_size cp) = length D"
    and "\<And>x. hash32 (cr_sha256 C x)"
    and "collision_free_at (cr_sha256 C) D (unat (vr_leaf_index r)) (vr_event_bytes r) (receipt_path L data)"
  shows "unat (vr_leaf_index r) < length D \<and> vr_event_bytes r = D ! unat (vr_leaf_index r)
       \<and> receipt_path L data = audit_path (cr_sha256 C) (unat (vr_leaf_index r)) D"
  using assms receipt_inclusion [OF assms(1)] receipt_walk(2) [OF assms(1)]
  by (intro verify_sound [of _ "vr_tree_size r"]) (simp_all add: collision_free_at_def)

text \<open>A receipt verifies independently of how its leaf index is reached: the root is determined.\<close>

lemma receipt_root_unique:
  assumes "verify_receipt L C keys data = Inr r" "verify_receipt L C keys' data = Inr r'"
  shows "r = r'"
  using assms unfolding verify_receipt_Inr
  by (cases r; cases r') auto

end
