(* ===== verification/Samples.thy ===== *)
theory Samples
  imports Verifier Transparency "HOL-Library.Option_ord"
begin

text \<open>
  Concrete instances of the parameters, for the theorems that apply the general ones: a small CBOR
  table, a hash that keeps the last 32 bytes of its padded input, signatures that are accepted when
  they equal one fixed value, and a badge, certificates and environments built on them.
\<close>

definition sample_unicode :: unicode where
  "sample_unicode = \<lparr>uni_lower = (\<lambda>s. s), uni_fold = (\<lambda>a b. a = b)\<rparr>"

definition sample_hash :: "bytes \<Rightarrow> bytes" where
  "sample_hash bs = take 32 (rev bs @ replicate 32 (CHR 0x00))"

definition sample_sig :: bytes where
  "sample_sig = replicate 64 (CHR 0x01)"

definition sample_fp :: bytes where
  "sample_fp = replicate 32 (CHR 0x61)"

definition sample_kid :: kid where
  "sample_kid = ''key1''"

definition sample_fields :: "bytes \<Rightarrow> (string \<times> string) list \<Rightarrow> bytes option" where
  "sample_fields b tab = map_of tab b"

definition sample_cbor :: cbor_lib where
  "sample_cbor =
     \<lparr>cb_mode = True,
      cb_raw = (\<lambda>b. Some b),
      cb_tag = (\<lambda>b. None),
      cb_array = (\<lambda>b. map_of [(''token'', [''prot'', ''unp'', ''pay'', ''sig'']),
                              (''receipt'', [''prot'', ''vdps'', ''event'', ''sig'']),
                              (''other'', [''prot'', ''vdps'', ''pay'', ''sig'']),
                              (''certs'', [''cert''])] b),
      cb_bytes = (\<lambda>b. map_of [(''prot'', ''prot''), (''pay'', ''pay''), (''event'', ''event''), (''sig'', sample_sig),
                              (''kid'', sample_kid), (''fp'', sample_fp)] b),
      cb_string = (\<lambda>b. map_of [(''id'', ''agent-1''), (''status'', ''ACTIVE''), (''name'', ''ans://v1.0.0.a.io''),
                               (''ctype'', ''x509-dv-server'')] b),
      cb_int64 = (\<lambda>b. map_of [(''alg'', -7), (''one'', 1), (''exp'', 1000)] b),
      cb_uint64 = (\<lambda>b. map_of [(''one'', 1), (''zero'', 0)] b),
      cb_int_map = (\<lambda>b. map_of [(''prot'', map_of [(1, ''alg''), (4, ''kid''), (395, ''one'')]),
                                (''vdps'', map_of [(396, ''vdp'')]),
                                (''vdp'', map_of [(-1, ''one''), (-2, ''zero'')])] b),
      cb_any_map = (\<lambda>b. map_of [(''pay'', map_of [(KUint 1, ''id''), (KUint 2, ''status''), (KUint 4, ''exp''),
                                   (KUint 5, ''name''), (KUint 6, ''certs''), (KUint 7, ''certs'')]),
                                (''cert'', map_of [(KUint 1, ''fp''), (KUint 2, ''ctype'')])] b),
      cb_str_map = (\<lambda>b. None),
      cb_marshal = (\<lambda>is. Some (concat (map (\<lambda>i. case i of CText t \<Rightarrow> t | CBytes b \<Rightarrow> b) is)))\<rparr>"

definition sample_crypto :: "nat crypto" where
  "sample_crypto =
     \<lparr>cr_sha256 = sample_hash,
      cr_verify_asn1 = (\<lambda>k d s. k = 7 \<and> s = der_signature (be_nat (take 32 sample_sig)) (be_nat (drop 32 sample_sig))),
      cr_verify_rs = (\<lambda>k d r s. k = 7 \<and> r = 1 \<and> s = 1),
      cr_parse_pkix = (\<lambda>spki. if spki = ''spki'' then Some (PK_P256 7) else None)\<rparr>"

definition sample_key :: "nat trusted_key" where
  "sample_key = \<lparr>tk_name = ''log'', tk_kid = sample_kid, tk_key = 7\<rparr>"

definition sample_keys :: "nat key_store" where
  "sample_keys = [(sample_kid, sample_key)]"

lemma sample_keys_ok: "ks_ok sample_keys"
  by (simp add: ks_ok_def sample_keys_def sample_key_def sample_kid_def)

lemma hash32_sample: "hash32 (sample_hash x)"
  by (simp add: hash32_def sample_hash_def)

definition sample_token :: verified_token where
  "sample_token =
     \<lparr>vt_payload = \<lparr>sp_agent_id = ''agent-1'', sp_ans_name = ''ans://v1.0.0.a.io'', sp_status = ''ACTIVE'',
        sp_iat = 0, sp_exp = 1000, sp_identity_certs = [\<lparr>cert_fp = sample_fp, cert_type = ''x509-dv-server''\<rparr>],
        sp_server_certs = [\<lparr>cert_fp = sample_fp, cert_type = ''x509-dv-server''\<rparr>],
        sp_metadata_hashes = Map.empty\<rparr>,
      vt_key_id = sample_kid\<rparr>"

definition sample_receipt :: verified_receipt where
  "sample_receipt =
     \<lparr>vr_tree_size = 1, vr_leaf_index = 0, vr_root_hash = sample_hash (CHR 0x00 # ''event''),
      vr_event_bytes = ''event'', vr_key_id = sample_kid, vr_iss = None, vr_iat = None\<rparr>"

lemma sample_cbor_simps [simp]:
  "cb_mode sample_cbor" "cb_raw sample_cbor b = Some b" "cb_tag sample_cbor b = None"
  "cb_array sample_cbor ''token'' = Some [''prot'', ''unp'', ''pay'', ''sig'']"
  "cb_array sample_cbor ''receipt'' = Some [''prot'', ''vdps'', ''event'', ''sig'']"
  "cb_array sample_cbor ''other'' = Some [''prot'', ''vdps'', ''pay'', ''sig'']"
  "cb_array sample_cbor ''certs'' = Some [''cert'']"
  "cb_bytes sample_cbor ''prot'' = Some ''prot''" "cb_bytes sample_cbor ''pay'' = Some ''pay''"
  "cb_bytes sample_cbor ''event'' = Some ''event''" "cb_bytes sample_cbor ''sig'' = Some sample_sig"
  "cb_bytes sample_cbor ''kid'' = Some sample_kid" "cb_bytes sample_cbor ''fp'' = Some sample_fp"
  "cb_string sample_cbor ''id'' = Some ''agent-1''" "cb_string sample_cbor ''status'' = Some ''ACTIVE''"
  "cb_string sample_cbor ''name'' = Some ''ans://v1.0.0.a.io''"
  "cb_string sample_cbor ''ctype'' = Some ''x509-dv-server''"
  "cb_int64 sample_cbor ''alg'' = Some (-7)" "cb_int64 sample_cbor ''one'' = Some 1"
  "cb_int64 sample_cbor ''exp'' = Some 1000"
  "cb_uint64 sample_cbor ''one'' = Some 1" "cb_uint64 sample_cbor ''zero'' = Some 0"
  "cb_int_map sample_cbor ''prot'' = Some (map_of [(1, ''alg''), (4, ''kid''), (395, ''one'')])"
  "cb_int_map sample_cbor ''vdps'' = Some (map_of [(396, ''vdp'')])"
  "cb_int_map sample_cbor ''vdp'' = Some (map_of [(-1, ''one''), (-2, ''zero'')])"
  "cb_any_map sample_cbor ''pay'' = Some (map_of [(KUint 1, ''id''), (KUint 2, ''status''), (KUint 4, ''exp''),
     (KUint 5, ''name''), (KUint 6, ''certs''), (KUint 7, ''certs'')])"
  "cb_any_map sample_cbor ''cert'' = Some (map_of [(KUint 1, ''fp''), (KUint 2, ''ctype'')])"
  "cb_marshal sample_cbor is = Some (concat (map (\<lambda>i. case i of CText t \<Rightarrow> t | CBytes b \<Rightarrow> b) is))"
  by (simp_all add: sample_cbor_def)

lemma sample_lengths [simp]:
  "length sample_sig = 64" "length sample_kid = 4" "length sample_fp = 32"
  by (simp_all add: sample_sig_def sample_kid_def sample_fp_def)

definition sample_cose :: "bytes \<Rightarrow> bytes \<Rightarrow> parsed_cose" where
  "sample_cose unp pay =
     \<lparr>pc_protected_bytes = ''prot'',
      pc_protected = \<lparr>ph_alg = -7, ph_kid = sample_kid, ph_vds = Some 1, ph_content_type = None,
        ph_cwt_iss = None, ph_cwt_iat = None\<rparr>,
      pc_unprotected = unp, pc_payload = pay, pc_signature = sample_sig\<rparr>"

lemma sample_protected:
  "parse_protected_header sample_cbor ''prot'' =
     Inr \<lparr>ph_alg = -7, ph_kid = sample_kid, ph_vds = Some 1, ph_content_type = None, ph_cwt_iss = None,
          ph_cwt_iat = None\<rparr>"
  by (simp add: parse_protected_header_def decode_alg_def decode_kid_def cose_alg_es256_def)

lemma sample_cose_parses:
  "parse_cose_sign1 sample_cbor ''token'' = Inr (sample_cose ''unp'' ''pay'')"
  "parse_cose_sign1 sample_cbor ''receipt'' = Inr (sample_cose ''vdps'' ''event'')"
  "parse_cose_sign1 sample_cbor ''other'' = Inr (sample_cose ''vdps'' ''pay'')"
  by (simp_all add: parse_cose_sign1_def parse_cose_elements_def max_cose_input_size_def unwrap_tag18_def
      sample_protected sample_cose_def p1363_signature_len_def)

lemma sample_signed: "signed_by sample_cbor sample_crypto 7 (sample_cose unp pay)"
  by (simp add: signed_by_def sample_crypto_def sample_cose_def sample_sig_def)

lemma sample_lookup: "key_store_get sample_keys sample_kid = Inr sample_key"
  by (simp add: key_store_get_def sample_keys_def)

lemma sample_token_payload:
  "decode_status_payload sample_unicode sample_cbor ''pay'' = Inr (vt_payload sample_token)"
  by (simp add: decode_status_payload_def decode_payload_fields_def payload_field_def
      decode_string_field_def decode_int64_field_def optional_certs_def decode_cert_array_def max_cert_array_len_def
      decode_cert_entry_def decode_fingerprint_field_def sample_fp_def zero_hash_def List.map_filter_simps
      sample_token_def Let_def)

lemma sample_not_expired:
  "\<not> token_expired 900 1000 (120 * nanos_per_second)" "\<not> token_expired 900 1000 max_clock_skew"
  by (simp_all add: token_expired_def skew_seconds_def clamp_skew_def max_clock_skew_def nanos_per_second_def Let_def)

lemma sample_token_at:
  "\<not> token_expired 900 1000 skew \<Longrightarrow>
     verify_status_token_at sample_unicode sample_cbor sample_crypto (key_store_get sample_keys) ''token'' skew 900
       = Inr sample_token"
  unfolding verify_status_token_Inr
  using sample_cose_parses(1) sample_lookup sample_signed sample_token_payload
  by (intro exI [of _ "sample_cose ''unp'' ''pay''"] exI [of _ sample_key])
    (simp add: sample_cose_def sample_key_def sample_token_def issuer_mismatch_def status_is_terminal_def
      agent_status_defs)

lemmas sample_token_verifies = sample_token_at [OF sample_not_expired(1)]
lemmas sample_token_verifies_max = sample_token_at [OF sample_not_expired(2)]

lemma sample_receipt_verifies:
  "verify_receipt sample_cbor sample_crypto (key_store_get sample_keys) ''receipt'' = Inr sample_receipt"
  unfolding verify_receipt_Inr
  using sample_cose_parses(2) sample_lookup sample_signed
  by (intro exI [of _ "sample_cose ''vdps'' ''event''"] exI [of _ sample_key])
    (simp add: sample_cose_def sample_key_def sample_receipt_def issuer_mismatch_def verify_inclusion_proof_Inr
      extract_vdp_def vdp_uint_def walk_inclusion_path_def compute_leaf_hash_def leaf_input_def
      max_hash_path_len_def sample_crypto_def)

text \<open>A second receipt, on other bytes, that verifies under the same key.\<close>

definition other_receipt :: verified_receipt where
  "other_receipt =
     \<lparr>vr_tree_size = 1, vr_leaf_index = 0, vr_root_hash = sample_hash (CHR 0x00 # ''pay''),
      vr_event_bytes = ''pay'', vr_key_id = sample_kid, vr_iss = None, vr_iat = None\<rparr>"

lemma other_receipt_verifies:
  "verify_receipt sample_cbor sample_crypto (key_store_get sample_keys) ''other'' = Inr other_receipt"
  unfolding verify_receipt_Inr
  using sample_cose_parses(3) sample_lookup sample_signed
  by (intro exI [of _ "sample_cose ''vdps'' ''pay''"] exI [of _ sample_key])
    (simp add: sample_cose_def sample_key_def other_receipt_def issuer_mismatch_def verify_inclusion_proof_Inr
      extract_vdp_def vdp_uint_def walk_inclusion_path_def compute_leaf_hash_def leaf_input_def
      max_hash_path_len_def sample_crypto_def)

section \<open>A signed checkpoint\<close>

definition note_crypto :: "nat crypto" where
  "note_crypto = sample_crypto\<lparr>cr_verify_asn1 := (\<lambda>k d s. k = 7 \<and> s = ''sig'')\<rparr>"

definition sample_body :: bytes where
  "sample_body = concat (map (\<lambda>l. l @ [newline]) [''log'', ''1'', ''YWFhYWFhYWFhYWFhYWFhYWFhYWFhYWFhYWFhYWFhYWE=''])"

definition sample_note :: bytes where
  "sample_note = sample_body @ [newline] @ signature_prefix @ ''log a2V5MXNpZw=='' @ [newline]"

lemma sample_note_text: "note_text_ok sample_note"
  by code_simp

lemma sample_note_split:
  "split_checkpoint_note sample_note =
  Inr (sample_body, [\<lparr>cs_name = ''log'', cs_kid = sample_kid, cs_sig = ''sig''\<rparr>])"
  by code_simp

lemma sample_body_lines:
  "std_decode ''YWFhYWFhYWFhYWFhYWFhYWFhYWFhYWFhYWFhYWFhYWE='' = Some sample_fp"
  "split_on newline (trim_suffix sample_body [newline]) = [''log'', ''1'', ''YWFhYWFhYWFhYWFhYWFhYWFhYWFhYWFhYWFhYWFhYWE='']"
  "parse_uint 64 ''1'' = Some 1"
  by code_simp+

lemma sample_note_body:
  "parse_checkpoint_body sample_body =
     Inr \<lparr>cp_origin = ''log'', cp_size = 1, cp_root_hash = sample_fp, cp_key_id = zero_kid\<rparr>"
  by (simp add: parse_checkpoint_body_def sample_body_lines hash_len_def)

lemma sample_note_verifies:
  "verify_checkpoint note_crypto (key_store_get sample_keys) sample_note =
     Inr \<lparr>cp_origin = ''log'', cp_size = 1, cp_root_hash = sample_fp, cp_key_id = sample_kid\<rparr>"
proof -
  have "length sample_note \<le> max_checkpoint_note_size" by code_simp
  then show ?thesis
    using sample_note_text sample_note_split sample_note_body sample_lookup
    by (simp add: verify_checkpoint_def verify_checkpoint_signatures_def check_signatures.simps(2)
        verify_checkpoint_signature_def bind_checkpoint_signer_def note_crypto_def sample_key_def first_some_def)
qed

section \<open>Certificates, badges and environments\<close>

definition sample_identity :: cert_identity where
  "sample_identity =
     \<lparr>ci_common_name = Some ''a.io'', ci_dns_sans = [''a.io''], ci_uri_sans = [''ans://v1.0.0.a.io''],
      ci_fingerprint = Cert_Fingerprint sample_fp, ci_raw = ''cert'', ci_spki_raw = ''spki''\<rparr>"

definition vouching_badge :: badge where
  "vouching_badge =
     \<lparr>badge_state = ''ACTIVE'',
      badge_payload_of = \<lparr>bp_log_id = [], bp_producer =
        \<lparr>pr_event = \<lparr>ev_ans_id = [], ev_ans_name = ''ans://v1.0.0.a.io'', ev_type = [],
           ev_agent = \<lparr>ai_host = ''a.io'', ai_name = ''a'', ai_version = ''1.0.0''\<rparr>,
           ev_attestations =
             \<lparr>domain_validation = [],
              att_identity_cert = Some \<lparr>att_fingerprint = ''SHA256:'' @ hex_encode sample_fp, att_type = []\<rparr>,
              att_server_cert = Some \<lparr>att_fingerprint = ''SHA256:'' @ hex_encode sample_fp, att_type = []\<rparr>\<rparr>,
           ev_expires_at = None, ev_issued_at = 0, ev_ra_id = [], ev_timestamp = 0\<rparr>,
         pr_key_id = [], pr_signature = []\<rparr>\<rparr>,
      badge_schema = [], badge_signature = None\<rparr>"

definition sample_record :: badge_record where
  "sample_record = \<lparr>br_format = ''ans-badge1'', br_version = None, br_url = ''https://tl/x'', br_source = SourceAnsBadge\<rparr>"

definition sample_config :: "nat verifier_config" where
  "sample_config =
     without_url_validation (with_scitt_key_lookup (key_store_get sample_keys)
       (with_cache_config default_cache_config (default_config sample_unicode)))"

definition sample_env :: "nat verify_env" where
  "sample_env =
     \<lparr>en_preferred = (\<lambda>_. Inr (Some sample_record)), en_for_version = (\<lambda>_ _. Inr (Some sample_record)),
      en_fetch = (\<lambda>_. Inr vouching_badge), en_now_get = 0, en_insert = (\<lambda>ks. ks, 1, 2), en_now_stale = 0,
      en_now_token = 900, en_unicode = sample_unicode, en_bracket_ok = (\<lambda>_. True),
      en_sha256 = sample_hash, en_sha512 = sample_hash, en_cbor = sample_cbor, en_crypto = sample_crypto\<rparr>"

lemma sample_env_simps [simp]:
  "en_preferred sample_env f = Inr (Some sample_record)" "en_for_version sample_env f v = Inr (Some sample_record)"
  "en_fetch sample_env url = Inr vouching_badge" "en_unicode sample_env = sample_unicode"
  "en_cbor sample_env = sample_cbor" "en_crypto sample_env = sample_crypto" "en_now_token sample_env = 900"
  by (simp_all add: sample_env_def)

lemma sample_config_simps [simp]:
  "vc_cache sample_config = Some (new_badge_cache default_cache_config)" "vc_policy sample_config = FailClosed"
  "vc_url_validator sample_config = None" "vc_dane sample_config = None"
  "vc_scitt_keys sample_config = Some (key_store_get sample_keys)"
  "vc_clock_skew sample_config = 120 * nanos_per_second"
  by (simp_all add: sample_config_def without_url_validation_def with_scitt_key_lookup_def with_cache_config_def
      default_config_def default_clock_skew_tolerance_def)

lemma sample_fold [simp]: "equal_fold sample_unicode s s"
  by (induction s) (simp_all add: sample_unicode_def)

lemma sample_identity_simps [simp]:
  "ci_dns_sans sample_identity = [''a.io'']" "ci_uri_sans sample_identity = [''ans://v1.0.0.a.io'']"
  "ci_fingerprint sample_identity = Cert_Fingerprint sample_fp" "ci_raw sample_identity = ''cert''"
  by (simp_all add: sample_identity_def)

lemma sample_matches [simp]:
  "fp_matches (Cert_Fingerprint sample_fp) (server_cert_fingerprint vouching_badge)"
  "fp_matches (Cert_Fingerprint sample_fp) (identity_cert_fingerprint vouching_badge)"
  by (simp_all add: fp_matches_def server_cert_fingerprint_def identity_cert_fingerprint_def
      badge_event_def vouching_badge_def parse_cert_fingerprint_def parse_fp_hex_def)

lemma sample_host [simp]: "agent_host vouching_badge = ''a.io''" "agent_name vouching_badge = ''ans://v1.0.0.a.io''"
  "badge_state vouching_badge = ''ACTIVE''"
  by (simp_all add: agent_host_def agent_name_def badge_event_def vouching_badge_def)

lemma sample_vouches: "vouches_server sample_unicode vouching_badge sample_identity (Fqdn ''a.io'')"
  by (simp add: vouches_server_def badge_status_valid_def badge_status_defs cert_fqdn_def del: equal_fold.simps)

lemma sample_server_verify:
  "fst (server_verify sample_env sample_config (Fqdn ''a.io'') sample_identity) =
     verified_with_warning vouching_badge (Cert_Fingerprint sample_fp)"
  using sample_vouches
  by (simp add: server_verify_eq server_fresh_eq server_fetch_badge_def fetch_badge_eq validate_badge_url_def
      server_verify_with_badge_ok finish_with_dane_def verify_dane_def cache_insert_def Let_def
      get_by_fqdn_def new_badge_cache_def)

lemma sample_subject:
  "client_subject sample_unicode sample_identity (Fqdn ''a.io'')
     \<lparr>an_version = Version 1 0 0, an_host = ''a.io'', an_raw = ''ans://v1.0.0.a.io''\<rparr>"
proof -
  have "new_fqdn ''a.io'' = Inr (Fqdn ''a.io'')" by code_simp
  moreover have "parse_ans_name sample_unicode ''ans://v1.0.0.a.io'' =
      Inr \<lparr>an_version = Version 1 0 0, an_host = ''a.io'', an_raw = ''ans://v1.0.0.a.io''\<rparr>"
    by code_simp
  ultimately show ?thesis by (simp add: client_subject_def cert_fqdn_def cert_ans_name_def)
qed

lemma sample_client_verify:
  "fst (client_verify sample_env sample_config sample_identity) =
     verified_with_warning vouching_badge (Cert_Fingerprint sample_fp)"
proof -
  have v: "vouches_client sample_unicode vouching_badge sample_identity (Fqdn ''a.io'')
      \<lparr>an_version = Version 1 0 0, an_host = ''a.io'', an_raw = ''ans://v1.0.0.a.io''\<rparr>"
    by (simp add: vouches_client_def badge_status_valid_def badge_status_defs del: equal_fold.simps)
  have s: "client_subject (en_unicode sample_env) sample_identity (Fqdn ''a.io'')
      \<lparr>an_version = Version 1 0 0, an_host = ''a.io'', an_raw = ''ans://v1.0.0.a.io''\<rparr>"
    using sample_subject by simp
  show ?thesis
    unfolding client_verify_subject [OF s]
    by (simp add: v cached_badge_of_def get_by_fqdn_version_def new_badge_cache_def fetch_badge_eq
        validate_badge_url_def finish_with_dane_def verify_dane_def cache_insert_def)
qed

lemma sample_token_connects [simp]:
  "status_valid_for_connection (sp_status (vt_payload sample_token))"
  "sample_fp \<in> cert_fp ` set (sp_server_certs (vt_payload sample_token))"
  "sample_fp \<in> cert_fp ` set (sp_identity_certs (vt_payload sample_token))"
  "\<exists>name. parse_ans_name sample_unicode (sp_ans_name (vt_payload sample_token)) = Inr name
     \<and> equal_fold sample_unicode (an_host name) ''a.io''"
  using sample_subject
  by (auto simp: sample_token_def status_valid_for_connection_def agent_status_defs client_subject_def
      cert_ans_name_def simp del: equal_fold.simps split: if_splits sum.splits)

text \<open>The configuration after the badge has been cached.\<close>

definition cached_config :: "nat verifier_config" where
  "cached_config = sample_config\<lparr>vc_cache :=
     Some (insert_badge (\<lambda>ks. ks) 1 2 (new_badge_cache default_cache_config) (Fqdn ''a.io'') vouching_badge)\<rparr>"

lemma sample_insert_entries:
  "bc_by_fqdn (insert_badge (\<lambda>ks. ks) 1 2 (new_badge_cache default_cache_config) (Fqdn ''a.io'') vouching_badge) =
     [(fqdn_key (Fqdn ''a.io''),
       \<lparr>ce_badge = \<lparr>cb_badge = vouching_badge, cb_fetched_at = 1, cb_expires_at = 1 + 5 * nanos_per_minute\<rparr>,
        ce_expires_at = 1 + 5 * nanos_per_minute\<rparr>)]"
  by (simp add: insert_badge_def cleanup_locked_def drop_stale_def make_entry_def Let_def new_badge_cache_def
      default_cache_config_def nanos_per_minute_def)

lemma sample_cached: "cached_badge_of sample_env cached_config (Fqdn ''a.io'') None = Some vouching_badge"
  by (simp add: cached_badge_of_def cached_config_def get_by_fqdn_def sample_insert_entries nanos_per_minute_def)
    (simp add: sample_env_def)

section \<open>DNS records\<close>

definition sample_sorter :: "badge_record list \<Rightarrow> badge_record list" where
  "sample_sorter rs = rev (sort_key br_version rs)"

lemma sample_sorter_sorts: "sorts_by record_before sample_sorter"
proof -
  have r: "\<not> record_before a b" if "br_version a \<le> br_version b" for a b
    using that by (cases "br_version a"; cases "br_version b") (auto simp: record_before_iff not_less)
  have "sorted_wrt (\<lambda>a b. br_version a \<le> br_version b) (sort_key br_version xs)" for xs
    using sorted_sort_key [of br_version xs] unfolding sorted_map .
  then have "sorted_wrt (\<lambda>a b. \<not> record_before a b) (sort_key br_version xs)" for xs
    by (rule sorted_wrt_mono_rel [rotated]) (rule r)
  then show ?thesis by (simp add: sorts_by_def sample_sorter_def sorted_wrt_rev)
qed

definition sample_txt :: txt_lookup where
  "sample_txt q = Inr [''v=ans-badge1; version=1.0.0; url=https://transparency.ans.godaddy.com/a'',
     ''v=ans-badge1; version=1.1.0; url=https://transparency.ans.godaddy.com/b'']"

definition sample_rec :: "version option \<Rightarrow> string \<Rightarrow> badge_record" where
  "sample_rec v p = \<lparr>br_format = ''ans-badge1'', br_version = v,
     br_url = ''https://transparency.ans.godaddy.com/'' @ p, br_source = SourceAnsBadge\<rparr>"

lemma sample_txt_parses:
  "parse_badge_record (\<lambda>_. True) ''v=ans-badge1; version=1.0.0; url=https://transparency.ans.godaddy.com/a''
     = Inr (sample_rec (Some (Version 1 0 0)) ''a'')"
  "parse_badge_record (\<lambda>_. True) ''v=ans-badge1; version=1.1.0; url=https://transparency.ans.godaddy.com/b''
     = Inr (sample_rec (Some (Version 1 1 0)) ''b'')"
  by code_simp+

lemma sample_url_valid:
  "validate_url sample_unicode (\<lambda>_. True) (new_default_url_validator sample_unicode) ''https://transparency.ans.godaddy.com/b'' = None"
  by code_simp

lemma sample_lookup_dns:
  "lookup_ans_badge (\<lambda>_. True) sample_txt (Fqdn ''a.io'') =
     Inr \<lparr>dlr_found = True, dlr_records = [sample_rec (Some (Version 1 0 0)) ''a'', sample_rec (Some (Version 1 1 0)) ''b'']\<rparr>"
  by (simp add: lookup_ans_badge_def lookup_badge_records_def sample_txt_def sample_txt_parses) (simp add: sample_rec_def)

lemma sample_choice:
  "find_badge_for_version (\<lambda>_. True) sample_txt (Fqdn ''a.io'') (Version 1 0 0) = Inr (sample_rec (Some (Version 1 0 0)) ''a'')"
  "find_preferred_badge (\<lambda>_. True) sample_sorter sample_txt (Fqdn ''a.io'') = Inr (sample_rec (Some (Version 1 1 0)) ''b'')"
proof -
  have "\<not> Version 1 1 0 \<le> Version 1 0 0" by (simp add: less_eq_version_def compare_version_def)
  then show "find_badge_for_version (\<lambda>_. True) sample_txt (Fqdn ''a.io'') (Version 1 0 0) = Inr (sample_rec (Some (Version 1 0 0)) ''a'')"
    "find_preferred_badge (\<lambda>_. True) sample_sorter sample_txt (Fqdn ''a.io'') = Inr (sample_rec (Some (Version 1 1 0)) ''b'')"
    by (simp_all add: find_badge_for_version_def find_preferred_badge_def get_ans_badge_records_def sample_lookup_dns
        select_for_version_def select_preferred_def sample_sorter_def) (simp_all add: sample_rec_def)
qed

end
