(* ===== verification/Pop_Samples.thy ===== *)
theory Pop_Samples
  imports Samples Pop_Http
begin

text \<open>
  Concrete proof-of-possession parameters: one certificate, one key with coordinates 1 and 2, JSON
  codecs that know one header and one payload, signatures that are the pair (1, 1), and a request
  that goes from a caller to a middleware.
\<close>

definition pop_cert :: x509_cert where
  "pop_cert = \<lparr>x_subject_cn = ''a.io'', x_dns_names = [''a.io''], x_uris = [''ans://v1.0.0.a.io''],
     x_raw = sample_fp, x_raw_spki = [], x_not_before = 0, x_not_after = 10 ^ 15\<rparr>"

definition pop_jwk :: proof_jwk where
  "pop_jwk = \<lparr>jwk_kty = ''EC'', jwk_crv = ''P-256'', jwk_x = url_encode (fill_bytes coord_len 1),
     jwk_y = url_encode (fill_bytes coord_len 2)\<rparr>"

definition pop_header :: proof_header where
  "pop_header = \<lparr>dh_typ = ''dpop+jwt'', dh_alg = ''ES256'', dh_jwk = Some pop_jwk, dh_x5c = [std_encode ''der'']\<rparr>"

definition pop_rand :: bytes where
  "pop_rand = ''0123456789abcdef''"

definition pop_payload :: proof_payload where
  "pop_payload = \<lparr>dp_htm = ''POST'', dp_htu = ''https://a.io/x'', dp_iat = 880, dp_jti = hex_encode pop_rand, dp_ath = [],
     dp_profile = ''1'', dp_content_digest = url_encode (sample_hash ''body'')\<rparr>"

definition pop_jose :: "nat jose_lib" where
  "pop_jose =
     \<lparr>jl_header = (\<lambda>b. if b = ''header'' then Some pop_header else None),
      jl_payload = (\<lambda>b. if b = ''payload'' then Some pop_payload else None),
      jl_x509 = (\<lambda>b. if b = ''der'' then Some (pop_cert, PK_P256 7) else None),
      jl_coords = (\<lambda>_. (1, 2)), jl_bracket = (\<lambda>_. True), jl_unicode = sample_unicode, jl_crypto = sample_crypto\<rparr>"

definition pop_lib :: "nat caller_lib" where
  "pop_lib = \<lparr>cl_jose = pop_jose, cl_cbor = sample_cbor,
     cl_leaf = (\<lambda>b. if b = ''event''
                then Some \<lparr>le_ans_id = ''agent-1'', le_agent_id = [], le_ans_name = ''ans://v1.0.0.a.io''\<rparr> else None)\<rparr>"

definition pop_sign :: "(unit, nat) sign_lib" where
  "pop_sign =
     \<lparr>sl_public = (\<lambda>_. PK_P256 7), sl_sign = (\<lambda>_ _. Some (1, 1)),
      sl_header = (\<lambda>h. if h = pop_header then Some ''header'' else None),
      sl_payload = (\<lambda>p. if p = pop_payload then Some ''payload'' else None)\<rparr>"

definition pop_signer :: "unit signer" where
  "pop_signer = \<lparr>sg_key = (), sg_cert_der = ''der'', sg_jwk = pop_jwk\<rparr>"

lemma pop_lib_simps [simp]:
  "jl_unicode pop_jose = sample_unicode" "jl_crypto pop_jose = sample_crypto" "jl_coords pop_jose k = (1, 2)"
  "jl_bracket pop_jose = (\<lambda>_. True)" "jl_x509 pop_jose ''der'' = Some (pop_cert, PK_P256 7)"
  "cl_jose pop_lib = pop_jose" "cl_cbor pop_lib = sample_cbor"
  "cl_leaf pop_lib ''event'' = Some \<lparr>le_ans_id = ''agent-1'', le_agent_id = [], le_ans_name = ''ans://v1.0.0.a.io''\<rparr>"
  by (simp_all add: pop_jose_def pop_lib_def)

lemma sample_sha [simp]: "cr_sha256 sample_crypto = sample_hash"
  by (simp add: sample_crypto_def)

lemma pop_laws: "json_inverse pop_jose pop_sign" "ecdsa_correct pop_jose pop_sign" "coords_fit pop_jose" "sha_fits pop_jose"
  by (simp_all add: json_inverse_def ecdsa_correct_def coords_fit_def sha_fits_def pop_sign_def pop_jose_def
      sample_crypto_def hash32_sample [unfolded hash32_def])

lemma pop_public_jwk: "public_jwk pop_jose k = pop_jwk"
  by (simp add: public_jwk_def pop_jwk_def)

lemma pop_signer_ok: "signer_ok pop_jose pop_sign pop_cert 7 pop_signer"
  by (simp add: signer_ok_def pop_signer_def pop_public_jwk) (simp add: pop_sign_def)

lemma pop_new_signer: "new_signer pop_jose pop_sign (Some ()) ''der'' = Inr pop_signer"
  by (simp add: new_signer_Inr pop_public_jwk pop_signer_def) (simp add: pop_sign_def)

lemma pop_htu: "normalize_htu pop_jose ''https://a.io/x'' = Inr ''https://a.io/x''"
  by code_simp

definition pop_out :: out_request where
  "pop_out = \<lparr>oq_method = ''POST'', oq_url = ''https://a.io/x'', oq_header = Map.empty,
     oq_body = Some \<lparr>hb_bytes = ''body'', hb_broken = False\<rparr>, oq_length = 4, oq_gone = False\<rparr>"

definition pop_jws :: string where
  "pop_jws = url_encode ''header'' @ ''.'' @ url_encode ''payload'' @ ''.''
     @ url_encode (fill_bytes 32 1 @ fill_bytes 32 1)"

lemma pop_undecorated: "undecorated (oq_header pop_out)"
  by (simp add: undecorated_def pop_out_def header_values_def)

lemma pop_attach:
  "attach_identity pop_jose sample_unicode pop_sign pop_out (Some pop_signer) (scitt_pairs ''receipt'' ''token'') 880
     (Some pop_rand)
   = (None, pop_out\<lparr>oq_header := add_headers (scitt_pairs ''receipt'' ''token'') (header_set Map.empty dpop_header pop_jws)\<rparr>)"
proof -
  have no: "access_token_from_authorization sample_unicode (header_get Map.empty ''Authorization'') = None"
    by (simp add: access_token_from_authorization_def header_get_def)
  have "sign pop_jose pop_sign pop_signer False ''POST'' ''https://a.io/x'' 880 (Some pop_rand)
      [with_content_digest (sample_hash ''body'')] = Inr pop_jws"
    unfolding sign_Inr
    by (intro conjI exI [of _ "''https://a.io/x''"] exI [of _ pop_rand] exI [of _ "''header''"] exI [of _ "''payload''"]
        exI [of _ "url_encode (fill_bytes 32 1 @ fill_bytes 32 1)"])
      (simp_all add: pop_htu pop_jws_def pop_sign_def pop_signer_def pop_header_def signed_payload_def pop_payload_def
        signed_options_def with_content_digest_def sign_es256_def coord_len_def p256_sig_len_def)
  with no show ?thesis
    by (simp add: attach_identity_def bind_request_content_def pop_out_def)
qed

definition pop_request :: http_request where
  "pop_request = \<lparr>rq_method = ''POST'', rq_host = ''a.io'', rq_tls = True, rq_url = empty_url\<lparr>url_path := ''/x''\<rparr>,
     rq_force_query = False,
     rq_header = (add_headers (scitt_pairs ''receipt'' ''token'') (header_set Map.empty dpop_header pop_jws))
       (''User-Agent'' \<mapsto> [''Go-http-client/1.1''], ''Accept-Encoding'' \<mapsto> [''gzip'']),
     rq_body = \<lparr>hb_bytes = ''body'', hb_broken = False\<rparr>, rq_gone = False, rq_caller = None\<rparr>"

definition pop_config :: middleware_config where
  "pop_config = default_middleware_config\<lparr>mc_trusted := [''http://a.io'', ''https://a.io'']\<rparr>"

definition pop_mw :: "int \<Rightarrow> (nat, replay_cache) middleware" where
  "pop_mw tc = \<lparr>mw_cfg = pop_config, mw_keys = key_store_get sample_keys, mw_replay = check_and_store (\<lambda>x. x) tc\<rparr>"

lemma pop_mw_simps [simp]:
  "mw_cfg (pop_mw tc) = pop_config" "mw_keys (pop_mw tc) = key_store_get sample_keys"
  "mw_replay (pop_mw tc) = check_and_store (\<lambda>x. x) tc" "mc_external pop_config = default_request_url"
  "mc_external_set pop_config = False" "mc_caller_opts pop_config = []" "mc_max_content pop_config = 1048576"
  "mc_trusted pop_config = [''http://a.io'', ''https://a.io'']"
  by (simp_all add: pop_mw_def pop_config_def default_middleware_config_def default_max_content_bytes_def)

lemma pop_mw_ok: "mw_ok (pop_mw tc)"
  by (simp add: mw_ok_def resolve_caller_options_def default_caller_config_def)

lemma pop_hosts: "with_trusted_hosts sample_unicode [''a.io''] default_middleware_config = Inr pop_config"
proof -
  have "trusted_authority_key sample_unicode ''https'' ''a.io'' = ''https://a.io''" "trusted_authority_key sample_unicode ''http'' ''a.io'' = ''http://a.io''"
    "trim_space ''a.io'' \<noteq> []"
    by code_simp+
  then show ?thesis by (simp add: with_trusted_hosts_def add_trusted_def pop_config_def default_middleware_config_def)
qed

lemma pop_middleware:
  "new_middleware (Some (key_store_get sample_keys)) (Some (check_and_store (\<lambda>x. x) tc))
     [with_trusted_hosts sample_unicode [''a.io'']] = Inr (pop_mw tc)"
  by (simp add: new_middleware_Inr pop_hosts pop_mw_ok)

lemma pop_request_url: "default_request_url pop_request = ''https://a.io/x''"
proof -
  have "escaped_path (empty_url\<lparr>url_path := ''/x''\<rparr>) = ''/x''" by code_simp
  then show ?thesis
    by (simp add: default_request_url_def request_scheme_def request_uri_def pop_request_def Let_def)
      (simp add: empty_url_def)
qed

lemma pop_delivered:
  "delivered pop_lib pop_config (pop_out\<lparr>oq_header :=
     add_headers (scitt_pairs ''receipt'' ''token'') (header_set Map.empty dpop_header pop_jws)\<rparr>) pop_request"
proof -
  have "trusted_authority_key sample_unicode ''https'' ''a.io'' = ''https://a.io''" by code_simp
  then have "check_authority pop_lib pop_config pop_request = None"
    by (simp add: check_authority_None authority_trusted_def request_scheme_def) (simp add: pop_request_def)
  moreover have "same_evidence (rq_header pop_request)
      (add_headers (scitt_pairs ''receipt'' ''token'') (header_set Map.empty dpop_header pop_jws))"
    by (simp add: same_evidence_def security_headers_def header_values_def pop_request_def canonical_keys)
  ultimately show ?thesis
    by (simp add: delivered_def pop_request_url) (simp add: pop_request_def pop_out_def body_of_def pop_htu)
qed

lemma pop_names:
  "parse_ans_name sample_unicode ''ans://v1.0.0.a.io'' =
     Inr \<lparr>an_version = Version 1 0 0, an_host = ''a.io'', an_raw = ''ans://v1.0.0.a.io''\<rparr>"
  by code_simp

lemma pop_bound: "bound_to pop_lib pop_cert sample_fp (vt_payload sample_token) (Some sample_receipt)"
proof -
  have "cert_ans_name sample_unicode (cert_identity_from_x509 sample_hash pop_cert) =
      Some \<lparr>an_version = Version 1 0 0, an_host = ''a.io'', an_raw = ''ans://v1.0.0.a.io''\<rparr>"
    using pop_names by (simp add: cert_ans_name_def cert_identity_from_x509_def pop_cert_def)
  moreover have "leaf_names pop_lib ''event'' ''agent-1'' (Version 1 0 0) ''a.io''"
    by (simp add: leaf_names_def leaf_agent_id_def pop_names)
  ultimately show ?thesis
    by (simp add: bound_to_def pop_names sample_token_def sample_receipt_def)
qed

lemma pop_seconds: "unix_seconds 900000000000 = 900"
  by (simp add: unix_seconds_def nanos_per_second_def)

lemma sample_fp_hash: "sample_hash sample_fp = sample_fp"
  by (simp add: sample_hash_def sample_fp_def)

lemma pop_vouched:
  "log_vouches pop_lib (key_store_get sample_keys) default_caller_config
     \<lparr>sh_receipt = ''receipt'', sh_status_token = ''token''\<rparr> 900000000000 pop_cert (vt_payload sample_token)"
proof -
  have "cc_status_skew default_caller_config = max_clock_skew" "x_raw pop_cert = sample_fp"
    by (simp_all add: default_caller_config_def pop_cert_def)
  then show ?thesis
    using sample_token_verifies_max sample_receipt_verifies pop_bound
    by (auto simp: log_vouches_def pop_seconds sample_fp_hash)
qed

lemma pop_fresh_jti: "fst (check_and_store (\<lambda>x. x) tc k e (new_replay_cache n)) = Inr False"
  by (simp add: check_and_store_def evict_expired_def new_replay_cache_def default_replay_max_entries_def)

lemma pop_iat_fresh: "fresh_iat 880 900000000000 (effective_skew default_pop_skew)"
  by (simp add: fresh_iat_def sub_time_def unix_time_def effective_skew_def default_pop_skew_def)

lemma pop_jws_size: "length pop_jws \<le> max_proof_size"
  by code_simp

definition pop_identity :: caller_identity where
  "pop_identity = \<lparr>id_ans_name = ''ans://v1.0.0.a.io'', id_agent_id = ''agent-1'', id_fingerprint = sample_fp,
     id_jkt = jwk_thumbprint pop_jose 7\<rparr>"

definition pop_decorated :: out_request where
  "pop_decorated = pop_out\<lparr>oq_header :=
     add_headers (scitt_pairs ''receipt'' ''token'') (header_set Map.empty dpop_header pop_jws)\<rparr>"

lemmas pop_attached = pop_attach [folded pop_decorated_def]
lemmas pop_arrives = pop_delivered [folded pop_decorated_def]

lemma pop_decorated_dpop: "header_get (oq_header pop_decorated) dpop_header = pop_jws"
  using decorated_values(1) [OF pop_undecorated, of "''receipt''" "''token''" pop_jws]
  by (simp add: pop_decorated_def header_get_values) (simp add: pop_out_def)

lemma pop_default_config:
  "resolve_caller_options [] = default_caller_config" "cc_verify_opts default_caller_config = []"
  "cc_pop_skew default_caller_config = default_pop_skew" "cc_allowed default_caller_config = []"
  by (simp_all add: resolve_caller_options_def default_caller_config_def)

lemma pop_authenticated:
  "\<exists>s'. authenticate pop_lib (pop_mw tc) pop_request 900000000000 (new_replay_cache 0)
     = (Inr (pop_identity, ''body''), s')"
proof -
  have o: "is_ascii (oq_method pop_out)" "\<And>htu. normalize_htu pop_jose (oq_url pop_out) = Inr htu \<Longrightarrow> is_ascii htu"
    "\<not> oq_gone pop_out" "length (header_get (oq_header pop_decorated) dpop_header) \<le> max_proof_size"
    using pop_jws_size by (auto simp: pop_out_def pop_htu pop_decorated_dpop is_ascii_def byte_val_def)
  have c: "x_not_before pop_cert \<le> 900000000000" "900000000000 \<le> x_not_after pop_cert" "length pop_rand = 16"
    by (simp_all add: pop_cert_def pop_rand_def)
  have a: "attach_identity (cl_jose pop_lib) (cl_unicode pop_lib) pop_sign pop_out (Some pop_signer)
      (scitt_pairs ''receipt'' ''token'') 880 (Some pop_rand) = (None, pop_decorated)"
    using pop_attached by simp
  have d: "delivered pop_lib (mw_cfg (pop_mw tc)) pop_decorated pop_request" using pop_arrives by simp
  have cfg: "default_caller_config = resolve_caller_options (mc_caller_opts (mw_cfg (pop_mw tc)))"
    by (simp add: pop_default_config)
  have f: "fresh_iat 880 900000000000 (effective_skew (cc_pop_skew default_caller_config))"
    using pop_iat_fresh by (simp add: pop_default_config)
  have n: "fst (mw_replay (pop_mw tc) (url_encode (sha_of (cl_jose pop_lib) (hex_encode pop_rand))) e (new_replay_cache 0))
      = Inr False" for e
    by (simp add: pop_fresh_jti)
  have v: "log_vouches pop_lib (mw_keys (pop_mw tc)) default_caller_config
      \<lparr>sh_receipt = ''receipt'', sh_status_token = ''token''\<rparr> 900000000000 pop_cert (vt_payload sample_token)"
    "pin_allows pop_lib default_caller_config (sp_ans_name (vt_payload sample_token))"
    using pop_vouched by (simp_all add: pin_allows_def pop_default_config)
  obtain s' where "authenticate pop_lib (pop_mw tc) pop_request 900000000000 (new_replay_cache 0) =
    (Inr (\<lparr>id_ans_name = sp_ans_name (vt_payload sample_token), id_agent_id = sp_agent_id (vt_payload sample_token),
       id_fingerprint = sha_of (cl_jose pop_lib) (x_raw pop_cert), id_jkt = jwk_thumbprint (cl_jose pop_lib) 7\<rparr>,
       hb_bytes (body_of (oq_body pop_out))), s')"
    using attach_then_authenticate_lemma [of pop_lib pop_sign pop_cert 7 pop_signer pop_out "''receipt''" "''token''" 880
        pop_rand pop_decorated "pop_mw tc" pop_request default_caller_config 900000000000 "vt_payload sample_token"
        "new_replay_cache 0", unfolded pop_lib_simps(6), OF pop_laws pop_signer_ok pop_undecorated o(1,2,3) _ _ _ _ _ c(3) o(4)
        d pop_mw_ok cfg pop_default_config(2) c(1,2) f v] a n by auto
  moreover have "x_raw pop_cert = sample_fp" by (simp add: pop_cert_def)
  ultimately show ?thesis
    by (simp add: pop_identity_def sample_token_def sample_fp_hash pop_out_def body_of_def)
qed

end
