(* ===== verification/Demo_Samples.thy ===== *)
theory Demo_Samples
  imports Demo_Scenarios Pop_Samples
begin

text \<open>
  Concrete parameters for the agent-to-agent example: a byte encoding of CBOR values with its readers, keys that
  are numbers, a certificate for the one template of the example, and a connection to the callee's port. With them
  the programs run from the first random byte to the last answer.
\<close>

section \<open>A byte encoding of values\<close>

text \<open>An item of a sequence: each byte behind a mark, then an end mark.\<close>

definition packed :: "bytes \<Rightarrow> bytes" where
  "packed b = concat (map (\<lambda>c. [CHR 0x01, c]) b) @ [CHR 0x00]"

fun unpack :: "bytes \<Rightarrow> bytes \<Rightarrow> bytes list" where
  "unpack cur [] = []"
| "unpack cur [x] = (if x = CHR 0x00 then [cur] else [])"
| "unpack cur (x # c # r) = (if x = CHR 0x00 then cur # unpack [] (c # r) else unpack (cur @ [c]) r)"

lemma unpack_end: "unpack cur (CHR 0x00 # r) = cur # unpack [] r"
  by (cases r) simp_all

lemma unpack_packed: "unpack cur (packed b @ r) = (cur @ b) # unpack [] r"
  by (induction b arbitrary: cur) (simp_all add: packed_def unpack_end)

lemma unpack_all: "unpack [] (concat (map packed bs)) = bs"
  by (induction bs) (simp_all add: unpack_packed)

definition key_text :: "cbor_key \<Rightarrow> bytes" where
  "key_text k = (case k of
     KUint n \<Rightarrow> CHR ''u'' # nat_be (unat n) | KInt n \<Rightarrow> CHR ''i'' # nat_be (unat n) | KStr s \<Rightarrow> CHR ''s'' # s
   | KOther n \<Rightarrow> CHR ''o'' # nat_be n)"

lemma nat_be_inject [simp]: "nat_be m = nat_be n \<longleftrightarrow> m = n"
  by (metis be_nat_nat_be)

lemma unat_inject [simp]: "unat x = unat y \<longleftrightarrow> x = y"
  by (simp add: word_unat_eq_iff)

lemma key_text_inject [simp]: "key_text k = key_text l \<longleftrightarrow> k = l"
  by (cases k; cases l) (simp_all add: key_text_def)

fun demo_enc :: "cbor_value \<Rightarrow> bytes" where
  "demo_enc (VInt i) = CHR ''i'' # nat_be (unat i)"
| "demo_enc (VUint i) = CHR ''u'' # nat_be (unat i)"
| "demo_enc (VText s) = CHR ''t'' # s"
| "demo_enc (VBytes s) = CHR ''b'' # s"
| "demo_enc (VList vs) = CHR ''l'' # concat (map (\<lambda>v. packed (demo_enc v)) vs)"
| "demo_enc (VIntMap kvs) =
     CHR ''m'' # concat (map (\<lambda>kv. packed (nat_be (unat (fst kv))) @ packed (demo_enc (snd kv))) kvs)"
| "demo_enc (VAnyMap kvs) =
     CHR ''a'' # concat (map (\<lambda>kv. packed (key_text (read_key (fst kv))) @ packed (demo_enc (snd kv))) kvs)"
| "demo_enc (VTag n v) = CHR ''g'' # packed (nat_be n) @ packed (demo_enc v)"

fun in_pairs :: "'a list \<Rightarrow> ('a \<times> 'a) list" where
  "in_pairs (a # b # r) = (a, b) # in_pairs r"
| "in_pairs _ = []"

definition behind :: "char \<Rightarrow> bytes \<Rightarrow> bytes option" where
  "behind c b = (case b of [] \<Rightarrow> None | x # r \<Rightarrow> if x = c then Some r else None)"

lemma behind_Cons [simp]: "behind c (x # r) = (if x = c then Some r else None)"
  by (simp add: behind_def)

definition demo_cbor :: cbor_lib where
  "demo_cbor =
     \<lparr>cb_mode = True,
      cb_raw = (\<lambda>b. if b = [] then None else Some b),
      cb_tag = (\<lambda>b. case map_option (unpack []) (behind (CHR ''g'') b) of Some [n, c] \<Rightarrow> Some (be_nat n, c) | _ \<Rightarrow> None),
      cb_array = (\<lambda>b. map_option (unpack []) (behind (CHR ''l'') b)),
      cb_bytes = behind (CHR ''b''),
      cb_string = behind (CHR ''t''),
      cb_int64 = (\<lambda>b. map_option (\<lambda>r. word_of_nat (be_nat r)) (behind (CHR ''i'') b)),
      cb_uint64 = (\<lambda>b. map_option (\<lambda>r. word_of_nat (be_nat r)) (behind (CHR ''u'') b)),
      cb_int_map = (\<lambda>b. map_option (\<lambda>r k. map_of (in_pairs (unpack [] r)) (nat_be (unat k))) (behind (CHR ''m'') b)),
      cb_any_map = (\<lambda>b. map_option (\<lambda>r k. map_of (in_pairs (unpack [] r)) (key_text k)) (behind (CHR ''a'') b)),
      cb_str_map = (\<lambda>b. None),
      cb_marshal = (\<lambda>is. Some (concat (map (\<lambda>i. packed (case i of CText t \<Rightarrow> CHR ''t'' # t | CBytes b \<Rightarrow> CHR ''b'' # b)) is)))\<rparr>"

lemma unpack_pairs:
  "in_pairs (unpack [] (concat (map (\<lambda>kv. packed (f (fst kv)) @ packed (g (snd kv))) kvs))) = map (map_prod f g) kvs"
  by (induction kvs) (simp_all add: unpack_packed map_prod_def split: prod.split)

lemma unpack_one: "unpack [] (packed b) = [b]"
  using unpack_packed [of "[]" b "[]"] by simp

lemma map_of_pairs: "inj f \<Longrightarrow> map_of (map (map_prod f g) kvs) (f k) = map_option g (map_of kvs k)"
  by (induction kvs) (auto simp: inj_eq)

lemma map_of_keys: "map_of (map (map_prod (\<lambda>k. f (h k)) g) kvs) x = map_of (map (map_prod f g) (map (apfst h) kvs)) x"
  by (induction kvs) auto

lemma demo_cbor_laws: "cbor_laws demo_cbor (\<lambda>v. Some (demo_enc v))"
proof -
  have inj: "inj (\<lambda>k :: int64. nat_be (unat k))" "inj key_text" by (auto intro!: injI)
  have r: "rel_option (\<lambda>v. (=) (demo_enc v)) m (map_option demo_enc m)" for m
    by (cases m) simp_all
  have ne: "demo_enc v \<noteq> []" for v by (cases v) simp_all
  have pm: "map_of (in_pairs (unpack [] (concat (map (\<lambda>kv. packed (nat_be (unat (fst kv))) @ packed (demo_enc (snd kv))) kvs))))
      (nat_be (unat k)) = map_option demo_enc (map_of kvs k)" for kvs and k :: int64
    unfolding unpack_pairs [of "\<lambda>k. nat_be (unat k)"] by (rule map_of_pairs [OF inj(1)])
  have pa: "map_of (in_pairs (unpack [] (concat (map (\<lambda>kv. packed (key_text (read_key (fst kv))) @ packed (demo_enc (snd kv))) kvs))))
      (key_text k) = map_option demo_enc (map_of (map (apfst read_key) kvs) k)" for kvs k
    unfolding unpack_pairs [of "\<lambda>k. key_text (read_key k)"] map_of_keys by (rule map_of_pairs [OF inj(2)])
  have l: "unpack [] (concat (map (\<lambda>v. packed (demo_enc v)) vs)) = map demo_enc vs" for vs
    using unpack_all [of "map demo_enc vs"] by (simp add: comp_def)
  show ?thesis
    unfolding cbor_laws_def demo_cbor_def
    by (intro conjI allI impI) (auto simp: ne r pm pa l unpack_packed unpack_one list_all2_conv_all_nth)
qed

section \<open>Keys, certificates and files\<close>

text \<open>
  A signature is the pair of the key and the first byte of the digest. The two parts of a proof are written as lists
  of their fields.
\<close>

definition demo_r :: "nat \<Rightarrow> nat" where
  "demo_r k = Suc (k mod 256)"

definition demo_s :: "bytes \<Rightarrow> nat" where
  "demo_s d = Suc (byte_val (hd (d @ [CHR 0x00])))"

definition demo_crypto :: "nat crypto" where
  "demo_crypto =
     \<lparr>cr_sha256 = sample_hash,
      cr_verify_asn1 = (\<lambda>k d s. s = der_signature (demo_r k) (demo_s d)),
      cr_verify_rs = (\<lambda>k d r s. r = demo_r k \<and> s = demo_s d),
      cr_parse_pkix = (\<lambda>spki. None)\<rparr>"

definition enc_header :: "proof_header \<Rightarrow> bytes" where
  "enc_header h = demo_enc (VList
     ([VText (dh_typ h), VText (dh_alg h),
       VList (case dh_jwk h of None \<Rightarrow> []
              | Some j \<Rightarrow> [VText (jwk_kty j), VText (jwk_crv j), VText (jwk_x j), VText (jwk_y j)])]
      @ map VText (dh_x5c h)))"

definition dec_texts :: "bytes list \<Rightarrow> string list" where
  "dec_texts bs = map tl bs"

definition dec_header :: "bytes \<Rightarrow> proof_header option" where
  "dec_header b = (case cb_array demo_cbor b of
     Some (t # a # j # x) \<Rightarrow>
       Some \<lparr>dh_typ = tl t, dh_alg = tl a,
         dh_jwk = (case map_option dec_texts (cb_array demo_cbor j) of
             Some [kty, crv, jx, jy] \<Rightarrow> Some \<lparr>jwk_kty = kty, jwk_crv = crv, jwk_x = jx, jwk_y = jy\<rparr> | _ \<Rightarrow> None),
         dh_x5c = dec_texts x\<rparr>
   | _ \<Rightarrow> None)"

definition enc_payload :: "proof_payload \<Rightarrow> bytes" where
  "enc_payload p = demo_enc (VList
     [VInt (dp_iat p), VText (dp_htm p), VText (dp_htu p), VText (dp_jti p), VText (dp_ath p), VText (dp_profile p),
      VText (dp_content_digest p)])"

definition dec_payload :: "bytes \<Rightarrow> proof_payload option" where
  "dec_payload b = (case cb_array demo_cbor b of
     Some [i, htm, htu, jti, ath, prof, dig] \<Rightarrow>
       Some \<lparr>dp_htm = tl htm, dp_htu = tl htu, dp_iat = (case cb_int64 demo_cbor i of Some n \<Rightarrow> n | None \<Rightarrow> 0),
         dp_jti = tl jti, dp_ath = tl ath, dp_profile = tl prof, dp_content_digest = tl dig\<rparr>
   | _ \<Rightarrow> None)"

lemma demo_array: "cb_array demo_cbor (demo_enc (VList vs)) = Some (map demo_enc vs)"
  using unpack_all [of "map demo_enc vs"] by (simp add: demo_cbor_def comp_def)

lemma demo_int: "cb_int64 demo_cbor (demo_enc (VInt i)) = Some i"
  by (simp add: demo_cbor_def)

lemma demo_bytes: "cb_bytes demo_cbor (demo_enc (VBytes s)) = Some s"
  by (simp add: demo_cbor_def)

lemma dec_enc_header: "dec_header (enc_header h) = Some h"
proof (cases "dh_jwk h")
  case None
  then show ?thesis
    by (cases h) (simp add: dec_header_def enc_header_def demo_array dec_texts_def comp_def del: demo_enc.simps(5))
next
  case (Some j)
  then show ?thesis
    by (cases h; cases j) (simp add: dec_header_def enc_header_def demo_array dec_texts_def comp_def del: demo_enc.simps(5))
qed

lemma dec_enc_payload: "dec_payload (enc_payload p) = Some p"
  by (cases p) (simp add: dec_payload_def enc_payload_def demo_array demo_int del: demo_enc.simps(1,5))

definition demo_sign :: "(nat, nat) sign_lib" where
  "demo_sign =
     \<lparr>sl_public = PK_P256, sl_sign = (\<lambda>k d. Some (demo_r k, demo_s d)),
      sl_header = (\<lambda>h. Some (enc_header h)), sl_payload = (\<lambda>p. Some (enc_payload p))\<rparr>"

text \<open>The certificate of the example, made at the instant \<open>demo_now\<close>.\<close>

definition demo_now :: int where
  "demo_now = 1000000 * nanos_per_second"

definition demo_url_text :: "url \<Rightarrow> string" where
  "demo_url_text u = url_scheme u @ ''://'' @ url_host u @ url_path u"

definition demo_template :: cert_template where
  "demo_template =
     \<lparr>ct_serial = 1, ct_common_name = ''demo-agent'', ct_not_before = demo_now - cert_ttl,
      ct_not_after = demo_now + cert_ttl, ct_key_usage = ''DigitalSignature'', ct_ext_key_usage = [''ClientAuth''],
      ct_uris = [empty_url\<lparr>url_scheme := ''ans'', url_host := ''v1.0.0.payments.acme.example''\<rparr>]\<rparr>"

definition demo_cert :: x509_cert where
  "demo_cert =
     \<lparr>x_subject_cn = ''demo-agent'', x_dns_names = [], x_uris = [demo_ans_name], x_raw = ''cert'', x_raw_spki = [],
      x_not_before = whole_second (demo_now - cert_ttl), x_not_after = whole_second (demo_now + cert_ttl)\<rparr>"

definition demo_jose :: "nat jose_lib" where
  "demo_jose =
     \<lparr>jl_header = dec_header, jl_payload = dec_payload,
      jl_x509 = (\<lambda>b. if b = ''cert'' then Some (demo_cert, PK_P256 2) else None),
      jl_coords = (\<lambda>k. (k mod 256, 1)), jl_bracket = (\<lambda>_. True), jl_unicode = sample_unicode, jl_crypto = demo_crypto\<rparr>"

definition demo_calls :: "nat caller_lib" where
  "demo_calls = \<lparr>cl_jose = demo_jose, cl_cbor = demo_cbor, cl_leaf = decode_leaf\<rparr>"

definition demo_pem :: "pem_block \<Rightarrow> bytes" where
  "demo_pem p = demo_enc (VList [VText (pb_type p), VBytes (pb_bytes p)])"

definition demo_unpem :: "bytes \<Rightarrow> pem_block option" where
  "demo_unpem b = (case cb_array demo_cbor b of Some [t, d] \<Rightarrow> Some (plain_block (tl t) (tl d)) | _ \<Rightarrow> None)"

definition demo_kit :: "(nat, nat) demo_lib" where
  "demo_kit =
     \<lparr>dl_generate = (\<lambda>r. Some (length r)), dl_public = (\<lambda>k. k), dl_spki = (\<lambda>k. Some (nat_be k)),
      dl_create_cert = (\<lambda>t k. if t = demo_template \<and> k = 2 then Some ''cert'' else None),
      dl_marshal = (\<lambda>v. Some (demo_enc v)), dl_url_text = demo_url_text, dl_pkcs8 = (\<lambda>k. Some (nat_be k)),
      dl_parse_pkcs8 = (\<lambda>b. Some (Ecdsa_Private (be_nat b))), dl_pem_encode = demo_pem, dl_pem_decode = demo_unpem,
      dl_join = (\<lambda>d f. d @ ''/'' @ f)\<rparr>"

lemma demo_lib_simps [simp]:
  "cl_jose demo_calls = demo_jose" "cl_cbor demo_calls = demo_cbor" "cl_leaf demo_calls = decode_leaf"
  "jl_unicode demo_jose = sample_unicode" "jl_crypto demo_jose = demo_crypto" "jl_bracket demo_jose = (\<lambda>_. True)"
  "cr_sha256 demo_crypto = sample_hash" "jl_coords demo_jose k = (k mod 256, 1)"
  "dl_marshal demo_kit = (\<lambda>v. Some (demo_enc v))" "dl_generate demo_kit r = Some (length r)" "dl_public demo_kit k = k"
  "dl_spki demo_kit k = Some (nat_be k)" "dl_url_text demo_kit = demo_url_text" "dl_join demo_kit d f = d @ ''/'' @ f"
  "dl_create_cert demo_kit t k = (if t = demo_template \<and> k = 2 then Some ''cert'' else None)"
  "sl_public demo_sign = PK_P256" "sl_sign demo_sign k d = Some (demo_r k, demo_s d)"
  by (simp_all add: demo_calls_def demo_jose_def demo_crypto_def demo_kit_def demo_sign_def)

lemma demo_numbers_fit: "demo_r k < 2 ^ 256" "demo_s d < 2 ^ 256"
proof -
  have "k mod 256 < 256" "byte_val (hd (d @ [CHR 0x00])) < 256" by (simp_all add: byte_val_less)
  then have "demo_r k \<le> 256" "demo_s d \<le> 256" by (simp_all add: demo_r_def demo_s_def Suc_le_eq del: One_nat_def)
  then show "demo_r k < 2 ^ 256" "demo_s d < 2 ^ 256" by simp_all
qed

lemma demo_kit_laws: "kit_laws demo_calls demo_sign demo_kit"
proof -
  have "ecdsa_correct demo_jose demo_sign" "der_signatures_verify demo_crypto demo_sign"
    using demo_numbers_fit by (simp_all add: ecdsa_correct_def der_signatures_verify_def demo_crypto_def)
  moreover have "sha_fits demo_jose" by (simp add: sha_fits_def hash32_sample [unfolded hash32_def])
  ultimately show ?thesis using demo_cbor_laws by (simp add: kit_laws_def p256_keys_def)
qed

lemma demo_agent_laws: "agent_laws demo_calls demo_sign demo_kit"
proof -
  have "json_inverse demo_jose demo_sign"
    unfolding json_inverse_def
    by (auto simp: demo_sign_def demo_jose_def dec_enc_header dec_enc_payload) (simp_all add: enc_header_def enc_payload_def)
  moreover have "coords_fit demo_jose"
  proof -
    have "k mod 256 < 2 ^ 256" for k :: nat using less_trans [of "k mod 256" 256 "2 ^ 256"] by simp
    then show ?thesis by (simp add: coords_fit_def)
  qed
  moreover have "cert_creation_ok demo_jose demo_sign demo_kit"
    by (auto simp: cert_creation_ok_def demo_kit_def demo_jose_def demo_cert_def cert_of_template_def demo_template_def
        demo_url_text_def demo_ans_name_def empty_url_def split: if_splits)
  ultimately show ?thesis using demo_kit_laws by (simp add: agent_laws_def)
qed

lemma demo_codec: "bundle_codec_ok demo_kit"
  unfolding bundle_codec_ok_def
  by (simp add: demo_kit_def demo_pem_def demo_unpem_def demo_array plain_block_def del: demo_enc.simps(5))

section \<open>Provisioned credentials\<close>

definition demo_rand :: "bytes \<times> bytes" where
  "demo_rand = (''t'', ''ag'')"

definition demo_clock :: "int \<times> int \<times> int" where
  "demo_clock = (demo_now, demo_now, demo_now)"

definition demo_bundle :: "nat agent_bundle" where
  "demo_bundle = (case provision demo_calls demo_sign demo_kit demo_rand demo_clock demo_ans_name demo_agent_id of
     Inr (_, b) \<Rightarrow> b | Inl _ \<Rightarrow> \<lparr>bn_agent_key = 0, bn_cert_der = [], bn_receipt = [], bn_status_token = []\<rparr>)"

text \<open>How long the encodings are.\<close>

lemma length_packed: "length (packed b) = 2 * length b + 1"
  by (induction b) (simp_all add: packed_def)

lemma length_nat_be_word: "length (nat_be (unat (w :: int64))) \<le> 8"
  using unsigned_less [of w] by (intro length_nat_be) simp_all

lemma length_url_encode: "length (url_encode b) \<le> 2 * length b"
  by (induction b rule: triple_induct) (simp_all add: url_encode_def)

lemma nat_be_small: "n < 256 \<Longrightarrow> nat_be n = [char_of n]"
  by (subst nat_be.simps) simp

lemma length_hash: "length (sample_hash b) = 32"
  by (rule hash32_sample [unfolded hash32_def, rule_format])

lemmas encoded_length = length_packed length_hash nat_be_small

lemma demo_ans_url:
  "url_parse (\<lambda>_. True) demo_ans_name = Some (empty_url\<lparr>url_scheme := ''ans'', url_host := ''v1.0.0.payments.acme.example''\<rparr>)"
  by code_simp

lemma demo_identity_cert: "identity_cert demo_calls demo_kit 2 demo_ans_name demo_now demo_now = Inr ''cert''"
  unfolding identity_cert_def demo_lib_simps demo_ans_url option.case demo_template_def [symmetric] by simp

lemma demo_works: "kit_works demo_calls demo_sign demo_kit demo_rand demo_clock"
proof -
  have k: "dl_generate demo_kit (snd demo_rand) = Some 2"
    "identity_cert demo_calls demo_kit 2 demo_ans_name (fst demo_clock) (fst (snd demo_clock)) = Inr ''cert''"
    using demo_identity_cert by (simp_all add: demo_rand_def demo_clock_def numeral_2_eq_2)
  then have "\<exists>key. dl_generate demo_kit (snd demo_rand) = Some key
      \<and> is_ok (identity_cert demo_calls demo_kit key demo_ans_name (fst demo_clock) (fst (snd demo_clock)))"
    by (intro exI [of _ 2]) (simp del: demo_lib_simps)
  then show ?thesis
    unfolding kit_works_def by (simp add: demo_sign_def demo_cbor_def) (simp add: demo_kit_def)
qed

lemma demo_key_id: "key_id demo_calls demo_kit k = Inr (take 4 (sample_hash (nat_be k)))"
  by (simp add: key_id_def)

lemma demo_cose:
  "\<exists>sig. length sig = 64 \<and> cose_sign1 demo_calls demo_sign demo_kit key protected un payload
     = Inr (demo_enc (VTag 18 (VList [VBytes protected, un, VBytes payload, VBytes sig])))"
proof -
  obtain bs where "cb_marshal demo_cbor [CText ''Signature1'', CBytes protected, CBytes [], CBytes payload] = Some bs"
    by (simp add: demo_cbor_def)
  then obtain d where d: "cose_sign1 demo_calls demo_sign demo_kit key protected un payload
     = Inr (demo_enc (VTag 18 (VList [VBytes protected, un, VBytes payload,
         VBytes (fill_bytes 32 (demo_r key) @ fill_bytes 32 (demo_s d))])))"
    by (simp add: cose_sign1_def sig_structure_digest_def build_sig_structure_def sign_p1363_def del: demo_enc.simps)
  have "length (fill_bytes 32 (demo_r key) @ fill_bytes 32 (demo_s d)) = 64"
    using fill_bytes_32(1) [OF demo_numbers_fit(1)] fill_bytes_32(1) [OF demo_numbers_fit(2)] by simp
  with d show ?thesis by blast
qed

lemma demo_status_minted:
  "\<exists>tok. mint_status_token demo_calls demo_sign demo_kit 1 demo_agent_id demo_ans_name (sample_hash ''cert'') demo_now = Inr tok
    \<and> length tok \<le> 1048576"
proof -
  let ?protected = "demo_enc (VIntMap [(1, VInt alg_es256), (4, VBytes (take 4 (sample_hash (nat_be 1))))])"
  let ?payload = "demo_enc (status_payload_value demo_agent_id demo_ans_name (sample_hash ''cert'') (unix_seconds demo_now))"
  obtain sig where sig: "length sig = 64" "cose_sign1 demo_calls demo_sign demo_kit 1 ?protected (VIntMap []) ?payload
     = Inr (demo_enc (VTag 18 (VList [VBytes ?protected, VIntMap [], VBytes ?payload, VBytes sig])))"
    using demo_cose by blast
  have p: "length ?protected \<le> 100"
    using length_nat_be_word [of alg_es256] by (simp add: encoded_length)
  have k: "length (key_text (KUint w)) \<le> 9" for w
    using length_nat_be_word [of w] by (simp add: key_text_def)
  have r: "read_key (KInt (of_nat j)) = KUint (of_nat j)" if "j \<le> 8" for j using that by (rule read_key_small)
  have e: "length (demo_enc (VInt i)) \<le> 9" for i using length_nat_be_word [of i] by simp
  have t: "length demo_agent_id = 12" "length demo_ans_name = 34" "length StatusActive = 6"
    by (simp_all add: demo_agent_id_def demo_ans_name_def StatusActive_def)
  have q: "length ?payload \<le> 2000"
    using r [of 1] r [of 2] r [of 3] r [of 4] r [of 5] r [of 6] k [of 1] k [of 2] k [of 3] k [of 4] k [of 5] k [of 6]
      e [of "unix_seconds demo_now - status_backdate_sec"] e [of "unix_seconds demo_now + status_ttl_sec"]
    by (simp add: status_payload_value_def encoded_length t read_key_def key_text_def)
  have "length (demo_enc (VTag 18 (VList [VBytes ?protected, VIntMap [], VBytes ?payload, VBytes sig]))) \<le> 1048576"
    using p q sig(1) by (simp add: encoded_length)
  then show ?thesis
    using sig(2) by (simp add: mint_status_token_def demo_key_id del: demo_enc.simps)
qed

lemma demo_leaf_length: "length (json_print (leaf_json demo_agent_id demo_ans_name)) \<le> 200"
  by code_simp

lemma demo_receipt_minted:
  "\<exists>rcpt. mint_receipt demo_calls demo_sign demo_kit 1 demo_agent_id demo_ans_name = Inr rcpt \<and> length rcpt \<le> 1048576"
proof -
  let ?protected = "demo_enc (VIntMap [(1, VInt alg_es256), (4, VBytes (take 4 (sample_hash (nat_be 1)))), (395, VInt 1)])"
  let ?un = "VIntMap [(396, VIntMap [(-1, VUint 1), (-2, VUint 0)])]"
  let ?payload = "json_print (leaf_json demo_agent_id demo_ans_name)"
  obtain sig where sig: "length sig = 64" "cose_sign1 demo_calls demo_sign demo_kit 1 ?protected ?un ?payload
     = Inr (demo_enc (VTag 18 (VList [VBytes ?protected, ?un, VBytes ?payload, VBytes sig])))"
    using demo_cose by blast
  have p: "length ?protected \<le> 200"
    using length_nat_be_word [of alg_es256] length_nat_be_word [of 395] by (simp add: encoded_length)
  have u: "length (demo_enc ?un) \<le> 400"
    using length_nat_be_word [of 396] length_nat_be_word [of "-1"] length_nat_be_word [of "-2"] by (simp add: encoded_length)
  have "length (demo_enc (VTag 18 (VList [VBytes ?protected, ?un, VBytes ?payload, VBytes sig]))) \<le> 1048576"
    using p u demo_leaf_length sig(1) by (simp add: encoded_length del: demo_enc.simps(6))
  then show ?thesis
    using sig(2) by (simp add: mint_receipt_def demo_key_id del: demo_enc.simps)
qed

lemma demo_provisioned:
  "provision demo_calls demo_sign demo_kit demo_rand demo_clock demo_ans_name demo_agent_id = Inr (1, demo_bundle)"
  "length (bn_receipt demo_bundle) \<le> 1048576" "length (bn_status_token demo_bundle) \<le> 1048576"
  "bn_cert_der demo_bundle = ''cert''" "bn_agent_key demo_bundle = 2"
proof -
  obtain tok rcpt where m: "mint_status_token demo_calls demo_sign demo_kit 1 demo_agent_id demo_ans_name (sample_hash ''cert'') demo_now = Inr tok"
    "length tok \<le> 1048576" "mint_receipt demo_calls demo_sign demo_kit 1 demo_agent_id demo_ans_name = Inr rcpt" "length rcpt \<le> 1048576"
    using demo_status_minted demo_receipt_minted by blast
  have "provision demo_calls demo_sign demo_kit demo_rand demo_clock demo_ans_name demo_agent_id =
      Inr (1, \<lparr>bn_agent_key = 2, bn_cert_der = ''cert'', bn_receipt = rcpt, bn_status_token = tok\<rparr>)"
    using m(1,3) demo_identity_cert by (simp add: provision_def demo_rand_def demo_clock_def numeral_2_eq_2)
  then show "provision demo_calls demo_sign demo_kit demo_rand demo_clock demo_ans_name demo_agent_id = Inr (1, demo_bundle)"
    "length (bn_receipt demo_bundle) \<le> 1048576" "length (bn_status_token demo_bundle) \<le> 1048576"
    "bn_cert_der demo_bundle = ''cert''" "bn_agent_key demo_bundle = 2"
    using m(2,4) by (simp_all add: demo_bundle_def)
qed

lemma demo_fingerprint: "sha_of (cl_jose demo_calls) (bn_cert_der demo_bundle) \<noteq> zero_hash"
  unfolding demo_provisioned(4) by code_simp

section \<open>Signed requests\<close>

lemma demo_htu:
  "bare_request demo_jose demo_kit ''GET'' ''http://127.0.0.1:18099/v1/do'' =
     Inr \<lparr>oq_method = ''GET'', oq_url = ''http://127.0.0.1:18099/v1/do'', oq_header = Map.empty, oq_body = None,
       oq_length = 0, oq_gone = False\<rparr>"
proof -
  have "url_parse (\<lambda>_. True) ''http://127.0.0.1:18099/v1/do'' =
      Some (empty_url\<lparr>url_scheme := ''http'', url_host := ''127.0.0.1:18099'', url_path := ''/v1/do''\<rparr>)"
    by code_simp
  moreover have "trim_suffix ''127.0.0.1:18099'' '':'' = ''127.0.0.1:18099''" by code_simp
  ultimately show ?thesis by (simp add: bare_request_def demo_url_text_def empty_url_def)
qed

lemma demo_normalize:
  "normalize_htu demo_jose ''http://127.0.0.1:18099/v1/do'' = Inr ''http://127.0.0.1:18099/v1/do''"
  by code_simp

text \<open>A signature over any request of the example fits its header.\<close>

lemma demo_header_length:
  assumes "length (jwk_x j) \<le> 64" "length (jwk_y j) \<le> 64" "jwk_kty j = ''EC''" "jwk_crv j = ''P-256''" "length x \<le> 8"
  shows "length (enc_header \<lparr>dh_typ = ''dpop+jwt'', dh_alg = ''ES256'', dh_jwk = Some j, dh_x5c = [x]\<rparr>) \<le> 800"
  using assms by (simp add: enc_header_def encoded_length)

lemma demo_payload_length:
  assumes "length htu \<le> 100" "length b = 16" "length (po_ath po) \<le> 64" "length (po_digest po) = 32" "length method \<le> 4"
  shows "length (enc_payload (signed_payload method htu iat b po)) \<le> 1000"
  using assms length_nat_be_word [of iat] length_url_encode [of "po_digest po"]
  by (simp add: enc_payload_def signed_payload_def encoded_length)

definition demo_who :: "nat demo_caller" where
  "demo_who =
     \<lparr>ca_signer = \<lparr>sg_key = 2, sg_cert_der = ''cert'', sg_jwk = public_jwk demo_jose 2\<rparr>,
      ca_scitt = scitt_pairs (bn_receipt demo_bundle) (bn_status_token demo_bundle), ca_jkt = jwk_thumbprint demo_jose 2\<rparr>"

lemma demo_who_is: "demo_caller_of demo_jose demo_sign demo_bundle = Inr demo_who"
proof -
  have ne: "bn_receipt demo_bundle \<noteq> []" "bn_status_token demo_bundle \<noteq> []"
    using provisioned_not_Nil [OF demo_agent_laws demo_provisioned(1)] by simp_all
  have "new_signer demo_jose demo_sign (Some 2) ''cert'' = Inr (ca_signer demo_who)"
    by (simp add: new_signer_Inr demo_who_def) (simp add: demo_jose_def)
  then show ?thesis
    using ne by (simp add: demo_caller_of_def demo_provisioned(4,5) header_entries_pairs demo_who_def signer_jkt_def)
qed

lemma demo_who_other: "ca_jkt demo_who \<noteq> victim_jkt"
  unfolding demo_who_def demo_caller.simps by code_simp

lemma demo_sign_any:
  assumes "normalize_htu demo_jose raw = Inr htu"
  shows "\<exists>jws. sign demo_jose demo_sign sg False method raw iat (Some rnd) opts = Inr jws"
  using assms
  by (simp add: sign_def Let_def new_jti_def encode_proof_parts_def sign_es256_def) (simp add: demo_sign_def)

lemma demo_jws_length:
  assumes "sign demo_jose demo_sign (ca_signer demo_who) False method raw iat (Some rnd) opts = Inr jws"
    and "normalize_htu demo_jose raw = Inr htu" "length htu \<le> 100" "length rnd = 16" "length method \<le> 4"
    and "length (po_ath (signed_options demo_jose opts)) \<le> 64" "length (po_digest (signed_options demo_jose opts)) = 32"
  shows "length jws \<le> max_proof_size"
proof -
  let ?h = "enc_header \<lparr>dh_typ = ''dpop+jwt'', dh_alg = ''ES256'', dh_jwk = Some (public_jwk demo_jose 2), dh_x5c = [std_encode ''cert'']\<rparr>"
  let ?p = "enc_payload (signed_payload method htu iat rnd (signed_options demo_jose opts))"
  obtain s64 where s: "sign_es256 demo_jose demo_sign 2 (jws_signing_input (url_encode ?h) (url_encode ?p)) = Inr s64"
    "jws = url_encode ?h @ ''.'' @ url_encode ?p @ ''.'' @ s64"
    using assms(1,2) by (auto simp: sign_Inr demo_who_def) (simp add: demo_sign_def)
  have x: "length (jwk_x (public_jwk demo_jose 2)) \<le> 64" "length (jwk_y (public_jwk demo_jose 2)) \<le> 64"
    using length_url_encode [of "fill_bytes 32 2"] length_url_encode [of "fill_bytes 32 1"] fill_bytes_32(1) [of 2] fill_bytes_32(1) [of 1]
    by (simp_all add: public_jwk_def coord_len_def)
  have "length ?h \<le> 800"
    using demo_header_length [OF x] by (simp add: public_jwk_def length_std_encode)
  moreover have "length ?p \<le> 1000" using demo_payload_length [OF assms(3,4,6,7,5)] .
  moreover have "length s64 \<le> 128"
    using s(1) length_url_encode [of "fill_bytes 32 (demo_r 2) @ fill_bytes 32 (demo_s d)" for d]
      fill_bytes_32(1) [OF demo_numbers_fit(1)] fill_bytes_32(1) [OF demo_numbers_fit(2)]
    by (auto simp: sign_es256_def coord_len_def p256_sig_len_def)
  ultimately show ?thesis
    using s(2) length_url_encode [of ?h] length_url_encode [of ?p] by (simp add: max_proof_size_def)
qed

lemma demo_signs:
  assumes bare: "bare_request demo_jose demo_kit ''GET'' raw = Inr bare"
    and htu: "normalize_htu demo_jose (oq_url bare) = Inr htu" "length htu \<le> 100" "length rnd = 16"
  shows "\<exists>req. signed_with_token demo_jose sample_unicode demo_sign demo_kit demo_who iat (Some rnd) ''GET'' raw tok = Inr req
    \<and> length (header_get (oq_header req) dpop_header) \<le> max_proof_size"
proof -
  let ?req = "bare\<lparr>oq_header := token_header tok\<rparr>"
  have f: "oq_body bare = None" "oq_gone bare = False" "oq_method bare = ''GET''" using bare by (auto simp: bare_request_Inr)
  define os where "os = with_content_digest (sample_hash []) # (case access_token_from_authorization sample_unicode
      (header_get (token_header tok) ''Authorization'') of Some t \<Rightarrow> [with_access_token demo_jose t] | None \<Rightarrow> [])"
  obtain jws0 where jws0: "sign demo_jose demo_sign (ca_signer demo_who) False ''GET'' (oq_url bare) iat (Some rnd) os = Inr jws0"
    using demo_sign_any [OF htu(1)] by blast
  obtain req where req: "attach_identity demo_jose sample_unicode demo_sign ?req (Some (ca_signer demo_who)) (ca_scitt demo_who)
      iat (Some rnd) = (None, req)"
    using jws0 f by (simp add: attach_identity_def bind_request_content_def os_def)
  obtain jws opts where j: "sign demo_jose demo_sign (ca_signer demo_who) False ''GET'' (oq_url bare) iat (Some rnd) opts = Inr jws"
    "signed_options demo_jose opts = outbound_options demo_jose sample_unicode ?req"
    "oq_header req = add_headers (ca_scitt demo_who) (header_set (token_header tok) dpop_header jws)"
    using attach_identity_None [OF req] f by auto
  have o: "length (po_ath (signed_options demo_jose opts)) \<le> 64" "length (po_digest (signed_options demo_jose opts)) = 32"
    using length_url_encode [of "sample_hash t" for t] unfolding j(2)
    by (auto simp: outbound_options_def access_token_hash_def length_hash split: option.split)
  have "header_get (oq_header req) dpop_header = jws"
    using decorated_values(1) [OF token_header_values(1)] j(3) by (simp add: demo_who_def header_get_values)
  then show ?thesis
    using demo_jws_length [OF j(1) htu _ o] req bare by (intro exI [of _ req]) (simp add: signed_with_token_Inr)
qed

section \<open>The callee and the connection\<close>

definition demo_io :: file_io where
  "demo_io = \<lparr>io_open = (\<lambda>_. True), io_written = (\<lambda>_. None), io_close = (\<lambda>_. True), io_read = (\<lambda>_. True), io_mkdir = (\<lambda>_. True)\<rparr>"

definition demo_authority :: string where
  "demo_authority = ''127.0.0.1:18099''"

definition demo_files :: files where
  "demo_files = snd (save_bundle demo_io demo_kit demo_bundle ''d'' Map.empty)"

definition demo_keys :: "nat key_lookup" where
  "demo_keys = demo_lookup_get (ErrSignature SigErrUnknownKeyID) (take 4 (sample_hash (nat_be 1))) 1"

definition demo_config :: middleware_config where
  "demo_config = default_middleware_config\<lparr>mc_trusted := [''http://127.0.0.1:18099'', ''https://127.0.0.1:18099'']\<rparr>"

definition demo_mw :: "(nat, replay_cache) middleware" where
  "demo_mw = \<lparr>mw_cfg = demo_config, mw_keys = demo_keys, mw_replay = check_and_store (\<lambda>x. x) 0\<rparr>"

lemma demo_mw_simps [simp]:
  "mw_cfg demo_mw = demo_config" "mw_keys demo_mw = demo_keys" "mw_replay demo_mw = check_and_store (\<lambda>x. x) 0"
  "mc_external demo_config = default_request_url" "mc_external_set demo_config = False" "mc_caller_opts demo_config = []"
  "mc_max_content demo_config = 1048576" "mc_trusted demo_config = [''http://127.0.0.1:18099'', ''https://127.0.0.1:18099'']"
  by (simp_all add: demo_mw_def demo_config_def default_middleware_config_def default_max_content_bytes_def)

lemma demo_authority_keys:
  "trusted_authority_key sample_unicode ''https'' demo_authority = ''https://127.0.0.1:18099''"
  "trusted_authority_key sample_unicode ''http'' demo_authority = ''http://127.0.0.1:18099''" "trim_space demo_authority \<noteq> []"
  by code_simp+

lemma demo_hosts: "with_trusted_hosts sample_unicode [demo_authority] default_middleware_config = Inr demo_config"
  using demo_authority_keys by (simp add: with_trusted_hosts_def add_trusted_def demo_config_def default_middleware_config_def)

lemma demo_mw_ok: "mw_ok demo_mw"
  by (simp add: mw_ok_def resolve_caller_options_def default_caller_config_def)

lemma demo_lookup: "demo_key_lookup demo_calls demo_kit (ErrSignature SigErrUnknownKeyID) 1 = Inr demo_keys"
  by (simp add: demo_key_lookup_def demo_key_id demo_keys_def)

lemma demo_saved: "save_bundle demo_io demo_kit demo_bundle ''d'' Map.empty = (None, demo_files)"
proof -
  have w: "write_file demo_io path mode data fs = (None, snd (write_file demo_io path mode data fs))" for path mode data fs
    by (simp add: write_file_def demo_io_def)
  have "fst (write_files demo_io demo_kit d fls fs) = None" for d fls fs
  proof (induction fls arbitrary: fs)
    case (Cons f fls)
    then show ?case using w [of "dl_join demo_kit d (fst f)" mode_0600 "snd f" fs] by (cases f) (auto split: prod.splits)
  qed simp
  moreover have "dl_pkcs8 demo_kit k = Some (nat_be k)" for k by (simp add: demo_kit_def)
  ultimately have "fst (save_bundle demo_io demo_kit demo_bundle ''d'' Map.empty) = None" by (simp add: save_bundle_def del: write_files.simps)
  then show ?thesis unfolding demo_files_def by (metis prod.collapse)
qed

lemma demo_started:
  "start_server demo_calls demo_sign demo_kit demo_io (ErrSignature SigErrUnknownKeyID) demo_rand demo_clock
     (check_and_store (\<lambda>x. x) 0) True ''d'' demo_authority Map.empty = (Inr (demo_mw, new_replay_cache 10000), demo_files)"
proof -
  have "new_middleware (Some demo_keys) (Some (check_and_store (\<lambda>x. x) 0)) [with_trusted_hosts sample_unicode [demo_authority]]
      = Inr demo_mw"
    by (simp add: new_middleware_Inr demo_hosts demo_mw_ok)
  then show ?thesis by (simp add: start_server_def demo_provisioned(1) demo_saved demo_lookup [simplified])
qed

text \<open>The transport adds its own headers to those of the request.\<close>

definition transport_headers :: "http_header \<Rightarrow> http_header" where
  "transport_headers h = h(''User-Agent'' \<mapsto> [''Go-http-client/1.1''], ''Accept-Encoding'' \<mapsto> [''gzip''])"

lemma transport_keeps: "same_evidence (transport_headers h) h"
  by (simp add: same_evidence_def security_headers_def header_values_def transport_headers_def canonical_keys)

definition demo_wire :: "string \<Rightarrow> out_request \<Rightarrow> http_request" where
  "demo_wire host req =
     \<lparr>rq_method = oq_method req, rq_host = (if host = [] then demo_authority else host), rq_tls = False,
      rq_url = empty_url\<lparr>url_path := ''/v1/do''\<rparr>, rq_force_query = False, rq_header = transport_headers (oq_header req),
      rq_body = \<lparr>hb_bytes = [], hb_broken = False\<rparr>, rq_gone = False, rq_caller = None\<rparr>"

definition demo_url :: string where
  "demo_url = ''http://127.0.0.1:18099/v1/do''"

definition demo_bare :: out_request where
  "demo_bare = \<lparr>oq_method = ''GET'', oq_url = demo_url, oq_header = Map.empty, oq_body = None, oq_length = 0, oq_gone = False\<rparr>"

lemma demo_bare_is: "bare_request demo_jose demo_kit ''GET'' demo_url = Inr demo_bare"
  unfolding demo_url_def demo_bare_def by (rule demo_htu)

lemma demo_url_normal: "normalize_htu demo_jose demo_url = Inr demo_url" "is_ascii demo_url" "length demo_url \<le> 100"
  using demo_normalize by (simp_all add: demo_url_def is_ascii_def byte_val_def)

lemma demo_request_url: "default_request_url (demo_wire [] req) = demo_url"
proof -
  have "escaped_path (empty_url\<lparr>url_path := ''/v1/do''\<rparr>) = ''/v1/do''" by code_simp
  then show ?thesis
    by (simp add: default_request_url_def request_scheme_def request_uri_def demo_wire_def Let_def demo_authority_def)
      (simp add: empty_url_def demo_url_def)
qed

lemma demo_routed: "route_of (demo_wire [] req) = Route_App" if "oq_method req = ''GET''"
proof -
  have e: "escaped_path (empty_url\<lparr>url_path := ''/v1/do''\<rparr>) = ''/v1/do''" "clean_path ''/v1/do'' = ''/v1/do''"
    "match_route ''/v1/do'' = Route_App"
    by code_simp+
  have "request_uri (demo_wire [] req) = ''/v1/do''"
    using e(1) by (simp add: request_uri_def demo_wire_def Let_def) (simp add: empty_url_def)
  moreover have "rq_url (demo_wire [] req) = empty_url\<lparr>url_path := ''/v1/do''\<rparr>" "rq_method (demo_wire [] req) = ''GET''"
    using that by (simp_all add: demo_wire_def)
  ultimately show ?thesis using e by (simp add: route_of_def Let_def)
qed

lemma demo_connected: "connected demo_calls demo_mw demo_wire demo_url"
proof -
  have a: "check_authority demo_calls demo_config (demo_wire [] req) = None" for req
    using demo_authority_keys(2) by (simp add: check_authority_None authority_trusted_def request_scheme_def demo_wire_def)
  have f: "rq_method (demo_wire [] req) = oq_method req" "rq_header (demo_wire [] req) = transport_headers (oq_header req)"
    "rq_body (demo_wire [] req) = \<lparr>hb_bytes = [], hb_broken = False\<rparr>" "\<not> rq_gone (demo_wire [] req)" for req
    by (simp_all add: demo_wire_def)
  show ?thesis
    unfolding connected_def delivered_def by (simp add: a f transport_keeps demo_request_url demo_url_normal(1) demo_routed body_of_def)
qed

lemma demo_within: "within_hour demo_clock (demo_now + nanos_per_second)" "fresh_iat 1000000 (demo_now + nanos_per_second) (effective_skew default_pop_skew)"
proof -
  show "within_hour demo_clock (demo_now + nanos_per_second)"
    by (simp add: within_hour_def demo_clock_def demo_now_def cert_ttl_def nanos_per_second_def whole_second_def)
  show "fresh_iat 1000000 (demo_now + nanos_per_second) (effective_skew default_pop_skew)"
    by (simp add: fresh_iat_def sub_time_def unix_time_def effective_skew_def default_pop_skew_def demo_now_def nanos_per_second_def)
qed

section \<open>The single-process program\<close>

definition the_agent :: "(nat, nat) demo_agent" where
  "the_agent = \<lparr>da_keys = demo_keys, da_signer = ca_signer demo_who, da_scitt = ca_scitt demo_who\<rparr>"

lemma the_agent_is:
  "provision_agent demo_calls demo_sign demo_kit (ErrSignature SigErrUnknownKeyID) demo_rand demo_clock = Inr the_agent"
proof -
  obtain sg where sg: "new_signer demo_jose demo_sign (Some (bn_agent_key demo_bundle)) (bn_cert_der demo_bundle) = Inr sg"
    using demo_who_is by (auto simp: demo_caller_of_def split: sum.splits)
  have "ca_signer demo_who = sg" "ca_scitt demo_who = header_entries (bn_receipt demo_bundle) (bn_status_token demo_bundle)"
    using arg_cong [OF demo_who_is, of "\<lambda>x. ca_signer (projr x)"] arg_cong [OF demo_who_is, of "\<lambda>x. ca_scitt (projr x)"]
    by (simp_all add: demo_caller_of_def sg)
  with sg show ?thesis by (simp add: provision_agent_def demo_provisioned(1) demo_lookup [simplified] the_agent_def)
qed

lemma demo_gets:
  assumes "bare_request demo_jose demo_kit ''GET'' raw = Inr bare"
    and "normalize_htu demo_jose (oq_url bare) = Inr htu" "length htu \<le> 100" "length rnd = 16"
  shows "\<exists>h. signed_get_headers demo_jose sample_unicode demo_sign demo_kit the_agent (iat, Some rnd) raw = Inr h
    \<and> length (header_get h dpop_header) \<le> max_proof_size"
proof -
  obtain req where req: "signed_with_token demo_jose sample_unicode demo_sign demo_kit demo_who iat (Some rnd) ''GET'' raw [] = Inr req"
    "length (header_get (oq_header req) dpop_header) \<le> max_proof_size"
    using demo_signs [OF assms] by blast
  have "bare\<lparr>oq_header := token_header []\<rparr> = bare" using assms(1) by (auto simp: bare_request_Inr token_header_def)
  then have "signed_get_headers demo_jose sample_unicode demo_sign demo_kit the_agent (iat, Some rnd) raw = Inr (oq_header req)"
    using req(1) assms(1) by (simp add: signed_with_token_Inr signed_get_headers_def the_agent_def)
  with req(2) show ?thesis by blast
qed

lemma demo_victim:
  "\<exists>bare. bare_request demo_jose demo_kit ''GET'' (''https://'' @ victim_host @ ''/v1/do'') = Inr bare
    \<and> normalize_htu demo_jose (oq_url bare) = Inr ''https://victim.example/v1/do''"
proof -
  have v: "''https://'' @ victim_host @ ''/v1/do'' = ''https://victim.example/v1/do''" by (simp add: victim_host_def)
  have u: "url_parse (\<lambda>_. True) ''https://victim.example/v1/do'' =
      Some (empty_url\<lparr>url_scheme := ''https'', url_host := ''victim.example'', url_path := ''/v1/do''\<rparr>)"
    by code_simp
  have "trim_suffix ''victim.example'' '':'' = ''victim.example''"
    "normalize_htu demo_jose ''https://victim.example/v1/do'' = Inr ''https://victim.example/v1/do''" by code_simp+
  then show ?thesis unfolding v by (simp add: bare_request_def u demo_url_text_def empty_url_def)
qed

definition demo_strict_mw :: "(nat, replay_cache) middleware" where
  "demo_strict_mw = demo_mw\<lparr>mw_cfg := demo_config\<lparr>mc_caller_opts := [with_expected_ans_name sample_unicode other_ans_name]\<rparr>\<rparr>"

lemma demo_other_parses: "\<exists>a. parse_ans_name sample_unicode other_ans_name = Inr a"
proof -
  have "other_ans_name = ans_uri (Version 1 0 0) ''other.example''" by code_simp
  then show ?thesis using parse_ans_uri by metis
qed

lemma demo_callees:
  "start_callee sample_unicode demo_keys (check_and_store (\<lambda>x. x) 0) demo_authority [] = Inr demo_mw"
  "start_callee sample_unicode demo_keys (check_and_store (\<lambda>x. x) 0) demo_authority (wrong_peer_options sample_unicode) = Inr demo_strict_mw"
  "elsewhere sample_unicode demo_authority" "carries demo_wire"
proof -
  show "start_callee sample_unicode demo_keys (check_and_store (\<lambda>x. x) 0) demo_authority [] = Inr demo_mw"
    by (simp add: start_callee_def new_middleware_Inr demo_hosts demo_mw_ok)
  have "mw_ok demo_strict_mw"
    using demo_other_parses
    by (auto simp: mw_ok_def demo_strict_mw_def resolve_caller_options_def default_caller_config_def with_expected_ans_name_def
        add_allowed_def)
  then show "start_callee sample_unicode demo_keys (check_and_store (\<lambda>x. x) 0) demo_authority (wrong_peer_options sample_unicode)
      = Inr demo_strict_mw"
    by (simp add: start_callee_def new_middleware_Inr demo_hosts wrong_peer_options_def with_middleware_caller_options_def)
      (simp add: demo_strict_mw_def)
  show "elsewhere sample_unicode demo_authority" by code_simp
  show "carries demo_wire" by (simp add: carries_def demo_wire_def transport_keeps)
qed

lemma visits_identity: "visits_all (\<lambda>x. x)"
  by (simp add: visits_all_def)

lemma demo_url_parts: "''http://127.0.0.1:18099'' @ ''/v1/do'' = demo_url"
  by (simp add: demo_url_def)

lemma demo_times: "length (replicate 16 (CHR ''x'')) = 16" "0 < (0 :: int) + replay_grace"
  by (simp_all add: replay_grace_def)

lemma demo_names_print:
  "\<forall>u. url_parse (jl_bracket (cl_jose demo_calls)) demo_ans_name = Some u \<longrightarrow> dl_url_text demo_kit u = demo_ans_name"
  by (simp add: demo_ans_url demo_url_text_def) (simp add: demo_ans_name_def empty_url_def)

lemma demo_join_inj: "inj_on (dl_join demo_kit ''d'') bundle_names"
  by (auto intro!: inj_onI)

lemma demo_ready: "call_ready demo_calls demo_sign demo_kit demo_ans_name demo_agent_id demo_clock demo_who demo_mw demo_wire demo_url"
proof -
  have "provision demo_calls demo_sign demo_kit demo_rand demo_clock demo_ans_name demo_agent_id = Inr (1, demo_bundle)"
    "demo_key_lookup demo_calls demo_kit (ErrSignature SigErrUnknownKeyID) (dl_public demo_kit 1) = Inr demo_keys"
    using demo_provisioned(1) demo_lookup by simp_all
  then have "provisioned demo_calls demo_sign demo_kit demo_ans_name demo_agent_id demo_clock demo_bundle demo_keys"
    using demo_provisioned(2,3) demo_names [OF demo_names_print] demo_fingerprint unfolding provisioned_def by blast
  then show ?thesis
    using demo_agent_laws demo_who_is demo_mw_ok demo_bare_is demo_connected demo_url_normal
    by (auto simp: call_ready_def demo_bare_def)
qed

lemma demo_token_served:
  "\<exists>req a s'. route_of (demo_wire [] req) = Route_App \<and> presented_token demo_calls (demo_wire [] req) = Some (own_token demo_who)
    \<and> callee_serve demo_calls (callee_at demo_mw (\<lambda>x. x) 0) (demo_wire [] req) (demo_now + nanos_per_second) (new_replay_cache 0) = (a, s')
    \<and> an_status a = 200"
proof -
  let ?rnd = "replicate 16 (CHR ''x'')" and ?now = "demo_now + nanos_per_second"
  obtain req where req: "signed_with_token demo_jose sample_unicode demo_sign demo_kit demo_who 1000000 (Some ?rnd) ''GET''
      demo_url (own_token demo_who) = Inr req" "length (header_get (oq_header req) dpop_header) \<le> max_proof_size"
    using demo_signs [OF demo_bare_is, of demo_url ?rnd 1000000 "own_token demo_who"] demo_url_normal
    by (auto simp: demo_bare_def)
  have s: "signed_with_token (cl_jose demo_calls) (cl_unicode demo_calls) demo_sign demo_kit demo_who 1000000 (Some ?rnd) ''GET''
      demo_url (mint_unsigned_demo_token ''agent-demo-1'' ''payments:read'' (ca_jkt demo_who)) = Inr req"
    using req(1) by (simp add: own_token_def)
  have tok: "mint_unsigned_demo_token ''agent-demo-1'' ''payments:read'' (ca_jkt demo_who) = []
      \<or> (\<exists>b. b \<noteq> [] \<and> mint_unsigned_demo_token ''agent-demo-1'' ''payments:read'' (ca_jkt demo_who) = url_encode b)"
    by (intro disjI2 exI conjI; (rule mint_unsigned_demo_token_def)?) (simp add: enc_demo_token_def)
  note call = ready_call(2,3) [OF demo_ready visits_identity s demo_times(1) req(2) demo_within tok]
  have "an_status (fst (demo_callee demo_calls demo_mw (\<lambda>x. x) (?now, 0) (demo_wire [] req) (new_replay_cache 0))) = 200"
    using token_outcome [OF demo_ready visits_identity s demo_times(1) req(2) demo_within demo_texts_utf8(1,2) caller_jkt_text [OF demo_ready], of 0 0]
    by simp
  then obtain a s' where "callee_serve demo_calls (callee_at demo_mw (\<lambda>x. x) 0) (demo_wire [] req) ?now (new_replay_cache 0) = (a, s')"
    "an_status a = 200"
    by (cases "callee_serve demo_calls (callee_at demo_mw (\<lambda>x. x) 0) (demo_wire [] req) ?now (new_replay_cache 0)")
      (simp add: demo_callee_def)
  moreover have ne: "own_token demo_who \<noteq> []" "own_token demo_who = url_encode (json_print (enc_demo_token
      \<lparr>dt_sub = ''agent-demo-1'', dt_jkt = ca_jkt demo_who, dt_scope = ''payments:read''\<rparr>))"
    by (simp_all add: own_token_def mint_unsigned_demo_token_def) (simp add: enc_demo_token_def)
  moreover have "presented_token demo_calls (demo_wire [] req) = Some (own_token demo_who)"
    using call(1) token_presented [OF ne(2,1)] ne(1) unfolding presented_token_def own_token_def by simp
  ultimately show ?thesis using call(2) by blast
qed

text \<open>The four signed sets of headers of the scenarios.\<close>

lemma demo_scenario_headers:
  "\<exists>h0 h3. signed_get_headers demo_jose sample_unicode demo_sign demo_kit the_agent (1000000, Some (replicate 16 (CHR ''x'')))
       (''http://127.0.0.1:18099'' @ ''/v1/do'') = Inr h0
    \<and> length (header_get h0 dpop_header) \<le> max_proof_size
    \<and> signed_get_headers demo_jose sample_unicode demo_sign demo_kit the_agent (1000000, Some (replicate 16 (CHR ''x'')))
       (''https://'' @ victim_host @ ''/v1/do'') = Inr h3"
proof -
  obtain bare where v: "bare_request demo_jose demo_kit ''GET'' (''https://'' @ victim_host @ ''/v1/do'') = Inr bare"
    "normalize_htu demo_jose (oq_url bare) = Inr ''https://victim.example/v1/do''" using demo_victim by blast
  have b: "normalize_htu demo_jose (oq_url demo_bare) = Inr demo_url" using demo_url_normal by (simp add: demo_bare_def)
  show ?thesis
    using demo_gets [OF demo_bare_is b demo_url_normal(3) demo_times(1), of 1000000] demo_gets [OF v _ demo_times(1), of 1000000]
    unfolding demo_url_parts by fastforce
qed

end
