(* ===== verification/Fifo_Cache.thy ===== *)
theory Fifo_Cache
  imports Receipt
begin

text \<open>
  The caches of verified artifacts: \<open>verify/scitt/cache.go\<close>. \<open>ReceiptCache\<close> and \<open>StatusTokenCache\<close>
  keep the same two fields, a map of entries and a slice with the keys in insertion order, and
  differ in when an entry expires; the bookkeeping is written once over the type of the values.
  The clock's readings are arguments; a clock reading of \<open>time.Time\<close> is nanoseconds, of
  \<open>Unix()\<close> an \<open>int64\<close>.
\<close>

record 'v fifo =
  ff_entries :: "(string \<times> 'v) list"
  ff_order :: "string list"
  ff_max :: int

definition new_fifo :: "int \<Rightarrow> 'v fifo" where
  "new_fifo m = \<lparr>ff_entries = [], ff_order = [], ff_max = m\<rparr>"

text \<open>The eviction loop: \<open>n\<close> counts the iterations left.\<close>

fun evict_loop :: "nat \<Rightarrow> 'v fifo \<Rightarrow> 'v fifo" where
  "evict_loop 0 c = c"
| "evict_loop (Suc n) c =
     (case ff_order c of
        [] \<Rightarrow> c
      | oldest # rest \<Rightarrow>
          evict_loop n (c\<lparr>ff_order := rest, ff_entries := AList.delete oldest (ff_entries c)\<rparr>))"

definition evict_locked :: "'v fifo \<Rightarrow> 'v fifo" where
  "evict_locked c =
     (if int (length (ff_entries c)) \<le> ff_max c then c
      else evict_loop (nat (int (length (ff_entries c)) - ff_max c)) c)"

fun remove_from_order :: "string \<Rightarrow> string list \<Rightarrow> string list" where
  "remove_from_order k [] = []"
| "remove_from_order k (x # xs) = (if x = k then xs else x # remove_from_order k xs)"

definition fifo_insert :: "string \<Rightarrow> 'v \<Rightarrow> 'v fifo \<Rightarrow> 'v fifo" where
  "fifo_insert k v c =
     (let c = (if map_of (ff_entries c) k = None then c\<lparr>ff_order := ff_order c @ [k]\<rparr> else c)
      in evict_locked (c\<lparr>ff_entries := AList.update k v (ff_entries c)\<rparr>))"

definition fifo_invalidate :: "string \<Rightarrow> 'v fifo \<Rightarrow> 'v fifo" where
  "fifo_invalidate k c =
     (if map_of (ff_entries c) k \<noteq> None
      then c\<lparr>ff_entries := AList.delete k (ff_entries c), ff_order := remove_from_order k (ff_order c)\<rparr>
      else c)"

definition fifo_len :: "'v fifo \<Rightarrow> nat" where
  "fifo_len c = length (ff_entries c)"

section \<open>The two caches\<close>

record receipt_entry =
  re_receipt :: verified_receipt
  re_expires_at :: int

record receipt_cache =
  rc_fifo :: "receipt_entry fifo"
  rc_ttl :: int

definition new_receipt_cache :: "int \<Rightarrow> int \<Rightarrow> receipt_cache" where
  "new_receipt_cache ttl m = \<lparr>rc_fifo = new_fifo m, rc_ttl = ttl\<rparr>"

definition default_receipt_cache :: receipt_cache where
  "default_receipt_cache = new_receipt_cache (24 * 60 * 60 * nanos_per_second) 1000"

definition receipt_cache_get :: "int \<Rightarrow> receipt_cache \<Rightarrow> string \<Rightarrow> verified_receipt option" where
  "receipt_cache_get now c k =
     (case map_of (ff_entries (rc_fifo c)) k of
        None \<Rightarrow> None
      | Some e \<Rightarrow> if now > re_expires_at e then None else Some (re_receipt e))"

definition receipt_cache_insert :: "int \<Rightarrow> string \<Rightarrow> verified_receipt \<Rightarrow> receipt_cache \<Rightarrow> receipt_cache" where
  "receipt_cache_insert now k r c =
     c\<lparr>rc_fifo := fifo_insert k \<lparr>re_receipt = r, re_expires_at = now + rc_ttl c\<rparr> (rc_fifo c)\<rparr>"

definition receipt_cache_invalidate :: "string \<Rightarrow> receipt_cache \<Rightarrow> receipt_cache" where
  "receipt_cache_invalidate k c = c\<lparr>rc_fifo := fifo_invalidate k (rc_fifo c)\<rparr>"

definition receipt_cache_len :: "receipt_cache \<Rightarrow> nat" where
  "receipt_cache_len c = fifo_len (rc_fifo c)"

record token_entry =
  toe_token :: verified_token
  toe_expires_at :: int64

record token_cache =
  tc_fifo :: "token_entry fifo"

definition new_token_cache :: "int \<Rightarrow> token_cache" where
  "new_token_cache m = \<lparr>tc_fifo = new_fifo m\<rparr>"

definition default_token_cache :: token_cache where
  "default_token_cache = new_token_cache 1000"

definition token_cache_get :: "int64 \<Rightarrow> token_cache \<Rightarrow> string \<Rightarrow> verified_token option" where
  "token_cache_get now c k =
     (case map_of (ff_entries (tc_fifo c)) k of
        None \<Rightarrow> None
      | Some e \<Rightarrow> if sint now > sint (toe_expires_at e) then None else Some (toe_token e))"

definition token_cache_insert :: "string \<Rightarrow> verified_token \<Rightarrow> token_cache \<Rightarrow> token_cache" where
  "token_cache_insert k t c =
     c\<lparr>tc_fifo := fifo_insert k \<lparr>toe_token = t, toe_expires_at = sp_exp (vt_payload t)\<rparr> (tc_fifo c)\<rparr>"

definition token_cache_invalidate :: "string \<Rightarrow> token_cache \<Rightarrow> token_cache" where
  "token_cache_invalidate k c = c\<lparr>tc_fifo := fifo_invalidate k (tc_fifo c)\<rparr>"

definition token_cache_len :: "token_cache \<Rightarrow> nat" where
  "token_cache_len c = fifo_len (tc_fifo c)"

section \<open>The bounded queue they implement\<close>

text \<open>
  The specification: a list of bindings in insertion order. Overwriting keeps the position, an
  insertion beyond the bound drops bindings from the front.
\<close>

definition queue_of :: "'v fifo \<Rightarrow> (string \<times> 'v) list" where
  "queue_of c = map (\<lambda>k. (k, the (map_of (ff_entries c) k))) (ff_order c)"

definition queue_insert :: "int \<Rightarrow> string \<Rightarrow> 'v \<Rightarrow> (string \<times> 'v) list \<Rightarrow> (string \<times> 'v) list" where
  "queue_insert m k v q =
     (let q' = AList.update k v q in drop (nat (int (length q') - m)) q')"

definition fifo_ok :: "'v fifo \<Rightarrow> bool" where
  "fifo_ok c = (distinct (map fst (ff_entries c)) \<and> distinct (ff_order c)
     \<and> set (ff_order c) = fst ` set (ff_entries c))"

lemma fifo_ok_new [simp]: "fifo_ok (new_fifo m)"
  by (simp add: fifo_ok_def new_fifo_def)

lemma fifo_ok_length: "fifo_ok c \<Longrightarrow> length (ff_order c) = length (ff_entries c)"
  unfolding fifo_ok_def by (metis distinct_card length_map set_map)

lemma set_remove_from_order: "distinct xs \<Longrightarrow> set (remove_from_order k xs) = set xs - {k}"
  by (induction xs) auto

lemma distinct_remove_from_order: "distinct xs \<Longrightarrow> distinct (remove_from_order k xs)"
  by (induction xs) (auto simp: set_remove_from_order)

lemma filter_neq_id: "k \<notin> set xs \<Longrightarrow> filter (\<lambda>x. x \<noteq> k) xs = xs"
  by (induction xs) auto

lemma remove_from_order_filter: "distinct xs \<Longrightarrow> remove_from_order k xs = filter (\<lambda>x. x \<noteq> k) xs"
  by (induction xs) (auto simp: filter_neq_id)

lemma keys_delete: "fst ` set (AList.delete k m) = fst ` set m - {k}"
  by (force simp: AList.delete_eq)

lemma fifo_ok_delete:
  "fifo_ok c \<Longrightarrow> ff_order c = k # rest \<Longrightarrow>
   fifo_ok (c\<lparr>ff_order := rest, ff_entries := AList.delete k (ff_entries c)\<rparr>)"
  by (auto simp: fifo_ok_def AList.distinct_delete keys_delete)

lemma queue_of_delete:
  "fifo_ok c \<Longrightarrow> ff_order c = k # rest \<Longrightarrow>
   queue_of (c\<lparr>ff_order := rest, ff_entries := AList.delete k (ff_entries c)\<rparr>) = drop 1 (queue_of c)"
  by (auto simp: queue_of_def fifo_ok_def AList.delete_conv)

lemma evict_loop_refines:
  "fifo_ok c \<Longrightarrow> fifo_ok (evict_loop n c) \<and> queue_of (evict_loop n c) = drop n (queue_of c)"
proof (induction n arbitrary: c)
  case (Suc n)
  show ?case
  proof (cases "ff_order c")
    case Nil
    with Suc.prems show ?thesis by (simp add: queue_of_def)
  next
    case (Cons k rest)
    with Suc.IH [OF fifo_ok_delete [OF Suc.prems Cons]] queue_of_delete [OF Suc.prems Cons] show ?thesis
      by simp
  qed
qed simp

lemma length_queue_of: "fifo_ok c \<Longrightarrow> length (queue_of c) = length (ff_entries c)"
  by (simp add: queue_of_def fifo_ok_length)

lemma evict_locked_refines:
  "fifo_ok c \<Longrightarrow> fifo_ok (evict_locked c) \<and>
   queue_of (evict_locked c) = drop (nat (int (length (queue_of c)) - ff_max c)) (queue_of c)"
  using evict_loop_refines by (auto simp: evict_locked_def length_queue_of)

lemma evict_loop_max [simp]: "ff_max (evict_loop n c) = ff_max c"
  by (induction n arbitrary: c) (auto split: list.split)

lemma update_present:
  "distinct ks \<Longrightarrow> k \<in> set ks \<Longrightarrow>
   AList.update k v (map (\<lambda>x. (x, f x)) ks) = map (\<lambda>x. (x, if x = k then v else f x)) ks"
  by (induction ks) auto

lemma update_absent: "k \<notin> fst ` set q \<Longrightarrow> AList.update k v q = q @ [(k, v)]"
  by (induction q) auto

lemma fifo_insert_refines:
  assumes "fifo_ok c"
  shows "fifo_ok (fifo_insert k v c) \<and> queue_of (fifo_insert k v c) = queue_insert (ff_max c) k v (queue_of c)"
proof (cases "map_of (ff_entries c) k = None")
  case True
  let ?c = "c\<lparr>ff_order := ff_order c @ [k], ff_entries := AList.update k v (ff_entries c)\<rparr>"
  from True have k: "k \<notin> fst ` set (ff_entries c)" by (simp add: map_of_eq_None_iff)
  then have ok: "fifo_ok ?c"
    using assms by (auto simp: fifo_ok_def update_absent)
  have k': "k \<notin> set (ff_order c)" using assms k by (simp add: fifo_ok_def)
  then have "k \<notin> fst ` set (queue_of c)" by (auto simp: queue_of_def)
  then have "AList.update k v (queue_of c) = queue_of c @ [(k, v)]" by (rule update_absent)
  moreover have "queue_of ?c = queue_of c @ [(k, v)]"
    using k' by (auto simp: queue_of_def AList.update_conv)
  ultimately have "queue_of ?c = AList.update k v (queue_of c)" by simp
  with evict_locked_refines [OF ok] True show ?thesis
    by (simp add: fifo_insert_def queue_insert_def Let_def)
next
  case False
  let ?c = "c\<lparr>ff_entries := AList.update k v (ff_entries c)\<rparr>"
  from False have k: "k \<in> fst ` set (ff_entries c)" by (simp add: map_of_eq_None_iff)
  then have ok: "fifo_ok ?c"
    using assms by (auto simp: fifo_ok_def AList.distinct_update AList.dom_update dom_update)
  have "queue_of ?c = AList.update k v (queue_of c)"
    using assms k by (auto simp: queue_of_def fifo_ok_def AList.update_conv update_present)
  with evict_locked_refines [OF ok] False show ?thesis
    by (auto simp: fifo_insert_def queue_insert_def Let_def)
qed

lemma fifo_invalidate_refines:
  assumes "fifo_ok c"
  shows "fifo_ok (fifo_invalidate k c) \<and> queue_of (fifo_invalidate k c) = filter (\<lambda>(x, _). x \<noteq> k) (queue_of c)"
  using assms
  by (auto simp: fifo_invalidate_def fifo_ok_def queue_of_def AList.distinct_delete keys_delete
      remove_from_order_filter filter_map o_def AList.delete_conv map_of_eq_None_iff filter_neq_id)

lemma map_of_queue: "fifo_ok c \<Longrightarrow> map_of (queue_of c) k = map_of (ff_entries c) k"
proof (cases "k \<in> set (ff_order c)")
  case True
  assume "fifo_ok c"
  with True obtain v where "map_of (ff_entries c) k = Some v"
    by (metis fifo_ok_def map_of_eq_None_iff not_None_eq)
  then show ?thesis using True by (simp add: queue_of_def map_of_map_restrict)
next
  case False
  assume ok: "fifo_ok c"
  then have "map_of (ff_entries c) k = None" using False by (simp add: fifo_ok_def map_of_eq_None_iff)
  moreover have "map_of (queue_of c) k = None"
    using False by (auto simp: queue_of_def map_of_eq_None_iff)
  ultimately show ?thesis by simp
qed

lemma distinct_queue: "fifo_ok c \<Longrightarrow> distinct (map fst (queue_of c))"
  by (simp add: queue_of_def fifo_ok_def o_def)

lemma map_of_drop: "distinct (map fst q) \<Longrightarrow> map_of (drop n q) k = Some x \<Longrightarrow> map_of q k = Some x"
  by (meson in_set_dropD map_of_SomeD map_of_is_SomeI)

lemma fifo_insert_lookup:
  assumes "fifo_ok c" "map_of (ff_entries (fifo_insert k v c)) k' = Some x"
  shows "((map_of (ff_entries c))(k \<mapsto> v)) k' = Some x"
proof -
  note r = fifo_insert_refines [OF assms(1), of k v]
  have "map_of (queue_insert (ff_max c) k v (queue_of c)) k' = Some x"
    using assms(2) r map_of_queue [of "fifo_insert k v c" k'] by simp
  then have "map_of (AList.update k v (queue_of c)) k' = Some x"
    unfolding queue_insert_def Let_def
    by (rule map_of_drop [rotated]) (simp add: AList.distinct_update distinct_queue assms(1))
  then show ?thesis by (auto simp: AList.update_conv map_of_queue [OF assms(1)])
qed

lemma fifo_invalidate_lookup:
  "map_of (ff_entries (fifo_invalidate k c)) k' = (if k' = k then None else map_of (ff_entries c) k')"
  by (auto simp: fifo_invalidate_def AList.delete_conv)

lemma ff_max_insert [simp]: "ff_max (fifo_insert k v c) = ff_max c"
  by (simp add: fifo_insert_def evict_locked_def Let_def)

lemma fifo_insert_len: "fifo_ok c \<Longrightarrow> int (fifo_len (fifo_insert k v c)) \<le> max 0 (ff_max c)"
  using fifo_insert_refines [of c k v] length_queue_of [of "fifo_insert k v c"]
  by (auto simp: fifo_len_def queue_insert_def Let_def)

lemma fifo_insert_found:
  assumes "fifo_ok c" "0 < ff_max c" "map_of (ff_entries c) k = None"
  shows "map_of (ff_entries (fifo_insert k v c)) k = Some v"
proof -
  note r = fifo_insert_refines [OF assms(1), of k v]
  have "k \<notin> fst ` set (queue_of c)"
    using assms(3) map_of_queue [OF assms(1), of k] by (metis map_of_eq_None_iff)
  then have u: "AList.update k v (queue_of c) = queue_of c @ [(k, v)]" by (rule update_absent)
  have "queue_insert (ff_max c) k v (queue_of c) =
      drop (nat (int (length (queue_of c) + 1) - ff_max c)) (queue_of c) @ [(k, v)]"
    using assms(2) by (simp add: queue_insert_def u nat_le_iff)
  then have "(k, v) \<in> set (queue_of (fifo_insert k v c))" using r by simp
  then have "map_of (queue_of (fifo_insert k v c)) k = Some v"
    using r by (intro map_of_is_SomeI distinct_queue) auto
  then show ?thesis using r map_of_queue by metis
qed

section \<open>The contract of a cache with expiry\<close>

locale expiring_store =
  fixes ok :: "'s \<Rightarrow> bool"
    and get :: "'t \<Rightarrow> 's \<Rightarrow> string \<Rightarrow> 'v option"
    and put :: "'i \<Rightarrow> string \<Rightarrow> 'v \<Rightarrow> 's \<Rightarrow> 's"
    and drop_key :: "string \<Rightarrow> 's \<Rightarrow> 's"
  assumes ok_put: "ok s \<Longrightarrow> ok (put i k v s)"
    and ok_drop: "ok s \<Longrightarrow> ok (drop_key k s)"
    and get_put_same: "ok s \<Longrightarrow> get t (put i k v s) k = Some w \<Longrightarrow> w = v"
    and get_put_other: "ok s \<Longrightarrow> k' \<noteq> k \<Longrightarrow> get t (put i k v s) k' = Some w \<Longrightarrow> get t s k' = Some w"
    and get_drop_same: "ok s \<Longrightarrow> get t (drop_key k s) k = None"
    and get_drop_other: "ok s \<Longrightarrow> k' \<noteq> k \<Longrightarrow> get t (drop_key k s) k' = get t s k'"
begin

text \<open>A run of insertions (\<open>Inl\<close>) and invalidations (\<open>Inr\<close>), the most recent last.\<close>

fun run :: "(('i \<times> string \<times> 'v) + string) list \<Rightarrow> 's \<Rightarrow> 's" where
  "run [] s = s"
| "run (Inl (i, k, v) # ops) s = run ops (put i k v s)"
| "run (Inr k # ops) s = run ops (drop_key k s)"

text \<open>What the last operation on \<open>k\<close> left there, \<open>None\<close> when no operation names it.\<close>

fun last_effect :: "string \<Rightarrow> (('i \<times> string \<times> 'v) + string) list \<Rightarrow> 'v option option" where
  "last_effect k [] = None"
| "last_effect k (Inl (i, k', v) # ops) =
     (case last_effect k ops of Some e \<Rightarrow> Some e | None \<Rightarrow> if k' = k then Some (Some v) else None)"
| "last_effect k (Inr k' # ops) =
     (case last_effect k ops of Some e \<Rightarrow> Some e | None \<Rightarrow> if k' = k then Some None else None)"

lemma run_ok: "ok s \<Longrightarrow> ok (run ops s)"
  by (induction ops s rule: run.induct) (auto intro: ok_put ok_drop)

text \<open>
  A lookup answers with what the last operation on its key put there, or with what the store
  held at the start when no operation named the key; it may also have lost it.
\<close>

lemma provenance:
  "ok s \<Longrightarrow> get t (run ops s) k = Some w \<Longrightarrow>
   (case last_effect k ops of None \<Rightarrow> get t s k = Some w | Some e \<Rightarrow> e = Some w)"
proof (induction ops s rule: run.induct)
  case (2 i k' v ops s)
  then have "case last_effect k ops of None \<Rightarrow> get t (put i k' v s) k = Some w | Some e \<Rightarrow> e = Some w"
    by (simp add: ok_put)
  then show ?case
    using get_put_same [OF "2.prems"(1), of t i k' v w] get_put_other [OF "2.prems"(1), of k k' t i v w]
    by (cases "last_effect k ops"; cases "k' = k") auto
next
  case (3 k' ops s)
  then have "case last_effect k ops of None \<Rightarrow> get t (drop_key k' s) k = Some w | Some e \<Rightarrow> e = Some w"
    by (simp add: ok_drop)
  then show ?case
    using get_drop_same [OF "3.prems"(1), of t k'] get_drop_other [OF "3.prems"(1), of k k' t]
    by (cases "last_effect k ops"; cases "k' = k") auto
qed simp

end

definition receipt_cache_ok :: "receipt_cache \<Rightarrow> bool" where
  "receipt_cache_ok c = fifo_ok (rc_fifo c)"

text \<open>A token's entry runs out when the token does.\<close>

definition token_cache_ok :: "token_cache \<Rightarrow> bool" where
  "token_cache_ok c =
     (fifo_ok (tc_fifo c)
      \<and> (\<forall>k e. map_of (ff_entries (tc_fifo c)) k = Some e \<longrightarrow> toe_expires_at e = sp_exp (vt_payload (toe_token e))))"

interpretation receipts: expiring_store receipt_cache_ok receipt_cache_get receipt_cache_insert
  receipt_cache_invalidate
  by unfold_locales
    (auto simp: receipt_cache_ok_def receipt_cache_get_def receipt_cache_insert_def receipt_cache_invalidate_def
      fifo_insert_refines fifo_invalidate_refines fifo_invalidate_lookup
      dest!: fifo_insert_lookup split: option.splits if_splits)

lemma token_insert_ok: "token_cache_ok c \<Longrightarrow> token_cache_ok (token_cache_insert k t c)"
  by (auto simp: token_cache_ok_def token_cache_insert_def fifo_insert_refines
      dest!: fifo_insert_lookup split: if_splits)

lemma token_invalidate_ok: "token_cache_ok c \<Longrightarrow> token_cache_ok (token_cache_invalidate k c)"
  by (auto simp: token_cache_ok_def token_cache_invalidate_def fifo_invalidate_refines fifo_invalidate_lookup
      split: if_splits)

interpretation tokens: expiring_store token_cache_ok token_cache_get "\<lambda>_ :: unit. token_cache_insert"
  token_cache_invalidate
proof unfold_locales
  show "token_cache_ok s \<Longrightarrow> token_cache_ok (token_cache_insert k v s)" for s k v
    by (rule token_insert_ok)
  show "token_cache_ok s \<Longrightarrow> token_cache_ok (token_cache_invalidate k s)" for s k
    by (rule token_invalidate_ok)
qed (auto simp: token_cache_ok_def token_cache_get_def token_cache_insert_def token_cache_invalidate_def
      fifo_insert_refines fifo_invalidate_refines fifo_invalidate_lookup
      dest!: fifo_insert_lookup split: option.splits if_splits)

lemma new_caches_ok [simp]:
  "receipt_cache_ok (new_receipt_cache ttl n)" "token_cache_ok (new_token_cache n)"
  "receipt_cache_get t (new_receipt_cache ttl n) k = None" "token_cache_get now (new_token_cache n) k = None"
  by (simp_all add: receipt_cache_ok_def token_cache_ok_def new_receipt_cache_def new_token_cache_def
      receipt_cache_get_def token_cache_get_def) (simp_all add: new_fifo_def)

lemma token_get_current:
  "token_cache_ok c \<Longrightarrow> token_cache_get now c k = Some vt \<Longrightarrow> sint now \<le> sint (sp_exp (vt_payload vt))"
  by (auto simp: token_cache_ok_def token_cache_get_def split: option.splits if_splits)

end
