(* ===== verification/Supplier.thy ===== *)
theory Supplier
  imports Receipt Status_Token Headers "HOL-Library.Signed_Division"
begin

text \<open>
  The header supplier: \<open>verify/scitt/supplier.go\<close>, but for \<open>OutgoingHeaders\<close>, which is in \<open>Headers\<close>.
  The outcome of the two fetches, the clock's reading and the key lookup of the moment are arguments
  of each operation; a nil slice is \<open>None\<close>. The locks make each operation atomic, save that
  \<open>CurrentHeaders\<close> reads, initialises and reads again.
\<close>

definition default_supplier_clock_skew :: int where
  "default_supplier_clock_skew = 30 * nanos_per_second"

definition default_supplier_init_timeout :: int where
  "default_supplier_init_timeout = 30 * nanos_per_second"

definition min_auto_refresh_interval :: int where
  "min_auto_refresh_interval = 10 * nanos_per_second"

record header_supplier =
  hs_agent :: string
  hs_clock_skew :: int
  hs_init_timeout :: int
  hs_receipt :: "bytes option"
  hs_token :: "bytes option"
  hs_token_exp :: "int64 option"
  hs_initialized :: bool
  hs_last_error :: "scitt_error option"

definition with_init_timeout :: "int \<Rightarrow> header_supplier \<Rightarrow> header_supplier" where
  "with_init_timeout d s = s\<lparr>hs_init_timeout := d\<rparr>"

definition with_supplier_clock_skew :: "int \<Rightarrow> header_supplier \<Rightarrow> header_supplier" where
  "with_supplier_clock_skew d s =
     (let d = (if d < 0 then 0 else d); d = (if d > max_clock_skew then max_clock_skew else d)
      in s\<lparr>hs_clock_skew := d\<rparr>)"

definition new_header_supplier :: "string \<Rightarrow> (header_supplier \<Rightarrow> header_supplier) list \<Rightarrow> header_supplier" where
  "new_header_supplier agent opts =
     foldl (\<lambda>s opt. opt s)
       \<lparr>hs_agent = agent, hs_clock_skew = default_supplier_clock_skew, hs_init_timeout = default_supplier_init_timeout,
        hs_receipt = None, hs_token = None, hs_token_exp = None, hs_initialized = False, hs_last_error = None\<rparr> opts"

text \<open>What the world answers during one fetch: the two artifacts, the verifier's keys and the clock.\<close>

record 'k supply_env =
  se_receipt :: "scitt_error + bytes"
  se_token :: "scitt_error + bytes"
  se_keys :: "'k key_lookup"
  se_now :: int64

definition record_fetch_error :: "scitt_error \<Rightarrow> header_supplier \<Rightarrow> scitt_error option \<times> header_supplier" where
  "record_fetch_error e s = (Some e, s\<lparr>hs_last_error := Some e\<rparr>)"

definition fetch_and_verify ::
  "unicode \<Rightarrow> cbor_lib \<Rightarrow> 'k crypto \<Rightarrow> 'k supply_env \<Rightarrow> header_supplier \<Rightarrow> scitt_error option \<times> header_supplier" where
  "fetch_and_verify u L C w s =
     (case se_receipt w of Inl e \<Rightarrow> record_fetch_error e s | Inr receipt \<Rightarrow>
      case se_token w of Inl e \<Rightarrow> record_fetch_error e s | Inr token \<Rightarrow>
      case verify_receipt L C (se_keys w) receipt of Inl e \<Rightarrow> record_fetch_error e s | Inr _ \<Rightarrow>
      case verify_status_token_at u L C (se_keys w) token (hs_clock_skew s) (se_now w) of
        Inl e \<Rightarrow> record_fetch_error e s
      | Inr verified \<Rightarrow>
          (None, s\<lparr>hs_receipt := Some receipt, hs_token := Some token,
                   hs_token_exp := Some (sp_exp (vt_payload verified)), hs_last_error := None\<rparr>))"

text \<open>\<open>initOnce\<close>, from the state once the gate is held.\<close>

definition init_once ::
  "unicode \<Rightarrow> cbor_lib \<Rightarrow> 'k crypto \<Rightarrow> 'k supply_env \<Rightarrow> header_supplier \<Rightarrow> header_supplier" where
  "init_once u L C w s =
     (if hs_initialized s then s
      else case fetch_and_verify u L C w s of
          (Some e, s') \<Rightarrow> s'\<lparr>hs_last_error := Some e\<rparr>
        | (None, s') \<Rightarrow> s'\<lparr>hs_initialized := True, hs_last_error := None\<rparr>)"

definition outgoing_of :: "int64 \<Rightarrow> header_supplier \<Rightarrow> outgoing_headers" where
  "outgoing_of now s =
     (let token = (case hs_token s of
            None \<Rightarrow> None
          | Some t \<Rightarrow>
              (case hs_token_exp s of
                 None \<Rightarrow> Some t
               | Some e \<Rightarrow> if sint now \<ge> sint e then None else Some t))
      in \<lparr>oh_receipt = encode_if_non_empty (case hs_receipt s of None \<Rightarrow> [] | Some r \<Rightarrow> r),
          oh_token = encode_if_non_empty (case token of None \<Rightarrow> [] | Some t \<Rightarrow> t)\<rparr>)"

text \<open>\<open>now\<close> is the reading of the clock after the initialisation, if one was needed.\<close>

definition current_headers ::
  "unicode \<Rightarrow> cbor_lib \<Rightarrow> 'k crypto \<Rightarrow> 'k supply_env \<Rightarrow> int64 \<Rightarrow> header_supplier \<Rightarrow> outgoing_headers \<times> header_supplier" where
  "current_headers u L C w now s =
     (let s' = (if hs_initialized s then s else init_once u L C w s) in (outgoing_of now s', s'))"

definition refresh_now ::
  "unicode \<Rightarrow> cbor_lib \<Rightarrow> 'k crypto \<Rightarrow> 'k supply_env \<Rightarrow> header_supplier \<Rightarrow> scitt_error option \<times> header_supplier" where
  "refresh_now u L C w s = fetch_and_verify u L C w s"

text \<open>One round of \<open>autoRefreshLoop\<close> after its wait.\<close>

definition auto_refresh_step ::
  "unicode \<Rightarrow> cbor_lib \<Rightarrow> 'k crypto \<Rightarrow> 'k supply_env \<Rightarrow> header_supplier \<Rightarrow> header_supplier" where
  "auto_refresh_step u L C w s =
     (case fetch_and_verify u L C w s of
        (Some _, s') \<Rightarrow> s'
      | (None, s') \<Rightarrow> s'\<lparr>hs_initialized := True\<rparr>)"

definition supplier_last_error :: "header_supplier \<Rightarrow> scitt_error option" where
  "supplier_last_error s = hs_last_error s"

definition supplier_healthy :: "header_supplier \<Rightarrow> bool" where
  "supplier_healthy s = (hs_initialized s \<and> hs_last_error s = None)"

text \<open>
  The wait before a refresh. \<open>jitter\<close> is the floating-point computation that adds up to ten per cent
  either way to a duration; \<open>Time.Sub\<close> saturates and the division truncates.
\<close>

definition compute_refresh_interval :: "(int \<Rightarrow> int) \<Rightarrow> int \<Rightarrow> header_supplier \<Rightarrow> int" where
  "compute_refresh_interval jitter now s =
     (case hs_token_exp s of
        None \<Rightarrow> min_auto_refresh_interval
      | Some e \<Rightarrow>
          let remaining = max (- (2 ^ 63)) (min (2 ^ 63 - 1) (sint e * nanos_per_second - now));
              interval = jitter (remaining sdiv 2)
          in if interval < min_auto_refresh_interval then min_auto_refresh_interval else interval)"

section \<open>Runs of a supplier\<close>

text \<open>Every interleaving of its operations, each atomic, under any answers of the world.\<close>

inductive supplier_run ::
  "unicode \<Rightarrow> cbor_lib \<Rightarrow> 'k crypto \<Rightarrow> header_supplier \<Rightarrow> header_supplier \<Rightarrow> bool" for u L C where
  run_start: "supplier_run u L C s s"
| run_init: "supplier_run u L C s s' \<Longrightarrow> supplier_run u L C s (init_once u L C w s')"
| run_refresh: "supplier_run u L C s s' \<Longrightarrow> supplier_run u L C s (snd (refresh_now u L C w s'))"
| run_auto: "supplier_run u L C s s' \<Longrightarrow> supplier_run u L C s (auto_refresh_step u L C w s')"

text \<open>
  The invariant: receipt, token and expiry are all absent or come from one fetch whose artifacts both
  verified at the time, under the keys of the time; an initialised supplier has them.
\<close>

definition fetched_together ::
  "unicode \<Rightarrow> cbor_lib \<Rightarrow> 'k crypto \<Rightarrow> int \<Rightarrow> 'k supply_env \<Rightarrow> bytes \<Rightarrow> bytes \<Rightarrow> int64 \<Rightarrow> bool" where
  "fetched_together u L C skew w receipt token e \<longleftrightarrow>
     se_receipt w = Inr receipt \<and> se_token w = Inr token
     \<and> (\<exists>r. verify_receipt L C (se_keys w) receipt = Inr r)
     \<and> (\<exists>vt. verify_status_token_at u L C (se_keys w) token skew (se_now w) = Inr vt \<and> e = sp_exp (vt_payload vt))"

definition supplier_ok :: "unicode \<Rightarrow> cbor_lib \<Rightarrow> 'k crypto \<Rightarrow> header_supplier \<Rightarrow> bool" where
  "supplier_ok u L C s \<longleftrightarrow>
     hs_receipt s = None \<and> hs_token s = None \<and> hs_token_exp s = None \<and> \<not> hs_initialized s
     \<or> (\<exists>r t e. \<exists>w :: 'k supply_env. hs_receipt s = Some r \<and> hs_token s = Some t \<and> hs_token_exp s = Some e
          \<and> fetched_together u L C (hs_clock_skew s) w r t e)"

lemma fetch_and_verify_None:
  "fetch_and_verify u L C w s = (None, s') \<longleftrightarrow>
     (\<exists>receipt token e. fetched_together u L C (hs_clock_skew s) w receipt token e
        \<and> s' = s\<lparr>hs_receipt := Some receipt, hs_token := Some token, hs_token_exp := Some e, hs_last_error := None\<rparr>)"
  by (auto simp: fetch_and_verify_def record_fetch_error_def fetched_together_def split: sum.splits)

lemma fetch_and_verify_Some:
  "fetch_and_verify u L C w s = (Some e, s') \<Longrightarrow> s' = s\<lparr>hs_last_error := Some e\<rparr>"
  by (auto simp: fetch_and_verify_def record_fetch_error_def split: sum.splits)

lemma supplier_ok_error [simp]: "supplier_ok u L C (s\<lparr>hs_last_error := x\<rparr>) \<longleftrightarrow> supplier_ok u L C s"
  by (simp add: supplier_ok_def)

lemma fetched_ok: "supplier_ok u L C s \<Longrightarrow> supplier_ok u L C (snd (fetch_and_verify u L C w s))"
proof (cases "fetch_and_verify u L C w s")
  case (Pair r s')
  assume ok: "supplier_ok u L C s"
  show ?thesis
  proof (cases r)
    case None
    then have "supplier_ok u L C s'" using Pair by (auto simp: fetch_and_verify_None supplier_ok_def)
    then show ?thesis using Pair by simp
  next
    case (Some e)
    then show ?thesis using Pair ok by (auto dest!: fetch_and_verify_Some)
  qed
qed

lemma fetched_initialized:
  "fetch_and_verify u L C w s = (None, s') \<Longrightarrow> supplier_ok u L C (s'\<lparr>hs_initialized := True\<rparr>)"
  "fetch_and_verify u L C w s = (None, s') \<Longrightarrow> supplier_ok u L C (s'\<lparr>hs_initialized := True, hs_last_error := x\<rparr>)"
  by (auto simp: fetch_and_verify_None supplier_ok_def)

lemma init_once_ok: "supplier_ok u L C s \<Longrightarrow> supplier_ok u L C (init_once u L C w s)"
  using fetched_ok [of u L C s w] fetched_initialized [of u L C w s]
  by (auto simp: init_once_def supplier_ok_error split: prod.splits option.splits)

lemma auto_refresh_ok: "supplier_ok u L C s \<Longrightarrow> supplier_ok u L C (auto_refresh_step u L C w s)"
  using fetched_ok [of u L C s w] fetched_initialized [of u L C w s]
  by (auto simp: auto_refresh_step_def split: prod.splits option.splits)

lemma supplier_run_ok: "supplier_run u L C s s' \<Longrightarrow> supplier_ok u L C s \<Longrightarrow> supplier_ok u L C s'"
  by (induction rule: supplier_run.induct) (auto simp: init_once_ok auto_refresh_ok refresh_now_def fetched_ok)

text \<open>Options are applied before any fetch.\<close>

definition supplier_option_ok :: "(header_supplier \<Rightarrow> header_supplier) \<Rightarrow> bool" where
  "supplier_option_ok f \<longleftrightarrow>
     (\<forall>s. hs_receipt (f s) = hs_receipt s \<and> hs_token (f s) = hs_token s \<and> hs_token_exp (f s) = hs_token_exp s
        \<and> hs_initialized (f s) = hs_initialized s)"

lemma supplier_options_ok:
  "supplier_option_ok (with_init_timeout d)" "supplier_option_ok (with_supplier_clock_skew d)"
  by (simp_all add: supplier_option_ok_def with_init_timeout_def with_supplier_clock_skew_def Let_def)

lemma new_supplier_ok: "list_all supplier_option_ok opts \<Longrightarrow> supplier_ok u L C (new_header_supplier agent opts)"
proof -
  have "list_all supplier_option_ok opts \<Longrightarrow>
      hs_receipt (foldl (\<lambda>s opt. opt s) s opts) = hs_receipt s \<and> hs_token (foldl (\<lambda>s opt. opt s) s opts) = hs_token s
      \<and> hs_token_exp (foldl (\<lambda>s opt. opt s) s opts) = hs_token_exp s
      \<and> hs_initialized (foldl (\<lambda>s opt. opt s) s opts) = hs_initialized s" for s
    by (induction opts arbitrary: s) (simp_all add: supplier_option_ok_def)
  then show "list_all supplier_option_ok opts \<Longrightarrow> ?thesis" by (simp add: supplier_ok_def new_header_supplier_def)
qed

section \<open>What leaves the supplier\<close>

lemma outgoing_token:
  assumes "supplier_ok u L C s" "oh_token (outgoing_of now s) \<noteq> []"
  shows "\<exists>r t e (w :: 'k supply_env). hs_receipt s = Some r \<and> hs_token s = Some t \<and> sint now < sint e
    \<and> fetched_together u L (C :: 'k crypto) (hs_clock_skew s) w r t e
    \<and> outgoing_of now s = \<lparr>oh_receipt = encode_if_non_empty r, oh_token = encode_if_non_empty t\<rparr>"
proof -
  have "hs_token s \<noteq> None"
    using assms(2) by (cases "hs_token s") (simp_all add: outgoing_of_def encode_if_non_empty_def Let_def)
  then obtain r t e and w :: "'k supply_env" where f: "hs_receipt s = Some r" "hs_token s = Some t" "hs_token_exp s = Some e"
    "fetched_together u L C (hs_clock_skew s) w r t e"
    using assms(1) by (auto simp: supplier_ok_def)
  moreover have "sint now < sint e"
    using assms(2) f(1-3) by (simp add: outgoing_of_def encode_if_non_empty_def Let_def split: if_splits)
  ultimately show ?thesis by (auto simp: outgoing_of_def Let_def)
qed

lemma parse_cose_small: "parse_cose_sign1 L d = Inr c \<Longrightarrow> length d \<le> max_cose_input_size"
  by (rule ccontr) (simp add: parse_cose_sign1_def)

lemma verified_small:
  "verify_status_token_at u L C keys t skew now = Inr vt \<Longrightarrow> length t \<le> max_cose_input_size"
  "verify_receipt L C keys t = Inr r \<Longrightarrow> length t \<le> max_cose_input_size"
  unfolding verify_status_token_Inr verify_receipt_Inr by (elim exE conjE, erule parse_cose_small)+

text \<open>A token that verified once verifies again, under the same keys, at any earlier or unexpired instant.\<close>

lemma token_reverifies:
  assumes "verify_status_token_at u L C keys t skew now0 = Inr vt"
    and "sint now < sint (sp_exp (vt_payload vt))" "sint (sp_exp (vt_payload vt)) + 600 < 2 ^ 63"
  shows "verify_status_token_at u L C keys t skew' now = Inr vt"
proof -
  have "\<not> token_expired now (sp_exp (vt_payload vt)) skew'"
    by (rule token_not_expired [OF assms(2,3)])
  then show ?thesis using assms(1) unfolding verify_status_token_Inr by blast
qed

end
