(* ===== verification/Rest_Models.thy ===== *)
theory Rest_Models
  imports Go_Json_Lemmas
begin

text \<open>
  The data of the registration API: \<open>models/agent.go\<close>, \<open>certificate.go\<close>, \<open>revocation.go\<close>,
  \<open>resolution.go\<close>, \<open>event.go\<close> and the error types of \<open>error.go\<close>, \<open>response_error.go\<close> and
  \<open>dns_verification_error.go\<close>. Every struct is a record with its JSON encoder (requests) or decoder
  (answers), field by field in the order of the struct tags. A \<open>time.Time\<close> is nanoseconds since the
  Unix epoch; parsing an RFC 3339 text is the parameter \<open>rfc3339\<close>.
\<close>

type_synonym time_parser = "string \<Rightarrow> int option"

text \<open>The zero \<open>time.Time\<close>: 1 January of year 1.\<close>

definition zero_time :: int where
  "zero_time = - 62135596800 * 1000000000"

definition time_is_zero :: "int \<Rightarrow> bool" where
  "time_is_zero t = (t = zero_time)"

fun dec_time :: "time_parser \<Rightarrow> int jdec" where
  "dec_time p old (JStr s) = p s"
| "dec_time p old JNull = Some old"
| "dec_time p old _ = None"

section \<open>Enumerations\<close>

definition AgentStatusPendingDNS :: string where "AgentStatusPendingDNS = ''PENDING_DNS''"
definition AgentStatusActive :: string where "AgentStatusActive = ''ACTIVE''"
definition AgentStatusDeprecated :: string where "AgentStatusDeprecated = ''DEPRECATED''"
definition AgentStatusRevoked :: string where "AgentStatusRevoked = ''REVOKED''"
definition AgentStatusAll :: string where "AgentStatusAll = ''ALL''"

definition is_valid_lifecycle_status :: "string \<Rightarrow> bool" where
  "is_valid_lifecycle_status s =
     (s \<in> {AgentStatusPendingDNS, AgentStatusActive, AgentStatusDeprecated, AgentStatusRevoked, AgentStatusAll})"

definition AgentProtocolA2A :: string where "AgentProtocolA2A = ''A2A''"
definition AgentProtocolMCP :: string where "AgentProtocolMCP = ''MCP''"
definition AgentProtocolHTTPAPI :: string where "AgentProtocolHTTPAPI = ''HTTP-API''"

definition is_valid_agent_protocol :: "string \<Rightarrow> bool" where
  "is_valid_agent_protocol p = (p \<in> {AgentProtocolA2A, AgentProtocolMCP, AgentProtocolHTTPAPI})"

definition DiscoveryProfileANSDNSAID :: string where "DiscoveryProfileANSDNSAID = ''ANS_DNSAID''"
definition DiscoveryProfileANSTXT :: string where "DiscoveryProfileANSTXT = ''ANS_TXT''"

definition is_valid_discovery_profile :: "string \<Rightarrow> bool" where
  "is_valid_discovery_profile p = (p \<in> {DiscoveryProfileANSDNSAID, DiscoveryProfileANSTXT})"

text \<open>The reason codes of RFC 5280 a revocation may carry.\<close>

definition revocation_reasons :: "string list" where
  "revocation_reasons =
     [''AA_COMPROMISE'', ''AFFILIATION_CHANGED'', ''CA_COMPROMISE'', ''CERTIFICATE_HOLD'',
      ''CESSATION_OF_OPERATION'', ''EXPIRED_CERT'', ''KEY_COMPROMISE'', ''PRIVILEGE_WITHDRAWN'',
      ''REMOVE_FROM_CRL'', ''SUPERSEDED'', ''UNSPECIFIED'']"

definition is_valid_revocation_reason :: "string \<Rightarrow> bool" where
  "is_valid_revocation_reason r = (r \<in> set revocation_reasons)"

section \<open>Endpoints and the registration request\<close>

record agent_function =
  fn_id :: string
  fn_name :: string
  fn_tags :: "string list"

definition enc_function :: "agent_function \<Rightarrow> json" where
  "enc_function f =
     JObj ([(''id'', JStr (fn_id f)), (''name'', JStr (fn_name f))]
           @ omit_if (fn_tags f = []) ''tags'' (enc_strings (fn_tags f)))"

definition dec_function :: "agent_function jdec" where
  "dec_function = dec_struct
     [into ''id'' dec_string fn_id (\<lambda>x s. s\<lparr>fn_id := x\<rparr>),
      into ''name'' dec_string fn_name (\<lambda>x s. s\<lparr>fn_name := x\<rparr>),
      into ''tags'' (dec_list [] dec_string) fn_tags (\<lambda>x s. s\<lparr>fn_tags := x\<rparr>)]"

definition zero_function :: agent_function where
  "zero_function = \<lparr>fn_id = [], fn_name = [], fn_tags = []\<rparr>"

record agent_endpoint =
  ep_agent_url :: string
  ep_meta_data_url :: string
  ep_documentation_url :: string
  ep_protocol :: string
  ep_transports :: "string list"
  ep_functions :: "agent_function list"

definition enc_endpoint :: "agent_endpoint \<Rightarrow> json" where
  "enc_endpoint e =
     JObj ([(''agentUrl'', JStr (ep_agent_url e))]
           @ omit_if (ep_meta_data_url e = []) ''metaDataUrl'' (JStr (ep_meta_data_url e))
           @ omit_if (ep_documentation_url e = []) ''documentationUrl'' (JStr (ep_documentation_url e))
           @ [(''protocol'', JStr (ep_protocol e))]
           @ omit_if (ep_transports e = []) ''transports'' (enc_strings (ep_transports e))
           @ omit_if (ep_functions e = []) ''functions'' (JArr (map enc_function (ep_functions e))))"

definition zero_endpoint :: agent_endpoint where
  "zero_endpoint = \<lparr>ep_agent_url = [], ep_meta_data_url = [], ep_documentation_url = [], ep_protocol = [],
     ep_transports = [], ep_functions = []\<rparr>"

definition dec_endpoint :: "agent_endpoint jdec" where
  "dec_endpoint = dec_struct
     [into ''agentUrl'' dec_string ep_agent_url (\<lambda>x s. s\<lparr>ep_agent_url := x\<rparr>),
      into ''metaDataUrl'' dec_string ep_meta_data_url (\<lambda>x s. s\<lparr>ep_meta_data_url := x\<rparr>),
      into ''documentationUrl'' dec_string ep_documentation_url (\<lambda>x s. s\<lparr>ep_documentation_url := x\<rparr>),
      into ''protocol'' dec_string ep_protocol (\<lambda>x s. s\<lparr>ep_protocol := x\<rparr>),
      into ''transports'' (dec_list [] dec_string) ep_transports (\<lambda>x s. s\<lparr>ep_transports := x\<rparr>),
      into ''functions'' (dec_list zero_function dec_function) ep_functions (\<lambda>x s. s\<lparr>ep_functions := x\<rparr>)]"

text \<open>
  \<open>Endpoints\<close> has no \<open>omitempty\<close>: a nil slice is written as \<open>null\<close> (\<open>None\<close>), an empty one as \<open>[]\<close>.
\<close>

record registration_request =
  rr_display_name :: string
  rr_host :: string
  rr_description :: string
  rr_identity_csr :: string
  rr_server_cert :: string
  rr_server_chain :: string
  rr_server_csr :: string
  rr_version :: string
  rr_endpoints :: "agent_endpoint list option"
  rr_profiles :: "string list"

definition enc_registration :: "registration_request \<Rightarrow> json" where
  "enc_registration r =
     JObj ([(''agentDisplayName'', JStr (rr_display_name r)), (''agentHost'', JStr (rr_host r))]
           @ omit_if (rr_description r = []) ''agentDescription'' (JStr (rr_description r))
           @ [(''identityCsrPEM'', JStr (rr_identity_csr r))]
           @ omit_if (rr_server_cert r = []) ''serverCertificatePEM'' (JStr (rr_server_cert r))
           @ omit_if (rr_server_chain r = []) ''serverCertificateChainPEM'' (JStr (rr_server_chain r))
           @ omit_if (rr_server_csr r = []) ''serverCsrPEM'' (JStr (rr_server_csr r))
           @ [(''version'', JStr (rr_version r)),
              (''endpoints'', case rr_endpoints r of None \<Rightarrow> JNull | Some es \<Rightarrow> JArr (map enc_endpoint es))]
           @ omit_if (rr_profiles r = []) ''discoveryProfiles'' (enc_strings (rr_profiles r)))"

definition zero_registration :: registration_request where
  "zero_registration = \<lparr>rr_display_name = [], rr_host = [], rr_description = [], rr_identity_csr = [],
     rr_server_cert = [], rr_server_chain = [], rr_server_csr = [], rr_version = [], rr_endpoints = None,
     rr_profiles = []\<rparr>"

definition dec_registration :: "registration_request jdec" where
  "dec_registration = dec_struct
     [into ''agentDisplayName'' dec_string rr_display_name (\<lambda>x s. s\<lparr>rr_display_name := x\<rparr>),
      into ''agentHost'' dec_string rr_host (\<lambda>x s. s\<lparr>rr_host := x\<rparr>),
      into ''agentDescription'' dec_string rr_description (\<lambda>x s. s\<lparr>rr_description := x\<rparr>),
      into ''identityCsrPEM'' dec_string rr_identity_csr (\<lambda>x s. s\<lparr>rr_identity_csr := x\<rparr>),
      into ''serverCertificatePEM'' dec_string rr_server_cert (\<lambda>x s. s\<lparr>rr_server_cert := x\<rparr>),
      into ''serverCertificateChainPEM'' dec_string rr_server_chain (\<lambda>x s. s\<lparr>rr_server_chain := x\<rparr>),
      into ''serverCsrPEM'' dec_string rr_server_csr (\<lambda>x s. s\<lparr>rr_server_csr := x\<rparr>),
      into ''version'' dec_string rr_version (\<lambda>x s. s\<lparr>rr_version := x\<rparr>),
      into ''endpoints'' (dec_opt [] (dec_list zero_endpoint dec_endpoint)) rr_endpoints (\<lambda>x s. s\<lparr>rr_endpoints := x\<rparr>),
      into ''discoveryProfiles'' (dec_list [] dec_string) rr_profiles (\<lambda>x s. s\<lparr>rr_profiles := x\<rparr>)]"

section \<open>Answers to a registration\<close>

record rest_link =
  lk_href :: string
  lk_rel :: string

definition dec_link :: "rest_link jdec" where
  "dec_link = dec_struct
     [into ''href'' dec_string lk_href (\<lambda>x s. s\<lparr>lk_href := x\<rparr>),
      into ''rel'' dec_string lk_rel (\<lambda>x s. s\<lparr>lk_rel := x\<rparr>)]"

definition zero_link :: rest_link where
  "zero_link = \<lparr>lk_href = [], lk_rel = []\<rparr>"

record next_step =
  ns_action :: string
  ns_description :: string
  ns_endpoint :: string

definition dec_next_step :: "next_step jdec" where
  "dec_next_step = dec_struct
     [into ''action'' dec_string ns_action (\<lambda>x s. s\<lparr>ns_action := x\<rparr>),
      into ''description'' dec_string ns_description (\<lambda>x s. s\<lparr>ns_description := x\<rparr>),
      into ''endpoint'' dec_string ns_endpoint (\<lambda>x s. s\<lparr>ns_endpoint := x\<rparr>)]"

definition zero_next_step :: next_step where
  "zero_next_step = \<lparr>ns_action = [], ns_description = [], ns_endpoint = []\<rparr>"

record rest_dns_record =
  rd_name :: string
  rd_type :: string
  rd_value :: string
  rd_purpose :: string
  rd_ttl :: int
  rd_priority :: int
  rd_required :: bool

definition dec_dns_record :: "rest_dns_record jdec" where
  "dec_dns_record = dec_struct
     [into ''name'' dec_string rd_name (\<lambda>x s. s\<lparr>rd_name := x\<rparr>),
      into ''type'' dec_string rd_type (\<lambda>x s. s\<lparr>rd_type := x\<rparr>),
      into ''value'' dec_string rd_value (\<lambda>x s. s\<lparr>rd_value := x\<rparr>),
      into ''purpose'' dec_string rd_purpose (\<lambda>x s. s\<lparr>rd_purpose := x\<rparr>),
      into ''ttl'' dec_int rd_ttl (\<lambda>x s. s\<lparr>rd_ttl := x\<rparr>),
      into ''priority'' dec_int rd_priority (\<lambda>x s. s\<lparr>rd_priority := x\<rparr>),
      into ''required'' dec_bool rd_required (\<lambda>x s. s\<lparr>rd_required := x\<rparr>)]"

definition zero_dns_record :: rest_dns_record where
  "zero_dns_record = \<lparr>rd_name = [], rd_type = [], rd_value = [], rd_purpose = [], rd_ttl = 0, rd_priority = 0,
     rd_required = False\<rparr>"

record dns_record_details =
  dd_name :: string
  dd_type :: string
  dd_value :: string

definition dec_dns_details :: "dns_record_details jdec" where
  "dec_dns_details = dec_struct
     [into ''name'' dec_string dd_name (\<lambda>x s. s\<lparr>dd_name := x\<rparr>),
      into ''type'' dec_string dd_type (\<lambda>x s. s\<lparr>dd_type := x\<rparr>),
      into ''value'' dec_string dd_value (\<lambda>x s. s\<lparr>dd_value := x\<rparr>)]"

record challenge_info =
  ch_type :: string
  ch_token :: string
  ch_key_authorization :: string
  ch_http_path :: string
  ch_dns_record :: "dns_record_details option"
  ch_expires_at :: int

definition zero_challenge :: challenge_info where
  "zero_challenge = \<lparr>ch_type = [], ch_token = [], ch_key_authorization = [], ch_http_path = [], ch_dns_record = None,
     ch_expires_at = zero_time\<rparr>"

definition dec_challenge :: "time_parser \<Rightarrow> challenge_info jdec" where
  "dec_challenge p = dec_struct
     [into ''type'' dec_string ch_type (\<lambda>x s. s\<lparr>ch_type := x\<rparr>),
      into ''token'' dec_string ch_token (\<lambda>x s. s\<lparr>ch_token := x\<rparr>),
      into ''keyAuthorization'' dec_string ch_key_authorization (\<lambda>x s. s\<lparr>ch_key_authorization := x\<rparr>),
      into ''httpPath'' dec_string ch_http_path (\<lambda>x s. s\<lparr>ch_http_path := x\<rparr>),
      into ''dnsRecord'' (dec_opt \<lparr>dd_name = [], dd_type = [], dd_value = []\<rparr> dec_dns_details) ch_dns_record
        (\<lambda>x s. s\<lparr>ch_dns_record := x\<rparr>),
      into ''expiresAt'' (dec_time p) ch_expires_at (\<lambda>x s. s\<lparr>ch_expires_at := x\<rparr>)]"

record registration_pending =
  rg_status :: string
  rg_ans_name :: string
  rg_agent_id :: string
  rg_challenges :: "challenge_info list"
  rg_dns_records :: "rest_dns_record list"
  rg_expires_at :: int
  rg_links :: "rest_link list"
  rg_next_steps :: "next_step list"

definition zero_pending :: registration_pending where
  "zero_pending = \<lparr>rg_status = [], rg_ans_name = [], rg_agent_id = [], rg_challenges = [], rg_dns_records = [],
     rg_expires_at = zero_time, rg_links = [], rg_next_steps = []\<rparr>"

definition dec_pending :: "time_parser \<Rightarrow> registration_pending jdec" where
  "dec_pending p = dec_struct
     [into ''status'' dec_string rg_status (\<lambda>x s. s\<lparr>rg_status := x\<rparr>),
      into ''ansName'' dec_string rg_ans_name (\<lambda>x s. s\<lparr>rg_ans_name := x\<rparr>),
      into ''agentId'' dec_string rg_agent_id (\<lambda>x s. s\<lparr>rg_agent_id := x\<rparr>),
      into ''challenges'' (dec_list zero_challenge (dec_challenge p)) rg_challenges (\<lambda>x s. s\<lparr>rg_challenges := x\<rparr>),
      into ''dnsRecords'' (dec_list zero_dns_record dec_dns_record) rg_dns_records (\<lambda>x s. s\<lparr>rg_dns_records := x\<rparr>),
      into ''expiresAt'' (dec_time p) rg_expires_at (\<lambda>x s. s\<lparr>rg_expires_at := x\<rparr>),
      into ''links'' (dec_list zero_link dec_link) rg_links (\<lambda>x s. s\<lparr>rg_links := x\<rparr>),
      into ''nextSteps'' (dec_list zero_next_step dec_next_step) rg_next_steps (\<lambda>x s. s\<lparr>rg_next_steps := x\<rparr>)]"

section \<open>Agent status and details\<close>

record agent_status_info =
  as_status :: string
  as_phase :: string
  as_created_at :: int
  as_updated_at :: int
  as_expires_at :: int
  as_pending_steps :: "string list"
  as_completed_steps :: "string list"

definition zero_status_info :: agent_status_info where
  "zero_status_info = \<lparr>as_status = [], as_phase = [], as_created_at = zero_time, as_updated_at = zero_time,
     as_expires_at = zero_time, as_pending_steps = [], as_completed_steps = []\<rparr>"

text \<open>
  \<open>AgentStatus.UnmarshalJSON\<close> first tries a plain string (which \<open>null\<close> satisfies), then the object.
\<close>

definition dec_status_object :: "time_parser \<Rightarrow> agent_status_info jdec" where
  "dec_status_object p = dec_struct
     [into ''status'' dec_string as_status (\<lambda>x s. s\<lparr>as_status := x\<rparr>),
      into ''phase'' dec_string as_phase (\<lambda>x s. s\<lparr>as_phase := x\<rparr>),
      into ''createdAt'' (dec_time p) as_created_at (\<lambda>x s. s\<lparr>as_created_at := x\<rparr>),
      into ''updatedAt'' (dec_time p) as_updated_at (\<lambda>x s. s\<lparr>as_updated_at := x\<rparr>),
      into ''expiresAt'' (dec_time p) as_expires_at (\<lambda>x s. s\<lparr>as_expires_at := x\<rparr>),
      into ''pendingSteps'' (dec_list [] dec_string) as_pending_steps (\<lambda>x s. s\<lparr>as_pending_steps := x\<rparr>),
      into ''completedSteps'' (dec_list [] dec_string) as_completed_steps (\<lambda>x s. s\<lparr>as_completed_steps := x\<rparr>)]"

definition dec_status_info :: "time_parser \<Rightarrow> agent_status_info jdec" where
  "dec_status_info p old v =
     (case dec_string [] v of
        Some st \<Rightarrow> Some (old\<lparr>as_status := st\<rparr>)
      | None \<Rightarrow> dec_status_object p old v)"

record agent_details =
  ad_agent_id :: string
  ad_display_name :: string
  ad_host :: string
  ad_description :: string
  ad_ans_name :: string
  ad_version :: string
  ad_status :: "agent_status_info option"
  ad_endpoints :: "agent_endpoint list"
  ad_dns_records :: "rest_dns_record list"
  ad_registered_at :: int
  ad_renewed_at :: int
  ad_pending :: "registration_pending option"
  ad_links :: "rest_link list"

definition zero_details :: agent_details where
  "zero_details = \<lparr>ad_agent_id = [], ad_display_name = [], ad_host = [], ad_description = [], ad_ans_name = [],
     ad_version = [], ad_status = None, ad_endpoints = [], ad_dns_records = [], ad_registered_at = zero_time,
     ad_renewed_at = zero_time, ad_pending = None, ad_links = []\<rparr>"

definition dec_details :: "time_parser \<Rightarrow> agent_details jdec" where
  "dec_details p = dec_struct
     [into ''agentId'' dec_string ad_agent_id (\<lambda>x s. s\<lparr>ad_agent_id := x\<rparr>),
      into ''agentDisplayName'' dec_string ad_display_name (\<lambda>x s. s\<lparr>ad_display_name := x\<rparr>),
      into ''agentHost'' dec_string ad_host (\<lambda>x s. s\<lparr>ad_host := x\<rparr>),
      into ''agentDescription'' dec_string ad_description (\<lambda>x s. s\<lparr>ad_description := x\<rparr>),
      into ''ansName'' dec_string ad_ans_name (\<lambda>x s. s\<lparr>ad_ans_name := x\<rparr>),
      into ''version'' dec_string ad_version (\<lambda>x s. s\<lparr>ad_version := x\<rparr>),
      into ''agentStatus'' (dec_opt zero_status_info (dec_status_info p)) ad_status (\<lambda>x s. s\<lparr>ad_status := x\<rparr>),
      into ''endpoints'' (dec_list zero_endpoint dec_endpoint) ad_endpoints (\<lambda>x s. s\<lparr>ad_endpoints := x\<rparr>),
      into ''dnsRecords'' (dec_list zero_dns_record dec_dns_record) ad_dns_records (\<lambda>x s. s\<lparr>ad_dns_records := x\<rparr>),
      into ''registrationTimestamp'' (dec_time p) ad_registered_at (\<lambda>x s. s\<lparr>ad_registered_at := x\<rparr>),
      into ''lastRenewalTimestamp'' (dec_time p) ad_renewed_at (\<lambda>x s. s\<lparr>ad_renewed_at := x\<rparr>),
      into ''registrationPending'' (dec_opt zero_pending (dec_pending p)) ad_pending (\<lambda>x s. s\<lparr>ad_pending := x\<rparr>),
      into ''links'' (dec_list zero_link dec_link) ad_links (\<lambda>x s. s\<lparr>ad_links := x\<rparr>)]"

record challenge_details =
  cd_status :: string
  cd_challenges :: "challenge_info list"
  cd_created_at :: int
  cd_expires_at :: int

definition zero_challenge_details :: challenge_details where
  "zero_challenge_details = \<lparr>cd_status = [], cd_challenges = [], cd_created_at = zero_time, cd_expires_at =
     zero_time\<rparr>"

definition dec_challenge_details :: "time_parser \<Rightarrow> challenge_details jdec" where
  "dec_challenge_details p = dec_struct
     [into ''status'' dec_string cd_status (\<lambda>x s. s\<lparr>cd_status := x\<rparr>),
      into ''challenges'' (dec_list zero_challenge (dec_challenge p)) cd_challenges (\<lambda>x s. s\<lparr>cd_challenges := x\<rparr>),
      into ''createdAt'' (dec_time p) cd_created_at (\<lambda>x s. s\<lparr>cd_created_at := x\<rparr>),
      into ''expiresAt'' (dec_time p) cd_expires_at (\<lambda>x s. s\<lparr>cd_expires_at := x\<rparr>)]"

section \<open>Search, events and resolution\<close>

record search_result =
  sr_display_name :: string
  sr_host :: string
  sr_description :: string
  sr_ans_name :: string
  sr_version :: string
  sr_endpoints :: "agent_endpoint list"
  sr_registered_at :: int
  sr_ttl :: int
  sr_links :: "rest_link list"

definition zero_search_result :: search_result where
  "zero_search_result = \<lparr>sr_display_name = [], sr_host = [], sr_description = [], sr_ans_name = [], sr_version =
     [], sr_endpoints = [], sr_registered_at = zero_time, sr_ttl = 0, sr_links = []\<rparr>"

definition dec_search_result :: "time_parser \<Rightarrow> search_result jdec" where
  "dec_search_result p = dec_struct
     [into ''agentDisplayName'' dec_string sr_display_name (\<lambda>x s. s\<lparr>sr_display_name := x\<rparr>),
      into ''agentHost'' dec_string sr_host (\<lambda>x s. s\<lparr>sr_host := x\<rparr>),
      into ''agentDescription'' dec_string sr_description (\<lambda>x s. s\<lparr>sr_description := x\<rparr>),
      into ''ansName'' dec_string sr_ans_name (\<lambda>x s. s\<lparr>sr_ans_name := x\<rparr>),
      into ''version'' dec_string sr_version (\<lambda>x s. s\<lparr>sr_version := x\<rparr>),
      into ''endpoints'' (dec_list zero_endpoint dec_endpoint) sr_endpoints (\<lambda>x s. s\<lparr>sr_endpoints := x\<rparr>),
      into ''registrationTimestamp'' (dec_time p) sr_registered_at (\<lambda>x s. s\<lparr>sr_registered_at := x\<rparr>),
      into ''ttl'' dec_int sr_ttl (\<lambda>x s. s\<lparr>sr_ttl := x\<rparr>),
      into ''links'' (dec_list zero_link dec_link) sr_links (\<lambda>x s. s\<lparr>sr_links := x\<rparr>)]"

record search_criteria =
  sx_display_name :: string
  sx_host :: string
  sx_version :: string

definition zero_criteria :: search_criteria where
  "zero_criteria = \<lparr>sx_display_name = [], sx_host = [], sx_version = []\<rparr>"

definition dec_criteria :: "search_criteria jdec" where
  "dec_criteria = dec_struct
     [into ''agentDisplayName'' dec_string sx_display_name (\<lambda>x s. s\<lparr>sx_display_name := x\<rparr>),
      into ''agentHost'' dec_string sx_host (\<lambda>x s. s\<lparr>sx_host := x\<rparr>),
      into ''version'' dec_string sx_version (\<lambda>x s. s\<lparr>sx_version := x\<rparr>)]"

record search_response =
  sq_agents :: "search_result list"
  sq_total :: int
  sq_returned :: int
  sq_limit :: int
  sq_offset :: int
  sq_has_more :: bool
  sq_criteria :: "search_criteria option"

definition zero_search_response :: search_response where
  "zero_search_response = \<lparr>sq_agents = [], sq_total = 0, sq_returned = 0, sq_limit = 0, sq_offset = 0,
     sq_has_more = False, sq_criteria = None\<rparr>"

definition dec_search_response :: "time_parser \<Rightarrow> search_response jdec" where
  "dec_search_response p = dec_struct
     [into ''agents'' (dec_list zero_search_result (dec_search_result p)) sq_agents (\<lambda>x s. s\<lparr>sq_agents := x\<rparr>),
      into ''totalCount'' dec_int sq_total (\<lambda>x s. s\<lparr>sq_total := x\<rparr>),
      into ''returnedCount'' dec_int sq_returned (\<lambda>x s. s\<lparr>sq_returned := x\<rparr>),
      into ''limit'' dec_int sq_limit (\<lambda>x s. s\<lparr>sq_limit := x\<rparr>),
      into ''offset'' dec_int sq_offset (\<lambda>x s. s\<lparr>sq_offset := x\<rparr>),
      into ''hasMore'' dec_bool sq_has_more (\<lambda>x s. s\<lparr>sq_has_more := x\<rparr>),
      into ''searchCriteria'' (dec_opt zero_criteria dec_criteria) sq_criteria (\<lambda>x s. s\<lparr>sq_criteria := x\<rparr>)]"

record event_item =
  ei_log_id :: string
  ei_event_type :: string
  ei_created_at :: int
  ei_expires_at :: "int option"
  ei_agent_id :: string
  ei_ans_name :: string
  ei_host :: string
  ei_display_name :: "string option"
  ei_description :: "string option"
  ei_version :: string
  ei_provider_id :: "string option"
  ei_endpoints :: "agent_endpoint list"

definition zero_event_item :: event_item where
  "zero_event_item = \<lparr>ei_log_id = [], ei_event_type = [], ei_created_at = zero_time, ei_expires_at = None,
     ei_agent_id = [], ei_ans_name = [], ei_host = [], ei_display_name = None, ei_description = None, ei_version = [],
     ei_provider_id = None, ei_endpoints = []\<rparr>"

definition dec_event_item :: "time_parser \<Rightarrow> event_item jdec" where
  "dec_event_item p = dec_struct
     [into ''logId'' dec_string ei_log_id (\<lambda>x s. s\<lparr>ei_log_id := x\<rparr>),
      into ''eventType'' dec_string ei_event_type (\<lambda>x s. s\<lparr>ei_event_type := x\<rparr>),
      into ''createdAt'' (dec_time p) ei_created_at (\<lambda>x s. s\<lparr>ei_created_at := x\<rparr>),
      into ''expiresAt'' (dec_opt zero_time (dec_time p)) ei_expires_at (\<lambda>x s. s\<lparr>ei_expires_at := x\<rparr>),
      into ''agentId'' dec_string ei_agent_id (\<lambda>x s. s\<lparr>ei_agent_id := x\<rparr>),
      into ''ansName'' dec_string ei_ans_name (\<lambda>x s. s\<lparr>ei_ans_name := x\<rparr>),
      into ''agentHost'' dec_string ei_host (\<lambda>x s. s\<lparr>ei_host := x\<rparr>),
      into ''agentDisplayName'' (dec_opt [] dec_string) ei_display_name (\<lambda>x s. s\<lparr>ei_display_name := x\<rparr>),
      into ''agentDescription'' (dec_opt [] dec_string) ei_description (\<lambda>x s. s\<lparr>ei_description := x\<rparr>),
      into ''version'' dec_string ei_version (\<lambda>x s. s\<lparr>ei_version := x\<rparr>),
      into ''providerId'' (dec_opt [] dec_string) ei_provider_id (\<lambda>x s. s\<lparr>ei_provider_id := x\<rparr>),
      into ''endpoints'' (dec_list zero_endpoint dec_endpoint) ei_endpoints (\<lambda>x s. s\<lparr>ei_endpoints := x\<rparr>)]"

record event_page =
  ev_items :: "event_item list"
  ev_last_log_id :: "string option"

definition zero_event_page :: event_page where
  "zero_event_page = \<lparr>ev_items = [], ev_last_log_id = None\<rparr>"

definition dec_event_page :: "time_parser \<Rightarrow> event_page jdec" where
  "dec_event_page p = dec_struct
     [into ''items'' (dec_list zero_event_item (dec_event_item p)) ev_items (\<lambda>x s. s\<lparr>ev_items := x\<rparr>),
      into ''lastLogId'' (dec_opt [] dec_string) ev_last_log_id (\<lambda>x s. s\<lparr>ev_last_log_id := x\<rparr>)]"

record capability_request =
  cq_host :: string
  cq_version :: string

definition enc_capability :: "capability_request \<Rightarrow> json" where
  "enc_capability r = JObj [(''agentHost'', JStr (cq_host r)), (''version'', JStr (cq_version r))]"

record capability_response =
  ca_ans_name :: string
  ca_links :: "rest_link list"

definition zero_capability :: capability_response where
  "zero_capability = \<lparr>ca_ans_name = [], ca_links = []\<rparr>"

definition dec_capability :: "capability_response jdec" where
  "dec_capability = dec_struct
     [into ''ansName'' dec_string ca_ans_name (\<lambda>x s. s\<lparr>ca_ans_name := x\<rparr>),
      into ''links'' (dec_list zero_link dec_link) ca_links (\<lambda>x s. s\<lparr>ca_links := x\<rparr>)]"

section \<open>Certificates and revocation\<close>

record certificate_response =
  ce_pem :: string
  ce_issuer :: "string option"
  ce_subject :: "string option"
  ce_serial :: "string option"
  ce_key_algorithm :: "string option"
  ce_signature_algorithm :: "string option"
  ce_valid_from :: int
  ce_valid_to :: int
  ce_csr_id :: string

definition zero_certificate :: certificate_response where
  "zero_certificate = \<lparr>ce_pem = [], ce_issuer = None, ce_subject = None, ce_serial = None, ce_key_algorithm =
     None, ce_signature_algorithm = None, ce_valid_from = zero_time, ce_valid_to = zero_time, ce_csr_id = []\<rparr>"

definition dec_certificate :: "time_parser \<Rightarrow> certificate_response jdec" where
  "dec_certificate p = dec_struct
     [into ''certificatePEM'' dec_string ce_pem (\<lambda>x s. s\<lparr>ce_pem := x\<rparr>),
      into ''certificateIssuer'' (dec_opt [] dec_string) ce_issuer (\<lambda>x s. s\<lparr>ce_issuer := x\<rparr>),
      into ''certificateSubject'' (dec_opt [] dec_string) ce_subject (\<lambda>x s. s\<lparr>ce_subject := x\<rparr>),
      into ''certificateSerialNumber'' (dec_opt [] dec_string) ce_serial (\<lambda>x s. s\<lparr>ce_serial := x\<rparr>),
      into ''certificatePublicKeyAlgorithm'' (dec_opt [] dec_string) ce_key_algorithm (\<lambda>x s. s\<lparr>ce_key_algorithm := x\<rparr>),
      into ''certificateSignatureAlgorithm'' (dec_opt [] dec_string) ce_signature_algorithm (\<lambda>x s. s\<lparr>ce_signature_algorithm := x\<rparr>),
      into ''certificateValidFrom'' (dec_time p) ce_valid_from (\<lambda>x s. s\<lparr>ce_valid_from := x\<rparr>),
      into ''certificateValidTo'' (dec_time p) ce_valid_to (\<lambda>x s. s\<lparr>ce_valid_to := x\<rparr>),
      into ''csrId'' dec_string ce_csr_id (\<lambda>x s. s\<lparr>ce_csr_id := x\<rparr>)]"

definition enc_csr_submission :: "string \<Rightarrow> json" where
  "enc_csr_submission pem = JObj [(''csrPEM'', JStr pem)]"

record csr_submission_response =
  cs_csr_id :: string
  cs_message :: "string option"

definition zero_csr_submission :: csr_submission_response where
  "zero_csr_submission = \<lparr>cs_csr_id = [], cs_message = None\<rparr>"

definition dec_csr_submission :: "csr_submission_response jdec" where
  "dec_csr_submission = dec_struct
     [into ''csrId'' dec_string cs_csr_id (\<lambda>x s. s\<lparr>cs_csr_id := x\<rparr>),
      into ''message'' (dec_opt [] dec_string) cs_message (\<lambda>x s. s\<lparr>cs_message := x\<rparr>)]"

record csr_status_response =
  ct_csr_id :: string
  ct_type :: string
  ct_status :: string
  ct_submitted_at :: int
  ct_updated_at :: int
  ct_failure_reason :: "string option"

definition zero_csr_status :: csr_status_response where
  "zero_csr_status = \<lparr>ct_csr_id = [], ct_type = [], ct_status = [], ct_submitted_at = zero_time, ct_updated_at =
     zero_time, ct_failure_reason = None\<rparr>"

definition dec_csr_status :: "time_parser \<Rightarrow> csr_status_response jdec" where
  "dec_csr_status p = dec_struct
     [into ''csrId'' dec_string ct_csr_id (\<lambda>x s. s\<lparr>ct_csr_id := x\<rparr>),
      into ''type'' dec_string ct_type (\<lambda>x s. s\<lparr>ct_type := x\<rparr>),
      into ''status'' dec_string ct_status (\<lambda>x s. s\<lparr>ct_status := x\<rparr>),
      into ''submittedAt'' (dec_time p) ct_submitted_at (\<lambda>x s. s\<lparr>ct_submitted_at := x\<rparr>),
      into ''updatedAt'' (dec_time p) ct_updated_at (\<lambda>x s. s\<lparr>ct_updated_at := x\<rparr>),
      into ''failureReason'' (dec_opt [] dec_string) ct_failure_reason (\<lambda>x s. s\<lparr>ct_failure_reason := x\<rparr>)]"

record revocation_request =
  rv_reason :: string
  rv_comments :: string

definition enc_revocation :: "revocation_request \<Rightarrow> json" where
  "enc_revocation r =
     JObj ([(''reason'', JStr (rv_reason r))] @ omit_if (rv_comments r = []) ''comments'' (JStr (rv_comments r)))"

record revocation_response =
  rw_agent_id :: string
  rw_ans_name :: string
  rw_status :: string
  rw_revoked_at :: int
  rw_reason :: string

definition zero_revocation :: revocation_response where
  "zero_revocation = \<lparr>rw_agent_id = [], rw_ans_name = [], rw_status = [], rw_revoked_at = zero_time, rw_reason =
     []\<rparr>"

definition dec_revocation :: "time_parser \<Rightarrow> revocation_response jdec" where
  "dec_revocation p = dec_struct
     [into ''agentId'' dec_string rw_agent_id (\<lambda>x s. s\<lparr>rw_agent_id := x\<rparr>),
      into ''ansName'' dec_string rw_ans_name (\<lambda>x s. s\<lparr>rw_ans_name := x\<rparr>),
      into ''status'' dec_string rw_status (\<lambda>x s. s\<lparr>rw_status := x\<rparr>),
      into ''revokedAt'' (dec_time p) rw_revoked_at (\<lambda>x s. s\<lparr>rw_revoked_at := x\<rparr>),
      into ''reason'' dec_string rw_reason (\<lambda>x s. s\<lparr>rw_reason := x\<rparr>)]"

section \<open>Errors\<close>

record api_error_body =
  ae_status :: string
  ae_code :: string
  ae_message :: string
  ae_details :: "(string \<times> json) list option"

definition zero_api_error :: api_error_body where
  "zero_api_error = \<lparr>ae_status = [], ae_code = [], ae_message = [], ae_details = None\<rparr>"

definition dec_api_error :: "api_error_body jdec" where
  "dec_api_error = dec_struct
     [into ''status'' dec_string ae_status (\<lambda>x s. s\<lparr>ae_status := x\<rparr>),
      into ''code'' dec_string ae_code (\<lambda>x s. s\<lparr>ae_code := x\<rparr>),
      into ''message'' dec_string ae_message (\<lambda>x s. s\<lparr>ae_message := x\<rparr>),
      into ''details'' dec_any_map ae_details (\<lambda>x s. s\<lparr>ae_details := x\<rparr>)]"

text \<open>\<open>re_raw_body\<close> is the answer as received.\<close>

record response_error =
  re_status_code :: nat
  re_code :: string
  re_message :: string
  re_details :: "(string \<times> json) list option"
  re_raw_body :: bytes

definition new_response_error :: "nat \<Rightarrow> api_error_body option \<Rightarrow> response_error" where
  "new_response_error code body =
     (let re = \<lparr>re_status_code = code, re_code = [], re_message = [], re_details = None, re_raw_body = []\<rparr> in
      case body of
        None \<Rightarrow> re
      | Some a \<Rightarrow> re\<lparr>re_code := ae_code a, re_message := ae_message a, re_details := ae_details a\<rparr>)"

text \<open>\<open>http.StatusText\<close> is the parameter \<open>status_text\<close>, empty for an unknown code.\<close>

definition response_error_text :: "(nat \<Rightarrow> string) \<Rightarrow> response_error \<Rightarrow> string" where
  "response_error_text status_text e =
     (let prefix = (if status_text (re_status_code e) = [] then ''HTTP '' @ show_nat (re_status_code e)
                    else status_text (re_status_code e))
      in if re_message e \<noteq> [] then prefix @ '': '' @ re_message e else prefix)"

record incorrect_dns_record =
  ic_record :: rest_dns_record
  ic_expected :: string
  ic_found :: string

definition zero_incorrect_record :: incorrect_dns_record where
  "zero_incorrect_record = \<lparr>ic_record = zero_dns_record, ic_expected = [], ic_found = []\<rparr>"

definition dec_incorrect_record :: "incorrect_dns_record jdec" where
  "dec_incorrect_record = dec_struct
     [into ''record'' dec_dns_record ic_record (\<lambda>x s. s\<lparr>ic_record := x\<rparr>),
      into ''expected'' dec_string ic_expected (\<lambda>x s. s\<lparr>ic_expected := x\<rparr>),
      into ''found'' dec_string ic_found (\<lambda>x s. s\<lparr>ic_found := x\<rparr>)]"

record dns_verification_error =
  dv_response :: "response_error option"
  dv_missing :: "rest_dns_record list"
  dv_incorrect :: "incorrect_dns_record list"

definition zero_dns_error :: dns_verification_error where
  "zero_dns_error = \<lparr>dv_response = None, dv_missing = [], dv_incorrect = []\<rparr>"

definition dec_dns_error :: "dns_verification_error jdec" where
  "dec_dns_error = dec_struct
     [into ''missingRecords'' (dec_list zero_dns_record dec_dns_record) dv_missing (\<lambda>x s. s\<lparr>dv_missing := x\<rparr>),
      into ''incorrectRecords'' (dec_list zero_incorrect_record dec_incorrect_record) dv_incorrect
        (\<lambda>x s. s\<lparr>dv_incorrect := x\<rparr>)]"

text \<open>A count is qualified only when the category mixes required and optional records.\<close>

definition record_count :: "string \<Rightarrow> nat \<Rightarrow> nat \<Rightarrow> string" where
  "record_count category n required =
     show_nat n @ '' '' @ category @ '' record(s)''
     @ (if required > 0 \<and> required < n then '' ('' @ show_nat required @ '' required)'' else [])"

definition dns_error_text :: "dns_verification_error \<Rightarrow> string" where
  "dns_error_text e =
     (let missing = (if length (dv_missing e) > 0
                     then [record_count ''missing'' (length (dv_missing e)) (length (filter rd_required (dv_missing e)))]
                     else []);
          incorrect = (if length (dv_incorrect e) > 0
                       then [record_count ''incorrect'' (length (dv_incorrect e))
                               (length (filter (\<lambda>r. rd_required (ic_record r)) (dv_incorrect e)))]
                       else []);
          prefix = ''DNS verification failed''
      in if missing @ incorrect = [] then prefix else prefix @ '': '' @ join_with '', '' (missing @ incorrect))"

definition dns_error_unwrap :: "dns_verification_error \<Rightarrow> response_error option" where
  "dns_error_unwrap e = dv_response e"

section \<open>Requests round trip\<close>

lemma registration_names:
  "fold_name ''id'' = ''id''" "fold_name ''name'' = ''name''" "fold_name ''tags'' = ''tags''"
  "fold_name ''agentUrl'' = ''agenturl''" "fold_name ''metaDataUrl'' = ''metadataurl''"
  "fold_name ''documentationUrl'' = ''documentationurl''" "fold_name ''protocol'' = ''protocol''"
  "fold_name ''transports'' = ''transports''" "fold_name ''functions'' = ''functions''"
  "fold_name ''agentDisplayName'' = ''agentdisplayname''" "fold_name ''agentHost'' = ''agenthost''"
  "fold_name ''agentDescription'' = ''agentdescription''" "fold_name ''identityCsrPEM'' = ''identitycsrpem''"
  "fold_name ''serverCertificatePEM'' = ''servercertificatepem''"
  "fold_name ''serverCertificateChainPEM'' = ''servercertificatechainpem''"
  "fold_name ''serverCsrPEM'' = ''servercsrpem''" "fold_name ''version'' = ''version''"
  "fold_name ''endpoints'' = ''endpoints''" "fold_name ''discoveryProfiles'' = ''discoveryprofiles''"
  by code_simp+

lemmas field_simps = into_def field_append field_omit_if registration_names

lemma dec_enc_function: "dec_function zero_function (enc_function f) = Some f"
  by (cases f) (simp add: dec_function_def enc_function_def zero_function_def field_simps)

lemma dec_enc_endpoint: "dec_endpoint zero_endpoint (enc_endpoint e) = Some e"
  by (cases e) (simp add: dec_endpoint_def enc_endpoint_def zero_endpoint_def field_simps all_some_map dec_enc_function)

lemma dec_enc_registration: "dec_registration zero_registration (enc_registration r) = Some r"
  by (cases r) (simp add: dec_registration_def enc_registration_def zero_registration_def field_simps
      all_some_map dec_enc_endpoint split: option.split)

text \<open>Every string of a request is well-formed UTF-8.\<close>

definition function_utf8 :: "agent_function \<Rightarrow> bool" where
  "function_utf8 f = (utf8_valid (fn_id f) \<and> utf8_valid (fn_name f) \<and> list_all utf8_valid (fn_tags f))"

definition endpoint_utf8 :: "agent_endpoint \<Rightarrow> bool" where
  "endpoint_utf8 e =
     (utf8_valid (ep_agent_url e) \<and> utf8_valid (ep_meta_data_url e) \<and> utf8_valid (ep_documentation_url e)
      \<and> utf8_valid (ep_protocol e) \<and> list_all utf8_valid (ep_transports e)
      \<and> list_all function_utf8 (ep_functions e))"

definition registration_utf8 :: "registration_request \<Rightarrow> bool" where
  "registration_utf8 r =
     (list_all utf8_valid [rr_display_name r, rr_host r, rr_description r, rr_identity_csr r, rr_server_cert r,
        rr_server_chain r, rr_server_csr r, rr_version r]
      \<and> (case rr_endpoints r of None \<Rightarrow> True | Some es \<Rightarrow> list_all endpoint_utf8 es)
      \<and> list_all utf8_valid (rr_profiles r))"

lemma utf8_literals: "is_ascii s \<Longrightarrow> utf8_valid s"
  by (rule utf8_valid_ascii)

lemma json_ok_enc_function: "function_utf8 f \<Longrightarrow> 2 \<le> d \<Longrightarrow> json_ok d (enc_function f)"
  by (auto simp: function_utf8_def enc_function_def enc_strings_def omit_if_def list_all_iff utf8_literals
      is_ascii_def byte_val_def)

lemma json_ok_enc_endpoint: "endpoint_utf8 e \<Longrightarrow> 4 \<le> d \<Longrightarrow> json_ok d (enc_endpoint e)"
  by (auto simp: endpoint_utf8_def enc_endpoint_def enc_strings_def omit_if_def list_all_iff utf8_literals
      is_ascii_def byte_val_def json_ok_enc_function)

lemma json_ok_enc_registration:
  "registration_utf8 r \<Longrightarrow> 6 \<le> d \<Longrightarrow> json_ok d (enc_registration r)"
  by (auto simp: registration_utf8_def enc_registration_def enc_strings_def omit_if_def list_all_iff utf8_literals
      is_ascii_def byte_val_def json_ok_enc_endpoint split: option.splits)

lemma unmarshal_registration:
  "registration_utf8 r \<Longrightarrow>
     unmarshal dec_registration zero_registration (json_print (enc_registration r)) = Some r"
  by (simp add: unmarshal_print json_ok_enc_registration max_nesting_depth_def dec_enc_registration)

end
