(* ===== verification/Scitt_Client.thy ===== *)
theory Scitt_Client
  imports Headers Go_Url
begin

text \<open>
  Fetching SCITT artifacts: \<open>verify/scitt/client.go\<close> and the in-memory \<open>client_mock.go\<close>. Sending a
  request is a parameter; the answer is a status, headers, and a body that may break while it is
  read. \<open>http.ParseTime\<close> is a parameter too.
\<close>

definition nanos_per_sec :: int where
  "nanos_per_sec = 1000000000"

definition default_client_timeout :: int where
  "default_client_timeout = 30 * nanos_per_sec"

definition max_response_bytes :: nat where
  "max_response_bytes = 2097152"

section \<open>Construction\<close>

record scitt_http_client =
  sc_base_url :: string
  sc_headers :: http_header
  sc_allow_insecure :: bool
  sc_timeout_override :: "int option"
  sc_explicit :: "int option"
  sc_timeout :: int

datatype client_error = Client_Invalid_URL | Client_Not_Https string

text \<open>\<open>sc_explicit\<close> is the timeout of a client the caller supplied; \<open>sc_timeout\<close> the one in force.\<close>

definition trim_right_char :: "char \<Rightarrow> string \<Rightarrow> string" where
  "trim_right_char c s = rev (dropWhile (\<lambda>x. x = c) (rev s))"

definition with_http_client :: "int option \<Rightarrow> scitt_http_client \<Rightarrow> scitt_http_client" where
  "with_http_client client c = c\<lparr>sc_explicit := client\<rparr>"

definition with_client_timeout :: "int \<Rightarrow> scitt_http_client \<Rightarrow> scitt_http_client" where
  "with_client_timeout d c = c\<lparr>sc_timeout_override := Some d\<rparr>"

definition with_allow_insecure_transport :: "scitt_http_client \<Rightarrow> scitt_http_client" where
  "with_allow_insecure_transport c = c\<lparr>sc_allow_insecure := True\<rparr>"

definition with_header :: "string \<Rightarrow> string \<Rightarrow> scitt_http_client \<Rightarrow> scitt_http_client" where
  "with_header name v c = c\<lparr>sc_headers := header_set (sc_headers c) name v\<rparr>"

text \<open>The added headers are listed in the order Go ranges over their map.\<close>

definition with_headers :: "(string \<times> string list) list \<Rightarrow> scitt_http_client \<Rightarrow> scitt_http_client" where
  "with_headers hs c =
     c\<lparr>sc_headers := foldl (\<lambda>h (name, vs). foldl (\<lambda>h v. header_add h name v) h vs) (sc_headers c) hs\<rparr>"

definition new_http_client ::
  "(string \<Rightarrow> bool) \<Rightarrow> string \<Rightarrow> (scitt_http_client \<Rightarrow> scitt_http_client) list \<Rightarrow> client_error + scitt_http_client" where
  "new_http_client bracket_ok base_url opts =
     (let c = foldl (\<lambda>c opt. opt c)
                \<lparr>sc_base_url = trim_right_char (CHR ''/'') base_url, sc_headers = Map.empty, sc_allow_insecure = False,
                 sc_timeout_override = None, sc_explicit = None, sc_timeout = 0\<rparr> opts
      in case url_parse bracket_ok base_url of
           None \<Rightarrow> Inl Client_Invalid_URL
         | Some u \<Rightarrow>
             if url_scheme u \<noteq> ''https'' \<and> \<not> sc_allow_insecure c then Inl (Client_Not_Https (url_scheme u))
             else let timeout =
                    (case sc_explicit c of
                       Some t \<Rightarrow>
                         let t = (if t = 0 then default_client_timeout else t)
                         in (case sc_timeout_override c of Some d \<Rightarrow> d | None \<Rightarrow> t)
                     | None \<Rightarrow> (case sc_timeout_override c of Some d \<Rightarrow> d | None \<Rightarrow> default_client_timeout))
                  in Inr (c\<lparr>sc_timeout := timeout\<rparr>))"

section \<open>Requests\<close>

record http_response =
  hr_status :: nat
  hr_header :: http_header
  hr_body :: bytes
  hr_broken :: bool

type_synonym http_transport = "string \<Rightarrow> http_header \<Rightarrow> http_response option"

definition transport_of :: "transport_error_type \<Rightarrow> nat \<Rightarrow> transport_error" where
  "transport_of t code = \<lparr>te_type = t, te_status_code = code, te_retry_after = 0\<rparr>"

definition map_status_code :: "nat \<Rightarrow> transport_error" where
  "map_status_code code =
     (if code = 404 then transport_of TransportErrNotFound 404
      else if code = 410 then transport_of TransportErrAgentTerminal 410
      else if code = 501 then transport_of TransportErrNotSupported 501
      else transport_of TransportErrHTTPError code)"

definition max_retry_after :: int where
  "max_retry_after = 24 * 3600 * nanos_per_sec"

definition parse_retry_after :: "(string \<Rightarrow> int option) \<Rightarrow> string \<Rightarrow> int \<Rightarrow> int" where
  "parse_retry_after http_time header now =
     (let h = trim_space header in
      if h = [] then 0
      else case parse_uint 64 h of
          Some secs \<Rightarrow>
            if int secs > max_retry_after div nanos_per_sec then max_retry_after else int secs * nanos_per_sec
        | None \<Rightarrow>
            (case http_time h of
               None \<Rightarrow> 0
             | Some t \<Rightarrow> min (max (max (- (2 ^ 63)) (min (2 ^ 63 - 1) (t - now))) 0) max_retry_after))"

text \<open>The URL of a request is parsed when the request is built; the body is read one byte past the limit.\<close>

definition fetch_bytes ::
  "(string \<Rightarrow> bool) \<Rightarrow> (string \<Rightarrow> int option) \<Rightarrow> http_transport \<Rightarrow> int \<Rightarrow> scitt_http_client \<Rightarrow> string
     \<Rightarrow> transport_error + bytes" where
  "fetch_bytes bracket_ok http_time send now c url =
     (if url_parse bracket_ok url = None then Inl (transport_of TransportErrHTTPError 0)
      else case send url (sc_headers c) of
          None \<Rightarrow> Inl (transport_of TransportErrHTTPError 0)
        | Some r \<Rightarrow>
            if hr_status r \<noteq> 200 then
              (let e = map_status_code (hr_status r) in
               Inl (if hr_status r = 503 \<or> hr_status r = 429
                    then e\<lparr>te_retry_after := parse_retry_after http_time (header_get (hr_header r) ''Retry-After'') now\<rparr>
                    else e))
            else if hr_broken r \<and> length (hr_body r) \<le> max_response_bytes then Inl (transport_of TransportErrHTTPError 0)
            else (let body = take (max_response_bytes + 1) (hr_body r) in
                  if length body > max_response_bytes then Inl (transport_of TransportErrHTTPError 0) else Inr body))"

text \<open>\<open>url.PathEscape\<close>.\<close>

definition escape_in_segment :: "char \<Rightarrow> bool" where
  "escape_in_segment c =
     (if is_alnum c then False
      else if c \<in> set ''-_.~'' then False
      else if c \<in> set ''$&+,/:;=?@'' then c \<in> set ''/;,?''
      else True)"

fun path_escape :: "string \<Rightarrow> string" where
  "path_escape [] = []"
| "path_escape (c # cs) =
     (if escape_in_segment c
      then CHR ''%'' # upper_hex_char (byte_val c div 16) # upper_hex_char (byte_val c mod 16) # path_escape cs
      else c # path_escape cs)"

definition receipt_url :: "scitt_http_client \<Rightarrow> string \<Rightarrow> string" where
  "receipt_url c agent = sc_base_url c @ ''/v1/agents/'' @ path_escape agent @ ''/receipt''"

definition status_token_url :: "scitt_http_client \<Rightarrow> string \<Rightarrow> string" where
  "status_token_url c agent = sc_base_url c @ ''/v1/agents/'' @ path_escape agent @ ''/status-token''"

definition root_keys_url :: "scitt_http_client \<Rightarrow> string" where
  "root_keys_url c = sc_base_url c @ ''/root-keys''"

definition checkpoint_url :: "scitt_http_client \<Rightarrow> string" where
  "checkpoint_url c = sc_base_url c @ ''/checkpoint''"

definition parse_root_keys :: "bytes \<Rightarrow> transport_error + string list" where
  "parse_root_keys body =
     (let keys = filter (\<lambda>l. l \<noteq> []) (map trim_space (split_on (CHR 0x0A) (trim_space body))) in
      if length keys = 0 then Inl (transport_of TransportErrHTTPError 0) else Inr keys)"

definition fetch_receipt ::
  "(string \<Rightarrow> bool) \<Rightarrow> (string \<Rightarrow> int option) \<Rightarrow> http_transport \<Rightarrow> int \<Rightarrow> scitt_http_client \<Rightarrow> string \<Rightarrow> transport_error + bytes" where
  "fetch_receipt bk ht send now c agent = fetch_bytes bk ht send now c (receipt_url c agent)"

definition fetch_status_token ::
  "(string \<Rightarrow> bool) \<Rightarrow> (string \<Rightarrow> int option) \<Rightarrow> http_transport \<Rightarrow> int \<Rightarrow> scitt_http_client \<Rightarrow> string \<Rightarrow> transport_error + bytes" where
  "fetch_status_token bk ht send now c agent = fetch_bytes bk ht send now c (status_token_url c agent)"

definition fetch_root_keys ::
  "(string \<Rightarrow> bool) \<Rightarrow> (string \<Rightarrow> int option) \<Rightarrow> http_transport \<Rightarrow> int \<Rightarrow> scitt_http_client \<Rightarrow> transport_error + string list" where
  "fetch_root_keys bk ht send now c = rbind (fetch_bytes bk ht send now c (root_keys_url c)) parse_root_keys"

definition fetch_checkpoint ::
  "(string \<Rightarrow> bool) \<Rightarrow> (string \<Rightarrow> int option) \<Rightarrow> http_transport \<Rightarrow> int \<Rightarrow> scitt_http_client \<Rightarrow> transport_error + bytes" where
  "fetch_checkpoint bk ht send now c = fetch_bytes bk ht send now c (checkpoint_url c)"

section \<open>The in-memory client\<close>

record 'e mock_client =
  mk_receipts :: "string \<rightharpoonup> bytes"
  mk_status_tokens :: "string \<rightharpoonup> bytes"
  mk_root_keys :: "string list option"
  mk_checkpoint :: "bytes option"
  mk_errors :: "string \<rightharpoonup> 'e"

definition new_mock_client :: "'e mock_client" where
  "new_mock_client = \<lparr>mk_receipts = Map.empty, mk_status_tokens = Map.empty, mk_root_keys = None, mk_checkpoint = None,
     mk_errors = Map.empty\<rparr>"

definition mock_with_receipt :: "string \<Rightarrow> bytes \<Rightarrow> 'e mock_client \<Rightarrow> 'e mock_client" where
  "mock_with_receipt agent receipt m = m\<lparr>mk_receipts := (mk_receipts m)(agent \<mapsto> receipt)\<rparr>"

definition mock_with_status_token :: "string \<Rightarrow> bytes \<Rightarrow> 'e mock_client \<Rightarrow> 'e mock_client" where
  "mock_with_status_token agent token m = m\<lparr>mk_status_tokens := (mk_status_tokens m)(agent \<mapsto> token)\<rparr>"

definition mock_with_root_keys :: "string list option \<Rightarrow> 'e mock_client \<Rightarrow> 'e mock_client" where
  "mock_with_root_keys keys m = m\<lparr>mk_root_keys := keys\<rparr>"

definition mock_with_checkpoint :: "bytes option \<Rightarrow> 'e mock_client \<Rightarrow> 'e mock_client" where
  "mock_with_checkpoint note m = m\<lparr>mk_checkpoint := note\<rparr>"

definition mock_client_with_error :: "string \<Rightarrow> 'e \<Rightarrow> 'e mock_client \<Rightarrow> 'e mock_client" where
  "mock_client_with_error key e m = m\<lparr>mk_errors := (mk_errors m)(key \<mapsto> e)\<rparr>"

text \<open>\<open>Inl (Inl e)\<close> is the configured error, \<open>Inl (Inr e)\<close> the client's own.\<close>

definition mock_fetch :: "'e mock_client \<Rightarrow> string \<Rightarrow> 'a option \<Rightarrow> ('e + transport_error) + 'a" where
  "mock_fetch m key stored_value =
     (case mk_errors m key of
        Some e \<Rightarrow> Inl (Inl e)
      | None \<Rightarrow> (case stored_value of Some b \<Rightarrow> Inr b | None \<Rightarrow> Inl (Inr (transport_of TransportErrNotFound 404))))"

definition mock_fetch_receipt :: "'e mock_client \<Rightarrow> string \<Rightarrow> ('e + transport_error) + bytes" where
  "mock_fetch_receipt m agent = mock_fetch m agent (mk_receipts m agent)"

definition mock_fetch_status_token :: "'e mock_client \<Rightarrow> string \<Rightarrow> ('e + transport_error) + bytes" where
  "mock_fetch_status_token m agent = mock_fetch m agent (mk_status_tokens m agent)"

definition mock_fetch_root_keys :: "'e mock_client \<Rightarrow> ('e + transport_error) + string list" where
  "mock_fetch_root_keys m = mock_fetch m ''root-keys'' (mk_root_keys m)"

definition mock_fetch_checkpoint :: "'e mock_client \<Rightarrow> ('e + transport_error) + bytes" where
  "mock_fetch_checkpoint m = mock_fetch m ''checkpoint'' (mk_checkpoint m)"

section \<open>What the client guarantees\<close>

lemma retry_after_range: "0 \<le> parse_retry_after ht h now \<and> parse_retry_after ht h now \<le> max_retry_after"
  by (auto simp: parse_retry_after_def Let_def max_retry_after_def nanos_per_sec_def split: option.split)

lemma fetch_bytes_Inr:
  "fetch_bytes bk ht send now c url = Inr b \<longleftrightarrow>
     url_parse bk url \<noteq> None
     \<and> (\<exists>r. send url (sc_headers c) = Some r \<and> hr_status r = 200 \<and> \<not> hr_broken r
          \<and> length (hr_body r) \<le> max_response_bytes \<and> b = hr_body r)"
  by (auto simp: fetch_bytes_def Let_def split: option.split if_splits)

text \<open>Only 410 reports a terminal agent; every error of the client but that one lets a verifier fall back.\<close>

lemma fetch_bytes_Inl:
  "fetch_bytes bk ht send now c url = Inl e \<Longrightarrow>
     (te_type e = TransportErrAgentTerminal \<longleftrightarrow>
        url_parse bk url \<noteq> None \<and> (\<exists>r. send url (sc_headers c) = Some r \<and> hr_status r = 410))
     \<and> 0 \<le> te_retry_after e \<and> te_retry_after e \<le> max_retry_after"
  using retry_after_range
  by (auto simp: fetch_bytes_def Let_def map_status_code_def transport_of_def max_retry_after_def nanos_per_sec_def
      split: option.splits if_splits)

lemma fetch_bytes_fallback:
  "fetch_bytes bk ht send now c url = Inl e \<Longrightarrow> should_fallback_to_badge e \<longleftrightarrow> te_type e \<noteq> TransportErrAgentTerminal"
  by (auto simp: fetch_bytes_def Let_def map_status_code_def transport_of_def should_fallback_to_badge_def
      split: option.splits if_splits)

lemma new_http_client_scheme:
  "new_http_client bk base opts = Inr c \<Longrightarrow> sc_allow_insecure c \<or> (\<exists>u. url_parse bk base = Some u \<and> url_scheme u = ''https'')"
  by (auto simp: new_http_client_def Let_def split: option.splits if_splits)

text \<open>A path segment never contains a separator, and distinct agents have distinct segments.\<close>

lemma path_escape_plain: "c \<in> set (path_escape s) \<Longrightarrow> \<not> escape_in_segment c \<or> c = CHR ''%'' \<or> is_alnum c"
proof (induction s)
  case (Cons x xs)
  have "is_alnum (upper_hex_char n)" if "n < 16" for n
    using that by (auto simp: is_alnum_def upper_hex_char_def is_digit_def)
  moreover have "byte_val x div 16 < 16" "byte_val x mod 16 < 16" by (simp_all add: less_mult_imp_div_less)
  ultimately show ?case using Cons by (auto split: if_splits)
qed simp

lemma path_escape_no_slash: "CHR ''/'' \<notin> set (path_escape s)" "CHR ''?'' \<notin> set (path_escape s)"
  using path_escape_plain [of "CHR ''/''" s] path_escape_plain [of "CHR ''?''" s]
  by (auto simp: escape_in_segment_def is_alnum_def is_digit_def byte_val_def)

lemma unescape_path_escape: "unescape EncodePath (path_escape s) = Some s"
proof (induction s)
  case (Cons c cs)
  have less: "byte_val c div 16 < 16" "byte_val c mod 16 < 16" by (simp_all add: less_mult_imp_div_less)
  have hex: "hex_val (upper_hex_char (byte_val c div 16)) = Some (byte_val c div 16)"
    "hex_val (upper_hex_char (byte_val c mod 16)) = Some (byte_val c mod 16)"
    using less by (simp_all only: hex_val_upper_hex)
  show ?case
  proof (cases "escape_in_segment c")
    case True
    with hex Cons show ?thesis by simp
  next
    case False
    have "escape_in_segment (CHR ''%'')" by (simp add: escape_in_segment_def is_alnum_def is_digit_def byte_val_def)
    with False have "c \<noteq> CHR ''%''" by auto
    with False Cons show ?thesis by simp
  qed
qed simp

lemma path_escape_inject: "path_escape a = path_escape b \<longleftrightarrow> a = b"
  by (metis option.inject unescape_path_escape)

end
