(* ===== verification/Http_Util.thy ===== *)
theory Http_Util
  imports Rest_Models Scitt_Client
begin

text \<open>
  The request helper of the API clients, \<open>internal/httputility/httputil.go\<close>: building the request,
  reading a bounded answer, and telling errors from results. Sending a request, which includes what
  \<open>http.Client\<close> does about redirects and timeouts, is a parameter; the answer is a status, headers and
  a body that may break while it is read. An HTTP client is only represented by its timeout; using a
  nil one panics.
\<close>

datatype bad_request =
  Empty_Parameter string | Nil_Request | Profiles_Need_V2 | Bearer_Malformed | Token_Empty | Token_Malformed
  | Nil_Token_Source | Invalid_Api_Version string | Invalid_Protocol string | Invalid_Status string
  | Limit_Out_Of_Range int | Offset_Negative int

datatype api_error =
  Api_Bad_Request bad_request
  | Api_Token_Source
  | Api_Build_Request
  | Api_Nil_Client_Panic
  | Api_Request_Failed
  | Api_Read_Body
  | Api_Response response_error
  | Api_Parse
  | Api_Dns dns_verification_error

record api_request =
  aq_method :: string
  aq_url :: string
  aq_header :: http_header
  aq_body :: bytes

type_synonym api_transport = "api_request \<Rightarrow> http_response option"

record http_config =
  hc_base_url :: string
  hc_client :: "int option"
  hc_auth_header :: string

text \<open>
  What a client needs of its surroundings: the check of IP literals in URLs, the transport, the RFC 3339
  parser and the clock.
\<close>

record api_env =
  av_bracket_ok :: "string \<Rightarrow> bool"
  av_send :: api_transport
  av_time :: time_parser
  av_now :: int

definition max_response_body_bytes :: nat where
  "max_response_body_bytes = 10485760"

definition prepare_request_body :: "json option \<Rightarrow> bytes" where
  "prepare_request_body body = (case body of None \<Rightarrow> [] | Some j \<Rightarrow> json_print j)"

definition set_request_headers :: "string \<Rightarrow> http_header" where
  "set_request_headers auth =
     (let h = (Map.empty :: http_header);
          h = (if auth \<noteq> [] then header_set h ''Authorization'' auth else h);
          h = header_set h ''Content-Type'' ''application/json''
      in header_set h ''Accept'' ''application/json'')"

text \<open>A body that is no JSON error object becomes the message; the body itself is always kept.\<close>

definition handle_error_response :: "nat \<Rightarrow> bytes \<Rightarrow> response_error" where
  "handle_error_response code body =
     (let re = (case unmarshal dec_api_error zero_api_error body of
                  None \<Rightarrow> new_response_error code (Some (zero_api_error\<lparr>ae_message := body\<rparr>))
                | Some a \<Rightarrow> new_response_error code (Some a))
      in re\<lparr>re_raw_body := body\<rparr>)"

definition parse_success_response :: "'a jdec \<Rightarrow> 'a \<Rightarrow> bytes \<Rightarrow> api_error + 'a" where
  "parse_success_response d zero body =
     (if length body > 0 then (case unmarshal d zero body of None \<Rightarrow> Inl Api_Parse | Some x \<Rightarrow> Inr x)
      else Inr zero)"

text \<open>
  The body is read through a limited reader: what lies behind the limit is not read, so neither seen
  nor able to fail.
\<close>

definition read_limited_body :: "http_response \<Rightarrow> api_error + bytes" where
  "read_limited_body r =
     (if hr_broken r \<and> length (hr_body r) < max_response_body_bytes then Inl Api_Read_Body
      else Inr (take max_response_body_bytes (hr_body r)))"

definition request_of :: "http_config \<Rightarrow> string \<Rightarrow> string \<Rightarrow> json option \<Rightarrow> api_request" where
  "request_of cfg meth path body =
     \<lparr>aq_method = meth, aq_url = hc_base_url cfg @ path, aq_header = set_request_headers (hc_auth_header cfg),
      aq_body = prepare_request_body body\<rparr>"

definition exchange :: "api_env \<Rightarrow> int option \<Rightarrow> api_request \<Rightarrow> api_error + http_response" where
  "exchange env client req =
     (if url_parse (av_bracket_ok env) (aq_url req) = None then Inl Api_Build_Request
      else if client = None then Inl Api_Nil_Client_Panic
      else case av_send env req of None \<Rightarrow> Inl Api_Request_Failed | Some r \<Rightarrow> Inr r)"

definition http_do_request ::
  "api_env \<Rightarrow> http_config \<Rightarrow> string \<Rightarrow> string \<Rightarrow> json option \<Rightarrow> 'a jdec \<Rightarrow> 'a \<Rightarrow> api_error + 'a" where
  "http_do_request env cfg meth path body d zero =
     (case exchange env (hc_client cfg) (request_of cfg meth path body) of
        Inl e \<Rightarrow> Inl e
      | Inr r \<Rightarrow>
     case read_limited_body r of
        Inl e \<Rightarrow> Inl e
      | Inr b \<Rightarrow>
          if hr_status r \<ge> 400 then Inl (Api_Response (handle_error_response (hr_status r) b))
          else parse_success_response d zero b)"

section \<open>What an exchange can end in\<close>

lemma exchange_Inr:
  "exchange env client req = Inr r \<longleftrightarrow>
     url_parse (av_bracket_ok env) (aq_url req) \<noteq> None \<and> client \<noteq> None \<and> av_send env req = Some r"
  by (auto simp: exchange_def split: option.splits)

lemma read_limited_body_Inr:
  "read_limited_body r = Inr b \<longleftrightarrow>
     (hr_broken r \<longrightarrow> max_response_body_bytes \<le> length (hr_body r)) \<and> b = take max_response_body_bytes (hr_body r)"
  by (auto simp: read_limited_body_def)

text \<open>A result is the decoded body of an answer below 400, or the zero value for an empty body.\<close>

lemma http_do_request_Inr:
  "http_do_request env cfg meth path body d zero = Inr x \<longleftrightarrow>
     (\<exists>r b. exchange env (hc_client cfg) (request_of cfg meth path body) = Inr r \<and> read_limited_body r = Inr b
          \<and> hr_status r < 400 \<and> parse_success_response d zero b = Inr x)"
  by (auto simp: http_do_request_def not_le split: sum.splits if_splits)

lemma http_do_request_response:
  "http_do_request env cfg meth path body d zero = Inl (Api_Response e) \<longleftrightarrow>
     (\<exists>r b. exchange env (hc_client cfg) (request_of cfg meth path body) = Inr r \<and> read_limited_body r = Inr b
          \<and> 400 \<le> hr_status r \<and> e = handle_error_response (hr_status r) b)"
  by (auto simp: http_do_request_def exchange_def read_limited_body_def parse_success_response_def
      split: sum.splits if_splits option.splits)

lemma handle_error_response_keeps:
  "re_status_code (handle_error_response code body) = code" "re_raw_body (handle_error_response code body) = body"
  by (simp_all add: handle_error_response_def new_response_error_def Let_def split: option.split)

lemma set_request_headers_auth:
  "set_request_headers auth ''Authorization'' = (if auth = [] then None else Some [auth])"
  "set_request_headers auth ''Content-Type'' = Some [''application/json'']"
  "set_request_headers auth ''Accept'' = Some [''application/json'']"
proof -
  have k: "canonical_key ''Authorization'' = ''Authorization''" "canonical_key ''Content-Type'' = ''Content-Type''"
    "canonical_key ''Accept'' = ''Accept''" by code_simp+
  show "set_request_headers auth ''Authorization'' = (if auth = [] then None else Some [auth])"
    "set_request_headers auth ''Content-Type'' = Some [''application/json'']"
    "set_request_headers auth ''Accept'' = Some [''application/json'']"
    by (simp_all add: set_request_headers_def header_set_def k Let_def)
qed

end
