(* ===== verification/Http_Redirect.thy ===== *)
theory Http_Redirect
  imports Http_Util
begin

text \<open>
  What \<open>Do\<close> of an \<open>http.Client\<close> without a \<open>CheckRedirect\<close> of its own does with the answers it gets: it follows
  redirects, to whatever host and scheme they name, up to ten requests in all. The answer it returns is that of the
  last request, and so is the TLS state in it. Resolving a \<open>Location\<close> against the URL it came from, and the
  headers that go along to another URL, are parameters, as releases of Go differ in the latter.
\<close>

section \<open>Following redirects\<close>

definition max_client_requests :: nat where
  "max_client_requests = 10"

text \<open>The method of the next request and whether the body goes along, for a status that redirects.\<close>

definition redirect_behavior :: "string \<Rightarrow> nat \<Rightarrow> (string \<times> bool) option" where
  "redirect_behavior meth status =
     (if status \<in> {301, 302, 303}
      then Some (if meth = ''GET'' \<or> meth = ''HEAD'' then meth else ''GET'', False)
      else if status \<in> {307, 308} then Some (meth, True)
      else None)"

type_synonym url_resolver = "string \<Rightarrow> string \<Rightarrow> string option"
type_synonym header_carrier = "http_header \<Rightarrow> string \<Rightarrow> string \<Rightarrow> http_header"

definition next_request :: "header_carrier \<Rightarrow> api_request \<Rightarrow> string \<times> bool \<Rightarrow> string \<Rightarrow> api_request" where
  "next_request carry q b url =
     \<lparr>aq_method = fst b, aq_url = url, aq_header = carry (aq_header q) (aq_url q) url,
      aq_body = (if snd b then aq_body q else [])\<rparr>"

text \<open>
  The answer, if there is one, and the requests that were sent; the number is that of the requests left. The bodies
  of the program are byte slices, so they can be sent again. An answer without a \<open>Location\<close> is returned as it is.
\<close>

primrec client_do ::
  "url_resolver \<Rightarrow> header_carrier \<Rightarrow> (api_request \<Rightarrow> 'a http_response_scheme option) \<Rightarrow> nat \<Rightarrow> api_request
     \<Rightarrow> 'a http_response_scheme option \<times> api_request list" where
  "client_do resolve carry trip 0 q = (None, [])"
| "client_do resolve carry trip (Suc n) q =
     (case trip q of
        None \<Rightarrow> (None, [q])
      | Some r \<Rightarrow>
     case redirect_behavior (aq_method q) (hr_status r) of
        None \<Rightarrow> (Some r, [q])
      | Some b \<Rightarrow>
          if header_get (hr_header r) ''Location'' = [] then (Some r, [q])
          else (case resolve (aq_url q) (header_get (hr_header r) ''Location'') of
              None \<Rightarrow> (None, [q])
            | Some url \<Rightarrow> apsnd ((#) q) (client_do resolve carry trip n (next_request carry q b url))))"

section \<open>What is sent\<close>

text \<open>One request is the redirect of another: the other was answered with a status and a place to go to.\<close>

definition redirected_to ::
  "url_resolver \<Rightarrow> header_carrier \<Rightarrow> (api_request \<Rightarrow> 'a http_response_scheme option) \<Rightarrow> api_request \<Rightarrow> api_request \<Rightarrow> bool"
where
  "redirected_to resolve carry trip q q' \<longleftrightarrow>
     (\<exists>r b url. trip q = Some r \<and> redirect_behavior (aq_method q) (hr_status r) = Some b
        \<and> header_get (hr_header r) ''Location'' \<noteq> []
        \<and> resolve (aq_url q) (header_get (hr_header r) ''Location'') = Some url \<and> q' = next_request carry q b url)"

lemma client_do_first: "0 < n \<Longrightarrow> \<exists>hops. snd (client_do resolve carry trip n q) = q # hops"
  by (cases n) (auto split: option.split)

lemma client_do_length: "length (snd (client_do resolve carry trip n q)) \<le> n"
  by (induction n arbitrary: q) (auto split: option.split)

lemma client_do_last:
  "fst (client_do resolve carry trip n q) = Some r \<Longrightarrow> trip (last (snd (client_do resolve carry trip n q))) = Some r"
proof (induction n arbitrary: q)
  case (Suc n)
  show ?case
  proof (cases n)
    case 0
    then show ?thesis using Suc.prems by (auto split: option.splits if_splits)
  next
    case (Suc m)
    have ne: "snd (client_do resolve carry trip n q') \<noteq> []" for q'
      using client_do_first [of n resolve carry trip q'] Suc by auto
    show ?thesis
      using Suc.prems Suc.IH ne by (auto simp del: client_do.simps(1) split: option.splits if_splits)
  qed
qed simp

lemma client_do_chain: "successively (redirected_to resolve carry trip) (snd (client_do resolve carry trip n q))"
proof (induction n arbitrary: q)
  case (Suc n)
  have "successively (redirected_to resolve carry trip) (q # snd (client_do resolve carry trip n q'))"
    if "redirected_to resolve carry trip q q'" for q'
    using Suc that by (cases n) (auto simp: successively_Cons split: option.split)
  then show ?case by (auto simp: redirected_to_def split: option.split)
qed simp

text \<open>An answer that does not redirect ends it at once.\<close>

lemma client_do_once:
  "trip q = Some r \<Longrightarrow> redirect_behavior (aq_method q) (hr_status r) = None \<Longrightarrow>
     client_do resolve carry trip (Suc n) q = (Some r, [q])"
  by simp

lemma client_do_redirected:
  assumes "trip q = Some r" "redirect_behavior (aq_method q) (hr_status r) = Some b"
    and "header_get (hr_header r) ''Location'' = loc" "loc \<noteq> []" "resolve (aq_url q) loc = Some url"
  shows "client_do resolve carry trip (Suc n) q = apsnd ((#) q) (client_do resolve carry trip n (next_request carry q b url))"
  using assms by simp

end
