(* ===== verification/Agent_Client.thy ===== *)
theory Agent_Client
  imports Verifier Http_Redirect
begin

text \<open>
  The agent-to-agent HTTP client, \<open>ans/agent_client.go\<close>: a request is preceded by prefetching the badge of
  its host and followed by verifying the certificate of the connection that answered it, which is that of the
  last request when the first was redirected. What the client does to the outside is recorded as a list of
  effects, in order.
\<close>

section \<open>Construction\<close>

text \<open>Of a custom TLS configuration only its presence is kept: it concerns the connection.\<close>

record 'k agent_config =
  ag_timeout :: int
  ag_verify_server :: bool
  ag_tls :: bool
  ag_policy :: failure_policy
  ag_verifier_options :: "('k verifier_config \<Rightarrow> 'k verifier_config) list"

definition default_agent_timeout :: int where
  "default_agent_timeout = 30 * nanos_per_sec"

definition default_agent_config :: "'k agent_config" where
  "default_agent_config =
     \<lparr>ag_timeout = default_agent_timeout, ag_verify_server = True, ag_tls = False, ag_policy = FailClosed,
      ag_verifier_options = []\<rparr>"

definition with_agent_timeout :: "int \<Rightarrow> 'k agent_config \<Rightarrow> 'k agent_config" where
  "with_agent_timeout d c = c\<lparr>ag_timeout := d\<rparr>"

definition with_agent_tls :: "bool \<Rightarrow> 'k agent_config \<Rightarrow> 'k agent_config" where
  "with_agent_tls present c = c\<lparr>ag_tls := present\<rparr>"

definition with_agent_verify_server :: "bool \<Rightarrow> 'k agent_config \<Rightarrow> 'k agent_config" where
  "with_agent_verify_server b c = c\<lparr>ag_verify_server := b\<rparr>"

definition with_agent_failure_policy :: "failure_policy \<Rightarrow> 'k agent_config \<Rightarrow> 'k agent_config" where
  "with_agent_failure_policy p c = c\<lparr>ag_policy := p\<rparr>"

definition with_agent_verifier_options ::
  "('k verifier_config \<Rightarrow> 'k verifier_config) list \<Rightarrow> 'k agent_config \<Rightarrow> 'k agent_config" where
  "with_agent_verifier_options opts c = c\<lparr>ag_verifier_options := opts\<rparr>"

text \<open>The verifier is built from its own options alone: the client's failure policy is not among them.\<close>

record 'k agent_client =
  ac_config :: "'k agent_config"
  ac_verifier :: "'k verifier_config"

definition new_agent_client :: "unicode \<Rightarrow> ('k agent_config \<Rightarrow> 'k agent_config) list \<Rightarrow> 'k agent_client" where
  "new_agent_client u opts =
     (let cfg = foldl (\<lambda>c opt. opt c) default_agent_config opts
      in \<lparr>ac_config = cfg, ac_verifier = new_verifier u (ag_verifier_options cfg)\<rparr>)"

section \<open>Requests\<close>

text \<open>An answer with the peer certificates of its connection; no TLS state is an empty list too.\<close>

record agent_answer = http_response +
  an_peer_certs :: "x509_cert list"

type_synonym agent_transport = "api_request \<Rightarrow> agent_answer option"

datatype agent_error =
  Agent_Invalid_URL
  | Agent_Missing_Hostname
  | Agent_Requires_HTTPS string
  | Agent_Badge_Failed verify_error
  | Agent_Create_Request
  | Agent_Request_Failed
  | Agent_No_Peer_Certificates
  | Agent_Certificate_Failed "verify_error option"
  | Agent_Decode
  | Agent_Empty_Host

datatype agent_effect = Sent api_request | Body_Closed

text \<open>
  The surroundings: the verifier's at the prefetch and at the verification, the transport, which answers one
  request, and what \<open>Http_Redirect\<close> needs to make the next request of a redirect.
\<close>

record 'k agent_env =
  ae_prefetch :: "'k verify_env"
  ae_verify :: "'k verify_env"
  ae_send :: agent_transport
  ae_resolve :: url_resolver
  ae_carry :: header_carrier
  ae_bracket_ok :: "string \<Rightarrow> bool"

definition prefetch_badge :: "'k agent_env \<Rightarrow> 'k agent_client \<Rightarrow> string \<Rightarrow> agent_error option \<times> 'k agent_client" where
  "prefetch_badge env c host =
     (if \<not> ag_verify_server (ac_config c) then (None, c)
      else case ans_prefetch (ae_prefetch env) (ac_verifier c) host of
          ((_, err), v) \<Rightarrow>
            (case err of
               None \<Rightarrow> None
             | Some e \<Rightarrow>
                 (case ag_policy (ac_config c) of
                    FailClosed \<Rightarrow> Some (Agent_Badge_Failed e)
                  | FailOpenWithCache \<Rightarrow> None
                  | FailOpen \<Rightarrow> None),
             c\<lparr>ac_verifier := v\<rparr>))"

definition agent_request :: "string \<Rightarrow> string \<Rightarrow> json option \<Rightarrow> api_request" where
  "agent_request meth url body =
     \<lparr>aq_method = meth, aq_url = url,
      aq_header = (case body of None \<Rightarrow> Map.empty | Some _ \<Rightarrow> header_set Map.empty ''Content-Type'' ''application/json''),
      aq_body = prepare_request_body body\<rparr>"

text \<open>\<open>httpClient.Do\<close>: the client of \<open>NewAgentClient\<close> has no \<open>CheckRedirect\<close>.\<close>

definition agent_exchange :: "'k agent_env \<Rightarrow> api_request \<Rightarrow> agent_answer option \<times> api_request list" where
  "agent_exchange env = client_do (ae_resolve env) (ae_carry env) (ae_send env) max_client_requests"

text \<open>The URL was parsed before, so building the request cannot fail on it.\<close>

definition execute_request ::
  "'k agent_env \<Rightarrow> string \<Rightarrow> string \<Rightarrow> json option \<Rightarrow> (agent_error + agent_answer) \<times> agent_effect list" where
  "execute_request env meth url body =
     (let req = agent_request meth url body in
      if url_parse (ae_bracket_ok env) url = None then (Inl Agent_Create_Request, [])
      else (case agent_exchange env req of
          (res, sent) \<Rightarrow> (case res of None \<Rightarrow> Inl Agent_Request_Failed | Some r \<Rightarrow> Inr r, map Sent sent)))"

definition verify_tls_cert ::
  "'k agent_env \<Rightarrow> 'k agent_client \<Rightarrow> string \<Rightarrow> agent_answer
     \<Rightarrow> (agent_error + verification_outcome option) \<times> agent_effect list \<times> 'k agent_client" where
  "verify_tls_cert env c host resp =
     (if \<not> ag_verify_server (ac_config c) then (Inr None, [], c)
      else case an_peer_certs resp of
          [] \<Rightarrow>
            (case ag_policy (ac_config c) of
               FailOpen \<Rightarrow> (Inr None, [], c)
             | _ \<Rightarrow> (Inl Agent_No_Peer_Certificates, [Body_Closed], c))
        | leaf # _ \<Rightarrow>
            (case ans_verify_server (ae_verify env) (ac_verifier c) host
                    (cert_identity_from_x509 (en_sha256 (ae_verify env)) leaf) of
               (out, v) \<Rightarrow>
                 let c' = c\<lparr>ac_verifier := v\<rparr> in
                 if outcome_is_success out then (Inr (Some out), [], c')
                 else (case ag_policy (ac_config c) of
                     FailOpen \<Rightarrow> (Inr (Some out), [], c')
                   | _ \<Rightarrow> (Inl (Agent_Certificate_Failed (outcome_to_error out)), [Body_Closed], c'))))"

record agent_response =
  ar_answer :: agent_answer
  ar_outcome :: "verification_outcome option"

definition agent_do ::
  "'k agent_env \<Rightarrow> 'k agent_client \<Rightarrow> string \<Rightarrow> string \<Rightarrow> json option
     \<Rightarrow> (agent_error + agent_response) \<times> agent_effect list \<times> 'k agent_client" where
  "agent_do env c meth url body =
     (case url_parse (ae_bracket_ok env) url of
        None \<Rightarrow> (Inl Agent_Invalid_URL, [], c)
      | Some u \<Rightarrow>
     let host = url_hostname u in
     if host = [] then (Inl Agent_Missing_Hostname, [], c)
     else if ag_verify_server (ac_config c) \<and> url_scheme u \<noteq> ''https''
     then (Inl (Agent_Requires_HTTPS (url_scheme u)), [], c)
     else case prefetch_badge env c host of
        (Some e, c1) \<Rightarrow> (Inl e, [], c1)
      | (None, c1) \<Rightarrow>
     case execute_request env meth url body of
        (Inl e, fx) \<Rightarrow> (Inl e, fx, c1)
      | (Inr resp, fx) \<Rightarrow>
     case verify_tls_cert env c1 host resp of
        (Inl e, fx', c2) \<Rightarrow> (Inl e, fx @ fx', c2)
      | (Inr out, fx', c2) \<Rightarrow> (Inr \<lparr>ar_answer = resp, ar_outcome = out\<rparr>, fx @ fx', c2))"

definition agent_get ::
  "'k agent_env \<Rightarrow> 'k agent_client \<Rightarrow> string \<Rightarrow> (agent_error + agent_response) \<times> agent_effect list \<times> 'k agent_client" where
  "agent_get env c url = agent_do env c ''GET'' url None"

definition agent_post ::
  "'k agent_env \<Rightarrow> 'k agent_client \<Rightarrow> string \<Rightarrow> json option
     \<Rightarrow> (agent_error + agent_response) \<times> agent_effect list \<times> 'k agent_client" where
  "agent_post env c url body = agent_do env c ''POST'' url body"

definition agent_put ::
  "'k agent_env \<Rightarrow> 'k agent_client \<Rightarrow> string \<Rightarrow> json option
     \<Rightarrow> (agent_error + agent_response) \<times> agent_effect list \<times> 'k agent_client" where
  "agent_put env c url body = agent_do env c ''PUT'' url body"

definition agent_delete ::
  "'k agent_env \<Rightarrow> 'k agent_client \<Rightarrow> string \<Rightarrow> (agent_error + agent_response) \<times> agent_effect list \<times> 'k agent_client" where
  "agent_delete env c url = agent_do env c ''DELETE'' url None"

text \<open>
  \<open>Decoder.Decode\<close> reads the first value of the body and ignores what follows. Only an object or an array ends with
  its last byte; the end of any other value shows at the byte after it, or at the end of the stream, and a stream that
  breaks there has neither.
\<close>

definition self_ending :: "json \<Rightarrow> bool" where
  "self_ending v = (case v of JObj _ \<Rightarrow> True | JArr _ \<Rightarrow> True | _ \<Rightarrow> False)"

definition decode_body :: "'a jdec \<Rightarrow> 'a \<Rightarrow> agent_answer \<Rightarrow> 'a option" where
  "decode_body d old r =
     (case parse_value (2 * length (hr_body r) + 2) max_nesting_depth (hr_body r) of
        None \<Rightarrow> None
      | Some (v, rest) \<Rightarrow> if hr_broken r \<and> rest = [] \<and> \<not> self_ending v then None else d old v)"

definition decode_response ::
  "'a jdec \<Rightarrow> 'a \<Rightarrow> (agent_error + agent_response) \<times> agent_effect list \<times> 'k agent_client
     \<Rightarrow> (agent_error + 'a \<times> agent_response) \<times> agent_effect list \<times> 'k agent_client" where
  "decode_response d old result =
     (case result of
        (Inl e, fx, c) \<Rightarrow> (Inl e, fx, c)
      | (Inr resp, fx, c) \<Rightarrow>
          ((case decode_body d old (ar_answer resp) of
              None \<Rightarrow> Inl Agent_Decode
            | Some x \<Rightarrow> Inr (x, resp)), fx @ [Body_Closed], c))"

definition get_json ::
  "'k agent_env \<Rightarrow> 'k agent_client \<Rightarrow> string \<Rightarrow> 'a jdec \<Rightarrow> 'a
     \<Rightarrow> (agent_error + 'a \<times> agent_response) \<times> agent_effect list \<times> 'k agent_client" where
  "get_json env c url d old = decode_response d old (agent_get env c url)"

definition post_json ::
  "'k agent_env \<Rightarrow> 'k agent_client \<Rightarrow> string \<Rightarrow> json option \<Rightarrow> 'a jdec \<Rightarrow> 'a
     \<Rightarrow> (agent_error + 'a \<times> agent_response) \<times> agent_effect list \<times> 'k agent_client" where
  "post_json env c url body d old = decode_response d old (agent_post env c url body)"

definition put_json ::
  "'k agent_env \<Rightarrow> 'k agent_client \<Rightarrow> string \<Rightarrow> json option \<Rightarrow> 'a jdec \<Rightarrow> 'a
     \<Rightarrow> (agent_error + 'a \<times> agent_response) \<times> agent_effect list \<times> 'k agent_client" where
  "put_json env c url body d old = decode_response d old (agent_put env c url body)"

definition agent_prefetch :: "'k agent_env \<Rightarrow> 'k agent_client \<Rightarrow> string \<Rightarrow> agent_error option \<times> 'k agent_client" where
  "agent_prefetch env c host =
     (if host = [] then (Some Agent_Empty_Host, c)
      else case ans_prefetch (ae_prefetch env) (ac_verifier c) host of
          ((_, err), v) \<Rightarrow> (map_option Agent_Badge_Failed err, c\<lparr>ac_verifier := v\<rparr>))"

section \<open>What a response vouches for\<close>

lemma prefetch_badge_config [simp]: "ac_config (snd (prefetch_badge env c host)) = ac_config c"
  by (simp add: prefetch_badge_def split: prod.split option.split failure_policy.split)

lemma agent_exchange_first: "\<exists>hops. snd (agent_exchange env q) = q # hops"
  unfolding agent_exchange_def by (rule client_do_first) (simp add: max_client_requests_def)

lemma agent_exchange_length: "length (snd (agent_exchange env q)) \<le> 10"
  using client_do_length [of "ae_resolve env" "ae_carry env" "ae_send env" max_client_requests q]
  by (simp add: agent_exchange_def max_client_requests_def)

lemma agent_exchange_once:
  "ae_send env q = Some r \<Longrightarrow> redirect_behavior (aq_method q) (hr_status r) = None \<Longrightarrow> agent_exchange env q = (Some r, [q])"
  unfolding agent_exchange_def max_client_requests_def numeral_nat by (simp only: client_do_once)

lemma agent_request_simps [simp]:
  "aq_method (agent_request meth url body) = meth" "aq_url (agent_request meth url body) = url"
  "aq_body (agent_request meth url body) = prepare_request_body body"
  by (simp_all add: agent_request_def)

lemma execute_request_Inr:
  "execute_request env meth url body = (Inr r, fx) \<longleftrightarrow>
     url_parse (ae_bracket_ok env) url \<noteq> None \<and> fst (agent_exchange env (agent_request meth url body)) = Some r
     \<and> fx = map Sent (snd (agent_exchange env (agent_request meth url body)))"
  by (auto simp: execute_request_def Let_def split: option.splits prod.splits)

lemma verify_tls_cert_Inr:
  "verify_tls_cert env c host resp = (Inr out, fx, c') \<Longrightarrow>
     ag_verify_server (ac_config c) \<Longrightarrow> ag_policy (ac_config c) \<noteq> FailOpen \<Longrightarrow>
     \<exists>leaf rest o1 v. an_peer_certs resp = leaf # rest \<and> out = Some o1 \<and> outcome_is_success o1 \<and> fx = []
       \<and> ans_verify_server (ae_verify env) (ac_verifier c) host
            (cert_identity_from_x509 (en_sha256 (ae_verify env)) leaf) = (o1, v) \<and> c' = c\<lparr>ac_verifier := v\<rparr>"
  by (auto simp: verify_tls_cert_def Let_def split: list.splits prod.splits failure_policy.splits if_splits)

text \<open>
  A response, unless the client fails open: the scheme was https, the badge lookup did not fail under
  \<open>FailClosed\<close>, and the certificate of the connection passed the verifier for the host of the URL.
\<close>

lemma agent_do_Inr:
  assumes "agent_do env c meth url body = (Inr resp, fx, c')"
    and "ag_verify_server (ac_config c)" "ag_policy (ac_config c) \<noteq> FailOpen"
  shows "\<exists>u c1 leaf rest out v. url_parse (ae_bracket_ok env) url = Some u \<and> url_scheme u = ''https''
     \<and> prefetch_badge env c (url_hostname u) = (None, c1)
     \<and> fst (agent_exchange env (agent_request meth url body)) = Some (ar_answer resp)
     \<and> an_peer_certs (ar_answer resp) = leaf # rest
     \<and> ans_verify_server (ae_verify env) (ac_verifier c1) (url_hostname u)
          (cert_identity_from_x509 (en_sha256 (ae_verify env)) leaf) = (out, v)
     \<and> outcome_is_success out \<and> ar_outcome resp = Some out
     \<and> fx = map Sent (snd (agent_exchange env (agent_request meth url body)))"
proof -
  obtain u where u: "url_parse (ae_bracket_ok env) url = Some u" "url_scheme u = ''https''"
    using assms(1,2) by (auto simp: agent_do_def Let_def split: option.splits if_splits)
  obtain c1 where c1: "prefetch_badge env c (url_hostname u) = (None, c1)"
    using assms(1) u by (auto simp: agent_do_def Let_def split: if_splits prod.splits option.splits)
  obtain r fx1 where r: "execute_request env meth url body = (Inr r, fx1)"
    using assms(1) u c1 by (auto simp: agent_do_def Let_def split: if_splits prod.splits sum.splits)
  obtain out fx2 where t: "verify_tls_cert env c1 (url_hostname u) r = (Inr out, fx2, c')"
    "resp = \<lparr>ar_answer = r, ar_outcome = out\<rparr>" "fx = fx1 @ fx2"
    using assms(1) u c1 r by (auto simp: agent_do_def Let_def split: if_splits prod.splits sum.splits)
  have "ac_config c1 = ac_config c" using prefetch_badge_config [of env c "url_hostname u"] c1 by simp
  then have "ag_verify_server (ac_config c1)" "ag_policy (ac_config c1) \<noteq> FailOpen" using assms(2,3) by simp_all
  from verify_tls_cert_Inr [OF t(1) this] show ?thesis
    using u c1 r t(2,3) by (auto simp: execute_request_Inr)
qed

text \<open>The verifier's own policy is what its options make it, and prefetching leaves it alone.\<close>

lemma prefetch_badge_policy [simp]: "vc_policy (ac_verifier (snd (prefetch_badge env c host))) = vc_policy (ac_verifier c)"
  by (auto simp: prefetch_badge_def ans_prefetch_def server_prefetch_eq split: prod.splits option.splits sum.splits)

lemma agent_do_vouched:
  assumes "agent_do env c meth url body = (Inr resp, fx, c')"
    and "ag_verify_server (ac_config c)" "ag_policy (ac_config c) \<noteq> FailOpen" "vc_policy (ac_verifier c) = FailClosed"
  shows "\<exists>u f b out leaf rest v. url_parse (ae_bracket_ok env) url = Some u \<and> url_scheme u = ''https''
     \<and> new_fqdn (url_hostname u) = Inr f
     \<and> fx = map Sent (snd (agent_exchange env (agent_request meth url body)))
     \<and> fst (agent_exchange env (agent_request meth url body)) = Some (ar_answer resp)
     \<and> an_peer_certs (ar_answer resp) = leaf # rest
     \<and> ar_outcome resp = Some out \<and> vo_type out = OutcomeVerified \<and> vo_badge out = Some b
     \<and> vouches_server (en_unicode (ae_verify env)) b (cert_identity_from_x509 (en_sha256 (ae_verify env)) leaf) f
     \<and> v = ac_verifier (snd (prefetch_badge env c (url_hostname u)))
     \<and> badge_evidence (ae_verify env) v f None (cert_identity_from_x509 (en_sha256 (ae_verify env)) leaf) b"
proof -
  obtain u c1 leaf rest out v where d: "url_parse (ae_bracket_ok env) url = Some u" "url_scheme u = ''https''"
    "prefetch_badge env c (url_hostname u) = (None, c1)"
    "fst (agent_exchange env (agent_request meth url body)) = Some (ar_answer resp)" "an_peer_certs (ar_answer resp) = leaf # rest"
    "ans_verify_server (ae_verify env) (ac_verifier c1) (url_hostname u)
       (cert_identity_from_x509 (en_sha256 (ae_verify env)) leaf) = (out, v)"
    "outcome_is_success out" "ar_outcome resp = Some out"
    "fx = map Sent (snd (agent_exchange env (agent_request meth url body)))"
    using agent_do_Inr [OF assms(1-3)] by blast
  have policy: "vc_policy (ac_verifier c1) = FailClosed"
    using prefetch_badge_policy [of env c "url_hostname u"] d(3) assms(4) by simp
  obtain f where f: "new_fqdn (url_hostname u) = Inr f"
    using d(6,7) by (cases "new_fqdn (url_hostname u)") (auto simp: ans_verify_server_def)
  then have s: "server_verify (ae_verify env) (ac_verifier c1) f
      (cert_identity_from_x509 (en_sha256 (ae_verify env)) leaf) = (out, v)"
    using d(6) by (simp add: ans_verify_server_def)
  then have "vo_type out = OutcomeVerified"
    using server_verify_success [OF s d(7)] policy by (simp add: justified_fail_open_def)
  from server_verify_Verified [OF s this] this show ?thesis using d f by auto
qed

text \<open>
  A failed verification comes after the request: it has been sent with its body, and on to wherever it was
  redirected, and all that is left is to close the answer.
\<close>

lemma agent_do_rejected:
  assumes "agent_do env c meth url body = (Inl e, fx, c')" "e = Agent_No_Peer_Certificates \<or> (\<exists>ve. e = Agent_Certificate_Failed ve)"
  shows "fx = map Sent (snd (agent_exchange env (agent_request meth url body))) @ [Body_Closed]"
proof -
  obtain u where u: "url_parse (ae_bracket_ok env) url = Some u" "url_hostname u \<noteq> []"
    "\<not> (ag_verify_server (ac_config c) \<and> url_scheme u \<noteq> ''https'')"
    using assms by (auto simp: agent_do_def Let_def split: option.splits if_splits)
  obtain e1 c1 where p: "prefetch_badge env c (url_hostname u) = (e1, c1)" by (cases "prefetch_badge env c (url_hostname u)")
  have "e1 \<noteq> Some Agent_No_Peer_Certificates" "e1 \<noteq> Some (Agent_Certificate_Failed ve)" for ve
    using p by (auto simp: prefetch_badge_def split: if_splits prod.splits option.splits failure_policy.splits)
  then have e1: "e1 = None" using assms u p by (cases e1) (auto simp: agent_do_def Let_def)
  obtain r where r: "execute_request env meth url body =
      (Inr r, map Sent (snd (agent_exchange env (agent_request meth url body))))"
    using assms u p e1 by (auto simp: agent_do_def execute_request_def Let_def split: option.splits prod.splits)
  obtain e2 fx2 c2 where v: "verify_tls_cert env c1 (url_hostname u) r = (e2, fx2, c2)"
    by (cases "verify_tls_cert env c1 (url_hostname u) r")
  have e2: "e2 = Inl e" "fx = map Sent (snd (agent_exchange env (agent_request meth url body))) @ fx2"
    using assms(1) u p e1 r v by (auto simp: agent_do_def Let_def split: sum.splits)
  have "fx2 = [Body_Closed]"
    using v e2(1) by (auto simp: verify_tls_cert_def Let_def split: if_splits list.splits failure_policy.splits prod.splits)
  then show ?thesis using e2(2) by simp
qed

text \<open>Whatever comes of a call, it has sent the requests of one exchange, or none.\<close>

lemma agent_do_trace:
  assumes "agent_do env c meth url body = (res, fx, c')" "fx \<noteq> []"
  shows "\<exists>tail. fx = map Sent (snd (agent_exchange env (agent_request meth url body))) @ tail \<and> set tail \<subseteq> {Body_Closed}"
proof -
  obtain u where u: "url_parse (ae_bracket_ok env) url = Some u" "url_hostname u \<noteq> []"
    "\<not> (ag_verify_server (ac_config c) \<and> url_scheme u \<noteq> ''https'')"
    using assms by (auto simp: agent_do_def Let_def split: option.splits if_splits)
  obtain e1 c1 where p: "prefetch_badge env c (url_hostname u) = (e1, c1)" by (cases "prefetch_badge env c (url_hostname u)")
  then have e1: "e1 = None" using assms u p by (cases e1) (auto simp: agent_do_def Let_def)
  obtain r fx1 where r: "execute_request env meth url body = (r, fx1)" by (cases "execute_request env meth url body")
  then have f: "fx1 = map Sent (snd (agent_exchange env (agent_request meth url body)))"
    using u(1) by (auto simp: execute_request_def Let_def split: prod.splits)
  show ?thesis
  proof (cases r)
    case (Inl e)
    then show ?thesis using assms u p e1 r f by (auto simp: agent_do_def Let_def)
  next
    case (Inr a)
    obtain e2 fx2 c2 where v: "verify_tls_cert env c1 (url_hostname u) a = (e2, fx2, c2)"
      by (cases "verify_tls_cert env c1 (url_hostname u) a")
    then have "set fx2 \<subseteq> {Body_Closed}"
      by (auto simp: verify_tls_cert_def Let_def split: if_splits list.splits failure_policy.splits prod.splits)
    moreover have "fx = fx1 @ fx2" using assms u p e1 r v Inr by (auto simp: agent_do_def Let_def split: sum.splits)
    ultimately show ?thesis using f by blast
  qed
qed

lemma agent_do_badge_failed:
  assumes "agent_do env c meth url body = (Inl e, fx, c')" "\<exists>ve. e = Agent_Badge_Failed ve"
  shows "fx = [] \<and> ag_policy (ac_config c) = FailClosed"
proof -
  obtain u where u: "url_parse (ae_bracket_ok env) url = Some u" "url_hostname u \<noteq> []"
    "\<not> (ag_verify_server (ac_config c) \<and> url_scheme u \<noteq> ''https'')"
    using assms by (auto simp: agent_do_def Let_def split: option.splits if_splits)
  obtain e1 c1 where p: "prefetch_badge env c (url_hostname u) = (e1, c1)" by (cases "prefetch_badge env c (url_hostname u)")
  show ?thesis
  proof (cases e1)
    case None
    then show ?thesis
      using assms u p
      by (auto simp: agent_do_def execute_request_def verify_tls_cert_def Let_def
          split: option.splits sum.splits prod.splits if_splits list.splits failure_policy.splits)
  next
    case (Some e2)
    then show ?thesis
      using assms u p
      by (auto simp: agent_do_def prefetch_badge_def Let_def
          split: prod.splits if_splits option.splits failure_policy.splits)
  qed
qed

text \<open>
  With a cache, the prefetch has put the badge where the verification looks first, and a vouching cache hit
  ends the verification: whatever a configured DANE resolver would say, it is not asked.
\<close>

lemma agent_do_prefetched:
  fixes env :: "'k agent_env"
  assumes url: "url_parse (ae_bracket_ok env) url = Some u" "url_scheme u = ''https''" "new_fqdn (url_hostname u) = Inr f"
      "url_hostname u \<noteq> []"
    and c: "ag_verify_server (ac_config c)"
      "vc_cache (ac_verifier c) = Some bc" "cache_ok bc" "cache_size bc < cc_max_entries (bc_config bc)"
    and b: "get_by_fqdn (en_now_get (ae_prefetch env)) bc f = None"
      "server_fetch_badge (ae_prefetch env) (ac_verifier c) f = Inr b"
    and t: "en_insert (ae_prefetch env) = (iter, now, now')"
      "now' \<le> now + cc_default_ttl (bc_config bc) + cc_stale_retention (bc_config bc)"
      "en_now_get (ae_verify env) \<le> now + cc_default_ttl (bc_config bc)"
    and answer: "fst (agent_exchange env (agent_request meth url body)) = Some r" "an_peer_certs r = leaf # rest"
    and vouch: "vouches_server (en_unicode (ae_verify env)) b (cert_identity_from_x509 (en_sha256 (ae_verify env)) leaf) f"
  shows "fst (agent_do env (c\<lparr>ac_verifier := ac_verifier c\<lparr>vc_dane := d\<rparr>\<rparr>) meth url body)
    = Inr \<lparr>ar_answer = r, ar_outcome =
        Some (verified_with_warning b (ci_fingerprint (cert_identity_from_x509 (en_sha256 (ae_verify env)) leaf)))\<rparr>"
proof -
  define cert where "cert = cert_identity_from_x509 (en_sha256 (ae_verify env)) leaf"
  define v where "v = (ac_verifier c)\<lparr>vc_dane := d\<rparr>"
  define bc' where "bc' = insert_badge iter now now' bc f b"
  have "fetch_badge (ae_prefetch env) v f None = Inr b"
    using fetch_badge_Inr [OF b(2) [unfolded server_fetch_badge_def]]
    by (simp add: fetch_badge_Inr_iff fetched_def v_def)
  then have p: "prefetch_badge env (c\<lparr>ac_verifier := v\<rparr>) (url_hostname u) =
      (None, c\<lparr>ac_verifier := v\<lparr>vc_cache := Some bc'\<rparr>\<rparr>)"
    using c b t(1) url(3)
    by (simp add: prefetch_badge_def ans_prefetch_def server_prefetch_eq server_fetch_badge_def cache_insert_def
        insert_at_def bc'_def v_def)
  have "map_option cb_badge (get_by_fqdn (en_now_get (ae_verify env)) bc' f) = Some b"
    using insert_then_look [OF c(3,4) t(2), of iter f b] t(3)
    unfolding bc'_def by (simp add: get_by_fqdn_def look_fqdn_def) (simp add: make_entry_def Let_def)
  then have "server_verify (ae_verify env) (v\<lparr>vc_cache := Some bc'\<rparr>) f cert
      = (verified_with_warning b (ci_fingerprint cert), v\<lparr>vc_cache := Some bc'\<rparr>)"
    using vouch unfolding cert_def
    by (auto simp: server_verify_eq Let_def server_verify_with_badge_ok split: option.splits)
  then have "fst (verify_tls_cert env (c\<lparr>ac_verifier := v\<lparr>vc_cache := Some bc'\<rparr>\<rparr>) (url_hostname u) r)
      = Inr (Some (verified_with_warning b (ci_fingerprint cert)))"
    using c(1) answer(2) url(3)
    by (simp add: verify_tls_cert_def ans_verify_server_def cert_def Let_def)
  then show ?thesis
    using url p answer(1) c(1) unfolding v_def [symmetric] cert_def [symmetric]
    by (auto simp: agent_do_def execute_request_def Let_def split: prod.splits sum.splits option.splits)
qed

end
