(* ===== verification/Api_Client.thy ===== *)
theory Api_Client
  imports Http_Util "HOL-Library.List_Lexorder" "HOL-Library.Char_ord" "HOL-Library.Multiset"
begin

text \<open>
  The registration-authority client: \<open>ans/options.go\<close>, \<open>ans/validate.go\<close> and \<open>ans/client.go\<close>. Options
  are functions that may refuse; a token source is what it answers at a moment, an error or a token.
\<close>

section \<open>Configuration\<close>

type_synonym token_source = "int \<Rightarrow> string option"

record client_config =
  cc_base_url :: string
  cc_client :: "int option"
  cc_auth_header :: string
  cc_token_source :: "token_source option"
  cc_verbose :: bool
  cc_timeout :: int
  cc_api_version :: string

type_synonym client_option = "client_config \<Rightarrow> api_error + client_config"

definition APIVersionV1 :: string where "APIVersionV1 = ''v1''"
definition APIVersionV2 :: string where "APIVersionV2 = ''v2''"

definition is_valid_api_version :: "string \<Rightarrow> bool" where
  "is_valid_api_version v = (v = APIVersionV1 \<or> v = APIVersionV2)"

definition default_timeout :: int where
  "default_timeout = 120 * nanos_per_sec"

definition max_search_limit :: int where
  "max_search_limit = 100"

definition is_valid_bearer_token :: "string \<Rightarrow> bool" where
  "is_valid_bearer_token token = list_all (\<lambda>c. \<not> (byte_val c \<le> 32 \<or> byte_val c = 127)) token"

definition bad :: "bad_request \<Rightarrow> api_error + 'a" where
  "bad b = Inl (Api_Bad_Request b)"

definition authorization_header :: "client_config \<Rightarrow> int \<Rightarrow> api_error + string" where
  "authorization_header c now =
     (case cc_token_source c of
        None \<Rightarrow> Inr (cc_auth_header c)
      | Some src \<Rightarrow>
          (case src now of
             None \<Rightarrow> Inl Api_Token_Source
           | Some token \<Rightarrow>
               if token = [] then bad Token_Empty
               else if \<not> is_valid_bearer_token token then bad Token_Malformed
               else Inr (''Bearer '' @ token)))"

definition default_client_config :: client_config where
  "default_client_config =
     \<lparr>cc_base_url = ''https://api.godaddy.com'', cc_client = Some default_timeout, cc_auth_header = [],
      cc_token_source = None, cc_verbose = False, cc_timeout = default_timeout, cc_api_version = APIVersionV1\<rparr>"

definition with_base_url :: "string \<Rightarrow> client_option" where
  "with_base_url url c = Inr (c\<lparr>cc_base_url := url\<rparr>)"

definition with_jwt :: "string \<Rightarrow> client_option" where
  "with_jwt jwt c = Inr (c\<lparr>cc_auth_header := ''sso-jwt '' @ jwt, cc_token_source := None\<rparr>)"

definition with_api_key :: "string \<Rightarrow> string \<Rightarrow> client_option" where
  "with_api_key key secret c =
     Inr (c\<lparr>cc_auth_header := ''sso-key '' @ key @ '':'' @ secret, cc_token_source := None\<rparr>)"

definition with_bearer_token :: "string \<Rightarrow> client_option" where
  "with_bearer_token token c =
     (if \<not> is_valid_bearer_token token then bad Bearer_Malformed
      else Inr (c\<lparr>cc_auth_header := ''Bearer '' @ token, cc_token_source := None\<rparr>))"

definition with_token_source :: "token_source option \<Rightarrow> client_option" where
  "with_token_source ts c =
     (if ts = None then bad Nil_Token_Source else Inr (c\<lparr>cc_token_source := ts, cc_auth_header := []\<rparr>))"

definition with_api_version :: "string \<Rightarrow> client_option" where
  "with_api_version v c =
     (if \<not> is_valid_api_version v then bad (Invalid_Api_Version v) else Inr (c\<lparr>cc_api_version := v\<rparr>))"

definition with_timeout :: "int \<Rightarrow> client_option" where
  "with_timeout t c =
     Inr (let c = c\<lparr>cc_timeout := t\<rparr> in if cc_client c \<noteq> None then c\<lparr>cc_client := Some t\<rparr> else c)"

definition with_verbose :: "bool \<Rightarrow> client_option" where
  "with_verbose b c = Inr (c\<lparr>cc_verbose := b\<rparr>)"

definition with_api_http_client :: "int option \<Rightarrow> client_option" where
  "with_api_http_client client c = Inr (c\<lparr>cc_client := client\<rparr>)"

fun apply_options :: "client_option list \<Rightarrow> client_config \<Rightarrow> api_error + client_config" where
  "apply_options [] c = Inr c"
| "apply_options (opt # opts) c = (case opt c of Inl e \<Rightarrow> Inl e | Inr c' \<Rightarrow> apply_options opts c')"

definition new_client :: "client_option list \<Rightarrow> api_error + client_config" where
  "new_client opts = apply_options opts default_client_config"

section \<open>Search options\<close>

record search_config =
  sg_name :: string
  sg_host :: string
  sg_version :: string
  sg_protocol :: string
  sg_statuses :: "string list"
  sg_limit :: int
  sg_offset :: int

type_synonym search_option = "search_config \<Rightarrow> api_error + search_config"

definition zero_search :: search_config where
  "zero_search = \<lparr>sg_name = [], sg_host = [], sg_version = [], sg_protocol = [], sg_statuses = [], sg_limit = 0,
     sg_offset = 0\<rparr>"

definition with_search_name :: "string \<Rightarrow> search_option" where
  "with_search_name x c = Inr (c\<lparr>sg_name := x\<rparr>)"

definition with_search_host :: "string \<Rightarrow> search_option" where
  "with_search_host x c = Inr (c\<lparr>sg_host := x\<rparr>)"

definition with_search_version :: "string \<Rightarrow> search_option" where
  "with_search_version x c = Inr (c\<lparr>sg_version := x\<rparr>)"

definition with_search_protocol :: "string \<Rightarrow> search_option" where
  "with_search_protocol p c =
     (if p = [] then Inr (c\<lparr>sg_protocol := []\<rparr>)
      else if \<not> is_valid_agent_protocol p then bad (Invalid_Protocol p)
      else Inr (c\<lparr>sg_protocol := p\<rparr>))"

definition with_search_status :: "string list \<Rightarrow> search_option" where
  "with_search_status ss c =
     (case find (\<lambda>s. \<not> is_valid_lifecycle_status s) ss of
        Some s \<Rightarrow> bad (Invalid_Status s)
      | None \<Rightarrow> Inr (c\<lparr>sg_statuses := ss\<rparr>))"

definition with_search_limit :: "int \<Rightarrow> search_option" where
  "with_search_limit n c =
     (if n < 0 \<or> n > max_search_limit then bad (Limit_Out_Of_Range n) else Inr (c\<lparr>sg_limit := n\<rparr>))"

definition with_search_offset :: "int \<Rightarrow> search_option" where
  "with_search_offset n c = (if n < 0 then bad (Offset_Negative n) else Inr (c\<lparr>sg_offset := n\<rparr>))"

fun apply_search :: "search_option list \<Rightarrow> search_config \<Rightarrow> api_error + search_config" where
  "apply_search [] c = Inr c"
| "apply_search (opt # opts) c = (case opt c of Inl e \<Rightarrow> Inl e | Inr c' \<Rightarrow> apply_search opts c')"

section \<open>Paths and queries\<close>

definition validate_required :: "string \<Rightarrow> string \<Rightarrow> bad_request option" where
  "validate_required name v = (if v = [] then Some (Empty_Parameter name) else None)"

definition agents_collection_path :: "client_config \<Rightarrow> string" where
  "agents_collection_path c = (if cc_api_version c = APIVersionV2 then ''/v2/ans/agents'' else ''/v1/agents'')"

definition register_path :: "client_config \<Rightarrow> string" where
  "register_path c = (if cc_api_version c = APIVersionV2 then ''/v2/ans/agents'' else ''/v1/agents/register'')"

definition agent_path :: "client_config \<Rightarrow> string \<Rightarrow> string list \<Rightarrow> string" where
  "agent_path c agent_id segments = join_with ''/'' ([agents_collection_path c, path_escape agent_id] @ segments)"

text \<open>\<open>url.QueryEscape\<close>.\<close>

fun query_escape :: "string \<Rightarrow> string" where
  "query_escape [] = []"
| "query_escape (c # cs) =
     (if c = CHR '' '' then CHR ''+'' # query_escape cs
      else if is_alnum c \<or> c \<in> set ''-_.~'' then c # query_escape cs
      else CHR ''%'' # upper_hex_char (byte_val c div 16) # upper_hex_char (byte_val c mod 16) # query_escape cs)"

text \<open>\<open>url.Values\<close> as its keys with their values; \<open>Encode\<close> writes the keys in order.\<close>

type_synonym url_values = "(string \<times> string list) list"

definition values_set :: "string \<Rightarrow> string \<Rightarrow> url_values \<Rightarrow> url_values" where
  "values_set k v m = AList.update k [v] m"

definition values_add :: "string \<Rightarrow> string \<Rightarrow> url_values \<Rightarrow> url_values" where
  "values_add k v m = AList.update k ((case map_of m k of None \<Rightarrow> [] | Some vs \<Rightarrow> vs) @ [v]) m"

definition values_encode :: "url_values \<Rightarrow> string" where
  "values_encode m =
     join_with ''&'' (concat (map (\<lambda>(k, vs). map (\<lambda>v. query_escape k @ ''='' @ query_escape v) vs)
       (sort_key fst m)))"

definition set_if :: "bool \<Rightarrow> string \<Rightarrow> string \<Rightarrow> url_values \<Rightarrow> url_values" where
  "set_if b k v m = (if b then values_set k v m else m)"

definition with_query :: "string \<Rightarrow> url_values \<Rightarrow> string" where
  "with_query path params = (if length params > 0 then path @ ''?'' @ values_encode params else path)"

definition search_params :: "search_config \<Rightarrow> url_values" where
  "search_params c =
     (let p = ([] :: url_values);
          p = set_if (sg_name c \<noteq> []) ''agentDisplayName'' (sg_name c) p;
          p = set_if (sg_host c \<noteq> []) ''agentHost'' (sg_host c) p;
          p = set_if (sg_version c \<noteq> []) ''version'' (sg_version c) p;
          p = set_if (sg_protocol c \<noteq> []) ''protocol'' (sg_protocol c) p;
          p = foldl (\<lambda>p s. values_add ''status'' s p) p (sg_statuses c);
          p = set_if (sg_limit c > 0) ''limit'' (show_nat (nat (sg_limit c))) p
      in set_if (sg_offset c > 0) ''offset'' (show_nat (nat (sg_offset c))) p)"

section \<open>Requests\<close>

definition do_request ::
  "api_env \<Rightarrow> client_config \<Rightarrow> string \<Rightarrow> string \<Rightarrow> json option \<Rightarrow> 'a jdec \<Rightarrow> 'a \<Rightarrow> api_error + 'a" where
  "do_request env c meth path body d zero =
     (case authorization_header c (av_now env) of
        Inl e \<Rightarrow> Inl e
      | Inr auth \<Rightarrow>
          http_do_request env \<lparr>hc_base_url = cc_base_url c, hc_client = cc_client c, hc_auth_header = auth\<rparr>
            meth path body d zero)"

text \<open>An operation whose string parameters must not be empty.\<close>

definition requiring :: "(string \<times> string) list \<Rightarrow> (api_error + 'a) \<Rightarrow> api_error + 'a" where
  "requiring ps m =
     foldr (\<lambda>(name, v) m. case validate_required name v of Some b \<Rightarrow> bad b | None \<Rightarrow> m) ps m"

definition register_agent ::
  "api_env \<Rightarrow> client_config \<Rightarrow> registration_request option \<Rightarrow> api_error + registration_pending" where
  "register_agent env c req =
     (case req of
        None \<Rightarrow> bad Nil_Request
      | Some r \<Rightarrow>
          if length (rr_profiles r) > 0 \<and> cc_api_version c \<noteq> APIVersionV2 then bad Profiles_Need_V2
          else do_request env c ''POST'' (register_path c) (Some (enc_registration r))
                 (dec_pending (av_time env)) zero_pending)"

definition get_agent_details :: "api_env \<Rightarrow> client_config \<Rightarrow> string \<Rightarrow> api_error + agent_details" where
  "get_agent_details env c i =
     requiring [(''agentID'', i)]
       (do_request env c ''GET'' (agent_path c i []) None (dec_details (av_time env)) zero_details)"

definition get_challenge_details :: "api_env \<Rightarrow> client_config \<Rightarrow> string \<Rightarrow> api_error + challenge_details" where
  "get_challenge_details env c i =
     requiring [(''agentID'', i)]
       (do_request env c ''GET'' (''/v1/agents/'' @ path_escape i @ ''/challenge'') None
          (dec_challenge_details (av_time env)) zero_challenge_details)"

definition verify_acme :: "api_env \<Rightarrow> client_config \<Rightarrow> string \<Rightarrow> api_error + agent_status_info" where
  "verify_acme env c i =
     requiring [(''agentID'', i)]
       (do_request env c ''POST'' (agent_path c i [''verify-acme'']) None
          (dec_status_info (av_time env)) zero_status_info)"

text \<open>A 422 answer whose body reads as the structured error becomes one; it keeps the original.\<close>

definition as_dns_verification_error :: "api_error \<Rightarrow> api_error" where
  "as_dns_verification_error e =
     (case e of
        Api_Response r \<Rightarrow>
          if re_status_code r \<noteq> 422 \<or> length (re_raw_body r) = 0 then e
          else (case unmarshal dec_dns_error zero_dns_error (re_raw_body r) of
              None \<Rightarrow> e
            | Some d \<Rightarrow> Api_Dns (d\<lparr>dv_response := Some r\<rparr>))
      | _ \<Rightarrow> e)"

definition verify_dns :: "api_env \<Rightarrow> client_config \<Rightarrow> string \<Rightarrow> api_error + agent_status_info" where
  "verify_dns env c i =
     requiring [(''agentID'', i)]
       (map_error as_dns_verification_error
         (do_request env c ''POST'' (agent_path c i [''verify-dns'']) None
            (dec_status_info (av_time env)) zero_status_info))"

definition search_agents ::
  "api_env \<Rightarrow> client_config \<Rightarrow> search_option list \<Rightarrow> api_error + search_response" where
  "search_agents env c opts =
     (case apply_search opts zero_search of
        Inl e \<Rightarrow> Inl e
      | Inr cfg \<Rightarrow>
          do_request env c ''GET'' (with_query ''/v1/agents'' (search_params cfg)) None
            (dec_search_response (av_time env)) zero_search_response)"

definition get_identity_certificates ::
  "api_env \<Rightarrow> client_config \<Rightarrow> string \<Rightarrow> api_error + certificate_response list" where
  "get_identity_certificates env c i =
     requiring [(''agentID'', i)]
       (do_request env c ''GET'' (agent_path c i [''certificates'', ''identity'']) None
          (dec_list zero_certificate (dec_certificate (av_time env))) [])"

definition get_server_certificates ::
  "api_env \<Rightarrow> client_config \<Rightarrow> string \<Rightarrow> api_error + certificate_response list" where
  "get_server_certificates env c i =
     requiring [(''agentID'', i)]
       (do_request env c ''GET'' (agent_path c i [''certificates'', ''server'']) None
          (dec_list zero_certificate (dec_certificate (av_time env))) [])"

definition submit_identity_csr ::
  "api_env \<Rightarrow> client_config \<Rightarrow> string \<Rightarrow> string \<Rightarrow> api_error + csr_submission_response" where
  "submit_identity_csr env c i pem =
     requiring [(''agentID'', i), (''csrPEM'', pem)]
       (do_request env c ''POST'' (agent_path c i [''certificates'', ''identity'']) (Some (enc_csr_submission pem))
          dec_csr_submission zero_csr_submission)"

definition submit_server_csr ::
  "api_env \<Rightarrow> client_config \<Rightarrow> string \<Rightarrow> string \<Rightarrow> api_error + csr_submission_response" where
  "submit_server_csr env c i pem =
     requiring [(''agentID'', i), (''csrPEM'', pem)]
       (do_request env c ''POST'' (agent_path c i [''certificates'', ''server'']) (Some (enc_csr_submission pem))
          dec_csr_submission zero_csr_submission)"

definition get_csr_status ::
  "api_env \<Rightarrow> client_config \<Rightarrow> string \<Rightarrow> string \<Rightarrow> api_error + csr_status_response" where
  "get_csr_status env c i csr_id =
     requiring [(''agentID'', i), (''csrID'', csr_id)]
       (do_request env c ''GET'' (agent_path c i [''csrs'', path_escape csr_id, ''status'']) None
          (dec_csr_status (av_time env)) zero_csr_status)"

definition get_agent_events ::
  "api_env \<Rightarrow> client_config \<Rightarrow> int \<Rightarrow> string \<Rightarrow> string \<Rightarrow> api_error + event_page" where
  "get_agent_events env c limit provider_id last_log_id =
     do_request env c ''GET''
       (with_query ''/v1/agents/events''
         (set_if (last_log_id \<noteq> []) ''lastLogId'' last_log_id
           (set_if (provider_id \<noteq> []) ''providerId'' provider_id
             (set_if (limit > 0) ''limit'' (show_nat (nat limit)) []))))
       None (dec_event_page (av_time env)) zero_event_page"

definition resolve_agent ::
  "api_env \<Rightarrow> client_config \<Rightarrow> string \<Rightarrow> string \<Rightarrow> api_error + capability_response" where
  "resolve_agent env c host v =
     requiring [(''host'', host)]
       (do_request env c ''POST'' ''/v1/agents/resolution''
          (Some (enc_capability \<lparr>cq_host = host, cq_version = v\<rparr>)) dec_capability zero_capability)"

definition revoke_agent ::
  "api_env \<Rightarrow> client_config \<Rightarrow> string \<Rightarrow> string \<Rightarrow> string \<Rightarrow> api_error + revocation_response" where
  "revoke_agent env c i reason comments =
     requiring [(''agentID'', i)]
       (do_request env c ''POST'' (agent_path c i [''revoke''])
          (Some (enc_revocation \<lparr>rv_reason = reason, rv_comments = comments\<rparr>))
          (dec_revocation (av_time env)) zero_revocation)"

end
