(* ===== verification/Api_Client_Lemmas.thy ===== *)
theory Api_Client_Lemmas
  imports Api_Client
begin

text \<open>
  Facts about the registration client: the configurations its options can produce, the segments of its
  paths, the pairs of its queries, the requests it sends and what becomes of the answers.
\<close>

section \<open>The configuration a client ends up with\<close>

text \<open>The options the package offers.\<close>

inductive sdk_option :: "client_option \<Rightarrow> bool" where
  "sdk_option (with_base_url url)"
| "sdk_option (with_jwt jwt)"
| "sdk_option (with_api_key key secret)"
| "sdk_option (with_bearer_token token)"
| "sdk_option (with_token_source ts)"
| "sdk_option (with_api_version v)"
| "sdk_option (with_timeout t)"
| "sdk_option (with_verbose b)"
| "sdk_option (with_api_http_client cl)"

definition auth_scheme :: "string \<Rightarrow> bool" where
  "auth_scheme h =
     (h = [] \<or> has_prefix h ''sso-jwt '' \<or> has_prefix h ''sso-key ''
      \<or> (\<exists>t. h = ''Bearer '' @ t \<and> is_valid_bearer_token t))"

definition wf_client :: "client_config \<Rightarrow> bool" where
  "wf_client c =
     ((cc_auth_header c = [] \<or> cc_token_source c = None) \<and> is_valid_api_version (cc_api_version c)
      \<and> auth_scheme (cc_auth_header c))"

lemmas option_defs =
  with_base_url_def with_jwt_def with_api_key_def with_bearer_token_def with_token_source_def with_api_version_def
  with_timeout_def with_verbose_def with_api_http_client_def bad_def Let_def

lemma sdk_option_wf: "sdk_option opt \<Longrightarrow> wf_client c \<Longrightarrow> opt c = Inr c' \<Longrightarrow> wf_client c'"
  by (induction rule: sdk_option.induct)
    (auto simp: option_defs wf_client_def auth_scheme_def split: if_splits)

lemma apply_options_wf:
  "apply_options opts c = Inr c' \<Longrightarrow> list_all sdk_option opts \<Longrightarrow> wf_client c \<Longrightarrow> wf_client c'"
  by (induction opts c rule: apply_options.induct) (auto split: sum.splits dest: sdk_option_wf)

lemma default_client_wf: "wf_client default_client_config"
  by (simp add: default_client_config_def wf_client_def auth_scheme_def is_valid_api_version_def)

lemma new_client_wf [accepts]: "new_client opts = Inr c \<Longrightarrow> list_all sdk_option opts \<Longrightarrow> wf_client c"
  unfolding new_client_def using apply_options_wf default_client_wf by blast

text \<open>What a request of a well-formed client carries: the static header, or a checked token of the source.\<close>

lemma authorization_header_Inr:
  "wf_client c \<Longrightarrow> authorization_header c now = Inr h \<Longrightarrow> auth_scheme h"
  by (auto simp: authorization_header_def wf_client_def auth_scheme_def bad_def split: option.splits if_splits)

lemma authorization_header_source:
  "cc_token_source c = Some src \<Longrightarrow> authorization_header c now = Inr h \<longleftrightarrow>
     (\<exists>t. src now = Some t \<and> t \<noteq> [] \<and> is_valid_bearer_token t \<and> h = ''Bearer '' @ t)"
  by (auto simp: authorization_header_def bad_def split: option.splits if_splits)

lemma apply_options_append:
  "apply_options (xs @ ys) c = (case apply_options xs c of Inl e \<Rightarrow> Inl e | Inr c' \<Rightarrow> apply_options ys c')"
  by (induction xs c rule: apply_options.induct) (auto split: sum.splits)

section \<open>Paths\<close>

lemma split_on_join:
  "ps \<noteq> [] \<Longrightarrow> (\<And>p. p \<in> set ps \<Longrightarrow> c \<notin> set p) \<Longrightarrow> split_on c (join_with [c] ps) = ps"
proof (induction ps)
  case (Cons p ps)
  show ?case
  proof (cases ps)
    case Nil
    then show ?thesis using Cons.prems by (simp add: split_on_no_sep)
  next
    case (Cons q qs)
    then have "split_on c (join_with [c] ps) = ps" using Cons.IH Cons.prems by simp
    then show ?thesis using Cons Cons.prems(2) [of p] by (simp add: split_on_append)
  qed
qed simp

lemma split_on_join2:
  assumes "\<And>p. p \<in> set ps \<Longrightarrow> c \<notin> set p"
  shows "split_on c (join_with [c] (a # ps)) = split_on c a @ ps"
proof -
  have "join_with [c] (a # ps) = join_with [c] (split_on c a @ ps)"
  proof (cases ps)
    case (Cons p qs)
    have "join_with [c] (xs @ p # qs) = join_with [c] xs @ c # join_with [c] (p # qs)" if "xs \<noteq> []" for xs
      using that
    proof (induction xs)
      case (Cons y ys)
      then show ?case by (cases ys) simp_all
    qed simp
    then show ?thesis using Cons by simp
  qed simp
  also have "split_on c \<dots> = split_on c a @ ps"
    using assms split_on_parts [of _ c a] by (intro split_on_join) auto
  finally show ?thesis .
qed

text \<open>A path keeps its segments whatever the identifier: it can be read off the path again.\<close>

lemma agent_path_segments:
  assumes "\<And>p. p \<in> set segs \<Longrightarrow> CHR ''/'' \<notin> set p"
  shows "split_on (CHR ''/'') (agent_path c i segs) =
           split_on (CHR ''/'') (agents_collection_path c) @ path_escape i # segs"
  using assms path_escape_no_slash(1) [of i] unfolding agent_path_def append_Cons append_Nil
  by (intro split_on_join2) auto

lemma agent_path_inject:
  assumes "\<And>p. p \<in> set segs \<union> set segs' \<Longrightarrow> CHR ''/'' \<notin> set p"
  shows "agent_path c i segs = agent_path c j segs' \<longleftrightarrow> i = j \<and> segs = segs'"
proof
  assume "agent_path c i segs = agent_path c j segs'"
  then have "split_on (CHR ''/'') (agents_collection_path c) @ path_escape i # segs
      = split_on (CHR ''/'') (agents_collection_path c) @ path_escape j # segs'"
    using agent_path_segments [of segs c i] agent_path_segments [of segs' c j] assms by simp
  then show "i = j \<and> segs = segs'" by (simp add: path_escape_inject)
qed simp

section \<open>Queries\<close>

text \<open>How a server reads a query back: pairs separated by \<open>&\<close>, each cut at its first \<open>=\<close>.\<close>

fun query_unescape :: "string \<Rightarrow> string option" where
  "query_unescape [] = Some []"
| "query_unescape (c # cs) =
     (if c = CHR ''+'' then map_option (\<lambda>r. CHR '' '' # r) (query_unescape cs)
      else if c = CHR ''%'' then
        (case cs of
           a # b # rest \<Rightarrow>
             (case (hex_val a, hex_val b) of
                (Some x, Some y) \<Rightarrow> map_option (\<lambda>r. char_of (16 * x + y) # r) (query_unescape rest)
              | _ \<Rightarrow> None)
         | _ \<Rightarrow> None)
      else map_option (\<lambda>r. c # r) (query_unescape cs))"

definition parse_pair :: "string \<Rightarrow> (string \<times> string) option" where
  "parse_pair s =
     (case cut_at (CHR ''='') s of
        None \<Rightarrow> map_option (\<lambda>k. (k, [])) (query_unescape s)
      | Some (a, b) \<Rightarrow>
          (case (query_unescape a, query_unescape b) of (Some k, Some v) \<Rightarrow> Some (k, v) | _ \<Rightarrow> None))"

definition parse_query :: "string \<Rightarrow> (string \<times> string) list option" where
  "parse_query s = (if s = [] then Some [] else all_some (map parse_pair (split_on (CHR ''&'') s)))"

lemma query_escape_letter:
  "c \<in> set (query_escape s) \<Longrightarrow> is_alnum c \<or> c \<in> set ''-_.~+%''"
proof (induction s)
  case (Cons x xs)
  have "is_alnum (upper_hex_char n)" if "n < 16" for n
    using that by (auto simp: upper_hex_char_def is_alnum_def is_digit_def)
  then have "is_alnum (upper_hex_char (byte_val x div 16))" "is_alnum (upper_hex_char (byte_val x mod 16))"
    by (simp_all add: less_mult_imp_div_less)
  then show ?case using Cons by (auto split: if_splits)
qed simp

lemma query_escape_no_sep [simp]:
  "CHR ''&'' \<notin> set (query_escape s)" "CHR ''='' \<notin> set (query_escape s)"
  using query_escape_letter [of "CHR ''&''" s] query_escape_letter [of "CHR ''=''" s]
  by (auto simp: is_alnum_def is_digit_def byte_val_def)

lemma query_unescape_escape [simp]: "query_unescape (query_escape s) = Some s"
proof (induction s)
  case (Cons c cs)
  have d: "byte_val c div 16 < 16" "byte_val c mod 16 < 16" "16 * (byte_val c div 16) + byte_val c mod 16 = byte_val c"
    by (simp_all add: less_mult_imp_div_less)
  have "\<not> is_alnum (CHR ''+'')" "\<not> is_alnum (CHR ''%'')"
    by (simp_all add: is_alnum_def is_digit_def byte_val_def)
  then show ?case
    using Cons d hex_val_upper_hex [OF d(1)] hex_val_upper_hex [OF d(2)] by auto
qed simp

lemma parse_pair_escape: "parse_pair (query_escape k @ CHR ''='' # query_escape v) = Some (k, v)"
  by (simp add: parse_pair_def)

definition flat_values :: "url_values \<Rightarrow> (string \<times> string) list" where
  "flat_values m = concat (map (\<lambda>(k, vs). map (\<lambda>v. (k, v)) vs) (sort_key fst m))"

lemma values_encode_flat:
  "values_encode m = join_with ''&'' (map (\<lambda>(k, v). query_escape k @ CHR ''='' # query_escape v) (flat_values m))"
proof -
  have "concat (map (\<lambda>(k, vs). map (\<lambda>v. query_escape k @ ''='' @ query_escape v) vs) ms)
      = map (\<lambda>(k, v). query_escape k @ CHR ''='' # query_escape v) (concat (map (\<lambda>(k, vs). map (\<lambda>v. (k, v)) vs) ms))"
    for ms :: url_values by (induction ms) auto
  then show ?thesis by (simp add: values_encode_def flat_values_def)
qed

lemma parse_query_encode: "parse_query (values_encode m) = Some (flat_values m)"
proof (cases "flat_values m = []")
  case True
  then show ?thesis by (simp add: values_encode_flat parse_query_def)
next
  case False
  let ?ps = "map (\<lambda>(k, v). query_escape k @ CHR ''='' # query_escape v) (flat_values m)"
  have sp: "split_on (CHR ''&'') (join_with ''&'' ?ps) = ?ps"
    using False by (intro split_on_join) auto
  have al: "all_some (map parse_pair ?ps) = Some (flat_values m)"
    unfolding map_map by (intro all_some_map) (auto simp: parse_pair_escape)
  have "?ps \<noteq> [[]]" by (cases "flat_values m") auto
  then have "join_with ''&'' ?ps \<noteq> []" using sp by (metis split_on.simps(1))
  then show ?thesis unfolding parse_query_def values_encode_flat sp using al by simp
qed

text \<open>The pairs a search sends, in the order of their keys.\<close>

definition opt_pair :: "bool \<Rightarrow> 'a \<Rightarrow> 'b \<Rightarrow> ('a \<times> 'b) list" where
  "opt_pair b k v = (if b then [(k, v)] else [])"

lemma fst_opt_pair [simp]: "fst ` set (opt_pair b k v) = (if b then {k} else {})"
  by (simp add: opt_pair_def)

lemma opt_pair_keys [simp]: "sorted (map fst (opt_pair b k v))" "distinct (map fst (opt_pair b k v))"
  by (simp_all add: opt_pair_def)

lemma values_update_fresh: "k \<notin> fst ` set m \<Longrightarrow> AList.update k v m = m @ [(k, v)]"
  by (simp add: update_fresh map_of_eq_None_iff)

lemma set_if_fresh: "k \<notin> fst ` set m \<Longrightarrow> set_if b k v m = m @ opt_pair b k [v]"
  by (simp add: set_if_def values_set_def opt_pair_def values_update_fresh)

lemma add_last: "k \<notin> fst ` set m \<Longrightarrow> values_add k v (m @ [(k, vs)]) = m @ [(k, vs @ [v])]"
proof -
  assume k: "k \<notin> fst ` set m"
  then have "map_of m k = None" by (simp add: map_of_eq_None_iff)
  then have "map_of (m @ [(k, vs)]) k = Some vs" by (simp add: map_of_append map_add_def)
  moreover have "AList.update k w (m @ [(k, vs)]) = m @ [(k, w)]" for w using k by (induction m) auto
  ultimately show ?thesis by (simp add: values_add_def)
qed

lemma add_all_last:
  "k \<notin> fst ` set m \<Longrightarrow> foldl (\<lambda>p s. values_add k s p) (m @ [(k, vs)]) ss = m @ [(k, vs @ ss)]"
  by (induction ss arbitrary: vs) (simp_all add: add_last)

lemma add_all_fresh:
  assumes "k \<notin> fst ` set m"
  shows "foldl (\<lambda>p s. values_add k s p) m ss = m @ opt_pair (ss \<noteq> []) k ss"
proof (cases ss)
  case (Cons s rest)
  have "map_of m k = None" using assms by (simp add: map_of_eq_None_iff)
  then have "values_add k s m = m @ [(k, [s])]" using assms by (simp add: values_add_def values_update_fresh)
  then show ?thesis using Cons add_all_last [OF assms, of "[s]" rest] by (simp add: opt_pair_def)
qed (simp add: opt_pair_def)

lemma search_params_eq:
  "search_params c =
     opt_pair (sg_name c \<noteq> []) ''agentDisplayName'' [sg_name c] @ opt_pair (sg_host c \<noteq> []) ''agentHost'' [sg_host c]
     @ opt_pair (sg_version c \<noteq> []) ''version'' [sg_version c]
     @ opt_pair (sg_protocol c \<noteq> []) ''protocol'' [sg_protocol c]
     @ opt_pair (sg_statuses c \<noteq> []) ''status'' (sg_statuses c)
     @ opt_pair (sg_limit c > 0) ''limit'' [show_nat (nat (sg_limit c))]
     @ opt_pair (sg_offset c > 0) ''offset'' [show_nat (nat (sg_offset c))]"
  by (simp add: search_params_def Let_def set_if_fresh add_all_fresh image_Un)

definition search_pairs :: "search_config \<Rightarrow> (string \<times> string) list" where
  "search_pairs c =
     opt_pair (sg_name c \<noteq> []) ''agentDisplayName'' (sg_name c) @ opt_pair (sg_host c \<noteq> []) ''agentHost'' (sg_host c)
     @ opt_pair (sg_limit c > 0) ''limit'' (show_nat (nat (sg_limit c)))
     @ opt_pair (sg_offset c > 0) ''offset'' (show_nat (nat (sg_offset c)))
     @ opt_pair (sg_protocol c \<noteq> []) ''protocol'' (sg_protocol c)
     @ map (\<lambda>s. (''status'', s)) (sg_statuses c)
     @ opt_pair (sg_version c \<noteq> []) ''version'' (sg_version c)"

lemma key_order:
  "''agentDisplayName'' < ''agentHost''" "''agentHost'' < ''limit''" "''limit'' < ''offset''" "''offset'' < ''protocol''"
  "''protocol'' < ''status''" "''status'' < ''version''"
  by code_simp+

lemma key_order_all:
  "''agentDisplayName'' \<le> ''agentHost''" "''agentDisplayName'' \<le> ''limit''" "''agentDisplayName'' \<le> ''offset''"
  "''agentDisplayName'' \<le> ''protocol''" "''agentDisplayName'' \<le> ''status''" "''agentDisplayName'' \<le> ''version''"
  "''agentHost'' \<le> ''limit''" "''agentHost'' \<le> ''offset''" "''agentHost'' \<le> ''protocol''" "''agentHost'' \<le> ''status''"
  "''agentHost'' \<le> ''version''" "''limit'' \<le> ''offset''" "''limit'' \<le> ''protocol''" "''limit'' \<le> ''status''"
  "''limit'' \<le> ''version''" "''offset'' \<le> ''protocol''" "''offset'' \<le> ''status''" "''offset'' \<le> ''version''"
  "''protocol'' \<le> ''status''" "''protocol'' \<le> ''version''" "''status'' \<le> ''version''"
  by code_simp+

lemma sort_key_unique:
  assumes "mset xs = mset ys" "sorted (map fst ys)" "distinct (map fst ys)"
  shows "sort_key fst xs = (ys :: ('a::linorder \<times> 'b) list)"
proof (rule properties_for_sort_key)
  show "mset ys = mset xs" using assms(1) by simp
  fix k assume "k \<in> set ys"
  have m: "mset (filter (\<lambda>x. fst k = fst x) ys) = mset (filter (\<lambda>x. fst k = fst x) xs)"
    using assms(1) by simp
  have "length (filter (\<lambda>x. fst k = fst x) ys) \<le> 1"
    using assms(3) by (induction ys) (auto simp: filter_empty_conv image_iff)
  then show "filter (\<lambda>x. fst k = fst x) ys = filter (\<lambda>x. fst k = fst x) xs"
    using m by (cases "filter (\<lambda>x. fst k = fst x) ys"; cases "filter (\<lambda>x. fst k = fst x) xs") auto
qed (rule assms(2))

lemma flat_search_params: "flat_values (search_params c) = search_pairs c"
proof -
  let ?ys = "opt_pair (sg_name c \<noteq> []) ''agentDisplayName'' [sg_name c]
     @ opt_pair (sg_host c \<noteq> []) ''agentHost'' [sg_host c]
     @ opt_pair (sg_limit c > 0) ''limit'' [show_nat (nat (sg_limit c))]
     @ opt_pair (sg_offset c > 0) ''offset'' [show_nat (nat (sg_offset c))]
     @ opt_pair (sg_protocol c \<noteq> []) ''protocol'' [sg_protocol c]
     @ opt_pair (sg_statuses c \<noteq> []) ''status'' (sg_statuses c)
     @ opt_pair (sg_version c \<noteq> []) ''version'' [sg_version c]"
  have "sort_key fst (search_params c) = ?ys"
  proof (rule sort_key_unique)
    show "mset (search_params c) = mset ?ys" by (simp add: search_params_eq ac_simps)
    show "sorted (map fst ?ys)" by (simp add: sorted_append image_Un key_order_all)
    show "distinct (map fst ?ys)" by (simp add: image_Un)
  qed
  moreover have "concat (map (\<lambda>(k, vs). map (\<lambda>v. (k, v)) vs) (opt_pair b k [v])) = opt_pair b k v" for b and k v :: string
    by (simp add: opt_pair_def)
  moreover have "concat (map (\<lambda>(k, vs). map (\<lambda>v. (k, v)) vs) (opt_pair (ss \<noteq> []) k ss)) = map (Pair k) ss" for k :: string and ss :: "string list"
    by (simp add: opt_pair_def)
  ultimately show ?thesis by (simp add: flat_values_def search_pairs_def)
qed

section \<open>What a search may ask for\<close>

inductive sdk_search_option :: "search_option \<Rightarrow> bool" where
  "sdk_search_option (with_search_name x)"
| "sdk_search_option (with_search_host x)"
| "sdk_search_option (with_search_version x)"
| "sdk_search_option (with_search_protocol x)"
| "sdk_search_option (with_search_status ss)"
| "sdk_search_option (with_search_limit n)"
| "sdk_search_option (with_search_offset n)"

definition wf_search :: "search_config \<Rightarrow> bool" where
  "wf_search c =
     ((sg_protocol c = [] \<or> is_valid_agent_protocol (sg_protocol c))
      \<and> list_all is_valid_lifecycle_status (sg_statuses c)
      \<and> 0 \<le> sg_limit c \<and> sg_limit c \<le> max_search_limit \<and> 0 \<le> sg_offset c)"

lemmas search_option_defs =
  with_search_name_def with_search_host_def with_search_version_def with_search_protocol_def
  with_search_status_def with_search_limit_def with_search_offset_def bad_def

lemma sdk_search_option_wf: "sdk_search_option opt \<Longrightarrow> wf_search c \<Longrightarrow> opt c = Inr c' \<Longrightarrow> wf_search c'"
  by (induction rule: sdk_search_option.induct)
    (auto simp: search_option_defs wf_search_def find_None_iff list_all_iff split: if_splits option.splits)

lemma apply_search_wf:
  "apply_search opts c = Inr c' \<Longrightarrow> list_all sdk_search_option opts \<Longrightarrow> wf_search c \<Longrightarrow> wf_search c'"
  by (induction opts c rule: apply_search.induct) (auto split: sum.splits dest: sdk_search_option_wf)

lemma zero_search_wf: "wf_search zero_search"
  by (simp add: wf_search_def zero_search_def max_search_limit_def)

section \<open>What a request sends and what comes back\<close>

text \<open>
  One authenticated exchange: the request that was sent, the answer, and the bytes read of it.
\<close>

definition exchanged ::
  "api_env \<Rightarrow> client_config \<Rightarrow> string \<Rightarrow> string \<Rightarrow> json option \<Rightarrow> api_request \<Rightarrow> http_response \<Rightarrow> bytes \<Rightarrow> bool" where
  "exchanged env c meth path body req r b \<longleftrightarrow>
     (\<exists>auth. authorization_header c (av_now env) = Inr auth
           \<and> req = \<lparr>aq_method = meth, aq_url = cc_base_url c @ path, aq_header = set_request_headers auth,
                    aq_body = prepare_request_body body\<rparr>)
     \<and> exchange env (cc_client c) req = Inr r \<and> read_limited_body r = Inr b"

lemma do_request_Inr:
  "do_request env c meth path body d zero = Inr x \<longleftrightarrow>
     (\<exists>req r b. exchanged env c meth path body req r b \<and> hr_status r < 400 \<and> parse_success_response d zero b = Inr x)"
  by (auto simp: do_request_def exchanged_def http_do_request_Inr request_of_def split: sum.splits)

lemma do_request_response:
  "do_request env c meth path body d zero = Inl (Api_Response e) \<longleftrightarrow>
     (\<exists>req r b. exchanged env c meth path body req r b \<and> 400 \<le> hr_status r
              \<and> e = handle_error_response (hr_status r) b)"
  by (auto simp: do_request_def exchanged_def http_do_request_response request_of_def authorization_header_def bad_def
      split: sum.splits option.splits if_splits)

lemma exchanged_header:
  "exchanged env c meth path body req r b \<Longrightarrow> wf_client c \<Longrightarrow>
     (\<exists>auth. auth_scheme auth \<and> aq_header req ''Authorization'' = (if auth = [] then None else Some [auth]))"
  unfolding exchanged_def using authorization_header_Inr set_request_headers_auth(1) by fastforce

lemma requiring_Inr: "requiring ps m = Inr x \<longleftrightarrow> (\<forall>p\<in>set ps. snd p \<noteq> []) \<and> m = Inr x"
  by (induction ps) (auto simp: requiring_def validate_required_def bad_def split: option.splits if_splits)

lemma requiring_response:
  "requiring ps m = Inl (Api_Response e) \<longleftrightarrow> (\<forall>p\<in>set ps. snd p \<noteq> []) \<and> m = Inl (Api_Response e)"
  by (induction ps) (auto simp: requiring_def validate_required_def bad_def split: option.splits if_splits)

lemma register_agent_Inr:
  "register_agent env c req = Inr p \<longleftrightarrow>
     (\<exists>r. req = Some r \<and> (rr_profiles r \<noteq> [] \<longrightarrow> cc_api_version c = APIVersionV2)
        \<and> do_request env c ''POST'' (register_path c) (Some (enc_registration r)) (dec_pending (av_time env)) zero_pending
          = Inr p)"
  by (auto simp: register_agent_def bad_def split: option.splits if_splits)

text \<open>The request a registration goes out with.\<close>

lemma register_agent_sent:
  assumes "register_agent env c req = Inr pending"
  shows "\<exists>r q. req = Some r \<and> (rr_profiles r \<noteq> [] \<longrightarrow> cc_api_version c = APIVersionV2)
     \<and> aq_method q = ''POST'' \<and> aq_url q = cc_base_url c @ register_path c \<and> av_send env q \<noteq> None
     \<and> (registration_utf8 r \<longrightarrow> unmarshal dec_registration zero_registration (aq_body q) = Some r)"
proof -
  obtain r where r: "req = Some r" "rr_profiles r \<noteq> [] \<longrightarrow> cc_api_version c = APIVersionV2"
    "do_request env c ''POST'' (register_path c) (Some (enc_registration r)) (dec_pending (av_time env)) zero_pending
      = Inr pending"
    using assms by (auto simp: register_agent_Inr)
  obtain q a b where q: "exchanged env c ''POST'' (register_path c) (Some (enc_registration r)) q a b"
    using r(3) unfolding do_request_Inr by blast
  then have "aq_method q = ''POST''" "aq_url q = cc_base_url c @ register_path c"
    "aq_body q = json_print (enc_registration r)" "av_send env q \<noteq> None"
    by (auto simp: exchanged_def exchange_Inr prepare_request_body_def)
  with r show ?thesis
    by (intro exI [of _ r] exI [of _ q]) (simp add: unmarshal_registration)
qed

text \<open>The upgrade of a 422 answer.\<close>

lemma do_request_not_dns: "do_request env c meth path body d zero \<noteq> Inl (Api_Dns x)"
  by (auto simp: do_request_def http_do_request_def exchange_def read_limited_body_def parse_success_response_def
      authorization_header_def bad_def split: sum.splits option.splits if_splits)

lemma verify_dns_error:
  "verify_dns env c i = Inl (Api_Dns d) \<longleftrightarrow>
     (i \<noteq> [] \<and> (\<exists>e d'. do_request env c ''POST'' (agent_path c i [''verify-dns'']) None
                  (dec_status_info (av_time env)) zero_status_info = Inl (Api_Response e)
        \<and> re_status_code e = 422 \<and> re_raw_body e \<noteq> []
        \<and> unmarshal dec_dns_error zero_dns_error (re_raw_body e) = Some d'
        \<and> d = d'\<lparr>dv_response := Some e\<rparr>))"
proof -
  let ?r = "do_request env c ''POST'' (agent_path c i [''verify-dns'']) None (dec_status_info (av_time env)) zero_status_info"
  have r: "requiring [(''agentID'', i)] m = (if i = [] then bad (Empty_Parameter ''agentID'') else m)" for m :: "api_error + 'x"
    by (simp add: requiring_def validate_required_def)
  have "map_error as_dns_verification_error ?r = Inl (Api_Dns d) \<longleftrightarrow>
      (\<exists>e. ?r = Inl e \<and> as_dns_verification_error e = Api_Dns d)" by (cases ?r) auto
  moreover have "as_dns_verification_error e = Api_Dns d \<longleftrightarrow> e = Api_Dns d \<or> (\<exists>x d'. e = Api_Response x \<and> re_status_code x = 422
      \<and> re_raw_body x \<noteq> [] \<and> unmarshal dec_dns_error zero_dns_error (re_raw_body x) = Some d' \<and> d = d'\<lparr>dv_response := Some x\<rparr>)" for e
    by (cases e) (auto simp: as_dns_verification_error_def split: option.splits)
  moreover have "?r \<noteq> Inl (Api_Dns d)" by (rule do_request_not_dns)
  ultimately show ?thesis
    unfolding verify_dns_def r by (auto simp: bad_def)
qed

end
