(* ===== verification/Api_Samples.thy ===== *)
theory Api_Samples
  imports Samples Agent_Client Api_Client_Lemmas
begin

text \<open>
  Concrete surroundings of the API clients, for the theorems that apply the general ones.
\<close>

section \<open>An agent that answers\<close>

definition sample_x509 :: x509_cert where
  "sample_x509 = \<lparr>x_subject_cn = ''a.io'', x_dns_names = [''a.io''], x_uris = [''ans://v1.0.0.a.io''], x_raw = sample_fp,
     x_raw_spki = ''spki'', x_not_before = 0, x_not_after = 1\<rparr>"

definition sample_answer :: agent_answer where
  "sample_answer = \<lparr>hr_status = 200, hr_header = Map.empty, hr_body = ''true'', hr_broken = False,
     an_peer_certs = [sample_x509]\<rparr>"

definition sample_agent_env :: "nat agent_env" where
  "sample_agent_env = \<lparr>ae_prefetch = sample_env, ae_verify = sample_env, ae_send = (\<lambda>_. Some sample_answer),
     ae_resolve = (\<lambda>_ loc. Some loc), ae_carry = (\<lambda>h _ _. h), ae_bracket_ok = (\<lambda>_. True)\<rparr>"

definition sample_agent :: "nat agent_client" where
  "sample_agent = \<lparr>ac_config = default_agent_config, ac_verifier = sample_config\<rparr>"

definition sample_agent_url :: url where
  "sample_agent_url = empty_url\<lparr>url_scheme := ''https'', url_host := ''a.io'', url_path := ''/x''\<rparr>"

lemma sample_agent_simps [simp]:
  "ae_prefetch sample_agent_env = sample_env" "ae_verify sample_agent_env = sample_env"
  "ae_send sample_agent_env req = Some sample_answer" "ae_bracket_ok sample_agent_env = (\<lambda>_. True)"
  "ac_config sample_agent = default_agent_config" "ac_verifier sample_agent = sample_config"
  "an_peer_certs sample_answer = [sample_x509]" "en_sha256 sample_env = sample_hash"
  by (simp_all add: sample_agent_env_def sample_agent_def sample_answer_def sample_env_def)

lemma sample_exchange: "agent_exchange sample_agent_env q = (Some sample_answer, [q])"
  by (rule agent_exchange_once) (simp_all add: sample_answer_def redirect_behavior_def)

lemma sample_agent_parse:
  "url_parse (\<lambda>_. True) ''https://a.io/x'' = Some sample_agent_url"
  "url_hostname sample_agent_url = ''a.io''" "url_scheme sample_agent_url = ''https''"
  "new_fqdn ''a.io'' = Inr (Fqdn ''a.io'')"
  by code_simp+

lemma sample_x509_identity:
  "ci_fingerprint (cert_identity_from_x509 sample_hash sample_x509) = Cert_Fingerprint sample_fp"
  "cert_fqdn (cert_identity_from_x509 sample_hash sample_x509) = Some ''a.io''"
  by (simp_all add: cert_identity_from_x509_def sample_x509_def fp_from_der_def sample_hash_def sample_fp_def cert_fqdn_def)

lemma sample_x509_vouched:
  "vouches_server sample_unicode vouching_badge (cert_identity_from_x509 sample_hash sample_x509) (Fqdn ''a.io'')"
  using sample_x509_identity
  by (simp add: vouches_server_def badge_status_valid_def badge_status_defs del: equal_fold.simps)

lemma sample_agent_answered:
  "fst (agent_do sample_agent_env (sample_agent\<lparr>ac_verifier := sample_config\<lparr>vc_dane := d\<rparr>\<rparr>) ''GET'' ''https://a.io/x'' None)
     = Inr \<lparr>ar_answer = sample_answer, ar_outcome = Some (verified_with_warning vouching_badge (Cert_Fingerprint sample_fp))\<rparr>"
proof -
  have "fst (agent_do sample_agent_env (sample_agent\<lparr>ac_verifier := ac_verifier sample_agent\<lparr>vc_dane := d\<rparr>\<rparr>)
      ''GET'' ''https://a.io/x'' None)
     = Inr \<lparr>ar_answer = sample_answer, ar_outcome = Some (verified_with_warning vouching_badge
         (ci_fingerprint (cert_identity_from_x509 (en_sha256 (ae_verify sample_agent_env)) sample_x509)))\<rparr>"
    by (rule agent_do_prefetched [where u = sample_agent_url and f = "Fqdn ''a.io''" and iter = "\<lambda>ks. ks" and now = 1
          and now' = 2 and rest = "[]" and bc = "new_badge_cache default_cache_config"])
      (simp_all add: sample_exchange sample_agent_parse default_agent_config_def sample_x509_vouched new_badge_cache_def
        default_cache_config_def cache_ok_def map_ok_def cache_size_def nanos_per_minute_def get_by_fqdn_def
        server_fetch_badge_def fetch_badge_eq validate_badge_url_def, simp_all add: sample_env_def)
  then show ?thesis by (simp add: sample_x509_identity)
qed

lemma sample_answer_value: "parse_value 12 max_nesting_depth ''true'' = Some (JBool True, [])"
  by code_simp

section \<open>A registry that answers\<close>

definition sample_api_env :: api_env where
  "sample_api_env = \<lparr>av_bracket_ok = (\<lambda>_. True),
     av_send = (\<lambda>req. Some \<lparr>hr_status = 200, hr_header = Map.empty,
        hr_body = (if aq_method req = ''POST'' then ''{}'' else ''true''), hr_broken = False\<rparr>),
     av_time = (\<lambda>_. Some 0), av_now = 0\<rparr>"

lemma sample_bodies:
  "unmarshal dec_bool False ''true'' = Some True"
  "json_parse ''{}'' = Some (JObj [])"
  by code_simp+

lemma sample_api_urls:
  "url_parse (\<lambda>_. True) ''https://api.godaddy.com/v1/agents'' \<noteq> None"
  "url_parse (\<lambda>_. True) ''https://api.godaddy.com/v2/ans/agents'' \<noteq> None"
  by code_simp+

lemma sample_api_request:
  "do_request sample_api_env (default_client_config\<lparr>cc_auth_header := ''Bearer tok'', cc_token_source := None\<rparr>)
     ''GET'' ''/v1/agents'' None dec_bool False = Inr True"
  using sample_api_urls sample_bodies
  by (simp add: do_request_def authorization_header_def http_do_request_def exchange_def request_of_def
      default_client_config_def sample_api_env_def read_limited_body_def parse_success_response_def
      max_response_body_bytes_def)

definition sample_registration :: registration_request where
  "sample_registration = zero_registration\<lparr>rr_host := ''a.io'', rr_profiles := [''ANS_TXT'']\<rparr>"

lemma sample_registration_utf8: "registration_utf8 sample_registration"
  by (simp add: registration_utf8_def sample_registration_def zero_registration_def utf8_valid_ascii is_ascii_def
      byte_val_def)

lemma sample_registered:
  "register_agent sample_api_env (default_client_config\<lparr>cc_api_version := APIVersionV2\<rparr>) (Some sample_registration)
     = Inr zero_pending"
proof -
  have "unmarshal (dec_pending (\<lambda>_. Some 0)) zero_pending ''{}'' = Some zero_pending"
    by (simp add: unmarshal_def sample_bodies dec_pending_def into_def field_Nil)
  then show ?thesis
    using sample_api_urls
    by (simp add: register_agent_def do_request_def authorization_header_def http_do_request_def exchange_def request_of_def
        default_client_config_def sample_api_env_def read_limited_body_def parse_success_response_def
        max_response_body_bytes_def register_path_def)
qed

end
