(* ===== verification/Cli_Config.thy ===== *)
theory Cli_Config
  imports Api_Client_Lemmas
begin

text \<open>
  The configuration of the command line and the parsing of its flags: \<open>cmd/ans-cli/internal/config\<close>,
  \<open>cmd/ans-cli/cmd/client.go\<close> and \<open>cmd/ans-cli/cmd/functions.go\<close>. What \<open>viper\<close> answers for a key (flag,
  environment variable or default), the files and standard input are parameters.
\<close>

section \<open>Settings\<close>

record cli_settings =
  vp_string :: "string \<Rightarrow> string"
  vp_bool :: "string \<Rightarrow> bool"
  vp_is_set :: "string \<Rightarrow> bool"

text \<open>A file that cannot be read, or standard input that breaks, is \<open>None\<close>.\<close>

record cli_files =
  fl_read :: "string \<Rightarrow> bytes option"
  fl_stdin :: "bytes option"

record cli_config =
  cf_base_url :: string
  cf_api_key :: string
  cf_token :: string
  cf_token_from_deprecated_name :: bool
  cf_deprecated_token_ignored :: bool
  cf_api_version :: string
  cf_verbose :: bool
  cf_json :: bool

datatype config_error =
  Token_File_Empty_Path
  | Token_File_And_Oauth_Token
  | Token_File_Unreadable
  | Token_File_No_Token string
  | ErrNoCredentials
  | Api_Key_Format

definition read_token_file :: "cli_files \<Rightarrow> string \<Rightarrow> config_error + string" where
  "read_token_file fs path =
     (case (if path = ''-'' then fl_stdin fs else fl_read fs path) of
        None \<Rightarrow> Inl Token_File_Unreadable
      | Some data \<Rightarrow>
          let token = trim_space data in
          if token = [] then Inl (Token_File_No_Token path) else Inr token)"

definition resolve_token :: "cli_settings \<Rightarrow> cli_files \<Rightarrow> cli_config \<Rightarrow> config_error + cli_config" where
  "resolve_token v fs c =
     (let token_file = vp_string v ''token-file'' in
      if vp_is_set v ''token-file'' \<and> trim_space token_file = [] then Inl Token_File_Empty_Path
      else let legacy_flag = trim_space (vp_string v ''oauth-token'');
               env_token = trim_space (vp_string v ''token'');
               legacy_env = trim_space (vp_string v ''oauth-token-env'')
      in if token_file \<noteq> [] \<and> legacy_flag \<noteq> [] then Inl Token_File_And_Oauth_Token
         else if token_file \<noteq> [] then
           (case read_token_file fs token_file of Inl e \<Rightarrow> Inl e | Inr token \<Rightarrow> Inr (c\<lparr>cf_token := token\<rparr>))
         else if legacy_flag \<noteq> [] then Inr (c\<lparr>cf_token := legacy_flag, cf_token_from_deprecated_name := True\<rparr>)
         else if env_token \<noteq> [] then
           Inr (c\<lparr>cf_token := env_token, cf_deprecated_token_ignored := (legacy_env \<noteq> [] \<and> legacy_env \<noteq> env_token)\<rparr>)
         else if legacy_env \<noteq> [] then Inr (c\<lparr>cf_token := legacy_env, cf_token_from_deprecated_name := True\<rparr>)
         else Inr c)"

definition load_config :: "unicode \<Rightarrow> cli_settings \<Rightarrow> cli_files \<Rightarrow> config_error + cli_config" where
  "load_config u v fs =
     (let cfg = \<lparr>cf_base_url = vp_string v ''base-url'', cf_api_key = vp_string v ''api-key'', cf_token = [],
                 cf_token_from_deprecated_name = False, cf_deprecated_token_ignored = False,
                 cf_api_version = to_lower u (trim_space (vp_string v ''api-version'')),
                 cf_verbose = vp_bool v ''verbose'', cf_json = vp_bool v ''json''\<rparr>;
          cfg = (if cf_api_version cfg = [] then cfg\<lparr>cf_api_version := ''v1''\<rparr> else cfg)
      in resolve_token v fs cfg)"

definition require_credentials :: "cli_config \<Rightarrow> config_error option" where
  "require_credentials c = (if cf_token c = [] \<and> cf_api_key c = [] then Some ErrNoCredentials else None)"

section \<open>The client\<close>

definition api_key_parts :: nat where
  "api_key_parts = 2"

definition auth_option :: "cli_config \<Rightarrow> config_error + client_option \<times> string" where
  "auth_option c =
     (if cf_token c \<noteq> [] then Inr (with_bearer_token (cf_token c), ''bearer token'')
      else if cf_api_key c = [] then Inl ErrNoCredentials
      else let parts = split_n api_key_parts (CHR '':'') (cf_api_key c) in
           if length parts \<noteq> api_key_parts then Inl Api_Key_Format
           else Inr (with_api_key (parts ! 0) (parts ! 1), ''API key''))"

text \<open>The notes on standard error name the method, never the credential.\<close>

datatype client_note = Deprecated_Name | Deprecated_Ignored | Both_Credentials | Using_Method string

definition client_notes :: "cli_config \<Rightarrow> string \<Rightarrow> client_note list" where
  "client_notes c method =
     (if cf_token_from_deprecated_name c then [Deprecated_Name] else [])
     @ (if cf_deprecated_token_ignored c then [Deprecated_Ignored] else [])
     @ (if cf_token c \<noteq> [] \<and> cf_api_key c \<noteq> [] then [Both_Credentials] else [])
     @ (if cf_verbose c then [Using_Method method] else [])"

datatype client_failure = Bad_Config config_error | Bad_Client api_error

definition create_client :: "cli_config \<Rightarrow> (client_failure + client_config) \<times> client_note list" where
  "create_client c =
     (case auth_option c of
        Inl e \<Rightarrow> (Inl (Bad_Config e), [])
      | Inr (auth_opt, method) \<Rightarrow>
          (map_error Bad_Client
             (new_client [with_base_url (cf_base_url c), with_verbose (cf_verbose c),
                with_api_version (cf_api_version c), auth_opt]),
           client_notes c method))"

section \<open>The function flag\<close>

definition max_function_id_length :: nat where "max_function_id_length = 64"
definition max_function_name_length :: nat where "max_function_name_length = 64"
definition max_function_tags :: nat where "max_function_tags = 5"
definition max_function_tag_length :: nat where "max_function_tag_length = 20"
definition min_function_parts :: nat where "min_function_parts = 2"
definition max_function_parts :: nat where "max_function_parts = 3"

datatype function_error =
  ErrInvalidFunctionFormat
  | Function_ID_Required
  | Function_Name_Required
  | Function_ID_Too_Long
  | Function_Name_Too_Long
  | Function_Too_Many_Tags
  | Function_Tag_Too_Long nat
  | Function_Duplicate_ID string

definition parse_function_flag :: "string \<Rightarrow> function_error + agent_function" where
  "parse_function_flag flag =
     (let val = trim_space flag in
      if val = [] then Inl ErrInvalidFunctionFormat
      else let parts = split_n max_function_parts (CHR '':'') val in
      if length parts < min_function_parts then Inl ErrInvalidFunctionFormat
      else let i = trim_space (parts ! 0); name = trim_space (parts ! 1) in
      if i = [] then Inl Function_ID_Required
      else if name = [] then Inl Function_Name_Required
      else let fn = \<lparr>fn_id = i, fn_name = name, fn_tags = []\<rparr> in
      if length parts = max_function_parts \<and> trim_space (parts ! 2) \<noteq> [] then
        (let tags = filter (\<lambda>t. t \<noteq> []) (map trim_space (split_on (CHR '','') (parts ! 2))) in
         Inr (if length tags > 0 then fn\<lparr>fn_tags := tags\<rparr> else fn))
      else Inr fn)"

text \<open>The index of the first tag that is too long.\<close>

fun long_tag :: "nat \<Rightarrow> string list \<Rightarrow> function_error option" where
  "long_tag i [] = None"
| "long_tag i (t # ts) =
     (if length t > max_function_tag_length then Some (Function_Tag_Too_Long i) else long_tag (Suc i) ts)"

definition validate_function :: "agent_function \<Rightarrow> function_error option" where
  "validate_function f =
     (if fn_id f = [] then Some Function_ID_Required
      else if length (fn_id f) > max_function_id_length then Some Function_ID_Too_Long
      else if fn_name f = [] then Some Function_Name_Required
      else if length (fn_name f) > max_function_name_length then Some Function_Name_Too_Long
      else if length (fn_tags f) > max_function_tags then Some Function_Too_Many_Tags
      else long_tag 0 (fn_tags f))"

fun parse_functions :: "string list \<Rightarrow> agent_function list \<Rightarrow> string list \<Rightarrow> function_error + agent_function list" where
  "parse_functions seen acc [] = Inr acc"
| "parse_functions seen acc (flag # flags) =
     (case parse_function_flag flag of
        Inl e \<Rightarrow> Inl e
      | Inr fn \<Rightarrow>
     case validate_function fn of
        Some e \<Rightarrow> Inl e
      | None \<Rightarrow>
          if fn_id fn \<in> set seen then Inl (Function_Duplicate_ID (fn_id fn))
          else parse_functions (fn_id fn # seen) (acc @ [fn]) flags)"

definition parse_function_flags :: "string list \<Rightarrow> function_error + agent_function list" where
  "parse_function_flags flags = parse_functions [] [] flags"

section \<open>What the settings lead to\<close>

text \<open>The credential of the configuration: the first source, in the documented order, that has one.\<close>

definition token_of :: "cli_settings \<Rightarrow> cli_files \<Rightarrow> string" where
  "token_of v fs =
     (if vp_string v ''token-file'' \<noteq> [] then
        trim_space (the (if vp_string v ''token-file'' = ''-'' then fl_stdin fs else fl_read fs (vp_string v ''token-file'')))
      else hd (filter (\<lambda>t. t \<noteq> [])
        [trim_space (vp_string v ''oauth-token''), trim_space (vp_string v ''token''),
         trim_space (vp_string v ''oauth-token-env'')] @ [[]]))"

lemma resolve_token_token: "resolve_token v fs c = Inr c' \<Longrightarrow> cf_token c = [] \<Longrightarrow> cf_token c' = token_of v fs"
  by (auto simp: resolve_token_def token_of_def read_token_file_def Let_def split: if_splits option.splits sum.splits)

text \<open>A token file is never passed over: with one set, the token is the file's or there is none at all.\<close>

lemma resolve_token_file:
  "resolve_token v fs c = Inr c' \<Longrightarrow> vp_is_set v ''token-file'' \<or> vp_string v ''token-file'' \<noteq> [] \<Longrightarrow>
     read_token_file fs (vp_string v ''token-file'') = Inr (cf_token c')
     \<and> trim_space (vp_string v ''oauth-token'') = []"
  by (auto simp: resolve_token_def Let_def trim_space_def trim_left_def split: if_splits sum.splits)

lemma load_config_fields:
  "load_config u v fs = Inr c \<Longrightarrow>
     cf_token c = token_of v fs \<and> cf_base_url c = vp_string v ''base-url'' \<and> cf_api_key c = vp_string v ''api-key''
     \<and> cf_api_version c = (let a = to_lower u (trim_space (vp_string v ''api-version'')) in if a = [] then ''v1'' else a)"
proof -
  assume "load_config u v fs = Inr c"
  then obtain cfg where cfg: "resolve_token v fs cfg = Inr c" "cf_token cfg = []" "cf_base_url cfg = vp_string v ''base-url''"
    "cf_api_key cfg = vp_string v ''api-key''"
    "cf_api_version cfg = (let a = to_lower u (trim_space (vp_string v ''api-version'')) in if a = [] then ''v1'' else a)"
    unfolding load_config_def Let_def by (auto split: if_splits)
  moreover have "cf_base_url c = cf_base_url cfg \<and> cf_api_key c = cf_api_key cfg \<and> cf_api_version c = cf_api_version cfg"
    using cfg(1) by (auto simp: resolve_token_def Let_def split: if_splits sum.splits)
  ultimately show ?thesis using resolve_token_token [OF cfg(1,2)] by simp
qed

lemma cut_at_Some: "cut_at c s = Some (a, b) \<Longrightarrow> s = a @ c # b"
  by (induction s arbitrary: a) (auto split: if_splits option.splits)

text \<open>The credential a client carries: the token as a bearer, or the API key as it is.\<close>

lemma create_client_Inr:
  "fst (create_client c) = Inr cc \<longleftrightarrow>
     is_valid_api_version (cf_api_version c)
     \<and> (cf_token c \<noteq> [] \<and> is_valid_bearer_token (cf_token c)
          \<and> cc = default_client_config\<lparr>cc_base_url := cf_base_url c, cc_verbose := cf_verbose c,
                cc_api_version := cf_api_version c, cc_auth_header := ''Bearer '' @ cf_token c\<rparr>
        \<or> cf_token c = [] \<and> CHR '':'' \<in> set (cf_api_key c)
          \<and> cc = default_client_config\<lparr>cc_base_url := cf_base_url c, cc_verbose := cf_verbose c,
                cc_api_version := cf_api_version c, cc_auth_header := ''sso-key '' @ cf_api_key c\<rparr>)"
proof -
  have cut: "(case cut_at (CHR '':'') k of None \<Rightarrow> CHR '':'' \<notin> set k | Some (a, b) \<Rightarrow> k = a @ CHR '':'' # b)" for k
    by (induction k) (auto split: option.splits)
  have s: "split_n 2 (CHR '':'') k = (case cut_at (CHR '':'') k of None \<Rightarrow> [k] | Some (a, b) \<Rightarrow> [a, b])" for k
    by (simp add: numeral_2_eq_2 split: option.split prod.split)
  have "default_client_config\<lparr>cc_token_source := None\<rparr> = default_client_config"
    by (simp add: default_client_config_def)
  then show ?thesis
    using cut [of "cf_api_key c"]
    by (auto simp: create_client_def auth_option_def Let_def api_key_parts_def s new_client_def option_defs
        default_client_config_def split: if_splits option.splits)
qed

section \<open>What the function flags lead to\<close>

text \<open>A function the registry's limits allow.\<close>

definition function_allowed :: "agent_function \<Rightarrow> bool" where
  "function_allowed f =
     (0 < length (fn_id f) \<and> length (fn_id f) \<le> 64 \<and> 0 < length (fn_name f) \<and> length (fn_name f) \<le> 64
      \<and> length (fn_tags f) \<le> 5 \<and> list_all (\<lambda>t. length t \<le> 20) (fn_tags f))"

lemma long_tag_None: "long_tag i ts = None \<longleftrightarrow> list_all (\<lambda>t. length t \<le> 20) ts"
  by (induction ts arbitrary: i) (auto simp: max_function_tag_length_def)

lemma validate_function_None: "validate_function f = None \<longleftrightarrow> function_allowed f"
  by (auto simp: validate_function_def function_allowed_def long_tag_None max_function_id_length_def
      max_function_name_length_def max_function_tags_def)

lemma parse_functions_Inr:
  "parse_functions seen acc flags = Inr fs \<longleftrightarrow>
     (\<exists>new. fs = acc @ new \<and> list_all2 (\<lambda>flag f. parse_function_flag flag = Inr f) flags new
        \<and> list_all function_allowed new \<and> distinct (map fn_id new) \<and> fn_id ` set new \<inter> set seen = {})"
proof (induction flags arbitrary: seen acc)
  case (Cons flag flags)
  show ?case
  proof (cases "parse_function_flag flag")
    case (Inr f)
    show ?thesis
    proof (cases "validate_function f = None \<and> fn_id f \<notin> set seen")
      case True
      then have "validate_function f = None" "function_allowed f" "fn_id f \<notin> set seen"
        by (simp_all add: validate_function_None)
      then show ?thesis
        using Inr Cons.IH [of "fn_id f # seen" "acc @ [f]"] by (auto simp: list_all2_Cons1)
    next
      case False
      then have "\<not> function_allowed f \<or> fn_id f \<in> set seen" by (simp add: validate_function_None)
      then show ?thesis
        using Inr False by (auto simp: list_all2_Cons1 split: option.split)
    qed
  qed (auto simp: list_all2_Cons1)
qed auto

lemma parse_function_flags_Inr:
  "parse_function_flags flags = Inr fs \<longleftrightarrow>
     list_all2 (\<lambda>flag f. parse_function_flag flag = Inr f) flags fs
     \<and> list_all function_allowed fs \<and> distinct (map fn_id fs)"
  by (simp add: parse_function_flags_def parse_functions_Inr)

end
