(* ===== verification/Log_Models.thy ===== *)
theory Log_Models
  imports Rest_Models "HOL-Library.Word"
begin

text \<open>
  The data of the transparency log's API: \<open>models/transparency.go\<close> and \<open>models/transparency_schemas.go\<close>,
  field by field in the order of the struct tags. The event payload of an entry is kept as the generic
  map the code keeps, beside the typed form of its schema version.
\<close>

text \<open>\<open>map[string]string\<close>: a \<open>null\<close> member holds the empty string; \<open>None\<close> is a nil map.\<close>

type_synonym string_map = "(string \<times> string) list option"

fun dec_string_map :: "string_map jdec" where
  "dec_string_map old (JObj kvs) =
     map_option (\<lambda>vs. Some (foldl (\<lambda>m (k, v). AList.update k v m) (case old of Some m \<Rightarrow> m | None \<Rightarrow> [])
         (zip (map fst kvs) vs)))
       (all_some (map (\<lambda>kv. dec_string [] (snd kv)) kvs))"
| "dec_string_map old JNull = Some None"
| "dec_string_map old _ = None"

section \<open>Schema V1\<close>

record certificate_v1 =
  cf_fingerprint :: string
  cf_type :: string

definition zero_cert_v1 :: certificate_v1 where
  "zero_cert_v1 = \<lparr>cf_fingerprint = [], cf_type = []\<rparr>"

definition dec_cert_v1 :: "certificate_v1 jdec" where
  "dec_cert_v1 = dec_struct
     [into ''fingerprint'' dec_string cf_fingerprint (\<lambda>x s. s\<lparr>cf_fingerprint := x\<rparr>),
      into ''type'' dec_string cf_type (\<lambda>x s. s\<lparr>cf_type := x\<rparr>)]"

record certificate_v1_extended =
  cx_fingerprint :: string
  cx_type :: string
  cx_not_after :: "int option"

definition zero_cert_v1_ext :: certificate_v1_extended where
  "zero_cert_v1_ext = \<lparr>cx_fingerprint = [], cx_type = [], cx_not_after = None\<rparr>"

definition dec_cert_v1_ext :: "time_parser \<Rightarrow> certificate_v1_extended jdec" where
  "dec_cert_v1_ext p = dec_struct
     [into ''fingerprint'' dec_string cx_fingerprint (\<lambda>x s. s\<lparr>cx_fingerprint := x\<rparr>),
      into ''type'' dec_string cx_type (\<lambda>x s. s\<lparr>cx_type := x\<rparr>),
      into ''notAfter'' (dec_opt zero_time (dec_time p)) cx_not_after (\<lambda>x s. s\<lparr>cx_not_after := x\<rparr>)]"

record attestations_v1 =
  av1_dns_records :: string_map
  av1_domain_validation :: "string option"
  av1_identity_cert :: "certificate_v1 option"
  av1_metadata_hashes :: string_map
  av1_server_cert :: "certificate_v1 option"
  av1_valid_identity_certs :: "certificate_v1_extended list"
  av1_valid_server_certs :: "certificate_v1_extended list"

definition zero_attestations_v1 :: attestations_v1 where
  "zero_attestations_v1 = \<lparr>av1_dns_records = None, av1_domain_validation = None, av1_identity_cert = None,
     av1_metadata_hashes = None, av1_server_cert = None, av1_valid_identity_certs = [], av1_valid_server_certs =
     []\<rparr>"

definition dec_attestations_v1 :: "time_parser \<Rightarrow> attestations_v1 jdec" where
  "dec_attestations_v1 p = dec_struct
     [into ''dnsRecordsProvisioned'' dec_string_map av1_dns_records (\<lambda>x s. s\<lparr>av1_dns_records := x\<rparr>),
      into ''domainValidation'' (dec_opt [] dec_string) av1_domain_validation (\<lambda>x s. s\<lparr>av1_domain_validation := x\<rparr>),
      into ''identityCert'' (dec_opt zero_cert_v1 dec_cert_v1) av1_identity_cert (\<lambda>x s. s\<lparr>av1_identity_cert := x\<rparr>),
      into ''metadataHashes'' dec_string_map av1_metadata_hashes (\<lambda>x s. s\<lparr>av1_metadata_hashes := x\<rparr>),
      into ''serverCert'' (dec_opt zero_cert_v1 dec_cert_v1) av1_server_cert (\<lambda>x s. s\<lparr>av1_server_cert := x\<rparr>),
      into ''validIdentityCerts'' (dec_list zero_cert_v1_ext (dec_cert_v1_ext p)) av1_valid_identity_certs (\<lambda>x s. s\<lparr>av1_valid_identity_certs := x\<rparr>),
      into ''validServerCerts'' (dec_list zero_cert_v1_ext (dec_cert_v1_ext p)) av1_valid_server_certs (\<lambda>x s. s\<lparr>av1_valid_server_certs := x\<rparr>)]"

record agent_v1 =
  ag1_host :: string
  ag1_name :: "string option"
  ag1_version :: string
  ag1_provider_id :: "string option"

definition zero_agent_v1 :: agent_v1 where
  "zero_agent_v1 = \<lparr>ag1_host = [], ag1_name = None, ag1_version = [], ag1_provider_id = None\<rparr>"

definition dec_agent_v1 :: "agent_v1 jdec" where
  "dec_agent_v1 = dec_struct
     [into ''host'' dec_string ag1_host (\<lambda>x s. s\<lparr>ag1_host := x\<rparr>),
      into ''name'' (dec_opt [] dec_string) ag1_name (\<lambda>x s. s\<lparr>ag1_name := x\<rparr>),
      into ''version'' dec_string ag1_version (\<lambda>x s. s\<lparr>ag1_version := x\<rparr>),
      into ''providerId'' (dec_opt [] dec_string) ag1_provider_id (\<lambda>x s. s\<lparr>ag1_provider_id := x\<rparr>)]"

record event_v1 =
  e1_ans_id :: string
  e1_ans_name :: string
  e1_event_type :: string
  e1_agent :: agent_v1
  e1_attestations :: attestations_v1
  e1_expires_at :: "int option"
  e1_issued_at :: int
  e1_ra_id :: string
  e1_renewal_status :: "string option"
  e1_revocation_reason :: "string option"
  e1_revoked_at :: "int option"
  e1_timestamp :: int

definition zero_event_v1 :: event_v1 where
  "zero_event_v1 = \<lparr>e1_ans_id = [], e1_ans_name = [], e1_event_type = [], e1_agent = zero_agent_v1,
     e1_attestations = zero_attestations_v1, e1_expires_at = None, e1_issued_at = zero_time, e1_ra_id = [],
     e1_renewal_status = None, e1_revocation_reason = None, e1_revoked_at = None, e1_timestamp = zero_time\<rparr>"

definition dec_event_v1 :: "time_parser \<Rightarrow> event_v1 jdec" where
  "dec_event_v1 p = dec_struct
     [into ''ansId'' dec_string e1_ans_id (\<lambda>x s. s\<lparr>e1_ans_id := x\<rparr>),
      into ''ansName'' dec_string e1_ans_name (\<lambda>x s. s\<lparr>e1_ans_name := x\<rparr>),
      into ''eventType'' dec_string e1_event_type (\<lambda>x s. s\<lparr>e1_event_type := x\<rparr>),
      into ''agent'' dec_agent_v1 e1_agent (\<lambda>x s. s\<lparr>e1_agent := x\<rparr>),
      into ''attestations'' (dec_attestations_v1 p) e1_attestations (\<lambda>x s. s\<lparr>e1_attestations := x\<rparr>),
      into ''expiresAt'' (dec_opt zero_time (dec_time p)) e1_expires_at (\<lambda>x s. s\<lparr>e1_expires_at := x\<rparr>),
      into ''issuedAt'' (dec_time p) e1_issued_at (\<lambda>x s. s\<lparr>e1_issued_at := x\<rparr>),
      into ''raId'' dec_string e1_ra_id (\<lambda>x s. s\<lparr>e1_ra_id := x\<rparr>),
      into ''renewalStatus'' (dec_opt [] dec_string) e1_renewal_status (\<lambda>x s. s\<lparr>e1_renewal_status := x\<rparr>),
      into ''revocationReasonCode'' (dec_opt [] dec_string) e1_revocation_reason (\<lambda>x s. s\<lparr>e1_revocation_reason := x\<rparr>),
      into ''revokedAt'' (dec_opt zero_time (dec_time p)) e1_revoked_at (\<lambda>x s. s\<lparr>e1_revoked_at := x\<rparr>),
      into ''timestamp'' (dec_time p) e1_timestamp (\<lambda>x s. s\<lparr>e1_timestamp := x\<rparr>)]"

record producer_v1 =
  p1_event :: event_v1
  p1_key_id :: string
  p1_signature :: string

definition zero_producer_v1 :: producer_v1 where
  "zero_producer_v1 = \<lparr>p1_event = zero_event_v1, p1_key_id = [], p1_signature = []\<rparr>"

definition dec_producer_v1 :: "time_parser \<Rightarrow> producer_v1 jdec" where
  "dec_producer_v1 p = dec_struct
     [into ''event'' (dec_event_v1 p) p1_event (\<lambda>x s. s\<lparr>p1_event := x\<rparr>),
      into ''keyId'' dec_string p1_key_id (\<lambda>x s. s\<lparr>p1_key_id := x\<rparr>),
      into ''signature'' dec_string p1_signature (\<lambda>x s. s\<lparr>p1_signature := x\<rparr>)]"

record log_v1 =
  l1_log_id :: string
  l1_producer :: producer_v1

definition zero_log_v1 :: log_v1 where
  "zero_log_v1 = \<lparr>l1_log_id = [], l1_producer = zero_producer_v1\<rparr>"

definition dec_log_v1 :: "time_parser \<Rightarrow> log_v1 jdec" where
  "dec_log_v1 p = dec_struct
     [into ''logId'' dec_string l1_log_id (\<lambda>x s. s\<lparr>l1_log_id := x\<rparr>),
      into ''producer'' (dec_producer_v1 p) l1_producer (\<lambda>x s. s\<lparr>l1_producer := x\<rparr>)]"

section \<open>Schema V0\<close>

record attestations_v0 =
  av0_client_fp :: "string option"
  av0_csr_submission :: "string option"
  av0_dns_records :: string_map
  av0_dns_status :: "string option"
  av0_dnssec_status :: "string option"
  av0_domain_validation :: "string option"
  av0_validation_status :: "string option"
  av0_identity_cert_type :: "string option"
  av0_protocol_extensions :: "string option"
  av0_server_fp :: "string option"
  av0_server_cert_type :: "string option"

definition zero_attestations_v0 :: attestations_v0 where
  "zero_attestations_v0 = \<lparr>av0_client_fp = None, av0_csr_submission = None, av0_dns_records = None,
     av0_dns_status = None, av0_dnssec_status = None, av0_domain_validation = None, av0_validation_status = None,
     av0_identity_cert_type = None, av0_protocol_extensions = None, av0_server_fp = None, av0_server_cert_type =
     None\<rparr>"

definition dec_attestations_v0 :: "attestations_v0 jdec" where
  "dec_attestations_v0 = dec_struct
     [into ''clientCertFingerprint'' (dec_opt [] dec_string) av0_client_fp (\<lambda>x s. s\<lparr>av0_client_fp := x\<rparr>),
      into ''csrSubmission'' (dec_opt [] dec_string) av0_csr_submission (\<lambda>x s. s\<lparr>av0_csr_submission := x\<rparr>),
      into ''dnsRecordsProvisioned'' dec_string_map av0_dns_records (\<lambda>x s. s\<lparr>av0_dns_records := x\<rparr>),
      into ''dnsRecordsProvisionedStatus'' (dec_opt [] dec_string) av0_dns_status (\<lambda>x s. s\<lparr>av0_dns_status := x\<rparr>),
      into ''dnssecStatus'' (dec_opt [] dec_string) av0_dnssec_status (\<lambda>x s. s\<lparr>av0_dnssec_status := x\<rparr>),
      into ''domainValidation'' (dec_opt [] dec_string) av0_domain_validation (\<lambda>x s. s\<lparr>av0_domain_validation := x\<rparr>),
      into ''domainValidationStatus'' (dec_opt [] dec_string) av0_validation_status (\<lambda>x s. s\<lparr>av0_validation_status := x\<rparr>),
      into ''identityCertType'' (dec_opt [] dec_string) av0_identity_cert_type (\<lambda>x s. s\<lparr>av0_identity_cert_type := x\<rparr>),
      into ''protocolExtensionsVerified'' (dec_opt [] dec_string) av0_protocol_extensions (\<lambda>x s. s\<lparr>av0_protocol_extensions := x\<rparr>),
      into ''serverCertFingerprint'' (dec_opt [] dec_string) av0_server_fp (\<lambda>x s. s\<lparr>av0_server_fp := x\<rparr>),
      into ''serverCertType'' (dec_opt [] dec_string) av0_server_cert_type (\<lambda>x s. s\<lparr>av0_server_cert_type := x\<rparr>)]"

record ra_badge =
  rb_capabilities_hash :: "string option"
  rb_attestations :: attestations_v0
  rb_url_status :: string
  rb_expires_at :: "int option"
  rb_issued_at :: int
  rb_ra_id :: string
  rb_renewal_status :: "string option"
  rb_revocation_reason :: "string option"

definition zero_ra_badge :: ra_badge where
  "zero_ra_badge = \<lparr>rb_capabilities_hash = None, rb_attestations = zero_attestations_v0, rb_url_status = [],
     rb_expires_at = None, rb_issued_at = zero_time, rb_ra_id = [], rb_renewal_status = None, rb_revocation_reason =
     None\<rparr>"

definition dec_ra_badge :: "time_parser \<Rightarrow> ra_badge jdec" where
  "dec_ra_badge p = dec_struct
     [into ''ansCapabilitiesHash'' (dec_opt [] dec_string) rb_capabilities_hash (\<lambda>x s. s\<lparr>rb_capabilities_hash := x\<rparr>),
      into ''attestations'' dec_attestations_v0 rb_attestations (\<lambda>x s. s\<lparr>rb_attestations := x\<rparr>),
      into ''badgeUrlStatus'' dec_string rb_url_status (\<lambda>x s. s\<lparr>rb_url_status := x\<rparr>),
      into ''expiresAt'' (dec_opt zero_time (dec_time p)) rb_expires_at (\<lambda>x s. s\<lparr>rb_expires_at := x\<rparr>),
      into ''issuedAt'' (dec_time p) rb_issued_at (\<lambda>x s. s\<lparr>rb_issued_at := x\<rparr>),
      into ''raId'' dec_string rb_ra_id (\<lambda>x s. s\<lparr>rb_ra_id := x\<rparr>),
      into ''renewalStatus'' (dec_opt [] dec_string) rb_renewal_status (\<lambda>x s. s\<lparr>rb_renewal_status := x\<rparr>),
      into ''revocationReasonCode'' (dec_opt [] dec_string) rb_revocation_reason (\<lambda>x s. s\<lparr>rb_revocation_reason := x\<rparr>)]"

record event_metadata =
  em_card_url :: "string option"
  em_capabilities :: "string list"
  em_description :: "string option"
  em_endpoint :: "string option"
  em_badge_url :: "string option"

definition zero_event_metadata :: event_metadata where
  "zero_event_metadata = \<lparr>em_card_url = None, em_capabilities = [], em_description = None, em_endpoint = None,
     em_badge_url = None\<rparr>"

definition dec_event_metadata :: "event_metadata jdec" where
  "dec_event_metadata = dec_struct
     [into ''agentCardUrl'' (dec_opt [] dec_string) em_card_url (\<lambda>x s. s\<lparr>em_card_url := x\<rparr>),
      into ''ansCapabilities'' (dec_list [] dec_string) em_capabilities (\<lambda>x s. s\<lparr>em_capabilities := x\<rparr>),
      into ''description'' (dec_opt [] dec_string) em_description (\<lambda>x s. s\<lparr>em_description := x\<rparr>),
      into ''endpoint'' (dec_opt [] dec_string) em_endpoint (\<lambda>x s. s\<lparr>em_endpoint := x\<rparr>),
      into ''raBadgeUrl'' (dec_opt [] dec_string) em_badge_url (\<lambda>x s. s\<lparr>em_badge_url := x\<rparr>)]"

record event_v0 =
  e0_fqdn :: string
  e0_agent_id :: string
  e0_ans_name :: string
  e0_event_type :: string
  e0_protocol :: string
  e0_ra_badge :: ra_badge
  e0_timestamp :: int
  e0_metadata :: "event_metadata option"

definition zero_event_v0 :: event_v0 where
  "zero_event_v0 = \<lparr>e0_fqdn = [], e0_agent_id = [], e0_ans_name = [], e0_event_type = [], e0_protocol = [],
     e0_ra_badge = zero_ra_badge, e0_timestamp = zero_time, e0_metadata = None\<rparr>"

definition dec_event_v0 :: "time_parser \<Rightarrow> event_v0 jdec" where
  "dec_event_v0 p = dec_struct
     [into ''agentFqdn'' dec_string e0_fqdn (\<lambda>x s. s\<lparr>e0_fqdn := x\<rparr>),
      into ''agentId'' dec_string e0_agent_id (\<lambda>x s. s\<lparr>e0_agent_id := x\<rparr>),
      into ''ansName'' dec_string e0_ans_name (\<lambda>x s. s\<lparr>e0_ans_name := x\<rparr>),
      into ''eventType'' dec_string e0_event_type (\<lambda>x s. s\<lparr>e0_event_type := x\<rparr>),
      into ''protocol'' dec_string e0_protocol (\<lambda>x s. s\<lparr>e0_protocol := x\<rparr>),
      into ''raBadge'' (dec_ra_badge p) e0_ra_badge (\<lambda>x s. s\<lparr>e0_ra_badge := x\<rparr>),
      into ''timestamp'' (dec_time p) e0_timestamp (\<lambda>x s. s\<lparr>e0_timestamp := x\<rparr>),
      into ''metadata'' (dec_opt zero_event_metadata dec_event_metadata) e0_metadata (\<lambda>x s. s\<lparr>e0_metadata := x\<rparr>)]"

record producer_v0 =
  p0_event :: event_v0
  p0_key_id :: string
  p0_signature :: string

definition zero_producer_v0 :: producer_v0 where
  "zero_producer_v0 = \<lparr>p0_event = zero_event_v0, p0_key_id = [], p0_signature = []\<rparr>"

definition dec_producer_v0 :: "time_parser \<Rightarrow> producer_v0 jdec" where
  "dec_producer_v0 p = dec_struct
     [into ''event'' (dec_event_v0 p) p0_event (\<lambda>x s. s\<lparr>p0_event := x\<rparr>),
      into ''keyId'' dec_string p0_key_id (\<lambda>x s. s\<lparr>p0_key_id := x\<rparr>),
      into ''signature'' dec_string p0_signature (\<lambda>x s. s\<lparr>p0_signature := x\<rparr>)]"

record log_v0 =
  l0_log_id :: string
  l0_producer :: producer_v0

definition zero_log_v0 :: log_v0 where
  "zero_log_v0 = \<lparr>l0_log_id = [], l0_producer = zero_producer_v0\<rparr>"

definition dec_log_v0 :: "time_parser \<Rightarrow> log_v0 jdec" where
  "dec_log_v0 p = dec_struct
     [into ''logId'' dec_string l0_log_id (\<lambda>x s. s\<lparr>l0_log_id := x\<rparr>),
      into ''producer'' (dec_producer_v0 p) l0_producer (\<lambda>x s. s\<lparr>l0_producer := x\<rparr>)]"

section \<open>Log entries\<close>

record merkle_proof_info =
  mp_leaf_hash :: string
  mp_root_hash :: string
  mp_root_signature :: string
  mp_tree_size :: int
  mp_tree_version :: int
  mp_leaf_index :: "int option"
  mp_path :: "string list"

definition zero_merkle_proof :: merkle_proof_info where
  "zero_merkle_proof = \<lparr>mp_leaf_hash = [], mp_root_hash = [], mp_root_signature = [], mp_tree_size = 0,
     mp_tree_version = 0, mp_leaf_index = None, mp_path = []\<rparr>"

definition dec_merkle_proof :: "merkle_proof_info jdec" where
  "dec_merkle_proof = dec_struct
     [into ''leafHash'' dec_string mp_leaf_hash (\<lambda>x s. s\<lparr>mp_leaf_hash := x\<rparr>),
      into ''rootHash'' dec_string mp_root_hash (\<lambda>x s. s\<lparr>mp_root_hash := x\<rparr>),
      into ''rootSignature'' dec_string mp_root_signature (\<lambda>x s. s\<lparr>mp_root_signature := x\<rparr>),
      into ''treeSize'' dec_int mp_tree_size (\<lambda>x s. s\<lparr>mp_tree_size := x\<rparr>),
      into ''treeVersion'' dec_int mp_tree_version (\<lambda>x s. s\<lparr>mp_tree_version := x\<rparr>),
      into ''leafIndex'' (dec_opt 0 dec_int) mp_leaf_index (\<lambda>x s. s\<lparr>mp_leaf_index := x\<rparr>),
      into ''path'' (dec_list [] dec_string) mp_path (\<lambda>x s. s\<lparr>mp_path := x\<rparr>)]"

text \<open>\<open>ParsedPayload\<close>: an interface holding nothing or a pointer to one of the two schemas.\<close>

datatype parsed_payload = Payload_None | Payload_V1 log_v1 | Payload_V0 log_v0

record log_entry =
  le_merkle_proof :: "merkle_proof_info option"
  le_payload :: "(string \<times> json) list option"
  le_schema_version :: string
  le_signature :: string
  le_status :: string
  le_parsed :: parsed_payload

definition zero_log_entry :: log_entry where
  "zero_log_entry = \<lparr>le_merkle_proof = None, le_payload = None, le_schema_version = [], le_signature = [],
     le_status = [],
     le_parsed = Payload_None\<rparr>"

definition dec_log_entry :: "log_entry jdec" where
  "dec_log_entry = dec_struct
     [into ''merkleProof'' (dec_opt zero_merkle_proof dec_merkle_proof) le_merkle_proof (\<lambda>x s. s\<lparr>le_merkle_proof := x\<rparr>),
      into ''payload'' dec_any_map le_payload (\<lambda>x s. s\<lparr>le_payload := x\<rparr>),
      into ''schemaVersion'' dec_string le_schema_version (\<lambda>x s. s\<lparr>le_schema_version := x\<rparr>),
      into ''signature'' dec_string le_signature (\<lambda>x s. s\<lparr>le_signature := x\<rparr>),
      into ''status'' dec_string le_status (\<lambda>x s. s\<lparr>le_status := x\<rparr>)]"

definition SchemaVersionV0 :: string where "SchemaVersionV0 = ''V0''"
definition SchemaVersionV1 :: string where "SchemaVersionV1 = ''V1''"

definition get_v1_payload :: "log_entry \<Rightarrow> log_v1 option" where
  "get_v1_payload t = (case le_parsed t of Payload_V1 x \<Rightarrow> Some x | _ \<Rightarrow> None)"

definition get_v0_payload :: "log_entry \<Rightarrow> log_v0 option" where
  "get_v0_payload t = (case le_parsed t of Payload_V0 x \<Rightarrow> Some x | _ \<Rightarrow> None)"

definition entry_is_v1 :: "log_entry \<Rightarrow> bool" where
  "entry_is_v1 t = (le_schema_version t = SchemaVersionV1 \<or> get_v1_payload t \<noteq> None)"

definition entry_is_v0 :: "log_entry \<Rightarrow> bool" where
  "entry_is_v0 t = (le_schema_version t = SchemaVersionV0 \<or> le_schema_version t = [] \<or> get_v0_payload t \<noteq> None)"

record log_audit =
  la_records :: "log_entry list"

definition zero_log_audit :: log_audit where
  "zero_log_audit = \<lparr>la_records = []\<rparr>"

definition dec_log_audit :: "log_audit jdec" where
  "dec_log_audit = dec_struct
     [into ''records'' (dec_list zero_log_entry dec_log_entry) la_records (\<lambda>x s. s\<lparr>la_records := x\<rparr>)]"

section \<open>Checkpoints\<close>

record log_checkpoint_signature =
  ck_signer :: string
  ck_type :: string
  ck_algorithm :: string
  ck_key_hash :: string
  ck_raw :: string
  ck_valid :: bool
  ck_kms_key_id :: string
  ck_timestamp :: "int option"
  ck_jws_signature :: string
  ck_jws_header :: "(string \<times> json) list option"
  ck_jws_payload :: "(string \<times> json) list option"

definition zero_log_checkpoint_signature :: log_checkpoint_signature where
  "zero_log_checkpoint_signature = \<lparr>ck_signer = [], ck_type = [], ck_algorithm = [], ck_key_hash = [], ck_raw = [],
     ck_valid = False, ck_kms_key_id = [], ck_timestamp = None, ck_jws_signature = [], ck_jws_header = None,
     ck_jws_payload = None\<rparr>"

definition dec_log_checkpoint_signature :: "time_parser \<Rightarrow> log_checkpoint_signature jdec" where
  "dec_log_checkpoint_signature p = dec_struct
     [into ''signerName'' dec_string ck_signer (\<lambda>x s. s\<lparr>ck_signer := x\<rparr>),
      into ''signatureType'' dec_string ck_type (\<lambda>x s. s\<lparr>ck_type := x\<rparr>),
      into ''algorithm'' dec_string ck_algorithm (\<lambda>x s. s\<lparr>ck_algorithm := x\<rparr>),
      into ''keyHash'' dec_string ck_key_hash (\<lambda>x s. s\<lparr>ck_key_hash := x\<rparr>),
      into ''rawSignature'' dec_string ck_raw (\<lambda>x s. s\<lparr>ck_raw := x\<rparr>),
      into ''valid'' dec_bool ck_valid (\<lambda>x s. s\<lparr>ck_valid := x\<rparr>),
      into ''kmsKeyId'' dec_string ck_kms_key_id (\<lambda>x s. s\<lparr>ck_kms_key_id := x\<rparr>),
      into ''timestamp'' (dec_opt zero_time (dec_time p)) ck_timestamp (\<lambda>x s. s\<lparr>ck_timestamp := x\<rparr>),
      into ''jwsSignature'' dec_string ck_jws_signature (\<lambda>x s. s\<lparr>ck_jws_signature := x\<rparr>),
      into ''jwsHeader'' dec_any_map ck_jws_header (\<lambda>x s. s\<lparr>ck_jws_header := x\<rparr>),
      into ''jwsPayload'' dec_any_map ck_jws_payload (\<lambda>x s. s\<lparr>ck_jws_payload := x\<rparr>)]"

record checkpoint_response =
  cpr_log_size :: int
  cpr_tree_height :: int
  cpr_root_hash :: string
  cpr_origin :: string
  cpr_format :: string
  cpr_text :: string
  cpr_public_key :: string
  cpr_signatures :: "log_checkpoint_signature list"

definition zero_checkpoint_response :: checkpoint_response where
  "zero_checkpoint_response = \<lparr>cpr_log_size = 0, cpr_tree_height = 0, cpr_root_hash = [], cpr_origin = [], cpr_format
     = [], cpr_text = [], cpr_public_key = [], cpr_signatures = []\<rparr>"

definition dec_checkpoint_response :: "time_parser \<Rightarrow> checkpoint_response jdec" where
  "dec_checkpoint_response p = dec_struct
     [into ''logSize'' dec_int cpr_log_size (\<lambda>x s. s\<lparr>cpr_log_size := x\<rparr>),
      into ''treeHeight'' dec_int cpr_tree_height (\<lambda>x s. s\<lparr>cpr_tree_height := x\<rparr>),
      into ''rootHash'' dec_string cpr_root_hash (\<lambda>x s. s\<lparr>cpr_root_hash := x\<rparr>),
      into ''originName'' dec_string cpr_origin (\<lambda>x s. s\<lparr>cpr_origin := x\<rparr>),
      into ''checkpointFormat'' dec_string cpr_format (\<lambda>x s. s\<lparr>cpr_format := x\<rparr>),
      into ''checkpointText'' dec_string cpr_text (\<lambda>x s. s\<lparr>cpr_text := x\<rparr>),
      into ''publicKeyPem'' dec_string cpr_public_key (\<lambda>x s. s\<lparr>cpr_public_key := x\<rparr>),
      into ''signatures'' (dec_list zero_log_checkpoint_signature (dec_log_checkpoint_signature p)) cpr_signatures (\<lambda>x s. s\<lparr>cpr_signatures := x\<rparr>)]"

record pagination_info =
  pg_first :: string
  pg_previous :: string
  pg_next :: string
  pg_last :: string
  pg_total :: int
  pg_next_offset :: "int option"

definition zero_pagination :: pagination_info where
  "zero_pagination = \<lparr>pg_first = [], pg_previous = [], pg_next = [], pg_last = [], pg_total = 0, pg_next_offset =
     None\<rparr>"

definition dec_pagination :: "pagination_info jdec" where
  "dec_pagination = dec_struct
     [into ''first'' dec_string pg_first (\<lambda>x s. s\<lparr>pg_first := x\<rparr>),
      into ''previous'' dec_string pg_previous (\<lambda>x s. s\<lparr>pg_previous := x\<rparr>),
      into ''next'' dec_string pg_next (\<lambda>x s. s\<lparr>pg_next := x\<rparr>),
      into ''last'' dec_string pg_last (\<lambda>x s. s\<lparr>pg_last := x\<rparr>),
      into ''total'' dec_int pg_total (\<lambda>x s. s\<lparr>pg_total := x\<rparr>),
      into ''nextOffset'' (dec_opt 0 dec_int) pg_next_offset (\<lambda>x s. s\<lparr>pg_next_offset := x\<rparr>)]"

record checkpoint_history =
  chy_checkpoints :: "checkpoint_response list"
  chy_pagination :: pagination_info

definition zero_checkpoint_history :: checkpoint_history where
  "zero_checkpoint_history = \<lparr>chy_checkpoints = [], chy_pagination = zero_pagination\<rparr>"

definition dec_checkpoint_history :: "time_parser \<Rightarrow> checkpoint_history jdec" where
  "dec_checkpoint_history p = dec_struct
     [into ''checkpoints'' (dec_list zero_checkpoint_response (dec_checkpoint_response p)) chy_checkpoints (\<lambda>x s. s\<lparr>chy_checkpoints := x\<rparr>),
      into ''pagination'' dec_pagination chy_pagination (\<lambda>x s. s\<lparr>chy_pagination := x\<rparr>)]"

text \<open>\<open>FromSize\<close> and \<open>ToSize\<close> are \<open>uint64\<close>.\<close>

record checkpoint_history_params =
  hp_limit :: int
  hp_offset :: int
  hp_from_size :: "64 word"
  hp_to_size :: "64 word"
  hp_since :: "int option"
  hp_order :: string

record agent_audit_params =
  ap_offset :: int
  ap_limit :: int

end
