(* ===== verification/Log_Client.thy ===== *)
theory Log_Client
  imports Log_Models Api_Client_Lemmas
begin

text \<open>
  The transparency-log client of the API package, \<open>ans/transparency.go\<close>. Its requests go through the
  helper of \<open>Http_Util\<close> without credentials, but for the one that fetches an agent's entry, which has a
  request of its own. Formatting a time in RFC 3339 is a parameter.
\<close>

definition new_transparency_client :: "client_option list \<Rightarrow> api_error + client_config" where
  "new_transparency_client opts =
     apply_options opts (default_client_config\<lparr>cc_base_url := ''https://transparency.ans.godaddy.com''\<rparr>)"

definition do_get :: "api_env \<Rightarrow> client_config \<Rightarrow> string \<Rightarrow> 'a jdec \<Rightarrow> 'a \<Rightarrow> api_error + 'a" where
  "do_get env c path d zero =
     http_do_request env \<lparr>hc_base_url = cc_base_url c, hc_client = cc_client c, hc_auth_header = []\<rparr>
       ''GET'' path None d zero"

text \<open>
  What the generic payload looks like after \<open>json.Marshal\<close>: objects are Go maps, so of members with one
  name the last is kept, and they are written in the order of their names. Numbers, which became
  \<open>float64\<close>, are written as they were: neither schema has a numeric field.
\<close>

fun marshal_any :: "json \<Rightarrow> json" where
  "marshal_any (JArr xs) = JArr (map marshal_any xs)"
| "marshal_any (JObj kvs) =
     JObj (sort_key fst (foldl (\<lambda>m (k, v). AList.update k v m) [] (map (\<lambda>(k, v). (k, marshal_any v)) kvs)))"
| "marshal_any v = v"

definition parse_payload_by_schema :: "time_parser \<Rightarrow> (string \<times> json) list \<Rightarrow> string \<Rightarrow> parsed_payload" where
  "parse_payload_by_schema p payload schema =
     (let text = json_print (marshal_any (JObj payload));
          v0 = (case unmarshal (dec_log_v0 p) zero_log_v0 text of Some x \<Rightarrow> Payload_V0 x | None \<Rightarrow> Payload_None)
      in if schema = ''V1'' then
           (case unmarshal (dec_log_v1 p) zero_log_v1 text of Some x \<Rightarrow> Payload_V1 x | None \<Rightarrow> Payload_None)
         else if schema = ''V0'' \<or> schema = [] then v0
         else v0)"

definition do_request_with_schema_version ::
  "api_env \<Rightarrow> client_config \<Rightarrow> string \<Rightarrow> string \<Rightarrow> json option \<Rightarrow> api_error + log_entry" where
  "do_request_with_schema_version env c meth path body =
     (case authorization_header c (av_now env) of
        Inl e \<Rightarrow> Inl e
      | Inr auth \<Rightarrow>
     case exchange env (cc_client c)
            \<lparr>aq_method = meth, aq_url = cc_base_url c @ path, aq_header = set_request_headers auth,
             aq_body = prepare_request_body body\<rparr> of
        Inl e \<Rightarrow> Inl e
      | Inr r \<Rightarrow>
     case read_limited_body r of
        Inl e \<Rightarrow> Inl e
      | Inr b \<Rightarrow>
     if hr_status r \<ge> 400 then Inl (Api_Response (handle_error_response (hr_status r) b))
     else case unmarshal dec_log_entry zero_log_entry b of
        None \<Rightarrow> Inl Api_Parse
      | Some e \<Rightarrow>
          let header = header_get (hr_header r) ''X-Schema-Version'';
              e = (if le_schema_version e = [] \<and> header \<noteq> [] then e\<lparr>le_schema_version := header\<rparr> else e)
          in Inr (case le_payload e of
               None \<Rightarrow> e
             | Some pl \<Rightarrow> e\<lparr>le_parsed := parse_payload_by_schema (av_time env) pl (le_schema_version e)\<rparr>))"

definition get_agent_transparency_log :: "api_env \<Rightarrow> client_config \<Rightarrow> string \<Rightarrow> api_error + log_entry" where
  "get_agent_transparency_log env c i =
     requiring [(''agentID'', i)]
       (do_request_with_schema_version env c ''GET'' (''/v1/agents/'' @ path_escape i) None)"

definition append_audit_params :: "string \<Rightarrow> agent_audit_params \<Rightarrow> string" where
  "append_audit_params path q =
     with_query path
       (set_if (ap_limit q > 0) ''limit'' (show_nat (nat (ap_limit q)))
         (set_if (ap_offset q > 0) ''offset'' (show_nat (nat (ap_offset q))) []))"

text \<open>An audit record without a schema version is read as V0; there is no header to ask.\<close>

definition parse_audit_record :: "time_parser \<Rightarrow> log_entry \<Rightarrow> log_entry" where
  "parse_audit_record p e =
     (case le_payload e of
        None \<Rightarrow> e
      | Some pl \<Rightarrow>
          let schema = (if le_schema_version e = [] then ''V0'' else le_schema_version e)
          in e\<lparr>le_parsed := parse_payload_by_schema p pl schema\<rparr>)"

definition get_agent_transparency_log_audit ::
  "api_env \<Rightarrow> client_config \<Rightarrow> string \<Rightarrow> agent_audit_params option \<Rightarrow> api_error + log_audit" where
  "get_agent_transparency_log_audit env c i params =
     requiring [(''agentID'', i)]
       (let path = ''/v1/agents/'' @ path_escape i @ ''/audit'';
            path = (case params of None \<Rightarrow> path | Some q \<Rightarrow> append_audit_params path q)
        in case do_get env c path dec_log_audit zero_log_audit of
             Inl e \<Rightarrow> Inl e
           | Inr a \<Rightarrow> Inr (a\<lparr>la_records := map (parse_audit_record (av_time env)) (la_records a)\<rparr>))"

definition get_checkpoint :: "api_env \<Rightarrow> client_config \<Rightarrow> api_error + checkpoint_response" where
  "get_checkpoint env c =
     do_get env c ''/v1/log/checkpoint'' (dec_checkpoint_response (av_time env)) zero_checkpoint_response"

definition append_checkpoint_history_params ::
  "(int \<Rightarrow> string) \<Rightarrow> string \<Rightarrow> checkpoint_history_params \<Rightarrow> string" where
  "append_checkpoint_history_params time_format path q =
     (let v = ([] :: url_values);
          v = set_if (hp_limit q > 0) ''limit'' (show_nat (nat (hp_limit q))) v;
          v = set_if (hp_offset q > 0) ''offset'' (show_nat (nat (hp_offset q))) v;
          v = set_if (hp_from_size q > 0) ''fromSize'' (show_nat (unat (hp_from_size q))) v;
          v = set_if (hp_to_size q > 0) ''toSize'' (show_nat (unat (hp_to_size q))) v;
          v = (case hp_since q of None \<Rightarrow> v | Some t \<Rightarrow> values_set ''since'' (time_format t) v);
          v = set_if (hp_order q \<noteq> []) ''order'' (hp_order q) v
      in with_query path v)"

definition get_checkpoint_history ::
  "api_env \<Rightarrow> (int \<Rightarrow> string) \<Rightarrow> client_config \<Rightarrow> checkpoint_history_params option \<Rightarrow> api_error + checkpoint_history" where
  "get_checkpoint_history env time_format c params =
     do_get env c
       (case params of
          None \<Rightarrow> ''/v1/log/checkpoint/history''
        | Some q \<Rightarrow> append_checkpoint_history_params time_format ''/v1/log/checkpoint/history'' q)
       (dec_checkpoint_history (av_time env)) zero_checkpoint_history"

text \<open>The schema document is a generic map.\<close>

definition get_log_schema ::
  "api_env \<Rightarrow> client_config \<Rightarrow> string \<Rightarrow> api_error + (string \<times> json) list option" where
  "get_log_schema env c v =
     requiring [(''version'', v)] (do_get env c (''/v1/log/schema/'' @ path_escape v) dec_any_map None)"

section \<open>What the client sends and reads\<close>

text \<open>The typed payload of an entry the client returns is the one its schema version asks for.\<close>

definition typed_for :: "string \<Rightarrow> parsed_payload \<Rightarrow> bool" where
  "typed_for schema pl =
     (case pl of
        Payload_None \<Rightarrow> True
      | Payload_V1 _ \<Rightarrow> schema = ''V1''
      | Payload_V0 _ \<Rightarrow> schema \<noteq> ''V1'')"

lemma parse_payload_typed: "typed_for schema (parse_payload_by_schema p pl schema)"
  by (simp add: parse_payload_by_schema_def typed_for_def Let_def split: option.split)

lemma typed_for_None: "typed_for schema Payload_None"
  by (simp add: typed_for_def)

lemma do_get_Inr:
  "do_get env c path d zero = Inr x \<longleftrightarrow>
     (\<exists>r b. exchange env (cc_client c)
              \<lparr>aq_method = ''GET'', aq_url = cc_base_url c @ path, aq_header = set_request_headers [], aq_body = []\<rparr> = Inr r
          \<and> read_limited_body r = Inr b \<and> hr_status r < 400 \<and> parse_success_response d zero b = Inr x)"
  by (simp add: do_get_def http_do_request_Inr request_of_def prepare_request_body_def)

lemma dec_log_entry_parsed: "dec_log_entry old v = Some e \<Longrightarrow> le_parsed e = le_parsed old"
  unfolding dec_log_entry_def by (erule dec_struct_keeps [where g = le_parsed, rotated]) (auto simp: into_def)

lemma schema_request_Inr:
  "do_request_with_schema_version env c meth path body = Inr e \<Longrightarrow>
     \<exists>req r b. exchanged env c meth path body req r b \<and> hr_status r < 400 \<and> typed_for (le_schema_version e) (le_parsed e)"
proof -
  assume "do_request_with_schema_version env c meth path body = Inr e"
  then obtain auth req r b e0 where s: "authorization_header c (av_now env) = Inr auth"
    "req = \<lparr>aq_method = meth, aq_url = cc_base_url c @ path, aq_header = set_request_headers auth,
            aq_body = prepare_request_body body\<rparr>"
    "exchange env (cc_client c) req = Inr r" "read_limited_body r = Inr b" "hr_status r < 400"
    and e0: "unmarshal dec_log_entry zero_log_entry b = Some e0"
    and e: "e = (let header = header_get (hr_header r) ''X-Schema-Version'';
              e = (if le_schema_version e0 = [] \<and> header \<noteq> [] then e0\<lparr>le_schema_version := header\<rparr> else e0)
          in (case le_payload e of
               None \<Rightarrow> e
             | Some pl \<Rightarrow> e\<lparr>le_parsed := parse_payload_by_schema (av_time env) pl (le_schema_version e)\<rparr>))"
    unfolding do_request_with_schema_version_def
    by (auto split: sum.splits if_splits option.splits simp: Let_def not_le)
  have "le_parsed e0 = Payload_None"
    using e0 dec_log_entry_parsed [of zero_log_entry] by (auto simp: unmarshal_def zero_log_entry_def split: option.splits)
  then have "typed_for (le_schema_version e) (le_parsed e)"
    unfolding e by (auto simp: Let_def parse_payload_typed typed_for_None split: option.split)
  then show ?thesis using s unfolding exchanged_def by blast
qed

end
