(* ===== verification/Cli_Commands.thy ===== *)
theory Cli_Commands
  imports Cli_Config Csr_Validation Log_Client
begin

text \<open>
  The commands of the command line up to what they print: \<open>cmd/ans-cli/cmd\<close>, files \<open>register.go\<close>,
  \<open>csr_preflight.go\<close>, \<open>search.go\<close>, \<open>revoke.go\<close>, \<open>events.go\<close>, \<open>badge.go\<close> and the commands that are a
  single request. A command returns the value it would print, or the error it ends with.
\<close>

section \<open>Surroundings\<close>

record cli_env =
  cx_unicode :: unicode
  cx_upper :: "string \<Rightarrow> string"
    \<comment> \<open>\<open>strings.Map(unicode.ToUpper, s)\<close>, reached for a string with a byte above 0x7F\<close>
  cx_settings :: cli_settings
  cx_files :: cli_files
  cx_csr :: csr_lib
  cx_api :: api_env
  cx_transparency_url :: string
    \<comment> \<open>the environment variable \<open>ANS_TRANSPARENCY_URL\<close>\<close>

definition ascii_upper :: "char \<Rightarrow> char" where
  "ascii_upper c = (if 97 \<le> byte_val c \<and> byte_val c \<le> 122 then char_of (byte_val c - 32) else c)"

definition to_upper :: "cli_env \<Rightarrow> string \<Rightarrow> string" where
  "to_upper env s = (if is_ascii s then map ascii_upper s else cx_upper env s)"

datatype cli_error =
  Cli_Config config_error
  | Cli_Client client_failure
  | Cli_Csr_File string
  | Cli_Preflight string csr_error
  | Cli_Server_Cert_File
  | Cli_Function function_error
  | Cli_Invalid_Profile string
  | Cli_Profiles_Lane string
  | Cli_Description_Too_Long nat
  | Cli_Search_Criteria
  | Cli_Revocation_Reason string
  | Cli_Poll_Interval
  | Cli_No_Transparency_Url
  | Cli_Request api_error

text \<open>Every command starts with the configuration and a credential.\<close>

definition with_credentials :: "cli_env \<Rightarrow> (cli_config \<Rightarrow> cli_error + 'a) \<Rightarrow> cli_error + 'a" where
  "with_credentials env k =
     (case load_config (cx_unicode env) (cx_settings env) (cx_files env) of
        Inl e \<Rightarrow> Inl (Cli_Config e)
      | Inr cfg \<Rightarrow>
     case require_credentials cfg of
        Some e \<Rightarrow> Inl (Cli_Config e)
      | None \<Rightarrow> k cfg)"

definition with_client :: "cli_config \<Rightarrow> (client_config \<Rightarrow> cli_error + 'a) \<Rightarrow> cli_error + 'a" where
  "with_client cfg k = (case fst (create_client cfg) of Inl e \<Rightarrow> Inl (Cli_Client e) | Inr c \<Rightarrow> k c)"

definition run_request :: "cli_env \<Rightarrow> (api_env \<Rightarrow> client_config \<Rightarrow> api_error + 'a) \<Rightarrow> cli_error + 'a" where
  "run_request env m = with_credentials env (\<lambda>cfg. with_client cfg (\<lambda>c. map_error Cli_Request (m (cx_api env) c)))"

section \<open>Commands that are one request\<close>

definition run_status :: "cli_env \<Rightarrow> string \<Rightarrow> cli_error + agent_details" where
  "run_status env i = run_request env (\<lambda>api c. get_agent_details api c i)"

definition run_verify_acme :: "cli_env \<Rightarrow> string \<Rightarrow> cli_error + agent_status_info" where
  "run_verify_acme env i = run_request env (\<lambda>api c. verify_acme api c i)"

definition run_verify_dns :: "cli_env \<Rightarrow> string \<Rightarrow> cli_error + agent_status_info" where
  "run_verify_dns env i = run_request env (\<lambda>api c. verify_dns api c i)"

definition run_csr_status :: "cli_env \<Rightarrow> string \<Rightarrow> string \<Rightarrow> cli_error + csr_status_response" where
  "run_csr_status env i csr = run_request env (\<lambda>api c. get_csr_status api c i csr)"

definition run_get_identity_certs :: "cli_env \<Rightarrow> string \<Rightarrow> cli_error + certificate_response list" where
  "run_get_identity_certs env i = run_request env (\<lambda>api c. get_identity_certificates api c i)"

definition run_get_server_certs :: "cli_env \<Rightarrow> string \<Rightarrow> cli_error + certificate_response list" where
  "run_get_server_certs env i = run_request env (\<lambda>api c. get_server_certificates api c i)"

definition run_resolve :: "cli_env \<Rightarrow> string \<Rightarrow> string \<Rightarrow> cli_error + capability_response" where
  "run_resolve env host v = run_request env (\<lambda>api c. resolve_agent api c host v)"

section \<open>Registration and renewal\<close>

definition read_validated_csr :: "cli_env \<Rightarrow> string \<Rightarrow> csr_rules \<Rightarrow> string \<Rightarrow> bool \<Rightarrow> cli_error + bytes" where
  "read_validated_csr env path rules label skip_preflight =
     (case fl_read (cx_files env) path of
        None \<Rightarrow> Inl (Cli_Csr_File label)
      | Some data \<Rightarrow>
          if skip_preflight then Inr data
          else (case validate_csr (cx_csr env) data rules of
              Inl e \<Rightarrow> Inl (Cli_Preflight label e)
            | Inr _ \<Rightarrow> Inr data))"

definition run_submit_identity_csr :: "cli_env \<Rightarrow> string \<Rightarrow> string \<Rightarrow> bool \<Rightarrow> cli_error + csr_submission_response" where
  "run_submit_identity_csr env i file skip_preflight =
     with_credentials env (\<lambda>cfg. with_client cfg (\<lambda>c.
       case read_validated_csr env file identity_rules ''identity'' skip_preflight of
         Inl e \<Rightarrow> Inl e
       | Inr data \<Rightarrow> map_error Cli_Request (submit_identity_csr (cx_api env) c i data)))"

definition run_submit_server_csr :: "cli_env \<Rightarrow> string \<Rightarrow> string \<Rightarrow> bool \<Rightarrow> cli_error + csr_submission_response" where
  "run_submit_server_csr env i file skip_preflight =
     with_credentials env (\<lambda>cfg. with_client cfg (\<lambda>c.
       case read_validated_csr env file server_rules ''server'' skip_preflight of
         Inl e \<Rightarrow> Inl e
       | Inr data \<Rightarrow> map_error Cli_Request (submit_server_csr (cx_api env) c i data)))"

record register_params =
  rp_name :: string
  rp_host :: string
  rp_version :: string
  rp_description :: string
  rp_identity_csr :: string
  rp_server_csr :: string
  rp_server_cert :: string
  rp_endpoint_url :: string
  rp_metadata_url :: string
  rp_endpoint_proto :: string
  rp_endpoint_trans :: "string list"
  rp_functions :: "string list"
  rp_profiles :: "string list"
  rp_skip_preflight :: bool

definition max_description_len :: nat where
  "max_description_len = 150"

definition validate_registration_params :: "register_params \<Rightarrow> cli_error option" where
  "validate_registration_params p =
     (if rune_count (rp_description p) > max_description_len
      then Some (Cli_Description_Too_Long (rune_count (rp_description p))) else None)"

fun read_profiles :: "cli_env \<Rightarrow> string list \<Rightarrow> cli_error + string list" where
  "read_profiles env [] = Inr []"
| "read_profiles env (p # ps) =
     (let profile = to_upper env (trim_space p) in
      if \<not> is_valid_discovery_profile profile then Inl (Cli_Invalid_Profile p)
      else case read_profiles env ps of Inl e \<Rightarrow> Inl e | Inr rest \<Rightarrow> Inr (profile # rest))"

definition parse_discovery_profiles :: "cli_env \<Rightarrow> string list \<Rightarrow> string \<Rightarrow> cli_error + string list" where
  "parse_discovery_profiles env raw api_version =
     (case read_profiles env raw of
        Inl e \<Rightarrow> Inl e
      | Inr profiles \<Rightarrow>
          if length profiles > 0 \<and> api_version \<noteq> APIVersionV2 then Inl (Cli_Profiles_Lane api_version)
          else Inr profiles)"

text \<open>The server certificate, when one is named, wins over the server CSR.\<close>

definition read_server_material :: "cli_env \<Rightarrow> register_params \<Rightarrow> cli_error + bytes \<times> bytes" where
  "read_server_material env p =
     (if rp_server_cert p \<noteq> [] then
        (case fl_read (cx_files env) (rp_server_cert p) of
           None \<Rightarrow> Inl Cli_Server_Cert_File
         | Some cert \<Rightarrow> Inr (cert, []))
      else if rp_server_csr p \<noteq> [] then
        (case read_validated_csr env (rp_server_csr p) server_rules ''server'' (rp_skip_preflight p) of
           Inl e \<Rightarrow> Inl e
         | Inr csr \<Rightarrow> Inr ([], csr))
      else Inr ([], []))"

definition registration_of ::
  "register_params \<Rightarrow> bytes \<Rightarrow> bytes \<Rightarrow> bytes \<Rightarrow> agent_function list \<Rightarrow> string list \<Rightarrow> registration_request" where
  "registration_of p identity_csr server_cert server_csr fns profiles =
     \<lparr>rr_display_name = rp_name p, rr_host = rp_host p, rr_description = rp_description p,
      rr_identity_csr = identity_csr,
      rr_server_cert = (if length server_cert > 0 then server_cert else []), rr_server_chain = [],
      rr_server_csr = (if length server_cert > 0 then [] else if length server_csr > 0 then server_csr else []),
      rr_version = rp_version p,
      rr_endpoints = Some
        [\<lparr>ep_agent_url = rp_endpoint_url p, ep_meta_data_url = rp_metadata_url p, ep_documentation_url = [],
          ep_protocol = rp_endpoint_proto p, ep_transports = rp_endpoint_trans p, ep_functions = fns\<rparr>],
      rr_profiles = (if length profiles > 0 then profiles else [])\<rparr>"

text \<open>
  Beside its result the command returns the registrations it has called \<open>RegisterAgent\<close> with, which is the one call of
  it that leaves the machine; a step that fails before ends it with none.
\<close>

definition before_calls :: "cli_error + 'a \<Rightarrow> ('a \<Rightarrow> (cli_error + 'b) \<times> 'c list) \<Rightarrow> (cli_error + 'b) \<times> 'c list" where
  "before_calls m f = (case m of Inl e \<Rightarrow> (Inl e, []) | Inr x \<Rightarrow> f x)"

definition run_register ::
  "cli_env \<Rightarrow> register_params \<Rightarrow> (cli_error + registration_pending) \<times> registration_request list" where
  "run_register env p =
     before_calls (with_credentials env (\<lambda>cfg. with_client cfg (\<lambda>c. Inr (cfg, c)))) (\<lambda>(cfg, c).
     before_calls (read_validated_csr env (rp_identity_csr p) identity_rules ''identity'' (rp_skip_preflight p)) (\<lambda>identity_csr.
     before_calls (read_server_material env p) (\<lambda>(server_cert, server_csr).
     before_calls (map_error Cli_Function (parse_function_flags (rp_functions p))) (\<lambda>fns.
     before_calls (parse_discovery_profiles env (rp_profiles p) (cf_api_version cfg)) (\<lambda>profiles.
       case validate_registration_params p of
         Some e \<Rightarrow> (Inl e, [])
       | None \<Rightarrow>
           let req = registration_of p identity_csr server_cert server_csr fns profiles
           in (map_error Cli_Request (register_agent (cx_api env) c (Some req)), [req]))))))"

section \<open>Search and revocation\<close>

record search_flags =
  sf_name :: string
  sf_host :: string
  sf_version :: string
  sf_protocol :: string
  sf_statuses :: "string list"
  sf_limit :: int
  sf_offset :: int

definition build_search_options :: "cli_env \<Rightarrow> search_flags \<Rightarrow> search_option list" where
  "build_search_options env p =
     (if sf_name p \<noteq> [] then [with_search_name (sf_name p)] else [])
     @ (if sf_host p \<noteq> [] then [with_search_host (sf_host p)] else [])
     @ (if sf_version p \<noteq> [] then [with_search_version (sf_version p)] else [])
     @ (if sf_protocol p \<noteq> [] then [with_search_protocol (to_upper env (sf_protocol p))] else [])
     @ (if length (sf_statuses p) > 0
        then [with_search_status (map (\<lambda>s. to_upper env (trim_space s)) (sf_statuses p))] else [])
     @ (if sf_limit p > 0 then [with_search_limit (sf_limit p)] else [])
     @ (if sf_offset p > 0 then [with_search_offset (sf_offset p)] else [])"

definition run_search :: "cli_env \<Rightarrow> search_flags \<Rightarrow> cli_error + search_response" where
  "run_search env p =
     with_credentials env (\<lambda>cfg.
       if sf_name p = [] \<and> sf_host p = [] \<and> sf_version p = [] \<and> sf_protocol p = [] \<and> length (sf_statuses p) = 0
       then Inl Cli_Search_Criteria
       else with_client cfg (\<lambda>c. map_error Cli_Request (search_agents (cx_api env) c (build_search_options env p))))"

definition run_revoke :: "cli_env \<Rightarrow> string \<Rightarrow> string \<Rightarrow> string \<Rightarrow> cli_error + revocation_response" where
  "run_revoke env i reason comments =
     with_credentials env (\<lambda>cfg.
       let code = to_upper env reason in
       if \<not> is_valid_revocation_reason code then Inl (Cli_Revocation_Reason reason)
       else with_client cfg (\<lambda>c. map_error Cli_Request (revoke_agent (cx_api env) c i code comments)))"

section \<open>The transparency log\<close>

definition resolve_transparency_url :: "string \<Rightarrow> string \<Rightarrow> cli_error + string" where
  "resolve_transparency_url flag_value env_value =
     (if flag_value \<noteq> [] then Inr flag_value
      else if env_value \<noteq> [] then Inr env_value
      else Inl Cli_No_Transparency_Url)"

definition default_badge_audit_limit :: int where
  "default_badge_audit_limit = 10"

text \<open>
  The entry with what else was asked for. A failed audit trail or checkpoint is a warning, in both output
  forms.
\<close>

record badge_report =
  bo_entry :: log_entry
  bo_audit :: "(api_error + log_audit) option"
  bo_checkpoint :: "(api_error + checkpoint_response) option"

definition badge_output :: "api_env \<Rightarrow> client_config \<Rightarrow> string \<Rightarrow> log_entry \<Rightarrow> bool \<Rightarrow> bool \<Rightarrow> badge_report" where
  "badge_output api c i entry audit checkpoint =
     \<lparr>bo_entry = entry,
      bo_audit = (if audit then Some (get_agent_transparency_log_audit api c i
          (Some \<lparr>ap_offset = 0, ap_limit = default_badge_audit_limit\<rparr>)) else None),
      bo_checkpoint = (if checkpoint then Some (get_checkpoint api c) else None)\<rparr>"

definition run_badge :: "cli_env \<Rightarrow> string \<Rightarrow> bool \<Rightarrow> bool \<Rightarrow> string \<Rightarrow> cli_error + badge_report" where
  "run_badge env i audit checkpoint url =
     (case load_config (cx_unicode env) (cx_settings env) (cx_files env) of
        Inl e \<Rightarrow> Inl (Cli_Config e)
      | Inr cfg \<Rightarrow>
     case resolve_transparency_url url (cx_transparency_url env) of
        Inl e \<Rightarrow> Inl e
      | Inr base \<Rightarrow>
     case new_transparency_client [with_base_url base, with_verbose (cf_verbose cfg)] of
        Inl e \<Rightarrow> Inl (Cli_Client (Bad_Client e))
      | Inr c \<Rightarrow>
     case get_agent_transparency_log (cx_api env) c i of
        Inl e \<Rightarrow> Inl (Cli_Request e)
      | Inr entry \<Rightarrow> Inr (badge_output (cx_api env) c i entry audit checkpoint))"

section \<open>Following events\<close>

record events_params =
  el_limit :: int
  el_provider_id :: string
  el_last_log_id :: string
  el_follow :: bool
  el_poll_interval :: int

text \<open>
  One turn of the loop: what the request meets, whether the context was cancelled when it failed, and
  whether it was cancelled before the interval elapsed.
\<close>

record poll_round =
  po_api :: api_env
  po_cancelled :: bool
  po_done :: bool

datatype poll_end = Poll_Finished | Poll_Failed api_error | Poll_Waiting string

definition next_cursor :: "event_page \<Rightarrow> string \<Rightarrow> string" where
  "next_cursor page cursor =
     (case ev_last_log_id page of None \<Rightarrow> cursor | Some l \<Rightarrow> if l \<noteq> [] then l else cursor)"

text \<open>
  The pages that are printed, each with whether it counts as the first, and how the loop ends; with no
  further round it waits with its cursor.
\<close>

fun poll_events ::
  "client_config \<Rightarrow> events_params \<Rightarrow> string \<Rightarrow> poll_round list \<Rightarrow> (event_page \<times> bool) list \<times> poll_end" where
  "poll_events c p cursor [] = ([], Poll_Waiting cursor)"
| "poll_events c p cursor (r # rs) =
     (case get_agent_events (po_api r) c (el_limit p) (el_provider_id p) cursor of
        Inl e \<Rightarrow> ([], if po_cancelled r then Poll_Finished else Poll_Failed e)
      | Inr page \<Rightarrow>
          let out = (page, cursor = []) in
          if \<not> el_follow p then ([out], Poll_Finished)
          else if po_done r then ([out], Poll_Finished)
          else let (outs, end_state) = poll_events c p (next_cursor page cursor) rs in (out # outs, end_state))"

definition execute_events ::
  "cli_config \<Rightarrow> events_params \<Rightarrow> poll_round list \<Rightarrow> cli_error + (event_page \<times> bool) list \<times> poll_end" where
  "execute_events cfg p rounds =
     (if el_follow p \<and> el_poll_interval p \<le> 0 then Inl Cli_Poll_Interval
      else with_client cfg (\<lambda>c. Inr (poll_events c p (el_last_log_id p) rounds)))"

definition run_events ::
  "cli_env \<Rightarrow> events_params \<Rightarrow> poll_round list \<Rightarrow> cli_error + (event_page \<times> bool) list \<times> poll_end" where
  "run_events env p rounds = with_credentials env (\<lambda>cfg. execute_events cfg p rounds)"

section \<open>What the commands do\<close>

text \<open>The cursor of a turn is the last one a page brought, or the one the command was given.\<close>

definition cursor_after :: "string \<Rightarrow> event_page list \<Rightarrow> string" where
  "cursor_after = foldl (\<lambda>cursor page. next_cursor page cursor)"

lemma poll_events_outputs:
  "poll_events c p cursor rounds = (outs, e) \<Longrightarrow> k < length outs \<Longrightarrow>
     k < length rounds
     \<and> get_agent_events (po_api (rounds ! k)) c (el_limit p) (el_provider_id p)
           (cursor_after cursor (map fst (take k outs))) = Inr (fst (outs ! k))
     \<and> (snd (outs ! k) \<longleftrightarrow> cursor_after cursor (map fst (take k outs)) = [])"
proof (induction rounds arbitrary: cursor outs k)
  case (Cons r rs)
  show ?case
  proof (cases "get_agent_events (po_api r) c (el_limit p) (el_provider_id p) cursor")
    case (Inr page)
    show ?thesis
    proof (cases "el_follow p \<and> \<not> po_done r")
      case True
      obtain outs' where o: "poll_events c p (next_cursor page cursor) rs = (outs', e)" "outs = (page, cursor = []) # outs'"
        using Cons.prems(1) Inr True by (auto simp: Let_def split: prod.splits)
      show ?thesis
        using Cons.IH [OF o(1)] Cons.prems(2) Inr o(2) by (cases k) (auto simp: cursor_after_def)
    next
      case False
      then show ?thesis
        using Cons.prems Inr by (auto simp: cursor_after_def Let_def split: if_splits)
    qed
  qed (use Cons.prems in auto)
qed simp

text \<open>Without \<open>--follow\<close> there is one request, and an error of it is reported unless it was cancelled.\<close>

lemma poll_events_once:
  "\<not> el_follow p \<Longrightarrow> poll_events c p cursor (r # rs) =
     (case get_agent_events (po_api r) c (el_limit p) (el_provider_id p) cursor of
        Inl e \<Rightarrow> ([], if po_cancelled r then Poll_Finished else Poll_Failed e)
      | Inr page \<Rightarrow> ([(page, cursor = [])], Poll_Finished))"
  by (simp add: Let_def split: sum.split)

lemma step_eq_Inr: "(case m of Inl e \<Rightarrow> Inl (g e) | Inr x \<Rightarrow> f x) = Inr r \<longleftrightarrow> (\<exists>x. m = Inr x \<and> f x = Inr r)"
  by (cases m) simp_all

lemma with_credentials_Inr:
  "with_credentials env k = Inr x \<longleftrightarrow>
     (\<exists>cfg. load_config (cx_unicode env) (cx_settings env) (cx_files env) = Inr cfg
          \<and> (cf_token cfg \<noteq> [] \<or> cf_api_key cfg \<noteq> []) \<and> k cfg = Inr x)"
  by (cases "load_config (cx_unicode env) (cx_settings env) (cx_files env)")
    (auto simp: with_credentials_def require_credentials_def)

lemma with_client_Inr: "with_client cfg k = Inr x \<longleftrightarrow> (\<exists>c. fst (create_client cfg) = Inr c \<and> k c = Inr x)"
  by (cases "fst (create_client cfg)") (auto simp: with_client_def)

lemma read_validated_csr_Inr:
  "read_validated_csr env path rules label skip = Inr data \<longleftrightarrow>
     fl_read (cx_files env) path = Some data \<and> (\<not> skip \<longrightarrow> (\<exists>csr. validate_csr (cx_csr env) data rules = Inr csr))"
  by (auto simp: read_validated_csr_def split: option.splits sum.splits)

lemma read_profiles_Inr:
  "read_profiles env ps = Inr qs \<longleftrightarrow>
     qs = map (\<lambda>p. to_upper env (trim_space p)) ps \<and> list_all is_valid_discovery_profile qs"
proof (induction ps arbitrary: qs)
  case (Cons p ps)
  show ?case
    by (simp only: read_profiles.simps Let_def if_Inl_eq_Inr step_eq_Inr [where g = "\<lambda>e. e"] Cons.IH not_not) auto
qed auto

lemma before_calls_called:
  "snd (before_calls m f) \<noteq> [] \<longleftrightarrow> (\<exists>x. m = Inr x \<and> snd (f x) \<noteq> [])"
  by (cases m) (simp_all add: before_calls_def)

lemma before_calls_Inr [simp]: "before_calls (Inr x) f = f x"
  by (simp add: before_calls_def)

text \<open>
  The server material of the flags: a certificate wins over a CSR, which must pass the server rules unless the checks
  are skipped.
\<close>

definition server_material :: "cli_env \<Rightarrow> register_params \<Rightarrow> bytes \<Rightarrow> bytes \<Rightarrow> bool" where
  "server_material env p cert csr \<longleftrightarrow>
     (if rp_server_cert p \<noteq> [] then fl_read (cx_files env) (rp_server_cert p) = Some cert \<and> csr = []
      else if rp_server_csr p \<noteq> [] then
        cert = [] \<and> fl_read (cx_files env) (rp_server_csr p) = Some csr
        \<and> (rp_skip_preflight p \<or> (\<exists>x. validate_csr (cx_csr env) csr server_rules = Inr x))
      else cert = [] \<and> csr = [])"

lemma read_server_material_Inr: "read_server_material env p = Inr (cert, csr) \<longleftrightarrow> server_material env p cert csr"
  by (auto simp: read_server_material_def server_material_def read_validated_csr_def split: option.splits sum.splits if_splits)

text \<open>The profiles of the flags, and the lane they need.\<close>

lemma parse_discovery_profiles_Inr:
  "parse_discovery_profiles env raw v = Inr profiles \<longleftrightarrow>
     profiles = map (\<lambda>p. to_upper env (trim_space p)) raw \<and> list_all is_valid_discovery_profile profiles
     \<and> (profiles = [] \<or> v = APIVersionV2)"
  by (auto simp: parse_discovery_profiles_def read_profiles_Inr step_eq_Inr [where g = "\<lambda>e. e"])

text \<open>A registration that was called for: its material passed the intake rules, its flags the limits.\<close>

lemma run_register_called:
  assumes "run_register env p = (res, calls)" "calls \<noteq> []"
  shows "\<exists>cfg c identity_csr server_cert server_csr fns profiles req.
     load_config (cx_unicode env) (cx_settings env) (cx_files env) = Inr cfg \<and> fst (create_client cfg) = Inr c
     \<and> fl_read (cx_files env) (rp_identity_csr p) = Some identity_csr
     \<and> (rp_skip_preflight p \<or> (\<exists>csr. validate_csr (cx_csr env) identity_csr identity_rules = Inr csr))
     \<and> server_material env p server_cert server_csr
     \<and> parse_function_flags (rp_functions p) = Inr fns
     \<and> profiles = map (\<lambda>p. to_upper env (trim_space p)) (rp_profiles p)
     \<and> list_all is_valid_discovery_profile profiles \<and> (profiles = [] \<or> cf_api_version cfg = APIVersionV2)
     \<and> rune_count (rp_description p) \<le> 150
     \<and> req = registration_of p identity_csr server_cert server_csr fns profiles \<and> calls = [req]
     \<and> res = map_error Cli_Request (register_agent (cx_api env) c (Some req))"
proof -
  have "snd (run_register env p) \<noteq> []" using assms by simp
  then obtain cfg c identity_csr server_cert server_csr fns profiles where s:
    "with_credentials env (\<lambda>cfg. with_client cfg (\<lambda>c. Inr (cfg, c))) = Inr (cfg, c)"
    "read_validated_csr env (rp_identity_csr p) identity_rules ''identity'' (rp_skip_preflight p) = Inr identity_csr"
    "read_server_material env p = Inr (server_cert, server_csr)" "parse_function_flags (rp_functions p) = Inr fns"
    "parse_discovery_profiles env (rp_profiles p) (cf_api_version cfg) = Inr profiles"
    "validate_registration_params p = None"
    unfolding run_register_def before_calls_called
    by (auto simp: before_calls_called map_error_eq_Inr_iff split: option.splits)
  have r: "calls = [registration_of p identity_csr server_cert server_csr fns profiles]"
    "res = map_error Cli_Request
       (register_agent (cx_api env) c (Some (registration_of p identity_csr server_cert server_csr fns profiles)))"
    using assms(1) s by (auto simp: run_register_def Let_def)
  have "load_config (cx_unicode env) (cx_settings env) (cx_files env) = Inr cfg" "fst (create_client cfg) = Inr c"
    using s(1) by (auto simp: with_credentials_Inr with_client_Inr)
  moreover have "rune_count (rp_description p) \<le> 150"
    using s(6) by (simp add: validate_registration_params_def max_description_len_def split: if_splits)
  ultimately show ?thesis
    using s(2-5) r unfolding read_validated_csr_Inr read_server_material_Inr parse_discovery_profiles_Inr by blast
qed

end
