(* ===== verification/Tool_Samples.thy ===== *)
theory Tool_Samples
  imports Api_Samples Csr_Generation Cli_Commands
begin

text \<open>
  Concrete surroundings of the key and CSR tools and of the command line, for the theorems that apply the
  general ones: keys are their size or their curve, DER and PEM are length-prefixed text.
\<close>

section \<open>Text that holds two parts\<close>

definition enc_pair :: "string \<Rightarrow> string \<Rightarrow> string" where
  "enc_pair a b = show_nat (length a) @ CHR '':'' # a @ b"

definition dec_pair :: "string \<Rightarrow> (string \<times> string) option" where
  "dec_pair s =
     (case cut_at (CHR '':'') s of
        None \<Rightarrow> None
      | Some (n, rest) \<Rightarrow> Some (take (dec_val n) rest, drop (dec_val n) rest))"

lemma dec_pair_enc [simp]: "dec_pair (enc_pair a b) = Some (a, b)"
proof -
  have "CHR '':'' \<notin> set (show_nat (length a))"
    using show_nat_digits [of "length a"] by (auto simp: list_all_iff is_digit_def byte_val_def)
  then show ?thesis by (simp add: dec_pair_def enc_pair_def cut_at_append)
qed

section \<open>Keys and their encodings\<close>

definition curve_char :: "key_curve \<Rightarrow> char" where
  "curve_char c = (case c of P256 \<Rightarrow> CHR ''2'' | P384 \<Rightarrow> CHR ''3'' | P521 \<Rightarrow> CHR ''5'')"

definition char_curve :: "char \<Rightarrow> key_curve" where
  "char_curve x = (if x = CHR ''2'' then P256 else if x = CHR ''3'' then P384 else P521)"

lemma char_curve_char [simp]: "char_curve (curve_char c) = c"
  by (cases c) (simp_all add: char_curve_def curve_char_def)

definition sample_pem_encode :: "pem_block \<Rightarrow> bytes" where
  "sample_pem_encode b =
     (case pb_headers b of
        [] \<Rightarrow> CHR ''P'' # enc_pair (pb_type b) (pb_bytes b)
      | h # _ \<Rightarrow> CHR ''E'' # enc_pair (pb_type b) (enc_pair (snd h) (pb_bytes b)))"

definition sample_pem_decode :: "bytes \<Rightarrow> pem_block option" where
  "sample_pem_decode s =
     (case dec_pair (tl s) of
        None \<Rightarrow> None
      | Some (t, r) \<Rightarrow>
          if hd s = CHR ''P'' then Some (plain_block t r)
          else map_option (\<lambda>(h, bs). \<lparr>pb_type = t, pb_headers = [(''DEK-Info'', h)], pb_bytes = bs\<rparr>) (dec_pair r))"

definition sample_key_lib :: "(nat, key_curve, nat, key_curve) key_lib" where
  "sample_key_lib =
     \<lparr>kl_generate_rsa = (\<lambda>n. Some (nat n)), kl_generate_ec = (\<lambda>c. Some c), kl_rsa_public = (\<lambda>n. n),
      kl_ec_public = (\<lambda>c. c), kl_marshal_pkcs1 = (\<lambda>n. CHR ''R'' # show_nat n),
      kl_marshal_ec = (\<lambda>c. Some [CHR ''E'', curve_char c]),
      kl_parse_pkcs1 = (\<lambda>s. if hd s = CHR ''R'' then Some (dec_val (tl s)) else None),
      kl_parse_pkcs8 = (\<lambda>_. None),
      kl_parse_ec = (\<lambda>s. if hd s = CHR ''E'' then Some (char_curve (hd (tl s))) else None),
      kl_marshal_pkix = (\<lambda>k. case k of Rsa_Key n \<Rightarrow> Some (CHR ''R'' # show_nat n)
         | Ecdsa_Key c \<Rightarrow> Some [CHR ''E'', curve_char c] | Other_Key \<Rightarrow> None),
      kl_parse_pkix = (\<lambda>s. if hd s = CHR ''R'' then Some (Rsa_Key (dec_val (tl s)))
         else Some (Ecdsa_Key (char_curve (hd (tl s))))),
      kl_encrypt = (\<lambda>t der password. Some \<lparr>pb_type = t, pb_headers = [(''DEK-Info'', password)], pb_bytes = der\<rparr>),
      kl_decrypt = (\<lambda>b password. if map snd (pb_headers b) = [password] then Some (pb_bytes b) else None),
      kl_pem_encode = sample_pem_encode, kl_pem_decode = sample_pem_decode\<rparr>"

lemma sample_key_lib_ok: "key_lib_ok sample_key_lib"
  by (auto simp: key_lib_ok_def sample_key_lib_def dec_val_show_nat sample_pem_encode_def sample_pem_decode_def
      is_encrypted_block_def plain_block_def split: public_key.splits)

definition sample_io :: file_io where
  "sample_io = \<lparr>io_open = (\<lambda>_. True), io_written = (\<lambda>_. None), io_close = (\<lambda>_. True), io_read = (\<lambda>_. True),
     io_mkdir = (\<lambda>_. True)\<rparr>"

lemma sample_saved:
  "save_private_key_pem sample_io sample_key_lib (Ecdsa_Private P256) ''k'' ''pw'' Map.empty
     = (None, Map.empty(''k'' \<mapsto> \<lparr>fi_mode = mode_0600,
          fi_content = CHR ''E'' # enc_pair ''EC PRIVATE KEY'' (enc_pair ''pw'' [CHR ''E'', CHR ''2''])\<rparr>))"
  by (simp add: save_private_key_pem_def private_key_to_pem_def sample_key_lib_def write_file_def sample_io_def
      sample_pem_encode_def curve_char_def)

section \<open>Requests\<close>

definition sample_public :: "(nat, key_curve) private_key \<Rightarrow> csr_public_key" where
  "sample_public k =
     (case k of
        Rsa_Private n \<Rightarrow> Rsa_Public n
      | Ecdsa_Private c \<Rightarrow> planned_key (Generate_EC c)
      | Other_Private \<Rightarrow> Other_Public)"

definition sample_request :: "csr_public_key \<Rightarrow> certificate_request" where
  "sample_request pk = \<lparr>crq_public_key = pk, crq_key_algorithm = [], crq_signature_algorithm = default_signature pk,
     crq_signature_error = None\<rparr>"

text \<open>
  Finding the block of a text: the base 64 between the armour, once whitespace is gone. A request is an \<open>X\<close> when a host
  of its URIs cannot be parsed, else its key.
\<close>

definition sample_csr_lib :: csr_lib where
  "sample_csr_lib =
     \<lparr>cl_pem_decode = (\<lambda>pem. let w = without_whitespace pem in
        map_option (plain_block pem_type_csr) (std_decode (take (length w - 64) (drop 33 w)))),
      cl_parse = (\<lambda>der. if hd der = CHR ''X'' then Inl ''x509: malformed'' else Inr (sample_request
         (if hd der = CHR ''R'' then Rsa_Public (dec_val (tl der))
          else if hd der = CHR ''E'' then planned_key (Generate_EC (char_curve (hd (tl der)))) else Other_Public)))\<rparr>"

definition sample_csr_env :: "(nat, key_curve, nat, key_curve) csr_env" where
  "sample_csr_env =
     \<lparr>ge_unicode = sample_unicode, ge_io = sample_io, ge_keys = sample_key_lib,
      ge_create = (\<lambda>tmpl k. if \<not> list_all (parseable_host \<circ> url_host) (ct_uris tmpl) then Some ''X'' else case k of Rsa_Private n \<Rightarrow> Some (CHR ''R'' # show_nat n)
         | Ecdsa_Private c \<Rightarrow> Some [CHR ''E'', curve_char c] | Other_Private \<Rightarrow> None),
      ge_join = (\<lambda>d name. d @ ''/'' @ name), ge_bracket_ok = (\<lambda>_. True)\<rparr>"

lemma sample_pem_found: "cl_pem_decode sample_csr_lib (pem_encode pem_type_csr der) = Some (plain_block pem_type_csr der)"
  by (simp add: sample_csr_lib_def without_whitespace_pem Let_def)

lemma sample_csr_creation_ok: "csr_creation_ok sample_csr_env sample_csr_lib sample_public"
proof -
  have p: "cl_parse sample_csr_lib der = (if hd der = CHR ''X'' then Inl ''x509: malformed'' else Inr (sample_request
         (if hd der = CHR ''R'' then Rsa_Public (dec_val (tl der))
          else if hd der = CHR ''E'' then planned_key (Generate_EC (char_curve (hd (tl der)))) else Other_Public)))" for der
    by (simp add: sample_csr_lib_def)
  have bad: "ge_create sample_csr_env tmpl k = Some der \<Longrightarrow> \<not> list_all (parseable_host \<circ> url_host) (ct_uris tmpl) \<Longrightarrow> der = ''X''"
    for tmpl k der by (simp add: sample_csr_env_def)
  have good: "list_all (\<lambda>u. parseable_host (url_host u) \<and> short_host (url_host u)) us \<Longrightarrow> list_all (parseable_host \<circ> url_host) us" for us
    by (simp add: list_all_iff)
  have made: "\<exists>csr. cl_parse sample_csr_lib der = Inr csr \<and> crq_public_key csr = sample_public k
      \<and> crq_signature_algorithm csr = default_signature (sample_public k) \<and> crq_signature_error csr = None"
    if "ge_create sample_csr_env tmpl k = Some der" "list_all (parseable_host \<circ> url_host) (ct_uris tmpl)" for tmpl k der
    using that
    by (auto simp: p sample_csr_env_def sample_public_def planned_key_def sample_request_def dec_val_show_nat
        split: private_key.splits)
  show ?thesis
    unfolding csr_creation_ok_def
  proof (intro conjI allI impI)
    fix tmpl k der
    assume "ge_create sample_csr_env tmpl k = Some der" "\<not> list_all (parseable_host \<circ> url_host) (ct_uris tmpl)"
    then have "der = ''X''" by (rule bad)
    then show "\<exists>e. cl_parse sample_csr_lib der = Inl e" by (simp add: p)
  next
    fix tmpl k der
    assume "ge_create sample_csr_env tmpl k = Some der"
      "list_all (\<lambda>u. parseable_host (url_host u) \<and> short_host (url_host u)) (ct_uris tmpl)"
    then show "\<exists>csr. cl_parse sample_csr_lib der = Inr csr \<and> crq_public_key csr = sample_public k
        \<and> crq_signature_algorithm csr = default_signature (sample_public k) \<and> crq_signature_error csr = None"
      using good by (intro made)
  qed (auto simp: sample_pem_found sample_csr_env_def sample_key_lib_def sample_public_def planned_key_def)
qed

lemma sample_join_apart: "join_apart (ge_join sample_csr_env) dir"
  by (simp add: join_apart_def sample_csr_env_def inj_on_def)

definition sample_csr_params :: generate_csr_params where
  "sample_csr_params =
     \<lparr>gp_host = ''a.io'', gp_org = ''org'', gp_country = ''US'', gp_version = ''1.0.0'', gp_out_dir = ''out'',
      gp_key_type = [], gp_key_size = 2048, gp_csr_type = ''both''\<rparr>"

definition sample_jobs :: "csr_job list" where
  "sample_jobs =
     [\<lparr>cj_name = csr_type_identity, cj_new_key = Generate_EC P256, cj_key_label = ''EC P-256''\<rparr>,
      \<lparr>cj_name = csr_type_server, cj_new_key = Generate_RSA 2048, cj_key_label = ''RSA 2048 bits''\<rparr>]"

lemma sample_planned: "plan_csr_jobs sample_unicode sample_csr_params = Inr sample_jobs"
  by code_simp

lemma sample_generated: "\<exists>fs'. run_generate_csr sample_csr_env sample_csr_params Map.empty = (None, fs')"
proof -
  have "url_parse (\<lambda>_. True) ''ans://v1.0.0.a.io'' \<noteq> None" by code_simp
  then obtain uri where u: "url_parse (\<lambda>_. True) ''ans://v1.0.0.a.io'' = Some uri" by blast
  show ?thesis
    using sample_planned u unfolding sample_jobs_def
    by (simp add: run_generate_csr_def sample_csr_env_def sample_io_def sample_jobs_def sample_csr_params_def generate_csr_def
        run_generator_def generate_ec_key_pair_def generate_rsa_key_pair_def min_rsa_key_size_def sample_key_lib_def
        save_private_key_pem_def private_key_to_pem_def write_file_def)
qed

section \<open>A command line\<close>

definition the_default :: "'a \<Rightarrow> 'a option \<Rightarrow> 'a" where
  "the_default d x = (case x of None \<Rightarrow> d | Some y \<Rightarrow> y)"

definition sample_settings :: cli_settings where
  "sample_settings =
     \<lparr>vp_string = (\<lambda>k. the_default [] (map_of [(''base-url'', ''https://api.godaddy.com''), (''token-file'', ''tok''),
          (''token'', ''other''), (''api-key'', ''k:s'')] k)),
      vp_bool = (\<lambda>_. False), vp_is_set = (\<lambda>k. k = ''token-file'')\<rparr>"

definition sample_files :: cli_files where
  "sample_files = \<lparr>fl_read = map_of [(''tok'', ''abc'' @ [CHR 0x0A]), (''id.csr'', pem_encode pem_type_csr ''E2'')],
     fl_stdin = None\<rparr>"

definition sample_cli_env :: cli_env where
  "sample_cli_env = \<lparr>cx_unicode = sample_unicode, cx_upper = (\<lambda>s. s), cx_settings = sample_settings,
     cx_files = sample_files, cx_csr = sample_csr_lib, cx_api = sample_api_env, cx_transparency_url = []\<rparr>"

definition sample_cli_config :: cli_config where
  "sample_cli_config = \<lparr>cf_base_url = ''https://api.godaddy.com'', cf_api_key = ''k:s'', cf_token = ''abc'',
     cf_token_from_deprecated_name = False, cf_deprecated_token_ignored = False, cf_api_version = ''v1'',
     cf_verbose = False, cf_json = False\<rparr>"

lemma sample_cli_loaded: "load_config sample_unicode sample_settings sample_files = Inr sample_cli_config"
  by code_simp

lemma sample_cli_client:
  "fst (create_client sample_cli_config) =
     Inr (default_client_config\<lparr>cc_base_url := ''https://api.godaddy.com'', cc_auth_header := ''Bearer abc''\<rparr>)"
  by (simp add: create_client_Inr sample_cli_config_def is_valid_api_version_def APIVersionV1_def is_valid_bearer_token_def
      byte_val_def default_client_config_def)

definition sample_register :: register_params where
  "sample_register = \<lparr>rp_name = ''a'', rp_host = ''a.io'', rp_version = ''1.0.0'', rp_description = [],
     rp_identity_csr = ''id.csr'', rp_server_csr = [], rp_server_cert = [], rp_endpoint_url = ''https://a.io/api'',
     rp_metadata_url = [], rp_endpoint_proto = ''MCP'', rp_endpoint_trans = [], rp_functions = [''f:Fun:x,y''],
     rp_profiles = [], rp_skip_preflight = False\<rparr>"

lemma sample_csr_valid:
  "validate_csr sample_csr_lib (pem_encode pem_type_csr ''E2'') identity_rules =
     Inr (sample_request (Ec_Public ''P-256''))"
  by (simp add: validate_csr_Inr sample_pem_found plain_block_def check_csr_None sample_request_def identity_rules_def
      CurveP256_def default_signature_def)
    (simp add: sample_csr_lib_def sample_request_def planned_key_def char_curve_def default_signature_def)

lemma sample_register_function:
  "parse_function_flags [''f:Fun:x,y''] = Inr [\<lparr>fn_id = ''f'', fn_name = ''Fun'', fn_tags = [''x'', ''y'']\<rparr>]"
  by code_simp

definition sample_cli_registration :: registration_request where
  "sample_cli_registration = registration_of sample_register (pem_encode pem_type_csr ''E2'') [] []
     [\<lparr>fn_id = ''f'', fn_name = ''Fun'', fn_tags = [''x'', ''y'']\<rparr>] []"

lemma sample_run_register:
  "run_register sample_cli_env sample_register = (Inr zero_pending, [sample_cli_registration])"
proof -
  let ?c = "default_client_config\<lparr>cc_base_url := ''https://api.godaddy.com'', cc_auth_header := ''Bearer abc''\<rparr>"
  have "unmarshal (dec_pending (\<lambda>_. Some 0)) zero_pending ''{}'' = Some zero_pending"
    by (simp add: unmarshal_def sample_bodies dec_pending_def into_def field_Nil)
  moreover have "url_parse (\<lambda>_. True) ''https://api.godaddy.com/v1/agents/register'' \<noteq> None" by code_simp
  ultimately have "register_agent sample_api_env ?c (Some r) = Inr zero_pending" if "rr_profiles r = []" for r
    using that
    by (simp add: register_agent_def do_request_def authorization_header_def http_do_request_def exchange_def request_of_def
        default_client_config_def sample_api_env_def read_limited_body_def parse_success_response_def
        max_response_body_bytes_def register_path_def APIVersionV1_def APIVersionV2_def)
  moreover have "fl_read sample_files ''id.csr'' = Some (pem_encode pem_type_csr ''E2'')"
    by (simp add: sample_files_def)
  ultimately show ?thesis
    by (simp add: run_register_def before_calls_def sample_cli_registration_def with_credentials_def with_client_def sample_cli_env_def sample_cli_loaded sample_cli_client
        require_credentials_def sample_register_def read_validated_csr_def sample_csr_valid read_server_material_def
        sample_register_function parse_discovery_profiles_def validate_registration_params_def max_description_len_def
        registration_of_def)
      (simp add: sample_cli_config_def)
qed

definition sample_events_api :: api_env where
  "sample_events_api = \<lparr>av_bracket_ok = (\<lambda>_. True),
     av_send = (\<lambda>_. Some \<lparr>hr_status = 200, hr_header = Map.empty,
        hr_body = json_print (JObj [(''lastLogId'', JStr ''7'')]), hr_broken = False\<rparr>),
     av_time = (\<lambda>_. Some 0), av_now = 0\<rparr>"

definition sample_event_page :: event_page where
  "sample_event_page = zero_event_page\<lparr>ev_last_log_id := Some ''7''\<rparr>"

definition sample_events :: events_params where
  "sample_events = \<lparr>el_limit = 0, el_provider_id = [], el_last_log_id = [], el_follow = True, el_poll_interval = 5\<rparr>"

definition sample_round :: poll_round where
  "sample_round = \<lparr>po_api = sample_events_api, po_cancelled = False, po_done = False\<rparr>"

lemma sample_events_read:
  "get_agent_events sample_events_api default_client_config 0 [] cursor = Inr sample_event_page"
  if "cursor \<in> {[], ''7''}"
proof -
  have "unmarshal (dec_event_page (\<lambda>_. Some 0)) zero_event_page (json_print (JObj [(''lastLogId'', JStr ''7'')]))
      = Some sample_event_page"
    by code_simp
  moreover have "url_parse (\<lambda>_. True) ''https://api.godaddy.com/v1/agents/events'' \<noteq> None"
    "url_parse (\<lambda>_. True) ''https://api.godaddy.com/v1/agents/events?lastLogId=7'' \<noteq> None"
    "with_query ''/v1/agents/events'' (set_if True ''lastLogId'' ''7'' []) = ''/v1/agents/events?lastLogId=7''"
    by code_simp+
  moreover have "json_print (JObj [(''lastLogId'', JStr ''7'')]) \<noteq> []" by code_simp
  moreover have "length (json_print (JObj [(''lastLogId'', JStr ''7'')])) \<le> max_response_body_bytes" by code_simp
  ultimately show ?thesis
    using that
    by (auto simp: get_agent_events_def do_request_def authorization_header_def http_do_request_def exchange_def
        request_of_def default_client_config_def sample_events_api_def read_limited_body_def parse_success_response_def
        set_if_def with_query_def simp del: json_print.simps)
qed

lemma sample_polled:
  "poll_events default_client_config sample_events [] [sample_round, sample_round]
     = ([(sample_event_page, True), (sample_event_page, False)], Poll_Waiting ''7'')"
proof -
  have n: "next_cursor sample_event_page cur = ''7''" for cur by (simp add: next_cursor_def sample_event_page_def)
  show ?thesis
    by (simp add: sample_events_read sample_events_def sample_round_def n Let_def)
qed

end
