(* ===== verification/Cli_Format.thy ===== *)
theory Cli_Format
  imports Log_Client Api_Client_Lemmas
begin

text \<open>
  What the printing functions of \<open>cmd/ans-cli/cmd\<close> share: lines, \<open>fmt\<close>'s \<open>%v\<close> for decoded JSON, the
  column alignment of \<open>text/tabwriter\<close>, and the helpers \<open>truncateHash\<close> and \<open>requiredMark\<close>. Output is the text
  written to the stream, in UTF-8.
\<close>

section \<open>Lines\<close>

definition nl :: string where
  "nl = [CHR 0x0A]"

definition separator_width_standard :: nat where
  "separator_width_standard = 60"

definition separator_width_wide :: nat where
  "separator_width_wide = 80"

definition max_hash_display_length :: nat where
  "max_hash_display_length = 64"

text \<open>\<open>strings.Repeat("=", width)\<close> on a line of its own.\<close>

definition rule_line :: "nat \<Rightarrow> string" where
  "rule_line width = replicate width (CHR ''='') @ nl"

definition str_line :: "string \<Rightarrow> string \<Rightarrow> string" where
  "str_line label s = label @ s @ nl"

definition int_line :: "string \<Rightarrow> int \<Rightarrow> string" where
  "int_line label i = str_line label (show_int i)"

text \<open>A line that is left out for the empty string, and one for a nil pointer.\<close>

definition str_line_if :: "string \<Rightarrow> string \<Rightarrow> string" where
  "str_line_if label s = (if s \<noteq> [] then str_line label s else [])"

definition opt_line :: "string \<Rightarrow> string option \<Rightarrow> string" where
  "opt_line label x = (case x of None \<Rightarrow> [] | Some s \<Rightarrow> str_line label s)"

text \<open>
  \<open>Time.Format\<close> is a parameter, from the layout and the instant to the text. The model of a time is
  its instant; the text also names the zone the time was given in.
\<close>

type_synonym time_format = "string \<Rightarrow> int \<Rightarrow> string"

definition zone_layout :: string where
  "zone_layout = ''2006-01-02 15:04:05 MST''"

definition time_line :: "time_format \<Rightarrow> string \<Rightarrow> int \<Rightarrow> string" where
  "time_line tf label t = str_line label (tf zone_layout t)"

definition time_line_if :: "time_format \<Rightarrow> string \<Rightarrow> int \<Rightarrow> string" where
  "time_line_if tf label t = (if time_is_zero t then [] else time_line tf label t)"

definition opt_time_line :: "time_format \<Rightarrow> string \<Rightarrow> int option \<Rightarrow> string" where
  "opt_time_line tf label x = (case x of None \<Rightarrow> [] | Some t \<Rightarrow> time_line tf label t)"

text \<open>\<open>%-20s\<close>: padded on the right, counted in code points.\<close>

definition pad_right :: "nat \<Rightarrow> string \<Rightarrow> string" where
  "pad_right w s = s @ replicate (w - rune_count s) (CHR '' '')"

text \<open>The signs outside ASCII the commands print.\<close>

definition check_mark :: string where
  "check_mark = [CHR 0xE2, CHR 0x9C, CHR 0x93]"

definition bullet :: string where
  "bullet = [CHR 0xE2, CHR 0x80, CHR 0xA2]"

definition warning_sign :: string where
  "warning_sign = [CHR 0xE2, CHR 0x9A, CHR 0xA0, CHR 0xEF, CHR 0xB8, CHR 0x8F]"

section \<open>Maps in order of their keys\<close>

text \<open>
  The code collects the keys of a map in iteration order and sorts them. A decoded JSON object may name
  a member twice; the map holds the last one.
\<close>

definition last_members :: "(string \<times> 'a) list \<Rightarrow> (string \<times> 'a) list" where
  "last_members kvs = foldl (\<lambda>m (k, v). AList.update k v m) [] kvs"

definition sorted_entries :: "(string \<times> 'a) list \<Rightarrow> (string \<times> 'a) list" where
  "sorted_entries m = sort_key fst m"

text \<open>However a map is listed, its entries are printed in the same order.\<close>

lemma sorted_entries_unique:
  assumes "distinct (map fst m)" "distinct (map fst n)" "set m = set n"
  shows "sorted_entries m = sorted_entries n"
proof -
  have "mset m = mset n"
    using assms by (simp add: distinct_map set_eq_iff_mset_eq_distinct)
  then show ?thesis
    unfolding sorted_entries_def using assms(2)
    by (intro sort_key_unique) (simp_all add: distinct_map distinct_sort)
qed

section \<open>The verb v of fmt\<close>

text \<open>
  A value decoded into an interface: a \<open>float64\<close> is rendered from its literal by the parameter, a map in the
  order of its keys.
\<close>

fun go_value :: "(string \<Rightarrow> string) \<Rightarrow> json \<Rightarrow> string" where
  "go_value fl JNull = ''<nil>''"
| "go_value fl (JBool b) = (if b then ''true'' else ''false'')"
| "go_value fl (JNum l) = fl l"
| "go_value fl (JStr s) = s"
| "go_value fl (JArr xs) = ''['' @ join_with '' '' (map (go_value fl) xs) @ '']''"
| "go_value fl (JObj kvs) =
     ''map['' @ join_with '' '' (map (\<lambda>(k, v). k @ '':'' @ v)
        (sorted_entries (last_members (map (\<lambda>(k, v). (k, go_value fl v)) kvs)))) @ '']''"

definition go_bool :: "bool \<Rightarrow> string" where
  "go_bool b = (if b then ''true'' else ''false'')"

definition truncate_hash :: "string \<Rightarrow> string" where
  "truncate_hash h =
     (if length h > max_hash_display_length then take 32 h @ ''...'' @ drop (length h - 16) h else h)"

lemma truncate_hash_bound:
  "length (truncate_hash h) \<le> max_hash_display_length"
  "length h \<le> max_hash_display_length \<Longrightarrow> truncate_hash h = h"
  by (auto simp: truncate_hash_def max_hash_display_length_def)

definition required_mark :: "bool \<Rightarrow> string" where
  "required_mark required = (if required then ''yes'' else [])"

section \<open>Columns\<close>

text \<open>
  \<open>text/tabwriter\<close> with minimal width 0, blanks as padding and no flags. A tab or vertical tab ends a
  cell, a newline or form feed ends a line, a form feed also ends every column. A column is a maximal run of
  lines that have a cell ended by a tab there; its width is that of its widest cell, in code points, plus
  the padding. The last cell of a line is written as it is. (The escape byte 0xFF of the package is not
  part of any UTF-8 text.)
\<close>

fun split_at_any :: "char list \<Rightarrow> string \<Rightarrow> string list" where
  "split_at_any cs [] = [[]]"
| "split_at_any cs (c # s) =
     (if c \<in> set cs then [] # split_at_any cs s
      else case split_at_any cs s of [] \<Rightarrow> [[c]] | p # ps \<Rightarrow> (c # p) # ps)"

definition in_column :: "nat \<Rightarrow> string list \<Rightarrow> bool" where
  "in_column j cells = (Suc j < length cells)"

definition column_width :: "nat \<Rightarrow> string list list \<Rightarrow> nat \<Rightarrow> nat \<Rightarrow> nat" where
  "column_width padding rows i j =
     (let block = takeWhile (in_column j) (rev (take i rows)) @ takeWhile (in_column j) (drop i rows)
      in foldl max 0 (map (\<lambda>cells. rune_count (cells ! j) + padding) block))"

definition tab_line :: "nat \<Rightarrow> string list list \<Rightarrow> nat \<Rightarrow> string" where
  "tab_line padding rows i =
     (let cells = rows ! i in
      concat (map (\<lambda>j. pad_right (column_width padding rows i j) (cells ! j)) [0..<length cells - 1]) @ last cells)"

definition tab_block :: "nat \<Rightarrow> string \<Rightarrow> string" where
  "tab_block padding text =
     (let rows = map (split_at_any [CHR 0x09, CHR 0x0B]) (split_at_any [CHR 0x0A] text)
      in join_with nl (map (tab_line padding rows) [0..<length rows]))"

definition tabwriter :: "nat \<Rightarrow> string \<Rightarrow> string" where
  "tabwriter padding text = join_with nl (map (tab_block padding) (split_at_any [CHR 0x0C] text))"

section \<open>Tables\<close>

text \<open>Rows of cells, with the indentation the commands use, and cells that do not disturb the columns.\<close>

definition table_row :: "string list \<Rightarrow> string" where
  "table_row cells = ''  '' @ join_with [CHR 0x09] cells @ nl"

definition plain_cell :: "string \<Rightarrow> bool" where
  "plain_cell s = (set s \<inter> {CHR 0x09, CHR 0x0A, CHR 0x0B, CHR 0x0C} = {})"

fun indent_row :: "string list \<Rightarrow> string list" where
  "indent_row [] = []"
| "indent_row (c # cs) = (''  '' @ c) # cs"

definition widest :: "nat \<Rightarrow> string list list \<Rightarrow> nat \<Rightarrow> nat" where
  "widest padding rows j = foldl max 0 (map (\<lambda>cells. rune_count (cells ! j) + padding) rows)"

lemma split_at_any_plain: "set s \<inter> set cs = {} \<Longrightarrow> split_at_any cs s = [s]"
  by (induction s) auto

lemma split_at_any_append:
  "set s \<inter> set cs = {} \<Longrightarrow> c \<in> set cs \<Longrightarrow> split_at_any cs (s @ c # t) = s # split_at_any cs t"
  by (induction s) auto

lemma split_row:
  "cells \<noteq> [] \<Longrightarrow> list_all plain_cell cells \<Longrightarrow>
     split_at_any [CHR 0x09, CHR 0x0B] (join_with [CHR 0x09] cells) = cells"
proof (induction "[CHR 0x09] :: string" cells rule: join_with.induct)
  case (3 p q ps)
  then show ?case by (simp add: plain_cell_def split_at_any_append)
qed (auto simp: plain_cell_def intro: split_at_any_plain)

lemma plain_indent: "plain_cell c \<Longrightarrow> plain_cell (''  '' @ c)"
  by (simp add: plain_cell_def)

lemma indent_join: "cells \<noteq> [] \<Longrightarrow> ''  '' @ join_with [CHR 0x09] cells = join_with [CHR 0x09] (indent_row cells)"
  by (induction "[CHR 0x09] :: string" cells rule: join_with.induct) auto

lemma indent_row_plain: "list_all plain_cell cells \<Longrightarrow> list_all plain_cell (indent_row cells)"
  by (cases cells) (simp_all add: plain_cell_def)

lemma length_indent_row [simp]: "length (indent_row cells) = length cells"
  by (cases cells) simp_all

lemma set_join_with: "set (join_with sep ps) \<subseteq> set sep \<union> \<Union> (set ` set ps)"
  by (induction sep ps rule: join_with.induct) auto

lemma split_lines:
  "list_all (\<lambda>cells. cells \<noteq> [] \<and> list_all plain_cell cells) rows \<Longrightarrow>
     split_at_any [CHR 0x0A] (concat (map table_row rows))
       = map (\<lambda>cells. join_with [CHR 0x09] (indent_row cells)) rows @ [[]]"
proof (induction rows)
  case (Cons cells rows)
  let ?l = "join_with [CHR 0x09] (indent_row cells)"
  have "set ?l \<inter> set [CHR 0x0A] = {}"
    using Cons.prems set_join_with [of "[CHR 0x09]" "indent_row cells"] indent_row_plain [of cells]
    by (fastforce simp: list_all_iff plain_cell_def)
  then have "split_at_any [CHR 0x0A] (?l @ CHR 0x0A # concat (map table_row rows)) =
      ?l # split_at_any [CHR 0x0A] (concat (map table_row rows))"
    by (rule split_at_any_append) simp
  moreover have "concat (map table_row (cells # rows)) = ?l @ CHR 0x0A # concat (map table_row rows)"
    using Cons.prems indent_join [of cells] by (simp add: table_row_def nl_def)
  ultimately show ?case using Cons by simp
qed simp

lemma no_form_feed:
  "list_all (\<lambda>cells. cells \<noteq> [] \<and> list_all plain_cell cells) rows \<Longrightarrow>
     split_at_any [CHR 0x0C] (concat (map table_row rows)) = [concat (map table_row rows)]"
proof (rule split_at_any_plain)
  assume a: "list_all (\<lambda>cells. cells \<noteq> [] \<and> list_all plain_cell cells) rows"
  have "CHR 0x0C \<notin> set (table_row cells)" if "cells \<in> set rows" for cells
    using a that set_join_with [of "[CHR 0x09]" cells]
    by (fastforce simp: table_row_def nl_def list_all_iff plain_cell_def)
  then show "set (concat (map table_row rows)) \<inter> set [CHR 0x0C] = {}" by auto
qed

lemma foldl_max: "foldl max (a :: nat) xs = Max (insert a (set xs))"
proof -
  have "(\<lambda>x s. max s x) = (max :: nat \<Rightarrow> nat \<Rightarrow> nat)" by (auto simp: fun_eq_iff max.commute)
  then show ?thesis by (simp add: foldl_conv_fold Max.set_eq_fold flip: list.set)
qed

lemma join_with_last_empty: "join_with sep (ls @ [[]]) = concat (map (\<lambda>l. l @ sep) ls)"
proof (induction ls)
  case (Cons l ls)
  then show ?case by (cases ls) simp_all
qed simp

lemma column_width_uniform:
  assumes "list_all (\<lambda>r. length r = n) rows" "i < length rows" "Suc j < n"
  shows "column_width padding (rows @ [[[]]]) i j = widest padding rows j"
proof -
  have all: "\<forall>r\<in>set rows. in_column j r" using assms(1,3) by (simp add: list_all_iff in_column_def)
  have b: "takeWhile (in_column j) (rev (take i (rows @ [[[]]]))) = rev (take i rows)"
    using all assms(2) by (auto intro!: takeWhile_eq_all_conv [THEN iffD2] dest: in_set_takeD)
  have "takeWhile (in_column j) (drop i rows @ [[[]]]) = drop i rows"
    using all by (subst takeWhile_append2) (auto simp: in_column_def dest: in_set_dropD)
  then have f: "takeWhile (in_column j) (drop i (rows @ [[[]]])) = drop i rows"
    using assms(2) by simp
  have "set (rev (take i rows) @ drop i rows) = set rows"
    by (metis append_take_drop_id set_append set_rev)
  then show ?thesis
    unfolding column_width_def widest_def b f Let_def foldl_max by (simp only: list.set_map)
qed

lemma split_rows:
  "list_all (\<lambda>cells. cells \<noteq> [] \<and> list_all plain_cell cells) rows \<Longrightarrow>
     map (split_at_any [CHR 0x09, CHR 0x0B] \<circ> (\<lambda>cells. join_with [CHR 0x09] (indent_row cells))) rows = map indent_row rows"
proof (induction rows)
  case (Cons cells rows)
  have "indent_row cells \<noteq> []" using Cons.prems by (cases cells) simp_all
  moreover have "list_all plain_cell (indent_row cells)" using Cons.prems indent_row_plain by simp
  ultimately have "split_at_any [CHR 0x09, CHR 0x0B] (join_with [CHR 0x09] (indent_row cells)) = indent_row cells"
    by (rule split_row)
  then show ?case using Cons by simp
qed simp

text \<open>Every row is written with the same column widths.\<close>

lemma tabwriter_table:
  assumes "list_all (\<lambda>cells. length cells = n \<and> list_all plain_cell cells) rows" "0 < n"
  shows "tabwriter padding (concat (map table_row rows)) =
     concat (map (\<lambda>cells. concat (map (\<lambda>j. pad_right (widest padding (map indent_row rows) j) (indent_row cells ! j)) [0..<n - 1])
        @ last (indent_row cells) @ nl) rows)"
proof -
  let ?R = "map indent_row rows"
  have ok: "list_all (\<lambda>cells. cells \<noteq> [] \<and> list_all plain_cell cells) rows"
    using assms by (auto simp: list_all_iff)
  have cells: "map (split_at_any [CHR 0x09, CHR 0x0B]) (split_at_any [CHR 0x0A] (concat (map table_row rows))) = ?R @ [[[]]]"
    unfolding split_lines [OF ok] by (simp add: split_rows [OF ok, unfolded comp_def] comp_def)
  have len: "list_all (\<lambda>r. length r = n) ?R" using assms(1) by (simp add: list_all_iff)
  let ?f = "\<lambda>cells. concat (map (\<lambda>j. pad_right (widest padding ?R j) (cells ! j)) [0..<n - 1]) @ last cells"
  have line: "tab_line padding (?R @ [[[]]]) i = ?f (?R ! i)" if i: "i < length ?R" for i
  proof -
    have n: "length (?R ! i) = n" using len i by (simp add: list_all_length)
    have r: "(?R @ [[[]]]) ! i = ?R ! i" using i by (rule nth_append_left)
    have w: "map (\<lambda>j. pad_right (column_width padding (?R @ [[[]]]) i j) (?R ! i ! j)) [0..<n - 1]
        = map (\<lambda>j. pad_right (widest padding ?R j) (?R ! i ! j)) [0..<n - 1]"
      by (rule map_cong [OF refl], subst column_width_uniform [OF len i]) auto
    show ?thesis unfolding tab_line_def Let_def r n w ..
  qed
  have last: "tab_line padding (?R @ [[[]]]) (length ?R) = []"
    by (simp add: tab_line_def nth_append)
  have "map (tab_line padding (?R @ [[[]]])) [0..<length ?R] = map ?f ?R"
    by (rule nth_equalityI) (simp_all only: length_map length_upt nth_map nth_upt line diff_zero add_0)
  with last have "map (tab_line padding (?R @ [[[]]])) [0..<length (?R @ [[[]]])] = map ?f ?R @ [[]]"
    by (simp only: length_append list.size upt_Suc_append map_append list.map le0 add_0_right add_Suc_right One_nat_def)
  then have "tab_block padding (concat (map table_row rows)) = join_with nl (map ?f ?R @ [[]])"
    unfolding tab_block_def cells Let_def by simp
  also have "\<dots> = concat (map (\<lambda>l. l @ nl) (map ?f ?R))"
    by (rule join_with_last_empty)
  finally show ?thesis by (simp add: tabwriter_def no_form_feed [OF ok] comp_def)
qed

lemma widest_le: "cells \<in> set rows \<Longrightarrow> rune_count (cells ! j) + padding \<le> widest padding rows j"
  by (auto simp: widest_def foldl_max intro!: Max_ge)

end
