(* ===== verification/Cli_Print.thy ===== *)
theory Cli_Print
  imports Cli_Format Cli_Commands Csr_Generation
begin

text \<open>
  What the commands print for a reader: the \<open>print...\<close> functions of \<open>cmd/ans-cli/cmd\<close>, except those of
  \<open>badge.go\<close>. Each is the text it writes. Formatting a time is the parameter \<open>tf\<close>; the JSON form of the
  output is the answer itself, printed by \<open>encoding/json\<close>.
\<close>

section \<open>Links, endpoints and DNS records\<close>

definition print_links :: "rest_link list \<Rightarrow> string" where
  "print_links links =
     (if length links = 0 then []
      else nl @ ''Links:'' @ nl @ concat (map (\<lambda>l. str_line (''  '' @ lk_rel l @ '': '') (lk_href l)) links))"

definition print_endpoints :: "agent_endpoint list \<Rightarrow> string" where
  "print_endpoints eps =
     (if length eps = 0 then []
      else nl @ ''Endpoints:'' @ nl @ concat (map (\<lambda>(i, e).
          ''  '' @ show_nat i @ ''. '' @ ep_agent_url e @ '' ('' @ ep_protocol e @ '')'' @ nl
          @ (if length (ep_transports e) > 0
             then str_line ''     Transports: '' (join_with '', '' (ep_transports e)) else [])
          @ (if length (ep_functions e) > 0
             then int_line ''     Functions: '' (int (length (ep_functions e))) else []))
        (List.enumerate 1 eps)))"

definition print_dns_records :: "rest_dns_record list \<Rightarrow> string" where
  "print_dns_records records =
     (if length records = 0 then []
      else nl @ ''DNS Records:'' @ nl @ concat (map (\<lambda>r.
          ''  '' @ rd_type r @ '' '' @ rd_name r @ (if rd_required r then '' (required)'' else []) @ nl
          @ str_line ''    Value: '' (rd_value r)
          @ str_line_if ''    Purpose: '' (rd_purpose r)) records))"

section \<open>The status of an agent\<close>

definition print_agent_header :: "agent_details \<Rightarrow> string" where
  "print_agent_header a =
     nl @ ''Agent Details'' @ nl @ rule_line separator_width_standard
     @ str_line ''Agent ID:    '' (ad_agent_id a)
     @ str_line ''Name:        '' (ad_display_name a)
     @ str_line ''Host:        '' (ad_host a)
     @ str_line ''ANS Name:    '' (ad_ans_name a)
     @ str_line ''Version:     '' (ad_version a)
     @ str_line_if ''Description: '' (ad_description a)"

definition print_steps :: "string \<Rightarrow> string \<Rightarrow> string list \<Rightarrow> string" where
  "print_steps heading bullet_text steps =
     (if length steps > 0 then heading @ nl @ concat (map (str_line bullet_text) steps) else [])"

definition print_agent_status :: "agent_status_info option \<Rightarrow> string" where
  "print_agent_status status =
     (case status of
        None \<Rightarrow> []
      | Some s \<Rightarrow>
          nl @ ''Status:'' @ nl
          @ str_line_if ''  Current:  '' (as_status s)
          @ str_line_if ''  Phase:    '' (as_phase s)
          @ print_steps ''  Completed:'' (''    '' @ check_mark @ '' '') (as_completed_steps s)
          @ print_steps ''  Pending:'' (''    '' @ bullet @ '' '') (as_pending_steps s))"

definition print_challenge_brief :: "challenge_info \<Rightarrow> string" where
  "print_challenge_brief c =
     str_line ''    Type: '' (ch_type c)
     @ (case ch_dns_record c of
          None \<Rightarrow> []
        | Some d \<Rightarrow> str_line (''      DNS: '' @ dd_name d @ '' = '') (dd_value d))"

definition print_registration_pending :: "time_format \<Rightarrow> string \<Rightarrow> registration_pending \<Rightarrow> string" where
  "print_registration_pending tf agent_id p =
     nl @ ''Registration Pending:'' @ nl
     @ str_line ''  Status: '' (rg_status p)
     @ time_line_if tf ''  Expires: '' (rg_expires_at p)
     @ (if length (rg_challenges p) > 0
        then ''  Challenges:'' @ nl @ concat (map print_challenge_brief (rg_challenges p)) else [])
     @ (if length (rg_dns_records p) > 0
        then nl @ str_line ''Publish these DNS records, then run: ans-cli verify-dns '' agent_id
          @ print_dns_records (rg_dns_records p) else [])
     @ (if length (rg_next_steps p) > 0
        then ''  Next Steps:'' @ nl @ concat (map (\<lambda>s.
            str_line (''    '' @ bullet @ '' '' @ ns_action s @ '': '') (ns_description s)) (rg_next_steps p))
        else [])"

definition print_timestamps :: "time_format \<Rightarrow> agent_details \<Rightarrow> string" where
  "print_timestamps tf a =
     nl @ ''Timestamps:'' @ nl
     @ time_line_if tf ''  Registered: '' (ad_registered_at a)
     @ time_line_if tf ''  Last Renewal: '' (ad_renewed_at a)"

definition print_agent_details :: "time_format \<Rightarrow> agent_details \<Rightarrow> string" where
  "print_agent_details tf a =
     print_agent_header a @ print_agent_status (ad_status a) @ print_endpoints (ad_endpoints a)
     @ print_dns_records (ad_dns_records a)
     @ (case ad_pending a of None \<Rightarrow> [] | Some p \<Rightarrow> print_registration_pending tf (ad_agent_id a) p)
     @ print_timestamps tf a @ print_links (ad_links a) @ nl"

section \<open>Search\<close>

definition print_search_header :: "search_response \<Rightarrow> string" where
  "print_search_header r =
     nl @ ''Search Results'' @ nl @ rule_line separator_width_wide
     @ ''Total matches: '' @ show_int (sq_total r) @ '' | Showing: '' @ show_int (sq_returned r)
     @ '' | Limit: '' @ show_int (sq_limit r) @ '' | Offset: '' @ show_int (sq_offset r)
     @ '' | More: '' @ go_bool (sq_has_more r) @ nl @ nl"

definition details_link :: "rest_link \<Rightarrow> bool" where
  "details_link l = (lk_rel l = ''agent-details'' \<or> lk_rel l = ''self'')"

definition print_agent_summary :: "time_format \<Rightarrow> nat \<Rightarrow> search_result \<Rightarrow> string" where
  "print_agent_summary tf i a =
     str_line (show_nat i @ ''. '') (sr_display_name a)
     @ str_line ''   ANS Name: '' (sr_ans_name a)
     @ str_line ''   Host:     '' (sr_host a)
     @ str_line ''   Version:  '' (sr_version a)
     @ str_line_if ''   Description: '' (sr_description a)
     @ (if length (sr_endpoints a) > 0
        then ''   Endpoints: '' @ show_nat (length (sr_endpoints a)) @ '' (''
          @ join_with '', '' (map ep_protocol (sr_endpoints a)) @ '')'' @ nl else [])
     @ (if time_is_zero (sr_registered_at a) then []
        else str_line ''   Registered: '' (tf ''2006-01-02 15:04:05'' (sr_registered_at a)))
     @ (case find details_link (sr_links a) of None \<Rightarrow> [] | Some l \<Rightarrow> str_line ''   Details: '' (lk_href l))"

definition print_pagination_hint :: "search_response \<Rightarrow> string" where
  "print_pagination_hint r =
     (if sq_has_more r
      then nl @ ''More results available. Use --offset '' @ show_int (sint (word_of_int (sq_offset r + sq_returned r) :: 64 word))
        @ '' to see the next page.'' @ nl
      else [])"

definition print_search_results :: "time_format \<Rightarrow> search_response \<Rightarrow> string" where
  "print_search_results tf r =
     print_search_header r
     @ (if length (sq_agents r) = 0 then ''No agents found matching the search criteria.'' @ nl
        else concat (map (\<lambda>(i, a). print_agent_summary tf (i + 1) a @ (if i < length (sq_agents r) - 1 then nl else []))
               (List.enumerate 0 (sq_agents r)))
          @ print_pagination_hint r @ nl)"

section \<open>Events\<close>

text \<open>An event without a time is shown at the moment it is printed, \<open>now i\<close> for the event at index \<open>i\<close>.\<close>

definition print_events_streaming :: "time_format \<Rightarrow> (nat \<Rightarrow> int) \<Rightarrow> event_page \<Rightarrow> bool \<Rightarrow> string" where
  "print_events_streaming tf now page first_poll =
     (if first_poll
      then nl @ ''ANS Events (streaming)'' @ nl @ rule_line separator_width_wide
        @ ''Press Ctrl+C to stop'' @ nl @ nl else [])
     @ (if length (ev_items page) = 0 then (if first_poll then ''Waiting for events...'' @ nl else [])
        else concat (map (\<lambda>(i, e).
          ''['' @ tf ''15:04:05'' (if time_is_zero (ei_created_at e) then now i else ei_created_at e) @ ''] ''
          @ pad_right 20 (ei_event_type e) @ '' '' @ ei_host e @ '' (''
          @ (if has_prefix (ei_version e) ''v'' then ei_version e else CHR ''v'' # ei_version e) @ '')'' @ nl)
        (List.enumerate 0 (ev_items page))))"

definition print_event :: "time_format \<Rightarrow> nat \<Rightarrow> event_item \<Rightarrow> string" where
  "print_event tf i e =
     nl @ show_nat i @ ''. ['' @ ei_event_type e @ ''] '' @ ei_ans_name e @ nl
     @ str_line ''   Log ID:   '' (ei_log_id e)
     @ str_line ''   Agent ID: '' (ei_agent_id e)
     @ str_line ''   Host:     '' (ei_host e)
     @ str_line ''   Version:  '' (ei_version e)
     @ opt_line ''   Name:     '' (ei_display_name e)
     @ opt_line ''   Description: '' (ei_description e)
     @ opt_line ''   Provider: '' (ei_provider_id e)
     @ time_line_if tf ''   Created:  '' (ei_created_at e)
     @ (case ei_expires_at e of None \<Rightarrow> [] | Some t \<Rightarrow> time_line_if tf ''   Expires:  '' t)
     @ (if length (ei_endpoints e) > 0
        then ''   Endpoints: '' @ show_nat (length (ei_endpoints e)) @ '' (''
          @ join_with '', '' (map ep_protocol (ei_endpoints e)) @ '')'' @ nl else [])"

definition print_events :: "time_format \<Rightarrow> event_page \<Rightarrow> string" where
  "print_events tf page =
     nl @ ''ANS Events'' @ nl @ rule_line separator_width_wide
     @ (if length (ev_items page) = 0 then ''No events found.'' @ nl @ nl
        else concat (map (\<lambda>(i, e). print_event tf i e) (List.enumerate 1 (ev_items page)))
          @ (case ev_last_log_id page of
               None \<Rightarrow> []
             | Some l \<Rightarrow>
                 if l \<noteq> [] then nl @ ''More results may be available. Use --last-log-id '' @ l
                   @ '' to see the next page.'' @ nl else [])
          @ nl)"

definition output_events :: "time_format \<Rightarrow> (nat \<Rightarrow> int) \<Rightarrow> bool \<Rightarrow> event_page \<Rightarrow> bool \<Rightarrow> string" where
  "output_events tf now follow page first_poll =
     (if follow then print_events_streaming tf now page first_poll else print_events tf page)"

section \<open>The answer to a registration\<close>

definition print_registration_header :: "time_format \<Rightarrow> registration_pending \<Rightarrow> string" where
  "print_registration_header tf p =
     nl @ check_mark @ '' Agent registration submitted'' @ nl @ rule_line separator_width_standard
     @ str_line ''Status:  '' (rg_status p)
     @ str_line ''ANSName: '' (rg_ans_name p)
     @ str_line_if ''Agent ID: '' (rg_agent_id p)
     @ time_line_if tf ''Expires: '' (rg_expires_at p)"

definition print_dns_instruction :: "dns_record_details \<Rightarrow> string" where
  "print_dns_instruction d =
     nl @ str_line ''Record Type: '' (dd_type d)
     @ str_line ''Record Name: '' (dd_name d)
     @ ''Record Value:'' @ nl @ str_line ''  '' (dd_value d)
     @ nl @ ''Copy-paste for DNS provider:'' @ nl
     @ str_line ''  Name:  '' (dd_name d)
     @ ''  Type:  TXT'' @ nl
     @ str_line ''  Value: '' (dd_value d)
     @ ''  TTL:   300 (or minimum allowed)'' @ nl"

definition print_dns_challenge_banner :: "challenge_info list \<Rightarrow> string" where
  "print_dns_challenge_banner challenges =
     (if list_ex (\<lambda>c. ch_dns_record c \<noteq> None) challenges
      then nl @ rule_line separator_width_standard
        @ warning_sign @ ''  ACTION REQUIRED: Configure DNS TXT Record'' @ nl
        @ rule_line separator_width_standard
        @ concat (map (\<lambda>c. case ch_dns_record c of None \<Rightarrow> [] | Some d \<Rightarrow> print_dns_instruction d) challenges)
        @ rule_line separator_width_standard
      else [])"

definition print_challenge :: "challenge_info \<Rightarrow> string" where
  "print_challenge c =
     str_line ''  Type: '' (ch_type c)
     @ (case ch_dns_record c of
          None \<Rightarrow> []
        | Some d \<Rightarrow>
            ''  DNS Record:'' @ nl
            @ str_line ''    Name:  '' (dd_name d)
            @ str_line ''    Type:  '' (dd_type d)
            @ str_line ''    Value: '' (dd_value d))
     @ (if ch_http_path c \<noteq> []
        then str_line ''  HTTP Path: '' (ch_http_path c)
          @ str_line ''  Key Authorization: '' (ch_key_authorization c) else [])"

definition print_challenges :: "challenge_info list \<Rightarrow> string" where
  "print_challenges challenges =
     (if length challenges = 0 then []
      else nl @ ''ACME Challenges:'' @ nl @ concat (map (\<lambda>(i, c).
          (if length challenges > 1 then nl @ ''  Challenge '' @ show_nat i @ '':'' @ nl else [])
          @ print_challenge c) (List.enumerate 1 challenges)))"

definition print_dns_records_to_config :: "rest_dns_record list \<Rightarrow> string" where
  "print_dns_records_to_config records =
     (if length records = 0 then []
      else nl @ ''DNS Records to Configure:'' @ nl @ concat (map (\<lambda>r.
          ''  '' @ rd_type r @ '' '' @ rd_name r @ '' '' @ rd_value r @ '' (Purpose: '' @ rd_purpose r @ '')'' @ nl) records))"

definition print_next_steps :: "next_step list \<Rightarrow> string" where
  "print_next_steps steps =
     (if length steps = 0 then []
      else nl @ ''Next Steps:'' @ nl @ concat (map (\<lambda>(i, s).
          str_line (''  '' @ show_nat i @ ''. '' @ ns_action s @ '': '') (ns_description s)
          @ str_line_if ''     Endpoint: '' (ns_endpoint s)) (List.enumerate 1 steps)))"

definition print_result_links :: "rest_link list \<Rightarrow> string" where
  "print_result_links links =
     (if length links = 0 then []
      else nl @ ''Links:'' @ nl @ concat (map (\<lambda>l. str_line (''  '' @ lk_rel l @ '': '') (lk_href l)) links))"

definition print_registration_result :: "time_format \<Rightarrow> registration_pending \<Rightarrow> string" where
  "print_registration_result tf p =
     print_registration_header tf p @ print_dns_challenge_banner (rg_challenges p)
     @ print_challenges (rg_challenges p) @ print_dns_records_to_config (rg_dns_records p)
     @ print_next_steps (rg_next_steps p) @ print_result_links (rg_links p) @ nl"

text \<open>
  The details of a rejection, to standard error; \<open>order\<close> lists the map in the order of its iteration and
  \<open>status_text\<close> is \<open>http.StatusText\<close>, empty for a status it does not know.
\<close>

definition print_response_error_details ::
  "(nat \<Rightarrow> string) \<Rightarrow> (string \<Rightarrow> string) \<Rightarrow> ((string \<times> json) list \<Rightarrow> (string \<times> json) list) \<Rightarrow> response_error \<Rightarrow> string" where
  "print_response_error_details status_text fl order e =
     (let details = (case re_details e of None \<Rightarrow> [] | Some m \<Rightarrow> m) in
      if length details = 0 then []
      else let text = (if status_text (re_status_code e) = [] then ''HTTP '' @ show_nat (re_status_code e)
                       else status_text (re_status_code e))
        in nl @ ''Registration rejected ('' @ show_nat (re_status_code e) @ '' '' @ text @ ''):'' @ nl
          @ concat (map (\<lambda>(k, v). str_line (''  '' @ k @ '': '') (go_value fl v)) (order details)))"

section \<open>Domain validation\<close>

definition print_acme_result :: "agent_status_info \<Rightarrow> string \<Rightarrow> string" where
  "print_acme_result s agent_id =
     nl @ check_mark @ '' ACME validation triggered successfully'' @ nl
     @ str_line_if ''Status: '' (as_status s)
     @ str_line_if ''Phase: '' (as_phase s)
     @ print_steps (nl @ ''Pending steps:'') (''  '' @ bullet @ '' '') (as_pending_steps s)
     @ print_steps (nl @ ''Completed steps:'') (''  '' @ check_mark @ '' '') (as_completed_steps s)
     @ nl @ str_line ''Use '' (CHR 0x27 # ''ans-cli status '' @ agent_id @ [CHR 0x27] @ '' to check current status.'') @ nl"

definition print_dns_verified :: "agent_status_info \<Rightarrow> string \<Rightarrow> string" where
  "print_dns_verified s agent_id =
     nl @ check_mark @ '' DNS records verified successfully'' @ nl
     @ str_line_if ''Status: '' (as_status s)
     @ str_line_if ''Phase: '' (as_phase s)
     @ print_steps (nl @ ''Completed steps:'') (''  '' @ check_mark @ '' '') (as_completed_steps s)
     @ nl @ ''Agent registration is now active!'' @ nl
     @ str_line ''Use '' (CHR 0x27 # ''ans-cli status '' @ agent_id @ [CHR 0x27] @ '' to view full details.'') @ nl"

definition tabwriter_column_padding :: nat where
  "tabwriter_column_padding = 2"

definition missing_cells :: "rest_dns_record \<Rightarrow> string list" where
  "missing_cells r = [rd_name r, rd_type r, rd_value r, required_mark (rd_required r)]"

definition write_missing_records_table :: "rest_dns_record list \<Rightarrow> string" where
  "write_missing_records_table records =
     tabwriter tabwriter_column_padding
       (concat (map table_row ([''NAME'', ''TYPE'', ''VALUE'', ''REQUIRED''] # map missing_cells records)))"

definition incorrect_cells :: "incorrect_dns_record \<Rightarrow> string list" where
  "incorrect_cells ir =
     (let r = ic_record ir; unknown = rd_name r = [] \<and> rd_type r = [] in
      [if unknown then ''<unknown>'' else rd_name r, if unknown then ''<unknown>'' else rd_type r,
       ic_expected ir, ic_found ir, required_mark (rd_required r)])"

definition write_incorrect_records_table :: "incorrect_dns_record list \<Rightarrow> string" where
  "write_incorrect_records_table records =
     tabwriter tabwriter_column_padding
       (concat (map table_row ([''NAME'', ''TYPE'', ''EXPECTED'', ''FOUND'', ''REQUIRED''] # map incorrect_cells records)))"

definition print_dns_verification_error :: "dns_verification_error \<Rightarrow> string" where
  "print_dns_verification_error e =
     (if length (dv_missing e) > 0
      then nl @ ''Missing DNS records (configure these):'' @ nl @ write_missing_records_table (dv_missing e) else [])
     @ (if length (dv_incorrect e) > 0
        then nl @ ''Incorrect DNS records (fix these):'' @ nl @ write_incorrect_records_table (dv_incorrect e) else [])"

section \<open>Certificates, CSRs, resolution and revocation\<close>

definition csr_status_pending :: string where "csr_status_pending = ''PENDING''"
definition csr_status_signed :: string where "csr_status_signed = ''SIGNED''"
definition csr_status_rejected :: string where "csr_status_rejected = ''REJECTED''"

definition print_csr_status :: "time_format \<Rightarrow> csr_status_response \<Rightarrow> string" where
  "print_csr_status tf s =
     nl @ ''CSR Status'' @ nl @ rule_line separator_width_standard
     @ str_line ''CSR ID: '' (ct_csr_id s)
     @ str_line ''Type:   '' (ct_type s)
     @ str_line ''Status: '' (ct_status s)
     @ time_line_if tf ''Submitted: '' (ct_submitted_at s)
     @ time_line_if tf ''Updated: '' (ct_updated_at s)
     @ (case ct_failure_reason s of None \<Rightarrow> [] | Some r \<Rightarrow> nl @ str_line ''Failure Reason: '' r)
     @ (if ct_status s = csr_status_pending
        then nl @ ''The CSR is being processed. Check back later.'' @ nl
        else if ct_status s = csr_status_signed
        then nl @ ''The CSR has been signed. Use '' @ [CHR 0x27] @ ''get-identity-certs'' @ [CHR 0x27] @ '' or ''
          @ [CHR 0x27] @ ''get-server-certs'' @ [CHR 0x27] @ '' to retrieve the certificate.'' @ nl
        else if ct_status s = csr_status_rejected
        then nl @ ''The CSR was rejected. Please review the failure reason and submit a new CSR.'' @ nl
        else [])
     @ nl"

definition print_certificate :: "time_format \<Rightarrow> nat \<Rightarrow> certificate_response \<Rightarrow> string" where
  "print_certificate tf i c =
     nl @ ''Certificate '' @ show_nat i @ '':'' @ nl
     @ str_line ''  CSR ID: '' (ce_csr_id c)
     @ opt_line ''  Subject: '' (ce_subject c)
     @ opt_line ''  Issuer: '' (ce_issuer c)
     @ opt_line ''  Serial Number: '' (ce_serial c)
     @ opt_line ''  Public Key Algorithm: '' (ce_key_algorithm c)
     @ opt_line ''  Signature Algorithm: '' (ce_signature_algorithm c)
     @ time_line_if tf ''  Valid From: '' (ce_valid_from c)
     @ time_line_if tf ''  Valid To: '' (ce_valid_to c)"

definition print_certificates :: "time_format \<Rightarrow> unicode \<Rightarrow> string \<Rightarrow> certificate_response list \<Rightarrow> string" where
  "print_certificates tf u label certs =
     nl @ label @ '' Certificates'' @ nl @ rule_line separator_width_standard
     @ (if length certs = 0 then ''No '' @ to_lower u label @ '' certificates found.'' @ nl @ nl
        else concat (map (\<lambda>(i, c). print_certificate tf i c) (List.enumerate 1 certs)) @ nl)"

definition print_csr_submission_result :: "string \<Rightarrow> csr_submission_response \<Rightarrow> string" where
  "print_csr_submission_result csr_type r =
     nl @ check_mark @ '' '' @ csr_type @ '' CSR Submitted'' @ nl @ rule_line separator_width_standard
     @ str_line ''CSR ID: '' (cs_csr_id r)
     @ opt_line ''Message: '' (cs_message r)
     @ nl @ ''Use '' @ [CHR 0x27] @ ''csr-status <agentId> <csrId>'' @ [CHR 0x27] @ '' to check the status of your CSR.'' @ nl @ nl"

definition print_resolve_result :: "capability_response \<Rightarrow> string \<Rightarrow> string \<Rightarrow> string" where
  "print_resolve_result r host v =
     nl @ ''Agent Resolution Result'' @ nl @ rule_line separator_width_wide
     @ ''Query:    '' @ host @ '' @ '' @ v @ nl
     @ str_line ''ANS Name: '' (ca_ans_name r)
     @ print_links (ca_links r) @ nl"

definition print_revoke_result :: "time_format \<Rightarrow> revocation_response \<Rightarrow> string" where
  "print_revoke_result tf r =
     nl @ ''Agent Revocation Result'' @ nl @ rule_line separator_width_wide
     @ str_line ''Agent ID:  '' (rw_agent_id r)
     @ str_line ''ANS Name:  '' (rw_ans_name r)
     @ str_line ''Status:    '' (rw_status r)
     @ str_line ''Reason:    '' (rw_reason r)
     @ time_line_if tf ''Revoked:   '' (rw_revoked_at r) @ nl"

section \<open>Generated CSRs\<close>

definition print_generate_csr_next_steps :: "generate_csr_params \<Rightarrow> string list \<Rightarrow> string" where
  "print_generate_csr_next_steps p names =
     nl @ ''Next steps:'' @ nl
     @ (if length names = 1
        then ''  Renew an existing agent'' @ [CHR 0x27] @ ''s '' @ hd names @ '' certificate using:'' @ nl
          @ ''  ans-cli submit-'' @ hd names @ ''-csr <agentId> --csr-file '' @ gp_out_dir p @ ''/'' @ hd names @ ''.csr'' @ nl
        else [])
     @ (if length names = 1 \<and> hd names = csr_type_server then []
        else ''  Register your agent using:'' @ nl
          @ ''  ans-cli register --name '' @ [quote_char] @ ''My Agent'' @ [quote_char] @ '' --host '' @ gp_host p @ '' --version '' @ gp_version p @ '' '' @ [backslash] @ nl
          @ (if length names = 1
             then ''    --identity-csr '' @ gp_out_dir p @ ''/identity.csr '' @ [backslash] @ nl
             else ''    --identity-csr '' @ gp_out_dir p @ ''/identity.csr --server-csr '' @ gp_out_dir p @ ''/server.csr '' @ [backslash] @ nl)
          @ ''    --endpoint-url https://'' @ gp_host p @ ''/api --endpoint-protocol MCP'' @ nl)"

text \<open>What a run that fails nowhere writes to standard output.\<close>

definition generate_csr_output :: "generate_csr_params \<Rightarrow> csr_job list \<Rightarrow> string" where
  "generate_csr_output p jobs =
     str_line ''Generating CSRs for host: '' (gp_host p)
     @ str_line ''Organization: '' (gp_org p)
     @ str_line ''Version: '' (gp_version p)
     @ str_line ''Country: '' (gp_country p) @ nl
     @ concat (map (\<lambda>j.
          ''Generating '' @ cj_name j @ '' certificate ('' @ cj_key_label j @ '')...'' @ nl
          @ str_line (''  '' @ check_mark @ '' '') (cj_name j @ ''.key'')
          @ str_line (''  '' @ check_mark @ '' '') (cj_name j @ ''.csr'')) jobs)
     @ nl @ check_mark @ str_line '' CSRs generated successfully in: '' (gp_out_dir p)
     @ nl @ ''Files created:'' @ nl
     @ concat (map (\<lambda>j.
          ''  - '' @ cj_name j @ ''.key ('' @ cj_key_label j @ '' private key)'' @ nl
          @ ''  - '' @ cj_name j @ ''.csr (CSR for '' @ cj_name j @ '' certificate)'' @ nl) jobs)
     @ print_generate_csr_next_steps p (map cj_name jobs)"

section \<open>The tables of DNS records\<close>

text \<open>
  A table is aligned when one width serves each column but the last in every row, and leaves the padding
  after the widest cell.
\<close>

definition aligned_table :: "string list list \<Rightarrow> (nat \<Rightarrow> nat) \<Rightarrow> string \<Rightarrow> bool" where
  "aligned_table rows w text \<longleftrightarrow>
     text = concat (map (\<lambda>cells. concat (map (\<lambda>j. pad_right (w j) (indent_row cells ! j)) [0..<length cells - 1])
                     @ last (indent_row cells) @ nl) rows)
     \<and> (\<forall>cells\<in>set rows. \<forall>j < length cells - 1.
          rune_count (indent_row cells ! j) + tabwriter_column_padding \<le> w j)"

lemma aligned_tabwriter:
  assumes "list_all (\<lambda>cells. length cells = n \<and> list_all plain_cell cells) rows" "0 < n"
  shows "\<exists>w. aligned_table rows w (tabwriter tabwriter_column_padding (concat (map table_row rows)))"
proof (intro exI [of _ "widest tabwriter_column_padding (map indent_row rows)"], unfold aligned_table_def, intro conjI)
  have n: "length cells = n" if "cells \<in> set rows" for cells using assms(1) that by (simp add: list_all_iff)
  show "tabwriter tabwriter_column_padding (concat (map table_row rows)) =
      concat (map (\<lambda>cells. concat (map (\<lambda>j. pad_right (widest tabwriter_column_padding (map indent_row rows) j)
          (indent_row cells ! j)) [0..<length cells - 1]) @ last (indent_row cells) @ nl) rows)"
    unfolding tabwriter_table [OF assms] using n by (intro arg_cong [where f = concat] map_cong refl) simp
  show "\<forall>cells\<in>set rows. \<forall>j<length cells - 1. rune_count (indent_row cells ! j) + tabwriter_column_padding
      \<le> widest tabwriter_column_padding (map indent_row rows) j"
    by (auto intro: widest_le)
qed

lemma aligned_missing:
  assumes "list_all (\<lambda>r. list_all plain_cell (missing_cells r)) records"
  shows "\<exists>w. aligned_table ([''NAME'', ''TYPE'', ''VALUE'', ''REQUIRED''] # map missing_cells records) w
           (write_missing_records_table records)"
  unfolding write_missing_records_table_def using assms
  by (intro aligned_tabwriter [where n = 4]) (auto simp: list_all_iff missing_cells_def plain_cell_def)

lemma aligned_incorrect:
  assumes "list_all (\<lambda>r. list_all plain_cell (incorrect_cells r)) records"
  shows "\<exists>w. aligned_table ([''NAME'', ''TYPE'', ''EXPECTED'', ''FOUND'', ''REQUIRED''] # map incorrect_cells records) w
           (write_incorrect_records_table records)"
  unfolding write_incorrect_records_table_def using assms
  by (intro aligned_tabwriter [where n = 5]) (auto simp: list_all_iff incorrect_cells_def plain_cell_def Let_def)

text \<open>The row of an incorrect record names it, or says that its name and type are unknown.\<close>

lemma incorrect_cells_named: "incorrect_cells ir ! 0 \<noteq> [] \<or> incorrect_cells ir ! 1 \<noteq> []"
  by (auto simp: incorrect_cells_def Let_def)

end
