(* ===== verification/Cli_Print_Log.thy ===== *)
theory Cli_Print_Log
  imports Cli_Format Cli_Commands
begin

text \<open>
  What \<open>ans-cli badge\<close> prints for a reader: the \<open>print...\<close> functions of \<open>cmd/ans-cli/cmd/badge.go\<close>. Formatting a
  time and rendering a \<open>float64\<close> are the parameters \<open>tf\<close> and \<open>fl\<close>.
\<close>

definition max_metadata_hashes_display :: nat where
  "max_metadata_hashes_display = 20"

definition medal :: string where
  "medal = [CHR 0xF0, CHR 0x9F, CHR 0x8F, CHR 0x85]"

definition ink_pen :: string where
  "ink_pen = [CHR 0xF0, CHR 0x9F, CHR 0x94, CHR 0x8F]"

definition tree_sign :: string where
  "tree_sign = [CHR 0xF0, CHR 0x9F, CHR 0x8C, CHR 0xB3]"

definition page_sign :: string where
  "page_sign = [CHR 0xF0, CHR 0x9F, CHR 0x93, CHR 0x84]"

definition lock_sign :: string where
  "lock_sign = [CHR 0xF0, CHR 0x9F, CHR 0x94, CHR 0x90]"

definition clipboard_sign :: string where
  "clipboard_sign = [CHR 0xF0, CHR 0x9F, CHR 0x93, CHR 0x8B]"

definition bookmark_sign :: string where
  "bookmark_sign = [CHR 0xF0, CHR 0x9F, CHR 0x94, CHR 0x96]"

section \<open>Proof and attestations\<close>

definition print_merkle_proof :: "merkle_proof_info \<Rightarrow> string" where
  "print_merkle_proof p =
     nl @ tree_sign @ '' Merkle Proof:'' @ nl
     @ int_line ''  Tree Version:    '' (mp_tree_version p)
     @ int_line ''  Tree Size:       '' (mp_tree_size p)
     @ (case mp_leaf_index p of None \<Rightarrow> [] | Some i \<Rightarrow> int_line ''  Leaf Index:      '' i)
     @ (if mp_leaf_hash p \<noteq> [] then str_line ''  Leaf Hash:       '' (truncate_hash (mp_leaf_hash p)) else [])
     @ (if mp_root_hash p \<noteq> [] then str_line ''  Root Hash:       '' (truncate_hash (mp_root_hash p)) else [])
     @ (if length (mp_path p) > 0
        then ''  Proof Path:      '' @ show_nat (length (mp_path p)) @ '' nodes'' @ nl else [])
     @ (if mp_root_signature p \<noteq> []
        then str_line ''  Root Signature:  '' (truncate_hash (mp_root_signature p)) else [])"

text \<open>The entries of a map, in the order of their keys.\<close>

definition entry_line :: "string \<times> string \<Rightarrow> string" where
  "entry_line e = str_line (''    '' @ fst e @ '': '') (snd e)"

definition print_dns_provisioned :: "string_map \<Rightarrow> string" where
  "print_dns_provisioned m =
     (case m of
        None \<Rightarrow> []
      | Some records \<Rightarrow>
          if length records > 0
          then ''  DNS Records Provisioned:'' @ nl @ concat (map entry_line (sorted_entries records)) else [])"

definition print_metadata_hashes :: "string_map \<Rightarrow> string" where
  "print_metadata_hashes m =
     (case m of
        None \<Rightarrow> []
      | Some hashes \<Rightarrow>
          if length hashes > 0
          then ''  Metadata Hashes:'' @ nl
            @ concat (map entry_line (take max_metadata_hashes_display (sorted_entries hashes)))
            @ (if length hashes > max_metadata_hashes_display
               then ''    ... and '' @ show_nat (length hashes - max_metadata_hashes_display) @ '' more'' @ nl else [])
          else [])"

definition print_attested_cert :: "string \<Rightarrow> certificate_v1 option \<Rightarrow> string" where
  "print_attested_cert heading cert =
     (case cert of
        None \<Rightarrow> []
      | Some c \<Rightarrow>
          heading @ nl @ str_line ''    Type:          '' (cf_type c) @ str_line ''    Fingerprint:   '' (cf_fingerprint c))"

definition print_valid_certs :: "time_format \<Rightarrow> string \<Rightarrow> certificate_v1_extended list \<Rightarrow> string" where
  "print_valid_certs tf heading certs =
     (if length certs > 0
      then int_line heading (int (length certs))
        @ concat (map (\<lambda>c.
            ''    '' @ cx_fingerprint c @ '' ('' @ cx_type c @ '')'' @ nl
            @ opt_time_line tf ''      Not After: '' (cx_not_after c)) certs)
      else [])"

definition print_v1_attestations :: "time_format \<Rightarrow> attestations_v1 \<Rightarrow> string" where
  "print_v1_attestations tf a =
     nl @ lock_sign @ '' Attestations:'' @ nl
     @ opt_line ''  Domain Validation: '' (av1_domain_validation a)
     @ print_attested_cert ''  Identity Certificate:'' (av1_identity_cert a)
     @ print_attested_cert ''  Server Certificate:'' (av1_server_cert a)
     @ print_dns_provisioned (av1_dns_records a)
     @ print_metadata_hashes (av1_metadata_hashes a)
     @ print_valid_certs tf ''  Valid Identity Certs: '' (av1_valid_identity_certs a)
     @ print_valid_certs tf ''  Valid Server Certs:   '' (av1_valid_server_certs a)"

definition print_v0_attestations :: "attestations_v0 \<Rightarrow> string" where
  "print_v0_attestations a =
     nl @ lock_sign @ '' Attestations:'' @ nl
     @ opt_line ''  Domain Validation:     '' (av0_domain_validation a)
     @ opt_line ''  Validation Status:     '' (av0_validation_status a)
     @ opt_line ''  Client Cert:           '' (av0_client_fp a)
     @ opt_line ''  Server Cert:           '' (av0_server_fp a)
     @ opt_line ''  Identity Cert Type:    '' (av0_identity_cert_type a)
     @ opt_line ''  Server Cert Type:      '' (av0_server_cert_type a)
     @ opt_line ''  DNSSEC Status:         '' (av0_dnssec_status a)
     @ opt_line ''  CSR Submission:        '' (av0_csr_submission a)
     @ opt_line ''  Protocol Extensions:   '' (av0_protocol_extensions a)
     @ print_dns_provisioned (av0_dns_records a)"

section \<open>Payloads\<close>

definition print_v1_payload :: "time_format \<Rightarrow> log_v1 \<Rightarrow> string" where
  "print_v1_payload tf v1 =
     (let producer = l1_producer v1; e = p1_event producer; agent = e1_agent e in
      ''  Schema:          V1'' @ nl
      @ str_line ''  Log ID:          '' (l1_log_id v1)
      @ str_line ''  ANS ID:          '' (e1_ans_id e)
      @ str_line ''  ANS Name:        '' (e1_ans_name e)
      @ str_line ''  Event Type:      '' (e1_event_type e)
      @ str_line ''  RA ID:           '' (e1_ra_id e)
      @ time_line tf ''  Timestamp:       '' (e1_timestamp e)
      @ time_line tf ''  Issued At:       '' (e1_issued_at e)
      @ opt_time_line tf ''  Expires At:      '' (e1_expires_at e)
      @ opt_time_line tf ''  Revoked At:      '' (e1_revoked_at e)
      @ opt_line ''  Renewal Status:  '' (e1_renewal_status e)
      @ opt_line ''  Revocation Code: '' (e1_revocation_reason e)
      @ nl @ ''  Agent Info:'' @ nl
      @ str_line ''    Host:          '' (ag1_host agent)
      @ str_line ''    Version:       '' (ag1_version agent)
      @ opt_line ''    Name:          '' (ag1_name agent)
      @ opt_line ''    Provider ID:   '' (ag1_provider_id agent)
      @ print_v1_attestations tf (e1_attestations e)
      @ nl @ ''  Signature Info:'' @ nl
      @ str_line ''    Key ID:        '' (p1_key_id producer)
      @ str_line ''    Signature:     '' (truncate_hash (p1_signature producer)))"

definition print_event_metadata :: "event_metadata \<Rightarrow> string" where
  "print_event_metadata m =
     nl @ ''  Metadata:'' @ nl
     @ opt_line ''    Description:   '' (em_description m)
     @ opt_line ''    Endpoint:      '' (em_endpoint m)
     @ opt_line ''    Agent Card:    '' (em_card_url m)
     @ opt_line ''    RA Badge URL:  '' (em_badge_url m)
     @ (if length (em_capabilities m) > 0
        then str_line ''    Capabilities:  '' (''['' @ join_with '' '' (em_capabilities m) @ '']'') else [])"

definition print_v0_payload :: "time_format \<Rightarrow> log_v0 \<Rightarrow> string" where
  "print_v0_payload tf v0 =
     (let producer = l0_producer v0; e = p0_event producer; badge = e0_ra_badge e in
      ''  Schema:          V0'' @ nl
      @ str_line ''  Log ID:          '' (l0_log_id v0)
      @ str_line ''  Agent FQDN:      '' (e0_fqdn e)
      @ str_line ''  Agent ID:        '' (e0_agent_id e)
      @ str_line ''  ANS Name:        '' (e0_ans_name e)
      @ str_line ''  Event Type:      '' (e0_event_type e)
      @ str_line ''  Protocol:        '' (e0_protocol e)
      @ time_line tf ''  Timestamp:       '' (e0_timestamp e)
      @ (case e0_metadata e of None \<Rightarrow> [] | Some m \<Rightarrow> print_event_metadata m)
      @ nl @ ''  RA Badge:'' @ nl
      @ str_line ''    RA ID:         '' (rb_ra_id badge)
      @ str_line ''    Badge Status:  '' (rb_url_status badge)
      @ time_line tf ''    Issued At:     '' (rb_issued_at badge)
      @ opt_time_line tf ''    Expires At:    '' (rb_expires_at badge)
      @ opt_line ''    Renewal:       '' (rb_renewal_status badge)
      @ opt_line ''    Revocation:    '' (rb_revocation_reason badge)
      @ print_v0_attestations (rb_attestations badge)
      @ nl @ ''  Signature Info:'' @ nl
      @ str_line ''    Key ID:        '' (p0_key_id producer)
      @ str_line ''    Signature:     '' (truncate_hash (p0_signature producer)))"

text \<open>
  The fallback for an unknown schema reads the generic map: \<open>m["name"].(string)\<close> is a line when the member
  is a string, \<open>m["name"].(map[string]any)\<close> when it is an object, of which the last member of a name counts.
\<close>

definition member_line :: "string \<Rightarrow> (string \<times> json) list \<Rightarrow> string \<Rightarrow> string" where
  "member_line label m k = (case map_of m k of Some (JStr s) \<Rightarrow> str_line label s | _ \<Rightarrow> [])"

definition member_object :: "(string \<times> json) list \<Rightarrow> string \<Rightarrow> (string \<times> json) list option" where
  "member_object m k = (case map_of m k of Some (JObj kvs) \<Rightarrow> Some (last_members kvs) | _ \<Rightarrow> None)"

definition print_agent_from_payload :: "(string \<times> json) list \<Rightarrow> string" where
  "print_agent_from_payload agent =
     nl @ ''  Agent Info:'' @ nl
     @ member_line ''    Host:          '' agent ''host''
     @ member_line ''    Name:          '' agent ''name''
     @ member_line ''    Version:       '' agent ''version''
     @ member_line ''    Provider ID:   '' agent ''providerId''"

definition print_cert_from_payload :: "string \<Rightarrow> (string \<times> json) list \<Rightarrow> string" where
  "print_cert_from_payload cert_name cert =
     ''  '' @ cert_name @ '':'' @ nl
     @ member_line ''    Fingerprint:   '' cert ''fingerprint''
     @ member_line ''    Type:          '' cert ''type''"

definition print_attestations_from_payload :: "(string \<Rightarrow> string) \<Rightarrow> (string \<times> json) list \<Rightarrow> string" where
  "print_attestations_from_payload fl att =
     nl @ lock_sign @ '' Attestations:'' @ nl
     @ member_line ''  Domain Validation: '' att ''domainValidation''
     @ (case member_object att ''identityCert'' of
          None \<Rightarrow> [] | Some c \<Rightarrow> print_cert_from_payload ''Identity Certificate'' c)
     @ (case member_object att ''serverCert'' of
          None \<Rightarrow> [] | Some c \<Rightarrow> print_cert_from_payload ''Server Certificate'' c)
     @ (case member_object att ''dnsRecordsProvisioned'' of
          None \<Rightarrow> []
        | Some records \<Rightarrow>
            if length records > 0
            then ''  DNS Records Provisioned:'' @ nl
              @ concat (map (\<lambda>(k, v). entry_line (k, go_value fl v)) (sorted_entries records)) else [])"

definition print_raw_payload :: "(string \<Rightarrow> string) \<Rightarrow> (string \<times> json) list \<Rightarrow> string" where
  "print_raw_payload fl payload =
     ''  Schema:          Unknown'' @ nl
     @ member_line ''  ANS Name:        '' payload ''ansName''
     @ member_line ''  Agent ID:        '' payload ''ansId''
     @ member_line ''  Event Type:      '' payload ''eventType''
     @ member_line ''  RA ID:           '' payload ''raId''
     @ member_line ''  Timestamp:       '' payload ''timestamp''
     @ member_line ''  Issued At:       '' payload ''issuedAt''
     @ member_line ''  Expires At:      '' payload ''expiresAt''
     @ (case member_object payload ''agent'' of None \<Rightarrow> [] | Some a \<Rightarrow> print_agent_from_payload a)
     @ (case member_object payload ''attestations'' of None \<Rightarrow> [] | Some a \<Rightarrow> print_attestations_from_payload fl a)"

definition print_payload :: "time_format \<Rightarrow> (string \<Rightarrow> string) \<Rightarrow> log_entry \<Rightarrow> string" where
  "print_payload tf fl e =
     nl @ page_sign @ '' Event Payload:'' @ nl
     @ (case (entry_is_v1 e, get_v1_payload e, entry_is_v0 e, get_v0_payload e) of
          (True, Some v1, _, _) \<Rightarrow> print_v1_payload tf v1
        | (_, _, True, Some v0) \<Rightarrow> print_v0_payload tf v0
        | _ \<Rightarrow> print_raw_payload fl (case le_payload e of None \<Rightarrow> [] | Some m \<Rightarrow> m))"

definition print_transparency_log :: "time_format \<Rightarrow> (string \<Rightarrow> string) \<Rightarrow> log_entry \<Rightarrow> string" where
  "print_transparency_log tf fl e =
     nl @ medal @ '' Transparency Log Entry'' @ nl @ rule_line separator_width_wide
     @ str_line_if ''Status: '' (le_status e)
     @ (if le_schema_version e \<noteq> [] then str_line ''Schema Version: '' (le_schema_version e)
        else if entry_is_v0 e then ''Schema Version: V0 (default)'' @ nl else [])
     @ (if le_payload e \<noteq> None then print_payload tf fl e else [])
     @ (case le_merkle_proof e of None \<Rightarrow> [] | Some p \<Rightarrow> print_merkle_proof p)
     @ (if le_signature e \<noteq> []
        then nl @ ink_pen @ str_line '' Signature:      '' (truncate_hash (le_signature e)) else [])
     @ nl"

section \<open>Audit trail and checkpoint\<close>

definition print_audit_entry_raw_payload :: "(string \<times> json) list option \<Rightarrow> string" where
  "print_audit_entry_raw_payload payload =
     (case payload of
        None \<Rightarrow> []
      | Some m \<Rightarrow>
          (case map_of m ''eventType'' of Some (JStr s) \<Rightarrow> s | _ \<Rightarrow> [])
          @ (case map_of m ''timestamp'' of Some (JStr s) \<Rightarrow> '' - '' @ s | _ \<Rightarrow> []))"

definition print_audit_entry_payload :: "time_format \<Rightarrow> log_entry \<Rightarrow> string" where
  "print_audit_entry_payload tf e =
     (case (entry_is_v1 e, get_v1_payload e, entry_is_v0 e, get_v0_payload e) of
        (True, Some v1, _, _) \<Rightarrow>
          (let ev = p1_event (l1_producer v1) in
           ''V1: '' @ e1_event_type ev @ '' - '' @ tf ''2006-01-02 15:04:05'' (e1_timestamp ev))
      | (_, _, True, Some v0) \<Rightarrow>
          (let ev = p0_event (l0_producer v0) in
           ''V0: '' @ e0_event_type ev @ '' - '' @ tf ''2006-01-02 15:04:05'' (e0_timestamp ev))
      | _ \<Rightarrow> print_audit_entry_raw_payload (le_payload e))"

definition print_audit_entry_proof :: "merkle_proof_info option \<Rightarrow> string" where
  "print_audit_entry_proof proof_info =
     (case proof_info of
        None \<Rightarrow> []
      | Some p \<Rightarrow>
          (case mp_leaf_index p of None \<Rightarrow> [] | Some i \<Rightarrow> int_line ''    Leaf Index: '' i)
          @ (if mp_tree_size p > 0 then int_line ''    Tree Size: '' (mp_tree_size p) else []))"

definition print_audit_entry :: "time_format \<Rightarrow> nat \<Rightarrow> log_entry \<Rightarrow> string" where
  "print_audit_entry tf i e =
     ''['' @ show_nat i @ ''] '' @ print_audit_entry_payload tf e
     @ (if le_status e \<noteq> [] then '' (Status: '' @ le_status e @ '')'' else []) @ nl
     @ print_audit_entry_proof (le_merkle_proof e) @ nl"

definition print_audit_trail :: "time_format \<Rightarrow> log_audit \<Rightarrow> string" where
  "print_audit_trail tf audit =
     clipboard_sign @ '' Audit Trail'' @ nl @ rule_line separator_width_wide
     @ ''Total Records: '' @ show_nat (length (la_records audit)) @ nl @ nl
     @ (if length (la_records audit) = 0 then ''No audit entries found'' @ nl
        else concat (map (\<lambda>(i, e). print_audit_entry tf i e) (List.enumerate 1 (la_records audit))))"

definition print_checkpoint :: "checkpoint_response \<Rightarrow> string" where
  "print_checkpoint c =
     bookmark_sign @ '' Log Checkpoint'' @ nl @ rule_line separator_width_wide
     @ int_line ''Log Size:         '' (cpr_log_size c)
     @ str_line ''Root Hash:        '' (truncate_hash (cpr_root_hash c))
     @ (if cpr_tree_height c > 0 then int_line ''Tree Height:      '' (cpr_tree_height c) else [])
     @ str_line_if ''Origin:           '' (cpr_origin c)
     @ str_line_if ''Format:           '' (cpr_format c)
     @ (if length (cpr_signatures c) > 0
        then nl @ int_line ''Signatures:       '' (int (length (cpr_signatures c)))
          @ concat (map (\<lambda>(i, s).
              ''  ['' @ show_nat i @ ''] '' @ ck_signer s @ '' - '' @ ck_algorithm s @ '' (Valid: '' @ go_bool (ck_valid s)
              @ '')'' @ nl) (List.enumerate 1 (cpr_signatures c)))
        else [])"

text \<open>
  The whole report. An audit trail or checkpoint that could not be fetched is a warning with the text of its
  error, \<open>error_text\<close>, and does not change what else is printed.
\<close>

definition output_badge_human ::
  "time_format \<Rightarrow> (string \<Rightarrow> string) \<Rightarrow> (api_error \<Rightarrow> string) \<Rightarrow> badge_report \<Rightarrow> string" where
  "output_badge_human tf fl error_text r =
     print_transparency_log tf fl (bo_entry r)
     @ (case bo_audit r of
          None \<Rightarrow> []
        | Some (Inl e) \<Rightarrow> nl @ warning_sign @ str_line ''  Failed to retrieve audit trail: '' (error_text e)
        | Some (Inr audit) \<Rightarrow> nl @ print_audit_trail tf audit)
     @ (case bo_checkpoint r of
          None \<Rightarrow> []
        | Some (Inl e) \<Rightarrow> nl @ warning_sign @ str_line ''  Failed to retrieve checkpoint: '' (error_text e)
        | Some (Inr c) \<Rightarrow> nl @ print_checkpoint c)"

section \<open>What does not depend on the order of a map\<close>

text \<open>Go iterates over a map in an arbitrary order; the report is the same for every order of its maps.\<close>

lemma print_maps_unordered:
  assumes "distinct (map fst m)" "distinct (map fst n)" "set m = set n"
  shows "print_dns_provisioned (Some m) = print_dns_provisioned (Some n)"
    and "print_metadata_hashes (Some m) = print_metadata_hashes (Some n)"
proof -
  have "mset m = mset n" using assms by (simp add: distinct_map set_eq_iff_mset_eq_distinct)
  then have "length m = length n" by (rule mset_eq_length)
  then show "print_dns_provisioned (Some m) = print_dns_provisioned (Some n)"
    "print_metadata_hashes (Some m) = print_metadata_hashes (Some n)"
    using sorted_entries_unique [OF assms] by (simp_all add: print_dns_provisioned_def print_metadata_hashes_def)
qed

text \<open>At most twenty metadata hashes are listed, and what is not listed is counted.\<close>

lemma metadata_hashes_counted:
  assumes "length hashes > max_metadata_hashes_display"
  shows "\<exists>shown. length shown = max_metadata_hashes_display \<and> set shown \<subseteq> set hashes
     \<and> print_metadata_hashes (Some hashes) = ''  Metadata Hashes:'' @ nl @ concat (map entry_line shown)
         @ ''    ... and '' @ show_nat (length hashes - length shown) @ '' more'' @ nl"
  using assms
  by (intro exI [of _ "take max_metadata_hashes_display (sorted_entries hashes)"])
    (auto simp: print_metadata_hashes_def sorted_entries_def max_metadata_hashes_display_def dest: in_set_takeD)

end
