(* ===== verification/Cli_Flags.thy ===== *)
theory Cli_Flags
  imports Cli_Commands Csr_Generation
begin

text \<open>
  The values the flags of the commands have when they are not given: \<open>cmd/ans-cli/cmd/constants.go\<close> and
  the flag definitions of the \<open>build...Cmd\<close> functions. A flag that is required, or whose default is the empty
  string, holds the empty string.
\<close>

definition default_search_limit :: int where "default_search_limit = 20"
definition default_events_limit :: int where "default_events_limit = 20"
definition default_rsa_key_size :: int where "default_rsa_key_size = 2048"
definition default_csr_type :: string where "default_csr_type = csr_type_both"
definition default_poll_interval_seconds :: int where "default_poll_interval_seconds = 5"

definition default_register_params :: register_params where
  "default_register_params = \<lparr>rp_name = [], rp_host = [], rp_version = [], rp_description = [],
     rp_identity_csr = [], rp_server_csr = [], rp_server_cert = [], rp_endpoint_url = [], rp_metadata_url = [],
     rp_endpoint_proto = ''MCP'', rp_endpoint_trans = [''STREAMABLE-HTTP''], rp_functions = [], rp_profiles = [],
     rp_skip_preflight = False\<rparr>"

definition default_search_flags :: search_flags where
  "default_search_flags = \<lparr>sf_name = [], sf_host = [], sf_version = [], sf_protocol = [], sf_statuses = [],
     sf_limit = default_search_limit, sf_offset = 0\<rparr>"

definition default_events_params :: events_params where
  "default_events_params = \<lparr>el_limit = default_events_limit, el_provider_id = [], el_last_log_id = [],
     el_follow = False, el_poll_interval = default_poll_interval_seconds\<rparr>"

definition default_generate_csr_params :: generate_csr_params where
  "default_generate_csr_params = \<lparr>gp_host = [], gp_org = [], gp_country = ''US'', gp_version = [],
     gp_out_dir = ''.'', gp_key_type = [], gp_key_size = default_rsa_key_size, gp_csr_type = default_csr_type\<rparr>"

definition default_resolve_version :: string where
  "default_resolve_version = ''*''"

text \<open>The persistent flags of the root command.\<close>

definition root_flag_default :: "string \<Rightarrow> string" where
  "root_flag_default name =
     (if name = ''base-url'' then ''https://api.ote-godaddy.com''
      else if name = ''api-version'' then ''v1'' else [])"

text \<open>
  Without flags for the keys, both requests are planned, with keys the rules of the registry accept:
  P-256 for the identity and 2048 bits of RSA for the server.
\<close>

lemma to_lower_csr_types:
  "to_lower u csr_type_both = csr_type_both" "to_lower u key_type_ec = key_type_ec"
  "to_lower u key_type_rsa = key_type_rsa"
  by (simp_all add: csr_type_both_def key_type_ec_def key_type_rsa_def to_lower_def is_ascii_def ascii_lower_def is_upper_def
      byte_val_def)

lemma default_plan:
  "plan_csr_jobs u (default_generate_csr_params\<lparr>gp_host := host, gp_org := org, gp_version := v, gp_country := c,
       gp_out_dir := dir\<rparr>) =
     Inr [\<lparr>cj_name = csr_type_identity, cj_new_key = Generate_EC P256, cj_key_label = ''EC P-256''\<rparr>,
          \<lparr>cj_name = csr_type_server, cj_new_key = Generate_RSA 2048, cj_key_label = ''RSA 2048 bits''\<rparr>]"
proof -
  have t: "default_key_type csr_type_identity = key_type_ec" "default_key_type csr_type_server = key_type_rsa"
    by (simp_all add: default_key_type_def csr_type_identity_def csr_type_server_def)
  have n: "key_type_ec \<noteq> key_type_rsa" by (simp add: key_type_ec_def key_type_rsa_def)
  have i: "check_registry_rules u csr_type_identity key_type_ec 2048 = None"
    using n by (simp add: check_registry_rules_def to_lower_csr_types registry_rules_def csr_type_identity_def
        csr_type_server_def allows_curve_def identity_rules_def)
  have s: "check_registry_rules u csr_type_server key_type_rsa 2048 = None"
    by (simp add: check_registry_rules_def to_lower_csr_types registry_rules_def allows_rsa_key_size_def
        server_rules_def)
  have g: "new_key_generator u key_type_ec 2048 = Inr (Generate_EC P256, ''EC P-256'')"
    using n by (simp add: new_key_generator_def to_lower_csr_types CurveP256_def)
  have "show_nat 2048 = ''2048''" by code_simp
  then have h: "new_key_generator u key_type_rsa 2048 = Inr (Generate_RSA 2048, ''RSA 2048 bits'')"
    by (simp add: new_key_generator_def to_lower_csr_types min_rsa_key_size_def)
  show ?thesis
    by (simp add: plan_csr_jobs_def csr_names_def default_generate_csr_params_def default_csr_type_def
        default_rsa_key_size_def to_lower_csr_types t i s g h)
qed

end
