(* ===== verification/Error_Text.thy ===== *)
theory Error_Text
  imports Outcome Pop_Proof Go_Json_Lemmas Headers
begin

text \<open>
  The texts of errors: the \<open>Error\<close> methods of \<open>verify/errors.go\<close>, \<open>verify/url_validator.go\<close>, \<open>verify/scitt/errors.go\<close> and \<open>pop/errors.go\<close>,
  and \<open>echo\<close>, which bounds what a text quotes of the caller's input. The models of the errors keep the fields
  code looks at; the message or reason, which code only prints, is an argument here. The default branches are
  for values outside the enumerations, which the datatypes do not have.
\<close>

section \<open>Package verify\<close>

definition reason_suffix :: "string \<Rightarrow> string" where
  "reason_suffix reason = (if reason \<noteq> [] then '': '' @ reason else [])"

definition verify_dns_error_text :: "dns_error \<Rightarrow> string \<Rightarrow> string" where
  "verify_dns_error_text e reason =
     (case dns_err_type e of
        DNSErrorNotFound \<Rightarrow> ''DNS record not found for '' @ dns_err_fqdn e
      | DNSErrorTimeout \<Rightarrow> ''DNS timeout for '' @ dns_err_fqdn e
      | DNSErrorLookupFailed \<Rightarrow> ''DNS lookup failed for '' @ dns_err_fqdn e @ reason_suffix reason)"

definition tlog_error_text :: "tlog_error \<Rightarrow> string \<Rightarrow> string" where
  "tlog_error_text e reason =
     (case tl_type e of
        TlogErrorNotFound \<Rightarrow> ''badge not found at '' @ tl_url e
      | TlogErrorServiceUnavailable \<Rightarrow> ''transparency log unavailable at '' @ tl_url e
      | TlogErrorInvalidResponse \<Rightarrow> ''invalid response from transparency log'' @ reason_suffix reason)"

definition dane_error_text :: "dane_error \<Rightarrow> string \<Rightarrow> string" where
  "dane_error_text e reason =
     (case dane_err_type e of
        DANEErrorDNSSECFailed \<Rightarrow> ''DNSSEC validation failed for '' @ dane_err_fqdn e @ reason_suffix reason
      | DANEErrorLookupFailed \<Rightarrow> ''DANE TLSA lookup failed for '' @ dane_err_fqdn e @ reason_suffix reason)"

definition verification_error_text :: "verification_error_type \<Rightarrow> string \<Rightarrow> string \<Rightarrow> string" where
  "verification_error_text t expected actual =
     (case t of
        VerificationErrorInvalidStatus \<Rightarrow> ''invalid badge status: '' @ actual
      | VerificationErrorFingerprintMismatch \<Rightarrow>
          ''certificate fingerprint mismatch: expected '' @ expected @ '', got '' @ actual
      | VerificationErrorHostnameMismatch \<Rightarrow> ''hostname mismatch: expected '' @ expected @ '', got '' @ actual
      | VerificationErrorAnsNameMismatch \<Rightarrow> ''ANS name mismatch: expected '' @ expected @ '', got '' @ actual
      | VerificationErrorNoCN \<Rightarrow> ''no CN or DNS SAN found in certificate''
      | VerificationErrorNoURISAN \<Rightarrow> ''no ANS name (ans://) found in URI SANs'')"

definition url_validation_error_text :: "url_validation_error \<Rightarrow> string" where
  "url_validation_error_text e =
     (case uve_type e of
        URLErrorHTTPScheme \<Rightarrow> ''badge URL must use HTTPS: ''
      | URLErrorUntrustedDomain \<Rightarrow> ''badge URL domain not trusted: ''
      | URLErrorNonStandardPort \<Rightarrow> ''badge URL uses non-standard port: ''
      | URLErrorPathTraversal \<Rightarrow> ''badge URL contains path traversal or query params: '') @ uve_url e"

section \<open>Package scitt\<close>

text \<open>The text a log shows of the headers to send: their lengths and nothing of what they hold.\<close>

definition outgoing_headers_text :: "outgoing_headers \<Rightarrow> string" where
  "outgoing_headers_text h =
     (if outgoing_is_empty h then ''OutgoingHeaders{empty}''
      else ''OutgoingHeaders{receipt='' @ show_nat (length (oh_receipt h)) @ '' chars, token=''
        @ show_nat (length (oh_token h)) @ '' chars}'')"

lemma outgoing_headers_text_opaque:
  "length (oh_receipt g) = length (oh_receipt h) \<Longrightarrow> length (oh_token g) = length (oh_token h) \<Longrightarrow>
     outgoing_headers_text g = outgoing_headers_text h"
proof -
  assume l: "length (oh_receipt g) = length (oh_receipt h)" "length (oh_token g) = length (oh_token h)"
  then have "outgoing_is_empty g = outgoing_is_empty h"
    unfolding outgoing_is_empty_def by (metis length_0_conv)
  with l show ?thesis unfolding outgoing_headers_text_def by (simp only: if_True if_False)
qed

definition cose_error_text :: "cose_error_type \<Rightarrow> string \<Rightarrow> string" where
  "cose_error_text t message =
     (case t of
        CoseErrOversizedInput \<Rightarrow> ''COSE oversized input: ''
      | CoseErrNotACoseSign1 \<Rightarrow> ''not a COSE_Sign1 structure: ''
      | CoseErrCborDecode \<Rightarrow> ''CBOR decode failed: ''
      | CoseErrInvalidArrayLength \<Rightarrow> ''invalid COSE_Sign1 array length: ''
      | CoseErrInvalidSignatureLength \<Rightarrow> ''invalid signature length: ''
      | CoseErrInvalidProtectedHeader \<Rightarrow> ''invalid protected header: ''
      | CoseErrInvalidUnprotectedHeader \<Rightarrow> ''invalid unprotected header: ''
      | CoseErrUnsupportedAlgorithm \<Rightarrow> ''unsupported COSE algorithm: ''
      | CoseErrMissingKid \<Rightarrow> ''missing key ID (kid): '') @ message"

definition signature_error_text :: "signature_error_type \<Rightarrow> kid \<Rightarrow> string \<Rightarrow> string" where
  "signature_error_text t k message =
     (case t of
        SigErrSignatureInvalid \<Rightarrow> ''signature invalid''
      | SigErrUnknownKeyID \<Rightarrow> ''unknown key ID''
      | SigErrIssuerMismatch \<Rightarrow> ''issuer mismatch''
      | SigErrInvalidKeyFormat \<Rightarrow> ''invalid key format''
      | SigErrKeyHashMismatch \<Rightarrow> ''key hash mismatch''
      | SigErrInvalidPublicKey \<Rightarrow> ''invalid public key''
      | SigErrUntrustedKeyDomain \<Rightarrow> ''untrusted key domain'') @ '' [kid='' @ hex_encode k @ '']: '' @ message"

definition merkle_error_text :: "merkle_error_type \<Rightarrow> string \<Rightarrow> string" where
  "merkle_error_text t message =
     (case t of
        MerkleErrInvalidProof \<Rightarrow> ''invalid inclusion proof: ''
      | MerkleErrRootMismatch \<Rightarrow> ''Merkle root mismatch: '') @ message"

definition token_error_text :: "token_error_type \<Rightarrow> agent_status \<Rightarrow> int64 \<Rightarrow> int64 \<Rightarrow> string \<Rightarrow> string" where
  "token_error_text t status exp now message =
     (case t of
        TokenErrExpired \<Rightarrow> ''token expired (exp='' @ show_int (sint exp) @ '', now='' @ show_int (sint now) @ ''): ''
      | TokenErrMissingField \<Rightarrow> ''missing required field: ''
      | TokenErrPayloadInvalid \<Rightarrow> ''invalid token payload: ''
      | TokenErrTerminalStatus \<Rightarrow> ''terminal status ['' @ status @ '']: ''
      | TokenErrPayloadEmpty \<Rightarrow> ''token payload empty: '') @ message"

text \<open>\<open>time.Duration.String\<close> for a positive duration: a fraction without trailing zeros, and units up to hours.\<close>

definition strip_zeros :: "string \<Rightarrow> string" where
  "strip_zeros s = rev (dropWhile (\<lambda>c. c = CHR ''0'') (rev s))"

definition fraction_text :: "nat \<Rightarrow> nat \<Rightarrow> string" where
  "fraction_text prec v =
     (let digits = show_nat (v mod 10 ^ prec);
          frac = strip_zeros (replicate (prec - length digits) (CHR ''0'') @ digits)
      in if prec = 0 \<or> frac = [] then [] else CHR ''.'' # frac)"

definition duration_text :: "nat \<Rightarrow> string" where
  "duration_text d =
     (if d = 0 then ''0s''
      else if d < 1000 then show_nat d @ ''ns''
      else if d < 1000000 then show_nat (d div 1000) @ fraction_text 3 d @ [CHR 0xC2, CHR 0xB5, CHR ''s'']
      else if d < 1000000000 then show_nat (d div 1000000) @ fraction_text 6 d @ ''ms''
      else let secs = d div 1000000000; mins = secs div 60; hours = mins div 60 in
        (if hours > 0 then show_nat hours @ ''h'' else [])
        @ (if mins > 0 then show_nat (mins mod 60) @ ''m'' else [])
        @ show_nat (secs mod 60) @ fraction_text 9 d @ ''s'')"

definition transport_error_text :: "transport_error \<Rightarrow> string \<Rightarrow> string" where
  "transport_error_text e message =
     (case te_type e of
        TransportErrNotFound \<Rightarrow> ''not found: '' @ message
      | TransportErrAgentTerminal \<Rightarrow> ''agent terminal: '' @ message
      | TransportErrNotSupported \<Rightarrow> ''not supported: '' @ message
      | TransportErrHTTPError \<Rightarrow>
          ''HTTP error ('' @ show_nat (te_status_code e) @ ''): '' @ message
          @ (if te_retry_after e > 0 then '' (retry after '' @ duration_text (nat (te_retry_after e)) @ '')'' else [])
      | TransportErrBase64Decode \<Rightarrow> ''base64 decode failed: '' @ message)"

definition checkpoint_error_text :: "checkpoint_error_type \<Rightarrow> string \<Rightarrow> string" where
  "checkpoint_error_text t message =
     (case t of
        CheckpointErrOversizedInput \<Rightarrow> ''checkpoint oversized input: ''
      | CheckpointErrMalformed \<Rightarrow> ''malformed checkpoint: ''
      | CheckpointErrInvalidSize \<Rightarrow> ''invalid checkpoint size: ''
      | CheckpointErrInvalidRootHash \<Rightarrow> ''invalid checkpoint root hash: ''
      | CheckpointErrSizeMismatch \<Rightarrow> ''checkpoint size mismatch: ''
      | CheckpointErrRootMismatch \<Rightarrow> ''checkpoint root mismatch: '') @ message"

section \<open>Package pop\<close>

fun pop_type_string :: "pop_error_type \<Rightarrow> string" where
  "pop_type_string ErrMalformedProof = ''MALFORMED_PROOF''"
| "pop_type_string ErrUnsupportedAlg = ''UNSUPPORTED_ALG''"
| "pop_type_string ErrUnsupportedProfile = ''UNSUPPORTED_PROFILE''"
| "pop_type_string ErrHTTPBindingMismatch = ''HTTP_BINDING_MISMATCH''"
| "pop_type_string ErrProofStale = ''PROOF_STALE''"
| "pop_type_string ErrReplay = ''REPLAY''"
| "pop_type_string ErrReplayCacheFull = ''REPLAY_CACHE_FULL''"
| "pop_type_string ErrSignatureInvalid = ''SIGNATURE_INVALID''"
| "pop_type_string ErrCertInvalid = ''CERT_INVALID''"
| "pop_type_string ErrKeyMismatch = ''KEY_MISMATCH''"
| "pop_type_string ErrTokenBindingMismatch = ''TOKEN_BINDING_MISMATCH''"
| "pop_type_string ErrContentBindingMismatch = ''CONTENT_BINDING_MISMATCH''"
| "pop_type_string ErrContentUnreadable = ''CONTENT_UNREADABLE''"
| "pop_type_string ErrBindingFailed = ''BINDING_FAILED''"
| "pop_type_string ErrStatusInvalid = ''STATUS_INVALID''"
| "pop_type_string ErrReceiptInvalid = ''RECEIPT_INVALID''"
| "pop_type_string ErrMissingHeaders = ''MISSING_HEADERS''"
| "pop_type_string ErrScittHeaderInvalid = ''SCITT_HEADER_INVALID''"
| "pop_type_string ErrMisconfigured = ''MISCONFIGURED''"
| "pop_type_string ErrClientGone = ''CLIENT_GONE''"
| "pop_type_string ErrExpectedPeerMismatch = ''EXPECTED_PEER_MISMATCH''"

lemma pop_type_string_inject: "pop_type_string s = pop_type_string t \<longleftrightarrow> s = t"
  by (cases s; cases t; simp)

definition pop_error_text :: "pop_error_type \<Rightarrow> string \<Rightarrow> string option \<Rightarrow> string" where
  "pop_error_text t message cause =
     ''pop: '' @ pop_type_string t @ '': '' @ message @ (case cause of None \<Rightarrow> [] | Some c \<Rightarrow> '': '' @ c)"

definition max_echoed_input :: nat where
  "max_echoed_input = 64"

definition ellipsis :: string where
  "ellipsis = [CHR 0xE2, CHR 0x80, CHR 0xA6]"

definition echo :: "string \<Rightarrow> string" where
  "echo s = (if length s \<le> max_echoed_input then s else take max_echoed_input s @ ellipsis)"

text \<open>Whatever a caller sends, a message quotes at most 64 bytes of it and the three of the ellipsis.\<close>

lemma echo_bounded: "length (echo s) \<le> max_echoed_input + 3"
  by (simp add: echo_def ellipsis_def max_echoed_input_def)

lemma echo_prefix: "take max_echoed_input (echo s) = take max_echoed_input s"
  by (simp add: echo_def max_echoed_input_def)

end
