(* ===== verification/Walkthroughs.thy ===== *)
theory Walkthroughs
  imports Cli_Print Log_Client Keygen Api_Client_Lemmas
begin

text \<open>
  The two walkthroughs of the API clients: the registration with a certificate of one's own,
  \<open>examples/byoc/byoc_registration.go\<close>, and the log entries of both schemas,
  \<open>examples/transparency_schemas.go\<close>. What goes to standard output is the text that is written; a record of
  \<open>slog\<close> is its level, its message and its attributes.
\<close>

section \<open>Registration with a certificate of one's own\<close>

definition byoc_endpoint :: agent_endpoint where
  "byoc_endpoint =
     zero_endpoint\<lparr>
       ep_agent_url := ''https://myagent.example.com/api'',
       ep_meta_data_url := ''https://myagent.example.com/.well-known/agent-card.json'',
       ep_protocol := ''MCP'',
       ep_transports := [''STREAMABLE-HTTP''],
       ep_functions :=
         [\<lparr>fn_id = ''analyze-sentiment'', fn_name = ''Sentiment Analysis'', fn_tags = [''nlp'', ''ml'']\<rparr>,
          \<lparr>fn_id = ''extract-entities'', fn_name = ''Entity Extraction'', fn_tags = [''nlp'', ''ner'']\<rparr>]\<rparr>"

definition byoc_request :: "bytes \<Rightarrow> bytes \<Rightarrow> bytes \<Rightarrow> registration_request" where
  "byoc_request csr cert chain =
     (let req = zero_registration\<lparr>
            rr_display_name := ''My BYOC Agent'',
            rr_host := ''myagent.example.com'',
            rr_description := ''An agent registered with BYOC workflow'',
            rr_version := ''1.0.0'',
            rr_identity_csr := csr,
            rr_server_cert := cert\<rparr>;
          req = (if length chain > 0 then req\<lparr>rr_server_chain := chain\<rparr> else req)
      in req\<lparr>rr_endpoints := Some [byoc_endpoint]\<rparr>)"

definition byoc_print_challenge :: "nat \<times> challenge_info \<Rightarrow> string" where
  "byoc_print_challenge ic =
     (let (i, c) = ic in
      nl @ str_line (''Challenge '' @ show_nat i @ '': '') (ch_type c)
      @ (case ch_dns_record c of
           None \<Rightarrow> []
         | Some d \<Rightarrow>
             str_line ''  DNS Record Name:  '' (dd_name d)
             @ str_line ''  DNS Record Type:  '' (dd_type d)
             @ str_line ''  DNS Record Value: '' (dd_value d))
      @ (if ch_http_path c \<noteq> []
         then str_line ''  HTTP Path: '' (ch_http_path c) @ str_line ''  Key Auth:  '' (ch_key_authorization c)
         else []))"

definition byoc_print_result :: "registration_pending \<Rightarrow> string" where
  "byoc_print_result p =
     nl @ str_line ''=== Registration Submitted ==='' []
     @ str_line ''Status:   '' (rg_status p)
     @ str_line ''ANS Name: '' (rg_ans_name p)
     @ str_line_if ''Agent ID: '' (rg_agent_id p)
     @ (if length (rg_challenges p) > 0
        then nl @ str_line ''=== ACME Challenges ==='' []
          @ str_line ''Complete these challenges to prove domain ownership:'' []
          @ concat (map byoc_print_challenge (List.enumerate 1 (rg_challenges p)))
        else [])
     @ (if length (rg_next_steps p) > 0
        then nl @ str_line ''=== Next Steps ==='' []
          @ concat (map (\<lambda>(i, s). str_line (show_nat i @ ''. '' @ ns_action s @ '': '') (ns_description s))
              (List.enumerate 1 (rg_next_steps p)))
        else [])"

definition identity_key_path :: string where
  "identity_key_path = ''identity.key''"

text \<open>
  Each way the program ends with \<open>log.Fatal\<close>. A chain that cannot be read and a key that cannot be saved are
  only warned about.
\<close>

datatype byoc_error =
  Byoc_No_Credentials
  | Byoc_Key key_error
  | Byoc_No_Csr_Path
  | Byoc_Csr_Unreadable
  | Byoc_No_Cert_Path
  | Byoc_Cert_Unreadable
  | Byoc_Client api_error
  | Byoc_Registration api_error

definition byoc_chain :: "file_io \<Rightarrow> (string \<Rightarrow> string) \<Rightarrow> files \<Rightarrow> bytes" where
  "byoc_chain io env fs =
     (let path = env ''SERVER_CHAIN_PATH'' in
      if path \<noteq> [] then (case read_file io path fs of None \<Rightarrow> [] | Some data \<Rightarrow> data) else [])"

definition byoc_client :: "string \<Rightarrow> string \<Rightarrow> api_error + client_config" where
  "byoc_client key secret = new_client [with_base_url ''https://api.ote-godaddy.com'', with_api_key key secret]"

definition byoc_save ::
  "file_io \<Rightarrow> ('r, 'e, 'p, 'q) key_lib \<Rightarrow> ('r, 'e, 'p, 'q) key_pair \<Rightarrow> files \<Rightarrow> string \<times> files" where
  "byoc_save io L pair fs =
     (case save_private_key_pem io L (kp_private pair) identity_key_path [] fs of
        (Some _, fs') \<Rightarrow> ([], fs')
      | (None, fs') \<Rightarrow>
          (nl @ str_line ''Identity private key saved to: '' identity_key_path
           @ str_line (''Keep this key secure - you'' @ [CHR 0x27] @ ''ll need it for mTLS authentication.'') [], fs'))"

text \<open>The program: the error it ends with if there is one, what it has printed, and the files it leaves.\<close>

definition byoc_main ::
  "api_env \<Rightarrow> file_io \<Rightarrow> ('r, 'e, 'p, 'q) key_lib \<Rightarrow> (string \<Rightarrow> string) \<Rightarrow> files \<Rightarrow> byoc_error option \<times> string \<times> files" where
  "byoc_main A io L env fs =
     (let key = env ''ANS_API_KEY''; secret = env ''ANS_API_SECRET'' in
      if key = [] \<or> secret = [] then (Some Byoc_No_Credentials, [], fs) else
      let out = str_line ''Generating identity key pair and CSR...'' [] in
      case generate_rsa_key_pair_with_pem L 2048 [] of
        Inl e \<Rightarrow> (Some (Byoc_Key e), out, fs)
      | Inr pair \<Rightarrow>
      if env ''IDENTITY_CSR_PATH'' = [] then (Some Byoc_No_Csr_Path, out, fs) else
      case read_file io (env ''IDENTITY_CSR_PATH'') fs of
        None \<Rightarrow> (Some Byoc_Csr_Unreadable, out, fs)
      | Some csr \<Rightarrow>
      if env ''SERVER_CERT_PATH'' = [] then (Some Byoc_No_Cert_Path, out, fs) else
      case read_file io (env ''SERVER_CERT_PATH'') fs of
        None \<Rightarrow> (Some Byoc_Cert_Unreadable, out, fs)
      | Some cert \<Rightarrow>
      let chain = byoc_chain io env fs; out = out @ str_line ''Creating ANS client...'' [] in
      case byoc_client key secret of
        Inl e \<Rightarrow> (Some (Byoc_Client e), out, fs)
      | Inr c \<Rightarrow>
      let out = out @ str_line ''Building BYOC registration request...'' []
            @ str_line ''Submitting BYOC registration...'' [] in
      case register_agent A c (Some (byoc_request csr cert chain)) of
        Inl e \<Rightarrow> (Some (Byoc_Registration e), out, fs)
      | Inr pending \<Rightarrow>
          (case byoc_save io L pair fs of
             (saved, fs') \<Rightarrow> (None, out @ byoc_print_result pending @ saved, fs')))"

text \<open>
  A run that ends without an error posted, under the two credentials, a request with the CSR and the certificate that
  were in the files, and without a server CSR; it decodes to that request again.
\<close>

lemma byoc_posted:
  assumes "byoc_main A io L env fs = (None, out, fs')"
  shows "\<exists>csr cert c q. read_file io (env ''IDENTITY_CSR_PATH'') fs = Some csr \<and> read_file io (env ''SERVER_CERT_PATH'') fs = Some cert
    \<and> byoc_client (env ''ANS_API_KEY'') (env ''ANS_API_SECRET'') = Inr c
    \<and> cc_auth_header c = ''sso-key '' @ env ''ANS_API_KEY'' @ '':'' @ env ''ANS_API_SECRET''
    \<and> env ''ANS_API_KEY'' \<noteq> [] \<and> env ''ANS_API_SECRET'' \<noteq> []
    \<and> aq_method q = ''POST'' \<and> aq_url q = ''https://api.ote-godaddy.com'' @ register_path c \<and> av_send A q \<noteq> None
    \<and> (registration_utf8 (byoc_request csr cert (byoc_chain io env fs)) \<longrightarrow>
         unmarshal dec_registration zero_registration (aq_body q) = Some (byoc_request csr cert (byoc_chain io env fs)))
    \<and> rr_server_cert (byoc_request csr cert (byoc_chain io env fs)) = cert
    \<and> rr_server_csr (byoc_request csr cert (byoc_chain io env fs)) = []"
proof -
  obtain pair csr cert c pending where s: "env ''ANS_API_KEY'' \<noteq> []" "env ''ANS_API_SECRET'' \<noteq> []"
    "read_file io (env ''IDENTITY_CSR_PATH'') fs = Some csr" "read_file io (env ''SERVER_CERT_PATH'') fs = Some cert"
    "byoc_client (env ''ANS_API_KEY'') (env ''ANS_API_SECRET'') = Inr c"
    "register_agent A c (Some (byoc_request csr cert (byoc_chain io env fs))) = Inr pending"
    using assms by (auto simp: byoc_main_def Let_def split: if_splits sum.splits option.splits)
  have c: "cc_base_url c = ''https://api.ote-godaddy.com''"
    "cc_auth_header c = ''sso-key '' @ env ''ANS_API_KEY'' @ '':'' @ env ''ANS_API_SECRET''"
    using s(5) by (auto simp: byoc_client_def new_client_def with_base_url_def with_api_key_def)
  show ?thesis
    using s(1-5) c register_agent_sent [OF s(6)]
    by (auto simp: byoc_request_def Let_def zero_registration_def intro!: exI [of _ csr] exI [of _ cert])
qed

text \<open>
  The key the program saves is the one it generated, which it puts into no request: the CSR it registers was made
  beforehand, with a key of its own.
\<close>

lemma byoc_key_saved:
  assumes "byoc_main A io L env fs = (None, out, fs')"
  shows "\<exists>k. kl_generate_rsa L 2048 = Some k
    \<and> fs' = snd (save_private_key_pem io L (Rsa_Private k) identity_key_path [] fs)"
proof -
  obtain pair saved where p: "generate_rsa_key_pair_with_pem L 2048 [] = Inr pair" "byoc_save io L pair fs = (saved, fs')"
    using assms by (auto simp: byoc_main_def Let_def split: if_splits sum.splits option.splits prod.splits)
  then obtain k where "kl_generate_rsa L 2048 = Some k" "kp_private pair = Rsa_Private k"
    by (auto simp: generate_rsa_key_pair_with_pem_def generate_rsa_key_pair_def min_rsa_key_size_def)
  then show ?thesis
    using p(2) by (intro exI [of _ k]) (auto simp: byoc_save_def split: prod.splits option.splits)
qed

section \<open>Log entries of both schemas\<close>

datatype slog_level = Slog_Info | Slog_Warn | Slog_Error

datatype slog_value =
  Slog_String string
  | Slog_Int int
  | Slog_Time int
  | Slog_Map "(string \<times> json) list option"
  | Slog_Failure api_error

type_synonym slog_record = "slog_level \<times> string \<times> (string \<times> slog_value) list"

definition info_strings :: "string \<Rightarrow> (string \<times> string) list \<Rightarrow> slog_record" where
  "info_strings msg attrs = (Slog_Info, msg, map (apsnd Slog_String) attrs)"

definition info_count :: "string \<Rightarrow> string \<Rightarrow> nat \<Rightarrow> slog_record" where
  "info_count msg name n = (Slog_Info, msg, [(name, Slog_Int (int n))])"

definition log_v1_attestations :: "attestations_v1 \<Rightarrow> slog_record list" where
  "log_v1_attestations att =
     (case av1_identity_cert att of
        None \<Rightarrow> []
      | Some c \<Rightarrow> [info_strings ''identity cert'' [(''type'', cf_type c), (''fingerprint'', cf_fingerprint c)]])
     @ (case av1_server_cert att of
          None \<Rightarrow> []
        | Some c \<Rightarrow> [info_strings ''server cert'' [(''type'', cf_type c), (''fingerprint'', cf_fingerprint c)]])
     @ (let n = (case av1_metadata_hashes att of None \<Rightarrow> 0 | Some m \<Rightarrow> length m) in
        if n > 0 then [info_count ''metadata hashes'' ''count'' n] else [])
     @ (if length (av1_valid_identity_certs att) > 0
        then [info_count ''valid identity certs'' ''count'' (length (av1_valid_identity_certs att))] else [])
     @ (if length (av1_valid_server_certs att) > 0
        then [info_count ''valid server certs'' ''count'' (length (av1_valid_server_certs att))] else [])"

definition log_v1_details :: "log_v1 option \<Rightarrow> slog_record list" where
  "log_v1_details payload =
     (case payload of
        None \<Rightarrow> []
      | Some p \<Rightarrow>
          let e = p1_event (l1_producer p); a = e1_agent e in
          [info_strings ''V1 schema detected''
             [(''logID'', l1_log_id p), (''eventType'', e1_event_type e), (''ansID'', e1_ans_id e),
              (''ansName'', e1_ans_name e), (''raID'', e1_ra_id e)],
           info_strings ''agent info'' [(''host'', ag1_host a), (''version'', ag1_version a)]]
          @ log_v1_attestations (e1_attestations e))"

definition log_v0_attestations :: "attestations_v0 \<Rightarrow> slog_record list" where
  "log_v0_attestations att =
     (case av0_client_fp att of None \<Rightarrow> [] | Some f \<Rightarrow> [info_strings ''client cert fingerprint'' [(''value'', f)]])
     @ (case av0_server_fp att of None \<Rightarrow> [] | Some f \<Rightarrow> [info_strings ''server cert fingerprint'' [(''value'', f)]])"

definition log_v0_details :: "log_v0 option \<Rightarrow> slog_record list" where
  "log_v0_details payload =
     (case payload of
        None \<Rightarrow> []
      | Some p \<Rightarrow>
          let e = p0_event (l0_producer p); badge = e0_ra_badge e in
          [info_strings ''V0 schema detected''
             [(''logID'', l0_log_id p), (''eventType'', e0_event_type e), (''agentFQDN'', e0_fqdn e),
              (''agentID'', e0_agent_id e), (''ansName'', e0_ans_name e), (''protocol'', e0_protocol e)],
           info_strings ''RA badge'' [(''raID'', rb_ra_id badge), (''badgeURLStatus'', rb_url_status badge)]]
          @ log_v0_attestations (rb_attestations badge))"

definition log_entry_details :: "log_entry \<Rightarrow> slog_record list" where
  "log_entry_details t =
     (if entry_is_v1 t then log_v1_details (get_v1_payload t)
      else if entry_is_v0 t then log_v0_details (get_v0_payload t)
      else [(Slog_Info, ''unknown schema - using raw payload'', [(''payload'', Slog_Map (le_payload t))])])"

definition audit_line :: "nat \<Rightarrow> string \<Rightarrow> string \<Rightarrow> int \<Rightarrow> slog_record" where
  "audit_line n schema event_type ts =
     (Slog_Info, ''audit record'',
      [(''record'', Slog_Int (int n)), (''schema'', Slog_String schema), (''eventType'', Slog_String event_type),
       (''timestamp'', Slog_Time ts)])"

definition log_audit_record :: "nat \<times> log_entry \<Rightarrow> slog_record list" where
  "log_audit_record ir =
     (let (i, r) = ir; n = i + 1 in
      if entry_is_v1 r then
        (case get_v1_payload r of
           None \<Rightarrow> []
         | Some p \<Rightarrow> [audit_line n ''V1'' (e1_event_type (p1_event (l1_producer p))) (e1_timestamp (p1_event (l1_producer p)))])
      else if entry_is_v0 r then
        (case get_v0_payload r of
           None \<Rightarrow> []
         | Some p \<Rightarrow> [audit_line n ''V0'' (e0_event_type (p0_event (l0_producer p))) (e0_timestamp (p0_event (l0_producer p)))])
      else [])"

definition log_audit_records :: "log_audit \<Rightarrow> slog_record list" where
  "log_audit_records audit =
     info_count ''audit trail retrieved'' ''recordCount'' (length (la_records audit))
     # concat (map log_audit_record (List.enumerate 0 (la_records audit)))"

definition walkthrough_agent :: string where
  "walkthrough_agent = ''6bf2b7a9-1383-4e33-a945-845f34af7526''"

definition default_audit_limit :: int where
  "default_audit_limit = 5"

definition walkthrough_schemas :: "api_env \<Rightarrow> slog_record list" where
  "walkthrough_schemas A =
     (case new_transparency_client [with_base_url ''https://transparency.ans.godaddy.com'', with_jwt ''your-jwt-token''] of
        Inl e \<Rightarrow> [(Slog_Error, ''failed to create client'', [(''error'', Slog_Failure e)])]
      | Inr c \<Rightarrow>
     case get_agent_transparency_log A c walkthrough_agent of
        Inl e \<Rightarrow> [(Slog_Error, ''failed to get transparency log'', [(''error'', Slog_Failure e)])]
      | Inr t \<Rightarrow>
          info_strings ''transparency log retrieved'' [(''schemaVersion'', le_schema_version t), (''status'', le_status t)]
          # log_entry_details t
          @ (case get_agent_transparency_log_audit A c walkthrough_agent
                    (Some \<lparr>ap_offset = 0, ap_limit = default_audit_limit\<rparr>) of
               Inl e \<Rightarrow> [(Slog_Warn, ''failed to get audit trail'', [(''error'', Slog_Failure e)])]
             | Inr audit \<Rightarrow> log_audit_records audit))"

text \<open>The events the second walkthrough makes up.\<close>

definition create_v1_event :: log_v1 where
  "create_v1_event =
     \<lparr>l1_log_id = ''01936db8-b65e-7e2f-b5e4-d0b5c1234567'',
      l1_producer =
        \<lparr>p1_event =
           zero_event_v1\<lparr>
             e1_ans_id := ''6bf2b7a9-1383-4e33-a945-845f34af7526'',
             e1_ans_name := ''ans://v1.0.0.agent-0.ai.domain.com'',
             e1_event_type := ''AGENT_REGISTERED'',
             e1_agent := zero_agent_v1\<lparr>ag1_host := ''agent-0.ai.domain.com'', ag1_version := ''v1.0.0''\<rparr>,
             e1_attestations :=
               zero_attestations_v1\<lparr>
                 av1_domain_validation := Some ''ACME-DNS-01'',
                 av1_identity_cert :=
                   Some \<lparr>cf_fingerprint = ''SHA256:abcdef1234567890'', cf_type = ''X509-OV-CLIENT''\<rparr>\<rparr>,
             e1_ra_id := ''api.godaddy.com''\<rparr>,
         p1_key_id = ''arn:aws:kms:us-east-1:123456789012:key/stub-key'',
         p1_signature = ''eyJhbGciOiJFUzI1NiIsInR5cCI6IkpXVCJ9...''\<rparr>\<rparr>"

definition create_v0_event :: log_v0 where
  "create_v0_event =
     \<lparr>l0_log_id = ''01936db8-b65e-7e2f-b5e4-d0b5c1234568'',
      l0_producer =
        \<lparr>p0_event =
           zero_event_v0\<lparr>
             e0_fqdn := ''agent-0.capability.provider.domain.com'',
             e0_agent_id := ''6bf2b7a9-1383-4e33-a945-845f34af7527'',
             e0_ans_name := ''mcp://agent-0.capability.provider.v1.0.0.domain.com'',
             e0_event_type := ''AGENT_ACTIVE'',
             e0_protocol := ''mcp'',
             e0_ra_badge :=
               zero_ra_badge\<lparr>
                 rb_url_status := ''verified_link'',
                 rb_ra_id := ''api.godaddy.com'',
                 rb_attestations :=
                   zero_attestations_v0\<lparr>
                     av0_domain_validation := Some ''acme-dns-01'',
                     av0_client_fp := Some ''SHA256:fedcba9876543210''\<rparr>\<rparr>\<rparr>,
         p0_key_id = ''ra1-prod-key-2024-01'',
         p0_signature = ''eyJhbGciOiJFUzI1NiIsInR5cCI6IkpXVCJ9...''\<rparr>\<rparr>"

definition walkthrough_validation :: "slog_record list" where
  "walkthrough_validation =
     [info_strings ''created V1 event''
        [(''logID'', l1_log_id create_v1_event), (''eventType'', e1_event_type (p1_event (l1_producer create_v1_event)))],
      info_strings ''created V0 event''
        [(''logID'', l0_log_id create_v0_event), (''eventType'', e0_event_type (p0_event (l0_producer create_v0_event)))]]"

text \<open>
  Which records of an audit trail get a line: those with a payload of either schema that was parsed. A line shows
  the position of its record in the trail, and the lines come in the trail's order.
\<close>

lemma audit_record_logged:
  "log_audit_record (i, r) \<noteq> [] \<longleftrightarrow>
     le_parsed r \<noteq> Payload_None
     \<and> (le_schema_version r = SchemaVersionV1 \<longrightarrow> get_v1_payload r \<noteq> None)"
  by (cases "le_parsed r")
    (auto simp: log_audit_record_def entry_is_v1_def entry_is_v0_def get_v1_payload_def get_v0_payload_def)

lemma audit_record_numbered:
  "log_audit_record (i, r) = [] \<or>
     (\<exists>schema event ts. log_audit_record (i, r) = [audit_line (i + 1) schema event ts] \<and> (schema = ''V1'' \<longleftrightarrow> get_v1_payload r \<noteq> None))"
  by (auto simp: log_audit_record_def entry_is_v1_def entry_is_v0_def get_v1_payload_def get_v0_payload_def
      split: option.split parsed_payload.splits)

text \<open>
  An entry whose version says V1 but whose payload was not parsed is shown not at all: the fallback to the raw
  payload is only for versions that are unknown.
\<close>

lemma unparsed_entry_silent:
  "le_parsed t = Payload_None \<Longrightarrow> le_schema_version t \<in> {SchemaVersionV1, SchemaVersionV0, []} \<Longrightarrow> log_entry_details t = []"
  by (auto simp: log_entry_details_def entry_is_v1_def entry_is_v0_def get_v1_payload_def get_v0_payload_def
      log_v1_details_def log_v0_details_def)

lemma created_v1_names_its_agent:
  "let e = p1_event (l1_producer create_v1_event) in
     \<exists>v. e1_ans_name e = ''ans://'' @ v @ ''.'' @ ag1_host (e1_agent e) \<and> v = ag1_version (e1_agent e)"
  by (simp add: create_v1_event_def)

end
