(* ===== verification/Spec2Isabelle.thy ===== *)
theory Spec2Isabelle
  imports Demo_Samples Fifo_Cache Supplier Tool_Samples Cli_Print Cli_Print_Log Cli_Flags Error_Text Walkthroughs
begin

text \<open>
  Verification library for the Agent Name Service SDK (\<open>github.com/agentnameservice/ans-sdk-go\<close>): the Go
  packages \<open>models\<close>, \<open>verify\<close>, \<open>verify/scitt\<close>, \<open>pop\<close>, \<open>ans\<close>, \<open>csrvalidation\<close>, \<open>keygen\<close>,
  \<open>internal/httputility\<close>, the commands of \<open>cmd/ans-cli\<close> and the programs of \<open>examples\<close>. File names are relative
  to \<open>src/\<close>.

  The program. A registration authority (RA) registers agents and a transparency log (TL) publishes a badge
  and SCITT evidence for each of them. The SDK has five parts that meet in a few calls:

  \<^item> \<open>verify\<close> decides whether a TLS certificate belongs to a registered agent: it looks for the badge URL in
    DNS, fetches the badge from the log, compares status, fingerprint and names, and asks DANE. It caches
    badges and has three failure policies.
  \<^item> \<open>verify/scitt\<close> verifies the evidence an agent sends along in HTTP headers instead: a COSE-signed receipt
    (with a Merkle inclusion proof) and a COSE-signed status token, both against pinned root keys; and signed
    checkpoints of the log. \<open>verify\<close> calls it and falls back to the badge.
  \<^item> \<open>pop\<close> authenticates callers without mutual TLS: a DPoP proof signed with the identity key, tied to the
    request, to the status token and to a replay cache; a middleware on the server and \<open>AttachIdentity\<close> on the
    client. It calls \<open>verify/scitt\<close> for token and receipt.
  \<^item> \<open>ans\<close> has the REST clients of RA and TL, with their data in \<open>models\<close>, and the agent client that calls an
    agent over a connection \<open>verify\<close> has checked.
  \<^item> \<open>csrvalidation\<close>, \<open>keygen\<close> and \<open>cmd/ans-cli\<close>: keys, certificate requests, the rules the RA applies to
    them, and the command line on top of it all.

  The programs under \<open>examples\<close> put the parts together: an agent that calls another one without mutual TLS, with a kit
  that stands in for RA and TL, and two walkthroughs of the REST clients.

  Theories, from the bottom.

  \<^item> Go: \<open>Prelude\<close> (lists, maps, options; collections of simplification rules), \<open>Go_Strings\<close> (\<open>strings\<close>,
    \<open>strconv\<close>), \<open>Go_Encoding\<close> (hex, base 64; locale \<open>b64_alphabet\<close> for the two alphabets), \<open>Go_Utf8\<close>,
    \<open>Go_Json\<close> and \<open>Go_Json_Lemmas\<close> (\<open>encoding/json\<close>: reader, printer, decoding into structs, and that what is
    printed is read back), \<open>Go_Url\<close> (\<open>net/url\<close>).
  \<^item> \<open>models\<close>: \<open>Models\<close> (\<open>version.go\<close>, \<open>fqdn.go\<close>, \<open>badge.go\<close>; \<open>version\<close> is an instance of \<open>linorder\<close> by the
    code's \<open>Compare\<close>), \<open>Rest_Models\<close> (\<open>agent.go\<close>, \<open>certificate.go\<close>, \<open>revocation.go\<close>, \<open>resolution.go\<close>, \<open>event.go\<close>
    and the error values), \<open>Log_Models\<close> (\<open>transparency.go\<close>, \<open>transparency_schemas.go\<close>).
  \<^item> \<open>verify\<close>: \<open>Cert_Identity\<close> (\<open>cert.go\<close>), \<open>Badge_Record\<close> (\<open>badge_record.go\<close>, \<open>url_validator.go\<close>),
    \<open>Dns_Resolver\<close> (\<open>dns.go\<close>, \<open>dns_resolver.go\<close>, \<open>dns_mock.go\<close>; locale \<open>badge_resolver\<close>, interpreted on both
    resolvers), \<open>Dane\<close> (\<open>dane.go\<close>, \<open>dane_mock.go\<close>), \<open>Badge_Cache\<close> (\<open>cache.go\<close>; locale \<open>badge_store\<close>, interpreted on
    the view by host and the view by host and version), \<open>Outcome\<close> (\<open>outcome.go\<close>, \<open>errors.go\<close>, \<open>tlog.go\<close>),
    \<open>Verifier\<close> (\<open>verify.go\<close>, \<open>options.go\<close>, \<open>policy.go\<close>).
  \<^item> \<open>verify/scitt\<close>: \<open>Scitt_Types\<close> (\<open>errors.go\<close>, \<open>types.go\<close>), \<open>Merkle\<close> (\<open>merkle.go\<close>), \<open>Cose\<close> (\<open>cose.go\<close>), \<open>Key_Store\<close>
    (\<open>root_keys.go\<close>, \<open>refreshable_key_store.go\<close>; locale \<open>key_lookup\<close>, interpreted on both stores), \<open>Receipt\<close>,
    \<open>Status_Token\<close>, \<open>Checkpoint\<close>, \<open>Headers\<close> (the files of those names), \<open>Fifo_Cache\<close> (\<open>cache.go\<close>; locale
    \<open>expiring_store\<close>, interpreted on the receipt and the token cache), \<open>Scitt_Client\<close> (\<open>client.go\<close>), \<open>Supplier\<close>
    (\<open>supplier.go\<close>). \<open>Merkle_Tree\<close> specifies the RFC 9162 tree hash and audit path independently of the code;
    \<open>Transparency\<close> puts receipt, checkpoint and tree together.
  \<^item> \<open>pop\<close>: \<open>Replay\<close> (\<open>replay.go\<close>; locale \<open>replay_guard\<close>, interpreted on the memory cache), \<open>Pop_Proof\<close> (\<open>errors.go\<close>,
    \<open>jws.go\<close>, \<open>proof.go\<close>, \<open>verify.go\<close>), \<open>Pop_Sign\<close> (\<open>sign.go\<close>), \<open>Caller\<close> (\<open>caller.go\<close>), \<open>Pop_Http\<close> (\<open>http.go\<close>).
  \<^item> \<open>ans\<close>: \<open>Http_Util\<close> (\<open>internal/httputility\<close>), \<open>Api_Client\<close> and \<open>Api_Client_Lemmas\<close> (\<open>options.go\<close>, \<open>client.go\<close>,
    \<open>validate.go\<close>), \<open>Log_Client\<close> (\<open>transparency.go\<close>), \<open>Http_Redirect\<close> (what \<open>net/http\<close> does with an answer that redirects),
    \<open>Agent_Client\<close> (\<open>agent_client.go\<close>).
  \<^item> Tools: \<open>Csr_Validation\<close>, \<open>Keygen\<close>, \<open>Cli_Config\<close> (\<open>internal/config/config.go\<close>, \<open>client.go\<close>, \<open>functions.go\<close>),
    \<open>Cli_Commands\<close> (the other commands up to what they print), \<open>Csr_Generation\<close> (\<open>generate_csr.go\<close>), \<open>Cli_Flags\<close>
    (the defaults of the flags), \<open>Cli_Format\<close>, \<open>Cli_Print\<close> and \<open>Cli_Print_Log\<close> (what the commands print, with the
    columns of \<open>text/tabwriter\<close>).
  \<^item> \<open>Error_Text\<close>: the \<open>Error\<close> methods of \<open>verify\<close>, \<open>verify/scitt\<close> and \<open>pop\<close>.
  \<^item> \<open>examples\<close>: \<open>Demo_Kit\<close> (\<open>a2a-no-mtls/demokit/demokit.go\<close>: minting, the bundle on disk, access tokens),
    \<open>Demo_Credentials\<close> (what is minted is accepted by \<open>verify/scitt\<close> and \<open>pop\<close>, and the round trips), \<open>Demo_Agents\<close>
    (\<open>server/main.go\<close>, \<open>client/main.go\<close>, and the answers the middleware of \<open>pop\<close> writes itself), \<open>Demo_Outcomes\<close> (the two
    of them together, from provisioning to the last answer), \<open>Demo_Scenarios\<close> (\<open>a2a-no-mtls/main.go\<close> and its attacks),
    \<open>Walkthroughs\<close> (\<open>byoc/byoc_registration.go\<close>, \<open>transparency_schemas.go\<close>).
  \<^item> \<open>Samples\<close>, \<open>Pop_Samples\<close>, \<open>Api_Samples\<close>, \<open>Tool_Samples\<close> and \<open>Demo_Samples\<close> hold concrete parameters and inputs at which the
    theorems with hypotheses are applied; no theorem rests on them.

  How the code is translated. A Go \<open>string\<close> and a \<open>[]byte\<close> are lists of 8-bit characters, a struct is a
  record, a named string type with constants is \<open>string\<close>, an iota enumeration a datatype; \<open>int64\<close> and \<open>uint64\<close>
  are 64-bit words where the code calculates with them (Merkle indices, token expiry), Go's \<open>int\<close> an \<open>int\<close>
  where its size cannot matter. Times and durations are nanoseconds as \<open>int\<close>. An error is the left of a sum
  or \<open>Some\<close>; a nil pointer that is checked is \<open>None\<close>; a panic is an error value of its own. A method that
  changes its receiver returns the changed record. What an operation does to the outside is a list beside its result, in
  order, where the order matters: the requests the agent client sends, redirects included, and the bodies it closes
  (\<open>agent_effect\<close>); the URLs the verifiers hand to the log client (\<open>fetch_badge_calls\<close>, \<open>server_verify_calls\<close>,
  \<open>server_prefetch_calls\<close>, \<open>client_verify_calls\<close>, of which the operations without traces are the first components); the
  registrations the \<open>register\<close> command makes (\<open>run_register\<close>). Locks make each method of the caches and stores one
  step, so concurrency is interleaving of such steps: an arbitrary sequence of operations, reachability
  as an inductive relation (\<open>cache_reach\<close>, \<open>rks_run\<close>, \<open>supplier_run\<close>) or a list of operations (\<open>replay_op\<close>,
  \<open>poll_round\<close>). A map whose iteration order shows is an association list together with an arbitrary order
  of its keys.

  Parameters. Code that is not in the repository is an argument: SHA-256 and SHA-512, ECDSA and RSA, X.509, DER and
  PEM parsing, CBOR (\<open>cbor_lib\<close>), DNS and HTTP exchanges, TLS, files, clocks, randomness, the Unicode tables above
  ASCII (\<open>unicode\<close>), RFC 3339 times, cobra and viper. What a theorem needs of them is a named hypothesis: \<open>hash32\<close>
  (a digest has 32 bytes), \<open>collision_free_at\<close> (the strings hashed in the two walks at hand do not collide),
  \<open>key_lib_ok\<close> and \<open>csr_creation_ok\<close> (keys and requests are read back from their encodings, a request if the labels of its
  URI's host are proper and of DNS length; with an empty label or one outside printable ASCII it is created but not parsed),
  \<open>join_apart\<close>
  (\<open>filepath.Join\<close> keeps the names of the four files apart), \<open>kit_laws\<close>, \<open>agent_laws\<close> and \<open>bundle_codec_ok\<close> (CBOR, JSON,
  certificates, keys and PEM are read back as they were written, and signatures verify), \<open>kit_works\<close>, \<open>file_works\<close> (the
  libraries' calls and the files do not fail), \<open>delivered\<close>, \<open>connected\<close> and \<open>carries\<close> (the method, the body and the values of the
  headers the server reads arrive as they were sent, of requests that HTTP can carry; the transport may add headers such as
  \<open>User-Agent\<close> and \<open>Accept-Encoding\<close>); and each is shown to hold for a concrete instance.

  Loops and fuel. Loops over data are structural recursion or \<open>function\<close>s with a measure. Three
  definitions count steps: the JSON reader gets \<open>2 * length + 2\<close>, which \<open>parse_value_fuel\<close> shows to be enough
  for every text, and the nesting limit 10000 of \<open>encoding/json\<close>; trimming gets the length of the
  string, of which every step drops a byte (\<open>trim_left_fuel_done\<close>); the loop of \<open>events --follow\<close> is a list of
  turns, as it only ends when the user does. Completeness of the Merkle walk is for logs of at most \<open>2^63\<close>
  entries, where the code's 64-bit indices do not overflow.

  What is proved. The transparency log: receipts prove membership, the walk accepts exactly the RFC 9162 audit
  path, receipts, tokens, checkpoints and trusted keys are sound, and clock and skew decide exactly whether a token is
  refused as expired, the overflow of \<open>int64\<close> included. The verifiers: what a verified server or client certificate
  implies, when success comes without verification, which URLs are ever fetched, exact characterisations of the SCITT
  path, of DANE against a matching rule of its own, and of the certificates \<open>ToError\<close> gives no error for. Caches and stores: bounds,
  provenance of every answer, refinement of a FIFO queue, pinned keys, single use of proofs. The middleware and the
  round trip from \<open>AttachIdentity\<close> to it. The clients: what an answer of the agent client implies and which requests it has
  sent before, the one credential every request of a registration client carries, and that registrations and searches arrive as they were given.
  The examples: the caller against its callee in every mode, the attacks that are rejected, and that only the holder of
  the key has an access token honoured. The tools: what passes as a CSR, which generated CSRs pass, that saved keys are
  loaded again, and what the command line has checked when it calls \<open>RegisterAgent\<close>. Several theorems state where the code differs from what
  its comments say: the expiry check that wraps, \<open>ToError\<close> on a rejected certificate, the stale badge that is not
  compared, the cached badge that ends the verification before DANE, the failed DANE lookup that stops nothing, the request
  sent before the certificate is verified and the redirects it follows, the replay window after a slow body, the generated
  requests that do not pass, the first poll of \<open>events\<close>.

  Not modelled. Logging; the messages inside the errors of \<open>verify\<close> and \<open>pop\<close>, which code only prints; the JSON the
  commands print with \<open>--json\<close>, which is the answer as \<open>encoding/json\<close> marshals it; the building of the cobra
  commands, which is calls into a third-party package; contexts and deadlines, except where
  their cancellation is an outcome; goroutines and tickers beyond the sequence of steps they cause. Of the
  examples, what they log or print on the way is left out, except in the two walkthroughs, of which it is the point.
\<close>

section \<open>Transparency log\<close>

text \<open>C1: A receipt that verifies and that a checkpoint covers proves membership: if the root and
  size of the checkpoint are those of the tree over the log's entries \<open>D\<close>, the receipt's event bytes
  are the entry of \<open>D\<close> at the receipt's leaf index, and the path it carried is the audit path of that
  entry. The only assumption on SHA-256 is that it returns 32 bytes and that the hashed strings of the
  two walks at hand do not collide.\<close>

theorem receipt_proves_membership:
  assumes "verify_receipt L C keys data = Inr r" "covers cp r = None"
    and "cp_root_hash cp = mth (cr_sha256 C) D" "unat (cp_size cp) = length D"
    and "\<And>x. hash32 (cr_sha256 C x)"
    and "collision_free_at (cr_sha256 C) D (unat (vr_leaf_index r)) (vr_event_bytes r) (receipt_path L data)"
  shows "unat (vr_leaf_index r) < length D \<and> vr_event_bytes r = D ! unat (vr_leaf_index r)
       \<and> receipt_path L data = audit_path (cr_sha256 C) (unat (vr_leaf_index r)) D"
  using assms by (rule receipt_member)

theorem receipt_proves_membership_witness:
  "vr_event_bytes sample_receipt = [''event''] ! unat (vr_leaf_index sample_receipt)
   \<and> receipt_path sample_cbor ''receipt'' = audit_path sample_hash 0 [''event'']"
proof -
  have h: "cr_sha256 sample_crypto = sample_hash" by (simp add: sample_crypto_def)
  have p: "receipt_path sample_cbor ''receipt'' = []"
    by (simp add: receipt_path_def sample_cose_parses sample_cose_def extract_vdp_def vdp_uint_def)
  have a: "audit_path sample_hash 0 [''event''] = []" by (simp add: audit_path.simps)
  show ?thesis
    using receipt_proves_membership [OF sample_receipt_verifies,
        of "\<lparr>cp_origin = [], cp_size = 1, cp_root_hash = vr_root_hash sample_receipt, cp_key_id = []\<rparr>" "[''event'']"]
    by (simp add: h p a hash32_sample sample_receipt_def collision_free_at_def inclusion_inputs_def
        compute_leaf_hash_def leaf_input_def walk_inputs.simps)
qed

text \<open>C2: The walk accepts every honest proof: for any entry of any log of at most \<open>2^63\<close> entries,
  the RFC 9162 audit path of the entry verifies against the RFC 9162 tree head.\<close>

theorem inclusion_complete:
  assumes "m < length D" "length D \<le> 2 ^ 63"
  shows "verify_merkle_inclusion sha (D ! m) (of_nat m) (of_nat (length D)) (audit_path sha m D) (mth sha D) = None"
  using assms by (rule verify_complete)

theorem inclusion_complete_witness:
  "verify_merkle_inclusion sample_hash ''c'' 2 3 (audit_path sample_hash 2 [''a'', ''b'', ''c''])
     (mth sample_hash [''a'', ''b'', ''c'']) = None"
  using inclusion_complete [of 2 "[''a'', ''b'', ''c'']" sample_hash] by simp

text \<open>C3: The walk accepts nothing else: if it reaches the tree head of a log of the given size,
  the leaf index is in range, the event is the entry there and the path is its audit path, unless
  two of the strings hashed collide.\<close>

theorem inclusion_sound:
  assumes "\<And>x. hash32 (sha x)" "unat n = length D" "list_all hash32 ps"
    and "verify_merkle_inclusion sha event i n ps (mth sha D) = None"
    and "collision_free_at sha D (unat i) event ps"
  shows "unat i < length D \<and> event = D ! unat i \<and> ps = audit_path sha (unat i) D"
  using assms by (intro verify_sound [of sha n]) (simp_all add: collision_free_at_def)

theorem inclusion_sound_witness:
  "''a'' = [''a'', ''b''] ! 0 \<and> [sample_hash (leaf_input ''b'')] = audit_path sample_hash 0 [''a'', ''b'']"
proof -
  have a: "audit_path sample_hash 0 [''a'', ''b''] = [sample_hash (leaf_input ''b'')]"
    "mth sample_hash [''a'', ''b''] = sample_hash (node_input (sample_hash (leaf_input ''a'')) (sample_hash (leaf_input ''b'')))"
    by (simp_all add: audit_path.simps mth.simps split_point_def pow2_below.simps Let_def compute_leaf_hash_def
        compute_node_hash_def)
  have "sample_hash (leaf_input ''a'') \<noteq>
      sample_hash (node_input (sample_hash (leaf_input ''a'')) (sample_hash (leaf_input ''b'')))"
    by (simp add: sample_hash_def leaf_input_def node_input_def eval_nat_numeral)
  then show ?thesis
    using inclusion_sound [of sample_hash 2 "[''a'', ''b'']" "[sample_hash (leaf_input ''b'')]" "''a''" 0]
    by (simp add: hash32_sample verify_inclusion_iff a walk_levels.simps collision_free_at_def inclusion_inputs_def
        compute_leaf_hash_def compute_node_hash_def walk_inputs.simps inj_on_def max_hash_path_len_def Let_def)
qed

section \<open>Status tokens and receipts\<close>

text \<open>C21: A status token that verifies was signed, over its protected header and payload, by the key
  the store holds under the key ID it names; an issuer claim, if present, is that key's name; the
  payload is the decoding of the signed bytes, has every mandatory field and only well-formed
  certificate entries, is neither EXPIRED nor REVOKED, and has not run out under the clamped skew.\<close>

theorem status_token_sound:
  assumes "verify_status_token_at u L C keys data skew now = Inr vt"
  shows "(\<exists>cose tk. parse_cose_sign1 L data = Inr cose \<and> vt_key_id vt = ph_kid (pc_protected cose)
            \<and> keys (vt_key_id vt) = Inr tk \<and> signed_by L C (tk_key tk) cose
            \<and> (ph_cwt_iss (pc_protected cose) = None \<or> ph_cwt_iss (pc_protected cose) = Some (tk_name tk))
            \<and> decode_status_payload u L (pc_payload cose) = Inr (vt_payload vt))
       \<and> complete_payload (vt_payload vt) \<and> certs_ok (sp_identity_certs (vt_payload vt))
       \<and> certs_ok (sp_server_certs (vt_payload vt))
       \<and> sp_status (vt_payload vt) \<notin> {StatusExpired, StatusRevoked}
       \<and> \<not> token_expired now (sp_exp (vt_payload vt)) skew"
proof -
  obtain cose tk where c: "parse_cose_sign1 L data = Inr cose" "keys (ph_kid (pc_protected cose)) = Inr tk"
    "signed_by L C (tk_key tk) cose" "\<not> issuer_mismatch (ph_cwt_iss (pc_protected cose)) tk"
    "decode_status_payload u L (pc_payload cose) = Inr (vt_payload vt)"
    "\<not> token_expired now (sp_exp (vt_payload vt)) skew" "\<not> status_is_terminal (sp_status (vt_payload vt))"
    "vt_key_id vt = ph_kid (pc_protected cose)"
    using assms unfolding verify_status_token_Inr by blast
  have "ph_cwt_iss (pc_protected cose) = None \<or> ph_cwt_iss (pc_protected cose) = Some (tk_name tk)"
    using c(4) by (cases "ph_cwt_iss (pc_protected cose)") (simp_all add: issuer_mismatch_def)
  moreover have "sp_status (vt_payload vt) \<notin> {StatusExpired, StatusRevoked}"
    using c(7) by (simp add: status_is_terminal_def)
  ultimately show ?thesis
    using c decode_status_payload_ok [OF c(5)] by auto
qed

theorem status_token_sound_witness:
  "key_store_get sample_keys (vt_key_id sample_token) = Inr sample_key
   \<and> complete_payload (vt_payload sample_token)
   \<and> \<not> token_expired 900 (sp_exp (vt_payload sample_token)) (120 * nanos_per_second)"
  using status_token_sound [OF sample_token_verifies] sample_lookup by (simp add: sample_token_def)

text \<open>C23: Of a token that verifies at one clock and skew, the clock and skew of any other verification decide alone: it is
  refused as expired exactly when the clock is past the expiry plus the skew in whole seconds, a negative skew counting as
  none and one above ten minutes as ten minutes, and else it is accepted with the same result. The sum is taken in wrapping
  64-bit arithmetic, so a token that expires within the skew of the end of the range is refused at any clock from 1970 on.\<close>

theorem token_expiry_exact:
  assumes "verify_status_token_at u L C keys data skew0 now0 = Inr vt"
  shows "let s = (if skew < 0 then 0 else if 600 * 1000000000 < skew then 600 else skew div 1000000000);
             d = sint (sp_exp (vt_payload vt)) + s;
             expired = (if d < 2 ^ 63 then d else d - 2 ^ 64) < sint now
         in verify_status_token_at u L C keys data skew now =
              (if expired then Inl (ErrToken TokenErrExpired [] (sp_exp (vt_payload vt)) now) else Inr vt)
            \<and> (2 ^ 63 \<le> d \<and> 0 \<le> sint now \<longrightarrow> expired)"
proof -
  have v: "verify_status_token_at u L C keys data skew now =
      (if token_expired now (sp_exp (vt_payload vt)) skew then Inl (ErrToken TokenErrExpired [] (sp_exp (vt_payload vt)) now)
       else Inr vt)"
    using assms by (auto simp: verify_status_token_at_def Let_def split: sum.splits option.splits if_splits)
  have c: "clamp_skew skew div nanos_per_second =
      (if skew < 0 then 0 else if 600 * 1000000000 < skew then 600 else skew div 1000000000)"
    by (simp add: clamp_skew_def max_clock_skew_def nanos_per_second_def Let_def)
  have r: "sint (sp_exp (vt_payload vt)) < 2 ^ 63" using sint_range_size [of "sp_exp (vt_payload vt)"] by (simp add: word_size)
  have "0 \<le> clamp_skew skew div nanos_per_second" "clamp_skew skew div nanos_per_second \<le> 600" by (rule skew_seconds_range)+
  with r show ?thesis unfolding v token_expired_iff c Let_def by simp
qed

theorem token_expiry_exact_witness:
  "verify_status_token_at sample_unicode sample_cbor sample_crypto (key_store_get sample_keys) ''token'' (120 * 1000000000) 1121
     = Inl (ErrToken TokenErrExpired [] 1000 1121)
   \<and> verify_status_token_at sample_unicode sample_cbor sample_crypto (key_store_get sample_keys) ''token'' (120 * 1000000000) 1120
     = Inr sample_token"
  using token_expiry_exact [OF sample_token_verifies, of "120 * 1000000000" 1121]
    token_expiry_exact [OF sample_token_verifies, of "120 * 1000000000" 1120]
  by (simp add: sample_token_def Let_def)

text \<open>C20: A receipt that verifies was signed, over its protected header and event bytes, by the key
  the store holds under the key ID it names, declares the RFC 9162 structure, names no other issuer
  than that key's, and carries a path that leads from its event bytes to the root it reports.\<close>

theorem receipt_sound:
  assumes "verify_receipt L C keys data = Inr r"
  shows "(\<exists>cose tk. parse_cose_sign1 L data = Inr cose \<and> vr_event_bytes r = pc_payload cose
            \<and> vr_key_id r = ph_kid (pc_protected cose) \<and> keys (vr_key_id r) = Inr tk
            \<and> signed_by L C (tk_key tk) cose \<and> ph_vds (pc_protected cose) = Some 1
            \<and> (vr_iss r = None \<or> vr_iss r = Some (tk_name tk)))
       \<and> vr_leaf_index r < vr_tree_size r
       \<and> walk_inclusion_path (cr_sha256 C) (vr_event_bytes r) (vr_leaf_index r) (vr_tree_size r)
           (receipt_path L data) = Inr (vr_root_hash r)"
proof -
  obtain cose tk where c: "parse_cose_sign1 L data = Inr cose" "vr_event_bytes r = pc_payload cose"
    "vr_key_id r = ph_kid (pc_protected cose)" "keys (vr_key_id r) = Inr tk" "signed_by L C (tk_key tk) cose"
    "ph_vds (pc_protected cose) = Some 1" "\<not> issuer_mismatch (vr_iss r) tk"
    using assms unfolding verify_receipt_Inr by auto
  have "vr_iss r = None \<or> vr_iss r = Some (tk_name tk)"
    using c(7) by (cases "vr_iss r") (simp_all add: issuer_mismatch_def)
  moreover have "vr_leaf_index r < vr_tree_size r"
    using receipt_inclusion [OF assms] by (simp add: verify_inclusion_iff)
  ultimately show ?thesis
    using c receipt_walk(1) [OF assms] by auto
qed

theorem receipt_sound_witness:
  "vr_leaf_index sample_receipt < vr_tree_size sample_receipt
   \<and> walk_inclusion_path sample_hash ''event'' 0 1 (receipt_path sample_cbor ''receipt'') = Inr (vr_root_hash sample_receipt)"
  using receipt_sound [OF sample_receipt_verifies] by (simp add: sample_receipt_def sample_crypto_def)

section \<open>Signed checkpoints\<close>

text \<open>C22: A checkpoint that verifies has a signature line by a key of the store, under the key ID of
  the line, whose name is both the line's signer and the checkpoint's origin; the key ID it reports is
  that key's, and size and root are those of the signed body. No line of a known key is invalid or
  misattributed, a JWS envelope excepted.\<close>

theorem checkpoint_sound:
  assumes "verify_checkpoint C keys note = Inr cp"
  shows "\<exists>body sigs s key. split_checkpoint_note note = Inr (body, sigs)
       \<and> parse_checkpoint_body body = Inr (cp\<lparr>cp_key_id := zero_kid\<rparr>)
       \<and> s \<in> set sigs \<and> keys (cs_kid s) = Inr key \<and> verify_checkpoint_signature C (tk_key key) body (cs_sig s)
       \<and> cs_name s = tk_name key \<and> cp_origin cp = tk_name key \<and> cp_key_id cp = tk_kid key
       \<and> (\<forall>s\<in>set sigs. judge_line C keys (cp_origin cp) body s \<noteq> Line_Rejects)"
proof -
  obtain body sigs cp0 k where c: "split_checkpoint_note note = Inr (body, sigs)"
    "parse_checkpoint_body body = Inr cp0"
    "Line_Rejects \<notin> judge_line C keys (cp_origin cp0) body ` set sigs"
    "first_verified (map (judge_line C keys (cp_origin cp0) body) sigs) = Some k" "cp = cp0\<lparr>cp_key_id := k\<rparr>"
    using assms unfolding verify_checkpoint_Inr by blast
  obtain s where s: "s \<in> set sigs" "judge_line C keys (cp_origin cp0) body s = Line_Verified k"
    using first_verified_mem [OF c(4)] by auto
  then obtain key where "keys (cs_kid s) = Inr key" "verify_checkpoint_signature C (tk_key key) body (cs_sig s)"
    "cs_name s = tk_name key" "cp_origin cp0 = tk_name key" "k = tk_kid key"
    by (auto simp: judge_line_def split: sum.splits if_splits)
  moreover have "cp\<lparr>cp_key_id := zero_kid\<rparr> = cp0"
    using parse_checkpoint_body_kid [OF c(2)] c(5) by simp
  ultimately show ?thesis
    using c s by (intro exI [of _ body] exI [of _ sigs] exI [of _ s] exI [of _ key]) (auto simp: image_iff)
qed

theorem checkpoint_sound_witness:
  "\<exists>body sigs s key. split_checkpoint_note sample_note = Inr (body, sigs)
     \<and> s \<in> set sigs \<and> key_store_get sample_keys (cs_kid s) = Inr key \<and> ''log'' = tk_name key"
  using checkpoint_sound [OF sample_note_verifies] by (auto simp del: split_paired_Ex)

text \<open>The order of the signature lines, and their repetition, do not decide: two notes with the
  same set of lines are both accepted or both refused, whatever the lines are.\<close>

theorem checkpoint_line_order:
  assumes "set sigs = set sigs'"
  shows "is_ok (verify_checkpoint_signatures C keys cp body sigs)
       = is_ok (verify_checkpoint_signatures C keys cp body sigs')"
  using assms by (auto simp: checkpoint_signatures_ok)

theorem checkpoint_line_order_witness:
  "let s = \<lparr>cs_name = ''log'', cs_kid = sample_kid, cs_sig = ''sig''\<rparr>;
       w = \<lparr>cs_name = ''w'', cs_kid = ''aaaa'', cs_sig = []\<rparr>;
       cp = \<lparr>cp_origin = ''log'', cp_size = 1, cp_root_hash = sample_fp, cp_key_id = zero_kid\<rparr>
   in is_ok (verify_checkpoint_signatures note_crypto (key_store_get sample_keys) cp sample_body [s, w])
    = is_ok (verify_checkpoint_signatures note_crypto (key_store_get sample_keys) cp sample_body [w, s])"
  unfolding Let_def by (rule checkpoint_line_order) auto

section \<open>Trusted root keys\<close>

text \<open>Merging fetched keys is additive: a key ID the store already has keeps its key, any other
  answers with the first fetched string that parses to it, and nothing else changes; the counters
  account for every string, and the store grows by exactly the number reported as added.\<close>

theorem key_store_merge:
  "key_store_get (fst (merge_from C ks ss)) k =
     (case map_of ks k of Some tk \<Rightarrow> Inr tk
      | None \<Rightarrow> (case first_key C ss k of Some tk \<Rightarrow> Inr tk
                 | None \<Rightarrow> Inl (ErrSignature SigErrUnknownKeyID k)))
   \<and> mr_added (snd (merge_from C ks ss)) + mr_unparseable (snd (merge_from C ks ss))
        + mr_duplicate (snd (merge_from C ks ss)) = length ss
   \<and> mr_skipped (snd (merge_from C ks ss)) = mr_unparseable (snd (merge_from C ks ss)) + mr_duplicate (snd (merge_from C ks ss))
   \<and> key_store_len (fst (merge_from C ks ss)) = key_store_len ks + mr_added (snd (merge_from C ks ss))"
proof -
  have "merge_balance (length ks) 0 (length ks, empty_merge)"
    by (simp add: merge_balance_def empty_merge_def)
  then have "merge_balance (length ks) (0 + length ss)
      (length (fst (merge_keys C ss (ks, empty_merge))), snd (merge_keys C ss (ks, empty_merge)))"
    by (intro merge_keys_balance) simp
  then show ?thesis
    by (auto simp: merge_from_def key_store_get_def merge_keys_lookup merge_balance_def key_store_len_def
        split: option.split)
qed

text \<open>C24: Trust is pinned: over any run of refreshes, with any outcomes of the fetches, on demand or
  in the background, a key ID that was trusted stays bound to the key it had, and every answer of the
  store is for the key ID asked.\<close>

theorem key_refresh_pins:
  assumes "rks_run C r r'" "rks_ok r" "rks_get r k = Inr tk"
  shows "rks_get r' k = Inr tk \<and> tk_kid tk = k \<and> rks_ok r'
       \<and> rks_get (fst (refresh_if_cooldown_elapsed C answer n1 n2 n3 r r')) k = Inr tk"
  using rks_run_pins [OF assms(1,3)] rks_run_ok [OF assms(1,2)] refreshable_keys.get_kid [OF assms(2,3)]
    rks_run_pins [OF rks_run_on_demand [OF assms(1)] assms(3)] by blast

theorem key_refresh_pins_witness:
  "rks_get (fst (do_refresh sample_crypto (Inr [''x+y+z'']) 5 (new_refreshable sample_keys True))) sample_kid
     = Inr sample_key"
proof -
  have "rks_get (new_refreshable sample_keys True) sample_kid = Inr sample_key"
    by (simp add: rks_get_def new_refreshable_def sample_lookup)
  moreover have "rks_ok (new_refreshable sample_keys True)"
    by (simp add: rks_ok_def new_refreshable_def sample_keys_ok)
  ultimately show ?thesis
    using key_refresh_pins [OF rks_step [OF rks_refl], of "new_refreshable sample_keys True" sample_kid sample_key
        sample_crypto "Inr [''x+y+z'']" 5] by blast
qed

text \<open>A C2SP key line written as name, hex key ID and base64 of the type byte and the key's DER is
  parsed back to that key, whatever plus signs the base64 contains, provided the key ID is the first
  four bytes of the hash of the DER and the name has no plus sign.\<close>

theorem c2sp_key_roundtrip:
  assumes "name \<noteq> []" "CHR ''+'' \<notin> set name" "length kid = 4"
    and "cr_parse_pkix C spki = Some (PK_P256 key)" "take 4 (cr_sha256 C spki) = kid"
  shows "parse_c2sp_key C (c2sp_string name kid spki) = Inr \<lparr>tk_name = name, tk_kid = kid, tk_key = key\<rparr>
       \<and> key_store_get (fst (merge_from C [] [c2sp_string name kid spki])) kid
           = Inr \<lparr>tk_name = name, tk_kid = kid, tk_key = key\<rparr>"
  using parse_c2sp_string [OF assms]
  by (simp add: merge_from_def merge_one_def key_store_get_def)

theorem c2sp_key_roundtrip_witness:
  "parse_c2sp_key sample_crypto (c2sp_string ''log'' ''ikps'' ''spki'')
     = Inr \<lparr>tk_name = ''log'', tk_kid = ''ikps'', tk_key = 7\<rparr>"
  using c2sp_key_roundtrip [of "''log''" "''ikps''" sample_crypto "''spki''" 7]
  by (simp add: sample_crypto_def sample_hash_def)

section \<open>Headers and artifact caches\<close>

text \<open>C25: The bounded caches are FIFO queues: seen as the list of entries in insertion order, an
  insertion appends (or overwrites in place) after dropping as many of the oldest entries as the limit
  asks for, so the limit is never exceeded, and an invalidation removes its key and keeps the order.\<close>

theorem fifo_cache_refines_queue:
  assumes "fifo_ok c"
  shows "queue_of (fifo_insert k v c) = queue_insert (ff_max c) k v (queue_of c)
       \<and> queue_of (fifo_invalidate k c) = filter (\<lambda>(x, _). x \<noteq> k) (queue_of c)
       \<and> fifo_ok (fifo_insert k v c) \<and> fifo_ok (fifo_invalidate k c)
       \<and> int (fifo_len (fifo_insert k v c)) \<le> max 0 (ff_max c)"
  using fifo_insert_refines [OF assms] fifo_invalidate_refines [OF assms] fifo_insert_len [OF assms] by blast

theorem fifo_cache_refines_queue_witness:
  "queue_of (fifo_insert ''b'' (2::nat) (fifo_insert ''a'' 1 (new_fifo 1)))
     = queue_insert 1 ''b'' 2 (queue_of (fifo_insert ''a'' 1 (new_fifo 1)))
   \<and> queue_insert 1 ''b'' (2::nat) [(''a'', 1)] = [(''b'', 2)]"
proof
  have "fifo_ok (fifo_insert ''a'' (1::nat) (new_fifo 1))" by (simp add: fifo_insert_refines)
  from fifo_cache_refines_queue [OF this, of "''b''" 2]
  show "queue_of (fifo_insert ''b'' (2::nat) (fifo_insert ''a'' 1 (new_fifo 1)))
      = queue_insert 1 ''b'' 2 (queue_of (fifo_insert ''a'' 1 (new_fifo 1)))"
    by (simp add: new_fifo_def)
qed (simp add: queue_insert_def)

text \<open>Over any sequence of insertions and invalidations from an empty cache, the token cache
  answers only with the token of the last insertion under the agent ID, never after an invalidation of
  it, and never once the token's own expiry has passed; the receipt cache likewise answers only with
  the receipt inserted last.\<close>

theorem artifact_cache_provenance:
  "(token_cache_get now (tokens.run ops (new_token_cache n)) a = Some vt \<longrightarrow>
      tokens.last_effect a ops = Some (Some vt) \<and> sint now \<le> sint (sp_exp (vt_payload vt)))
   \<and> (receipt_cache_get t (receipts.run rops (new_receipt_cache ttl m)) b = Some r \<longrightarrow>
      receipts.last_effect b rops = Some (Some r))"
proof (intro conjI impI)
  assume t: "token_cache_get now (tokens.run ops (new_token_cache n)) a = Some vt"
  from tokens.provenance [OF _ t] show "tokens.last_effect a ops = Some (Some vt)"
    by (simp split: option.splits)
  from token_get_current [OF tokens.run_ok t] show "sint now \<le> sint (sp_exp (vt_payload vt))" by simp
next
  assume r: "receipt_cache_get t (receipts.run rops (new_receipt_cache ttl m)) b = Some r"
  from receipts.provenance [OF _ r] show "receipts.last_effect b rops = Some (Some r)"
    by (simp split: option.splits)
qed

theorem artifact_cache_provenance_witness:
  "tokens.last_effect ''agent-1'' [Inl ((), ''agent-1'', sample_token)] = Some (Some sample_token)
   \<and> receipts.last_effect ''agent-1'' [Inl (7, ''agent-1'', sample_receipt)] = Some (Some sample_receipt)"
proof -
  have t: "token_cache_get 900 (tokens.run [Inl ((), ''agent-1'', sample_token)] (new_token_cache 5)) ''agent-1''
      = Some sample_token"
    by (simp add: token_cache_get_def token_cache_insert_def new_token_cache_def new_fifo_def fifo_insert_def
        evict_locked_def Let_def sample_token_def)
  have r: "receipt_cache_get 8 (receipts.run [Inl (7, ''agent-1'', sample_receipt)] (new_receipt_cache 60 5)) ''agent-1''
      = Some sample_receipt"
    by (simp add: receipt_cache_get_def receipt_cache_insert_def new_receipt_cache_def new_fifo_def fifo_insert_def
        evict_locked_def Let_def)
  show ?thesis
    using artifact_cache_provenance [of 900 "[Inl ((), ''agent-1'', sample_token)]" 5 "''agent-1''" sample_token
        8 "[Inl (7, ''agent-1'', sample_receipt)]" 60 5 "''agent-1''" sample_receipt] t r by blast
qed

section \<open>Badge verification\<close>

text \<open>C4: A server certificate reported as verified on the badge path is vouched for: its badge has a
  status that allows connections, attests exactly this certificate's fingerprint, names the requested
  host, and the certificate's own name, if any, agrees with it. The badge is the unexpired cache entry
  for that host, or it was just fetched from the log at the URL a DNS record named and the validator
  passed, and then DANE, if configured, did not reject.\<close>

theorem server_verify_sound:
  assumes "server_verify env cfg f cert = (out, cfg')" "vo_type out = OutcomeVerified"
  shows "\<exists>b. vo_badge out = Some b \<and> vo_tier out = TierBadgeOnly
       \<and> vouches_server (en_unicode env) b cert f
       \<and> (cached_badge_of env cfg f None = Some b \<or> fetched env cfg f None b \<and> dane_allows env cfg f cert)"
  using server_verify_Verified [OF assms] by (auto simp: badge_evidence_def)

theorem server_verify_sound_witness:
  "vouches_server sample_unicode vouching_badge sample_identity (Fqdn ''a.io'')"
proof -
  obtain cfg' where "server_verify sample_env sample_config (Fqdn ''a.io'') sample_identity =
      (verified_with_warning vouching_badge (Cert_Fingerprint sample_fp), cfg')"
    using sample_server_verify by (metis prod.collapse)
  from server_verify_sound [OF this] show ?thesis by simp
qed

text \<open>C5: A client certificate reported as verified on the badge path carries a valid host name and
  an ANS URI; its badge allows connections, attests this certificate's fingerprint as the identity
  certificate, and names the certificate's host and the very ANS name of the URI. The badge is the
  unexpired cache entry for host and version, or fetched for them and not rejected by DANE.\<close>

theorem client_verify_sound:
  assumes "client_verify env cfg cert = (out, cfg')" "vo_type out = OutcomeVerified"
  shows "\<exists>f name b. client_subject (en_unicode env) cert f name
       \<and> vo_badge out = Some b \<and> vo_tier out = TierBadgeOnly
       \<and> vouches_client (en_unicode env) b cert f name
       \<and> (cached_badge_of env cfg f (Some (an_version name)) = Some b
          \<or> fetched env cfg f (Some (an_version name)) b \<and> dane_allows env cfg f cert)"
  using client_verify_Verified [OF assms] by (auto simp: badge_evidence_def)

theorem client_verify_sound_witness:
  "\<exists>f name. client_subject sample_unicode sample_identity f name
     \<and> vouches_client sample_unicode vouching_badge sample_identity f name"
proof -
  obtain cfg' where "client_verify sample_env sample_config sample_identity =
      (verified_with_warning vouching_badge (Cert_Fingerprint sample_fp), cfg')"
    using sample_client_verify by (metis prod.collapse)
  from client_verify_sound [OF this] show ?thesis by auto
qed

text \<open>C6: Neither verifier ever succeeds without a verified badge except under a fail-open policy,
  and then only when DNS resolution or the log failed; in particular the default policy, FailClosed,
  accepts nothing that is not verified. A missing record is never failed open.\<close>

theorem no_unverified_success:
  "(outcome_is_success (fst (server_verify env cfg f cert)) \<longrightarrow>
      vo_type (fst (server_verify env cfg f cert)) = OutcomeVerified
      \<or> vc_policy cfg \<noteq> FailClosed \<and> infrastructure_failure env f None)
   \<and> (outcome_is_success (fst (client_verify env cfg cert)) \<longrightarrow>
      vo_type (fst (client_verify env cfg cert)) = OutcomeVerified
      \<or> vc_policy cfg \<noteq> FailClosed
        \<and> (\<exists>f name. client_subject (en_unicode env) cert f name
              \<and> infrastructure_failure env f (Some (an_version name))))"
  using server_verify_success [of env cfg f cert "fst (server_verify env cfg f cert)" "snd (server_verify env cfg f cert)"]
    client_verify_success [of env cfg cert "fst (client_verify env cfg cert)" "snd (client_verify env cfg cert)"]
  by (auto simp: justified_fail_open_def)

theorem no_unverified_success_witness:
  "vo_type (fst (server_verify sample_env sample_config (Fqdn ''a.io'') sample_identity)) = OutcomeVerified"
  using no_unverified_success [of sample_env sample_config "Fqdn ''a.io''" sample_identity]
  by (simp add: sample_server_verify)

text \<open>C30: A vouching cache hit ends the verification before DANE: the outcome is the verified one,
  whatever a configured DANE resolver would answer.\<close>

theorem cache_hit_skips_dane:
  assumes "cached_badge_of env cfg f None = Some b" "vouches_server (en_unicode env) b cert f"
  shows "server_verify env (cfg\<lparr>vc_dane := resolver\<rparr>) f cert
           = (verified_with_warning b (ci_fingerprint cert), cfg\<lparr>vc_dane := resolver\<rparr>)"
  using assms
  by (auto simp: server_verify_eq cached_badge_of_def Let_def server_verify_with_badge_ok split: option.splits)

theorem cache_hit_skips_dane_witness:
  "let cfg = with_dane_resolver (\<lambda>_ _. Inl (ErrDANE \<lparr>dane_err_type = DANEErrorDNSSECFailed, dane_err_fqdn = []\<rparr>))
               cached_config
   in outcome_is_success (fst (server_verify sample_env cfg (Fqdn ''a.io'') sample_identity))
      \<and> \<not> dane_allows sample_env cfg (Fqdn ''a.io'') sample_identity"
proof -
  define d :: dane_resolver where "d = (\<lambda>_ _. Inl (ErrDANE \<lparr>dane_err_type = DANEErrorDNSSECFailed, dane_err_fqdn = []\<rparr>))"
  have "\<not> dane_allows sample_env (with_dane_resolver d cached_config) (Fqdn ''a.io'') sample_identity"
    by (simp add: dane_allows_def with_dane_resolver_def dane_verify_def d_def dane_is_reject_def)
  then show ?thesis
    using cache_hit_skips_dane [OF sample_cached, of sample_identity "Some d"] sample_vouches
    by (simp add: with_dane_resolver_def d_def)
qed

text \<open>C31: Under FailOpenWithCache an infrastructure failure is turned into success by any badge of
  the host still within the staleness bound, without comparing it with the certificate presented.\<close>

theorem stale_cache_ignores_certificate:
  assumes "vc_policy cfg = FailOpenWithCache" "vc_cache cfg = Some c"
    and "get_by_fqdn (en_now_get env) c f = None"
    and "get_stale_by_fqdn (en_now_stale env) c f (vc_max_staleness cfg) = Some cb"
    and "en_preferred env f = Inl e" "e \<noteq> ErrRecordNotFound"
  shows "server_verify env cfg f cert = ((outcome_of OutcomeFailOpen)\<lparr>vo_badge := Some (cb_badge cb)\<rparr>, cfg)
       \<and> outcome_is_success (fst (server_verify env cfg f cert))"
proof -
  have "server_verify env cfg f cert = ((outcome_of OutcomeFailOpen)\<lparr>vo_badge := Some (cb_badge cb)\<rparr>, cfg)"
    using assms
    by (simp add: server_verify_eq server_fresh_eq server_fetch_badge_def fetch_badge_eq
        apply_failure_policy_def apply_fail_open_with_cache_def)
  then show ?thesis by (simp add: outcome_is_success_def outcome_of_def)
qed

theorem stale_cache_ignores_certificate_witness:
  "outcome_is_success (fst (server_verify
     (sample_env\<lparr>en_now_get := 10 ^ 12, en_now_stale := 10 ^ 12, en_preferred := (\<lambda>_. Inl (ErrOther []))\<rparr>)
     (with_failure_policy FailOpenWithCache (cached_config\<lparr>vc_max_staleness := 10 ^ 13\<rparr>))
     (Fqdn ''a.io'') (sample_identity\<lparr>ci_fingerprint := Cert_Fingerprint (replicate 32 (CHR 0x00))\<rparr>)))"
  by (rule stale_cache_ignores_certificate
        [where c = "insert_badge (\<lambda>ks. ks) 1 2 (new_badge_cache default_cache_config) (Fqdn ''a.io'') vouching_badge"
          and cb = "\<lparr>cb_badge = vouching_badge, cb_fetched_at = 1, cb_expires_at = 1 + 5 * nanos_per_minute\<rparr>"
          and e = "ErrOther []", THEN conjunct2])
    (simp_all add: with_failure_policy_def cached_config_def sample_insert_entries get_by_fqdn_def
      get_stale_by_fqdn_def nanos_per_minute_def)

text \<open>Prefetch under FailOpen hides the failure: when resolution fails it returns neither a
  badge nor an error.\<close>

theorem prefetch_fail_open_returns_nothing:
  assumes "vc_policy cfg = FailOpen" "cached_badge_of env cfg f None = None"
    and "en_preferred env f = Inl e" "e \<noteq> ErrRecordNotFound"
  shows "server_prefetch env cfg f = ((None, None), cfg)"
  using assms
  by (auto simp: server_prefetch_eq cached_badge_of_def server_fetch_badge_def fetch_badge_eq
      apply_failure_policy_def new_fail_open_outcome_def outcome_of_def outcome_to_error_def split: option.splits)

theorem prefetch_fail_open_returns_nothing_witness:
  "fst (server_prefetch (sample_env\<lparr>en_preferred := (\<lambda>_. Inl (ErrOther []))\<rparr>)
     (with_failure_policy FailOpen sample_config) (Fqdn ''a.io'')) = (None, None)"
  using prefetch_fail_open_returns_nothing [of "with_failure_policy FailOpen sample_config"
      "sample_env\<lparr>en_preferred := (\<lambda>_. Inl (ErrOther []))\<rparr>" "Fqdn ''a.io''" "ErrOther []"]
  by (simp add: with_failure_policy_def cached_badge_of_def get_by_fqdn_def new_badge_cache_def)

section \<open>SCITT evidence\<close>

text \<open>C18: With a key store of the repository and both headers present, server verification succeeds
  exactly when receipt and token verify, the token's status allows connections, its server
  certificates list this fingerprint, its ANS name is on the requested host, and DANE does not reject;
  the tier is then FullScitt. It never falls back to the badge path, whatever the failure policy, and
  leaves the cache alone.\<close>

theorem scitt_server_exact:
  assumes "vc_scitt_keys cfg = Some (key_store_get ks)" "ks_ok ks" "headers_has_both h"
  shows "(outcome_is_success (fst (server_verify_with_scitt env cfg f cert (Some h))) \<longleftrightarrow>
      (\<exists>r vt. verify_receipt (en_cbor env) (en_crypto env) (key_store_get ks) (sh_receipt h) = Inr r
         \<and> verify_status_token_at (en_unicode env) (en_cbor env) (en_crypto env) (key_store_get ks)
              (sh_status_token h) (vc_clock_skew cfg) (en_now_token env) = Inr vt
         \<and> status_valid_for_connection (sp_status (vt_payload vt))
         \<and> fp_bytes (ci_fingerprint cert) \<in> cert_fp ` set (sp_server_certs (vt_payload vt))
         \<and> (\<exists>name. parse_ans_name (en_unicode env) (sp_ans_name (vt_payload vt)) = Inr name
              \<and> equal_fold (en_unicode env) (an_host name) (fqdn_value f))
         \<and> dane_allows env cfg f cert))
    \<and> (outcome_is_success (fst (server_verify_with_scitt env cfg f cert (Some h))) \<longrightarrow>
         vo_tier (fst (server_verify_with_scitt env cfg f cert (Some h))) = TierFullScitt)
    \<and> snd (server_verify_with_scitt env cfg f cert (Some h)) = cfg"
proof -
  note nf = static_no_fallback [OF assms(2,1)]
  note s = verify_with_headers_success [OF nf]
  show ?thesis
    using s [where role = Role_Server and fb = "server_verify env cfg f cert" and f = f and cert = cert] assms
    by (simp add: server_verify_with_scitt_both scitt_evidence_iff role_certs_def)
qed

theorem scitt_server_exact_witness:
  "outcome_is_success (fst (server_verify_with_scitt sample_env sample_config (Fqdn ''a.io'') sample_identity
     (Some \<lparr>sh_receipt = ''receipt'', sh_status_token = ''token''\<rparr>)))"
  using scitt_server_exact [of sample_config sample_keys "\<lparr>sh_receipt = ''receipt'', sh_status_token = ''token''\<rparr>"
      sample_env "Fqdn ''a.io''" sample_identity] sample_keys_ok sample_receipt_verifies sample_token_verifies
    sample_token_connects
  by (simp add: headers_has_both_def dane_allows_def)

text \<open>C19: For a client certificate the same holds with the host the certificate names, provided it
  carries an ANS URI, and with the token's identity certificates: a certificate listed only as a server
  certificate is refused.\<close>

theorem scitt_client_exact:
  assumes "vc_scitt_keys cfg = Some (key_store_get ks)" "ks_ok ks" "headers_has_both h"
  shows "outcome_is_success (fst (client_verify_with_scitt env cfg cert (Some h))) \<longleftrightarrow>
      (\<exists>f name r vt. client_subject (en_unicode env) cert f name
         \<and> verify_receipt (en_cbor env) (en_crypto env) (key_store_get ks) (sh_receipt h) = Inr r
         \<and> verify_status_token_at (en_unicode env) (en_cbor env) (en_crypto env) (key_store_get ks)
              (sh_status_token h) (vc_clock_skew cfg) (en_now_token env) = Inr vt
         \<and> status_valid_for_connection (sp_status (vt_payload vt))
         \<and> fp_bytes (ci_fingerprint cert) \<in> cert_fp ` set (sp_identity_certs (vt_payload vt))
         \<and> (\<exists>name. parse_ans_name (en_unicode env) (sp_ans_name (vt_payload vt)) = Inr name
              \<and> equal_fold (en_unicode env) (an_host name) (fqdn_value f))
         \<and> dane_allows env cfg f cert)"
proof (cases "\<exists>f name. client_subject (en_unicode env) cert f name")
  case True
  then obtain f name where s: "client_subject (en_unicode env) cert f name" by blast
  have u: "client_subject (en_unicode env) cert f' name' \<longleftrightarrow> f' = f \<and> name' = name" for f' name'
    using s by (auto simp: client_subject_def)
  show ?thesis
    using verify_with_headers_success(1) [OF static_no_fallback [OF assms(2,1)],
        where role = Role_Identity and fb = "client_verify env cfg cert" and f = f and cert = cert] assms
    by (simp add: client_verify_with_scitt_subject [OF s assms(3)] scitt_evidence_iff role_certs_def u)
next
  case False
  with assms(3) show ?thesis by (simp add: client_verify_with_scitt_no_subject)
qed

theorem scitt_client_exact_witness:
  "outcome_is_success (fst (client_verify_with_scitt sample_env sample_config sample_identity
     (Some \<lparr>sh_receipt = ''receipt'', sh_status_token = ''token''\<rparr>)))"
proof -
  let ?h = "\<lparr>sh_receipt = ''receipt'', sh_status_token = ''token''\<rparr>"
  have "headers_has_both ?h" by (simp add: headers_has_both_def)
  moreover have "dane_allows sample_env sample_config (Fqdn ''a.io'') sample_identity" by (simp add: dane_allows_def)
  ultimately show ?thesis
    using scitt_client_exact [of sample_config sample_keys ?h sample_env sample_identity] sample_keys_ok
      sample_receipt_verifies sample_token_verifies sample_token_connects sample_subject
    by simp (use \<open>dane_allows _ _ _ _\<close> sample_token_connects(4) in \<open>force simp del: sample_token_connects\<close>)
qed

text \<open>The receipt only has to verify: any two receipts that verify under the key lookup lead to the
  same outcome, so the receipt's event is not tied to the agent, the token or the certificate.\<close>

theorem scitt_receipt_not_bound:
  assumes "vc_scitt_keys cfg = Some keys"
    and "verify_receipt (en_cbor env) (en_crypto env) keys data = Inr r"
    and "verify_receipt (en_cbor env) (en_crypto env) keys data' = Inr r'"
  shows "verify_with_headers env cfg f cert \<lparr>sh_receipt = data, sh_status_token = t\<rparr> role fb
       = verify_with_headers env cfg f cert \<lparr>sh_receipt = data', sh_status_token = t\<rparr> role fb"
  using assms by (simp add: verify_with_headers_def)

theorem scitt_receipt_not_bound_witness:
  "let v = (\<lambda>receipt. verify_with_headers sample_env sample_config (Fqdn ''a.io'') sample_identity
              \<lparr>sh_receipt = receipt, sh_status_token = ''token''\<rparr> Role_Server
              (server_verify sample_env sample_config (Fqdn ''a.io'') sample_identity))
   in v ''receipt'' = v ''other'' \<and> vr_event_bytes sample_receipt \<noteq> vr_event_bytes other_receipt"
  unfolding Let_def
proof
  show "verify_with_headers sample_env sample_config (Fqdn ''a.io'') sample_identity
              \<lparr>sh_receipt = ''receipt'', sh_status_token = ''token''\<rparr> Role_Server
              (server_verify sample_env sample_config (Fqdn ''a.io'') sample_identity)
      = verify_with_headers sample_env sample_config (Fqdn ''a.io'') sample_identity
              \<lparr>sh_receipt = ''other'', sh_status_token = ''token''\<rparr> Role_Server
              (server_verify sample_env sample_config (Fqdn ''a.io'') sample_identity)"
    by (rule scitt_receipt_not_bound [where keys = "key_store_get sample_keys"])
      (simp_all add: sample_receipt_verifies other_receipt_verifies)
qed (simp add: sample_receipt_def other_receipt_def)

section \<open>DANE\<close>

text \<open>C29: For a certificate, DANE is verified exactly when the resolver returned DNSSEC-validated
  records of which one matches (DANE-EE, with the association data the record's own selector and
  matching type ask for), and rejected exactly when validated records exist and none matches, or the
  resolver reports a DNSSEC failure; the matched record is reported exactly on success.\<close>

theorem dane_verify_exact:
  "(do_type (dane_verify sha sha5 u resolver f port (Some cert)) = DANEVerified \<longleftrightarrow>
      (\<exists>r. resolver f port = Inr r \<and> tlr_found r \<and> tlr_dnssec_valid r
         \<and> (\<exists>rec\<in>set (tlr_records r). tlsa_matches sha sha5 u cert rec)))
   \<and> (dane_is_reject (dane_verify sha sha5 u resolver f port (Some cert)) \<longleftrightarrow>
      (\<exists>r. resolver f port = Inr r \<and> tlr_found r \<and> tlr_dnssec_valid r
         \<and> \<not> (\<exists>rec\<in>set (tlr_records r). tlsa_matches sha sha5 u cert rec))
      \<or> (\<exists>d. resolver f port = Inl (ErrDANE d) \<and> dane_err_type d = DANEErrorDNSSECFailed))
   \<and> (do_matched (dane_verify sha sha5 u resolver f port (Some cert)) \<noteq> None \<longleftrightarrow>
      do_type (dane_verify sha sha5 u resolver f port (Some cert)) = DANEVerified)"
proof (intro conjI)
  have d: "do_type (dane_verify sha sha5 u resolver f port (Some cert)) = DANEDNSSECFailed \<longleftrightarrow>
      (\<exists>d. resolver f port = Inl (ErrDANE d) \<and> dane_err_type d = DANEErrorDNSSECFailed)"
    by (auto simp: dane_verify_def split: sum.splits option.splits dane_failure.splits)
  show "dane_is_reject (dane_verify sha sha5 u resolver f port (Some cert)) \<longleftrightarrow>
      (\<exists>r. resolver f port = Inr r \<and> tlr_found r \<and> tlr_dnssec_valid r
         \<and> \<not> (\<exists>rec\<in>set (tlr_records r). tlsa_matches sha sha5 u cert rec))
      \<or> (\<exists>d. resolver f port = Inl (ErrDANE d) \<and> dane_err_type d = DANEErrorDNSSECFailed)"
    unfolding dane_is_reject_def d dane_mismatch_iff by simp
qed (rule dane_verified_iff, rule dane_matched_iff)

text \<open>C33: What \<open>ToError\<close> hides. A verification that does not succeed is turned into no error at all exactly when it got as
  far as DANE and the validated records there are do not match the certificate: a badge fetched for the host vouches for it,
  no cached badge had decided before, and of the records the resolver found and validated none matches. This is so for server
  and for client certificates, under every failure policy; a caller that looks at the error alone takes such a certificate
  for a verified one.\<close>

theorem to_error_nil_exact:
  "(\<not> outcome_is_success (fst (server_verify env cfg f cert)) \<and> outcome_to_error (fst (server_verify env cfg f cert)) = None
      \<longleftrightarrow> cache_undecided env cfg f cert
        \<and> (\<exists>b. fetched env cfg f None b \<and> vouches_server (en_unicode env) b cert f)
        \<and> (\<exists>d r. vc_dane cfg = Some d \<and> d f default_dane_port = Inr r \<and> tlr_found r \<and> tlr_dnssec_valid r
             \<and> \<not> (\<exists>rec\<in>set (tlr_records r). tlsa_matches (en_sha256 env) (en_sha512 env) (en_unicode env) cert rec)))
   \<and> (\<not> outcome_is_success (fst (client_verify env cfg cert)) \<and> outcome_to_error (fst (client_verify env cfg cert)) = None
      \<longleftrightarrow> (\<exists>f name b. client_subject (en_unicode env) cert f name \<and> cached_badge_of env cfg f (Some (an_version name)) = None
        \<and> fetched env cfg f (Some (an_version name)) b \<and> vouches_client (en_unicode env) b cert f name
        \<and> (\<exists>d r. vc_dane cfg = Some d \<and> d f default_dane_port = Inr r \<and> tlr_found r \<and> tlr_dnssec_valid r
             \<and> \<not> (\<exists>rec\<in>set (tlr_records r). tlsa_matches (en_sha256 env) (en_sha512 env) (en_unicode env) cert rec))))"
  using server_verify_silent client_verify_silent unfolding silent_def dane_mismatch_at_def by blast

theorem to_error_nil_exact_witness:
  "let other = \<lparr>tlsa_usage = 3, tlsa_selector = 0, tlsa_matching = 1, tlsa_cert_hash = ''00''\<rparr>;
       cfg = sample_config\<lparr>vc_cache := None,
         vc_dane := Some (\<lambda>_ _. Inr \<lparr>tlr_found = True, tlr_records = [other], tlr_dnssec_valid = True\<rparr>)\<rparr>;
       out = fst (server_verify sample_env cfg (Fqdn ''a.io'') (cert_identity_from_x509 sample_hash sample_x509))
   in \<not> outcome_is_success out \<and> outcome_to_error out = None"
proof -
  let ?cert = "cert_identity_from_x509 sample_hash sample_x509"
  define other :: tlsa_record where "other = \<lparr>tlsa_usage = 3, tlsa_selector = 0, tlsa_matching = 1, tlsa_cert_hash = ''00''\<rparr>"
  define cfg where "cfg = sample_config\<lparr>vc_cache := None,
         vc_dane := Some (\<lambda>_ _. Inr \<lparr>tlr_found = True, tlr_records = [other], tlr_dnssec_valid = True\<rparr>)\<rparr>"
  have e: "en_sha256 sample_env = sample_hash" "en_sha512 sample_env = sample_hash" by (simp_all add: sample_env_def)
  have n: "\<not> tlsa_matches sample_hash sample_hash sample_unicode ?cert other"
    unfolding other_def by code_simp
  have "cache_undecided sample_env cfg (Fqdn ''a.io'') ?cert"
    by (simp add: cache_undecided_def cached_badge_of_def cfg_def)
  moreover have "fetched sample_env cfg (Fqdn ''a.io'') None vouching_badge"
    by (simp add: fetched_def resolve_record_def cfg_def)
  moreover have "\<exists>d r. vc_dane cfg = Some d \<and> d (Fqdn ''a.io'') default_dane_port = Inr r \<and> tlr_found r \<and> tlr_dnssec_valid r
      \<and> \<not> (\<exists>rec\<in>set (tlr_records r). tlsa_matches (en_sha256 sample_env) (en_sha512 sample_env) (en_unicode sample_env) ?cert rec)"
    using n by (simp add: cfg_def e)
  ultimately show ?thesis
    using to_error_nil_exact [of sample_env cfg "Fqdn ''a.io''" ?cert] sample_x509_vouched
    unfolding Let_def other_def [symmetric] cfg_def [symmetric] by auto
qed

text \<open>A DANE lookup that fails other than in DNSSEC stops nothing, whatever the failure policy: a certificate a fetched badge
  vouches for is verified as if no resolver were configured.\<close>

theorem dane_lookup_error_passes:
  assumes "cache_undecided env cfg f cert" "fetched env cfg f None b" "vouches_server (en_unicode env) b cert f"
    and "vc_dane cfg = Some d" "d f default_dane_port = Inl (ErrDANE e)" "dane_err_type e = DANEErrorLookupFailed"
  shows "dane_is_error (dane_verify (en_sha256 env) (en_sha512 env) (en_unicode env) d f default_dane_port (Some cert))
    \<and> vo_type (fst (server_verify env cfg f cert)) = OutcomeVerified"
proof
  show "dane_is_error (dane_verify (en_sha256 env) (en_sha512 env) (en_unicode env) d f default_dane_port (Some cert))"
    using assms(5,6) by (simp add: dane_is_error_def dane_verify_def)
  have b: "server_fetch_badge env cfg f = Inr b"
    using assms(2) by (simp add: server_fetch_badge_def fetch_badge_Inr_iff)
  have "vo_type (finish_with_dane env (cache_insert env f None b cfg) f cert (verified_with_warning b (ci_fingerprint cert)))
      = OutcomeVerified"
    using assms(4-6) by (simp add: finish_with_dane_def verify_dane_def dane_verify_def dane_is_reject_def dane_is_pass_def Let_def)
  then have "vo_type (fst (server_fresh env cfg f cert)) = OutcomeVerified"
    using b assms(3) by (simp add: server_fresh_eq Let_def server_verify_with_badge_ok)
  then show "vo_type (fst (server_verify env cfg f cert)) = OutcomeVerified"
    using assms(1) by (auto simp: server_verify_eq cache_undecided_def cached_badge_of_def Let_def
        server_verify_with_badge_def outcome_ctors split: option.splits)
qed

theorem dane_lookup_error_passes_witness:
  "let cfg = sample_config\<lparr>vc_cache := None,
         vc_dane := Some (\<lambda>_ _. Inl (ErrDANE \<lparr>dane_err_type = DANEErrorLookupFailed, dane_err_fqdn = []\<rparr>))\<rparr>
   in vo_type (fst (server_verify sample_env cfg (Fqdn ''a.io'') (cert_identity_from_x509 sample_hash sample_x509))) = OutcomeVerified
      \<and> vc_policy cfg = FailClosed"
proof -
  define cfg where "cfg = sample_config\<lparr>vc_cache := None,
         vc_dane := Some (\<lambda>_ _. Inl (ErrDANE \<lparr>dane_err_type = DANEErrorLookupFailed, dane_err_fqdn = []\<rparr>))\<rparr>"
  have "cache_undecided sample_env cfg (Fqdn ''a.io'') (cert_identity_from_x509 sample_hash sample_x509)"
    "fetched sample_env cfg (Fqdn ''a.io'') None vouching_badge" "vc_policy cfg = FailClosed"
    by (simp_all add: cache_undecided_def cached_badge_of_def fetched_def resolve_record_def cfg_def)
  with dane_lookup_error_passes [of sample_env cfg "Fqdn ''a.io''" "cert_identity_from_x509 sample_hash sample_x509" vouching_badge]
  show ?thesis unfolding Let_def cfg_def [symmetric] using sample_x509_vouched by (simp add: cfg_def)
qed

section \<open>Discovery\<close>

text \<open>The record chosen for a version is one the lookup returned, and has exactly that version, or
  has none while no record of that version exists; the preferred record is one of the records of which
  no other is strictly newer, a record without a version counting as older than any; so the preferred
  one is never older than the one chosen for a version. This holds of whatever order \<open>sort.Slice\<close>
  leaves equal records in.\<close>

theorem dns_record_choice:
  assumes "find_badge_for_version bk txt f v = Inr rec"
    and "sorts_by record_before sorter" "find_preferred_badge bk sorter txt f = Inr pref"
  shows "\<exists>res. lookup_ans_badge bk txt f = Inr res \<and> rec \<in> set (dlr_records res) \<and> pref \<in> set (dlr_records res)
       \<and> (br_version rec = Some v \<or> br_version rec = None \<and> Some v \<notin> br_version ` set (dlr_records res))
       \<and> \<not> (\<exists>x\<in>set (dlr_records res). record_before x pref) \<and> \<not> record_before rec pref"
  using std_resolver.for_version_sound [OF assms(1)] std_resolver.preferred_sound [OF assms(2,3)]
  by (auto simp: image_iff) metis+

theorem dns_record_choice_witness:
  "find_badge_for_version (\<lambda>_. True) sample_txt (Fqdn ''a.io'') (Version 1 0 0) = Inr (sample_rec (Some (Version 1 0 0)) ''a'')
   \<and> find_preferred_badge (\<lambda>_. True) sample_sorter sample_txt (Fqdn ''a.io'') = Inr (sample_rec (Some (Version 1 1 0)) ''b'')
   \<and> \<not> record_before (sample_rec (Some (Version 1 0 0)) ''a'') (sample_rec (Some (Version 1 1 0)) ''b'')"
  using dns_record_choice [OF sample_choice(1) sample_sorter_sorts sample_choice(2)] sample_choice by blast

text \<open>
  An address a badge may be fetched from: an https URL without user information, fragment, query or dot-dot path, on port
  443 of a host of the validator's allow-list, named by a TXT record of the host name.
\<close>

definition badge_address :: "'k verify_env \<Rightarrow> url_validator \<Rightarrow> txt_lookup \<Rightarrow> fqdn \<Rightarrow> string \<Rightarrow> bool" where
  "badge_address env v txt f url \<longleftrightarrow>
     (\<exists>res rec p. lookup_ans_badge (en_bracket_ok env) txt f = Inr res \<and> rec \<in> set (dlr_records res) \<and> url = br_url rec
        \<and> url_parse (en_bracket_ok env) url = Some p
        \<and> url_scheme p = ''https'' \<and> \<not> url_has_user p \<and> url_fragment p = [] \<and> url_raw_query p = []
        \<and> \<not> contains_sub (url_path p) ''..'' \<and> url_port p \<in> {[], ''443''}
        \<and> to_lower (en_unicode env) (url_hostname p) \<in> set (trusted_domains v))"

lemma fetch_badge_address:
  assumes v: "vc_url_validator cfg = Some v" and sorts: "sorts_by record_before sorter"
    and std: "en_preferred env = (\<lambda>f. map_sum id Some (find_preferred_badge (en_bracket_ok env) sorter txt f))"
      "en_for_version env = (\<lambda>f ver. map_sum id Some (find_badge_for_version (en_bracket_ok env) txt f ver))"
    and url: "url \<in> set (snd (fetch_badge_calls env cfg f ver))"
  shows "badge_address env v txt f url"
proof -
  obtain rec where r: "resolve_record env f ver = Inr (Some rec)" "url = br_url rec"
    "validate_url (en_unicode env) (en_bracket_ok env) v url = None"
    using fetch_badge_calls_url [OF url] v by blast
  have "find_preferred_badge (en_bracket_ok env) sorter txt f = Inr rec
      \<or> (\<exists>w. find_badge_for_version (en_bracket_ok env) txt f w = Inr rec)"
    using r(1) by (auto simp: resolve_record_def std split: option.splits)
      (auto simp: map_sum_def split: sum.splits)
  then obtain res where res: "lookup_ans_badge (en_bracket_ok env) txt f = Inr res" "rec \<in> set (dlr_records res)"
    using std_resolver.preferred_sound [OF sorts] std_resolver.for_version_sound by blast
  from lookup_ans_badge_safe [OF this] r res show ?thesis
    by (auto simp: badge_address_def validate_url_None_iff safe_record_url_def split: option.splits)
qed

text \<open>C28: With the standard resolver and a URL validator, which the default configuration has, every URL the verifiers hand
  to the log client - in the verification of a server certificate, in a prefetch and in the verification of a client
  certificate, and whatever comes of it - is an https URL without user information, fragment, query or dot-dot path, on port
  443 of a host of the allow-list, named by a TXT record of the host name that is verified. What the log client then does
  with the URL, such as following a redirect, is not part of this.\<close>

theorem badge_fetch_target:
  assumes "vc_url_validator cfg = Some v" "sorts_by record_before sorter"
    and "en_preferred env = (\<lambda>f. map_sum id Some (find_preferred_badge (en_bracket_ok env) sorter txt f))"
      "en_for_version env = (\<lambda>f ver. map_sum id Some (find_badge_for_version (en_bracket_ok env) txt f ver))"
  shows "(\<forall>url\<in>set (snd (server_verify_calls env cfg f cert)) \<union> set (snd (server_prefetch_calls env cfg f)).
            badge_address env v txt f url)
    \<and> (\<forall>url\<in>set (snd (client_verify_calls env cfg cert)).
            \<exists>g name. client_subject (en_unicode env) cert g name \<and> badge_address env v txt g url)"
proof
  show "\<forall>url\<in>set (snd (server_verify_calls env cfg f cert)) \<union> set (snd (server_prefetch_calls env cfg f)).
      badge_address env v txt f url"
    using server_calls_fetch [of env cfg f] fetch_badge_address [OF assms] by blast
  show "\<forall>url\<in>set (snd (client_verify_calls env cfg cert)).
      \<exists>g name. client_subject (en_unicode env) cert g name \<and> badge_address env v txt g url"
    using client_calls_fetch [of _ env cfg cert] fetch_badge_address [OF assms] by blast
qed

theorem badge_fetch_target_witness:
  "let env = sample_env\<lparr>en_preferred := (\<lambda>f. map_sum id Some (find_preferred_badge (\<lambda>_. True) sample_sorter sample_txt f)),
                         en_for_version := (\<lambda>f ver. map_sum id Some (find_badge_for_version (\<lambda>_. True) sample_txt f ver))\<rparr>
   in \<exists>url p. snd (server_prefetch_calls env (default_config sample_unicode) (Fqdn ''a.io'')) = [url]
        \<and> url_parse (\<lambda>_. True) url = Some p \<and> url_scheme p = ''https'' \<and> url_port p \<in> {[], ''443''}"
proof -
  define env where "env = sample_env\<lparr>en_preferred := (\<lambda>f. map_sum id Some (find_preferred_badge (\<lambda>_. True) sample_sorter sample_txt f)),
                         en_for_version := (\<lambda>f ver. map_sum id Some (find_badge_for_version (\<lambda>_. True) sample_txt f ver))\<rparr>"
  have b: "en_bracket_ok env = (\<lambda>_. True)" by (simp add: env_def sample_env_def)
  have e: "en_preferred env = (\<lambda>f. map_sum id Some (find_preferred_badge (en_bracket_ok env) sample_sorter sample_txt f))"
    "en_for_version env = (\<lambda>f ver. map_sum id Some (find_badge_for_version (en_bracket_ok env) sample_txt f ver))"
    unfolding b by (simp_all add: env_def)
  have c: "snd (server_prefetch_calls env (default_config sample_unicode) (Fqdn ''a.io''))
      = [br_url (sample_rec (Some (Version 1 1 0)) ''b'')]"
    by (simp add: server_prefetch_calls_def fetch_badge_calls_def env_def sample_choice validate_badge_url_def default_config_def
        sample_rec_def sample_url_valid sample_env_def)
  have v: "vc_url_validator (default_config sample_unicode) = Some (new_default_url_validator sample_unicode)"
    by (simp add: default_config_def)
  have "badge_address env (new_default_url_validator sample_unicode) sample_txt (Fqdn ''a.io'') (br_url (sample_rec (Some (Version 1 1 0)) ''b''))"
    using badge_fetch_target [OF v sample_sorter_sorts e, of "Fqdn ''a.io''"] c by auto
  then show ?thesis unfolding Let_def env_def [symmetric] c badge_address_def b by blast
qed

section \<open>Identifiers\<close>

text \<open>Versions print and parse back, with and without the leading v, over the whole range of
  their 32-bit components, and \<open>Compare\<close> is a total order that agrees with \<open>Equal\<close> and \<open>Less\<close>.\<close>

theorem version_roundtrip_and_order:
  "parse_version (version_string v) = Inr v
   \<and> parse_version (show_nat (unat a) @ ''.'' @ show_nat (unat b) @ ''.'' @ show_nat (unat c)) = Inr (Version a b c)
   \<and> (version_string v = version_string w \<longleftrightarrow> v = w)
   \<and> (compare_version v w = 0 \<longleftrightarrow> v = w) \<and> compare_version v w = - compare_version w v
   \<and> (version_less v w \<longleftrightarrow> v < w) \<and> (version_equal v w \<longleftrightarrow> v = w)"
  using compare_version_antisym [of v w] parse_version_plain [of a b c] by (auto simp: less_version_def)

text \<open>C39: A host name is accepted in one normal form: the accepted value is lower-case ASCII, its
  labels are valid and non-empty, it has no trailing dot, and it is accepted again unchanged.\<close>

theorem fqdn_normal_form:
  assumes "new_fqdn d = Inr f"
  shows "wf_fqdn f \<and> is_ascii (fqdn_value f) \<and> map ascii_lower (fqdn_value f) = fqdn_value f
       \<and> \<not> has_suffix (fqdn_value f) ''.'' \<and> new_fqdn (fqdn_value f) = Inr f
       \<and> list_all (\<lambda>l. check_label l = None) (split_on CHR ''.'' (fqdn_value f))"
  using new_fqdn_wf [OF assms]
  by (simp add: wf_fqdn_ascii wf_fqdn_lower wf_fqdn_no_trailing_dot new_fqdn_fixed list_all_iff wf_fqdn_label)

theorem fqdn_normal_form_witness:
  "new_fqdn ''Agent.Example.COM.'' = Inr (Fqdn ''agent.example.com'') \<and> new_fqdn ''agent.example.com'' = Inr (Fqdn ''agent.example.com'')"
proof -
  have n: "new_fqdn ''Agent.Example.COM.'' = Inr (Fqdn ''agent.example.com'')" by code_simp
  from fqdn_normal_form [OF n] n show ?thesis by simp
qed

text \<open>ANS names and fingerprints are read back from what they print: the URI of a version on a
  host parses to that version and the lowered host and keeps the text it came from, and a 32-byte
  fingerprint matches a text exactly when the text denotes it, so two fingerprints matching one text
  are equal.\<close>

theorem identity_roundtrip:
  assumes "fp_wf fp" "fp_matches fp' s" "fp_matches fp'' s"
  shows "parse_ans_name u (ans_uri v host) = Inr \<lparr>an_version = v, an_host = to_lower u host, an_raw = ans_uri v host\<rparr>
       \<and> parse_cert_fingerprint (fp_string fp) = Inr fp \<and> fp_matches fp (fp_string fp) \<and> fp' = fp''"
  using assms parse_ans_uri fp_matches_unique by (simp add: fp_matches_iff)

theorem identity_roundtrip_witness:
  "fp_matches (Cert_Fingerprint sample_fp) (fp_string (Cert_Fingerprint sample_fp))
   \<and> parse_ans_name sample_unicode (ans_uri (Version 1 2 3) ''Host'')
       = Inr \<lparr>an_version = Version 1 2 3, an_host = ''host'', an_raw = ''ans://v1.2.3.Host''\<rparr>"
proof -
  have m: "fp_matches (Cert_Fingerprint sample_fp) (server_cert_fingerprint vouching_badge)" by simp
  have "fp_wf (Cert_Fingerprint sample_fp)" by (simp add: fp_wf_def)
  moreover have "to_lower sample_unicode ''Host'' = ''host''" "ans_uri (Version 1 2 3) ''Host'' = ''ans://v1.2.3.Host''"
    by code_simp+
  ultimately show ?thesis
    using identity_roundtrip [OF _ m m, of "Cert_Fingerprint sample_fp" sample_unicode "Version 1 2 3" "''Host''"]
    by simp
qed

section \<open>Proof of possession\<close>

text \<open>C7: A handler behind the middleware runs only for an authenticated caller. The proof in the
  request's one DPoP header is signed by the key of the certificate it carries, at an instant the
  certificate is valid, for this method, this URL's normal form and this body, within the freshness
  window, and it names the hash of the access token the request presents, or none. The certificate is
  one the status token lists, its ANS name is the token's, the token is signed by a trusted root key,
  neither expired nor of a terminal status, the receipt, when required, verifies and its leaf names the
  same agent, and the name is among the expected ones. The handler sees exactly the verified body and
  the token's identity. This is for a middleware whose caller options add no verification options of their own, which
  could replace the ones the middleware derives from the request.\<close>

theorem middleware_sound:
  fixes L :: "'k caller_lib"
  assumes "serve L m handler r now s = (Inr x, s')"
    and "cfg = resolve_caller_options (mc_caller_opts (mw_cfg m))" "cc_verify_opts cfg = []"
  shows "\<exists>hdrs (pr :: 'k proof_result) q st cose tk.
    list_all (\<lambda>h. length (header_values (rq_header r) h) \<le> 1) security_headers
    \<and> extract_headers (rq_header r) = Inr hdrs
    \<and> parts_of (cl_jose L) (header_get (rq_header r) dpop_header) q
    \<and> jl_x509 (cl_jose L) (pp_der q) = Some (pr_cert pr, PK_P256 (pr_key pr)) \<and> signed_proof (cl_jose L) (pr_key pr) q
    \<and> x_not_before (pr_cert pr) \<le> now \<and> now \<le> x_not_after (pr_cert pr)
    \<and> match_jwk_to_cert (cl_jose L) (pp_jwk q) (pr_key pr) = None
    \<and> dp_htm (pp_payload q) = rq_method r
    \<and> normalize_htu (cl_jose L) (mc_external (mw_cfg m) r) = Inr (dp_htu (pp_payload q))
    \<and> fresh_iat (dp_iat (pp_payload q)) now (effective_skew (cc_pop_skew cfg))
    \<and> url_decode (dp_content_digest (pp_payload q)) = Some (sha_of (cl_jose L) (hb_bytes (rq_body r)))
    \<and> int (length (hb_bytes (rq_body r))) \<le> mc_max_content (mw_cfg m)
    \<and> dp_ath (pp_payload q) = (case presented_token L r of Some tok \<Rightarrow> access_token_hash (cl_jose L) tok | None \<Rightarrow> [])
    \<and> parse_cose_sign1 (cl_cbor L) (sh_status_token hdrs) = Inr cose
    \<and> mw_keys m (ph_kid (pc_protected cose)) = Inr tk \<and> signed_by (cl_cbor L) (cl_crypto L) (tk_key tk) cose
    \<and> decode_status_payload (cl_unicode L) (cl_cbor L) (pc_payload cose) = Inr st
    \<and> \<not> token_expired (unix_seconds now) (sp_exp st) (cc_status_skew cfg) \<and> \<not> status_is_terminal (sp_status st)
    \<and> (if cc_require_receipt cfg
       then \<exists>rcpt. verify_receipt (cl_cbor L) (cl_crypto L) (mw_keys m) (sh_receipt hdrs) = Inr rcpt
          \<and> bound_to L (pr_cert pr) (sha_of (cl_jose L) (x_raw (pr_cert pr))) st (Some rcpt)
       else bound_to L (pr_cert pr) (sha_of (cl_jose L) (x_raw (pr_cert pr))) st None)
    \<and> pin_allows L cfg (sp_ans_name st)
    \<and> x = handler (r\<lparr>rq_body := \<lparr>hb_bytes = hb_bytes (rq_body r), hb_broken = False\<rparr>,
        rq_caller := Some \<lparr>id_ans_name = sp_ans_name st, id_agent_id = sp_agent_id st,
          id_fingerprint = sha_of (cl_jose L) (x_raw (pr_cert pr)), id_jkt = jwk_thumbprint (cl_jose L) (pr_key pr)\<rparr>\<rparr>)" (is "\<exists>hdrs pr q st cose tk. ?P hdrs pr q st cose tk")
proof -
  obtain hdrs pr q vt where e: "extract_headers (rq_header r) = Inr hdrs" "preflight L (mw_cfg m) r = None"
    "proof_accepted (cl_jose L) (header_get (rq_header r) dpop_header) (rq_method r) (mc_external (mw_cfg m) r) now
       (effective_skew (cc_pop_skew cfg)) (caller_opts (request_config L (mw_cfg m) r)) pr q"
    "dp_ath (pp_payload q) = (case presented_token L r of Some tok \<Rightarrow> access_token_hash (cl_jose L) tok | None \<Rightarrow> [])"
    "url_decode (dp_content_digest (pp_payload q)) = Some (sha_of (cl_jose L) (hb_bytes (rq_body r)))"
    "int (length (hb_bytes (rq_body r))) \<le> mc_max_content (mw_cfg m)"
    and vt: "verify_status_token_at (cl_unicode L) (cl_cbor L) (cl_crypto L) (mw_keys m) (sh_status_token hdrs)
       (cc_status_skew cfg) (unix_seconds now) = Inr vt"
    and rest: "if cc_require_receipt cfg
     then \<exists>rcpt. verify_receipt (cl_cbor L) (cl_crypto L) (mw_keys m) (sh_receipt hdrs) = Inr rcpt
        \<and> bound_to L (pr_cert pr) (sha_of (cl_jose L) (x_raw (pr_cert pr))) (vt_payload vt) (Some rcpt)
     else bound_to L (pr_cert pr) (sha_of (cl_jose L) (x_raw (pr_cert pr))) (vt_payload vt) None"
    "pin_allows L cfg (sp_ans_name (vt_payload vt))"
    "x = handler (r\<lparr>rq_body := \<lparr>hb_bytes = hb_bytes (rq_body r), hb_broken = False\<rparr>,
        rq_caller := Some \<lparr>id_ans_name = sp_ans_name (vt_payload vt), id_agent_id = sp_agent_id (vt_payload vt),
          id_fingerprint = sha_of (cl_jose L) (x_raw (pr_cert pr)), id_jkt = jwk_thumbprint (cl_jose L) (pr_key pr)\<rparr>\<rparr>)"
    using serve_evidence [OF assms] by metis
  from vt obtain cose tk where tok: "parse_cose_sign1 (cl_cbor L) (sh_status_token hdrs) = Inr cose"
    "mw_keys m (ph_kid (pc_protected cose)) = Inr tk" "signed_by (cl_cbor L) (cl_crypto L) (tk_key tk) cose"
    "decode_status_payload (cl_unicode L) (cl_cbor L) (pc_payload cose) = Inr (vt_payload vt)"
    "\<not> token_expired (unix_seconds now) (sp_exp (vt_payload vt)) (cc_status_skew cfg)"
    "\<not> status_is_terminal (sp_status (vt_payload vt))"
    by (auto simp: verify_status_token_Inr)
  have "list_all (\<lambda>h. length (header_values (rq_header r) h) \<le> 1) security_headers"
    using e(2) by (simp add: preflight_None list_all_iff)
  then have "?P hdrs pr q (vt_payload vt) cose tk"
    using e(1,3-6) tok rest by (simp add: proof_accepted_def)
  then show ?thesis by blast
qed

theorem middleware_sound_witness:
  "\<exists>x s' q. serve pop_lib (pop_mw 0) rq_caller pop_request 900000000000 (new_replay_cache 0) = (Inr x, s')
     \<and> dp_htm (pp_payload q) = ''POST'' \<and> parts_of pop_jose (header_get (rq_header pop_request) dpop_header) q"
proof -
  obtain s' where "authenticate pop_lib (pop_mw 0) pop_request 900000000000 (new_replay_cache 0)
      = (Inr (pop_identity, ''body''), s')"
    using pop_authenticated by blast
  then have s: "serve pop_lib (pop_mw 0) rq_caller pop_request 900000000000 (new_replay_cache 0)
      = (Inr (Some pop_identity), s')"
    by (simp add: serve_def context_with_caller_def)
  have "cc_verify_opts (resolve_caller_options (mc_caller_opts (mw_cfg (pop_mw 0)))) = []"
    by (simp add: pop_default_config)
  from middleware_sound [OF s refl this] obtain q where "dp_htm (pp_payload q) = rq_method pop_request"
    "parts_of pop_jose (header_get (rq_header pop_request) dpop_header) q" by auto
  with s show ?thesis by (auto simp: pop_request_def)
qed

text \<open>C8: A proof is good for one request, up to the five-second grace. Once a middleware over the in-memory replay
  cache has let a request through, a later request with the same DPoP header is rejected - whatever its method,
  URL, body and SCITT headers, whatever checks and sweeps the cache made in between and in whatever
  order it visits its buckets - provided the cache reads its clock less than five seconds after the verifier read its own.
  The verifier's is read before the body is, the cache's after it, so a body that takes longer to arrive is outside the
  statement, and \<open>proof_replay_gap\<close> shows that it has to be.\<close>

theorem proof_single_use:
  assumes "replay_ok c" "visits_all iter'" "mw_replay m = check_and_store iter tc"
    and "mw_replay m' = check_and_store iter' tc'" "mw_cfg m' = mw_cfg m"
    and "authenticate L m r now c = (Inr x, c1)"
    and "effective_skew (cc_pop_skew (resolve_caller_options (mc_caller_opts (mw_cfg m)))) + replay_grace < 2 ^ 63"
    and "memory_replay.before tc' ops" "tc' < now' + replay_grace"
    and "header_get (rq_header r') dpop_header = header_get (rq_header r) dpop_header"
  shows "\<exists>e. fst (authenticate L m' r' now' (memory_replay.run ops c1)) = Inl e"
  using assms by (rule authenticate_replayed)

theorem proof_single_use_witness:
  "\<exists>s' e. authenticate pop_lib (pop_mw 0) pop_request 900000000000 (new_replay_cache 0) = (Inr (pop_identity, ''body''), s')
     \<and> fst (authenticate pop_lib (pop_mw 901000000000) pop_request 901000000000 s') = Inl e"
proof -
  obtain s' where s: "authenticate pop_lib (pop_mw 0) pop_request 900000000000 (new_replay_cache 0)
      = (Inr (pop_identity, ''body''), s')"
    using pop_authenticated by blast
  have i: "visits_all (\<lambda>x :: int list. x)" by (simp add: visits_all_def)
  have k: "effective_skew (cc_pop_skew (resolve_caller_options (mc_caller_opts (mw_cfg (pop_mw 0))))) + replay_grace < 2 ^ 63"
    by (simp add: pop_default_config effective_skew_def default_pop_skew_def replay_grace_def)
  have "memory_replay.before 901000000000 []" by (simp add: memory_replay.before_def)
  with proof_single_use [OF new_replay_ok i pop_mw_simps(3) pop_mw_simps(3) _ s k, where ops = "[]" and now' = 901000000000
      and tc' = 901000000000 and r' = pop_request]
  show ?thesis using s by (auto simp: replay_grace_def)
qed

lemma check_room:
  assumes "replay_ok c" "visits_all iter" "\<not> live now c k" "replay_len c < replay_cap c"
  shows "fst (check_and_store iter now k e c) = Inr False"
proof -
  have "\<not> live now (evict_expired iter now c) k" using evict_keeps_live [OF assms(1,2), of now now k] assms(3) by simp
  moreover have "length (rp_index (stored now k (evict_expired iter now c))) < rp_max c"
    using stored_len [of now k "evict_expired iter now c"] evict_ids_len [of now "iter (map fst (rp_buckets c))" c] assms(4)
    by (simp add: evict_expired_def replay_len_def replay_cap_def)
  ultimately show ?thesis by (simp add: check_and_store_eq Let_def)
qed

lemma accepted_expiry:
  assumes "verify_proof_unrecorded J gone jws meth url now skew v = Inr pr" "effective_skew skew + replay_grace < 2 ^ 63"
  shows "pr_replay_exp pr \<le> now + 2 * effective_skew skew + replay_grace"
proof -
  have s: "0 \<le> effective_skew skew" by (simp add: effective_skew_def default_pop_skew_def)
  have "dur_add (effective_skew skew) replay_grace = effective_skew skew + replay_grace"
    using s assms(2) by (intro dur_add_small) (simp_all add: replay_grace_def)
  moreover have "\<bar>now - unix_time t\<bar> \<le> effective_skew skew" if "fresh_iat t now (effective_skew skew)" for t
    using that assms(2) by (simp add: fresh_iat_def sub_time_abs replay_grace_def)
  ultimately show ?thesis
    using assms(1) unfolding verify_proof_unrecorded_Inr proof_accepted_def by fastforce
qed

text \<open>The grace does not close the gap at the end of the window: when the cache reads its clock long enough after the
  verifier has, the entry of the proof has expired and the identical request is let through again, with the same
  identity. A body that arrives slowly does this, for it is read between the two.\<close>

theorem proof_replay_gap:
  assumes "replay_ok c" "visits_all iter" "visits_all iter'" "mw_replay m = check_and_store iter tc"
    and "mw_replay m' = check_and_store iter' tc'" "mw_cfg m' = mw_cfg m" "mw_keys m' = mw_keys m"
    and "authenticate L m r now c = (Inr x, c1)" "replay_len c1 < replay_cap c1"
    and "effective_skew (cc_pop_skew (resolve_caller_options (mc_caller_opts (mw_cfg m)))) + replay_grace < 2 ^ 63"
    and "now + 2 * effective_skew (cc_pop_skew (resolve_caller_options (mc_caller_opts (mw_cfg m)))) + replay_grace \<le> tc'"
  shows "\<exists>c2. authenticate L m' r now c1 = (Inr x, c2)"
proof (cases x)
  case (Pair ident content)
  let ?cfg = "request_config L (mw_cfg m) r"
  obtain hdrs where h: "extract_headers (rq_header r) = Inr hdrs" "preflight L (mw_cfg m) r = None"
    "content = hb_bytes (rq_body r)"
    "verify_caller_with L ?cfg (rq_gone r) (header_get (rq_header r) dpop_header) (Some hdrs) (rq_method r)
       (mc_external (mw_cfg m) r) (Some (mw_keys m)) (Some (check_and_store iter tc)) now c = (Inr ident, c1)"
    using assms(8) unfolding Pair authenticate_Inr assms(4) by blast
  obtain pr st rcpt where e: "caller_preconditions ?cfg (rq_gone r) (header_get (rq_header r) dpop_header) (Some hdrs)
      (Some (mw_keys m)) (Some (check_and_store iter tc)) = None"
    "caller_evidence L ?cfg (header_get (rq_header r) dpop_header) hdrs (rq_method r) (mc_external (mw_cfg m) r) (mw_keys m)
       now pr st rcpt" "ident = identity_of pr st"
    "check_content (cl_jose L) pr (vo_content (caller_opts ?cfg)) = None"
    "check_and_store iter tc (replay_key (cl_jose L) pr) (pr_replay_exp pr) c = (Inr False, c1)"
    using h(4) unfolding verify_caller_with_Inr by blast
  have "map_of (rp_index c1) (replay_key (cl_jose L) pr) = Some (pr_replay_exp pr)"
    using check_records [of iter tc "replay_key (cl_jose L) pr" "pr_replay_exp pr" c] e(5) by simp
  moreover have "pr_replay_exp pr \<le> tc'"
    using e(2) accepted_expiry [of "cl_jose L" False "header_get (rq_header r) dpop_header" "rq_method r"
        "mc_external (mw_cfg m) r" now "cc_pop_skew ?cfg" "caller_opts ?cfg" pr] assms(10,11)
    by (simp add: caller_evidence_def request_config_fields)
  ultimately have "\<not> live tc' c1 (replay_key (cl_jose L) pr)" by (simp add: live_def)
  moreover have "replay_ok c1" using check_ok [OF assms(1), of iter tc "replay_key (cl_jose L) pr" "pr_replay_exp pr"] e(5) by simp
  ultimately obtain c2 where "check_and_store iter' tc' (replay_key (cl_jose L) pr) (pr_replay_exp pr) c1 = (Inr False, c2)"
    using check_room [OF _ assms(3) _ assms(9)] by (metis prod.collapse)
  moreover have "caller_preconditions ?cfg (rq_gone r) (header_get (rq_header r) dpop_header) (Some hdrs)
      (Some (mw_keys m)) (Some (check_and_store iter' tc')) = None" using e(1) by (simp add: caller_preconditions_None)
  ultimately have "verify_caller_with L ?cfg (rq_gone r) (header_get (rq_header r) dpop_header) (Some hdrs) (rq_method r)
       (mc_external (mw_cfg m) r) (Some (mw_keys m)) (Some (check_and_store iter' tc')) now c1 = (Inr ident, c2)"
    unfolding verify_caller_with_Inr using e(2-4) by blast
  then show ?thesis using h(1-3) unfolding Pair authenticate_Inr assms(5-7) by blast
qed

theorem proof_replay_gap_witness:
  "\<exists>s1 s2. authenticate pop_lib (pop_mw 0) pop_request 900000000000 (new_replay_cache 0) = (Inr (pop_identity, ''body''), s1)
     \<and> authenticate pop_lib (pop_mw 1145000000000) pop_request 900000000000 s1 = (Inr (pop_identity, ''body''), s2)"
proof -
  obtain s1 where s: "authenticate pop_lib (pop_mw 0) pop_request 900000000000 (new_replay_cache 0)
      = (Inr (pop_identity, ''body''), s1)"
    using pop_authenticated by blast
  have i: "visits_all (\<lambda>x :: int list. x)" by (simp add: visits_all_def)
  have k: "effective_skew default_pop_skew = 120000000000" by (simp add: effective_skew_def default_pop_skew_def)
  obtain q e where q: "check_and_store (\<lambda>x. x) 0 q e (new_replay_cache 0) = (Inr False, s1)"
    using authenticate_evidence [OF s] by auto
  have r: "replay_len s1 < replay_cap s1"
    using q by (auto simp: check_and_store_def evict_expired_def new_replay_cache_def default_replay_max_entries_def
        replay_len_def replay_cap_def add_locked_def Let_def)
  have g: "replay_grace = 5000000000" by (simp add: replay_grace_def)
  show ?thesis
    using s proof_replay_gap [OF new_replay_ok i i pop_mw_simps(3) pop_mw_simps(3) _ _ s r, of 1145000000000]
    by (simp add: k g pop_default_config)
qed

text \<open>C9: Authentication works end to end. A request that a caller decorates with its identity - any
  method, URL and body, bound to the access token it carries if there is one - is authenticated by a
  middleware that receives it with the same method and body, the same values of the headers the middleware reads
  (others may have been added on the way), under a URL of the same normal form and a trusted authority, at an instant the certificate is valid and the proof fresh, when the
  log vouches for the certificate and the random jti is new to the replay cache: the handler then gets
  the token's agent and the caller's body. The hypotheses on the libraries are that JSON decoding
  undoes encoding on ASCII values, that ECDSA signatures verify, and the sizes of coordinates and
  digests.\<close>

theorem attach_then_authenticate:
  assumes "json_inverse (cl_jose L) S" "ecdsa_correct (cl_jose L) S" "coords_fit (cl_jose L)" "sha_fits (cl_jose L)"
    and "new_signer (cl_jose L) S key der = Inr sg" "jl_x509 (cl_jose L) der = Some (cert, pub)"
    and "undecorated (oq_header req)" "is_ascii (oq_method req)"
      "\<And>htu. normalize_htu (cl_jose L) (oq_url req) = Inr htu \<Longrightarrow> is_ascii htu" "\<not> oq_gone req"
    and "receipt \<noteq> []" "token \<noteq> []" "length receipt \<le> 1048576" "length token \<le> 1048576"
    and "attach_identity (cl_jose L) (cl_unicode L) S req (Some sg) (scitt_pairs receipt token) iat (Some b) = (None, req')"
      "length b = 16"
    and "length (header_get (oq_header req') dpop_header) \<le> max_proof_size"
    and "delivered L (mw_cfg m) req' r"
    and "mw_ok m" "cfg = resolve_caller_options (mc_caller_opts (mw_cfg m))" "cc_verify_opts cfg = []"
    and "x_not_before cert \<le> now" "now \<le> x_not_after cert" "fresh_iat iat now (effective_skew (cc_pop_skew cfg))"
    and "log_vouches L (mw_keys m) cfg \<lparr>sh_receipt = receipt, sh_status_token = token\<rparr> now cert st"
      "pin_allows L cfg (sp_ans_name st)"
    and "\<And>e. fst (mw_replay m (url_encode (sha_of (cl_jose L) (hex_encode b))) e s) = Inr False"
  shows "\<exists>jkt s'. authenticate L m r now s =
    (Inr (\<lparr>id_ans_name = sp_ans_name st, id_agent_id = sp_agent_id st,
           id_fingerprint = sha_of (cl_jose L) (x_raw cert), id_jkt = jkt\<rparr>, hb_bytes (body_of (oq_body req))), s')
    \<and> signer_jkt (cl_jose L) S sg = Some jkt"
proof -
  obtain k where sg: "signer_ok (cl_jose L) S cert k sg"
    using new_signer_ok [OF assms(5)] assms(6) by (auto simp: signer_ok_def)
  then have "signer_jkt (cl_jose L) S sg = Some (jwk_thumbprint (cl_jose L) k)"
    by (simp add: signer_jkt_def signer_ok_def)
  then show ?thesis
    using attach_then_authenticate_lemma [OF assms(1-4) sg assms(7-27)] by blast
qed

theorem attach_then_authenticate_witness:
  "\<exists>jkt s'. authenticate pop_lib (pop_mw 0) pop_request 900000000000 (new_replay_cache 0) =
    (Inr (\<lparr>id_ans_name = ''ans://v1.0.0.a.io'', id_agent_id = ''agent-1'', id_fingerprint = sample_fp, id_jkt = jkt\<rparr>, ''body''), s')"
proof -
  have o: "is_ascii (oq_method pop_out)" "\<And>htu. normalize_htu (cl_jose pop_lib) (oq_url pop_out) = Inr htu \<Longrightarrow> is_ascii htu"
    "\<not> oq_gone pop_out" "length (header_get (oq_header pop_decorated) dpop_header) \<le> max_proof_size"
    using pop_jws_size by (auto simp: pop_out_def pop_htu pop_decorated_dpop is_ascii_def byte_val_def)
  have n: "fst (mw_replay (pop_mw 0) (url_encode (sha_of (cl_jose pop_lib) (hex_encode pop_rand))) e (new_replay_cache 0))
      = Inr False" for e
    by (simp add: pop_fresh_jti)
  have "\<exists>jkt s'. authenticate pop_lib (pop_mw 0) pop_request 900000000000 (new_replay_cache 0) =
    (Inr (\<lparr>id_ans_name = sp_ans_name (vt_payload sample_token), id_agent_id = sp_agent_id (vt_payload sample_token),
       id_fingerprint = sha_of (cl_jose pop_lib) (x_raw pop_cert), id_jkt = jkt\<rparr>, hb_bytes (body_of (oq_body pop_out))), s')
    \<and> signer_jkt (cl_jose pop_lib) pop_sign pop_signer = Some jkt"
    by (rule attach_then_authenticate [where key = "Some ()" and der = "''der''" and pub = "PK_P256 7" and receipt = "''receipt''"
          and token = "''token''" and iat = 880 and b = pop_rand and req' = pop_decorated and cfg = default_caller_config])
      (use o n pop_laws pop_new_signer pop_undecorated pop_attached pop_arrives pop_mw_ok pop_iat_fresh pop_vouched in
        \<open>simp_all add: pop_cert_def pop_rand_def pop_default_config pin_allows_def\<close>)
  moreover have "x_raw pop_cert = sample_fp" by (simp add: pop_cert_def)
  ultimately show ?thesis
    by (auto simp: sample_token_def sample_fp_hash pop_out_def body_of_def)
qed

text \<open>C34: The replay cache keeps within its capacity and fails closed. After any run of checks and sweeps from
  an empty cache its index and buckets agree and it holds at most its maximum of entries; a check says
  "seen" exactly for an entry that has not expired, forgets no entry before its expiry, and reports
  "full" only when the maximum is reached, recording nothing.\<close>

theorem replay_cache_bounded:
  assumes "c = memory_replay.run ops (new_replay_cache n)" "visits_all iter"
  shows "replay_ok c \<and> replay_len c \<le> replay_cap c \<and> replay_cap c = (if n \<le> 0 then 100000 else nat n)
    \<and> (fst (check_and_store iter now k e c) = Inr True \<longleftrightarrow> live now c k)
    \<and> (\<forall>t k'. now \<le> t \<longrightarrow> live t c k' \<longrightarrow> live t (snd (check_and_store iter now k e c)) k')
    \<and> (fst (check_and_store iter now k e c) = Inl Replay_Full \<longrightarrow>
         replay_cap c \<le> replay_len (snd (check_and_store iter now k e c)) \<and> \<not> live now (snd (check_and_store iter now k e c)) k)"
proof -
  have ok: "replay_ok c" using assms(1) by (simp add: memory_replay.run_ok)
  have b0: "length (rp_index (new_replay_cache n)) \<le> rp_max (new_replay_cache n)"
    by (simp add: new_replay_cache_def)
  have b: "length (rp_index c) \<le> rp_max c" "rp_max c = rp_max (new_replay_cache n)"
    using memory_run_bounded [OF new_replay_ok b0, of ops] assms(1) by simp_all
  have m: "rp_max c = (if n \<le> 0 then 100000 else nat n)"
    unfolding b(2) by (simp add: new_replay_cache_def default_replay_max_entries_def)
  show ?thesis
    using ok b(1) m check_seen [OF ok assms(2), of now k e] check_keeps [OF ok assms(2), of now _ _ k e]
      check_full [of iter now k e c]
    by (simp add: replay_len_def replay_cap_def live_def)
qed

theorem replay_cache_bounded_witness:
  "fst (check_and_store (\<lambda>x. x) 1 ''a'' 9 (memory_replay.run [Replay_Check (\<lambda>x. x) 0 ''a'' 5] (new_replay_cache 1))) = Inr True
   \<and> fst (check_and_store (\<lambda>x. x) 1 ''b'' 9 (memory_replay.run [Replay_Check (\<lambda>x. x) 0 ''a'' 5] (new_replay_cache 1))) = Inl Replay_Full"
proof -
  let ?c = "memory_replay.run [Replay_Check (\<lambda>x. x) 0 ''a'' 5] (new_replay_cache 1)"
  have i: "visits_all (\<lambda>x :: int list. x)" by (simp add: visits_all_def)
  have c: "?c = \<lparr>rp_index = [(''a'', 5)], rp_buckets = [(0, [''a''])], rp_max = 1\<rparr>"
    by (simp add: check_and_store_def evict_expired_def new_replay_cache_def add_locked_def bucket_of_def bucket_width_def
        bucket_keys_def signed_divide_int_def)
  have "live 1 ?c ''a''" unfolding c by (simp add: live_def)
  then have "fst (check_and_store (\<lambda>x. x) 1 ''a'' 9 ?c) = Inr True"
    using replay_cache_bounded [OF refl i, where now = 1 and k = "''a''" and e = 9
        and ops = "[Replay_Check (\<lambda>x. x) 0 ''a'' 5]" and n = 1] by blast
  then show ?thesis
    unfolding c by (simp add: check_and_store_def evict_expired_def bucket_width_def)
qed

text \<open>An unvouched request cannot use up the replay cache: whenever authentication fails for any
  reason but the cache's own answer, the cache is left as it was. In particular this holds for every
  request whose proof, token, receipt or binding is not accepted, and for one whose body does not
  match.\<close>

theorem rejection_keeps_replay_cache:
  fixes L :: "'k caller_lib"
  assumes "verify_caller L gone jws h method raw_url keys replay opts now s = (Inl e, s')"
    and "\<not> (\<exists>hs ks (pr :: 'k proof_result) st rcpt. h = Some hs \<and> keys = Some ks
          \<and> caller_evidence L (resolve_caller_options opts) jws hs method raw_url ks now pr st rcpt
          \<and> check_content (cl_jose L) pr (vo_content (caller_opts (resolve_caller_options opts))) = None)
        \<or> pe_type e \<notin> {ErrReplay, ErrReplayCacheFull}"
  shows "s' = s"
  using assms unfolding verify_caller_def by (rule verify_caller_with_rejected)

theorem rejection_keeps_replay_cache_witness:
  "verify_caller pop_lib False [] None ''POST'' ''https://a.io/x'' (Some (key_store_get sample_keys))
     (Some (check_and_store (\<lambda>x. x) 0)) [] 0 (new_replay_cache 0) = (Inl (new_err ErrMissingHeaders), new_replay_cache 0)"
proof -
  let ?v = "verify_caller pop_lib False [] None ''POST'' ''https://a.io/x'' (Some (key_store_get sample_keys))
     (Some (check_and_store (\<lambda>x. x) 0)) [] 0 (new_replay_cache 0)"
  have f: "fst ?v = Inl (new_err ErrMissingHeaders)"
    by (simp add: verify_caller_def verify_caller_with_def caller_preconditions_def pop_default_config misconfiguration_def)
      (simp add: default_caller_config_def)
  then have "?v = (Inl (new_err ErrMissingHeaders), snd ?v)" by (metis prod.collapse)
  from rejection_keeps_replay_cache [OF this] f show ?thesis by (simp add: prod_eq_iff)
qed

text \<open>A middleware exists only in a safe configuration: construction succeeds exactly when keys and
  replay cache are present, every option applied, every pinned name parsed and no allow-list was
  empty, and either a URL function that depends on the path was given or at least one trusted host.
  The client-controlled Host header is then never used for the URL unless the allowlist holds it.\<close>

theorem middleware_construction:
  "(new_middleware keys replay opts = Inr m \<longleftrightarrow>
      keys = Some (mw_keys m) \<and> replay = Some (mw_replay m)
      \<and> apply_middleware_options opts default_middleware_config = Inr (mw_cfg m)
      \<and> cc_pin_err (resolve_caller_options (mc_caller_opts (mw_cfg m))) = None
      \<and> (if mc_external_set (mw_cfg m)
         then mc_external (mw_cfg m) (probe_request ''/pop-probe-a'') \<noteq> mc_external (mw_cfg m) (probe_request ''/pop-probe-b'')
         else mc_trusted (mw_cfg m) \<noteq> []))
   \<and> (new_middleware keys replay opts = Inr m \<longrightarrow> \<not> mc_external_set (mw_cfg m) \<longrightarrow>
      fst (authenticate L m r now s) = Inr y \<longrightarrow>
      trusted_authority_key (cl_unicode L) (request_scheme r) (rq_host r) \<in> set (mc_trusted (mw_cfg m)))"
proof -
  have "trusted_authority_key (cl_unicode L) (request_scheme r) (rq_host r) \<in> set (mc_trusted (mw_cfg m))"
    if ok: "mw_ok m" "\<not> mc_external_set (mw_cfg m)" and auth: "fst (authenticate L m r now s) = Inr y"
  proof -
    obtain ident content s' where "authenticate L m r now s = (Inr (ident, content), s')"
      using auth by (metis prod.collapse)
    then have "check_authority L (mw_cfg m) r = None" by (auto simp: authenticate_Inr preflight_None)
    with ok show ?thesis by (simp add: check_authority_None authority_trusted_def mw_ok_def)
  qed
  then show ?thesis by (auto simp: new_middleware_Inr mw_ok_def probe_external_url_def)
qed

theorem middleware_construction_witness:
  "\<exists>s'. authenticate pop_lib (pop_mw 0) pop_request 900000000000 (new_replay_cache 0) = (Inr (pop_identity, ''body''), s')
    \<and> trusted_authority_key sample_unicode (request_scheme pop_request) (rq_host pop_request) \<in> {''http://a.io'', ''https://a.io''}"
proof -
  obtain s' where s: "authenticate pop_lib (pop_mw 0) pop_request 900000000000 (new_replay_cache 0) = (Inr (pop_identity, ''body''), s')"
    using pop_authenticated by blast
  with middleware_construction [of "Some (key_store_get sample_keys)" "Some (check_and_store (\<lambda>x. x) 0)"
      "[with_trusted_hosts sample_unicode [''a.io'']]" "pop_mw 0" pop_lib pop_request 900000000000 "new_replay_cache 0"
      "(pop_identity, ''body'')"] pop_middleware [of 0]
  show ?thesis by simp
qed

section \<open>The agent-to-agent example\<close>

text \<open>C10: With libraries whose calls succeed and files that can be written and read, the callee of the agent-to-agent
  example provisions the credentials, saves them and starts, and the caller can build its identity and sign. Over any
  connection that delivers the headers the callee reads, whatever others the transport adds, the caller then succeeds in
  every one of its modes, even if it has looked for the credentials in vain up to forty-nine times: it gets 200 for a
  signed request, 200 then 401 for a request sent twice, 401 without identity, 200 with an access token of its own and
  403 with one bound to a foreign key. The conditions left are on sizes and values the libraries choose: the artifacts
  and the proof fit their headers, the certificate's hash is not zero, the caller's key is not the made-up victim's; and
  the clocks are within the hour of provisioning.\<close>

theorem demo_run_outcomes:
  assumes "agent_laws L S D" "bundle_codec_ok D" "kit_works L S D rand clock"
    and "\<forall>u. url_parse (jl_bracket (cl_jose L)) demo_ans_name = Some u \<longrightarrow> dl_url_text D u = demo_ans_name"
    and "inj_on (dl_join D dir) bundle_names"
      "\<forall>f\<in>bundle_names. file_works io (dl_join D dir f) \<and> io_read io (dl_join D dir f)"
    and "trim_space host \<noteq> []"
    and "bare_request (cl_jose L) D ''GET'' raw_url = Inr bare"
      "normalize_htu (cl_jose L) (oq_url bare) = Inr htu" "is_ascii htu"
    and "\<forall>f\<in>set early. \<exists>e. load_bundle io D dir f = Inl e" "length early < load_attempts"
    and "\<forall>req w. snd (reach req w) = w" "visits_all iter"
    and "mode \<in> {''auth'', ''replay'', ''noident'', ''oauth'', ''stolentoken''}"
    and "length rnd = 16" "within_hour clock now" "fresh_iat iat now (effective_skew default_pop_skew)" "tc' < now' + replay_grace"
  shows "\<exists>m fs' tlk b c req.
      start_server L S D io unknown rand clock port True dir host fs = (Inr (m, new_replay_cache 10000), fs')
    \<and> provision L S D rand clock demo_ans_name demo_agent_id = Inr (tlk, b)
    \<and> demo_caller_of (cl_jose L) S b = Inr c
    \<and> signed_with_token (cl_jose L) (cl_unicode L) S D c iat (Some rnd) ''GET'' raw_url (mode_token c mode) = Inr req
    \<and> (length (bn_receipt b) \<le> 1048576 \<longrightarrow> length (bn_status_token b) \<le> 1048576
        \<longrightarrow> length (header_get (oq_header req) dpop_header) \<le> max_proof_size
        \<longrightarrow> sha_of (cl_jose L) (bn_cert_der b) \<noteq> zero_hash \<longrightarrow> ca_jkt c \<noteq> victim_jkt
        \<longrightarrow> connected L m wire (oq_url bare)
        \<longrightarrow> fst (client_run (cl_jose L) (cl_unicode L) S D io (dial (demo_callee L m iter) wire) reach (early @ fs' # later)
              iat (Some rnd) dir raw_url mode ((now, tc) # (now', tc') # ts, new_replay_cache 10000)) = None)"
  by (rule demo_succeeds_lemma [OF assms])

theorem demo_run_outcomes_witness:
  "fst (client_run demo_jose sample_unicode demo_sign demo_kit demo_io (dial (demo_callee demo_calls demo_mw (\<lambda>x. x)) demo_wire)
     (\<lambda>_ w. (True, w)) [Map.empty, demo_files] 1000000 (Some (replicate 16 (CHR ''x''))) ''d'' demo_url ''replay''
     ([(demo_now + nanos_per_second, 0), (0, 0)], new_replay_cache 10000)) = None"
proof -
  let ?rnd = "replicate 16 (CHR ''x'')" and ?L = demo_calls
  obtain req where req: "signed_with_token demo_jose sample_unicode demo_sign demo_kit demo_who 1000000 (Some ?rnd) ''GET''
      demo_url (mode_token demo_who ''replay'') = Inr req" "length (header_get (oq_header req) dpop_header) \<le> max_proof_size"
    using demo_signs [OF demo_bare_is, of demo_url ?rnd 1000000 "mode_token demo_who ''replay''"] demo_url_normal
    by (auto simp: demo_bare_def)
  have io: "\<forall>f\<in>bundle_names. file_works demo_io (dl_join demo_kit ''d'' f) \<and> io_read demo_io (dl_join demo_kit ''d'' f)"
    by (simp add: demo_io_def file_works_def)
  have early: "\<forall>f\<in>set [Map.empty]. \<exists>e. load_bundle demo_io demo_kit ''d'' f = Inl e" "length [Map.empty :: files] < load_attempts"
    by (simp_all add: load_bundle_def load_key_def read_file_def load_attempts_def)
  have url: "normalize_htu (cl_jose ?L) (oq_url demo_bare) = Inr demo_url" "bare_request (cl_jose ?L) demo_kit ''GET'' demo_url = Inr demo_bare"
    using demo_url_normal demo_bare_is by (simp_all add: demo_bare_def)
  have link: "connected ?L demo_mw demo_wire (oq_url demo_bare)" using demo_connected by (simp add: demo_bare_def)
  have eqs: "cl_jose ?L = demo_jose" "jl_unicode demo_jose = sample_unicode" by simp_all
  have reach: "\<forall>(req :: out_request) w. snd ((\<lambda>_ w. (True, w)) req w) = w" and mode: "''replay'' \<in> {''auth'', ''replay'', ''noident'', ''oauth'', ''stolentoken''}"
    by simp_all
  from demo_run_outcomes [where L = ?L and reach = "\<lambda>_ w. (True, w)" and mode = "''replay''" and later = "[]"
      and now' = 0 and tc' = 0 and tc = 0 and ts = "[]" and early = "[Map.empty]" and iter = "\<lambda>x. x" and wire = demo_wire
      and rnd = ?rnd and iat = 1000000 and raw_url = demo_url and unknown = "ErrSignature SigErrUnknownKeyID"
      and port = "check_and_store (\<lambda>x. x) 0" and fs = Map.empty,
      OF demo_agent_laws demo_codec demo_works demo_names_print demo_join_inj io demo_authority_keys(3) url(2,1) demo_url_normal(2)
        early reach visits_identity mode demo_times(1) demo_within demo_times(2)]
  show ?thesis
    using demo_provisioned(1-3) demo_fingerprint demo_who_is demo_who_other req link
    unfolding eqs demo_started by auto
qed

text \<open>C12: An access token is honoured only from its holder: when the example's callee answers a request with a token
  with 200, either the request was for the health check, whose fixed answer looks at no header, or it carries a proof
  that hashes this token, made for this method and URL, and the token's \<open>cnf.jkt\<close> is the thumbprint of the very key
  that proof is signed with.\<close>

theorem token_only_from_holder:
  assumes "callee_serve L m r now s = (a, s')" "an_status a = 200"
    and "presented_token L r = Some tok"
    and "cfg = resolve_caller_options (mc_caller_opts (mw_cfg m))" "cc_verify_opts cfg = []"
  shows "route_of r = Route_Health \<and> a = mux_answer 200 \<and> s' = s
    \<or> route_of r = Route_App
      \<and> (\<exists>pr q at. proof_accepted (cl_jose L) (header_get (rq_header r) dpop_header) (rq_method r) (mc_external (mw_cfg m) r) now
            (effective_skew (cc_pop_skew cfg)) (caller_opts (request_config L (mw_cfg m) r)) pr q
          \<and> dp_ath (pp_payload q) = access_token_hash (cl_jose L) tok
          \<and> parse_unsigned_demo_token tok = Inr at \<and> dt_jkt at = jwk_thumbprint (cl_jose L) (pr_key pr))"
  by (rule token_answer_lemma [OF assms])

theorem token_only_from_holder_witness:
  "\<exists>at. parse_unsigned_demo_token (own_token demo_who) = Inr at \<and> dt_jkt at = jwk_thumbprint demo_jose 2"
proof -
  obtain req a s' where r: "callee_serve demo_calls (callee_at demo_mw (\<lambda>x. x) 0) (demo_wire [] req) (demo_now + nanos_per_second) (new_replay_cache 0) = (a, s')"
    "an_status a = 200" "presented_token demo_calls (demo_wire [] req) = Some (own_token demo_who)"
    and app: "route_of (demo_wire [] req) = Route_App"
    using demo_token_served by blast
  have cfg: "default_caller_config = resolve_caller_options (mc_caller_opts (mw_cfg (callee_at demo_mw (\<lambda>x. x) 0)))"
    by (simp add: default_options)
  obtain at where "parse_unsigned_demo_token (own_token demo_who) = Inr at"
    using token_only_from_holder [OF r cfg default_options(2)] app by auto
  moreover have "parse_unsigned_demo_token (own_token demo_who) =
      Inr \<lparr>dt_sub = ''agent-demo-1'', dt_jkt = ca_jkt demo_who, dt_scope = ''payments:read''\<rparr>"
    unfolding own_token_def parse_minted_token [OF demo_texts_utf8(1,2) caller_jkt_text(1) [OF demo_ready]]
    using caller_jkt_text(2) [OF demo_ready] by simp
  ultimately show ?thesis by (simp add: demo_who_def)
qed

text \<open>C11: The single-process program of the example, with libraries whose calls succeed, provisions its agent, starts both
  callees and signs, and over connections that deliver the headers the callee reads, whatever others the transport adds,
  it ends without an error: the call it signs is accepted, and the four attacks it mounts are each rejected - the same
  request again, the same proof with another method, a callee that expects another agent, and a request whose Host names
  an authority that is not the callee's, though its proof was made for just that authority. The conditions left are that
  the artifacts and the first proof fit their headers, that the certificate's hash is not zero, and the clocks.\<close>

theorem demo_attacks_rejected:
  fixes port port2 :: "replay_cache replay_port"
  assumes "agent_laws L S D" "kit_works L S D rand clock"
    and "\<forall>u. url_parse (jl_bracket (cl_jose L)) demo_ans_name = Some u \<longrightarrow> dl_url_text D u = demo_ans_name"
    and "trim_space authority \<noteq> []" "elsewhere (cl_unicode L) authority" "trim_space authority2 \<noteq> []"
    and "bare_request (cl_jose L) D ''GET'' (srv @ ''/v1/do'') = Inr bare" "normalize_htu (cl_jose L) (oq_url bare) = Inr htu"
      "is_ascii htu"
      "bare_request (cl_jose L) D ''GET'' (srv2 @ ''/v1/do'') = Inr bare2" "normalize_htu (cl_jose L) (oq_url bare2) = Inr htu2"
      "bare_request (cl_jose L) D ''GET'' (''https://'' @ victim_host @ ''/v1/do'') = Inr bare3"
      "normalize_htu (cl_jose L) (oq_url bare3) = Inr htu3"
    and "carries wire" "carries wire2" "visits_all iter"
    and "draw 0 = (iat, Some rnd)" "length rnd = 16" "\<forall>k. snd (draw k) \<noteq> None"
    and "within_hour clock now" "fresh_iat iat now (effective_skew default_pop_skew)" "tc' < now' + replay_grace"
      "within_hour clock (fst t5)"
  shows "\<exists>a tlk b m m2 h0. provision_agent L S D unknown rand clock = Inr a
    \<and> provision L S D rand clock demo_ans_name demo_agent_id = Inr (tlk, b)
    \<and> start_callee (cl_unicode L) (da_keys a) port authority [] = Inr m
    \<and> start_callee (cl_unicode L) (da_keys a) port2 authority2 (wrong_peer_options (cl_unicode L)) = Inr m2
    \<and> signed_get_headers (cl_jose L) (cl_unicode L) S D a (draw 0) (srv @ ''/v1/do'') = Inr h0
    \<and> (length (bn_receipt b) \<le> 1048576 \<longrightarrow> length (bn_status_token b) \<le> 1048576
        \<longrightarrow> length (header_get h0 dpop_header) \<le> max_proof_size \<longrightarrow> sha_of (cl_jose L) (bn_cert_der b) \<noteq> zero_hash
        \<longrightarrow> connected L m wire (oq_url bare)
        \<longrightarrow> fst (run_scenarios (cl_jose L) (cl_unicode L) S D a draw
              (on_first (dial (in_process_callee L m iter) wire)) srv (on_second (dial (in_process_callee L m2 iter) wire2)) srv2
              (((now, tc) # (now', tc') # t3 # t4 # ts, new_replay_cache n), (t5 # ts2, s2))) = None)"
  by (rule scenarios_succeed_lemma [OF assms])

theorem demo_attacks_rejected_witness:
  "fst (run_scenarios demo_jose sample_unicode demo_sign demo_kit the_agent (\<lambda>_. (1000000, Some (replicate 16 (CHR ''x''))))
    (on_first (dial (in_process_callee demo_calls demo_mw (\<lambda>x. x)) demo_wire)) ''http://127.0.0.1:18099''
    (on_second (dial (in_process_callee demo_calls demo_strict_mw (\<lambda>x. x)) demo_wire)) ''http://127.0.0.1:18099''
    (([(demo_now + nanos_per_second, 0), (0, 0), (0, 0), (0, 0)], new_replay_cache 0),
     ([(demo_now + nanos_per_second, 0)], new_replay_cache 0))) = None"
proof -
  let ?L = demo_calls and ?srv = "''http://127.0.0.1:18099''" and ?draw = "\<lambda>_ :: nat. (1000000 :: int64, Some (replicate 16 (CHR ''x'')))"
  obtain h0 where h: "signed_get_headers demo_jose sample_unicode demo_sign demo_kit the_agent (?draw 0) (?srv @ ''/v1/do'') = Inr h0"
    "length (header_get h0 dpop_header) \<le> max_proof_size"
    using demo_scenario_headers by blast
  have url: "bare_request (cl_jose ?L) demo_kit ''GET'' (?srv @ ''/v1/do'') = Inr demo_bare"
    "normalize_htu (cl_jose ?L) (oq_url demo_bare) = Inr demo_url"
    using demo_bare_is demo_url_normal unfolding demo_url_parts by (simp_all add: demo_bare_def)
  have link: "connected ?L demo_mw demo_wire (oq_url demo_bare)" using demo_connected by (simp add: demo_bare_def)
  obtain bare3 where v: "bare_request (cl_jose ?L) demo_kit ''GET'' (''https://'' @ victim_host @ ''/v1/do'') = Inr bare3"
    "normalize_htu (cl_jose ?L) (oq_url bare3) = Inr ''https://victim.example/v1/do''"
    using demo_victim by auto
  have eqs: "cl_jose ?L = demo_jose" "jl_unicode demo_jose = sample_unicode" "da_keys the_agent = demo_keys"
    by (simp_all add: the_agent_def)
  have a: "elsewhere (cl_unicode ?L) demo_authority" using demo_callees(3) by simp
  have t: "within_hour demo_clock (fst (demo_now + nanos_per_second, 0 :: int))" using demo_within(1) by simp
  have d: "?draw 0 = (1000000, Some (replicate 16 (CHR ''x'')))" "\<forall>k. snd (?draw k) \<noteq> None" by simp_all
  from demo_attacks_rejected [where L = ?L and authority = demo_authority and ?authority2.0 = demo_authority
      and wire = demo_wire and ?wire2.0 = demo_wire and draw = ?draw and srv = ?srv and ?srv2.0 = ?srv and ?t3.0 = "(0, 0)" and ?t4.0 = "(0, 0)"
      and now' = 0 and tc' = 0 and tc = 0 and ts = "[]" and ?ts2.0 = "[]" and ?s2.0 = "new_replay_cache 0" and n = 0 and iter = "\<lambda>x. x"
      and unknown = "ErrSignature SigErrUnknownKeyID" and port = "check_and_store (\<lambda>x. x) 0" and ?port2.0 = "check_and_store (\<lambda>x. x) 0",
      OF demo_agent_laws demo_works demo_names_print demo_authority_keys(3) a demo_authority_keys(3) url demo_url_normal(2) url v
        demo_callees(4,4) visits_identity d(1) demo_times(1) d(2) demo_within demo_times(2) t]
  show ?thesis
    using the_agent_is demo_provisioned(1-3) demo_fingerprint h link
    unfolding eqs by (auto simp: eqs demo_callees(1,2))
qed

section \<open>Fetching and supplying artifacts\<close>

text \<open>C38: Whatever sequence of lazy initialisations, forced and background refreshes a header supplier
  has been through, with whatever answers from log, clock and key store, a status token it hands out
  has not expired at that moment, came in one fetch together with the receipt beside it, and both
  verified then. The headers survive the transport, and a peer with the same keys that extracts them
  accepts both artifacts, at any clock skew, as long as the expiry is ten minutes from the end of
  \<open>int64\<close>.\<close>

theorem supplier_headers_live:
  assumes "list_all supplier_option_ok opts" "supplier_run u L C (new_header_supplier agent opts) s"
    and "current_headers u L C w now s = (h, s')" "oh_token h \<noteq> []"
  shows "\<exists>r t vt hh. \<exists>w0 :: 'k supply_env.
      se_receipt w0 = Inr r \<and> se_token w0 = Inr t \<and> is_ok (verify_receipt L (C :: 'k crypto) (se_keys w0) r)
      \<and> verify_status_token_at u L C (se_keys w0) t (hs_clock_skew s') (se_now w0) = Inr vt
      \<and> sint now < sint (sp_exp (vt_payload vt))
      \<and> to_http_headers h = Inr hh \<and> extract_headers hh = Inr \<lparr>sh_receipt = r, sh_status_token = t\<rparr>
      \<and> (sint (sp_exp (vt_payload vt)) + 600 < 2 ^ 63 \<longrightarrow>
           (\<forall>skew. verify_status_token_at u L C (se_keys w0) t skew now = Inr vt))"
proof -
  have "supplier_ok u L C s" by (rule supplier_run_ok [OF assms(2) new_supplier_ok [OF assms(1)]])
  then have ok: "supplier_ok u L C s'" using assms(3) init_once_ok by (auto simp: current_headers_def Let_def split: if_splits)
  have h: "h = outgoing_of now s'" using assms(3) by (auto simp: current_headers_def Let_def)
  obtain r t e and w0 :: "'k supply_env" where f: "sint now < sint e" "fetched_together u L C (hs_clock_skew s') w0 r t e"
    and o: "outgoing_of now s' = \<lparr>oh_receipt = encode_if_non_empty r, oh_token = encode_if_non_empty t\<rparr>"
    using outgoing_token [OF ok assms(4) [unfolded h]] by blast
  then obtain rc vt where v: "se_receipt w0 = Inr r" "se_token w0 = Inr t" "verify_receipt L C (se_keys w0) r = Inr rc"
    "verify_status_token_at u L C (se_keys w0) t (hs_clock_skew s') (se_now w0) = Inr vt" "e = sp_exp (vt_payload vt)"
    by (auto simp: fetched_together_def)
  have "length r \<le> 1048576" "length t \<le> 1048576"
    using verified_small(2) [OF v(3)] verified_small(1) [OF v(4)] by (simp_all add: max_cose_input_size_def)
  then have "to_http_headers h = Inr (generate_headers r t)"
    "extract_headers (generate_headers r t) = Inr \<lparr>sh_receipt = r, sh_status_token = t\<rparr>"
    using to_http_outgoing extract_generate by (simp_all add: h o)
  then show ?thesis
    using v f(1) token_reverifies [OF v(4), of now]
    by - (rule exI [of _ r], rule exI [of _ t], rule exI [of _ vt], rule exI, rule exI [of _ w0], simp)
qed

theorem supplier_headers_live_witness:
  "\<exists>h s' hh. current_headers sample_unicode sample_cbor sample_crypto
       \<lparr>se_receipt = Inr ''receipt'', se_token = Inr ''token'', se_keys = key_store_get sample_keys, se_now = 900\<rparr> 950
       (new_header_supplier ''agent-1'' [with_supplier_clock_skew (120 * nanos_per_second)]) = (h, s')
     \<and> to_http_headers h = Inr hh \<and> extract_headers hh = Inr \<lparr>sh_receipt = ''receipt'', sh_status_token = ''token''\<rparr>"
proof -
  let ?w = "\<lparr>se_receipt = Inr ''receipt'', se_token = Inr ''token'', se_keys = key_store_get sample_keys, se_now = 900\<rparr>"
  let ?s = "new_header_supplier ''agent-1'' [with_supplier_clock_skew (120 * nanos_per_second)]"
  have k: "hs_clock_skew ?s = 120 * nanos_per_second" "\<not> hs_initialized ?s"
    by (simp_all add: new_header_supplier_def with_supplier_clock_skew_def max_clock_skew_def nanos_per_second_def Let_def)
  let ?s' = "?s\<lparr>hs_receipt := Some ''receipt'', hs_token := Some ''token'', hs_token_exp := Some 1000, hs_last_error := None,
      hs_initialized := True\<rparr>"
  have "fetch_and_verify sample_unicode sample_cbor sample_crypto ?w ?s = (None, ?s\<lparr>hs_receipt := Some ''receipt'',
      hs_token := Some ''token'', hs_token_exp := Some 1000, hs_last_error := None\<rparr>)"
    using sample_receipt_verifies sample_token_verifies k
    by (simp add: fetch_and_verify_def) (simp add: sample_token_def)
  then have c: "current_headers sample_unicode sample_cbor sample_crypto ?w 950 ?s
      = (\<lparr>oh_receipt = std_encode ''receipt'', oh_token = std_encode ''token''\<rparr>, ?s')"
    using k by (simp add: current_headers_def init_once_def outgoing_of_def encode_if_non_empty_def)
  have t: "oh_token \<lparr>oh_receipt = std_encode ''receipt'', oh_token = std_encode ''token''\<rparr> \<noteq> []" by simp
  have l: "list_all supplier_option_ok [with_supplier_clock_skew (120 * nanos_per_second)]"
    by (simp add: supplier_options_ok)
  from supplier_headers_live [OF l run_start c t] obtain hh r t where
    "to_http_headers \<lparr>oh_receipt = std_encode ''receipt'', oh_token = std_encode ''token''\<rparr> = Inr hh"
    "extract_headers hh = Inr \<lparr>sh_receipt = r, sh_status_token = t\<rparr>" by blast
  moreover have "extract_headers (generate_headers ''receipt'' ''token'') = Inr \<lparr>sh_receipt = ''receipt'', sh_status_token = ''token''\<rparr>"
    by (rule extract_generate) simp_all
  ultimately show ?thesis using c by (auto simp: to_http_headers_def)
qed

text \<open>A supplier reports itself healthy only once it holds verified artifacts and its last fetch
  did not fail. The converse does not hold: a forced refresh that succeeds before the first use stores
  its artifacts but leaves the supplier unhealthy, and the next request for headers fetches again.\<close>

theorem supplier_health:
  assumes "list_all supplier_option_ok opts" "supplier_run u L C (new_header_supplier agent opts) s"
  shows "(supplier_healthy s \<longrightarrow> (\<exists>r t. \<exists>w :: 'k supply_env. hs_receipt s = Some r \<and> hs_token s = Some t
           \<and> se_receipt w = Inr r \<and> se_token w = Inr t \<and> is_ok (verify_receipt L (C :: 'k crypto) (se_keys w) r)
           \<and> is_ok (verify_status_token_at u L C (se_keys w) t (hs_clock_skew s) (se_now w))))
    \<and> (\<not> hs_initialized s \<longrightarrow> refresh_now u L C w1 s = (None, s') \<longrightarrow>
         \<not> supplier_healthy s' \<and> hs_token s' \<noteq> None
         \<and> snd (current_headers u L C w2 now s') = init_once u L C w2 s')"
proof -
  have "supplier_ok u L C s" by (rule supplier_run_ok [OF assms(2) new_supplier_ok [OF assms(1)]])
  then have 1: "supplier_healthy s \<longrightarrow> (\<exists>r t. \<exists>w :: 'k supply_env. hs_receipt s = Some r \<and> hs_token s = Some t
           \<and> se_receipt w = Inr r \<and> se_token w = Inr t \<and> is_ok (verify_receipt L C (se_keys w) r)
           \<and> is_ok (verify_status_token_at u L C (se_keys w) t (hs_clock_skew s) (se_now w)))"
    by (fastforce simp: supplier_ok_def supplier_healthy_def fetched_together_def is_ok_def)
  have 2: "\<not> supplier_healthy s' \<and> hs_token s' \<noteq> None \<and> snd (current_headers u L C w2 now s') = init_once u L C w2 s'"
    if "\<not> hs_initialized s" "refresh_now u L C w1 s = (None, s')"
    using that by (auto simp: refresh_now_def fetch_and_verify_None supplier_healthy_def current_headers_def Let_def)
  from 1 2 show ?thesis by blast
qed

theorem supplier_health_witness:
  "\<exists>s'. refresh_now sample_unicode sample_cbor sample_crypto
       \<lparr>se_receipt = Inr ''receipt'', se_token = Inr ''token'', se_keys = key_store_get sample_keys, se_now = 900\<rparr>
       (new_header_supplier ''agent-1'' [with_supplier_clock_skew (120 * nanos_per_second)]) = (None, s')
     \<and> \<not> supplier_healthy s'"
proof -
  let ?w = "\<lparr>se_receipt = Inr ''receipt'', se_token = Inr ''token'', se_keys = key_store_get sample_keys, se_now = 900\<rparr>"
  let ?s = "new_header_supplier ''agent-1'' [with_supplier_clock_skew (120 * nanos_per_second)]"
  have k: "hs_clock_skew ?s = 120 * nanos_per_second" "\<not> hs_initialized ?s"
    by (simp_all add: new_header_supplier_def with_supplier_clock_skew_def max_clock_skew_def nanos_per_second_def Let_def)
  have r: "\<exists>s'. refresh_now sample_unicode sample_cbor sample_crypto ?w ?s = (None, s')"
    using sample_receipt_verifies sample_token_verifies k by (simp add: refresh_now_def fetch_and_verify_def)
  then obtain s' where s: "refresh_now sample_unicode sample_cbor sample_crypto ?w ?s = (None, s')" by blast
  have l: "list_all supplier_option_ok [with_supplier_clock_skew (120 * nanos_per_second)]"
    by (simp add: supplier_options_ok)
  from supplier_health [OF l run_start, where ?w1.0 = ?w and s' = s' and agent = "''agent-1''"] s k(2)
  show ?thesis by blast
qed

text \<open>The client's answers are classified exactly. A fetch succeeds precisely on a 200 answer whose
  body arrives whole and within two megabytes, and returns that body; it reports a terminal agent
  precisely on 410, and every other failure allows the fallback to a badge; the wait taken from
  Retry-After is between zero and a day whatever the header says. The path of a request separates
  agents: distinct identifiers have distinct segments without a slash or a question mark.\<close>

theorem client_answers_classified:
  "(fetch_bytes bk ht send now c url = Inr b \<longleftrightarrow>
      url_parse bk url \<noteq> None \<and> (\<exists>r. send url (sc_headers c) = Some r \<and> hr_status r = 200 \<and> \<not> hr_broken r
        \<and> length (hr_body r) \<le> 2097152 \<and> b = hr_body r))
   \<and> (fetch_bytes bk ht send now c url = Inl e \<longrightarrow>
        (should_fallback_to_badge e \<longleftrightarrow> te_type e \<noteq> TransportErrAgentTerminal)
        \<and> (te_type e = TransportErrAgentTerminal \<longleftrightarrow>
             url_parse bk url \<noteq> None \<and> (\<exists>r. send url (sc_headers c) = Some r \<and> hr_status r = 410))
        \<and> 0 \<le> te_retry_after e \<and> te_retry_after e \<le> 86400000000000)
   \<and> (path_escape a = path_escape a' \<longleftrightarrow> a = a') \<and> CHR ''/'' \<notin> set (path_escape a) \<and> CHR ''?'' \<notin> set (path_escape a)"
  using fetch_bytes_Inr [of bk ht send now c url b] fetch_bytes_Inl [of bk ht send now c url e]
    fetch_bytes_fallback [of bk ht send now c url e] path_escape_inject [of a a'] path_escape_no_slash [of a]
  by (simp add: max_response_bytes_def max_retry_after_def nanos_per_sec_def)

theorem client_answers_classified_witness:
  "fetch_bytes (\<lambda>_. True) (\<lambda>_. None) (\<lambda>_ _. Some \<lparr>hr_status = 410, hr_header = Map.empty, hr_body = [], hr_broken = False\<rparr>) 0
     \<lparr>sc_base_url = ''https://tl'', sc_headers = Map.empty, sc_allow_insecure = False, sc_timeout_override = None,
      sc_explicit = None, sc_timeout = 0\<rparr> ''https://tl/root-keys''
   = Inl (transport_of TransportErrAgentTerminal 410) \<and> \<not> should_fallback_to_badge (transport_of TransportErrAgentTerminal 410)"
proof -
  have u: "\<exists>x. url_parse (\<lambda>_. True) ''https://tl/root-keys'' = Some x" by (rule exI, code_simp)
  have f: "fetch_bytes (\<lambda>_. True) (\<lambda>_. None) (\<lambda>_ _. Some \<lparr>hr_status = 410, hr_header = Map.empty, hr_body = [], hr_broken = False\<rparr>) 0
     \<lparr>sc_base_url = ''https://tl'', sc_headers = Map.empty, sc_allow_insecure = False, sc_timeout_override = None,
      sc_explicit = None, sc_timeout = 0\<rparr> ''https://tl/root-keys'' = Inl (transport_of TransportErrAgentTerminal 410)"
    using u by (auto simp: fetch_bytes_def map_status_code_def)
  show ?thesis
    using client_answers_classified [of "\<lambda>_. True" "\<lambda>_. None"
        "\<lambda>_ _. Some \<lparr>hr_status = 410, hr_header = Map.empty, hr_body = [], hr_broken = False\<rparr>" 0
        "\<lparr>sc_base_url = ''https://tl'', sc_headers = Map.empty, sc_allow_insecure = False, sc_timeout_override = None,
      sc_explicit = None, sc_timeout = 0\<rparr>" "''https://tl/root-keys''" "[]" "transport_of TransportErrAgentTerminal 410"] f
    by (simp add: transport_of_def)
qed

section \<open>The agent client\<close>

text \<open>What one exchange sends: the request, and at most nine more, each the redirect of the one before.\<close>

lemma agent_hops:
  "\<exists>hops. snd (agent_exchange env q) = q # hops \<and> length hops \<le> 9
     \<and> successively (redirected_to (ae_resolve env) (ae_carry env) (ae_send env)) (q # hops)
     \<and> (\<forall>r. fst (agent_exchange env q) = Some r \<longrightarrow> ae_send env (last (q # hops)) = Some r)
     \<and> (\<forall>r. ae_send env q = Some r \<longrightarrow> redirect_behavior (aq_method q) (hr_status r) = None \<longrightarrow> hops = [])"
proof -
  obtain hops where h: "snd (agent_exchange env q) = q # hops" using agent_exchange_first by blast
  have "length (q # hops) \<le> 10" using agent_exchange_length [of env q] h by simp
  moreover have "successively (redirected_to (ae_resolve env) (ae_carry env) (ae_send env)) (q # hops)"
    using client_do_chain [of "ae_resolve env" "ae_carry env" "ae_send env" max_client_requests q] h
    by (simp add: agent_exchange_def)
  moreover have "\<forall>r. fst (agent_exchange env q) = Some r \<longrightarrow> ae_send env (last (q # hops)) = Some r"
    using client_do_last [of "ae_resolve env" "ae_carry env" "ae_send env" max_client_requests q] h
    by (simp add: agent_exchange_def)
  moreover have "\<forall>r. ae_send env q = Some r \<longrightarrow> redirect_behavior (aq_method q) (hr_status r) = None \<longrightarrow> hops = []"
    using agent_exchange_once [of env q] h by auto
  ultimately show ?thesis using h by (intro exI [of _ hops]) simp
qed

text \<open>C13: With server verification on, a client policy other than \<open>FailOpen\<close> and a verifier that fails closed, what the
  agent client hands back has been verified: the URL it was given is https, and the certificate of the connection that
  answered is vouched for by a badge of that URL's host whose status allows connections. The badge is the cached one of
  the host, as the prefetch left the cache, or was fetched for it and not contradicted by DANE. The answer is that of the
  last request sent: the client follows redirects, so there may have been up to nine more requests after the one it was
  asked for, each to where the answer before it pointed.\<close>

theorem agent_client_sound:
  assumes "agent_do env c meth url body = (Inr resp, fx, c')"
    and "ag_verify_server (ac_config c)" "ag_policy (ac_config c) \<noteq> FailOpen" "vc_policy (ac_verifier c) = FailClosed"
  shows "\<exists>u f b leaf rest hops. url_parse (ae_bracket_ok env) url = Some u \<and> url_scheme u = ''https''
     \<and> new_fqdn (url_hostname u) = Inr f
     \<and> fx = map Sent (agent_request meth url body # hops) \<and> length hops \<le> 9
     \<and> successively (redirected_to (ae_resolve env) (ae_carry env) (ae_send env)) (agent_request meth url body # hops)
     \<and> ae_send env (last (agent_request meth url body # hops)) = Some (ar_answer resp)
     \<and> an_peer_certs (ar_answer resp) = leaf # rest
     \<and> (\<exists>out. ar_outcome resp = Some out \<and> vo_type out = OutcomeVerified \<and> vo_badge out = Some b)
     \<and> vouches_server (en_unicode (ae_verify env)) b (cert_identity_from_x509 (en_sha256 (ae_verify env)) leaf) f
     \<and> badge_evidence (ae_verify env) (ac_verifier (snd (prefetch_badge env c (url_hostname u)))) f None
          (cert_identity_from_x509 (en_sha256 (ae_verify env)) leaf) b"
proof -
  let ?req = "agent_request meth url body"
  obtain u f b out leaf rest where v: "url_parse (ae_bracket_ok env) url = Some u" "url_scheme u = ''https''"
    "new_fqdn (url_hostname u) = Inr f" "fx = map Sent (snd (agent_exchange env ?req))"
    "fst (agent_exchange env ?req) = Some (ar_answer resp)" "an_peer_certs (ar_answer resp) = leaf # rest"
    "ar_outcome resp = Some out" "vo_type out = OutcomeVerified" "vo_badge out = Some b"
    "vouches_server (en_unicode (ae_verify env)) b (cert_identity_from_x509 (en_sha256 (ae_verify env)) leaf) f"
    "badge_evidence (ae_verify env) (ac_verifier (snd (prefetch_badge env c (url_hostname u)))) f None
       (cert_identity_from_x509 (en_sha256 (ae_verify env)) leaf) b"
    using agent_do_vouched [OF assms] by blast
  obtain hops where "snd (agent_exchange env ?req) = ?req # hops" "length hops \<le> 9"
    "successively (redirected_to (ae_resolve env) (ae_carry env) (ae_send env)) (?req # hops)"
    "ae_send env (last (?req # hops)) = Some (ar_answer resp)"
    using agent_hops [of env ?req] v(5) by blast
  then show ?thesis
    using v by (intro exI [of _ u] exI [of _ f] exI [of _ b] exI [of _ leaf] exI [of _ rest] exI [of _ hops]) simp
qed

theorem agent_client_sound_witness:
  "\<exists>b. vouches_server sample_unicode b (cert_identity_from_x509 sample_hash sample_x509) (Fqdn ''a.io'')"
proof -
  let ?c = "sample_agent\<lparr>ac_verifier := sample_config\<lparr>vc_dane := None\<rparr>\<rparr>"
  obtain fx c' where d: "agent_do sample_agent_env ?c ''GET'' ''https://a.io/x'' None =
      (Inr \<lparr>ar_answer = sample_answer, ar_outcome = Some (verified_with_warning vouching_badge (Cert_Fingerprint sample_fp))\<rparr>, fx, c')"
    using sample_agent_answered [of None] by (metis prod.collapse)
  have h: "ag_verify_server (ac_config ?c)" "ag_policy (ac_config ?c) \<noteq> FailOpen" "vc_policy (ac_verifier ?c) = FailClosed"
    by (simp_all add: default_agent_config_def)
  from agent_client_sound [OF d h] show ?thesis by (auto simp: sample_agent_parse)
qed

text \<open>C32: Verification follows the request: when the certificate of the connection fails it, or there is
  none, the request has been sent in full, and on along every redirect the answers asked for, and only the last answer is
  withheld. Only a failing badge lookup under \<open>FailClosed\<close> keeps the request back.\<close>

theorem agent_sends_before_verifying:
  assumes "agent_do env c meth url body = (Inl e, fx, c')"
  shows "(e = Agent_No_Peer_Certificates \<or> (\<exists>ve. e = Agent_Certificate_Failed ve) \<longrightarrow>
            (\<exists>hops. fx = Sent (agent_request meth url body) # map Sent hops @ [Body_Closed] \<and> length hops \<le> 9
               \<and> (\<forall>r. ae_send env (agent_request meth url body) = Some r \<longrightarrow> redirect_behavior meth (hr_status r) = None
                    \<longrightarrow> hops = [])))
       \<and> ((\<exists>ve. e = Agent_Badge_Failed ve) \<longrightarrow> fx = [] \<and> ag_policy (ac_config c) = FailClosed)"
proof -
  obtain hops where "snd (agent_exchange env (agent_request meth url body)) = agent_request meth url body # hops" "length hops \<le> 9"
    "\<forall>r. ae_send env (agent_request meth url body) = Some r \<longrightarrow> redirect_behavior meth (hr_status r) = None \<longrightarrow> hops = []"
    using agent_hops [of env "agent_request meth url body"] by auto
  then show ?thesis using agent_do_rejected [OF assms] agent_do_badge_failed [OF assms] by (auto intro!: exI [of _ hops])
qed

theorem agent_sends_before_verifying_witness:
  "let env = sample_agent_env\<lparr>ae_send := (\<lambda>_. Some (sample_answer\<lparr>an_peer_certs := []\<rparr>))\<rparr>
   in fst (snd (agent_do env (sample_agent\<lparr>ac_verifier := sample_config\<lparr>vc_cache := None\<rparr>\<rparr>) ''POST'' ''https://a.io/x''
             (Some (JStr ''secret''))))
      = [Sent (agent_request ''POST'' ''https://a.io/x'' (Some (JStr ''secret''))), Body_Closed]"
proof -
  let ?env = "sample_agent_env\<lparr>ae_send := (\<lambda>_. Some (sample_answer\<lparr>an_peer_certs := []\<rparr>))\<rparr>"
  let ?c = "sample_agent\<lparr>ac_verifier := sample_config\<lparr>vc_cache := None\<rparr>\<rparr>"
  have "ans_prefetch sample_env (sample_config\<lparr>vc_cache := None\<rparr>) ''a.io'' =
      ((Some vouching_badge, None), sample_config\<lparr>vc_cache := None\<rparr>)"
    by (simp add: ans_prefetch_def sample_agent_parse server_prefetch_eq server_fetch_badge_def fetch_badge_eq
        validate_badge_url_def cache_insert_def)
  moreover have "agent_exchange ?env q = (Some (sample_answer\<lparr>an_peer_certs := []\<rparr>), [q])" for q
    by (rule agent_exchange_once) (simp_all add: sample_answer_def redirect_behavior_def)
  ultimately obtain fx c' where d: "agent_do ?env ?c ''POST'' ''https://a.io/x'' (Some (JStr ''secret'')) =
      (Inl Agent_No_Peer_Certificates, fx, c')"
    by (simp add: agent_do_def sample_agent_parse prefetch_badge_def default_agent_config_def execute_request_def
        verify_tls_cert_def)
  have "redirect_behavior ''POST'' (hr_status (sample_answer\<lparr>an_peer_certs := []\<rparr>)) = None"
    by (simp add: sample_answer_def redirect_behavior_def)
  then have "fx = [Sent (agent_request ''POST'' ''https://a.io/x'' (Some (JStr ''secret''))), Body_Closed]"
    using agent_sends_before_verifying [OF d] by auto
  then show ?thesis by (simp add: d)
qed

text \<open>C40: The agent client follows redirects before it verifies anybody: when the host it was asked to call answers with a
  redirect, the next request goes to wherever the \<open>Location\<close> points, whatever host and scheme that is - with the same
  method and the same body after a 307 or 308, as a bare \<open>GET\<close> after a 301, 302 or 303 unless the method was \<open>GET\<close> or
  \<open>HEAD\<close> - and this holds whether the call then succeeds or the verification refuses it. There are at most ten requests.\<close>

theorem agent_follows_redirects:
  assumes "agent_do env c meth url body = (res, fx, c')" "fx \<noteq> []"
    and "ae_send env (agent_request meth url body) = Some r" "hr_status r \<in> {301, 302, 303, 307, 308}"
    and "header_get (hr_header r) ''Location'' = loc" "loc \<noteq> []" "ae_resolve env url loc = Some url'"
  shows "\<exists>q hops tail. fx = Sent (agent_request meth url body) # Sent q # map Sent hops @ tail
     \<and> set tail \<subseteq> {Body_Closed} \<and> length hops \<le> 8 \<and> aq_url q = url'
     \<and> aq_method q = (if hr_status r \<in> {307, 308} \<or> meth \<in> {''GET'', ''HEAD''} then meth else ''GET'')
     \<and> aq_body q = (if hr_status r \<in> {307, 308} then prepare_request_body body else [])
     \<and> aq_header q = ae_carry env (aq_header (agent_request meth url body)) url url'"
proof -
  let ?req = "agent_request meth url body"
  obtain tail where t: "fx = map Sent (snd (agent_exchange env ?req)) @ tail" "set tail \<subseteq> {Body_Closed}"
    using agent_do_trace [OF assms(1,2)] by blast
  have "redirect_behavior (aq_method ?req) (hr_status r) \<noteq> None" using assms(4) by (auto simp: redirect_behavior_def)
  then obtain b where b: "redirect_behavior (aq_method ?req) (hr_status r) = Some b" by blast
  define q where "q = next_request (ae_carry env) ?req b url'"
  have "ae_resolve env (aq_url ?req) loc = Some url'" using assms(7) by simp
  from client_do_redirected [where trip = "ae_send env" and resolve = "ae_resolve env" and carry = "ae_carry env" and n = 9,
      OF assms(3) b assms(5,6) this]
  have x: "agent_exchange env ?req = apsnd ((#) ?req) (client_do (ae_resolve env) (ae_carry env) (ae_send env) 9 q)"
    by (simp add: agent_exchange_def max_client_requests_def q_def eval_nat_numeral del: client_do.simps)
  obtain hops where h: "snd (client_do (ae_resolve env) (ae_carry env) (ae_send env) 9 q) = q # hops"
    using client_do_first [of 9] by fastforce
  then have "length hops \<le> 8" using client_do_length [of "ae_resolve env" "ae_carry env" "ae_send env" 9 q] by simp
  moreover have "fx = Sent ?req # Sent q # map Sent hops @ tail" using t(1) x h by simp
  moreover have "aq_method q = (if hr_status r \<in> {307, 308} \<or> meth \<in> {''GET'', ''HEAD''} then meth else ''GET'')"
    "aq_body q = (if hr_status r \<in> {307, 308} then prepare_request_body body else [])" "aq_url q = url'"
    "aq_header q = ae_carry env (aq_header ?req) url url'"
    using b assms(4) by (auto simp: q_def next_request_def redirect_behavior_def split: if_splits)
  ultimately show ?thesis using t(2) by blast
qed

theorem agent_follows_redirects_witness:
  "let moved = sample_answer\<lparr>hr_status := 307, hr_header := [''Location'' \<mapsto> [''http://evil.example/'']]\<rparr>;
       env = sample_agent_env\<lparr>ae_send := (\<lambda>q. if aq_url q = ''https://a.io/x'' then Some moved else None)\<rparr>;
       fx = fst (snd (agent_do env (sample_agent\<lparr>ac_config := default_agent_config\<lparr>ag_policy := FailOpen\<rparr>\<rparr>) ''POST'' ''https://a.io/x''
              (Some (JStr ''secret''))))
   in \<exists>q. Sent q \<in> set fx \<and> aq_url q = ''http://evil.example/'' \<and> aq_body q = prepare_request_body (Some (JStr ''secret''))"
proof -
  define moved where "moved = sample_answer\<lparr>hr_status := 307, hr_header := [''Location'' \<mapsto> [''http://evil.example/'']]\<rparr>"
  define env where "env = sample_agent_env\<lparr>ae_send := (\<lambda>q. if aq_url q = ''https://a.io/x'' then Some moved else None)\<rparr>"
  define c where "c = sample_agent\<lparr>ac_config := default_agent_config\<lparr>ag_policy := FailOpen\<rparr>\<rparr>"
  obtain res fx c' where d: "agent_do env c ''POST'' ''https://a.io/x'' (Some (JStr ''secret'')) = (res, fx, c')"
    by (metis prod.collapse)
  have "canonical_key ''Location'' = ''Location''" by code_simp
  then have m: "hr_status moved = 307" "header_get (hr_header moved) ''Location'' = ''http://evil.example/''"
    by (simp_all add: moved_def header_get_def)
  have s: "ae_send env (agent_request ''POST'' ''https://a.io/x'' body) = Some moved"
    "ae_resolve env url loc = Some loc" for body url loc
    by (simp_all add: env_def agent_request_def) (simp add: sample_agent_env_def)
  have "fst (prefetch_badge env c h) = None" for h
    by (simp add: prefetch_badge_def c_def default_agent_config_def split: prod.split option.split)
  then obtain c1 where p: "prefetch_badge env c ''a.io'' = (None, c1)" by (metis prod.collapse)
  have u: "url_parse (ae_bracket_ok env) ''https://a.io/x'' = Some sample_agent_url"
    by (simp add: env_def sample_agent_parse)
  have "snd (execute_request env ''POST'' ''https://a.io/x'' (Some (JStr ''secret''))) \<noteq> []"
    using agent_exchange_first [of env "agent_request ''POST'' ''https://a.io/x'' (Some (JStr ''secret''))"] u
    by (auto simp: execute_request_def split: prod.split)
  then obtain x q0 hops where e: "execute_request env ''POST'' ''https://a.io/x'' (Some (JStr ''secret'')) = (x, q0 # hops)"
    by (metis neq_Nil_conv prod.collapse)
  have "fx \<noteq> []"
    using d p e u sample_agent_parse(2,3) by (auto simp: agent_do_def Let_def split: sum.splits prod.splits)
  from agent_follows_redirects [OF d this s(1) _ m(2) _ s(2)] m(1)
  obtain q hops tail where "fx = Sent (agent_request ''POST'' ''https://a.io/x'' (Some (JStr ''secret''))) # Sent q # map Sent hops @ tail"
    "aq_url q = ''http://evil.example/''" "aq_body q = prepare_request_body (Some (JStr ''secret''))"
    by auto
  then show ?thesis unfolding Let_def moved_def [symmetric] env_def [symmetric] c_def [symmetric] d
    by (intro exI [of _ q]) simp
qed

text \<open>With a badge cache the agent client never consults a DANE resolver for a host whose badge it
  has to fetch: the prefetch puts the badge where the verification looks first, and a vouching cache hit ends
  it. So the outcome is the same whatever the resolver would answer, a DNSSEC failure included.\<close>

theorem agent_client_skips_dane:
  assumes "url_parse (ae_bracket_ok env) url = Some u" "url_scheme u = ''https''" "new_fqdn (url_hostname u) = Inr f"
      "url_hostname u \<noteq> []"
    and "ag_verify_server (ac_config c)" "vc_cache (ac_verifier c) = Some bc"
    and "cache_ok bc" "cache_size bc < cc_max_entries (bc_config bc)"
    and "get_by_fqdn (en_now_get (ae_prefetch env)) bc f = None"
    and "server_fetch_badge (ae_prefetch env) (ac_verifier c) f = Inr b"
    and "en_insert (ae_prefetch env) = (iter, now, now')"
    and "now' \<le> now + cc_default_ttl (bc_config bc) + cc_stale_retention (bc_config bc)"
    and "en_now_get (ae_verify env) \<le> now + cc_default_ttl (bc_config bc)"
    and "fst (agent_exchange env (agent_request meth url body)) = Some r" "an_peer_certs r = leaf # rest"
    and "vouches_server (en_unicode (ae_verify env)) b (cert_identity_from_x509 (en_sha256 (ae_verify env)) leaf) f"
  shows "\<forall>d. fst (agent_do env (c\<lparr>ac_verifier := ac_verifier c\<lparr>vc_dane := d\<rparr>\<rparr>) meth url body)
    = Inr \<lparr>ar_answer = r, ar_outcome =
        Some (verified_with_warning b (ci_fingerprint (cert_identity_from_x509 (en_sha256 (ae_verify env)) leaf)))\<rparr>"
  using agent_do_prefetched [OF assms] by blast

theorem agent_client_skips_dane_witness:
  "let d = (\<lambda>_ _. Inl (ErrDANE \<lparr>dane_err_type = DANEErrorDNSSECFailed, dane_err_fqdn = []\<rparr>)) :: dane_resolver;
       c = sample_agent\<lparr>ac_verifier := ac_verifier sample_agent\<lparr>vc_dane := Some d\<rparr>\<rparr>
   in (\<exists>resp. fst (agent_do sample_agent_env c ''GET'' ''https://a.io/x'' None) = Inr resp)
      \<and> \<not> dane_allows sample_env (ac_verifier c) (Fqdn ''a.io'') (cert_identity_from_x509 sample_hash sample_x509)"
proof -
  define d :: dane_resolver where "d = (\<lambda>_ _. Inl (ErrDANE \<lparr>dane_err_type = DANEErrorDNSSECFailed, dane_err_fqdn = []\<rparr>))"
  have "\<forall>d. fst (agent_do sample_agent_env (sample_agent\<lparr>ac_verifier := ac_verifier sample_agent\<lparr>vc_dane := d\<rparr>\<rparr>)
      ''GET'' ''https://a.io/x'' None)
     = Inr \<lparr>ar_answer = sample_answer, ar_outcome = Some (verified_with_warning vouching_badge
         (ci_fingerprint (cert_identity_from_x509 (en_sha256 (ae_verify sample_agent_env)) sample_x509)))\<rparr>"
    by (rule agent_client_skips_dane [where u = sample_agent_url and f = "Fqdn ''a.io''" and iter = "\<lambda>ks. ks" and now = 1
          and now' = 2 and rest = "[]" and bc = "new_badge_cache default_cache_config"])
      (simp_all add: sample_exchange sample_agent_parse default_agent_config_def sample_x509_vouched new_badge_cache_def
        default_cache_config_def cache_ok_def map_ok_def cache_size_def nanos_per_minute_def get_by_fqdn_def
        server_fetch_badge_def fetch_badge_eq validate_badge_url_def, simp_all add: sample_env_def)
  moreover have "\<not> dane_allows sample_env (sample_config\<lparr>vc_dane := Some d\<rparr>) (Fqdn ''a.io'')
      (cert_identity_from_x509 sample_hash sample_x509)"
    by (simp add: dane_allows_def dane_verify_def d_def dane_is_reject_def)
  ultimately show ?thesis unfolding Let_def d_def [symmetric] by simp
qed


section \<open>The API clients\<close>

text \<open>C14: Whatever options a registration client was built from, it holds at most one credential, and a
  request of it that produced a result went to its base URL with exactly that credential: the static header,
  of one of the three schemes and with no control character or space in a bearer token, or a token its source
  gave for this very request, checked the same way. The result is the decoded body of an answer below 400.\<close>

theorem api_client_credentials:
  assumes "new_client opts = Inr c" "list_all sdk_option opts" "do_request env c meth path body d zero = Inr x"
  shows "(cc_auth_header c = [] \<or> cc_token_source c = None) \<and> is_valid_api_version (cc_api_version c)
    \<and> (\<exists>req r b auth. aq_method req = meth \<and> aq_url req = cc_base_url c @ path \<and> aq_body req = prepare_request_body body
         \<and> aq_header req ''Authorization'' = (if auth = [] then None else Some [auth]) \<and> auth_scheme auth
         \<and> (case cc_token_source c of
              None \<Rightarrow> auth = cc_auth_header c
            | Some src \<Rightarrow> (\<exists>t. src (av_now env) = Some t \<and> t \<noteq> [] \<and> is_valid_bearer_token t \<and> auth = ''Bearer '' @ t))
         \<and> av_send env req = Some r \<and> hr_status r < 400
         \<and> b = take max_response_body_bytes (hr_body r) \<and> parse_success_response d zero b = Inr x)"
proof -
  have wf: "wf_client c" using assms(1,2) by (rule new_client_wf)
  obtain req r b auth where e: "authorization_header c (av_now env) = Inr auth"
    "req = \<lparr>aq_method = meth, aq_url = cc_base_url c @ path, aq_header = set_request_headers auth,
            aq_body = prepare_request_body body\<rparr>"
    "av_send env req = Some r" "b = take max_response_body_bytes (hr_body r)" "hr_status r < 400"
    "parse_success_response d zero b = Inr x"
    using assms(3) unfolding do_request_Inr exchanged_def exchange_Inr read_limited_body_Inr by blast
  have s: "auth_scheme auth" using authorization_header_Inr [OF wf e(1)] .
  have t: "case cc_token_source c of None \<Rightarrow> auth = cc_auth_header c
      | Some src \<Rightarrow> (\<exists>t. src (av_now env) = Some t \<and> t \<noteq> [] \<and> is_valid_bearer_token t \<and> auth = ''Bearer '' @ t)"
    using e(1) authorization_header_source [of c _ "av_now env" auth]
    by (auto simp: authorization_header_def split: option.split)
  show ?thesis
    using wf s t e set_request_headers_auth(1) [of auth] unfolding wf_client_def
    by (intro conjI exI [of _ req] exI [of _ r] exI [of _ b] exI [of _ auth]) simp_all
qed

theorem api_client_credentials_witness:
  "\<exists>c. new_client [with_jwt ''old'', with_bearer_token ''tok''] = Inr c
     \<and> cc_auth_header c = ''Bearer tok'' \<and> cc_token_source c = None
     \<and> (\<exists>req. aq_header req ''Authorization'' = Some [''Bearer tok''] \<and> av_send sample_api_env req \<noteq> None)"
proof -
  have c: "new_client [with_jwt ''old'', with_bearer_token ''tok''] =
      Inr (default_client_config\<lparr>cc_auth_header := ''Bearer tok'', cc_token_source := None\<rparr>)"
    by (simp add: new_client_def with_jwt_def with_bearer_token_def is_valid_bearer_token_def byte_val_def)
  have o: "list_all sdk_option [with_jwt ''old'', with_bearer_token ''tok'']" by (simp add: sdk_option.intros)
  have d: "do_request sample_api_env (default_client_config\<lparr>cc_auth_header := ''Bearer tok'', cc_token_source := None\<rparr>)
      ''GET'' ''/v1/agents'' None dec_bool False = Inr True"
    by (rule sample_api_request)
  show ?thesis using api_client_credentials [OF c o d] c by auto
qed

text \<open>The agent an operation addresses is the one it was given: the path of an operation is the
  collection's, then the agent ID percent-escaped as one segment from which it can be read back, then the
  operation's own segments. Two paths agree only for the same agent and the same operation.\<close>

theorem agent_paths_apart:
  assumes "\<And>p. p \<in> set segs \<union> set segs' \<Longrightarrow> CHR ''/'' \<notin> set p"
  shows "(agent_path c i segs = agent_path c j segs' \<longleftrightarrow> i = j \<and> segs = segs')
    \<and> split_on (CHR ''/'') (agent_path c i segs) =
        split_on (CHR ''/'') (agents_collection_path c) @ path_escape i # segs
    \<and> unescape EncodePath (path_escape i) = Some i \<and> CHR ''?'' \<notin> set (path_escape i)"
  using agent_path_inject [of segs segs' c i j] agent_path_segments [of segs c i] assms unescape_path_escape [of i]
    path_escape_no_slash(2) [of i] by auto

theorem agent_paths_apart_witness:
  "agent_path default_client_config ''a/revoke'' [] \<noteq> agent_path default_client_config ''a'' [''revoke'']"
  using agent_paths_apart [of "[]" "[''revoke'']" default_client_config "''a/revoke''" "''a''"] by auto

text \<open>C36: A search carries what its options asked for and nothing else: the query string decodes to the
  non-empty criteria, the statuses in the order given, each under its documented name; the protocol and the
  statuses are documented values, the limit is at most 100 and the offset not negative.\<close>

theorem search_query_roundtrip:
  assumes "apply_search opts zero_search = Inr c" "list_all sdk_search_option opts"
  shows "parse_query (values_encode (search_params c)) =
      Some (opt_pair (sg_name c \<noteq> []) ''agentDisplayName'' (sg_name c) @ opt_pair (sg_host c \<noteq> []) ''agentHost'' (sg_host c)
        @ opt_pair (sg_limit c > 0) ''limit'' (show_nat (nat (sg_limit c)))
        @ opt_pair (sg_offset c > 0) ''offset'' (show_nat (nat (sg_offset c)))
        @ opt_pair (sg_protocol c \<noteq> []) ''protocol'' (sg_protocol c)
        @ map (\<lambda>s. (''status'', s)) (sg_statuses c)
        @ opt_pair (sg_version c \<noteq> []) ''version'' (sg_version c))
    \<and> (sg_protocol c = [] \<or> is_valid_agent_protocol (sg_protocol c))
    \<and> list_all is_valid_lifecycle_status (sg_statuses c)
    \<and> 0 \<le> sg_limit c \<and> sg_limit c \<le> 100 \<and> 0 \<le> sg_offset c"
  using apply_search_wf [OF assms zero_search_wf]
  by (simp add: parse_query_encode flat_search_params search_pairs_def wf_search_def max_search_limit_def)

theorem search_query_roundtrip_witness:
  "\<exists>c. apply_search [with_search_host ''a b&c'', with_search_status [''ACTIVE'', ''REVOKED'']] zero_search = Inr c
     \<and> parse_query (values_encode (search_params c)) =
         Some [(''agentHost'', ''a b&c''), (''status'', ''ACTIVE''), (''status'', ''REVOKED'')]"
proof -
  let ?c = "zero_search\<lparr>sg_host := ''a b&c'', sg_statuses := [''ACTIVE'', ''REVOKED'']\<rparr>"
  have c: "apply_search [with_search_host ''a b&c'', with_search_status [''ACTIVE'', ''REVOKED'']] zero_search = Inr ?c"
    by (simp add: with_search_host_def with_search_status_def is_valid_lifecycle_status_def AgentStatusActive_def
        AgentStatusRevoked_def)
  have o: "list_all sdk_search_option [with_search_host ''a b&c'', with_search_status [''ACTIVE'', ''REVOKED'']]"
    by (simp add: sdk_search_option.intros)
  show ?thesis
    using search_query_roundtrip [OF c o] c by (simp add: zero_search_def opt_pair_def)
qed

text \<open>C17: A registration reaches the server as it was given: the request posted decodes to it, field by
  field. A registration that asks for discovery profiles is refused locally unless the client is on the V2
  lane, and one without a request is refused.\<close>

theorem registration_faithful:
  assumes "register_agent env c req = Inr pending"
  shows "\<exists>r q. req = Some r \<and> (rr_profiles r \<noteq> [] \<longrightarrow> cc_api_version c = APIVersionV2)
     \<and> aq_method q = ''POST''
     \<and> aq_url q = cc_base_url c @ (if cc_api_version c = APIVersionV2 then ''/v2/ans/agents'' else ''/v1/agents/register'')
     \<and> av_send env q \<noteq> None
     \<and> (registration_utf8 r \<longrightarrow> unmarshal dec_registration zero_registration (aq_body q) = Some r)"
  using register_agent_sent [OF assms] by (simp add: register_path_def)

theorem registration_faithful_witness:
  "\<exists>q :: api_request. unmarshal dec_registration zero_registration (aq_body q) =
      Some (zero_registration\<lparr>rr_host := ''a.io'', rr_profiles := [''ANS_TXT'']\<rparr>)
     \<and> aq_url q = ''https://api.godaddy.com/v2/ans/agents''"
proof -
  let ?c = "default_client_config\<lparr>cc_api_version := APIVersionV2\<rparr>"
  obtain r and q :: api_request where rq: "Some sample_registration = Some r"
    "registration_utf8 r \<longrightarrow> unmarshal dec_registration zero_registration (aq_body q) = Some r"
    "aq_url q = cc_base_url ?c @ (if cc_api_version ?c = APIVersionV2 then ''/v2/ans/agents'' else ''/v1/agents/register'')"
    using registration_faithful [OF sample_registered] by blast
  then have "unmarshal dec_registration zero_registration (aq_body q) = Some sample_registration"
    using sample_registration_utf8 by simp
  then show ?thesis
    using rq(3) by (intro exI [of _ q]) (simp add: sample_registration_def default_client_config_def)
qed


section \<open>Requests for certificates\<close>

text \<open>C16: A text passes as a CSR exactly when it is, whitespace aside, the PEM armour around the base 64 of
  some DER, nothing before, between or after, and that DER parses to a request whose key and signature
  algorithm are on the lists of the rules and whose own signature verifies.\<close>

theorem csr_validate_exact:
  "validate_csr L pem rules = Inr csr \<longleftrightarrow>
     (\<exists>der. cl_pem_decode L pem = Some \<lparr>pb_type = pem_type_csr, pb_headers = [], pb_bytes = der\<rparr>
        \<and> without_whitespace pem =
            ''-----BEGINCERTIFICATEREQUEST-----'' @ std_encode der @ ''-----ENDCERTIFICATEREQUEST-----''
        \<and> cl_parse L der = Inr csr
        \<and> ((\<exists>bits. crq_public_key csr = Rsa_Public bits \<and> bits \<in> set (ru_rsa_key_sizes rules))
            \<or> (\<exists>curve. crq_public_key csr = Ec_Public curve \<and> curve \<in> set (ru_ec_curves rules)))
        \<and> crq_signature_algorithm csr \<in> set (ru_signature_algorithms rules) \<and> crq_signature_error csr = None)"
proof -
  have block: "(\<exists>b. cl_pem_decode L pem = Some b \<and> pb_type b = pem_type_csr \<and> pb_headers b = [] \<and> Q (pb_bytes b))
      \<longleftrightarrow> (\<exists>d. cl_pem_decode L pem = Some \<lparr>pb_type = pem_type_csr, pb_headers = [], pb_bytes = d\<rparr> \<and> Q d)" for Q
  proof
    assume "\<exists>b. cl_pem_decode L pem = Some b \<and> pb_type b = pem_type_csr \<and> pb_headers b = [] \<and> Q (pb_bytes b)"
    then obtain b :: pem_block where "cl_pem_decode L pem = Some b" "pb_type b = pem_type_csr" "pb_headers b = []" "Q (pb_bytes b)"
      by blast
    then show "\<exists>d. cl_pem_decode L pem = Some \<lparr>pb_type = pem_type_csr, pb_headers = [], pb_bytes = d\<rparr> \<and> Q d"
      by (cases b) auto
  qed force
  show ?thesis
    unfolding validate_csr_Inr without_whitespace_pem check_csr_None by (rule block)
qed

text \<open>C15: What the command that generates CSRs writes, when it ends without an error. If the host of the ANS URI it puts into
  the requests consists of proper labels of DNS length, the CSR file of every planned certificate passes the validation of
  its type, the identity rules or the stricter server rules. If a label is empty or has a character outside printable ASCII,
  as with a dot at the end of the host name, the files are written all the same and none of them passes. It rests on what
  the key generators, the creation and the parsing of requests and PEM promise, and on the four file names staying apart.\<close>

theorem generated_csr_accepted:
  assumes "csr_creation_ok env C pub" "join_apart (ge_join env) (gp_out_dir p)"
    and "run_generate_csr env p fs = (None, fs')"
  shows "\<exists>jobs u. plan_csr_jobs (ge_unicode env) p = Inr jobs \<and> jobs \<noteq> []
     \<and> url_parse (ge_bracket_ok env) (''ans://v'' @ gp_version p @ ''.'' @ gp_host p) = Some u
     \<and> (\<forall>job\<in>set jobs. \<exists>f. fs' (ge_join env (gp_out_dir p) (cj_name job @ ''.csr'')) = Some f
          \<and> (parseable_host (url_host u) \<and> short_host (url_host u) \<longrightarrow>
               (\<exists>csr. validate_csr C (fi_content f) (if cj_name job = csr_type_server then server_rules else identity_rules) = Inr csr))
          \<and> (\<not> parseable_host (url_host u) \<longrightarrow>
               (\<nexists>csr. validate_csr C (fi_content f) (if cj_name job = csr_type_server then server_rules else identity_rules) = Inr csr)))"
  using run_generate_csr_valid [OF assms] unfolding csr_file_passes_def registry_rules_def by blast

theorem generated_csr_accepted_witness:
  "\<exists>fs' f csr. run_generate_csr sample_csr_env sample_csr_params Map.empty = (None, fs')
     \<and> fs' ''out/server.csr'' = Some f \<and> validate_csr sample_csr_lib (fi_content f) server_rules = Inr csr"
proof -
  obtain fs' where g: "run_generate_csr sample_csr_env sample_csr_params Map.empty = (None, fs')"
    using sample_generated by blast
  obtain jobs u where j: "plan_csr_jobs (ge_unicode sample_csr_env) sample_csr_params = Inr jobs"
    "url_parse (ge_bracket_ok sample_csr_env) (''ans://v'' @ gp_version sample_csr_params @ ''.'' @ gp_host sample_csr_params) = Some u"
    "\<forall>job\<in>set jobs. \<exists>f. fs' (ge_join sample_csr_env (gp_out_dir sample_csr_params) (cj_name job @ ''.csr'')) = Some f
          \<and> (parseable_host (url_host u) \<and> short_host (url_host u) \<longrightarrow>
               (\<exists>csr. validate_csr sample_csr_lib (fi_content f)
                 (if cj_name job = csr_type_server then server_rules else identity_rules) = Inr csr))"
    using generated_csr_accepted [OF sample_csr_creation_ok sample_join_apart g] by blast
  have "url_parse (\<lambda>_. True) ''ans://v1.0.0.a.io'' = Some (empty_url\<lparr>url_scheme := ''ans'', url_host := ''v1.0.0.a.io''\<rparr>)"
    "parseable_host ''v1.0.0.a.io''" "short_host ''v1.0.0.a.io''"
    by code_simp+
  then have u: "parseable_host (url_host u) \<and> short_host (url_host u)"
    using j(2) by (simp add: sample_csr_env_def sample_csr_params_def) (auto simp: empty_url_def)
  have "jobs = sample_jobs" using j(1) sample_planned by (simp add: sample_csr_env_def)
  then have "\<exists>f csr. fs' ''out/server.csr'' = Some f \<and> validate_csr sample_csr_lib (fi_content f) server_rules = Inr csr"
    using j(3) u by (auto simp: sample_jobs_def sample_csr_env_def sample_csr_params_def csr_type_server_def)
  with g show ?thesis by blast
qed

text \<open>A host name with a dot at its end: the command succeeds, and the CSR it has written does not pass.\<close>

theorem generated_csr_refused:
  "\<exists>fs' f. run_generate_csr sample_csr_env (sample_csr_params\<lparr>gp_host := ''a.io.''\<rparr>) Map.empty = (None, fs')
     \<and> fs' ''out/server.csr'' = Some f \<and> (\<nexists>csr. validate_csr sample_csr_lib (fi_content f) server_rules = Inr csr)"
proof -
  let ?p = "sample_csr_params\<lparr>gp_host := ''a.io.''\<rparr>"
  have plan: "plan_csr_jobs sample_unicode ?p = Inr sample_jobs" by code_simp
  have uri: "url_parse (\<lambda>_. True) ''ans://v1.0.0.a.io.'' = Some (empty_url\<lparr>url_scheme := ''ans'', url_host := ''v1.0.0.a.io.''\<rparr>)"
    "\<not> parseable_host ''v1.0.0.a.io.''"
    by code_simp+
  obtain fs' where g: "run_generate_csr sample_csr_env ?p Map.empty = (None, fs')"
    using plan uri unfolding sample_jobs_def
    by (simp add: run_generate_csr_def sample_csr_env_def sample_io_def sample_csr_params_def generate_csr_def
        run_generator_def generate_ec_key_pair_def generate_rsa_key_pair_def min_rsa_key_size_def sample_key_lib_def
        save_private_key_pem_def private_key_to_pem_def write_file_def csr_template_of_def)
  obtain jobs u where j: "plan_csr_jobs (ge_unicode sample_csr_env) ?p = Inr jobs"
    "url_parse (ge_bracket_ok sample_csr_env) (''ans://v'' @ gp_version ?p @ ''.'' @ gp_host ?p) = Some u"
    "\<forall>job\<in>set jobs. \<exists>f. fs' (ge_join sample_csr_env (gp_out_dir ?p) (cj_name job @ ''.csr'')) = Some f
          \<and> (\<not> parseable_host (url_host u) \<longrightarrow>
               (\<nexists>csr. validate_csr sample_csr_lib (fi_content f)
                 (if cj_name job = csr_type_server then server_rules else identity_rules) = Inr csr))"
    using run_generate_csr_valid [OF sample_csr_creation_ok sample_join_apart g] unfolding csr_file_passes_def registry_rules_def
    by blast
  have "\<not> parseable_host (url_host u)"
    using uri j(2) by (simp add: sample_csr_env_def sample_csr_params_def) (auto simp: empty_url_def)
  moreover have "jobs = sample_jobs" using j(1) plan by (simp add: sample_csr_env_def)
  ultimately have "\<exists>f. fs' ''out/server.csr'' = Some f \<and> (\<nexists>csr. validate_csr sample_csr_lib (fi_content f) server_rules = Inr csr)"
    using j(3) by (auto simp: sample_jobs_def sample_csr_env_def sample_csr_params_def csr_type_server_def)
  with g show ?thesis by blast
qed

text \<open>C37: A private key that was saved without an error is loaded again with the same password, encrypted
  or not. Whether or not saving fails, no other file changes, and a file that did not exist is only the
  owner's to read.\<close>

theorem key_file_roundtrip:
  assumes "key_lib_ok L" "save_private_key_pem io L key path password fs = (e, fs')"
  shows "(e = None \<and> io_read io path \<longrightarrow> load_private_key_pem io L path password fs' = Inr key)
    \<and> (\<forall>q. q \<noteq> path \<longrightarrow> fs' q = fs q)
    \<and> (fs path = None \<longrightarrow> (\<forall>f. fs' path = Some f \<longrightarrow> fi_mode f = mode_0600))"
  using save_load_private_key [OF assms(1), of io key path password fs fs'] save_private_key_confined [OF assms(2)] assms(2)
  by auto

theorem key_file_roundtrip_witness:
  "\<exists>fs'. save_private_key_pem sample_io sample_key_lib (Ecdsa_Private P256) ''k'' ''pw'' Map.empty = (None, fs')
     \<and> load_private_key_pem sample_io sample_key_lib ''k'' ''pw'' fs' = Inr (Ecdsa_Private P256)"
  using key_file_roundtrip [OF sample_key_lib_ok sample_saved] sample_saved by (simp add: sample_io_def)

section \<open>The command line\<close>

text \<open>The credential a command sends is the one its settings give precedence to: a token file, else the
  deprecated flag, else \<open>ANS_TOKEN\<close>, else \<open>ANS_OAUTH_TOKEN\<close>, trimmed, and only when none of them has
  a token the API key as it is. A token file that was named is never passed over for another source, and it is
  an error to name it together with the deprecated flag.\<close>

theorem cli_credential:
  assumes "load_config u v fs = Inr cfg" "fst (create_client cfg) = Inr c"
  shows "cc_base_url c = vp_string v ''base-url'' \<and> cc_token_source c = None \<and> is_valid_api_version (cc_api_version c)
    \<and> cc_auth_header c = (if token_of v fs \<noteq> [] then ''Bearer '' @ token_of v fs else ''sso-key '' @ vp_string v ''api-key'')
    \<and> (vp_is_set v ''token-file'' \<or> vp_string v ''token-file'' \<noteq> [] \<longrightarrow>
         read_token_file fs (vp_string v ''token-file'') = Inr (token_of v fs)
         \<and> token_of v fs \<noteq> [] \<and> trim_space (vp_string v ''oauth-token'') = [])"
proof -
  note f = load_config_fields [OF assms(1)]
  have r: "\<exists>cfg0. resolve_token v fs cfg0 = Inr cfg"
    using assms(1) unfolding load_config_def Let_def by blast
  have "read_token_file fs path = Inr t \<Longrightarrow> t \<noteq> []" for path t
    by (auto simp: read_token_file_def Let_def split: option.splits if_splits)
  then show ?thesis
    using assms(2) f r unfolding create_client_Inr
    by (auto simp: default_client_config_def dest: resolve_token_file)
qed

theorem cli_credential_witness:
  "cc_auth_header (default_client_config\<lparr>cc_base_url := ''https://api.godaddy.com'', cc_auth_header := ''Bearer abc''\<rparr>)
     = ''Bearer '' @ token_of sample_settings sample_files"
proof -
  have "token_of sample_settings sample_files = ''abc''" by code_simp
  then show ?thesis using cli_credential [OF sample_cli_loaded sample_cli_client] by simp
qed

text \<open>C35: The command line registers only what it has checked. If \<open>RegisterAgent\<close> is called at all, whatever comes of it, it is
  called once, and by then: the identity CSR is the content of its file and, unless \<open>--skip-preflight\<close> was given, passes the
  identity rules; the server material is the certificate that was named or else the CSR, which passes the server rules
  unless they are skipped; every function is within the limits with an ID of its own, the discovery profiles are valid and
  the lane is V2 when there are any, and the description has at most 150 characters. The registration is made of just these,
  and when the call succeeds what was posted decodes to it.\<close>

theorem cli_registration_checked:
  assumes "run_register env p = (res, calls)" "calls \<noteq> []"
  shows "\<exists>cfg c identity_csr server_cert server_csr fns req.
     load_config (cx_unicode env) (cx_settings env) (cx_files env) = Inr cfg \<and> fst (create_client cfg) = Inr c
     \<and> fl_read (cx_files env) (rp_identity_csr p) = Some identity_csr
     \<and> (rp_skip_preflight p \<or> (\<exists>csr. validate_csr (cx_csr env) identity_csr identity_rules = Inr csr))
     \<and> server_material env p server_cert server_csr
     \<and> list_all2 (\<lambda>flag f. parse_function_flag flag = Inr f) (rp_functions p) fns
     \<and> list_all function_allowed fns \<and> distinct (map fn_id fns)
     \<and> rr_profiles req = map (\<lambda>p. to_upper env (trim_space p)) (rp_profiles p)
     \<and> list_all is_valid_discovery_profile (rr_profiles req) \<and> (rr_profiles req = [] \<or> cf_api_version cfg = APIVersionV2)
     \<and> rune_count (rp_description p) \<le> 150
     \<and> req = registration_of p identity_csr server_cert server_csr fns (rr_profiles req) \<and> calls = [req]
     \<and> res = map_error Cli_Request (register_agent (cx_api env) c (Some req))
     \<and> (\<forall>pending. res = Inr pending \<longrightarrow>
          (\<exists>q. av_send (cx_api env) q \<noteq> None
             \<and> (registration_utf8 req \<longrightarrow> unmarshal dec_registration zero_registration (aq_body q) = Some req)))"
proof -
  obtain cfg c identity_csr server_cert server_csr fns profiles req where s:
    "load_config (cx_unicode env) (cx_settings env) (cx_files env) = Inr cfg" "fst (create_client cfg) = Inr c"
    "fl_read (cx_files env) (rp_identity_csr p) = Some identity_csr"
    "rp_skip_preflight p \<or> (\<exists>csr. validate_csr (cx_csr env) identity_csr identity_rules = Inr csr)"
    "server_material env p server_cert server_csr" "parse_function_flags (rp_functions p) = Inr fns"
    "profiles = map (\<lambda>p. to_upper env (trim_space p)) (rp_profiles p)"
    "list_all is_valid_discovery_profile profiles" "profiles = [] \<or> cf_api_version cfg = APIVersionV2"
    "rune_count (rp_description p) \<le> 150"
    "req = registration_of p identity_csr server_cert server_csr fns profiles" "calls = [req]"
    "res = map_error Cli_Request (register_agent (cx_api env) c (Some req))"
    using run_register_called [OF assms] by metis
  have pr: "rr_profiles req = profiles" using s(11) by (simp add: registration_of_def)
  have "\<exists>q. av_send (cx_api env) q \<noteq> None
      \<and> (registration_utf8 req \<longrightarrow> unmarshal dec_registration zero_registration (aq_body q) = Some req)" if "res = Inr pending" for pending
    using that s(13) register_agent_sent [of "cx_api env" c "Some req" pending] by (auto simp: map_error_eq_Inr_iff)
  note conjuncts = this s(6) [unfolded parse_function_flags_Inr]
  show ?thesis
    by (rule exI [of _ cfg], rule exI [of _ c], rule exI [of _ identity_csr], rule exI [of _ server_cert],
        rule exI [of _ server_csr], rule exI [of _ fns], rule exI [of _ req]) (use conjuncts s pr in simp)
qed

theorem cli_registration_checked_witness:
  "\<exists>fns. list_all2 (\<lambda>flag f. parse_function_flag flag = Inr f) [''f:Fun:x,y''] fns \<and> list_all function_allowed fns
     \<and> fst (run_register sample_cli_env sample_register) = Inr zero_pending"
proof -
  have "[sample_cli_registration] \<noteq> []" by simp
  from cli_registration_checked [OF sample_run_register this] obtain fns
    where "list_all2 (\<lambda>flag f. parse_function_flag flag = Inr f) (rp_functions sample_register) fns" "list_all function_allowed fns"
    by blast
  then show ?thesis using sample_run_register by (auto simp: sample_register_def)
qed

text \<open>Following events reads each page from where the one before it left off: the request of a turn
  carries the last log ID a page has brought, or the one the command was given as long as none has; and a page
  counts as the first as long as there is no such ID at all.\<close>

theorem events_cursor:
  assumes "poll_events c p cursor rounds = (outs, e)" "k < length outs"
  shows "k < length rounds
     \<and> get_agent_events (po_api (rounds ! k)) c (el_limit p) (el_provider_id p)
           (foldl (\<lambda>cur page. next_cursor page cur) cursor (map fst (take k outs))) = Inr (fst (outs ! k))
     \<and> (snd (outs ! k) \<longleftrightarrow> foldl (\<lambda>cur page. next_cursor page cur) cursor (map fst (take k outs)) = [])"
  using poll_events_outputs [OF assms] by (simp add: cursor_after_def)

theorem events_cursor_witness:
  "get_agent_events sample_events_api default_client_config 0 [] ''7'' = Inr (zero_event_page\<lparr>ev_last_log_id := Some ''7''\<rparr>)"
  using events_cursor [OF sample_polled, of 1] by (simp add: sample_event_page_def next_cursor_def sample_round_def sample_events_def)

end
